(* ===== verification/TLRS_Prelude.thy ===== *)
theory TLRS_Prelude
  imports Complex_Main "HOL-Library.Word"
begin

text \<open>
  What every component of the TLRS backend model shares: the result type of code that
  raises, Python values whose type the code inspects at run time, timestamps, the string
  methods the code calls, fixed-width big-endian fields (the formats of \<open>struct\<close>) and
  base64, with the lemmas about them.  A Python \<open>float\<close> is an exact rational: rounding is
  not modelled (the code compares floats through \<open>isclose\<close> with a tolerance).  A Python
  string is an Isabelle string, a character standing for a code point below 256.
\<close>

named_theorems res_simps \<open>unfolding of the result type\<close>
named_theorems str_simps \<open>facts about the string methods\<close>
named_theorems byte_simps \<open>facts about packing and unpacking\<close>

subsection \<open>Results: an exception is the left summand\<close>

type_synonym ('e, 'a) res = "'e + 'a"

fun bindE :: "('e, 'a) res \<Rightarrow> ('a \<Rightarrow> ('e, 'b) res) \<Rightarrow> ('e, 'b) res" where
  "bindE (Inl e) f = Inl e"
| "bindE (Inr x) f = f x"

definition guardE :: "bool \<Rightarrow> 'e \<Rightarrow> ('e, unit) res" where
  "guardE bad e = (if bad then Inl e else Inr ())"

definition is_ok :: "('e, 'a) res \<Rightarrow> bool" where
  "is_ok r = (case r of Inl _ \<Rightarrow> False | Inr _ \<Rightarrow> True)"

lemma bindE_Inr_iff [res_simps]: "bindE m f = Inr y \<longleftrightarrow> (\<exists>x. m = Inr x \<and> f x = Inr y)"
  by (cases m) auto

lemma bindE_Inl_iff [res_simps]:
  "bindE m f = Inl e \<longleftrightarrow> m = Inl e \<or> (\<exists>x. m = Inr x \<and> f x = Inl e)"
  by (cases m) auto

lemma guardE_simps [simp]:
  "guardE True e = Inl e" "guardE False e = Inr ()"
  by (simp_all add: guardE_def)

lemma guardE_Inr_iff [res_simps]: "guardE b e = Inr u \<longleftrightarrow> \<not> b"
  by (simp add: guardE_def)

lemma guardE_Inl_iff [res_simps]: "guardE b e = Inl e' \<longleftrightarrow> b \<and> e' = e"
  by (auto simp: guardE_def)

lemma is_ok_simps [simp]: "is_ok (Inr x)" "\<not> is_ok (Inl e)"
  by (simp_all add: is_ok_def)

lemma is_ok_iff: "is_ok r \<longleftrightarrow> (\<exists>x. r = Inr x)"
  by (cases r) auto

fun for_each :: "('a \<Rightarrow> ('e, unit) res) \<Rightarrow> 'a list \<Rightarrow> ('e, unit) res" where
  "for_each f [] = Inr ()"
| "for_each f (x # xs) = bindE (f x) (\<lambda>_. for_each f xs)"

lemma for_each_ok_iff [res_simps]: "for_each f xs = Inr u \<longleftrightarrow> (\<forall>x \<in> set xs. f x = Inr ())"
  by (induction xs) (auto simp: res_simps)

fun mapE :: "('a \<Rightarrow> ('e, 'b) res) \<Rightarrow> 'a list \<Rightarrow> ('e, 'b list) res" where
  "mapE f [] = Inr []"
| "mapE f (x # xs) = bindE (f x) (\<lambda>y. bindE (mapE f xs) (\<lambda>ys. Inr (y # ys)))"

lemma mapE_all_ok: "(\<And>x. x \<in> set xs \<Longrightarrow> f x = Inr (g x)) \<Longrightarrow> mapE f xs = Inr (map g xs)"
  by (induction xs) auto

subsection \<open>Code with effects\<close>

text \<open>
  A method that changes a state and may raise: the result and the state it leaves.  The state
  reached at the point of an exception is kept; a rollback is the caller's.
\<close>

type_synonym ('s, 'e, 'a) act = "'s \<Rightarrow> ('e, 'a) res \<times> 's"

definition retS :: "'a \<Rightarrow> ('s, 'e, 'a) act" where "retS x s = (Inr x, s)"
definition raiseS :: "'e \<Rightarrow> ('s, 'e, 'a) act" where "raiseS e s = (Inl e, s)"

definition bindS :: "('s, 'e, 'a) act \<Rightarrow> ('a \<Rightarrow> ('s, 'e, 'b) act) \<Rightarrow> ('s, 'e, 'b) act" where
  "bindS m f s = (case m s of (Inl e, s') \<Rightarrow> (Inl e, s') | (Inr x, s') \<Rightarrow> f x s')"

definition liftS :: "('e, 'a) res \<Rightarrow> ('s, 'e, 'a) act" where "liftS r s = (r, s)"
definition getS :: "('s, 'e, 's) act" where "getS s = (Inr s, s)"
definition modifyS :: "('s \<Rightarrow> 's) \<Rightarrow> ('s, 'e, unit) act" where "modifyS f s = (Inr (), f s)"

text \<open>\<open>try: m except e: h e\<close>.\<close>

definition catchS :: "('s, 'e, 'a) act \<Rightarrow> ('e \<Rightarrow> ('s, 'f, 'a) act) \<Rightarrow> ('s, 'f, 'a) act" where
  "catchS m h s = (case m s of (Inl e, s') \<Rightarrow> h e s' | (Inr x, s') \<Rightarrow> (Inr x, s'))"

lemma act_simps [simp]:
  "retS x s = (Inr x, s)" "raiseS e s = (Inl e, s)" "liftS r s = (r, s)" "getS s = (Inr s, s)"
  "modifyS f s = (Inr (), f s)"
  by (simp_all add: retS_def raiseS_def liftS_def getS_def modifyS_def)

lemma bindS_cases [simp]:
  "m s = (Inl e, s') \<Longrightarrow> bindS m f s = (Inl e, s')" "m s = (Inr x, s') \<Longrightarrow> bindS m f s = f x s'"
  by (simp_all add: bindS_def)

lemma catchS_cases [simp]:
  "m s = (Inl e, s') \<Longrightarrow> catchS m h s = h e s'" "m s = (Inr x, s') \<Longrightarrow> catchS m h s = (Inr x, s')"
  by (simp_all add: catchS_def)

lemma bindS_Inr_iff [res_simps]:
  "bindS m f s = (Inr y, s'') \<longleftrightarrow> (\<exists>x s'. m s = (Inr x, s') \<and> f x s' = (Inr y, s''))"
  by (auto simp: bindS_def split: prod.splits sum.splits)

lemma bindS_Inl_iff [res_simps]:
  "bindS m f s = (Inl e, s'') \<longleftrightarrow>
     m s = (Inl e, s'') \<or> (\<exists>x s'. m s = (Inr x, s') \<and> f x s' = (Inl e, s''))"
  by (auto simp: bindS_def split: prod.splits sum.splits)

subsection \<open>Values whose type the code inspects\<close>

text \<open>
  The arguments the analytics validators test with \<open>isinstance\<close> and \<open>isfinite\<close>.
  \<open>PyNonFinite\<close> is an infinity or a NaN; \<open>PyOther\<close> is any value of another type.
\<close>

datatype py_number = PyBool bool | PyInt int | PyFloat rat | PyNonFinite | PyOther

fun is_py_int :: "py_number \<Rightarrow> bool" where
  "is_py_int (PyInt _) = True"
| "is_py_int _ = False"

fun is_finite_number :: "py_number \<Rightarrow> bool" where
  "is_finite_number (PyInt _) = True"
| "is_finite_number (PyFloat _) = True"
| "is_finite_number _ = False"

fun int_val :: "py_number \<Rightarrow> int" where
  "int_val (PyInt i) = i"
| "int_val _ = 0"

fun num_val :: "py_number \<Rightarrow> rat" where
  "num_val (PyInt i) = of_int i"
| "num_val (PyFloat r) = r"
| "num_val _ = 0"

lemma is_py_int_iff: "is_py_int v \<longleftrightarrow> (\<exists>i. v = PyInt i)"
  by (cases v) auto

subsection \<open>Timestamps\<close>

text \<open>
  A \<open>datetime\<close> is its distance from 1970-01-01 in microseconds: read as it stands when it
  carries no time zone (\<open>Naive\<close>), and of the instant in UTC when it does (\<open>Aware\<close>).
\<close>

datatype py_datetime = Naive int | Aware int

fun is_naive :: "py_datetime \<Rightarrow> bool" where
  "is_naive (Naive _) = True"
| "is_naive (Aware _) = False"

fun micros :: "py_datetime \<Rightarrow> int" where
  "micros (Naive t) = t"
| "micros (Aware t) = t"

definition to_utc_naive :: "py_datetime option \<Rightarrow> int option" where
  "to_utc_naive v = (case v of None \<Rightarrow> None | Some t \<Rightarrow> Some (micros t))"

text \<open>\<open>timedelta.total_seconds()\<close> of a difference in microseconds.\<close>

definition total_seconds :: "int \<Rightarrow> rat" where
  "total_seconds us = of_int us / 1000000"

lemma total_seconds_0 [simp]: "total_seconds 0 = 0"
  by (simp add: total_seconds_def)

lemma total_seconds_add: "total_seconds (a + b) = total_seconds a + total_seconds b"
  by (simp add: total_seconds_def add_divide_distrib)

lemma total_seconds_diff: "total_seconds (a - b) = total_seconds a - total_seconds b"
  by (simp add: total_seconds_def diff_divide_distrib)

lemma total_seconds_less_iff [simp]: "total_seconds a < total_seconds b \<longleftrightarrow> a < b"
  by (simp add: total_seconds_def divide_less_cancel)

lemma total_seconds_le_iff [simp]: "total_seconds a \<le> total_seconds b \<longleftrightarrow> a \<le> b"
  by (simp add: total_seconds_def divide_le_cancel)

lemma total_seconds_pos_iff [simp]: "0 < total_seconds a \<longleftrightarrow> 0 < a"
  by (simp add: total_seconds_def zero_less_divide_iff)

lemma total_seconds_nonneg_iff [simp]: "0 \<le> total_seconds a \<longleftrightarrow> 0 \<le> a"
  by (simp add: total_seconds_def zero_le_divide_iff)

lemma total_seconds_nonpos_iff [simp]: "total_seconds a \<le> 0 \<longleftrightarrow> a \<le> 0"
  using total_seconds_pos_iff [of a] by (simp only: not_less [symmetric])

lemma total_seconds_neg_iff [simp]: "total_seconds a < 0 \<longleftrightarrow> a < 0"
  using total_seconds_nonneg_iff [of a] by (simp only: not_le [symmetric])

lemma total_seconds_sum_list:
  "sum_list (map (\<lambda>x. total_seconds (f x)) xs) = total_seconds (sum_list (map f xs))"
  by (induction xs) (simp_all add: total_seconds_add)

text \<open>\<open>math.isclose\<close>.\<close>

definition py_isclose :: "rat \<Rightarrow> rat \<Rightarrow> rat \<Rightarrow> rat \<Rightarrow> bool" where
  "py_isclose a b rel_tol abs_tol \<longleftrightarrow> \<bar>a - b\<bar> \<le> max (rel_tol * max \<bar>a\<bar> \<bar>b\<bar>) abs_tol"

lemma py_isclose_refl [simp]: "0 \<le> abs_tol \<Longrightarrow> py_isclose a a rel_tol abs_tol"
  by (simp add: py_isclose_def)

end
