(* ===== verification/Temporal_Sampling.thy ===== *)
theory Temporal_Sampling
  imports TLRS_Prelude
begin

text \<open>
  \<open>src/application/analytics/temporal_sampling.py\<close>: the choice of a bucket size for a
  historical query.  The arguments are Python numbers, so that the \<open>isinstance\<close> and
  \<open>isfinite\<close> checks of \<open>_validate_inputs\<close> are branches of the model; the candidate loops
  are \<open>List.find\<close>.  The lemmas show that the candidates the code skips could not have met
  the target, that the chosen bucket is the smallest one that meets the target (or else the
  limit), and exactly when the limit error is raised.
\<close>

definition ALLOWED_BUCKET_SECONDS :: "int list" where
  "ALLOWED_BUCKET_SECONDS =
     [60, 120, 300, 600, 900, 1200, 1800, 2700, 3600, 5400, 7200, 10800, 14400, 21600, 43200, 86400]"

definition MIN_BUCKET_SECONDS :: int where
  "MIN_BUCKET_SECONDS = hd ALLOWED_BUCKET_SECONDS"

definition MAX_BUCKET_SECONDS :: int where
  "MAX_BUCKET_SECONDS = last ALLOWED_BUCKET_SECONDS"

definition DEFAULT_TARGET_POINTS :: int where "DEFAULT_TARGET_POINTS = 15000"

definition DEFAULT_MAX_POINTS :: int where "DEFAULT_MAX_POINTS = 25000"

record bucket_resolution =
  br_bucket_seconds :: int
  br_estimated_points :: int
  br_required_bucket_seconds :: rat
  br_target_points :: int
  br_max_points :: int
  br_target_met :: bool

datatype sampling_error =
    SamplingValueError string
  | BucketResolutionLimitError int int int \<comment> \<open>estimated points, max points, max bucket seconds\<close>

definition check_count :: "bool \<Rightarrow> py_number \<Rightarrow> (sampling_error, unit) res" where
  "check_count allow_zero v =
     (if \<not> is_py_int v then Inl (SamplingValueError ''must be an integer.'')
      else if int_val v < 0 \<or> (\<not> allow_zero \<and> int_val v = 0)
        then Inl (SamplingValueError ''must be positive.'')
      else Inr ())"

definition sampling_validate_inputs ::
  "py_number \<Rightarrow> py_number \<Rightarrow> py_number \<Rightarrow> py_number \<Rightarrow> py_number \<Rightarrow> py_number
   \<Rightarrow> (sampling_error, unit) res" where
  "sampling_validate_inputs window_seconds device_count target_points max_points
     min_bucket_seconds max_bucket_seconds =
     (if \<not> is_finite_number window_seconds \<or> num_val window_seconds \<le> 0
        then Inl (SamplingValueError ''window_seconds must be a finite positive number.'')
      else bindE (check_count True device_count) (\<lambda>_.
        bindE (check_count False target_points) (\<lambda>_.
        bindE (check_count False max_points) (\<lambda>_.
        bindE (check_count False min_bucket_seconds) (\<lambda>_.
        bindE (check_count False max_bucket_seconds) (\<lambda>_.
          if int_val target_points > int_val max_points
            then Inl (SamplingValueError ''target_points must not exceed max_points.'')
          else if int_val min_bucket_seconds > int_val max_bucket_seconds
            then Inl (SamplingValueError
              ''min_bucket_seconds must not exceed max_bucket_seconds.'')
          else Inr ()))))))"

definition estimate_points :: "rat \<Rightarrow> int \<Rightarrow> int \<Rightarrow> int" where
  "estimate_points window_seconds device_count bucket_seconds =
     \<lceil>window_seconds / of_int bucket_seconds\<rceil> * device_count"

definition allowed_buckets :: "int \<Rightarrow> int \<Rightarrow> int list" where
  "allowed_buckets lo hi = filter (\<lambda>b. lo \<le> b \<and> b \<le> hi) ALLOWED_BUCKET_SECONDS"

definition calculate_bucket_resolution ::
  "py_number \<Rightarrow> py_number \<Rightarrow> py_number \<Rightarrow> py_number \<Rightarrow> py_number \<Rightarrow> py_number
   \<Rightarrow> (sampling_error, bucket_resolution) res" where
  "calculate_bucket_resolution window_seconds device_count target_points max_points
     min_bucket_seconds max_bucket_seconds =
     bindE (sampling_validate_inputs window_seconds device_count target_points max_points
              min_bucket_seconds max_bucket_seconds) (\<lambda>_.
     let w = num_val window_seconds; n = int_val device_count;
         target = int_val target_points; limit = int_val max_points;
         allowed = allowed_buckets (int_val min_bucket_seconds) (int_val max_bucket_seconds)
     in if allowed = []
          then Inl (SamplingValueError
            ''No allowed bucket resolution falls within the requested limits.'')
        else
          let required = (w * of_int n) / of_int target;
              resolution = (\<lambda>b est met. \<lparr>br_bucket_seconds = b, br_estimated_points = est,
                br_required_bucket_seconds = required, br_target_points = target,
                br_max_points = limit, br_target_met = met\<rparr>)
          in if n = 0 then Inr (resolution (hd allowed) 0 True)
             else case List.find (\<lambda>b. estimate_points w n b \<le> target)
                         (filter (\<lambda>b. of_int b \<ge> required) allowed) of
               Some b \<Rightarrow> Inr (resolution b (estimate_points w n b) True)
             | None \<Rightarrow>
                (case List.find (\<lambda>b. estimate_points w n b \<le> limit) allowed of
                  Some b \<Rightarrow> Inr (resolution b (estimate_points w n b) False)
                | None \<Rightarrow> Inl (BucketResolutionLimitError
                    (estimate_points w n (last allowed)) limit (last allowed))))"

subsection \<open>The allowed buckets\<close>

lemma ALLOWED_sorted: "sorted_wrt (<) ALLOWED_BUCKET_SECONDS"
  by (simp add: ALLOWED_BUCKET_SECONDS_def)

lemma ALLOWED_pos: "b \<in> set ALLOWED_BUCKET_SECONDS \<Longrightarrow> 0 < b"
  by (auto simp: ALLOWED_BUCKET_SECONDS_def)

lemma ALLOWED_divides_day: "b \<in> set ALLOWED_BUCKET_SECONDS \<Longrightarrow> b dvd 86400"
  by (auto simp: ALLOWED_BUCKET_SECONDS_def)

lemma sorted_allowed_buckets: "sorted_wrt (<) (allowed_buckets lo hi)"
  unfolding allowed_buckets_def by (rule sorted_wrt_filter [OF ALLOWED_sorted])

lemma set_allowed_buckets:
  "b \<in> set (allowed_buckets lo hi) \<longleftrightarrow> b \<in> set ALLOWED_BUCKET_SECONDS \<and> lo \<le> b \<and> b \<le> hi"
  by (auto simp: allowed_buckets_def)

lemma find_first_smallest:
  assumes "sorted_wrt (<) xs" and "List.find P xs = Some x"
  shows "x \<in> set xs \<and> P x \<and> (\<forall>y \<in> set xs. y < x \<longrightarrow> \<not> P (y::int))"
  using assms
proof (induction xs)
  case (Cons a xs)
  then show ?case by (cases "P a") auto
qed simp

lemma last_is_largest: "sorted_wrt (<) (xs::int list) \<Longrightarrow> b \<in> set xs \<Longrightarrow> b \<le> last xs"
  by (induction xs) (auto simp: last_in_set intro: order.strict_implies_order)

subsection \<open>The point estimate\<close>

lemma estimate_mono:
  assumes "0 < w" "0 \<le> n" "0 < a" "a \<le> b"
  shows "estimate_points w n b \<le> estimate_points w n a"
proof -
  have "w / of_int b \<le> w / of_int a" using assms by (intro divide_left_mono) auto
  then have "\<lceil>w / of_int b\<rceil> \<le> \<lceil>w / of_int a\<rceil>" by (rule ceiling_mono)
  then show ?thesis using assms(2) by (simp add: estimate_points_def mult_right_mono)
qed

text \<open>A bucket below the required size has more points than the target.\<close>

lemma estimate_below_required:
  assumes "0 < w" "0 < n" "0 < target" "0 < b" "of_int b < (w * of_int n) / of_int target"
  shows "target < estimate_points w n b"
proof -
  have "of_int b * of_int target < w * (of_int n :: rat)"
    using assms(3,5) by (simp add: pos_less_divide_eq)
  then have "of_int target < (w / of_int b) * of_int n"
    using assms(4) by (simp add: field_simps)
  also have "\<dots> \<le> of_int \<lceil>w / of_int b\<rceil> * of_int n"
    using assms(2) by (intro mult_right_mono le_of_int_ceiling) auto
  finally show ?thesis unfolding estimate_points_def by (simp flip: of_int_mult)
qed

lemma check_count_ok: "check_count z v = Inr u \<longleftrightarrow>
    is_py_int v \<and> 0 \<le> int_val v \<and> (z \<or> 0 < int_val v)"
  by (auto simp: check_count_def)

lemma sampling_validate_ok:
  "sampling_validate_inputs w n t m lo hi = Inr u \<longleftrightarrow>
     is_finite_number w \<and> 0 < num_val w \<and> is_py_int n \<and> 0 \<le> int_val n \<and>
     is_py_int t \<and> 0 < int_val t \<and> is_py_int m \<and> 0 < int_val m \<and>
     is_py_int lo \<and> 0 < int_val lo \<and> is_py_int hi \<and> 0 < int_val hi \<and>
     int_val t \<le> int_val m \<and> int_val lo \<le> int_val hi"
  by (auto simp: sampling_validate_inputs_def res_simps check_count_ok)

lemmas sampling_simps = calculate_bucket_resolution_def Let_def res_simps sampling_validate_ok

lemma find_allowed_pos: "b \<in> set (allowed_buckets lo hi) \<Longrightarrow> 0 < b"
  by (auto simp: set_allowed_buckets ALLOWED_pos)

text \<open>Searching only the candidates finds what searching every allowed bucket would.\<close>

lemma skipped_candidates_irrelevant:
  assumes "0 < w" "0 < n" "0 < target" "\<And>b. b \<in> set xs \<Longrightarrow> 0 < b"
  shows "List.find (\<lambda>b. estimate_points w n b \<le> target)
           (filter (\<lambda>b. of_int b \<ge> (w * of_int n) / of_int target) xs)
       = List.find (\<lambda>b. estimate_points w n b \<le> target) xs"
  using assms(4)
proof (induction xs)
  case (Cons a xs)
  show ?case
  proof (cases "of_int a < (w * of_int n) / of_int target")
    case True
    then have "target < estimate_points w n a"
      using estimate_below_required assms Cons.prems by simp
    with True Cons show ?thesis by (simp add: not_le)
  next
    case False
    with Cons show ?thesis by (simp add: not_less)
  qed
qed simp

lemma resolution_branches:
  assumes ok: "sampling_validate_inputs w n t m lo hi = Inr ()" and n0: "int_val n \<noteq> 0"
    and ne: "allowed_buckets (int_val lo) (int_val hi) \<noteq> []"
  defines "est \<equiv> estimate_points (num_val w) (int_val n)"
    and "bs \<equiv> allowed_buckets (int_val lo) (int_val hi)"
  shows "(\<lambda>r. map_sum id (\<lambda>x. (br_bucket_seconds x, br_estimated_points x, br_target_met x)) r)
           (calculate_bucket_resolution w n t m lo hi) =
         (case List.find (\<lambda>b. est b \<le> int_val t) bs of
            Some b \<Rightarrow> Inr (b, est b, True)
          | None \<Rightarrow> (case List.find (\<lambda>b. est b \<le> int_val m) bs of
              Some b \<Rightarrow> Inr (b, est b, False)
            | None \<Rightarrow> Inl (BucketResolutionLimitError (est (last bs)) (int_val m) (last bs))))"
proof -
  have "0 < num_val w" "0 < int_val n" "0 < int_val t"
    using ok n0 by (auto simp: sampling_validate_ok)
  note skip = skipped_candidates_irrelevant [OF this, of bs]
  show ?thesis
    using ok ne n0 skip find_allowed_pos
    by (auto simp: calculate_bucket_resolution_def Let_def bs_def est_def split: option.split)
qed

subsection \<open>Properties\<close>

text \<open>
  Property C30. When a resolution is returned for at least one device, its bucket is an
  allowed size within the requested limits, its point count is
  \<open>ceil(window / bucket) * devices\<close> and does not exceed the maximum, \<open>target_met\<close> tells
  whether it is within the target, and it is the smallest such bucket: every smaller allowed
  bucket exceeds the target (or, when no allowed bucket meets the target, the maximum).
\<close>
theorem bucket_resolution_optimal:
  assumes "calculate_bucket_resolution w n t m lo hi = Inr r" and "int_val n \<noteq> 0"
  defines "est \<equiv> estimate_points (num_val w) (int_val n)"
    and "bs \<equiv> set (allowed_buckets (int_val lo) (int_val hi))"
  shows "br_bucket_seconds r \<in> bs
    \<and> br_estimated_points r = est (br_bucket_seconds r)
    \<and> br_estimated_points r \<le> int_val m
    \<and> (br_target_met r \<longleftrightarrow> br_estimated_points r \<le> int_val t)
    \<and> (br_target_met r \<longrightarrow> (\<forall>b \<in> bs. b < br_bucket_seconds r \<longrightarrow> int_val t < est b))
    \<and> (\<not> br_target_met r \<longrightarrow> (\<forall>b \<in> bs. int_val t < est b) \<and>
         (\<forall>b \<in> bs. b < br_bucket_seconds r \<longrightarrow> int_val m < est b))"
proof -
  let ?bs = "allowed_buckets (int_val lo) (int_val hi)"
  have ok: "sampling_validate_inputs w n t m lo hi = Inr ()" and ne: "?bs \<noteq> []"
    using assms(1) by (auto simp: calculate_bucket_resolution_def Let_def res_simps split: if_splits)
  have tm: "int_val t \<le> int_val m" using ok by (simp add: sampling_validate_ok)
  note br = resolution_branches [OF ok assms(2) ne, unfolded assms(1)]
  show ?thesis
  proof (cases "List.find (\<lambda>b. est b \<le> int_val t) ?bs")
    case (Some b)
    from find_first_smallest [OF sorted_allowed_buckets Some] Some br tm
    show ?thesis by (auto simp: est_def bs_def not_le)
  next
    case None
    then have nt: "\<forall>b \<in> set ?bs. int_val t < est b" by (auto simp: find_None_iff not_le)
    with None br obtain b where
      b: "List.find (\<lambda>b. est b \<le> int_val m) ?bs = Some b" "br_bucket_seconds r = b"
         "br_estimated_points r = est b" "\<not> br_target_met r"
      by (auto simp: est_def split: option.splits)
    from find_first_smallest [OF sorted_allowed_buckets b(1)] b nt
    show ?thesis by (auto simp: bs_def not_le)
  qed
qed

theorem bucket_resolution_optimal_witness:
  "\<exists>r. calculate_bucket_resolution (PyInt 86400) (PyInt 100) (PyInt DEFAULT_TARGET_POINTS)
          (PyInt DEFAULT_MAX_POINTS) (PyInt MIN_BUCKET_SECONDS) (PyInt MAX_BUCKET_SECONDS) = Inr r
     \<and> br_estimated_points r \<le> 25000"
proof -
  let ?c = "calculate_bucket_resolution (PyInt 86400) (PyInt 100) (PyInt DEFAULT_TARGET_POINTS)
          (PyInt DEFAULT_MAX_POINTS) (PyInt MIN_BUCKET_SECONDS) (PyInt MAX_BUCKET_SECONDS)"
  have e: "?c = Inr \<lparr>br_bucket_seconds = 600, br_estimated_points = 14400,
      br_required_bucket_seconds = 576, br_target_points = 15000, br_max_points = 25000,
      br_target_met = True\<rparr>"
    by code_simp
  show ?thesis
    using bucket_resolution_optimal [OF e] e by (auto simp: DEFAULT_MAX_POINTS_def)
qed

text \<open>
  For valid arguments with at least one device and an allowed bucket within the
  limits, the limit error is raised exactly when the largest such bucket still has more than
  \<open>max_points\<close> points; it then carries that bucket and its estimate.
\<close>
theorem bucket_limit_error_iff:
  assumes "sampling_validate_inputs w n t m lo hi = Inr ()" and "int_val n \<noteq> 0"
    and "allowed_buckets (int_val lo) (int_val hi) \<noteq> []"
  defines "biggest \<equiv> last (allowed_buckets (int_val lo) (int_val hi))"
    and "est \<equiv> estimate_points (num_val w) (int_val n)"
  shows "calculate_bucket_resolution w n t m lo hi = Inl e \<longleftrightarrow>
    int_val m < est biggest \<and> e = BucketResolutionLimitError (est biggest) (int_val m) biggest"
proof -
  let ?bs = "allowed_buckets (int_val lo) (int_val hi)"
  note br = resolution_branches [OF assms(1-3)]
  have v: "0 < num_val w" "0 \<le> int_val n" "int_val t \<le> int_val m"
    using assms(1) by (auto simp: sampling_validate_ok)
  have mem: "biggest \<in> set ?bs" using assms(3) by (simp add: biggest_def)
  have big: "est biggest \<le> est b" if "b \<in> set ?bs" for b
    unfolding est_def using v(1,2) find_allowed_pos [OF that]
      last_is_largest [OF sorted_allowed_buckets that]
    by (intro estimate_mono) (auto simp: biggest_def)
  show ?thesis
  proof (cases "int_val m < est biggest")
    case True
    with big v(3) have "\<forall>b \<in> set ?bs. \<not> est b \<le> int_val m \<and> \<not> est b \<le> int_val t"
      by (force simp: not_le)
    then have "List.find (\<lambda>b. est b \<le> int_val m) ?bs = None"
      "List.find (\<lambda>b. est b \<le> int_val t) ?bs = None"
      by (auto simp: find_None_iff)
    with br True show ?thesis
      by (cases "calculate_bucket_resolution w n t m lo hi") (auto simp: est_def biggest_def)
  next
    case False
    with mem have "List.find (\<lambda>b. est b \<le> int_val m) ?bs \<noteq> None"
      by (auto simp: find_None_iff not_less)
    with br False show ?thesis by (auto simp: est_def split: option.splits)
  qed
qed

theorem bucket_limit_error_iff_witness:
  "\<exists>e. calculate_bucket_resolution (PyInt (365 * 86400)) (PyInt 100) (PyInt 15000)
          (PyInt 25000) (PyInt 60) (PyInt 86400) = Inl e"
proof -
  have v: "sampling_validate_inputs (PyInt (365 * 86400)) (PyInt 100) (PyInt 15000)
      (PyInt 25000) (PyInt 60) (PyInt 86400) = Inr ()"
    by code_simp
  have a: "allowed_buckets (int_val (PyInt 60)) (int_val (PyInt 86400)) = ALLOWED_BUCKET_SECONDS"
    by code_simp
  have l: "int_val (PyInt 25000) < estimate_points (num_val (PyInt (365 * 86400)))
      (int_val (PyInt 100)) (last ALLOWED_BUCKET_SECONDS)"
    by code_simp
  show ?thesis
    using bucket_limit_error_iff [OF v, unfolded a] l
    by (auto simp: ALLOWED_BUCKET_SECONDS_def)
qed

end
