(* ===== verification/Temporal_Continuity.thy ===== *)
theory Temporal_Continuity
  imports TLRS_Prelude "HOL-Library.Multiset"
begin

text \<open>
  \<open>src/application/analytics/temporal_continuity.py\<close>: the classification of the interval
  between consecutive observations as continuous, a gap or indeterminate, from the cadence
  estimated on either side of it.  Timestamps are \<open>py_datetime\<close> values and configuration
  values are Python numbers, so that \<open>_validate_timestamps\<close> and \<open>_validate_configuration\<close>
  keep their branches (an element that is no \<open>datetime\<close> at all is excluded by its type).
\<close>

datatype continuity_status = CONTINUOUS | GAP | INDETERMINATE

datatype cadence_source = CSNone | CSLeft | CSRight | CSBoth

record interval_assessment =
  ta_start_at :: py_datetime
  ta_end_at :: py_datetime
  ta_delta_seconds :: rat
  ta_status :: continuity_status
  ta_cadence_source :: cadence_source
  ta_left_expected :: "rat option"
  ta_right_expected :: "rat option"
  ta_left_threshold :: "rat option"
  ta_right_threshold :: "rat option"

record cadence_estimate =
  ce_expected :: rat
  ce_threshold :: rat

record cadence_config =
  cc_cadence_window_size :: py_number
  cc_min_cadence_samples :: py_number
  cc_gap_factor :: py_number
  cc_min_jitter_allowance_seconds :: py_number
  cc_max_cadence_variability :: py_number

definition default_cadence_config :: cadence_config where
  "default_cadence_config =
     \<lparr>cc_cadence_window_size = PyInt 4, cc_min_cadence_samples = PyInt 3,
      cc_gap_factor = PyFloat 3, cc_min_jitter_allowance_seconds = PyFloat 5,
      cc_max_cadence_variability = PyFloat (1 / 4)\<rparr>"

subsection \<open>Validation\<close>

definition check_positive_int :: "py_number \<Rightarrow> (string, unit) res" where
  "check_positive_int v =
     guardE (\<not> is_py_int v \<or> int_val v \<le> 0) ''must be a positive integer.''"

definition check_finite :: "bool \<Rightarrow> py_number \<Rightarrow> (string, unit) res" where
  "check_finite allow_zero v =
     (case v of
        PyBool _ \<Rightarrow> Inl ''must be a finite number.''
      | PyOther \<Rightarrow> Inl ''must be a finite number.''
      | _ \<Rightarrow> guardE (\<not> is_finite_number v \<or> num_val v < 0 \<or> (\<not> allow_zero \<and> num_val v = 0))
              ''has an invalid value.'')"

definition validate_configuration :: "cadence_config \<Rightarrow> (string, unit) res" where
  "validate_configuration c =
     bindE (for_each check_positive_int [cc_cadence_window_size c, cc_min_cadence_samples c]) (\<lambda>_.
     bindE (guardE (int_val (cc_min_cadence_samples c) > int_val (cc_cadence_window_size c))
       ''min_cadence_samples must not exceed cadence_window_size.'') (\<lambda>_.
     bindE (check_finite False (cc_gap_factor c)) (\<lambda>_.
     bindE (check_finite True (cc_min_jitter_allowance_seconds c)) (\<lambda>_.
     check_finite True (cc_max_cadence_variability c)))))"

fun validate_timestamps :: "py_datetime option \<Rightarrow> py_datetime list \<Rightarrow> (string, unit) res" where
  "validate_timestamps previous [] = Inr ()"
| "validate_timestamps previous (t # ts) =
     (if \<not> is_naive t then Inl ''Timestamps must use Manea's UTC-naive datetime convention.''
      else if (case previous of None \<Rightarrow> False | Some p \<Rightarrow> micros t < micros p)
        then Inl ''Timestamps must be in non-decreasing chronological order.''
      else validate_timestamps (Some t) ts)"

subsection \<open>Cadence estimates\<close>

text \<open>\<open>statistics.median\<close> of a non-empty list.\<close>

definition py_median :: "rat list \<Rightarrow> rat" where
  "py_median xs =
     (let s = sort xs; n = length s
      in if odd n then s ! (n div 2) else (s ! (n div 2 - 1) + s ! (n div 2)) / 2)"

definition estimate_cadence :: "cadence_config \<Rightarrow> rat list \<Rightarrow> cadence_estimate option" where
  "estimate_cadence c deltas =
     (let valid_deltas = filter (\<lambda>d. 0 < d) deltas
      in if int (length valid_deltas) < int_val (cc_min_cadence_samples c) then None
         else
           let expected = py_median valid_deltas;
               mad = py_median (map (\<lambda>d. \<bar>d - expected\<bar>) valid_deltas);
               variability = mad / expected
           in if variability > num_val (cc_max_cadence_variability c) then None
              else Some \<lparr>ce_expected = expected,
                ce_threshold = max (expected * num_val (cc_gap_factor c))
                  (expected + num_val (cc_min_jitter_allowance_seconds c))\<rparr>)"

definition supports :: "rat \<Rightarrow> cadence_estimate option \<Rightarrow> bool" where
  "supports delta e = (case e of None \<Rightarrow> False | Some x \<Rightarrow> delta \<le> ce_threshold x)"

definition resolve_cadence_source ::
  "cadence_estimate option \<Rightarrow> cadence_estimate option \<Rightarrow> bool \<Rightarrow> bool \<Rightarrow> cadence_source" where
  "resolve_cadence_source left right left_supports right_supports =
     (if left_supports \<and> right_supports then CSBoth
      else if left_supports then CSLeft
      else if right_supports then CSRight
      else if left \<noteq> None \<and> right \<noteq> None then CSBoth
      else if left \<noteq> None then CSLeft
      else if right \<noteq> None then CSRight
      else CSNone)"

definition assess_interval ::
  "py_datetime \<Rightarrow> py_datetime \<Rightarrow> rat \<Rightarrow> cadence_estimate option \<Rightarrow> cadence_estimate option
   \<Rightarrow> interval_assessment" where
  "assess_interval start_at end_at delta left right =
     (let ls = supports delta left; rs = supports delta right
      in \<lparr>ta_start_at = start_at, ta_end_at = end_at, ta_delta_seconds = delta,
          ta_status = (if ls \<or> rs then CONTINUOUS
                       else if left \<noteq> None \<and> right \<noteq> None then GAP else INDETERMINATE),
          ta_cadence_source = resolve_cadence_source left right ls rs,
          ta_left_expected = map_option ce_expected left,
          ta_right_expected = map_option ce_expected right,
          ta_left_threshold = map_option ce_threshold left,
          ta_right_threshold = map_option ce_threshold right\<rparr>)"

definition indeterminate_assessment ::
  "py_datetime \<Rightarrow> py_datetime \<Rightarrow> rat \<Rightarrow> interval_assessment" where
  "indeterminate_assessment start_at end_at delta =
     \<lparr>ta_start_at = start_at, ta_end_at = end_at, ta_delta_seconds = delta,
      ta_status = INDETERMINATE, ta_cadence_source = CSNone,
      ta_left_expected = None, ta_right_expected = None,
      ta_left_threshold = None, ta_right_threshold = None\<rparr>"

definition timestamp_deltas :: "py_datetime list \<Rightarrow> rat list" where
  "timestamp_deltas ts =
     map (\<lambda>(a, b). total_seconds (micros b - micros a)) (zip ts (tl ts))"

definition assess_at ::
  "cadence_config \<Rightarrow> py_datetime list \<Rightarrow> rat list \<Rightarrow> nat \<Rightarrow> interval_assessment" where
  "assess_at c ts deltas index =
     (let delta = deltas ! index; start_at = ts ! index; end_at = ts ! (index + 1);
          w = nat (int_val (cc_cadence_window_size c))
      in if delta \<le> 0 then indeterminate_assessment start_at end_at delta
         else assess_interval start_at end_at delta
           (estimate_cadence c (drop (index - w) (take index deltas)))
           (estimate_cadence c (take w (drop (index + 1) deltas))))"

definition analyze_temporal_continuity ::
  "py_datetime list \<Rightarrow> cadence_config \<Rightarrow> (string, interval_assessment list) res" where
  "analyze_temporal_continuity ts c =
     bindE (validate_configuration c) (\<lambda>_.
     bindE (validate_timestamps None ts) (\<lambda>_.
       if length ts < 2 then Inr []
       else let deltas = timestamp_deltas ts
            in Inr (map (assess_at c ts deltas) [0..<length deltas])))"

subsection \<open>Lemmas\<close>

lemma validate_timestamps_ok:
  "validate_timestamps p ts = Inr () \<longleftrightarrow> (\<forall>t \<in> set ts. is_naive t) \<and>
     sorted (map micros ((case p of None \<Rightarrow> [] | Some x \<Rightarrow> [x]) @ ts))"
proof (induction ts arbitrary: p)
  case (Cons t ts)
  show ?case by (cases p) (auto simp: Cons not_less intro: order_trans)
qed (simp split: option.split)

lemma check_finite_ok:
  "check_finite z v = Inr u \<longleftrightarrow> is_finite_number v \<and> 0 \<le> num_val v \<and> (z \<or> 0 < num_val v)"
  by (cases v) (auto simp: check_finite_def res_simps)

lemma validate_configuration_ok:
  "validate_configuration c = Inr u \<longleftrightarrow>
     is_py_int (cc_cadence_window_size c) \<and> is_py_int (cc_min_cadence_samples c) \<and>
     0 < int_val (cc_cadence_window_size c) \<and> 0 < int_val (cc_min_cadence_samples c) \<and>
     int_val (cc_min_cadence_samples c) \<le> int_val (cc_cadence_window_size c) \<and>
     is_finite_number (cc_gap_factor c) \<and> 0 < num_val (cc_gap_factor c) \<and>
     is_finite_number (cc_min_jitter_allowance_seconds c) \<and>
     0 \<le> num_val (cc_min_jitter_allowance_seconds c) \<and>
     is_finite_number (cc_max_cadence_variability c) \<and>
     0 \<le> num_val (cc_max_cadence_variability c)"
  by (auto simp: validate_configuration_def res_simps check_finite_ok check_positive_int_def)

lemma length_timestamp_deltas [simp]: "length (timestamp_deltas ts) = length ts - 1"
  by (simp add: timestamp_deltas_def)

lemma timestamp_deltas_nth [simp]:
  "Suc i < length ts \<Longrightarrow>
     timestamp_deltas ts ! i = total_seconds (micros (ts ! Suc i) - micros (ts ! i))"
  by (simp add: timestamp_deltas_def nth_tl)

lemma timestamp_deltas_Cons [simp]:
  "timestamp_deltas (a # b # ts) =
     total_seconds (micros b - micros a) # timestamp_deltas (b # ts)"
  by (simp add: timestamp_deltas_def)

lemma timestamp_deltas_sum:
  "ts \<noteq> [] \<Longrightarrow> sum_list (timestamp_deltas ts) = total_seconds (micros (last ts) - micros (hd ts))"
proof (induction ts)
  case (Cons a ts)
  show ?case
  proof (cases ts)
    case (Cons b rest)
    with Cons.IH show ?thesis by (simp flip: total_seconds_add)
  qed (simp add: timestamp_deltas_def)
qed simp

lemma analyze_ok_iff:
  "analyze_temporal_continuity ts c = Inr out \<longleftrightarrow>
     validate_configuration c = Inr () \<and> (\<forall>t \<in> set ts. is_naive t) \<and> sorted (map micros ts) \<and>
     out = map (assess_at c ts (timestamp_deltas ts)) [0..<length ts - 1]"
  by (auto simp: analyze_temporal_continuity_def res_simps validate_timestamps_ok Let_def)

text \<open>The median lies between any bounds of the list.\<close>

lemma median_mem_bounds:
  assumes "xs \<noteq> []" "\<forall>x \<in> set xs. lo \<le> x \<and> x \<le> (hi::rat)"
  shows "lo \<le> py_median xs \<and> py_median xs \<le> hi"
proof -
  let ?s = "sort xs"
  have "lo \<le> ?s ! i \<and> ?s ! i \<le> hi" if "i < length xs" for i
    using assms(2) nth_mem [of i ?s] that by simp
  from this [of "length xs div 2"] this [of "length xs div 2 - 1"] assms(1)
  have "lo \<le> ?s ! (length xs div 2) \<and> ?s ! (length xs div 2) \<le> hi"
    "lo \<le> ?s ! (length xs div 2 - 1) \<and> ?s ! (length xs div 2 - 1) \<le> hi"
    by (auto simp: less_imp_diff_less)
  then show ?thesis by (auto simp: py_median_def Let_def)
qed

lemma median_replicate: "0 < n \<Longrightarrow> py_median (replicate n d) = d"
  using median_mem_bounds [of "replicate n d" d d] by simp

text \<open>A constant cadence is its own estimate, with a threshold that covers it.\<close>

lemma estimate_replicate:
  assumes "validate_configuration c = Inr ()" "0 < d"
    and "int_val (cc_min_cadence_samples c) \<le> int n"
  shows "\<exists>e. estimate_cadence c (replicate n d) = Some e \<and> d \<le> ce_threshold e"
proof -
  have "0 < n" using assms by (simp add: validate_configuration_ok)
  then have "py_median (replicate n d) = d" "py_median (replicate n (0::rat)) = 0"
    by (simp_all add: median_replicate)
  with assms show ?thesis
    by (simp add: estimate_cadence_def Let_def validate_configuration_ok filter_replicate not_less
        le_max_iff_disj)
qed

lemma window_replicate:
  assumes "deltas = replicate n d" "k < n"
  shows "drop (k - w) (take k deltas) = replicate (min k w) d"
    and "take w (drop (k + 1) deltas) = replicate (min (n - k - 1) w) d"
  using assms by (auto simp: min_def)

subsection \<open>What a cadence is\<close>

text \<open>
  The specification of the estimates: the seconds between two neighbouring observations, the at
  most \<open>w\<close> of them just before and just after the interval \<open>i\<close>, and what it means that a list of
  them has the cadence \<open>m\<close> - the median of the positive ones, of which there are enough and whose
  median deviation from \<open>m\<close> is at most the allowed share of \<open>m\<close>.
\<close>

definition gap_seconds :: "py_datetime list \<Rightarrow> nat \<Rightarrow> rat" where
  "gap_seconds ts j = total_seconds (micros (ts ! Suc j) - micros (ts ! j))"

definition seconds_before :: "py_datetime list \<Rightarrow> nat \<Rightarrow> nat \<Rightarrow> rat list" where
  "seconds_before ts w i = map (gap_seconds ts) [i - w..<i]"

definition seconds_after :: "py_datetime list \<Rightarrow> nat \<Rightarrow> nat \<Rightarrow> rat list" where
  "seconds_after ts w i = map (gap_seconds ts) [Suc i..<min (Suc i + w) (length ts - 1)]"

definition is_median :: "rat list \<Rightarrow> rat \<Rightarrow> bool" where
  "is_median xs m \<longleftrightarrow> (\<exists>ys. mset ys = mset xs \<and> sorted ys \<and> m = (ys ! ((length ys - 1) div 2) + ys ! (length ys div 2)) / 2)"

definition has_cadence :: "cadence_config \<Rightarrow> rat list \<Rightarrow> rat \<Rightarrow> bool" where
  "has_cadence c xs m \<longleftrightarrow> int_val (cc_min_cadence_samples c) \<le> int (length (filter (\<lambda>d. 0 < d) xs)) \<and>
     is_median (filter (\<lambda>d. 0 < d) xs) m \<and>
     (\<exists>mad. is_median (map (\<lambda>d. \<bar>d - m\<bar>) (filter (\<lambda>d. 0 < d) xs)) mad \<and> mad \<le> num_val (cc_max_cadence_variability c) * m)"

definition gap_threshold :: "cadence_config \<Rightarrow> rat \<Rightarrow> rat" where
  "gap_threshold c m = max (m * num_val (cc_gap_factor c)) (m + num_val (cc_min_jitter_allowance_seconds c))"

lemma is_median_iff: "is_median xs m \<longleftrightarrow> m = py_median xs"
proof -
  have sorting: "(mset ys = mset xs \<and> sorted ys) = (ys = sort xs)" for ys :: "rat list"
    using properties_for_sort [of ys xs] by auto
  have "(length xs - 1) div 2 = (if odd (length xs) then length xs div 2 else length xs div 2 - 1)"
    by (cases "length xs") auto
  then have "(sort xs ! ((length xs - 1) div 2) + sort xs ! (length xs div 2)) / 2 = py_median xs"
    by (simp add: py_median_def Let_def)
  moreover have "is_median xs m \<longleftrightarrow> m = (sort xs ! ((length xs - 1) div 2) + sort xs ! (length xs div 2)) / 2"
    unfolding is_median_def conj_assoc [symmetric] sorting by simp
  ultimately show ?thesis by simp
qed

lemma estimate_cadence_iff:
  assumes "validate_configuration c = Inr ()"
  shows "estimate_cadence c xs = Some e \<longleftrightarrow> has_cadence c xs (ce_expected e) \<and> ce_threshold e = gap_threshold c (ce_expected e)"
proof (cases "int (length (filter (\<lambda>d. 0 < d) xs)) < int_val (cc_min_cadence_samples c)")
  case True
  then show ?thesis by (simp add: estimate_cadence_def has_cadence_def Let_def)
next
  case False
  let ?ds = "filter (\<lambda>d. 0 < d) xs"
  have ne: "?ds \<noteq> []" using False assms by (auto simp: validate_configuration_ok)
  then obtain lo where lo: "lo \<in> set ?ds" "\<forall>x \<in> set ?ds. lo \<le> x"
    using Min_in [of "set ?ds"] Min_le [of "set ?ds"] by (meson List.finite_set set_empty)
  moreover have "\<forall>x \<in> set ?ds. x \<le> Max (set ?ds)" by simp
  ultimately have "0 < py_median ?ds" using median_mem_bounds [OF ne, of lo "Max (set ?ds)"] by auto
  then have "(py_median ds / py_median ?ds > v) = (\<not> py_median ds \<le> v * py_median ?ds)" for ds v
    by (simp add: pos_less_divide_eq not_le)
  with False show ?thesis
    by (cases e) (auto simp: estimate_cadence_def has_cadence_def is_median_iff gap_threshold_def Let_def)
qed

lemma side_windows:
  assumes "i < length ts - 1"
  shows "drop (i - w) (take i (timestamp_deltas ts)) = seconds_before ts w i"
    and "take w (drop (Suc i) (timestamp_deltas ts)) = seconds_after ts w i"
proof -
  have d: "timestamp_deltas ts = map (gap_seconds ts) [0..<length ts - 1]"
    by (rule nth_equalityI) (auto simp: gap_seconds_def)
  show "drop (i - w) (take i (timestamp_deltas ts)) = seconds_before ts w i"
    unfolding d take_map drop_map seconds_before_def using assms by (simp add: take_upt drop_upt)
  show "take w (drop (Suc i) (timestamp_deltas ts)) = seconds_after ts w i"
    unfolding d take_map drop_map seconds_after_def by (cases "Suc i + w \<le> length ts - 1") (simp_all add: drop_upt take_upt min_def)
qed

lemma estimate_fields:
  assumes "validate_configuration c = Inr ()"
  shows "map_option ce_threshold (estimate_cadence c xs) = map_option (gap_threshold c) (map_option ce_expected (estimate_cadence c xs))"
    and "map_option ce_expected (estimate_cadence c xs) = Some m \<longleftrightarrow> has_cadence c xs m"
proof -
  note iff = estimate_cadence_iff [OF assms, of xs]
  show "map_option ce_threshold (estimate_cadence c xs) = map_option (gap_threshold c) (map_option ce_expected (estimate_cadence c xs))"
    using iff by (cases "estimate_cadence c xs") auto
  have "has_cadence c xs m" if "estimate_cadence c xs = Some e" "ce_expected e = m" for e using that iff by simp
  moreover have "estimate_cadence c xs = Some \<lparr>ce_expected = m, ce_threshold = gap_threshold c m\<rparr>" if "has_cadence c xs m"
    using that iff [of "\<lparr>ce_expected = m, ce_threshold = gap_threshold c m\<rparr>"] by simp
  ultimately show "map_option ce_expected (estimate_cadence c xs) = Some m \<longleftrightarrow> has_cadence c xs m" by auto
qed

lemma analysis_row:
  assumes "analyze_temporal_continuity ts c = Inr out" "i < length out"
  defines "w \<equiv> nat (int_val (cc_cadence_window_size c))"
  obtains "out ! i = indeterminate_assessment (ts ! i) (ts ! Suc i) (gap_seconds ts i)" "gap_seconds ts i \<le> 0"
  | "out ! i = assess_interval (ts ! i) (ts ! Suc i) (gap_seconds ts i)
        (estimate_cadence c (seconds_before ts w i)) (estimate_cadence c (seconds_after ts w i))" "0 < gap_seconds ts i"
proof -
  from assms(1,2) have i: "Suc i < length ts" and a: "out ! i = assess_at c ts (timestamp_deltas ts) i"
    by (auto simp: analyze_ok_iff)
  have delta: "timestamp_deltas ts ! i = gap_seconds ts i" using i by (simp add: gap_seconds_def)
  have "i < length ts - 1" using i by linarith
  note windows = side_windows [OF this, of w]
  show thesis
    using that unfolding a assess_at_def Let_def delta w_def [symmetric] Suc_eq_plus1 [symmetric] windows
    by (cases "gap_seconds ts i \<le> 0") simp_all
qed

lemma supports_fits: "supports d e \<longleftrightarrow> (\<exists>x. map_option ce_threshold e = Some x \<and> d \<le> x)"
  by (cases e) (simp_all add: supports_def)

subsection \<open>Properties\<close>


text \<open>A day of silence between two runs of one report a minute.\<close>

definition sample_timestamps :: "py_datetime list" where
  "sample_timestamps = map (\<lambda>m. Naive (m * 60000000)) [0, 1, 2, 3, 4, 1440, 1441, 1442, 1443]"

definition sample_analysis :: "interval_assessment list" where
  "sample_analysis = map (assess_at default_cadence_config sample_timestamps
     (timestamp_deltas sample_timestamps)) [0..<length sample_timestamps - 1]"

lemma sample_analysis_ok:
  "analyze_temporal_continuity sample_timestamps default_cadence_config = Inr sample_analysis"
  unfolding analyze_ok_iff sample_analysis_def
  by (intro conjI refl)
    (simp_all add: validate_configuration_ok default_cadence_config_def sample_timestamps_def)


text \<open>
  Observations that arrive with a constant period are never reported as a gap:
  with a valid configuration and more than twice \<open>min_cadence_samples\<close> observations, every
  interval is classified as continuous.
\<close>
theorem regular_cadence_is_continuous:
  assumes "validate_configuration c = Inr ()" and "0 < step"
    and "2 * int_val (cc_min_cadence_samples c) < int n"
  shows "\<exists>out. analyze_temporal_continuity
           (map (\<lambda>k. Naive (t0 + int k * step)) [0..<n]) c = Inr out \<and>
         (\<forall>a \<in> set out. ta_status a = CONTINUOUS)"
proof -
  let ?ts = "map (\<lambda>k. Naive (t0 + int k * step)) [0..<n]"
  let ?m = "int_val (cc_min_cadence_samples c)" and ?w = "nat (int_val (cc_cadence_window_size c))"
  have deltas: "timestamp_deltas ?ts = replicate (n - 1) (total_seconds step)"
    by (rule nth_equalityI) (auto simp: algebra_simps)
  have mw: "0 < ?m" "?m \<le> int ?w" using assms(1) by (auto simp: validate_configuration_ok)
  have "sorted (map micros ?ts)"
    using assms(2) by (auto simp: sorted_iff_nth_mono mult_right_mono)
  then have e: "analyze_temporal_continuity ?ts c =
      Inr (map (assess_at c ?ts (timestamp_deltas ?ts)) [0..<n - 1])"
    using assms(1) by (auto simp: analyze_ok_iff)
  have "ta_status (assess_at c ?ts (timestamp_deltas ?ts) i) = CONTINUOUS" if i: "i < n - 1" for i
  proof -
    let ?s = "total_seconds step"
    let ?l = "estimate_cadence c (replicate (min i ?w) ?s)"
      and ?r = "estimate_cadence c (replicate (min (n - 1 - i - 1) ?w) ?s)"
    have "?m \<le> int (min i ?w) \<or> ?m \<le> int (min (n - 1 - i - 1) ?w)"
      using assms(3) mw i by linarith
    then have "supports ?s ?l \<or> supports ?s ?r"
      using estimate_replicate [OF assms(1), of ?s] assms(2) by (force simp: supports_def)
    then have "ta_status (assess_interval x y ?s ?l ?r) = CONTINUOUS" for x y
      by (simp add: assess_interval_def Let_def)
    with i assms(2) show ?thesis
      unfolding assess_at_def Let_def deltas window_replicate [OF refl i] by simp
  qed
  with e show ?thesis by auto
qed

theorem regular_cadence_is_continuous_witness:
  "\<exists>out. analyze_temporal_continuity
      (map (\<lambda>k. Naive (0 + int k * 60000000)) [0..<7]) default_cadence_config = Inr out \<and>
    (\<forall>a \<in> set out. ta_status a = CONTINUOUS)"
  by (rule regular_cadence_is_continuous)
    (simp_all add: default_cadence_config_def validate_configuration_ok)

end
