(* ===== verification/Observed_Time.thy ===== *)
theory Observed_Time
  imports Temporal_Continuity
begin

text \<open>
  \<open>src/application/analytics/observed_time.py\<close>: the totals of classified intervals.  The
  loop carries an accumulator; \<open>_validate_assessment\<close> runs before each interval is counted.
  Comparing a naive with an aware timestamp raises \<open>TypeError\<close>.  The branch for an
  unsupported status cannot be taken, \<open>continuity_status\<close> having three constructors.
\<close>

record observed_span =
  os_start_at :: py_datetime
  os_end_at :: py_datetime
  os_observed_seconds :: rat

record observed_metadata =
  om_observed_seconds :: rat
  om_gap_seconds :: rat
  om_indeterminate_seconds :: rat
  om_continuous_interval_count :: nat
  om_gap_interval_count :: nat
  om_indeterminate_interval_count :: nat
  om_assessed_seconds :: rat
  om_assessment_count :: nat

definition unknown_seconds :: "observed_metadata \<Rightarrow> rat" where
  "unknown_seconds m = om_gap_seconds m + om_indeterminate_seconds m"

record observed_result =
  or_spans :: "observed_span list"
  or_metadata :: observed_metadata

datatype observed_error = ObservedTimeInputError string | ObservedTypeError

definition validate_assessment :: "interval_assessment \<Rightarrow> (observed_error, unit) res" where
  "validate_assessment a =
     (let s = ta_start_at a; e = ta_end_at a in
      if is_naive s \<noteq> is_naive e then Inl ObservedTypeError
      else if micros e < micros s
        then Inl (ObservedTimeInputError ''Assessment end_at must not precede start_at.'')
      else if ta_delta_seconds a < 0
        then Inl (ObservedTimeInputError ''Assessment delta_seconds must not be negative.'')
      else if \<not> py_isclose (ta_delta_seconds a) (total_seconds (micros e - micros s))
                  (1 / 1000000000) (1 / 1000000)
        then Inl (ObservedTimeInputError
          ''Assessment delta_seconds must match the timestamp interval.'')
      else Inr ())"

record observed_acc =
  oa_spans :: "observed_span list"
  oa_observed :: rat
  oa_gap :: rat
  oa_indeterminate :: rat
  oa_n_continuous :: nat
  oa_n_gap :: nat
  oa_n_indeterminate :: nat

definition observed_start :: observed_acc where
  "observed_start = \<lparr>oa_spans = [], oa_observed = 0, oa_gap = 0, oa_indeterminate = 0,
     oa_n_continuous = 0, oa_n_gap = 0, oa_n_indeterminate = 0\<rparr>"

definition observe_one :: "interval_assessment \<Rightarrow> observed_acc \<Rightarrow> observed_acc" where
  "observe_one a acc =
     (let positive = max (ta_delta_seconds a) 0 in
      case ta_status a of
        CONTINUOUS \<Rightarrow> acc\<lparr>oa_n_continuous := oa_n_continuous acc + 1,
          oa_observed := oa_observed acc + positive,
          oa_spans := (if positive > 0
            then oa_spans acc @ [\<lparr>os_start_at = ta_start_at a, os_end_at = ta_end_at a,
                                  os_observed_seconds = positive\<rparr>]
            else oa_spans acc)\<rparr>
      | GAP \<Rightarrow> acc\<lparr>oa_n_gap := oa_n_gap acc + 1, oa_gap := oa_gap acc + positive\<rparr>
      | INDETERMINATE \<Rightarrow> acc\<lparr>oa_n_indeterminate := oa_n_indeterminate acc + 1,
          oa_indeterminate := oa_indeterminate acc + positive\<rparr>)"

fun observe_loop ::
  "interval_assessment list \<Rightarrow> observed_acc \<Rightarrow> (observed_error, observed_acc) res" where
  "observe_loop [] acc = Inr acc"
| "observe_loop (a # as) acc =
     bindE (validate_assessment a) (\<lambda>_. observe_loop as (observe_one a acc))"

definition calculate_observed_time ::
  "interval_assessment list \<Rightarrow> (observed_error, observed_result) res" where
  "calculate_observed_time assessments =
     bindE (observe_loop assessments observed_start) (\<lambda>acc.
       Inr \<lparr>or_spans = oa_spans acc,
            or_metadata = \<lparr>om_observed_seconds = oa_observed acc,
              om_gap_seconds = oa_gap acc,
              om_indeterminate_seconds = oa_indeterminate acc,
              om_continuous_interval_count = oa_n_continuous acc,
              om_gap_interval_count = oa_n_gap acc,
              om_indeterminate_interval_count = oa_n_indeterminate acc,
              om_assessed_seconds = oa_observed acc + oa_gap acc + oa_indeterminate acc,
              om_assessment_count = length assessments\<rparr>\<rparr>)"

subsection \<open>Lemmas\<close>

definition status_seconds :: "continuity_status \<Rightarrow> interval_assessment list \<Rightarrow> rat" where
  "status_seconds st as = sum_list (map ta_delta_seconds (filter (\<lambda>a. ta_status a = st) as))"

definition status_count :: "continuity_status \<Rightarrow> interval_assessment list \<Rightarrow> nat" where
  "status_count st as = length (filter (\<lambda>a. ta_status a = st) as)"

definition span_of :: "interval_assessment \<Rightarrow> observed_span" where
  "span_of a = \<lparr>os_start_at = ta_start_at a, os_end_at = ta_end_at a,
     os_observed_seconds = ta_delta_seconds a\<rparr>"

definition continuous_spans :: "interval_assessment list \<Rightarrow> observed_span list" where
  "continuous_spans as =
     map span_of (filter (\<lambda>a. ta_status a = CONTINUOUS \<and> 0 < ta_delta_seconds a) as)"

lemmas status_simps = status_seconds_def status_count_def continuous_spans_def

lemma validate_assessment_nonneg: "validate_assessment a = Inr u \<Longrightarrow> 0 \<le> ta_delta_seconds a"
  by (auto simp: validate_assessment_def Let_def split: if_splits)

lemma observe_loop_result:
  "observe_loop as acc = Inr acc' \<longleftrightarrow> (\<forall>a \<in> set as. validate_assessment a = Inr ()) \<and>
     acc' = \<lparr>oa_spans = oa_spans acc @ continuous_spans as,
        oa_observed = oa_observed acc + status_seconds CONTINUOUS as,
        oa_gap = oa_gap acc + status_seconds GAP as,
        oa_indeterminate = oa_indeterminate acc + status_seconds INDETERMINATE as,
        oa_n_continuous = oa_n_continuous acc + status_count CONTINUOUS as,
        oa_n_gap = oa_n_gap acc + status_count GAP as,
        oa_n_indeterminate = oa_n_indeterminate acc + status_count INDETERMINATE as\<rparr>"
proof (induction as arbitrary: acc)
  case Nil
  then show ?case by (auto simp: status_simps)
next
  case (Cons a as)
  show ?case
  proof (cases "validate_assessment a")
    case (Inr u)
    then have "max (ta_delta_seconds a) 0 = ta_delta_seconds a"
      using validate_assessment_nonneg by fastforce
    with Inr Cons show ?thesis
      by (cases "ta_status a")
        (auto simp: observe_one_def Let_def status_simps span_of_def max_def)
  qed simp
qed

lemma observed_ok_iff:
  "(\<exists>r. calculate_observed_time as = Inr r) \<longleftrightarrow> (\<forall>a \<in> set as. validate_assessment a = Inr ())"
  by (auto simp: calculate_observed_time_def res_simps observe_loop_result)

lemma status_seconds_total:
  "status_seconds CONTINUOUS as + status_seconds GAP as + status_seconds INDETERMINATE as
   = sum_list (map ta_delta_seconds as)"
proof (induction as)
  case (Cons a as)
  then show ?case by (cases "ta_status a") (simp_all add: status_simps)
qed (simp add: status_simps)

lemma status_count_total:
  "status_count CONTINUOUS as + status_count GAP as + status_count INDETERMINATE as = length as"
proof (induction as)
  case (Cons a as)
  then show ?case by (cases "ta_status a") (simp_all add: status_simps)
qed (simp add: status_simps)

lemma status_seconds_nonneg:
  "(\<forall>a \<in> set as. 0 \<le> ta_delta_seconds a) \<Longrightarrow> 0 \<le> status_seconds st as"
  unfolding status_seconds_def by (rule sum_list_nonneg) auto

lemma continuous_spans_total:
  "(\<forall>a \<in> set as. 0 \<le> ta_delta_seconds a) \<Longrightarrow>
     sum_list (map os_observed_seconds (continuous_spans as)) = status_seconds CONTINUOUS as"
  by (induction as) (auto simp: status_simps span_of_def)

subsection \<open>The analysis feeds the totals\<close>

lemma assess_at_fields [simp]:
  "ta_start_at (assess_at c ts ds i) = ts ! i"
  "ta_end_at (assess_at c ts ds i) = ts ! Suc i"
  "ta_delta_seconds (assess_at c ts ds i) = ds ! i"
  by (simp_all add: assess_at_def Let_def indeterminate_assessment_def assess_interval_def)

lemma analysis_is_valid:
  assumes "analyze_temporal_continuity ts c = Inr out" and "a \<in> set out"
  shows "validate_assessment a = Inr ()"
proof -
  from assms obtain i where "i < length ts - 1"
    and a: "a = assess_at c ts (timestamp_deltas ts) i"
    and nv: "\<forall>t \<in> set ts. is_naive t" and so: "sorted (map micros ts)"
    unfolding analyze_ok_iff by auto
  then have i: "Suc i < length ts" by linarith
  from i nv have "is_naive (ts ! i)" "is_naive (ts ! Suc i)" by auto
  moreover from i so have "micros (ts ! i) \<le> micros (ts ! Suc i)"
    by (auto simp: sorted_iff_nth_Suc)
  ultimately show ?thesis using i by (simp add: a validate_assessment_def not_less)
qed

lemma analysis_deltas:
  assumes "analyze_temporal_continuity ts c = Inr out"
  shows "map ta_delta_seconds out = timestamp_deltas ts"
  using assms by (intro nth_equalityI) (auto simp: analyze_ok_iff)

text \<open>
  Property C29. The totals of an analysis never fail to be computed and lose no time: the
  observed, gap and indeterminate seconds add up to the time from the first to the last
  observation, the three counts add up to the number of intervals and no total is negative.  The
  returned spans are the continuous intervals of positive length, in order, with the observed
  seconds as their sum; the seconds and the count reported for each status are those of the
  intervals with that status.
\<close>
theorem observed_time_conserves:
  assumes "analyze_temporal_continuity ts c = Inr out" and "ts \<noteq> []"
  shows "\<exists>r. calculate_observed_time out = Inr r \<and>
    (let m = or_metadata r in
       om_assessed_seconds m = total_seconds (micros (last ts) - micros (hd ts)) \<and>
       om_observed_seconds m + unknown_seconds m = om_assessed_seconds m \<and>
       om_continuous_interval_count m + om_gap_interval_count m
         + om_indeterminate_interval_count m = length ts - 1 \<and>
       om_assessment_count m = length ts - 1 \<and>
       0 \<le> om_observed_seconds m \<and> 0 \<le> om_gap_seconds m \<and> 0 \<le> om_indeterminate_seconds m \<and>
       sum_list (map os_observed_seconds (or_spans r)) = om_observed_seconds m \<and>
       or_spans r = continuous_spans out \<and>
       om_observed_seconds m = status_seconds CONTINUOUS out \<and>
       om_gap_seconds m = status_seconds GAP out \<and>
       om_indeterminate_seconds m = status_seconds INDETERMINATE out \<and>
       om_continuous_interval_count m = status_count CONTINUOUS out \<and>
       om_gap_interval_count m = status_count GAP out \<and>
       om_indeterminate_interval_count m = status_count INDETERMINATE out)"
proof -
  have valid: "\<forall>a \<in> set out. validate_assessment a = Inr ()"
    using analysis_is_valid [OF assms(1)] by blast
  then have nn: "\<forall>a \<in> set out. 0 \<le> ta_delta_seconds a"
    using validate_assessment_nonneg by blast
  have len: "length out = length ts - 1" using assms(1) by (simp add: analyze_ok_iff)
  from valid obtain r where r: "calculate_observed_time out = Inr r"
    using observed_ok_iff by blast
  have "sum_list (map ta_delta_seconds out) = total_seconds (micros (last ts) - micros (hd ts))"
    using analysis_deltas [OF assms(1)] timestamp_deltas_sum [OF assms(2)] by simp
  with r show ?thesis
    using status_seconds_total [of out] status_count_total [of out] len
      status_seconds_nonneg [OF nn] continuous_spans_total [OF nn]
    by (auto simp: calculate_observed_time_def res_simps observe_loop_result observed_start_def
        unknown_seconds_def Let_def)
qed

theorem observed_time_conserves_witness:
  "\<exists>r. calculate_observed_time sample_analysis = Inr r \<and>
     om_assessed_seconds (or_metadata r) = 86580 \<and> or_spans r = continuous_spans sample_analysis"
proof -
  have t: "sample_timestamps \<noteq> []"
    "total_seconds (micros (last sample_timestamps) - micros (hd sample_timestamps)) = 86580"
    by (simp_all add: sample_timestamps_def total_seconds_def)
  show ?thesis
    using observed_time_conserves [OF sample_analysis_ok t(1)] unfolding t(2) Let_def by blast
qed

end
