(* ===== verification/Temporal_Bucketing.thy ===== *)
theory Temporal_Bucketing
  imports Observed_Time "HOL-Library.Multiset"
begin

text \<open>
  \<open>src/application/analytics/temporal_bucketing.py\<close>: clipping observed spans to a window and
  distributing their time over buckets aligned to the UTC epoch.  The dictionary
  \<open>bucket_totals\<close> is a list of rows in insertion order, sorted by key at the end as the code
  does; the \<open>while\<close> loop is \<open>fill_buckets\<close>, whose measure is the time left to distribute.
  \<open>datetime\<close> overflow beyond year 9999 is not modelled.
\<close>

record temporal_bucket =
  tb_bucket_start :: int
  tb_bucket_end :: int
  tb_observed_seconds :: rat
  tb_contributing_span_count :: nat

record bucketing_metadata =
  bm_window_start :: int
  bm_window_end :: int
  bm_bucket_seconds :: int
  bm_input_observed_seconds :: rat
  bm_in_window_observed_seconds :: rat
  bm_outside_window_observed_seconds :: rat
  bm_bucketed_observed_seconds :: rat
  bm_input_span_count :: nat
  bm_contributing_span_count :: nat
  bm_bucket_count :: nat

record bucketing_result =
  bk_buckets :: "temporal_bucket list"
  bk_metadata :: bucketing_metadata

subsection \<open>Validation\<close>

definition validate_utc_naive :: "py_datetime \<Rightarrow> (string, unit) res" where
  "validate_utc_naive v =
     guardE (\<not> is_naive v) ''must use Manea's UTC-naive datetime convention.''"

definition validate_window :: "py_datetime \<Rightarrow> py_datetime \<Rightarrow> (string, unit) res" where
  "validate_window ws we =
     bindE (validate_utc_naive ws) (\<lambda>_.
     bindE (validate_utc_naive we) (\<lambda>_.
     guardE (micros we \<le> micros ws) ''window_end must be later than window_start.''))"

definition validate_bucket_seconds :: "py_number \<Rightarrow> (string, unit) res" where
  "validate_bucket_seconds v =
     guardE (\<not> is_py_int v \<or> int_val v \<le> 0) ''bucket_seconds must be a positive integer.''"

fun validate_spans :: "int option \<Rightarrow> observed_span list \<Rightarrow> (string, unit) res" where
  "validate_spans previous_end [] = Inr ()"
| "validate_spans previous_end (s # ss) =
     bindE (validate_utc_naive (os_start_at s)) (\<lambda>_.
     bindE (validate_utc_naive (os_end_at s)) (\<lambda>_.
     if micros (os_end_at s) \<le> micros (os_start_at s)
       then Inl ''Observed spans must have positive duration.''
     else if os_observed_seconds s \<le> 0
       then Inl ''Observed spans must have positive observed_seconds.''
     else if \<not> py_isclose (os_observed_seconds s)
                 (total_seconds (micros (os_end_at s) - micros (os_start_at s)))
                 (1 / 1000000000) (1 / 1000000)
       then Inl ''ObservedSpan observed_seconds must match its timestamp interval.''
     else if (case previous_end of None \<Rightarrow> False | Some p \<Rightarrow> micros (os_start_at s) < p)
       then Inl ''Observed spans must be ordered and must not overlap.''
     else validate_spans (Some (micros (os_end_at s))) ss))"

subsection \<open>Distribution over the buckets\<close>

definition floor_bucket_start :: "int \<Rightarrow> int \<Rightarrow> int" where
  "floor_bucket_start timestamp bucket_seconds =
     (let bucket_microseconds = bucket_seconds * 1000000
      in (timestamp div bucket_microseconds) * bucket_microseconds)"

type_synonym bucket_totals = "(int \<times> rat \<times> nat) list"

fun add_total :: "int \<Rightarrow> rat \<Rightarrow> bucket_totals \<Rightarrow> bucket_totals" where
  "add_total k s [] = [(k, s, 1)]"
| "add_total k s ((k', s', n) # rows) =
     (if k' = k then (k', s' + s, n + 1) # rows else (k', s', n) # add_total k s rows)"

lemma floor_bucket_start_bounds:
  assumes "0 < b"
  shows "floor_bucket_start t b \<le> t \<and> t < floor_bucket_start t b + b * 1000000"
proof -
  have "(t div (b * 1000000)) * (b * 1000000) + t mod (b * 1000000) = t"
    by (rule div_mult_mod_eq)
  moreover have "0 \<le> t mod (b * 1000000)" "t mod (b * 1000000) < b * 1000000"
    using assms by (auto intro: pos_mod_sign pos_mod_bound)
  ultimately show ?thesis by (simp add: floor_bucket_start_def Let_def)
qed

function fill_buckets :: "int \<Rightarrow> int \<Rightarrow> int \<Rightarrow> bucket_totals \<Rightarrow> bucket_totals" where
  "fill_buckets b current clipped_end totals =
     (if current < clipped_end \<and> 0 < b
      then let bucket_start = floor_bucket_start current b;
               segment_end = min (bucket_start + b * 1000000) clipped_end
           in fill_buckets b segment_end clipped_end
                (add_total bucket_start (total_seconds (segment_end - current)) totals)
      else totals)"
  by pat_completeness auto
termination
proof (relation "measure (\<lambda>(b, current, e, t). nat (e - current))")
  fix b current e t bs se
  assume *: "current < e \<and> 0 < b" "bs = floor_bucket_start current b"
    "se = min (bs + b * 1000000) e"
  then have "current < se" using floor_bucket_start_bounds [of b current] by auto
  with * show "((b, se, e, add_total bs (total_seconds (se - current)) t), b, current, e, t)
      \<in> measure (\<lambda>(b, current, e, t). nat (e - current))" by auto
qed simp

declare fill_buckets.simps [simp del]

record span_acc =
  sa_totals :: bucket_totals
  sa_in_window :: rat
  sa_contributing :: nat

definition distribute_span ::
  "int \<Rightarrow> int \<Rightarrow> int \<Rightarrow> span_acc \<Rightarrow> observed_span \<Rightarrow> span_acc" where
  "distribute_span ws we b acc s =
     (let clipped_start = max (micros (os_start_at s)) ws;
          clipped_end = min (micros (os_end_at s)) we
      in if clipped_start \<ge> clipped_end then acc
         else \<lparr>sa_totals = fill_buckets b clipped_start clipped_end (sa_totals acc),
               sa_in_window = sa_in_window acc + total_seconds (clipped_end - clipped_start),
               sa_contributing = sa_contributing acc + 1\<rparr>)"

definition build_bucket :: "int \<Rightarrow> int \<times> rat \<times> nat \<Rightarrow> (string, temporal_bucket) res" where
  "build_bucket b row = (case row of (k, observed, n) \<Rightarrow>
     if observed \<le> 0 \<or> observed > of_int b + 1 / 1000000
       then Inl ''A temporal bucket has an invalid observed time total.''
     else Inr \<lparr>tb_bucket_start = k, tb_bucket_end = k + b * 1000000,
               tb_observed_seconds = observed, tb_contributing_span_count = n\<rparr>)"

definition bucket_observed_time ::
  "observed_span list \<Rightarrow> py_datetime \<Rightarrow> py_datetime \<Rightarrow> py_number \<Rightarrow> (string, bucketing_result) res" where
  "bucket_observed_time spans window_start window_end bucket_seconds =
     bindE (validate_window window_start window_end) (\<lambda>_.
     bindE (validate_bucket_seconds bucket_seconds) (\<lambda>_.
     bindE (validate_spans None spans) (\<lambda>_.
     let ws = micros window_start; we = micros window_end; b = int_val bucket_seconds;
         input_seconds = sum_list (map os_observed_seconds spans);
         acc = foldl (distribute_span ws we b)
                 \<lparr>sa_totals = [], sa_in_window = 0, sa_contributing = 0\<rparr> spans
     in bindE (mapE (build_bucket b) (sort_key fst (sa_totals acc))) (\<lambda>buckets.
        let bucketed = sum_list (map tb_observed_seconds buckets);
            outside = input_seconds - sa_in_window acc
        in if \<not> py_isclose bucketed (sa_in_window acc) (1 / 1000000000) (1 / 1000000)
             then Inl ''Bucketed observed time does not match in-window observed time.''
           else Inr \<lparr>bk_buckets = buckets,
             bk_metadata = \<lparr>bm_window_start = ws, bm_window_end = we, bm_bucket_seconds = b,
               bm_input_observed_seconds = input_seconds,
               bm_in_window_observed_seconds = sa_in_window acc,
               bm_outside_window_observed_seconds =
                 (if py_isclose outside 0 (1 / 1000000000) (1 / 1000000) then 0 else outside),
               bm_bucketed_observed_seconds = bucketed,
               bm_input_span_count = length spans,
               bm_contributing_span_count = sa_contributing acc,
               bm_bucket_count = length buckets\<rparr>\<rparr>))))"

subsection \<open>The rows the loop builds\<close>

text \<open>The seconds a row list holds for a bucket, and the time an interval shares with one.\<close>

fun row_seconds :: "bucket_totals \<Rightarrow> int \<Rightarrow> rat" where
  "row_seconds [] k = 0"
| "row_seconds ((k', s, n) # rows) k = (if k' = k then s else row_seconds rows k)"

definition shared :: "int \<Rightarrow> int \<Rightarrow> int \<Rightarrow> int \<Rightarrow> int" where
  "shared b s e k = max 0 (min e (k + b * 1000000) - max s k)"

definition row_sum :: "bucket_totals \<Rightarrow> rat" where
  "row_sum rows = sum_list (map (fst \<circ> snd) rows)"

text \<open>Rows filled up to time \<open>e\<close>: distinct aligned buckets, none holding more than fits.\<close>

definition rows_ok :: "int \<Rightarrow> int \<Rightarrow> bucket_totals \<Rightarrow> bool" where
  "rows_ok b e rows \<longleftrightarrow> distinct (map fst rows) \<and>
     (\<forall>(k, s, n) \<in> set rows. (b * 1000000) dvd k \<and> 0 < s \<and>
        s \<le> total_seconds (min (e - k) (b * 1000000)))"

lemma row_sum_add: "row_sum (add_total k s rows) = row_sum rows + s"
  by (induction k s rows rule: add_total.induct) (auto simp: row_sum_def)

lemma row_seconds_add:
  "row_seconds (add_total k s rows) j = row_seconds rows j + (if j = k then s else 0)"
  by (induction k s rows rule: add_total.induct) auto

lemma keys_add: "fst ` set (add_total k s rows) = insert k (fst ` set rows)"
  by (induction k s rows rule: add_total.induct) auto

lemma distinct_add: "distinct (map fst rows) \<Longrightarrow> distinct (map fst (add_total k s rows))"
proof (induction k s rows rule: add_total.induct)
  case (2 k s k' s' n rows)
  then show ?case using keys_add [of k s rows] by auto
qed simp

lemma set_add:
  assumes "(j, t, n) \<in> set (add_total k s rows)"
  shows "(j, t, n) \<in> set rows \<or> (j = k \<and> (t = s \<or> (\<exists>t' n'. (k, t', n') \<in> set rows \<and> t = t' + s)))"
  using assms by (induction k s rows rule: add_total.induct) (auto split: if_splits)

lemma rows_ok_add:
  assumes ok: "rows_ok b e rows" and "e \<le> current" "current < se" "0 < b"
    and k: "(b * 1000000) dvd k" "k \<le> current" "se \<le> k + b * 1000000"
  shows "rows_ok b se (add_total k (total_seconds (se - current)) rows)"
proof -
  let ?t = "total_seconds (se - current)"
  have old: "(b * 1000000) dvd j \<and> 0 < t \<and> t \<le> total_seconds (min (e - j) (b * 1000000))"
    if "(j, t, n) \<in> set rows" for j t n
    using ok that by (auto simp: rows_ok_def)
  have "(b * 1000000) dvd j \<and> 0 < t \<and> t \<le> total_seconds (min (se - j) (b * 1000000))"
    if "(j, t, n) \<in> set (add_total k ?t rows)" for j t n
    using set_add [OF that]
  proof (elim disjE conjE exE)
    assume r: "(j, t, n) \<in> set rows"
    have "total_seconds (min (e - j) (b * 1000000)) \<le> total_seconds (min (se - j) (b * 1000000))"
      using assms by simp
    with old [OF r] show ?thesis by linarith
  next
    assume "j = k" "t = ?t"
    moreover have "?t \<le> total_seconds (min (se - k) (b * 1000000))" using assms by simp
    ultimately show ?thesis using assms by simp
  next
    fix t' n' assume r: "j = k" "(k, t', n') \<in> set rows" "t = t' + ?t"
    have "t' \<le> total_seconds (current - k)"
      using old [OF r(2)] assms(2)
      by (meson diff_right_mono min.coboundedI1 order.trans total_seconds_le_iff)
    then have "t \<le> total_seconds (se - k)"
      using r(3) by (simp add: total_seconds_diff)
    moreover have "total_seconds (se - k) \<le> total_seconds (min (se - k) (b * 1000000))"
      using assms by simp
    moreover have "0 < t" using r(3) old [OF r(2)] assms(3) by (simp add: add_pos_pos)
    ultimately show ?thesis using r(1) k(1) by (metis order.trans)
  qed
  moreover have "distinct (map fst (add_total k ?t rows))"
    using ok by (auto simp: rows_ok_def intro: distinct_add)
  ultimately show ?thesis by (auto simp: rows_ok_def)
qed

lemma rows_ok_mono:
  assumes "rows_ok b e rows" "e \<le> e'"
  shows "rows_ok b e' rows"
proof -
  have "t \<le> total_seconds (min (e' - k) (b * 1000000))"
    if "(k, t, n) \<in> set rows" for k t n
  proof -
    have "t \<le> total_seconds (min (e - k) (b * 1000000))"
      using assms(1) that by (auto simp: rows_ok_def)
    also have "\<dots> \<le> total_seconds (min (e' - k) (b * 1000000))" using assms(2) by simp
    finally show ?thesis .
  qed
  with assms(1) show ?thesis by (fastforce simp: rows_ok_def)
qed

lemma floor_aligned: "(b * 1000000) dvd floor_bucket_start t b"
  by (simp add: floor_bucket_start_def Let_def)

text \<open>One pass of the loop, as a rule: the next segment lies within its bucket.\<close>

lemma fill_segment:
  assumes "current < e" "0 < b"
  defines "k \<equiv> floor_bucket_start current b"
  defines "se \<equiv> min (k + b * 1000000) e"
  shows "k \<le> current" "current < se" "se \<le> e" "se \<le> k + b * 1000000"
    and "fill_buckets b current e rows =
           fill_buckets b se e (add_total k (total_seconds (se - current)) rows)"
  using floor_bucket_start_bounds [of b current] assms
  by (auto simp: k_def se_def fill_buckets.simps [of b current] Let_def)

lemma fill_ok:
  "rows_ok b current rows \<Longrightarrow> 0 < b \<Longrightarrow> current \<le> e \<Longrightarrow>
     rows_ok b e (fill_buckets b current e rows) \<and>
     row_sum (fill_buckets b current e rows) = row_sum rows + total_seconds (e - current)"
proof (induction b current e rows rule: fill_buckets.induct)
  case (1 b current e rows)
  show ?case
  proof (cases "current < e")
    case True
    let ?k = "floor_bucket_start current b" and ?se = "min (floor_bucket_start current b + b * 1000000) e"
    note seg = fill_segment [OF True \<open>0 < b\<close>]
    have "rows_ok b ?se (add_total ?k (total_seconds (?se - current)) rows)"
      by (rule rows_ok_add [OF "1.prems"(1) order_refl seg(2) "1.prems"(2) floor_aligned
            seg(1) seg(4)])
    with 1 True seg(3) show ?thesis
      by (simp add: seg(5) row_sum_add total_seconds_diff Let_def)
  next
    case False
    with 1 have "current = e" by simp
    with 1 show ?thesis by (simp add: fill_buckets.simps [of b e])
  qed
qed

lemma aligned_cases:
  assumes "(B::int) dvd k" "B dvd f" "0 < B"
  shows "k = f \<or> f + B \<le> k \<or> k + B \<le> f"
proof -
  from assms obtain i j where ij: "k = B * i" "f = B * j" by (auto elim!: dvdE)
  consider "i = j" | "j + 1 \<le> i" | "i + 1 \<le> j" by linarith
  then show ?thesis
  proof cases
    case 2
    then have "B * (j + 1) \<le> B * i" using assms(3) by (intro mult_left_mono) auto
    with ij show ?thesis by (simp add: algebra_simps)
  next
    case 3
    then have "B * (i + 1) \<le> B * j" using assms(3) by (intro mult_left_mono) auto
    with ij show ?thesis by (simp add: algebra_simps)
  qed (simp add: ij)
qed

lemma fill_row_seconds:
  "0 < b \<Longrightarrow> (b * 1000000) dvd k \<Longrightarrow>
     row_seconds (fill_buckets b current e rows) k =
       row_seconds rows k + total_seconds (shared b current e k)"
proof (induction b current e rows rule: fill_buckets.induct)
  case (1 b current e rows)
  show ?case
  proof (cases "current < e")
    case True
    let ?f = "floor_bucket_start current b" and ?se = "min (floor_bucket_start current b + b * 1000000) e"
    note seg = fill_segment [OF True \<open>0 < b\<close>]
    have "k = ?f \<or> ?f + b * 1000000 \<le> k \<or> k + b * 1000000 \<le> ?f"
      using aligned_cases [OF "1.prems"(2) floor_aligned] "1.prems"(1) by simp
    then have "shared b current e k = (if k = ?f then ?se - current else 0) + shared b ?se e k"
      using seg(1-4) True "1.prems"(1) by (auto simp: shared_def max_def min_def)
    then show ?thesis
      using 1 True by (auto simp: seg(5) row_seconds_add total_seconds_add Let_def)
  next
    case False
    then show ?thesis by (simp add: fill_buckets.simps [of b current] shared_def)
  qed
qed

subsection \<open>The whole distribution\<close>

definition clip_start :: "int \<Rightarrow> observed_span \<Rightarrow> int" where
  "clip_start ws s = max (micros (os_start_at s)) ws"

definition clip_end :: "int \<Rightarrow> observed_span \<Rightarrow> int" where
  "clip_end we s = min (micros (os_end_at s)) we"

definition clipped_total :: "int \<Rightarrow> int \<Rightarrow> observed_span list \<Rightarrow> rat" where
  "clipped_total ws we ss =
     sum_list (map (\<lambda>s. total_seconds (max 0 (clip_end we s - clip_start ws s))) ss)"

definition shared_total :: "int \<Rightarrow> int \<Rightarrow> int \<Rightarrow> observed_span list \<Rightarrow> int \<Rightarrow> rat" where
  "shared_total b ws we ss k =
     sum_list (map (\<lambda>s. total_seconds (shared b (clip_start ws s) (clip_end we s) k)) ss)"

lemma rows_ok_Nil [simp]: "rows_ok b e []"
  by (simp add: rows_ok_def)

lemma distribute_span_clip:
  "distribute_span ws we b acc s =
     (if clip_end we s \<le> clip_start ws s then acc
      else \<lparr>sa_totals = fill_buckets b (clip_start ws s) (clip_end we s) (sa_totals acc),
            sa_in_window = sa_in_window acc + total_seconds (clip_end we s - clip_start ws s),
            sa_contributing = sa_contributing acc + 1\<rparr>)"
  unfolding distribute_span_def clip_start_def clip_end_def Let_def by (rule refl)

lemma distribute_one:
  fixes ws we :: int
  assumes "0 < b" "rows_ok b p (sa_totals acc)" "p \<le> micros (os_start_at s)"
    and "micros (os_start_at s) < micros (os_end_at s)"
    and "row_sum (sa_totals acc) = sa_in_window acc"
  defines "acc' \<equiv> distribute_span ws we b acc s"
  shows "rows_ok b (micros (os_end_at s)) (sa_totals acc')"
    and "row_sum (sa_totals acc') = sa_in_window acc'"
    and "sa_in_window acc' = sa_in_window acc + clipped_total ws we [s]"
    and "(b * 1000000) dvd k \<Longrightarrow>
      row_seconds (sa_totals acc') k = row_seconds (sa_totals acc) k + shared_total b ws we [s] k"
proof -
  let ?cs = "clip_start ws s" and ?ce = "clip_end we s"
  have cs: "p \<le> ?cs" and ce: "?ce \<le> micros (os_end_at s)"
    using assms(3) by (auto simp: clip_start_def clip_end_def)
  have "rows_ok b (micros (os_end_at s)) (sa_totals acc')
    \<and> row_sum (sa_totals acc') = sa_in_window acc'
    \<and> sa_in_window acc' = sa_in_window acc + clipped_total ws we [s]
    \<and> ((b * 1000000) dvd k \<longrightarrow>
      row_seconds (sa_totals acc') k = row_seconds (sa_totals acc) k + shared_total b ws we [s] k)"
  proof (cases "?cs < ?ce")
    case True
    then have e: "acc' = \<lparr>sa_totals = fill_buckets b ?cs ?ce (sa_totals acc),
        sa_in_window = sa_in_window acc + total_seconds (?ce - ?cs),
        sa_contributing = sa_contributing acc + 1\<rparr>"
      by (simp add: acc'_def distribute_span_clip)
    have "rows_ok b ?cs (sa_totals acc)" using assms(2) cs by (rule rows_ok_mono)
    from fill_ok [OF this assms(1), of ?ce] True assms(1,5) show ?thesis
      by (auto simp: e clipped_total_def shared_total_def fill_row_seconds
          intro: rows_ok_mono [OF _ ce])
  next
    case False
    then have "acc' = acc"
      by (simp add: acc'_def distribute_span_clip)
    moreover have "shared b (clip_start ws s) (clip_end we s) k = 0"
      "max 0 (clip_end we s - clip_start ws s) = 0"
      using False unfolding shared_def by linarith+
    ultimately show ?thesis
      using assms(2,5) rows_ok_mono [OF assms(2), of "micros (os_end_at s)"] assms(3,4)
      by (simp add: clipped_total_def shared_total_def)
  qed
  then show "rows_ok b (micros (os_end_at s)) (sa_totals acc')"
    and "row_sum (sa_totals acc') = sa_in_window acc'"
    and "sa_in_window acc' = sa_in_window acc + clipped_total ws we [s]"
    and "(b * 1000000) dvd k \<Longrightarrow>
      row_seconds (sa_totals acc') k = row_seconds (sa_totals acc) k + shared_total b ws we [s] k"
    by blast+
qed

lemma validate_spans_Cons:
  "validate_spans p (s # ss) = Inr () \<longleftrightarrow>
     is_naive (os_start_at s) \<and> is_naive (os_end_at s) \<and>
     micros (os_start_at s) < micros (os_end_at s) \<and> 0 < os_observed_seconds s \<and>
     py_isclose (os_observed_seconds s)
       (total_seconds (micros (os_end_at s) - micros (os_start_at s))) (1 / 1000000000) (1 / 1000000) \<and>
     (\<forall>x. p = Some x \<longrightarrow> x \<le> micros (os_start_at s)) \<and>
     validate_spans (Some (micros (os_end_at s))) ss = Inr ()"
  by (auto simp: validate_utc_naive_def res_simps not_le not_less split: option.splits)

lemma distribute_all:
  fixes ws we :: int
  assumes "validate_spans p ss = Inr ()" "0 < b" "(b * 1000000) dvd k"
    and "\<forall>x. p = Some x \<longrightarrow> rows_ok b x (sa_totals acc)" "p = None \<longrightarrow> sa_totals acc = []"
    and "row_sum (sa_totals acc) = sa_in_window acc"
  defines "acc' \<equiv> foldl (distribute_span ws we b) acc ss"
  shows "(\<exists>e. rows_ok b e (sa_totals acc')) \<and> row_sum (sa_totals acc') = sa_in_window acc' \<and>
    sa_in_window acc' = sa_in_window acc + clipped_total ws we ss \<and>
    row_seconds (sa_totals acc') k = row_seconds (sa_totals acc) k + shared_total b ws we ss k"
  using assms(1,4-6) unfolding acc'_def
proof (induction ss arbitrary: p acc)
  case Nil
  then have "\<exists>e. rows_ok b e (sa_totals acc)" by (cases p) auto
  with Nil show ?case by (simp add: clipped_total_def shared_total_def)
next
  case (Cons s ss)
  let ?acc = "distribute_span ws we b acc s"
  from Cons.prems(1) have v: "micros (os_start_at s) < micros (os_end_at s)"
      "\<forall>x. p = Some x \<longrightarrow> x \<le> micros (os_start_at s)"
      "validate_spans (Some (micros (os_end_at s))) ss = Inr ()"
    by (auto simp: validate_spans_Cons simp del: validate_spans.simps)
  have r: "rows_ok b (micros (os_start_at s)) (sa_totals acc)"
    using Cons.prems(2,3) v(2) by (cases p) (auto intro: rows_ok_mono)
  note one = distribute_one [OF assms(2) r order_refl v(1) Cons.prems(4), where ws = ws and we = we]
  from Cons.IH [OF v(3), of ?acc] one(1-3) one(4) [OF assms(3)] show ?case
    by (simp add: clipped_total_def shared_total_def)
qed

lemma row_seconds_mem: "distinct (map fst rows) \<Longrightarrow> (k, s, n) \<in> set rows \<Longrightarrow> row_seconds rows k = s"
  by (induction rows k rule: row_seconds.induct) force+

lemma row_sum_sort: "sum_list (map (fst \<circ> snd) (sort_key fst rows)) = row_sum rows"
proof -
  have "mset (map (fst \<circ> snd) (sort_key fst rows)) = mset (map (fst \<circ> snd) rows)" by simp
  then show ?thesis unfolding row_sum_def by (metis sum_mset_sum_list)
qed

definition bucket_of_row :: "int \<Rightarrow> int \<times> rat \<times> nat \<Rightarrow> temporal_bucket" where
  "bucket_of_row b row = (case row of (k, observed, n) \<Rightarrow>
     \<lparr>tb_bucket_start = k, tb_bucket_end = k + b * 1000000,
      tb_observed_seconds = observed, tb_contributing_span_count = n\<rparr>)"

lemma rows_ok_row:
  assumes "rows_ok b e rows" "(k, s, n) \<in> set rows"
  shows "0 < s" "s \<le> of_int b" "(b * 1000000) dvd k"
proof -
  have "s \<le> total_seconds (min (e - k) (b * 1000000))" "0 < s" "(b * 1000000) dvd k"
    using assms by (auto simp: rows_ok_def)
  moreover have "total_seconds (min (e - k) (b * 1000000)) \<le> total_seconds (b * 1000000)" by simp
  moreover have "total_seconds (b * 1000000) = of_int b" by (simp add: total_seconds_def)
  ultimately show "0 < s" "s \<le> of_int b" "(b * 1000000) dvd k" by linarith+
qed

lemma row_seconds_pos: "0 < row_seconds rows k \<Longrightarrow> k \<in> fst ` set rows"
  by (induction rows k rule: row_seconds.induct) (auto split: if_splits)

text \<open>A bucket that shares time with the clipped spans overlaps the window.\<close>

lemma shared_overlaps:
  assumes "0 < shared_total b ws we ss k"
  shows "k < we" "ws < k + b * 1000000"
proof -
  have "\<exists>s \<in> set ss. 0 < shared b (clip_start ws s) (clip_end we s) k"
  proof (rule ccontr)
    assume "\<not> ?thesis"
    then have "shared b (clip_start ws s) (clip_end we s) k = 0" if "s \<in> set ss" for s
      using that by (force simp: shared_def)
    then have "map (\<lambda>s. total_seconds (shared b (clip_start ws s) (clip_end we s) k)) ss = map (\<lambda>s. 0) ss" by simp
    with assms show False by (simp add: shared_total_def)
  qed
  then show "k < we" "ws < k + b * 1000000" by (auto simp: shared_def clip_start_def clip_end_def)
qed

lemma build_buckets_ok:
  assumes "rows_ok b e rows"
  shows "mapE (build_bucket b) (sort_key fst rows) = Inr (map (bucket_of_row b) (sort_key fst rows))"
proof (rule mapE_all_ok)
  fix row assume "row \<in> set (sort_key fst rows)"
  then obtain k s n where "row = (k, s, n)" "(k, s, n) \<in> set rows"
    by (metis prod_cases3 set_sort)
  with rows_ok_row [OF assms this(2)] show "build_bucket b row = Inr (bucket_of_row b row)"
    by (simp add: build_bucket_def bucket_of_row_def)
qed

lemma bucketing_correct_total:
  assumes "validate_window ws we = Inr ()" and "validate_bucket_seconds bs = Inr ()"
    and "validate_spans None spans = Inr ()"
  defines "b \<equiv> int_val bs"
  shows "\<exists>r. bucket_observed_time spans ws we bs = Inr r
    \<and> sorted_wrt (<) (map tb_bucket_start (bk_buckets r))
    \<and> (\<forall>x \<in> set (bk_buckets r). (b * 1000000) dvd tb_bucket_start x
         \<and> tb_bucket_end x = tb_bucket_start x + b * 1000000
         \<and> tb_bucket_start x < micros we \<and> micros ws < tb_bucket_end x
         \<and> 0 < tb_observed_seconds x \<and> tb_observed_seconds x \<le> of_int b
         \<and> tb_observed_seconds x = shared_total b (micros ws) (micros we) spans (tb_bucket_start x))
    \<and> (\<forall>k. (b * 1000000) dvd k \<longrightarrow> 0 < shared_total b (micros ws) (micros we) spans k \<longrightarrow>
         k \<in> tb_bucket_start ` set (bk_buckets r))
    \<and> bm_bucketed_observed_seconds (bk_metadata r) = clipped_total (micros ws) (micros we) spans
    \<and> bm_in_window_observed_seconds (bk_metadata r) = clipped_total (micros ws) (micros we) spans"
proof -
  let ?acc = "foldl (distribute_span (micros ws) (micros we) b)
      \<lparr>sa_totals = [], sa_in_window = 0, sa_contributing = 0\<rparr> spans"
  let ?rows = "sort_key fst (sa_totals ?acc)"
  have b: "0 < b" using assms(2) by (simp add: validate_bucket_seconds_def b_def res_simps)
  note all = distribute_all [OF assms(3) b, of _ "\<lparr>sa_totals = [], sa_in_window = 0,
      sa_contributing = 0\<rparr>" "micros ws" "micros we"]
  from all [of 0] obtain e where rows: "rows_ok b e (sa_totals ?acc)"
    and total: "row_sum (sa_totals ?acc) = sa_in_window ?acc"
      "sa_in_window ?acc = clipped_total (micros ws) (micros we) spans"
    by (auto simp: row_sum_def)
  have dist: "distinct (map fst (sa_totals ?acc))" using rows by (simp add: rows_ok_def)
  let ?bks = "map (bucket_of_row b) ?rows"
  have "map tb_observed_seconds ?bks = map (fst \<circ> snd) ?rows"
    by (simp add: bucket_of_row_def split: prod.split)
  then have sum: "sum_list (map tb_observed_seconds ?bks) = sa_in_window ?acc"
    using row_sum_sort [of "sa_totals ?acc"] total by metis
  have starts: "map tb_bucket_start ?bks = map fst ?rows"
    by (simp add: bucket_of_row_def split: prod.split)
  have "distinct (map fst ?rows)"
    using dist by (metis distinct_map distinct_sort set_sort)
  then have sorted: "sorted_wrt (<) (map tb_bucket_start ?bks)"
    unfolding starts by (simp add: strict_sorted_iff)
  have each: "(b * 1000000) dvd tb_bucket_start x \<and> tb_bucket_end x = tb_bucket_start x + b * 1000000
      \<and> tb_bucket_start x < micros we \<and> micros ws < tb_bucket_end x
      \<and> 0 < tb_observed_seconds x \<and> tb_observed_seconds x \<le> of_int b
      \<and> tb_observed_seconds x = shared_total b (micros ws) (micros we) spans (tb_bucket_start x)"
    if "x \<in> set ?bks" for x
  proof -
    from that obtain k s n where x: "x = bucket_of_row b (k, s, n)" "(k, s, n) \<in> set (sa_totals ?acc)"
      by auto
    note row = rows_ok_row [OF rows x(2)]
    have "row_seconds (sa_totals ?acc) k = shared_total b (micros ws) (micros we) spans k"
      using all [OF row(3)] by (simp add: row_sum_def)
    with row_seconds_mem [OF dist x(2)] have s: "s = shared_total b (micros ws) (micros we) spans k" by simp
    from shared_overlaps [OF row(1) [unfolded s]] row s show ?thesis by (simp add: x(1) bucket_of_row_def)
  qed
  have every: "k \<in> tb_bucket_start ` set ?bks"
    if "(b * 1000000) dvd k" "0 < shared_total b (micros ws) (micros we) spans k" for k
  proof -
    have "row_seconds (sa_totals ?acc) k = shared_total b (micros ws) (micros we) spans k"
      using all [OF that(1)] by (simp add: row_sum_def)
    with row_seconds_pos [of "sa_totals ?acc" k] that(2) have "k \<in> set (map fst ?rows)" by simp
    then show ?thesis unfolding starts [symmetric] set_map .
  qed
  obtain r where "bucket_observed_time spans ws we bs = Inr r" "bk_buckets r = ?bks"
    "bm_bucketed_observed_seconds (bk_metadata r) = clipped_total (micros ws) (micros we) spans"
    "bm_in_window_observed_seconds (bk_metadata r) = clipped_total (micros ws) (micros we) spans"
    using assms(1-3) sum total
    by (simp add: bucket_observed_time_def Let_def build_buckets_ok [OF rows] b_def [symmetric])
  with sorted each every show ?thesis by (intro exI [of _ r]) (simp only: ball_simps, blast)
qed

subsection \<open>Properties\<close>

text \<open>
  Property C17. Valid arguments always produce a result: neither the bucket guard nor the
  final consistency check of the code ever fires.  The buckets come in strictly increasing
  order, aligned to the epoch and with the requested width, so the first may start before the
  window and the last may end after it, but each overlaps the window; each holds a positive time
  of at most its width, which is exactly the time the clipped spans share with it, and every
  aligned bucket that shares time with them is there; together they hold the whole time of the
  spans inside the window.
\<close>
theorem bucketing_correct:
  assumes "validate_window ws we = Inr ()" and "validate_bucket_seconds bs = Inr ()"
    and "validate_spans None spans = Inr ()"
  defines "b \<equiv> int_val bs"
  shows "\<exists>r. bucket_observed_time spans ws we bs = Inr r
    \<and> sorted_wrt (<) (map tb_bucket_start (bk_buckets r))
    \<and> (\<forall>x \<in> set (bk_buckets r). (b * 1000000) dvd tb_bucket_start x
         \<and> tb_bucket_end x = tb_bucket_start x + b * 1000000
         \<and> tb_bucket_start x < micros we \<and> micros ws < tb_bucket_end x
         \<and> 0 < tb_observed_seconds x \<and> tb_observed_seconds x \<le> of_int b
         \<and> tb_observed_seconds x = shared_total b (micros ws) (micros we) spans (tb_bucket_start x))
    \<and> (\<forall>k. (b * 1000000) dvd k \<longrightarrow> 0 < shared_total b (micros ws) (micros we) spans k \<longrightarrow>
         k \<in> tb_bucket_start ` set (bk_buckets r))
    \<and> bm_bucketed_observed_seconds (bk_metadata r) = clipped_total (micros ws) (micros we) spans
    \<and> bm_in_window_observed_seconds (bk_metadata r) = clipped_total (micros ws) (micros we) spans"
  using bucketing_correct_total [OF assms(1-3)] unfolding b_def .

theorem bucketing_correct_witness:
  "\<exists>r. bucket_observed_time
       [\<lparr>os_start_at = Naive 300000000, os_end_at = Naive 900000000, os_observed_seconds = 600\<rparr>,
        \<lparr>os_start_at = Naive 1000000000, os_end_at = Naive 4000000000, os_observed_seconds = 3000\<rparr>]
       (Naive 0) (Naive 3600000000) (PyInt 600) = Inr r
     \<and> bm_in_window_observed_seconds (bk_metadata r) = 3200"
proof -
  let ?s = "[\<lparr>os_start_at = Naive 300000000, os_end_at = Naive 900000000, os_observed_seconds = 600\<rparr>,
      \<lparr>os_start_at = Naive 1000000000, os_end_at = Naive 4000000000, os_observed_seconds = 3000\<rparr>]
      :: observed_span list"
  have w: "validate_window (Naive 0) (Naive 3600000000) = Inr ()" by code_simp
  have b: "validate_bucket_seconds (PyInt 600) = Inr ()" by code_simp
  have s: "validate_spans None ?s = Inr ()" by code_simp
  have c: "clipped_total (micros (Naive 0)) (micros (Naive 3600000000)) ?s = 3200" by code_simp
  show ?thesis using bucketing_correct [OF w b s] unfolding c by blast
qed

subsection \<open>From observations to buckets\<close>

lemma continuous_spans_validate:
  assumes "\<forall>a \<in> set as. is_naive (ta_start_at a) \<and> is_naive (ta_end_at a) \<and>
      ta_delta_seconds a = total_seconds (micros (ta_end_at a) - micros (ta_start_at a))"
    and "sorted_wrt (\<lambda>a a'. micros (ta_end_at a) \<le> micros (ta_start_at a')) as"
    and "\<forall>x. p = Some x \<longrightarrow> (\<forall>a \<in> set as. x \<le> micros (ta_start_at a))"
  shows "validate_spans p (continuous_spans as) = Inr ()"
  using assms
proof (induction as arbitrary: p)
  case (Cons a as)
  show ?case
  proof (cases "ta_status a = CONTINUOUS \<and> 0 < ta_delta_seconds a")
    case True
    have "validate_spans (Some (micros (ta_end_at a))) (continuous_spans as) = Inr ()"
      using Cons by auto
    with True Cons.prems show ?thesis
      by (simp add: continuous_spans_def validate_spans_Cons span_of_def del: validate_spans.simps)
  next
    case False
    then have "continuous_spans (a # as) = continuous_spans as"
      by (auto simp: continuous_spans_def)
    with Cons show ?thesis by simp
  qed
qed (simp add: continuous_spans_def)

lemma analysis_spans_validate:
  assumes "analyze_temporal_continuity ts c = Inr out"
  shows "validate_spans None (continuous_spans out) = Inr ()"
proof (rule continuous_spans_validate)
  from assms have n: "\<forall>t \<in> set ts. is_naive t" and so: "sorted (map micros ts)"
    and out: "out = map (assess_at c ts (timestamp_deltas ts)) [0..<length ts - 1]"
    by (auto simp: analyze_ok_iff)
  show "\<forall>a \<in> set out. is_naive (ta_start_at a) \<and> is_naive (ta_end_at a) \<and>
      ta_delta_seconds a = total_seconds (micros (ta_end_at a) - micros (ta_start_at a))"
    using n by (auto simp: out)
  have "micros (ts ! Suc i) \<le> micros (ts ! j)" if "i < j" "j < length ts - 1" for i j
    using so that by (auto simp: sorted_iff_nth_mono)
  then show "sorted_wrt (\<lambda>a a'. micros (ta_end_at a) \<le> micros (ta_start_at a')) out"
    by (simp add: out sorted_wrt_iff_nth_less)
qed simp

text \<open>
  The three stages compose: for any observations the analysis accepts and any
  valid window and bucket size, the totals and the buckets are computed without an error, and
  the time in the buckets is at most the observed time.
\<close>
theorem analytics_pipeline_total:
  assumes "analyze_temporal_continuity ts c = Inr out"
    and "validate_window ws we = Inr ()" and "validate_bucket_seconds bs = Inr ()"
  shows "\<exists>r k. calculate_observed_time out = Inr r \<and>
    bucket_observed_time (or_spans r) ws we bs = Inr k \<and>
    bm_bucketed_observed_seconds (bk_metadata k) \<le> om_observed_seconds (or_metadata r)"
proof -
  have valid: "\<forall>a \<in> set out. validate_assessment a = Inr ()"
    using analysis_is_valid [OF assms(1)] by blast
  then have nn: "\<forall>a \<in> set out. 0 \<le> ta_delta_seconds a" using validate_assessment_nonneg by blast
  have spans: "validate_spans None (continuous_spans out) = Inr ()"
    by (rule analysis_spans_validate [OF assms(1)])
  from valid obtain r where r: "calculate_observed_time out = Inr r" using observed_ok_iff by blast
  then have sp: "or_spans r = continuous_spans out"
    and om: "om_observed_seconds (or_metadata r) = status_seconds CONTINUOUS out"
    by (auto simp: calculate_observed_time_def res_simps observe_loop_result observed_start_def)
  have delta: "ta_delta_seconds a = total_seconds (micros (ta_end_at a) - micros (ta_start_at a))"
    if "a \<in> set out" for a
    using assms(1) that by (auto simp: analyze_ok_iff)
  have "total_seconds (max 0 (clip_end (micros we) s - clip_start (micros ws) s)) \<le> os_observed_seconds s"
    if "s \<in> set (continuous_spans out)" for s
  proof -
    from that obtain a where a: "a \<in> set out" "s = span_of a" "0 < ta_delta_seconds a"
      by (auto simp: continuous_spans_def)
    with delta [OF a(1)] have "max 0 (clip_end (micros we) s - clip_start (micros ws) s)
        \<le> micros (ta_end_at a) - micros (ta_start_at a)"
      by (simp add: clip_start_def clip_end_def span_of_def)
    with delta [OF a(1)] a(2) show ?thesis by (simp add: span_of_def)
  qed
  then have "clipped_total (micros ws) (micros we) (continuous_spans out) \<le>
      sum_list (map os_observed_seconds (continuous_spans out))"
    unfolding clipped_total_def by (intro sum_list_mono)
  with bucketing_correct_total [OF assms(2,3) spans] r sp om continuous_spans_total [OF nn]
  show ?thesis by auto
qed

theorem analytics_pipeline_total_witness:
  "\<exists>r k. calculate_observed_time sample_analysis = Inr r \<and>
    bucket_observed_time (or_spans r) (Naive 0) (Naive 86400000000) (PyInt 3600) = Inr k"
proof -
  have w: "validate_window (Naive 0) (Naive 86400000000) = Inr ()" by code_simp
  have b: "validate_bucket_seconds (PyInt 3600) = Inr ()" by code_simp
  show ?thesis using analytics_pipeline_total [OF sample_analysis_ok w b] by blast
qed

end
