(* ===== verification/Py_Text.thy ===== *)
theory Py_Text
  imports TLRS_Prelude
begin

text \<open>
  The string methods, \<open>struct\<close> fields and base64 functions of the Python standard library
  that the backend uses, with the round trips between packing and unpacking.
\<close>

subsection \<open>Strings\<close>

definition py_isspace :: "char \<Rightarrow> bool" where
  "py_isspace c = (let n = (of_char c :: nat) in
     (9 \<le> n \<and> n \<le> 13) \<or> (28 \<le> n \<and> n \<le> 32) \<or> n = 133 \<or> n = 160)"

definition py_lower_char :: "char \<Rightarrow> char" where
  "py_lower_char c = (let n = (of_char c :: nat) in
     if (65 \<le> n \<and> n \<le> 90) \<or> (192 \<le> n \<and> n \<le> 222 \<and> n \<noteq> 215) then char_of (n + 32) else c)"

definition py_lower :: "string \<Rightarrow> string" where "py_lower = map py_lower_char"

text \<open>Upper case; the code points 181, 223 and 255, whose upper case lies outside, stay as they are.\<close>

definition py_upper_char :: "char \<Rightarrow> char" where
  "py_upper_char c = (let n = (of_char c :: nat) in
     if (97 \<le> n \<and> n \<le> 122) \<or> (224 \<le> n \<and> n \<le> 254 \<and> n \<noteq> 247) then char_of (n - 32) else c)"

definition py_upper :: "string \<Rightarrow> string" where "py_upper = map py_upper_char"

definition py_strip :: "string \<Rightarrow> string" where
  "py_strip s = rev (dropWhile py_isspace (rev (dropWhile py_isspace s)))"

text \<open>\<open>"".join(s.split())\<close>: the string without its white space.\<close>

definition py_compact :: "string \<Rightarrow> string" where
  "py_compact s = filter (\<lambda>c. \<not> py_isspace c) s"

definition normalize_eui_text :: "string \<Rightarrow> string" where
  "normalize_eui_text s = py_lower (py_compact s)"

fun split_on :: "char \<Rightarrow> string \<Rightarrow> string list" where
  "split_on c [] = [[]]"
| "split_on c (x # xs) =
     (if x = c then [] # split_on c xs
      else (case split_on c xs of [] \<Rightarrow> [[x]] | p # ps \<Rightarrow> (x # p) # ps))"

fun nat_digits :: "nat \<Rightarrow> string" where
  "nat_digits n = (if n < 10 then [char_of (48 + n)]
     else nat_digits (n div 10) @ [char_of (48 + n mod 10)])"

declare nat_digits.simps [simp del]

definition py_str_int :: "int \<Rightarrow> string" where
  "py_str_int i = (if i < 0 then ''-'' @ nat_digits (nat (- i)) else nat_digits (nat i))"

lemma split_on_nonempty [simp]: "split_on c s \<noteq> []"
  by (induction s) (auto split: list.split)

lemma split_on_no_sep: "c \<notin> set s \<Longrightarrow> split_on c s = [s]"
  by (induction s) auto

lemma split_on_append: "c \<notin> set s \<Longrightarrow> split_on c (s @ c # t) = s # split_on c t"
  by (induction s) auto

lemma py_strip_Nil [simp]: "py_strip [] = []"
  by (simp add: py_strip_def)

lemma dropWhile_idem: "dropWhile P (dropWhile P xs) = dropWhile P xs"
  by (induction xs) auto

lemma hd_dropWhile_rev:
  assumes "xs = [] \<or> \<not> P (hd xs)"
  shows "rev (dropWhile P (rev xs)) = [] \<or> \<not> P (hd (rev (dropWhile P (rev xs))))"
proof (cases xs)
  case (Cons a as)
  then have "\<not> P a" using assms by simp
  then show ?thesis by (cases "\<forall>x \<in> set as. P x") (auto simp: Cons dropWhile_append)
qed simp

lemma dropWhile_id: "xs = [] \<or> \<not> P (hd xs) \<Longrightarrow> dropWhile P xs = xs"
  by (cases xs) auto

lemma py_strip_idem [simp]: "py_strip (py_strip s) = py_strip s"
proof -
  let ?f = "dropWhile py_isspace"
  have "?f s = [] \<or> \<not> py_isspace (hd (?f s))" by (induction s) auto
  from hd_dropWhile_rev [where P = py_isspace, OF this] have "?f (rev (?f (rev (?f s)))) = rev (?f (rev (?f s)))"
    by (rule dropWhile_id)
  then show ?thesis by (simp add: py_strip_def dropWhile_idem)
qed

lemma set_py_strip: "set (py_strip s) \<subseteq> set s"
proof -
  have "set (dropWhile py_isspace xs) \<subseteq> set xs" for xs
    by (auto dest: set_dropWhileD)
  then show ?thesis unfolding py_strip_def by (metis order_trans set_rev)
qed

lemma py_isspace_lower [simp]: "py_isspace (py_lower_char c) \<longleftrightarrow> py_isspace c"
  by (auto simp: py_isspace_def py_lower_char_def Let_def)

lemma py_lower_char_idem [simp]: "py_lower_char (py_lower_char c) = py_lower_char c"
  by (auto simp: py_lower_char_def Let_def)

lemma py_lower_idem [simp]: "py_lower (py_lower s) = py_lower s"
  by (simp add: py_lower_def)

lemma py_compact_lower: "py_compact (py_lower s) = py_lower (py_compact s)"
  by (induction s) (auto simp: py_compact_def py_lower_def)

lemma py_compact_idem [simp]: "py_compact (py_compact s) = py_compact s"
  by (simp add: py_compact_def)

lemma normalize_eui_idem [simp]: "normalize_eui_text (normalize_eui_text s) = normalize_eui_text s"
  by (simp add: normalize_eui_text_def py_compact_lower)

subsection \<open>Bytes\<close>

type_synonym byte = "8 word"

definition u8_at :: "byte list \<Rightarrow> nat \<Rightarrow> int" where "u8_at p i = uint (p ! i)"

definition u16_at :: "byte list \<Rightarrow> nat \<Rightarrow> int" where
  "u16_at p i = u8_at p i * 256 + u8_at p (i + 1)"

definition u32_at :: "byte list \<Rightarrow> nat \<Rightarrow> int" where
  "u32_at p i = u16_at p i * 65536 + u16_at p (i + 2)"

definition s16_at :: "byte list \<Rightarrow> nat \<Rightarrow> int" where
  "s16_at p i = (let u = u16_at p i in if u < 32768 then u else u - 65536)"

definition s32_at :: "byte list \<Rightarrow> nat \<Rightarrow> int" where
  "s32_at p i = (let u = u32_at p i in if u < 2147483648 then u else u - 4294967296)"

definition pack_u8 :: "int \<Rightarrow> byte list" where "pack_u8 n = [word_of_int n]"

definition pack_16 :: "int \<Rightarrow> byte list" where
  "pack_16 n = [word_of_int (n div 256), word_of_int n]"

definition pack_32 :: "int \<Rightarrow> byte list" where
  "pack_32 n = pack_16 (n div 65536) @ pack_16 n"

lemma uint_byte: "uint (word_of_int n :: byte) = n mod 256"
  by (simp add: uint_word_of_int)

lemma uint_byte_bounds: "0 \<le> uint (b :: byte)" "uint (b :: byte) < 256"
  using uint_lt2p [of b] by (simp_all add: uint_ge_0)

lemma u8_bounds: "0 \<le> u8_at p i" "u8_at p i < 256"
  by (simp_all add: u8_at_def uint_byte_bounds)

lemma u16_bounds: "0 \<le> u16_at p i" "u16_at p i < 65536"
  using u8_bounds [of p i] u8_bounds [of p "i + 1"] by (simp_all add: u16_at_def)

lemma u32_bounds: "0 \<le> u32_at p i" "u32_at p i < 4294967296"
  using u16_bounds [of p i] u16_bounds [of p "i + 2"] by (simp_all add: u32_at_def)

lemma s16_bounds: "- 32768 \<le> s16_at p i" "s16_at p i < 32768"
  using u16_bounds [of p i] by (auto simp: s16_at_def Let_def)

lemma s32_bounds: "- 2147483648 \<le> s32_at p i" "s32_at p i < 2147483648"
  using u32_bounds [of p i] by (auto simp: s32_at_def Let_def)

lemma u16_of_bytes: "(n div 256) mod 256 * 256 + n mod 256 = n mod (65536::int)"
  using zmod_zmult2_eq [of 256 n 256] by simp

lemma u32_of_halves: "(n div 65536) mod 65536 * 65536 + n mod 65536 = n mod (4294967296::int)"
  using zmod_zmult2_eq [of 65536 n 65536] by simp

lemma length_pack [simp]:
  "length (pack_u8 n) = 1" "length (pack_16 n) = 2" "length (pack_32 n) = 4"
  by (simp_all add: pack_u8_def pack_16_def pack_32_def)

text \<open>Reading a field back at its offset.\<close>

lemma u8_at_pack:
  "length a = i \<Longrightarrow> u8_at (a @ pack_u8 n @ z) i = n mod 256"
  by (auto simp: u8_at_def pack_u8_def nth_append uint_byte)

lemma u16_at_pack:
  "length a = i \<Longrightarrow> u16_at (a @ pack_16 n @ z) i = n mod 65536"
  by (auto simp: u16_at_def u8_at_def pack_16_def nth_append uint_byte u16_of_bytes)

lemma u32_at_pack:
  assumes "length a = i"
  shows "u32_at (a @ pack_32 n @ z) i = n mod 4294967296"
proof -
  have "u16_at (a @ pack_16 (n div 65536) @ (pack_16 n @ z)) i = (n div 65536) mod 65536"
    using assms by (rule u16_at_pack)
  moreover have "u16_at ((a @ pack_16 (n div 65536)) @ pack_16 n @ z) (i + 2) = n mod 65536"
    using assms by (intro u16_at_pack) simp
  ultimately show ?thesis by (simp add: u32_at_def pack_32_def u32_of_halves)
qed

lemma mod_of_negative: "- m \<le> n \<Longrightarrow> n < 0 \<Longrightarrow> n mod m = n + (m::int)"
proof -
  assume "- m \<le> n" "n < 0"
  then have "(n + m) mod m = n + m" by (intro mod_pos_pos_trivial) auto
  then show ?thesis by simp
qed

lemma s16_at_pack:
  assumes "length a = i" "- 32768 \<le> n" "n < 32768"
  shows "s16_at (a @ pack_16 n @ z) i = n"
proof (cases "0 \<le> n")
  case False
  then show ?thesis using assms mod_of_negative [of 65536 n]
    by (simp add: s16_at_def u16_at_pack Let_def)
qed (use assms in \<open>simp add: s16_at_def u16_at_pack Let_def\<close>)

lemma s32_at_pack:
  assumes "length a = i" "- 2147483648 \<le> n" "n < 2147483648"
  shows "s32_at (a @ pack_32 n @ z) i = n"
proof (cases "0 \<le> n")
  case False
  then show ?thesis using assms mod_of_negative [of 4294967296 n]
    by (simp add: s32_at_def u32_at_pack Let_def)
qed (use assms in \<open>simp add: s32_at_def u32_at_pack Let_def\<close>)

text \<open>Fields are read through the concatenation that packs them.\<close>

lemma at_skip [byte_simps]:
  assumes "length a \<le> i"
  shows "u8_at (a @ z) i = u8_at z (i - length a)" "u16_at (a @ z) i = u16_at z (i - length a)"
    "u32_at (a @ z) i = u32_at z (i - length a)" "s16_at (a @ z) i = s16_at z (i - length a)"
    "s32_at (a @ z) i = s32_at z (i - length a)"
  using assms
  by (simp_all add: u8_at_def u16_at_def u32_at_def s16_at_def s32_at_def nth_append Suc_diff_le
      numeral_2_eq_2)

lemma at_head [byte_simps]:
  "u8_at (pack_u8 n @ z) 0 = n mod 256" "u8_at (pack_u8 n) 0 = n mod 256"
  "u16_at (pack_16 n @ z) 0 = n mod 65536" "u16_at (pack_16 n) 0 = n mod 65536"
  "- 32768 \<le> n \<Longrightarrow> n < 32768 \<Longrightarrow> s16_at (pack_16 n @ z) 0 = n"
  "- 2147483648 \<le> n \<Longrightarrow> n < 2147483648 \<Longrightarrow> s32_at (pack_32 n @ z) 0 = n"
  using u8_at_pack [of "[]" 0 n z] u8_at_pack [of "[]" 0 n "[]"]
    u16_at_pack [of "[]" 0 n z] u16_at_pack [of "[]" 0 n "[]"]
    s16_at_pack [of "[]" 0 n z] s32_at_pack [of "[]" 0 n z]
  by simp_all

subsection \<open>Base64\<close>

definition b64_alphabet :: string where
  "b64_alphabet = ''ABCDEFGHIJKLMNOPQRSTUVWXYZabcdefghijklmnopqrstuvwxyz0123456789+/''"

definition b64_char :: "nat \<Rightarrow> char" where "b64_char i = b64_alphabet ! i"

fun position :: "'a \<Rightarrow> 'a list \<Rightarrow> nat option" where
  "position x [] = None"
| "position x (y # ys) = (if x = y then Some 0 else map_option Suc (position x ys))"

definition b64_val :: "char \<Rightarrow> nat option" where "b64_val c = position c b64_alphabet"

fun b64encode :: "byte list \<Rightarrow> string" where
  "b64encode [] = []"
| "b64encode [a] = (let n = unat a * 16 in [b64_char (n div 64), b64_char (n mod 64), CHR ''='', CHR ''=''])"
| "b64encode [a, b] = (let n = (unat a * 256 + unat b) * 4 in
     [b64_char (n div 4096), b64_char (n div 64 mod 64), b64_char (n mod 64), CHR ''=''])"
| "b64encode (a # b # c # bs) = (let n = unat a * 65536 + unat b * 256 + unat c in
     [b64_char (n div 262144), b64_char (n div 4096 mod 64), b64_char (n div 64 mod 64), b64_char (n mod 64)]
     @ b64encode bs)"

text \<open>
  \<open>base64.b64decode(data, validate=True)\<close>: only alphabet characters, in groups of four, the
  last of which may end in one or two padding characters; the unused low bits of a padded
  group are ignored.  \<open>None\<close> is \<open>binascii.Error\<close>.
\<close>

definition b64_quad :: "char \<Rightarrow> char \<Rightarrow> char \<Rightarrow> char \<Rightarrow> byte list option" where
  "b64_quad c1 c2 c3 c4 =
     (case (b64_val c1, b64_val c2, b64_val c3, b64_val c4) of
        (Some v1, Some v2, Some v3, Some v4) \<Rightarrow>
          Some [of_nat (v1 * 4 + v2 div 16), of_nat (v2 mod 16 * 16 + v3 div 4), of_nat (v3 mod 4 * 64 + v4)]
      | _ \<Rightarrow> None)"

definition b64_last :: "char \<Rightarrow> char \<Rightarrow> char \<Rightarrow> char \<Rightarrow> byte list option" where
  "b64_last c1 c2 c3 c4 =
     (if c4 \<noteq> CHR ''='' then b64_quad c1 c2 c3 c4
      else if c3 \<noteq> CHR ''='' then
        (case (b64_val c1, b64_val c2, b64_val c3) of
           (Some v1, Some v2, Some v3) \<Rightarrow> Some [of_nat (v1 * 4 + v2 div 16), of_nat (v2 mod 16 * 16 + v3 div 4)]
         | _ \<Rightarrow> None)
      else (case (b64_val c1, b64_val c2) of
           (Some v1, Some v2) \<Rightarrow> Some [of_nat (v1 * 4 + v2 div 16)]
         | _ \<Rightarrow> None))"

fun b64decode :: "string \<Rightarrow> byte list option" where
  "b64decode [] = Some []"
| "b64decode [c1, c2, c3, c4] = b64_last c1 c2 c3 c4"
| "b64decode (c1 # c2 # c3 # c4 # cs) =
     (case b64_quad c1 c2 c3 c4 of None \<Rightarrow> None | Some p \<Rightarrow> map_option (\<lambda>q. p @ q) (b64decode cs))"
| "b64decode _ = None"

lemma b64_val_char: "i < 64 \<Longrightarrow> b64_val (b64_char i) = Some i"
proof -
  have "\<forall>i \<in> set [0..<64]. b64_val (b64_char i) = Some i" by code_simp
  then show "i < 64 \<Longrightarrow> b64_val (b64_char i) = Some i" by simp
qed

lemma b64_char_not_pad: "i < 64 \<Longrightarrow> b64_char i \<noteq> CHR ''=''"
proof -
  have "\<forall>i \<in> set [0..<64]. b64_char i \<noteq> CHR ''=''" by code_simp
  then show "i < 64 \<Longrightarrow> b64_char i \<noteq> CHR ''=''" by simp
qed

lemma unat_byte_bound: "unat (a :: byte) < 256"
  by (rule order_less_le_trans [OF unsigned_less]) simp

text \<open>The six-bit digits of a number written in base 64.\<close>

lemma base64_digits:
  fixes w x y z :: nat
  assumes "y < 64" "z < 64" "x < (64::nat)"
  defines "n \<equiv> ((w * 64 + y) * 64 + z) * 64 + x"
  shows "n div 262144 = w" "n div 4096 mod 64 = y" "n div 64 mod 64 = z" "n mod 64 = x"
proof -
  have 1: "n div 64 = (w * 64 + y) * 64 + z" using assms by simp
  have 2: "n div 4096 = w * 64 + y"
    using assms(1,2) div_mult2_eq [of n 64 64] 1 by simp
  show "n div 262144 = w" using assms(1) div_mult2_eq [of n 4096 64] 2 by simp
  have m: "(k * 64 + d) mod 64 = d" if "d < 64" for k d :: nat
    using that by (simp only: mod_mult_self3 mod_less)
  show "n div 4096 mod 64 = y" unfolding 2 by (rule m [OF assms(1)])
  show "n div 64 mod 64 = z" unfolding 1 by (rule m [OF assms(2)])
  show "n mod 64 = x" unfolding n_def by (rule m [OF assms(3)])
qed

lemma regroup:
  fixes a b c :: nat
  shows "a = w * 4 + a' \<Longrightarrow> b = b1 * 16 + b2 \<Longrightarrow> c = c1 * 64 + x \<Longrightarrow>
      a * 65536 + b * 256 + c = ((w * 64 + (a' * 16 + b1)) * 64 + (b2 * 4 + c1)) * 64 + x"
    and "a = w * 4 + a' \<Longrightarrow> b = b1 * 16 + b2 \<Longrightarrow>
      (a * 256 + b) * 4 = (w * 64 + (a' * 16 + b1)) * 64 + b2 * 4"
  by simp_all

text \<open>A group of three bytes survives the split into four six-bit values.\<close>

lemma b64_quad_roundtrip:
  fixes a b c :: byte
  defines "n \<equiv> unat a * 65536 + unat b * 256 + unat c"
  shows "b64_quad (b64_char (n div 262144)) (b64_char (n div 4096 mod 64))
           (b64_char (n div 64 mod 64)) (b64_char (n mod 64)) = Some [a, b, c]"
proof -
  define w y z x where "w = unat a div 4" and "y = unat a mod 4 * 16 + unat b div 16"
    and "z = unat b mod 16 * 4 + unat c div 64" and "x = unat c mod 64"
  have abc: "unat a = w * 4 + unat a mod 4" "unat b = unat b div 16 * 16 + unat b mod 16"
    "unat c = unat c div 64 * 64 + x"
    by (simp_all add: w_def x_def)
  have bounds: "unat b div 16 < 16" "unat c div 64 < 4" "w < 64"
    using unat_byte_bound [of a] unat_byte_bound [of b] unat_byte_bound [of c]
    by (simp_all add: w_def)
  have yz: "y < 64" "z < 64" "x < 64" using bounds by (simp_all add: y_def z_def x_def)
  have n: "n = ((w * 64 + y) * 64 + z) * 64 + x"
    unfolding n_def y_def z_def by (rule regroup(1) [OF abc])
  have "w * 4 + y div 16 = unat a" "y mod 16 * 16 + z div 4 = unat b" "z mod 4 * 64 + x = unat c"
    using bounds abc by (simp_all add: y_def z_def)
  then show ?thesis
    using bounds(3) yz unfolding n base64_digits [OF yz]
    by (simp add: b64_quad_def b64_val_char)
qed

lemma b64_last_1: "b64decode (b64encode [a]) = Some [a]"
proof -
  let ?q = "unat a div 4" and ?r = "unat a mod 4"
  have "unat a * 16 = ?q * 64 + ?r * 16" by presburger
  then have "unat a * 16 div 64 = ?q" "unat a * 16 mod 64 = ?r * 16" by simp_all
  moreover have "?q < 64" using unat_byte_bound [of a] by simp
  ultimately show ?thesis by (simp add: b64_last_def b64_val_char Let_def)
qed

lemma b64_last_2: "b64decode (b64encode [a, b]) = Some [a, b]"
proof -
  let ?n = "(unat a * 256 + unat b) * 4"
  define w y z where "w = unat a div 4" and "y = unat a mod 4 * 16 + unat b div 16"
    and "z = unat b mod 16 * 4"
  have ab: "unat a = w * 4 + unat a mod 4" "unat b = unat b div 16 * 16 + unat b mod 16"
    by (simp_all add: w_def)
  have bounds: "unat b div 16 < 16" "w < 64"
    using unat_byte_bound [of a] unat_byte_bound [of b] by (simp_all add: w_def)
  have yz: "y < 64" "z < 64" using bounds by (simp_all add: y_def z_def)
  have n: "?n = (w * 64 + y) * 64 + z"
    unfolding y_def z_def by (rule regroup(2) [OF ab])
  have "?n div 64 = w * 64 + y" using yz n by simp
  moreover have "?n div 4096 = w"
    using yz(1) div_mult2_eq [of ?n 64 64] calculation by simp
  moreover have "?n mod 64 = z" unfolding n using yz(2) by (simp only: mod_mult_self3 mod_less)
  moreover have "w * 4 + y div 16 = unat a" "y mod 16 * 16 + z div 4 = unat b"
    using bounds ab by (simp_all add: y_def z_def)
  ultimately show ?thesis
    using bounds(2) yz by (simp add: b64_last_def b64_val_char b64_char_not_pad Let_def)
qed

lemma b64decode_quad:
  assumes "b64_quad c1 c2 c3 c4 = Some p" and "c4 \<noteq> CHR ''=''"
  shows "b64decode (c1 # c2 # c3 # c4 # cs) = map_option (\<lambda>q. p @ q) (b64decode cs)"
  using assms by (cases cs) (auto simp: b64_last_def)

lemma b64_roundtrip [simp]: "b64decode (b64encode bs) = Some bs"
proof (induction bs rule: b64encode.induct)
  case (2 a)
  show ?case by (rule b64_last_1)
next
  case (3 a b)
  show ?case by (rule b64_last_2)
next
  case (4 a b c bs)
  then show ?case
    by (simp add: Let_def b64decode_quad [OF b64_quad_roundtrip] b64_char_not_pad)
qed simp

lemma b64encode_nonempty: "bs \<noteq> [] \<Longrightarrow> b64encode bs \<noteq> []"
  by (induction bs rule: b64encode.induct) (auto simp: Let_def)

subsection \<open>The interface of a byte codec\<close>

text \<open>
  A wire format is an encoder and a decoder that agree on the valid values.  What follows
  from that agreement alone - different values have different frames, and a frame survives
  the base64 text it travels in - is proved once for every format.
\<close>

locale byte_codec =
  fixes enc :: "'a \<Rightarrow> byte list"
    and dec :: "byte list \<Rightarrow> 'e + 'b"
    and view :: "'a \<Rightarrow> 'b"
    and valid :: "'a \<Rightarrow> bool"
  assumes dec_enc: "valid x \<Longrightarrow> dec (enc x) = Inr (view x)"
begin

lemma enc_determines: "valid x \<Longrightarrow> valid y \<Longrightarrow> enc x = enc y \<Longrightarrow> view x = view y"
  using dec_enc [of x] dec_enc [of y] by simp

lemma enc_inj_on: "inj_on view {x. valid x} \<Longrightarrow> inj_on enc {x. valid x}"
  by (intro inj_onI) (auto dest: enc_determines simp: inj_on_def)

lemma through_text: "valid x \<Longrightarrow> map_option dec (b64decode (b64encode (enc x))) = Some (Inr (view x))"
  by (simp add: dec_enc)

end

subsection \<open>Floats\<close>

text \<open>
  A Python \<open>float\<close>: a number, an infinity (\<open>True\<close> the positive one) or NaN.  Rounding is not
  modelled: a number is the rational it denotes.  Every comparison with NaN is false, so the two
  orders below are not linear.
\<close>

datatype py_float = Finite rat | Infinite bool | NaN

instantiation py_float :: ord
begin

fun less_eq_py_float :: "py_float \<Rightarrow> py_float \<Rightarrow> bool" where
  "less_eq_py_float (Finite x) (Finite y) = (x \<le> y)"
| "less_eq_py_float (Infinite a) (Infinite b) = (a \<longrightarrow> b)"
| "less_eq_py_float (Infinite a) (Finite _) = (\<not> a)"
| "less_eq_py_float (Finite _) (Infinite b) = b"
| "less_eq_py_float NaN _ = False"
| "less_eq_py_float _ NaN = False"

fun less_py_float :: "py_float \<Rightarrow> py_float \<Rightarrow> bool" where
  "less_py_float (Finite x) (Finite y) = (x < y)"
| "less_py_float (Infinite a) (Infinite b) = (\<not> a \<and> b)"
| "less_py_float (Infinite a) (Finite _) = (\<not> a)"
| "less_py_float (Finite _) (Infinite b) = b"
| "less_py_float NaN _ = False"
| "less_py_float _ NaN = False"

instance ..

end

text \<open>A float passes a range check that only looks for values outside if it is inside or NaN.\<close>

definition float_within :: "rat \<Rightarrow> rat \<Rightarrow> py_float \<Rightarrow> bool" where
  "float_within lo hi x \<longleftrightarrow> (\<exists>r. x = Finite r \<and> lo \<le> r \<and> r \<le> hi)"

lemma float_within_Finite [simp]: "float_within lo hi (Finite r) \<longleftrightarrow> lo \<le> r \<and> r \<le> hi"
  by (auto simp: float_within_def)

lemma float_within_NaN [simp]: "\<not> float_within lo hi NaN"
  by (simp add: float_within_def)

lemma range_check_passes:
  "\<not> (x < Finite lo \<or> Finite hi < x) \<longleftrightarrow> x = NaN \<or> float_within lo hi x"
  by (cases x) (auto simp: float_within_def)

subsection \<open>Values of a JSON document\<close>

text \<open>
  A value of a \<open>dict[str, Any]\<close> or a JSON column.  \<open>int(v)\<close> truncates a float, parses a
  string (white space around it, a sign, single underscores between digits) and raises on
  anything else.  A JSON document has no NaN or infinity: PostgreSQL refuses them in a \<open>JSONB\<close>
  column.  \<open>py_exc\<close> are the exceptions the services raise or catch.
\<close>

datatype py_value = PvNone | PvBool bool | PvInt int | PvFloat rat | PvStr string
  | PvList "py_value list" | PvDict "(string \<times> py_value) list"

datatype py_exc = Value_Error string | Type_Error string | Multiple_Results | Integrity_Error string

text \<open>
  \<open>Result.scalar_one_or_none()\<close>: at most one row, or an exception.
\<close>

fun scalar_one_or_none :: "'r list \<Rightarrow> (py_exc, 'r option) res" where
  "scalar_one_or_none [] = Inr None"
| "scalar_one_or_none [r] = Inr (Some r)"
| "scalar_one_or_none _ = Inl Multiple_Results"

fun parse_digits :: "int \<Rightarrow> bool \<Rightarrow> string \<Rightarrow> int option" where
  "parse_digits acc digit [] = (if digit then Some acc else None)"
| "parse_digits acc digit (c # cs) =
     (let n = (of_char c :: int) in
      if 48 \<le> n \<and> n \<le> 57 then parse_digits (acc * 10 + (n - 48)) True cs
      else if c = CHR ''_'' \<and> digit then parse_digits acc False cs
      else None)"

definition parse_int :: "string \<Rightarrow> int option" where
  "parse_int s = (case py_strip s of [] \<Rightarrow> None
     | c # cs \<Rightarrow> (if c = CHR ''-'' then map_option uminus (parse_digits 0 False cs)
                  else if c = CHR ''+'' then parse_digits 0 False cs
                  else parse_digits 0 False (c # cs)))"

definition py_trunc :: "rat \<Rightarrow> int" where
  "py_trunc r = (if r < 0 then - \<lfloor>- r\<rfloor> else \<lfloor>r\<rfloor>)"

definition py_int :: "py_value \<Rightarrow> (py_exc, int) res" where
  "py_int v = (case v of
     PvInt i \<Rightarrow> Inr i
   | PvBool b \<Rightarrow> Inr (if b then 1 else 0)
   | PvFloat r \<Rightarrow> Inr (py_trunc r)
   | PvStr s \<Rightarrow> (case parse_int s of Some i \<Rightarrow> Inr i
       | None \<Rightarrow> Inl (Value_Error ''invalid literal for int() with base 10''))
   | _ \<Rightarrow> Inl (Type_Error ''int() argument must be a string, a bytes-like object or a real number''))"

text \<open>\<open>bool(v)\<close>.\<close>

fun py_truthy :: "py_value \<Rightarrow> bool" where
  "py_truthy PvNone = False"
| "py_truthy (PvBool b) = b"
| "py_truthy (PvInt i) = (i \<noteq> 0)"
| "py_truthy (PvFloat r) = (r \<noteq> 0)"
| "py_truthy (PvStr s) = (s \<noteq> [])"
| "py_truthy (PvList l) = (l \<noteq> [])"
| "py_truthy (PvDict d) = (d \<noteq> [])"

text \<open>\<open>needle in s\<close> for strings.\<close>

fun py_contains :: "string \<Rightarrow> string \<Rightarrow> bool" where
  "py_contains needle [] = (needle = [])"
| "py_contains needle (c # s) = (take (length needle) (c # s) = needle \<or> py_contains needle s)"

lemma py_int_PvInt [simp]: "py_int (PvInt i) = Inr i"
  by (simp add: py_int_def)

end
