(* ===== verification/ChirpStack_Payload.thy ===== *)
theory ChirpStack_Payload
  imports Py_Text
begin

text \<open>
  The uplink side of the binary contract: \<open>src/integrations/chirpstack/binary_contract.py\<close>,
  the event schemas of \<open>schemas.py\<close>, \<open>payload_codec.py\<close>, \<open>decoder.py\<close> and the acknowledgement
  payload of \<open>src/schemas/device_command_ack.py\<close>.  A payload is a list of bytes, unpacked at
  the offsets of the \<open>struct\<close> formats; a decode error is its message.  The lemmas show that
  each decoder inverts the documented layout and that what it accepts is in range.
\<close>

subsection \<open>The binary contract\<close>

definition PROTOCOL_VERSION_V1 :: int where "PROTOCOL_VERSION_V1 = 1"
definition COMMAND_FPORT :: int where "COMMAND_FPORT = 10"
definition LOCATION_UPLINK_FPORT :: int where "LOCATION_UPLINK_FPORT = 10"
definition STATUS_UPLINK_FPORT :: int where "STATUS_UPLINK_FPORT = 11"
definition COMMAND_ACK_FPORT :: int where "COMMAND_ACK_FPORT = 20"
definition LOCATION_MESSAGE_TYPE :: int where "LOCATION_MESSAGE_TYPE = 1"
definition STATUS_MESSAGE_TYPE :: int where "STATUS_MESSAGE_TYPE = 2"
definition GPS_FIX_NO_FIX :: int where "GPS_FIX_NO_FIX = 0"
definition LOCATION_PAYLOAD_LENGTH_V1 :: nat where "LOCATION_PAYLOAD_LENGTH_V1 = 15"
definition STATUS_PAYLOAD_LENGTH_V1 :: nat where "STATUS_PAYLOAD_LENGTH_V1 = 8"
definition COMMAND_ACK_PAYLOAD_LENGTH_V1 :: nat where "COMMAND_ACK_PAYLOAD_LENGTH_V1 = 5"

lemmas contract_defs = PROTOCOL_VERSION_V1_def COMMAND_FPORT_def LOCATION_UPLINK_FPORT_def
  STATUS_UPLINK_FPORT_def COMMAND_ACK_FPORT_def LOCATION_MESSAGE_TYPE_def STATUS_MESSAGE_TYPE_def
  GPS_FIX_NO_FIX_def LOCATION_PAYLOAD_LENGTH_V1_def STATUS_PAYLOAD_LENGTH_V1_def
  COMMAND_ACK_PAYLOAD_LENGTH_V1_def

subsection \<open>Events\<close>

text \<open>
  The fields of the validated models that the code reads.  The models keep extra fields
  (\<open>extra="allow"\<close>); those that \<open>ChirpStackCommandAckObject\<close> later reads from an uplink
  object are fields of \<open>up_object\<close> here.
\<close>

datatype ack_status = EXECUTED | DUPLICATE | EXPIRED | REJECTED | FAILED

record device_info =
  di_device_profile_id :: "string option"
  di_device_name :: "string option"
  di_dev_eui :: string
  di_tags :: "(string \<times> string) list"

record rx_info =
  rx_gateway_id :: "string option"

record up_object =
  uo_lat :: "py_float option"
  uo_lng :: "py_float option"
  uo_altitude :: "py_float option"
  uo_accuracy :: "py_float option"
  uo_battery :: "py_float option"
  uo_command_id :: "string option"
  uo_status :: "ack_status option"
  uo_executed_at :: "py_datetime option"
  uo_error_message :: "string option"

record up_event =
  ue_time :: "py_datetime option"
  ue_device_info :: device_info
  ue_fport :: "int option"
  ue_object :: "up_object option"
  ue_data :: "string option"
  ue_rx_info :: "rx_info list"

definition normalize_dev_eui :: "string \<Rightarrow> (string, string) res" where
  "normalize_dev_eui v =
     (let normalized = py_lower (py_compact v)
      in if normalized = [] then Inl ''devEui is required'' else Inr normalized)"

record ack_payload =
  ap_command_id :: "string option"
  ap_command_seq :: "int option"
  ap_status :: ack_status
  ap_executed_at :: "py_datetime option"
  ap_error_message :: "string option"

text \<open>The constraints of \<open>DeviceCommandAckPayload\<close>, checked on construction.\<close>

definition make_ack_payload ::
  "string option \<Rightarrow> int option \<Rightarrow> ack_status \<Rightarrow> py_datetime option \<Rightarrow> string option
   \<Rightarrow> (string, ack_payload) res" where
  "make_ack_payload command_id command_seq status executed_at error_message =
     (if command_id = Some [] then Inl ''String should have at least 1 character''
      else if (case command_seq of None \<Rightarrow> False | Some n \<Rightarrow> n < 1)
        then Inl ''Input should be greater than or equal to 1''
      else if (case command_seq of None \<Rightarrow> False | Some n \<Rightarrow> n > 65535)
        then Inl ''Input should be less than or equal to 65535''
      else if command_id = None \<and> command_seq = None
        then Inl ''command_id or command_seq is required''
      else Inr \<lparr>ap_command_id = command_id, ap_command_seq = command_seq, ap_status = status,
                ap_executed_at = executed_at, ap_error_message = error_message\<rparr>)"

record telemetry_extra =
  te_battery :: "py_float option"
  te_f_port :: "int option"
  te_gateway_ids :: "string list"
  te_device_name :: "string option"
  te_serial :: "string option"
  te_payload_format :: string
  te_message_type :: "int option"
  te_gps_fix_type :: "int option"
  te_gps_fix_label :: "string option"

record normalized_telemetry =
  nt_device_timestamp :: "int option"
  nt_latitude :: py_float
  nt_longitude :: py_float
  nt_altitude :: "py_float option"
  nt_accuracy :: "py_float option"
  nt_extra :: telemetry_extra

record status_payload =
  sp_battery_percent :: int
  sp_battery_mv :: int
  sp_device_state_code :: int
  sp_device_state :: string
  sp_gps_fix_type_code :: int
  sp_gps_fix_type :: string
  sp_error_flags :: int
  sp_active_error_flags :: "string list"

subsection \<open>Field decoders\<close>

definition decode_base64_data :: "string option \<Rightarrow> (string, byte list) res" where
  "decode_base64_data data =
     (if data = None \<or> data = Some [] then Inl ''Missing data payload in ChirpStack up event''
      else case b64decode (the data) of
        None \<Rightarrow> Inl ''Invalid base64 data in ChirpStack up event''
      | Some p \<Rightarrow> Inr p)"

definition validate_coordinates :: "rat \<Rightarrow> rat \<Rightarrow> (string, unit) res" where
  "validate_coordinates latitude longitude =
     (if latitude < - 90 \<or> latitude > 90 then Inl ''Latitude out of range''
      else if longitude < - 180 \<or> longitude > 180 then Inl ''Longitude out of range''
      else Inr ())"

definition ack_status_value :: "ack_status \<Rightarrow> string" where
  "ack_status_value s = (case s of EXECUTED \<Rightarrow> ''EXECUTED'' | DUPLICATE \<Rightarrow> ''DUPLICATE''
     | EXPIRED \<Rightarrow> ''EXPIRED'' | REJECTED \<Rightarrow> ''REJECTED'' | FAILED \<Rightarrow> ''FAILED'')"

definition decode_ack_status :: "int \<Rightarrow> (string, ack_status) res" where
  "decode_ack_status code =
     (case map_of [(1, EXECUTED), (2, REJECTED), (3, FAILED), (4, EXPIRED), (5, DUPLICATE)] code of
        None \<Rightarrow> Inl ''COMMAND_ACK_UNKNOWN_STATUS'' | Some s \<Rightarrow> Inr s)"

definition decode_ack_error :: "int \<Rightarrow> ack_status \<Rightarrow> string option" where
  "decode_ack_error code status =
     (if code = 0 then None
      else case map_of [(1, ''UNKNOWN_COMMAND_TYPE''), (2, ''INVALID_PAYLOAD''), (3, ''BUSY''),
          (4, ''LOW_BATTERY''), (5, ''HARDWARE_ERROR''), (6, ''COMMAND_EXPIRED_ON_DEVICE'')] code of
        Some m \<Rightarrow> Some m
      | None \<Rightarrow> Some (''UNKNOWN_DEVICE_ERROR_CODE_'' @ py_str_int code @ ''_'' @ ack_status_value status))"

definition decode_gps_fix_type :: "int \<Rightarrow> (string, string) res" where
  "decode_gps_fix_type code =
     (case map_of [(0, ''NO_FIX''), (1, ''GPS_FIX''), (2, ''DGPS_FIX''), (3, ''ESTIMATED'')] code of
        None \<Rightarrow> Inl (''Unsupported ChirpStack gps_fix_type: '' @ py_str_int code)
      | Some l \<Rightarrow> Inr l)"

definition decode_status_device_state :: "int \<Rightarrow> (string, string) res" where
  "decode_status_device_state code =
     (case map_of [(0, ''UNKNOWN''), (1, ''SAFE''), (2, ''NEAR_LIMIT''), (3, ''OUTSIDE''),
          (4, ''GPS_UNCERTAIN''), (5, ''LOW_BATTERY'')] code of
        None \<Rightarrow> Inl (''Unsupported ChirpStack status device_state: '' @ py_str_int code)
      | Some l \<Rightarrow> Inr l)"

definition decode_status_error_flags :: "int \<Rightarrow> string list" where
  "decode_status_error_flags flags =
     map snd (filter (\<lambda>(i, l). flags div 2 ^ i mod 2 = 1)
       [(0, ''GPS_ERROR''), (1, ''LOW_BATTERY''), (2, ''SENSOR_ERROR''), (3, ''COMMAND_ERROR'')])"

subsection \<open>Payload decoders\<close>

definition gateway_ids :: "rx_info list \<Rightarrow> string list" where
  "gateway_ids items = [g. Some g \<leftarrow> map rx_gateway_id items, g \<noteq> []]"

definition decode_location_payload_v1 :: "up_event \<Rightarrow> (string, normalized_telemetry) res" where
  "decode_location_payload_v1 event =
     bindE (decode_base64_data (ue_data event)) (\<lambda>p.
     if length p \<noteq> LOCATION_PAYLOAD_LENGTH_V1
       then Inl (''Invalid ChirpStack location payload length: expected 15, got '' @ py_str_int (int (length p)))
     else let version = u8_at p 0; message_type = u8_at p 1;
              lat_e7 = s32_at p 2; lng_e7 = s32_at p 6; altitude_meters = s16_at p 10;
              accuracy_meters = u8_at p 12; battery_percent = u8_at p 13; gps_fix_type = u8_at p 14
     in if version \<noteq> PROTOCOL_VERSION_V1
          then Inl (''Unsupported ChirpStack location payload version: '' @ py_str_int version)
        else if message_type \<noteq> LOCATION_MESSAGE_TYPE
          then Inl (''Unsupported ChirpStack location message type: '' @ py_str_int message_type)
        else let latitude = of_int lat_e7 / 10000000; longitude = of_int lng_e7 / 10000000
        in bindE (validate_coordinates latitude longitude) (\<lambda>_.
           bindE (decode_gps_fix_type gps_fix_type) (\<lambda>gps_fix_label.
           let accuracy = of_int accuracy_meters;
               accuracy' = (if gps_fix_type = GPS_FIX_NO_FIX then max accuracy 255 else accuracy)
           in Inr \<lparr>nt_device_timestamp = to_utc_naive (ue_time event),
                nt_latitude = Finite latitude, nt_longitude = Finite longitude,
                nt_altitude = Some (Finite (of_int altitude_meters)), nt_accuracy = Some (Finite accuracy'),
                nt_extra = \<lparr>te_battery = Some (Finite (of_int battery_percent)), te_f_port = ue_fport event,
                  te_gateway_ids = gateway_ids (ue_rx_info event),
                  te_device_name = di_device_name (ue_device_info event),
                  te_serial = map_of (di_tags (ue_device_info event)) ''serial'',
                  te_payload_format = ''chirpstack_binary_v1'',
                  te_message_type = Some message_type, te_gps_fix_type = Some gps_fix_type,
                  te_gps_fix_label = Some gps_fix_label\<rparr>\<rparr>)))"

definition decode_status_payload_v1 :: "up_event \<Rightarrow> (string, status_payload) res" where
  "decode_status_payload_v1 event =
     bindE (decode_base64_data (ue_data event)) (\<lambda>p.
     if length p \<noteq> STATUS_PAYLOAD_LENGTH_V1
       then Inl (''Invalid ChirpStack status payload length: expected 8, got '' @ py_str_int (int (length p)))
     else let version = u8_at p 0; message_type = u8_at p 1; battery_percent = u8_at p 2;
              battery_mv = u16_at p 3; device_state_code = u8_at p 5;
              gps_fix_type_code = u8_at p 6; error_flags = u8_at p 7
     in if version \<noteq> PROTOCOL_VERSION_V1
          then Inl (''Unsupported ChirpStack status payload version: '' @ py_str_int version)
        else if message_type \<noteq> STATUS_MESSAGE_TYPE
          then Inl (''Unsupported ChirpStack status message type: '' @ py_str_int message_type)
        else bindE (decode_status_device_state device_state_code) (\<lambda>device_state.
             bindE (decode_gps_fix_type gps_fix_type_code) (\<lambda>gps_fix_type.
               Inr \<lparr>sp_battery_percent = battery_percent, sp_battery_mv = battery_mv,
                 sp_device_state_code = device_state_code, sp_device_state = device_state,
                 sp_gps_fix_type_code = gps_fix_type_code, sp_gps_fix_type = gps_fix_type,
                 sp_error_flags = error_flags,
                 sp_active_error_flags = decode_status_error_flags error_flags\<rparr>)))"

definition decode_command_ack_payload_v1 :: "up_event \<Rightarrow> (string, ack_payload) res" where
  "decode_command_ack_payload_v1 event =
     bindE (decode_base64_data (ue_data event)) (\<lambda>p.
     if length p \<noteq> COMMAND_ACK_PAYLOAD_LENGTH_V1 then Inl ''COMMAND_ACK_INVALID_LENGTH''
     else let version = u8_at p 0; command_seq = u16_at p 1; status_code = u8_at p 3;
              error_code = u8_at p 4
     in if version \<noteq> PROTOCOL_VERSION_V1 then Inl ''COMMAND_ACK_UNSUPPORTED_VERSION''
        else if command_seq = 0 then Inl ''COMMAND_ACK_INVALID_COMMAND_SEQ''
        else bindE (decode_ack_status status_code) (\<lambda>status.
             make_ack_payload None (Some command_seq) status (ue_time event)
               (decode_ack_error error_code status)))"

subsection \<open>The uplink decoder\<close>

definition decode_from_object :: "up_event \<Rightarrow> up_object \<Rightarrow> py_float \<Rightarrow> py_float \<Rightarrow> (string, normalized_telemetry) res" where
  "decode_from_object event ob latitude longitude =
     (if latitude < Finite (- 90) \<or> latitude > Finite 90 then Inl ''Latitude out of range''
      else if longitude < Finite (- 180) \<or> longitude > Finite 180 then Inl ''Longitude out of range''
      else Inr \<lparr>nt_device_timestamp = to_utc_naive (ue_time event),
        nt_latitude = latitude, nt_longitude = longitude,
        nt_altitude = uo_altitude ob, nt_accuracy = uo_accuracy ob,
        nt_extra = \<lparr>te_battery = uo_battery ob, te_f_port = ue_fport event,
          te_gateway_ids = gateway_ids (ue_rx_info event),
          te_device_name = di_device_name (ue_device_info event),
          te_serial = map_of (di_tags (ue_device_info event)) ''serial'',
          te_payload_format = ''chirpstack_object'',
          te_message_type = None, te_gps_fix_type = None, te_gps_fix_label = None\<rparr>\<rparr>)"

definition decode_up_event :: "up_event \<Rightarrow> (string, normalized_telemetry) res" where
  "decode_up_event event =
     (case ue_object event of
        Some ob \<Rightarrow>
          (case (uo_lat ob, uo_lng ob) of
             (Some lat, Some lng) \<Rightarrow> decode_from_object event ob lat lng
           | _ \<Rightarrow> decode_location_payload_v1 event)
      | None \<Rightarrow> decode_location_payload_v1 event)"

subsection \<open>Lemmas\<close>

lemma decode_base64_of_bytes:
  "bs \<noteq> [] \<Longrightarrow> decode_base64_data (Some (b64encode bs)) = Inr bs"
  by (simp add: decode_base64_data_def b64encode_nonempty)

lemma decode_base64_data_Inr: "decode_base64_data d = Inr p \<Longrightarrow> \<exists>s. d = Some s \<and> b64decode s = Some p"
  by (auto simp: decode_base64_data_def split: if_splits option.splits)

lemma validate_coordinates_ok:
  "validate_coordinates la lo = Inr u \<longleftrightarrow> - 90 \<le> la \<and> la \<le> 90 \<and> - 180 \<le> lo \<and> lo \<le> 180"
  by (auto simp: validate_coordinates_def)

lemma scaled_coordinates:
  assumes "\<bar>lat\<bar> \<le> 900000000" "\<bar>lng\<bar> \<le> (1800000000 :: int)"
  shows "validate_coordinates (of_int lat / 10000000) (of_int lng / 10000000) = Inr ()"
proof -
  have "\<bar>of_int lat :: rat\<bar> \<le> 900000000" "\<bar>of_int lng :: rat\<bar> \<le> 1800000000"
    using assms by (metis of_int_abs of_int_le_iff of_int_numeral)+
  then show ?thesis by (simp add: validate_coordinates_ok abs_le_iff)
qed

lemma decode_gps_fix_type_ok:
  assumes "0 \<le> f" "f \<le> 3"
  shows "\<exists>l. decode_gps_fix_type f = Inr l"
proof -
  from assms have "f = 0 \<or> f = 1 \<or> f = 2 \<or> f = 3" by presburger
  then show ?thesis by (auto simp: decode_gps_fix_type_def)
qed

lemma make_ack_payload_ok:
  "make_ack_payload cid seq st ex em = Inr a \<longleftrightarrow>
     cid \<noteq> Some [] \<and> (\<forall>n. seq = Some n \<longrightarrow> 1 \<le> n \<and> n \<le> 65535) \<and> (cid \<noteq> None \<or> seq \<noteq> None) \<and>
     a = \<lparr>ap_command_id = cid, ap_command_seq = seq, ap_status = st, ap_executed_at = ex,
          ap_error_message = em\<rparr>"
  by (auto simp: make_ack_payload_def split: option.splits)

text \<open>The documented layout of a location payload, \<open>>BBiihBBB\<close>.\<close>

definition location_bytes :: "int \<Rightarrow> int \<Rightarrow> int \<Rightarrow> int \<Rightarrow> int \<Rightarrow> int \<Rightarrow> byte list" where
  "location_bytes lat lng alt acc bat fx =
     pack_u8 PROTOCOL_VERSION_V1 @ pack_u8 LOCATION_MESSAGE_TYPE @ pack_32 lat @ pack_32 lng @
     pack_16 alt @ pack_u8 acc @ pack_u8 bat @ pack_u8 fx"

lemma length_location_bytes [simp]: "length (location_bytes a b c d e f) = 15"
  by (simp add: location_bytes_def)

lemma location_bytes_fields:
  fixes lat lng alt acc bat fx :: int
  assumes "- 2147483648 \<le> lat" "lat < 2147483648" "- 2147483648 \<le> lng" "lng < 2147483648"
    and "- 32768 \<le> alt" "alt < 32768"
  defines "p \<equiv> location_bytes lat lng alt acc bat fx"
  shows "u8_at p 0 = 1" "u8_at p 1 = 1" "s32_at p 2 = lat" "s32_at p 6 = lng" "s16_at p 10 = alt"
    "u8_at p 12 = acc mod 256" "u8_at p 13 = bat mod 256" "u8_at p 14 = fx mod 256"
  using assms by (simp_all add: p_def location_bytes_def byte_simps contract_defs)

lemma binary_in_range:
  assumes "decode_location_payload_v1 event = Inr t"
  shows "float_within (- 90) 90 (nt_latitude t) \<and> float_within (- 180) 180 (nt_longitude t) \<and>
    nt_device_timestamp t = to_utc_naive (ue_time event) \<and>
    (te_gps_fix_type (nt_extra t) = Some GPS_FIX_NO_FIX \<longrightarrow> nt_accuracy t = Some (Finite 255))"
proof -
  from assms obtain p where p: "decode_base64_data (ue_data event) = Inr p"
    by (auto simp: decode_location_payload_v1_def res_simps)
  with assms obtain la lo where t: "validate_coordinates la lo = Inr ()" "nt_latitude t = Finite la" "nt_longitude t = Finite lo"
      "nt_device_timestamp t = to_utc_naive (ue_time event)"
      "te_gps_fix_type (nt_extra t) = Some (u8_at p 14)"
      "nt_accuracy t = Some (Finite (if u8_at p 14 = GPS_FIX_NO_FIX then max (of_int (u8_at p 12)) 255
         else of_int (u8_at p 12)))"
    by (auto simp: decode_location_payload_v1_def res_simps Let_def split: if_splits)
  have "max (of_int (u8_at p 12)) 255 = (255 :: rat)"
    using u8_bounds(2) [of p 12] by (simp add: max_def)
  with t show ?thesis by (auto simp: validate_coordinates_ok)
qed

lemma object_in_range:
  assumes "decode_from_object event ob lat lng = Inr t"
  shows "(nt_latitude t = NaN \<or> float_within (- 90) 90 (nt_latitude t)) \<and>
    (nt_longitude t = NaN \<or> float_within (- 180) 180 (nt_longitude t)) \<and>
    nt_device_timestamp t = to_utc_naive (ue_time event) \<and>
    te_payload_format (nt_extra t) \<noteq> ''chirpstack_binary_v1'' \<and> te_gps_fix_type (nt_extra t) \<noteq> Some GPS_FIX_NO_FIX"
proof -
  have "\<not> (lat < Finite (- 90) \<or> Finite 90 < lat)" "\<not> (lng < Finite (- 180) \<or> Finite 180 < lng)"
    using assms by (auto simp: decode_from_object_def split: if_splits)
  then have "lat = NaN \<or> float_within (- 90) 90 lat" "lng = NaN \<or> float_within (- 180) 180 lng"
    by (simp_all only: range_check_passes)
  then show ?thesis using assms by (auto simp: decode_from_object_def split: if_splits)
qed

subsection \<open>Properties\<close>

text \<open>
  Decoding a location payload inverts its layout: for every position in range,
  every signed 16-bit altitude, byte-sized accuracy and battery level and every fix type of
  the contract, the decoder returns exactly these values, except that a payload without a GPS
  fix gets the accuracy 255.
\<close>
theorem location_payload_roundtrip:
  assumes "\<bar>lat\<bar> \<le> 900000000" "\<bar>lng\<bar> \<le> 1800000000" "- 32768 \<le> alt" "alt < 32768"
    and "0 \<le> acc" "acc < 256" "0 \<le> bat" "bat < 256" "0 \<le> fx" "fx \<le> 3"
    and "ue_data event = Some (b64encode (location_bytes lat lng alt acc bat fx))"
  shows "\<exists>t. decode_location_payload_v1 event = Inr t \<and>
    nt_latitude t = Finite (of_int lat / 10000000) \<and> nt_longitude t = Finite (of_int lng / 10000000) \<and>
    nt_altitude t = Some (Finite (of_int alt)) \<and>
    nt_accuracy t = Some (Finite (if fx = GPS_FIX_NO_FIX then 255 else of_int acc)) \<and>
    te_battery (nt_extra t) = Some (Finite (of_int bat)) \<and>
    nt_device_timestamp t = to_utc_naive (ue_time event)"
proof -
  let ?p = "location_bytes lat lng alt acc bat fx"
  have data: "decode_base64_data (ue_data event) = Inr ?p"
    unfolding assms(11) by (rule decode_base64_of_bytes) (simp flip: length_0_conv)
  have fields: "u8_at ?p 0 = 1" "u8_at ?p 1 = 1" "s32_at ?p 2 = lat" "s32_at ?p 6 = lng"
    "s16_at ?p 10 = alt" "u8_at ?p 12 = acc" "u8_at ?p 13 = bat" "u8_at ?p 14 = fx"
    using location_bytes_fields [of lat lng alt acc bat fx] assms(1-10) by simp_all
  have coord: "validate_coordinates (of_int lat / 10000000) (of_int lng / 10000000) = Inr ()"
    using assms(1,2) by (rule scaled_coordinates)
  obtain l where l: "decode_gps_fix_type fx = Inr l"
    using decode_gps_fix_type_ok assms(9,10) by blast
  have "max (of_int acc) 255 = (255 :: rat)" using assms(6) by (simp add: max_def)
  then show ?thesis
    using data fields coord l
    by (simp add: decode_location_payload_v1_def contract_defs Let_def)
qed

theorem location_payload_roundtrip_witness:
  "\<exists>t. decode_location_payload_v1
       \<lparr>ue_time = Some (Aware 5), ue_device_info = \<lparr>di_device_profile_id = None,
          di_device_name = None, di_dev_eui = ''a'', di_tags = []\<rparr>, ue_fport = Some 10,
        ue_object = None, ue_data = Some (b64encode (location_bytes (- 346000000) (- 583000000) 25 8 90 1)),
        ue_rx_info = []\<rparr> = Inr t \<and> nt_altitude t = Some (Finite 25) \<and> nt_accuracy t = Some (Finite 8)"
  using location_payload_roundtrip [of "- 346000000" "- 583000000" 25 8 90 1
      "\<lparr>ue_time = Some (Aware 5), ue_device_info = \<lparr>di_device_profile_id = None,
          di_device_name = None, di_dev_eui = ''a'', di_tags = []\<rparr>, ue_fport = Some 10,
        ue_object = None, ue_data = Some (b64encode (location_bytes (- 346000000) (- 583000000) 25 8 90 1)),
        ue_rx_info = []\<rparr>"]
  by (auto simp: contract_defs)

text \<open>
  Property C33. What the uplink decoder accepts.  A coordinate it returns is in range or NaN: the
  range checks only look for values outside, and NaN is neither below nor above anything.  From a
  binary payload both coordinates are numbers in range, with accuracy 255 if there is no GPS fix.
  From a decoded object they are the object's own; an object with two coordinates is accepted
  exactly if each is in range or NaN.  The event's time is read as naive UTC.
\<close>
theorem decoded_uplink_in_range:
  "(\<forall>t. decode_up_event event = Inr t \<longrightarrow>
      (nt_latitude t = NaN \<or> float_within (- 90) 90 (nt_latitude t)) \<and>
      (nt_longitude t = NaN \<or> float_within (- 180) 180 (nt_longitude t)) \<and>
      nt_device_timestamp t = to_utc_naive (ue_time event) \<and>
      (te_payload_format (nt_extra t) = ''chirpstack_binary_v1'' \<longrightarrow>
        float_within (- 90) 90 (nt_latitude t) \<and> float_within (- 180) 180 (nt_longitude t)) \<and>
      (te_gps_fix_type (nt_extra t) = Some GPS_FIX_NO_FIX \<longrightarrow> nt_accuracy t = Some (Finite 255))) \<and>
    (\<forall>ob lat lng. ue_object event = Some ob \<and> uo_lat ob = Some lat \<and> uo_lng ob = Some lng \<longrightarrow>
      (case decode_up_event event of
         Inr t \<Rightarrow> (lat = NaN \<or> float_within (- 90) 90 lat) \<and> (lng = NaN \<or> float_within (- 180) 180 lng) \<and>
           nt_latitude t = lat \<and> nt_longitude t = lng
       | Inl _ \<Rightarrow> lat \<noteq> NaN \<and> \<not> float_within (- 90) 90 lat \<or> lng \<noteq> NaN \<and> \<not> float_within (- 180) 180 lng))"
proof (intro conjI allI impI)
  fix t
  assume t: "decode_up_event event = Inr t"
  then consider "decode_location_payload_v1 event = Inr t" | ob lat lng where "decode_from_object event ob lat lng = Inr t"
    by (auto simp: decode_up_event_def split: option.splits)
  note accepted = this
  show "nt_latitude t = NaN \<or> float_within (- 90) 90 (nt_latitude t)"
    "nt_longitude t = NaN \<or> float_within (- 180) 180 (nt_longitude t)"
    "nt_device_timestamp t = to_utc_naive (ue_time event)"
    by (rule accepted; use binary_in_range object_in_range in blast)+
  show "float_within (- 90) 90 (nt_latitude t)" "float_within (- 180) 180 (nt_longitude t)"
    if "te_payload_format (nt_extra t) = ''chirpstack_binary_v1''"
    by (rule accepted; use that binary_in_range object_in_range in blast)+
  show "nt_accuracy t = Some (Finite 255)" if "te_gps_fix_type (nt_extra t) = Some GPS_FIX_NO_FIX"
    by (rule accepted; use that binary_in_range object_in_range in blast)
next
  fix ob lat lng
  assume "ue_object event = Some ob \<and> uo_lat ob = Some lat \<and> uo_lng ob = Some lng"
  then have run: "decode_up_event event = decode_from_object event ob lat lng" by (simp add: decode_up_event_def)
  show "case decode_up_event event of
      Inr t \<Rightarrow> (lat = NaN \<or> float_within (- 90) 90 lat) \<and> (lng = NaN \<or> float_within (- 180) 180 lng) \<and>
        nt_latitude t = lat \<and> nt_longitude t = lng
    | Inl _ \<Rightarrow> lat \<noteq> NaN \<and> \<not> float_within (- 90) 90 lat \<or> lng \<noteq> NaN \<and> \<not> float_within (- 180) 180 lng"
    unfolding run decode_from_object_def
    using range_check_passes [of lat "- 90" 90] range_check_passes [of lng "- 180" 180] by auto
qed

definition sample_object_event :: up_event where
  "sample_object_event = \<lparr>ue_time = None, ue_device_info = \<lparr>di_device_profile_id = None,
       di_device_name = None, di_dev_eui = ''a'', di_tags = []\<rparr>, ue_fport = Some 10,
     ue_object = Some \<lparr>uo_lat = Some (Finite 45), uo_lng = Some (Finite 120), uo_altitude = None,
       uo_accuracy = Some (Finite 4), uo_battery = None, uo_command_id = None, uo_status = None,
       uo_executed_at = None, uo_error_message = None\<rparr>, ue_data = None, ue_rx_info = []\<rparr>"

definition nan_object_event :: up_event where
  "nan_object_event = sample_object_event\<lparr>ue_object := Some \<lparr>uo_lat = Some NaN, uo_lng = Some NaN, uo_altitude = None,
       uo_accuracy = None, uo_battery = None, uo_command_id = None, uo_status = None,
       uo_executed_at = None, uo_error_message = None\<rparr>\<rparr>"

text \<open>A position that is no position is accepted.\<close>

theorem decoded_uplink_in_range_witness:
  "(\<exists>t. decode_up_event sample_object_event = Inr t \<and> nt_latitude t = Finite 45) \<and>
   (\<exists>t. decode_up_event nan_object_event = Inr t \<and> nt_latitude t = NaN \<and> nt_longitude t = NaN)"
proof -
  have a: "\<exists>t. decode_up_event sample_object_event = Inr t \<and> nt_latitude t = Finite 45"
    using conjunct2 [OF decoded_uplink_in_range [of sample_object_event]]
    by (cases "decode_up_event sample_object_event") (auto simp: sample_object_event_def)
  have b: "\<exists>t. decode_up_event nan_object_event = Inr t \<and> nt_latitude t = NaN \<and> nt_longitude t = NaN"
    using conjunct2 [OF decoded_uplink_in_range [of nan_object_event]]
    by (cases "decode_up_event nan_object_event") (auto simp: nan_object_event_def)
  show ?thesis using a b by blast
qed

text \<open>
  A binary acknowledgement is accepted exactly when it decodes to five bytes with
  the protocol version, a non-zero sequence number and a status of the contract; the resulting
  payload then satisfies the schema's constraints and carries these values.
\<close>
theorem ack_payload_accepted_iff:
  assumes "decode_base64_data (ue_data event) = Inr p"
  shows "decode_command_ack_payload_v1 event = Inr a \<longleftrightarrow>
    length p = 5 \<and> u8_at p 0 = 1 \<and> 1 \<le> u16_at p 1 \<and>
    (\<exists>s. decode_ack_status (u8_at p 3) = Inr s \<and>
       a = \<lparr>ap_command_id = None, ap_command_seq = Some (u16_at p 1), ap_status = s,
            ap_executed_at = ue_time event, ap_error_message = decode_ack_error (u8_at p 4) s\<rparr>)"
  using assms u16_bounds [of p 1]
  by (auto simp: decode_command_ack_payload_v1_def contract_defs res_simps Let_def
      make_ack_payload_ok split: if_splits)

theorem ack_payload_accepted_iff_witness:
  "\<exists>a. decode_command_ack_payload_v1 (sample_object_event\<lparr>ue_data := Some (b64encode [1, 1, 2, 3, 4])\<rparr>)
     = Inr a \<and> ap_command_seq a = Some 258 \<and> ap_status a = FAILED"
proof -
  let ?e = "sample_object_event\<lparr>ue_data := Some (b64encode [1, 1, 2, 3, 4])\<rparr>"
  have d: "decode_base64_data (ue_data ?e) = Inr [1, 1, 2, 3, 4]"
    using decode_base64_of_bytes [of "[1, 1, 2, 3, 4]"] by simp
  show ?thesis
    using ack_payload_accepted_iff [OF d] by (simp add: u8_at_def u16_at_def decode_ack_status_def)
qed

end
