(* ===== verification/Downlink_Codec.thy ===== *)
theory Downlink_Codec
  imports ChirpStack_Payload
begin

text \<open>
  The downlink side of the binary contract: \<open>src/integrations/chirpstack/downlink_encoder.py\<close>,
  the topics of \<open>mqtt_topics.py\<close> and the message that \<open>downlink_client.py\<close> builds.  The codec
  of a command frame is an instance of the \<open>byte_codec\<close> interface.
\<close>

subsection \<open>Command types\<close>

datatype command_type = SET_REPORT_INTERVAL | WARNING_SOUND | VIBRATION | STOP_CORRECTION
  | EMERGENCY_DISABLE | REQUEST_STATUS

definition command_type_value :: "command_type \<Rightarrow> string" where
  "command_type_value t = (case t of SET_REPORT_INTERVAL \<Rightarrow> ''SET_REPORT_INTERVAL''
     | WARNING_SOUND \<Rightarrow> ''WARNING_SOUND'' | VIBRATION \<Rightarrow> ''VIBRATION''
     | STOP_CORRECTION \<Rightarrow> ''STOP_CORRECTION'' | EMERGENCY_DISABLE \<Rightarrow> ''EMERGENCY_DISABLE''
     | REQUEST_STATUS \<Rightarrow> ''REQUEST_STATUS'')"

type_synonym payload_fields = "(string \<times> py_value) list"

definition command_type_to_code :: "command_type \<Rightarrow> (py_exc, int) res" where
  "command_type_to_code t =
     (case map_of [(SET_REPORT_INTERVAL, 1), (WARNING_SOUND, 2), (STOP_CORRECTION, 3), (REQUEST_STATUS, 4)] t of
        None \<Rightarrow> Inl (Value_Error (''Unsupported ChirpStack binary command type: '' @ command_type_value t))
      | Some c \<Rightarrow> Inr c)"

definition command_type_from_code :: "int \<Rightarrow> (py_exc, command_type) res" where
  "command_type_from_code code =
     (case map_of [(1, SET_REPORT_INTERVAL), (2, WARNING_SOUND), (3, STOP_CORRECTION), (4, REQUEST_STATUS)] code of
        None \<Rightarrow> Inl (Value_Error (''Unsupported COMMAND type code: '' @ py_str_int code))
      | Some t \<Rightarrow> Inr t)"

record encoded_downlink =
  ed_command_id :: string
  ed_command_seq :: int
  ed_command_type :: command_type
  ed_f_port :: int
  ed_data :: "byte list"
  ed_confirmed :: bool

record decoded_downlink =
  dd_protocol_version :: int
  dd_command_type :: command_type
  dd_command_seq :: int
  dd_flags :: int
  dd_payload_fields :: "(string \<times> int) list"

subsection \<open>Normalisation of the arguments\<close>

definition validate_command_seq :: "int \<Rightarrow> (py_exc, unit) res" where
  "validate_command_seq seq =
     guardE (seq < 1 \<or> seq > 65535) (Value_Error ''command_seq must be between 1 and 65535'')"

definition normalize_flags :: "py_value \<Rightarrow> (py_exc, int) res" where
  "normalize_flags flags = bindE (py_int flags) (\<lambda>normalized.
     if normalized < 0 \<or> normalized > 255 then Inl (Value_Error ''flags must be between 0 and 255'')
     else Inr normalized)"

definition field_or_none :: "payload_fields \<Rightarrow> string \<Rightarrow> py_value" where
  "field_or_none pf k = (case map_of pf k of None \<Rightarrow> PvNone | Some v \<Rightarrow> v)"

definition normalize_interval_seconds :: "payload_fields \<Rightarrow> (py_exc, int) res" where
  "normalize_interval_seconds pf =
     (let interval_seconds = field_or_none pf ''interval_seconds''
      in if interval_seconds = PvNone
           then Inl (Value_Error ''SET_REPORT_INTERVAL requires interval_seconds'')
         else bindE (py_int interval_seconds) (\<lambda>n.
           if n < 1 \<or> n > 65535 then Inl (Value_Error ''interval_seconds must be between 1 and 65535'')
           else Inr n))"

definition normalize_duration_seconds :: "payload_fields \<Rightarrow> (py_exc, int) res" where
  "normalize_duration_seconds pf =
     (let given = field_or_none pf ''duration_seconds''
      in bindE (if given = PvNone then
                  (case map_of pf ''duration_ms'' of
                     None \<Rightarrow> Inr PvNone
                   | Some ms \<Rightarrow> bindE (py_int ms) (\<lambda>n. Inr (PvInt (max 1 \<lceil>of_int n / (1000 :: rat)\<rceil>))))
                else Inr given) (\<lambda>duration_seconds.
         if duration_seconds = PvNone then Inl (Value_Error ''WARNING_SOUND requires duration_seconds'')
         else bindE (py_int duration_seconds) (\<lambda>n.
           if n < 1 \<or> n > 255 then Inl (Value_Error ''duration_seconds must be between 1 and 255'')
           else Inr n)))"

subsection \<open>Encoder and decoder\<close>

definition encode_command_payload ::
  "command_type \<Rightarrow> int \<Rightarrow> int \<Rightarrow> payload_fields \<Rightarrow> (py_exc, byte list) res" where
  "encode_command_payload t seq flags pf =
     bindE (command_type_to_code t) (\<lambda>code.
     let header = pack_u8 PROTOCOL_VERSION_V1 @ pack_u8 code @ pack_16 seq @ pack_u8 flags
     in if t = SET_REPORT_INTERVAL then
          bindE (normalize_interval_seconds pf) (\<lambda>n. Inr (header @ pack_16 n))
        else if t = WARNING_SOUND then
          bindE (normalize_duration_seconds pf) (\<lambda>n. Inr (header @ pack_u8 n))
        else if t = STOP_CORRECTION \<or> t = REQUEST_STATUS then Inr header
        else Inl (Value_Error (''Unsupported ChirpStack binary command type: '' @ command_type_value t)))"

definition encode_command_downlink ::
  "string \<Rightarrow> int \<Rightarrow> command_type \<Rightarrow> payload_fields option \<Rightarrow> (py_exc, encoded_downlink) res" where
  "encode_command_downlink uuid seq t payload_fields =
     (let pf = (case payload_fields of None \<Rightarrow> [] | Some f \<Rightarrow> f)
      in bindE (validate_command_seq seq) (\<lambda>_.
         bindE (normalize_flags (case map_of pf ''flags'' of None \<Rightarrow> PvInt 0 | Some v \<Rightarrow> v)) (\<lambda>flags.
         bindE (encode_command_payload t seq flags pf) (\<lambda>data.
           Inr \<lparr>ed_command_id = uuid, ed_command_seq = seq, ed_command_type = t,
                ed_f_port = COMMAND_FPORT, ed_data = data, ed_confirmed = True\<rparr>))))"

definition decode_command_specific_payload ::
  "command_type \<Rightarrow> byte list \<Rightarrow> (py_exc, (string \<times> int) list) res" where
  "decode_command_specific_payload t payload =
     (if t = SET_REPORT_INTERVAL then
        (if length payload \<noteq> 2 then Inl (Value_Error ''Invalid SET_REPORT_INTERVAL payload length'')
         else Inr [(''interval_seconds'', u16_at payload 0)])
      else if t = WARNING_SOUND then
        (if length payload \<noteq> 1 then Inl (Value_Error ''Invalid WARNING_SOUND payload length'')
         else Inr [(''duration_seconds'', u8_at payload 0)])
      else if t = STOP_CORRECTION \<or> t = REQUEST_STATUS then
        (if payload \<noteq> [] then Inl (Value_Error (''Invalid '' @ command_type_value t @ '' payload length''))
         else Inr [])
      else Inl (Value_Error (''Unsupported ChirpStack binary command type: '' @ command_type_value t)))"

definition decode_command_downlink_payload_v1 :: "byte list \<Rightarrow> (py_exc, decoded_downlink) res" where
  "decode_command_downlink_payload_v1 data =
     (if length data < 5 then Inl (Value_Error ''Invalid COMMAND payload length'')
      else let version = u8_at data 0; code = u8_at data 1; seq = u16_at data 2; flags = u8_at data 4
      in if version \<noteq> PROTOCOL_VERSION_V1
           then Inl (Value_Error (''Unsupported COMMAND protocol version: '' @ py_str_int version))
         else bindE (validate_command_seq seq) (\<lambda>_.
              bindE (command_type_from_code code) (\<lambda>t.
              bindE (decode_command_specific_payload t (drop 5 data)) (\<lambda>fields.
                Inr \<lparr>dd_protocol_version = version, dd_command_type = t, dd_command_seq = seq,
                     dd_flags = flags, dd_payload_fields = fields\<rparr>))))"

subsection \<open>Topics\<close>

record topic_info =
  ti_application_id :: string
  ti_dev_eui :: string
  ti_event_type :: string

record downlink_topic_info =
  dt_application_id :: string
  dt_dev_eui :: string

definition parse_event_topic :: "string \<Rightarrow> (string, topic_info) res" where
  "parse_event_topic tpc =
     (let parts = split_on CHR ''/'' tpc
      in if length parts \<noteq> 6 then Inl ''Invalid ChirpStack topic format''
         else if parts ! 0 \<noteq> ''application'' \<or> parts ! 2 \<noteq> ''device'' \<or> parts ! 4 \<noteq> ''event''
           then Inl ''Invalid ChirpStack topic segments''
         else let application_id = py_strip (parts ! 1); dev_eui = py_lower (py_compact (parts ! 3));
                  event_type = py_lower (py_strip (parts ! 5))
         in if application_id = [] \<or> dev_eui = [] \<or> event_type = []
              then Inl ''Incomplete ChirpStack topic''
            else Inr \<lparr>ti_application_id = application_id, ti_dev_eui = dev_eui, ti_event_type = event_type\<rparr>)"

definition parse_downlink_topic :: "string \<Rightarrow> (string, downlink_topic_info) res" where
  "parse_downlink_topic tpc =
     (let parts = split_on CHR ''/'' tpc
      in if length parts \<noteq> 6 then Inl ''Invalid ChirpStack downlink topic format''
         else if parts ! 0 \<noteq> ''application'' \<or> parts ! 2 \<noteq> ''device'' \<or> parts ! 4 \<noteq> ''command''
           then Inl ''Invalid ChirpStack downlink topic segments''
         else if parts ! 5 \<noteq> ''down'' then Inl ''Unsupported ChirpStack downlink topic suffix''
         else let application_id = py_strip (parts ! 1); dev_eui = py_lower (py_compact (parts ! 3))
         in if application_id = [] \<or> dev_eui = [] then Inl ''Incomplete ChirpStack downlink topic''
            else Inr \<lparr>dt_application_id = application_id, dt_dev_eui = dev_eui\<rparr>)"

definition is_downlink_topic :: "string \<Rightarrow> bool" where
  "is_downlink_topic tpc = is_ok (parse_downlink_topic tpc)"

definition build_topic :: "string \<Rightarrow> string \<Rightarrow> string" where
  "build_topic application_id dev_eui =
     ''application/'' @ application_id @ ''/device/'' @ dev_eui @ ''/command/down''"

definition build_payload :: "string \<Rightarrow> encoded_downlink \<Rightarrow> bool \<Rightarrow> py_value" where
  "build_payload dev_eui e confirmed = PvDict
     [(''devEui'', PvStr dev_eui),
      (''confirmed'', PvBool (if confirmed then ed_confirmed e else confirmed)),
      (''fPort'', PvInt (ed_f_port e)),
      (''data'', PvStr (b64encode (ed_data e))),
      (''commandId'', PvStr (ed_command_id e)),
      (''commandSeq'', PvInt (ed_command_seq e))]"

subsection \<open>The frame of a command\<close>

text \<open>
  The layout that both directions agree on, stated once over the decoded form: header, flags
  and the argument of the command's type.  \<open>normalized_fields\<close> is the argument the encoder
  takes from the payload fields.
\<close>

definition argument_bytes :: "(string \<times> int) list \<Rightarrow> command_type \<Rightarrow> byte list" where
  "argument_bytes fs t = (case (t, fs) of
     (SET_REPORT_INTERVAL, [(_, n)]) \<Rightarrow> pack_16 n
   | (WARNING_SOUND, [(_, n)]) \<Rightarrow> pack_u8 n
   | _ \<Rightarrow> [])"

definition type_code :: "command_type \<Rightarrow> int" where
  "type_code t = (case t of SET_REPORT_INTERVAL \<Rightarrow> 1 | WARNING_SOUND \<Rightarrow> 2 | STOP_CORRECTION \<Rightarrow> 3
     | REQUEST_STATUS \<Rightarrow> 4 | _ \<Rightarrow> 0)"

definition command_frame :: "decoded_downlink \<Rightarrow> byte list" where
  "command_frame d = pack_u8 (dd_protocol_version d) @ pack_u8 (type_code (dd_command_type d)) @
     pack_16 (dd_command_seq d) @ pack_u8 (dd_flags d) @
     argument_bytes (dd_payload_fields d) (dd_command_type d)"

definition valid_fields :: "command_type \<Rightarrow> (string \<times> int) list \<Rightarrow> bool" where
  "valid_fields t fs = (case t of
     SET_REPORT_INTERVAL \<Rightarrow> (\<exists>n \<in> {0..65535}. fs = [(''interval_seconds'', n)])
   | WARNING_SOUND \<Rightarrow> (\<exists>n \<in> {0..255}. fs = [(''duration_seconds'', n)])
   | STOP_CORRECTION \<Rightarrow> fs = []
   | REQUEST_STATUS \<Rightarrow> fs = []
   | _ \<Rightarrow> False)"

definition valid_downlink :: "decoded_downlink \<Rightarrow> bool" where
  "valid_downlink d \<longleftrightarrow> dd_protocol_version d = 1 \<and> 1 \<le> dd_command_seq d \<and> dd_command_seq d \<le> 65535 \<and>
     0 \<le> dd_flags d \<and> dd_flags d \<le> 255 \<and> valid_fields (dd_command_type d) (dd_payload_fields d)"

definition normalized_fields :: "command_type \<Rightarrow> payload_fields \<Rightarrow> (py_exc, (string \<times> int) list) res" where
  "normalized_fields t pf = (case t of
     SET_REPORT_INTERVAL \<Rightarrow> bindE (normalize_interval_seconds pf) (\<lambda>n. Inr [(''interval_seconds'', n)])
   | WARNING_SOUND \<Rightarrow> bindE (normalize_duration_seconds pf) (\<lambda>n. Inr [(''duration_seconds'', n)])
   | STOP_CORRECTION \<Rightarrow> Inr []
   | REQUEST_STATUS \<Rightarrow> Inr []
   | _ \<Rightarrow> Inl (Value_Error (''Unsupported ChirpStack binary command type: '' @ command_type_value t)))"

lemma u8_mod [simp]: "u8_at p i mod 256 = u8_at p i"
  using u8_bounds [of p i] by simp

lemma normalize_ok_bounds:
  "normalize_interval_seconds pf = Inr n \<Longrightarrow> 1 \<le> n \<and> n \<le> 65535"
  "normalize_duration_seconds pf = Inr n \<Longrightarrow> 1 \<le> n \<and> n \<le> 255"
  "normalize_flags v = Inr n \<Longrightarrow> 0 \<le> n \<and> n \<le> 255"
  by (auto simp: normalize_interval_seconds_def normalize_duration_seconds_def normalize_flags_def
      Let_def res_simps split: if_splits)

lemma normalized_fields_valid: "normalized_fields t pf = Inr fs \<Longrightarrow> valid_fields t fs"
  by (auto simp: normalized_fields_def valid_fields_def res_simps dest: normalize_ok_bounds
      split: command_type.splits)

lemma encode_command_payload_eq:
  "encode_command_payload t seq flags pf = bindE (normalized_fields t pf) (\<lambda>fs. Inr (command_frame
     \<lparr>dd_protocol_version = 1, dd_command_type = t, dd_command_seq = seq, dd_flags = flags,
      dd_payload_fields = fs\<rparr>))"
  by (cases t; cases "normalize_interval_seconds pf"; cases "normalize_duration_seconds pf")
    (auto simp: encode_command_payload_def command_type_to_code_def normalized_fields_def
      command_frame_def argument_bytes_def type_code_def contract_defs Let_def)

lemma command_frame_decodes:
  assumes "valid_downlink d"
  shows "decode_command_downlink_payload_v1 (command_frame d) = Inr d"
proof -
  let ?t = "dd_command_type d" and ?fs = "dd_payload_fields d"
  have args: "decode_command_specific_payload ?t (argument_bytes ?fs ?t) = Inr ?fs"
    using assms
    by (auto simp: valid_downlink_def valid_fields_def decode_command_specific_payload_def
        argument_bytes_def byte_simps split: command_type.splits)
  have code: "command_type_from_code (type_code ?t) = Inr ?t" "type_code ?t mod 256 = type_code ?t"
    using assms by (auto simp: valid_downlink_def valid_fields_def type_code_def
        command_type_from_code_def split: command_type.splits)
  have "drop 5 (command_frame d) = argument_bytes ?fs ?t"
    by (simp add: command_frame_def pack_u8_def pack_16_def)
  then show ?thesis
    using assms args code
    by (simp add: decode_command_downlink_payload_v1_def valid_downlink_def contract_defs Let_def
        command_frame_def byte_simps validate_command_seq_def)
qed

interpretation command_codec: byte_codec command_frame decode_command_downlink_payload_v1 "\<lambda>d. d" valid_downlink
  by unfold_locales (rule command_frame_decodes)

lemma pack_unpack_u8: "pack_u8 (u8_at p i) = [p ! i]"
  by (simp add: pack_u8_def u8_at_def)

lemma pack_unpack_16: "pack_16 (u16_at p i) = [p ! i, p ! (i + 1)]"
proof -
  have "u16_at p i div 256 = u8_at p i" "u16_at p i mod 256 = u8_at p (i + 1)"
    using u8_bounds [of p "i + 1"] by (simp_all add: u16_at_def)
  moreover have "(word_of_int (u16_at p i) :: byte) = word_of_int (u16_at p i mod 256)"
    by (simp add: word_uint_eq_iff uint_word_of_int)
  ultimately show ?thesis by (simp add: pack_16_def u8_at_def)
qed

lemma type_code_of_code: "command_type_from_code c = Inr t \<Longrightarrow> type_code t = c"
  by (auto simp: command_type_from_code_def type_code_def split: if_splits)

lemma decoded_arguments:
  assumes "decode_command_specific_payload t rest = Inr fs"
  shows "valid_fields t fs \<and> argument_bytes fs t = rest"
proof -
  consider "length rest = 2" "t = SET_REPORT_INTERVAL" | "length rest = 1" "t = WARNING_SOUND"
    | "rest = []" "t = STOP_CORRECTION \<or> t = REQUEST_STATUS"
    using assms by (auto simp: decode_command_specific_payload_def split: if_splits)
  then show ?thesis
  proof cases
    case 1
    then obtain a b where "rest = [a, b]" by (auto simp: numeral_2_eq_2 length_Suc_conv)
    then show ?thesis using assms 1 u16_bounds [of rest 0]
      by (auto simp: decode_command_specific_payload_def valid_fields_def argument_bytes_def pack_unpack_16)
  next
    case 2
    then obtain a where "rest = [a]" by (auto simp: length_Suc_conv)
    then show ?thesis using assms 2 u8_bounds [of rest 0]
      by (auto simp: decode_command_specific_payload_def valid_fields_def argument_bytes_def pack_unpack_u8)
  next
    case 3
    then show ?thesis using assms
      by (auto simp: decode_command_specific_payload_def valid_fields_def argument_bytes_def)
  qed
qed

lemma split_five:
  assumes "5 \<le> length p"
  shows "p = [p ! 0] @ [p ! 1] @ [p ! 2, p ! 3] @ [p ! 4] @ drop 5 p"
proof -
  from assms obtain a b c d e rest where "p = a # b # c # d # e # rest"
    by (auto simp: numeral_eq_Suc Suc_le_length_iff)
  then show ?thesis by simp
qed

lemma decoded_frame:
  assumes "decode_command_downlink_payload_v1 p = Inr d"
  shows "valid_downlink d \<and> command_frame d = p"
proof -
  from assms have len: "5 \<le> length p" and v: "u8_at p 0 = 1"
    and seq: "validate_command_seq (u16_at p 2) = Inr ()"
    and t: "command_type_from_code (u8_at p 1) = Inr (dd_command_type d)"
    and args: "decode_command_specific_payload (dd_command_type d) (drop 5 p) = Inr (dd_payload_fields d)"
    and d: "dd_protocol_version d = 1" "dd_command_seq d = u16_at p 2" "dd_flags d = u8_at p 4"
    by (auto simp: decode_command_downlink_payload_v1_def res_simps contract_defs Let_def split: if_splits)
  have "command_frame d = [p ! 0] @ [p ! 1] @ [p ! 2, p ! 3] @ [p ! 4] @ drop 5 p"
    using decoded_arguments [OF args] type_code_of_code [OF t] pack_unpack_u8 [of p 0] v
    by (simp add: command_frame_def d pack_unpack_u8 pack_unpack_16)
  moreover have "valid_downlink d"
    using decoded_arguments [OF args] seq u8_bounds [of p 4]
    by (simp add: valid_downlink_def d validate_command_seq_def guardE_def split: if_splits)
  ultimately show ?thesis using split_five [OF len] by simp
qed

subsection \<open>Topics split into their segments\<close>

lemma length_split_on: "length (split_on c s) = Suc (length (filter (\<lambda>x. x = c) s))"
  by (induction s) (auto split: list.split)

lemma split_command_topic:
  assumes "CHR ''/'' \<notin> set a" "CHR ''/'' \<notin> set d"
  shows "split_on CHR ''/'' (build_topic a d) = [''application'', a, ''device'', d, ''command'', ''down'']"
proof -
  have "build_topic a d = ''application'' @ CHR ''/'' # a @ CHR ''/'' # ''device'' @ CHR ''/'' # d
      @ CHR ''/'' # ''command'' @ CHR ''/'' # ''down''"
    by (simp add: build_topic_def)
  then show ?thesis using assms by (simp only: split_on_append) (simp add: split_on_append)
qed

lemma six_segments:
  "length (split_on CHR ''/'' (build_topic a d)) = 6 \<longleftrightarrow> CHR ''/'' \<notin> set a \<and> CHR ''/'' \<notin> set d"
  by (auto simp: length_split_on build_topic_def filter_empty_conv)

lemma parse_built_topic:
  "parse_downlink_topic (build_topic a d) = Inr info \<longleftrightarrow>
     CHR ''/'' \<notin> set a \<and> CHR ''/'' \<notin> set d \<and> py_strip a \<noteq> [] \<and> py_compact d \<noteq> [] \<and>
     info = \<lparr>dt_application_id = py_strip a, dt_dev_eui = py_lower (py_compact d)\<rparr>"
proof (cases "CHR ''/'' \<notin> set a \<and> CHR ''/'' \<notin> set d")
  case True
  then show ?thesis
    by (auto simp: parse_downlink_topic_def split_command_topic Let_def py_lower_def)
next
  case False
  then have "length (split_on CHR ''/'' (build_topic a d)) \<noteq> 6" by (simp add: six_segments)
  with False show ?thesis by (auto simp: parse_downlink_topic_def Let_def)
qed

lemma encoded_frame_decodes:
  assumes "encode_command_downlink uuid seq t (Some pf) = Inr e"
  shows "1 \<le> seq" "seq \<le> 65535"
    "\<exists>d. decode_command_downlink_payload_v1 (ed_data e) = Inr d \<and> dd_command_type d = t \<and>
    dd_command_seq d = seq \<and> normalized_fields t pf = Inr (dd_payload_fields d) \<and>
    normalize_flags (case map_of pf ''flags'' of None \<Rightarrow> PvInt 0 | Some v \<Rightarrow> v) = Inr (dd_flags d) \<and>
    ed_f_port e = COMMAND_FPORT \<and> ed_confirmed e \<and> ed_command_id e = uuid"
proof -
  from assms obtain flags fs where
    flags: "normalize_flags (case map_of pf ''flags'' of None \<Rightarrow> PvInt 0 | Some v \<Rightarrow> v) = Inr flags"
    and fs: "normalized_fields t pf = Inr fs" and seq: "1 \<le> seq" "seq \<le> 65535"
    and e: "ed_data e = command_frame \<lparr>dd_protocol_version = 1, dd_command_type = t,
        dd_command_seq = seq, dd_flags = flags, dd_payload_fields = fs\<rparr>"
      "ed_f_port e = COMMAND_FPORT" "ed_confirmed e" "ed_command_id e = uuid"
    by (auto simp: encode_command_downlink_def encode_command_payload_eq validate_command_seq_def
        res_simps Let_def)
  show "1 \<le> seq" "seq \<le> 65535" by (rule seq)+
  have "valid_downlink \<lparr>dd_protocol_version = 1, dd_command_type = t,
        dd_command_seq = seq, dd_flags = flags, dd_payload_fields = fs\<rparr>"
    using seq normalize_ok_bounds(3) [OF flags] normalized_fields_valid [OF fs]
    by (simp add: valid_downlink_def)
  from command_codec.dec_enc [OF this] show "\<exists>d. decode_command_downlink_payload_v1 (ed_data e) = Inr d \<and> dd_command_type d = t \<and>
    dd_command_seq d = seq \<and> normalized_fields t pf = Inr (dd_payload_fields d) \<and>
    normalize_flags (case map_of pf ''flags'' of None \<Rightarrow> PvInt 0 | Some v \<Rightarrow> v) = Inr (dd_flags d) \<and>
    ed_f_port e = COMMAND_FPORT \<and> ed_confirmed e \<and> ed_command_id e = uuid"
    using flags fs e by simp
qed

subsection \<open>Properties\<close>

text \<open>
  Property C25. Encoding a command and decoding its frame gives the command back: the type, the
  sequence number, the normalised flags and the normalised argument; the frame goes to the
  command port and asks for a confirmation.
\<close>
theorem command_encode_decode:
  assumes "encode_command_downlink uuid seq t (Some pf) = Inr e"
  shows "\<exists>d. decode_command_downlink_payload_v1 (ed_data e) = Inr d \<and> dd_command_type d = t \<and>
    dd_command_seq d = seq \<and> normalized_fields t pf = Inr (dd_payload_fields d) \<and>
    normalize_flags (case map_of pf ''flags'' of None \<Rightarrow> PvInt 0 | Some v \<Rightarrow> v) = Inr (dd_flags d) \<and>
    ed_f_port e = COMMAND_FPORT \<and> ed_confirmed e \<and> ed_command_id e = uuid"
  by (rule encoded_frame_decodes(3) [OF assms])

theorem command_encode_decode_witness:
  "\<exists>e. encode_command_downlink ''u'' 258 WARNING_SOUND (Some [(''duration_ms'', PvInt 1500)]) = Inr e \<and>
    (\<exists>d. decode_command_downlink_payload_v1 (ed_data e) = Inr d \<and> dd_command_seq d = 258 \<and>
       dd_payload_fields d = [(''duration_seconds'', 2)])"
proof -
  have "\<lceil>3 / 2 :: rat\<rceil> = 2" by (rule ceiling_unique) simp_all
  then have n: "normalized_fields WARNING_SOUND [(''duration_ms'', PvInt 1500)] = Inr [(''duration_seconds'', 2)]"
    by (simp add: normalized_fields_def normalize_duration_seconds_def field_or_none_def Let_def)
  then obtain e where e: "encode_command_downlink ''u'' 258 WARNING_SOUND (Some [(''duration_ms'', PvInt 1500)]) = Inr e"
    by (simp add: encode_command_downlink_def validate_command_seq_def normalize_flags_def
        encode_command_payload_eq)
  from command_encode_decode [OF e] n e show ?thesis by auto
qed

text \<open>
  The command decoder accepts exactly the frames of the layout: it returns a
  command just when the bytes are the frame of that command and the command is valid, so no
  two commands share a frame and nothing else is accepted.
\<close>
theorem command_decode_exact:
  "decode_command_downlink_payload_v1 p = Inr d \<longleftrightarrow> valid_downlink d \<and> p = command_frame d"
  using decoded_frame [of p d] command_codec.dec_enc [of d] by auto

text \<open>
  Parsing the topic built for a device recovers its application and its
  normalised EUI, and fails exactly when one of the two contains a slash or is blank.
\<close>
theorem downlink_topic_roundtrip:
  "parse_downlink_topic (build_topic a d) = Inr info \<longleftrightarrow>
     CHR ''/'' \<notin> set a \<and> CHR ''/'' \<notin> set d \<and> py_strip a \<noteq> [] \<and> py_compact d \<noteq> [] \<and>
     info = \<lparr>dt_application_id = py_strip a, dt_dev_eui = normalize_eui_text d\<rparr>"
  unfolding normalize_eui_text_def by (rule parse_built_topic)

end
