(* ===== verification/TLRS_Tables.thy ===== *)
theory TLRS_Tables
  imports Downlink_Codec
begin

text \<open>
  The database of the backend, \<open>src/models/*.py\<close>: one record per mapped class, a column a
  field, \<open>Optional\<close> columns of option type, times naive UTC microseconds, a \<open>deleted\<close> flag the
  character the code writes, a relationship the foreign key it follows.  A table is the list
  of its rows in insertion order; \<open>tlrs_db\<close> is the database a session sees.  The session
  factory sets \<open>autoflush=False\<close> (\<open>src/db/config/config.py\<close>): the commands added and not yet
  flushed are therefore kept apart, in \<open>db_new_commands\<close>, where the queries do not see them.
  Beside the tables stands \<open>db_published\<close>, the channel and text of each message Redis took from
  the service, in order: no transaction touches it and no rollback takes it back.  The WKT of a
  coordinate that is no number is stored as PostGIS stores it, a point with that coordinate.
\<close>

subsection \<open>Rows\<close>

datatype device_state = ON | OFF
datatype communication_protocol = HTTP | MQTT | CHIRPSTACK
datatype provisioning_status = NOT_PROVISIONED | PROV_PENDING | PROVISIONED | PROV_FAILED
datatype asset_status = ACTIVE | INACTIVE

record device =
  d_id :: nat
  d_serial :: string
  d_name :: string
  d_type :: string
  d_last_seen_at :: "int option"
  d_dev_eui :: "string option"
  d_join_eui :: "string option"
  d_application_id :: "string option"
  d_lorawan_class :: "string option"
  d_device_profile_id :: "string option"
  d_provisioning_status :: provisioning_status
  d_provisioned_at :: "int option"
  d_provisioning_error :: "string option"
  d_app_key_last4 :: "string option"
  d_deleted :: char
  d_state :: device_state
  d_protocol :: communication_protocol
  d_client_id :: "nat option"
  d_asset_id :: "nat option"
  d_active :: bool

record asset =
  a_id :: nat
  a_type :: string
  a_serial :: string
  a_deleted :: char
  a_client_id :: "nat option"
  a_status :: asset_status

record client =
  cl_id :: nat
  cl_name :: string
  cl_email :: string
  cl_deleted :: char

record device_assignment =
  da_id :: nat
  da_device_id :: nat
  da_asset_id :: nat
  da_assigned_at :: int
  da_unassigned_at :: "int option"
  da_created_at :: int

record location =
  l_id :: nat
  l_device_id :: nat
  l_latitude :: py_float
  l_longitude :: py_float
  l_point :: "(py_float \<times> py_float) option"
  l_altitude :: "py_float option"
  l_accuracy :: "py_float option"
  l_device_timestamp :: "int option"
  l_received_at :: int
  l_deleted :: char

text \<open>A shape is a multipolygon: polygons, rings, positions (longitude, latitude).\<close>

type_synonym multipolygon = "(rat \<times> rat) list list list"

record geofence =
  gf_id :: nat
  gf_client_id :: nat
  gf_name :: string
  gf_description :: "string option"
  gf_shape :: multipolygon
  gf_active :: bool
  gf_deleted :: char
  gf_created_at :: int
  gf_updated_at :: int

record geofence_assignment =
  ga_id :: nat
  ga_asset_id :: nat
  ga_fence_id :: nat
  ga_active :: bool
  ga_deleted :: char
  ga_assigned_at :: int
  ga_unassigned_at :: "int option"
  ga_created_at :: int
  ga_updated_at :: int

datatype fence_event_type = EV_NEAR_LIMIT | EV_EXITED | EV_ENTERED | EV_RETURNED | EV_GPS_UNCERTAIN
datatype fence_status = SAFE | NEAR_LIMIT | OUTSIDE | GPS_UNCERTAIN

record geofence_event =
  ge_id :: nat
  ge_fence_id :: nat
  ge_device_id :: nat
  ge_asset_id :: "nat option"
  ge_location_id :: nat
  ge_event_type :: fence_event_type
  ge_distance :: "py_float option"
  ge_accuracy :: "py_float option"
  ge_created_at :: int

record asset_state =
  gs_id :: nat
  gs_fence_id :: nat
  gs_asset_id :: nat
  gs_device_id :: nat
  gs_status :: fence_status
  gs_last_location_id :: nat
  gs_last_distance :: "py_float option"
  gs_last_accuracy :: "py_float option"
  gs_first_detected_at :: int
  gs_last_evaluated_at :: int
  gs_created_at :: int
  gs_updated_at :: int

record asset_group =
  ag_id :: nat
  ag_client_id :: nat
  ag_name :: string
  ag_description :: "string option"
  ag_active :: bool
  ag_deleted :: char
  ag_created_at :: int
  ag_updated_at :: int

record group_member =
  agm_id :: nat
  agm_group_id :: nat
  agm_asset_id :: nat
  agm_deleted :: char
  agm_created_at :: int

record fence_group =
  gg_id :: nat
  gg_geofence_id :: nat
  gg_group_id :: nat
  gg_active :: bool
  gg_deleted :: char
  gg_assigned_at :: int
  gg_unassigned_at :: "int option"
  gg_created_at :: int
  gg_updated_at :: int

datatype command_status = CMD_PENDING | CMD_SENT | CMD_ACKED | CMD_FAILED | CMD_EXPIRED

record device_command =
  cmd_id :: nat
  cmd_uuid :: string
  cmd_queue_item_id :: "string option"
  cmd_seq :: "int option"
  cmd_device_id :: nat
  cmd_asset_id :: "nat option"
  cmd_event_id :: "nat option"
  cmd_type :: command_type
  cmd_status :: command_status
  cmd_topic :: string
  cmd_payload :: py_value
  cmd_qos :: int
  cmd_retain :: bool
  cmd_created_at :: int
  cmd_sent_at :: "int option"
  cmd_tx_acked_at :: "int option"
  cmd_lorawan_ack_at :: "int option"
  cmd_ack_at :: "int option"
  cmd_failed_at :: "int option"
  cmd_expires_at :: "int option"
  cmd_error_message :: "string option"

record cs_event =
  ce_id :: nat
  ce_device_id :: "nat option"
  ce_event_type :: string
  ce_application_id :: string
  ce_dev_eui :: string
  ce_deduplication_id :: "string option"
  ce_topic :: string
  ce_payload :: py_value
  ce_processed :: bool
  ce_error_message :: "string option"

subsection \<open>The database\<close>

record tlrs_db =
  db_devices :: "device list"
  db_assets :: "asset list"
  db_device_assignments :: "device_assignment list"
  db_locations :: "location list"
  db_geofences :: "geofence list"
  db_geofence_assignments :: "geofence_assignment list"
  db_geofence_events :: "geofence_event list"
  db_asset_states :: "asset_state list"
  db_asset_groups :: "asset_group list"
  db_group_members :: "group_member list"
  db_fence_groups :: "fence_group list"
  db_commands :: "device_command list"
  db_new_commands :: "device_command list"
  db_cs_events :: "cs_event list"
  db_clients :: "client list"
  db_published :: "(string \<times> string) list"

definition empty_db :: tlrs_db where
  "empty_db = \<lparr>db_devices = [], db_assets = [], db_device_assignments = [], db_locations = [],
     db_geofences = [], db_geofence_assignments = [], db_geofence_events = [], db_asset_states = [],
     db_asset_groups = [], db_group_members = [], db_fence_groups = [], db_commands = [],
     db_new_commands = [], db_cs_events = [], db_clients = [], db_published = []\<rparr>"

subsection \<open>Operations on a table\<close>

text \<open>
  A query by primary key, the write-back of a row object and the key of a new row (a sequence
  of the database: larger than every key in use).
\<close>

definition fetch :: "('r \<Rightarrow> nat) \<Rightarrow> nat \<Rightarrow> 'r list \<Rightarrow> 'r option" where
  "fetch key i rows = find (\<lambda>r. key r = i) rows"

definition put :: "('r \<Rightarrow> nat) \<Rightarrow> 'r \<Rightarrow> 'r list \<Rightarrow> 'r list" where
  "put key r rows = map (\<lambda>x. if key x = key r then r else x) rows"

definition fresh :: "('r \<Rightarrow> nat) \<Rightarrow> 'r list \<Rightarrow> nat" where
  "fresh key rows = Suc (foldr (\<lambda>r m. max (key r) m) rows 0)"

named_theorems table_simps \<open>facts about tables\<close>

lemma fetch_Some: "fetch key i rows = Some r \<Longrightarrow> r \<in> set rows \<and> key r = i"
  by (induction rows) (auto simp: fetch_def split: if_splits)

lemma fetch_None: "fetch key i rows = None \<longleftrightarrow> i \<notin> key ` set rows"
  by (auto simp: fetch_def find_None_iff)

lemma fetch_unique:
  "distinct (map key rows) \<Longrightarrow> r \<in> set rows \<Longrightarrow> fetch key (key r) rows = Some r"
  by (induction rows) (auto simp: fetch_def)

lemma map_key_put [table_simps, simp]: "map key (put key r rows) = map key rows"
  by (induction rows) (auto simp: put_def)

lemma length_put [table_simps, simp]: "length (put key r rows) = length rows"
  by (simp add: put_def)

lemma in_put: "x \<in> set (put key r rows) \<Longrightarrow> x = r \<or> x \<in> set rows \<and> key x \<noteq> key r"
  by (auto simp: put_def split: if_splits)

lemma find_put:
  "\<forall>x \<in> set rows. key x = key r \<longrightarrow> P x = P r \<Longrightarrow>
    find P (put key r rows) = map_option (\<lambda>x. if key x = key r then r else x) (find P rows)"
  by (induction rows) (auto simp: put_def)

lemma map_put_same:
  "\<forall>x \<in> set rows. key x = key r \<longrightarrow> g x = g r \<Longrightarrow> map g (put key r rows) = map g rows"
  by (induction rows) (auto simp: put_def)

lemma same_key_same_row:
  "distinct (map key rows) \<Longrightarrow> x \<in> set rows \<Longrightarrow> y \<in> set rows \<Longrightarrow> key x = key y \<Longrightarrow> x = y"
  by (auto simp: distinct_map inj_on_def)

lemma fetch_put_other [table_simps]: "i \<noteq> key r \<Longrightarrow> fetch key i (put key r rows) = fetch key i rows"
  by (induction rows) (auto simp: fetch_def put_def)

lemma fetch_put_same [table_simps]:
  "fetch key (key r) (put key r rows) = (if key r \<in> key ` set rows then Some r else None)"
  by (induction rows) (auto simp: fetch_def put_def)

lemma foldr_max_ge:
  fixes key :: "'r \<Rightarrow> nat"
  shows "r \<in> set rows \<Longrightarrow> key r \<le> foldr (\<lambda>r m. max (key r) m) rows 0"
  by (induction rows) (auto simp: le_max_iff_disj)

lemma fresh_not_in [table_simps]: "fresh key rows \<notin> key ` set rows"
  using foldr_max_ge [where rows = rows and key = key] by (fastforce simp: fresh_def)

lemma fresh_pos [simp]: "0 < fresh key rows"
  by (simp add: fresh_def)

lemma distinct_append_fresh:
  "distinct (map key rows) \<Longrightarrow> key r = fresh key rows \<Longrightarrow> distinct (map key (rows @ [r]))"
  using fresh_not_in [of key rows] by auto

lemma set_put:
  assumes "distinct (map key rows)" "r0 \<in> set rows" "key r = key r0"
  shows "set (put key r rows) = insert r (set rows - {r0})"
proof -
  have "key x = key r \<longleftrightarrow> x = r0" if "x \<in> set rows" for x
    using that assms same_key_same_row [OF assms(1) that assms(2)] by auto
  then show ?thesis using assms(2) by (auto simp: put_def image_iff split: if_splits)
qed

lemma image_key_put [simp]: "key ` set (put key r rows) = key ` set rows"
  by (metis list.set_map map_key_put)

lemma put_same_row:
  assumes "distinct (map key rows)" "r \<in> set rows"
  shows "put key r rows = rows"
  unfolding put_def by (rule map_idI) (use same_key_same_row [OF assms(1) _ assms(2)] in fastforce)

lemma distinct_filter_iff:
  assumes "distinct (map key rows)"
  shows "distinct (map f (filter P rows)) \<longleftrightarrow>
    (\<forall>x \<in> set rows. \<forall>y \<in> set rows. P x \<longrightarrow> P y \<longrightarrow> f x = f y \<longrightarrow> key x = key y)"
proof -
  have "distinct (filter P rows)" using assms by (simp add: distinct_map)
  then show ?thesis
    using same_key_same_row [OF assms] by (auto simp: distinct_map inj_on_def)
qed

lemma filter_put:
  "\<forall>x \<in> set rows. key x = key r \<longrightarrow> \<not> P x \<Longrightarrow> \<not> P r \<Longrightarrow> filter P (put key r rows) = filter P rows"
  by (induction rows) (auto simp: put_def)

lemma length_filter_mono: "(\<And>x. x \<in> set rows \<Longrightarrow> P x \<Longrightarrow> Q x) \<Longrightarrow> length (filter P rows) \<le> length (filter Q rows)"
  by (induction rows) (auto simp: le_SucI)

lemma put_append: "put key r (xs @ ys) = put key r xs @ put key r ys"
  by (simp add: put_def)

lemma put_fresh [simp]: "key r = fresh key rows \<Longrightarrow> put key r rows = rows"
  using fresh_not_in [of key rows] by (force simp: put_def intro: map_idI)

text \<open>A query whose condition at most one row meets returns it.\<close>

lemma scalar_filter:
  assumes "distinct (map key rows)"
    and "\<And>x y. x \<in> set rows \<Longrightarrow> y \<in> set rows \<Longrightarrow> P x \<Longrightarrow> P y \<Longrightarrow> key x = key y"
  shows "scalar_one_or_none (filter P rows) = Inr (find P rows)"
  using assms
proof (induction rows)
  case (Cons r rows)
  show ?case
  proof (cases "P r")
    case True
    have "filter P rows = []"
    proof (rule filter_False, intro ballI notI)
      fix y assume "y \<in> set rows" "P y"
      with Cons.prems(2) [of r y] True have "key r = key y" by auto
      with \<open>y \<in> set rows\<close> Cons.prems(1) show False by auto
    qed
    with True show ?thesis by simp
  next
    case False
    have "scalar_one_or_none (filter P rows) = Inr (find P rows)"
      by (rule Cons.IH) (use Cons.prems in auto)
    with False show ?thesis by simp
  qed
qed simp

lemma scalar_one_or_none_Some: "scalar_one_or_none xs = Inr (Some r) \<longleftrightarrow> xs = [r]"
  by (cases xs rule: scalar_one_or_none.cases) auto

lemma scalar_one_or_none_None: "scalar_one_or_none xs = Inr None \<longleftrightarrow> xs = []"
  by (cases xs rule: scalar_one_or_none.cases) auto

subsection \<open>The interface of a keyed store\<close>

text \<open>
  What the services rely on when they load a row, change it and write it back: the laws of a
  store with a lookup, an update of an existing row and an insertion under a new key.
\<close>

locale keyed_store =
  fixes key :: "'r \<Rightarrow> nat"
    and lookup :: "nat \<Rightarrow> 't \<Rightarrow> 'r option"
    and update :: "'r \<Rightarrow> 't \<Rightarrow> 't"
    and insert_row :: "'r \<Rightarrow> 't \<Rightarrow> 't"
    and rows :: "'t \<Rightarrow> 'r list"
  assumes lookup_rows: "lookup i t = Some r \<Longrightarrow> r \<in> set (rows t) \<and> key r = i"
    and lookup_update_same: "lookup (key r) t \<noteq> None \<Longrightarrow> lookup (key r) (update r t) = Some r"
    and lookup_update_other: "i \<noteq> key r \<Longrightarrow> lookup i (update r t) = lookup i t"
    and rows_update: "map key (rows (update r t)) = map key (rows t)"
    and rows_insert: "rows (insert_row r t) = rows t @ [r]"
begin

text \<open>A change that keeps the key of a loaded row can be read back.\<close>

lemma read_back:
  assumes "lookup i t = Some r" "key (f r) = key r"
  shows "lookup i (update (f r) t) = Some (f r)"
  using assms lookup_rows [OF assms(1)] lookup_update_same [of "f r" t] by simp

text \<open>The last of two changes wins, and the row in between is not seen.\<close>

lemma update_twice:
  assumes "lookup i t = Some r" "key (f r) = key r" "key (g (f r)) = key r"
  shows "lookup i (update (g (f r)) (update (f r) t)) = Some (g (f r))"
  using assms read_back [where f = f, OF assms(1,2)] lookup_rows [OF assms(1)]
    lookup_update_same [of "g (f r)" "update (f r) t"] by simp

lemma keys_unchanged: "key ` set (rows (update r t)) = key ` set (rows t)"
  by (metis list.set_map rows_update)

lemma distinct_keys_insert:
  "distinct (map key (rows t)) \<Longrightarrow> key r \<notin> key ` set (rows t) \<Longrightarrow> distinct (map key (rows (insert_row r t)))"
  by (auto simp: rows_insert)

end

interpretation command_store: keyed_store cmd_id "\<lambda>i db. fetch cmd_id i (db_commands db)"
    "\<lambda>c db. db\<lparr>db_commands := put cmd_id c (db_commands db)\<rparr>"
    "\<lambda>c db. db\<lparr>db_commands := db_commands db @ [c]\<rparr>" db_commands
  by unfold_locales (auto dest: fetch_Some simp: fetch_None table_simps)

interpretation device_store: keyed_store d_id "\<lambda>i db. fetch d_id i (db_devices db)"
    "\<lambda>d db. db\<lparr>db_devices := put d_id d (db_devices db)\<rparr>"
    "\<lambda>d db. db\<lparr>db_devices := db_devices db @ [d]\<rparr>" db_devices
  by unfold_locales (auto dest: fetch_Some simp: fetch_None table_simps)

end
