(* ===== verification/ChirpStack_Api.thy ===== *)
theory ChirpStack_Api
  imports TLRS_Tables
begin

text \<open>
  The gRPC client of the network server, \<open>src/integrations/chirpstack/api_client.py\<close>, and the
  transport built on it, \<open>src/infrastructure/downlink/transports.py\<close>.  The generated stub and
  the server behind it are parameters: a record of the RPCs over an abstract world \<open>'w\<close>.
\<close>

subsection \<open>Errors\<close>

datatype api_error =
    Configuration_Error string
  | Authentication_Error string
  | Permission_Denied_Error string
  | Timeout_Error string
  | Connection_Error string
  | Not_Found_Error string
  | Already_Exists_Error string
  | Validation_Error string
  | Request_Error string bool

fun api_message :: "api_error \<Rightarrow> string" where
  "api_message (Configuration_Error m) = m"
| "api_message (Authentication_Error m) = m"
| "api_message (Permission_Denied_Error m) = m"
| "api_message (Timeout_Error m) = m"
| "api_message (Connection_Error m) = m"
| "api_message (Not_Found_Error m) = m"
| "api_message (Already_Exists_Error m) = m"
| "api_message (Validation_Error m) = m"
| "api_message (Request_Error m _) = m"

fun api_retryable :: "api_error \<Rightarrow> bool" where
  "api_retryable (Timeout_Error _) = True"
| "api_retryable (Connection_Error _) = True"
| "api_retryable (Request_Error _ r) = r"
| "api_retryable _ = False"

subsection \<open>The stub\<close>

datatype grpc_status = OK_STATUS | CANCELLED | UNKNOWN | INVALID_ARGUMENT | DEADLINE_EXCEEDED
  | NOT_FOUND | ALREADY_EXISTS | PERMISSION_DENIED | RESOURCE_EXHAUSTED | FAILED_PRECONDITION
  | ABORTED | OUT_OF_RANGE | UNIMPLEMENTED | INTERNAL | UNAVAILABLE | DATA_LOSS | UNAUTHENTICATED

definition grpc_status_name :: "grpc_status \<Rightarrow> string" where
  "grpc_status_name s = (case s of OK_STATUS \<Rightarrow> ''OK'' | CANCELLED \<Rightarrow> ''CANCELLED'' | UNKNOWN \<Rightarrow> ''UNKNOWN''
     | INVALID_ARGUMENT \<Rightarrow> ''INVALID_ARGUMENT'' | DEADLINE_EXCEEDED \<Rightarrow> ''DEADLINE_EXCEEDED''
     | NOT_FOUND \<Rightarrow> ''NOT_FOUND'' | ALREADY_EXISTS \<Rightarrow> ''ALREADY_EXISTS''
     | PERMISSION_DENIED \<Rightarrow> ''PERMISSION_DENIED'' | RESOURCE_EXHAUSTED \<Rightarrow> ''RESOURCE_EXHAUSTED''
     | FAILED_PRECONDITION \<Rightarrow> ''FAILED_PRECONDITION'' | ABORTED \<Rightarrow> ''ABORTED''
     | OUT_OF_RANGE \<Rightarrow> ''OUT_OF_RANGE'' | UNIMPLEMENTED \<Rightarrow> ''UNIMPLEMENTED'' | INTERNAL \<Rightarrow> ''INTERNAL''
     | UNAVAILABLE \<Rightarrow> ''UNAVAILABLE'' | DATA_LOSS \<Rightarrow> ''DATA_LOSS'' | UNAUTHENTICATED \<Rightarrow> ''UNAUTHENTICATED'')"

datatype rpc_failure = Future_Timeout | Rpc_Error grpc_status "string option" | Other_Exception string

record grpc_call =
  gc_target :: string
  gc_secure :: bool
  gc_metadata :: "(string \<times> string) list"
  gc_timeout :: int

record queue_item =
  qi_dev_eui :: string
  qi_confirmed :: bool
  qi_f_port :: int
  qi_data :: "byte list"
  qi_expires_at :: "int option"

record device_message =
  dm_dev_eui :: string
  dm_name :: string
  dm_application_id :: string
  dm_device_profile_id :: string
  dm_join_eui :: string
  dm_description :: string
  dm_is_disabled :: bool
  dm_tags :: "(string \<times> string) list"

record keys_message =
  km_dev_eui :: string
  km_nwk_key :: string
  km_app_key :: string

record 'w device_stub =
  st_enqueue :: "grpc_call \<Rightarrow> queue_item \<Rightarrow> ('w, rpc_failure, string) act"
  st_get :: "grpc_call \<Rightarrow> string \<Rightarrow> ('w, rpc_failure, device_message) act"
  st_create :: "grpc_call \<Rightarrow> device_message \<Rightarrow> ('w, rpc_failure, unit) act"
  st_update :: "grpc_call \<Rightarrow> device_message \<Rightarrow> ('w, rpc_failure, unit) act"
  st_get_keys :: "grpc_call \<Rightarrow> string \<Rightarrow> ('w, rpc_failure, keys_message) act"
  st_create_keys :: "grpc_call \<Rightarrow> keys_message \<Rightarrow> ('w, rpc_failure, unit) act"
  st_update_keys :: "grpc_call \<Rightarrow> keys_message \<Rightarrow> ('w, rpc_failure, unit) act"

subsection \<open>The client\<close>

text \<open>\<open>ac_dependencies\<close> is whether the gRPC modules import.\<close>

record api_client =
  ac_host :: string
  ac_port :: int
  ac_token :: string
  ac_use_tls :: bool
  ac_timeout_seconds :: int
  ac_dependencies :: bool

record device_record =
  dr_dev_eui :: string
  dr_name :: string
  dr_application_id :: string
  dr_device_profile_id :: string
  dr_description :: "string option"
  dr_join_eui :: "string option"
  dr_is_disabled :: bool
  dr_tags :: "(string \<times> string) list"

record device_keys_record =
  dk_dev_eui :: string
  dk_nwk_key :: "string option"
  dk_app_key :: "string option"

definition or_none :: "string \<Rightarrow> string option" where
  "or_none s = (if s = [] then None else Some s)"

definition or_empty :: "string option \<Rightarrow> string" where
  "or_empty s = (case s of None \<Rightarrow> [] | Some t \<Rightarrow> t)"

text \<open>\<open>__init__\<close>: an argument that is \<open>None\<close>, empty or 0 takes the value of the settings.\<close>

definition make_api_client ::
  "string option \<Rightarrow> int option \<Rightarrow> string option \<Rightarrow> bool option \<Rightarrow> int option \<Rightarrow>
   string \<Rightarrow> int \<Rightarrow> string option \<Rightarrow> bool \<Rightarrow> int \<Rightarrow> bool \<Rightarrow> api_client" where
  "make_api_client host port token use_tls timeout_seconds
     set_host set_port set_token set_tls set_timeout dependencies =
     \<lparr>ac_host = py_strip (if or_empty host = [] then set_host else or_empty host),
      ac_port = (case port of None \<Rightarrow> set_port | Some p \<Rightarrow> if p = 0 then set_port else p),
      ac_token = py_strip (if or_empty token = [] then or_empty set_token else or_empty token),
      ac_use_tls = (case use_tls of None \<Rightarrow> set_tls | Some b \<Rightarrow> b),
      ac_timeout_seconds = (case timeout_seconds of None \<Rightarrow> set_timeout | Some t \<Rightarrow> if t = 0 then set_timeout else t),
      ac_dependencies = dependencies\<rparr>"

definition load_grpc_dependencies :: "api_client \<Rightarrow> (api_error, unit) res" where
  "load_grpc_dependencies c = guardE (\<not> ac_dependencies c) (Configuration_Error
     ''ChirpStack gRPC dependencies are missing. Install requirements and rebuild the Docker image.'')"

definition validate_client_configuration :: "api_client \<Rightarrow> string \<Rightarrow> (api_error, unit) res" where
  "validate_client_configuration c operation_label =
     (if ac_host c = [] then Inl (Configuration_Error (''CHIRPSTACK_API_HOST is required for '' @ operation_label))
      else if ac_port c = 0 then Inl (Configuration_Error (''CHIRPSTACK_API_PORT is required for '' @ operation_label))
      else if ac_token c = [] then Inl (Configuration_Error (''CHIRPSTACK_API_TOKEN is required for '' @ operation_label))
      else Inr ())"

definition hex_digits :: string where "hex_digits = ''0123456789abcdef''"

definition normalize_eui :: "string option \<Rightarrow> string \<Rightarrow> (api_error, string) res" where
  "normalize_eui v field_name =
     (let normalized = py_lower (py_compact (or_empty v))
      in if length normalized \<noteq> 16 \<or> (\<exists>c \<in> set normalized. c \<notin> set hex_digits)
           then Inl (Configuration_Error (field_name @ '' must be a valid 16-character hex string''))
         else Inr normalized)"

definition normalize_app_key :: "string option \<Rightarrow> (api_error, string) res" where
  "normalize_app_key v =
     (let normalized = py_lower (py_compact (or_empty v))
      in if length normalized \<noteq> 32 \<or> (\<exists>c \<in> set normalized. c \<notin> set hex_digits)
           then Inl (Configuration_Error ''app_key must be a valid 32-character hex string'')
         else Inr normalized)"

definition normalize_required_text :: "string option \<Rightarrow> string \<Rightarrow> (api_error, string) res" where
  "normalize_required_text v field_name =
     (let normalized = py_strip (or_empty v)
      in if normalized = [] then Inl (Configuration_Error (field_name @ '' is required'')) else Inr normalized)"

definition client_call :: "api_client \<Rightarrow> grpc_call" where
  "client_call c = \<lparr>gc_target = ac_host c @ '':'' @ py_str_int (ac_port c), gc_secure = ac_use_tls c,
     gc_metadata = [(''authorization'', ''Bearer '' @ ac_token c)], gc_timeout = ac_timeout_seconds c\<rparr>"

definition augment_connectivity_hint :: "api_client \<Rightarrow> string \<Rightarrow> string" where
  "augment_connectivity_hint c details =
     (let normalized = py_lower details
      in if \<not> py_contains ''address lookup failed'' normalized \<and> \<not> py_contains ''name not found'' normalized
           then details
         else if py_lower (py_strip (ac_host c)) \<noteq> ''chirpstack'' then details
         else details @ ''. Hint: the ChirpStack container/alias '' @ [CHR 0x27] @ ''chirpstack'' @ [CHR 0x27]
           @ '' is not resolvable from this worker. Verify the ChirpStack stack is running and joined to the ''
           @ ''shared Docker network configured by MANEA_CHIRPSTACK_SHARED_NETWORK.'')"

definition map_rpc_error :: "api_client \<Rightarrow> grpc_status \<Rightarrow> string option \<Rightarrow> string \<Rightarrow> api_error" where
  "map_rpc_error c status_code exc_details operation_name =
     (let given = (if or_empty exc_details = [] then ''Unknown gRPC error'' else or_empty exc_details);
          details = augment_connectivity_hint c (py_strip given);
          failed = ''ChirpStack '' @ operation_name @ '' failed with ''
      in if status_code = UNAUTHENTICATED
           then Authentication_Error (''ChirpStack API authentication failed during '' @ operation_name @ '': '' @ details)
         else if status_code = PERMISSION_DENIED
           then Permission_Denied_Error (''ChirpStack API permission denied during '' @ operation_name @ '': '' @ details)
         else if status_code = NOT_FOUND then Not_Found_Error (failed @ ''NOT_FOUND: '' @ details)
         else if status_code = ALREADY_EXISTS then Already_Exists_Error (failed @ ''ALREADY_EXISTS: '' @ details)
         else if status_code = INVALID_ARGUMENT then Validation_Error (failed @ ''INVALID_ARGUMENT: '' @ details)
         else if status_code \<in> {DEADLINE_EXCEEDED, UNAVAILABLE, CANCELLED, RESOURCE_EXHAUSTED, INTERNAL, UNKNOWN, ABORTED}
           then (if status_code = DEADLINE_EXCEEDED then Timeout_Error else Connection_Error)
             (failed @ grpc_status_name status_code @ '': '' @ details)
         else Request_Error (failed @ grpc_status_name status_code @ '': '' @ details) False)"

definition map_rpc_failure :: "api_client \<Rightarrow> string \<Rightarrow> rpc_failure \<Rightarrow> api_error" where
  "map_rpc_failure c operation_name exc = (case exc of
     Future_Timeout \<Rightarrow> Timeout_Error (''ChirpStack '' @ operation_name @ '' timed out after ''
       @ py_str_int (ac_timeout_seconds c) @ '' seconds'')
   | Rpc_Error status details \<Rightarrow> map_rpc_error c status details operation_name
   | Other_Exception m \<Rightarrow> Connection_Error (''ChirpStack '' @ operation_name @ '' failed: '' @ m))"

definition call_device_service ::
  "api_client \<Rightarrow> (grpc_call \<Rightarrow> ('w, rpc_failure, 'a) act) \<Rightarrow> string \<Rightarrow> ('w, api_error, 'a) act" where
  "call_device_service c rpc operation_name =
     bindS (liftS (load_grpc_dependencies c)) (\<lambda>_.
       catchS (rpc (client_call c)) (\<lambda>exc. raiseS (map_rpc_failure c operation_name exc)))"

subsection \<open>The operations of the client\<close>

definition prepare :: "api_client \<Rightarrow> string \<Rightarrow> (api_error, unit) res" where
  "prepare c label = bindE (load_grpc_dependencies c) (\<lambda>_. validate_client_configuration c label)"

definition api_enqueue_downlink ::
  "api_client \<Rightarrow> 'w device_stub \<Rightarrow> string \<Rightarrow> int \<Rightarrow> byte list \<Rightarrow> bool \<Rightarrow> py_datetime option
   \<Rightarrow> ('w, api_error, string) act" where
  "api_enqueue_downlink c stub dev_eui f_port data confirmed expires_at =
     bindS (liftS (prepare c ''gRPC downlinks'')) (\<lambda>_.
     bindS (liftS (normalize_eui (Some dev_eui) ''dev_eui'')) (\<lambda>normalized_dev_eui.
     if f_port \<le> 0 then raiseS (Configuration_Error ''ChirpStack f_port must be greater than 0'')
     else if data = [] then raiseS (Configuration_Error ''ChirpStack downlink data must not be empty'')
     else bindS (call_device_service c
         (\<lambda>call. st_enqueue stub call \<lparr>qi_dev_eui = normalized_dev_eui, qi_confirmed = confirmed,
            qi_f_port = f_port, qi_data = data, qi_expires_at = map_option micros expires_at\<rparr>) ''enqueue'')
       (\<lambda>response_id.
         if response_id = [] then raiseS (Request_Error
           ''ChirpStack enqueue succeeded without returning a queue item id'' False)
         else retS response_id)))"

definition build_device_record :: "device_message \<Rightarrow> device_record" where
  "build_device_record m = \<lparr>dr_dev_eui = dm_dev_eui m, dr_name = dm_name m,
     dr_application_id = dm_application_id m, dr_device_profile_id = dm_device_profile_id m,
     dr_description = or_none (dm_description m), dr_join_eui = or_none (dm_join_eui m),
     dr_is_disabled = dm_is_disabled m, dr_tags = dm_tags m\<rparr>"

definition api_get_device :: "api_client \<Rightarrow> 'w device_stub \<Rightarrow> string \<Rightarrow> ('w, api_error, device_record) act" where
  "api_get_device c stub dev_eui =
     bindS (liftS (prepare c ''device lookup'')) (\<lambda>_.
     bindS (liftS (normalize_eui (Some dev_eui) ''dev_eui'')) (\<lambda>eui.
     bindS (call_device_service c (\<lambda>call. st_get stub call eui) ''get device'') (\<lambda>m.
       retS (build_device_record m))))"

definition populate_device_message ::
  "string option \<Rightarrow> string option \<Rightarrow> string option \<Rightarrow> string option \<Rightarrow> string option \<Rightarrow>
   string option \<Rightarrow> bool \<Rightarrow> (string \<times> string) list \<Rightarrow> (api_error, device_message) res" where
  "populate_device_message dev_eui name application_id device_profile_id join_eui description is_disabled tags =
     bindE (normalize_eui dev_eui ''dev_eui'') (\<lambda>eui.
     bindE (normalize_required_text name ''name'') (\<lambda>nm.
     bindE (normalize_required_text application_id ''chirpstack_application_id'') (\<lambda>app.
     bindE (normalize_required_text device_profile_id ''chirpstack_device_profile_id'') (\<lambda>prof.
     bindE (normalize_eui join_eui ''join_eui'') (\<lambda>jeui.
       Inr \<lparr>dm_dev_eui = eui, dm_name = nm, dm_application_id = app, dm_device_profile_id = prof,
            dm_join_eui = jeui, dm_description = py_strip (or_empty description),
            dm_is_disabled = is_disabled, dm_tags = tags\<rparr>)))))"

definition api_create_device ::
  "api_client \<Rightarrow> 'w device_stub \<Rightarrow> (api_error, device_message) res \<Rightarrow> ('w, api_error, unit) act" where
  "api_create_device c stub message =
     bindS (liftS (prepare c ''device provisioning'')) (\<lambda>_.
     bindS (liftS message) (\<lambda>m.
       call_device_service c (\<lambda>call. st_create stub call m) ''create device''))"

definition api_update_device ::
  "api_client \<Rightarrow> 'w device_stub \<Rightarrow> (api_error, device_message) res \<Rightarrow> ('w, api_error, unit) act" where
  "api_update_device c stub message =
     bindS (liftS (prepare c ''device provisioning'')) (\<lambda>_.
     bindS (liftS message) (\<lambda>m.
       call_device_service c (\<lambda>call. st_update stub call m) ''update device''))"

definition api_get_device_keys ::
  "api_client \<Rightarrow> 'w device_stub \<Rightarrow> string \<Rightarrow> ('w, api_error, device_keys_record) act" where
  "api_get_device_keys c stub dev_eui =
     bindS (liftS (prepare c ''device keys lookup'')) (\<lambda>_.
     bindS (liftS (normalize_eui (Some dev_eui) ''dev_eui'')) (\<lambda>eui.
     bindS (call_device_service c (\<lambda>call. st_get_keys stub call eui) ''get device keys'') (\<lambda>k.
       retS \<lparr>dk_dev_eui = km_dev_eui k, dk_nwk_key = or_none (km_nwk_key k),
             dk_app_key = or_none (km_app_key k)\<rparr>)))"

text \<open>The key goes into \<open>nwk_key\<close>, the field of LoRaWAN 1.0.x; \<open>app_key\<close> keeps its default.\<close>

definition populate_device_keys_message :: "string option \<Rightarrow> string option \<Rightarrow> (api_error, keys_message) res" where
  "populate_device_keys_message dev_eui app_key =
     bindE (normalize_app_key app_key) (\<lambda>key.
     bindE (normalize_eui dev_eui ''dev_eui'') (\<lambda>eui.
       Inr \<lparr>km_dev_eui = eui, km_nwk_key = key, km_app_key = []\<rparr>))"

definition api_create_device_keys ::
  "api_client \<Rightarrow> 'w device_stub \<Rightarrow> string option \<Rightarrow> string option \<Rightarrow> ('w, api_error, unit) act" where
  "api_create_device_keys c stub dev_eui app_key =
     bindS (liftS (prepare c ''device keys provisioning'')) (\<lambda>_.
     bindS (liftS (populate_device_keys_message dev_eui app_key)) (\<lambda>m.
       call_device_service c (\<lambda>call. st_create_keys stub call m) ''create device keys''))"

definition api_update_device_keys ::
  "api_client \<Rightarrow> 'w device_stub \<Rightarrow> string option \<Rightarrow> string option \<Rightarrow> ('w, api_error, unit) act" where
  "api_update_device_keys c stub dev_eui app_key =
     bindS (liftS (prepare c ''device keys provisioning'')) (\<lambda>_.
     bindS (liftS (populate_device_keys_message dev_eui app_key)) (\<lambda>m.
       call_device_service c (\<lambda>call. st_update_keys stub call m) ''update device keys''))"

end
