(* ===== verification/Downlink_Transport.thy ===== *)
theory Downlink_Transport
  imports ChirpStack_Api
begin

text \<open>
  The downlink transport, \<open>src/infrastructure/downlink/transports.py\<close>: it checks the topic and
  the stored payload of a command, hands the frame to the API client and classifies the
  outcome.  \<open>repr_of\<close> is \<open>str\<close> of a float, a list or a dictionary.
\<close>

record enqueue_result =
  er_sent :: bool
  er_queue_item_id :: "string option"
  er_transport :: string
  er_error_message :: "string option"
  er_retryable :: bool

definition py_str :: "(py_value \<Rightarrow> string) \<Rightarrow> py_value \<Rightarrow> string" where
  "py_str repr_of v = (case v of
     PvStr s \<Rightarrow> s
   | PvInt i \<Rightarrow> py_str_int i
   | PvNone \<Rightarrow> ''None''
   | PvBool b \<Rightarrow> (if b then ''True'' else ''False'')
   | _ \<Rightarrow> repr_of v)"

fun exc_message :: "py_exc \<Rightarrow> string" where
  "exc_message (Value_Error m) = m"
| "exc_message (Type_Error m) = m"
| "exc_message Multiple_Results = ''Multiple rows were found when one or none was required''"
| "exc_message (Integrity_Error m) = m"

definition validate_command_payload :: "device_command \<Rightarrow> (py_exc, (string \<times> py_value) list) res" where
  "validate_command_payload cmd =
     (if \<not> is_downlink_topic (cmd_topic cmd)
        then Inl (Value_Error (''Unsupported ChirpStack downlink topic: '' @ cmd_topic cmd))
      else case cmd_payload cmd of
        PvDict p \<Rightarrow> bindE (for_each (\<lambda>k. guardE (map_of p k = None) (Value_Error (''Missing field '' @ k)))
            [''devEui'', ''fPort'', ''data'']) (\<lambda>_. Inr p)
      | _ \<Rightarrow> Inl (Value_Error ''Command payload must be a JSON object''))"

definition decode_data :: "string \<Rightarrow> (py_exc, byte list) res" where
  "decode_data data_base64 = (case b64decode data_base64 of
     None \<Rightarrow> Inl (Value_Error ''data must be valid base64'') | Some p \<Rightarrow> Inr p)"

text \<open>The arguments of the API call, in the order Python evaluates them.\<close>

definition enqueue_arguments ::
  "(py_value \<Rightarrow> string) \<Rightarrow> device_command \<Rightarrow> (py_exc, string \<times> int \<times> byte list \<times> bool) res" where
  "enqueue_arguments repr_of cmd =
     bindE (validate_command_payload cmd) (\<lambda>p.
     bindE (py_int (the (map_of p ''fPort''))) (\<lambda>f_port.
     bindE (decode_data (py_str repr_of (the (map_of p ''data'')))) (\<lambda>data.
       Inr (py_str repr_of (the (map_of p ''devEui'')), f_port, data,
         (case map_of p ''confirmed'' of None \<Rightarrow> False | Some v \<Rightarrow> py_truthy v)))))"

definition transport_enqueue ::
  "(py_value \<Rightarrow> string) \<Rightarrow> api_client \<Rightarrow> 'w device_stub \<Rightarrow> device_command \<Rightarrow> 'w \<Rightarrow> enqueue_result \<times> 'w" where
  "transport_enqueue repr_of c stub cmd w =
     (case enqueue_arguments repr_of cmd of
        Inl exc \<Rightarrow> (\<lparr>er_sent = False, er_queue_item_id = None, er_transport = ''grpc'',
          er_error_message = Some (''Invalid ChirpStack downlink payload: '' @ exc_message exc),
          er_retryable = False\<rparr>, w)
      | Inr (dev_eui, f_port, data, confirmed) \<Rightarrow>
          (case api_enqueue_downlink c stub dev_eui f_port data confirmed (map_option Naive (cmd_expires_at cmd)) w of
             (Inl exc, w') \<Rightarrow> (\<lparr>er_sent = False, er_queue_item_id = None, er_transport = ''grpc'',
               er_error_message = Some (api_message exc), er_retryable = api_retryable exc\<rparr>, w')
           | (Inr queue_item_id, w') \<Rightarrow> (\<lparr>er_sent = True, er_queue_item_id = Some queue_item_id,
               er_transport = ''grpc'', er_error_message = None, er_retryable = False\<rparr>, w')))"

subsection \<open>Lemmas\<close>

text \<open>The failures of an RPC that another attempt may cure.\<close>

definition transient_failure :: "rpc_failure \<Rightarrow> bool" where
  "transient_failure exc = (case exc of
     Future_Timeout \<Rightarrow> True
   | Other_Exception _ \<Rightarrow> True
   | Rpc_Error s _ \<Rightarrow> s \<in> {DEADLINE_EXCEEDED, UNAVAILABLE, CANCELLED, RESOURCE_EXHAUSTED, INTERNAL, UNKNOWN, ABORTED})"

lemma retryable_iff_transient:
  "api_retryable (map_rpc_failure c op_name exc) \<longleftrightarrow> transient_failure exc"
  by (cases exc) (auto simp: map_rpc_failure_def map_rpc_error_def transient_failure_def Let_def)

lemma call_device_service_cases:
  assumes "ac_dependencies c"
  shows "call_device_service c rpc op_name w = (case rpc (client_call c) w of
     (Inl exc, w') \<Rightarrow> (Inl (map_rpc_failure c op_name exc), w') | (Inr x, w') \<Rightarrow> (Inr x, w'))"
  using assms by (auto simp: call_device_service_def load_grpc_dependencies_def bindS_def catchS_def
      split: prod.splits sum.splits)

lemma prepare_ok:
  "prepare c label = Inr u \<longleftrightarrow> ac_dependencies c \<and> ac_host c \<noteq> [] \<and> ac_port c \<noteq> 0 \<and> ac_token c \<noteq> []"
  by (auto simp: prepare_def load_grpc_dependencies_def validate_client_configuration_def guardE_def)

lemma configuration_not_retryable:
  "normalize_eui v f = Inl e \<Longrightarrow> \<not> api_retryable e"
  "prepare c label = Inl e \<Longrightarrow> \<not> api_retryable e"
  by (auto simp: normalize_eui_def prepare_def load_grpc_dependencies_def
      validate_client_configuration_def guardE_def Let_def split: if_splits)

lemma slash_in_normalized:
  assumes "CHR ''/'' \<in> set d"
  shows "CHR ''/'' \<in> set (py_lower (py_compact d))"
proof -
  have "\<not> py_isspace (CHR ''/'')" "py_lower_char (CHR ''/'') = CHR ''/''" by code_simp+
  then show ?thesis using assms by (force simp: py_lower_def py_compact_def)
qed

lemma normalized_eui_no_slash:
  assumes "normalize_eui (Some d) f = Inr eui"
  shows "CHR ''/'' \<notin> set d" "py_compact d \<noteq> []" "eui = normalize_eui_text d"
proof -
  from assms have eui: "eui = py_lower (py_compact d)" "length eui = 16" "\<forall>c \<in> set eui. c \<in> set hex_digits"
    by (auto simp: normalize_eui_def or_empty_def Let_def split: if_splits)
  have "CHR ''/'' \<notin> set hex_digits" by (simp add: hex_digits_def)
  with eui show "CHR ''/'' \<notin> set d" using slash_in_normalized [of d] by blast
  from eui show "py_compact d \<noteq> []" by (auto simp: py_lower_def)
  from eui show "eui = normalize_eui_text d" by (simp add: normalize_eui_text_def)
qed

lemma built_arguments:
  assumes "cmd_topic cmd = build_topic app d" "cmd_payload cmd = build_payload d e True"
    and "CHR ''/'' \<notin> set app" "py_strip app \<noteq> []" "CHR ''/'' \<notin> set d" "py_compact d \<noteq> []"
  shows "enqueue_arguments repr_of cmd = Inr (d, ed_f_port e, ed_data e, ed_confirmed e)"
proof -
  have "is_downlink_topic (cmd_topic cmd)"
    using assms by (simp add: is_downlink_topic_def is_ok_iff parse_built_topic)
  then show ?thesis
    using assms(2) by (simp add: enqueue_arguments_def validate_command_payload_def build_payload_def
        decode_data_def py_str_def)
qed

subsection \<open>Properties\<close>

text \<open>
  The transport classifies every outcome: a sent command has the non-empty id of
  its queue item and no error; a failed one has no id and a message; and a failure is marked
  for a retry only when the RPC was really made and failed in a way another attempt may cure.
\<close>
theorem enqueue_outcome:
  assumes "transport_enqueue repr_of c stub cmd w = (r, w')"
  shows "er_transport r = ''grpc'' \<and>
    (if er_sent r then (\<exists>i. er_queue_item_id r = Some i \<and> i \<noteq> []) \<and> er_error_message r = None \<and> \<not> er_retryable r
     else er_queue_item_id r = None \<and> er_error_message r \<noteq> None) \<and>
    (er_retryable r \<longrightarrow> (\<exists>item exc. st_enqueue stub (client_call c) item w = (Inl exc, w') \<and> transient_failure exc))"
proof (cases "enqueue_arguments repr_of cmd")
  case (Inl exc)
  then show ?thesis using assms by (auto simp: transport_enqueue_def)
next
  case (Inr args)
  obtain d f p b where args: "args = (d, f, p, b)" by (cases args)
  let ?call = "api_enqueue_downlink c stub d f p b (map_option Naive (cmd_expires_at cmd)) w"
  let ?item = "\<lambda>eui. \<lparr>qi_dev_eui = eui, qi_confirmed = b, qi_f_port = f, qi_data = p,
      qi_expires_at = map_option micros (map_option Naive (cmd_expires_at cmd))\<rparr>"
  show ?thesis
  proof (cases "fst ?call")
    case (Inr i)
    then obtain v where c: "?call = (Inr i, v)" by (cases ?call) auto
    then have "i \<noteq> []"
      by (auto simp: api_enqueue_downlink_def res_simps split: if_splits)
    then show ?thesis using assms c Inr args \<open>enqueue_arguments repr_of cmd = Inr args\<close>
      by (auto simp: transport_enqueue_def)
  next
    case (Inl e)
    then obtain v where c: "?call = (Inl e, v)" by (cases ?call) auto
    have "\<exists>item exc. st_enqueue stub (client_call c) item w = (Inl exc, v) \<and> transient_failure exc"
      if "api_retryable e"
    proof -
      from c that obtain eui where dep: "ac_dependencies c"
        and "call_device_service c (\<lambda>call. st_enqueue stub call (?item eui)) ''enqueue'' w = (Inl e, v)"
        by (auto simp: api_enqueue_downlink_def res_simps prepare_ok
            dest: configuration_not_retryable split: if_splits)
      with that obtain exc where "st_enqueue stub (client_call c) (?item eui) w = (Inl exc, v)"
          "e = map_rpc_failure c ''enqueue'' exc"
        by (auto simp: call_device_service_cases [OF dep] split: prod.splits sum.splits)
      then show ?thesis using that by (auto simp: retryable_iff_transient)
    qed
    then show ?thesis using assms c args \<open>enqueue_arguments repr_of cmd = Inr args\<close>
      by (auto simp: transport_enqueue_def)
  qed
qed

definition offline_stub :: "rpc_failure \<Rightarrow> unit device_stub" where
  "offline_stub exc = \<lparr>st_enqueue = (\<lambda>_ _. raiseS exc), st_get = (\<lambda>_ _. raiseS exc),
     st_create = (\<lambda>_ _. raiseS exc), st_update = (\<lambda>_ _. raiseS exc), st_get_keys = (\<lambda>_ _. raiseS exc),
     st_create_keys = (\<lambda>_ _. raiseS exc), st_update_keys = (\<lambda>_ _. raiseS exc)\<rparr>"

definition sample_client :: api_client where
  "sample_client = \<lparr>ac_host = ''chirpstack'', ac_port = 8080, ac_token = ''t'', ac_use_tls = False,
     ac_timeout_seconds = 5, ac_dependencies = True\<rparr>"

definition sample_eui :: string where "sample_eui = ''0102030405060708''"

definition sample_command :: device_command where
  "sample_command = \<lparr>cmd_id = 1, cmd_uuid = ''u'', cmd_queue_item_id = None, cmd_seq = Some 1,
     cmd_device_id = 1, cmd_asset_id = None, cmd_event_id = None, cmd_type = STOP_CORRECTION,
     cmd_status = CMD_PENDING, cmd_topic = build_topic ''app'' sample_eui,
     cmd_payload = build_payload sample_eui \<lparr>ed_command_id = ''u'', ed_command_seq = 1,
       ed_command_type = STOP_CORRECTION, ed_f_port = 10, ed_data = [1, 3, 0, 1, 0], ed_confirmed = True\<rparr> True,
     cmd_qos = 1, cmd_retain = False, cmd_created_at = 0, cmd_sent_at = None, cmd_tx_acked_at = None,
     cmd_lorawan_ack_at = None, cmd_ack_at = None, cmd_failed_at = None, cmd_expires_at = None,
     cmd_error_message = None\<rparr>"

lemma sample_facts:
  "normalize_eui (Some sample_eui) ''dev_eui'' = Inr sample_eui" "CHR ''/'' \<notin> set ''app''"
  "py_strip ''app'' \<noteq> []" "prepare sample_client ''gRPC downlinks'' = Inr ()" "ac_dependencies sample_client"
  by (code_simp, simp, code_simp, simp_all add: sample_client_def prepare_ok)

theorem enqueue_outcome_witness:
  "\<exists>r. transport_enqueue (\<lambda>_. []) sample_client (offline_stub Future_Timeout) sample_command () = (r, ()) \<and>
     er_retryable r \<and> \<not> er_sent r \<and> er_error_message r \<noteq> None"
proof -
  note eui = normalized_eui_no_slash [OF sample_facts(1)]
  have args: "enqueue_arguments (\<lambda>_. []) sample_command = Inr (sample_eui, 10, [1, 3, 0, 1, 0], True)"
    using built_arguments [OF _ _ sample_facts(2,3) eui(1,2), where cmd = sample_command]
    by (simp add: sample_command_def)
  obtain r where r: "transport_enqueue (\<lambda>_. []) sample_client (offline_stub Future_Timeout) sample_command () = (r, ())"
    by (cases "transport_enqueue (\<lambda>_. []) sample_client (offline_stub Future_Timeout) sample_command ()") simp
  have "er_retryable r \<and> \<not> er_sent r"
    using r sample_facts by (auto simp: transport_enqueue_def args api_enqueue_downlink_def
        call_device_service_cases offline_stub_def map_rpc_failure_def)
  with enqueue_outcome [OF r] show ?thesis using r by auto
qed

text \<open>
  Property C10. A command stored by the command service reaches the network server as it was
  meant: with a configured client, the transport makes exactly one RPC, whose queue item
  carries the normalised EUI of the device, the command port, the confirmation flag, the
  expiry of the command and a frame that decodes to the command's type and sequence number.
\<close>
theorem stored_command_reaches_server:
  assumes "encode_command_downlink uuid seq t (Some pf) = Inr e"
    and "cmd_topic cmd = build_topic app d" "cmd_payload cmd = build_payload d e True"
    and "CHR ''/'' \<notin> set app" "py_strip app \<noteq> []"
    and "normalize_eui (Some d) ''dev_eui'' = Inr eui"
    and "prepare c ''gRPC downlinks'' = Inr ()"
    and "st_enqueue stub (client_call c) \<lparr>qi_dev_eui = normalize_eui_text d, qi_confirmed = True,
        qi_f_port = COMMAND_FPORT, qi_data = ed_data e, qi_expires_at = cmd_expires_at cmd\<rparr> w = (Inr i, w')"
    and "i \<noteq> []"
  shows "transport_enqueue repr_of c stub cmd w = (\<lparr>er_sent = True, er_queue_item_id = Some i,
      er_transport = ''grpc'', er_error_message = None, er_retryable = False\<rparr>, w') \<and>
    (\<exists>dd. decode_command_downlink_payload_v1 (ed_data e) = Inr dd \<and> dd_command_type dd = t \<and>
       dd_command_seq dd = seq)"
proof -
  note eui = normalized_eui_no_slash [OF assms(6)]
  have args: "enqueue_arguments repr_of cmd = Inr (d, ed_f_port e, ed_data e, ed_confirmed e)"
    by (rule built_arguments [OF assms(2-5) eui(1,2)])
  from assms(1) obtain flags fs where
    fs: "normalize_flags (case map_of pf ''flags'' of None \<Rightarrow> PvInt 0 | Some v \<Rightarrow> v) = Inr flags"
      "normalized_fields t pf = Inr fs" and seq: "1 \<le> seq" "seq \<le> 65535"
    and e: "ed_data e = command_frame \<lparr>dd_protocol_version = 1, dd_command_type = t,
        dd_command_seq = seq, dd_flags = flags, dd_payload_fields = fs\<rparr>"
      "ed_f_port e = COMMAND_FPORT" "ed_confirmed e"
    by (auto simp: encode_command_downlink_def encode_command_payload_eq validate_command_seq_def
        res_simps Let_def)
  have "valid_downlink \<lparr>dd_protocol_version = 1, dd_command_type = t,
        dd_command_seq = seq, dd_flags = flags, dd_payload_fields = fs\<rparr>"
    using seq normalize_ok_bounds(3) [OF fs(1)] normalized_fields_valid [OF fs(2)]
    by (simp add: valid_downlink_def)
  from command_codec.dec_enc [OF this]
  have dec: "\<exists>dd. decode_command_downlink_payload_v1 (ed_data e) = Inr dd \<and> dd_command_type dd = t \<and>
      dd_command_seq dd = seq" by (simp add: e)
  have "ed_data e \<noteq> []" by (simp add: e command_frame_def pack_u8_def)
  moreover have "map_option micros (map_option Naive (cmd_expires_at cmd)) = cmd_expires_at cmd"
    by (cases "cmd_expires_at cmd") simp_all
  moreover have "ac_dependencies c" using assms(7) by (simp add: prepare_ok)
  ultimately have "api_enqueue_downlink c stub d (ed_f_port e) (ed_data e) (ed_confirmed e)
      (map_option Naive (cmd_expires_at cmd)) w = (Inr i, w')"
    using assms(6-9) eui(3) e(2,3)
    by (simp add: api_enqueue_downlink_def call_device_service_cases COMMAND_FPORT_def)
  with args dec show ?thesis by (simp add: transport_enqueue_def)
qed

definition accepting_stub :: "string \<Rightarrow> unit device_stub" where
  "accepting_stub i = (offline_stub Future_Timeout)\<lparr>st_enqueue := (\<lambda>_ _. retS i)\<rparr>"

theorem stored_command_reaches_server_witness:
  "\<exists>e r. encode_command_downlink ''u'' 1 STOP_CORRECTION (Some []) = Inr e \<and>
     transport_enqueue (\<lambda>_. []) sample_client (accepting_stub ''q'')
       (sample_command\<lparr>cmd_payload := build_payload sample_eui e True\<rparr>) () = (r, ()) \<and>
     er_queue_item_id r = Some ''q''"
proof -
  obtain e where e: "encode_command_downlink ''u'' 1 STOP_CORRECTION (Some []) = Inr e"
    by (simp add: encode_command_downlink_def validate_command_seq_def normalize_flags_def
        encode_command_payload_eq normalized_fields_def)
  let ?cmd = "sample_command\<lparr>cmd_payload := build_payload sample_eui e True\<rparr>"
  have topic: "cmd_topic ?cmd = build_topic ''app'' sample_eui" and
    payload: "cmd_payload ?cmd = build_payload sample_eui e True" by (simp_all add: sample_command_def)
  show ?thesis
    using e stored_command_reaches_server [OF e topic payload sample_facts(2,3,1,4),
        where stub = "accepting_stub ''q''" and w = "()" and w' = "()" and i = "''q''" and repr_of = "\<lambda>_. []"]
    by (simp add: accepting_stub_def)
qed

end
