(* ===== verification/Device_Commands.thy ===== *)
theory Device_Commands
  imports Downlink_Transport
begin

text \<open>
  The device commands: \<open>src/service/device_command_sequence_service.py\<close>,
  \<open>device_command_service.py\<close>, \<open>device_command_ack_service.py\<close> and the dispatcher
  \<open>command_dispatcher_worker/main.py\<close>.  \<open>now\<close> is the clock reading of a call, \<open>new_uuid\<close> the
  value \<open>uuid4()\<close> returns, \<open>expires_seconds\<close> the setting \<open>command_default_expires_seconds\<close>.
\<close>

subsection \<open>Sequence numbers\<close>

definition MIN_COMMAND_SEQ :: int where "MIN_COMMAND_SEQ = 1"
definition MAX_COMMAND_SEQ :: int where "MAX_COMMAND_SEQ = 65535"

definition max_or_none :: "int list \<Rightarrow> int option" where
  "max_or_none xs = (if xs = [] then None else Some (Max (set xs)))"

definition device_seqs :: "nat \<Rightarrow> device_command list \<Rightarrow> int list" where
  "device_seqs device_id rows = [n. c \<leftarrow> rows, cmd_device_id c = device_id, Some n \<leftarrow> [cmd_seq c]]"

definition get_last_command_seq :: "tlrs_db \<Rightarrow> nat \<Rightarrow> int option" where
  "get_last_command_seq db device_id = max_or_none (device_seqs device_id (db_commands db))"

definition get_pending_last_command_seq :: "tlrs_db \<Rightarrow> nat \<Rightarrow> int option" where
  "get_pending_last_command_seq db device_id = max_or_none (device_seqs device_id (db_new_commands db))"

definition allocate_next_command_seq :: "tlrs_db \<Rightarrow> nat \<Rightarrow> (py_exc, int) res" where
  "allocate_next_command_seq db device_id =
     (let stored = get_last_command_seq db device_id;
          pending = get_pending_last_command_seq db device_id;
          last = (case pending of None \<Rightarrow> stored
            | Some p \<Rightarrow> (case stored of None \<Rightarrow> pending | Some s \<Rightarrow> if p > s then pending else stored))
      in case last of
           None \<Rightarrow> Inr MIN_COMMAND_SEQ
         | Some l \<Rightarrow> if l \<ge> MAX_COMMAND_SEQ
             then Inl (Value_Error ''No command_seq available for device in binary contract v1. command_seq reuse is not enabled.'')
             else Inr (l + 1))"

subsection \<open>Creating commands\<close>

definition DEFAULT_QOS :: int where "DEFAULT_QOS = 1"
definition DEFAULT_RETAIN :: bool where "DEFAULT_RETAIN = False"
definition NORMAL_REPORT_INTERVAL_SECONDS :: int where "NORMAL_REPORT_INTERVAL_SECONDS = 600"

definition allocate_command_seq :: "tlrs_db \<Rightarrow> device \<Rightarrow> (py_exc, int option) res" where
  "allocate_command_seq db d =
     (if d_protocol d \<noteq> CHIRPSTACK then Inr None
      else bindE (allocate_next_command_seq db (d_id d)) (\<lambda>n. Inr (Some n)))"

definition resolve_command_transport ::
  "device \<Rightarrow> string \<Rightarrow> int option \<Rightarrow> command_type \<Rightarrow> payload_fields option
   \<Rightarrow> (py_exc, (string \<times> py_value) option) res" where
  "resolve_command_transport d uuid seq t pf =
     (if d_protocol d \<noteq> CHIRPSTACK
        then Inl (Value_Error (''Device '' @ py_str_int (int (d_id d)) @ '' does not support ChirpStack downlinks''))
      else if or_empty (d_application_id d) = [] \<or> or_empty (d_dev_eui d) = [] then Inr None
      else case seq of
        None \<Rightarrow> Inl (Value_Error (''ChirpStack command for device '' @ py_str_int (int (d_id d)) @ '' requires command_seq''))
      | Some n \<Rightarrow> bindE (encode_command_downlink uuid n t pf) (\<lambda>e.
          Inr (Some (build_topic (the (d_application_id d)) (the (d_dev_eui d)),
                     build_payload (the (d_dev_eui d)) e True))))"

text \<open>
  \<open>cmd_id\<close> and \<open>cmd_created_at\<close> get their values when the command is flushed; until then
  the model's record holds 0 there.
\<close>

definition create_pending_command ::
  "int \<Rightarrow> int \<Rightarrow> string \<Rightarrow> device \<Rightarrow> command_type \<Rightarrow> nat option \<Rightarrow> nat option \<Rightarrow> int option \<Rightarrow>
   payload_fields option \<Rightarrow> (tlrs_db, py_exc, device_command) act" where
  "create_pending_command now expires_seconds command_uuid d t asset_id event_id expires_at pf db =
     (case bindE (allocate_command_seq db d) (\<lambda>seq.
             bindE (resolve_command_transport d command_uuid seq t pf) (\<lambda>tp.
               Inr (seq, tp))) of
        Inl e \<Rightarrow> (Inl e, db)
      | Inr (seq, None) \<Rightarrow> (Inl (Value_Error
          (''Unable to resolve command transport for device '' @ py_str_int (int (d_id d)))), db)
      | Inr (seq, Some (tpc, payload)) \<Rightarrow>
          (let command = \<lparr>cmd_id = 0, cmd_uuid = command_uuid, cmd_queue_item_id = None, cmd_seq = seq,
                 cmd_device_id = d_id d, cmd_asset_id = asset_id, cmd_event_id = event_id, cmd_type = t,
                 cmd_status = CMD_PENDING, cmd_topic = tpc, cmd_payload = payload, cmd_qos = DEFAULT_QOS,
                 cmd_retain = DEFAULT_RETAIN, cmd_created_at = 0, cmd_sent_at = None,
                 cmd_tx_acked_at = None, cmd_lorawan_ack_at = None, cmd_ack_at = None,
                 cmd_failed_at = None,
                 cmd_expires_at = Some (case expires_at of Some t' \<Rightarrow> t' | None \<Rightarrow> now + expires_seconds * 1000000),
                 cmd_error_message = None\<rparr>
           in (Inr command, db\<lparr>db_new_commands := db_new_commands db @ [command]\<rparr>)))"

text \<open>\<open>flush()\<close> of the commands added to the session.\<close>

fun insert_commands :: "int \<Rightarrow> device_command list \<Rightarrow> device_command list \<Rightarrow> device_command list" where
  "insert_commands now [] rows = rows"
| "insert_commands now (c # cs) rows =
     insert_commands now cs (rows @ [c\<lparr>cmd_id := fresh cmd_id rows, cmd_created_at := now\<rparr>])"

definition flush_commands :: "int \<Rightarrow> tlrs_db \<Rightarrow> tlrs_db" where
  "flush_commands now db = db\<lparr>db_commands := insert_commands now (db_new_commands db) (db_commands db),
     db_new_commands := []\<rparr>"

definition command_specs_for_event_type :: "fence_event_type \<Rightarrow> (command_type \<times> payload_fields) list" where
  "command_specs_for_event_type ev = (case ev of
     EV_NEAR_LIMIT \<Rightarrow> [(SET_REPORT_INTERVAL, [(''interval_seconds'', PvInt 15)]),
       (WARNING_SOUND, [(''duration_ms'', PvInt 1500), (''intensity'', PvStr ''LOW'')])]
   | EV_EXITED \<Rightarrow> [(SET_REPORT_INTERVAL, [(''interval_seconds'', PvInt 5)]),
       (WARNING_SOUND, [(''duration_ms'', PvInt 2000), (''intensity'', PvStr ''HIGH'')])]
   | EV_RETURNED \<Rightarrow> [(STOP_CORRECTION, []),
       (SET_REPORT_INTERVAL, [(''interval_seconds'', PvInt NORMAL_REPORT_INTERVAL_SECONDS)])]
   | EV_GPS_UNCERTAIN \<Rightarrow> [(SET_REPORT_INTERVAL, [(''interval_seconds'', PvInt 30)])]
   | EV_ENTERED \<Rightarrow> [])"

definition has_geofence_command :: "tlrs_db \<Rightarrow> nat \<Rightarrow> command_type \<Rightarrow> (py_exc, bool) res" where
  "has_geofence_command db event_id t =
     bindE (scalar_one_or_none (filter (\<lambda>c. cmd_event_id c = Some event_id \<and> cmd_type c = t) (db_commands db)))
       (\<lambda>r. Inr (r \<noteq> None))"

fun create_commands_loop ::
  "int \<Rightarrow> int \<Rightarrow> (tlrs_db \<Rightarrow> string) \<Rightarrow> geofence_event \<Rightarrow> device \<Rightarrow> (command_type \<times> payload_fields) list \<Rightarrow>
   (tlrs_db, py_exc, device_command list) act" where
  "create_commands_loop now expires_seconds new_uuid ev d [] db = (Inr [], db)"
| "create_commands_loop now expires_seconds new_uuid ev d ((t, pf) # specs) db =
     (case has_geofence_command db (ge_id ev) t of
        Inl e \<Rightarrow> (Inl e, db)
      | Inr True \<Rightarrow> create_commands_loop now expires_seconds new_uuid ev d specs db
      | Inr False \<Rightarrow>
          (case create_pending_command now expires_seconds (new_uuid db) d t (ge_asset_id ev)
                  (Some (ge_id ev)) None (Some pf) db of
             (Inl (Value_Error m), db') \<Rightarrow> create_commands_loop now expires_seconds new_uuid ev d specs db'
           | (Inl e, db') \<Rightarrow> (Inl e, db')
           | (Inr c, db') \<Rightarrow> bindS (create_commands_loop now expires_seconds new_uuid ev d specs)
               (\<lambda>cs. retS (c # cs)) db'))"

definition create_commands_for_geofence_event ::
  "int \<Rightarrow> int \<Rightarrow> (tlrs_db \<Rightarrow> string) \<Rightarrow> geofence_event \<Rightarrow> device \<Rightarrow> (tlrs_db, py_exc, device_command list) act" where
  "create_commands_for_geofence_event now expires_seconds new_uuid ev d =
     create_commands_loop now expires_seconds new_uuid ev d (command_specs_for_event_type (ge_event_type ev))"

subsection \<open>Application acknowledgements\<close>

record ack_result =
  ar_success :: bool
  ar_command :: "device_command option"
  ar_failure_reason :: "string option"
  ar_previous_status :: "command_status option"

definition ack_failure :: "string \<Rightarrow> ack_result" where
  "ack_failure reason = \<lparr>ar_success = False, ar_command = None, ar_failure_reason = Some reason,
     ar_previous_status = None\<rparr>"

definition or_default :: "string option \<Rightarrow> string \<Rightarrow> string" where
  "or_default s m = (if or_empty s = [] then m else or_empty s)"

definition apply_ack :: "int \<Rightarrow> ack_payload \<Rightarrow> device_command \<Rightarrow> device_command" where
  "apply_ack now p c =
     (if ap_status p \<in> {EXECUTED, DUPLICATE} then
        c\<lparr>cmd_status := CMD_ACKED,
          cmd_ack_at := Some (case to_utc_naive (ap_executed_at p) of Some t \<Rightarrow> t | None \<Rightarrow> now),
          cmd_failed_at := None, cmd_error_message := ap_error_message p\<rparr>
      else if ap_status p = EXPIRED then
        c\<lparr>cmd_status := CMD_EXPIRED,
          cmd_error_message := Some (or_default (ap_error_message p) ''Device reported command expired'')\<rparr>
      else
        c\<lparr>cmd_status := CMD_FAILED, cmd_failed_at := Some now,
          cmd_error_message := Some (or_default (ap_error_message p)
            (''Device reported command '' @ py_lower (ack_status_value (ap_status p))))\<rparr>)"

definition apply_ack_to_command :: "int \<Rightarrow> ack_payload \<Rightarrow> device_command \<Rightarrow> (tlrs_db, py_exc, ack_result) act" where
  "apply_ack_to_command now p c db =
     (let c' = apply_ack now p c
      in (Inr \<lparr>ar_success = True, ar_command = Some c', ar_failure_reason = None,
               ar_previous_status = Some (cmd_status c)\<rparr>,
          db\<lparr>db_commands := put cmd_id c' (db_commands db)\<rparr>))"

definition get_command_by_uuid :: "tlrs_db \<Rightarrow> string option \<Rightarrow> (py_exc, device_command option) res" where
  "get_command_by_uuid db command_uuid =
     (if or_empty command_uuid = [] then Inr None
      else scalar_one_or_none (filter (\<lambda>c. cmd_uuid c = the command_uuid) (db_commands db)))"

definition get_command_by_device_and_seq :: "tlrs_db \<Rightarrow> nat \<Rightarrow> int \<Rightarrow> (py_exc, device_command option) res" where
  "get_command_by_device_and_seq db device_id seq =
     scalar_one_or_none (filter (\<lambda>c. cmd_device_id c = device_id \<and> cmd_seq c = Some seq) (db_commands db))"

definition process_ack :: "int \<Rightarrow> ack_payload \<Rightarrow> (tlrs_db, py_exc, ack_result) act" where
  "process_ack now p db =
     (case get_command_by_uuid db (ap_command_id p) of
        Inl e \<Rightarrow> (Inl e, db)
      | Inr None \<Rightarrow> (Inr (ack_failure ''COMMAND_NOT_FOUND''), db)
      | Inr (Some c) \<Rightarrow> apply_ack_to_command now p c db)"

definition process_ack_by_command_seq :: "int \<Rightarrow> nat \<Rightarrow> ack_payload \<Rightarrow> (tlrs_db, py_exc, ack_result) act" where
  "process_ack_by_command_seq now device_id p db =
     (case ap_command_seq p of
        None \<Rightarrow> (Inr (ack_failure ''COMMAND_ACK_INVALID_COMMAND_SEQ''), db)
      | Some seq \<Rightarrow>
          (case get_command_by_device_and_seq db device_id seq of
             Inl e \<Rightarrow> (Inl e, db)
           | Inr None \<Rightarrow> (Inr (ack_failure ''COMMAND_ACK_COMMAND_SEQ_NOT_FOUND''), db)
           | Inr (Some c) \<Rightarrow> apply_ack_to_command now p c db))"

subsection \<open>Lemmas on sequence numbers\<close>

definition all_commands :: "tlrs_db \<Rightarrow> device_command list" where
  "all_commands db = db_commands db @ db_new_commands db"

text \<open>
  The constraints \<open>uq_device_commands_device_id_command_seq\<close> and
  \<open>ck_device_commands_command_seq_uint16\<close>, over the stored and the pending rows.
\<close>

definition seqs_ok :: "tlrs_db \<Rightarrow> bool" where
  "seqs_ok db \<longleftrightarrow> (\<forall>dev. distinct (device_seqs dev (all_commands db)) \<and>
     set (device_seqs dev (all_commands db)) \<subseteq> {MIN_COMMAND_SEQ..MAX_COMMAND_SEQ})"

definition top_seq :: "tlrs_db \<Rightarrow> nat \<Rightarrow> int" where
  "top_seq db dev = Max (insert 0 (set (device_seqs dev (all_commands db))))"

lemma device_seqs_simps [simp]:
  "device_seqs dev [] = []"
  "device_seqs dev (c # cs) = (if cmd_device_id c = dev
     then (case cmd_seq c of None \<Rightarrow> [] | Some n \<Rightarrow> [n]) else []) @ device_seqs dev cs"
  "device_seqs dev (xs @ ys) = device_seqs dev xs @ device_seqs dev ys"
  by (auto simp: device_seqs_def split: option.split)

lemma top_seq_ge: "n \<in> set (device_seqs dev (all_commands db)) \<Longrightarrow> n \<le> top_seq db dev"
  by (simp add: top_seq_def)

lemma top_seq_nonneg [simp]: "0 \<le> top_seq db dev" "\<not> top_seq db dev < 0"
  by (simp_all add: top_seq_def not_less)

lemma top_seq_cases:
  "top_seq db dev = 0 \<or> top_seq db dev \<in> set (device_seqs dev (all_commands db))"
  using Max_in [of "insert 0 (set (device_seqs dev (all_commands db)))"] by (simp add: top_seq_def)

lemma seqs_positive: "seqs_ok db \<Longrightarrow> n \<in> set (device_seqs dev (all_commands db)) \<Longrightarrow> 1 \<le> n"
  unfolding seqs_ok_def MIN_COMMAND_SEQ_def by fastforce

lemma seqs_bounded: "seqs_ok db \<Longrightarrow> n \<in> set (device_seqs dev (all_commands db)) \<Longrightarrow> n \<le> 65535"
  unfolding seqs_ok_def MAX_COMMAND_SEQ_def by fastforce

lemma larger_of_two:
  "(case max_or_none ys of None \<Rightarrow> max_or_none xs
    | Some p \<Rightarrow> (case max_or_none xs of None \<Rightarrow> max_or_none ys
        | Some s \<Rightarrow> if p > s then max_or_none ys else max_or_none xs)) = max_or_none (xs @ ys)"
  by (cases "xs = []"; cases "ys = []")
    (auto simp: max_or_none_def Max_Un max_def simp del: Max_less_iff Max.bounded_iff)

lemma allocate_eq:
  assumes "seqs_ok db"
  shows "allocate_next_command_seq db dev =
    (if top_seq db dev \<ge> MAX_COMMAND_SEQ
     then Inl (Value_Error ''No command_seq available for device in binary contract v1. command_seq reuse is not enabled.'')
     else Inr (top_seq db dev + 1))"
proof -
  let ?S = "device_seqs dev (all_commands db)"
  have last: "(case get_pending_last_command_seq db dev of None \<Rightarrow> get_last_command_seq db dev
    | Some p \<Rightarrow> (case get_last_command_seq db dev of None \<Rightarrow> get_pending_last_command_seq db dev
        | Some s \<Rightarrow> if p > s then get_pending_last_command_seq db dev else get_last_command_seq db dev))
    = max_or_none ?S"
    unfolding get_last_command_seq_def get_pending_last_command_seq_def all_commands_def
      device_seqs_simps(3) by (rule larger_of_two)
  have "max_or_none ?S = (if ?S = [] then None else Some (top_seq db dev))"
  proof (cases "?S = []")
    case False
    then have "Max (set ?S) \<in> set ?S" by (intro Max_in) auto
    then have "1 \<le> Max (set ?S)" by (rule seqs_positive [OF assms])
    with False show ?thesis by (simp add: max_or_none_def top_seq_def Max_insert)
  qed (simp add: max_or_none_def)
  moreover have "?S = [] \<Longrightarrow> top_seq db dev = 0" by (simp add: top_seq_def)
  ultimately show ?thesis
    unfolding allocate_next_command_seq_def Let_def last
    by (auto simp: MIN_COMMAND_SEQ_def MAX_COMMAND_SEQ_def)
qed

lemma seqs_ok_append:
  assumes "seqs_ok db" "cmd_seq c = Some (top_seq db (cmd_device_id c) + 1)"
    and "top_seq db (cmd_device_id c) < MAX_COMMAND_SEQ"
  shows "seqs_ok (db\<lparr>db_new_commands := db_new_commands db @ [c]\<rparr>)"
proof -
  let ?n = "top_seq db (cmd_device_id c) + 1"
  have new: "?n \<notin> set (device_seqs (cmd_device_id c) (all_commands db))"
    using top_seq_ge [of ?n "cmd_device_id c" db] by linarith
  have "?n \<in> {MIN_COMMAND_SEQ..MAX_COMMAND_SEQ}"
    using assms(3) by (simp add: MIN_COMMAND_SEQ_def)
  moreover have "device_seqs dev (all_commands (db\<lparr>db_new_commands := db_new_commands db @ [c]\<rparr>)) =
      device_seqs dev (all_commands db) @ (if dev = cmd_device_id c then [?n] else [])" for dev
    by (simp add: all_commands_def assms(2))
  ultimately show ?thesis using assms(1) new by (simp add: seqs_ok_def)
qed

lemma top_seq_append:
  assumes "cmd_seq c = Some (top_seq db (cmd_device_id c) + 1)"
  shows "top_seq (db\<lparr>db_new_commands := db_new_commands db @ [c]\<rparr>) (cmd_device_id c) =
    top_seq db (cmd_device_id c) + 1"
proof -
  let ?S = "set (device_seqs (cmd_device_id c) (all_commands db))"
  have "top_seq (db\<lparr>db_new_commands := db_new_commands db @ [c]\<rparr>) (cmd_device_id c) =
      Max (insert (top_seq db (cmd_device_id c) + 1) (insert 0 ?S))"
    using assms by (simp add: top_seq_def all_commands_def insert_commute Un_insert_left)
  also have "\<dots> = max (top_seq db (cmd_device_id c) + 1) (Max (insert 0 ?S))" by simp
  also have "\<dots> = top_seq db (cmd_device_id c) + 1" by (simp add: top_seq_def [symmetric])
  finally show ?thesis .
qed

text \<open>A device that can receive a downlink.\<close>

definition downlink_ready :: "device \<Rightarrow> bool" where
  "downlink_ready d \<longleftrightarrow> d_protocol d = CHIRPSTACK \<and> or_empty (d_application_id d) \<noteq> [] \<and> or_empty (d_dev_eui d) \<noteq> []"

lemma or_empty_nonempty: "or_empty s \<noteq> [] \<longleftrightarrow> (\<exists>t. s = Some t \<and> t \<noteq> [])"
  by (auto simp: or_empty_def split: option.splits)

lemma create_pending_cases:
  assumes "seqs_ok db" "create_pending_command now exs uuid d t asset_id event_id ex (Some pf) db = (r, db')"
  shows "(\<exists>e. r = Inl e \<and> db' = db) \<or>
    (\<exists>c e. r = Inr c \<and> db' = db\<lparr>db_new_commands := db_new_commands db @ [c]\<rparr> \<and> downlink_ready d \<and>
       encode_command_downlink uuid (top_seq db (d_id d) + 1) t (Some pf) = Inr e \<and>
       cmd_seq c = Some (top_seq db (d_id d) + 1) \<and> top_seq db (d_id d) < MAX_COMMAND_SEQ \<and>
       cmd_device_id c = d_id d \<and> cmd_uuid c = uuid \<and> cmd_type c = t \<and> cmd_status c = CMD_PENDING \<and>
       cmd_event_id c = event_id \<and> cmd_asset_id c = asset_id \<and>
       cmd_topic c = build_topic (the (d_application_id d)) (the (d_dev_eui d)) \<and>
       cmd_payload c = build_payload (the (d_dev_eui d)) e True)"
proof (cases r)
  case (Inl e)
  then show ?thesis using assms(2)
    by (auto simp: create_pending_command_def Let_def split: sum.splits option.splits prod.splits)
next
  case (Inr c)
  have ready: "downlink_ready d" and room: "top_seq db (d_id d) < MAX_COMMAND_SEQ"
    using assms Inr by (auto simp: create_pending_command_def allocate_command_seq_def
        resolve_command_transport_def downlink_ready_def allocate_eq [OF assms(1)] Let_def
        split: sum.splits option.splits prod.splits if_splits)
  from ready have prot: "d_protocol d = CHIRPSTACK" "or_empty (d_application_id d) \<noteq> []" "or_empty (d_dev_eui d) \<noteq> []"
    by (simp_all add: downlink_ready_def)
  from assms(2) Inr room obtain e where e: "encode_command_downlink uuid (top_seq db (d_id d) + 1) t (Some pf) = Inr e"
    by (cases "encode_command_downlink uuid (top_seq db (d_id d) + 1) t (Some pf)")
      (auto simp: create_pending_command_def allocate_command_seq_def resolve_command_transport_def
        allocate_eq [OF assms(1)] prot)
  show ?thesis using assms(2) Inr room ready e
    by (auto simp: create_pending_command_def allocate_command_seq_def resolve_command_transport_def
        allocate_eq [OF assms(1)] prot Let_def)
qed

lemma create_pending_succeeds:
  assumes "seqs_ok db" "downlink_ready d" "top_seq db (d_id d) < MAX_COMMAND_SEQ"
    and "normalized_fields t pf = Inr fs" "map_of pf ''flags'' = None"
  shows "\<exists>c. create_pending_command now exs uuid d t asset_id event_id ex (Some pf) db =
    (Inr c, db\<lparr>db_new_commands := db_new_commands db @ [c]\<rparr>)"
proof -
  have "\<exists>e. encode_command_downlink uuid (top_seq db (d_id d) + 1) t (Some pf) = Inr e"
    using assms(3-5) top_seq_nonneg [of db "d_id d"] by (auto simp: encode_command_downlink_def validate_command_seq_def
        normalize_flags_def encode_command_payload_eq MAX_COMMAND_SEQ_def guardE_def)
  then show ?thesis using assms(1-3)
    by (auto simp: create_pending_command_def allocate_command_seq_def resolve_command_transport_def
        allocate_eq downlink_ready_def Let_def)
qed

lemma seqs_ok_create:
  assumes "seqs_ok db" "create_pending_command now exs uuid d t asset_id event_id ex (Some pf) db = (r, db')"
  shows "seqs_ok db'"
  using create_pending_cases [OF assms] assms(1) by (auto intro: seqs_ok_append)

subsection \<open>Lemmas on the commands of an event\<close>

text \<open>\<open>c\<close> is the pending command that the specification \<open>(t, pf)\<close> of an event asks for.\<close>

definition command_for :: "device \<Rightarrow> geofence_event \<Rightarrow> command_type \<times> payload_fields \<Rightarrow> device_command \<Rightarrow> bool" where
  "command_for d ev spec c \<longleftrightarrow> cmd_type c = fst spec \<and> cmd_status c = CMD_PENDING \<and>
     cmd_device_id c = d_id d \<and> cmd_event_id c = Some (ge_id ev) \<and> cmd_asset_id c = ge_asset_id ev \<and>
     cmd_topic c = build_topic (the (d_application_id d)) (the (d_dev_eui d)) \<and>
     (\<exists>n e. cmd_seq c = Some n \<and> encode_command_downlink (cmd_uuid c) n (fst spec) (Some (snd spec)) = Inr e \<and>
        cmd_payload c = build_payload (the (d_dev_eui d)) e True)"

definition encodable_spec :: "command_type \<times> payload_fields \<Rightarrow> bool" where
  "encodable_spec spec \<longleftrightarrow> is_ok (normalized_fields (fst spec) (snd spec)) \<and> map_of (snd spec) ''flags'' = None"

definition handled :: "tlrs_db \<Rightarrow> geofence_event \<Rightarrow> command_type \<Rightarrow> bool" where
  "handled db ev t \<longleftrightarrow> (\<exists>c \<in> set (db_commands db). cmd_event_id c = Some (ge_id ev) \<and> cmd_type c = t)"

lemma has_command_none: "\<not> handled db ev t \<Longrightarrow> has_geofence_command db (ge_id ev) t = Inr False"
proof -
  assume "\<not> handled db ev t"
  then have "filter (\<lambda>c. cmd_event_id c = Some (ge_id ev) \<and> cmd_type c = t) (db_commands db) = []"
    by (auto simp: handled_def filter_empty_conv)
  then show ?thesis by (simp add: has_geofence_command_def)
qed

lemma create_commands_loop_all:
  assumes "seqs_ok db" "downlink_ready d"
    and "top_seq db (d_id d) + int (length specs) \<le> MAX_COMMAND_SEQ"
    and "\<forall>spec \<in> set specs. encodable_spec spec \<and> \<not> handled db ev (fst spec)"
  shows "\<exists>cs. create_commands_loop now exs new_uuid ev d specs db =
      (Inr cs, db\<lparr>db_new_commands := db_new_commands db @ cs\<rparr>) \<and>
    list_all2 (command_for d ev) specs cs \<and> seqs_ok (db\<lparr>db_new_commands := db_new_commands db @ cs\<rparr>)"
  using assms
proof (induction specs arbitrary: db)
  case (Cons spec specs)
  obtain t pf where spec: "spec = (t, pf)" by (cases spec)
  from Cons.prems(4) obtain fs where fs: "normalized_fields t pf = Inr fs" "map_of pf ''flags'' = None"
    by (auto simp: spec encodable_spec_def is_ok_iff)
  have room: "top_seq db (d_id d) < MAX_COMMAND_SEQ" using Cons.prems(3) by simp
  obtain c where c: "create_pending_command now exs (new_uuid db) d t (ge_asset_id ev) (Some (ge_id ev)) None (Some pf) db
      = (Inr c, db\<lparr>db_new_commands := db_new_commands db @ [c]\<rparr>)"
    using create_pending_succeeds [OF Cons.prems(1,2) room fs] by blast
  let ?db = "db\<lparr>db_new_commands := db_new_commands db @ [c]\<rparr>"
  from create_pending_cases [OF Cons.prems(1) c] have
    cmd: "command_for d ev spec c" "cmd_seq c = Some (top_seq db (cmd_device_id c) + 1)" "cmd_device_id c = d_id d"
    by (auto simp: command_for_def spec)
  have ok: "seqs_ok ?db" by (rule seqs_ok_create [OF Cons.prems(1) c])
  have top': "top_seq ?db (d_id d) = top_seq db (d_id d) + 1"
    using top_seq_append [OF cmd(2)] cmd(3) by simp
  have "\<forall>s \<in> set specs. encodable_spec s \<and> \<not> handled ?db ev (fst s)"
    using Cons.prems(4) by (simp add: handled_def)
  with Cons.IH [OF ok Cons.prems(2)] top' Cons.prems(3) obtain cs where
    cs: "create_commands_loop now exs new_uuid ev d specs ?db = (Inr cs, ?db\<lparr>db_new_commands := db_new_commands ?db @ cs\<rparr>)"
      "list_all2 (command_for d ev) specs cs" "seqs_ok (?db\<lparr>db_new_commands := db_new_commands ?db @ cs\<rparr>)"
    by auto
  have "has_geofence_command db (ge_id ev) t = Inr False"
    using Cons.prems(4) by (intro has_command_none) (simp add: spec)
  then have "create_commands_loop now exs new_uuid ev d (spec # specs) db =
      (Inr (c # cs), db\<lparr>db_new_commands := db_new_commands db @ (c # cs)\<rparr>)"
    using c cs(1) by (simp add: spec)
  with cs cmd(1) show ?case by (intro exI [of _ "c # cs"]) simp
qed simp

lemma duration_ok:
  assumes "map_of pf ''duration_seconds'' = None" "map_of pf ''duration_ms'' = Some (PvInt n)" "n \<le> 255000"
  shows "is_ok (normalized_fields WARNING_SOUND pf)"
proof -
  have "of_int n \<le> (255000 :: rat)" using assms(3) by (metis of_int_le_iff of_int_numeral)
  then have "of_int n / (1000 :: rat) \<le> of_int 255" by simp
  then have "\<lceil>of_int n / (1000 :: rat)\<rceil> \<le> 255" by (simp only: ceiling_le_iff)
  then obtain m where "\<lceil>of_int n / (1000 :: rat)\<rceil> = m" "m \<le> 255" by blast
  then show ?thesis using assms(1,2)
    by (simp add: normalized_fields_def normalize_duration_seconds_def field_or_none_def Let_def)
qed

lemma interval_ok:
  "map_of pf ''interval_seconds'' = Some (PvInt n) \<Longrightarrow> 1 \<le> n \<Longrightarrow> n \<le> 65535 \<Longrightarrow>
    is_ok (normalized_fields SET_REPORT_INTERVAL pf)"
  by (simp add: normalized_fields_def normalize_interval_seconds_def field_or_none_def Let_def)

lemma specs_encodable: "spec \<in> set (command_specs_for_event_type t) \<Longrightarrow> encodable_spec spec"
  by (cases t)
    (auto simp: command_specs_for_event_type_def encodable_spec_def NORMAL_REPORT_INTERVAL_SECONDS_def
      normalized_fields_def [of STOP_CORRECTION] intro!: interval_ok duration_ok)

lemma length_specs: "length (command_specs_for_event_type t) \<le> 2"
  by (cases t) (simp_all add: command_specs_for_event_type_def)

text \<open>The same event again: every command of its specification is stored once.\<close>

lemma create_commands_loop_none:
  assumes "\<forall>spec \<in> set specs. \<exists>c. filter (\<lambda>c. cmd_event_id c = Some (ge_id ev) \<and> cmd_type c = fst spec)
      (db_commands db) = [c]"
  shows "create_commands_loop now exs new_uuid ev d specs db = (Inr [], db)"
  using assms
proof (induction specs)
  case (Cons spec specs)
  then have "has_geofence_command db (ge_id ev) (fst spec) = Inr True"
    by (auto simp: has_geofence_command_def)
  with Cons show ?case by (cases spec) simp
qed simp

text \<open>Whatever the device, the loop ends without an exception.\<close>

lemma create_pending_error:
  assumes "seqs_ok db" "encodable_spec (t, pf)"
    and "create_pending_command now exs uuid d t asset_id event_id ex (Some pf) db = (Inl e, db')"
  shows "\<exists>m. e = Value_Error m"
proof (cases "downlink_ready d \<and> top_seq db (d_id d) < MAX_COMMAND_SEQ")
  case True
  obtain fs where fs: "normalized_fields t pf = Inr fs" "map_of pf ''flags'' = None"
    using assms(2) by (auto simp: encodable_spec_def is_ok_iff)
  show ?thesis
    using create_pending_succeeds [OF assms(1) conjunct1 [OF True] conjunct2 [OF True] fs, where now = now
        and exs = exs and uuid = uuid and asset_id = asset_id and event_id = event_id and ex = ex] assms(3)
    by auto
next
  case False
  have "db' = db" using create_pending_cases [OF assms(1,3)] by auto
  with assms(3) have "create_pending_command now exs uuid d t asset_id event_id ex (Some pf) db = (Inl e, db)"
    by simp
  then show ?thesis using False
    by (cases "d_protocol d = CHIRPSTACK"; cases "top_seq db (d_id d) < MAX_COMMAND_SEQ")
      (auto simp: create_pending_command_def allocate_command_seq_def resolve_command_transport_def
        downlink_ready_def allocate_eq [OF assms(1)])
qed

lemma create_commands_loop_total:
  assumes "seqs_ok db" "\<forall>spec \<in> set specs. encodable_spec spec \<and> \<not> handled db ev (fst spec)"
  shows "\<exists>cs. create_commands_loop now exs new_uuid ev d specs db =
      (Inr cs, db\<lparr>db_new_commands := db_new_commands db @ cs\<rparr>) \<and>
    seqs_ok (db\<lparr>db_new_commands := db_new_commands db @ cs\<rparr>) \<and>
    (\<forall>c \<in> set cs. cmd_event_id c = Some (ge_id ev) \<and> cmd_type c \<in> fst ` set specs \<and> cmd_device_id c = d_id d)"
  using assms
proof (induction specs arbitrary: db)
  case (Cons spec specs)
  obtain t pf where spec: "spec = (t, pf)" by (cases spec)
  let ?create = "create_pending_command now exs (new_uuid db) d t (ge_asset_id ev) (Some (ge_id ev)) None (Some pf) db"
  obtain r db1 where run: "?create = (r, db1)" by (cases ?create)
  have ok: "seqs_ok db1" by (rule seqs_ok_create [OF Cons.prems(1) run])
  have stored: "db_commands db1 = db_commands db"
    using create_pending_cases [OF Cons.prems(1) run] by auto
  have "\<forall>s \<in> set specs. encodable_spec s \<and> \<not> handled db1 ev (fst s)"
    using Cons.prems(2) stored by (simp add: handled_def)
  from Cons.IH [OF ok this] obtain cs where
    cs: "create_commands_loop now exs new_uuid ev d specs db1 = (Inr cs, db1\<lparr>db_new_commands := db_new_commands db1 @ cs\<rparr>)"
      "seqs_ok (db1\<lparr>db_new_commands := db_new_commands db1 @ cs\<rparr>)"
      "\<forall>c \<in> set cs. cmd_event_id c = Some (ge_id ev) \<and> cmd_type c \<in> fst ` set specs \<and> cmd_device_id c = d_id d" by blast
  have has: "has_geofence_command db (ge_id ev) t = Inr False"
    using Cons.prems(2) by (intro has_command_none) (simp add: spec)
  show ?case
  proof (cases r)
    case (Inl e)
    then obtain m where "e = Value_Error m"
      using create_pending_error [OF Cons.prems(1)] Cons.prems(2) run spec by fastforce
    moreover have "db1 = db" using create_pending_cases [OF Cons.prems(1) run] Inl by auto
    ultimately show ?thesis using cs run has Inl by (intro exI [of _ cs]) (auto simp: spec)
  next
    case (Inr c)
    then have c: "db1 = db\<lparr>db_new_commands := db_new_commands db @ [c]\<rparr>" "cmd_event_id c = Some (ge_id ev)"
        "cmd_type c = t" "cmd_device_id c = d_id d"
      using create_pending_cases [OF Cons.prems(1) run] by auto
    show ?thesis using cs run has Inr c by (intro exI [of _ "c # cs"]) (auto simp: spec)
  qed
qed simp

subsection \<open>Lemmas on flushing\<close>

definition unkeyed :: "device_command \<Rightarrow> device_command" where
  "unkeyed c = c\<lparr>cmd_id := 0, cmd_created_at := 0\<rparr>"

lemma map_unkeyed_insert:
  "map unkeyed (insert_commands now cs rows) = map unkeyed rows @ map unkeyed cs"
  by (induction cs arbitrary: rows) (simp_all add: unkeyed_def)

lemma filter_of_map:
  assumes "\<And>c. P (f c) = P c" "map f xs = map f ys"
  shows "map f (filter P xs) = map f (filter P ys)"
proof -
  have "map f (filter P zs) = filter P (map f zs)" for zs
    using assms(1) by (induction zs) auto
  with assms(2) show ?thesis by simp
qed

lemma device_seqs_unkeyed: "device_seqs dev (map unkeyed cs) = device_seqs dev cs"
  by (induction cs) (auto simp: unkeyed_def split: option.split)

lemma seqs_ok_flush [simp]: "seqs_ok (flush_commands now db) \<longleftrightarrow> seqs_ok db"
proof -
  have "map unkeyed (all_commands (flush_commands now db)) = map unkeyed (all_commands db)"
    by (simp add: all_commands_def flush_commands_def map_unkeyed_insert)
  then have "device_seqs dev (all_commands (flush_commands now db)) = device_seqs dev (all_commands db)" for dev
    by (metis device_seqs_unkeyed)
  then show ?thesis by (simp add: seqs_ok_def)
qed

lemma distinct_ids_insert:
  "distinct (map cmd_id rows) \<Longrightarrow> distinct (map cmd_id (insert_commands now cs rows))"
proof (induction cs arbitrary: rows)
  case (Cons c cs)
  show ?case using Cons.IH [OF distinct_append_fresh [OF Cons.prems]] by simp
qed simp

lemma one_per_type:
  assumes "list_all2 (command_for d ev) specs cs" "distinct (map fst specs)" "spec \<in> set specs"
  shows "length (filter (\<lambda>c. cmd_event_id c = Some (ge_id ev) \<and> cmd_type c = fst spec) cs) = 1"
proof -
  have types: "map cmd_type cs = map fst specs" and evs: "\<forall>c \<in> set cs. cmd_event_id c = Some (ge_id ev)"
    using assms(1) by (induction rule: list_all2_induct) (auto simp: command_for_def)
  have "filter (\<lambda>c. cmd_event_id c = Some (ge_id ev) \<and> cmd_type c = fst spec) cs = filter (\<lambda>c. cmd_type c = fst spec) cs"
    using evs by (intro filter_cong) auto
  moreover have "length (filter (\<lambda>c. cmd_type c = fst spec) cs) = length (filter (\<lambda>t. t = fst spec) (map cmd_type cs))"
    by (simp add: filter_map comp_def)
  moreover have "length (filter (\<lambda>t. t = fst spec) (map fst specs)) = 1"
  proof -
    have "{x. x = fst spec} \<inter> set (map fst specs) = {fst spec}" using assms(3) by auto
    then show ?thesis using distinct_length_filter [OF assms(2), of "\<lambda>t. t = fst spec"] by simp
  qed
  ultimately show ?thesis by (simp add: types)
qed

lemma found_after_flush:
  assumes "list_all2 (command_for d ev) specs cs" "distinct (map fst specs)" "spec \<in> set specs"
    and "\<not> handled db ev (fst spec)" "db_new_commands db = []"
  shows "\<exists>c. filter (\<lambda>c. cmd_event_id c = Some (ge_id ev) \<and> cmd_type c = fst spec)
      (db_commands (flush_commands now (db\<lparr>db_new_commands := cs\<rparr>))) = [c]"
proof -
  let ?P = "\<lambda>c. cmd_event_id c = Some (ge_id ev) \<and> cmd_type c = fst spec"
  let ?rows = "db_commands (flush_commands now (db\<lparr>db_new_commands := cs\<rparr>))"
  have "map unkeyed (filter ?P ?rows) = map unkeyed (filter ?P (db_commands db @ cs))"
  proof (rule filter_of_map)
    show "map unkeyed ?rows = map unkeyed (db_commands db @ cs)"
      by (simp add: flush_commands_def map_unkeyed_insert)
  qed (simp add: unkeyed_def)
  moreover have "filter ?P (db_commands db) = []"
    using assms(4) by (auto simp: handled_def filter_empty_conv)
  ultimately have "length (filter ?P ?rows) = length (filter ?P cs)"
    by (auto dest: map_eq_imp_length_eq)
  also have "\<dots> = 1" using one_per_type [OF assms(1-3)] .
  finally show ?thesis by (simp add: length_Suc_conv)
qed

subsection \<open>Properties\<close>

text \<open>
  The sequence service returns a number of the 16-bit field that is larger than
  every number the device has used, in a stored or a still pending command; it refuses exactly
  when the device has used the last one.
\<close>
theorem allocated_seq_is_next:
  assumes "seqs_ok db"
  shows "case allocate_next_command_seq db dev of
      Inr n \<Rightarrow> 1 \<le> n \<and> n \<le> 65535 \<and> (\<forall>m \<in> set (device_seqs dev (all_commands db)). m < n)
    | Inl _ \<Rightarrow> 65535 \<in> set (device_seqs dev (all_commands db))"
proof (cases "top_seq db dev \<ge> MAX_COMMAND_SEQ")
  case True
  then have "top_seq db dev \<in> set (device_seqs dev (all_commands db))"
    using top_seq_cases [of db dev] by (auto simp: MAX_COMMAND_SEQ_def)
  moreover have "top_seq db dev \<le> 65535"
    using calculation by (rule seqs_bounded [OF assms])
  ultimately show ?thesis using True by (simp add: allocate_eq [OF assms] MAX_COMMAND_SEQ_def)
next
  case False
  then show ?thesis using top_seq_ge [of _ dev db]
    by (fastforce simp: allocate_eq [OF assms] MAX_COMMAND_SEQ_def)
qed

theorem allocated_seq_is_next_witness:
  "seqs_ok (empty_db\<lparr>db_new_commands := [sample_command]\<rparr>) \<and>
   allocate_next_command_seq (empty_db\<lparr>db_new_commands := [sample_command]\<rparr>) 1 = Inr 2"
proof -
  let ?db = "empty_db\<lparr>db_new_commands := [sample_command]\<rparr>"
  have c: "cmd_device_id sample_command = 1" "cmd_seq sample_command = Some 1"
    by (simp_all add: sample_command_def)
  have seqs: "device_seqs dev (all_commands ?db) = (if dev = 1 then [1] else [])" for dev
    by (simp add: all_commands_def empty_db_def c)
  have ok: "seqs_ok ?db"
    unfolding seqs_ok_def seqs by (simp add: MIN_COMMAND_SEQ_def MAX_COMMAND_SEQ_def)
  have "allocate_next_command_seq ?db 1 = Inr 2"
    by (simp add: allocate_eq [OF ok] top_seq_def seqs MAX_COMMAND_SEQ_def)
  with allocated_seq_is_next [OF ok, of 1] ok show ?thesis by simp
qed

lemma next_seq:
  assumes "seqs_ok db"
  shows "top_seq db dev + 1 = (let used = device_seqs dev (all_commands db) in if used = [] then MIN_COMMAND_SEQ else Max (set used) + 1)"
proof (cases "device_seqs dev (all_commands db) = []")
  case True
  then show ?thesis by (simp add: top_seq_def MIN_COMMAND_SEQ_def)
next
  case False
  then have "Max (set (device_seqs dev (all_commands db))) \<in> set (device_seqs dev (all_commands db))" by (intro Max_in) auto
  then have "1 \<le> Max (set (device_seqs dev (all_commands db)))" by (rule seqs_positive [OF assms])
  with False show ?thesis by (simp add: top_seq_def Max_insert Let_def)
qed

text \<open>
  Property C9. Creating a command either fails and leaves the session as it was, or adds one
  pending command to it, of a downlink-capable device, with the next sequence number - one more
  than the largest the device has used, stored or pending, and 1 for the first - and a topic and payload that the binary encoder produced for exactly that number; the database
  constraints on sequence numbers hold afterwards in both cases.
\<close>
theorem created_command_is_sound:
  assumes "seqs_ok db"
    and "create_pending_command now exs uuid d t asset_id event_id ex (Some pf) db = (r, db')"
  shows "seqs_ok db' \<and> (case r of
      Inl _ \<Rightarrow> db' = db
    | Inr c \<Rightarrow> db' = db\<lparr>db_new_commands := db_new_commands db @ [c]\<rparr> \<and> downlink_ready d \<and>
        cmd_status c = CMD_PENDING \<and> cmd_device_id c = d_id d \<and> cmd_type c = t \<and>
        (\<exists>n e. cmd_seq c = Some n \<and> n \<le> MAX_COMMAND_SEQ \<and>
           n = (let used = device_seqs (d_id d) (all_commands db) in if used = [] then MIN_COMMAND_SEQ else Max (set used) + 1) \<and>
           encode_command_downlink uuid n t (Some pf) = Inr e \<and>
           cmd_topic c = build_topic (the (d_application_id d)) (the (d_dev_eui d)) \<and>
           cmd_payload c = build_payload (the (d_dev_eui d)) e True))"
proof -
  show ?thesis
    using create_pending_cases [OF assms] seqs_ok_create [OF assms] next_seq [OF assms(1), of "d_id d"] by (auto split: sum.splits)
qed

definition sample_device :: device where
  "sample_device = \<lparr>d_id = 1, d_serial = ''S1'', d_name = ''dev'', d_type = ''GPS'', d_last_seen_at = None,
     d_dev_eui = Some sample_eui, d_join_eui = None, d_application_id = Some ''app'',
     d_lorawan_class = None, d_device_profile_id = None, d_provisioning_status = NOT_PROVISIONED,
     d_provisioned_at = None, d_provisioning_error = None, d_app_key_last4 = None, d_deleted = CHR ''N'',
     d_state = OFF, d_protocol = CHIRPSTACK, d_client_id = Some 1, d_asset_id = Some 1, d_active = True\<rparr>"

lemma seqs_ok_empty: "seqs_ok empty_db"
  by (simp add: seqs_ok_def all_commands_def empty_db_def)

lemma sample_device_ready: "downlink_ready sample_device"
  by (simp add: downlink_ready_def sample_device_def or_empty_def sample_eui_def)

lemma top_seq_empty: "top_seq empty_db dev = 0"
  by (simp add: top_seq_def all_commands_def empty_db_def)

theorem created_command_is_sound_witness:
  "\<exists>c db'. create_pending_command 0 60 ''u'' sample_device STOP_CORRECTION None None None (Some []) empty_db
     = (Inr c, db') \<and> cmd_seq c = Some 1 \<and> seqs_ok db'"
proof -
  obtain c where c: "create_pending_command 0 60 ''u'' sample_device STOP_CORRECTION None None None (Some []) empty_db
      = (Inr c, empty_db\<lparr>db_new_commands := db_new_commands empty_db @ [c]\<rparr>)"
    using create_pending_succeeds [OF seqs_ok_empty sample_device_ready, of STOP_CORRECTION "[]" "[]"
        0 60 "''u''" None None None]
    by (auto simp: top_seq_empty MAX_COMMAND_SEQ_def normalized_fields_def)
  moreover have "cmd_seq c = Some 1"
    using create_pending_cases [OF seqs_ok_empty c] by (auto simp: top_seq_empty)
  ultimately show ?thesis using created_command_is_sound [OF seqs_ok_empty c] by blast
qed

text \<open>
  Property C26. For an event not handled before, of a device that can receive downlinks and has
  two sequence numbers left, the service creates exactly the commands the event's table
  lists, in its order, each pending, addressed to the device and encoded; it fails for none of
  them, and the event types \<open>NEAR_LIMIT\<close>, \<open>EXITED\<close>, \<open>RETURNED\<close> and \<open>GPS_UNCERTAIN\<close> all have some.
\<close>
theorem geofence_event_commands:
  assumes "seqs_ok db" "downlink_ready d" "top_seq db (d_id d) + 2 \<le> 65535"
    and "\<forall>t. \<not> handled db ev t"
  shows "\<exists>cs. create_commands_for_geofence_event now exs new_uuid ev d db =
      (Inr cs, db\<lparr>db_new_commands := db_new_commands db @ cs\<rparr>) \<and>
    list_all2 (command_for d ev) (command_specs_for_event_type (ge_event_type ev)) cs \<and>
    (cs = [] \<longleftrightarrow> ge_event_type ev = EV_ENTERED)"
proof -
  let ?specs = "command_specs_for_event_type (ge_event_type ev)"
  have "\<forall>spec \<in> set ?specs. encodable_spec spec \<and> \<not> handled db ev (fst spec)"
    using specs_encodable assms(4) by blast
  moreover have "top_seq db (d_id d) + int (length ?specs) \<le> MAX_COMMAND_SEQ"
    using assms(3) length_specs [of "ge_event_type ev"] by (simp add: MAX_COMMAND_SEQ_def)
  ultimately obtain cs where cs: "create_commands_loop now exs new_uuid ev d ?specs db =
      (Inr cs, db\<lparr>db_new_commands := db_new_commands db @ cs\<rparr>)" "list_all2 (command_for d ev) ?specs cs"
    using create_commands_loop_all [OF assms(1,2)] by metis
  have "cs = [] \<longleftrightarrow> ?specs = []" using list_all2_lengthD [OF cs(2)] by auto
  also have "\<dots> \<longleftrightarrow> ge_event_type ev = EV_ENTERED"
    by (cases "ge_event_type ev") (simp_all add: command_specs_for_event_type_def)
  finally show ?thesis using cs by (auto simp: create_commands_for_geofence_event_def)
qed

definition sample_fence_event :: "fence_event_type \<Rightarrow> geofence_event" where
  "sample_fence_event t = \<lparr>ge_id = 7, ge_fence_id = 1, ge_device_id = 1, ge_asset_id = Some 1, ge_location_id = 1,
     ge_event_type = t, ge_distance = None, ge_accuracy = None, ge_created_at = 0\<rparr>"

lemma nothing_handled_empty: "\<forall>t. \<not> handled empty_db ev t"
  by (simp add: handled_def empty_db_def)

theorem geofence_event_commands_witness:
  "\<exists>cs db'. create_commands_for_geofence_event 0 60 (\<lambda>_. ''u'') (sample_fence_event EV_EXITED) sample_device empty_db
     = (Inr cs, db') \<and> map cmd_type cs = [SET_REPORT_INTERVAL, WARNING_SOUND]"
proof -
  have "ge_event_type (sample_fence_event EV_EXITED) = EV_EXITED" by (simp add: sample_fence_event_def)
  with geofence_event_commands [OF seqs_ok_empty sample_device_ready _ nothing_handled_empty,
      where ev = "sample_fence_event EV_EXITED" and now = 0 and exs = 60 and new_uuid = "\<lambda>_. ''u''"]
  obtain cs where "create_commands_for_geofence_event 0 60 (\<lambda>_. ''u'') (sample_fence_event EV_EXITED) sample_device empty_db
      = (Inr cs, empty_db\<lparr>db_new_commands := db_new_commands empty_db @ cs\<rparr>)"
    "list_all2 (command_for sample_device (sample_fence_event EV_EXITED)) (command_specs_for_event_type EV_EXITED) cs"
    by (auto simp: top_seq_empty)
  moreover from this(2) have "map cmd_type cs = [SET_REPORT_INTERVAL, WARNING_SOUND]"
    by (auto simp: command_specs_for_event_type_def list_all2_Cons1 command_for_def)
  ultimately show ?thesis by auto
qed

text \<open>
  Handling the same event twice creates nothing the second time: once the commands
  of the first run are flushed, a second run returns no command and leaves the session alone.
\<close>
theorem geofence_event_commands_once:
  assumes "seqs_ok db" "downlink_ready d" "top_seq db (d_id d) + 2 \<le> 65535"
    and "\<forall>t. \<not> handled db ev t" "db_new_commands db = []"
    and "create_commands_for_geofence_event now exs new_uuid ev d db = (Inr cs, db')"
  shows "create_commands_for_geofence_event now' exs' new_uuid' ev d (flush_commands now db') =
    (Inr [], flush_commands now db')"
proof -
  let ?specs = "command_specs_for_event_type (ge_event_type ev)"
  have enc: "\<forall>spec \<in> set ?specs. encodable_spec spec \<and> \<not> handled db ev (fst spec)"
    using specs_encodable assms(4) by blast
  have room: "top_seq db (d_id d) + int (length ?specs) \<le> MAX_COMMAND_SEQ"
    using assms(3) length_specs [of "ge_event_type ev"] by (simp add: MAX_COMMAND_SEQ_def)
  from create_commands_loop_all [OF assms(1,2) room enc, of now exs new_uuid] assms(5,6)
  have db': "db' = db\<lparr>db_new_commands := cs\<rparr>" and cs: "list_all2 (command_for d ev) ?specs cs"
    by (auto simp: create_commands_for_geofence_event_def)
  have "distinct (map fst ?specs)"
    by (cases "ge_event_type ev") (simp_all add: command_specs_for_event_type_def)
  from found_after_flush [OF cs this _ _ assms(5)] assms(4)
  have "\<forall>spec \<in> set ?specs. \<exists>c. filter (\<lambda>c. cmd_event_id c = Some (ge_id ev) \<and> cmd_type c = fst spec)
      (db_commands (flush_commands now db')) = [c]"
    unfolding db' by blast
  from create_commands_loop_none [OF this] show ?thesis
    by (simp add: create_commands_for_geofence_event_def)
qed

theorem geofence_event_commands_once_witness:
  "\<exists>cs db'. create_commands_for_geofence_event 0 60 (\<lambda>_. ''u'') (sample_fence_event EV_EXITED) sample_device empty_db
     = (Inr cs, db') \<and>
   create_commands_for_geofence_event 1 60 (\<lambda>_. ''v'') (sample_fence_event EV_EXITED) sample_device (flush_commands 0 db')
     = (Inr [], flush_commands 0 db')"
proof -
  let ?ev = "sample_fence_event EV_EXITED"
  have enc: "\<forall>spec \<in> set (command_specs_for_event_type (ge_event_type ?ev)).
      encodable_spec spec \<and> \<not> handled empty_db ?ev (fst spec)"
    using specs_encodable nothing_handled_empty by blast
  have "top_seq empty_db (d_id sample_device) + int (length (command_specs_for_event_type (ge_event_type ?ev)))
      \<le> MAX_COMMAND_SEQ"
    using length_specs [of "ge_event_type ?ev"] by (simp add: top_seq_empty MAX_COMMAND_SEQ_def)
  from create_commands_loop_all [OF seqs_ok_empty sample_device_ready this enc, of 0 60 "\<lambda>_. ''u''"]
  obtain cs where cs: "create_commands_for_geofence_event 0 60 (\<lambda>_. ''u'') ?ev sample_device empty_db
      = (Inr cs, empty_db\<lparr>db_new_commands := db_new_commands empty_db @ cs\<rparr>)"
    by (auto simp: create_commands_for_geofence_event_def)
  have "top_seq empty_db (d_id sample_device) + 2 \<le> 65535" "db_new_commands empty_db = []"
    by (simp_all add: top_seq_empty) (simp add: empty_db_def)
  from geofence_event_commands_once [OF seqs_ok_empty sample_device_ready this(1) nothing_handled_empty this(2) cs]
  show ?thesis using cs by blast
qed

end
