(* ===== verification/Geofence_Evaluation.thy ===== *)
theory Geofence_Evaluation
  imports Device_Commands
begin

text \<open>
  Geofences at run time: \<open>src/service/geofence_membership_service.py\<close>,
  \<open>geofence_evaluation_service.py\<close> and \<open>location_ingestion_service.py\<close>.  The PostGIS functions
  \<open>ST_Covers\<close> and \<open>ST_Distance\<close> to the boundary are parameters, fields of the environment with
  the thresholds, the clock reading, the settings and \<open>uuid4\<close>.  A query without an order
  returns the rows in table order.
\<close>

record evaluation_env =
  en_near_limit_threshold_meters :: rat
  en_gps_uncertain_accuracy_meters :: rat
  en_covers :: "multipolygon \<Rightarrow> py_float \<times> py_float \<Rightarrow> bool"
  en_boundary_distance :: "multipolygon \<Rightarrow> py_float \<times> py_float \<Rightarrow> py_float"
  en_now :: int
  en_expires_seconds :: int
  en_new_uuid :: "tlrs_db \<Rightarrow> string"

subsection \<open>Membership\<close>

definition direct_memberships :: "tlrs_db \<Rightarrow> (nat \<times> nat) list" where
  "direct_memberships db = [(ga_fence_id ga, ga_asset_id ga).
     ga \<leftarrow> db_geofence_assignments db, gf \<leftarrow> db_geofences db, gf_id gf = ga_fence_id ga,
     a \<leftarrow> db_assets db, a_id a = ga_asset_id ga,
     ga_active ga, ga_deleted ga = CHR ''N'', gf_active gf, gf_deleted gf = CHR ''N'', a_deleted a = CHR ''N'']"

definition group_memberships :: "tlrs_db \<Rightarrow> (nat \<times> nat) list" where
  "group_memberships db = [(gg_geofence_id gg, agm_asset_id m).
     gg \<leftarrow> db_fence_groups db, gf \<leftarrow> db_geofences db, gf_id gf = gg_geofence_id gg,
     ag \<leftarrow> db_asset_groups db, ag_id ag = gg_group_id gg,
     m \<leftarrow> db_group_members db, agm_group_id m = ag_id ag, a \<leftarrow> db_assets db, a_id a = agm_asset_id m,
     gg_active gg, gg_deleted gg = CHR ''N'', gf_active gf, gf_deleted gf = CHR ''N'',
     ag_active ag, ag_deleted ag = CHR ''N'', agm_deleted m = CHR ''N'', a_deleted a = CHR ''N'']"

text \<open>\<open>UNION\<close> keeps one row of each pair.\<close>

definition effective_memberships :: "tlrs_db \<Rightarrow> (nat \<times> nat) list" where
  "effective_memberships db = remdups (direct_memberships db @ group_memberships db)"

definition get_effective_geofence_ids_for_asset :: "tlrs_db \<Rightarrow> nat \<Rightarrow> nat list" where
  "get_effective_geofence_ids_for_asset db asset_id =
     sort (map fst (filter (\<lambda>m. snd m = asset_id) (effective_memberships db)))"

definition get_effective_asset_ids_for_geofence :: "tlrs_db \<Rightarrow> nat \<Rightarrow> nat list" where
  "get_effective_asset_ids_for_geofence db geofence_id =
     sort (map snd (filter (\<lambda>m. fst m = geofence_id) (effective_memberships db)))"

definition has_effective_assignment :: "tlrs_db \<Rightarrow> nat \<Rightarrow> nat \<Rightarrow> bool" where
  "has_effective_assignment db geofence_id asset_id \<longleftrightarrow> (geofence_id, asset_id) \<in> set (effective_memberships db)"

definition find_state :: "tlrs_db \<Rightarrow> nat \<Rightarrow> nat \<Rightarrow> asset_state option" where
  "find_state db fence_id asset_id =
     find (\<lambda>s. gs_fence_id s = fence_id \<and> gs_asset_id s = asset_id) (db_asset_states db)"

definition delete_state_if_unassigned :: "nat \<Rightarrow> nat \<Rightarrow> tlrs_db \<Rightarrow> bool \<times> tlrs_db" where
  "delete_state_if_unassigned geofence_id asset_id db =
     (if has_effective_assignment db geofence_id asset_id then (False, db)
      else case find_state db geofence_id asset_id of
        None \<Rightarrow> (False, db)
      | Some s \<Rightarrow> (True, db\<lparr>db_asset_states := filter (\<lambda>r. gs_id r \<noteq> gs_id s) (db_asset_states db)\<rparr>))"

subsection \<open>Status and transitions\<close>

definition resolve_status :: "evaluation_env \<Rightarrow> bool option \<Rightarrow> py_float option \<Rightarrow> py_float option \<Rightarrow> fence_status" where
  "resolve_status env inside distance accuracy =
     (if (case accuracy of None \<Rightarrow> False | Some a \<Rightarrow> a \<ge> Finite (en_gps_uncertain_accuracy_meters env)) then GPS_UNCERTAIN
      else if inside \<noteq> Some True then OUTSIDE
      else if (case distance of None \<Rightarrow> False | Some x \<Rightarrow> x \<le> Finite (en_near_limit_threshold_meters env)) then NEAR_LIMIT
      else SAFE)"

definition geofence_transition_events :: "((fence_status option \<times> fence_status) \<times> fence_event_type) list" where
  "geofence_transition_events =
     [((None, NEAR_LIMIT), EV_NEAR_LIMIT), ((None, OUTSIDE), EV_EXITED), ((None, GPS_UNCERTAIN), EV_GPS_UNCERTAIN),
      ((Some SAFE, NEAR_LIMIT), EV_NEAR_LIMIT), ((Some SAFE, OUTSIDE), EV_EXITED),
      ((Some SAFE, GPS_UNCERTAIN), EV_GPS_UNCERTAIN),
      ((Some NEAR_LIMIT, OUTSIDE), EV_EXITED), ((Some NEAR_LIMIT, GPS_UNCERTAIN), EV_GPS_UNCERTAIN),
      ((Some OUTSIDE, SAFE), EV_RETURNED), ((Some OUTSIDE, NEAR_LIMIT), EV_RETURNED),
      ((Some OUTSIDE, GPS_UNCERTAIN), EV_GPS_UNCERTAIN),
      ((Some GPS_UNCERTAIN, NEAR_LIMIT), EV_NEAR_LIMIT), ((Some GPS_UNCERTAIN, OUTSIDE), EV_EXITED)]"

definition resolve_event_type_from_transition :: "fence_status option \<Rightarrow> fence_status \<Rightarrow> fence_event_type option" where
  "resolve_event_type_from_transition previous_status new_status =
     (if previous_status = Some new_status then None
      else map_of geofence_transition_events (previous_status, new_status))"

subsection \<open>Evaluating a location\<close>

record spatial_row =
  sr_fence_id :: nat
  sr_inside :: "bool option"
  sr_distance :: "py_float option"

record evaluation_result =
  ev_fence_id :: nat
  ev_level :: fence_status
  ev_distance :: "py_float option"
  ev_accuracy :: "py_float option"
  ev_event_created :: bool

text \<open>A PostGIS function of a point that is \<open>NULL\<close> is \<open>NULL\<close>.\<close>

definition get_assigned_geofence_spatial_results ::
  "evaluation_env \<Rightarrow> tlrs_db \<Rightarrow> nat \<Rightarrow> location \<Rightarrow> spatial_row list" where
  "get_assigned_geofence_spatial_results env db asset_id loc =
     (let ids = get_effective_geofence_ids_for_asset db asset_id
      in if ids = [] then []
         else [\<lparr>sr_fence_id = gf_id gf, sr_inside = map_option (en_covers env (gf_shape gf)) (l_point loc),
                sr_distance = map_option (en_boundary_distance env (gf_shape gf)) (l_point loc)\<rparr>.
               gf \<leftarrow> db_geofences db, gf_id gf \<in> set ids, gf_active gf, gf_deleted gf = CHR ''N''])"

definition get_or_create_asset_state ::
  "evaluation_env \<Rightarrow> nat \<Rightarrow> nat \<Rightarrow> nat \<Rightarrow> nat \<Rightarrow> fence_status \<Rightarrow> py_float option \<Rightarrow> py_float option \<Rightarrow> tlrs_db
   \<Rightarrow> (asset_state \<times> fence_status option) \<times> tlrs_db" where
  "get_or_create_asset_state env fence_id asset_id device_id location_id current_status distance accuracy db =
     (case find_state db fence_id asset_id of
        Some s \<Rightarrow> ((s, Some (gs_status s)), db)
      | None \<Rightarrow>
          (let s = \<lparr>gs_id = fresh gs_id (db_asset_states db), gs_fence_id = fence_id, gs_asset_id = asset_id,
                 gs_device_id = device_id, gs_status = current_status, gs_last_location_id = location_id,
                 gs_last_distance = distance, gs_last_accuracy = accuracy,
                 gs_first_detected_at = en_now env, gs_last_evaluated_at = en_now env,
                 gs_created_at = en_now env, gs_updated_at = en_now env\<rparr>
           in ((s, None), db\<lparr>db_asset_states := db_asset_states db @ [s]\<rparr>)))"

definition update_asset_state ::
  "evaluation_env \<Rightarrow> asset_state \<Rightarrow> nat \<Rightarrow> nat \<Rightarrow> fence_status \<Rightarrow> py_float option \<Rightarrow> py_float option \<Rightarrow> tlrs_db \<Rightarrow> tlrs_db" where
  "update_asset_state env s device_id location_id current_status distance accuracy db =
     db\<lparr>db_asset_states := put gs_id
       (s\<lparr>gs_status := current_status, gs_device_id := device_id, gs_last_location_id := location_id,
          gs_last_distance := distance, gs_last_accuracy := accuracy,
          gs_last_evaluated_at := en_now env, gs_updated_at := en_now env\<rparr>) (db_asset_states db)\<rparr>"

text \<open>\<open>add\<close> of the event followed by the \<open>flush\<close>, which also stores the pending commands.\<close>

definition create_event ::
  "evaluation_env \<Rightarrow> nat \<Rightarrow> nat \<Rightarrow> nat \<Rightarrow> nat \<Rightarrow> fence_event_type \<Rightarrow> py_float option \<Rightarrow> py_float option \<Rightarrow> tlrs_db
   \<Rightarrow> geofence_event \<times> tlrs_db" where
  "create_event env fence_id device_id asset_id location_id t distance accuracy db =
     (let ev = \<lparr>ge_id = fresh ge_id (db_geofence_events db), ge_fence_id = fence_id, ge_device_id = device_id,
            ge_asset_id = Some asset_id, ge_location_id = location_id, ge_event_type = t,
            ge_distance = distance, ge_accuracy = accuracy, ge_created_at = en_now env\<rparr>
      in (ev, flush_commands (en_now env) (db\<lparr>db_geofence_events := db_geofence_events db @ [ev]\<rparr>)))"

definition evaluate_row ::
  "evaluation_env \<Rightarrow> device \<Rightarrow> nat \<Rightarrow> location \<Rightarrow> spatial_row \<Rightarrow> (tlrs_db, py_exc, evaluation_result) act" where
  "evaluate_row env d asset_id loc row db =
     (let new_status = resolve_status env (sr_inside row) (sr_distance row) (l_accuracy loc);
          ((s, previous_status), db1) = get_or_create_asset_state env (sr_fence_id row) asset_id (d_id d)
             (l_id loc) new_status (sr_distance row) (l_accuracy loc) db;
          event_type = resolve_event_type_from_transition previous_status new_status;
          db2 = update_asset_state env s (d_id d) (l_id loc) new_status (sr_distance row) (l_accuracy loc) db1;
          result = \<lparr>ev_fence_id = sr_fence_id row, ev_level = new_status, ev_distance = sr_distance row,
             ev_accuracy = l_accuracy loc, ev_event_created = event_type \<noteq> None\<rparr>
      in case event_type of
           None \<Rightarrow> (Inr result, db2)
         | Some t \<Rightarrow>
             (let (ev, db3) = create_event env (sr_fence_id row) (d_id d) asset_id (l_id loc) t
                    (sr_distance row) (l_accuracy loc) db2
              in bindS (create_commands_for_geofence_event (en_now env) (en_expires_seconds env) (en_new_uuid env) ev d)
                   (\<lambda>_. retS result) db3))"

fun evaluate_rows ::
  "evaluation_env \<Rightarrow> device \<Rightarrow> nat \<Rightarrow> location \<Rightarrow> spatial_row list \<Rightarrow> (tlrs_db, py_exc, evaluation_result list) act" where
  "evaluate_rows env d asset_id loc [] db = (Inr [], db)"
| "evaluate_rows env d asset_id loc (row # rows) db =
     bindS (evaluate_row env d asset_id loc row) (\<lambda>r.
     bindS (evaluate_rows env d asset_id loc rows) (\<lambda>rs. retS (r # rs))) db"

definition evaluate_location ::
  "evaluation_env \<Rightarrow> nat \<Rightarrow> nat \<Rightarrow> (tlrs_db, py_exc, evaluation_result list) act" where
  "evaluate_location env device_id location_id db =
     (case fetch d_id device_id (db_devices db) of
        None \<Rightarrow> (Inr [], db)
      | Some d \<Rightarrow>
          (case d_asset_id d of
             None \<Rightarrow> (Inr [], db)
           | Some asset_id \<Rightarrow>
               (case fetch l_id location_id (db_locations db) of
                  None \<Rightarrow> (Inr [], db)
                | Some loc \<Rightarrow> evaluate_rows env d asset_id loc
                    (get_assigned_geofence_spatial_results env db asset_id loc) db)))"

subsection \<open>Ingesting a location\<close>

definition persist_location ::
  "evaluation_env \<Rightarrow> device \<Rightarrow> normalized_telemetry \<Rightarrow> int \<Rightarrow> (tlrs_db, py_exc, location) act" where
  "persist_location env d t received_at db =
     (let loc = \<lparr>l_id = fresh l_id (db_locations db), l_device_id = d_id d, l_latitude = nt_latitude t,
            l_longitude = nt_longitude t, l_point = Some (nt_longitude t, nt_latitude t),
            l_altitude = nt_altitude t, l_accuracy = nt_accuracy t,
            l_device_timestamp = nt_device_timestamp t, l_received_at = received_at, l_deleted = CHR ''N''\<rparr>;
          db1 = flush_commands (en_now env) (db\<lparr>db_locations := db_locations db @ [loc]\<rparr>);
          db2 = db1\<lparr>db_devices := put d_id (d\<lparr>d_state := ON, d_last_seen_at := Some received_at\<rparr>) (db_devices db1)\<rparr>
      in bindS (evaluate_location env (d_id d) (l_id loc)) (\<lambda>_. retS loc) db2)"

subsection \<open>Lemmas on the states\<close>

definition status_of :: "tlrs_db \<Rightarrow> nat \<Rightarrow> nat \<Rightarrow> fence_status option" where
  "status_of db fence_id asset_id = map_option gs_status (find_state db fence_id asset_id)"

abbreviation state_pair :: "asset_state \<Rightarrow> nat \<times> nat" where
  "state_pair s \<equiv> (gs_fence_id s, gs_asset_id s)"

text \<open>
  The constraints the evaluation relies on: those on sequence numbers, the keys of the states
  with \<open>uq_geofence_asset_state_fence_asset\<close>, and the foreign key of a command to its event.
\<close>

definition eval_ok :: "tlrs_db \<Rightarrow> bool" where
  "eval_ok db \<longleftrightarrow> seqs_ok db \<and> distinct (map gs_id (db_asset_states db)) \<and>
     distinct (map state_pair (db_asset_states db)) \<and>
     (\<forall>c \<in> set (all_commands db). \<forall>e. cmd_event_id c = Some e \<longrightarrow> e \<in> ge_id ` set (db_geofence_events db))"

text \<open>The tables an evaluation only reads.\<close>

definition same_base :: "tlrs_db \<Rightarrow> tlrs_db \<Rightarrow> bool" where
  "same_base db db' \<longleftrightarrow> db_devices db' = db_devices db \<and> db_assets db' = db_assets db \<and>
     db_locations db' = db_locations db \<and> db_geofences db' = db_geofences db \<and>
     db_geofence_assignments db' = db_geofence_assignments db \<and> db_asset_groups db' = db_asset_groups db \<and>
     db_group_members db' = db_group_members db \<and> db_fence_groups db' = db_fence_groups db \<and>
     db_cs_events db' = db_cs_events db \<and> db_device_assignments db' = db_device_assignments db"

lemma same_base_refl [simp]: "same_base db db"
  by (simp add: same_base_def)

lemma same_base_trans: "same_base a b \<Longrightarrow> same_base b c \<Longrightarrow> same_base a c"
  by (simp add: same_base_def)

lemma find_state_Some: "find_state db f a = Some s \<Longrightarrow> s \<in> set (db_asset_states db) \<and> gs_fence_id s = f \<and> gs_asset_id s = a"
  unfolding find_state_def by (auto simp: find_Some_iff)

lemma find_state_None: "find_state db f a = None \<longleftrightarrow> (f, a) \<notin> state_pair ` set (db_asset_states db)"
  unfolding find_state_def find_None_iff by auto

lemma find_append: "find P (xs @ ys) = (case find P xs of None \<Rightarrow> find P ys | Some x \<Rightarrow> Some x)"
  by (induction xs) auto

lemma state_loaded:
  assumes "distinct (map gs_id (db_asset_states db))" "distinct (map state_pair (db_asset_states db))"
    and run: "get_or_create_asset_state env f a did lid st di acc db = ((s, prev), db1)"
  shows "find_state db1 f a = Some s" "prev = status_of db f a"
    "db1 = db\<lparr>db_asset_states := db_asset_states db1\<rparr>"
    "(f', a') \<noteq> (f, a) \<Longrightarrow> find_state db1 f' a' = find_state db f' a'"
    "distinct (map gs_id (db_asset_states db1))" "distinct (map state_pair (db_asset_states db1))"
proof -
  consider (old) "find_state db f a = Some s" "prev = Some (gs_status s)" "db1 = db"
    | (new) "find_state db f a = None" "prev = None" "gs_id s = fresh gs_id (db_asset_states db)"
        "state_pair s = (f, a)" "db1 = db\<lparr>db_asset_states := db_asset_states db @ [s]\<rparr>"
    using run by (auto simp: get_or_create_asset_state_def Let_def split: option.splits)
  then have "find_state db1 f a = Some s \<and> prev = status_of db f a \<and> db1 = db\<lparr>db_asset_states := db_asset_states db1\<rparr> \<and>
      ((f', a') \<noteq> (f, a) \<longrightarrow> find_state db1 f' a' = find_state db f' a') \<and>
      distinct (map gs_id (db_asset_states db1)) \<and> distinct (map state_pair (db_asset_states db1))"
  proof cases
    case old
    with assms(1,2) show ?thesis by (simp add: status_of_def)
  next
    case new
    have "(f, a) \<notin> state_pair ` set (db_asset_states db)" using new(1) by (simp add: find_state_None)
    moreover have "gs_id s \<notin> gs_id ` set (db_asset_states db)" using new(3) fresh_not_in by simp
    ultimately show ?thesis using assms(1,2) new
      by (auto simp: status_of_def find_state_def find_append split: option.split)
  qed
  then show "find_state db1 f a = Some s" "prev = status_of db f a"
    "db1 = db\<lparr>db_asset_states := db_asset_states db1\<rparr>"
    "(f', a') \<noteq> (f, a) \<Longrightarrow> find_state db1 f' a' = find_state db f' a'"
    "distinct (map gs_id (db_asset_states db1))" "distinct (map state_pair (db_asset_states db1))"
    by simp_all
qed

lemma state_written:
  assumes "distinct (map gs_id (db_asset_states db))" "distinct (map state_pair (db_asset_states db))"
    and run: "get_or_create_asset_state env f a did lid st di acc db = ((s, prev), db1)"
  defines "db2 \<equiv> update_asset_state env s did lid st di acc db1"
  shows "prev = status_of db f a" "status_of db2 f a = Some st"
    "(f', a') \<noteq> (f, a) \<Longrightarrow> status_of db2 f' a' = status_of db f' a'"
    "distinct (map gs_id (db_asset_states db2))" "distinct (map state_pair (db_asset_states db2))"
    "db2 = db\<lparr>db_asset_states := db_asset_states db2\<rparr>"
proof -
  let ?s = "s\<lparr>gs_status := st, gs_device_id := did, gs_last_location_id := lid, gs_last_distance := di,
      gs_last_accuracy := acc, gs_last_evaluated_at := en_now env, gs_updated_at := en_now env\<rparr>"
  note loaded = state_loaded [OF assms(1-3)]
  have s: "s \<in> set (db_asset_states db1)" "find_state db1 f a = Some s" "gs_fence_id s = f" "gs_asset_id s = a"
    using loaded(1) find_state_Some [OF loaded(1)] by simp_all
  note ids = loaded(5,6) and other = loaded(4) and prev = loaded(2) and db1 = loaded(3)
  have only: "x = s" if "x \<in> set (db_asset_states db1)" "gs_id x = gs_id s" for x
    using same_key_same_row [OF ids(1) that(1) s(1) that(2)] .
  have find2: "find_state db2 f' a' = map_option (\<lambda>x. if gs_id x = gs_id s then ?s else x) (find_state db1 f' a')" for f' a'
    unfolding find_state_def db2_def update_asset_state_def
    using find_put [of "db_asset_states db1" gs_id ?s "\<lambda>s. gs_fence_id s = f' \<and> gs_asset_id s = a'"] only by auto
  show "prev = status_of db f a" by (rule prev)
  show "status_of db2 f a = Some st" by (simp add: status_of_def find2 s)
  show "status_of db2 f' a' = status_of db f' a'" if "(f', a') \<noteq> (f, a)"
  proof (cases "find_state db1 f' a'")
    case (Some x)
    then have "gs_id x \<noteq> gs_id s" using find_state_Some [of db1 f' a' x] only [of x] s that by auto
    with Some other [OF that] show ?thesis by (simp add: status_of_def find2)
  qed (use other [OF that] in \<open>simp add: status_of_def find2\<close>)
  have "map state_pair (put gs_id ?s (db_asset_states db1)) = map state_pair (db_asset_states db1)"
    using only by (intro map_put_same) auto
  then show "distinct (map gs_id (db_asset_states db2))" "distinct (map state_pair (db_asset_states db2))"
    using ids by (simp_all add: db2_def update_asset_state_def)
  show "db2 = db\<lparr>db_asset_states := db_asset_states db2\<rparr>"
    by (simp add: db2_def update_asset_state_def) (subst db1, simp)
qed

subsection \<open>Lemmas on events\<close>

lemma event_ids_flush: "cmd_event_id ` set (all_commands (flush_commands now db)) = cmd_event_id ` set (all_commands db)"
proof -
  have "map cmd_event_id (map unkeyed (all_commands (flush_commands now db))) =
      map cmd_event_id (map unkeyed (all_commands db))"
    by (simp add: all_commands_def flush_commands_def map_unkeyed_insert)
  then have "map cmd_event_id (all_commands (flush_commands now db)) = map cmd_event_id (all_commands db)"
    by (simp add: comp_def unkeyed_def)
  then show ?thesis by (metis list.set_map)
qed

lemma eval_ok_iff:
  "eval_ok db \<longleftrightarrow> seqs_ok db \<and> distinct (map gs_id (db_asset_states db)) \<and>
     distinct (map state_pair (db_asset_states db)) \<and>
     cmd_event_id ` set (all_commands db) \<subseteq> insert None (Some ` ge_id ` set (db_geofence_events db))"
proof -
  have "(\<forall>e. x = Some e \<longrightarrow> e \<in> I) \<longleftrightarrow> x \<in> insert None (Some ` I)" for x :: "nat option" and I
    by (cases x) auto
  then show ?thesis by (simp add: eval_ok_def image_subset_iff)
qed

lemma created_event:
  assumes "eval_ok db" "create_event env f did a lid t di acc db = (ev, db3)"
  shows "eval_ok db3" "\<not> handled db3 ev ty" "same_base db db3" "db_asset_states db3 = db_asset_states db"
    "db_geofence_events db3 = db_geofence_events db @ [ev]" "ge_event_type ev = t" "ge_fence_id ev = f"
    "ge_asset_id ev = Some a" "ge_device_id ev = did" "ge_location_id ev = lid" "db_new_commands db3 = []"
proof -
  let ?db = "db\<lparr>db_geofence_events := db_geofence_events db @ [ev]\<rparr>"
  have ev: "ge_id ev = fresh ge_id (db_geofence_events db)" "db3 = flush_commands (en_now env) ?db"
    and fields: "ge_event_type ev = t" "ge_fence_id ev = f" "ge_asset_id ev = Some a" "ge_device_id ev = did"
      "ge_location_id ev = lid"
    using assms(2) by (auto simp: create_event_def Let_def)
  have same: "seqs_ok ?db \<longleftrightarrow> seqs_ok db" "all_commands ?db = all_commands db"
    by (simp_all add: seqs_ok_def all_commands_def)
  have refs: "cmd_event_id ` set (all_commands db3) \<subseteq> insert None (Some ` ge_id ` set (db_geofence_events db))"
    using assms(1) by (simp add: ev(2) event_ids_flush same(2) eval_ok_iff)
  show "eval_ok db3"
  proof -
    have "seqs_ok db3" using assms(1) same by (simp add: ev(2) eval_ok_def)
    moreover have "db_asset_states db3 = db_asset_states db"
      "db_geofence_events db3 = db_geofence_events db @ [ev]" by (simp_all add: ev(2) flush_commands_def)
    ultimately show ?thesis using assms(1) refs unfolding eval_ok_iff by auto
  qed
  show "\<not> handled db3 ev ty"
  proof
    assume "handled db3 ev ty"
    then have "Some (ge_id ev) \<in> cmd_event_id ` set (all_commands db3)"
      by (force simp: handled_def all_commands_def)
    with refs have "ge_id ev \<in> ge_id ` set (db_geofence_events db)" by auto
    then show False using fresh_not_in [of ge_id "db_geofence_events db"] by (simp add: ev(1))
  qed
  show "same_base db db3" "db_asset_states db3 = db_asset_states db"
    "db_geofence_events db3 = db_geofence_events db @ [ev]" "db_new_commands db3 = []"
    by (simp_all add: ev(2) flush_commands_def same_base_def)
qed (use assms(2) in \<open>auto simp: create_event_def Let_def\<close>)

lemma eval_ok_states:
  assumes "eval_ok db" "db2 = db\<lparr>db_asset_states := db_asset_states db2\<rparr>"
    and "distinct (map gs_id (db_asset_states db2))" "distinct (map state_pair (db_asset_states db2))"
  shows "eval_ok db2" "same_base db db2" "db_geofence_events db2 = db_geofence_events db"
proof -
  let ?S = "db_asset_states db2"
  have "eval_ok (db\<lparr>db_asset_states := ?S\<rparr>)"
    using assms(1,3,4) by (simp add: eval_ok_def seqs_ok_def all_commands_def)
  then show "eval_ok db2" by (subst assms(2))
  show "same_base db db2" by (subst assms(2)) (simp add: same_base_def)
  show "db_geofence_events db2 = db_geofence_events db" by (subst assms(2)) simp
qed

text \<open>
  What evaluating one geofence does: the result, the state, the event and nothing else.
\<close>

definition row_status :: "evaluation_env \<Rightarrow> location \<Rightarrow> spatial_row \<Rightarrow> fence_status" where
  "row_status env loc row = resolve_status env (sr_inside row) (sr_distance row) (l_accuracy loc)"

definition row_event :: "evaluation_env \<Rightarrow> location \<Rightarrow> nat \<Rightarrow> tlrs_db \<Rightarrow> spatial_row \<Rightarrow> fence_event_type option" where
  "row_event env loc asset_id db row =
     resolve_event_type_from_transition (status_of db (sr_fence_id row) asset_id) (row_status env loc row)"

definition row_result :: "evaluation_env \<Rightarrow> location \<Rightarrow> nat \<Rightarrow> tlrs_db \<Rightarrow> spatial_row \<Rightarrow> evaluation_result" where
  "row_result env loc asset_id db row = \<lparr>ev_fence_id = sr_fence_id row, ev_level = row_status env loc row,
     ev_distance = sr_distance row, ev_accuracy = l_accuracy loc,
     ev_event_created = row_event env loc asset_id db row \<noteq> None\<rparr>"

lemma evaluate_row_ok:
  assumes "eval_ok db"
  shows "\<exists>db'. evaluate_row env d a loc row db = (Inr (row_result env loc a db row), db') \<and> eval_ok db' \<and>
    same_base db db' \<and> status_of db' (sr_fence_id row) a = Some (row_status env loc row) \<and>
    (\<forall>f'. f' \<noteq> sr_fence_id row \<longrightarrow> status_of db' f' a = status_of db f' a) \<and>
    (\<forall>f' a'. a' \<noteq> a \<longrightarrow> status_of db' f' a' = status_of db f' a') \<and>
    (case row_event env loc a db row of
       None \<Rightarrow> db_geofence_events db' = db_geofence_events db \<and> all_commands db' = all_commands db
     | Some t \<Rightarrow> \<exists>ev. db_geofence_events db' = db_geofence_events db @ [ev] \<and> ge_event_type ev = t \<and>
         ge_fence_id ev = sr_fence_id row \<and> ge_asset_id ev = Some a \<and> ge_device_id ev = d_id d \<and>
         ge_location_id ev = l_id loc)"
proof -
  let ?f = "sr_fence_id row" and ?st = "row_status env loc row"
  obtain s prev db1 where load: "get_or_create_asset_state env ?f a (d_id d) (l_id loc) ?st (sr_distance row)
      (l_accuracy loc) db = ((s, prev), db1)"
    by (cases "get_or_create_asset_state env ?f a (d_id d) (l_id loc) ?st (sr_distance row) (l_accuracy loc) db") auto
  define db2 where "db2 = update_asset_state env s (d_id d) (l_id loc) ?st (sr_distance row) (l_accuracy loc) db1"
  have ids: "distinct (map gs_id (db_asset_states db))" "distinct (map state_pair (db_asset_states db))"
    using assms by (simp_all add: eval_ok_def)
  note w = state_written [OF ids load, folded db2_def]
  note db2 = eval_ok_states [OF assms w(6,4,5)]
  have same_commands: "all_commands db2 = all_commands db" by (subst w(6)) (simp add: all_commands_def)
  have ev: "row_event env loc a db row = resolve_event_type_from_transition prev ?st"
    by (simp add: row_event_def w(1))
  have run: "evaluate_row env d a loc row db = (case row_event env loc a db row of
      None \<Rightarrow> (Inr (row_result env loc a db row), db2)
    | Some t \<Rightarrow> (let (e, db3) = create_event env ?f (d_id d) a (l_id loc) t (sr_distance row) (l_accuracy loc) db2
        in bindS (create_commands_for_geofence_event (en_now env) (en_expires_seconds env) (en_new_uuid env) e d)
             (\<lambda>_. retS (row_result env loc a db row)) db3))"
    using load by (simp add: evaluate_row_def Let_def row_status_def [symmetric] db2_def [symmetric] ev row_result_def
        split: option.split)
  show ?thesis
  proof (cases "row_event env loc a db row")
    case None
    with run db2 w same_commands show ?thesis by auto
  next
    case (Some t)
    obtain e db3 where e: "create_event env ?f (d_id d) a (l_id loc) t (sr_distance row) (l_accuracy loc) db2 = (e, db3)"
      by (cases "create_event env ?f (d_id d) a (l_id loc) t (sr_distance row) (l_accuracy loc) db2")
    note c = created_event [OF db2(1) e]
    have "\<forall>spec \<in> set (command_specs_for_event_type (ge_event_type e)). encodable_spec spec \<and> \<not> handled db3 e (fst spec)"
      using specs_encodable c(2) by blast
    moreover have "seqs_ok db3" using c(1) by (simp add: eval_ok_def)
    ultimately obtain cs where cs: "create_commands_for_geofence_event (en_now env) (en_expires_seconds env) (en_new_uuid env) e d db3
        = (Inr cs, db3\<lparr>db_new_commands := db_new_commands db3 @ cs\<rparr>)"
      "seqs_ok (db3\<lparr>db_new_commands := db_new_commands db3 @ cs\<rparr>)" "\<forall>c \<in> set cs. cmd_event_id c = Some (ge_id e)"
      using create_commands_loop_total unfolding create_commands_for_geofence_event_def by metis
    let ?db = "db3\<lparr>db_new_commands := db_new_commands db3 @ cs\<rparr>"
    have "evaluate_row env d a loc row db = (Inr (row_result env loc a db row), ?db)"
      using run Some e cs(1) by simp
    moreover have "eval_ok ?db"
    proof -
      have "\<forall>c \<in> set (all_commands ?db). \<forall>i. cmd_event_id c = Some i \<longrightarrow> i \<in> ge_id ` set (db_geofence_events db3)"
        using c(1,5) cs(3) by (auto simp: eval_ok_def all_commands_def)
      then show ?thesis using c(1) cs(2) by (simp add: eval_ok_def)
    qed
    moreover have "same_base db ?db" using db2(2) c(3) by (simp add: same_base_def)
    moreover have "status_of ?db f' a' = status_of db2 f' a'" for f' a'
      using c(4) by (simp add: status_of_def find_state_def)
    ultimately show ?thesis using w(2,3) c db2(3) Some by auto
  qed
qed

subsection \<open>Lemmas on the evaluation of a location\<close>

definition row_events ::
  "evaluation_env \<Rightarrow> location \<Rightarrow> nat \<Rightarrow> tlrs_db \<Rightarrow> spatial_row list \<Rightarrow> (nat \<times> fence_event_type) list" where
  "row_events env loc asset_id db rows = concat (map (\<lambda>row. case row_event env loc asset_id db row of
     None \<Rightarrow> [] | Some t \<Rightarrow> [(sr_fence_id row, t)]) rows)"

lemma row_event_cong:
  "status_of db' (sr_fence_id row) a = status_of db (sr_fence_id row) a \<Longrightarrow>
    row_event env loc a db' row = row_event env loc a db row"
  by (simp add: row_event_def)

lemma rows_cong:
  assumes "\<forall>row \<in> set rows. status_of db' (sr_fence_id row) a = status_of db (sr_fence_id row) a"
  shows "map (row_result env loc a db') rows = map (row_result env loc a db) rows"
    "row_events env loc a db' rows = row_events env loc a db rows"
  using assms by (auto simp: row_result_def row_events_def row_event_def intro!: arg_cong [where f = concat])

lemma evaluate_rows_ok:
  assumes "eval_ok db" "distinct (map sr_fence_id rows)"
  shows "\<exists>db'. evaluate_rows env d a loc rows db = (Inr (map (row_result env loc a db) rows), db') \<and>
    eval_ok db' \<and> same_base db db' \<and>
    (\<forall>row \<in> set rows. status_of db' (sr_fence_id row) a = Some (row_status env loc row)) \<and>
    (\<forall>f. f \<notin> sr_fence_id ` set rows \<longrightarrow> status_of db' f a = status_of db f a) \<and>
    (\<forall>f a'. a' \<noteq> a \<longrightarrow> status_of db' f a' = status_of db f a') \<and>
    (\<exists>evs. db_geofence_events db' = db_geofence_events db @ evs \<and>
       map (\<lambda>e. (ge_fence_id e, ge_event_type e)) evs = row_events env loc a db rows \<and>
       (\<forall>e \<in> set evs. ge_asset_id e = Some a \<and> ge_device_id e = d_id d \<and> ge_location_id e = l_id loc)) \<and>
    (row_events env loc a db rows = [] \<longrightarrow> all_commands db' = all_commands db)"
  using assms
proof (induction rows arbitrary: db)
  case Nil
  then show ?case by (simp add: row_events_def)
next
  case (Cons row rows)
  from evaluate_row_ok [OF Cons.prems(1), of env d a loc row] obtain db1 where
    db1: "evaluate_row env d a loc row db = (Inr (row_result env loc a db row), db1)" "eval_ok db1" "same_base db db1"
      "status_of db1 (sr_fence_id row) a = Some (row_status env loc row)"
      "\<forall>f'. f' \<noteq> sr_fence_id row \<longrightarrow> status_of db1 f' a = status_of db f' a"
      "\<forall>f' a'. a' \<noteq> a \<longrightarrow> status_of db1 f' a' = status_of db f' a'"
    and ev: "case row_event env loc a db row of
       None \<Rightarrow> db_geofence_events db1 = db_geofence_events db \<and> all_commands db1 = all_commands db
     | Some t \<Rightarrow> \<exists>ev. db_geofence_events db1 = db_geofence_events db @ [ev] \<and> ge_event_type ev = t \<and>
         ge_fence_id ev = sr_fence_id row \<and> ge_asset_id ev = Some a \<and> ge_device_id ev = d_id d \<and>
         ge_location_id ev = l_id loc" by blast
  have "\<forall>r \<in> set rows. status_of db1 (sr_fence_id r) a = status_of db (sr_fence_id r) a"
  proof
    fix r assume "r \<in> set rows"
    then have "sr_fence_id r \<in> sr_fence_id ` set rows" by (rule imageI)
    then have "sr_fence_id r \<noteq> sr_fence_id row" using Cons.prems(2) by auto
    with db1(5) show "status_of db1 (sr_fence_id r) a = status_of db (sr_fence_id r) a" by blast
  qed
  note cong = rows_cong [OF this]
  from Cons.IH [OF db1(2)] Cons.prems(2) obtain db' evs where
    db': "evaluate_rows env d a loc rows db1 = (Inr (map (row_result env loc a db1) rows), db')" "eval_ok db'" "same_base db1 db'"
      "\<forall>row \<in> set rows. status_of db' (sr_fence_id row) a = Some (row_status env loc row)"
      "\<forall>f. f \<notin> sr_fence_id ` set rows \<longrightarrow> status_of db' f a = status_of db1 f a"
      "\<forall>f a'. a' \<noteq> a \<longrightarrow> status_of db' f a' = status_of db1 f a'"
      "db_geofence_events db' = db_geofence_events db1 @ evs"
      "map (\<lambda>e. (ge_fence_id e, ge_event_type e)) evs = row_events env loc a db1 rows"
      "\<forall>e \<in> set evs. ge_asset_id e = Some a \<and> ge_device_id e = d_id d \<and> ge_location_id e = l_id loc"
      "row_events env loc a db1 rows = [] \<longrightarrow> all_commands db' = all_commands db1" by auto
  have run: "evaluate_rows env d a loc (row # rows) db = (Inr (map (row_result env loc a db) (row # rows)), db')"
    using db1(1) db'(1) cong(1) by simp
  have states: "status_of db' (sr_fence_id row) a = Some (row_status env loc row)"
    using db'(5) db1(4) Cons.prems(2) by auto
  have others: "\<forall>f. f \<notin> sr_fence_id ` set (row # rows) \<longrightarrow> status_of db' f a = status_of db f a"
    using db'(5) db1(5) by auto
  have events: "\<exists>evs'. db_geofence_events db' = db_geofence_events db @ evs' \<and>
       map (\<lambda>e. (ge_fence_id e, ge_event_type e)) evs' = row_events env loc a db (row # rows) \<and>
       (\<forall>e \<in> set evs'. ge_asset_id e = Some a \<and> ge_device_id e = d_id d \<and> ge_location_id e = l_id loc)"
  proof (cases "row_event env loc a db row")
    case None
    with ev db'(7-9) cong(2) show ?thesis by (intro exI [of _ evs]) (simp add: row_events_def)
  next
    case (Some t)
    with ev obtain e where "db_geofence_events db1 = db_geofence_events db @ [e]" "ge_event_type e = t"
      "ge_fence_id e = sr_fence_id row" "ge_asset_id e = Some a" "ge_device_id e = d_id d" "ge_location_id e = l_id loc"
      by auto
    with Some db'(7-9) cong(2) show ?thesis by (intro exI [of _ "e # evs"]) (simp add: row_events_def)
  qed
  have "row_events env loc a db (row # rows) = [] \<longrightarrow> all_commands db' = all_commands db"
  proof -
    have "row_events env loc a db (row # rows) = (case row_event env loc a db row of None \<Rightarrow> []
        | Some t \<Rightarrow> [(sr_fence_id row, t)]) @ row_events env loc a db rows" by (simp add: row_events_def)
    then show ?thesis using ev db'(10) cong(2) by (auto split: option.splits)
  qed
  with run states others events db1 db' same_base_trans [OF db1(3) db'(3)] show ?case by auto
qed

lemma mem_concat_map: "y \<in> set (concat (map f xs)) \<longleftrightarrow> (\<exists>x \<in> set xs. y \<in> set (f x))"
  by simp

lemma mem_if: "y \<in> set (if P then xs else []) \<longleftrightarrow> P \<and> y \<in> set xs"
  by simp

text \<open>The two ways an asset belongs to a geofence, read off the joins.\<close>

lemma direct_iff:
  "(f, a) \<in> set (direct_memberships db) \<longleftrightarrow>
    (\<exists>ga \<in> set (db_geofence_assignments db). ga_fence_id ga = f \<and> ga_asset_id ga = a \<and> ga_active ga \<and> ga_deleted ga = CHR ''N'') \<and>
    (\<exists>gf \<in> set (db_geofences db). gf_id gf = f \<and> gf_active gf \<and> gf_deleted gf = CHR ''N'') \<and>
    (\<exists>x \<in> set (db_assets db). a_id x = a \<and> a_deleted x = CHR ''N'')"
  (is "?L \<longleftrightarrow> ?R")
proof
  show "?L \<Longrightarrow> ?R" unfolding direct_memberships_def mem_concat_map mem_if by auto
next
  assume ?R
  then obtain ga gf x where r: "ga \<in> set (db_geofence_assignments db)" "ga_fence_id ga = f" "ga_asset_id ga = a"
      "ga_active ga" "ga_deleted ga = CHR ''N''" "gf \<in> set (db_geofences db)" "gf_id gf = f" "gf_active gf"
      "gf_deleted gf = CHR ''N''" "x \<in> set (db_assets db)" "a_id x = a" "a_deleted x = CHR ''N''" by blast
  show ?L unfolding direct_memberships_def mem_concat_map mem_if
    by (intro bexI [of _ ga] bexI [of _ gf] bexI [of _ x] conjI) (simp_all add: r)
qed

lemma group_iff:
  "(f, a) \<in> set (group_memberships db) \<longleftrightarrow>
    (\<exists>gg \<in> set (db_fence_groups db). gg_geofence_id gg = f \<and> gg_active gg \<and> gg_deleted gg = CHR ''N'' \<and>
       (\<exists>ag \<in> set (db_asset_groups db). ag_id ag = gg_group_id gg \<and> ag_active ag \<and> ag_deleted ag = CHR ''N'') \<and>
       (\<exists>m \<in> set (db_group_members db). agm_group_id m = gg_group_id gg \<and> agm_asset_id m = a \<and> agm_deleted m = CHR ''N'')) \<and>
    (\<exists>gf \<in> set (db_geofences db). gf_id gf = f \<and> gf_active gf \<and> gf_deleted gf = CHR ''N'') \<and>
    (\<exists>x \<in> set (db_assets db). a_id x = a \<and> a_deleted x = CHR ''N'')"
  (is "?L \<longleftrightarrow> ?R")
proof
  show "?L \<Longrightarrow> ?R" unfolding group_memberships_def mem_concat_map mem_if by auto blast
next
  assume ?R
  then obtain gg ag m gf x where r: "gg \<in> set (db_fence_groups db)" "gg_geofence_id gg = f" "gg_active gg"
      "gg_deleted gg = CHR ''N''" "ag \<in> set (db_asset_groups db)" "ag_id ag = gg_group_id gg" "ag_active ag"
      "ag_deleted ag = CHR ''N''" "m \<in> set (db_group_members db)" "agm_group_id m = gg_group_id gg"
      "agm_asset_id m = a" "agm_deleted m = CHR ''N''" "gf \<in> set (db_geofences db)" "gf_id gf = f" "gf_active gf"
      "gf_deleted gf = CHR ''N''" "x \<in> set (db_assets db)" "a_id x = a" "a_deleted x = CHR ''N''" by blast
  show ?L unfolding group_memberships_def mem_concat_map mem_if
    by (intro bexI [of _ gg] bexI [of _ gf] bexI [of _ ag] bexI [of _ m] bexI [of _ x] conjI) (simp_all add: r)
qed

lemma membership_fence:
  "(f, a) \<in> set (effective_memberships db) \<Longrightarrow>
    \<exists>gf \<in> set (db_geofences db). gf_id gf = f \<and> gf_active gf \<and> gf_deleted gf = CHR ''N''"
  unfolding effective_memberships_def set_remdups set_append Un_iff direct_iff group_iff by blast

lemma effective_ids: "f \<in> set (get_effective_geofence_ids_for_asset db a) \<longleftrightarrow> has_effective_assignment db f a"
  by (force simp: get_effective_geofence_ids_for_asset_def has_effective_assignment_def)

lemma spatial_fences:
  "sr_fence_id ` set (get_assigned_geofence_spatial_results env db a loc) = {f. has_effective_assignment db f a}"
proof -
  have "f \<in> sr_fence_id ` set (get_assigned_geofence_spatial_results env db a loc) \<longleftrightarrow> has_effective_assignment db f a" for f
  proof
    assume "has_effective_assignment db f a"
    moreover from this obtain gf where "gf \<in> set (db_geofences db)" "gf_id gf = f" "gf_active gf" "gf_deleted gf = CHR ''N''"
      using membership_fence [of f a db] by (auto simp: has_effective_assignment_def)
    moreover have "get_effective_geofence_ids_for_asset db a \<noteq> []"
      using calculation(1) effective_ids [of f db a] by auto
    ultimately show "f \<in> sr_fence_id ` set (get_assigned_geofence_spatial_results env db a loc)"
      by (force simp: get_assigned_geofence_spatial_results_def Let_def effective_ids image_iff)
  qed (auto simp: get_assigned_geofence_spatial_results_def Let_def effective_ids split: if_splits)
  then show ?thesis by auto
qed

lemma concat_filter3:
  "concat (map (\<lambda>x. if A x then if B x then if C x then [g x] else [] else [] else []) xs) =
    map g (filter (\<lambda>x. A x \<and> B x \<and> C x) xs)"
  by (induction xs) auto

lemma distinct_spatial_fences:
  assumes "distinct (map gf_id (db_geofences db))"
  shows "distinct (map sr_fence_id (get_assigned_geofence_spatial_results env db a loc))"
  using distinct_map_filter [OF assms]
  unfolding get_assigned_geofence_spatial_results_def Let_def concat_filter3
  by (simp add: comp_def)

text \<open>What an evaluation reads besides the states is not changed by it.\<close>

lemma spatial_same_base:
  assumes "same_base db db'"
  shows "get_assigned_geofence_spatial_results env db' a loc = get_assigned_geofence_spatial_results env db a loc"
proof -
  have eqs: "db_geofences db' = db_geofences db" "db_assets db' = db_assets db"
    "db_geofence_assignments db' = db_geofence_assignments db" "db_asset_groups db' = db_asset_groups db"
    "db_group_members db' = db_group_members db" "db_fence_groups db' = db_fence_groups db"
    using assms by (simp_all add: same_base_def)
  show ?thesis
    unfolding get_assigned_geofence_spatial_results_def get_effective_geofence_ids_for_asset_def
      effective_memberships_def direct_memberships_def group_memberships_def eqs ..
qed

subsection \<open>Properties\<close>

text \<open>
  Property C3. An asset belongs to a geofence exactly when both are live and there is a live
  assignment of the asset, or a live group of the geofence with a live membership of the asset.
\<close>
theorem effective_membership_iff:
  "has_effective_assignment db f a \<longleftrightarrow>
    (\<exists>gf \<in> set (db_geofences db). gf_id gf = f \<and> gf_active gf \<and> gf_deleted gf = CHR ''N'') \<and>
    (\<exists>x \<in> set (db_assets db). a_id x = a \<and> a_deleted x = CHR ''N'') \<and>
    ((\<exists>ga \<in> set (db_geofence_assignments db). ga_fence_id ga = f \<and> ga_asset_id ga = a \<and> ga_active ga \<and> ga_deleted ga = CHR ''N'') \<or>
     (\<exists>gg \<in> set (db_fence_groups db). gg_geofence_id gg = f \<and> gg_active gg \<and> gg_deleted gg = CHR ''N'' \<and>
       (\<exists>ag \<in> set (db_asset_groups db). ag_id ag = gg_group_id gg \<and> ag_active ag \<and> ag_deleted ag = CHR ''N'') \<and>
       (\<exists>m \<in> set (db_group_members db). agm_group_id m = gg_group_id gg \<and> agm_asset_id m = a \<and> agm_deleted m = CHR ''N'')))"
  unfolding has_effective_assignment_def effective_memberships_def set_remdups set_append Un_iff direct_iff group_iff
  by blast

lemma evaluate_location_total:
  assumes "eval_ok db" "distinct (map gf_id (db_geofences db))"
    and "fetch d_id did (db_devices db) = Some d" "d_asset_id d = Some a"
    and "fetch l_id lid (db_locations db) = Some loc"
    and rows_def: "rows = get_assigned_geofence_spatial_results env db a loc"
  shows "\<exists>db'. evaluate_location env did lid db = (Inr (map (row_result env loc a db) rows), db') \<and>
    eval_ok db' \<and> same_base db db' \<and>
    (\<forall>row \<in> set rows. status_of db' (sr_fence_id row) a = Some (row_status env loc row)) \<and>
    (\<forall>f. f \<notin> sr_fence_id ` set rows \<longrightarrow> status_of db' f a = status_of db f a) \<and>
    (\<forall>f a'. a' \<noteq> a \<longrightarrow> status_of db' f a' = status_of db f a') \<and>
    (\<exists>evs. db_geofence_events db' = db_geofence_events db @ evs \<and>
       map (\<lambda>e. (ge_fence_id e, ge_event_type e)) evs = row_events env loc a db rows \<and>
       (\<forall>e \<in> set evs. ge_asset_id e = Some a \<and> ge_device_id e = d_id d \<and> ge_location_id e = l_id loc)) \<and>
    (row_events env loc a db rows = [] \<longrightarrow> all_commands db' = all_commands db)"
  using evaluate_rows_ok [OF assms(1) distinct_spatial_fences [OF assms(2), of env a loc], of env d a loc] assms(3-5)
  by (simp add: evaluate_location_def rows_def)

text \<open>
  Property C2. Evaluating a location of an assigned device never fails.  It reports one result
  per geofence the asset belongs to and leaves the asset in exactly the reported status there;
  the statuses in all other geofences and of all other assets are untouched; and the events it
  adds are exactly those the transition table gives from the status the asset had before.
\<close>
theorem evaluation_correct:
  assumes "eval_ok db" "distinct (map gf_id (db_geofences db))"
    and "fetch d_id did (db_devices db) = Some d" "d_asset_id d = Some a"
    and "fetch l_id lid (db_locations db) = Some loc"
    and "rows = get_assigned_geofence_spatial_results env db a loc"
  shows "\<exists>db' evs. evaluate_location env did lid db = (Inr (map (row_result env loc a db) rows), db') \<and>
    sr_fence_id ` set rows = {f. has_effective_assignment db f a} \<and> distinct (map sr_fence_id rows) \<and>
    (\<forall>row \<in> set rows. status_of db' (sr_fence_id row) a = Some (row_status env loc row)) \<and>
    (\<forall>f a'. a' \<noteq> a \<or> \<not> has_effective_assignment db f a \<longrightarrow> status_of db' f a' = status_of db f a') \<and>
    db_geofence_events db' = db_geofence_events db @ evs \<and>
    map (\<lambda>e. (ge_fence_id e, ge_event_type e)) evs = row_events env loc a db rows \<and> eval_ok db'"
proof -
  have fences: "sr_fence_id ` set rows = {f. has_effective_assignment db f a}" "distinct (map sr_fence_id rows)"
    using spatial_fences distinct_spatial_fences [OF assms(2)] by (simp_all add: assms(6))
  from evaluate_location_total [OF assms] obtain db' evs where
    "evaluate_location env did lid db = (Inr (map (row_result env loc a db) rows), db')" "eval_ok db'"
    "\<forall>row \<in> set rows. status_of db' (sr_fence_id row) a = Some (row_status env loc row)"
    "\<forall>f. f \<notin> sr_fence_id ` set rows \<longrightarrow> status_of db' f a = status_of db f a"
    "\<forall>f a'. a' \<noteq> a \<longrightarrow> status_of db' f a' = status_of db f a'"
    "db_geofence_events db' = db_geofence_events db @ evs"
    "map (\<lambda>e. (ge_fence_id e, ge_event_type e)) evs = row_events env loc a db rows" by blast
  moreover from this(4,5) have
    "\<forall>f a'. a' \<noteq> a \<or> \<not> has_effective_assignment db f a \<longrightarrow> status_of db' f a' = status_of db f a'"
    unfolding fences(1) by (metis mem_Collect_eq)
  ultimately show ?thesis using fences by blast
qed

definition sample_env :: evaluation_env where
  "sample_env = \<lparr>en_near_limit_threshold_meters = 50, en_gps_uncertain_accuracy_meters = 30,
     en_covers = (\<lambda>_ p. fst p < Finite 10), en_boundary_distance = (\<lambda>_ _. Finite 100), en_now = 0,
     en_expires_seconds = 60, en_new_uuid = (\<lambda>_. ''u'')\<rparr>"

definition sample_location :: location where
  "sample_location = \<lparr>l_id = 1, l_device_id = 1, l_latitude = Finite 1, l_longitude = Finite 20, l_point = Some (Finite 20, Finite 1),
     l_altitude = None, l_accuracy = Some (Finite 5), l_device_timestamp = None, l_received_at = 0, l_deleted = CHR ''N''\<rparr>"

definition fenced_db :: tlrs_db where
  "fenced_db = empty_db\<lparr>db_devices := [sample_device],
     db_assets := [\<lparr>a_id = 1, a_type = ''cow'', a_serial = ''C1'', a_deleted = CHR ''N'', a_client_id = Some 1, a_status = ACTIVE\<rparr>],
     db_locations := [sample_location],
     db_geofences := [\<lparr>gf_id = 1, gf_client_id = 1, gf_name = ''field'', gf_description = None, gf_shape = [],
       gf_active = True, gf_deleted = CHR ''N'', gf_created_at = 0, gf_updated_at = 0\<rparr>],
     db_geofence_assignments := [\<lparr>ga_id = 1, ga_asset_id = 1, ga_fence_id = 1, ga_active = True, ga_deleted = CHR ''N'',
       ga_assigned_at = 0, ga_unassigned_at = None, ga_created_at = 0, ga_updated_at = 0\<rparr>]\<rparr>"

lemma fenced_db_ok: "eval_ok fenced_db" "distinct (map gf_id (db_geofences fenced_db))"
  "fetch d_id 1 (db_devices fenced_db) = Some sample_device" "d_asset_id sample_device = Some 1"
  "fetch l_id 1 (db_locations fenced_db) = Some sample_location" "has_effective_assignment fenced_db 1 1"
  "status_of fenced_db 1 1 = None"
  by (simp_all add: eval_ok_def seqs_ok_def all_commands_def fenced_db_def empty_db_def fetch_def
      sample_device_def sample_location_def has_effective_assignment_def effective_memberships_def
      direct_memberships_def status_of_def find_state_def)

lemma sample_outside:
  assumes "row \<in> set (get_assigned_geofence_spatial_results sample_env fenced_db 1 sample_location)"
  shows "row_status sample_env sample_location row = OUTSIDE"
  using assms by (auto simp: get_assigned_geofence_spatial_results_def Let_def row_status_def resolve_status_def
      sample_env_def sample_location_def split: if_splits)

theorem evaluation_correct_witness:
  "\<exists>rs db'. evaluate_location sample_env 1 1 fenced_db = (Inr rs, db') \<and> status_of db' 1 1 = Some OUTSIDE \<and>
     map ge_event_type (db_geofence_events db') = [EV_EXITED]"
proof -
  let ?rows = "get_assigned_geofence_spatial_results sample_env fenced_db 1 sample_location"
  from evaluation_correct [OF fenced_db_ok(1-5) refl, of sample_env] obtain db' evs where
    run: "evaluate_location sample_env 1 1 fenced_db =
      (Inr (map (row_result sample_env sample_location 1 fenced_db) ?rows), db')"
    and fences: "sr_fence_id ` set ?rows = {f. has_effective_assignment fenced_db f 1}" "distinct (map sr_fence_id ?rows)"
    and st: "\<forall>row \<in> set ?rows. status_of db' (sr_fence_id row) 1 = Some (row_status sample_env sample_location row)"
    and evs: "db_geofence_events db' = db_geofence_events fenced_db @ evs"
      "map (\<lambda>e. (ge_fence_id e, ge_event_type e)) evs = row_events sample_env sample_location 1 fenced_db ?rows" by blast
  obtain row where row: "row \<in> set ?rows" "sr_fence_id row = 1" using fences(1) fenced_db_ok(6) by force
  have "length ?rows \<le> 1"
    by (simp add: get_assigned_geofence_spatial_results_def Let_def fenced_db_def)
  with row have rows: "?rows = [row]" by (cases ?rows) auto
  have "row_event sample_env sample_location 1 fenced_db row = Some EV_EXITED"
    using sample_outside [OF row(1)] row(2) fenced_db_ok(7)
    by (simp add: row_event_def resolve_event_type_from_transition_def geofence_transition_events_def)
  then have "map ge_event_type evs = [EV_EXITED]"
    using evs(2) unfolding rows row_events_def by auto
  moreover have "db_geofence_events fenced_db = []" by (simp add: fenced_db_def empty_db_def)
  moreover have "status_of db' 1 1 = Some OUTSIDE" using st row sample_outside [OF row(1)] by force
  ultimately show ?thesis using run evs(1) by auto
qed

text \<open>
  Evaluating the same location again changes nothing more: the second evaluation
  reports no event, adds none to the table and creates no command.
\<close>
theorem evaluation_idempotent:
  assumes "eval_ok db" "distinct (map gf_id (db_geofences db))"
    and "fetch d_id did (db_devices db) = Some d" "d_asset_id d = Some a"
    and "fetch l_id lid (db_locations db) = Some loc"
    and "evaluate_location env did lid db = (Inr rs, db1)"
  shows "\<exists>rs' db2. evaluate_location env did lid db1 = (Inr rs', db2) \<and>
    map ev_fence_id rs' = map ev_fence_id rs \<and> map ev_level rs' = map ev_level rs \<and>
    (\<forall>r \<in> set rs'. \<not> ev_event_created r) \<and> db_geofence_events db2 = db_geofence_events db1 \<and>
    all_commands db2 = all_commands db1"
proof -
  let ?rows = "get_assigned_geofence_spatial_results env db a loc"
  from evaluate_location_total [OF assms(1-5) refl, of env] assms(6) have
    rs: "rs = map (row_result env loc a db) ?rows" and ok: "eval_ok db1" and same: "same_base db db1"
    and st: "\<forall>row \<in> set ?rows. status_of db1 (sr_fence_id row) a = Some (row_status env loc row)"
    by auto
  have base: "distinct (map gf_id (db_geofences db1))" "fetch d_id did (db_devices db1) = Some d"
    "fetch l_id lid (db_locations db1) = Some loc"
    using assms(2,3,5) same by (simp_all add: same_base_def)
  note rows = spatial_same_base [OF same, of env a loc]
  from evaluate_location_total [OF ok base(1,2) assms(4) base(3) refl, of env] obtain db2 evs where
    run: "evaluate_location env did lid db1 = (Inr (map (row_result env loc a db1) ?rows), db2)"
    and evs: "db_geofence_events db2 = db_geofence_events db1 @ evs"
      "map (\<lambda>e. (ge_fence_id e, ge_event_type e)) evs = row_events env loc a db1 ?rows"
    and cmds: "row_events env loc a db1 ?rows = [] \<longrightarrow> all_commands db2 = all_commands db1"
    unfolding rows by blast
  have none: "\<forall>row \<in> set ?rows. row_event env loc a db1 row = None"
    using st by (simp add: row_event_def resolve_event_type_from_transition_def)
  then have "row_events env loc a db1 ?rows = []" by (simp add: row_events_def)
  with evs cmds have "db_geofence_events db2 = db_geofence_events db1" "all_commands db2 = all_commands db1" by auto
  with run none rs show ?thesis by (auto simp: row_result_def)
qed

theorem evaluation_idempotent_witness:
  "\<exists>rs db1 rs' db2. evaluate_location sample_env 1 1 fenced_db = (Inr rs, db1) \<and>
     evaluate_location sample_env 1 1 db1 = (Inr rs', db2) \<and> db_geofence_events db2 = db_geofence_events db1"
proof -
  from evaluate_location_total [OF fenced_db_ok(1-5) refl, of sample_env] obtain rs db1 where
    "evaluate_location sample_env 1 1 fenced_db = (Inr rs, db1)" by blast
  with evaluation_idempotent [OF fenced_db_ok(1-5) this] show ?thesis by blast
qed

fun events_of_statuses :: "fence_status option \<Rightarrow> fence_status list \<Rightarrow> fence_event_type list" where
  "events_of_statuses prev [] = []"
| "events_of_statuses prev (s # ss) =
     (case resolve_event_type_from_transition prev s of None \<Rightarrow> [] | Some t \<Rightarrow> [t]) @ events_of_statuses (Some s) ss"

text \<open>
  Corrections are stopped only on the direct way back: a transition leads to a
  \<open>STOP_CORRECTION\<close> command exactly when it goes from outside to safe or near the limit.  An
  asset that returns through a spell of uncertain positions (outside, uncertain, safe) is
  reported as exited and uncertain, and never as returned.
\<close>
theorem correction_stopped_only_from_outside:
  "((\<exists>t. resolve_event_type_from_transition prev new = Some t \<and>
       STOP_CORRECTION \<in> fst ` set (command_specs_for_event_type t))
     \<longleftrightarrow> prev = Some OUTSIDE \<and> new \<in> {SAFE, NEAR_LIMIT}) \<and>
   events_of_statuses (Some SAFE) [OUTSIDE, GPS_UNCERTAIN, SAFE] = [EV_EXITED, EV_GPS_UNCERTAIN]"
proof -
  have "STOP_CORRECTION \<in> fst ` set (command_specs_for_event_type t) \<longleftrightarrow> t = EV_RETURNED" for t
    by (cases t) (simp_all add: command_specs_for_event_type_def)
  then have "(\<exists>t. resolve_event_type_from_transition prev new = Some t \<and>
       STOP_CORRECTION \<in> fst ` set (command_specs_for_event_type t))
     \<longleftrightarrow> resolve_event_type_from_transition prev new = Some EV_RETURNED" by auto
  also have "\<dots> \<longleftrightarrow> prev = Some OUTSIDE \<and> new \<in> {SAFE, NEAR_LIMIT}"
    by (cases prev; cases "the prev"; cases new)
      (auto simp: resolve_event_type_from_transition_def geofence_transition_events_def)
  finally show ?thesis
    by (simp add: resolve_event_type_from_transition_def geofence_transition_events_def)
qed

end
