(* ===== verification/Command_Dispatcher.thy ===== *)
theory Command_Dispatcher
  imports Device_Commands
begin

text \<open>
  The dispatcher, \<open>command_dispatcher_worker/main.py\<close>: a cycle expires the overdue commands
  and then hands pending ones to the transport, one at a time, oldest first.  \<open>sends\<close> is the
  transport's \<open>enqueue\<close> over its world; \<open>clock i\<close> are the two clock readings of iteration
  \<open>i\<close>.  A query ordered by \<open>created_at\<close> takes ties in table order; no other session holds a lock.
\<close>

type_synonym 'w transport = "device_command \<Rightarrow> 'w \<Rightarrow> enqueue_result \<times> 'w"

definition terminal_status :: "command_status \<Rightarrow> bool" where
  "terminal_status s \<longleftrightarrow> s \<in> {CMD_ACKED, CMD_FAILED, CMD_EXPIRED}"

definition oldest_first :: "device_command list \<Rightarrow> device_command list" where
  "oldest_first = sort_key cmd_created_at"

subsection \<open>Expiring\<close>

definition is_overdue :: "int \<Rightarrow> device_command \<Rightarrow> bool" where
  "is_overdue now c \<longleftrightarrow> \<not> terminal_status (cmd_status c) \<and>
     (case cmd_expires_at c of None \<Rightarrow> False | Some t \<Rightarrow> t \<le> now)"

definition expire_command :: "int \<Rightarrow> device_command \<Rightarrow> device_command" where
  "expire_command now c = c\<lparr>cmd_status := CMD_EXPIRED, cmd_failed_at := Some now,
     cmd_error_message := Some ''Command expired before application ACK''\<rparr>"

definition expired_commands :: "int \<Rightarrow> nat \<Rightarrow> device_command list \<Rightarrow> device_command list" where
  "expired_commands now batch_limit rows = take batch_limit (oldest_first (filter (is_overdue now) rows))"

definition put_commands :: "device_command list \<Rightarrow> device_command list \<Rightarrow> device_command list" where
  "put_commands cs rows = fold (put cmd_id) cs rows"

subsection \<open>Sending\<close>

definition enqueue_command :: "int \<Rightarrow> 'w transport \<Rightarrow> device_command \<Rightarrow> 'w \<Rightarrow> device_command \<times> 'w" where
  "enqueue_command now transport command w =
     (let (result, w') = transport command w in
      if \<not> er_sent result then
        (let command' = command\<lparr>cmd_error_message :=
               Some (take 500 (or_default (er_error_message result) ''Command enqueue failed''))\<rparr>
         in if er_retryable result then (command', w')
            else (command'\<lparr>cmd_status := CMD_FAILED, cmd_failed_at := Some now\<rparr>, w'))
      else
        (let command' = (if or_empty (er_queue_item_id result) \<noteq> []
               then command\<lparr>cmd_queue_item_id := er_queue_item_id result\<rparr> else command)
         in (command'\<lparr>cmd_status := CMD_SENT, cmd_sent_at := Some now, cmd_failed_at := None,
               cmd_error_message := None\<rparr>, w')))"

definition is_due :: "int \<Rightarrow> device_command \<Rightarrow> bool" where
  "is_due pending_now c \<longleftrightarrow> cmd_status c = CMD_PENDING \<and>
     (case cmd_expires_at c of None \<Rightarrow> True | Some t \<Rightarrow> t > pending_now)"

definition next_due :: "int \<Rightarrow> device_command list \<Rightarrow> device_command option" where
  "next_due pending_now rows = (case oldest_first (filter (is_due pending_now) rows) of
     [] \<Rightarrow> None | c # _ \<Rightarrow> Some c)"

fun dispatch_loop ::
  "(nat \<Rightarrow> int \<times> int) \<Rightarrow> 'w transport \<Rightarrow> nat \<Rightarrow> nat \<Rightarrow> device_command list \<Rightarrow> 'w \<Rightarrow> device_command list \<times> 'w" where
  "dispatch_loop clock transport i 0 rows w = (rows, w)"
| "dispatch_loop clock transport i (Suc n) rows w =
     (case next_due (fst (clock i)) rows of
        None \<Rightarrow> (rows, w)
      | Some command \<Rightarrow>
          (let (command', w') = enqueue_command (snd (clock i)) transport command w
           in dispatch_loop clock transport (Suc i) n (put cmd_id command' rows) w'))"

definition process_once ::
  "int \<Rightarrow> (nat \<Rightarrow> int \<times> int) \<Rightarrow> 'w transport \<Rightarrow> nat \<Rightarrow> tlrs_db \<Rightarrow> 'w \<Rightarrow> tlrs_db \<times> 'w" where
  "process_once now clock transport batch_limit db w =
     (let expired = expired_commands now batch_limit (db_commands db);
          rows = put_commands (map (expire_command now) expired) (db_commands db);
          remaining_limit = batch_limit - length expired
      in if remaining_limit \<le> 0 then (db\<lparr>db_commands := rows\<rparr>, w)
         else (let (rows', w') = dispatch_loop clock transport 0 remaining_limit rows w
               in (db\<lparr>db_commands := rows'\<rparr>, w')))"

subsection \<open>Lemmas on the table\<close>

lemma set_oldest_first [simp]: "set (oldest_first cs) = set cs"
  by (simp add: oldest_first_def)

lemma expired_overdue: "c \<in> set (expired_commands now k rows) \<Longrightarrow> c \<in> set rows \<and> is_overdue now c"
  unfolding expired_commands_def by (drule in_set_takeD) simp

lemma next_due_None: "next_due t rows = None \<longleftrightarrow> (\<forall>c \<in> set rows. \<not> is_due t c)"
proof (cases "oldest_first (filter (is_due t) rows)")
  case Nil
  then have "set (filter (is_due t) rows) = {}" by (metis set_oldest_first list.set(1))
  with Nil show ?thesis by (simp add: next_due_def)
next
  case (Cons c cs)
  then have "c \<in> set (filter (is_due t) rows)" by (metis set_oldest_first list.set_intros(1))
  with Cons show ?thesis by (auto simp: next_due_def)
qed

lemma next_due_Some:
  assumes "next_due t rows = Some c"
  shows "c \<in> set rows \<and> is_due t c"
proof -
  obtain cs where "oldest_first (filter (is_due t) rows) = c # cs"
    using assms by (auto simp: next_due_def split: list.splits)
  then have "c \<in> set (filter (is_due t) rows)" by (metis set_oldest_first list.set_intros(1))
  then show ?thesis by simp
qed

lemma next_due_oldest:
  assumes "next_due t rows = Some c" "c' \<in> set rows" "is_due t c'"
  shows "cmd_created_at c \<le> cmd_created_at c'"
proof -
  obtain cs where cs: "oldest_first (filter (is_due t) rows) = c # cs"
    using assms(1) by (auto simp: next_due_def split: list.splits)
  have "c' \<in> set (oldest_first (filter (is_due t) rows))" using assms(2,3) by simp
  moreover have "sorted (map cmd_created_at (oldest_first (filter (is_due t) rows)))"
    by (simp add: oldest_first_def)
  ultimately show ?thesis by (auto simp: cs)
qed

lemma expire_keeps_id [simp]: "cmd_id (expire_command now c) = cmd_id c"
  by (simp add: expire_command_def)

lemma enqueue_keeps_id: "enqueue_command now tr c w = (c', w') \<Longrightarrow> cmd_id c' = cmd_id c"
  by (auto simp: enqueue_command_def Let_def split: prod.splits if_splits)

lemma map_id_put_commands [simp]: "map cmd_id (put_commands cs rows) = map cmd_id rows"
  unfolding put_commands_def by (induction cs arbitrary: rows) simp_all

lemma put_commands_other:
  "cmd_id c \<notin> cmd_id ` set cs \<Longrightarrow> c \<in> set rows \<Longrightarrow> c \<in> set (put_commands cs rows)"
  unfolding put_commands_def
proof (induction cs arbitrary: rows)
  case (Cons a cs)
  then have "c \<in> set (put cmd_id a rows)" by (force simp: put_def)
  with Cons show ?case by simp
qed simp

lemma put_commands_origin:
  "c \<in> set (put_commands cs rows) \<Longrightarrow> c \<in> set cs \<or> c \<in> set rows"
  unfolding put_commands_def
proof (induction cs arbitrary: rows)
  case (Cons a cs)
  then show ?case by (fastforce dest: in_put)
qed simp

lemma put_commands_replaces:
  assumes "distinct (map cmd_id cs)" "\<forall>c \<in> set cs. cmd_id c \<in> cmd_id ` set rows" "distinct (map cmd_id rows)"
  shows "c \<in> set (put_commands cs rows) \<longleftrightarrow> c \<in> set cs \<or> (c \<in> set rows \<and> cmd_id c \<notin> cmd_id ` set cs)"
  using assms unfolding put_commands_def
proof (induction cs arbitrary: rows)
  case (Cons a cs)
  have "\<forall>c \<in> set cs. cmd_id c \<in> cmd_id ` set (put cmd_id a rows)" "distinct (map cmd_id (put cmd_id a rows))"
    using Cons.prems(2,3) by (metis list.set_intros(2) list.set_map map_key_put, simp)
  with Cons have "c \<in> set (fold (put cmd_id) cs (put cmd_id a rows)) \<longleftrightarrow>
      c \<in> set cs \<or> (c \<in> set (put cmd_id a rows) \<and> cmd_id c \<notin> cmd_id ` set cs)" by simp
  also have "c \<in> set (put cmd_id a rows) \<longleftrightarrow> c = a \<or> (c \<in> set rows \<and> cmd_id c \<noteq> cmd_id a)"
    using Cons.prems(2) by (auto simp: put_def)
  finally show ?case using Cons.prems(1) by auto
qed simp

subsection \<open>Lemmas on a cycle\<close>

lemma put_absent: "key r \<notin> key ` set rows \<Longrightarrow> put key r rows = rows"
  by (induction rows) (auto simp: put_def)

lemma fewer_due:
  assumes "distinct (map cmd_id rows)" "c \<in> set rows" "is_due t c" "cmd_id c' = cmd_id c" "\<not> is_due t c'"
  shows "length (filter (is_due t) (put cmd_id c' rows)) < length (filter (is_due t) rows)"
  using assms(1,2)
proof (induction rows)
  case (Cons a rows)
  show ?case
  proof (cases "a = c")
    case True
    then have "put cmd_id c' rows = rows" using Cons.prems(1) assms(4) by (intro put_absent) auto
    then have "put cmd_id c' (a # rows) = c' # rows" using True assms(4) by (simp add: put_def)
    with True assms(3,5) show ?thesis by simp
  next
    case False
    then have "cmd_id a \<noteq> cmd_id c" using Cons.prems by auto
    then have "put cmd_id c' (a # rows) = a # put cmd_id c' rows" using assms(4) by (simp add: put_def)
    with Cons False show ?thesis by simp
  qed
qed simp

lemma is_due_later: "is_due t c \<Longrightarrow> t' \<le> t \<Longrightarrow> is_due t' c"
  by (auto simp: is_due_def split: option.splits)

lemma due_count_later:
  "t' \<le> t \<Longrightarrow> length (filter (is_due t) rows) \<le> length (filter (is_due t') rows)"
  by (induction rows) (auto dest: is_due_later)

text \<open>A transport that decides: it sends a command or rejects it for good.\<close>

definition decisive :: "'w transport \<Rightarrow> bool" where
  "decisive tr \<longleftrightarrow> (\<forall>c w. er_sent (fst (tr c w)) \<or> \<not> er_retryable (fst (tr c w)))"

lemma decided_not_pending:
  assumes "decisive tr" "enqueue_command now tr c w = (c', w')"
  shows "cmd_status c' = CMD_SENT \<or> cmd_status c' = CMD_FAILED"
proof -
  obtain r v where r: "tr c w = (r, v)" by (cases "tr c w")
  then have "er_sent r \<or> \<not> er_retryable r" using assms(1) by (metis decisive_def fst_conv)
  with r assms(2) show ?thesis by (auto simp: enqueue_command_def Let_def split: if_splits)
qed

lemma dispatch_loop_drains:
  assumes "decisive tr" "mono (\<lambda>i. fst (clock i))" "\<forall>i. fst (clock i) \<le> t" "distinct (map cmd_id rows)"
    and "length (filter (is_due (fst (clock i))) rows) \<le> n"
    and "dispatch_loop clock tr i n rows w = (rows', w')" "c \<in> set rows'"
  shows "\<not> is_due t c"
  using assms(4-)
proof (induction n arbitrary: i rows w)
  case 0
  then have "\<forall>c \<in> set rows. \<not> is_due (fst (clock i)) c" by (simp add: filter_empty_conv)
  with 0 assms(3) show ?case using is_due_later by fastforce
next
  case (Suc n)
  show ?case
  proof (cases "next_due (fst (clock i)) rows")
    case None
    then have "\<forall>c \<in> set rows. \<not> is_due (fst (clock i)) c" by (simp add: next_due_None)
    with None Suc.prems assms(3) show ?thesis using is_due_later by fastforce
  next
    case (Some d)
    obtain d' v where d': "enqueue_command (snd (clock i)) tr d w = (d', v)"
      by (cases "enqueue_command (snd (clock i)) tr d w")
    have id: "cmd_id d' = cmd_id d" by (rule enqueue_keeps_id [OF d'])
    have "\<not> is_due (fst (clock i)) d'"
      using decided_not_pending [OF assms(1) d'] by (auto simp: is_due_def)
    with next_due_Some [OF Some] id Suc.prems(1)
    have "length (filter (is_due (fst (clock i))) (put cmd_id d' rows)) < length (filter (is_due (fst (clock i))) rows)"
      by (intro fewer_due [where c = d]) auto
    moreover have "fst (clock i) \<le> fst (clock (Suc i))" using assms(2) by (simp add: mono_def)
    ultimately have "length (filter (is_due (fst (clock (Suc i)))) (put cmd_id d' rows)) \<le> n"
      using Suc.prems(2) due_count_later [of "fst (clock i)" "fst (clock (Suc i))" "put cmd_id d' rows"] by simp
    moreover have "dispatch_loop clock tr (Suc i) n (put cmd_id d' rows) v = (rows', w')"
      using Suc.prems(3) Some d' by simp
    ultimately show ?thesis using Suc.IH [of "put cmd_id d' rows" "Suc i" v] Suc.prems(1,4) by simp
  qed
qed

text \<open>A cycle changes a command only from a state that is not terminal, and keeps the keys.\<close>

lemma dispatch_loop_keeps:
  assumes "distinct (map cmd_id rows)" "dispatch_loop clock tr i n rows w = (rows', w')"
  shows "map cmd_id rows' = map cmd_id rows \<and>
    (\<forall>c \<in> set rows. cmd_status c \<noteq> CMD_PENDING \<longrightarrow> c \<in> set rows')"
  using assms
proof (induction n arbitrary: i rows w)
  case (Suc n)
  show ?case
  proof (cases "next_due (fst (clock i)) rows")
    case (Some d)
    obtain d' v where d': "enqueue_command (snd (clock i)) tr d w = (d', v)"
      by (cases "enqueue_command (snd (clock i)) tr d w")
    have id: "cmd_id d' = cmd_id d" by (rule enqueue_keeps_id [OF d'])
    have run: "dispatch_loop clock tr (Suc i) n (put cmd_id d' rows) v = (rows', w')"
      using Suc.prems(2) Some d' by simp
    have IH: "map cmd_id rows' = map cmd_id rows \<and>
        (\<forall>c \<in> set (put cmd_id d' rows). cmd_status c \<noteq> CMD_PENDING \<longrightarrow> c \<in> set rows')"
      using Suc.IH [OF _ run] Suc.prems(1) by simp
    have "c \<in> set (put cmd_id d' rows)" if "c \<in> set rows" "cmd_status c \<noteq> CMD_PENDING" for c
    proof -
      have "c \<noteq> d" using that(2) next_due_Some [OF Some] by (auto simp: is_due_def)
      then have "cmd_id c \<noteq> cmd_id d" using that(1) next_due_Some [OF Some] Suc.prems(1)
        by (auto simp: distinct_map inj_on_def)
      with that(1) id show ?thesis by (force simp: put_def)
    qed
    with IH show ?thesis by blast
  qed (use Suc.prems in simp)
qed simp

lemma dispatch_loop_not_overdue:
  assumes "\<forall>i. now \<le> fst (clock i)" "\<forall>c \<in> set rows. \<not> is_overdue now c"
    and "dispatch_loop clock tr i n rows w = (rows', w')"
  shows "\<forall>c \<in> set rows'. \<not> is_overdue now c"
  using assms(2,3)
proof (induction n arbitrary: i rows w)
  case (Suc n)
  show ?case
  proof (cases "next_due (fst (clock i)) rows")
    case (Some d)
    obtain d' v where d': "enqueue_command (snd (clock i)) tr d w = (d', v)"
      by (cases "enqueue_command (snd (clock i)) tr d w")
    then have "cmd_expires_at d' = cmd_expires_at d"
      by (auto simp: enqueue_command_def Let_def split: prod.splits if_splits)
    moreover have "is_due (fst (clock i)) d" using next_due_Some [OF Some] by simp
    moreover have "now \<le> fst (clock i)" using assms(1) by simp
    ultimately have "\<not> is_overdue now d'" by (auto simp: is_overdue_def is_due_def split: option.splits)
    then have "\<forall>c \<in> set (put cmd_id d' rows). \<not> is_overdue now c"
      using Suc.prems(1) by (auto dest: in_put)
    moreover have "dispatch_loop clock tr (Suc i) n (put cmd_id d' rows) v = (rows', w')"
      using Suc.prems(2) Some d' by simp
    ultimately show ?thesis by (rule Suc.IH)
  qed (use Suc.prems in simp)
qed simp

lemma put_commands_due_count:
  "\<forall>c \<in> set cs. \<not> P c \<Longrightarrow> length (filter P (put_commands cs rows)) \<le> length (filter P rows)"
  unfolding put_commands_def
proof (induction cs arbitrary: rows)
  case (Cons a cs)
  have "length (filter P (put cmd_id a rows)) \<le> length (filter P rows)"
    using Cons.prems by (induction rows) (auto simp: put_def)
  moreover have "length (filter P (fold (put cmd_id) cs (put cmd_id a rows))) \<le> length (filter P (put cmd_id a rows))"
    using Cons by simp
  ultimately show ?case by simp
qed simp

lemma distinct_expired_ids:
  assumes "distinct (map cmd_id rows)"
  shows "distinct (map cmd_id (map (expire_command now) (expired_commands now k rows)))"
proof -
  have "distinct (map cmd_id (oldest_first (filter (is_overdue now) rows)))"
    using distinct_map_filter [OF assms] unfolding oldest_first_def
    by (metis distinct_map distinct_sort set_sort)
  then have "distinct (map cmd_id (expired_commands now k rows))"
    unfolding expired_commands_def take_map [symmetric] by (rule distinct_take)
  then show ?thesis by (simp add: comp_def)
qed

text \<open>The rows after the expiry pass.\<close>

definition after_expiry :: "int \<Rightarrow> nat \<Rightarrow> device_command list \<Rightarrow> device_command list" where
  "after_expiry now k rows = put_commands (map (expire_command now) (expired_commands now k rows)) rows"

lemma after_expiry_iff:
  assumes "distinct (map cmd_id rows)"
  shows "c \<in> set (after_expiry now k rows) \<longleftrightarrow>
    (\<exists>b \<in> set (expired_commands now k rows). c = expire_command now b) \<or>
    (c \<in> set rows \<and> c \<notin> set (expired_commands now k rows))"
proof -
  let ?ex = "expired_commands now k rows"
  have "\<forall>c \<in> set (map (expire_command now) ?ex). cmd_id c \<in> cmd_id ` set rows"
    by (auto dest: expired_overdue)
  from put_commands_replaces [OF distinct_expired_ids [OF assms] this assms]
  have "c \<in> set (after_expiry now k rows) \<longleftrightarrow> c \<in> set (map (expire_command now) ?ex) \<or>
      (c \<in> set rows \<and> cmd_id c \<notin> cmd_id ` set (map (expire_command now) ?ex))"
    unfolding after_expiry_def .
  moreover have "cmd_id c \<in> cmd_id ` set (map (expire_command now) ?ex) \<longleftrightarrow> c \<in> set ?ex" if "c \<in> set rows"
    using that assms expired_overdue [of _ now k rows] by (auto simp: distinct_map inj_on_def image_iff)
  ultimately show ?thesis by auto
qed

lemma process_once_eq:
  "process_once now clock tr k db w =
     (let (rows', w') = dispatch_loop clock tr 0 (k - length (expired_commands now k (db_commands db)))
            (after_expiry now k (db_commands db)) w
      in (db\<lparr>db_commands := rows'\<rparr>, w'))"
  by (auto simp: process_once_def after_expiry_def Let_def)

lemma distinct_after_expiry: "distinct (map cmd_id rows) \<Longrightarrow> distinct (map cmd_id (after_expiry now k rows))"
  by (simp add: after_expiry_def)

subsection \<open>Properties\<close>

text \<open>
  A dispatcher cycle never touches a command in a terminal state, nor one that was
  sent and is not overdue, whatever the transport answers; it adds and removes no command and
  changes no other table.
\<close>
theorem dispatcher_respects_final:
  assumes "distinct (map cmd_id (db_commands db))"
    and "process_once now clock tr k db w = (db', w')"
  shows "map cmd_id (db_commands db') = map cmd_id (db_commands db) \<and>
    db' = db\<lparr>db_commands := db_commands db'\<rparr> \<and>
    (\<forall>c \<in> set (db_commands db). terminal_status (cmd_status c) \<or> (cmd_status c = CMD_SENT \<and> \<not> is_overdue now c)
       \<longrightarrow> c \<in> set (db_commands db'))"
proof -
  let ?rows = "after_expiry now k (db_commands db)"
  obtain rows' where run: "dispatch_loop clock tr 0 (k - length (expired_commands now k (db_commands db))) ?rows w
      = (rows', w')" and db': "db' = db\<lparr>db_commands := rows'\<rparr>"
    using assms(2) by (auto simp: process_once_eq split: prod.splits)
  note keeps = dispatch_loop_keeps [OF distinct_after_expiry [OF assms(1)] run]
  have "c \<in> set rows'"
    if "c \<in> set (db_commands db)" "terminal_status (cmd_status c) \<or> (cmd_status c = CMD_SENT \<and> \<not> is_overdue now c)" for c
  proof -
    have "c \<notin> set (expired_commands now k (db_commands db))"
      using that(2) expired_overdue [of c now k "db_commands db"] by (auto simp: is_overdue_def)
    then have "c \<in> set ?rows" using that(1) after_expiry_iff [OF assms(1)] by blast
    moreover have "cmd_status c \<noteq> CMD_PENDING" using that(2) by (auto simp: terminal_status_def)
    ultimately show ?thesis using keeps by blast
  qed
  with keeps show ?thesis by (simp add: db' after_expiry_def)
qed

definition failing_transport :: "bool \<Rightarrow> nat transport" where
  "failing_transport retryable = (\<lambda>c n. (\<lparr>er_sent = False, er_queue_item_id = None, er_transport = ''grpc'',
     er_error_message = Some ''down'', er_retryable = retryable\<rparr>, Suc n))"

definition two_commands :: tlrs_db where
  "two_commands = empty_db\<lparr>db_commands := [sample_command,
     sample_command\<lparr>cmd_id := 2, cmd_seq := Some 2, cmd_created_at := 1, cmd_status := CMD_ACKED\<rparr>]\<rparr>"

lemma two_commands_ids: "map cmd_id (db_commands two_commands) = [1, 2]"
  by (simp add: two_commands_def sample_command_def)

theorem dispatcher_respects_final_witness:
  "\<exists>db' w'. process_once 5 (\<lambda>_. (5, 5)) (failing_transport False) 50 two_commands 0 = (db', w') \<and>
     sample_command\<lparr>cmd_id := 2, cmd_seq := Some 2, cmd_created_at := 1, cmd_status := CMD_ACKED\<rparr> \<in> set (db_commands db')"
proof -
  have ids: "distinct (map cmd_id (db_commands two_commands))" by (simp add: two_commands_ids)
  obtain db' w' where run: "process_once 5 (\<lambda>_. (5, 5)) (failing_transport False) 50 two_commands 0 = (db', w')"
    by (cases "process_once 5 (\<lambda>_. (5, 5)) (failing_transport False) 50 two_commands 0")
  let ?c = "sample_command\<lparr>cmd_id := 2, cmd_seq := Some 2, cmd_created_at := 1, cmd_status := CMD_ACKED\<rparr>"
  have "?c \<in> set (db_commands two_commands)" "terminal_status (cmd_status ?c)"
    by (simp_all add: two_commands_def terminal_status_def)
  with dispatcher_respects_final [OF ids run] run show ?thesis by blast
qed

text \<open>
  With a transport that decides, one cycle settles everything that is due, as long
  as it fits into the batch: afterwards no command is overdue and none is still waiting to be
  sent at the last clock reading.
\<close>
theorem dispatcher_drains:
  assumes "distinct (map cmd_id (db_commands db))" "decisive tr"
    and "mono (\<lambda>i. fst (clock i))" "now \<le> fst (clock 0)" "\<forall>i. fst (clock i) \<le> t"
    and "length (filter (is_overdue now) (db_commands db))
       + length (filter (is_due (fst (clock 0))) (db_commands db)) \<le> k"
    and "process_once now clock tr k db w = (db', w')" "c \<in> set (db_commands db')"
  shows "\<not> is_due t c \<and> \<not> is_overdue now c"
proof -
  let ?rows = "db_commands db" and ?ex = "expired_commands now k (db_commands db)"
  have len: "length ?ex = length (filter (is_overdue now) ?rows)"
    using assms(6) by (simp add: expired_commands_def oldest_first_def)
  have all: "set ?ex = {c \<in> set ?rows. is_overdue now c}"
    using assms(6) by (simp add: expired_commands_def oldest_first_def)
  obtain rows' where run: "dispatch_loop clock tr 0 (k - length ?ex) (after_expiry now k ?rows) w = (rows', w')"
    and db': "db_commands db' = rows'"
    using assms(7) by (auto simp: process_once_eq split: prod.splits)
  have "length (filter (is_due (fst (clock 0))) (after_expiry now k ?rows)) \<le> length (filter (is_due (fst (clock 0))) ?rows)"
    unfolding after_expiry_def by (rule put_commands_due_count) (auto simp: is_due_def expire_command_def)
  then have "length (filter (is_due (fst (clock 0))) (after_expiry now k ?rows)) \<le> k - length ?ex"
    using assms(6) len by simp
  from dispatch_loop_drains [OF assms(2,3,5) distinct_after_expiry [OF assms(1)] this run]
  have "\<not> is_due t c" using assms(8) db' by blast
  moreover have "\<forall>c \<in> set (after_expiry now k ?rows). \<not> is_overdue now c"
    using after_expiry_iff [OF assms(1)] all by (auto simp: is_overdue_def expire_command_def terminal_status_def)
  moreover have "\<forall>i. now \<le> fst (clock i)"
    using assms(3,4) by (metis le0 monoD order_trans)
  ultimately show ?thesis
    using dispatch_loop_not_overdue [OF _ _ run] assms(8) db' by blast
qed

theorem dispatcher_drains_witness:
  "\<exists>db' w'. process_once 5 (\<lambda>_. (5, 5)) (failing_transport False) 50 two_commands 0 = (db', w') \<and>
     (\<forall>c \<in> set (db_commands db'). \<not> is_due 5 c)"
proof -
  have ids: "distinct (map cmd_id (db_commands two_commands))" by (simp add: two_commands_ids)
  have dec: "decisive (failing_transport False)" by (simp add: decisive_def failing_transport_def)
  have mono: "mono (\<lambda>i::nat. fst (5::int, 5::int))" by (simp add: mono_def)
  have count: "length (filter (is_overdue 5) (db_commands two_commands))
      + length (filter (is_due (fst (5::int, 5::int))) (db_commands two_commands)) \<le> 50"
    by (simp add: two_commands_def)
  obtain db' w' where run: "process_once 5 (\<lambda>_. (5, 5)) (failing_transport False) 50 two_commands 0 = (db', w')"
    by (cases "process_once 5 (\<lambda>_. (5, 5)) (failing_transport False) 50 two_commands 0")
  have "\<not> is_due 5 c" if "c \<in> set (db_commands db')" for c
    using dispatcher_drains [OF ids dec mono _ _ count run that] by simp
  with run show ?thesis by blast
qed

lemma blocked_loop:
  assumes "distinct (map cmd_id rows)" "d \<in> set rows" "\<forall>i. is_due (fst (clock i)) d"
    and "\<forall>c \<in> set rows. cmd_id c \<noteq> cmd_id d \<longrightarrow> cmd_created_at d < cmd_created_at c"
    and "\<forall>c w. cmd_id c = cmd_id d \<longrightarrow> \<not> er_sent (fst (tr c w)) \<and> er_retryable (fst (tr c w))"
    and "dispatch_loop clock tr i n rows w = (rows', w')"
  shows "filter (\<lambda>c. cmd_id c \<noteq> cmd_id d) rows' = filter (\<lambda>c. cmd_id c \<noteq> cmd_id d) rows"
  using assms
proof (induction n arbitrary: i rows w d)
  case (Suc n)
  from Suc.prems(2,3) obtain c where c: "next_due (fst (clock i)) rows = Some c"
    using next_due_None [of "fst (clock i)" rows] by (cases "next_due (fst (clock i)) rows") auto
  have "c = d"
  proof (rule ccontr)
    assume "c \<noteq> d"
    then have "cmd_id c \<noteq> cmd_id d"
      using Suc.prems(1,2) next_due_Some [OF c] by (auto simp: distinct_map inj_on_def)
    then have "cmd_created_at d < cmd_created_at c" using Suc.prems(4) next_due_Some [OF c] by blast
    moreover have "cmd_created_at c \<le> cmd_created_at d"
      using next_due_oldest [OF c Suc.prems(2)] Suc.prems(3) by blast
    ultimately show False by simp
  qed
  obtain d' v where d': "enqueue_command (snd (clock i)) tr d w = (d', v)"
    by (cases "enqueue_command (snd (clock i)) tr d w")
  have same: "cmd_id d' = cmd_id d" "cmd_created_at d' = cmd_created_at d" "is_due t d' = is_due t d" for t
    using d' Suc.prems(5) [rule_format, of d w]
    by (auto simp: enqueue_command_def is_due_def Let_def split: prod.splits)
  let ?rows = "put cmd_id d' rows"
  have in_rows: "d' \<in> set ?rows" using Suc.prems(2) same(1) by (force simp: put_def)
  have "\<forall>c \<in> set ?rows. cmd_id c \<noteq> cmd_id d' \<longrightarrow> cmd_created_at d' < cmd_created_at c"
    using Suc.prems(4) same by (auto dest!: in_put)
  moreover have "dispatch_loop clock tr (Suc i) n ?rows v = (rows', w')"
    using Suc.prems(6) c \<open>c = d\<close> d' by simp
  ultimately have "filter (\<lambda>c. cmd_id c \<noteq> cmd_id d') rows' = filter (\<lambda>c. cmd_id c \<noteq> cmd_id d') ?rows"
    using Suc.IH [of ?rows d' "Suc i" v] Suc.prems(1,3,5) in_rows same by simp
  moreover have "filter (\<lambda>c. cmd_id c \<noteq> cmd_id d') (put cmd_id d' zs) = filter (\<lambda>c. cmd_id c \<noteq> cmd_id d') zs" for zs
    by (induction zs) (auto simp: put_def)
  ultimately show ?case by (simp add: same(1))
qed simp

text \<open>
  A retryable failure blocks the queue: while the transport answers \<open>retryable\<close> for
  the oldest due command, that command stays pending and is taken again in every iteration, so
  a whole cycle of any batch size attempts no other command.
\<close>
theorem retryable_failure_blocks_queue:
  assumes "distinct (map cmd_id (db_commands db))" "d \<in> set (db_commands db)"
    and "\<forall>i. is_due (fst (clock i)) d" "\<forall>c \<in> set (db_commands db). \<not> is_overdue now c"
    and "\<forall>c \<in> set (db_commands db). cmd_id c \<noteq> cmd_id d \<longrightarrow> cmd_created_at d < cmd_created_at c"
    and "\<forall>c w. cmd_id c = cmd_id d \<longrightarrow> \<not> er_sent (fst (tr c w)) \<and> er_retryable (fst (tr c w))"
    and "process_once now clock tr k db w = (db', w')"
  shows "filter (\<lambda>c. cmd_id c \<noteq> cmd_id d) (db_commands db') = filter (\<lambda>c. cmd_id c \<noteq> cmd_id d) (db_commands db)"
proof -
  have "filter (is_overdue now) (db_commands db) = []" using assms(4) by (simp add: filter_empty_conv)
  then have "expired_commands now k (db_commands db) = []"
    by (simp add: expired_commands_def oldest_first_def)
  then obtain rows' where "dispatch_loop clock tr 0 k (db_commands db) w = (rows', w')" "db_commands db' = rows'"
    using assms(7) by (auto simp: process_once_eq after_expiry_def put_commands_def split: prod.splits)
  then show ?thesis using blocked_loop [OF assms(1,2,3,5,6)] by simp
qed

definition waiting_pair :: tlrs_db where
  "waiting_pair = empty_db\<lparr>db_commands := [sample_command, sample_command\<lparr>cmd_id := 2, cmd_seq := Some 2, cmd_created_at := 1\<rparr>]\<rparr>"

theorem retryable_failure_blocks_queue_witness:
  "\<exists>db' w'. process_once 5 (\<lambda>_. (5, 5)) (failing_transport True) 50 waiting_pair 0 = (db', w') \<and>
     (\<exists>c \<in> set (db_commands db'). cmd_id c = 2 \<and> is_due 5 c)"
proof -
  have s: "cmd_id sample_command = 1" "cmd_created_at sample_command = 0" "cmd_status sample_command = CMD_PENDING"
    "cmd_expires_at sample_command = None"
    by (simp_all add: sample_command_def)
  let ?c = "sample_command\<lparr>cmd_id := 2, cmd_seq := Some 2, cmd_created_at := 1\<rparr>"
  have rows: "db_commands waiting_pair = [sample_command, ?c]" by (simp add: waiting_pair_def)
  obtain db' w' where run: "process_once 5 (\<lambda>_. (5, 5)) (failing_transport True) 50 waiting_pair 0 = (db', w')"
    by (cases "process_once 5 (\<lambda>_. (5, 5)) (failing_transport True) 50 waiting_pair 0")
  have "filter (\<lambda>c. cmd_id c \<noteq> cmd_id sample_command) (db_commands db') =
      filter (\<lambda>c. cmd_id c \<noteq> cmd_id sample_command) (db_commands waiting_pair)"
    by (rule retryable_failure_blocks_queue [OF _ _ _ _ _ _ run])
      (auto simp: rows s is_due_def is_overdue_def failing_transport_def)
  then have "?c \<in> set (filter (\<lambda>c. cmd_id c \<noteq> cmd_id sample_command) (db_commands db'))" by (simp add: rows s)
  then have "?c \<in> set (db_commands db')" by simp
  moreover have "cmd_id ?c = 2" "is_due 5 ?c" by (simp_all add: is_due_def s)
  ultimately show ?thesis using run by blast
qed

end
