(* ===== verification/ChirpStack_Events.thy ===== *)
theory ChirpStack_Events
  imports Geofence_Evaluation Command_Dispatcher
begin

text \<open>
  The uplink service, \<open>src/integrations/chirpstack/service.py\<close>, and the message filter of its
  worker, \<open>chirpstack_event_worker/main.py\<close>.  The validation of a raw payload by the pydantic
  models and the Redis publish are parameters, fields of \<open>event_env\<close>; an exception is the
  text \<open>str(exc)\<close> the handler stores.  The database is the committed one: a rollback returns
  to it, a commit replaces it.
\<close>

subsection \<open>Parameters and results\<close>

record txack_event =
  tx_queue_item_id :: "string option"
  tx_time :: "py_datetime option"
  tx_status :: "string option"

record network_ack_event =
  na_queue_item_id :: "string option"
  na_acknowledged :: "bool option"
  na_time :: "py_datetime option"

record realtime_location =
  rl_location_id :: nat
  rl_client_id :: nat
  rl_device_id :: nat
  rl_device_serial :: string
  rl_latitude :: py_float
  rl_longitude :: py_float
  rl_altitude :: "py_float option"
  rl_accuracy :: "py_float option"
  rl_recorded_at :: int

text \<open>What \<open>PUBLISH\<close> answers: the number of subscribers, a \<open>RedisError\<close> or another exception.\<close>

datatype publish_outcome = Published nat | Redis_Error string | Publish_Error string

text \<open>
  \<open>en_dump\<close> is \<open>model_dump_json\<close>, \<open>en_redis_publish\<close> the Redis client's method.  \<open>en_raced\<close>: another session stored the same deduplication id between the check and the
  insertion.  \<open>en_ack_error_text\<close> is pydantic's text for an object that is no command ACK.
\<close>

record event_env =
  en_eval :: evaluation_env
  en_validate_up :: "py_value \<Rightarrow> (string, up_event) res"
  en_validate_txack :: "py_value \<Rightarrow> (string, txack_event) res"
  en_validate_network_ack :: "py_value \<Rightarrow> (string, network_ack_event) res"
  en_ack_error_text :: "up_event \<Rightarrow> string"
  en_dump :: "realtime_location \<Rightarrow> string"
  en_redis_publish :: "string \<Rightarrow> string \<Rightarrow> publish_outcome"
  en_raced :: bool

record handle_result =
  hr_success :: bool
  hr_event :: "cs_event option"
  hr_processed_kind :: "string option"
  hr_device_id :: "nat option"
  hr_location_id :: "nat option"
  hr_command_uuid :: "string option"
  hr_command_status :: "command_status option"
  hr_command_status_changed :: bool
  hr_failure_reason :: "string option"
  hr_realtime :: "realtime_location option"

definition result_of :: "bool \<Rightarrow> string \<Rightarrow> handle_result" where
  "result_of success kind = \<lparr>hr_success = success, hr_event = None, hr_processed_kind = Some kind, hr_device_id = None,
     hr_location_id = None, hr_command_uuid = None, hr_command_status = None,
     hr_command_status_changed = False, hr_failure_reason = None, hr_realtime = None\<rparr>"

type_synonym processing = "(tlrs_db, string, handle_result \<times> cs_event) act"

subsection \<open>Queries and checks\<close>

definition now_of :: "event_env \<Rightarrow> int" where "now_of env = en_now (en_eval env)"

definition event_exists :: "tlrs_db \<Rightarrow> string \<Rightarrow> bool" where
  "event_exists db dedup \<longleftrightarrow> (\<exists>e \<in> set (db_cs_events db). ce_deduplication_id e = Some dedup)"

definition text_error :: "(py_exc, 'a) res \<Rightarrow> (string, 'a) res" where
  "text_error r = (case r of Inl e \<Rightarrow> Inl (exc_message e) | Inr x \<Rightarrow> Inr x)"

definition get_device :: "tlrs_db \<Rightarrow> string \<Rightarrow> (string, device option) res" where
  "get_device db dev_eui = text_error (scalar_one_or_none
     (filter (\<lambda>d. d_dev_eui d = Some dev_eui \<and> d_active d \<and> d_deleted d = CHR ''N'') (db_devices db)))"

definition validate_device_application_id :: "device \<Rightarrow> string \<Rightarrow> string option" where
  "validate_device_application_id d application_id =
     (let expected = py_strip (or_empty (d_application_id d)); received = py_strip application_id
      in if expected = [] then Some ''DEVICE_APPLICATION_ID_MISSING''
         else if expected \<noteq> received then Some ''APPLICATION_ID_MISMATCH''
         else None)"

definition validate_up_event :: "event_env \<Rightarrow> py_value \<Rightarrow> string \<Rightarrow> (string, up_event) res" where
  "validate_up_event env payload dev_eui =
     (case en_validate_up env payload of
        Inl e \<Rightarrow> Inl (''Invalid ChirpStack up payload: '' @ e)
      | Inr up \<Rightarrow> if di_dev_eui (ue_device_info up) \<noteq> dev_eui
          then Inl ''Payload devEui does not match topic dev_eui'' else Inr up)"

definition get_command_by_queue_item_id :: "tlrs_db \<Rightarrow> string \<Rightarrow> (string, device_command option) res" where
  "get_command_by_queue_item_id db queue_item_id = text_error (scalar_one_or_none
     (filter (\<lambda>c. cmd_queue_item_id c = Some queue_item_id) (db_commands db)))"

definition resolve_command_for_network_event ::
  "tlrs_db \<Rightarrow> nat \<Rightarrow> string option \<Rightarrow> string \<Rightarrow> string \<Rightarrow> (string, string + device_command) res" where
  "resolve_command_for_network_event db device_id queue_item_id missing_error not_found_error =
     (if or_empty queue_item_id = [] then Inr (Inl missing_error)
      else bindE (get_command_by_queue_item_id db (the queue_item_id)) (\<lambda>r.
        case r of
          None \<Rightarrow> Inr (Inl not_found_error)
        | Some c \<Rightarrow> if cmd_device_id c \<noteq> device_id then Inr (Inl not_found_error) else Inr (Inr c)))"

definition resolve_device_client_id :: "tlrs_db \<Rightarrow> device \<Rightarrow> (string, nat option) res" where
  "resolve_device_client_id db d =
     (case d_client_id d of
        Some c \<Rightarrow> Inr (Some c)
      | None \<Rightarrow>
          (case d_asset_id d of
             None \<Rightarrow> Inr None
           | Some a \<Rightarrow> text_error (bindE (scalar_one_or_none
               (filter (\<lambda>x. a_id x = a \<and> a_deleted x = CHR ''N'') (db_assets db)))
               (\<lambda>r. Inr (case r of None \<Rightarrow> None | Some x \<Rightarrow> a_client_id x)))))"

definition build_realtime_location_data :: "tlrs_db \<Rightarrow> device \<Rightarrow> location \<Rightarrow> (string, realtime_location option) res" where
  "build_realtime_location_data db d loc =
     bindE (resolve_device_client_id db d) (\<lambda>client_id.
       Inr (case client_id of
         None \<Rightarrow> None
       | Some c \<Rightarrow> Some \<lparr>rl_location_id = l_id loc, rl_client_id = c, rl_device_id = d_id d,
           rl_device_serial = d_serial d, rl_latitude = l_latitude loc, rl_longitude = l_longitude loc,
           rl_altitude = l_altitude loc, rl_accuracy = l_accuracy loc,
           rl_recorded_at = (case l_device_timestamp loc of Some t \<Rightarrow> t | None \<Rightarrow> l_received_at loc)\<rparr>))"

definition put_device :: "device \<Rightarrow> tlrs_db \<Rightarrow> tlrs_db" where
  "put_device d db = db\<lparr>db_devices := put d_id d (db_devices db)\<rparr>"

definition put_command :: "device_command \<Rightarrow> tlrs_db \<Rightarrow> tlrs_db" where
  "put_command c db = db\<lparr>db_commands := put cmd_id c (db_commands db)\<rparr>"

text \<open>A handler that gives up: the error goes into the event and the result.\<close>

definition rejected :: "cs_event \<Rightarrow> string \<Rightarrow> nat option \<Rightarrow> string \<Rightarrow> handle_result \<times> cs_event" where
  "rejected event kind device_id err =
     ((result_of False kind)\<lparr>hr_device_id := device_id, hr_failure_reason := Some err\<rparr>,
      event\<lparr>ce_error_message := Some err\<rparr>)"

definition accepted :: "cs_event \<Rightarrow> cs_event" where
  "accepted event = event\<lparr>ce_processed := True, ce_error_message := None\<rparr>"

subsection \<open>Application acknowledgements\<close>

text \<open>
  With a decoded object, \<open>ChirpStackCommandAckUpEvent\<close> asks for \<open>fPort\<close>, \<open>command_id\<close> and
  \<open>status\<close>; the object's command id alone selects the command.
\<close>

definition build_command_ack_payload :: "event_env \<Rightarrow> device \<Rightarrow> up_event \<Rightarrow> (string, ack_payload) res" where
  "build_command_ack_payload env d up =
     (case ue_object up of
        Some ob \<Rightarrow>
          (case (uo_command_id ob, uo_status ob, ue_fport up) of
             (Some cid, Some st, Some _) \<Rightarrow>
               (if Some (di_dev_eui (ue_device_info up)) \<noteq> d_dev_eui d
                  then Inl ''Payload devEui does not match topic dev_eui''
                else make_ack_payload (Some cid) None st (uo_executed_at ob) (uo_error_message ob))
           | _ \<Rightarrow> Inl (''Invalid ChirpStack command ACK payload: '' @ en_ack_error_text env up))
      | None \<Rightarrow> decode_command_ack_payload_v1 up)"

definition process_application_ack_up_event :: "event_env \<Rightarrow> device \<Rightarrow> up_event \<Rightarrow> cs_event \<Rightarrow> processing" where
  "process_application_ack_up_event env d up event db =
     (case build_command_ack_payload env d up of
        Inl e \<Rightarrow> (Inr (rejected event ''command_ack'' (Some (d_id d)) e), db)
      | Inr p \<Rightarrow>
          (case (if ap_command_id p \<noteq> None then process_ack (now_of env) p db
                 else process_ack_by_command_seq (now_of env) (d_id d) p db) of
             (Inl e, db1) \<Rightarrow> (Inl (exc_message e), db1)
           | (Inr r, db1) \<Rightarrow>
               (if \<not> ar_success r then
                  (let (res, ev) = rejected event ''command_ack'' (Some (d_id d))
                         (or_default (ar_failure_reason r) ''COMMAND_ACK_PROCESSING_FAILED'')
                   in (Inr (res\<lparr>hr_command_uuid := ap_command_id p\<rparr>, ev), db1))
                else
                  (Inr ((result_of True ''command_ack'')\<lparr>hr_device_id := Some (d_id d),
                      hr_command_uuid := (case ar_command r of Some c \<Rightarrow> Some (cmd_uuid c) | None \<Rightarrow> ap_command_id p),
                      hr_command_status := map_option cmd_status (ar_command r),
                      hr_command_status_changed := (case ar_command r of None \<Rightarrow> False
                         | Some c \<Rightarrow> ar_previous_status r \<noteq> Some (cmd_status c))\<rparr>,
                    accepted event),
                   put_device (d\<lparr>d_state := ON, d_last_seen_at := Some (now_of env)\<rparr>) db1))))"

subsection \<open>Uplinks\<close>

definition process_status_up_event :: "event_env \<Rightarrow> device \<Rightarrow> up_event \<Rightarrow> cs_event \<Rightarrow> processing" where
  "process_status_up_event env d up event db =
     (case decode_status_payload_v1 up of
        Inl e \<Rightarrow> (Inl e, db)
      | Inr _ \<Rightarrow> (Inr ((result_of True ''status'')\<lparr>hr_device_id := Some (d_id d)\<rparr>, accepted event),
          put_device (d\<lparr>d_state := ON, d_last_seen_at := Some (now_of env)\<rparr>) db))"

definition process_location_up_event :: "event_env \<Rightarrow> device \<Rightarrow> up_event \<Rightarrow> cs_event \<Rightarrow> processing" where
  "process_location_up_event env d up event db =
     (case decode_up_event up of
        Inl e \<Rightarrow> (Inl e, db)
      | Inr t \<Rightarrow>
          (case persist_location (en_eval env) d t (now_of env) db of
             (Inl e, db1) \<Rightarrow> (Inl (exc_message e), db1)
           | (Inr loc, db1) \<Rightarrow>
               (case build_realtime_location_data db1 d loc of
                  Inl e \<Rightarrow> (Inl e, db1)
                | Inr rt \<Rightarrow> (Inr ((result_of True ''location'')\<lparr>hr_device_id := Some (d_id d),
                    hr_location_id := Some (l_id loc), hr_realtime := rt\<rparr>, accepted event), db1))))"

definition process_up_event :: "event_env \<Rightarrow> string \<Rightarrow> string \<Rightarrow> py_value \<Rightarrow> cs_event \<Rightarrow> processing" where
  "process_up_event env application_id dev_eui payload event db =
     (case get_device db dev_eui of
        Inl e \<Rightarrow> (Inl e, db)
      | Inr None \<Rightarrow> (Inr (rejected event ''location'' None ''Device not found or inactive for ChirpStack dev_eui''), db)
      | Inr (Some d) \<Rightarrow>
          (case validate_device_application_id d application_id of
             Some err \<Rightarrow> (Inr (rejected (event\<lparr>ce_device_id := Some (d_id d)\<rparr>) ''up'' (Some (d_id d)) err), db)
           | None \<Rightarrow>
               (case validate_up_event env payload dev_eui of
                  Inl e \<Rightarrow> (Inl e, db)
                | Inr up \<Rightarrow>
                    (let event1 = event\<lparr>ce_device_id := Some (d_id d)\<rparr>;
                         d1 = (if d_device_profile_id d = None
                               then d\<lparr>d_device_profile_id := di_device_profile_id (ue_device_info up)\<rparr> else d);
                         db1 = put_device d1 db
                     in if ue_fport up = Some COMMAND_ACK_FPORT then process_application_ack_up_event env d1 up event1 db1
                        else if ue_fport up = Some STATUS_UPLINK_FPORT then process_status_up_event env d1 up event1 db1
                        else if ue_fport up \<noteq> Some LOCATION_UPLINK_FPORT then
                          (Inr (rejected event1 ''up'' (Some (d_id d)) (''Unsupported ChirpStack uplink fPort: '' @
                             (case ue_fport up of None \<Rightarrow> ''None'' | Some n \<Rightarrow> py_str_int n))), db1)
                        else process_location_up_event env d1 up event1 db1))))"

subsection \<open>Join and log events\<close>

definition process_join_event :: "event_env \<Rightarrow> string \<Rightarrow> string \<Rightarrow> cs_event \<Rightarrow> processing" where
  "process_join_event env application_id dev_eui event db =
     (case get_device db dev_eui of
        Inl e \<Rightarrow> (Inl e, db)
      | Inr None \<Rightarrow> (Inr (result_of True ''join'', accepted event), db)
      | Inr (Some d) \<Rightarrow>
          (case validate_device_application_id d application_id of
             Some err \<Rightarrow> (Inr (rejected (event\<lparr>ce_device_id := Some (d_id d)\<rparr>) ''join'' (Some (d_id d)) err), db)
           | None \<Rightarrow> (Inr ((result_of True ''join'')\<lparr>hr_device_id := Some (d_id d)\<rparr>,
                accepted (event\<lparr>ce_device_id := Some (d_id d)\<rparr>)),
               put_device (d\<lparr>d_last_seen_at := Some (now_of env)\<rparr>) db)))"

definition process_log_event :: "event_env \<Rightarrow> string \<Rightarrow> string \<Rightarrow> cs_event \<Rightarrow> processing" where
  "process_log_event env application_id dev_eui event db =
     (case get_device db dev_eui of
        Inl e \<Rightarrow> (Inl e, db)
      | Inr None \<Rightarrow> (Inr (result_of True ''log'', accepted event), db)
      | Inr (Some d) \<Rightarrow>
          (case validate_device_application_id d application_id of
             Some err \<Rightarrow> (Inr (rejected (event\<lparr>ce_device_id := Some (d_id d)\<rparr>) ''log'' (Some (d_id d)) err), db)
           | None \<Rightarrow> (Inr ((result_of True ''log'')\<lparr>hr_device_id := Some (d_id d)\<rparr>,
                accepted (event\<lparr>ce_device_id := Some (d_id d)\<rparr>)), db)))"

subsection \<open>Network acknowledgements\<close>

text \<open>The two network events share their first half: the device and the command they are about.\<close>

definition with_network_command ::
  "string \<Rightarrow> string \<Rightarrow> string \<Rightarrow> string \<Rightarrow> string \<Rightarrow> (string, 'v) res \<Rightarrow> ('v \<Rightarrow> string option) \<Rightarrow> cs_event \<Rightarrow>
   (device \<Rightarrow> 'v \<Rightarrow> device_command \<Rightarrow> processing) \<Rightarrow> processing" where
  "with_network_command kind missing_error not_found_error application_id dev_eui validated queue_item_id event k db =
     (case get_device db dev_eui of
        Inl e \<Rightarrow> (Inl e, db)
      | Inr None \<Rightarrow> (Inr (rejected event kind None ''Device not found or inactive for ChirpStack dev_eui''), db)
      | Inr (Some d) \<Rightarrow>
          (case validate_device_application_id d application_id of
             Some err \<Rightarrow> (Inr (rejected (event\<lparr>ce_device_id := Some (d_id d)\<rparr>) kind (Some (d_id d)) err), db)
           | None \<Rightarrow>
               (case validated of
                  Inl e \<Rightarrow> (Inl e, db)
                | Inr v \<Rightarrow>
                    (case resolve_command_for_network_event db (d_id d) (queue_item_id v) missing_error not_found_error of
                       Inl e \<Rightarrow> (Inl e, db)
                     | Inr (Inl err) \<Rightarrow> (Inr (rejected event kind (Some (d_id d)) err), db)
                     | Inr (Inr c) \<Rightarrow> k d v c db))))"

definition network_result :: "string \<Rightarrow> device \<Rightarrow> device_command \<Rightarrow> device_command \<Rightarrow> cs_event \<Rightarrow> handle_result" where
  "network_result kind d previous c event = (result_of (ce_processed event) kind)\<lparr>hr_device_id := Some (d_id d),
     hr_command_uuid := Some (cmd_uuid c), hr_command_status := Some (cmd_status c),
     hr_command_status_changed := cmd_status previous \<noteq> cmd_status c, hr_failure_reason := ce_error_message event\<rparr>"

definition txack_command :: "int \<Rightarrow> txack_event \<Rightarrow> device_command \<Rightarrow> device_command" where
  "txack_command now tx c0 =
     (let c = (if cmd_queue_item_id c0 = None then c0\<lparr>cmd_queue_item_id := tx_queue_item_id tx\<rparr> else c0);
          status = py_upper (py_strip (or_empty (tx_status tx)));
          acked_at = (case to_utc_naive (tx_time tx) of Some t \<Rightarrow> t | None \<Rightarrow> now)
      in if status = [] \<or> status = ''OK'' then
           (if cmd_tx_acked_at c = None then c\<lparr>cmd_tx_acked_at := Some acked_at\<rparr> else c)\<lparr>cmd_error_message := None\<rparr>
         else
           (if \<not> terminal_status (cmd_status c) then c\<lparr>cmd_status := CMD_FAILED, cmd_failed_at := Some now\<rparr> else c)
             \<lparr>cmd_error_message := Some (''LoRaWAN downlink transmission status was '' @ status)\<rparr>)"

definition process_txack_event :: "event_env \<Rightarrow> string \<Rightarrow> string \<Rightarrow> py_value \<Rightarrow> cs_event \<Rightarrow> processing" where
  "process_txack_event env application_id dev_eui payload event =
     with_network_command ''txack'' ''TXACK_QUEUE_ITEM_ID_MISSING'' ''TXACK_QUEUE_ITEM_NOT_FOUND''
       application_id dev_eui (en_validate_txack env payload) tx_queue_item_id event
       (\<lambda>d tx c db.
          let c' = txack_command (now_of env) tx c;
              status = py_upper (py_strip (or_empty (tx_status tx)));
              event' = event\<lparr>ce_device_id := Some (d_id d), ce_processed := True,
                ce_error_message := (if status = [] \<or> status = ''OK'' then None else cmd_error_message c')\<rparr>
          in (Inr (network_result ''txack'' d c c' event', event'), put_command c' db))"

definition network_ack_command :: "int \<Rightarrow> network_ack_event \<Rightarrow> device_command \<Rightarrow> device_command" where
  "network_ack_command now na c0 =
     (let c = (if cmd_queue_item_id c0 = None then c0\<lparr>cmd_queue_item_id := na_queue_item_id na\<rparr> else c0)
      in case na_acknowledged na of
           Some True \<Rightarrow> c\<lparr>cmd_lorawan_ack_at := Some (case to_utc_naive (na_time na) of Some t \<Rightarrow> t | None \<Rightarrow> now),
             cmd_error_message := None\<rparr>
         | Some False \<Rightarrow>
             (if \<not> terminal_status (cmd_status c) then c\<lparr>cmd_status := CMD_FAILED, cmd_failed_at := Some now\<rparr> else c)
               \<lparr>cmd_error_message := Some ''LoRaWAN downlink was not acknowledged''\<rparr>
         | None \<Rightarrow> c)"

definition process_network_ack_event :: "event_env \<Rightarrow> string \<Rightarrow> string \<Rightarrow> py_value \<Rightarrow> cs_event \<Rightarrow> processing" where
  "process_network_ack_event env application_id dev_eui payload event =
     with_network_command ''ack'' ''LORAWAN_ACK_QUEUE_ITEM_ID_MISSING'' ''LORAWAN_ACK_QUEUE_ITEM_NOT_FOUND''
       application_id dev_eui (en_validate_network_ack env payload) na_queue_item_id event
       (\<lambda>d na c db.
          let c' = network_ack_command (now_of env) na c;
              event' = event\<lparr>ce_device_id := Some (d_id d), ce_processed := na_acknowledged na \<noteq> None,
                ce_error_message := (if na_acknowledged na = None then Some ''LORAWAN_ACK_ACKNOWLEDGED_FLAG_MISSING'' else None)\<rparr>
          in (Inr (network_result ''ack'' d c c' event', event'), put_command c' db))"

subsection \<open>The handler\<close>

text \<open>
  The publish after the commit: a Redis error is logged, any other exception reaches the
  handler's \<open>except\<close>.
\<close>

text \<open>The publisher, \<open>src/service/realtime_location_publisher.py\<close>.\<close>

definition LOCATION_CHANNEL :: string where "LOCATION_CHANNEL = ''manea:locations''"

definition publish_location_updated :: "event_env \<Rightarrow> realtime_location \<Rightarrow> tlrs_db \<Rightarrow> publish_outcome \<times> tlrs_db" where
  "publish_location_updated env event db =
     (case en_redis_publish env LOCATION_CHANNEL (en_dump env event) of
        Published n \<Rightarrow> (Published n, db\<lparr>db_published := db_published db @ [(LOCATION_CHANNEL, en_dump env event)]\<rparr>)
      | outcome \<Rightarrow> (outcome, db))"

definition publish_realtime_location_event :: "event_env \<Rightarrow> handle_result \<Rightarrow> (tlrs_db, string, unit) act" where
  "publish_realtime_location_event env r db =
     (if \<not> hr_success r \<or> hr_processed_kind r \<noteq> Some ''location'' \<or> hr_realtime r = None then (Inr (), db)
      else case publish_location_updated env (the (hr_realtime r)) db of
        (Published _, db') \<Rightarrow> (Inr (), db')
      | (Redis_Error _, db') \<Rightarrow> (Inr (), db')
      | (Publish_Error e, db') \<Rightarrow> (Inl e, db'))"

definition put_event :: "cs_event \<Rightarrow> tlrs_db \<Rightarrow> tlrs_db" where
  "put_event e db = db\<lparr>db_cs_events := put ce_id e (db_cs_events db)\<rparr>"

definition mark_event_error :: "nat \<Rightarrow> string \<Rightarrow> tlrs_db \<Rightarrow> tlrs_db" where
  "mark_event_error event_id err db =
     (case fetch ce_id event_id (db_cs_events db) of
        None \<Rightarrow> db
      | Some e \<Rightarrow> put_event (e\<lparr>ce_processed := False, ce_error_message := Some (take 500 err)\<rparr>) db)"

definition process_event :: "event_env \<Rightarrow> topic_info \<Rightarrow> py_value \<Rightarrow> cs_event \<Rightarrow> processing" where
  "process_event env ti payload event =
     (if ti_event_type ti = ''up'' then process_up_event env (ti_application_id ti) (ti_dev_eui ti) payload event
      else if ti_event_type ti = ''join'' then process_join_event env (ti_application_id ti) (ti_dev_eui ti) event
      else if ti_event_type ti = ''log'' then process_log_event env (ti_application_id ti) (ti_dev_eui ti) event
      else if ti_event_type ti = ''txack'' then process_txack_event env (ti_application_id ti) (ti_dev_eui ti) payload event
      else if ti_event_type ti = ''ack'' then process_network_ack_event env (ti_application_id ti) (ti_dev_eui ti) payload event
      else (\<lambda>db. (Inr (rejected event ''unsupported'' None
        (''Unsupported ChirpStack event type: '' @ ti_event_type ti)), db)))"

text \<open>
  The second half of \<open>handle_event\<close>, from the committed database \<open>db\<close> that holds the new
  event: process, commit (which flushes the pending commands), publish; on an exception roll
  back to what is committed and mark the event.
\<close>

definition process_and_commit :: "event_env \<Rightarrow> topic_info \<Rightarrow> py_value \<Rightarrow> cs_event \<Rightarrow> tlrs_db \<Rightarrow> handle_result \<times> tlrs_db" where
  "process_and_commit env ti payload event db =
     (let failed = (\<lambda>err db0. let db' = mark_event_error (ce_id event) err db0
            in ((result_of False ''error'')\<lparr>hr_event := fetch ce_id (ce_id event) (db_cs_events db'),
                  hr_failure_reason := Some err\<rparr>, db'))
      in case process_event env ti payload event db of
           (Inl err, _) \<Rightarrow> failed err db
         | (Inr (r, event'), db1) \<Rightarrow>
             (let db2 = put_event event' (flush_commands (now_of env) db1);
                  r' = r\<lparr>hr_event := Some event'\<rparr>
              in case publish_realtime_location_event env r' db2 of
                   (Inl err, db3) \<Rightarrow> failed err db3
                 | (Inr _, db3) \<Rightarrow> (r', db3)))"

text \<open>
  The deduplication id is a string or absent; the driver rejects a value of another type when
  it is bound to the \<open>String\<close> column.
\<close>

definition deduplication_id_of :: "(string \<times> py_value) list \<Rightarrow> (string, string option) res" where
  "deduplication_id_of payload = (case map_of payload ''deduplicationId'' of
     None \<Rightarrow> Inr None | Some PvNone \<Rightarrow> Inr None | Some (PvStr s) \<Rightarrow> Inr (Some s)
   | Some _ \<Rightarrow> Inl ''invalid input for query argument: expected str'')"

definition new_event :: "tlrs_db \<Rightarrow> topic_info \<Rightarrow> string option \<Rightarrow> string \<Rightarrow> (string \<times> py_value) list \<Rightarrow> cs_event" where
  "new_event db ti dedup tpc payload = \<lparr>ce_id = fresh ce_id (db_cs_events db), ce_device_id = None,
     ce_event_type = ti_event_type ti, ce_application_id = ti_application_id ti,
     ce_dev_eui = ti_dev_eui ti, ce_deduplication_id = dedup, ce_topic = tpc,
     ce_payload = PvDict payload, ce_processed = False, ce_error_message = None\<rparr>"

definition handle_event ::
  "event_env \<Rightarrow> string \<Rightarrow> (string \<times> py_value) list \<Rightarrow> (tlrs_db, string, handle_result) act" where
  "handle_event env tpc payload db =
     (case bindE (parse_event_topic tpc) (\<lambda>ti. bindE (deduplication_id_of payload) (\<lambda>d. Inr (ti, d))) of
        Inl e \<Rightarrow> (Inl e, db)
      | Inr (ti, dedup) \<Rightarrow>
          (if (case dedup of None \<Rightarrow> False | Some s \<Rightarrow> event_exists db s) \<or> (dedup \<noteq> None \<and> en_raced env)
             then (Inr (result_of True ''duplicate''), db)
           else
             (let event = new_event db ti dedup tpc payload;
                  (r, db') = process_and_commit env ti (PvDict payload) event
                    (db\<lparr>db_cs_events := db_cs_events db @ [event]\<rparr>)
              in (Inr r, db'))))"

text \<open>The worker: what of a message reaches the service, with decoders for UTF-8 and JSON as parameters.\<close>

definition process_message ::
  "event_env \<Rightarrow> (byte list \<Rightarrow> string option) \<Rightarrow> (string \<Rightarrow> py_value option) \<Rightarrow> string \<Rightarrow> byte list \<Rightarrow> tlrs_db
   \<Rightarrow> handle_result option \<times> tlrs_db" where
  "process_message env decode_utf8 json_loads tpc raw db =
     (case parse_event_topic tpc of
        Inl _ \<Rightarrow> (None, db)
      | Inr _ \<Rightarrow>
          (case Option.bind (decode_utf8 raw) json_loads of
             Some (PvDict payload) \<Rightarrow>
               (case handle_event env tpc payload db of
                  (Inl _, _) \<Rightarrow> (None, db)
                | (Inr r, db') \<Rightarrow> (Some r, db'))
           | _ \<Rightarrow> (None, db)))"

subsection \<open>Lemmas: the event table and the publications are the handler's alone\<close>

abbreviation event_log :: "tlrs_db \<Rightarrow> cs_event list \<times> (string \<times> string) list" where
  "event_log db \<equiv> (db_cs_events db, db_published db)"

definition keeps_events :: "(tlrs_db, 'e, 'a) act \<Rightarrow> bool" where
  "keeps_events m \<longleftrightarrow> (\<forall>db. event_log (snd (m db)) = event_log db)"

lemma keeps_eventsD: "keeps_events m \<Longrightarrow> m db = (r, db') \<Longrightarrow> event_log db' = event_log db"
  unfolding keeps_events_def by (metis snd_conv)

lemma keeps_bindS: "keeps_events m \<Longrightarrow> (\<And>x. keeps_events (f x)) \<Longrightarrow> keeps_events (bindS m f)"
  unfolding keeps_events_def bindS_def by (simp split: prod.splits sum.splits) (metis snd_conv)

lemma keeps_retS [simp]: "keeps_events (retS x)"
  by (simp add: keeps_events_def)

lemma create_pending_keeps:
  "create_pending_command now exs uuid d t aid eid ex pf db = (r, db') \<Longrightarrow> event_log db' = event_log db"
  by (auto simp: create_pending_command_def Let_def split: sum.splits option.splits prod.splits)

lemma create_loop_keeps:
  "create_commands_loop now exs u ev d specs db = (r, db') \<Longrightarrow> event_log db' = event_log db"
proof (induction specs arbitrary: db r db')
  case (Cons spec specs)
  obtain t pf where spec: "spec = (t, pf)" by (cases spec)
  obtain r1 db1 where c: "create_pending_command now exs (u db) d t (ge_asset_id ev) (Some (ge_id ev)) None (Some pf) db = (r1, db1)"
    by (cases "create_pending_command now exs (u db) d t (ge_asset_id ev) (Some (ge_id ev)) None (Some pf) db")
  obtain r2 db2 where l: "create_commands_loop now exs u ev d specs db1 = (r2, db2)"
    by (cases "create_commands_loop now exs u ev d specs db1")
  have "event_log db1 = event_log db" by (rule create_pending_keeps [OF c])
  moreover have "event_log db2 = event_log db1" by (rule Cons.IH [OF l])
  moreover have "event_log db' = event_log db \<or> db' = db1 \<or> db' = db2"
    using Cons.prems Cons.IH [of db r db'] c l
    by (cases r2) (auto simp: spec bindS_def split: sum.splits bool.splits py_exc.splits)
  ultimately show ?case by auto
qed simp

lemma evaluate_row_keeps: "keeps_events (evaluate_row env d a loc row)"
  unfolding keeps_events_def
proof
  fix db
  obtain r db' where run: "evaluate_row env d a loc row db = (r, db')" by (cases "evaluate_row env d a loc row db")
  obtain s prev db1 where load: "get_or_create_asset_state env (sr_fence_id row) a (d_id d) (l_id loc)
      (resolve_status env (sr_inside row) (sr_distance row) (l_accuracy loc)) (sr_distance row) (l_accuracy loc) db = ((s, prev), db1)"
    by (metis surj_pair)
  have db1: "event_log db1 = event_log db"
    using load by (auto simp: get_or_create_asset_state_def Let_def split: option.splits)
  show "event_log (snd (evaluate_row env d a loc row db)) = event_log db"
  proof (cases "resolve_event_type_from_transition prev (resolve_status env (sr_inside row) (sr_distance row) (l_accuracy loc))")
    case None
    with load db1 show ?thesis by (simp add: evaluate_row_def Let_def update_asset_state_def)
  next
    case (Some t)
    let ?db2 = "update_asset_state env s (d_id d) (l_id loc)
      (resolve_status env (sr_inside row) (sr_distance row) (l_accuracy loc)) (sr_distance row) (l_accuracy loc) db1"
    obtain ev db3 where e: "create_event env (sr_fence_id row) (d_id d) a (l_id loc) t (sr_distance row) (l_accuracy loc) ?db2 = (ev, db3)"
      by (metis surj_pair)
    have "event_log db3 = event_log db"
      using e db1 by (auto simp: create_event_def flush_commands_def update_asset_state_def Let_def)
    moreover obtain r4 db4 where c: "create_commands_for_geofence_event (en_now env) (en_expires_seconds env) (en_new_uuid env) ev d db3 = (r4, db4)"
      by (metis surj_pair)
    moreover have "event_log db4 = event_log db3"
      using c create_loop_keeps unfolding create_commands_for_geofence_event_def by metis
    ultimately show ?thesis using load Some e
      by (cases r4) (simp_all add: evaluate_row_def Let_def bindS_def)
  qed
qed

lemma evaluate_rows_keeps: "keeps_events (evaluate_rows env d a loc rows)"
proof (induction rows)
  case Nil
  show ?case by (simp add: keeps_events_def)
next
  case (Cons row rows)
  have "evaluate_rows env d a loc (row # rows) = bindS (evaluate_row env d a loc row) (\<lambda>r.
      bindS (evaluate_rows env d a loc rows) (\<lambda>rs. retS (r # rs)))" by (rule ext) simp
  then show ?case by (simp add: keeps_bindS evaluate_row_keeps Cons)
qed

lemma persist_location_keeps:
  assumes "persist_location env d t tm db = (r, db')"
  shows "event_log db' = event_log db"
proof -
  have eval: "keeps_events (evaluate_location env i j)" for i j
    using evaluate_rows_keeps
    by (auto simp: keeps_events_def evaluate_location_def split: option.splits)
  from assms show ?thesis
    by (auto simp: persist_location_def flush_commands_def Let_def bindS_def split: prod.splits sum.splits
        dest!: keeps_eventsD [OF eval])
qed

text \<open>What a handler does to its own event: it keeps the row's key and deduplication id.\<close>

definition event_safe :: "cs_event \<Rightarrow> tlrs_db \<Rightarrow> (string, handle_result \<times> cs_event) res \<times> tlrs_db \<Rightarrow> bool" where
  "event_safe event db out \<longleftrightarrow> event_log (snd out) = event_log db \<and>
     (\<forall>r e. fst out = Inr (r, e) \<longrightarrow> ce_id e = ce_id event \<and>
        ce_deduplication_id e = ce_deduplication_id event \<and> ce_topic e = ce_topic event \<and> hr_processed_kind r \<noteq> Some ''error'')"

lemma event_safe_ack: "event_safe event db (process_application_ack_up_event env d up event db)"
  by (auto simp: event_safe_def process_application_ack_up_event_def process_ack_def process_ack_by_command_seq_def
      apply_ack_to_command_def rejected_def result_of_def accepted_def result_of_def put_device_def Let_def split: sum.splits option.splits prod.splits if_splits)

lemma event_safe_status: "event_safe event db (process_status_up_event env d up event db)"
  by (auto simp: event_safe_def process_status_up_event_def accepted_def result_of_def put_device_def split: sum.splits)

lemma event_safe_location: "event_safe event db (process_location_up_event env d up event db)"
proof (cases "decode_up_event up")
  case (Inr t)
  obtain r db1 where p: "persist_location (en_eval env) d t (now_of env) db = (r, db1)" by (metis surj_pair)
  show ?thesis using persist_location_keeps [OF p] Inr p
    by (cases r) (auto simp: event_safe_def process_location_up_event_def accepted_def result_of_def split: sum.splits)
qed (simp add: event_safe_def process_location_up_event_def)

lemma event_safe_iff: "event_safe (event\<lparr>ce_device_id := i\<rparr>) (put_device d db) out \<longleftrightarrow> event_safe event db out"
  by (simp add: event_safe_def put_device_def)

lemmas event_safe_trans = iffD1 [OF event_safe_iff]

lemma event_safe_up: "event_safe event db (process_up_event env app eui payload event db)"
proof -
  have simple: "event_safe event db (Inl e, db)" "event_safe event db (Inr (rejected event k i err), db)"
    "event_safe event db (Inr (rejected (event\<lparr>ce_device_id := j\<rparr>) k i err), db)"
    "event_safe event db (Inr (rejected (event\<lparr>ce_device_id := j\<rparr>) k i err), put_device d db)"
    if "k \<noteq> ''error''" for e k i j err d
    using that by (simp_all add: event_safe_def rejected_def result_of_def put_device_def)
  note later = event_safe_trans [OF event_safe_ack] event_safe_trans [OF event_safe_status]
    event_safe_trans [OF event_safe_location]
  show ?thesis
    by (auto simp: process_up_event_def Let_def simple simple(1) [of "[]"] later split: sum.splits option.splits)
qed

lemma event_safe_network:
  assumes "kind \<noteq> ''error''" "\<And>d v c. event_safe event db (k d v c db)"
  shows "event_safe event db (with_network_command kind m n app eui validated q event k db)"
  using assms by (auto simp: with_network_command_def event_safe_def rejected_def result_of_def split: sum.splits option.splits)

lemma event_safe_process: "event_safe event db (process_event env ti payload event db)"
proof -
  have "event_safe event db (process_txack_event env a b payload event db)"
    "event_safe event db (process_network_ack_event env a b payload event db)" for a b
    unfolding process_txack_event_def process_network_ack_event_def
    by (rule event_safe_network, simp, simp add: event_safe_def put_command_def network_result_def result_of_def Let_def)+
  moreover have "event_safe event db (process_join_event env a b event db)"
    "event_safe event db (process_log_event env a b event db)" for a b
    by (auto simp: process_join_event_def process_log_event_def event_safe_def rejected_def accepted_def result_of_def put_device_def
        split: sum.splits option.splits)
  ultimately show ?thesis
    by (simp add: process_event_def event_safe_up) (simp add: event_safe_def rejected_def result_of_def)
qed

lemma last_row:
  assumes "ce_id event \<notin> ce_id ` set es" "ce_id e = ce_id event"
  shows "put ce_id e (es @ [event]) = es @ [e]" "fetch ce_id (ce_id event) (es @ [event]) = Some event"
proof -
  have "put ce_id e es = es" using assms by (intro put_absent) simp
  then show "put ce_id e (es @ [event]) = es @ [e]" using assms(2) by (simp add: put_def)
  have "fetch ce_id (ce_id event) es = None" using assms(1) by (simp add: fetch_None)
  then show "fetch ce_id (ce_id event) (es @ [event]) = Some event" by (simp add: fetch_def find_append)
qed

lemma mark_last:
  assumes "db_cs_events db = es @ [e]" "ce_id e \<notin> ce_id ` set es"
  shows "mark_event_error (ce_id e) err db =
    db\<lparr>db_cs_events := es @ [e\<lparr>ce_processed := False, ce_error_message := Some (take 500 err)\<rparr>]\<rparr>"
  using last_row [OF assms(2)] assms(1) by (simp add: mark_event_error_def put_event_def)

text \<open>What a result leads the handler to publish.\<close>

definition publications :: "event_env \<Rightarrow> handle_result \<Rightarrow> (string \<times> string) list" where
  "publications env r =
     (if hr_success r \<and> hr_processed_kind r = Some ''location'' then
        (case hr_realtime r of
           None \<Rightarrow> []
         | Some rl \<Rightarrow> (case en_redis_publish env LOCATION_CHANNEL (en_dump env rl) of
             Published _ \<Rightarrow> [(LOCATION_CHANNEL, en_dump env rl)] | _ \<Rightarrow> []))
      else [])"

lemma publications_event [simp]: "publications env (r\<lparr>hr_event := e\<rparr>) = publications env r"
  by (simp add: publications_def)

definition publish_fails :: "event_env \<Rightarrow> handle_result \<Rightarrow> string \<Rightarrow> bool" where
  "publish_fails env r err \<longleftrightarrow> hr_success r \<and> hr_processed_kind r = Some ''location'' \<and>
     (\<exists>rl. hr_realtime r = Some rl \<and> en_redis_publish env LOCATION_CHANNEL (en_dump env rl) = Publish_Error err)"

lemma publish_cases:
  obtains (failed) err where "publish_realtime_location_event env r db = (Inl err, db)" "publish_fails env r err"
  | (passed) "publish_realtime_location_event env r db = (Inr (), db\<lparr>db_published := db_published db @ publications env r\<rparr>)"
      "\<And>err. \<not> publish_fails env r err"
proof (cases "hr_success r \<and> hr_processed_kind r = Some ''location'' \<and> hr_realtime r \<noteq> None")
  case True
  then obtain rl where rl: "hr_realtime r = Some rl" by blast
  show thesis
  proof (cases "en_redis_publish env LOCATION_CHANNEL (en_dump env rl)")
    case (Publish_Error err)
    with True rl show thesis
      by (intro failed [of err]) (simp_all add: publish_realtime_location_event_def publish_location_updated_def publish_fails_def)
  qed (use True rl passed in \<open>simp_all add: publish_realtime_location_event_def publish_location_updated_def publish_fails_def publications_def\<close>)
next
  case False
  then show thesis
    by (intro passed) (auto simp: publish_realtime_location_event_def publish_fails_def publications_def split: option.split)
qed

text \<open>The three ways out of the handler's second half.\<close>

lemma process_and_commit_cases:
  assumes "process_and_commit env ti payload event db = (r, db')"
    and "db_cs_events db = es @ [event]" "ce_id event \<notin> ce_id ` set es"
  obtains (failed) err dbx where "process_event env ti payload event db = (Inl err, dbx)"
      "db' = db\<lparr>db_cs_events := es @ [event\<lparr>ce_processed := False, ce_error_message := Some (take 500 err)\<rparr>]\<rparr>"
      "hr_processed_kind r = Some ''error''" "hr_failure_reason r = Some err" "\<not> hr_success r"
  | (published) res e dbx where "process_event env ti payload event db = (Inr (res, e), dbx)"
      "db' = (flush_commands (now_of env) dbx)\<lparr>db_cs_events := es @ [e], db_published := db_published db @ publications env res\<rparr>"
      "r = res\<lparr>hr_event := Some e\<rparr>"
      "ce_id e = ce_id event" "ce_deduplication_id e = ce_deduplication_id event" "ce_topic e = ce_topic event"
      "hr_processed_kind r \<noteq> Some ''error''" "\<And>err. \<not> publish_fails env res err"
  | (unpublished) res e dbx err where "process_event env ti payload event db = (Inr (res, e), dbx)"
      "db' = (flush_commands (now_of env) dbx)\<lparr>db_cs_events := es @ [e\<lparr>ce_processed := False, ce_error_message := Some (take 500 err)\<rparr>],
         db_published := db_published db\<rparr>"
      "ce_id e = ce_id event" "ce_deduplication_id e = ce_deduplication_id event" "ce_topic e = ce_topic event"
      "publish_fails env res err" "hr_processed_kind r = Some ''error''" "hr_failure_reason r = Some err" "\<not> hr_success r"
proof (cases "process_event env ti payload event db")
  case (Pair out dbx)
  show ?thesis
  proof (cases out)
    case (Inl err)
    have "db' = db\<lparr>db_cs_events := es @ [event\<lparr>ce_processed := False, ce_error_message := Some (take 500 err)\<rparr>]\<rparr>"
      using assms(1) Pair Inl mark_last [OF assms(2,3)] by (auto simp: process_and_commit_def Let_def)
    moreover have "hr_processed_kind r = Some ''error''" "hr_failure_reason r = Some err" "\<not> hr_success r"
      using assms(1) Pair Inl by (auto simp: process_and_commit_def result_of_def Let_def)
    ultimately show ?thesis using failed Pair Inl by blast
  next
    case (Inr re)
    obtain res e where re: "re = (res, e)" by (cases re)
    have run: "process_event env ti payload event db = (Inr (res, e), dbx)" using Pair Inr re by simp
    have safe: "db_cs_events dbx = es @ [event]" "db_published dbx = db_published db" "ce_id e = ce_id event"
        "ce_deduplication_id e = ce_deduplication_id event" "ce_topic e = ce_topic event" "hr_processed_kind res \<noteq> Some ''error''"
      using event_safe_process [of event db env ti payload] run assms(2) by (simp_all add: event_safe_def)
    let ?db2 = "put_event e (flush_commands (now_of env) dbx)" and ?r = "res\<lparr>hr_event := Some e\<rparr>"
    have db2: "?db2 = (flush_commands (now_of env) dbx)\<lparr>db_cs_events := es @ [e]\<rparr>"
      using last_row(1) [OF assms(3) safe(3)] safe(1) by (simp add: put_event_def flush_commands_def)
    have fails: "publish_fails env ?r err \<longleftrightarrow> publish_fails env res err" for err by (simp add: publish_fails_def)
    show ?thesis
    proof (cases rule: publish_cases [of env ?r ?db2])
      case passed
      have "db' = (flush_commands (now_of env) dbx)\<lparr>db_cs_events := es @ [e], db_published := db_published db @ publications env res\<rparr>" "r = ?r"
        using assms(1) run passed(1) safe(2) unfolding db2 by (simp_all add: process_and_commit_def Let_def db2) (simp_all add: flush_commands_def)
      with published [OF run] safe passed(2) fails show ?thesis by simp
    next
      case (failed err)
      have es: "ce_id e \<notin> ce_id ` set es" using assms(3) safe(3) by simp
      have "db' = mark_event_error (ce_id event) err ?db2"
        using assms(1) run failed(1) by (simp add: process_and_commit_def Let_def)
      also have "\<dots> = ?db2\<lparr>db_cs_events := es @ [e\<lparr>ce_processed := False, ce_error_message := Some (take 500 err)\<rparr>]\<rparr>"
        unfolding safe(3) [symmetric] by (rule mark_last [OF _ es]) (simp add: db2)
      also have "\<dots> = (flush_commands (now_of env) dbx)\<lparr>db_cs_events := es @ [e\<lparr>ce_processed := False, ce_error_message := Some (take 500 err)\<rparr>],
          db_published := db_published db\<rparr>"
        unfolding db2 by (simp add: flush_commands_def safe(2) [symmetric])
      finally have "db' = \<dots>" .
      moreover have "hr_processed_kind r = Some ''error''" "hr_failure_reason r = Some err" "\<not> hr_success r"
        using assms(1) run failed(1) by (auto simp: process_and_commit_def result_of_def Let_def)
      ultimately show ?thesis using unpublished run safe failed(2) fails by blast
    qed
  qed
qed

subsection \<open>Properties\<close>

text \<open>
  Property C12. An uplink is handled at most once: after an event with a deduplication id has been
  handled, in whatever way, every later message with that id, on any topic and with any
  payload, is reported as a duplicate and leaves the database as it is.
\<close>
theorem duplicate_event_ignored:
  assumes "handle_event env tpc payload db = (Inr r, db1)" "\<not> en_raced env"
    and "deduplication_id_of payload = Inr (Some s)" "deduplication_id_of payload' = Inr (Some s)"
    and "parse_event_topic tpc' = Inr ti'"
  shows "handle_event env' tpc' payload' db1 = (Inr (result_of True ''duplicate''), db1)"
proof -
  obtain ti where ti: "parse_event_topic tpc = Inr ti"
    using assms(1) by (cases "parse_event_topic tpc") (auto simp: handle_event_def)
  have "event_exists db1 s"
  proof (cases "event_exists db s")
    case True
    then show ?thesis using assms(1,3) ti by (auto simp: handle_event_def)
  next
    case False
    let ?e = "new_event db ti (Some s) tpc payload"
    let ?db = "db\<lparr>db_cs_events := db_cs_events db @ [?e]\<rparr>"
    have run: "process_and_commit env ti (PvDict payload) ?e ?db = (r, db1)"
      using assms(1-3) ti False by (auto simp: handle_event_def Let_def split: prod.splits)
    have "db_cs_events ?db = db_cs_events db @ [?e]" "ce_id ?e \<notin> ce_id ` set (db_cs_events db)"
      using fresh_not_in by (simp_all add: new_event_def)
    from process_and_commit_cases [OF run this] show ?thesis
      by cases (auto simp: event_exists_def new_event_def)
  qed
  then show ?thesis using assms(4,5) by (simp add: handle_event_def)
qed

definition sample_event_env :: event_env where
  "sample_event_env = \<lparr>en_eval = sample_env, en_validate_up = (\<lambda>_. Inl ''no model''), en_validate_txack = (\<lambda>_. Inl ''no model''),
     en_validate_network_ack = (\<lambda>_. Inl ''no model''), en_ack_error_text = (\<lambda>_. []),
     en_dump = (\<lambda>_. []), en_redis_publish = (\<lambda>_ _. Published 0), en_raced = False\<rparr>"

definition sample_topic :: string where
  "sample_topic = ''application/app/device/0102030405060708/event/up''"

definition sample_payload :: "(string \<times> py_value) list" where
  "sample_payload = [(''deduplicationId'', PvStr ''k1'')]"

lemma sample_topic_parses: "parse_event_topic sample_topic =
    Inr \<lparr>ti_application_id = ''app'', ti_dev_eui = sample_eui, ti_event_type = ''up''\<rparr>"
  by code_simp

lemma sample_dedup: "deduplication_id_of sample_payload = Inr (Some ''k1'')"
  by (simp add: deduplication_id_of_def sample_payload_def)

lemma sample_handled: "\<exists>r db1. handle_event sample_event_env sample_topic sample_payload empty_db = (Inr r, db1)"
  by (auto simp: handle_event_def sample_topic_parses sample_dedup Let_def event_exists_def empty_db_def
      sample_event_env_def split: prod.split)

theorem duplicate_event_ignored_witness:
  "\<exists>r db1. handle_event sample_event_env sample_topic sample_payload empty_db = (Inr r, db1) \<and>
     handle_event sample_event_env sample_topic sample_payload db1 = (Inr (result_of True ''duplicate''), db1)"
proof -
  obtain r db1 where run: "handle_event sample_event_env sample_topic sample_payload empty_db = (Inr r, db1)"
    using sample_handled by blast
  have "\<not> en_raced sample_event_env" by (simp add: sample_event_env_def)
  from duplicate_event_ignored [OF run this sample_dedup sample_dedup sample_topic_parses] run show ?thesis by blast
qed

text \<open>
  Property C28. A failing event is stored as unprocessed with its error.  If its processing raised,
  nothing else changes and nothing is published.  If processing succeeded and only the publication
  raised, which no Redis error does, what processing stored stays, the pending commands are
  flushed, nothing was published, and the event is unprocessed all the same.  The stored message
  is the first 500 characters of the reported failure.
\<close>
theorem failed_event_is_isolated:
  assumes "handle_event env tpc payload db = (Inr r, db')" "hr_processed_kind r = Some ''error''"
  shows "\<exists>ti dedup e err. parse_event_topic tpc = Inr ti \<and> deduplication_id_of payload = Inr dedup \<and>
    \<not> hr_success r \<and> hr_failure_reason r = Some err \<and>
    \<not> ce_processed e \<and> ce_error_message e = Some (take 500 err) \<and> ce_topic e = tpc \<and> ce_deduplication_id e = dedup \<and>
    (let event = new_event db ti dedup tpc payload;
         (out, dbx) = process_event env ti (PvDict payload) event (db\<lparr>db_cs_events := db_cs_events db @ [event]\<rparr>)
     in case out of
          Inl err' \<Rightarrow> err = err' \<and> db' = db\<lparr>db_cs_events := db_cs_events db @ [e]\<rparr>
        | Inr (res, _) \<Rightarrow> publish_fails env res err \<and>
            db' = (flush_commands (now_of env) dbx)\<lparr>db_cs_events := db_cs_events db @ [e], db_published := db_published db\<rparr>)"
proof -
  obtain ti dedup where ti: "parse_event_topic tpc = Inr ti" "deduplication_id_of payload = Inr dedup"
    using assms(1) by (cases "parse_event_topic tpc"; cases "deduplication_id_of payload") (auto simp: handle_event_def)
  let ?e = "new_event db ti dedup tpc payload"
  let ?db = "db\<lparr>db_cs_events := db_cs_events db @ [?e]\<rparr>"
  have run: "process_and_commit env ti (PvDict payload) ?e ?db = (r, db')"
    using assms(1,2) ti by (auto simp: handle_event_def result_of_def Let_def split: prod.splits if_splits)
  have "db_cs_events ?db = db_cs_events db @ [?e]" "ce_id ?e \<notin> ce_id ` set (db_cs_events db)"
    using fresh_not_in by (simp_all add: new_event_def)
  note cases = process_and_commit_cases [OF run this]
  show ?thesis
  proof (rule cases)
    fix err dbx
    assume f: "process_event env ti (PvDict payload) ?e ?db = (Inl err, dbx)" "\<not> hr_success r" "hr_failure_reason r = Some err"
      "db' = ?db\<lparr>db_cs_events := db_cs_events db @ [?e\<lparr>ce_processed := False, ce_error_message := Some (take 500 err)\<rparr>]\<rparr>"
    show ?thesis
      using ti f by (intro exI [of _ ti] exI [of _ dedup] exI [of _ "?e\<lparr>ce_processed := False, ce_error_message := Some (take 500 err)\<rparr>"]
          exI [of _ err]) (simp add: new_event_def)
  next
    fix res e dbx err
    assume f: "process_event env ti (PvDict payload) ?e ?db = (Inr (res, e), dbx)" "\<not> hr_success r" "hr_failure_reason r = Some err"
      "db' = (flush_commands (now_of env) dbx)\<lparr>db_cs_events := db_cs_events db @ [e\<lparr>ce_processed := False, ce_error_message := Some (take 500 err)\<rparr>],
         db_published := db_published ?db\<rparr>" "publish_fails env res err"
      "ce_deduplication_id e = ce_deduplication_id ?e" "ce_topic e = ce_topic ?e"
    show ?thesis
      using ti f by (intro exI [of _ ti] exI [of _ dedup] exI [of _ "e\<lparr>ce_processed := False, ce_error_message := Some (take 500 err)\<rparr>"]
          exI [of _ err]) (simp add: new_event_def)
  qed (use assms(2) in auto)
qed

definition sample_device_db :: tlrs_db where
  "sample_device_db = empty_db\<lparr>db_devices := [sample_device]\<rparr>"

lemma sample_known_device: "db_devices db = [sample_device] \<Longrightarrow> get_device db sample_eui = Inr (Some sample_device)"
  by (simp add: get_device_def text_error_def sample_device_def)

lemma sample_application: "validate_device_application_id sample_device ''app'' = None"
  by (simp add: sample_device_def) code_simp

lemma sample_processing_fails:
  assumes "db_devices db = [sample_device]"
  shows "process_event sample_event_env \<lparr>ti_application_id = ''app'', ti_dev_eui = sample_eui, ti_event_type = ''up''\<rparr>
    payload event db = (Inl ''Invalid ChirpStack up payload: no model'', db)"
  using assms by (simp add: process_event_def process_up_event_def sample_known_device sample_application
      validate_up_event_def sample_event_env_def)

lemma sample_rejected:
  "\<exists>r db'. handle_event sample_event_env sample_topic sample_payload sample_device_db = (Inr r, db') \<and>
     hr_processed_kind r = Some ''error''"
proof -
  have "\<not> event_exists sample_device_db ''k1''" "\<not> en_raced sample_event_env"
    by (simp_all add: event_exists_def sample_device_db_def empty_db_def sample_event_env_def)
  moreover have "hr_processed_kind (fst (process_and_commit sample_event_env
      \<lparr>ti_application_id = ''app'', ti_dev_eui = sample_eui, ti_event_type = ''up''\<rparr> payload event
      (sample_device_db\<lparr>db_cs_events := es\<rparr>))) = Some ''error''" for payload event es
    by (simp add: process_and_commit_def sample_processing_fails sample_device_db_def Let_def result_of_def)
  ultimately show ?thesis
    by (auto simp: handle_event_def sample_topic_parses sample_dedup Let_def split: prod.split) (metis fst_conv surj_pair)+
qed

theorem failed_event_is_isolated_witness:
  "\<exists>r db' e. handle_event sample_event_env sample_topic sample_payload sample_device_db = (Inr r, db') \<and>
     db' = sample_device_db\<lparr>db_cs_events := db_cs_events sample_device_db @ [e]\<rparr> \<and> \<not> ce_processed e"
proof -
  obtain r db' where run: "handle_event sample_event_env sample_topic sample_payload sample_device_db = (Inr r, db')"
    and err: "hr_processed_kind r = Some ''error''"
    using sample_rejected by blast
  have fails: "process_event sample_event_env \<lparr>ti_application_id = ''app'', ti_dev_eui = sample_eui, ti_event_type = ''up''\<rparr> (PvDict sample_payload)
      e (sample_device_db\<lparr>db_cs_events := es\<rparr>) = (Inl ''Invalid ChirpStack up payload: no model'', sample_device_db\<lparr>db_cs_events := es\<rparr>)" for e es
    by (rule sample_processing_fails) (simp add: sample_device_db_def)
  from failed_event_is_isolated [OF run err] sample_topic_parses sample_dedup run show ?thesis
    by (auto simp: Let_def fails)
qed

end
