(* ===== verification/Command_Lifecycle.thy ===== *)
theory Command_Lifecycle
  imports ChirpStack_Events
begin

text \<open>
  The life of a command as a step relation: every change that a component makes to a stored
  command is a step, and the components refine the relation - the rows after a dispatcher
  cycle, an acknowledgement or a network event are reached by steps from the rows before.
\<close>

subsection \<open>Steps\<close>

inductive cmd_step :: "device_command \<Rightarrow> device_command \<Rightarrow> bool" where
  expire: "is_overdue now c \<Longrightarrow> cmd_step c (expire_command now c)"
| enqueue: "is_due t c \<Longrightarrow> enqueue_command now tr c (w :: unit) = (c', w') \<Longrightarrow> cmd_step c c'"
| application_ack: "cmd_step c (apply_ack now p c)"
| txack: "cmd_step c (txack_command now tx c)"
| network_ack: "cmd_step c (network_ack_command now na c)"

inductive_cases cmd_stepE: "cmd_step c c'"
inductive_simps cmd_step_iff: "cmd_step c c'"

inductive reachable :: "device_command \<Rightarrow> device_command \<Rightarrow> bool" for c0 where
  start: "reachable c0 c0"
| step: "reachable c0 c \<Longrightarrow> cmd_step c c' \<Longrightarrow> reachable c0 c'"

lemma reachable_trans: "reachable b c \<Longrightarrow> reachable a b \<Longrightarrow> reachable a c"
  by (induction rule: reachable.induct) (auto intro: reachable.step)

lemma reachable_one: "cmd_step c c' \<Longrightarrow> reachable c c'"
  by (auto intro: reachable.intros)

text \<open>What the transport's world is does not matter: it enters a step only through the answer.\<close>

lemma enqueue_step:
  assumes "is_due t c" "enqueue_command now tr c w = (c', w')"
  shows "cmd_step c c'"
proof -
  let ?tr = "\<lambda>c (u :: unit). (fst (tr c w), ())"
  have "enqueue_command now ?tr c () = (c', ())"
    using assms(2) by (auto simp: enqueue_command_def Let_def split: prod.splits if_splits)
  with assms(1) show ?thesis by (rule cmd_step.enqueue)
qed

subsection \<open>Invariants\<close>

definition identity_of :: "device_command \<Rightarrow> nat \<times> string \<times> int option \<times> nat \<times> nat option \<times> nat option \<times> command_type" where
  "identity_of c = (cmd_id c, cmd_uuid c, cmd_seq c, cmd_device_id c, cmd_asset_id c, cmd_event_id c, cmd_type c)"

definition frame_of :: "device_command \<Rightarrow> string \<times> py_value \<times> int \<times> bool \<times> int \<times> int option" where
  "frame_of c = (cmd_topic c, cmd_payload c, cmd_qos c, cmd_retain c, cmd_created_at c, cmd_expires_at c)"

lemmas step_defs = expire_command_def enqueue_command_def apply_ack_def txack_command_def
  network_ack_command_def is_overdue_def is_due_def terminal_status_def

lemma step_keeps_identity: "cmd_step c c' \<Longrightarrow> identity_of c' = identity_of c \<and> frame_of c' = frame_of c"
  by (erule cmd_stepE)
    (auto simp: identity_of_def frame_of_def step_defs Let_def split: prod.splits if_splits option.splits bool.splits)

text \<open>Which timestamps a status implies.\<close>

definition timestamps_ok :: "device_command \<Rightarrow> bool" where
  "timestamps_ok c = (case cmd_status c of
     CMD_PENDING \<Rightarrow> cmd_sent_at c = None \<and> cmd_ack_at c = None \<and> cmd_failed_at c = None
   | CMD_SENT \<Rightarrow> cmd_sent_at c \<noteq> None \<and> cmd_failed_at c = None
   | CMD_ACKED \<Rightarrow> cmd_ack_at c \<noteq> None \<and> cmd_failed_at c = None
   | CMD_FAILED \<Rightarrow> cmd_failed_at c \<noteq> None
   | CMD_EXPIRED \<Rightarrow> True)"

lemma timestamps_expire: "timestamps_ok c \<Longrightarrow> timestamps_ok (expire_command now c)"
  by (simp add: timestamps_ok_def expire_command_def)

lemma timestamps_enqueue:
  "timestamps_ok c \<Longrightarrow> is_due t c \<Longrightarrow> enqueue_command now tr c w = (c', w') \<Longrightarrow> timestamps_ok c'"
  by (auto simp: timestamps_ok_def enqueue_command_def is_due_def Let_def split: prod.splits if_splits)

lemma timestamps_ack: "timestamps_ok (apply_ack now p c)"
  by (simp add: timestamps_ok_def apply_ack_def)

lemma timestamps_txack: "timestamps_ok c \<Longrightarrow> timestamps_ok (txack_command now tx c)"
  by (cases "cmd_status c")
    (auto simp: timestamps_ok_def txack_command_def terminal_status_def Let_def)

lemma timestamps_network_ack: "timestamps_ok c \<Longrightarrow> timestamps_ok (network_ack_command now na c)"
  by (cases "cmd_status c"; cases "na_acknowledged na"; cases "the (na_acknowledged na)")
    (auto simp: timestamps_ok_def network_ack_command_def terminal_status_def Let_def)

lemma timestamps_step: "cmd_step c c' \<Longrightarrow> timestamps_ok c \<Longrightarrow> timestamps_ok c'"
  by (erule cmd_stepE)
    (auto intro: timestamps_expire timestamps_enqueue timestamps_ack timestamps_txack timestamps_network_ack)

lemma never_pending_again: "cmd_step c c' \<Longrightarrow> cmd_status c \<noteq> CMD_PENDING \<Longrightarrow> cmd_status c' \<noteq> CMD_PENDING"
  by (erule cmd_stepE)
    (auto simp: step_defs Let_def split: prod.splits if_splits option.splits bool.splits)

text \<open>Only an application acknowledgement leaves a terminal status.\<close>

lemma terminal_kept:
  assumes "terminal_status (cmd_status c)"
  shows "\<not> is_overdue now c" "\<not> is_due t c"
    "cmd_status (txack_command now tx c) = cmd_status c" "cmd_status (network_ack_command now na c) = cmd_status c"
  using assms by (auto simp: step_defs Let_def split: option.splits bool.splits)

lemma terminal_left:
  assumes "cmd_step c c'" "terminal_status (cmd_status c)" "cmd_status c' \<noteq> cmd_status c"
  shows "\<exists>now p. c' = apply_ack now p c"
  using assms by (auto simp: cmd_step_iff terminal_kept)

subsection \<open>The components refine the steps\<close>

definition rows_reached :: "device_command list \<Rightarrow> device_command list \<Rightarrow> bool" where
  "rows_reached rows rows' \<longleftrightarrow> list_all2 reachable rows rows'"

lemma rows_reached_refl [simp]: "rows_reached rows rows"
  by (simp add: rows_reached_def list_all2_refl reachable.start)

lemma rows_reached_trans: "rows_reached a b \<Longrightarrow> rows_reached b c \<Longrightarrow> rows_reached a c"
  unfolding rows_reached_def by (rule list_all2_trans) (auto intro: reachable_trans)

lemma rows_reached_put:
  assumes "distinct (map cmd_id rows)" "c \<in> set rows" "cmd_step c c'" "cmd_id c' = cmd_id c"
  shows "rows_reached rows (put cmd_id c' rows)"
proof -
  have "reachable x (if cmd_id x = cmd_id c' then c' else x)" if "x \<in> set rows" for x
    using same_key_same_row [OF assms(1) that assms(2)] assms(3,4)
    by (auto intro: reachable_one reachable.start)
  then show ?thesis by (simp add: rows_reached_def put_def list_all2_map2 list_all2_same)
qed

lemma rows_reached_ids: "rows_reached rows rows' \<Longrightarrow> map cmd_id rows' = map cmd_id rows"
proof -
  have id: "cmd_id c' = cmd_id c" if "reachable c c'" for c c'
    using that by (induction rule: reachable.induct) (auto dest: step_keeps_identity simp: identity_of_def)
  show "map cmd_id rows' = map cmd_id rows" if "rows_reached rows rows'"
    using that unfolding rows_reached_def by (induction rows rows' rule: list_all2_induct) (auto simp: id)
qed

lemma dispatch_loop_reached:
  assumes "distinct (map cmd_id rows)" "dispatch_loop clock tr i n rows w = (rows', w')"
  shows "rows_reached rows rows'"
  using assms
proof (induction n arbitrary: i rows w)
  case (Suc n)
  show ?case
  proof (cases "next_due (fst (clock i)) rows")
    case (Some d)
    obtain d' v where d': "enqueue_command (snd (clock i)) tr d w = (d', v)"
      by (cases "enqueue_command (snd (clock i)) tr d w")
    note due = next_due_Some [OF Some]
    have "rows_reached rows (put cmd_id d' rows)"
      using Suc.prems(1) due enqueue_step [OF _ d'] enqueue_keeps_id [OF d'] by (intro rows_reached_put) auto
    moreover have "rows_reached (put cmd_id d' rows) rows'"
      by (rule Suc.IH) (use Suc.prems Some d' in simp_all)
    ultimately show ?thesis by (rule rows_reached_trans)
  qed (use Suc.prems in simp)
qed simp

lemma put_commands_reached:
  assumes "distinct (map cmd_id rows)" "distinct (map cmd_id cs)" "\<forall>c \<in> set cs. c \<in> set rows \<and> cmd_step c (f c)"
  shows "rows_reached rows (put_commands (map f cs) rows)"
  using assms unfolding put_commands_def
proof (induction cs arbitrary: rows)
  case (Cons c cs)
  have c: "c \<in> set rows" "cmd_step c (f c)" using Cons.prems(3) by simp_all
  have id: "cmd_id (f c) = cmd_id c" using step_keeps_identity [OF c(2)] by (simp add: identity_of_def)
  have "x \<in> set (put cmd_id (f c) rows)" if "x \<in> set cs" for x
  proof -
    have "cmd_id x \<in> cmd_id ` set cs" using that by (rule imageI)
    then have "cmd_id x \<noteq> cmd_id (f c)" using Cons.prems(2) id by auto
    with that Cons.prems(3) show ?thesis by (force simp: put_def)
  qed
  then have "rows_reached (put cmd_id (f c) rows) (fold (put cmd_id) (map f cs) (put cmd_id (f c) rows))"
    using Cons.prems by (intro Cons.IH) auto
  moreover have "rows_reached rows (put cmd_id (f c) rows)"
    by (rule rows_reached_put [OF Cons.prems(1) c id])
  ultimately show ?case using rows_reached_trans by auto
qed simp

lemma expired_ids: "distinct (map cmd_id rows) \<Longrightarrow> distinct (map cmd_id (expired_commands now k rows))"
  using distinct_expired_ids [of rows now k] by (simp add: comp_def)

lemma process_once_reached:
  assumes "distinct (map cmd_id (db_commands db))" "process_once now clock tr k db w = (db', w')"
  shows "rows_reached (db_commands db) (db_commands db')"
proof -
  let ?rows = "db_commands db"
  have "rows_reached ?rows (after_expiry now k ?rows)"
    unfolding after_expiry_def using assms(1) expired_overdue [of _ now k ?rows]
    by (intro put_commands_reached expired_ids) (auto intro: cmd_step.expire)
  moreover obtain rows' where run: "dispatch_loop clock tr 0 (k - length (expired_commands now k ?rows))
      (after_expiry now k ?rows) w = (rows', w')" and rows': "db_commands db' = rows'"
    using assms(2) by (auto simp: process_once_eq split: prod.splits)
  moreover have "rows_reached (after_expiry now k ?rows) rows'"
    by (rule dispatch_loop_reached [OF distinct_after_expiry [OF assms(1)] run])
  ultimately show ?thesis using rows_reached_trans rows' by blast
qed

subsection \<open>Properties\<close>

text \<open>
  Property C11. Over its whole life a command keeps its identity and its frame (what it is,
  whose it is, where it goes and when it expires), never becomes pending again once it has
  left that state, and its timestamps fit its status: a sent command has a sending time, an
  acknowledged one an acknowledgement time and no failure time, a failed one a failure time.
\<close>
theorem command_lifecycle:
  assumes "reachable c0 c" "cmd_status c0 = CMD_PENDING" "timestamps_ok c0"
  shows "identity_of c = identity_of c0 \<and> frame_of c = frame_of c0 \<and> timestamps_ok c \<and>
    (\<forall>c'. reachable c c' \<longrightarrow> cmd_status c \<noteq> CMD_PENDING \<longrightarrow> cmd_status c' \<noteq> CMD_PENDING)"
proof -
  have "identity_of c = identity_of c0 \<and> frame_of c = frame_of c0 \<and> timestamps_ok c"
    using assms by (induction rule: reachable.induct) (auto dest: step_keeps_identity timestamps_step)
  moreover have "cmd_status c' \<noteq> CMD_PENDING" if "reachable c c'" "cmd_status c \<noteq> CMD_PENDING" for c'
    using that by (induction rule: reachable.induct) (auto dest: never_pending_again)
  ultimately show ?thesis by blast
qed

definition sample_ack :: "ack_status \<Rightarrow> ack_payload" where
  "sample_ack s = \<lparr>ap_command_id = None, ap_command_seq = Some 1, ap_status = s, ap_executed_at = None,
     ap_error_message = None\<rparr>"

theorem command_lifecycle_witness:
  "\<exists>c. reachable sample_command c \<and> cmd_status c = CMD_ACKED \<and> timestamps_ok c \<and> frame_of c = frame_of sample_command"
proof -
  let ?c = "apply_ack 5 (sample_ack EXECUTED) sample_command"
  have "reachable sample_command ?c" by (rule reachable_one [OF cmd_step.application_ack])
  moreover have "cmd_status sample_command = CMD_PENDING" "timestamps_ok sample_command"
    by (simp_all add: sample_command_def timestamps_ok_def)
  moreover have "cmd_status ?c = CMD_ACKED" by (simp add: apply_ack_def sample_ack_def)
  ultimately show ?thesis using command_lifecycle by blast
qed

text \<open>
  A dispatcher cycle refines the life cycle: row by row, the commands afterwards are
  reached by steps from the commands before.
\<close>
theorem dispatcher_refines_lifecycle:
  assumes "distinct (map cmd_id (db_commands db))" "process_once now clock tr k db w = (db', w')"
  shows "list_all2 reachable (db_commands db) (db_commands db')"
  using process_once_reached [OF assms] by (simp add: rows_reached_def)

theorem dispatcher_refines_lifecycle_witness:
  "\<exists>db' w'. process_once 5 (\<lambda>_. (5, 5)) (failing_transport False) 50 two_commands 0 = (db', w') \<and>
     list_all2 reachable (db_commands two_commands) (db_commands db')"
proof -
  have ids: "distinct (map cmd_id (db_commands two_commands))" by (simp add: two_commands_ids)
  obtain db' w' where run: "process_once 5 (\<lambda>_. (5, 5)) (failing_transport False) 50 two_commands 0 = (db', w')"
    by (cases "process_once 5 (\<lambda>_. (5, 5)) (failing_transport False) 50 two_commands 0")
  from dispatcher_refines_lifecycle [OF ids run] run show ?thesis by blast
qed

text \<open>
  A terminal status is left only through an application acknowledgement, and that
  step checks nothing: whatever status a command has, an \<open>EXECUTED\<close> acknowledgement makes it
  acknowledged and a \<open>FAILED\<close> one makes it failed, an expired command included.
\<close>
theorem terminal_status_left_only_by_ack:
  "(cmd_step c c' \<and> terminal_status (cmd_status c) \<and> cmd_status c' \<noteq> cmd_status c \<longrightarrow>
      (\<exists>now p. c' = apply_ack now p c)) \<and>
   cmd_status (apply_ack now (sample_ack EXECUTED) c) = CMD_ACKED \<and>
   cmd_status (apply_ack now (sample_ack FAILED) c) = CMD_FAILED \<and>
   cmd_step c (apply_ack now p c)"
proof -
  have "cmd_status (apply_ack now (sample_ack EXECUTED) c) = CMD_ACKED"
    "cmd_status (apply_ack now (sample_ack FAILED) c) = CMD_FAILED"
    by (simp_all add: apply_ack_def sample_ack_def)
  then show ?thesis using terminal_left [of c c'] cmd_step.application_ack by blast
qed

theorem terminal_status_left_only_by_ack_witness:
  "\<exists>c. cmd_status c = CMD_EXPIRED \<and> terminal_status (cmd_status c) \<and>
     (\<exists>c'. cmd_step c c' \<and> cmd_status c' = CMD_ACKED)"
proof -
  let ?c = "sample_command\<lparr>cmd_status := CMD_EXPIRED\<rparr>"
  have "cmd_step ?c (apply_ack 0 (sample_ack EXECUTED) ?c)"
    "cmd_status (apply_ack 0 (sample_ack EXECUTED) ?c) = CMD_ACKED"
    using terminal_status_left_only_by_ack [of ?c ?c 0 "sample_ack EXECUTED"] by blast+
  moreover have "cmd_status ?c = CMD_EXPIRED" by simp
  ultimately show ?thesis by (intro exI [of _ ?c]) (auto simp: terminal_status_def)
qed

end
