(* ===== verification/Device_Assignment.thy ===== *)
theory Device_Assignment
  imports TLRS_Tables
begin

text \<open>
  Which asset a device tracks, now and at any time before,
  \<open>src/service/device_assignment_service.py\<close>: the column \<open>devices.asset_id\<close> is the present, the
  rows of \<open>device_asset_assignments\<close> are the history.  An operation either commits or rolls
  back; a commit checks the constraints of the two tables.  A row object that was never saved
  has the key 0 (Python's \<open>None\<close>): the keys of saved rows are positive.  \<open>with_for_update\<close> locks
  what is read, so that an operation is one step.  The model stands for the code below:

    \<^item> operations: \<open>assign_asset\<close>, \<open>release_asset\<close>, \<open>create_initial_assignment\<close> and the queries
    \<^item> \<open>timeline_ok\<close>: the invariant that ties the present to the history
    \<^item> \<open>asset_at\<close>: the abstract view, which asset a device tracks as a function of time
\<close>

subsection \<open>Constraints of the tables\<close>

datatype assignment_error = Assignment_Error string | Assignment_Invariant_Error string | Query_Error py_exc

fun assignment_message :: "assignment_error \<Rightarrow> string" where
  "assignment_message (Assignment_Error m) = m"
| "assignment_message (Assignment_Invariant_Error m) = m"
| "assignment_message (Query_Error _) = []"

definition query_result :: "(py_exc, 'a) res \<Rightarrow> (assignment_error, 'a) res" where
  "query_result r = (case r of Inl e \<Rightarrow> Inl (Query_Error e) | Inr x \<Rightarrow> Inr x)"

definition is_open :: "device_assignment \<Rightarrow> bool" where
  "is_open x \<longleftrightarrow> da_unassigned_at x = None"

definition device_constraints :: "device list \<Rightarrow> bool" where
  "device_constraints ds \<longleftrightarrow>
     list_all (\<lambda>d. d_protocol d = CHIRPSTACK \<longrightarrow>
       (case d_application_id d of None \<Rightarrow> False | Some s \<Rightarrow> list_ex (\<lambda>c. c \<noteq> CHR '' '') s)) ds \<and>
     list_all (\<lambda>d. d_active d \<longrightarrow> d_asset_id d \<noteq> None) ds \<and>
     (let live = filter (\<lambda>d. d_deleted d = CHR ''N'') ds
      in distinct (map d_serial live) \<and>
         distinct (map d_asset_id (filter (\<lambda>d. d_asset_id d \<noteq> None) live)) \<and>
         distinct (map d_dev_eui (filter (\<lambda>d. d_dev_eui d \<noteq> None) live)))"

definition assignment_constraints :: "device_assignment list \<Rightarrow> bool" where
  "assignment_constraints rows \<longleftrightarrow>
     list_all (\<lambda>x. case da_unassigned_at x of None \<Rightarrow> True | Some t \<Rightarrow> da_assigned_at x \<le> t) rows \<and>
     distinct (map da_device_id (filter is_open rows)) \<and>
     distinct (map da_asset_id (filter is_open rows))"

definition commit_db :: "tlrs_db \<Rightarrow> (assignment_error, tlrs_db) res" where
  "commit_db db = (if device_constraints (db_devices db) \<and> assignment_constraints (db_device_assignments db)
     then Inr db else Inl (Query_Error (Integrity_Error ''constraint violated'')))"

text \<open>\<open>try: ... except Exception: rollback; raise\<close>: what is left when the body raised is the database before.\<close>

definition transact :: "(tlrs_db \<Rightarrow> ('e, 'a \<times> tlrs_db) res) \<Rightarrow> (tlrs_db, 'e, 'a) act" where
  "transact body db = (case body db of Inl e \<Rightarrow> (Inl e, db) | Inr (r, db') \<Rightarrow> (Inr r, db'))"

subsection \<open>Queries\<close>

definition get_device_for_update :: "tlrs_db \<Rightarrow> nat \<Rightarrow> (assignment_error, device option) res" where
  "get_device_for_update db i = query_result (scalar_one_or_none
     (filter (\<lambda>d. d_id d = i \<and> d_deleted d = CHR ''N'') (db_devices db)))"

definition get_assignable_asset :: "tlrs_db \<Rightarrow> device \<Rightarrow> nat \<Rightarrow> (assignment_error, asset) res" where
  "get_assignable_asset db d asset_id =
     (if d_client_id d = None then Inl (Assignment_Error ''Device must belong to a client before assigning an asset.'')
      else bindE (query_result (scalar_one_or_none
        (filter (\<lambda>a. a_id a = asset_id \<and> a_client_id a = d_client_id d \<and> a_deleted a = CHR ''N'') (db_assets db))))
        (\<lambda>r. case r of
           None \<Rightarrow> Inl (Assignment_Error ''Asset not found for this device client.'')
         | Some a \<Rightarrow> if a_status a \<noteq> ACTIVE then Inl (Assignment_Error ''Asset is inactive.'') else Inr a))"

definition get_active_assignment_for_device :: "tlrs_db \<Rightarrow> nat \<Rightarrow> (assignment_error, device_assignment option) res" where
  "get_active_assignment_for_device db i = query_result (scalar_one_or_none
     (filter (\<lambda>x. da_device_id x = i \<and> is_open x) (db_device_assignments db)))"

definition in_effect :: "int \<Rightarrow> device_assignment \<Rightarrow> bool" where
  "in_effect t x \<longleftrightarrow> da_assigned_at x \<le> t \<and> (case da_unassigned_at x of None \<Rightarrow> True | Some u \<Rightarrow> t < u)"

definition get_assignment_for_device_at ::
  "tlrs_db \<Rightarrow> nat \<Rightarrow> int \<Rightarrow> (assignment_error, device_assignment option) res" where
  "get_assignment_for_device_at db i t = query_result (scalar_one_or_none
     (filter (\<lambda>x. da_device_id x = i \<and> in_effect t x) (db_device_assignments db)))"

definition get_asset_device_assignments ::
  "tlrs_db \<Rightarrow> nat \<Rightarrow> int option \<Rightarrow> int option \<Rightarrow> (assignment_error, device_assignment list) res" where
  "get_asset_device_assignments db asset_id date_from date_to =
     (if (case (date_from, date_to) of (Some f, Some t) \<Rightarrow> f \<ge> t | _ \<Rightarrow> False)
        then Inl (Assignment_Error ''date_from must be earlier than date_to.'')
      else Inr (sort_key da_assigned_at (filter (\<lambda>x. da_asset_id x = asset_id \<and>
        (case date_to of None \<Rightarrow> True | Some t \<Rightarrow> da_assigned_at x < t) \<and>
        (case date_from of None \<Rightarrow> True
         | Some f \<Rightarrow> (case da_unassigned_at x of None \<Rightarrow> True | Some u \<Rightarrow> f < u)))
        (db_device_assignments db))))"

definition ensure_asset_is_available :: "tlrs_db \<Rightarrow> nat \<Rightarrow> nat option \<Rightarrow> (assignment_error, unit) res" where
  "ensure_asset_is_available db asset_id device_id =
     bindE (query_result (scalar_one_or_none (map d_id (filter (\<lambda>d. d_asset_id d = Some asset_id \<and>
         d_deleted d = CHR ''N'' \<and> (case device_id of None \<Rightarrow> True | Some i \<Rightarrow> d_id d \<noteq> i)) (db_devices db)))))
       (\<lambda>r. guardE (r \<noteq> None) (Assignment_Error ''Asset already has a device assigned.''))"

definition validate_current_assignment :: "device \<Rightarrow> device_assignment option \<Rightarrow> (assignment_error, unit) res" where
  "validate_current_assignment d active =
     (case (d_asset_id d, active) of
        (None, None) \<Rightarrow> Inr ()
      | (None, Some _) \<Rightarrow> Inl (Assignment_Invariant_Error ''Device has an active assignment history but no current asset.'')
      | (Some _, None) \<Rightarrow> Inl (Assignment_Invariant_Error ''Device current asset has no active assignment history.'')
      | (Some a, Some x) \<Rightarrow> guardE (da_asset_id x \<noteq> a)
          (Assignment_Invariant_Error ''Device current asset does not match its active assignment history.''))"

subsection \<open>Operations\<close>

definition close_assignment :: "int \<Rightarrow> device_assignment option \<Rightarrow> device_assignment list \<Rightarrow> device_assignment list" where
  "close_assignment now active rows =
     (case active of None \<Rightarrow> rows | Some x \<Rightarrow> put da_id (x\<lparr>da_unassigned_at := Some now\<rparr>) rows)"

definition new_assignment :: "int \<Rightarrow> int \<Rightarrow> nat \<Rightarrow> nat \<Rightarrow> device_assignment list \<Rightarrow> device_assignment" where
  "new_assignment now created device_id asset_id rows = \<lparr>da_id = fresh da_id rows, da_device_id = device_id,
     da_asset_id = asset_id, da_assigned_at = now, da_unassigned_at = None, da_created_at = created\<rparr>"

text \<open>An inactive device becomes active with its first asset; its state waits for the next uplink.\<close>

definition activated :: "device \<Rightarrow> device" where
  "activated d = (if d_active d then d else d\<lparr>d_active := True, d_state := OFF\<rparr>)"

definition assign_asset :: "int \<Rightarrow> int \<Rightarrow> nat \<Rightarrow> nat \<Rightarrow> (tlrs_db, assignment_error, device option) act" where
  "assign_asset now created device_id asset_id = transact (\<lambda>db.
     bindE (get_device_for_update db device_id) (\<lambda>r. case r of
       None \<Rightarrow> Inr (None, db)
     | Some d \<Rightarrow>
         bindE (get_assignable_asset db d asset_id) (\<lambda>a.
         bindE (get_active_assignment_for_device db device_id) (\<lambda>active.
           if d_asset_id d = Some (a_id a) then
             (case active of
                None \<Rightarrow> Inl (Assignment_Invariant_Error ''Device current asset has no active assignment history.'')
              | Some x \<Rightarrow>
                  if da_asset_id x \<noteq> a_id a then
                    Inl (Assignment_Invariant_Error ''Device current asset does not match its active assignment history.'')
                  else if \<not> d_active d then
                    bindE (commit_db (db\<lparr>db_devices := put d_id (activated d) (db_devices db)\<rparr>))
                      (\<lambda>db'. Inr (Some (activated d), db'))
                  else Inr (Some d, db))
           else
             bindE (validate_current_assignment d active) (\<lambda>_.
             bindE (ensure_asset_is_available db (a_id a) (Some (d_id d))) (\<lambda>_.
               let rows = db_device_assignments db;
                   d' = activated (d\<lparr>d_asset_id := Some (a_id a)\<rparr>)
               in bindE (commit_db (db\<lparr>db_devices := put d_id d' (db_devices db),
                    db_device_assignments := close_assignment now active rows
                      @ [new_assignment now created (d_id d) (a_id a) rows]\<rparr>))
                  (\<lambda>db'. Inr (Some d', db'))))))))"

definition release_asset :: "int \<Rightarrow> nat \<Rightarrow> (tlrs_db, assignment_error, device option) act" where
  "release_asset now device_id = transact (\<lambda>db.
     bindE (get_device_for_update db device_id) (\<lambda>r. case r of
       None \<Rightarrow> Inr (None, db)
     | Some d \<Rightarrow>
         bindE (get_active_assignment_for_device db device_id) (\<lambda>active.
           if d_asset_id d = None then
             (if active \<noteq> None then Inl (Assignment_Invariant_Error ''Device has an active assignment history but no current asset.'')
              else Inr (Some d, db))
           else
             bindE (validate_current_assignment d active) (\<lambda>_.
               let d' = d\<lparr>d_asset_id := None, d_active := False, d_state := OFF\<rparr>
               in bindE (commit_db (db\<lparr>db_devices := put d_id d' (db_devices db),
                    db_device_assignments := close_assignment now active (db_device_assignments db)\<rparr>))
                  (\<lambda>db'. Inr (Some d', db'))))))"

definition create_initial_assignment ::
  "int \<Rightarrow> int \<Rightarrow> device \<Rightarrow> asset \<Rightarrow> (tlrs_db, assignment_error, device) act" where
  "create_initial_assignment now created d a = transact (\<lambda>db.
     bindE (guardE (d_id d \<noteq> 0) (Assignment_Error ''Initial assignment requires a device that has not been persisted.'')) (\<lambda>_.
     bindE (guardE (d_client_id d = None) (Assignment_Error ''Device must belong to a client before assigning an asset.'')) (\<lambda>_.
     bindE (guardE (a_id a = 0) (Assignment_Error ''Asset must be persisted before assignment.'')) (\<lambda>_.
     bindE (guardE (a_client_id a \<noteq> d_client_id d) (Assignment_Error ''Asset not found for this device client.'')) (\<lambda>_.
     bindE (guardE (a_deleted a \<noteq> CHR ''N'') (Assignment_Error ''Asset not found for this device client.'')) (\<lambda>_.
     bindE (guardE (a_status a \<noteq> ACTIVE) (Assignment_Error ''Asset is inactive.'')) (\<lambda>_.
     bindE (guardE (d_asset_id d \<noteq> None)
       (Assignment_Invariant_Error ''New device must not have an asset before its initial assignment.'')) (\<lambda>_.
     bindE (ensure_asset_is_available db (a_id a) None) (\<lambda>_.
       let d' = d\<lparr>d_id := fresh d_id (db_devices db), d_asset_id := Some (a_id a)\<rparr>;
           rows = db_device_assignments db
       in bindE (commit_db (db\<lparr>db_devices := db_devices db @ [d'],
            db_device_assignments := rows @ [new_assignment now created (d_id d') (a_id a) rows]\<rparr>))
          (\<lambda>db'. Inr (d', db')))))))))))"

subsection \<open>The invariant\<close>

definition ends_before :: "device_assignment \<Rightarrow> int \<Rightarrow> bool" where
  "ends_before x t \<longleftrightarrow> (case da_unassigned_at x of None \<Rightarrow> False | Some u \<Rightarrow> u \<le> t)"

definition apart :: "device_assignment \<Rightarrow> device_assignment \<Rightarrow> bool" where
  "apart x y \<longleftrightarrow> ends_before x (da_assigned_at y) \<or> ends_before y (da_assigned_at x)"

text \<open>
  An open row is the present of its device and the other way round; the rows of a device, and
  the rows of an asset, follow each other in time.
\<close>

definition timeline_ok :: "tlrs_db \<Rightarrow> bool" where
  "timeline_ok db \<longleftrightarrow>
     (let ds = db_devices db; rows = db_device_assignments db
      in distinct (map d_id ds) \<and> distinct (map da_id rows) \<and>
         (\<forall>x \<in> set rows. da_device_id x \<in> d_id ` set ds \<and>
            (\<forall>u. da_unassigned_at x = Some u \<longrightarrow> da_assigned_at x \<le> u)) \<and>
         (\<forall>x \<in> set rows. is_open x \<longrightarrow>
            (\<exists>d \<in> set ds. d_id d = da_device_id x \<and> d_deleted d = CHR ''N'' \<and> d_asset_id d = Some (da_asset_id x))) \<and>
         (\<forall>d \<in> set ds. \<forall>a. d_deleted d = CHR ''N'' \<and> d_asset_id d = Some a \<longrightarrow>
            (\<exists>x \<in> set rows. is_open x \<and> da_device_id x = d_id d \<and> da_asset_id x = a)) \<and>
         (\<forall>x \<in> set rows. \<forall>y \<in> set rows. da_id x \<noteq> da_id y \<and>
            (da_device_id x = da_device_id y \<or> da_asset_id x = da_asset_id y) \<longrightarrow> apart x y))"

text \<open>The clock has not gone back behind the times stored.\<close>

definition clock_ok :: "int \<Rightarrow> tlrs_db \<Rightarrow> bool" where
  "clock_ok now db \<longleftrightarrow> (\<forall>x \<in> set (db_device_assignments db). da_assigned_at x \<le> now \<and>
     (\<forall>u. da_unassigned_at x = Some u \<longrightarrow> u \<le> now))"

lemma timelineD:
  assumes "timeline_ok db"
  shows "distinct (map d_id (db_devices db))" "distinct (map da_id (db_device_assignments db))"
    and "x \<in> set (db_device_assignments db) \<Longrightarrow> da_device_id x \<in> d_id ` set (db_devices db)"
    and "x \<in> set (db_device_assignments db) \<Longrightarrow> da_unassigned_at x = Some u \<Longrightarrow> da_assigned_at x \<le> u"
    and "x \<in> set (db_device_assignments db) \<Longrightarrow> is_open x \<Longrightarrow>
      \<exists>d \<in> set (db_devices db). d_id d = da_device_id x \<and> d_deleted d = CHR ''N'' \<and> d_asset_id d = Some (da_asset_id x)"
    and "d \<in> set (db_devices db) \<Longrightarrow> d_deleted d = CHR ''N'' \<Longrightarrow> d_asset_id d = Some a \<Longrightarrow>
      \<exists>x \<in> set (db_device_assignments db). is_open x \<and> da_device_id x = d_id d \<and> da_asset_id x = a"
    and "x \<in> set (db_device_assignments db) \<Longrightarrow> y \<in> set (db_device_assignments db) \<Longrightarrow> da_id x \<noteq> da_id y \<Longrightarrow>
      da_device_id x = da_device_id y \<or> da_asset_id x = da_asset_id y \<Longrightarrow> apart x y"
  using assms by (auto simp: timeline_ok_def Let_def)

lemma not_apart_open: "is_open x \<Longrightarrow> is_open y \<Longrightarrow> \<not> apart x y"
  by (simp add: apart_def ends_before_def is_open_def)

lemma not_apart_in_effect: "in_effect t x \<Longrightarrow> in_effect t y \<Longrightarrow> \<not> apart x y"
  by (auto simp: apart_def ends_before_def in_effect_def split: option.splits)

lemma one_open_per_device:
  assumes "timeline_ok db" "x \<in> set (db_device_assignments db)" "y \<in> set (db_device_assignments db)"
    "is_open x" "is_open y" "da_device_id x = da_device_id y \<or> da_asset_id x = da_asset_id y"
  shows "da_id x = da_id y"
  using timelineD(7) [OF assms(1-3)] assms(4-6) not_apart_open by blast

subsection \<open>The abstract view\<close>

definition asset_at :: "tlrs_db \<Rightarrow> nat \<Rightarrow> int \<Rightarrow> nat option" where
  "asset_at db i t = (case get_assignment_for_device_at db i t of
     Inr (Some x) \<Rightarrow> Some (da_asset_id x) | _ \<Rightarrow> None)"

lemma get_at_eq:
  assumes "timeline_ok db"
  shows "get_assignment_for_device_at db i t =
    Inr (find (\<lambda>x. da_device_id x = i \<and> in_effect t x) (db_device_assignments db))"
proof -
  have "scalar_one_or_none (filter (\<lambda>x. da_device_id x = i \<and> in_effect t x) (db_device_assignments db)) =
      Inr (find (\<lambda>x. da_device_id x = i \<and> in_effect t x) (db_device_assignments db))"
    by (rule scalar_filter [OF timelineD(2) [OF assms]])
      (metis assms not_apart_in_effect timelineD(7))
  then show ?thesis by (simp add: get_assignment_for_device_at_def query_result_def)
qed

lemma asset_at_iff:
  assumes "timeline_ok db"
  shows "asset_at db i t = Some a \<longleftrightarrow>
    (\<exists>x \<in> set (db_device_assignments db). da_device_id x = i \<and> in_effect t x \<and> da_asset_id x = a)"
proof -
  let ?P = "\<lambda>x. da_device_id x = i \<and> in_effect t x"
  have same: "x = y" if "x \<in> set (db_device_assignments db)" "y \<in> set (db_device_assignments db)" "?P x" "?P y" for x y
    using that assms timelineD(2,7) [OF assms] not_apart_in_effect same_key_same_row by metis
  show ?thesis
  proof (cases "find ?P (db_device_assignments db)")
    case None
    then have "asset_at db i t = None" by (simp add: asset_at_def get_at_eq [OF assms])
    with None show ?thesis by (auto simp: find_None_iff)
  next
    case (Some x)
    then have "x \<in> set (db_device_assignments db)" "?P x" by (auto simp: find_Some_iff)
    with Some same show ?thesis by (auto simp: asset_at_def get_at_eq [OF assms])
  qed
qed

lemma option_eqI: "(\<And>a. x = Some a \<longleftrightarrow> y = Some a) \<Longrightarrow> x = y"
  by (cases x; cases y) auto

lemma active_assignment_eq:
  assumes "timeline_ok db"
  shows "get_active_assignment_for_device db i =
    Inr (find (\<lambda>x. da_device_id x = i \<and> is_open x) (db_device_assignments db))"
proof -
  have "scalar_one_or_none (filter (\<lambda>x. da_device_id x = i \<and> is_open x) (db_device_assignments db)) =
      Inr (find (\<lambda>x. da_device_id x = i \<and> is_open x) (db_device_assignments db))"
    by (rule scalar_filter [OF timelineD(2) [OF assms]]) (metis assms one_open_per_device)
  then show ?thesis by (simp add: get_active_assignment_for_device_def query_result_def)
qed

lemma device_for_update_eq:
  assumes "distinct (map d_id (db_devices db))"
  shows "get_device_for_update db i = Inr (find (\<lambda>d. d_id d = i \<and> d_deleted d = CHR ''N'') (db_devices db))"
  using scalar_filter [OF assms, of "\<lambda>d. d_id d = i \<and> d_deleted d = CHR ''N''"]
  by (simp add: get_device_for_update_def query_result_def)

text \<open>The open row of a live device is the present, and there is none without one.\<close>

lemma open_row_of_device:
  assumes ok: "timeline_ok db" and d: "d \<in> set (db_devices db)" "d_deleted d = CHR ''N''"
  shows "d_asset_id d = None \<Longrightarrow> get_active_assignment_for_device db (d_id d) = Inr None"
    and "d_asset_id d = Some a \<Longrightarrow> \<exists>x. get_active_assignment_for_device db (d_id d) = Inr (Some x) \<and>
      x \<in> set (db_device_assignments db) \<and> is_open x \<and> da_device_id x = d_id d \<and> da_asset_id x = a"
proof -
  have own: "d_asset_id d = Some (da_asset_id x)"
    if "x \<in> set (db_device_assignments db)" "is_open x" "da_device_id x = d_id d" for x
    using timelineD(5) [OF ok that(1,2)] same_key_same_row [OF timelineD(1) [OF ok] _ d(1)] that(3) by auto
  show "get_active_assignment_for_device db (d_id d) = Inr None" if "d_asset_id d = None"
    using own that by (auto simp: active_assignment_eq [OF ok] find_None_iff)
  show "\<exists>x. get_active_assignment_for_device db (d_id d) = Inr (Some x) \<and>
      x \<in> set (db_device_assignments db) \<and> is_open x \<and> da_device_id x = d_id d \<and> da_asset_id x = a"
    if a: "d_asset_id d = Some a"
  proof (cases "find (\<lambda>x. da_device_id x = d_id d \<and> is_open x) (db_device_assignments db)")
    case None
    with timelineD(6) [OF ok d a] show ?thesis by (auto simp: find_None_iff)
  next
    case (Some x)
    moreover from Some have "x \<in> set (db_device_assignments db)" "da_device_id x = d_id d" "is_open x"
      by (auto simp: find_Some_iff)
    ultimately show ?thesis using own [of x] a by (simp add: active_assignment_eq [OF ok])
  qed
qed

subsection \<open>One step of the history\<close>

text \<open>
  Every operation that changes the assignment of a live device \<open>d\<close> does the same: close the open
  row, if there is one, open a row for the new asset, if there is one, and write the device.
\<close>

definition switched ::
  "int \<Rightarrow> int \<Rightarrow> device \<Rightarrow> device_assignment option \<Rightarrow> nat option \<Rightarrow> tlrs_db \<Rightarrow> tlrs_db" where
  "switched now created d' active na db = db\<lparr>db_devices := put d_id d' (db_devices db),
     db_device_assignments := close_assignment now active (db_device_assignments db) @
       (case na of None \<Rightarrow> [] | Some a \<Rightarrow> [new_assignment now created (d_id d') a (db_device_assignments db)])\<rparr>"

definition current_row :: "tlrs_db \<Rightarrow> device \<Rightarrow> device_assignment option \<Rightarrow> bool" where
  "current_row db d active \<longleftrightarrow>
     (case active of
        None \<Rightarrow> \<forall>x \<in> set (db_device_assignments db). da_device_id x = d_id d \<longrightarrow> \<not> is_open x
      | Some x \<Rightarrow> x \<in> set (db_device_assignments db) \<and> da_device_id x = d_id d \<and> is_open x)"

lemma close_rows:
  assumes "distinct (map da_id rows)" "x \<in> set rows"
  shows "set (close_assignment now (Some x) rows) = insert (x\<lparr>da_unassigned_at := Some now\<rparr>) (set rows - {x})"
  using set_put [OF assms, where r = "x\<lparr>da_unassigned_at := Some now\<rparr>"] by (simp add: close_assignment_def)

lemma new_assignment_simps [simp]:
  "da_id (new_assignment now created i a rows) = fresh da_id rows"
  "da_device_id (new_assignment now created i a rows) = i"
  "da_asset_id (new_assignment now created i a rows) = a"
  "da_assigned_at (new_assignment now created i a rows) = now"
  "da_unassigned_at (new_assignment now created i a rows) = None"
  by (simp_all add: new_assignment_def)

lemma current_row_open:
  assumes "timeline_ok db" "current_row db d active" "x \<in> set (db_device_assignments db)"
    "is_open x" "da_device_id x = d_id d"
  shows "active = Some x"
proof (cases active)
  case None
  with assms show ?thesis by (auto simp: current_row_def)
next
  case (Some y)
  with assms have y: "y \<in> set (db_device_assignments db)" "is_open y" "da_device_id y = d_id d"
    by (auto simp: current_row_def)
  from assms(5) y(3) have "da_device_id x = da_device_id y \<or> da_asset_id x = da_asset_id y" by simp
  from one_open_per_device [OF assms(1,3) y(1) assms(4) y(2) this] have "da_id x = da_id y" .
  with Some same_key_same_row [OF timelineD(2) [OF assms(1)] assms(3) y(1)] show ?thesis by simp
qed

text \<open>The rows after a step, each with where it comes from.\<close>

lemma switched_row:
  assumes ok: "timeline_ok db" and cur: "current_row db d active" and id: "d_id d' = d_id d"
    and x: "x \<in> set (db_device_assignments (switched now created d' active na db))"
  shows "(x \<in> set (db_device_assignments db) \<and> (is_open x \<longrightarrow> da_device_id x \<noteq> d_id d)) \<or>
    (\<exists>x0. active = Some x0 \<and> x0 \<in> set (db_device_assignments db) \<and> is_open x0 \<and> da_device_id x0 = d_id d \<and>
       x = x0\<lparr>da_unassigned_at := Some now\<rparr>) \<or>
    (\<exists>a. na = Some a \<and> x = new_assignment now created (d_id d) a (db_device_assignments db))"
proof (cases active)
  case None
  with cur x show ?thesis
    by (auto simp: switched_def close_assignment_def current_row_def id split: option.splits)
next
  case (Some x0)
  with cur have x0: "x0 \<in> set (db_device_assignments db)" "is_open x0" "da_device_id x0 = d_id d"
    by (auto simp: current_row_def)
  have "x = x0\<lparr>da_unassigned_at := Some now\<rparr> \<or> (x \<in> set (db_device_assignments db) \<and> x \<noteq> x0) \<or>
      (\<exists>a. na = Some a \<and> x = new_assignment now created (d_id d) a (db_device_assignments db))"
    using x close_rows [OF timelineD(2) [OF ok] x0(1), of now]
    by (auto simp: switched_def Some id split: option.splits)
  moreover have "da_device_id x \<noteq> d_id d" if "x \<in> set (db_device_assignments db)" "x \<noteq> x0" "is_open x"
    using current_row_open [OF ok cur that(1,3)] Some that(2) by auto
  ultimately show ?thesis using Some x0 by auto
qed

lemma switched_rows_in:
  assumes ok: "timeline_ok db" and cur: "current_row db d active" and id: "d_id d' = d_id d"
  shows "x \<in> set (db_device_assignments db) \<Longrightarrow> is_open x \<longrightarrow> da_device_id x \<noteq> d_id d \<Longrightarrow>
      x \<in> set (db_device_assignments (switched now created d' active na db))"
    and "active = Some x0 \<Longrightarrow> x0\<lparr>da_unassigned_at := Some now\<rparr> \<in>
      set (db_device_assignments (switched now created d' active na db))"
    and "na = Some a \<Longrightarrow> new_assignment now created (d_id d) a (db_device_assignments db) \<in>
      set (db_device_assignments (switched now created d' active na db))"
proof -
  have mem: "y \<in> set (db_device_assignments db) \<and> is_open y \<and> da_device_id y = d_id d" if "active = Some y" for y
    using cur that by (simp add: current_row_def)
  show "x \<in> set (db_device_assignments (switched now created d' active na db))"
    if "x \<in> set (db_device_assignments db)" "is_open x \<longrightarrow> da_device_id x \<noteq> d_id d"
  proof (cases active)
    case None
    with that show ?thesis by (simp add: switched_def close_assignment_def)
  next
    case (Some y)
    with mem that have "x \<noteq> y" by auto
    with that mem [OF Some] show ?thesis
      by (simp add: switched_def Some close_rows [OF timelineD(2) [OF ok]])
  qed
  show "x0\<lparr>da_unassigned_at := Some now\<rparr> \<in> set (db_device_assignments (switched now created d' active na db))"
    if "active = Some x0"
    using mem [OF that] by (simp add: switched_def that close_rows [OF timelineD(2) [OF ok]])
  show "new_assignment now created (d_id d) a (db_device_assignments db) \<in>
      set (db_device_assignments (switched now created d' active na db))" if "na = Some a"
    by (simp add: switched_def that id)
qed

lemma closed_before_now:
  assumes "timeline_ok db" "clock_ok now db" "x \<in> set (db_device_assignments db)" "\<not> is_open x"
  shows "ends_before x now"
  using assms by (auto simp: clock_ok_def ends_before_def is_open_def)

lemma ends_before_mono: "ends_before x t \<Longrightarrow> t \<le> t' \<Longrightarrow> ends_before x t'"
  by (auto simp: ends_before_def split: option.splits)

lemma in_effect_cases:
  "in_effect t x \<longleftrightarrow> da_assigned_at x \<le> t \<and> \<not> ends_before x t"
  by (auto simp: in_effect_def ends_before_def split: option.splits)

lemma put_device_rows:
  assumes "distinct (map d_id ds)" "d \<in> set ds" "d_id d' = d_id d"
  shows "set (put d_id d' ds) = insert d' (set ds - {d})"
  using set_put [OF assms] .

lemma switch_effect:
  assumes ok: "timeline_ok db" and clk: "clock_ok now db" and cur: "current_row db d active" and id: "d_id d' = d_id d"
    and x: "(\<exists>x \<in> set (db_device_assignments (switched now created d' active na db)).
      da_device_id x = j \<and> in_effect t x \<and> da_asset_id x = a)"
  shows "if j = d_id d \<and> now \<le> t then na = Some a else asset_at db j t = Some a"
proof -
  obtain x where x: "x \<in> set (db_device_assignments (switched now created d' active na db))"
    "da_device_id x = j" "in_effect t x" "da_asset_id x = a" using x by blast
  from switched_row [OF ok cur id x(1)] consider
      (old) "x \<in> set (db_device_assignments db)" "is_open x \<longrightarrow> da_device_id x \<noteq> d_id d"
    | (closed) x0 where "active = Some x0" "x0 \<in> set (db_device_assignments db)" "is_open x0" "da_device_id x0 = d_id d"
        "x = x0\<lparr>da_unassigned_at := Some now\<rparr>"
    | (new) a' where "na = Some a'" "x = new_assignment now created (d_id d) a' (db_device_assignments db)"
    by blast
  then show ?thesis
  proof cases
    case old
    have "\<not> (j = d_id d \<and> now \<le> t)"
      using closed_before_now [OF ok clk old(1)] ends_before_mono old x(2,3) in_effect_cases by blast
    with old(1) x(2-4) show ?thesis by (auto simp: asset_at_iff [OF ok])
  next
    case closed
    then have "in_effect t x0" "t < now" using x(3) by (auto simp: in_effect_def is_open_def)
    with closed x(2,4) show ?thesis by (auto simp: asset_at_iff [OF ok])
  next
    case new
    with x(2-4) show ?thesis by (auto simp: in_effect_def)
  qed
qed

lemma switch_effect_conv:
  assumes ok: "timeline_ok db" and clk: "clock_ok now db" and cur: "current_row db d active" and id: "d_id d' = d_id d"
    and a: "if j = d_id d \<and> now \<le> t then na = Some a else asset_at db j t = Some a"
  shows "\<exists>x \<in> set (db_device_assignments (switched now created d' active na db)).
      da_device_id x = j \<and> in_effect t x \<and> da_asset_id x = a"
proof (cases "j = d_id d \<and> now \<le> t")
  case True
  with a have "na = Some a" by simp
  from switched_rows_in(3) [OF ok cur id this] True show ?thesis
    by (intro bexI [of _ "new_assignment now created (d_id d) a (db_device_assignments db)"]) (auto simp: in_effect_def)
next
  case False
  with a obtain x where x: "x \<in> set (db_device_assignments db)" "da_device_id x = j" "in_effect t x" "da_asset_id x = a"
    by (auto simp: asset_at_iff [OF ok])
  show ?thesis
  proof (cases "is_open x \<and> j = d_id d")
    case True
    then have act: "active = Some x" using current_row_open [OF ok cur x(1)] x(2) by simp
    from switched_rows_in(2) [OF ok cur id act] x True False show ?thesis
      by (intro bexI [of _ "x\<lparr>da_unassigned_at := Some now\<rparr>"]) (auto simp: in_effect_def)
  next
    case False
    then have "is_open x \<longrightarrow> da_device_id x \<noteq> d_id d" using x(2) by simp
    from switched_rows_in(1) [OF ok cur id x(1) this] x show ?thesis by blast
  qed
qed

lemma switch_rows_apart:
  assumes ok: "timeline_ok db" and clk: "clock_ok now db" and cur: "current_row db d active" and id: "d_id d' = d_id d"
    and free: "\<And>x. x \<in> set (db_device_assignments db) \<Longrightarrow> is_open x \<Longrightarrow> na = Some (da_asset_id x) \<Longrightarrow>
      da_device_id x = d_id d"
    and xy: "x \<in> set (db_device_assignments (switched now created d' active na db))"
      "y \<in> set (db_device_assignments (switched now created d' active na db))" "da_id x \<noteq> da_id y"
      "da_device_id x = da_device_id y \<or> da_asset_id x = da_asset_id y"
  shows "apart x y"
proof -
  define R where "R = set (db_device_assignments db)"
  have kinds: "(\<exists>z \<in> R. da_id z = da_id w \<and> da_device_id z = da_device_id w \<and> da_asset_id z = da_asset_id w \<and>
        da_assigned_at z = da_assigned_at w \<and> (\<forall>t. ends_before z t \<longrightarrow> ends_before w t) \<and>
        (da_device_id w = d_id d \<or> na = Some (da_asset_id w) \<longrightarrow> ends_before w now)) \<or>
      (\<exists>a. na = Some a \<and> w = new_assignment now created (d_id d) a (db_device_assignments db))"
    if w: "w \<in> set (db_device_assignments (switched now created d' active na db))" for w
  proof -
    from switched_row [OF ok cur id w] consider
        (old) "w \<in> R" "is_open w \<longrightarrow> da_device_id w \<noteq> d_id d"
      | (closed) x0 where "x0 \<in> R" "is_open x0" "da_device_id x0 = d_id d" "w = x0\<lparr>da_unassigned_at := Some now\<rparr>"
      | (new) "\<exists>a. na = Some a \<and> w = new_assignment now created (d_id d) a (db_device_assignments db)"
      by (auto simp: R_def)
    then show ?thesis
    proof cases
      case old
      then have "da_device_id w = d_id d \<or> na = Some (da_asset_id w) \<longrightarrow> ends_before w now"
        using closed_before_now [OF ok clk] free by (auto simp: R_def)
      with old show ?thesis by blast
    next
      case closed
      then show ?thesis by (intro disjI1 bexI [of _ x0]) (auto simp: ends_before_def is_open_def)
    qed blast
  qed
  have base: "apart z z'" if "z \<in> R" "z' \<in> R" "da_id z \<noteq> da_id z'"
      "da_device_id z = da_device_id z' \<or> da_asset_id z = da_asset_id z'" for z z'
    using timelineD(7) [OF ok] that by (simp add: R_def)
  from kinds [OF xy(1)] kinds [OF xy(2)] show ?thesis
  proof (elim disjE bexE exE conjE, goal_cases)
    case (1 z z')
    with base [of z z'] xy(3,4) show ?case by (auto simp: apart_def)
  next
    case (2 z a)
    with xy(4) show ?case by (auto simp: apart_def)
  next
    case (3 a z)
    with xy(4) show ?case by (auto simp: apart_def)
  next
    case (4 a a')
    with xy(3) show ?case by simp
  qed
qed

text \<open>A step keeps the invariant when nobody else tracks the new asset.\<close>

lemma switch_keeps:
  assumes ok: "timeline_ok db" and clk: "clock_ok now db" and cur: "current_row db d active"
    and d: "d \<in> set (db_devices db)" "d_deleted d = CHR ''N''"
    and d': "d_id d' = d_id d" "d_deleted d' = CHR ''N''" "d_asset_id d' = na"
    and free: "\<And>x. x \<in> set (db_device_assignments db) \<Longrightarrow> is_open x \<Longrightarrow> na = Some (da_asset_id x) \<Longrightarrow>
      da_device_id x = d_id d"
  shows "timeline_ok (switched now created d' active na db)"
proof -
  let ?db = "switched now created d' active na db"
  have devs: "set (db_devices ?db) = insert d' (set (db_devices db) - {d})"
    using put_device_rows [OF timelineD(1) [OF ok] d(1) d'(1)] by (simp add: switched_def)
  have ids: "d_id ` set (db_devices ?db) = d_id ` set (db_devices db)"
    by (simp add: switched_def)
  have "distinct (map d_id (db_devices ?db))" using timelineD(1) [OF ok] by (simp add: switched_def)
  moreover have "distinct (map da_id (db_device_assignments ?db))"
    using timelineD(2) [OF ok] fresh_not_in [of da_id "db_device_assignments db"]
    by (auto simp: switched_def close_assignment_def split: option.splits)
  moreover have "da_device_id x \<in> d_id ` set (db_devices ?db) \<and> (\<forall>u. da_unassigned_at x = Some u \<longrightarrow> da_assigned_at x \<le> u)"
    if "x \<in> set (db_device_assignments ?db)" for x
    using switched_row [OF ok cur d'(1) that] timelineD(3,4) [OF ok] clk d(1) ids
    by (auto simp: clock_ok_def)
  moreover have "\<exists>e \<in> set (db_devices ?db). d_id e = da_device_id x \<and> d_deleted e = CHR ''N'' \<and> d_asset_id e = Some (da_asset_id x)"
    if x: "x \<in> set (db_device_assignments ?db)" "is_open x" for x
    using switched_row [OF ok cur d'(1) x(1)]
  proof (elim disjE exE conjE)
    assume old: "x \<in> set (db_device_assignments db)" "is_open x \<longrightarrow> da_device_id x \<noteq> d_id d"
    with timelineD(5) [OF ok old(1) x(2)] x(2) show ?thesis unfolding devs by auto
  next
    fix a assume "na = Some a" "x = new_assignment now created (d_id d) a (db_device_assignments db)"
    then show ?thesis unfolding devs using d' by auto
  qed (use x(2) in \<open>auto simp: is_open_def\<close>)
  moreover have "\<exists>x \<in> set (db_device_assignments ?db). is_open x \<and> da_device_id x = d_id e \<and> da_asset_id x = a"
    if e: "e \<in> set (db_devices ?db)" "d_deleted e = CHR ''N''" "d_asset_id e = Some a" for e a
  proof (cases "e = d'")
    case True
    with e(3) d'(3) have "na = Some a" by simp
    from switched_rows_in(3) [OF ok cur d'(1) this] True d'(1) show ?thesis
      by (intro bexI [of _ "new_assignment now created (d_id d) a (db_device_assignments db)"]) (auto simp: is_open_def)
  next
    case False
    with e(1) devs have old: "e \<in> set (db_devices db)" "e \<noteq> d" by auto
    from timelineD(6) [OF ok old(1) e(2,3)] obtain x where
      x: "x \<in> set (db_device_assignments db)" "is_open x" "da_device_id x = d_id e" "da_asset_id x = a" by blast
    have "d_id e \<noteq> d_id d" using old d(1) same_key_same_row [OF timelineD(1) [OF ok]] by blast
    with switched_rows_in(1) [OF ok cur d'(1) x(1)] x show ?thesis by auto
  qed
  moreover have "apart x y"
    if "x \<in> set (db_device_assignments ?db)" "y \<in> set (db_device_assignments ?db)" "da_id x \<noteq> da_id y"
      "da_device_id x = da_device_id y \<or> da_asset_id x = da_asset_id y" for x y
    using switch_rows_apart [OF ok clk cur d'(1) free that] .
  ultimately show ?thesis unfolding timeline_ok_def Let_def by blast
qed

lemma switch_clock:
  assumes ok: "timeline_ok db" and clk: "clock_ok now db" and cur: "current_row db d active" and id: "d_id d' = d_id d"
    and "now \<le> later"
  shows "clock_ok later (switched now created d' active na db)"
  unfolding clock_ok_def
proof
  fix x assume "x \<in> set (db_device_assignments (switched now created d' active na db))"
  from switched_row [OF ok cur id this] clk assms(5)
  show "da_assigned_at x \<le> later \<and> (\<forall>u. da_unassigned_at x = Some u \<longrightarrow> u \<le> later)"
    by (fastforce simp: clock_ok_def)
qed

lemma switch_asset_at:
  assumes ok: "timeline_ok db" and clk: "clock_ok now db" and cur: "current_row db d active"
    and d: "d \<in> set (db_devices db)" "d_deleted d = CHR ''N''"
    and d': "d_id d' = d_id d" "d_deleted d' = CHR ''N''" "d_asset_id d' = na"
    and free: "\<And>x. x \<in> set (db_device_assignments db) \<Longrightarrow> is_open x \<Longrightarrow> na = Some (da_asset_id x) \<Longrightarrow>
      da_device_id x = d_id d"
  shows "asset_at (switched now created d' active na db) j t =
    (if j = d_id d \<and> now \<le> t then na else asset_at db j t)"
proof (rule option_eqI)
  fix a
  have "asset_at (switched now created d' active na db) j t = Some a \<longleftrightarrow>
      (\<exists>x \<in> set (db_device_assignments (switched now created d' active na db)).
        da_device_id x = j \<and> in_effect t x \<and> da_asset_id x = a)"
    by (rule asset_at_iff [OF switch_keeps [OF assms]])
  then show "asset_at (switched now created d' active na db) j t = Some a \<longleftrightarrow>
      (if j = d_id d \<and> now \<le> t then na else asset_at db j t) = Some a"
    using switch_effect [OF ok clk cur d'(1)] switch_effect_conv [OF ok clk cur d'(1), where na = na and a = a]
    by (metis (no_types))
qed

subsection \<open>The operations are steps\<close>

lemma commit_Inr: "commit_db db = Inr db' \<longleftrightarrow> db' = db \<and> device_constraints (db_devices db) \<and>
    assignment_constraints (db_device_assignments db)"
  by (auto simp: commit_db_def)

lemma device_lookup:
  assumes "timeline_ok db" "get_device_for_update db i = Inr (Some d)"
  shows "d \<in> set (db_devices db)" "d_id d = i" "d_deleted d = CHR ''N''"
  using assms by (auto simp: device_for_update_eq [OF timelineD(1)] find_Some_iff)

lemma active_lookup:
  assumes ok: "timeline_ok db" and "get_active_assignment_for_device db (d_id d) = Inr active"
  shows "current_row db d active"
  using assms by (auto simp: active_assignment_eq [OF ok] current_row_def find_None_iff find_Some_iff split: option.splits)

lemma available_free:
  assumes ok: "timeline_ok db" and av: "ensure_asset_is_available db a (Some i) = Inr u"
    and x: "x \<in> set (db_device_assignments db)" "is_open x" "da_asset_id x = a"
  shows "da_device_id x = i"
proof -
  obtain e where e: "e \<in> set (db_devices db)" "d_id e = da_device_id x" "d_deleted e = CHR ''N''" "d_asset_id e = Some a"
    using timelineD(5) [OF ok x(1,2)] x(3) by blast
  have none: "filter (\<lambda>d. d_asset_id d = Some a \<and> d_deleted d = CHR ''N'' \<and> d_id d \<noteq> i) (db_devices db) = []"
    using av by (auto simp: ensure_asset_is_available_def query_result_def res_simps scalar_one_or_none_None
        split: sum.splits)
  with e show ?thesis by (auto simp: filter_empty_conv)
qed

lemma assign_cases:
  assumes ok: "timeline_ok db" and run: "assign_asset now created i aid db = (Inr (Some d'), db')"
  obtains (same) d where "d \<in> set (db_devices db)" "d_id d = i" "d_deleted d = CHR ''N''" "d_asset_id d = Some aid"
      "d' = activated d" "db' = db\<lparr>db_devices := put d_id d' (db_devices db)\<rparr>"
  | (switch) d active where "d \<in> set (db_devices db)" "d_id d = i" "d_deleted d = CHR ''N''"
      "d' = activated (d\<lparr>d_asset_id := Some aid\<rparr>)" "current_row db d active"
      "ensure_asset_is_available db aid (Some (d_id d)) = Inr ()"
      "db' = switched now created d' active (Some aid) db"
proof -
  obtain d where d: "get_device_for_update db i = Inr (Some d)"
    using run by (cases "get_device_for_update db i")
      (auto simp: assign_asset_def transact_def res_simps split: sum.splits option.splits)
  note dev = device_lookup [OF ok d]
  obtain a where a: "get_assignable_asset db d aid = Inr a"
    using run d by (cases "get_assignable_asset db d aid") (auto simp: assign_asset_def transact_def)
  have aid: "a_id a = aid"
    using a by (auto simp: get_assignable_asset_def query_result_def res_simps scalar_one_or_none_Some
        filter_eq_Cons_iff split: if_splits sum.splits option.splits)
  obtain active where act: "get_active_assignment_for_device db (d_id d) = Inr active"
    using active_assignment_eq [OF ok] by blast
  have put_same: "put d_id d (db_devices db) = db_devices db"
    by (rule put_same_row [OF timelineD(1) [OF ok] dev(1)])
  show ?thesis
  proof (cases "d_asset_id d = Some aid")
    case True
    then have "d' = activated d \<and> db' = db\<lparr>db_devices := put d_id d' (db_devices db)\<rparr>"
      using run d a act dev(2) put_same
      by (auto simp: assign_asset_def transact_def aid activated_def commit_Inr res_simps split: option.splits if_splits sum.splits)
    with True dev same show ?thesis by blast
  next
    case False
    have "d' = activated (d\<lparr>d_asset_id := Some aid\<rparr>) \<and> ensure_asset_is_available db aid (Some (d_id d)) = Inr () \<and>
        db' = switched now created d' active (Some aid) db"
      using run d a act dev(2) False
      by (auto simp: assign_asset_def transact_def aid Let_def commit_Inr res_simps switched_def activated_def split: sum.splits if_splits)
    with dev active_lookup [OF ok act] switch show ?thesis by blast
  qed
qed

lemma release_cases:
  assumes ok: "timeline_ok db" and run: "release_asset now i db = (Inr (Some d'), db')"
  obtains (none) "d' \<in> set (db_devices db)" "d_id d' = i" "d_deleted d' = CHR ''N''" "d_asset_id d' = None" "db' = db"
  | (switch) d active where "d \<in> set (db_devices db)" "d_id d = i" "d_deleted d = CHR ''N''"
      "d' = d\<lparr>d_asset_id := None, d_active := False, d_state := OFF\<rparr>" "current_row db d active"
      "db' = switched now created d' active None db"
proof -
  obtain d where d: "get_device_for_update db i = Inr (Some d)"
    using run by (cases "get_device_for_update db i")
      (auto simp: release_asset_def transact_def res_simps split: sum.splits option.splits)
  note dev = device_lookup [OF ok d]
  obtain active where act: "get_active_assignment_for_device db (d_id d) = Inr active"
    using active_assignment_eq [OF ok] by blast
  show ?thesis
  proof (cases "d_asset_id d")
    case None
    then have "d' = d \<and> db' = db"
      using run d act dev(2) by (auto simp: release_asset_def transact_def split: if_splits)
    with None dev show ?thesis by (intro none) simp_all
  next
    case (Some a)
    have "d' = d\<lparr>d_asset_id := None, d_active := False, d_state := OFF\<rparr> \<and> db' = switched now created d' active None db"
      using run d act dev(2) Some
      by (auto simp: release_asset_def transact_def Let_def commit_Inr res_simps switched_def split: sum.splits)
    with dev active_lookup [OF ok act] switch show ?thesis by blast
  qed
qed

lemma activated_simps [simp]:
  "d_id (activated d) = d_id d" "d_deleted (activated d) = d_deleted d" "d_asset_id (activated d) = d_asset_id d"
  "d_serial (activated d) = d_serial d" "d_dev_eui (activated d) = d_dev_eui d"
  "d_application_id (activated d) = d_application_id d" "d_protocol (activated d) = d_protocol d"
  by (simp_all add: activated_def)

text \<open>What is tracked from now on when nothing is written.\<close>

lemma asset_at_present:
  assumes ok: "timeline_ok db" and clk: "clock_ok now db" and d: "d \<in> set (db_devices db)" "d_deleted d = CHR ''N''"
    and "now \<le> t"
  shows "asset_at db (d_id d) t = d_asset_id d"
proof (rule option_eqI)
  fix a
  have "(\<exists>x \<in> set (db_device_assignments db). da_device_id x = d_id d \<and> in_effect t x \<and> da_asset_id x = a) \<longleftrightarrow>
      (\<exists>x \<in> set (db_device_assignments db). da_device_id x = d_id d \<and> is_open x \<and> da_asset_id x = a)"
  proof (rule bex_cong [OF refl])
    fix x assume x: "x \<in> set (db_device_assignments db)"
    have "in_effect t x \<longleftrightarrow> is_open x"
      using clk x assms(5) by (fastforce simp: clock_ok_def in_effect_def is_open_def split: option.splits)
    then show "(da_device_id x = d_id d \<and> in_effect t x \<and> da_asset_id x = a) = (da_device_id x = d_id d \<and> is_open x \<and> da_asset_id x = a)"
      by simp
  qed
  also have "\<dots> \<longleftrightarrow> d_asset_id d = Some a"
    using timelineD(5) [OF ok] timelineD(6) [OF ok d] same_key_same_row [OF timelineD(1) [OF ok] _ d(1)] by metis
  finally show "asset_at db (d_id d) t = Some a \<longleftrightarrow> d_asset_id d = Some a"
    by (simp add: asset_at_iff [OF ok])
qed

lemma same_asset_keeps:
  assumes ok: "timeline_ok db" and d: "d \<in> set (db_devices db)"
    and d': "d_id d' = d_id d" "d_deleted d' = d_deleted d" "d_asset_id d' = d_asset_id d"
  shows "timeline_ok (db\<lparr>db_devices := put d_id d' (db_devices db)\<rparr>)"
proof -
  have devs: "set (put d_id d' (db_devices db)) = insert d' (set (db_devices db) - {d})"
    using put_device_rows [OF timelineD(1) [OF ok] d d'(1)] .
  let ?db = "db\<lparr>db_devices := put d_id d' (db_devices db)\<rparr>"
  have "\<exists>e \<in> set (db_devices ?db). d_id e = da_device_id x \<and> d_deleted e = CHR ''N'' \<and> d_asset_id e = Some (da_asset_id x)"
    if x: "x \<in> set (db_device_assignments db)" "is_open x" for x
    using timelineD(5) [OF ok x] d' by (auto simp: devs)
  moreover have "\<exists>x \<in> set (db_device_assignments db). is_open x \<and> da_device_id x = d_id e \<and> da_asset_id x = a"
    if "e \<in> set (db_devices ?db)" "d_deleted e = CHR ''N''" "d_asset_id e = Some a" for e a
    using that timelineD(6) [OF ok] d d' by (auto simp: devs)
  ultimately show ?thesis
    using timelineD(1-4) [OF ok] timelineD(7) [OF ok] unfolding timeline_ok_def Let_def by simp
qed

text \<open>A step of the timeline, as one lemma.\<close>

lemma assignment_step:
  assumes "timeline_ok db" "clock_ok now db"
    and "assign_asset now created i aid db = (Inr (Some d'), db') \<and> na = Some aid \<or>
      release_asset now i db = (Inr (Some d'), db') \<and> na = None"
  shows "timeline_ok db' \<and> (\<forall>later. now \<le> later \<longrightarrow> clock_ok later db') \<and> d_id d' = i \<and> d_asset_id d' = na \<and>
    asset_at db' = (\<lambda>j t. if j = i \<and> now \<le> t then na else asset_at db j t)"
proof -
  have switch: ?thesis
    if "d \<in> set (db_devices db)" "d_id d = i" "d_deleted d = CHR ''N''" "current_row db d active"
      "d_id d' = d_id d" "d_deleted d' = CHR ''N''" "d_asset_id d' = na"
      "\<And>x. x \<in> set (db_device_assignments db) \<Longrightarrow> is_open x \<Longrightarrow> na = Some (da_asset_id x) \<Longrightarrow> da_device_id x = d_id d"
      "db' = switched now created d' active na db" for d active
  proof -
    have "asset_at db' = (\<lambda>j t. if j = i \<and> now \<le> t then na else asset_at db j t)"
      unfolding that(9) by (intro ext) (simp only: switch_asset_at [OF assms(1,2) that(4,1,3,5-8)] that(2))
    moreover have "timeline_ok db'" unfolding that(9) by (rule switch_keeps [OF assms(1,2) that(4,1,3,5-8)])
    moreover have "clock_ok later db'" if "now \<le> later" for later
      unfolding \<open>db' = _\<close> by (rule switch_clock [OF assms(1,2) \<open>current_row db d active\<close> \<open>d_id d' = d_id d\<close> that])
    ultimately show ?thesis using that(2,5,7) by simp
  qed
  have still: ?thesis
    if "d \<in> set (db_devices db)" "d_id d = i" "d_deleted d = CHR ''N''" "d_asset_id d = na"
      "d_id d' = d_id d" "d_deleted d' = d_deleted d" "d_asset_id d' = d_asset_id d"
      "db' = db\<lparr>db_devices := put d_id d' (db_devices db)\<rparr>" for d
  proof -
    have "timeline_ok db'" using same_asset_keeps [OF assms(1) that(1,5-7)] that(8) by simp
    moreover have "asset_at db' = asset_at db"
      using that(8) by (intro ext) (simp add: asset_at_def get_assignment_for_device_at_def)
    moreover have "clock_ok later db'" if "now \<le> later" for later
      using assms(2) that \<open>db' = _\<close> by (force simp: clock_ok_def)
    ultimately show ?thesis
      using asset_at_present [OF assms(1,2) that(1,3)] that by (auto intro!: ext)
  qed
  from assms(3) show ?thesis
  proof (elim disjE conjE)
    assume run: "assign_asset now created i aid db = (Inr (Some d'), db')" and na: "na = Some aid"
    show ?thesis
    proof (cases rule: assign_cases [OF assms(1) run])
      case (1 d)
      with na show ?thesis by (intro still [of d]) auto
    next
      case (2 d active)
      with na available_free [OF assms(1)] show ?thesis by (intro switch [of d active]) auto
    qed
  next
    assume run: "release_asset now i db = (Inr (Some d'), db')" and na: "na = None"
    show ?thesis
    proof (cases rule: release_cases [where created = created, OF assms(1) run])
      case 1
      with na put_same_row [OF timelineD(1) [OF assms(1)] 1(1)] show ?thesis by (intro still [of d']) auto
    next
      case (2 d active)
      with na show ?thesis by (intro switch [of d active]) (auto simp: switched_def)
    qed
  qed
qed

text \<open>
  Property C4. Assigning or releasing an asset refines one update of the timeline: afterwards the
  device tracks the new asset (none after a release) at every time from now on, what any device
  tracked at any earlier time is as it was, and the invariant between the present and the
  history still holds.
\<close>
theorem assignment_history:
  assumes "timeline_ok db" "clock_ok now db"
    and "assign_asset now created i aid db = (Inr (Some d'), db') \<and> na = Some aid \<or>
      release_asset now i db = (Inr (Some d'), db') \<and> na = None"
  shows "timeline_ok db' \<and> (\<forall>later. now \<le> later \<longrightarrow> clock_ok later db') \<and> d_id d' = i \<and> d_asset_id d' = na \<and>
    asset_at db' = (\<lambda>j t. if j = i \<and> now \<le> t then na else asset_at db j t)"
  by (rule assignment_step [OF assms])

definition idle_device :: device where
  "idle_device = \<lparr>d_id = 1, d_serial = ''S1'', d_name = ''dev'', d_type = ''GPS'', d_last_seen_at = None,
     d_dev_eui = None, d_join_eui = None, d_application_id = Some ''app'',
     d_lorawan_class = None, d_device_profile_id = None, d_provisioning_status = NOT_PROVISIONED,
     d_provisioned_at = None, d_provisioning_error = None, d_app_key_last4 = None, d_deleted = CHR ''N'',
     d_state = OFF, d_protocol = CHIRPSTACK, d_client_id = Some 1, d_asset_id = None, d_active = False\<rparr>"

definition idle_db :: tlrs_db where
  "idle_db = empty_db\<lparr>db_devices := [idle_device],
     db_assets := [\<lparr>a_id = 7, a_type = ''truck'', a_serial = ''T'', a_deleted = CHR ''N'', a_client_id = Some 1, a_status = ACTIVE\<rparr>]\<rparr>"

lemma idle_db_ok: "timeline_ok idle_db" "clock_ok now idle_db"
  by (auto simp: timeline_ok_def clock_ok_def idle_db_def idle_device_def empty_db_def Let_def)

lemma idle_assign: "\<exists>d' db'. assign_asset 5 5 1 7 idle_db = (Inr (Some d'), db')"
  by (simp add: assign_asset_def transact_def get_device_for_update_def query_result_def idle_db_def idle_device_def
      empty_db_def get_assignable_asset_def get_active_assignment_for_device_def validate_current_assignment_def
      ensure_asset_is_available_def Let_def commit_db_def device_constraints_def assignment_constraints_def
      close_assignment_def put_def activated_def is_open_def new_assignment_def)

theorem assignment_history_witness:
  "\<exists>d' db'. assign_asset 5 5 1 7 idle_db = (Inr (Some d'), db') \<and> asset_at db' 1 4 = None \<and> asset_at db' 1 9 = Some 7"
proof -
  obtain d' db' where run: "assign_asset 5 5 1 7 idle_db = (Inr (Some d'), db')" using idle_assign by blast
  then have "assign_asset 5 5 1 7 idle_db = (Inr (Some d'), db') \<and> Some 7 = Some (7::nat) \<or>
      release_asset 5 1 idle_db = (Inr (Some d'), db') \<and> Some (7::nat) = None" by simp
  from assignment_history [OF idle_db_ok(1) idle_db_ok(2) this]
  have "asset_at db' = (\<lambda>j t. if j = 1 \<and> 5 \<le> t then Some 7 else asset_at idle_db j t)" by blast
  moreover have "asset_at idle_db 1 4 = None"
    by (simp add: asset_at_def get_assignment_for_device_at_def query_result_def idle_db_def empty_db_def)
  ultimately show ?thesis using run by auto
qed

subsection \<open>What can go wrong\<close>

abbreviation live :: "device \<Rightarrow> bool" where
  "live d \<equiv> d_deleted d = CHR ''N''"

definition application_ok :: "device \<Rightarrow> bool" where
  "application_ok d \<longleftrightarrow> (d_protocol d = CHIRPSTACK \<longrightarrow>
     (case d_application_id d of None \<Rightarrow> False | Some s \<Rightarrow> list_ex (\<lambda>c. c \<noteq> CHR '' '') s))"

lemma device_constraints_iff:
  assumes "distinct (map d_id ds)"
  shows "device_constraints ds \<longleftrightarrow>
    (\<forall>d \<in> set ds. application_ok d) \<and> (\<forall>d \<in> set ds. d_active d \<longrightarrow> d_asset_id d \<noteq> None) \<and>
    (\<forall>x \<in> set ds. \<forall>y \<in> set ds. live x \<longrightarrow> live y \<longrightarrow> d_serial x = d_serial y \<longrightarrow> d_id x = d_id y) \<and>
    (\<forall>x \<in> set ds. \<forall>y \<in> set ds. live x \<and> d_asset_id x \<noteq> None \<longrightarrow> live y \<and> d_asset_id y \<noteq> None \<longrightarrow>
       d_asset_id x = d_asset_id y \<longrightarrow> d_id x = d_id y) \<and>
    (\<forall>x \<in> set ds. \<forall>y \<in> set ds. live x \<and> d_dev_eui x \<noteq> None \<longrightarrow> live y \<and> d_dev_eui y \<noteq> None \<longrightarrow>
       d_dev_eui x = d_dev_eui y \<longrightarrow> d_id x = d_id y)"
  unfolding device_constraints_def Let_def filter_filter distinct_filter_iff [OF assms] list_all_iff application_ok_def
  by (rule refl)

lemma device_constraintsD:
  assumes "distinct (map d_id ds)" "device_constraints ds"
  shows "d \<in> set ds \<Longrightarrow> application_ok d" "d \<in> set ds \<Longrightarrow> d_active d \<Longrightarrow> d_asset_id d \<noteq> None"
    and "x \<in> set ds \<Longrightarrow> y \<in> set ds \<Longrightarrow> live x \<Longrightarrow> live y \<Longrightarrow> d_serial x = d_serial y \<Longrightarrow> d_id x = d_id y"
    and "x \<in> set ds \<Longrightarrow> y \<in> set ds \<Longrightarrow> live x \<Longrightarrow> live y \<Longrightarrow> d_asset_id x = Some a \<Longrightarrow> d_asset_id y = Some a \<Longrightarrow> d_id x = d_id y"
    and "x \<in> set ds \<Longrightarrow> y \<in> set ds \<Longrightarrow> live x \<Longrightarrow> live y \<Longrightarrow> d_dev_eui x = Some u \<Longrightarrow> d_dev_eui y = Some u \<Longrightarrow> d_id x = d_id y"
proof -
  note h = assms(2) [unfolded device_constraints_iff [OF assms(1)]]
  note h1 = conjunct1 [OF h] and t1 = conjunct2 [OF h]
  note h2 = conjunct1 [OF t1] and t2 = conjunct2 [OF t1]
  note h3 = conjunct1 [OF t2] and t3 = conjunct2 [OF t2]
  note h4 = conjunct1 [OF t3] and h5 = conjunct2 [OF t3]
  show "d \<in> set ds \<Longrightarrow> application_ok d" using h1 by blast
  show "d \<in> set ds \<Longrightarrow> d_active d \<Longrightarrow> d_asset_id d \<noteq> None" using h2 by blast
  show "x \<in> set ds \<Longrightarrow> y \<in> set ds \<Longrightarrow> live x \<Longrightarrow> live y \<Longrightarrow> d_serial x = d_serial y \<Longrightarrow> d_id x = d_id y"
    using h3 by blast
  show "x \<in> set ds \<Longrightarrow> y \<in> set ds \<Longrightarrow> live x \<Longrightarrow> live y \<Longrightarrow> d_asset_id x = Some a \<Longrightarrow> d_asset_id y = Some a \<Longrightarrow> d_id x = d_id y"
    by (rule bspec [OF bspec [OF h4], THEN mp, THEN mp, THEN mp]) simp_all
  show "x \<in> set ds \<Longrightarrow> y \<in> set ds \<Longrightarrow> live x \<Longrightarrow> live y \<Longrightarrow> d_dev_eui x = Some u \<Longrightarrow> d_dev_eui y = Some u \<Longrightarrow> d_id x = d_id y"
    by (rule bspec [OF bspec [OF h5], THEN mp, THEN mp, THEN mp]) simp_all
qed

lemma device_constraintsI:
  assumes "distinct (map d_id ds)" "\<And>d. d \<in> set ds \<Longrightarrow> application_ok d"
    and "\<And>d. d \<in> set ds \<Longrightarrow> d_active d \<Longrightarrow> d_asset_id d \<noteq> None"
    and "\<And>x y. x \<in> set ds \<Longrightarrow> y \<in> set ds \<Longrightarrow> live x \<Longrightarrow> live y \<Longrightarrow> d_id x \<noteq> d_id y \<Longrightarrow>
      d_serial x \<noteq> d_serial y \<and> (d_asset_id x = None \<or> d_asset_id x \<noteq> d_asset_id y) \<and>
      (d_dev_eui x = None \<or> d_dev_eui x \<noteq> d_dev_eui y)"
  shows "device_constraints ds"
proof -
  have "d_id x = d_id y" if "x \<in> set ds" "y \<in> set ds" "live x" "live y"
    "d_serial x = d_serial y \<or> d_asset_id x \<noteq> None \<and> d_asset_id x = d_asset_id y \<or>
     d_dev_eui x \<noteq> None \<and> d_dev_eui x = d_dev_eui y" for x y
    using assms(4) [OF that(1-4)] that(5) by argo
  then show ?thesis unfolding device_constraints_iff [OF assms(1)] using assms(2,3)
    by (intro conjI ballI impI) blast+
qed

lemma assignment_constraints_timeline:
  assumes ok: "timeline_ok db"
  shows "assignment_constraints (db_device_assignments db)"
proof -
  have "case da_unassigned_at x of None \<Rightarrow> True | Some t \<Rightarrow> da_assigned_at x \<le> t"
    if "x \<in> set (db_device_assignments db)" for x
    using timelineD(4) [OF ok that] by (simp split: option.split)
  moreover have "\<forall>x \<in> set (db_device_assignments db). \<forall>y \<in> set (db_device_assignments db).
      is_open x \<longrightarrow> is_open y \<longrightarrow> da_device_id x = da_device_id y \<longrightarrow> da_id x = da_id y"
    "\<forall>x \<in> set (db_device_assignments db). \<forall>y \<in> set (db_device_assignments db).
      is_open x \<longrightarrow> is_open y \<longrightarrow> da_asset_id x = da_asset_id y \<longrightarrow> da_id x = da_id y"
    using one_open_per_device [OF ok] by blast+
  ultimately show ?thesis
    unfolding assignment_constraints_def distinct_filter_iff [OF timelineD(2) [OF ok]] list_all_iff by blast
qed

text \<open>A device that keeps its other columns and takes a free asset keeps the constraints.\<close>

lemma device_constraints_put:
  assumes ds: "distinct (map d_id ds)" "device_constraints ds" and d: "d \<in> set ds" "d_deleted d = CHR ''N''"
    and d': "d_id d' = d_id d" "d_deleted d' = d_deleted d" "d_serial d' = d_serial d" "d_dev_eui d' = d_dev_eui d"
      "d_application_id d' = d_application_id d" "d_protocol d' = d_protocol d"
      "d_active d' \<longrightarrow> d_asset_id d' \<noteq> None"
    and free: "\<And>e. e \<in> set ds \<Longrightarrow> d_deleted e = CHR ''N'' \<Longrightarrow> d_id e \<noteq> d_id d \<Longrightarrow>
      d_asset_id d' = None \<or> d_asset_id e \<noteq> d_asset_id d'"
  shows "device_constraints (put d_id d' ds)"
proof -
  have ids: "distinct (map d_id (put d_id d' ds))" using ds(1) by simp
  have rows: "set (put d_id d' ds) = insert d' (set ds - {d})" by (rule put_device_rows [OF ds(1) d(1) d'(1)])
  note old = device_constraintsD [OF ds]
  have pair: "d_serial x \<noteq> d_serial y \<and> (d_asset_id x = None \<or> d_asset_id x \<noteq> d_asset_id y) \<and>
       (d_dev_eui x = None \<or> d_dev_eui x \<noteq> d_dev_eui y)"
    if "x \<in> set ds" "y \<in> set ds" "live x" "live y" "d_id x \<noteq> d_id y" for x y
    using old(3-5) [OF that(1-4)] that(5) by (metis option.exhaust)
  have "application_ok e" "d_active e \<longrightarrow> d_asset_id e \<noteq> None" if "e \<in> set (put d_id d' ds)" for e
    using that old(1,2) d(1) d'(5-7) unfolding rows by (auto simp: application_ok_def)
  moreover have "d_serial x \<noteq> d_serial y \<and> (d_asset_id x = None \<or> d_asset_id x \<noteq> d_asset_id y) \<and>
       (d_dev_eui x = None \<or> d_dev_eui x \<noteq> d_dev_eui y)"
    if xy: "x \<in> set (put d_id d' ds)" "y \<in> set (put d_id d' ds)" "d_deleted x = CHR ''N''" "d_deleted y = CHR ''N''"
      "d_id x \<noteq> d_id y" for x y
  proof -
    consider "x = d'" "y \<in> set ds" "y \<noteq> d'" | "y = d'" "x \<in> set ds" "x \<noteq> d'" | "x \<in> set ds" "y \<in> set ds"
      using xy unfolding rows by auto
    then show ?thesis
    proof cases
      case 1
      with pair [OF d(1) 1(2)] xy(4,5) d d' free [of y] show ?thesis by auto
    next
      case 2
      with pair [OF 2(2) d(1)] xy(3,5) d d' free [of x] show ?thesis by auto
    next
      case 3
      with pair xy(3-5) show ?thesis by blast
    qed
  qed
  ultimately show ?thesis by (intro device_constraintsI [OF ids]) blast+
qed

lemma available_cases:
  assumes ds: "distinct (map d_id (db_devices db))" "device_constraints (db_devices db)"
  shows "ensure_asset_is_available db a i = Inl (Assignment_Error ''Asset already has a device assigned.'') \<or>
    ensure_asset_is_available db a i = Inr () \<and> (\<forall>e \<in> set (db_devices db). d_deleted e = CHR ''N'' \<longrightarrow>
      d_asset_id e = Some a \<longrightarrow> i = Some (d_id e))"
proof -
  let ?P = "\<lambda>d. d_asset_id d = Some a \<and> d_deleted d = CHR ''N'' \<and> (case i of None \<Rightarrow> True | Some i \<Rightarrow> d_id d \<noteq> i)"
  have uniq: "d_id x = d_id y" if "x \<in> set (db_devices db)" "y \<in> set (db_devices db)" "?P x" "?P y" for x y
  proof (rule ccontr)
    assume "d_id x \<noteq> d_id y"
    with device_constraintsD(4) [OF ds that(1,2)] that(3,4) show False by blast
  qed
  have "scalar_one_or_none (filter ?P (db_devices db)) = Inr (find ?P (db_devices db))"
    by (rule scalar_filter [OF ds(1)]) (fact uniq)
  then consider "filter ?P (db_devices db) = []" | d where "filter ?P (db_devices db) = [d]"
    by (cases "find ?P (db_devices db)") (auto simp: scalar_one_or_none_None scalar_one_or_none_Some)
  then show ?thesis
  proof cases
    case 1
    then have "\<forall>e \<in> set (db_devices db). \<not> ?P e" by (simp add: filter_empty_conv)
    with 1 show ?thesis
      by (auto simp: ensure_asset_is_available_def query_result_def split: option.splits)
  next
    case 2
    then show ?thesis by (simp add: ensure_asset_is_available_def query_result_def)
  qed
qed

lemma assignable_cases:
  assumes "distinct (map a_id (db_assets db))"
  shows "(\<exists>a. get_assignable_asset db d aid = Inr a \<and> a \<in> set (db_assets db) \<and> a_id a = aid \<and>
      a_client_id a = d_client_id d \<and> a_status a = ACTIVE) \<or>
    (\<exists>m \<in> {''Device must belong to a client before assigning an asset.'',
       ''Asset not found for this device client.'', ''Asset is inactive.''}.
       get_assignable_asset db d aid = Inl (Assignment_Error m))"
proof -
  let ?P = "\<lambda>a. a_id a = aid \<and> a_client_id a = d_client_id d \<and> a_deleted a = CHR ''N''"
  have "scalar_one_or_none (filter ?P (db_assets db)) = Inr (find ?P (db_assets db))"
    by (rule scalar_filter [OF assms]) simp
  then show ?thesis
    by (cases "find ?P (db_assets db)")
      (auto simp: get_assignable_asset_def query_result_def find_Some_iff)
qed

lemma release_total:
  assumes ok: "timeline_ok db" and clk: "clock_ok now db" and dc: "device_constraints (db_devices db)"
  shows "\<exists>r db'. release_asset now i db = (Inr r, db')"
proof (cases "find (\<lambda>d. d_id d = i \<and> d_deleted d = CHR ''N'') (db_devices db)")
  case None
  then show ?thesis by (simp add: release_asset_def transact_def device_for_update_eq [OF timelineD(1) [OF ok]])
next
  case (Some d)
  then have look: "get_device_for_update db i = Inr (Some d)" by (simp add: device_for_update_eq [OF timelineD(1) [OF ok]])
  note dev = device_lookup [OF ok look]
  show ?thesis
  proof (cases "d_asset_id d")
    case None
    with open_row_of_device(1) [OF ok dev(1,3)] look dev(2) show ?thesis
      by (simp add: release_asset_def transact_def)
  next
    case (Some a)
    obtain x where x: "get_active_assignment_for_device db (d_id d) = Inr (Some x)" "da_asset_id x = a"
      using open_row_of_device(2) [OF ok dev(1,3) Some] by blast
    let ?d = "d\<lparr>d_asset_id := None, d_active := False, d_state := OFF\<rparr>"
    have "timeline_ok (switched now 0 ?d (Some x) None db)"
      by (rule switch_keeps [OF ok clk active_lookup [OF ok x(1)] dev(1,3)]) (use dev in simp_all)
    then have "assignment_constraints (close_assignment now (Some x) (db_device_assignments db))"
      using assignment_constraints_timeline by (fastforce simp: switched_def)
    moreover have "device_constraints (put d_id ?d (db_devices db))"
      by (rule device_constraints_put [OF timelineD(1) [OF ok] dc dev(1,3)]) simp_all
    ultimately show ?thesis using look dev(2) x Some
      by (simp add: release_asset_def transact_def validate_current_assignment_def Let_def commit_db_def)
  qed
qed

text \<open>What an assignment answers when the database is consistent.\<close>

lemma assign_errors:
  assumes ok: "timeline_ok db" and clk: "clock_ok now db" and dc: "device_constraints (db_devices db)"
    and assets: "distinct (map a_id (db_assets db))" and run: "assign_asset now created i aid db = (Inl e, db')"
  shows "\<exists>m \<in> {''Device must belong to a client before assigning an asset.'', ''Asset not found for this device client.'',
       ''Asset is inactive.'', ''Asset already has a device assigned.''}. e = Assignment_Error m"
proof -
  have "\<exists>d. get_device_for_update db i = Inr (Some d)"
    using run by (cases "find (\<lambda>d. d_id d = i \<and> d_deleted d = CHR ''N'') (db_devices db)")
      (simp_all add: assign_asset_def transact_def device_for_update_eq [OF timelineD(1) [OF ok]])
  then obtain d where look: "get_device_for_update db i = Inr (Some d)" by blast
  note dev = device_lookup [OF ok look]
  from assignable_cases [OF assets, of d aid] show ?thesis
  proof (elim disjE exE)
    assume "\<exists>m \<in> {''Device must belong to a client before assigning an asset.'',
       ''Asset not found for this device client.'', ''Asset is inactive.''}.
       get_assignable_asset db d aid = Inl (Assignment_Error m)"
    then obtain m where m: "m \<in> {''Device must belong to a client before assigning an asset.'',
       ''Asset not found for this device client.'', ''Asset is inactive.''}"
      "get_assignable_asset db d aid = Inl (Assignment_Error m)" by blast
    from m(2) run look have "e = Assignment_Error m" by (simp add: assign_asset_def transact_def)
    with m(1) show ?thesis by blast
  next
    fix a assume a: "get_assignable_asset db d aid = Inr a \<and> a \<in> set (db_assets db) \<and> a_id a = aid \<and>
      a_client_id a = d_client_id d \<and> a_status a = ACTIVE"
    show ?thesis
    proof (cases "d_asset_id d = Some aid")
      case True
      obtain x where x: "get_active_assignment_for_device db (d_id d) = Inr (Some x)" "da_asset_id x = aid"
        using open_row_of_device(2) [OF ok dev(1,3) True] by blast
      have "device_constraints (put d_id (activated d) (db_devices db))"
        by (rule device_constraints_put [OF timelineD(1) [OF ok] dc dev(1,3)])
          (use True device_constraintsD(4) [OF timelineD(1) [OF ok] dc _ dev(1) _ dev(3)] in auto)
      with run look a x True dev(2) assignment_constraints_timeline [OF ok] have False
        by (auto simp: assign_asset_def transact_def commit_db_def split: if_splits)
      then show ?thesis ..
    next
      case False
      obtain active where act: "get_active_assignment_for_device db (d_id d) = Inr active"
        using active_assignment_eq [OF ok] by blast
      have val: "validate_current_assignment d active = Inr ()"
        using open_row_of_device [OF ok dev(1,3)] act
        by (cases "d_asset_id d") (auto simp: validate_current_assignment_def)
      from available_cases [OF timelineD(1) [OF ok] dc, of aid "Some (d_id d)"] show ?thesis
      proof (elim disjE conjE)
        assume "ensure_asset_is_available db aid (Some (d_id d)) = Inl (Assignment_Error ''Asset already has a device assigned.'')"
        with run look a False dev(2) act val show ?thesis by (auto simp: assign_asset_def transact_def)
      next
        assume av: "ensure_asset_is_available db aid (Some (d_id d)) = Inr ()"
          and free: "\<forall>e \<in> set (db_devices db). d_deleted e = CHR ''N'' \<longrightarrow> d_asset_id e = Some aid \<longrightarrow> Some (d_id d) = Some (d_id e)"
        let ?d = "activated (d\<lparr>d_asset_id := Some aid\<rparr>)"
        have "timeline_ok (switched now created ?d active (Some aid) db)"
          by (rule switch_keeps [OF ok clk active_lookup [OF ok act] dev(1,3)])
            (use dev available_free [OF ok av] in auto)
        then have "assignment_constraints (db_device_assignments (switched now created ?d active (Some aid) db))"
          by (rule assignment_constraints_timeline)
        moreover have "device_constraints (put d_id ?d (db_devices db))"
          by (rule device_constraints_put [OF timelineD(1) [OF ok] dc dev(1,3)]) (use free in auto)
        ultimately have False using run look a False dev(2) act val av
          by (auto simp: assign_asset_def transact_def Let_def commit_db_def switched_def)
        then show ?thesis ..
      qed
    qed
  qed
qed

text \<open>
  Property C31. On a consistent database the service never reports corruption: releasing an asset
  always succeeds, and assigning one fails only for the four reasons a caller can cause - no
  client, no such asset of the client, an inactive asset, an asset another device tracks -
  never with an invariant error, an ambiguous query or a violated constraint.
\<close>
theorem assignment_never_corrupt:
  assumes "timeline_ok db" "clock_ok now db" "device_constraints (db_devices db)" "distinct (map a_id (db_assets db))"
  shows "(\<exists>r db'. release_asset now i db = (Inr r, db')) \<and>
    (case fst (assign_asset now created i aid db) of
       Inr _ \<Rightarrow> True
     | Inl e \<Rightarrow> e \<in> Assignment_Error ` {''Device must belong to a client before assigning an asset.'',
         ''Asset not found for this device client.'', ''Asset is inactive.'', ''Asset already has a device assigned.''})"
proof (cases "assign_asset now created i aid db")
  case (Pair r db')
  then show ?thesis using release_total [OF assms(1-3)] assign_errors [OF assms]
    by (cases r) auto
qed

theorem assignment_never_corrupt_witness:
  "(\<exists>r db'. release_asset 5 1 idle_db = (Inr r, db')) \<and> device_constraints (db_devices idle_db)"
proof -
  have "device_constraints (db_devices idle_db)" "distinct (map a_id (db_assets idle_db))"
    by (simp_all add: idle_db_def idle_device_def device_constraints_def empty_db_def)
  with assignment_never_corrupt [OF idle_db_ok(1) idle_db_ok(2) this] show ?thesis by blast
qed

subsection \<open>A new device\<close>

lemma timeline_append_device:
  assumes ok: "timeline_ok db" and d: "d_id d = fresh d_id (db_devices db)" "d_asset_id d = None"
  shows "timeline_ok (db\<lparr>db_devices := db_devices db @ [d]\<rparr>)"
proof -
  have "distinct (map d_id (db_devices db @ [d]))"
    by (rule distinct_append_fresh [OF timelineD(1) [OF ok] d(1)])
  moreover have "\<exists>e \<in> set (db_devices db @ [d]). d_id e = da_device_id x \<and> d_deleted e = CHR ''N'' \<and> d_asset_id e = Some (da_asset_id x)"
    if "x \<in> set (db_device_assignments db)" "is_open x" for x
    using timelineD(5) [OF ok that] by auto
  moreover have "\<exists>x \<in> set (db_device_assignments db). is_open x \<and> da_device_id x = d_id e \<and> da_asset_id x = a"
    if "e \<in> set (db_devices db @ [d])" "d_deleted e = CHR ''N''" "d_asset_id e = Some a" for e a
    using that timelineD(6) [OF ok] d(2) by auto
  ultimately show ?thesis
    using timelineD(2-4) [OF ok] timelineD(7) [OF ok] unfolding timeline_ok_def Let_def by simp
qed

text \<open>The first assignment of a new device is a step too.\<close>

lemma initial_keeps:
  assumes ok: "timeline_ok db" and clk: "clock_ok now db" and live: "d_deleted d = CHR ''N''"
    and run: "create_initial_assignment now created d a db = (Inr d', db')"
  shows "timeline_ok db' \<and> d' \<in> set (db_devices db') \<and> d_id d' = fresh d_id (db_devices db) \<and>
    d' = d\<lparr>d_id := d_id d', d_asset_id := Some (a_id a)\<rparr> \<and> db_devices db' = db_devices db @ [d'] \<and>
    asset_at db' = (\<lambda>j t. if j = d_id d' \<and> now \<le> t then Some (a_id a) else asset_at db j t)"
proof -
  let ?d0 = "d\<lparr>d_id := fresh d_id (db_devices db)\<rparr>"
  let ?db2 = "db\<lparr>db_devices := db_devices db @ [?d0]\<rparr>"
  have r: "d_asset_id d = None" "ensure_asset_is_available db (a_id a) None = Inr ()"
    "d' = d\<lparr>d_id := fresh d_id (db_devices db), d_asset_id := Some (a_id a)\<rparr>"
    "db' = db\<lparr>db_devices := db_devices db @ [d'], db_device_assignments := db_device_assignments db @
       [new_assignment now created (d_id d') (a_id a) (db_device_assignments db)]\<rparr>"
    using run by (auto simp: create_initial_assignment_def transact_def res_simps Let_def commit_Inr split: sum.splits)
  have step: "db' = switched now created d' None (Some (a_id a)) ?db2"
    using r(3,4) by (simp add: switched_def close_assignment_def put_append) (simp add: put_def)
  have ok2: "timeline_ok ?db2" by (rule timeline_append_device [OF ok]) (simp_all add: r(1))
  have clk2: "clock_ok now ?db2" using clk by (simp add: clock_ok_def)
  have cur: "current_row ?db2 ?d0 None"
  proof -
    have "da_device_id x \<noteq> fresh d_id (db_devices db)" if "x \<in> set (db_device_assignments db)" for x
      using timelineD(3) [OF ok that] fresh_not_in [of d_id "db_devices db"] by metis
    then show ?thesis by (simp add: current_row_def)
  qed
  have nobody: "\<not> (d_asset_id e = Some (a_id a) \<and> d_deleted e = CHR ''N'')" if "e \<in> set (db_devices db)" for e
    using r(2) that by (auto simp: ensure_asset_is_available_def query_result_def res_simps scalar_one_or_none_None
        filter_empty_conv split: sum.splits)
  have free: "da_device_id x = d_id ?d0"
    if "x \<in> set (db_device_assignments ?db2)" "is_open x" "Some (a_id a) = Some (da_asset_id x)" for x
    using timelineD(5) [OF ok, of x] that nobody by auto
  have d0: "?d0 \<in> set (db_devices ?db2)" "d_deleted ?d0 = CHR ''N''" using live by simp_all
  have d': "d_id d' = d_id ?d0" "d_deleted d' = CHR ''N''" "d_asset_id d' = Some (a_id a)"
    using r(3) live by simp_all
  have "timeline_ok db'" unfolding step by (rule switch_keeps [OF ok2 clk2 cur d0 d' free])
  moreover have "asset_at db' = (\<lambda>j t. if j = d_id d' \<and> now \<le> t then Some (a_id a) else asset_at db j t)"
    unfolding step by (intro ext) (simp only: switch_asset_at [OF ok2 clk2 cur d0 d' free] d'(1),
        simp add: asset_at_def get_assignment_for_device_at_def)
  ultimately show ?thesis using r(3,4) by simp
qed

end
