(* ===== verification/Device_Service.thy ===== *)
theory Device_Service
  imports Device_Assignment
begin

text \<open>
  The generic persistence service \<open>src/service/crud_base.py\<close> and its use for devices,
  \<open>src/service/crud_device.py\<close>.  \<open>CrudBase\<close> works on any table with a key; a model with the
  attribute \<open>deleted\<close> is deleted softly.  The interface its subclasses rely on is the locale
  \<open>soft_deletion\<close>, interpreted for the models that have a service.
\<close>

subsection \<open>\<open>CrudBase\<close>\<close>

text \<open>The attribute \<open>deleted\<close> of a model: how to read and to write it, or \<open>None\<close> without it.\<close>

type_synonym 'r deleted_field = "(('r \<Rightarrow> char) \<times> (char \<Rightarrow> 'r \<Rightarrow> 'r)) option"

definition is_deleted :: "'r deleted_field \<Rightarrow> 'r \<Rightarrow> bool" where
  "is_deleted del r = (case del of None \<Rightarrow> False | Some (rd, _) \<Rightarrow> rd r = CHR ''Y'')"

definition crud_get :: "('r \<Rightarrow> nat) \<Rightarrow> 'r deleted_field \<Rightarrow> bool \<Rightarrow> nat \<Rightarrow> 'r list \<Rightarrow> 'r option" where
  "crud_get key del include_deleted i rows =
     (case fetch key i rows of
        None \<Rightarrow> None
      | Some r \<Rightarrow> if \<not> include_deleted \<and> is_deleted del r then None else Some r)"

definition crud_query :: "'r deleted_field \<Rightarrow> bool \<Rightarrow> 'r list \<Rightarrow> 'r list" where
  "crud_query del include_deleted rows =
     (if include_deleted then rows
      else case del of None \<Rightarrow> rows | Some (rd, _) \<Rightarrow> filter (\<lambda>r. rd r = CHR ''N'') rows)"

definition crud_get_multi :: "'r deleted_field \<Rightarrow> bool \<Rightarrow> nat \<Rightarrow> nat \<Rightarrow> 'r list \<Rightarrow> 'r list" where
  "crud_get_multi del include_deleted skip limit rows = take limit (drop skip (crud_query del include_deleted rows))"

text \<open>\<open>given\<close>: whether the data of the new row set \<open>deleted\<close>; the key comes from the database.\<close>

definition crud_create :: "(nat \<Rightarrow> 'r \<Rightarrow> 'r) \<Rightarrow> ('r \<Rightarrow> nat) \<Rightarrow> 'r deleted_field \<Rightarrow> bool \<Rightarrow> 'r \<Rightarrow> 'r list \<Rightarrow> 'r \<times> 'r list" where
  "crud_create set_key key del given r rows =
     (let r1 = (case del of None \<Rightarrow> r | Some (_, wr) \<Rightarrow> if given then r else wr (CHR ''N'') r);
          r2 = set_key (fresh key rows) r1
      in (r2, rows @ [r2]))"

definition crud_update :: "('r \<Rightarrow> nat) \<Rightarrow> ('r \<Rightarrow> 'r) \<Rightarrow> 'r \<Rightarrow> 'r list \<Rightarrow> 'r \<times> 'r list" where
  "crud_update key assign r rows = (assign r, put key (assign r) rows)"

definition remove_row :: "('r \<Rightarrow> nat) \<Rightarrow> nat \<Rightarrow> 'r list \<Rightarrow> 'r list" where
  "remove_row key i rows = filter (\<lambda>r. key r \<noteq> i) rows"

definition crud_delete :: "('r \<Rightarrow> nat) \<Rightarrow> 'r deleted_field \<Rightarrow> nat \<Rightarrow> 'r list \<Rightarrow> 'r option \<times> 'r list" where
  "crud_delete key del i rows =
     (case crud_get key del False i rows of
        None \<Rightarrow> (None, rows)
      | Some r \<Rightarrow> (case del of
          Some (_, wr) \<Rightarrow> (Some (wr (CHR ''Y'') r), put key (wr (CHR ''Y'') r) rows)
        | None \<Rightarrow> (Some r, remove_row key i rows)))"

definition crud_restore :: "('r \<Rightarrow> nat) \<Rightarrow> 'r deleted_field \<Rightarrow> nat \<Rightarrow> 'r list \<Rightarrow> 'r option \<times> 'r list" where
  "crud_restore key del i rows =
     (case crud_get key del True i rows of
        None \<Rightarrow> (None, rows)
      | Some r \<Rightarrow> (case del of
          Some (_, wr) \<Rightarrow> (Some (wr (CHR ''N'') r), put key (wr (CHR ''N'') r) rows)
        | None \<Rightarrow> (Some r, rows)))"

definition crud_hard_delete :: "('r \<Rightarrow> nat) \<Rightarrow> 'r deleted_field \<Rightarrow> nat \<Rightarrow> 'r list \<Rightarrow> 'r option \<times> 'r list" where
  "crud_hard_delete key del i rows =
     (case crud_get key del True i rows of
        None \<Rightarrow> (None, rows)
      | Some r \<Rightarrow> (Some r, remove_row key i rows))"

subsection \<open>The interface of a softly deleted model\<close>

locale soft_deletion =
  fixes key :: "'r \<Rightarrow> nat" and rd :: "'r \<Rightarrow> char" and wr :: "char \<Rightarrow> 'r \<Rightarrow> 'r"
  assumes key_wr: "key (wr c r) = key r"
    and rd_wr: "rd (wr c r) = c"
    and wr_wr: "wr c (wr c' r) = wr c r"
    and wr_rd: "wr (rd r) r = r"
begin

lemma deleted_not_found:
  assumes "crud_delete key (Some (rd, wr)) i rows = (Some r, rows')"
  shows "crud_get key (Some (rd, wr)) False i rows' = None \<and>
    crud_get key (Some (rd, wr)) True i rows' = Some r \<and> map key rows' = map key rows"
proof -
  obtain r0 where r0: "fetch key i rows = Some r0" "r = wr (CHR ''Y'') r0" "rows' = put key r rows"
    using assms by (auto simp: crud_delete_def crud_get_def split: option.splits if_splits)
  have key: "key r = i" "i \<in> key ` set rows"
    using fetch_Some [OF r0(1)] r0(2) key_wr by auto
  then have "fetch key i rows' = Some r"
    using fetch_put_same [of key r rows] r0(3) by auto
  then show ?thesis using r0 rd_wr by (simp add: crud_get_def is_deleted_def)
qed

text \<open>Restoring undoes a deletion of a row that was marked as not deleted.\<close>

lemma restore_after_delete:
  assumes "distinct (map key rows)" "crud_delete key (Some (rd, wr)) i rows = (Some r, rows')"
    and "\<And>x. x \<in> set rows \<Longrightarrow> key x = i \<Longrightarrow> rd x = CHR ''N''"
  shows "snd (crud_restore key (Some (rd, wr)) i rows') = rows"
proof -
  obtain r0 where r0: "fetch key i rows = Some r0" "r = wr (CHR ''Y'') r0" "rows' = put key r rows"
    using assms(2) by (auto simp: crud_delete_def crud_get_def split: option.splits if_splits)
  note mem = fetch_Some [OF r0(1)]
  have restored: "wr (CHR ''N'') r = r0" using assms(3) mem r0(2) wr_wr wr_rd by metis
  have "crud_restore key (Some (rd, wr)) i rows' = (Some r0, put key r0 rows')"
    using deleted_not_found [OF assms(2)] by (simp add: crud_restore_def restored)
  moreover have "put key r0 rows' = rows"
  proof -
    have "put key r0 (put key r rows) = put key r0 rows"
      using r0(2) key_wr by (auto simp: put_def)
    then show ?thesis using put_same_row [OF assms(1), of r0] mem r0(3) by simp
  qed
  ultimately show ?thesis by simp
qed

lemma get_multi_hides: "r \<in> set (crud_get_multi (Some (rd, wr)) False skip limit rows) \<Longrightarrow> rd r = CHR ''N''"
  by (auto simp: crud_get_multi_def crud_query_def dest!: in_set_takeD in_set_dropD)

end

interpretation soft_device: soft_deletion d_id d_deleted "\<lambda>c d. d\<lparr>d_deleted := c\<rparr>"
  by unfold_locales simp_all

interpretation soft_asset: soft_deletion a_id a_deleted "\<lambda>c a. a\<lparr>a_deleted := c\<rparr>"
  by unfold_locales simp_all

interpretation soft_client: soft_deletion cl_id cl_deleted "\<lambda>c a. a\<lparr>cl_deleted := c\<rparr>"
  by unfold_locales simp_all

interpretation soft_geofence: soft_deletion gf_id gf_deleted "\<lambda>c g. g\<lparr>gf_deleted := c\<rparr>"
  by unfold_locales simp_all

interpretation soft_group: soft_deletion ag_id ag_deleted "\<lambda>c g. g\<lparr>ag_deleted := c\<rparr>"
  by unfold_locales simp_all

definition device_deleted :: "device deleted_field" where
  "device_deleted = Some (d_deleted, \<lambda>c d. d\<lparr>d_deleted := c\<rparr>)"

subsection \<open>Devices\<close>

text \<open>
  \<open>Name_Error\<close>: a name the module does not define.  A field of \<open>DeviceUpdate\<close> that was not
  supplied is \<open>None\<close>, one supplied as \<open>null\<close> is \<open>Some None\<close>.
\<close>

datatype device_error = Device_Value_Error string | Name_Error string | Device_Db_Error assignment_error

record device_update =
  du_serial :: "string option option"
  du_name :: "string option option"
  du_type :: "string option option"
  du_state :: "device_state option option"
  du_protocol :: "communication_protocol option option"
  du_client_id :: "nat option option"
  du_asset_id :: "nat option option"
  du_active :: "bool option option"
  du_last_seen_at :: "int option option"
  du_dev_eui :: "string option option"
  du_application_id :: "string option option"
  du_lorawan_class :: "string option option"
  du_device_profile_id :: "string option option"

text \<open>The validators of the schema: white space goes, an empty text is \<open>None\<close>.\<close>

definition normalize_optional_text :: "string option \<Rightarrow> string option" where
  "normalize_optional_text v = (case v of None \<Rightarrow> None | Some s \<Rightarrow> if py_strip s = [] then None else Some (py_strip s))"

definition normalize_update_dev_eui :: "string option \<Rightarrow> string option" where
  "normalize_update_dev_eui v = (case v of None \<Rightarrow> None
     | Some s \<Rightarrow> if py_lower (py_compact s) = [] then None else Some (py_lower (py_compact s)))"

definition validated_update :: "device_update \<Rightarrow> device_update" where
  "validated_update u = u\<lparr>du_dev_eui := map_option normalize_update_dev_eui (du_dev_eui u),
     du_application_id := map_option normalize_optional_text (du_application_id u)\<rparr>"

text \<open>A column that is not nullable refuses \<open>null\<close> at the commit.\<close>

definition violates_not_null :: "device_update \<Rightarrow> bool" where
  "violates_not_null u \<longleftrightarrow> du_serial u = Some None \<or> du_name u = Some None \<or> du_type u = Some None \<or>
     du_state u = Some None \<or> du_protocol u = Some None"

definition set_required :: "'a option option \<Rightarrow> 'a \<Rightarrow> 'a" where
  "set_required v old = (case v of Some (Some x) \<Rightarrow> x | _ \<Rightarrow> old)"

definition set_nullable :: "'a option option \<Rightarrow> 'a option \<Rightarrow> 'a option" where
  "set_nullable v old = (case v of Some x \<Rightarrow> x | None \<Rightarrow> old)"

definition assign_update :: "device_update \<Rightarrow> device \<Rightarrow> device" where
  "assign_update u d = d\<lparr>d_serial := set_required (du_serial u) (d_serial d), d_name := set_required (du_name u) (d_name d),
     d_type := set_required (du_type u) (d_type d), d_state := set_required (du_state u) (d_state d),
     d_protocol := set_required (du_protocol u) (d_protocol d), d_client_id := set_nullable (du_client_id u) (d_client_id d),
     d_last_seen_at := set_nullable (du_last_seen_at u) (d_last_seen_at d), d_dev_eui := set_nullable (du_dev_eui u) (d_dev_eui d),
     d_application_id := set_nullable (du_application_id u) (d_application_id d),
     d_lorawan_class := set_nullable (du_lorawan_class u) (d_lorawan_class d),
     d_device_profile_id := set_nullable (du_device_profile_id u) (d_device_profile_id d)\<rparr>"

definition chirpstack_application_id_would_be_missing :: "device \<Rightarrow> device_update \<Rightarrow> bool" where
  "chirpstack_application_id_would_be_missing d u =
     ((case du_protocol u of Some p \<Rightarrow> p | None \<Rightarrow> Some (d_protocol d)) = Some CHIRPSTACK \<and>
      set_nullable (du_application_id u) (d_application_id d) \<in> {None, Some []})"

definition update_device :: "nat \<Rightarrow> device_update \<Rightarrow> (tlrs_db, device_error, device option) act" where
  "update_device i u db =
     (case crud_get d_id device_deleted False i (db_devices db) of
        None \<Rightarrow> (Inr None, db)
      | Some d \<Rightarrow>
          (if du_asset_id u \<noteq> None \<or> du_active u \<noteq> None then
             (Inl (Device_Value_Error ''Use the dedicated asset assignment or device activation endpoints.''), db)
           else if chirpstack_application_id_would_be_missing d u then
             (Inl (Device_Value_Error ''chirpstack_application_id is required for CHIRPSTACK devices''), db)
           else if violates_not_null u then
             (Inl (Device_Db_Error (Query_Error (Integrity_Error ''null value in column''))), db)
           else
             (let (d', ds) = crud_update d_id (assign_update u) d (db_devices db)
              in case commit_db (db\<lparr>db_devices := ds\<rparr>) of
                   Inl e \<Rightarrow> (Inl (Device_Db_Error e), db)
                 | Inr db' \<Rightarrow> (Inr (Some d'), db'))))"

text \<open>\<open>create\<close> refuses an asset, \<open>update\<close> an \<open>asset_id\<close> that was supplied.\<close>

definition create_device_row :: "device \<Rightarrow> (tlrs_db, device_error, device) act" where
  "create_device_row d db =
     (if d_asset_id d \<noteq> None then
        (Inl (Device_Value_Error ''Use DeviceAssignmentService when creating a device with an asset.''), db)
      else
        (let (d', ds) = crud_create (\<lambda>i d. d\<lparr>d_id := i\<rparr>) d_id device_deleted False d (db_devices db)
         in case commit_db (db\<lparr>db_devices := ds\<rparr>) of
              Inl e \<Rightarrow> (Inl (Device_Db_Error e), db)
            | Inr db' \<Rightarrow> (Inr d', db')))"

definition write_device :: "device \<Rightarrow> (tlrs_db, device_error, device option) act" where
  "write_device d db =
     (case commit_db (db\<lparr>db_devices := put d_id d (db_devices db)\<rparr>) of
        Inl e \<Rightarrow> (Inl (Device_Db_Error e), db)
      | Inr db' \<Rightarrow> (Inr (Some d), db'))"

definition crud_update_device :: "bool \<Rightarrow> (device \<Rightarrow> device) \<Rightarrow> device \<Rightarrow> (tlrs_db, device_error, device option) act" where
  "crud_update_device asset_id_was_supplied assign d =
     (if asset_id_was_supplied then raiseS (Device_Value_Error ''Use the dedicated asset assignment endpoints.'')
      else write_device (assign d))"

definition deactivate_device :: "nat \<Rightarrow> (tlrs_db, device_error, device option) act" where
  "deactivate_device i db =
     (case crud_get d_id device_deleted False i (db_devices db) of
        None \<Rightarrow> (Inr None, db)
      | Some d \<Rightarrow> write_device (d\<lparr>d_active := False, d_state := OFF\<rparr>) db)"

text \<open>
  \<open>reactivate_device\<close>: the query that checks the asset names \<open>AssetStatus\<close>, which the module
  does not import; evaluating it raises \<open>NameError\<close>, whatever the database holds.
\<close>

definition reactivate_device :: "nat \<Rightarrow> (tlrs_db, device_error, device option) act" where
  "reactivate_device i db =
     (case crud_get d_id device_deleted False i (db_devices db) of
        None \<Rightarrow> (Inr None, db)
      | Some d \<Rightarrow>
          (if d_asset_id d = None then (Inl (Device_Value_Error ''A device without an asset cannot be activated.''), db)
           else if d_client_id d = None then
             (Inl (Device_Value_Error ''Device must belong to a client before activation.''), db)
           else (Inl (Name_Error ''AssetStatus''), db)))"

subsection \<open>Views\<close>

text \<open>A comparison with a client id of \<open>None\<close> is \<open>IS NULL\<close>: it finds the devices without a client.\<close>

record device_stats =
  ds_total :: nat
  ds_active :: nat
  ds_inactive :: nat
  ds_online :: nat
  ds_offline :: nat

definition device_stats_of :: "device list \<Rightarrow> device_stats" where
  "device_stats_of ds = \<lparr>ds_total = length ds, ds_active = length (filter d_active ds),
     ds_inactive = length (filter (\<lambda>d. \<not> d_active d) ds), ds_online = length (filter (\<lambda>d. d_state d = ON) ds),
     ds_offline = length (filter (\<lambda>d. d_state d = OFF) ds)\<rparr>"

definition get_device_stats_by_client_id :: "tlrs_db \<Rightarrow> nat option \<Rightarrow> device_stats" where
  "get_device_stats_by_client_id db c =
     device_stats_of (filter (\<lambda>d. d_client_id d = c \<and> d_deleted d = CHR ''N'') (db_devices db))"

definition get_devices_admin_stats :: "tlrs_db \<Rightarrow> device_stats" where
  "get_devices_admin_stats db = device_stats_of (filter (\<lambda>d. d_deleted d = CHR ''N'') (db_devices db))"

text \<open>The list behind the same endpoint joins the asset, so that a device without one is not listed.\<close>

definition get_devices_by_client_id :: "tlrs_db \<Rightarrow> nat option \<Rightarrow> nat \<Rightarrow> nat \<Rightarrow> (device \<times> string) list" where
  "get_devices_by_client_id db c skip limit =
     take limit (drop skip (sort_key (\<lambda>(d, _). d_id d)
       (concat (map (\<lambda>d. map (\<lambda>a. (d, a_type a)) (filter (\<lambda>a. d_asset_id d = Some (a_id a)) (db_assets db)))
         (filter (\<lambda>d. d_client_id d = c \<and> d_deleted d = CHR ''N'') (db_devices db))))))"

subsection \<open>What the device service keeps\<close>

lemma crud_get_Some:
  "crud_get key del incl i rows = Some r \<Longrightarrow> r \<in> set rows \<and> key r = i \<and> (incl \<or> \<not> is_deleted del r)"
  by (auto simp: crud_get_def dest: fetch_Some split: option.splits if_splits)

lemma assign_update_keeps [simp]:
  "d_id (assign_update u d) = d_id d" "d_deleted (assign_update u d) = d_deleted d"
  "d_asset_id (assign_update u d) = d_asset_id d" "d_active (assign_update u d) = d_active d"
  by (simp_all add: assign_update_def)

lemma update_device_cases:
  assumes "update_device i u db = (Inr (Some d'), db')"
  obtains d where "d \<in> set (db_devices db)" "d_id d = i" "\<not> is_deleted device_deleted d" "d' = assign_update u d"
    "db' = db\<lparr>db_devices := put d_id d' (db_devices db)\<rparr>" "device_constraints (db_devices db')"
    "\<not> chirpstack_application_id_would_be_missing d u" "\<not> violates_not_null u"
proof -
  obtain d where d: "crud_get d_id device_deleted False i (db_devices db) = Some d"
    using assms by (auto simp: update_device_def split: option.splits)
  have "d' = assign_update u d" "commit_db (db\<lparr>db_devices := put d_id d' (db_devices db)\<rparr>) = Inr db'"
    "\<not> chirpstack_application_id_would_be_missing d u" "\<not> violates_not_null u"
    using assms d by (auto simp: update_device_def crud_update_def Let_def split: if_splits sum.splits)
  with crud_get_Some [OF d] that show thesis by (auto simp: commit_Inr)
qed

lemma deactivate_device_cases:
  assumes "deactivate_device i db = (Inr (Some d'), db')"
  obtains d where "d \<in> set (db_devices db)" "d_id d = i" "d' = d\<lparr>d_active := False, d_state := OFF\<rparr>"
    "db' = db\<lparr>db_devices := put d_id d' (db_devices db)\<rparr>" "device_constraints (db_devices db')"
  using assms by (auto simp: deactivate_device_def write_device_def commit_Inr dest!: crud_get_Some
      split: option.splits sum.splits)

text \<open>
  Updating or deactivating a device never touches who tracks what: whatever the
  request holds, afterwards the device has the asset it had, the assignment history and every
  other device are unchanged, the invariant between present and history and the table
  constraints still hold, and a ChirpStack device still has a non-empty application id.
\<close>
theorem device_edits_keep_assignments:
  assumes "timeline_ok db"
    and "update_device i u db = (Inr (Some d'), db') \<or> deactivate_device i db = (Inr (Some d'), db')"
  shows "timeline_ok db' \<and> asset_at db' = asset_at db \<and> device_constraints (db_devices db') \<and>
    (\<exists>d \<in> set (db_devices db). d_id d = i \<and> d_asset_id d' = d_asset_id d \<and>
       set (db_devices db') = insert d' (set (db_devices db) - {d})) \<and>
    (d_protocol d' = CHIRPSTACK \<longrightarrow> d_application_id d' \<notin> {None, Some []})"
proof -
  have edit: ?thesis if d: "d \<in> set (db_devices db)" "d_id d = i" "d_id d' = d_id d" "d_deleted d' = d_deleted d"
    "d_asset_id d' = d_asset_id d" "db' = db\<lparr>db_devices := put d_id d' (db_devices db)\<rparr>"
    "device_constraints (db_devices db')" for d
  proof -
    have rows: "set (put d_id d' (db_devices db)) = insert d' (set (db_devices db) - {d})"
      by (rule put_device_rows [OF timelineD(1) [OF assms(1)] d(1,3)])
    have "application_ok d'"
      using device_constraintsD(1) [OF _ d(7)] timelineD(1) [OF assms(1)] rows d(6) by simp
    then have "d_protocol d' = CHIRPSTACK \<longrightarrow> d_application_id d' \<notin> {None, Some []}"
      by (auto simp: application_ok_def split: option.splits)
    moreover have "asset_at db' = asset_at db"
      using d(6) by (intro ext) (simp add: asset_at_def get_assignment_for_device_at_def)
    ultimately show ?thesis
      using same_asset_keeps [OF assms(1) d(1,3-5)] rows d by auto
  qed
  from assms(2) show ?thesis
  proof
    assume "update_device i u db = (Inr (Some d'), db')"
    then show ?thesis by (cases rule: update_device_cases) (use edit in auto)
  next
    assume "deactivate_device i db = (Inr (Some d'), db')"
    then show ?thesis by (cases rule: deactivate_device_cases) (use edit in auto)
  qed
qed

definition no_update :: device_update where
  "no_update = \<lparr>du_serial = None, du_name = None, du_type = None, du_state = None, du_protocol = None,
     du_client_id = None, du_asset_id = None, du_active = None, du_last_seen_at = None, du_dev_eui = None,
     du_application_id = None, du_lorawan_class = None, du_device_profile_id = None\<rparr>"

lemma idle_update:
  "update_device 1 (no_update\<lparr>du_name := Some (Some ''x'')\<rparr>) idle_db =
     (Inr (Some (idle_device\<lparr>d_name := ''x''\<rparr>)), idle_db\<lparr>db_devices := [idle_device\<lparr>d_name := ''x''\<rparr>]\<rparr>)"
  by (simp add: update_device_def crud_get_def fetch_def idle_db_def idle_device_def empty_db_def no_update_def
      is_deleted_def device_deleted_def chirpstack_application_id_would_be_missing_def set_nullable_def violates_not_null_def
      crud_update_def assign_update_def set_required_def put_def commit_db_def device_constraints_def
      assignment_constraints_def)

theorem device_edits_keep_assignments_witness:
  "\<exists>d' db'. update_device 1 (no_update\<lparr>du_name := Some (Some ''x'')\<rparr>) idle_db = (Inr (Some d'), db') \<and> timeline_ok db'"
  using device_edits_keep_assignments [OF idle_db_ok(1) disjI1 [OF idle_update]] idle_update by blast

subsection \<open>Tenants\<close>

text \<open>The assignment service lets a device track only assets of its own client.\<close>

definition tenant_ok :: "tlrs_db \<Rightarrow> bool" where
  "tenant_ok db \<longleftrightarrow> (\<forall>d \<in> set (db_devices db). \<forall>a \<in> set (db_assets db).
     d_deleted d = CHR ''N'' \<and> d_asset_id d = Some (a_id a) \<longrightarrow> a_client_id a = d_client_id d)"

lemma assign_keeps_tenants:
  assumes ok: "timeline_ok db" and "tenant_ok db" "distinct (map a_id (db_assets db))"
    and run: "assign_asset now created i aid db = (Inr (Some d'), db')"
  shows "tenant_ok db'"
proof -
  obtain d where look: "get_device_for_update db i = Inr (Some d)"
    using run by (cases "get_device_for_update db i")
      (auto simp: assign_asset_def transact_def res_simps split: sum.splits option.splits)
  note dev = device_lookup [OF ok look]
  have own: "a_client_id a = d_client_id d" if "a \<in> set (db_assets db)" "a_id a = aid" for a
  proof -
    obtain b where b: "b \<in> set (db_assets db)" "a_id b = aid" "a_client_id b = d_client_id d"
      using assignable_cases [OF assms(3), of d aid] run look by (auto simp: assign_asset_def transact_def)
    with same_key_same_row [OF assms(3) that(1) b(1)] that show ?thesis by simp
  qed
  have "d_client_id d' = d_client_id d \<and> d_deleted d' = d_deleted d \<and> d_asset_id d' = Some aid \<and>
      set (db_devices db') = insert d' (set (db_devices db) - {d}) \<and> db_assets db' = db_assets db"
  proof (cases rule: assign_cases [OF ok run])
    case (1 e)
    then have "e = d" using same_key_same_row [OF timelineD(1) [OF ok] 1(1) dev(1)] dev(2) by simp
    with 1 put_device_rows [OF timelineD(1) [OF ok] dev(1), of d'] show ?thesis by (simp add: activated_def)
  next
    case (2 e active)
    then have "e = d" using same_key_same_row [OF timelineD(1) [OF ok] 2(1) dev(1)] dev(2) by simp
    with 2 put_device_rows [OF timelineD(1) [OF ok] dev(1), of d'] show ?thesis
      by (simp add: activated_def switched_def)
  qed
  with assms(2) own show ?thesis by (auto simp: tenant_ok_def)
qed

text \<open>
  The administrator's update is not so careful: the client of a device is no
  protected field, so one update moves a device to another client while it keeps tracking an
  asset of the first one - from a consistent database that the assignment service alone would
  have kept consistent.
\<close>
theorem update_crosses_tenants:
  "\<exists>db db1 db2 d1 d2. timeline_ok db \<and> tenant_ok db \<and> assign_asset 5 5 1 7 db = (Inr (Some d1), db1) \<and> tenant_ok db1 \<and>
     update_device 1 (no_update\<lparr>du_client_id := Some (Some 2)\<rparr>) db1 = (Inr (Some d2), db2) \<and>
     d_asset_id d2 = Some 7 \<and> \<not> tenant_ok db2"
proof -
  let ?d = "idle_device\<lparr>d_asset_id := Some 7, d_active := True\<rparr>"
  let ?db1 = "idle_db\<lparr>db_devices := [?d], db_device_assignments := [new_assignment 5 5 1 7 []]\<rparr>"
  have t: "tenant_ok idle_db" by (simp add: tenant_ok_def idle_db_def idle_device_def)
  have run: "assign_asset 5 5 1 7 idle_db = (Inr (Some ?d), ?db1)"
    by (simp add: assign_asset_def transact_def get_device_for_update_def query_result_def idle_db_def idle_device_def
        empty_db_def get_assignable_asset_def get_active_assignment_for_device_def validate_current_assignment_def
        ensure_asset_is_available_def Let_def commit_db_def device_constraints_def assignment_constraints_def
        close_assignment_def put_def activated_def is_open_def new_assignment_def)
  have assets: "distinct (map a_id (db_assets idle_db))" by (simp add: idle_db_def)
  have upd: "update_device 1 (no_update\<lparr>du_client_id := Some (Some 2)\<rparr>) ?db1 =
      (Inr (Some (?d\<lparr>d_client_id := Some 2\<rparr>)), ?db1\<lparr>db_devices := [?d\<lparr>d_client_id := Some 2\<rparr>]\<rparr>)"
    by (simp add: update_device_def crud_get_def fetch_def idle_db_def idle_device_def empty_db_def no_update_def
        is_deleted_def device_deleted_def chirpstack_application_id_would_be_missing_def set_nullable_def violates_not_null_def
        crud_update_def assign_update_def set_required_def put_def commit_db_def device_constraints_def
        assignment_constraints_def new_assignment_def is_open_def)
  have "\<not> tenant_ok (?db1\<lparr>db_devices := [?d\<lparr>d_client_id := Some 2\<rparr>]\<rparr>)"
    by (simp add: tenant_ok_def idle_db_def idle_device_def)
  with run upd t assign_keeps_tenants [OF idle_db_ok(1) t assets run] idle_db_ok(1) show ?thesis
    by (intro exI [of _ idle_db] exI [of _ ?db1] exI [of _ "?db1\<lparr>db_devices := [?d\<lparr>d_client_id := Some 2\<rparr>]\<rparr>"]
        exI [of _ ?d] exI [of _ "?d\<lparr>d_client_id := Some 2\<rparr>"]) simp
qed

text \<open>No device is ever reactivated by the operation of that name.\<close>

lemma reactivation_never_succeeds:
  "snd (reactivate_device i db) = db" "fst (reactivate_device i db) \<noteq> Inr (Some d)"
  "crud_get d_id device_deleted False i (db_devices db) = Some e \<Longrightarrow> d_asset_id e \<noteq> None \<Longrightarrow> d_client_id e \<noteq> None \<Longrightarrow>
    fst (reactivate_device i db) = Inl (Name_Error ''AssetStatus'')"
  by (auto simp: reactivate_device_def split: option.splits)

lemma off_filter: "filter (\<lambda>d. d_state d = OFF) ds = filter (\<lambda>d. d_state d \<noteq> ON) ds"
proof (rule filter_cong [OF refl])
  fix d show "(d_state d = OFF) = (d_state d \<noteq> ON)" by (cases "d_state d") simp_all
qed

lemma stats_partition:
  "ds_active (device_stats_of ds) + ds_inactive (device_stats_of ds) = ds_total (device_stats_of ds)"
  "ds_online (device_stats_of ds) + ds_offline (device_stats_of ds) = ds_total (device_stats_of ds)"
  using sum_length_filter_compl [of d_active ds] sum_length_filter_compl [of "\<lambda>d. d_state d = ON" ds]
  unfolding device_stats_of_def off_filter by simp_all

end
