(* ===== verification/User_Sessions.thy ===== *)
theory User_Sessions
  imports Device_Service "HOL-Library.Multiset"
begin

text \<open>
  Users and their refresh sessions, \<open>src/service/crud_user.py\<close> and \<open>src/models/user.py\<close>.  The
  account tables are kept apart from the tables of the tracking domain, which the services of
  this part do not read.  The clock, the random token, SHA-256, bcrypt and the JWT library are
  parameters; the settings are fields of the environment of a call.  A call that raises leaves
  the database as it was: the request's session closes without a commit.
\<close>

subsection \<open>Rows\<close>

record user =
  u_id :: nat
  u_name :: string
  u_email :: string
  u_password :: string
  u_deleted :: char
  u_client_id :: "nat option"
  u_is_admin :: bool

record user_session =
  us_id :: nat
  us_user_id :: nat
  us_token_hash :: string
  us_issued_at :: int
  us_expires_at :: int
  us_revoked_at :: "int option"
  us_replaced_by :: "nat option"
  us_user_agent :: "string option"
  us_ip_address :: "string option"
  us_deleted :: char

record role =
  r_id :: nat
  r_name :: string
  r_deleted :: char

record user_role =
  ur_id :: nat
  ur_user_id :: nat
  ur_role_id :: nat
  ur_deleted :: char

record service =
  sv_id :: nat
  sv_name :: string
  sv_deleted :: char

record service_role =
  sr_id :: nat
  sr_service_id :: nat
  sr_role_id :: nat
  sr_deleted :: char

record accounts =
  acc_users :: "user list"
  acc_sessions :: "user_session list"
  acc_roles :: "role list"
  acc_user_roles :: "user_role list"
  acc_services :: "service list"
  acc_service_roles :: "service_role list"

interpretation soft_user: soft_deletion u_id u_deleted "\<lambda>c u. u\<lparr>u_deleted := c\<rparr>"
  by unfold_locales simp_all

definition user_deleted :: "user deleted_field" where
  "user_deleted = Some (u_deleted, \<lambda>c u. u\<lparr>u_deleted := c\<rparr>)"

datatype web_error = Http_Error nat string | Web_Db py_exc

definition web_result :: "(py_exc, 'a) res \<Rightarrow> (web_error, 'a) res" where
  "web_result r = (case r of Inl e \<Rightarrow> Inl (Web_Db e) | Inr x \<Rightarrow> Inr x)"

subsection \<open>The environment of a call\<close>

text \<open>
  \<open>se_now\<close>, \<open>se_now_limit\<close>, \<open>se_now_expiry\<close> and \<open>se_now_issued\<close> are the readings of the clock in
  the order the code takes them; \<open>se_token\<close> is the token drawn, \<open>se_hash\<close> SHA-256 in hex.
\<close>

record session_env =
  se_now :: int
  se_now_limit :: int
  se_now_expiry :: int
  se_now_issued :: int
  se_token :: string
  se_hash :: "string \<Rightarrow> string"
  se_refresh_days :: int
  se_grace_seconds :: int
  se_max_sessions :: int

definition seconds_us :: "int \<Rightarrow> int" where "seconds_us s = s * 1000000"
definition days_us :: "int \<Rightarrow> int" where "days_us d = d * 86400 * 1000000"

definition truncate_user_agent :: "string option \<Rightarrow> string option" where
  "truncate_user_agent ua = map_option (take 512) ua"

definition session_active :: "int \<Rightarrow> nat \<Rightarrow> user_session \<Rightarrow> bool" where
  "session_active now user_id s \<longleftrightarrow> us_user_id s = user_id \<and> us_revoked_at s = None \<and> us_deleted s = CHR ''N'' \<and>
     us_expires_at s > now"

subsection \<open>Users\<close>

definition get_active_user_by_id :: "accounts \<Rightarrow> nat \<Rightarrow> (web_error, user option) res" where
  "get_active_user_by_id acc i = web_result (scalar_one_or_none
     (filter (\<lambda>u. u_id u = i \<and> u_deleted u = CHR ''N'') (acc_users acc)))"

definition get_active_session :: "accounts \<Rightarrow> int \<Rightarrow> nat \<Rightarrow> nat \<Rightarrow> (web_error, user_session option) res" where
  "get_active_session acc now user_id session_id = web_result (scalar_one_or_none
     (filter (\<lambda>s. us_id s = session_id \<and> session_active now user_id s) (acc_sessions acc)))"

definition utf8_length :: "string \<Rightarrow> nat" where
  "utf8_length s = sum_list (map (\<lambda>c. if (of_char c :: nat) < 128 then 1 else 2) s)"

definition create_user ::
  "(string \<Rightarrow> string) \<Rightarrow> string \<Rightarrow> string \<Rightarrow> string \<Rightarrow> nat option \<Rightarrow> bool \<Rightarrow> (accounts, web_error, user) act" where
  "create_user bcrypt_hash name email password client_id is_admin acc =
     (if utf8_length password > 72 then (Inl (Http_Error 422 ''Password cannot be longer than 72 bytes.''), acc)
      else if name \<in> u_name ` set (acc_users acc) \<or> email \<in> u_email ` set (acc_users acc)
        then (Inl (Web_Db (Integrity_Error ''users'')), acc)
      else (let u = \<lparr>u_id = fresh u_id (acc_users acc), u_name = name, u_email = email,
              u_password = bcrypt_hash password, u_deleted = CHR ''N'', u_client_id = client_id, u_is_admin = is_admin\<rparr>
            in (Inr u, acc\<lparr>acc_users := acc_users acc @ [u]\<rparr>)))"

definition auth_user :: "(string \<Rightarrow> string \<Rightarrow> bool) \<Rightarrow> string \<Rightarrow> string \<Rightarrow> accounts \<Rightarrow> (web_error, user) res" where
  "auth_user bcrypt_verify password username acc =
     bindE (web_result (scalar_one_or_none (filter (\<lambda>u. u_name u = username \<and> u_deleted u = CHR ''N'') (acc_users acc))))
       (\<lambda>r. case r of
          None \<Rightarrow> Inl (Http_Error 401 ''Invalid username or password'')
        | Some u \<Rightarrow> if \<not> bcrypt_verify password (u_password u) then Inl (Http_Error 401 ''Invalid Credentials'') else Inr u)"

text \<open>The \<open>update\<close> statement revokes in the database what the user still has open.\<close>

definition deactivate_user :: "int \<Rightarrow> nat \<Rightarrow> accounts \<Rightarrow> user option \<times> accounts" where
  "deactivate_user now i acc =
     (case crud_get u_id user_deleted False i (acc_users acc) of
        None \<Rightarrow> (None, acc)
      | Some u \<Rightarrow>
          (let u' = u\<lparr>u_deleted := CHR ''Y''\<rparr>
           in (Some u', acc\<lparr>acc_users := put u_id u' (acc_users acc),
                acc_sessions := map (\<lambda>s. if us_user_id s = i \<and> us_deleted s = CHR ''N'' \<and> us_revoked_at s = None
                  then s\<lparr>us_revoked_at := Some now\<rparr> else s) (acc_sessions acc)\<rparr>)))"

definition reactivate_user :: "nat \<Rightarrow> accounts \<Rightarrow> user option \<times> accounts" where
  "reactivate_user i acc =
     (case crud_get u_id user_deleted True i (acc_users acc) of
        None \<Rightarrow> (None, acc)
      | Some u \<Rightarrow> (let u' = u\<lparr>u_deleted := CHR ''N''\<rparr>
          in (Some u', acc\<lparr>acc_users := put u_id u' (acc_users acc)\<rparr>)))"

definition get_active_users_count :: "accounts \<Rightarrow> nat" where
  "get_active_users_count acc = length (filter (\<lambda>u. u_deleted u = CHR ''N'') (acc_users acc))"

definition get_users_by_client_id :: "accounts \<Rightarrow> nat \<Rightarrow> nat \<Rightarrow> nat \<Rightarrow> user list" where
  "get_users_by_client_id acc c skip limit =
     take limit (drop skip (filter (\<lambda>u. u_client_id u = Some c \<and> u_deleted u = CHR ''N'') (acc_users acc)))"

subsection \<open>Sessions\<close>

definition oldest_sessions :: "user_session list \<Rightarrow> user_session list" where
  "oldest_sessions = sort_key (\<lambda>s. us_issued_at s) \<circ> sort_key us_id"

definition revoke_sessions :: "int \<Rightarrow> nat set \<Rightarrow> user_session list \<Rightarrow> user_session list" where
  "revoke_sessions now ids = map (\<lambda>s. if us_id s \<in> ids then s\<lparr>us_revoked_at := Some now\<rparr> else s)"

definition enforce_active_session_limit ::
  "session_env \<Rightarrow> nat \<Rightarrow> user_session list \<Rightarrow> (web_error, user_session list) res" where
  "enforce_active_session_limit env user_id sessions =
     (if se_max_sessions env < 1 then Inl (Http_Error 500 ''User session limit must be at least 1.'')
      else
        (let active = oldest_sessions (filter (session_active (se_now_limit env) user_id) sessions);
             sessions_to_revoke = int (length active) - se_max_sessions env + 1
         in Inr (if sessions_to_revoke \<le> 0 then sessions
            else revoke_sessions (se_now_limit env) (us_id ` set (take (nat sessions_to_revoke) active)) sessions)))"

definition new_session ::
  "session_env \<Rightarrow> int \<Rightarrow> nat \<Rightarrow> string option \<Rightarrow> string option \<Rightarrow> user_session list \<Rightarrow> user_session" where
  "new_session env expiry_base user_id user_agent ip_address sessions =
     \<lparr>us_id = fresh us_id sessions, us_user_id = user_id, us_token_hash = se_hash env (se_token env),
      us_issued_at = se_now_issued env, us_expires_at = expiry_base + days_us (se_refresh_days env),
      us_revoked_at = None, us_replaced_by = None, us_user_agent = truncate_user_agent user_agent,
      us_ip_address = ip_address, us_deleted = CHR ''N''\<rparr>"

text \<open>The hash of a refresh token is unique in its table.\<close>

definition insert_session :: "user_session \<Rightarrow> user_session list \<Rightarrow> (web_error, user_session list) res" where
  "insert_session s sessions = (if us_token_hash s \<in> us_token_hash ` set sessions
     then Inl (Web_Db (Integrity_Error ''user_sessions_refresh_token_hash'')) else Inr (sessions @ [s]))"

definition with_sessions :: "accounts \<Rightarrow> (web_error, 'a \<times> user_session list) res \<Rightarrow> (web_error, 'a) res \<times> accounts" where
  "with_sessions acc r = (case r of Inl e \<Rightarrow> (Inl e, acc) | Inr (x, ss) \<Rightarrow> (Inr x, acc\<lparr>acc_sessions := ss\<rparr>))"

record token_pair =
  tp_refresh_token :: string
  tp_session :: user_session

definition create_refresh_session ::
  "session_env \<Rightarrow> nat \<Rightarrow> string option \<Rightarrow> string option \<Rightarrow> (accounts, web_error, token_pair) act" where
  "create_refresh_session env user_id user_agent ip_address acc = with_sessions acc
     (bindE (enforce_active_session_limit env user_id (acc_sessions acc)) (\<lambda>ss.
        let s = new_session env (se_now_expiry env) user_id user_agent ip_address ss
        in bindE (insert_session s ss) (\<lambda>ss'. Inr (\<lparr>tp_refresh_token = se_token env, tp_session = s\<rparr>, ss'))))"

record token_data =
  td_user_id :: nat
  td_username :: string
  td_client_id :: "nat option"
  td_is_admin :: bool
  td_session_id :: "nat option"

definition token_data_of :: "user \<Rightarrow> token_data" where
  "token_data_of u = \<lparr>td_user_id = u_id u, td_username = u_name u, td_client_id = u_client_id u,
     td_is_admin = u_is_admin u, td_session_id = None\<rparr>"

record refresh_result =
  rr_token_data :: token_data
  rr_session :: user_session
  rr_pair :: "token_pair option"

definition joined_sessions :: "accounts \<Rightarrow> (user_session \<times> user) list" where
  "joined_sessions acc = concat (map (\<lambda>s. map (Pair s) (filter (\<lambda>u. u_id u = us_user_id s) (acc_users acc))) (acc_sessions acc))"

definition request_fingerprint_matches :: "user_session \<Rightarrow> string option \<Rightarrow> string option \<Rightarrow> bool" where
  "request_fingerprint_matches s user_agent ip_address =
     (let given = truncate_user_agent user_agent
      in \<not> (us_user_agent s \<notin> {None, Some []} \<and> given \<notin> {None, Some []} \<and> us_user_agent s \<noteq> given) \<and>
         \<not> (us_ip_address s \<notin> {None, Some []} \<and> ip_address \<notin> {None, Some []} \<and> us_ip_address s \<noteq> ip_address))"

definition reuse_recently_rotated_session ::
  "session_env \<Rightarrow> string \<Rightarrow> string option \<Rightarrow> string option \<Rightarrow> accounts \<Rightarrow> (web_error, refresh_result option) res" where
  "reuse_recently_rotated_session env refresh_token user_agent ip_address acc =
     (if se_grace_seconds env < 1 then Inr None
      else
        (let cutoff = se_now env - seconds_us (se_grace_seconds env)
         in bindE (web_result (scalar_one_or_none (filter (\<lambda>(s, u). us_token_hash s = se_hash env refresh_token \<and>
              us_deleted s = CHR ''N'' \<and> (case us_revoked_at s of None \<Rightarrow> False | Some t \<Rightarrow> t \<ge> cutoff) \<and>
              us_replaced_by s \<noteq> None \<and> u_deleted u = CHR ''N'') (joined_sessions acc))))
            (\<lambda>row. case row of
               None \<Rightarrow> Inr None
             | Some (s, u) \<Rightarrow>
                 if \<not> request_fingerprint_matches s user_agent ip_address then Inr None
                 else bindE (web_result (scalar_one_or_none (filter (\<lambda>x. Some (us_id x) = us_replaced_by s \<and>
                     session_active (se_now env) (us_user_id s) x) (acc_sessions acc))))
                   (\<lambda>replacement. Inr (map_option (\<lambda>x. \<lparr>rr_token_data = token_data_of u, rr_session = x, rr_pair = None\<rparr>)
                      replacement)))))"

definition rotate_refresh_session ::
  "session_env \<Rightarrow> string \<Rightarrow> string option \<Rightarrow> string option \<Rightarrow> (accounts, web_error, refresh_result) act" where
  "rotate_refresh_session env refresh_token user_agent ip_address acc = with_sessions acc
     (bindE (web_result (scalar_one_or_none (filter (\<lambda>(s, u). us_token_hash s = se_hash env refresh_token \<and>
          session_active (se_now env) (us_user_id s) s \<and> u_deleted u = CHR ''N'') (joined_sessions acc))))
       (\<lambda>row. case row of
          None \<Rightarrow>
            bindE (reuse_recently_rotated_session env refresh_token user_agent ip_address acc) (\<lambda>reused.
              case reused of
                Some r \<Rightarrow> Inr (r, acc_sessions acc)
              | None \<Rightarrow> Inl (Http_Error 401 ''Invalid refresh token.''))
        | Some (s, u) \<Rightarrow>
            (let s' = s\<lparr>us_revoked_at := Some (se_now env)\<rparr>
             in bindE (enforce_active_session_limit env (u_id u) (put us_id s' (acc_sessions acc))) (\<lambda>ss.
                let n = new_session env (se_now env) (u_id u) user_agent ip_address ss
                in bindE (insert_session n ss) (\<lambda>ss'.
                   Inr (\<lparr>rr_token_data = token_data_of u, rr_session = n,
                          rr_pair = Some \<lparr>tp_refresh_token = se_token env, tp_session = n\<rparr>\<rparr>,
                        put us_id (s'\<lparr>us_replaced_by := Some (us_id n)\<rparr>) ss'))))))"

definition revoke_refresh_session :: "session_env \<Rightarrow> string \<Rightarrow> (accounts, web_error, unit) act" where
  "revoke_refresh_session env refresh_token acc = with_sessions acc
     (bindE (web_result (scalar_one_or_none (filter (\<lambda>s. us_token_hash s = se_hash env refresh_token \<and>
          session_active (se_now env) (us_user_id s) s) (acc_sessions acc))))
       (\<lambda>r. Inr ((), case r of None \<Rightarrow> acc_sessions acc
          | Some s \<Rightarrow> put us_id (s\<lparr>us_revoked_at := Some (se_now env)\<rparr>) (acc_sessions acc))))"

definition is_stale :: "int \<Rightarrow> int \<Rightarrow> user_session \<Rightarrow> bool" where
  "is_stale now retention_days s \<longleftrightarrow> us_issued_at s < now - days_us retention_days \<and>
     (us_revoked_at s \<noteq> None \<or> us_expires_at s < now)"

definition delete_stale_sessions :: "int \<Rightarrow> int \<Rightarrow> accounts \<Rightarrow> nat \<times> accounts" where
  "delete_stale_sessions now retention_days acc =
     (let stale = us_id ` set (filter (is_stale now retention_days) (acc_sessions acc));
          unlinked = map (\<lambda>s. if (case us_replaced_by s of None \<Rightarrow> False | Some i \<Rightarrow> i \<in> stale)
            then s\<lparr>us_replaced_by := None\<rparr> else s) (acc_sessions acc)
      in (length (filter (\<lambda>s. us_id s \<in> stale) unlinked),
          acc\<lparr>acc_sessions := filter (\<lambda>s. us_id s \<notin> stale) unlinked\<rparr>))"

subsection \<open>Access tokens\<close>

record token_claims =
  tc_type :: "string option"
  tc_sub :: "string option"
  tc_id :: "nat option"
  tc_client_id :: "nat option"
  tc_is_admin :: "bool option"
  tc_session_id :: "nat option"
  tc_exp :: int

definition create_token ::
  "(string \<Rightarrow> string \<Rightarrow> token_claims \<Rightarrow> string) \<Rightarrow> string option \<Rightarrow> string option \<Rightarrow> int \<Rightarrow> int
   \<Rightarrow> nat \<Rightarrow> string \<Rightarrow> nat option \<Rightarrow> bool \<Rightarrow> nat \<Rightarrow> (web_error, string) res" where
  "create_token jwt_encode secret algorithm now expires_delta user_id username client_id is_admin session_id =
     (case (secret, algorithm) of
        (Some k, Some alg) \<Rightarrow> Inr (jwt_encode k alg \<lparr>tc_type = Some ''access'', tc_sub = Some username, tc_id = Some user_id,
          tc_client_id = client_id, tc_is_admin = Some is_admin, tc_session_id = Some session_id, tc_exp = now + expires_delta\<rparr>)
      | _ \<Rightarrow> Inl (Http_Error 500 ''JWT settings are not configured.''))"

definition get_current_user ::
  "(string \<Rightarrow> string \<Rightarrow> string \<Rightarrow> token_claims option) \<Rightarrow> string option \<Rightarrow> string option \<Rightarrow> string
   \<Rightarrow> (web_error, token_data) res" where
  "get_current_user jwt_decode secret algorithm token =
     (case (secret, algorithm) of
        (Some k, Some alg) \<Rightarrow>
          (case jwt_decode k alg token of
             None \<Rightarrow> Inl (Http_Error 401 ''Could not validate user.'')
           | Some c \<Rightarrow>
               if tc_type c \<noteq> Some ''access'' then Inl (Http_Error 401 ''Could not validate user.'')
               else (case (tc_id c, tc_sub c) of
                   (Some i, Some sub) \<Rightarrow> Inr \<lparr>td_user_id = i, td_username = sub, td_client_id = tc_client_id c,
                     td_is_admin = (tc_is_admin c = Some True), td_session_id = tc_session_id c\<rparr>
                 | _ \<Rightarrow> Inl (Http_Error 401 ''Could not validate user.'')))
      | _ \<Rightarrow> Inl (Http_Error 500 ''JWT settings are not configured.''))"

subsection \<open>The session limit\<close>

lemma mset_oldest [simp]: "mset (oldest_sessions xs) = mset xs"
  by (simp add: oldest_sessions_def)

lemma length_oldest [simp]: "length (oldest_sessions xs) = length xs"
  by (metis mset_oldest size_mset)

lemma set_oldest [simp]: "set (oldest_sessions xs) = set xs"
  by (metis mset_oldest set_mset_mset)

lemma ids_oldest: "distinct (map us_id xs) \<Longrightarrow> distinct (map us_id (oldest_sessions xs))"
  using mset_eq_imp_distinct_iff [of "map us_id (oldest_sessions xs)" "map us_id xs"] by simp

lemma session_active_later: "session_active t u s \<Longrightarrow> t' \<le> t \<Longrightarrow> session_active t' u s"
  by (auto simp: session_active_def)

lemma active_after_revoke:
  "filter (session_active t u) (revoke_sessions now K ss) = filter (\<lambda>s. session_active t u s \<and> us_id s \<notin> K) ss"
  by (induction ss) (auto simp: revoke_sessions_def session_active_def)

lemma revoke_oldest_count:
  assumes "distinct (map us_id ss)" and act: "act = oldest_sessions (filter (session_active t u) ss)"
  shows "length (filter (session_active t u) (revoke_sessions now (us_id ` set (take k act)) ss)) = length act - k"
proof -
  let ?K = "us_id ` set (take k act)"
  have d: "distinct (map us_id act)"
    unfolding act using assms(1) by (intro ids_oldest) (simp add: distinct_map_filter)
  then have d2: "distinct (map us_id (take k act @ drop k act))" by simp
  have "filter (\<lambda>s. us_id s \<notin> ?K) (drop k act) = drop k act"
    using d2 unfolding map_append distinct_append by (intro filter_True) auto
  moreover have "filter (\<lambda>s. us_id s \<notin> ?K) (take k act) = []" by (simp add: filter_empty_conv)
  ultimately have "filter (\<lambda>s. us_id s \<notin> ?K) (take k act @ drop k act) = drop k act" by (simp only: filter_append append_Nil)
  then have "length (filter (\<lambda>s. us_id s \<notin> ?K) act) = length act - k" by simp
  moreover have "length (filter (\<lambda>s. us_id s \<notin> ?K) act) = length (filter (\<lambda>s. us_id s \<notin> ?K) (filter (session_active t u) ss))"
    unfolding act by (metis mset_filter mset_oldest size_mset)
  ultimately show ?thesis by (simp add: active_after_revoke conj_commute)
qed

lemma revoke_frame:
  "map us_id (revoke_sessions now K ss) = map us_id ss"
  "\<forall>s \<in> set ss. us_id s \<in> K \<longrightarrow> \<not> Q s \<and> \<not> Q (s\<lparr>us_revoked_at := Some now\<rparr>) \<Longrightarrow> filter Q (revoke_sessions now K ss) = filter Q ss"
  by (induction ss) (auto simp: revoke_sessions_def)

lemma enforce_spec:
  assumes "distinct (map us_id ss)" "enforce_active_session_limit env u ss = Inr ss'"
  shows "map us_id ss' = map us_id ss"
    and "se_now_limit env \<le> t \<Longrightarrow> int (length (filter (session_active t u) ss')) \<le> se_max_sessions env - 1"
    and "filter (\<lambda>s. us_user_id s \<noteq> u) ss' = filter (\<lambda>s. us_user_id s \<noteq> u) ss"
    and "s \<in> set ss \<Longrightarrow> us_revoked_at s \<noteq> None \<Longrightarrow> s \<in> set ss'"
    and "s' \<in> set ss' \<Longrightarrow> \<exists>s \<in> set ss. s' = s \<or> (s' = s\<lparr>us_revoked_at := Some (se_now_limit env)\<rparr> \<and> us_user_id s = u \<and> us_revoked_at s = None)"
proof -
  define act where "act = oldest_sessions (filter (session_active (se_now_limit env) u) ss)"
  define k where "k = int (length act) - se_max_sessions env + 1"
  have max1: "1 \<le> se_max_sessions env" using assms(2) by (auto simp: enforce_active_session_limit_def split: if_splits)
  have ss': "ss' = (if k \<le> 0 then ss else revoke_sessions (se_now_limit env) (us_id ` set (take (nat k) act)) ss)"
    using assms(2) max1 by (auto simp: enforce_active_session_limit_def Let_def act_def k_def split: if_splits)
  have own: "us_user_id s = u \<and> us_revoked_at s = None" if "s \<in> set ss" "us_id s \<in> us_id ` set (take (nat k) act)" for s
  proof -
    from that(2) obtain s2 where s2: "s2 \<in> set act" "us_id s = us_id s2" by (auto dest: in_set_takeD)
    then have "s2 \<in> set ss" "session_active (se_now_limit env) u s2" by (auto simp: act_def)
    with same_key_same_row [OF assms(1) that(1) this(1) s2(2)] show ?thesis by (simp add: session_active_def)
  qed
  show "map us_id ss' = map us_id ss" by (simp add: ss' revoke_frame)
  show "filter (\<lambda>s. us_user_id s \<noteq> u) ss' = filter (\<lambda>s. us_user_id s \<noteq> u) ss"
    unfolding ss' using own by (auto intro!: revoke_frame(2))
  show "s \<in> set ss'" if "s \<in> set ss" "us_revoked_at s \<noteq> None"
  proof -
    have "us_id s \<notin> us_id ` set (take (nat k) act)" using own [OF that(1)] that(2) by blast
    with that(1) show ?thesis unfolding ss' revoke_sessions_def by (auto intro!: image_eqI [of _ _ s])
  qed
  show "\<exists>s \<in> set ss. s' = s \<or> (s' = s\<lparr>us_revoked_at := Some (se_now_limit env)\<rparr> \<and> us_user_id s = u \<and> us_revoked_at s = None)"
    if "s' \<in> set ss'"
    using that own unfolding ss' by (auto simp: revoke_sessions_def split: if_splits)
  show "int (length (filter (session_active t u) ss')) \<le> se_max_sessions env - 1" if t: "se_now_limit env \<le> t"
  proof -
    have "length (filter (session_active t u) ss') \<le> length (filter (session_active (se_now_limit env) u) ss')"
      by (rule length_filter_mono) (rule session_active_later [OF _ t])
    also have "int \<dots> \<le> se_max_sessions env - 1"
    proof (cases "k \<le> 0")
      case True
      then show ?thesis using ss' by (simp add: k_def act_def)
    next
      case False
      then have "int (length act - nat k) \<le> se_max_sessions env - 1" using max1 by (simp add: k_def)
      with False revoke_oldest_count [OF assms(1) act_def, of "se_now_limit env" "nat k"] show ?thesis by (simp add: ss')
    qed
    finally show ?thesis by linarith
  qed
qed

definition sessions_ok :: "accounts \<Rightarrow> bool" where
  "sessions_ok acc \<longleftrightarrow> distinct (map us_id (acc_sessions acc)) \<and> distinct (map us_token_hash (acc_sessions acc)) \<and>
     distinct (map u_id (acc_users acc))"

lemma joined_iff [simp]:
  "(s, u) \<in> set (joined_sessions acc) \<longleftrightarrow> s \<in> set (acc_sessions acc) \<and> u \<in> set (acc_users acc) \<and> u_id u = us_user_id s"
  by (auto simp: joined_sessions_def)

lemma new_session_simps [simp]:
  "us_id (new_session env b i ua ip ss) = fresh us_id ss" "us_user_id (new_session env b i ua ip ss) = i"
  "us_token_hash (new_session env b i ua ip ss) = se_hash env (se_token env)"
  "us_revoked_at (new_session env b i ua ip ss) = None" "us_deleted (new_session env b i ua ip ss) = CHR ''N''"
  "us_expires_at (new_session env b i ua ip ss) = b + days_us (se_refresh_days env)"
  by (simp_all add: new_session_def)

lemma with_sessions_Inr:
  "with_sessions acc r = (Inr x, acc') \<longleftrightarrow> (\<exists>ss. r = Inr (x, ss) \<and> acc' = acc\<lparr>acc_sessions := ss\<rparr>)"
  by (auto simp: with_sessions_def split: sum.splits)

lemma insert_session_Inr: "insert_session s ss = Inr ss' \<longleftrightarrow> ss' = ss @ [s] \<and> us_token_hash s \<notin> us_token_hash ` set ss"
  by (auto simp: insert_session_def)

lemma scalar_in: "web_result (scalar_one_or_none (filter P xs)) = Inr (Some x) \<Longrightarrow> x \<in> set xs \<and> P x"
  by (auto simp: web_result_def scalar_one_or_none_Some filter_eq_Cons_iff split: sum.splits)

lemma create_session_cases:
  assumes "create_refresh_session env i ua ip acc = (Inr p, acc')"
  obtains ss s where "enforce_active_session_limit env i (acc_sessions acc) = Inr ss"
    "s = new_session env (se_now_expiry env) i ua ip ss" "us_token_hash s \<notin> us_token_hash ` set ss"
    "acc' = acc\<lparr>acc_sessions := ss @ [s]\<rparr>" "p = \<lparr>tp_refresh_token = se_token env, tp_session = s\<rparr>"
  using assms by (auto simp: create_refresh_session_def with_sessions_Inr res_simps Let_def insert_session_Inr)

lemma rotate_cases:
  assumes "rotate_refresh_session env tok ua ip acc = (Inr r, acc')"
  obtains (rotated) s u ss n where "s \<in> set (acc_sessions acc)" "u \<in> set (acc_users acc)" "u_id u = us_user_id s"
      "us_token_hash s = se_hash env tok" "session_active (se_now env) (us_user_id s) s" "u_deleted u = CHR ''N''"
      "enforce_active_session_limit env (u_id u) (put us_id (s\<lparr>us_revoked_at := Some (se_now env)\<rparr>) (acc_sessions acc)) = Inr ss"
      "n = new_session env (se_now env) (u_id u) ua ip ss" "us_token_hash n \<notin> us_token_hash ` set ss"
      "r = \<lparr>rr_token_data = token_data_of u, rr_session = n, rr_pair = Some \<lparr>tp_refresh_token = se_token env, tp_session = n\<rparr>\<rparr>"
      "acc' = acc\<lparr>acc_sessions := put us_id (s\<lparr>us_revoked_at := Some (se_now env), us_replaced_by := Some (us_id n)\<rparr>) (ss @ [n])\<rparr>"
  | (reused) "reuse_recently_rotated_session env tok ua ip acc = Inr (Some r)" "acc' = acc"
proof -
  let ?q = "web_result (scalar_one_or_none (filter (\<lambda>(s, u). us_token_hash s = se_hash env tok \<and>
          session_active (se_now env) (us_user_id s) s \<and> u_deleted u = CHR ''N'') (joined_sessions acc)))"
  obtain row where row: "?q = Inr row"
    using assms by (cases ?q) (auto simp: rotate_refresh_session_def with_sessions_Inr)
  show ?thesis
  proof (cases row)
    case None
    with assms row have "reuse_recently_rotated_session env tok ua ip acc = Inr (Some r)" "acc' = acc"
      by (auto simp: rotate_refresh_session_def with_sessions_Inr res_simps split: option.splits)
    then show ?thesis by (rule reused)
  next
    case (Some p)
    obtain s u where p: "p = (s, u)" by (cases p)
    from scalar_in [OF row [unfolded Some p]] have su: "s \<in> set (acc_sessions acc)" "u \<in> set (acc_users acc)"
      "u_id u = us_user_id s" "us_token_hash s = se_hash env tok" "session_active (se_now env) (us_user_id s) s" "u_deleted u = CHR ''N''"
      by auto
    let ?n = "\<lambda>ss. new_session env (se_now env) (u_id u) ua ip ss"
    obtain ss where "enforce_active_session_limit env (u_id u) (put us_id (s\<lparr>us_revoked_at := Some (se_now env)\<rparr>) (acc_sessions acc)) = Inr ss"
      "us_token_hash (?n ss) \<notin> us_token_hash ` set ss"
      "r = \<lparr>rr_token_data = token_data_of u, rr_session = ?n ss, rr_pair = Some \<lparr>tp_refresh_token = se_token env, tp_session = ?n ss\<rparr>\<rparr>"
      "acc' = acc\<lparr>acc_sessions := put us_id (s\<lparr>us_revoked_at := Some (se_now env), us_replaced_by := Some (us_id (?n ss))\<rparr>) (ss @ [?n ss])\<rparr>"
      using assms row Some p
      by (auto simp: rotate_refresh_session_def with_sessions_Inr res_simps Let_def insert_session_Inr)
    with su show ?thesis by (intro rotated [of s u ss "?n ss"]) simp_all
  qed
qed

lemma reuse_cases:
  assumes run: "reuse_recently_rotated_session env tok ua ip acc = Inr (Some r)"
  obtains s u x where "1 \<le> se_grace_seconds env" "s \<in> set (acc_sessions acc)" "u \<in> set (acc_users acc)"
    "u_id u = us_user_id s" "us_token_hash s = se_hash env tok" "us_deleted s = CHR ''N''" "u_deleted u = CHR ''N''"
    "\<exists>t. us_revoked_at s = Some t \<and> se_now env - seconds_us (se_grace_seconds env) \<le> t"
    "x \<in> set (acc_sessions acc)" "us_replaced_by s = Some (us_id x)" "session_active (se_now env) (us_user_id s) x"
    "r = \<lparr>rr_token_data = token_data_of u, rr_session = x, rr_pair = None\<rparr>"
proof -
  let ?q = "web_result (scalar_one_or_none (filter (\<lambda>(s, u). us_token_hash s = se_hash env tok \<and>
      us_deleted s = CHR ''N'' \<and> (case us_revoked_at s of None \<Rightarrow> False
        | Some t \<Rightarrow> t \<ge> se_now env - seconds_us (se_grace_seconds env)) \<and>
      us_replaced_by s \<noteq> None \<and> u_deleted u = CHR ''N'') (joined_sessions acc)))"
  have grace: "1 \<le> se_grace_seconds env"
    using run by (simp add: reuse_recently_rotated_session_def split: if_splits)
  obtain row where row: "?q = Inr row"
    using run grace by (cases ?q) (auto simp: reuse_recently_rotated_session_def Let_def)
  obtain s u where su: "row = Some (s, u)"
    using run grace row by (cases row) (auto simp: reuse_recently_rotated_session_def Let_def)
  let ?x = "web_result (scalar_one_or_none (filter (\<lambda>x. Some (us_id x) = us_replaced_by s \<and>
      session_active (se_now env) (us_user_id s) x) (acc_sessions acc)))"
  obtain x where x: "?x = Inr (Some x)" "r = \<lparr>rr_token_data = token_data_of u, rr_session = x, rr_pair = None\<rparr>"
    using run grace row su
    by (cases ?x) (auto simp: reuse_recently_rotated_session_def Let_def split: if_splits)
  from scalar_in [OF row [unfolded su]] scalar_in [OF x(1)] x(2) grace show thesis
    by (intro that [of s u x]) (auto split: option.splits)
qed

text \<open>Putting a revoked row over a revoked one changes no list of active sessions.\<close>

lemma put_revoked:
  assumes "distinct (map us_id ss)" "s0 \<in> set ss" "us_revoked_at s0 \<noteq> None" "us_id s = us_id s0" "us_revoked_at s \<noteq> None"
  shows "filter (session_active t u) (put us_id s ss) = filter (session_active t u) ss"
proof -
  have "\<not> session_active t u x" if "x \<in> set ss" "us_id x = us_id s" for x
    using same_key_same_row [OF assms(1) that(1) assms(2)] that(2) assms(3,4) by (simp add: session_active_def)
  with assms(5) show ?thesis by (intro filter_put) (auto simp: session_active_def)
qed

lemma limit_after_create:
  assumes "distinct (map us_id (acc_sessions acc))" "se_now_limit env \<le> t" "create_refresh_session env i ua ip acc = (Inr p, acc')"
  shows "int (length (filter (session_active t i) (acc_sessions acc'))) \<le> se_max_sessions env \<and>
    filter (\<lambda>s. us_user_id s \<noteq> i) (acc_sessions acc') = filter (\<lambda>s. us_user_id s \<noteq> i) (acc_sessions acc) \<and>
    distinct (map us_id (acc_sessions acc'))"
  using assms(3)
proof (cases rule: create_session_cases)
  case (1 ss s)
  note e = enforce_spec [OF assms(1) 1(1)]
  have "distinct (map us_id (ss @ [s]))" using e(1) assms(1) 1(2) by (intro distinct_append_fresh) simp_all
  with e(2) [OF assms(2)] e(3) 1 show ?thesis by simp
qed

lemma limit_after_rotate:
  assumes "distinct (map us_id (acc_sessions acc))" "se_now_limit env \<le> t"
    and "rotate_refresh_session env tok ua ip acc = (Inr r, acc')" "rr_pair r \<noteq> None"
  shows "int (length (filter (session_active t (td_user_id (rr_token_data r))) (acc_sessions acc'))) \<le> se_max_sessions env \<and>
    filter (\<lambda>s. us_user_id s \<noteq> td_user_id (rr_token_data r)) (acc_sessions acc') =
      filter (\<lambda>s. us_user_id s \<noteq> td_user_id (rr_token_data r)) (acc_sessions acc) \<and>
    distinct (map us_id (acc_sessions acc'))"
  using assms(3)
proof (cases rule: rotate_cases)
  case (rotated s u ss n)
  let ?s1 = "s\<lparr>us_revoked_at := Some (se_now env)\<rparr>"
  let ?s2 = "s\<lparr>us_revoked_at := Some (se_now env), us_replaced_by := Some (us_id n)\<rparr>"
  have d1: "distinct (map us_id (put us_id ?s1 (acc_sessions acc)))" using assms(1) by simp
  note e = enforce_spec [OF d1 rotated(7)]
  have uid: "td_user_id (rr_token_data r) = u_id u" using rotated(10) by (simp add: token_data_of_def)
  have "?s1 \<in> set (put us_id ?s1 (acc_sessions acc))" using set_put [OF assms(1) rotated(1), of ?s1] by simp
  then have in_ss: "?s1 \<in> set ss" using e(4) by simp
  have dss: "distinct (map us_id ss)" using e(1) assms(1) by simp
  have d2: "distinct (map us_id (ss @ [n]))" using dss rotated(8) by (intro distinct_append_fresh) simp_all
  have "filter (session_active t (u_id u)) (put us_id ?s2 (ss @ [n])) = filter (session_active t (u_id u)) (ss @ [n])"
    by (rule put_revoked [OF d2, of ?s1]) (use in_ss in auto)
  moreover have "filter (\<lambda>s. us_user_id s \<noteq> u_id u) (put us_id ?s2 (ss @ [n])) = filter (\<lambda>s. us_user_id s \<noteq> u_id u) (ss @ [n])"
  proof (rule filter_put)
    show "\<forall>x \<in> set (ss @ [n]). us_id x = us_id ?s2 \<longrightarrow> \<not> us_user_id x \<noteq> u_id u"
    proof (intro ballI impI)
      fix x assume "x \<in> set (ss @ [n])" "us_id x = us_id ?s2"
      with in_ss have "x = ?s1" by (intro same_key_same_row [OF d2]) simp_all
      then show "\<not> us_user_id x \<noteq> u_id u" using rotated(3) by simp
    qed
  qed (use rotated(3) in simp)
  moreover have "filter (\<lambda>s. us_user_id s \<noteq> u_id u) (put us_id ?s1 (acc_sessions acc)) = filter (\<lambda>s. us_user_id s \<noteq> u_id u) (acc_sessions acc)"
  proof (rule filter_put)
    show "\<forall>x \<in> set (acc_sessions acc). us_id x = us_id ?s1 \<longrightarrow> \<not> us_user_id x \<noteq> u_id u"
    proof (intro ballI impI)
      fix x assume "x \<in> set (acc_sessions acc)" "us_id x = us_id ?s1"
      then have "x = s" using rotated(1) by (intro same_key_same_row [OF assms(1)]) simp_all
      then show "\<not> us_user_id x \<noteq> u_id u" using rotated(3) by simp
    qed
  qed (use rotated(3) in simp)
  ultimately show ?thesis using e(2) [OF assms(2)] e(3) d2 rotated(8) by (simp add: uid rotated(11))
next
  case reused
  then have "rr_pair r = None" by (cases rule: reuse_cases [OF reused(1)]) simp
  with assms(4) show ?thesis by simp
qed

text \<open>
  Property C20. A user never has more active sessions than the limit: after a login, or after a
  refresh that rotates the token, the active sessions of the user number at most the configured
  maximum, at that time and at any later one, and no other user's session has changed.
\<close>
theorem session_limit:
  assumes "distinct (map us_id (acc_sessions acc))" "se_now_limit env \<le> t"
    and "create_refresh_session env uid ua ip acc = (Inr p, acc') \<or>
      rotate_refresh_session env tok ua ip acc = (Inr r, acc') \<and> rr_pair r \<noteq> None \<and> uid = td_user_id (rr_token_data r)"
  shows "int (length (filter (session_active t uid) (acc_sessions acc'))) \<le> se_max_sessions env \<and>
    filter (\<lambda>s. us_user_id s \<noteq> uid) (acc_sessions acc') = filter (\<lambda>s. us_user_id s \<noteq> uid) (acc_sessions acc) \<and>
    distinct (map us_id (acc_sessions acc'))"
  using assms(3) limit_after_create [OF assms(1,2)] limit_after_rotate [OF assms(1,2)] by blast

definition sample_session_env :: "int \<Rightarrow> string \<Rightarrow> session_env" where
  "sample_session_env now token = \<lparr>se_now = now, se_now_limit = now, se_now_expiry = now, se_now_issued = now,
     se_token = token, se_hash = (\<lambda>s. s), se_refresh_days = 30, se_grace_seconds = 5, se_max_sessions = 1\<rparr>"

definition one_user :: accounts where
  "one_user = \<lparr>acc_users = [\<lparr>u_id = 1, u_name = ''ana'', u_email = ''a'', u_password = ''p'', u_deleted = CHR ''N'',
     u_client_id = Some 1, u_is_admin = False\<rparr>], acc_sessions = [], acc_roles = [], acc_user_roles = [], acc_services = [],
     acc_service_roles = []\<rparr>"

lemma first_login: "\<exists>p acc'. create_refresh_session (sample_session_env 0 ''t'') 1 None None one_user = (Inr p, acc')"
  by (simp add: create_refresh_session_def with_sessions_def enforce_active_session_limit_def sample_session_env_def
      one_user_def oldest_sessions_def insert_session_def Let_def)

theorem session_limit_witness:
  "\<exists>p acc'. create_refresh_session (sample_session_env 0 ''t'') 1 None None one_user = (Inr p, acc') \<and>
     length (filter (session_active 5 1) (acc_sessions acc')) \<le> 1"
proof -
  obtain p acc' where run: "create_refresh_session (sample_session_env 0 ''t'') 1 None None one_user = (Inr p, acc')"
    using first_login by blast
  have d: "distinct (map us_id (acc_sessions one_user))" "se_now_limit (sample_session_env 0 ''t'') \<le> 5"
    by (simp_all add: one_user_def sample_session_env_def)
  from session_limit [OF d disjI1 [OF run]] run show ?thesis by (auto simp: sample_session_env_def)
qed

subsection \<open>Histories of a session table\<close>

text \<open>
  What can happen to the sessions after a request, one operation after the other.  A property
  of single rows that revoking an open row, relinking a row and opening a new one keep holds
  along every history; the locale proves it once.
\<close>

datatype session_op =
    Login session_env nat "string option" "string option"
  | Refresh session_env string "string option" "string option"
  | Logout session_env string
  | Deactivate int nat
  | Reactivate nat
  | Cleanup int int

fun run_session_op :: "session_op \<Rightarrow> accounts \<Rightarrow> accounts" where
  "run_session_op (Login env i ua ip) acc = snd (create_refresh_session env i ua ip acc)"
| "run_session_op (Refresh env tok ua ip) acc = snd (rotate_refresh_session env tok ua ip acc)"
| "run_session_op (Logout env tok) acc = snd (revoke_refresh_session env tok acc)"
| "run_session_op (Deactivate now i) acc = snd (deactivate_user now i acc)"
| "run_session_op (Reactivate i) acc = snd (reactivate_user i acc)"
| "run_session_op (Cleanup now days) acc = snd (delete_stale_sessions now days acc)"

lemma with_sessions_snd: "snd (with_sessions acc r) = (case r of Inl _ \<Rightarrow> acc | Inr (_, ss) \<Rightarrow> acc\<lparr>acc_sessions := ss\<rparr>)"
  by (auto simp: with_sessions_def split: sum.splits)

lemma put_rows:
  assumes "x \<in> set (put k r xs)"
  shows "x = r \<or> x \<in> set xs"
  using assms by (auto simp: put_def split: if_splits)

lemma distinct_map_keys: "distinct (map k xs) \<Longrightarrow> (\<And>x. k (f x) = k x) \<Longrightarrow> distinct (map k (map f xs))"
  by (simp add: comp_def)

locale session_rows =
  fixes P :: "user_session \<Rightarrow> bool" and allowed :: "session_op \<Rightarrow> bool"
  assumes revoke: "P s \<Longrightarrow> us_revoked_at s = None \<Longrightarrow> P (s\<lparr>us_revoked_at := Some t\<rparr>)"
    and relink: "P s \<Longrightarrow> P (s\<lparr>us_replaced_by := x\<rparr>)"
    and login: "allowed (Login env i ua ip) \<Longrightarrow> P (new_session env b i ua ip ss)"
    and refresh: "allowed (Refresh env tok ua ip) \<Longrightarrow> P s \<Longrightarrow> session_active t (us_user_id s) s \<Longrightarrow>
      P (new_session env b (us_user_id s) ua ip ss)"
begin

definition rows_ok :: "accounts \<Rightarrow> bool" where
  "rows_ok acc \<longleftrightarrow> distinct (map us_id (acc_sessions acc)) \<and> (\<forall>s \<in> set (acc_sessions acc). P s)"

lemma enforce_keeps:
  assumes "distinct (map us_id ss)" "\<forall>s \<in> set ss. P s" "enforce_active_session_limit env u ss = Inr ss'"
  shows "distinct (map us_id ss') \<and> (\<forall>s \<in> set ss'. P s)"
proof
  show "distinct (map us_id ss')" using enforce_spec(1) [OF assms(1,3)] assms(1) by simp
  show "\<forall>s \<in> set ss'. P s"
  proof
    fix s' assume "s' \<in> set ss'"
    from enforce_spec(5) [OF assms(1,3) this] assms(2) revoke show "P s'" by blast
  qed
qed

lemma login_keeps:
  assumes "rows_ok acc" "allowed (Login env i ua ip)"
  shows "rows_ok (snd (create_refresh_session env i ua ip acc))"
proof (cases "fst (create_refresh_session env i ua ip acc)")
  case (Inl e)
  then have "snd (create_refresh_session env i ua ip acc) = acc"
    by (auto simp: create_refresh_session_def with_sessions_def split: sum.splits)
  with assms(1) show ?thesis by simp
next
  case (Inr p)
  then have "create_refresh_session env i ua ip acc = (Inr p, snd (create_refresh_session env i ua ip acc))"
    by (metis prod.collapse)
  then show ?thesis
  proof (cases rule: create_session_cases)
    case (1 ss s)
    from enforce_keeps [OF _ _ 1(1)] assms(1) have ss: "distinct (map us_id ss)" "\<forall>s \<in> set ss. P s"
      by (simp_all add: rows_ok_def)
    have "distinct (map us_id (ss @ [s]))" using ss(1) 1(2) by (intro distinct_append_fresh) simp_all
    moreover have "P s" unfolding 1(2) by (rule login [OF assms(2)])
    ultimately show ?thesis using ss(2) by (simp add: rows_ok_def 1(4))
  qed
qed

lemma refresh_keeps:
  assumes "rows_ok acc" "allowed (Refresh env tok ua ip)"
  shows "rows_ok (snd (rotate_refresh_session env tok ua ip acc))"
proof (cases "fst (rotate_refresh_session env tok ua ip acc)")
  case (Inl e)
  then have "snd (rotate_refresh_session env tok ua ip acc) = acc"
    by (auto simp: rotate_refresh_session_def with_sessions_def split: sum.splits)
  with assms(1) show ?thesis by simp
next
  case (Inr r)
  then have "rotate_refresh_session env tok ua ip acc = (Inr r, snd (rotate_refresh_session env tok ua ip acc))"
    by (metis prod.collapse)
  then show ?thesis
  proof (cases rule: rotate_cases)
    case (rotated s u ss n)
    have s: "P s" "us_revoked_at s = None" using assms(1) rotated(1,5) by (simp_all add: rows_ok_def session_active_def)
    let ?s1 = "s\<lparr>us_revoked_at := Some (se_now env)\<rparr>"
    have "\<forall>x \<in> set (put us_id ?s1 (acc_sessions acc)). P x"
      using revoke [OF s] assms(1) by (auto simp: rows_ok_def dest!: put_rows)
    from enforce_keeps [OF _ this rotated(7)] assms(1) have ss: "distinct (map us_id ss)" "\<forall>s \<in> set ss. P s"
      by (simp_all add: rows_ok_def)
    have "distinct (map us_id (ss @ [n]))" using ss(1) rotated(8) by (intro distinct_append_fresh) simp_all
    moreover have "P n" unfolding rotated(8,3) by (rule refresh [OF assms(2) s(1) rotated(5)])
    moreover have "P (s\<lparr>us_revoked_at := Some (se_now env), us_replaced_by := Some (us_id n)\<rparr>)"
      using relink [OF revoke [OF s, of "se_now env"], of "Some (us_id n)"] by simp
    ultimately show ?thesis using ss(2) by (auto simp: rows_ok_def rotated(11) dest!: put_rows)
  qed (use assms(1) in simp)
qed

lemma logout_keeps:
  assumes "rows_ok acc"
  shows "rows_ok (snd (revoke_refresh_session env tok acc))"
proof (cases "web_result (scalar_one_or_none (filter (\<lambda>s. us_token_hash s = se_hash env tok \<and>
          session_active (se_now env) (us_user_id s) s) (acc_sessions acc)))")
  case (Inr r)
  show ?thesis
  proof (cases r)
    case (Some s)
    from scalar_in [OF Inr [unfolded Some]] assms have "P s" "us_revoked_at s = None"
      by (auto simp: rows_ok_def session_active_def)
    from revoke [OF this] assms show ?thesis
      by (auto simp: revoke_refresh_session_def with_sessions_snd Inr Some rows_ok_def dest!: put_rows)
  qed (use Inr assms in \<open>simp add: revoke_refresh_session_def with_sessions_snd\<close>)
qed (use assms in \<open>simp add: revoke_refresh_session_def with_sessions_snd\<close>)

lemma deactivate_keeps:
  assumes "rows_ok acc"
  shows "rows_ok (snd (deactivate_user now i acc))"
proof (cases "crud_get u_id user_deleted False i (acc_users acc)")
  case (Some u)
  let ?f = "\<lambda>s. if us_user_id s = i \<and> us_deleted s = CHR ''N'' \<and> us_revoked_at s = None
      then s\<lparr>us_revoked_at := Some now\<rparr> else s"
  have "distinct (map us_id (map ?f (acc_sessions acc)))" using assms by (intro distinct_map_keys) (simp_all add: rows_ok_def)
  moreover have "\<forall>s \<in> set (map ?f (acc_sessions acc)). P s" using assms revoke by (auto simp: rows_ok_def)
  ultimately show ?thesis by (simp add: deactivate_user_def rows_ok_def Let_def Some del: map_map)
qed (use assms in \<open>simp add: deactivate_user_def\<close>)

lemma cleanup_keeps:
  assumes "rows_ok acc"
  shows "rows_ok (snd (delete_stale_sessions now days acc))"
proof -
  define K where "K = us_id ` set (filter (is_stale now days) (acc_sessions acc))"
  let ?f = "\<lambda>s. if (case us_replaced_by s of None \<Rightarrow> False | Some i \<Rightarrow> i \<in> K) then s\<lparr>us_replaced_by := None\<rparr> else s"
  have "distinct (map us_id (map ?f (acc_sessions acc)))" using assms by (intro distinct_map_keys) (simp_all add: rows_ok_def)
  then have "distinct (map us_id (filter (\<lambda>s. us_id s \<notin> K) (map ?f (acc_sessions acc))))" by (rule distinct_map_filter)
  moreover have "\<forall>s \<in> set (map ?f (acc_sessions acc)). P s" using assms relink by (auto simp: rows_ok_def)
  ultimately show ?thesis
    unfolding delete_stale_sessions_def rows_ok_def Let_def K_def [symmetric] by (simp del: map_map set_map)
qed

lemma op_keeps: "rows_ok acc \<Longrightarrow> allowed op \<Longrightarrow> rows_ok (run_session_op op acc)"
proof (cases op)
  case (Reactivate i)
  assume "rows_ok acc"
  with Reactivate show ?thesis by (auto simp: reactivate_user_def rows_ok_def Let_def split: option.splits)
qed (simp_all add: login_keeps refresh_keeps logout_keeps deactivate_keeps cleanup_keeps)

lemma history_keeps: "rows_ok acc \<Longrightarrow> \<forall>op \<in> set ops. allowed op \<Longrightarrow> rows_ok (fold run_session_op ops acc)"
  by (induction ops arbitrary: acc) (simp_all add: op_keeps)

end

text \<open>A token whose hash is \<open>h\<close> was spent at \<open>T\<close>; no operation draws a token of that hash again.\<close>

fun draws :: "session_op \<Rightarrow> string option" where
  "draws (Login env _ _ _) = Some (se_hash env (se_token env))"
| "draws (Refresh env _ _ _) = Some (se_hash env (se_token env))"
| "draws _ = None"

interpretation spent: session_rows "\<lambda>s. us_token_hash s = h \<longrightarrow> us_revoked_at s = Some T" "\<lambda>op. draws op \<noteq> Some h"
  for h :: string and T :: int
  by unfold_locales (auto simp: session_active_def)

text \<open>No session of user \<open>i\<close> is open; no login of the user in between.\<close>

fun logs_in :: "nat \<Rightarrow> session_op \<Rightarrow> bool" where
  "logs_in i (Login _ j _ _) = (j = i)"
| "logs_in i _ = False"

interpretation locked: session_rows "\<lambda>s. us_user_id s = i \<longrightarrow> us_revoked_at s \<noteq> None \<or> us_deleted s \<noteq> CHR ''N''"
  "\<lambda>op. \<not> logs_in i op" for i :: nat
  by unfold_locales (auto simp: session_active_def)

lemma rotation_spends:
  assumes "sessions_ok acc" "rotate_refresh_session env tok ua ip acc = (Inr r, acc')" "rr_pair r \<noteq> None"
  shows "spent.rows_ok (se_hash env tok) (se_now env) acc'"
  using assms(2)
proof (cases rule: rotate_cases)
  case (rotated s u ss n)
  have d: "distinct (map us_id (acc_sessions acc))" using assms(1) by (simp add: sessions_ok_def)
  have other: "us_token_hash x \<noteq> se_hash env tok" if "x \<in> set (acc_sessions acc)" "us_id x \<noteq> us_id s" for x
    using assms(1) that rotated(1,4) unfolding sessions_ok_def by (metis same_key_same_row)
  have hash1: "us_token_hash x = se_hash env tok \<longrightarrow> us_id x = us_id s"
    if x: "x \<in> set (put us_id (s\<lparr>us_revoked_at := Some (se_now env)\<rparr>) (acc_sessions acc))" for x
    using put_rows [OF x] other by auto
  have d1: "distinct (map us_id (put us_id (s\<lparr>us_revoked_at := Some (se_now env)\<rparr>) (acc_sessions acc)))" using d by simp
  have dss: "distinct (map us_id ss)" using enforce_spec(1) [OF d1 rotated(7)] d by simp
  have ss: "us_token_hash x = se_hash env tok \<longrightarrow> us_id x = us_id s" if "x \<in> set ss" for x
  proof -
    from enforce_spec(5) [OF d1 rotated(7) that] obtain y
      where "y \<in> set (put us_id (s\<lparr>us_revoked_at := Some (se_now env)\<rparr>) (acc_sessions acc))"
        "us_token_hash x = us_token_hash y" "us_id x = us_id y" by fastforce
    with hash1 [OF this(1)] show ?thesis by simp
  qed
  have in_ss: "s\<lparr>us_revoked_at := Some (se_now env)\<rparr> \<in> set ss"
    using enforce_spec(4) [OF d1 rotated(7), of "s\<lparr>us_revoked_at := Some (se_now env)\<rparr>"] set_put [OF d rotated(1), of "s\<lparr>us_revoked_at := Some (se_now env)\<rparr>"] by simp
  have n: "us_token_hash n \<noteq> se_hash env tok"
  proof
    assume eq: "us_token_hash n = se_hash env tok"
    have "us_token_hash (s\<lparr>us_revoked_at := Some (se_now env)\<rparr>) \<in> us_token_hash ` set ss" using in_ss by (rule imageI)
    with rotated(9) eq rotated(4) show False by simp
  qed
  have "distinct (map us_id (ss @ [n]))" using dss rotated(8) by (intro distinct_append_fresh) simp_all
  moreover have "us_revoked_at x = Some (se_now env)"
    if x: "x \<in> set (put us_id (s\<lparr>us_revoked_at := Some (se_now env), us_replaced_by := Some (us_id n)\<rparr>) (ss @ [n]))"
      and hx: "us_token_hash x = se_hash env tok" for x
  proof -
    let ?s2 = "s\<lparr>us_revoked_at := Some (se_now env), us_replaced_by := Some (us_id n)\<rparr>"
    have "x = ?s2 \<or> x \<in> set ss \<and> us_id x = us_id s" using put_rows [OF x] hx n ss by auto
    moreover have "x = s\<lparr>us_revoked_at := Some (se_now env)\<rparr>" if "x \<in> set ss" "us_id x = us_id s"
      by (rule same_key_same_row [OF dss that(1) in_ss]) (simp add: that(2))
    ultimately show ?thesis by auto
  qed
  ultimately show ?thesis by (simp add: spent.rows_ok_def rotated(11))
next
  case reused
  then show ?thesis using assms(3) by (cases rule: reuse_cases [OF reused(1)]) simp
qed

text \<open>
  Property C14. A refresh token rotates once.  After a refresh that rotated it, whatever logins,
  refreshes, logouts, deactivations and clean-ups follow (none of them drawing a token of the
  same hash), presenting it again changes no table and mints no new refresh token; it is
  accepted at all only within the grace period after the rotation.
\<close>
theorem refresh_rotates_once:
  assumes "sessions_ok acc" "rotate_refresh_session env tok ua ip acc = (Inr r, acc')" "rr_pair r \<noteq> None"
    and "\<forall>op \<in> set ops. draws op \<noteq> Some (se_hash env tok)" "se_hash env2 = se_hash env"
    and "rotate_refresh_session env2 tok ua2 ip2 (fold run_session_op ops acc') = (res, acc'')"
  shows "acc'' = fold run_session_op ops acc' \<and>
    (\<forall>r2. res = Inr r2 \<longrightarrow> rr_pair r2 = None \<and> se_now env2 \<le> se_now env + seconds_us (se_grace_seconds env2))"
proof -
  from spent.history_keeps [OF rotation_spends [OF assms(1-3)]] assms(4)
  have spent: "us_revoked_at s = Some (se_now env)"
    if "s \<in> set (acc_sessions (fold run_session_op ops acc'))" "us_token_hash s = se_hash env tok" for s
    using that by (simp add: spent.rows_ok_def)
  show ?thesis
  proof (cases res)
    case (Inl e)
    with assms(6) have "acc'' = fold run_session_op ops acc'"
      by (auto simp: rotate_refresh_session_def with_sessions_def split: sum.splits)
    with Inl show ?thesis by simp
  next
    case (Inr r2)
    from assms(6) [unfolded Inr] show ?thesis
    proof (cases rule: rotate_cases)
      case (rotated s u ss n)
      with spent [of s] assms(5) show ?thesis by (simp add: session_active_def)
    next
      case reused
      from reused(1) show ?thesis
      proof (cases rule: reuse_cases)
        case (1 s u x)
        with spent [of s] assms(5) reused(2) Inr show ?thesis by auto
      qed
    qed
  qed
qed

definition logged_in :: accounts where
  "logged_in = one_user\<lparr>acc_sessions := [\<lparr>us_id = 1, us_user_id = 1, us_token_hash = ''t'', us_issued_at = 0,
     us_expires_at = 1000000000, us_revoked_at = None, us_replaced_by = None, us_user_agent = None, us_ip_address = None,
     us_deleted = CHR ''N''\<rparr>]\<rparr>"

lemmas session_evaluation = rotate_refresh_session_def reuse_recently_rotated_session_def with_sessions_def joined_sessions_def
  enforce_active_session_limit_def oldest_sessions_def session_active_def web_result_def
  sample_session_env_def new_session_def insert_session_def put_def fresh_def seconds_us_def days_us_def token_data_of_def
  request_fingerprint_matches_def truncate_user_agent_def Let_def

lemma refresh_works: "\<exists>r acc'. rotate_refresh_session (sample_session_env 10 ''n'') ''t'' None None logged_in = (Inr r, acc') \<and>
    rr_pair r \<noteq> None"
  by (simp add: session_evaluation logged_in_def one_user_def)

theorem refresh_rotates_once_witness:
  "\<exists>r acc' res. rotate_refresh_session (sample_session_env 10 ''n'') ''t'' None None logged_in = (Inr r, acc') \<and> rr_pair r \<noteq> None \<and>
     rotate_refresh_session (sample_session_env 20 ''m'') ''t'' None None (fold run_session_op [Cleanup 15 0] acc')
       = (res, fold run_session_op [Cleanup 15 0] acc')"
proof -
  obtain r acc' where run: "rotate_refresh_session (sample_session_env 10 ''n'') ''t'' None None logged_in = (Inr r, acc')"
    and pair: "rr_pair r \<noteq> None" using refresh_works by blast
  obtain res acc'' where again: "rotate_refresh_session (sample_session_env 20 ''m'') ''t'' None None
      (fold run_session_op [Cleanup 15 0] acc') = (res, acc'')" by (meson surj_pair)
  have "sessions_ok logged_in" by (simp add: sessions_ok_def logged_in_def one_user_def)
  from refresh_rotates_once [OF this run pair _ _ again] have "acc'' = fold run_session_op [Cleanup 15 0] acc'"
    by (simp add: sample_session_env_def)
  with run pair again show ?thesis by blast
qed

lemma deactivated_closed:
  assumes "distinct (map us_id (acc_sessions acc))" "deactivate_user now i acc = (Some u, acc')"
    and "\<forall>op \<in> set ops. \<not> logs_in i op" "s \<in> set (acc_sessions (fold run_session_op ops acc'))"
  shows "\<not> session_active t i s"
proof -
  let ?f = "\<lambda>s. if us_user_id s = i \<and> us_deleted s = CHR ''N'' \<and> us_revoked_at s = None then s\<lparr>us_revoked_at := Some now\<rparr> else s"
  have "acc_sessions acc' = map ?f (acc_sessions acc)"
    using assms(2) by (auto simp: deactivate_user_def Let_def split: option.splits)
  moreover have "distinct (map us_id (map ?f (acc_sessions acc)))" using assms(1) by (intro distinct_map_keys) simp_all
  moreover have "\<forall>s \<in> set (map ?f (acc_sessions acc)). us_user_id s = i \<longrightarrow> us_revoked_at s \<noteq> None \<or> us_deleted s \<noteq> CHR ''N''"
    unfolding set_map by (intro ballI, elim imageE) (simp, blast)
  ultimately have "locked.rows_ok i acc'" unfolding locked.rows_ok_def by (simp only: simp_thms)
  then have ok: "locked.rows_ok i (fold run_session_op ops acc')" by (rule locked.history_keeps) (rule assms(3))
  from bspec [OF ok [unfolded locked.rows_ok_def, THEN conjunct2] assms(4)] show ?thesis by (auto simp: session_active_def)
qed

text \<open>
  Property C15. Deactivating a user closes every session of the user for good: whatever follows,
  short of a new login of the same user (a reactivation included), the user has no active
  session at any time, and no refresh, with whatever token, answers with the user's identity.
\<close>
theorem deactivated_user_locked_out:
  assumes "distinct (map us_id (acc_sessions acc))" "deactivate_user now i acc = (Some u, acc')"
    and "\<forall>op \<in> set ops. \<not> logs_in i op"
  shows "(\<forall>t. filter (session_active t i) (acc_sessions (fold run_session_op ops acc')) = []) \<and>
    (\<forall>env tok ua ip r acc''. rotate_refresh_session env tok ua ip (fold run_session_op ops acc') = (Inr r, acc'') \<longrightarrow>
       td_user_id (rr_token_data r) \<noteq> i)"
proof (intro conjI allI impI)
  note locked = deactivated_closed [OF assms]
  show "filter (session_active t i) (acc_sessions (fold run_session_op ops acc')) = []" for t
    using locked by (simp add: filter_empty_conv)
  fix env tok ua ip r acc''
  assume run: "rotate_refresh_session env tok ua ip (fold run_session_op ops acc') = (Inr r, acc'')"
  then show "td_user_id (rr_token_data r) \<noteq> i"
  proof (cases rule: rotate_cases)
    case (rotated s u' ss n)
    with locked [of s "se_now env"] show ?thesis by (auto simp: token_data_of_def)
  next
    case reused
    from reused(1) show ?thesis
    proof (cases rule: reuse_cases)
      case (1 s u' x)
      with locked [of x "se_now env"] show ?thesis by (auto simp: token_data_of_def)
    qed
  qed
qed

text \<open>The only user with a session is deactivated and reactivated: the session stays closed.\<close>

lemma only_user_deactivated:
  "\<exists>u acc'. filter (session_active 10 1) (acc_sessions logged_in) \<noteq> [] \<and> deactivate_user 5 1 logged_in = (Some u, acc')"
  by (simp add: session_active_def logged_in_def one_user_def deactivate_user_def crud_get_def fetch_def user_deleted_def is_deleted_def Let_def)

theorem deactivated_user_locked_out_witness:
  "\<exists>u acc'. filter (session_active 10 1) (acc_sessions logged_in) \<noteq> [] \<and> deactivate_user 5 1 logged_in = (Some u, acc') \<and>
     filter (session_active 10 1) (acc_sessions (fold run_session_op [Reactivate 1] acc')) = []"
proof -
  obtain u acc' where run: "filter (session_active 10 1) (acc_sessions logged_in) \<noteq> []" "deactivate_user 5 1 logged_in = (Some u, acc')"
    using only_user_deactivated by blast
  have "distinct (map us_id (acc_sessions logged_in))" by (simp add: logged_in_def one_user_def)
  from deactivated_user_locked_out [OF this run(2), of "[Reactivate 1]"]
  have "filter (session_active 10 1) (acc_sessions (fold run_session_op [Reactivate 1] acc')) = []" by simp
  with run show ?thesis by blast
qed

end
