(* ===== verification/Access_Control.thy ===== *)
theory Access_Control
  imports User_Sessions
begin

text \<open>
  Roles and services: \<open>src/service/rbac_service.py\<close> and the guard of the protected routes,
  \<open>validate_user_service_access\<close> of \<open>src/utils/validations.py\<close>.  A role is a set of services;
  a user may use a service some role of the user offers.  What the guard decides is related to
  two relations, who has which role and which role offers what, that the operations extend.
\<close>

datatype rbac_error = Rbac_Not_Found string | Rbac_Conflict string | Rbac_Query py_exc

subsection \<open>Operations\<close>

definition create_service :: "string \<Rightarrow> (accounts, rbac_error, service) act" where
  "create_service name acc =
     (let sv = \<lparr>sv_id = fresh sv_id (acc_services acc), sv_name = name, sv_deleted = CHR ''N''\<rparr>
      in if name \<in> sv_name ` set (acc_services acc) then (Inl (Rbac_Conflict ''Service already exists.''), acc)
         else (Inr sv, acc\<lparr>acc_services := acc_services acc @ [sv]\<rparr>))"

definition create_role :: "string \<Rightarrow> (accounts, rbac_error, role) act" where
  "create_role name acc =
     (let r = \<lparr>r_id = fresh r_id (acc_roles acc), r_name = name, r_deleted = CHR ''N''\<rparr>
      in if name \<in> r_name ` set (acc_roles acc) then (Inl (Rbac_Conflict ''Role already exists.''), acc)
         else (Inr r, acc\<lparr>acc_roles := acc_roles acc @ [r]\<rparr>))"

definition live_row :: "('r \<Rightarrow> nat) \<Rightarrow> ('r \<Rightarrow> char) \<Rightarrow> nat \<Rightarrow> string \<Rightarrow> 'r list \<Rightarrow> (rbac_error, 'r) res" where
  "live_row key del i message rows =
     (case fetch key i rows of
        None \<Rightarrow> Inl (Rbac_Not_Found message)
      | Some r \<Rightarrow> if del r = CHR ''Y'' then Inl (Rbac_Not_Found message) else Inr r)"

definition linking :: "('r \<Rightarrow> nat \<times> nat) \<Rightarrow> nat \<times> nat \<Rightarrow> 'r list \<Rightarrow> (rbac_error, 'r option) res" where
  "linking pair p rows = (case scalar_one_or_none (filter (\<lambda>x. pair x = p) rows) of
     Inl e \<Rightarrow> Inl (Rbac_Query e) | Inr r \<Rightarrow> Inr r)"

text \<open>Adding the row, new or restored, and committing against the unique constraint on pairs.\<close>

definition commit_link ::
  "('r \<Rightarrow> nat) \<Rightarrow> ('r \<Rightarrow> nat \<times> nat) \<Rightarrow> string \<Rightarrow> 'r \<Rightarrow> 'r list \<Rightarrow> (rbac_error, 'r list) res" where
  "commit_link key pair message row rows =
     (let rows' = if fetch key (key row) rows = None then rows @ [row] else put key row rows
      in if distinct (map pair rows') then Inr rows' else Inl (Rbac_Conflict message))"

definition assign_service_to_role :: "nat \<Rightarrow> nat \<Rightarrow> (accounts, rbac_error, service_role) act" where
  "assign_service_to_role role_id service_id acc =
     (case bindE (live_row r_id r_deleted role_id ''Role not found.'' (acc_roles acc)) (\<lambda>_.
        bindE (live_row sv_id sv_deleted service_id ''Service not found.'' (acc_services acc)) (\<lambda>_.
        bindE (linking (\<lambda>x. (sr_role_id x, sr_service_id x)) (role_id, service_id) (acc_service_roles acc)) (\<lambda>found.
        let link = (case found of
              Some x \<Rightarrow> x\<lparr>sr_deleted := CHR ''N''\<rparr>
            | None \<Rightarrow> \<lparr>sr_id = fresh sr_id (acc_service_roles acc), sr_service_id = service_id, sr_role_id = role_id,
                sr_deleted = CHR ''N''\<rparr>)
        in bindE (commit_link sr_id (\<lambda>x. (sr_role_id x, sr_service_id x)) ''Service is already assigned to role.'' link
             (acc_service_roles acc)) (\<lambda>rows. Inr (link, rows))))) of
        Inl e \<Rightarrow> (Inl e, acc)
      | Inr (link, rows) \<Rightarrow> (Inr link, acc\<lparr>acc_service_roles := rows\<rparr>))"

definition assign_role_to_user :: "nat \<Rightarrow> nat \<Rightarrow> (accounts, rbac_error, user_role) act" where
  "assign_role_to_user user_id role_id acc =
     (case bindE (live_row u_id u_deleted user_id ''User not found.'' (acc_users acc)) (\<lambda>_.
        bindE (live_row r_id r_deleted role_id ''Role not found.'' (acc_roles acc)) (\<lambda>_.
        bindE (linking (\<lambda>x. (ur_user_id x, ur_role_id x)) (user_id, role_id) (acc_user_roles acc)) (\<lambda>found.
        let link = (case found of
              Some x \<Rightarrow> x\<lparr>ur_deleted := CHR ''N''\<rparr>
            | None \<Rightarrow> \<lparr>ur_id = fresh ur_id (acc_user_roles acc), ur_user_id = user_id, ur_role_id = role_id,
                ur_deleted = CHR ''N''\<rparr>)
        in bindE (commit_link ur_id (\<lambda>x. (ur_user_id x, ur_role_id x)) ''Role is already assigned to user.'' link
             (acc_user_roles acc)) (\<lambda>rows. Inr (link, rows))))) of
        Inl e \<Rightarrow> (Inl e, acc)
      | Inr (link, rows) \<Rightarrow> (Inr link, acc\<lparr>acc_user_roles := rows\<rparr>))"

text \<open>The join of the guard, row by row.\<close>

definition service_access_rows :: "accounts \<Rightarrow> nat \<Rightarrow> string \<Rightarrow> nat list" where
  "service_access_rows acc user_id service_name =
     concat (map (\<lambda>sr. concat (map (\<lambda>sv. map (\<lambda>ur. sr_id sr)
       (filter (\<lambda>ur. ur_role_id ur = sr_role_id sr \<and> ur_user_id ur = user_id \<and> ur_deleted ur = CHR ''N'') (acc_user_roles acc)))
       (filter (\<lambda>sv. sv_id sv = sr_service_id sr \<and> sv_deleted sv = CHR ''N'' \<and> sv_name sv = service_name) (acc_services acc))))
       (filter (\<lambda>sr. sr_deleted sr = CHR ''N'') (acc_service_roles acc)))"

definition validate_user_service_access :: "token_data \<Rightarrow> string \<Rightarrow> accounts \<Rightarrow> (web_error, bool) res" where
  "validate_user_service_access current_user service_name acc =
     (if td_is_admin current_user then Inr True
      else if service_access_rows acc (td_user_id current_user) service_name = []
        then Inl (Http_Error 403 ''User does not have access to this service.'')
      else Inr True)"

subsection \<open>Two relations\<close>

definition has_role :: "accounts \<Rightarrow> (nat \<times> nat) set" where
  "has_role acc = (\<lambda>x. (ur_user_id x, ur_role_id x)) ` {x \<in> set (acc_user_roles acc). ur_deleted x = CHR ''N''}"

definition linked :: "accounts \<Rightarrow> (nat \<times> nat) set" where
  "linked acc = (\<lambda>x. (sr_role_id x, sr_service_id x)) ` {x \<in> set (acc_service_roles acc). sr_deleted x = CHR ''N''}"

definition service_names :: "accounts \<Rightarrow> (nat \<times> string) set" where
  "service_names acc = (\<lambda>s. (sv_id s, sv_name s)) ` {s \<in> set (acc_services acc). sv_deleted s = CHR ''N''}"

definition may_use :: "accounts \<Rightarrow> (nat \<times> string) set" where
  "may_use acc = has_role acc O linked acc O service_names acc"

definition rbac_ok :: "accounts \<Rightarrow> bool" where
  "rbac_ok acc \<longleftrightarrow> distinct (map sr_id (acc_service_roles acc)) \<and> distinct (map ur_id (acc_user_roles acc)) \<and>
     distinct (map (\<lambda>x. (sr_role_id x, sr_service_id x)) (acc_service_roles acc)) \<and>
     distinct (map (\<lambda>x. (ur_user_id x, ur_role_id x)) (acc_user_roles acc)) \<and>
     distinct (map sv_id (acc_services acc)) \<and> distinct (map sv_name (acc_services acc))"

lemma access_rows_iff: "service_access_rows acc u n \<noteq> [] \<longleftrightarrow> (u, n) \<in> may_use acc"
proof -
  have "(u, n) \<in> may_use acc \<longleftrightarrow> (\<exists>sr \<in> set (acc_service_roles acc). sr_deleted sr = CHR ''N'' \<and>
      (\<exists>sv \<in> set (acc_services acc). sv_id sv = sr_service_id sr \<and> sv_deleted sv = CHR ''N'' \<and> sv_name sv = n) \<and>
      (\<exists>ur \<in> set (acc_user_roles acc). ur_role_id ur = sr_role_id sr \<and> ur_user_id ur = u \<and> ur_deleted ur = CHR ''N''))"
    unfolding may_use_def has_role_def linked_def service_names_def relcomp_unfold by (auto simp: image_iff) metis
  then show ?thesis
    by (auto simp: service_access_rows_def filter_empty_conv)
qed

lemma access_iff:
  "validate_user_service_access td n acc =
     (if td_is_admin td \<or> (td_user_id td, n) \<in> may_use acc then Inr True
      else Inl (Http_Error 403 ''User does not have access to this service.''))"
  using access_rows_iff [of acc "td_user_id td" n] by (auto simp: validate_user_service_access_def)

subsection \<open>Tables of links\<close>

text \<open>
  The two link tables share their contract: a row is revived or made, and either way the set of
  live pairs grows by the pair asked for.
\<close>

locale link_table =
  fixes key :: "'r \<Rightarrow> nat" and pair :: "'r \<Rightarrow> nat \<times> nat" and del :: "'r \<Rightarrow> char"
    and revive :: "'r \<Rightarrow> 'r" and make :: "nat \<Rightarrow> nat \<times> nat \<Rightarrow> 'r"
  assumes revive [simp]: "key (revive r) = key r" "pair (revive r) = pair r" "del (revive r) = CHR ''N''"
    and make [simp]: "key (make i p) = i" "pair (make i p) = p" "del (make i p) = CHR ''N''"
begin

definition live :: "'r list \<Rightarrow> (nat \<times> nat) set" where
  "live rows = pair ` {x \<in> set rows. del x = CHR ''N''}"

definition link_of :: "nat \<times> nat \<Rightarrow> 'r list \<Rightarrow> 'r option \<Rightarrow> 'r" where
  "link_of p rows found = (case found of Some x \<Rightarrow> revive x | None \<Rightarrow> make (fresh key rows) p)"

lemma linking_unique:
  assumes "distinct (map key rows)" "distinct (map pair rows)"
  shows "linking pair p rows = Inr (find (\<lambda>x. pair x = p) rows)"
proof -
  have "scalar_one_or_none (filter (\<lambda>x. pair x = p) rows) = Inr (find (\<lambda>x. pair x = p) rows)"
    by (rule scalar_filter [OF assms(1)]) (metis assms(2) same_key_same_row)
  then show ?thesis by (simp add: linking_def)
qed

lemma commit_link_spec:
  assumes d: "distinct (map key rows)" "distinct (map pair rows)"
    and row: "row = link_of p rows (find (\<lambda>x. pair x = p) rows)"
  obtains rows' where "commit_link key pair msg row rows = Inr rows'" "distinct (map key rows')" "distinct (map pair rows')"
    "live rows' = insert p (live rows)"
proof (cases "find (\<lambda>x. pair x = p) rows")
  case None
  then have new: "\<forall>x \<in> set rows. pair x \<noteq> p" by (simp add: find_None_iff)
  have row: "row = make (fresh key rows) p" using row None by (simp add: link_of_def)
  have "fetch key (key row) rows = None" using fresh_not_in [of key rows] by (simp add: fetch_None row)
  moreover have "distinct (map pair (rows @ [row]))" using d(2) new by (auto simp: row)
  moreover have "distinct (map key (rows @ [row]))" using d(1) by (rule distinct_append_fresh) (simp add: row)
  moreover have "{x \<in> set (rows @ [row]). del x = CHR ''N''} = insert row {x \<in> set rows. del x = CHR ''N''}"
    by (auto simp: row)
  then have "live (rows @ [row]) = insert p (live rows)" unfolding live_def by (simp only: image_insert) (simp add: row)
  ultimately show thesis by (intro that [of "rows @ [row]"]) (simp_all add: commit_link_def Let_def)
next
  case (Some x)
  then have x: "x \<in> set rows" "pair x = p" by (auto simp: find_Some_iff)
  have row: "row = revive x" using row Some by (simp add: link_of_def)
  have "fetch key (key row) rows = Some x" using fetch_unique [OF d(1) x(1)] by (simp add: row)
  moreover have "map pair (put key row rows) = map pair rows"
  proof (rule map_put_same, intro ballI impI)
    fix y assume "y \<in> set rows" "key y = key row"
    then have "y = x" by (intro same_key_same_row [OF d(1) _ x(1)]) (simp_all add: row)
    then show "pair y = pair row" by (simp add: row)
  qed
  moreover have "set (put key row rows) = insert row (set rows - {x})" using set_put [OF d(1) x(1), of row] by (simp add: row)
  then have "{y \<in> set (put key row rows). del y = CHR ''N''} = insert row ({y \<in> set rows. del y = CHR ''N''} - {x})"
    by (auto simp: row)
  then have "live (put key row rows) = insert p (pair ` ({y \<in> set rows. del y = CHR ''N''} - {x}))"
    unfolding live_def by (simp only: image_insert) (simp add: row x(2))
  then have "live (put key row rows) = insert p (live rows)" using x by (auto simp: live_def)
  ultimately show thesis using d by (intro that [of "put key row rows"]) (simp_all add: commit_link_def Let_def)
qed

end

interpretation role_links: link_table ur_id "\<lambda>x. (ur_user_id x, ur_role_id x)" ur_deleted "\<lambda>x. x\<lparr>ur_deleted := CHR ''N''\<rparr>"
  "\<lambda>i p. \<lparr>ur_id = i, ur_user_id = fst p, ur_role_id = snd p, ur_deleted = CHR ''N''\<rparr>"
  by unfold_locales simp_all

interpretation service_links: link_table sr_id "\<lambda>x. (sr_role_id x, sr_service_id x)" sr_deleted "\<lambda>x. x\<lparr>sr_deleted := CHR ''N''\<rparr>"
  "\<lambda>i p. \<lparr>sr_id = i, sr_service_id = snd p, sr_role_id = fst p, sr_deleted = CHR ''N''\<rparr>"
  by unfold_locales simp_all

lemma role_link_cases:
  assumes "rbac_ok acc" "assign_role_to_user u r acc = (res, acc')"
  obtains (found) us ro link rows where "live_row u_id u_deleted u ''User not found.'' (acc_users acc) = Inr us"
      "live_row r_id r_deleted r ''Role not found.'' (acc_roles acc) = Inr ro" "res = Inr link"
      "acc' = acc\<lparr>acc_user_roles := rows\<rparr>" "rbac_ok acc'" "has_role acc' = insert (u, r) (has_role acc)"
  | (missing) m where "res = Inl (Rbac_Not_Found m)" "acc' = acc"
proof (cases "bindE (live_row u_id u_deleted u ''User not found.'' (acc_users acc)) (\<lambda>_.
    live_row r_id r_deleted r ''Role not found.'' (acc_roles acc))")
  case (Inl e)
  then obtain m where "e = Rbac_Not_Found m" by (auto simp: res_simps live_row_def split: option.splits if_splits)
  with Inl assms(2) show thesis
    by (intro missing [of m]) (auto simp: assign_role_to_user_def res_simps)
next
  case (Inr ro)
  then obtain us where live: "live_row u_id u_deleted u ''User not found.'' (acc_users acc) = Inr us"
    "live_row r_id r_deleted r ''Role not found.'' (acc_roles acc) = Inr ro" by (auto simp: res_simps)
  have d: "distinct (map ur_id (acc_user_roles acc))" "distinct (map (\<lambda>x. (ur_user_id x, ur_role_id x)) (acc_user_roles acc))"
    using assms(1) by (simp_all add: rbac_ok_def)
  let ?row = "role_links.link_of (u, r) (acc_user_roles acc) (find (\<lambda>x. (ur_user_id x, ur_role_id x) = (u, r)) (acc_user_roles acc))"
  obtain rows where rows: "commit_link ur_id (\<lambda>x. (ur_user_id x, ur_role_id x)) ''Role is already assigned to user.'' ?row
      (acc_user_roles acc) = Inr rows" "distinct (map ur_id rows)" "distinct (map (\<lambda>x. (ur_user_id x, ur_role_id x)) rows)"
      "role_links.live rows = insert (u, r) (role_links.live (acc_user_roles acc))"
    using role_links.commit_link_spec [OF d refl] by blast
  from live rows(1) assms(2) have "res = Inr ?row" "acc' = acc\<lparr>acc_user_roles := rows\<rparr>"
    by (auto simp: assign_role_to_user_def role_links.linking_unique [OF d] role_links.link_of_def Let_def split: option.splits)
  with live rows(2-4) assms(1) show thesis
    by (intro found [of us ro ?row rows]) (simp_all add: rbac_ok_def has_role_def role_links.live_def)
qed

lemma service_link_cases:
  assumes "rbac_ok acc" "assign_service_to_role r s acc = (res, acc')"
  obtains (found) ro sv link rows where "live_row r_id r_deleted r ''Role not found.'' (acc_roles acc) = Inr ro"
      "live_row sv_id sv_deleted s ''Service not found.'' (acc_services acc) = Inr sv" "res = Inr link"
      "acc' = acc\<lparr>acc_service_roles := rows\<rparr>" "rbac_ok acc'" "linked acc' = insert (r, s) (linked acc)"
  | (missing) m where "res = Inl (Rbac_Not_Found m)" "acc' = acc"
proof (cases "bindE (live_row r_id r_deleted r ''Role not found.'' (acc_roles acc)) (\<lambda>ro.
    bindE (live_row sv_id sv_deleted s ''Service not found.'' (acc_services acc)) (\<lambda>sv. Inr (ro, sv)))")
  case (Inl e)
  then obtain m where "e = Rbac_Not_Found m" by (auto simp: res_simps live_row_def split: option.splits if_splits)
  with Inl assms(2) show thesis
    by (intro missing [of m]) (auto simp: assign_service_to_role_def res_simps)
next
  case (Inr p)
  then obtain ro sv where live: "live_row r_id r_deleted r ''Role not found.'' (acc_roles acc) = Inr ro"
    "live_row sv_id sv_deleted s ''Service not found.'' (acc_services acc) = Inr sv" by (auto simp: res_simps)
  have d: "distinct (map sr_id (acc_service_roles acc))" "distinct (map (\<lambda>x. (sr_role_id x, sr_service_id x)) (acc_service_roles acc))"
    using assms(1) by (simp_all add: rbac_ok_def)
  let ?row = "service_links.link_of (r, s) (acc_service_roles acc) (find (\<lambda>x. (sr_role_id x, sr_service_id x) = (r, s)) (acc_service_roles acc))"
  obtain rows where rows: "commit_link sr_id (\<lambda>x. (sr_role_id x, sr_service_id x)) ''Service is already assigned to role.'' ?row
      (acc_service_roles acc) = Inr rows" "distinct (map sr_id rows)" "distinct (map (\<lambda>x. (sr_role_id x, sr_service_id x)) rows)"
      "service_links.live rows = insert (r, s) (service_links.live (acc_service_roles acc))"
    using service_links.commit_link_spec [OF d refl] by blast
  from live rows(1) assms(2) have "res = Inr ?row" "acc' = acc\<lparr>acc_service_roles := rows\<rparr>"
    by (auto simp: assign_service_to_role_def service_links.linking_unique [OF d] service_links.link_of_def Let_def split: option.splits)
  with live rows(2-4) assms(1) show thesis
    by (intro found [of ro sv ?row rows]) (simp_all add: rbac_ok_def linked_def service_links.live_def)
qed

text \<open>
  Property C23. The guard lets through exactly the administrators and the users who may use the
  service - who have, by a link that is not deleted, a role that is linked, by a link that is not
  deleted, to a service that is not deleted - and answers everyone else with 403.  A grant extends
  that relation by exactly what was granted: giving a user a role adds the services the role
  offers for that user, giving a role a service adds that service for the users of the role;
  nothing else changes, and a refused grant changes nothing.
\<close>
theorem grants_extend_access:
  assumes "rbac_ok acc"
  shows "(\<forall>td n acc. validate_user_service_access td n acc =
       (if td_is_admin td \<or> (td_user_id td, n) \<in> may_use acc then Inr True
        else Inl (Http_Error 403 ''User does not have access to this service.''))) \<and>
    (case assign_role_to_user u r acc of (res, acc') \<Rightarrow> rbac_ok acc' \<and>
      (if is_ok res then may_use acc' = may_use acc \<union> {(u, n) |n. (r, n) \<in> linked acc O service_names acc} else acc' = acc)) \<and>
    (case assign_service_to_role r s acc of (res, acc') \<Rightarrow> rbac_ok acc' \<and>
      (if is_ok res then may_use acc' = may_use acc \<union> {(v, n). (v, r) \<in> has_role acc \<and> (s, n) \<in> service_names acc} else acc' = acc))"
proof (intro conjI)
  show "\<forall>td n acc. validate_user_service_access td n acc =
       (if td_is_admin td \<or> (td_user_id td, n) \<in> may_use acc then Inr True
        else Inl (Http_Error 403 ''User does not have access to this service.''))"
    by (simp add: access_iff)
  obtain res acc' where run: "assign_role_to_user u r acc = (res, acc')" by (meson surj_pair)
  show "case assign_role_to_user u r acc of (res, acc') \<Rightarrow> rbac_ok acc' \<and>
      (if is_ok res then may_use acc' = may_use acc \<union> {(u, n) |n. (r, n) \<in> linked acc O service_names acc} else acc' = acc)"
    using assms run
  proof (cases rule: role_link_cases)
    case (found us ro link rows)
    then have "linked acc' = linked acc" "service_names acc' = service_names acc"
      by (simp_all add: linked_def service_names_def)
    with found(6) have "may_use acc' = may_use acc \<union> {(u, n) |n. (r, n) \<in> linked acc O service_names acc}"
      by (auto simp: may_use_def)
    with run found(3,5) show ?thesis by simp
  qed (use run assms in simp)
  obtain res2 acc2 where run2: "assign_service_to_role r s acc = (res2, acc2)" by (meson surj_pair)
  show "case assign_service_to_role r s acc of (res, acc') \<Rightarrow> rbac_ok acc' \<and>
      (if is_ok res then may_use acc' = may_use acc \<union> {(v, n). (v, r) \<in> has_role acc \<and> (s, n) \<in> service_names acc} else acc' = acc)"
    using assms run2
  proof (cases rule: service_link_cases)
    case (found ro sv link rows)
    then have "has_role acc2 = has_role acc" "service_names acc2 = service_names acc"
      by (simp_all add: has_role_def service_names_def)
    with found(6) have "may_use acc2 = may_use acc \<union> {(v, n). (v, r) \<in> has_role acc \<and> (s, n) \<in> service_names acc}"
      by (auto simp: may_use_def)
    with run2 found(3,5) show ?thesis by simp
  qed (use run2 assms in simp)
qed

text \<open>The guard never looks at the roles themselves: a deleted role still gives what it offers.\<close>

lemma role_rows_irrelevant: "validate_user_service_access td n (acc\<lparr>acc_roles := roles\<rparr>) = validate_user_service_access td n acc"
  by (simp add: access_iff may_use_def has_role_def linked_def service_names_def)

theorem grants_extend_access_witness:
  "\<exists>acc. rbac_ok acc \<and> \<not> is_ok (validate_user_service_access (token_data_of (hd (acc_users acc))) ''a'' acc) \<and>
     is_ok (validate_user_service_access (token_data_of (hd (acc_users acc))) ''a'' (snd (assign_role_to_user 1 1 acc)))"
proof -
  define acc where "acc = one_user\<lparr>acc_services := [\<lparr>sv_id = 1, sv_name = ''a'', sv_deleted = CHR ''N''\<rparr>],
    acc_roles := [\<lparr>r_id = 1, r_name = ''r'', r_deleted = CHR ''N''\<rparr>],
    acc_service_roles := [\<lparr>sr_id = 1, sr_service_id = 1, sr_role_id = 1, sr_deleted = CHR ''N''\<rparr>]\<rparr>"
  have ok: "rbac_ok acc" by (simp add: rbac_ok_def acc_def one_user_def)
  have no: "\<not> is_ok (validate_user_service_access (token_data_of (hd (acc_users acc))) ''a'' acc)"
    by (simp add: access_iff acc_def one_user_def token_data_of_def may_use_def has_role_def)
  have "is_ok (fst (assign_role_to_user 1 1 acc))"
    by (simp add: assign_role_to_user_def acc_def one_user_def live_row_def fetch_def linking_def commit_link_def Let_def)
  moreover have "(1, ''a'') \<in> linked acc O service_names acc"
    by (auto simp: linked_def service_names_def acc_def one_user_def intro!: relcompI [of _ 1])
  moreover have "td_user_id (token_data_of (hd (acc_users acc))) = 1" by (simp add: acc_def one_user_def token_data_of_def)
  ultimately have "(td_user_id (token_data_of (hd (acc_users acc))), ''a'') \<in> may_use (snd (assign_role_to_user 1 1 acc))"
    using grants_extend_access [OF ok, of 1 1 1] by (auto split: prod.splits)
  then have "is_ok (validate_user_service_access (token_data_of (hd (acc_users acc))) ''a'' (snd (assign_role_to_user 1 1 acc)))"
    by (simp add: access_iff)
  with ok no show ?thesis by blast
qed

end
