(* ===== verification/Realtime_Access.thy ===== *)
theory Realtime_Access
  imports Access_Control
begin

text \<open>
  Tickets for the location websocket, \<open>src/service/realtime_auth_service.py\<close>.  A ticket is
  issued to a session and redeemed once; what it opens is decided from the database at the
  moment it is redeemed.  Redis is a parameter: its two commands over a state of any type, and a
  view of the values it would answer; \<open>redis_laws\<close> is its documented behaviour.  SHA-256, the
  token drawn and the JSON of the payload are parameters too.
\<close>

datatype realtime_error = Rt_Unauthorized string | Rt_Forbidden string | Rt_Unavailable string
  | Rt_Http nat string | Rt_Db py_exc

record stored_ticket =
  st_user_id :: nat
  st_session_id :: nat

record connection_scope =
  rs_user_id :: nat
  rs_session_id :: nat
  rs_client_id :: nat
  rs_is_admin :: bool

record ticket_response =
  wt_ticket :: string
  wt_expires_in :: int

text \<open>A command of Redis answers or raises \<open>RedisError\<close>, the result \<open>None\<close>.\<close>

record 's redis =
  rd_set :: "string \<Rightarrow> string \<Rightarrow> int \<Rightarrow> 's \<Rightarrow> unit option \<times> 's"
  rd_getdel :: "string \<Rightarrow> 's \<Rightarrow> string option option \<times> 's"
  rd_view :: "'s \<Rightarrow> string \<Rightarrow> string option"

definition set_law :: "'s redis \<Rightarrow> string \<Rightarrow> string \<Rightarrow> 's \<Rightarrow> unit option \<Rightarrow> 's \<Rightarrow> bool" where
  "set_law rd k v s r s' \<longleftrightarrow> (r \<noteq> None \<longrightarrow> rd_view rd s' k = Some v) \<and> (\<forall>j. j \<noteq> k \<longrightarrow> rd_view rd s' j = rd_view rd s j)"

definition getdel_law :: "'s redis \<Rightarrow> string \<Rightarrow> 's \<Rightarrow> string option option \<Rightarrow> 's \<Rightarrow> bool" where
  "getdel_law rd k s r s' \<longleftrightarrow> (case r of
       None \<Rightarrow> rd_view rd s' k \<in> {None, rd_view rd s k}
     | Some x \<Rightarrow> x = rd_view rd s k \<and> rd_view rd s' k = None) \<and>
     (\<forall>j. j \<noteq> k \<longrightarrow> rd_view rd s' j = rd_view rd s j)"

definition redis_laws :: "'s redis \<Rightarrow> bool" where
  "redis_laws rd \<longleftrightarrow> (\<forall>k v ttl s r s'. rd_set rd k v ttl s = (r, s') \<longrightarrow> set_law rd k v s r s') \<and>
     (\<forall>k s r s'. rd_getdel rd k s = (r, s') \<longrightarrow> getdel_law rd k s r s')"

record realtime_env =
  re_now :: int
  re_token :: string
  re_hash :: "string \<Rightarrow> string"
  re_dump :: "stored_ticket \<Rightarrow> string"
  re_parse :: "string \<Rightarrow> stored_ticket option"
  re_ttl :: int
  re_origins :: "string list"

definition REALTIME_SERVICE_NAME :: string where "REALTIME_SERVICE_NAME = ''device:get latest locations''"
definition WS_TICKET_KEY_PREFIX :: string where "WS_TICKET_KEY_PREFIX = ''manea:ws-ticket''"

definition build_ticket_key :: "realtime_env \<Rightarrow> string \<Rightarrow> string" where
  "build_ticket_key env ticket = WS_TICKET_KEY_PREFIX @ '':'' @ re_hash env ticket"

definition active_user_sessions :: "accounts \<Rightarrow> int \<Rightarrow> nat \<Rightarrow> nat \<Rightarrow> (user \<times> user_session) list" where
  "active_user_sessions acc now user_id session_id =
     concat (map (\<lambda>u. map (Pair u) (filter (\<lambda>s. us_user_id s = u_id u \<and> us_id s = session_id \<and> session_active now user_id s)
       (acc_sessions acc))) (filter (\<lambda>u. u_id u = user_id \<and> u_deleted u = CHR ''N'') (acc_users acc)))"

definition get_active_user_session :: "accounts \<Rightarrow> int \<Rightarrow> nat \<Rightarrow> nat \<Rightarrow> (realtime_error, (user \<times> user_session) option) res" where
  "get_active_user_session acc now user_id session_id =
     (case scalar_one_or_none (active_user_sessions acc now user_id session_id) of Inl e \<Rightarrow> Inl (Rt_Db e) | Inr r \<Rightarrow> Inr r)"

definition access_of :: "token_data \<Rightarrow> accounts \<Rightarrow> (realtime_error, unit) res" where
  "access_of td acc = (case validate_user_service_access td REALTIME_SERVICE_NAME acc of
     Inr _ \<Rightarrow> Inr ()
   | Inl (Http_Error code detail) \<Rightarrow>
       if code \<in> {401, 403} then Inl (Rt_Forbidden ''Realtime access is not allowed.'') else Inl (Rt_Http code detail)
   | Inl (Web_Db e) \<Rightarrow> Inl (Rt_Db e))"

definition resolve_realtime_access :: "realtime_env \<Rightarrow> accounts \<Rightarrow> nat \<Rightarrow> nat \<Rightarrow> (realtime_error, connection_scope) res" where
  "resolve_realtime_access env acc user_id session_id =
     bindE (get_active_user_session acc (re_now env) user_id session_id) (\<lambda>row.
       case row of
         None \<Rightarrow> Inl (Rt_Unauthorized ''Realtime authentication failed.'')
       | Some (u, s) \<Rightarrow>
           bindE (access_of ((token_data_of u)\<lparr>td_session_id := Some (us_id s)\<rparr>) acc) (\<lambda>_.
             case u_client_id u of
               None \<Rightarrow> Inl (Rt_Forbidden ''Realtime access is not allowed.'')
             | Some c \<Rightarrow> Inr \<lparr>rs_user_id = u_id u, rs_session_id = us_id s, rs_client_id = c, rs_is_admin = u_is_admin u\<rparr>))"

definition issue_ticket ::
  "'s redis \<Rightarrow> realtime_env \<Rightarrow> accounts \<Rightarrow> token_data \<Rightarrow> ('s, realtime_error, ticket_response) act" where
  "issue_ticket rd env acc current_user s =
     (case td_session_id current_user of
        None \<Rightarrow> (Inl (Rt_Unauthorized ''Realtime authentication failed.''), s)
      | Some session_id \<Rightarrow>
          (case resolve_realtime_access env acc (td_user_id current_user) session_id of
             Inl e \<Rightarrow> (Inl e, s)
           | Inr scope \<Rightarrow>
               (case rd_set rd (build_ticket_key env (re_token env))
                    (re_dump env \<lparr>st_user_id = rs_user_id scope, st_session_id = rs_session_id scope\<rparr>) (re_ttl env) s of
                  (None, s') \<Rightarrow> (Inl (Rt_Unavailable ''Realtime authentication is unavailable.''), s')
                | (Some _, s') \<Rightarrow> (Inr \<lparr>wt_ticket = re_token env, wt_expires_in = re_ttl env\<rparr>, s'))))"

definition consume_ticket ::
  "'s redis \<Rightarrow> realtime_env \<Rightarrow> accounts \<Rightarrow> string option \<Rightarrow> ('s, realtime_error, connection_scope) act" where
  "consume_ticket rd env acc ticket s =
     (if (case ticket of None \<Rightarrow> True | Some t \<Rightarrow> py_strip t = []) then (Inl (Rt_Unauthorized ''Realtime authentication failed.''), s)
      else
        (case rd_getdel rd (build_ticket_key env (the ticket)) s of
           (None, s') \<Rightarrow> (Inl (Rt_Unavailable ''Realtime authentication is unavailable.''), s')
         | (Some None, s') \<Rightarrow> (Inl (Rt_Unauthorized ''Realtime authentication failed.''), s')
         | (Some (Some payload_json), s') \<Rightarrow>
             (case re_parse env payload_json of
                None \<Rightarrow> (Inl (Rt_Unauthorized ''Realtime authentication failed.''), s')
              | Some payload \<Rightarrow> (resolve_realtime_access env acc (st_user_id payload) (st_session_id payload), s'))))"

definition validate_origin :: "realtime_env \<Rightarrow> string option \<Rightarrow> (realtime_error, unit) res" where
  "validate_origin env origin =
     (if ''*'' \<in> set (re_origins env) then Inr ()
      else if origin = None \<or> the origin \<notin> set (re_origins env) then Inl (Rt_Forbidden ''Realtime origin is not allowed.'')
      else Inr ())"

subsection \<open>What a ticket opens\<close>

text \<open>
  The scope of a connection: a live user with a client and the realtime service, over an active
  session of that user.
\<close>

definition entitled :: "accounts \<Rightarrow> int \<Rightarrow> connection_scope \<Rightarrow> bool" where
  "entitled acc now scope \<longleftrightarrow>
     (\<exists>u \<in> set (acc_users acc). \<exists>s \<in> set (acc_sessions acc).
        u_id u = rs_user_id scope \<and> u_deleted u = CHR ''N'' \<and> u_client_id u = Some (rs_client_id scope) \<and>
        u_is_admin u = rs_is_admin scope \<and> us_id s = rs_session_id scope \<and> session_active now (u_id u) s \<and>
        (u_is_admin u \<or> (u_id u, REALTIME_SERVICE_NAME) \<in> may_use acc))"

lemma scalar_member: "scalar_one_or_none xs = Inr (Some x) \<Longrightarrow> x \<in> set xs"
  by (simp add: scalar_one_or_none_Some)

lemma access_of_ok: "access_of td acc = Inr x \<longleftrightarrow> td_is_admin td \<or> (td_user_id td, REALTIME_SERVICE_NAME) \<in> may_use acc"
  by (simp add: access_of_def access_iff)

lemma resolve_entitled:
  assumes "resolve_realtime_access env acc i j = Inr scope"
  shows "entitled acc (re_now env) scope" "rs_user_id scope = i" "rs_session_id scope = j"
proof -
  obtain u s c where row: "scalar_one_or_none (active_user_sessions acc (re_now env) i j) = Inr (Some (u, s))"
    and access: "access_of ((token_data_of u)\<lparr>td_session_id := Some (us_id s)\<rparr>) acc = Inr ()" and c: "u_client_id u = Some c"
    and scope: "scope = \<lparr>rs_user_id = u_id u, rs_session_id = us_id s, rs_client_id = c, rs_is_admin = u_is_admin u\<rparr>"
  proof (cases "scalar_one_or_none (active_user_sessions acc (re_now env) i j)")
    case (Inr row)
    then obtain u s where "row = Some (u, s)"
      using assms by (cases row) (auto simp: resolve_realtime_access_def get_active_user_session_def)
    with Inr assms show thesis
      by (intro that [of u s "the (u_client_id u)"])
        (auto simp: resolve_realtime_access_def get_active_user_session_def res_simps split: option.splits)
  qed (use assms in \<open>simp add: resolve_realtime_access_def get_active_user_session_def\<close>)
  from scalar_member [OF row] have us: "u \<in> set (acc_users acc)" "s \<in> set (acc_sessions acc)" "u_id u = i"
    "u_deleted u = CHR ''N''" "us_id s = j" "session_active (re_now env) i s"
    by (auto simp: active_user_sessions_def)
  then show "rs_user_id scope = i" "rs_session_id scope = j" by (simp_all add: scope)
  from access have "u_is_admin u \<or> (u_id u, REALTIME_SERVICE_NAME) \<in> may_use acc"
    by (simp add: access_of_ok token_data_of_def)
  with us c show "entitled acc (re_now env) scope" unfolding entitled_def
    by (intro bexI [of _ u] bexI [of _ s]) (simp_all add: scope)
qed

lemma consume_cases:
  assumes "consume_ticket rd env acc ticket s = (Inr scope, s')"
  obtains t v p where "ticket = Some t" "rd_getdel rd (build_ticket_key env t) s = (Some (Some v), s')" "re_parse env v = Some p"
    "entitled acc (re_now env) scope" "rs_user_id scope = st_user_id p" "rs_session_id scope = st_session_id p"
proof -
  obtain t where t: "ticket = Some t" "py_strip t \<noteq> []" using assms by (auto simp: consume_ticket_def split: if_splits option.splits)
  obtain r where del: "rd_getdel rd (build_ticket_key env t) s = (r, s')"
    using assms t by (cases "rd_getdel rd (build_ticket_key env t) s") (auto simp: consume_ticket_def split: option.splits)
  obtain v where v: "r = Some (Some v)" using assms t del by (auto simp: consume_ticket_def split: option.splits)
  obtain p where p: "re_parse env v = Some p" using assms t del v by (auto simp: consume_ticket_def split: option.splits)
  have "resolve_realtime_access env acc (st_user_id p) (st_session_id p) = Inr scope"
    using assms t del v p by (simp add: consume_ticket_def)
  from resolve_entitled [OF this] show thesis by (rule that [OF t(1) del [unfolded v] p])
qed

lemma issue_cases:
  assumes "issue_ticket rd env acc td s = (r, s')"
  obtains (refused) e where "r = Inl e" "s' = s"
  | (tried) scope x where "entitled acc (re_now env) scope" "rs_user_id scope = td_user_id td" "Some (rs_session_id scope) = td_session_id td"
      "rd_set rd (build_ticket_key env (re_token env))
         (re_dump env \<lparr>st_user_id = rs_user_id scope, st_session_id = rs_session_id scope\<rparr>) (re_ttl env) s = (x, s')"
      "r = (case x of None \<Rightarrow> Inl (Rt_Unavailable ''Realtime authentication is unavailable.'')
        | Some _ \<Rightarrow> Inr \<lparr>wt_ticket = re_token env, wt_expires_in = re_ttl env\<rparr>)"
proof (cases "td_session_id td")
  case (Some j)
  show thesis
  proof (cases "resolve_realtime_access env acc (td_user_id td) j")
    case (Inr scope)
    obtain x s2 where set: "rd_set rd (build_ticket_key env (re_token env))
         (re_dump env \<lparr>st_user_id = rs_user_id scope, st_session_id = rs_session_id scope\<rparr>) (re_ttl env) s = (x, s2)"
      by (meson surj_pair)
    with assms Some Inr have "s2 = s'" "r = (case x of None \<Rightarrow> Inl (Rt_Unavailable ''Realtime authentication is unavailable.'')
        | Some _ \<Rightarrow> Inr \<lparr>wt_ticket = re_token env, wt_expires_in = re_ttl env\<rparr>)"
      by (auto simp: issue_ticket_def split: option.splits)
    with resolve_entitled [OF Inr] set Some show thesis by (intro tried [of scope x]) simp_all
  qed (use assms Some refused in \<open>auto simp: issue_ticket_def\<close>)
qed (use assms refused in \<open>auto simp: issue_ticket_def\<close>)

subsection \<open>A ticket is redeemed once\<close>

text \<open>
  What may happen in Redis between two uses of the key \<open>k\<close>: entries expire, tickets are issued
  under other keys, tickets are redeemed.
\<close>

inductive ticket_step :: "'s redis \<Rightarrow> string \<Rightarrow> 's \<Rightarrow> 's \<Rightarrow> bool" for rd :: "'s redis" and k :: string where
  expires: "(\<And>j. rd_view rd s' j \<in> {None, rd_view rd s j}) \<Longrightarrow> ticket_step rd k s s'"
| issues: "issue_ticket rd env acc td s = (r, s') \<Longrightarrow> build_ticket_key env (re_token env) \<noteq> k \<Longrightarrow> ticket_step rd k s s'"
| redeems: "consume_ticket rd env acc ticket s = (r, s') \<Longrightarrow> ticket_step rd k s s'"

lemma redis_getdel: "redis_laws rd \<Longrightarrow> rd_getdel rd k s = (r, s') \<Longrightarrow> getdel_law rd k s r s'"
  unfolding redis_laws_def by blast

lemma redis_set: "redis_laws rd \<Longrightarrow> rd_set rd k v ttl s = (r, s') \<Longrightarrow> set_law rd k v s r s'"
  unfolding redis_laws_def by blast

lemma getdelD:
  assumes "redis_laws rd" "rd_getdel rd k s = (Some x, s')"
  shows "x = rd_view rd s k" "rd_view rd s' k = None"
  using redis_getdel [OF assms] by (simp_all add: getdel_law_def)

lemma getdel_view:
  assumes "redis_laws rd" "rd_getdel rd k s = (r, s')"
  shows "rd_view rd s' j \<in> {None, rd_view rd s j}"
  using redis_getdel [OF assms] by (cases "j = k") (simp_all add: getdel_law_def split: option.splits)

lemma set_other:
  assumes "redis_laws rd" "rd_set rd k v ttl s = (r, s')" "j \<noteq> k"
  shows "rd_view rd s' j = rd_view rd s j"
  using redis_set [OF assms(1,2)] assms(3) by (simp add: set_law_def)

lemma consume_state:
  assumes "redis_laws rd" "consume_ticket rd env acc ticket s = (r, s')"
  shows "rd_view rd s' j \<in> {None, rd_view rd s j}"
proof (cases "s' = s")
  case False
  then obtain t x where "rd_getdel rd (build_ticket_key env t) s = (x, s')"
    using assms(2) by (auto simp: consume_ticket_def split: if_splits option.splits prod.splits)
  then show ?thesis by (rule getdel_view [OF assms(1)])
qed simp

lemma ticket_step_empty:
  assumes "redis_laws rd" "ticket_step rd k s s'" "rd_view rd s k = None"
  shows "rd_view rd s' k = None"
  using assms(2)
proof cases
  case expires
  from expires [of k] show ?thesis using assms(3) by simp
next
  case (issues env acc td r)
  from issues(1) show ?thesis
  proof (cases rule: issue_cases)
    case (tried scope x)
    from set_other [OF assms(1) tried(4), of k] issues(2) assms(3) show ?thesis by simp
  qed (use assms(3) in simp)
next
  case (redeems env acc ticket r)
  with consume_state [OF assms(1) this, of k] assms(3) show ?thesis by simp
qed

lemma ticket_steps_empty:
  assumes "redis_laws rd" "(ticket_step rd k)\<^sup>*\<^sup>* s s'" "rd_view rd s k = None"
  shows "rd_view rd s' k = None"
  using assms(2,3) by (induction rule: rtranclp_induct) (auto dest: ticket_step_empty [OF assms(1)])

text \<open>
  Property C21. A ticket opens one connection, and only for what its holder is entitled to when it
  is redeemed: the scope names a live user with an active session, the user's client and access
  to the realtime service; afterwards the same ticket is refused, whatever other tickets are
  issued, redeemed or expire in between, and a redemption never creates an entry.
\<close>
theorem ticket_redeemed_once:
  assumes "redis_laws rd" "consume_ticket rd env acc (Some t) s = (Inr scope, s1)"
    and "(ticket_step rd (build_ticket_key env t))\<^sup>*\<^sup>* s1 s2"
    and "consume_ticket rd env2 acc2 (Some t) s2 = (r, s3)" "re_hash env2 = re_hash env"
  shows "entitled acc (re_now env) scope \<and>
    r \<in> {Inl (Rt_Unauthorized ''Realtime authentication failed.''), Inl (Rt_Unavailable ''Realtime authentication is unavailable.'')} \<and>
    (\<forall>j. rd_view rd s3 j \<in> {None, rd_view rd s2 j})"
proof -
  obtain v p where one: "rd_getdel rd (build_ticket_key env t) s = (Some (Some v), s1)" "entitled acc (re_now env) scope"
    using assms(2) by (rule consume_cases) auto
  have "rd_view rd s1 (build_ticket_key env t) = None" by (rule getdelD(2) [OF assms(1) one(1)])
  with ticket_steps_empty [OF assms(1,3)] have "rd_view rd s2 (build_ticket_key env t) = None" by blast
  moreover have "build_ticket_key env2 t = build_ticket_key env t" by (simp add: build_ticket_key_def assms(5))
  moreover obtain x s4 where x: "rd_getdel rd (build_ticket_key env2 t) s2 = (x, s4)" by (meson surj_pair)
  ultimately have "x \<in> {None, Some None}" using getdelD(1) [OF assms(1), of "build_ticket_key env t" s2 _ s4] by (cases x) auto
  with x assms(4) have "r \<in> {Inl (Rt_Unauthorized ''Realtime authentication failed.''), Inl (Rt_Unavailable ''Realtime authentication is unavailable.'')}"
    by (auto simp: consume_ticket_def split: if_splits)
  with one(2) consume_state [OF assms(1,4)] show ?thesis by blast
qed

text \<open>A redis that keeps its entries in a map and never fails.\<close>

definition map_redis :: "(string \<Rightarrow> string option) redis" where
  "map_redis = \<lparr>rd_set = (\<lambda>k v ttl s. (Some (), s(k \<mapsto> v))), rd_getdel = (\<lambda>k s. (Some (s k), s(k := None))),
     rd_view = (\<lambda>s. s)\<rparr>"

lemma map_redis_laws: "redis_laws map_redis"
  by (auto simp: redis_laws_def set_law_def getdel_law_def map_redis_def)

definition sample_realtime_env :: "int \<Rightarrow> string \<Rightarrow> realtime_env" where
  "sample_realtime_env now token = \<lparr>re_now = now, re_token = token, re_hash = (\<lambda>x. x), re_dump = (\<lambda>_. ''{}''),
     re_parse = (\<lambda>_. Some \<lparr>st_user_id = 1, st_session_id = 1\<rparr>), re_ttl = 60, re_origins = [''o'']\<rparr>"

definition admin_logged_in :: accounts where
  "admin_logged_in = logged_in\<lparr>acc_users := map (\<lambda>u. u\<lparr>u_is_admin := True\<rparr>) (acc_users logged_in)\<rparr>"

definition admin_scope :: connection_scope where
  "admin_scope = \<lparr>rs_user_id = 1, rs_session_id = 1, rs_client_id = 1, rs_is_admin = True\<rparr>"

lemma ticket_works:
  "issue_ticket map_redis (sample_realtime_env 0 ''k'') admin_logged_in
     ((token_data_of (hd (acc_users admin_logged_in)))\<lparr>td_session_id := Some 1\<rparr>) Map.empty =
     (Inr \<lparr>wt_ticket = ''k'', wt_expires_in = 60\<rparr>, [''manea:ws-ticket:k'' \<mapsto> ''{}''])"
  "consume_ticket map_redis (sample_realtime_env 5 ''x'') admin_logged_in (Some ''k'') [''manea:ws-ticket:k'' \<mapsto> ''{}''] =
     (Inr admin_scope, Map.empty)"
  by (simp_all add: issue_ticket_def consume_ticket_def resolve_realtime_access_def get_active_user_session_def
      active_user_sessions_def admin_logged_in_def logged_in_def one_user_def session_active_def access_of_def
      validate_user_service_access_def token_data_of_def map_redis_def sample_realtime_env_def build_ticket_key_def
      WS_TICKET_KEY_PREFIX_def admin_scope_def py_strip_def py_isspace_def)

theorem ticket_redeemed_once_witness:
  "\<exists>s1 r s3. consume_ticket map_redis (sample_realtime_env 5 ''x'') admin_logged_in (Some ''k'') [''manea:ws-ticket:k'' \<mapsto> ''{}''] =
     (Inr admin_scope, s1) \<and> consume_ticket map_redis (sample_realtime_env 6 ''y'') admin_logged_in (Some ''k'') s1 = (r, s3) \<and>
     \<not> is_ok r"
proof -
  obtain r s3 where again: "consume_ticket map_redis (sample_realtime_env 6 ''y'') admin_logged_in (Some ''k'') Map.empty = (r, s3)"
    by (meson surj_pair)
  have "re_hash (sample_realtime_env 6 ''y'') = re_hash (sample_realtime_env 5 ''x'')" by (simp add: sample_realtime_env_def)
  from ticket_redeemed_once [OF map_redis_laws ticket_works(2) rtranclp.rtrancl_refl again this] have "\<not> is_ok r" by auto
  with again ticket_works(2) show ?thesis by blast
qed

end
