(* ===== verification/Realtime_Delivery.thy ===== *)
theory Realtime_Delivery
  imports Realtime_Access ChirpStack_Events
begin

text \<open>
  Live locations over websockets: the handshake of \<open>src/routers/realtime.py\<close>, the connection
  manager of \<open>src/realtime/connection_manager.py\<close> and the subscriber of
  \<open>src/realtime/locations_suscriber.py\<close>.  A websocket is an object identity.  The order in which
  Python iterates over a set and the outcome of a send are parameters.
\<close>

subsection \<open>The handshake\<close>

datatype handshake = Closed nat | Accepted connection_scope | Crashed realtime_error

fun close_code :: "realtime_error \<Rightarrow> handshake" where
  "close_code (Rt_Unavailable _) = Closed 1011"
| "close_code (Rt_Unauthorized _) = Closed 1008"
| "close_code (Rt_Forbidden _) = Closed 1008"
| "close_code e = Crashed e"

definition locations_websocket ::
  "'s redis \<Rightarrow> realtime_env \<Rightarrow> accounts \<Rightarrow> string option \<Rightarrow> string option \<Rightarrow> 's \<Rightarrow> handshake \<times> 's" where
  "locations_websocket rd env acc raw_ticket origin s =
     (case consume_ticket rd env acc raw_ticket s of
        (Inl e, s') \<Rightarrow> (close_code e, s')
      | (Inr scope, s') \<Rightarrow>
          (case validate_origin env origin of Inl e \<Rightarrow> (close_code e, s') | Inr _ \<Rightarrow> (Accepted scope, s')))"

fun ticket_error_status :: "realtime_error \<Rightarrow> (web_error, 'a) res" where
  "ticket_error_status (Rt_Unauthorized m) = Inl (Http_Error 401 m)"
| "ticket_error_status (Rt_Forbidden m) = Inl (Http_Error 403 m)"
| "ticket_error_status (Rt_Unavailable m) = Inl (Http_Error 503 m)"
| "ticket_error_status (Rt_Http code m) = Inl (Http_Error code m)"
| "ticket_error_status (Rt_Db e) = Inl (Web_Db e)"

definition create_websocket_ticket ::
  "'s redis \<Rightarrow> realtime_env \<Rightarrow> accounts \<Rightarrow> token_data \<Rightarrow> ('s, web_error, ticket_response) act" where
  "create_websocket_ticket rd env acc current_user s =
     (case issue_ticket rd env acc current_user s of (Inl e, s') \<Rightarrow> (ticket_error_status e, s') | (Inr t, s') \<Rightarrow> (Inr t, s'))"

subsection \<open>The connection manager\<close>

record manager =
  cm_connections :: "nat \<Rightarrow> nat set option"
  cm_ids :: "nat \<Rightarrow> string option"
  cm_next :: nat

definition empty_manager :: manager where
  "empty_manager = \<lparr>cm_connections = Map.empty, cm_ids = Map.empty, cm_next = 1\<rparr>"

definition sockets :: "manager \<Rightarrow> nat \<Rightarrow> nat set" where
  "sockets m client_id = (case cm_connections m client_id of None \<Rightarrow> {} | Some S \<Rightarrow> S)"

definition connection_name :: "nat \<Rightarrow> string" where
  "connection_name n = ''ws-'' @ py_str_int (int n)"

definition connect :: "nat \<Rightarrow> nat \<Rightarrow> manager \<Rightarrow> string \<times> manager" where
  "connect client_id ws m =
     (let m' = m\<lparr>cm_connections := (cm_connections m)(client_id \<mapsto> insert ws (sockets m client_id))\<rparr>
      in case cm_ids m ws of
           Some i \<Rightarrow> (i, m')
         | None \<Rightarrow> (let i = connection_name (cm_next m)
             in (i, m'\<lparr>cm_next := cm_next m + 1, cm_ids := (cm_ids m)(ws \<mapsto> i)\<rparr>)))"

definition disconnect :: "nat \<Rightarrow> nat \<Rightarrow> manager \<Rightarrow> manager" where
  "disconnect client_id ws m =
     (let m' = m\<lparr>cm_ids := (cm_ids m)(ws := None)\<rparr>
      in case cm_connections m client_id of
           None \<Rightarrow> m'
         | Some S \<Rightarrow> m'\<lparr>cm_connections := (cm_connections m)(client_id := if S - {ws} = {} then None else Some (S - {ws}))\<rparr>)"

datatype send_outcome = Sent | Send_Failed | Send_Unexpected

definition send_all :: "(nat \<Rightarrow> send_outcome) \<Rightarrow> nat list \<Rightarrow> nat list \<times> nat list" where
  "send_all send conns = (filter (\<lambda>w. send w = Sent) conns, filter (\<lambda>w. send w \<noteq> Sent) conns)"

text \<open>The result of \<open>send_to_client\<close>: the sockets that took the payload, and the manager.\<close>

definition send_to_client ::
  "(nat set \<Rightarrow> nat list) \<Rightarrow> (nat \<Rightarrow> send_outcome) \<Rightarrow> nat \<Rightarrow> manager \<Rightarrow> nat list \<times> manager" where
  "send_to_client iter send client_id m =
     (let conns = iter (sockets m client_id)
      in if conns = [] then ([], m)
         else (case send_all send conns of (took, failed) \<Rightarrow> (took, fold (disconnect client_id) failed m)))"

definition connection_count :: "manager \<Rightarrow> nat \<Rightarrow> nat" where
  "connection_count m client_id = card (sockets m client_id)"

definition connection_ids :: "(nat set \<Rightarrow> nat list) \<Rightarrow> manager \<Rightarrow> nat \<Rightarrow> string list" where
  "connection_ids iter m client_id =
     map (\<lambda>ws. case cm_ids m ws of None \<Rightarrow> ''unknown'' | Some i \<Rightarrow> i) (iter (sockets m client_id))"

subsection \<open>The subscriber\<close>

record redis_message =
  rm_type :: string
  rm_data :: string

text \<open>The subscriber's own constant for the channel, and what a subscription to a channel hears of the messages published.\<close>

definition SUBSCRIBER_CHANNEL :: string where "SUBSCRIBER_CHANNEL = ''manea:locations''"

definition on_channel :: "string \<Rightarrow> (string \<times> string) list \<Rightarrow> redis_message list" where
  "on_channel ch messages = map (\<lambda>(_, text). \<lparr>rm_type = ''message'', rm_data = text\<rparr>) (filter (\<lambda>p. fst p = ch) messages)"

text \<open>The event a message carries, if it is one to dispatch.\<close>

definition received_event :: "(string \<Rightarrow> realtime_location option) \<Rightarrow> redis_message \<Rightarrow> realtime_location option" where
  "received_event parse message = (if rm_type message \<noteq> ''message'' then None else parse (rm_data message))"

definition deliver ::
  "(string \<Rightarrow> realtime_location option) \<Rightarrow> (nat set \<Rightarrow> nat list) \<Rightarrow> (nat \<Rightarrow> send_outcome) \<Rightarrow> redis_message
   \<Rightarrow> manager \<Rightarrow> (nat \<times> realtime_location) list \<times> manager" where
  "deliver parse iter send message m =
     (case received_event parse message of
        None \<Rightarrow> ([], m)
      | Some event \<Rightarrow> (case send_to_client iter send (rl_client_id event) m of
          (took, m') \<Rightarrow> (map (\<lambda>w. (w, event)) took, m')))"

primrec deliver_all ::
  "(string \<Rightarrow> realtime_location option) \<Rightarrow> (nat set \<Rightarrow> nat list) \<Rightarrow> (nat \<Rightarrow> send_outcome) \<Rightarrow> redis_message list
   \<Rightarrow> manager \<Rightarrow> (nat \<times> realtime_location) list \<times> manager" where
  "deliver_all parse iter send [] m = ([], m)"
| "deliver_all parse iter send (x # xs) m =
     (case deliver parse iter send x m of (sent, m') \<Rightarrow>
        (case deliver_all parse iter send xs m' of (sent', m'') \<Rightarrow> (sent @ sent', m'')))"

text \<open>A subscription ends by an error, after which the subscriber starts over, or by its cancellation.\<close>

datatype subscription = Subscription "redis_message list" bool

fun listen_location_events ::
  "(string \<Rightarrow> realtime_location option) \<Rightarrow> (nat set \<Rightarrow> nat list) \<Rightarrow> (nat \<Rightarrow> send_outcome) \<Rightarrow> subscription list
   \<Rightarrow> manager \<Rightarrow> (nat \<times> realtime_location) list \<times> manager" where
  "listen_location_events parse iter send [] m = ([], m)"
| "listen_location_events parse iter send (Subscription xs cancelled # subs) m =
     (case deliver_all parse iter send xs m of (sent, m') \<Rightarrow>
        if cancelled then (sent, m')
        else (case listen_location_events parse iter send subs m' of (sent', m'') \<Rightarrow> (sent @ sent', m'')))"

subsection \<open>Names of connections\<close>

definition digits_value :: "string \<Rightarrow> nat" where
  "digits_value = foldl (\<lambda>a c. 10 * a + (of_char c - 48)) 0"

lemma digits_value_nat_digits: "digits_value (nat_digits n) = n"
proof (induction n rule: nat_digits.induct)
  case (1 n)
  show ?case
  proof (cases "n < 10")
    case True
    then show ?thesis by (subst nat_digits.simps) (simp add: digits_value_def of_char_of take_bit_nat_def)
  next
    case False
    with 1 have "digits_value (nat_digits (n div 10)) = n div 10" by simp
    moreover have "(48 + n mod 10) mod 256 = 48 + n mod 10" by simp
    ultimately show ?thesis using False
      by (subst nat_digits.simps) (simp add: digits_value_def of_char_of)
  qed
qed

lemma connection_name_inj: "connection_name a = connection_name b \<longleftrightarrow> a = b"
  by (auto simp: connection_name_def py_str_int_def dest: arg_cong [where f = digits_value] simp: digits_value_nat_digits)

subsection \<open>The invariant of the manager\<close>

text \<open>
  No client is kept without a socket, exactly the registered sockets have a name, and no two
  have the same.  A socket is registered under one client at most.
\<close>

definition manager_ok :: "manager \<Rightarrow> bool" where
  "manager_ok m \<longleftrightarrow>
     (\<forall>c S. cm_connections m c = Some S \<longrightarrow> S \<noteq> {} \<and> finite S) \<and>
     (\<forall>ws. cm_ids m ws \<noteq> None \<longleftrightarrow> (\<exists>c. ws \<in> sockets m c)) \<and>
     (\<forall>ws i. cm_ids m ws = Some i \<longrightarrow> (\<exists>n < cm_next m. i = connection_name n)) \<and>
     (\<forall>ws ws' i. cm_ids m ws = Some i \<longrightarrow> cm_ids m ws' = Some i \<longrightarrow> ws = ws') \<and>
     (\<forall>c c' ws. ws \<in> sockets m c \<longrightarrow> ws \<in> sockets m c' \<longrightarrow> c = c')"

lemma manager_okD:
  assumes "manager_ok m"
  shows "cm_connections m c = Some S \<Longrightarrow> S \<noteq> {} \<and> finite S" "cm_ids m ws \<noteq> None \<longleftrightarrow> (\<exists>c. ws \<in> sockets m c)"
    "cm_ids m ws = Some i \<Longrightarrow> \<exists>n < cm_next m. i = connection_name n"
    "cm_ids m ws = Some i \<Longrightarrow> cm_ids m ws' = Some i \<Longrightarrow> ws = ws'"
    "ws \<in> sockets m c \<Longrightarrow> ws \<in> sockets m c' \<Longrightarrow> c = c'"
  using assms unfolding manager_ok_def by blast+

lemma sockets_finite: "manager_ok m \<Longrightarrow> finite (sockets m c)"
  using manager_okD(1) [of m c] by (auto simp: sockets_def split: option.splits)

lemma connect_sockets:
  "sockets (snd (connect c ws m)) c' = (if c' = c then insert ws (sockets m c) else sockets m c')"
  by (auto simp: connect_def Let_def sockets_def split: option.splits)

lemma disconnect_sockets:
  "sockets (disconnect c ws m) c' = (if c' = c then sockets m c - {ws} else sockets m c')"
  by (auto simp: disconnect_def Let_def sockets_def split: option.splits)

lemma connect_ids:
  "cm_ids (snd (connect c ws m)) = (cm_ids m)(ws := Some (fst (connect c ws m)))"
  by (auto simp: connect_def Let_def fun_upd_idem split: option.splits)

lemma disconnect_ids: "cm_ids (disconnect c ws m) = (cm_ids m)(ws := None)" "cm_next (disconnect c ws m) = cm_next m"
  by (auto simp: disconnect_def Let_def split: option.splits)

text \<open>A new socket, or one that is registered under the client already, may connect.\<close>

lemma connect_ok:
  assumes ok: "manager_ok m" and own: "\<forall>c'. ws \<in> sockets m c' \<longrightarrow> c' = c"
  shows "manager_ok (snd (connect c ws m))"
proof -
  let ?m = "snd (connect c ws m)"
  have conns: "S \<noteq> {} \<and> finite S" if "cm_connections ?m c' = Some S" for c' S
    using that manager_okD(1) [OF ok, of c'] sockets_finite [OF ok, of c]
    by (cases "c' = c") (auto simp: connect_def Let_def split: option.splits)
  have named: "cm_ids ?m w \<noteq> None \<longleftrightarrow> (\<exists>c. w \<in> sockets ?m c)" for w
    using manager_okD(2) [OF ok, of w] by (auto simp: connect_ids connect_sockets)
  have le: "cm_next m \<le> cm_next ?m" by (auto simp: connect_def Let_def split: option.splits)
  have new: "fst (connect c ws m) = connection_name (cm_next m) \<and> cm_next ?m = cm_next m + 1" if "cm_ids m ws = None"
    using that by (simp add: connect_def Let_def)
  have old: "fst (connect c ws m) = i" if "cm_ids m ws = Some i" for i
    using that by (simp add: connect_def Let_def)
  have names: "\<exists>n < cm_next ?m. i = connection_name n" if "cm_ids ?m w = Some i" for w i
  proof (cases "w = ws")
    case True
    show ?thesis
    proof (cases "cm_ids m ws")
      case None
      with new that True show ?thesis by (auto simp: connect_ids)
    next
      case (Some j)
      with old that True have "i = j" by (simp add: connect_ids)
      from manager_okD(3) [OF ok Some] obtain n where "n < cm_next m" "j = connection_name n" by blast
      with le \<open>i = j\<close> show ?thesis by (intro exI [of _ n]) simp
    qed
  next
    case False
    with that have "cm_ids m w = Some i" by (simp add: connect_ids)
    from manager_okD(3) [OF ok this] obtain n where "n < cm_next m" "i = connection_name n" by blast
    with le show ?thesis by (intro exI [of _ n]) simp
  qed
  have fresh: "cm_ids m w \<noteq> Some (connection_name (cm_next m))" for w
    using manager_okD(3) [OF ok, of w "connection_name (cm_next m)"] by (auto simp: connection_name_inj)
  have inj: "w = w'" if "cm_ids ?m w = Some i" "cm_ids ?m w' = Some i" for w w' i
  proof (cases "cm_ids m ws")
    case None
    with that new fresh manager_okD(4) [OF ok, of w i w'] show ?thesis
      by (auto simp: connect_ids split: if_splits)
  next
    case (Some j)
    with that old [OF Some] manager_okD(4) [OF ok] show ?thesis by (simp add: connect_ids fun_upd_idem)
  qed
  have one: "a = b" if "w \<in> sockets ?m a" "w \<in> sockets ?m b" for w a b
    using that own manager_okD(5) [OF ok, of w a b] by (auto simp: connect_sockets split: if_splits)
  show ?thesis unfolding manager_ok_def using conns named names inj one by blast
qed

lemma disconnect_ok:
  assumes ok: "manager_ok m" and own: "\<forall>c'. ws \<in> sockets m c' \<longrightarrow> c' = c"
  shows "manager_ok (disconnect c ws m)"
proof -
  let ?m = "disconnect c ws m"
  have conns: "S \<noteq> {} \<and> finite S" if "cm_connections ?m c' = Some S" for c' S
    using that manager_okD(1) [OF ok, of c']
    by (cases "c' = c") (auto simp: disconnect_def Let_def split: option.splits if_splits)
  have named: "cm_ids ?m w \<noteq> None \<longleftrightarrow> (\<exists>c. w \<in> sockets ?m c)" for w
    using manager_okD(2) [OF ok, of w] own by (auto simp: disconnect_ids disconnect_sockets)
  have names: "\<exists>n < cm_next ?m. i = connection_name n" if "cm_ids ?m w = Some i" for w i
    using that manager_okD(3) [OF ok, of w i] by (auto simp: disconnect_ids split: if_splits)
  have inj: "w = w'" if "cm_ids ?m w = Some i" "cm_ids ?m w' = Some i" for w w' i
    using that manager_okD(4) [OF ok, of w i w'] by (auto simp: disconnect_ids split: if_splits)
  have one: "a = b" if "w \<in> sockets ?m a" "w \<in> sockets ?m b" for w a b
    using that manager_okD(5) [OF ok, of w a b] by (auto simp: disconnect_sockets split: if_splits)
  show ?thesis unfolding manager_ok_def using conns named names inj one by blast
qed

lemma drop_all:
  assumes "manager_ok m" "\<forall>ws \<in> set failed. \<forall>c'. ws \<in> sockets m c' \<longrightarrow> c' = c"
  shows "manager_ok (fold (disconnect c) failed m) \<and>
    (\<forall>c'. sockets (fold (disconnect c) failed m) c' = (if c' = c then sockets m c - set failed else sockets m c'))"
  using assms
proof (induction failed arbitrary: m)
  case (Cons w failed)
  have own: "\<forall>c'. w \<in> sockets m c' \<longrightarrow> c' = c" using Cons.prems(2) by simp
  have "\<forall>ws \<in> set failed. \<forall>c'. ws \<in> sockets (disconnect c w m) c' \<longrightarrow> c' = c"
    using Cons.prems(2) by (auto simp: disconnect_sockets split: if_splits)
  from Cons.IH [OF disconnect_ok [OF Cons.prems(1) own] this] show ?case by (auto simp: disconnect_sockets)
qed simp

subsection \<open>Delivery\<close>

text \<open>
  An event reaches the sockets of its client and no others: every registered socket
  of that client is tried exactly once and those that take the payload are the ones reported;
  afterwards exactly the failing ones are gone, with their names, every other client is as it
  was, and the manager is still well-formed.
\<close>
theorem delivery_exact:
  assumes "manager_ok m" "\<And>S. finite S \<Longrightarrow> set (iter S) = S \<and> distinct (iter S)"
    and "rm_type msg = ''message''" "parse (rm_data msg) = Some e" "deliver parse iter send msg m = (sent, m')"
  shows "distinct sent \<and> set sent = {ws \<in> sockets m (rl_client_id e). send ws = Sent} \<times> {e} \<and> manager_ok m' \<and>
    (\<forall>c. sockets m' c = {ws \<in> sockets m c. c = rl_client_id e \<longrightarrow> send ws = Sent}) \<and>
    connection_count m' (rl_client_id e) = length sent"
proof -
  let ?c = "rl_client_id e"
  let ?conns = "iter (sockets m ?c)"
  let ?failed = "filter (\<lambda>w. send w \<noteq> Sent) ?conns"
  have conns: "set ?conns = sockets m ?c" "distinct ?conns" using assms(2) [OF sockets_finite [OF assms(1)]] by simp_all
  have own: "\<forall>ws \<in> set ?failed. \<forall>c'. ws \<in> sockets m c' \<longrightarrow> c' = ?c"
    using conns(1) manager_okD(5) [OF assms(1)] by auto
  have sent: "sent = map (\<lambda>w. (w, e)) (filter (\<lambda>w. send w = Sent) ?conns)" and m': "m' = fold (disconnect ?c) ?failed m"
    using assms(3-5) by (auto simp: deliver_def received_event_def send_to_client_def send_all_def Let_def split: if_splits)
  from drop_all [OF assms(1) own] have ok: "manager_ok m'"
    and socks: "\<And>c. sockets m' c = (if c = ?c then sockets m ?c - set ?failed else sockets m c)"
    by (simp_all add: m')
  have socks': "sockets m' c = {ws \<in> sockets m c. c = ?c \<longrightarrow> send ws = Sent}" for c
    using conns(1) by (auto simp: socks)
  have set_sent: "set sent = {ws \<in> sockets m ?c. send ws = Sent} \<times> {e}" using conns(1) by (auto simp: sent)
  have d: "distinct sent" using conns(2) by (simp add: sent distinct_map inj_on_def)
  have "sockets m' ?c = set (filter (\<lambda>w. send w = Sent) ?conns)" using conns(1) by (auto simp: socks')
  moreover have "distinct (filter (\<lambda>w. send w = Sent) ?conns)" using conns(2) by simp
  ultimately have "connection_count m' ?c = length sent"
    by (simp only: connection_count_def distinct_card sent length_map)
  then show ?thesis using d set_sent ok socks' by blast
qed

definition sample_event :: realtime_location where
  "sample_event = \<lparr>rl_location_id = 1, rl_client_id = 1, rl_device_id = 1, rl_device_serial = ''s'', rl_latitude = Finite 0,
     rl_longitude = Finite 0, rl_altitude = None, rl_accuracy = None, rl_recorded_at = 0\<rparr>"

definition two_sockets :: manager where
  "two_sockets = snd (connect 2 8 (snd (connect 1 7 empty_manager)))"

lemma empty_sockets [simp]: "sockets empty_manager c = {}"
  by (simp add: empty_manager_def sockets_def)

lemma empty_manager_ok: "manager_ok empty_manager"
  unfolding manager_ok_def by (simp only: empty_sockets) (simp add: empty_manager_def)

lemma two_sockets_ok: "manager_ok two_sockets"
  unfolding two_sockets_def
  by (intro connect_ok empty_manager_ok) (auto simp: connect_sockets)

theorem delivery_exact_witness:
  "\<exists>sent m'. deliver (\<lambda>_. Some sample_event) sorted_list_of_set (\<lambda>_. Sent) \<lparr>rm_type = ''message'', rm_data = ''x''\<rparr> two_sockets
     = (sent, m') \<and> set sent = {(7, sample_event)} \<and> connection_count m' 1 = 1"
proof -
  let ?msg = "\<lparr>rm_type = ''message'', rm_data = ''x''\<rparr>"
  obtain sent m' where run: "deliver (\<lambda>_. Some sample_event) sorted_list_of_set (\<lambda>_. Sent) ?msg two_sockets = (sent, m')"
    by (meson surj_pair)
  have iter: "finite S \<Longrightarrow> set (sorted_list_of_set S) = S \<and> distinct (sorted_list_of_set S)" for S :: "nat set" by simp
  have c: "rl_client_id sample_event = 1" by (simp add: sample_event_def)
  have socks: "sockets two_sockets 1 = {7}" by (simp add: two_sockets_def connect_sockets)
  from delivery_exact [OF two_sockets_ok iter _ _ run] c socks
  have sent: "set sent = {(7, sample_event)}" "connection_count m' 1 = length sent" "distinct sent" by auto
  have "length sent = card (set sent)" using sent(3) by (simp add: distinct_card)
  with sent(1,2) run show ?thesis by auto
qed

end
