(* ===== verification/Membership_Links.thy ===== *)
theory Membership_Links
  imports Geofence_Evaluation Device_Assignment
begin

text \<open>
  Who is in which geofence rests on three link tables: assets to geofences, groups to geofences,
  assets to groups.  This theory gives what the two services that edit them share: the unique
  indexes of the tables, the removal of states, and the contract of a link table - a row links
  a pair while it is live - with the effect of adding, dropping and reviving rows.
\<close>

subsection \<open>The unique indexes\<close>

definition partial_unique :: "('r \<Rightarrow> 'k) \<Rightarrow> ('r \<Rightarrow> bool) \<Rightarrow> 'r list \<Rightarrow> bool" where
  "partial_unique k P rows \<longleftrightarrow> distinct (map k (filter P rows))"

definition assignment_live :: "geofence_assignment \<Rightarrow> bool" where
  "assignment_live x \<longleftrightarrow> ga_deleted x = CHR ''N'' \<and> ga_active x"

definition member_live :: "group_member \<Rightarrow> bool" where
  "member_live x \<longleftrightarrow> agm_deleted x = CHR ''N''"

definition fence_group_live :: "fence_group \<Rightarrow> bool" where
  "fence_group_live x \<longleftrightarrow> gg_deleted x = CHR ''N'' \<and> gg_active x"

definition fence_constraints :: "tlrs_db \<Rightarrow> bool" where
  "fence_constraints db \<longleftrightarrow>
     partial_unique (\<lambda>x. (gf_client_id x, gf_name x)) (\<lambda>x. gf_deleted x = CHR ''N'') (db_geofences db) \<and>
     partial_unique (\<lambda>x. (ga_fence_id x, ga_asset_id x)) assignment_live (db_geofence_assignments db) \<and>
     partial_unique (\<lambda>x. (ag_client_id x, ag_name x)) (\<lambda>x. ag_deleted x = CHR ''N'') (db_asset_groups db) \<and>
     partial_unique (\<lambda>x. (agm_group_id x, agm_asset_id x)) member_live (db_group_members db) \<and>
     partial_unique (\<lambda>x. (gg_geofence_id x, gg_group_id x)) fence_group_live (db_fence_groups db)"

definition commit_fences :: "tlrs_db \<Rightarrow> (py_exc, tlrs_db) res" where
  "commit_fences db = (if fence_constraints db then Inr db else Inl (Integrity_Error ''geofences''))"

subsection \<open>Removal of states\<close>

text \<open>
  The queries of the clean-up run before the pending changes are flushed: they see the stored
  rows.  A pair occurs once, so the order of the pairs does not matter.
\<close>

definition build_membership_pairs :: "nat list \<Rightarrow> nat list \<Rightarrow> (nat \<times> nat) list" where
  "build_membership_pairs geofence_ids asset_ids = remdups [(g, a). g \<leftarrow> geofence_ids, a \<leftarrow> asset_ids]"

definition cleanup_effective_states :: "(nat \<times> nat) list \<Rightarrow> tlrs_db \<Rightarrow> tlrs_db" where
  "cleanup_effective_states pairs db = fold (\<lambda>(g, a) d. snd (delete_state_if_unassigned g a d)) pairs db"

text \<open>The rows of \<open>add_all\<close>: new keys in the order of the objects, \<open>mk\<close> gets the index of the object.\<close>

fun add_rows :: "('r \<Rightarrow> nat) \<Rightarrow> (nat \<Rightarrow> nat \<Rightarrow> 'a \<Rightarrow> 'r) \<Rightarrow> nat \<Rightarrow> 'a list \<Rightarrow> 'r list \<Rightarrow> 'r list" where
  "add_rows key mk n [] rows = rows"
| "add_rows key mk n (x # xs) rows = add_rows key mk (Suc n) xs (rows @ [mk n (fresh key rows) x])"

text \<open>New rows, with the column defaults of the models, and rows that are ended at a time.\<close>

definition new_fence_assignment :: "int \<Rightarrow> nat \<Rightarrow> nat \<times> nat \<Rightarrow> geofence_assignment" where
  "new_fence_assignment t i p = \<lparr>ga_id = i, ga_asset_id = snd p, ga_fence_id = fst p, ga_active = True, ga_deleted = CHR ''N'',
     ga_assigned_at = t, ga_unassigned_at = None, ga_created_at = t, ga_updated_at = t\<rparr>"

definition end_fence_assignment :: "int \<Rightarrow> geofence_assignment \<Rightarrow> geofence_assignment" where
  "end_fence_assignment t x = x\<lparr>ga_active := False, ga_unassigned_at := Some t, ga_updated_at := t\<rparr>"

definition new_group_member :: "int \<Rightarrow> nat \<Rightarrow> nat \<times> nat \<Rightarrow> group_member" where
  "new_group_member t i p = \<lparr>agm_id = i, agm_group_id = fst p, agm_asset_id = snd p, agm_deleted = CHR ''N'', agm_created_at = t\<rparr>"

definition end_group_member :: "int \<Rightarrow> group_member \<Rightarrow> group_member" where
  "end_group_member t x = x\<lparr>agm_deleted := CHR ''Y''\<rparr>"

definition new_fence_group :: "int \<Rightarrow> nat \<Rightarrow> nat \<times> nat \<Rightarrow> fence_group" where
  "new_fence_group t i p = \<lparr>gg_id = i, gg_geofence_id = fst p, gg_group_id = snd p, gg_active = True, gg_deleted = CHR ''N'',
     gg_assigned_at = t, gg_unassigned_at = None, gg_created_at = t, gg_updated_at = t\<rparr>"

definition end_fence_group :: "int \<Rightarrow> fence_group \<Rightarrow> fence_group" where
  "end_fence_group t x = x\<lparr>gg_active := False, gg_unassigned_at := Some t, gg_updated_at := t\<rparr>"

subsection \<open>Link tables\<close>

locale linking_table =
  fixes key :: "'r \<Rightarrow> nat" and pair :: "'r \<Rightarrow> nat \<times> nat" and live :: "'r \<Rightarrow> bool"
    and mk :: "int \<Rightarrow> nat \<Rightarrow> nat \<times> nat \<Rightarrow> 'r" and end_of :: "int \<Rightarrow> 'r \<Rightarrow> 'r"
  assumes mk: "key (mk t i p) = i" "pair (mk t i p) = p" "live (mk t i p)"
    and end_of: "key (end_of t x) = key x" "\<not> live (end_of t x)"
begin

definition links :: "'r list \<Rightarrow> (nat \<times> nat) set" where
  "links rows = pair ` {x \<in> set rows. live x}"

lemma links_append [simp]: "links (xs @ ys) = links xs \<union> links ys"
  by (auto simp: links_def)

lemma links_Nil [simp]: "links [] = {}"
  by (simp add: links_def)

lemma links_one: "links [x] = (if live x then {pair x} else {})"
  by (auto simp: links_def)

lemma links_iff: "p \<in> links rows \<longleftrightarrow> (\<exists>x \<in> set rows. live x \<and> pair x = p)"
  by (auto simp: links_def)

text \<open>Adding a live row for each of a list of pairs.\<close>

lemma links_add_rows:
  "links (add_rows key (\<lambda>n i x. mk (stamp n) i (f x)) n xs rows) = links rows \<union> f ` set xs"
  by (induction xs arbitrary: n rows) (auto simp: links_one mk)

lemma keys_add_rows:
  "distinct (map key rows) \<Longrightarrow> distinct (map key (add_rows key (\<lambda>n i x. mk (stamp n) i (f x)) n xs rows))"
proof (induction xs arbitrary: n rows)
  case (Cons x xs)
  have "distinct (map key (rows @ [mk (stamp n) (fresh key rows) (f x)]))"
    using Cons.prems by (rule distinct_append_fresh) (simp add: mk)
  from Cons.IH [OF this] show ?case by simp
qed simp

text \<open>Ending the live rows that meet a condition on their pair.\<close>

lemma links_end:
  assumes "\<And>x. x \<in> set rows \<Longrightarrow> live x \<Longrightarrow> c x \<longleftrightarrow> Q (pair x)"
  shows "links (map (\<lambda>x. if live x \<and> c x then end_of t x else x) rows) = links rows - {p. Q p}"
  using assms end_of(2) by (force simp: links_def)

lemma keys_end: "map key (map (\<lambda>x. if c x then end_of t x else x) rows) = map key rows"
  by (simp add: end_of)

text \<open>Reviving a row.\<close>

lemma links_put:
  assumes "distinct (map key rows)" "x \<in> set rows" "key y = key x" "pair y = pair x" "live y"
  shows "links (put key y rows) = insert (pair x) (links rows)"
proof -
  have "set (put key y rows) = insert y (set rows - {x})" using assms(1-3) by (rule set_put)
  then have "{z \<in> set (put key y rows). live z} = insert y ({z \<in> set rows. live z} - {x})" using assms(5) by auto
  then have "links (put key y rows) = insert (pair x) (pair ` ({z \<in> set rows. live z} - {x}))"
    unfolding links_def by (simp only: image_insert assms(4))
  then show ?thesis by (auto simp: links_def)
qed

end

interpretation fence_assets: linking_table ga_id "\<lambda>x. (ga_fence_id x, ga_asset_id x)" assignment_live
  new_fence_assignment end_fence_assignment
  by unfold_locales (simp_all add: new_fence_assignment_def end_fence_assignment_def assignment_live_def)

interpretation group_assets: linking_table agm_id "\<lambda>x. (agm_group_id x, agm_asset_id x)" member_live
  new_group_member end_group_member
  by unfold_locales (simp_all add: new_group_member_def end_group_member_def member_live_def)

interpretation fence_groups: linking_table gg_id "\<lambda>x. (gg_geofence_id x, gg_group_id x)" fence_group_live
  new_fence_group end_fence_group
  by unfold_locales (simp_all add: new_fence_group_def end_fence_group_def fence_group_live_def)

subsection \<open>Membership from the links\<close>

definition live_fences :: "tlrs_db \<Rightarrow> nat set" where
  "live_fences db = gf_id ` {g \<in> set (db_geofences db). gf_active g \<and> gf_deleted g = CHR ''N''}"

definition live_groups :: "tlrs_db \<Rightarrow> nat set" where
  "live_groups db = ag_id ` {g \<in> set (db_asset_groups db). ag_active g \<and> ag_deleted g = CHR ''N''}"

definition live_assets :: "tlrs_db \<Rightarrow> nat set" where
  "live_assets db = a_id ` {a \<in> set (db_assets db). a_deleted a = CHR ''N''}"

definition fence_asset_links :: "tlrs_db \<Rightarrow> (nat \<times> nat) set" where
  "fence_asset_links db = fence_assets.links (db_geofence_assignments db)"
definition group_asset_links :: "tlrs_db \<Rightarrow> (nat \<times> nat) set" where
  "group_asset_links db = group_assets.links (db_group_members db)"
definition fence_group_links :: "tlrs_db \<Rightarrow> (nat \<times> nat) set" where
  "fence_group_links db = fence_groups.links (db_fence_groups db)"

lemma link_membership:
  "f \<in> live_fences db \<longleftrightarrow> (\<exists>gf \<in> set (db_geofences db). gf_id gf = f \<and> gf_active gf \<and> gf_deleted gf = CHR ''N'')"
  "g \<in> live_groups db \<longleftrightarrow> (\<exists>ag \<in> set (db_asset_groups db). ag_id ag = g \<and> ag_active ag \<and> ag_deleted ag = CHR ''N'')"
  "a \<in> live_assets db \<longleftrightarrow> (\<exists>x \<in> set (db_assets db). a_id x = a \<and> a_deleted x = CHR ''N'')"
  "(f, a) \<in> fence_asset_links db \<longleftrightarrow>
     (\<exists>ga \<in> set (db_geofence_assignments db). ga_fence_id ga = f \<and> ga_asset_id ga = a \<and> ga_active ga \<and> ga_deleted ga = CHR ''N'')"
  "(f, g) \<in> fence_group_links db \<longleftrightarrow>
     (\<exists>gg \<in> set (db_fence_groups db). gg_geofence_id gg = f \<and> gg_group_id gg = g \<and> gg_active gg \<and> gg_deleted gg = CHR ''N'')"
  "(g, a) \<in> group_asset_links db \<longleftrightarrow>
     (\<exists>m \<in> set (db_group_members db). agm_group_id m = g \<and> agm_asset_id m = a \<and> agm_deleted m = CHR ''N'')"
  unfolding live_fences_def live_groups_def live_assets_def fence_asset_links_def fence_group_links_def group_asset_links_def
    fence_assets.links_iff fence_groups.links_iff group_assets.links_iff assignment_live_def member_live_def fence_group_live_def
  by auto

lemma effective_from_links:
  "has_effective_assignment db f a \<longleftrightarrow> f \<in> live_fences db \<and> a \<in> live_assets db \<and>
     ((f, a) \<in> fence_asset_links db \<or> (\<exists>g \<in> live_groups db. (f, g) \<in> fence_group_links db \<and> (g, a) \<in> group_asset_links db))"
proof -
  have "(\<exists>g \<in> live_groups db. (f, g) \<in> fence_group_links db \<and> (g, a) \<in> group_asset_links db) \<longleftrightarrow>
      (\<exists>gg \<in> set (db_fence_groups db). gg_geofence_id gg = f \<and> gg_active gg \<and> gg_deleted gg = CHR ''N'' \<and>
        gg_group_id gg \<in> live_groups db \<and> (gg_group_id gg, a) \<in> group_asset_links db)"
    unfolding link_membership(5) by blast
  then show ?thesis
    unfolding has_effective_assignment_def effective_memberships_def set_remdups set_append Un_iff direct_iff group_iff
      link_membership(1-4,6) by blast
qed

text \<open>A state of a pair that is effective in the database the clean-up sees is never deleted.\<close>

lemma delete_state_base: "same_base db (snd (delete_state_if_unassigned g a db))"
  by (simp add: delete_state_if_unassigned_def same_base_def split: option.split)

lemma effective_same_base: "same_base db db' \<Longrightarrow> has_effective_assignment db' f a = has_effective_assignment db f a"
  unfolding has_effective_assignment_def effective_memberships_def direct_memberships_def group_memberships_def same_base_def
  by simp

lemma find_member: "find P xs = Some x \<Longrightarrow> x \<in> set xs \<and> P x"
  by (induction xs) (auto split: if_splits)

lemma find_filter: "\<forall>x \<in> set xs. P x \<longrightarrow> Q x \<Longrightarrow> find P (filter Q xs) = find P xs"
  by (induction xs) auto

lemma delete_state_keeps:
  assumes "has_effective_assignment db f a" "distinct (map gs_id (db_asset_states db))"
  shows "find_state (snd (delete_state_if_unassigned g b db)) f a = find_state db f a"
proof (cases "(g, b) = (f, a)")
  case True
  with assms(1) show ?thesis by (simp add: delete_state_if_unassigned_def)
next
  case other: False
  show ?thesis
  proof (cases "has_effective_assignment db g b \<or> find_state db g b = None")
    case True
    then show ?thesis by (auto simp: delete_state_if_unassigned_def)
  next
    case False
    then obtain s where s: "find_state db g b = Some s" by blast
    note found = find_state_Some [OF s]
    have "\<forall>x \<in> set (db_asset_states db). gs_fence_id x = f \<and> gs_asset_id x = a \<longrightarrow> gs_id x \<noteq> gs_id s"
    proof (intro ballI impI notI)
      fix x assume x: "x \<in> set (db_asset_states db)" "gs_fence_id x = f \<and> gs_asset_id x = a" "gs_id x = gs_id s"
      then have "x = s" using found by (intro same_key_same_row [OF assms(2)]) simp_all
      with x(2) found other show False by simp
    qed
    then have "find_state (db\<lparr>db_asset_states := filter (\<lambda>r. gs_id r \<noteq> gs_id s) (db_asset_states db)\<rparr>) f a = find_state db f a"
      unfolding find_state_def by (simp add: find_filter)
    with False s show ?thesis by (simp add: delete_state_if_unassigned_def)
  qed
qed

lemma delete_state_distinct:
  "distinct (map gs_id (db_asset_states db)) \<Longrightarrow> distinct (map gs_id (db_asset_states (snd (delete_state_if_unassigned g b db))))"
  by (auto simp: delete_state_if_unassigned_def distinct_map_filter split: option.split)

lemma cleanup_frame:
  "cleanup_effective_states pairs db = db\<lparr>db_asset_states := db_asset_states (cleanup_effective_states pairs db)\<rparr>"
proof (induction pairs arbitrary: db)
  case (Cons p pairs)
  obtain g a where p: "p = (g, a)" by (cases p)
  let ?db = "snd (delete_state_if_unassigned g a db)"
  have "?db = db\<lparr>db_asset_states := db_asset_states ?db\<rparr>"
    by (simp add: delete_state_if_unassigned_def split: option.split)
  then have "cleanup_effective_states pairs ?db = db\<lparr>db_asset_states := db_asset_states (cleanup_effective_states pairs ?db)\<rparr>"
    using Cons.IH [of ?db] by (metis tlrs_db.surjective tlrs_db.update_convs(8))
  then show ?case by (simp add: cleanup_effective_states_def p)
qed (simp add: cleanup_effective_states_def)

lemma cleanup_base: "same_base db (cleanup_effective_states pairs db)"
proof (induction pairs arbitrary: db)
  case (Cons p pairs)
  obtain g a where p: "p = (g, a)" by (cases p)
  have "same_base db (snd (delete_state_if_unassigned g a db))" by (rule delete_state_base)
  from same_base_trans [OF this Cons.IH] show ?case by (simp add: cleanup_effective_states_def p)
qed (simp add: cleanup_effective_states_def)

lemma cleanup_keeps_state:
  assumes "has_effective_assignment db f a" "distinct (map gs_id (db_asset_states db))"
  shows "find_state (cleanup_effective_states pairs db) f a = find_state db f a"
  using assms
proof (induction pairs arbitrary: db)
  case (Cons p pairs)
  obtain g b where p: "p = (g, b)" by (cases p)
  let ?db = "snd (delete_state_if_unassigned g b db)"
  have "has_effective_assignment ?db f a" using Cons.prems(1) effective_same_base [OF delete_state_base] by simp
  from Cons.IH [OF this delete_state_distinct [OF Cons.prems(2)]] delete_state_keeps [OF Cons.prems] show ?case
    by (simp add: cleanup_effective_states_def p)
qed (simp add: cleanup_effective_states_def)

end
