(* ===== verification/Asset_Groups.thy ===== *)
theory Asset_Groups
  imports Membership_Links "HOL-Library.Sublist"
begin

text \<open>
  Asset groups, \<open>src/service/asset_group_service.py\<close>: groups of assets of one client, their
  members and the geofences they are assigned to.  The clock is read once per call, and
  \<open>stamp\<close> gives the defaults of the time columns of the rows of a call.  A call that raises
  leaves the database as it was.
\<close>

datatype group_error = Group_Not_Found string | Group_Conflict string
  | Group_Validation string "nat list" "nat list" | Group_Db py_exc

definition group_commit :: "tlrs_db \<Rightarrow> (group_error, tlrs_db) res" where
  "group_commit db = (case commit_fences db of Inl e \<Rightarrow> Inl (Group_Db e) | Inr db' \<Rightarrow> Inr db')"

subsection \<open>Queries\<close>

definition get_asset_group_model_for_client :: "tlrs_db \<Rightarrow> nat \<Rightarrow> nat \<Rightarrow> asset_group option" where
  "get_asset_group_model_for_client db asset_group_id client_id =
     find (\<lambda>g. ag_id g = asset_group_id \<and> ag_client_id g = client_id \<and> ag_deleted g = CHR ''N'') (db_asset_groups db)"

definition get_geofence_for_client :: "tlrs_db \<Rightarrow> nat \<Rightarrow> nat \<Rightarrow> geofence option" where
  "get_geofence_for_client db geofence_id client_id =
     find (\<lambda>g. gf_id g = geofence_id \<and> gf_client_id g = client_id \<and> gf_deleted g = CHR ''N'') (db_geofences db)"

definition client_assets :: "tlrs_db \<Rightarrow> nat \<Rightarrow> nat set" where
  "client_assets db client_id = a_id ` {a \<in> set (db_assets db). a_client_id a = Some client_id \<and> a_deleted a = CHR ''N''}"

definition validate_asset_ids_for_client :: "tlrs_db \<Rightarrow> nat \<Rightarrow> nat list \<Rightarrow> (group_error, unit) res" where
  "validate_asset_ids_for_client db client_id asset_ids =
     (if asset_ids = [] then Inr ()
      else (let missing = filter (\<lambda>i. i \<notin> client_assets db client_id) asset_ids
            in if missing \<noteq> [] then Inl (Group_Validation ''One or more assets were not found for this client.'' missing [])
               else Inr ()))"

definition validate_asset_group_ids_for_client :: "tlrs_db \<Rightarrow> nat \<Rightarrow> nat list \<Rightarrow> bool \<Rightarrow> (group_error, unit) res" where
  "validate_asset_group_ids_for_client db client_id asset_group_ids require_active =
     (if asset_group_ids = [] then Inr ()
      else
        (let groups = filter (\<lambda>g. ag_id g \<in> set asset_group_ids \<and> ag_client_id g = client_id \<and> ag_deleted g = CHR ''N'') (db_asset_groups db);
             missing = filter (\<lambda>i. i \<notin> ag_id ` set groups) asset_group_ids
         in if missing \<noteq> [] then Inl (Group_Validation ''One or more asset groups were not found for this client.'' [] missing)
            else if require_active \<and> list_ex (\<lambda>g. \<not> ag_active g) groups
              then Inl (Group_Conflict ''Inactive asset groups cannot be assigned to geofences.'')
            else Inr ()))"

definition get_active_asset_ids_for_group :: "tlrs_db \<Rightarrow> nat \<Rightarrow> nat list" where
  "get_active_asset_ids_for_group db asset_group_id =
     sort [a_id a. m \<leftarrow> db_group_members db, agm_group_id m = asset_group_id \<and> agm_deleted m = CHR ''N'',
       a \<leftarrow> db_assets db, a_id a = agm_asset_id m \<and> a_deleted a = CHR ''N'']"

definition get_active_geofence_ids_for_group :: "tlrs_db \<Rightarrow> nat \<Rightarrow> nat list" where
  "get_active_geofence_ids_for_group db asset_group_id =
     sort (map gg_geofence_id (filter (\<lambda>x. gg_group_id x = asset_group_id \<and> fence_group_live x) (db_fence_groups db)))"

subsection \<open>What the calls answer\<close>

record group_summary =
  sum_id :: nat
  sum_client_id :: nat
  sum_name :: string
  sum_description :: "string option"
  sum_active :: bool
  sum_total_assets :: nat
  sum_created_at :: int
  sum_updated_at :: int

record member_read =
  mr_asset_id :: nat
  mr_asset_type :: string
  mr_asset_serial :: string
  mr_device :: "(nat \<times> string \<times> string \<times> bool \<times> device_state) option"

record assigned_fence =
  af_id :: nat
  af_geofence_id :: nat
  af_name :: string
  af_description :: "string option"
  af_fence_active :: bool
  af_active :: bool
  af_assigned_at :: int
  af_unassigned_at :: "int option"

record group_detail =
  gd_summary :: group_summary
  gd_members :: "member_read list"
  gd_geofences :: "assigned_fence list"

definition asset_group_summary :: "tlrs_db \<Rightarrow> asset_group \<Rightarrow> group_summary" where
  "asset_group_summary db g =
     \<lparr>sum_id = ag_id g, sum_client_id = ag_client_id g, sum_name = ag_name g, sum_description = ag_description g,
      sum_active = ag_active g, sum_total_assets = length (get_active_asset_ids_for_group db (ag_id g)),
      sum_created_at = ag_created_at g, sum_updated_at = ag_updated_at g\<rparr>"

text \<open>An outer join: the asset once for every live device tracking it, or once without one.\<close>

definition get_asset_group_members :: "tlrs_db \<Rightarrow> nat \<Rightarrow> member_read list" where
  "get_asset_group_members db asset_group_id =
     sort_key mr_asset_id [\<lparr>mr_asset_id = a_id a, mr_asset_type = a_type a, mr_asset_serial = a_serial a, mr_device = d\<rparr>.
       m \<leftarrow> db_group_members db, agm_group_id m = asset_group_id \<and> agm_deleted m = CHR ''N'',
       a \<leftarrow> db_assets db, a_id a = agm_asset_id m \<and> a_deleted a = CHR ''N'',
       d \<leftarrow> (case filter (\<lambda>d. d_asset_id d = Some (a_id a) \<and> d_deleted d = CHR ''N'') (db_devices db) of
               [] \<Rightarrow> [None]
             | ds \<Rightarrow> map (\<lambda>d. Some (d_id d, d_serial d, d_name d, d_active d, d_state d)) ds)]"

text \<open>By group, the latest assignment first.\<close>

definition get_geofence_assignments_for_group :: "tlrs_db \<Rightarrow> nat \<Rightarrow> assigned_fence list" where
  "get_geofence_assignments_for_group db asset_group_id =
     sort_key (\<lambda>x. - af_assigned_at x)
       [\<lparr>af_id = gg_id x, af_geofence_id = gg_geofence_id x, af_name = gf_name f, af_description = gf_description f,
         af_fence_active = gf_active f, af_active = gg_active x, af_assigned_at = gg_assigned_at x,
         af_unassigned_at = gg_unassigned_at x\<rparr>.
        x \<leftarrow> db_fence_groups db, gg_group_id x = asset_group_id \<and> fence_group_live x,
        f \<leftarrow> db_geofences db, gf_id f = gg_geofence_id x \<and> gf_deleted f = CHR ''N'']"

definition get_asset_group_detail_for_client :: "tlrs_db \<Rightarrow> nat \<Rightarrow> nat \<Rightarrow> group_detail option" where
  "get_asset_group_detail_for_client db asset_group_id client_id =
     map_option (\<lambda>g. \<lparr>gd_summary = asset_group_summary db g, gd_members = get_asset_group_members db asset_group_id,
       gd_geofences = get_geofence_assignments_for_group db asset_group_id\<rparr>)
       (get_asset_group_model_for_client db asset_group_id client_id)"

text \<open>\<open>LIKE\<close> with its wildcards and the escape character of PostgreSQL; \<open>ILIKE\<close> ignores case.\<close>

fun sql_like :: "string \<Rightarrow> string \<Rightarrow> bool" where
  "sql_like [] s \<longleftrightarrow> s = []"
| "sql_like (p # ps) [] \<longleftrightarrow> p = CHR ''%'' \<and> sql_like ps []"
| "sql_like (p # ps) (c # s) \<longleftrightarrow>
     (if p = CHR ''%'' then sql_like ps (c # s) \<or> sql_like (p # ps) s
      else if p = CHR ''_'' then sql_like ps s
      else if p = CHR 0x5C then (case ps of [] \<Rightarrow> False | q # qs \<Rightarrow> q = c \<and> sql_like qs s)
      else p = c \<and> sql_like ps s)"

definition sql_ilike :: "string \<Rightarrow> string \<Rightarrow> bool" where
  "sql_ilike pat s = sql_like (py_lower pat) (py_lower s)"

definition matches_search :: "string option \<Rightarrow> asset_group \<Rightarrow> bool" where
  "matches_search search g \<longleftrightarrow>
     (case search of
        None \<Rightarrow> True
      | Some s \<Rightarrow> s = [] \<or>
          (let term = ''%'' @ py_strip s @ ''%''
           in sql_ilike term (ag_name g) \<or> (case ag_description g of None \<Rightarrow> False | Some x \<Rightarrow> sql_ilike term x)))"

definition get_asset_groups_by_client_id ::
  "tlrs_db \<Rightarrow> nat \<Rightarrow> bool option \<Rightarrow> nat \<Rightarrow> nat \<Rightarrow> string option \<Rightarrow> (group_summary \<times> assigned_fence list) list" where
  "get_asset_groups_by_client_id db client_id active skip limit search =
     map (\<lambda>g. (asset_group_summary db g, get_geofence_assignments_for_group db (ag_id g)))
       (take limit (drop skip (sort_key (\<lambda>g. - ag_created_at g)
         (filter (\<lambda>g. ag_client_id g = client_id \<and> ag_deleted g = CHR ''N'' \<and>
            (case active of None \<Rightarrow> True | Some b \<Rightarrow> ag_active g = b) \<and> matches_search search g) (db_asset_groups db)))))"

subsection \<open>Members\<close>

text \<open>The dictionary of the existing members keeps the last row of an asset.\<close>

definition member_by_asset :: "group_member list \<Rightarrow> nat \<Rightarrow> group_member option" where
  "member_by_asset members asset_id = find (\<lambda>m. agm_asset_id m = asset_id) (rev members)"

fun upsert_members ::
  "(nat \<Rightarrow> int) \<Rightarrow> nat \<Rightarrow> group_member list \<Rightarrow> nat \<Rightarrow> nat list \<Rightarrow> group_member list \<Rightarrow> group_member list" where
  "upsert_members stamp group_id existing n [] rows = rows"
| "upsert_members stamp group_id existing n (asset_id # asset_ids) rows =
     upsert_members stamp group_id existing (Suc n) asset_ids
       (case member_by_asset existing asset_id of
          None \<Rightarrow> rows @ [new_group_member (stamp n) (fresh agm_id rows) (group_id, asset_id)]
        | Some m \<Rightarrow> if agm_deleted m = CHR ''Y'' then put agm_id (m\<lparr>agm_deleted := CHR ''N''\<rparr>) rows else rows)"

definition create_asset_group ::
  "(nat \<Rightarrow> int) \<Rightarrow> nat \<Rightarrow> string \<Rightarrow> string option \<Rightarrow> nat list option \<Rightarrow> (tlrs_db, group_error, group_detail option) act" where
  "create_asset_group stamp client_id name description asset_ids = transact (\<lambda>db.
     let ids = (case asset_ids of None \<Rightarrow> [] | Some l \<Rightarrow> l)
     in bindE (validate_asset_ids_for_client db client_id ids) (\<lambda>_.
        let g = \<lparr>ag_id = fresh ag_id (db_asset_groups db), ag_client_id = client_id, ag_name = name, ag_description = description,
              ag_active = True, ag_deleted = CHR ''N'', ag_created_at = stamp 0, ag_updated_at = stamp 0\<rparr>
        in bindE (group_commit (db\<lparr>db_asset_groups := db_asset_groups db @ [g],
             db_group_members := add_rows agm_id (\<lambda>n i a. new_group_member (stamp (Suc n)) i (ag_id g, a)) 0 ids (db_group_members db)\<rparr>))
           (\<lambda>db'. Inr (get_asset_group_detail_for_client db' (ag_id g) client_id, db'))))"

definition add_members ::
  "(nat \<Rightarrow> int) \<Rightarrow> nat \<Rightarrow> nat \<Rightarrow> nat list \<Rightarrow> (tlrs_db, group_error, group_detail option) act" where
  "add_members stamp asset_group_id client_id asset_ids = transact (\<lambda>db.
     case get_asset_group_model_for_client db asset_group_id client_id of
       None \<Rightarrow> Inl (Group_Not_Found ''Asset group not found.'')
     | Some g \<Rightarrow>
         bindE (validate_asset_ids_for_client db client_id asset_ids) (\<lambda>_.
           let existing = filter (\<lambda>m. agm_group_id m = asset_group_id \<and> agm_asset_id m \<in> set asset_ids) (db_group_members db)
           in bindE (group_commit (db\<lparr>db_group_members :=
                upsert_members stamp asset_group_id existing 0 asset_ids (db_group_members db)\<rparr>))
              (\<lambda>db'. Inr (get_asset_group_detail_for_client db' asset_group_id client_id, db'))))"

definition remove_members ::
  "int \<Rightarrow> nat \<Rightarrow> nat \<Rightarrow> nat list \<Rightarrow> (tlrs_db, group_error, group_detail option) act" where
  "remove_members now asset_group_id client_id asset_ids = transact (\<lambda>db.
     case get_asset_group_model_for_client db asset_group_id client_id of
       None \<Rightarrow> Inl (Group_Not_Found ''Asset group not found.'')
     | Some g \<Rightarrow>
         (let removed = (\<lambda>m. agm_group_id m = asset_group_id \<and> agm_asset_id m \<in> set asset_ids);
              pairs = build_membership_pairs (get_active_geofence_ids_for_group db asset_group_id)
                (map agm_asset_id (filter (\<lambda>m. member_live m \<and> removed m) (db_group_members db)));
              db1 = cleanup_effective_states pairs db
          in bindE (group_commit (db1\<lparr>db_group_members :=
               map (\<lambda>m. if member_live m \<and> removed m then end_group_member now m else m) (db_group_members db)\<rparr>))
             (\<lambda>db'. Inr (get_asset_group_detail_for_client db' asset_group_id client_id, db'))))"

text \<open>The pending rows and the clean-up of \<open>_replace_members\<close>; the caller commits.\<close>

definition replace_members ::
  "(nat \<Rightarrow> int) \<Rightarrow> int \<Rightarrow> nat \<Rightarrow> nat \<Rightarrow> nat list \<Rightarrow> tlrs_db \<Rightarrow> (group_error, tlrs_db) res" where
  "replace_members stamp now asset_group_id client_id asset_ids db =
     bindE (validate_asset_ids_for_client db client_id asset_ids) (\<lambda>_.
       let members = filter (\<lambda>m. agm_group_id m = asset_group_id) (db_group_members db);
           removed = (\<lambda>m. agm_group_id m = asset_group_id \<and> agm_asset_id m \<notin> set asset_ids);
           pairs = build_membership_pairs (get_active_geofence_ids_for_group db asset_group_id)
             (map agm_asset_id (filter (\<lambda>m. member_live m \<and> removed m) members));
           db1 = cleanup_effective_states pairs db;
           ended = map (\<lambda>m. if member_live m \<and> removed m then end_group_member now m else m) (db_group_members db)
       in Inr (db1\<lparr>db_group_members := upsert_members stamp asset_group_id members 0 asset_ids ended\<rparr>))"

subsection \<open>Groups\<close>

record group_update =
  gu_name :: "string option option"
  gu_description :: "string option option"
  gu_asset_ids :: "nat list option"

text \<open>A row that an assignment changed gets its \<open>updated_at\<close> when it is flushed.\<close>

definition touched :: "int \<Rightarrow> asset_group \<Rightarrow> asset_group \<Rightarrow> asset_group" where
  "touched now old new = (if new = old then old else new\<lparr>ag_updated_at := now\<rparr>)"

definition apply_group_update :: "group_update \<Rightarrow> asset_group \<Rightarrow> asset_group" where
  "apply_group_update u g =
     (let g1 = (case gu_name u of Some (Some n) \<Rightarrow> g\<lparr>ag_name := n\<rparr> | _ \<Rightarrow> g)
      in (case gu_description u of None \<Rightarrow> g1 | Some x \<Rightarrow> g1\<lparr>ag_description := x\<rparr>))"

definition update_asset_group ::
  "(nat \<Rightarrow> int) \<Rightarrow> int \<Rightarrow> nat \<Rightarrow> nat \<Rightarrow> group_update \<Rightarrow> (tlrs_db, group_error, group_detail option) act" where
  "update_asset_group stamp now asset_group_id client_id u = transact (\<lambda>db.
     case get_asset_group_model_for_client db asset_group_id client_id of
       None \<Rightarrow> Inr (None, db)
     | Some g \<Rightarrow>
         bindE (case gu_asset_ids u of None \<Rightarrow> Inr db | Some ids \<Rightarrow> replace_members stamp now asset_group_id client_id ids db) (\<lambda>db1.
           if gu_name u = Some None then Inl (Group_Db (Integrity_Error ''asset_groups.name''))
           else bindE (group_commit (db1\<lparr>db_asset_groups := put ag_id (touched now g (apply_group_update u g)) (db_asset_groups db)\<rparr>))
             (\<lambda>db'. Inr (get_asset_group_detail_for_client db' asset_group_id client_id, db'))))"

definition set_asset_group_active ::
  "int \<Rightarrow> nat \<Rightarrow> nat \<Rightarrow> bool \<Rightarrow> (tlrs_db, group_error, group_detail option) act" where
  "set_asset_group_active now asset_group_id client_id active = transact (\<lambda>db.
     case get_asset_group_model_for_client db asset_group_id client_id of
       None \<Rightarrow> Inr (None, db)
     | Some g \<Rightarrow>
         (let pairs = (if ag_active g \<and> \<not> active
                then build_membership_pairs (get_active_geofence_ids_for_group db asset_group_id)
                  (get_active_asset_ids_for_group db asset_group_id)
                else []);
              db1 = cleanup_effective_states pairs db
          in bindE (group_commit (db1\<lparr>db_asset_groups := put ag_id (touched now g (g\<lparr>ag_active := active\<rparr>)) (db_asset_groups db)\<rparr>))
             (\<lambda>db'. Inr (get_asset_group_detail_for_client db' asset_group_id client_id, db'))))"

subsection \<open>Groups in geofences\<close>

definition assign_groups_to_geofence ::
  "(nat \<Rightarrow> int) \<Rightarrow> nat \<Rightarrow> nat \<Rightarrow> nat list \<Rightarrow> (tlrs_db, group_error, fence_group list) act" where
  "assign_groups_to_geofence stamp geofence_id client_id asset_group_ids = transact (\<lambda>db.
     case get_geofence_for_client db geofence_id client_id of
       None \<Rightarrow> Inl (Group_Not_Found ''Geofence not found.'')
     | Some f \<Rightarrow>
         bindE (validate_asset_group_ids_for_client db client_id asset_group_ids True) (\<lambda>_.
           let existing = filter (\<lambda>x. gg_geofence_id x = geofence_id \<and> gg_group_id x \<in> set asset_group_ids \<and> fence_group_live x)
                 (db_fence_groups db);
               new = filter (\<lambda>i. i \<notin> gg_group_id ` set existing) asset_group_ids;
               rows = add_rows gg_id (\<lambda>n i g. new_fence_group (stamp n) i (geofence_id, g)) 0 new (db_fence_groups db)
           in bindE (group_commit (db\<lparr>db_fence_groups := rows\<rparr>)) (\<lambda>db'.
                Inr (map (\<lambda>i. the (find (\<lambda>x. gg_group_id x = i) (rev (existing @ drop (length (db_fence_groups db)) rows)))) asset_group_ids, db'))))"

definition remove_groups_from_geofence ::
  "int \<Rightarrow> nat \<Rightarrow> nat \<Rightarrow> nat list \<Rightarrow> (tlrs_db, group_error, fence_group list) act" where
  "remove_groups_from_geofence now geofence_id client_id asset_group_ids = transact (\<lambda>db.
     case get_geofence_for_client db geofence_id client_id of
       None \<Rightarrow> Inl (Group_Not_Found ''Geofence not found.'')
     | Some f \<Rightarrow>
         (let removed = (\<lambda>x. gg_geofence_id x = geofence_id \<and> gg_group_id x \<in> set asset_group_ids);
              found = filter (\<lambda>x. fence_group_live x \<and> removed x) (db_fence_groups db);
              pairs = remdups (concat (map (\<lambda>x. build_membership_pairs [geofence_id] (get_active_asset_ids_for_group db (gg_group_id x))) found));
              db1 = cleanup_effective_states pairs db
          in bindE (group_commit (db1\<lparr>db_fence_groups :=
               map (\<lambda>x. if fence_group_live x \<and> removed x then end_fence_group now x else x) (db_fence_groups db)\<rparr>))
             (\<lambda>db'. Inr (map (end_fence_group now) found, db'))))"

definition get_geofence_asset_group_assignments :: "tlrs_db \<Rightarrow> nat \<Rightarrow> nat \<Rightarrow> fence_group list option" where
  "get_geofence_asset_group_assignments db geofence_id client_id =
     (case get_geofence_for_client db geofence_id client_id of
        None \<Rightarrow> None
      | Some f \<Rightarrow> Some (sort_key (\<lambda>x. - gg_assigned_at x)
          (filter (\<lambda>x. gg_geofence_id x = geofence_id \<and> gg_deleted x = CHR ''N'') (db_fence_groups db))))"

subsection \<open>The effect on the links\<close>

lemma transact_Inr: "transact body db = (Inr r, db') \<longleftrightarrow> body db = Inr (r, db')"
  by (auto simp: transact_def split: sum.splits prod.splits)

lemma group_commit_Inr: "group_commit db = Inr db' \<longleftrightarrow> db' = db \<and> fence_constraints db"
  by (auto simp: group_commit_def commit_fences_def)

lemma member_by_asset_Some: "member_by_asset members a = Some m \<Longrightarrow> m \<in> set members \<and> agm_asset_id m = a"
  unfolding member_by_asset_def find_Some_iff by (metis length_rev nth_mem set_rev)

lemma member_by_asset_None: "member_by_asset members a = None \<longleftrightarrow> a \<notin> agm_asset_id ` set members"
  by (auto simp: member_by_asset_def find_None_iff)

definition flagged :: "group_member list \<Rightarrow> bool" where
  "flagged rows \<longleftrightarrow> (\<forall>m \<in> set rows. agm_deleted m \<in> {CHR ''N'', CHR ''Y''})"

lemma flagged_append: "flagged (ms @ [m]) \<longleftrightarrow> flagged ms \<and> agm_deleted m \<in> {CHR ''N'', CHR ''Y''}"
  by (auto simp: flagged_def)

lemma upsert_members_spec:
  assumes "distinct ids" "distinct (map agm_id rows)" "flagged rows"
    and "\<forall>m \<in> set existing. agm_group_id m = g \<and> (agm_asset_id m \<in> set ids \<longrightarrow> m \<in> set rows)"
    and "rows' = upsert_members stamp g existing n ids rows"
  shows "group_assets.links rows' = group_assets.links rows \<union> {g} \<times> set ids \<and> distinct (map agm_id rows') \<and> flagged rows'"
  using assms
proof (induction ids arbitrary: n rows)
  case (Cons a ids)
  define rows1 where "rows1 = (case member_by_asset existing a of
      None \<Rightarrow> rows @ [new_group_member (stamp n) (fresh agm_id rows) (g, a)]
    | Some m \<Rightarrow> if agm_deleted m = CHR ''Y'' then put agm_id (m\<lparr>agm_deleted := CHR ''N''\<rparr>) rows else rows)"
  have rows': "rows' = upsert_members stamp g existing (Suc n) ids rows1" using Cons.prems(5) by (simp add: rows1_def)
  have one: "group_assets.links rows1 = insert (g, a) (group_assets.links rows) \<and> distinct (map agm_id rows1) \<and> flagged rows1 \<and>
      (\<forall>m \<in> set rows. agm_asset_id m \<noteq> a \<longrightarrow> m \<in> set rows1)"
  proof (cases "member_by_asset existing a")
    case None
    have "distinct (map agm_id rows1)"
      unfolding rows1_def None option.case using Cons.prems(2) by (rule distinct_append_fresh) (simp add: new_group_member_def)
    with None Cons.prems(3) show ?thesis
      by (auto simp: rows1_def group_assets.links_one group_assets.mk flagged_def new_group_member_def member_live_def)
  next
    case (Some m)
    note m = member_by_asset_Some [OF Some]
    have in_rows: "m \<in> set rows" "agm_group_id m = g" using m Cons.prems(4) by auto
    show ?thesis
    proof (cases "agm_deleted m = CHR ''Y''")
      case True
      let ?m = "m\<lparr>agm_deleted := CHR ''N''\<rparr>"
      have rows1: "rows1 = put agm_id ?m rows" by (simp add: rows1_def Some True)
      have "group_assets.links rows1 = insert (g, a) (group_assets.links rows)"
        using group_assets.links_put [OF Cons.prems(2) in_rows(1), of ?m] m in_rows by (simp add: rows1 member_live_def)
      moreover have "set rows1 = insert ?m (set rows - {m})" unfolding rows1 using Cons.prems(2) in_rows(1) by (rule set_put) simp
      ultimately show ?thesis using Cons.prems(2,3) m by (auto simp: rows1 flagged_def)
    next
      case False
      with Cons.prems(3) in_rows(1) have "member_live m" by (auto simp: flagged_def member_live_def)
      then have "(g, a) \<in> group_assets.links rows" using in_rows m by (auto simp: group_assets.links_iff)
      with False Some Cons.prems(2,3) show ?thesis by (auto simp: rows1_def)
    qed
  qed
  have "\<forall>m \<in> set existing. agm_group_id m = g \<and> (agm_asset_id m \<in> set ids \<longrightarrow> m \<in> set rows1)"
    using Cons.prems(1,4) one by auto
  from Cons.IH [OF _ _ _ this rows'] one Cons.prems(1) show ?case by auto
qed simp

subsection \<open>An abstract view\<close>

text \<open>
  What the evaluation reads of the groups: who is a member of which group, which group is in
  which geofence, which groups are live; and whose they are.
\<close>

definition group_clients :: "tlrs_db \<Rightarrow> (nat \<times> nat) set" where
  "group_clients db = (\<lambda>g. (ag_id g, ag_client_id g)) ` set (db_asset_groups db)"

record group_view =
  gv_members :: "(nat \<times> nat) set"
  gv_fences :: "(nat \<times> nat) set"
  gv_live :: "nat set"
  gv_clients :: "(nat \<times> nat) set"

definition view_of :: "tlrs_db \<Rightarrow> group_view" where
  "view_of db = \<lparr>gv_members = group_asset_links db, gv_fences = fence_group_links db, gv_live = live_groups db,
     gv_clients = group_clients db\<rparr>"

datatype group_op =
    Create nat string "string option" "nat list option"
  | Add nat nat "nat list"
  | Remove nat nat "nat list"
  | Update nat nat group_update
  | Activate nat nat bool
  | Assign nat nat "nat list"
  | Unassign nat nat "nat list"

text \<open>Whether the operation was carried out, and the database it leaves.\<close>

definition outcome :: "('e, 'a option) res \<times> tlrs_db \<Rightarrow> bool \<times> tlrs_db" where
  "outcome p = (case p of (Inr (Some _), db') \<Rightarrow> (True, db') | (_, db') \<Rightarrow> (False, db'))"

fun run_group_op :: "(nat \<Rightarrow> int) \<Rightarrow> int \<Rightarrow> group_op \<Rightarrow> tlrs_db \<Rightarrow> bool \<times> tlrs_db" where
  "run_group_op stamp now (Create c name description ids) db = outcome (create_asset_group stamp c name description ids db)"
| "run_group_op stamp now (Add g c ids) db = outcome (add_members stamp g c ids db)"
| "run_group_op stamp now (Remove g c ids) db = outcome (remove_members now g c ids db)"
| "run_group_op stamp now (Update g c u) db = outcome (update_asset_group stamp now g c u db)"
| "run_group_op stamp now (Activate g c b) db = outcome (set_asset_group_active now g c b db)"
| "run_group_op stamp now (Assign f c ids) db =
     (case assign_groups_to_geofence stamp f c ids db of (r, db') \<Rightarrow> (is_ok r, db'))"
| "run_group_op stamp now (Unassign f c ids) db =
     (case remove_groups_from_geofence now f c ids db of (r, db') \<Rightarrow> (is_ok r, db'))"

fun view_step :: "group_op \<Rightarrow> nat \<Rightarrow> group_view \<Rightarrow> group_view" where
  "view_step (Create c name description ids) new v =
     v\<lparr>gv_members := gv_members v \<union> {new} \<times> set (case ids of None \<Rightarrow> [] | Some l \<Rightarrow> l), gv_live := insert new (gv_live v),
       gv_clients := insert (new, c) (gv_clients v)\<rparr>"
| "view_step (Add g c ids) new v = v\<lparr>gv_members := gv_members v \<union> {g} \<times> set ids\<rparr>"
| "view_step (Remove g c ids) new v = v\<lparr>gv_members := gv_members v - {g} \<times> set ids\<rparr>"
| "view_step (Update g c u) new v = (case gu_asset_ids u of
     None \<Rightarrow> v | Some ids \<Rightarrow> v\<lparr>gv_members := {p \<in> gv_members v. fst p \<noteq> g} \<union> {g} \<times> set ids\<rparr>)"
| "view_step (Activate g c b) new v = v\<lparr>gv_live := (if b then insert g (gv_live v) else gv_live v - {g})\<rparr>"
| "view_step (Assign f c ids) new v = v\<lparr>gv_fences := gv_fences v \<union> {f} \<times> set ids\<rparr>"
| "view_step (Unassign f c ids) new v = v\<lparr>gv_fences := gv_fences v - {f} \<times> set ids\<rparr>"

text \<open>The request schemas refuse lists with duplicates.\<close>

fun distinct_ids :: "group_op \<Rightarrow> bool" where
  "distinct_ids (Create c name description ids) = (case ids of None \<Rightarrow> True | Some l \<Rightarrow> distinct l)"
| "distinct_ids (Add g c ids) = distinct ids"
| "distinct_ids (Remove g c ids) = distinct ids"
| "distinct_ids (Update g c u) = (case gu_asset_ids u of None \<Rightarrow> True | Some l \<Rightarrow> distinct l)"
| "distinct_ids (Activate g c b) = True"
| "distinct_ids (Assign f c ids) = distinct ids"
| "distinct_ids (Unassign f c ids) = distinct ids"

definition groups_ok :: "tlrs_db \<Rightarrow> bool" where
  "groups_ok db \<longleftrightarrow> distinct (map ag_id (db_asset_groups db)) \<and> distinct (map agm_id (db_group_members db)) \<and>
     distinct (map gg_id (db_fence_groups db)) \<and> flagged (db_group_members db)"

text \<open>The group tables and the states are all that an operation on groups writes.\<close>

definition group_frame :: "tlrs_db \<Rightarrow> tlrs_db \<Rightarrow> bool" where
  "group_frame db db' \<longleftrightarrow> db' = db\<lparr>db_asset_groups := db_asset_groups db', db_group_members := db_group_members db',
     db_fence_groups := db_fence_groups db', db_asset_states := db_asset_states db'\<rparr>"

lemma group_frame_base:
  assumes "group_frame db db'"
  shows "db_geofences db' = db_geofences db" "db_assets db' = db_assets db" "db_geofence_assignments db' = db_geofence_assignments db"
  using assms unfolding group_frame_def by (cases db; cases db'; simp)+

lemma cleanup_simps [simp]:
  "db_asset_groups (cleanup_effective_states ps db) = db_asset_groups db"
  "db_group_members (cleanup_effective_states ps db) = db_group_members db"
  "db_fence_groups (cleanup_effective_states ps db) = db_fence_groups db"
  "db_geofences (cleanup_effective_states ps db) = db_geofences db"
  "db_geofence_assignments (cleanup_effective_states ps db) = db_geofence_assignments db"
  "db_assets (cleanup_effective_states ps db) = db_assets db"
  using cleanup_base [of db ps] by (simp_all add: same_base_def)

lemma frame_writes:
  "group_frame db (db\<lparr>db_group_members := ms\<rparr>)"
  "group_frame db (db\<lparr>db_asset_groups := gs, db_group_members := ms\<rparr>)"
  "group_frame db (db\<lparr>db_asset_groups := gs\<rparr>)"
  "group_frame db (db\<lparr>db_fence_groups := fs\<rparr>)"
  "group_frame db (cleanup_effective_states ps db\<lparr>db_group_members := ms\<rparr>)"
  "group_frame db (cleanup_effective_states ps db\<lparr>db_group_members := ms, db_asset_groups := gs\<rparr>)"
  "group_frame db (cleanup_effective_states ps db\<lparr>db_asset_groups := gs\<rparr>)"
  "group_frame db (cleanup_effective_states ps db\<lparr>db_fence_groups := fs\<rparr>)"
  by (simp_all add: group_frame_def, (subst cleanup_frame, simp)+)

lemma view_simps:
  "group_asset_links (db\<lparr>db_group_members := ms\<rparr>) = group_assets.links ms"
  "fence_group_links (db\<lparr>db_fence_groups := fs\<rparr>) = fence_groups.links fs"
  by (simp_all add: group_asset_links_def fence_group_links_def)

lemma add_case:
  assumes "groups_ok db" "distinct ids" "add_members stamp g c ids db = (Inr (Some r), db')"
  shows "view_of db' = view_step (Add g c ids) new (view_of db) \<and> groups_ok db' \<and> group_frame db db'"
proof -
  define existing where "existing = filter (\<lambda>m. agm_group_id m = g \<and> agm_asset_id m \<in> set ids) (db_group_members db)"
  define rows where "rows = upsert_members stamp g existing 0 ids (db_group_members db)"
  have db': "db' = db\<lparr>db_group_members := rows\<rparr>"
    using assms(3) by (auto simp: add_members_def transact_Inr res_simps Let_def group_commit_Inr existing_def rows_def split: option.splits)
  have "group_assets.links rows = group_asset_links db \<union> {g} \<times> set ids \<and> distinct (map agm_id rows) \<and> flagged rows"
    unfolding group_asset_links_def
    by (rule upsert_members_spec [OF assms(2) _ _ _ rows_def]) (use assms(1) in \<open>auto simp: groups_ok_def existing_def\<close>)
  then show ?thesis using assms(1) frame_writes(1)
    by (simp add: db' view_of_def view_simps groups_ok_def fence_group_links_def live_groups_def group_clients_def)
qed

lemma end_members:
  assumes "groups_ok db" "\<And>m. P m \<longleftrightarrow> Q (agm_group_id m, agm_asset_id m)"
  shows "group_assets.links (map (\<lambda>m. if member_live m \<and> P m then end_group_member now m else m) (db_group_members db)) =
      group_asset_links db - {p. Q p}"
    and "distinct (map agm_id (map (\<lambda>m. if member_live m \<and> P m then end_group_member now m else m) (db_group_members db)))"
    and "flagged (map (\<lambda>m. if member_live m \<and> P m then end_group_member now m else m) (db_group_members db))"
proof -
  show "group_assets.links (map (\<lambda>m. if member_live m \<and> P m then end_group_member now m else m) (db_group_members db)) =
      group_asset_links db - {p. Q p}"
    unfolding group_asset_links_def by (rule group_assets.links_end) (rule assms(2))
  show "distinct (map agm_id (map (\<lambda>m. if member_live m \<and> P m then end_group_member now m else m) (db_group_members db)))"
    unfolding group_assets.keys_end using assms(1) by (simp add: groups_ok_def)
  show "flagged (map (\<lambda>m. if member_live m \<and> P m then end_group_member now m else m) (db_group_members db))"
    using assms(1) by (auto simp: groups_ok_def flagged_def end_group_member_def)
qed

lemma remove_case:
  assumes "groups_ok db" "remove_members now g c ids db = (Inr (Some r), db')"
  shows "view_of db' = view_step (Remove g c ids) new (view_of db) \<and> groups_ok db' \<and> group_frame db db'"
proof -
  let ?P = "\<lambda>m. agm_group_id m = g \<and> agm_asset_id m \<in> set ids"
  obtain ps where db': "db' = cleanup_effective_states ps db\<lparr>db_group_members :=
      map (\<lambda>m. if member_live m \<and> ?P m then end_group_member now m else m) (db_group_members db)\<rparr>"
    using assms(2) by (auto simp: remove_members_def transact_Inr res_simps Let_def group_commit_Inr split: option.splits)
  let ?Q = "\<lambda>p. p \<in> {g} \<times> set ids"
  have Q: "?P m \<longleftrightarrow> ?Q (agm_group_id m, agm_asset_id m)" for m by auto
  have "{p. ?Q p} = {g} \<times> set ids" by simp
  with end_members [where P = ?P and Q = ?Q and now = now, OF assms(1) Q] assms(1) frame_writes(5) show ?thesis
    by (simp add: db' view_of_def view_simps groups_ok_def fence_group_links_def live_groups_def group_clients_def)
qed

lemma model_found:
  assumes "get_asset_group_model_for_client db i c = Some g"
  shows "g \<in> set (db_asset_groups db)" "ag_id g = i" "ag_client_id g = c" "ag_deleted g = CHR ''N''"
  using assms unfolding get_asset_group_model_for_client_def find_Some_iff by auto

lemma live_groups_put:
  assumes "distinct (map ag_id (db_asset_groups db))" "g \<in> set (db_asset_groups db)" "ag_id g' = ag_id g" "ag_deleted g' = CHR ''N''"
  shows "live_groups (db\<lparr>db_asset_groups := put ag_id g' (db_asset_groups db)\<rparr>) =
    (if ag_active g' then insert (ag_id g) (live_groups db) else live_groups db - {ag_id g})"
proof -
  have rows: "set (put ag_id g' (db_asset_groups db)) = insert g' (set (db_asset_groups db) - {g})"
    using assms(1-3) by (rule set_put)
  have own: "ag_id x \<noteq> ag_id g" if "x \<in> set (db_asset_groups db)" "x \<noteq> g" for x
    using same_key_same_row [OF assms(1) that(1) assms(2)] that(2) by blast
  let ?live = "\<lambda>x. ag_active x \<and> ag_deleted x = CHR ''N''"
  have "{x \<in> set (put ag_id g' (db_asset_groups db)). ?live x} =
      (if ag_active g' then {g'} else {}) \<union> ({x \<in> set (db_asset_groups db). ?live x} - {g})"
    unfolding rows using assms(4) by auto
  moreover have "ag_id ` ({x \<in> set (db_asset_groups db). ?live x} - {g}) = ag_id ` {x \<in> set (db_asset_groups db). ?live x} - {ag_id g}"
    using own by auto
  ultimately have "ag_id ` {x \<in> set (put ag_id g' (db_asset_groups db)). ?live x} =
      (if ag_active g' then {ag_id g} else {}) \<union> (ag_id ` {x \<in> set (db_asset_groups db). ?live x} - {ag_id g})"
    using assms(3) by (simp add: image_Un)
  then show ?thesis by (simp add: live_groups_def insert_Diff_if)
qed

lemma put_clients:
  assumes "groups_ok db" "g \<in> set (db_asset_groups db)" "ag_id g' = ag_id g" "ag_client_id g' = ag_client_id g"
  shows "(\<lambda>g. (ag_id g, ag_client_id g)) ` set (put ag_id g' (db_asset_groups db)) = group_clients db"
proof -
  have "set (put ag_id g' (db_asset_groups db)) = insert g' (set (db_asset_groups db) - {g})"
    using assms by (intro set_put) (simp_all add: groups_ok_def)
  with assms(2-4) show ?thesis unfolding group_clients_def by (auto simp: image_iff)
qed

lemma touched_simps [simp]:
  "ag_id (touched now g g') = ag_id g'" "ag_active (touched now g g') = ag_active g'" "ag_deleted (touched now g g') = ag_deleted g'"
  "ag_client_id (touched now g g') = ag_client_id g'"
  by (simp_all add: touched_def)

lemma apply_update_simps [simp]:
  "ag_id (apply_group_update u g) = ag_id g" "ag_active (apply_group_update u g) = ag_active g"
  "ag_deleted (apply_group_update u g) = ag_deleted g" "ag_client_id (apply_group_update u g) = ag_client_id g"
  by (simp_all add: apply_group_update_def Let_def split: option.splits)

lemma create_case:
  assumes "groups_ok db" "create_asset_group stamp c name desc ids db = (Inr (Some r), db')"
  shows "view_of db' = view_step (Create c name desc ids) (fresh ag_id (db_asset_groups db)) (view_of db) \<and> groups_ok db' \<and>
    group_frame db db'"
proof -
  let ?l = "case ids of None \<Rightarrow> [] | Some l \<Rightarrow> l"
  let ?new = "fresh ag_id (db_asset_groups db)"
  define g where "g = \<lparr>ag_id = ?new, ag_client_id = c, ag_name = name, ag_description = desc,
    ag_active = True, ag_deleted = CHR ''N'', ag_created_at = stamp 0, ag_updated_at = stamp 0\<rparr>"
  define rows where "rows = add_rows agm_id (\<lambda>n i a. new_group_member (stamp (Suc n)) i (?new, a)) 0 ?l (db_group_members db)"
  have db': "db' = db\<lparr>db_asset_groups := db_asset_groups db @ [g], db_group_members := rows\<rparr>"
    using assms(2) by (auto simp: create_asset_group_def transact_Inr res_simps Let_def group_commit_Inr g_def rows_def)
  have links: "group_assets.links rows = group_asset_links db \<union> {?new} \<times> set ?l"
    unfolding rows_def group_asset_links_def using group_assets.links_add_rows [of "\<lambda>n. stamp (Suc n)" "Pair ?new"] by auto
  have "distinct (map agm_id rows)" unfolding rows_def
    by (rule group_assets.keys_add_rows) (use assms(1) in \<open>simp add: groups_ok_def\<close>)
  moreover have "flagged (add_rows agm_id (\<lambda>n i a. new_group_member (stamp (Suc n)) i (?new, a)) n xs ms)" if "flagged ms" for n xs ms
    using that by (induction xs arbitrary: n ms) (simp_all add: flagged_append new_group_member_def)
  then have "flagged rows" using assms(1) by (simp add: rows_def groups_ok_def)
  moreover have "distinct (map ag_id (db_asset_groups db @ [g]))"
    by (rule distinct_append_fresh) (use assms(1) in \<open>simp_all add: groups_ok_def g_def\<close>)
  moreover have "{x \<in> set (db_asset_groups db @ [g]). ag_active x \<and> ag_deleted x = CHR ''N''} =
      insert g {x \<in> set (db_asset_groups db). ag_active x \<and> ag_deleted x = CHR ''N''}" by (auto simp: g_def)
  then have "live_groups db' = insert ?new (live_groups db)"
    unfolding live_groups_def by (simp only: db' tlrs_db.simps image_insert) (simp add: g_def)
  moreover have "group_asset_links db' = group_assets.links rows" by (simp add: db' group_asset_links_def)
  ultimately show ?thesis using assms(1) links frame_writes(2)
    by (simp add: db' view_of_def groups_ok_def fence_group_links_def group_clients_def g_def)
qed

lemma activate_case:
  assumes "groups_ok db" "set_asset_group_active now i c b db = (Inr (Some r), db')"
  shows "view_of db' = view_step (Activate i c b) new (view_of db) \<and> groups_ok db' \<and> group_frame db db'"
proof -
  obtain g ps where g: "get_asset_group_model_for_client db i c = Some g"
    and db': "db' = cleanup_effective_states ps db\<lparr>db_asset_groups := put ag_id (touched now g (g\<lparr>ag_active := b\<rparr>)) (db_asset_groups db)\<rparr>"
    using assms(2) by (auto simp: set_asset_group_active_def transact_Inr res_simps Let_def group_commit_Inr split: option.splits)
  note model = model_found [OF g]
  have "live_groups db' = live_groups (db\<lparr>db_asset_groups := put ag_id (touched now g (g\<lparr>ag_active := b\<rparr>)) (db_asset_groups db)\<rparr>)"
    by (simp add: db' live_groups_def)
  also have "\<dots> = (if b then insert i (live_groups db) else live_groups db - {i})"
    using live_groups_put [of db g "touched now g (g\<lparr>ag_active := b\<rparr>)"] assms(1) model by (simp add: groups_ok_def)
  finally show ?thesis using assms(1) frame_writes(7) put_clients [OF assms(1) model(1), of "touched now g (g\<lparr>ag_active := b\<rparr>)"]
    by (simp add: db' view_of_def groups_ok_def group_asset_links_def fence_group_links_def group_clients_def)
qed

lemma update_case:
  assumes "groups_ok db" "distinct_ids (Update i c u)" "update_asset_group stamp now i c u db = (Inr (Some r), db')"
  shows "view_of db' = view_step (Update i c u) new (view_of db) \<and> groups_ok db' \<and> group_frame db db'"
proof -
  obtain g db1 where g: "get_asset_group_model_for_client db i c = Some g"
    and db1: "(case gu_asset_ids u of None \<Rightarrow> Inr db | Some ids \<Rightarrow> replace_members stamp now i c ids db) = Inr db1"
    and db': "db' = db1\<lparr>db_asset_groups := put ag_id (touched now g (apply_group_update u g)) (db_asset_groups db)\<rparr>"
    using assms(3) by (auto simp: update_asset_group_def transact_Inr res_simps group_commit_Inr split: option.splits if_splits)
  note model = model_found [OF g]
  let ?groups = "put ag_id (touched now g (apply_group_update u g)) (db_asset_groups db)"
  have clients: "(\<lambda>g. (ag_id g, ag_client_id g)) ` set ?groups = group_clients db"
    using put_clients [OF assms(1) model(1)] by simp
  have live: "ag_id ` {x \<in> set ?groups. ag_active x \<and> ag_deleted x = CHR ''N''} = live_groups db"
  proof -
    have "live_groups (db\<lparr>db_asset_groups := ?groups\<rparr>) = (if ag_active g then insert i (live_groups db) else live_groups db - {i})"
      using live_groups_put [of db g "touched now g (apply_group_update u g)"] assms(1) model by (simp add: groups_ok_def)
    moreover have "i \<in> live_groups db \<longleftrightarrow> ag_active g"
    proof
      assume "i \<in> live_groups db"
      then obtain x where x: "x \<in> set (db_asset_groups db)" "ag_id x = i" "ag_active x" by (auto simp: live_groups_def)
      then have "x = g" using assms(1) model by (intro same_key_same_row [of ag_id "db_asset_groups db"]) (simp_all add: groups_ok_def)
      with x(3) show "ag_active g" by simp
    qed (use model in \<open>auto simp: live_groups_def\<close>)
    ultimately show ?thesis by (auto simp: live_groups_def split: if_splits)
  qed
  show ?thesis
  proof (cases "gu_asset_ids u")
    case None
    with db1 have "db1 = db" by simp
    with live assms(1) frame_writes(3) None clients show ?thesis
      by (simp add: db' view_of_def groups_ok_def group_asset_links_def fence_group_links_def live_groups_def group_clients_def)
  next
    case (Some ids)
    let ?P = "\<lambda>m. agm_group_id m = i \<and> agm_asset_id m \<notin> set ids"
    define members where "members = filter (\<lambda>m. agm_group_id m = i) (db_group_members db)"
    define ended where "ended = map (\<lambda>m. if member_live m \<and> ?P m then end_group_member now m else m) (db_group_members db)"
    define rows where "rows = upsert_members stamp i members 0 ids ended"
    obtain ps where ps: "db1 = cleanup_effective_states ps db\<lparr>db_group_members := rows\<rparr>"
      using db1 Some by (auto simp: replace_members_def res_simps Let_def rows_def members_def ended_def)
    let ?Q = "\<lambda>p. fst p = i \<and> snd p \<notin> set ids"
    have Q: "?P m \<longleftrightarrow> ?Q (agm_group_id m, agm_asset_id m)" for m by simp
    note ended = end_members [where P = ?P and Q = ?Q and now = now, OF assms(1) Q, folded ended_def]
    have d: "distinct ids" using assms(2) Some by simp
    have "\<forall>m \<in> set members. agm_group_id m = i \<and> (agm_asset_id m \<in> set ids \<longrightarrow> m \<in> set ended)"
      by (force simp: members_def ended_def)
    from upsert_members_spec [OF d ended(2,3) this rows_def] ended(1)
    have rows: "group_assets.links rows = group_asset_links db - {p. ?Q p} \<union> {i} \<times> set ids" "distinct (map agm_id rows)" "flagged rows"
      by simp_all
    have "group_asset_links db - {p. ?Q p} \<union> {i} \<times> set ids = {p \<in> group_asset_links db. fst p \<noteq> i} \<union> {i} \<times> set ids" by auto
    with rows live assms(1) frame_writes(6) Some clients show ?thesis
      by (simp add: db' ps view_of_def groups_ok_def group_asset_links_def fence_group_links_def live_groups_def group_clients_def)
  qed
qed

lemma assign_case:
  assumes "groups_ok db" "assign_groups_to_geofence stamp f c ids db = (Inr r, db')"
  shows "view_of db' = view_step (Assign f c ids) new (view_of db) \<and> groups_ok db' \<and> group_frame db db'"
proof -
  define existing where "existing = filter (\<lambda>x. gg_geofence_id x = f \<and> gg_group_id x \<in> set ids \<and> fence_group_live x) (db_fence_groups db)"
  define add where "add = filter (\<lambda>i. i \<notin> gg_group_id ` set existing) ids"
  define rows where "rows = add_rows gg_id (\<lambda>n i g. new_fence_group (stamp n) i (f, g)) 0 add (db_fence_groups db)"
  have db': "db' = db\<lparr>db_fence_groups := rows\<rparr>"
    using assms(2) by (auto simp: assign_groups_to_geofence_def transact_Inr res_simps Let_def group_commit_Inr existing_def add_def rows_def
        split: option.splits)
  have "fence_groups.links rows = fence_group_links db \<union> Pair f ` set add"
    unfolding rows_def fence_group_links_def by (rule fence_groups.links_add_rows)
  moreover have "(f, g) \<in> fence_group_links db" if "g \<in> set ids" "g \<notin> set add" for g
    using that by (auto simp: add_def existing_def fence_group_links_def fence_groups.links_iff)
  moreover have "set add \<subseteq> set ids" by (auto simp: add_def)
  ultimately have "fence_groups.links rows = fence_group_links db \<union> {f} \<times> set ids" by auto
  moreover have "distinct (map gg_id rows)" unfolding rows_def
    by (rule fence_groups.keys_add_rows) (use assms(1) in \<open>simp add: groups_ok_def\<close>)
  ultimately show ?thesis using assms(1) frame_writes(4)
    by (simp add: db' view_of_def view_simps groups_ok_def group_asset_links_def live_groups_def group_clients_def)
qed

lemma unassign_case:
  assumes "groups_ok db" "remove_groups_from_geofence now f c ids db = (Inr r, db')"
  shows "view_of db' = view_step (Unassign f c ids) new (view_of db) \<and> groups_ok db' \<and> group_frame db db'"
proof -
  let ?P = "\<lambda>x. gg_geofence_id x = f \<and> gg_group_id x \<in> set ids"
  let ?Q = "\<lambda>p. p \<in> {f} \<times> set ids"
  let ?rows = "map (\<lambda>x. if fence_group_live x \<and> ?P x then end_fence_group now x else x) (db_fence_groups db)"
  obtain ps where db': "db' = cleanup_effective_states ps db\<lparr>db_fence_groups := ?rows\<rparr>"
    using assms(2) by (auto simp: remove_groups_from_geofence_def transact_Inr res_simps Let_def group_commit_Inr split: option.splits)
  have "fence_groups.links ?rows = fence_group_links db - {p. ?Q p}"
    unfolding fence_group_links_def by (rule fence_groups.links_end) auto
  moreover have "distinct (map gg_id ?rows)" unfolding fence_groups.keys_end using assms(1) by (simp add: groups_ok_def)
  moreover have "{p. ?Q p} = {f} \<times> set ids" by simp
  ultimately show ?thesis using assms(1) frame_writes(8)
    by (simp add: db' view_of_def view_simps groups_ok_def group_asset_links_def live_groups_def group_clients_def)
qed

text \<open>An operation that is not carried out writes nothing.\<close>

lemma transact_Inl: "transact body db = (Inl e, db') \<Longrightarrow> db' = db"
  by (auto simp: transact_def split: sum.splits prod.splits)

lemma detail_None:
  "get_asset_group_detail_for_client db i c = None \<longleftrightarrow>
    \<not> (\<exists>g \<in> set (db_asset_groups db). ag_id g = i \<and> ag_client_id g = c \<and> ag_deleted g = CHR ''N'')"
  by (auto simp: get_asset_group_detail_for_client_def get_asset_group_model_for_client_def find_None_iff)

lemma detail_same:
  "get_asset_group_model_for_client db i c = Some g \<Longrightarrow> db_asset_groups db' = db_asset_groups db \<Longrightarrow>
    get_asset_group_detail_for_client db' i c \<noteq> None"
  using model_found [of db i c g] by (auto simp: detail_None)

lemma detail_put:
  assumes "get_asset_group_model_for_client db i c = Some g" "ag_id g' = ag_id g" "ag_client_id g' = c" "ag_deleted g' = CHR ''N''"
    and "db_asset_groups db' = put ag_id g' (db_asset_groups db)"
  shows "get_asset_group_detail_for_client db' i c \<noteq> None"
proof -
  note g = model_found [OF assms(1)]
  have "g' \<in> set (put ag_id g' (db_asset_groups db))" using g(1) assms(2) by (force simp: put_def)
  with assms g show ?thesis by (auto simp: detail_None)
qed

lemma no_result:
  "create_asset_group stamp c name desc ids db = (Inr None, db') \<Longrightarrow> db' = db"
  "add_members stamp g c l db = (Inr None, db') \<Longrightarrow> db' = db"
  "remove_members now g c l db = (Inr None, db') \<Longrightarrow> db' = db"
  "update_asset_group stamp now g c u db = (Inr None, db') \<Longrightarrow> db' = db"
  "set_asset_group_active now g c b db = (Inr None, db') \<Longrightarrow> db' = db"
proof -
  show "create_asset_group stamp c name desc ids db = (Inr None, db') \<Longrightarrow> db' = db"
    by (auto simp: create_asset_group_def transact_Inr res_simps Let_def group_commit_Inr detail_None)
  show "add_members stamp g c l db = (Inr None, db') \<Longrightarrow> db' = db"
  proof -
    assume run: "add_members stamp g c l db = (Inr None, db')"
    then obtain x where x: "get_asset_group_model_for_client db g c = Some x" "db_asset_groups db' = db_asset_groups db"
      "get_asset_group_detail_for_client db' g c = None"
      by (auto simp: add_members_def transact_Inr res_simps Let_def group_commit_Inr split: option.splits)
    with detail_same [OF x(1,2)] show "db' = db" by simp
  qed
  show "remove_members now g c l db = (Inr None, db') \<Longrightarrow> db' = db"
  proof -
    assume run: "remove_members now g c l db = (Inr None, db')"
    then obtain x where x: "get_asset_group_model_for_client db g c = Some x" "db_asset_groups db' = db_asset_groups db"
      "get_asset_group_detail_for_client db' g c = None"
      by (auto simp: remove_members_def transact_Inr res_simps Let_def group_commit_Inr split: option.splits)
    with detail_same [OF x(1,2)] show "db' = db" by simp
  qed
  show "update_asset_group stamp now g c u db = (Inr None, db') \<Longrightarrow> db' = db"
  proof -
    assume run: "update_asset_group stamp now g c u db = (Inr None, db')"
    show "db' = db"
    proof (cases "get_asset_group_model_for_client db g c")
      case None
      with run show ?thesis by (simp add: update_asset_group_def transact_Inr)
    next
      case (Some x)
      with run obtain db1 where
        "db' = db1\<lparr>db_asset_groups := put ag_id (touched now x (apply_group_update u x)) (db_asset_groups db)\<rparr>"
        "get_asset_group_detail_for_client db' g c = None"
        by (auto simp: update_asset_group_def transact_Inr res_simps group_commit_Inr split: if_splits)
      with detail_put [OF Some, of "touched now x (apply_group_update u x)" db'] model_found [OF Some] show ?thesis by simp
    qed
  qed
  show "set_asset_group_active now g c b db = (Inr None, db') \<Longrightarrow> db' = db"
  proof -
    assume run: "set_asset_group_active now g c b db = (Inr None, db')"
    show "db' = db"
    proof (cases "get_asset_group_model_for_client db g c")
      case None
      with run show ?thesis by (simp add: set_asset_group_active_def transact_Inr)
    next
      case (Some x)
      with run obtain db1 where
        "db' = db1\<lparr>db_asset_groups := put ag_id (touched now x (x\<lparr>ag_active := b\<rparr>)) (db_asset_groups db)\<rparr>"
        "get_asset_group_detail_for_client db' g c = None"
        by (auto simp: set_asset_group_active_def transact_Inr res_simps Let_def group_commit_Inr)
      with detail_put [OF Some, of "touched now x (x\<lparr>ag_active := b\<rparr>)" db'] model_found [OF Some] show ?thesis by simp
    qed
  qed
qed

lemma outcome_cases:
  assumes "outcome p = (ok, db')"
  obtains (ran) r where "p = (Inr (Some r), db')" "ok"
  | (refused) e where "p = (Inl e, db')" "\<not> ok"
  | (nothing) "p = (Inr None, db')" "\<not> ok"
proof -
  obtain x db2 where p: "p = (x, db2)" by (cases p)
  show thesis
  proof (cases x)
    case (Inl e)
    with assms p refused show thesis by (simp add: outcome_def)
  next
    case (Inr y)
    show thesis
    proof (cases y)
      case None
      with Inr assms p have "p = (Inr None, db')" "\<not> ok" by (simp_all add: outcome_def)
      then show thesis by (rule nothing)
    next
      case (Some r)
      with Inr assms p show thesis by (intro ran [of r]) (simp_all add: outcome_def)
    qed
  qed
qed

lemma group_op_step:
  assumes "groups_ok db" "distinct_ids op" "run_group_op stamp now op db = (ok, db')"
  shows "if ok then view_of db' = view_step op (fresh ag_id (db_asset_groups db)) (view_of db) \<and> groups_ok db' \<and> group_frame db db'
    else db' = db"
proof -
  have opt: ?thesis if "run_group_op stamp now op db = outcome p" "\<And>r db'. p = (Inr (Some r), db') \<Longrightarrow>
      view_of db' = view_step op (fresh ag_id (db_asset_groups db)) (view_of db) \<and> groups_ok db' \<and> group_frame db db'"
    "\<And>e db'. p = (Inl e, db') \<Longrightarrow> db' = db" "\<And>db'. p = (Inr None, db') \<Longrightarrow> db' = db" for p :: "(group_error, group_detail option) res \<times> tlrs_db"
    using assms(3) that by (auto elim: outcome_cases)
  show ?thesis
  proof (cases op)
    case (Create c name desc ids)
    then show ?thesis using create_case [OF assms(1), of stamp c name desc ids] no_result(1) [of stamp c name desc ids db]
      by (intro opt [of "create_asset_group stamp c name desc ids db"]) (auto simp: create_asset_group_def dest: transact_Inl)
  next
    case (Add g c ids)
    then show ?thesis using add_case [OF assms(1), of ids stamp g c] no_result(2) [of stamp g c ids db] assms(2)
      by (intro opt [of "add_members stamp g c ids db"]) (auto simp: add_members_def dest: transact_Inl)
  next
    case (Remove g c ids)
    then show ?thesis using remove_case [OF assms(1), of now g c ids] no_result(3) [of now g c ids db]
      by (intro opt [of "remove_members now g c ids db"]) (auto simp: remove_members_def dest: transact_Inl)
  next
    case (Update g c u)
    then show ?thesis using update_case [OF assms(1), of g c u stamp now] no_result(4) [of stamp now g c u db] assms(2)
      by (intro opt [of "update_asset_group stamp now g c u db"]) (auto simp: update_asset_group_def dest: transact_Inl)
  next
    case (Activate g c b)
    then show ?thesis using activate_case [OF assms(1), of now g c b] no_result(5) [of now g c b db]
      by (intro opt [of "set_asset_group_active now g c b db"]) (auto simp: set_asset_group_active_def dest: transact_Inl)
  next
    case (Assign f c ids)
    obtain r db2 where run: "assign_groups_to_geofence stamp f c ids db = (r, db2)" by (meson surj_pair)
    then show ?thesis using assms Assign assign_case [OF assms(1), of stamp f c ids]
      by (cases r) (auto simp: assign_groups_to_geofence_def dest: transact_Inl)
  next
    case (Unassign f c ids)
    obtain r db2 where run: "remove_groups_from_geofence now f c ids db = (r, db2)" by (meson surj_pair)
    then show ?thesis using assms Unassign unassign_case [OF assms(1), of now f c ids]
      by (cases r) (auto simp: remove_groups_from_geofence_def dest: transact_Inl)
  qed
qed

text \<open>
  Property C5. Editing groups edits memberships as asked: an operation that is carried out
  changes the relations of members and of geofences exactly by its request (a new member list
  replaces the old one, ids already linked make no difference; the ids of a request are distinct),
  writes only the group tables and the states, and a refused one writes nothing; afterwards an asset is in a
  geofence exactly by its own assignment or through a live group of the new relations.
\<close>
theorem group_edits_refine:
  assumes "groups_ok db" "distinct_ids op" "run_group_op stamp now op db = (ok, db')"
  shows "groups_ok db' \<and>
    (if ok then view_of db' = view_step op (fresh ag_id (db_asset_groups db)) (view_of db) \<and> group_frame db db' else db' = db) \<and>
    (\<forall>f a. has_effective_assignment db' f a \<longleftrightarrow> f \<in> live_fences db \<and> a \<in> live_assets db \<and>
       ((f, a) \<in> fence_asset_links db \<or> (\<exists>g \<in> gv_live (view_of db'). (f, g) \<in> gv_fences (view_of db') \<and> (g, a) \<in> gv_members (view_of db'))))"
proof -
  note step = group_op_step [OF assms]
  have same: "live_fences db' = live_fences db" "live_assets db' = live_assets db" "fence_asset_links db' = fence_asset_links db"
  proof -
    have "group_frame db db'" using step by (cases ok) (simp_all add: group_frame_def)
    from group_frame_base [OF this] show "live_fences db' = live_fences db" "live_assets db' = live_assets db" "fence_asset_links db' = fence_asset_links db"
      by (simp_all add: live_fences_def live_assets_def fence_asset_links_def)
  qed
  have "has_effective_assignment db' f a \<longleftrightarrow> f \<in> live_fences db \<and> a \<in> live_assets db \<and>
      ((f, a) \<in> fence_asset_links db \<or> (\<exists>g \<in> gv_live (view_of db'). (f, g) \<in> gv_fences (view_of db') \<and> (g, a) \<in> gv_members (view_of db')))" for f a
    unfolding effective_from_links same by (simp add: view_of_def)
  with step assms(1) show ?thesis by (auto split: if_splits)
qed

definition sample_fence :: geofence where
  "sample_fence = \<lparr>gf_id = 1, gf_client_id = 1, gf_name = ''f'', gf_description = None, gf_shape = [], gf_active = True,
     gf_deleted = CHR ''N'', gf_created_at = 0, gf_updated_at = 0\<rparr>"

definition sample_state :: asset_state where
  "sample_state = \<lparr>gs_id = 1, gs_fence_id = 1, gs_asset_id = 7, gs_device_id = 1, gs_status = OUTSIDE, gs_last_location_id = 1,
     gs_last_distance = None, gs_last_accuracy = None, gs_first_detected_at = 0, gs_last_evaluated_at = 0, gs_created_at = 0,
     gs_updated_at = 0\<rparr>"

definition grouped_db :: tlrs_db where
  "grouped_db = idle_db\<lparr>db_geofences := [sample_fence],
     db_asset_groups := [\<lparr>ag_id = 1, ag_client_id = 1, ag_name = ''g'', ag_description = None, ag_active = True,
       ag_deleted = CHR ''N'', ag_created_at = 0, ag_updated_at = 0\<rparr>],
     db_group_members := [new_group_member 0 1 (1, 7)], db_fence_groups := [new_fence_group 0 1 (1, 1)],
     db_asset_states := [sample_state]\<rparr>"

lemma grouped_db_ok: "groups_ok grouped_db"
  by (simp add: groups_ok_def grouped_db_def flagged_def new_group_member_def)

lemma grouped_db_effective: "has_effective_assignment grouped_db 1 7"
  unfolding effective_from_links link_membership Bex_def
  by (simp add: grouped_db_def idle_db_def sample_fence_def new_group_member_def new_fence_group_def)

lemma removal_runs: "fst (run_group_op (\<lambda>_. 5) 5 (Remove 1 1 [7]) grouped_db)"
  by (simp add: remove_members_def transact_def get_asset_group_model_for_client_def grouped_db_def group_commit_def
      commit_fences_def fence_constraints_def partial_unique_def idle_db_def empty_db_def new_group_member_def
      new_fence_group_def sample_fence_def member_live_def fence_group_live_def end_group_member_def Let_def
      get_asset_group_detail_for_client_def outcome_def cleanup_effective_states_def get_active_geofence_ids_for_group_def
      build_membership_pairs_def delete_state_if_unassigned_def split: option.split)

lemma removal_ends:
  assumes "run_group_op (\<lambda>_. 5) 5 (Remove 1 1 [7]) grouped_db = (True, db')"
  shows "\<not> has_effective_assignment db' 1 7"
proof -
  have "distinct_ids (Remove 1 1 [7])" by simp
  from group_op_step [OF grouped_db_ok this assms] have view: "group_asset_links db' = group_asset_links grouped_db - {1} \<times> {7}"
    and frame: "group_frame grouped_db db'" by (simp_all add: view_of_def)
  have "g = 1" if "(g, 7) \<in> group_asset_links grouped_db" for g
    using that by (simp add: link_membership grouped_db_def new_group_member_def)
  with view have "(g, 7) \<notin> group_asset_links db'" for g by auto
  moreover have "(1, 7) \<notin> fence_asset_links db'"
    using group_frame_base(3) [OF frame] by (simp add: link_membership grouped_db_def idle_db_def empty_db_def)
  ultimately show ?thesis unfolding effective_from_links by blast
qed

theorem group_edits_refine_witness:
  "\<exists>db'. run_group_op (\<lambda>_. 5) 5 (Remove 1 1 [7]) grouped_db = (True, db') \<and> has_effective_assignment grouped_db 1 7 \<and>
     \<not> has_effective_assignment db' 1 7"
proof -
  obtain db' where run: "run_group_op (\<lambda>_. 5) 5 (Remove 1 1 [7]) grouped_db = (True, db')"
    using removal_runs by (metis prod.collapse)
  have "distinct_ids (Remove 1 1 [7])" by simp
  from group_edits_refine [OF grouped_db_ok this run]
  have "gv_members (view_of db') = gv_members (view_of grouped_db) - {1} \<times> {7}" by simp
  with run grouped_db_effective removal_ends [OF run] show ?thesis by blast
qed

subsection \<open>Clients are kept apart\<close>

definition owned_assets :: "tlrs_db \<Rightarrow> nat \<Rightarrow> nat set" where
  "owned_assets db c = a_id ` {a \<in> set (db_assets db). a_client_id a = Some c}"

text \<open>Members belong to the client of their group, and groups are in geofences of their client.\<close>

definition tenants_ok :: "(nat \<Rightarrow> nat set) \<Rightarrow> (nat \<times> nat) set \<Rightarrow> group_view \<Rightarrow> bool" where
  "tenants_ok owned fences v \<longleftrightarrow>
     (\<forall>(g, a) \<in> gv_members v. \<exists>c. (g, c) \<in> gv_clients v \<and> a \<in> owned c) \<and>
     (\<forall>(f, g) \<in> gv_fences v. \<exists>c. (g, c) \<in> gv_clients v \<and> (f, c) \<in> fences)"

definition fence_clients :: "tlrs_db \<Rightarrow> (nat \<times> nat) set" where
  "fence_clients db = (\<lambda>g. (gf_id g, gf_client_id g)) ` set (db_geofences db)"

fun op_allowed :: "group_op \<Rightarrow> tlrs_db \<Rightarrow> bool" where
  "op_allowed (Create c name description ids) db \<longleftrightarrow> set (case ids of None \<Rightarrow> [] | Some l \<Rightarrow> l) \<subseteq> owned_assets db c"
| "op_allowed (Add g c ids) db \<longleftrightarrow> (g, c) \<in> group_clients db \<and> set ids \<subseteq> owned_assets db c"
| "op_allowed (Update g c u) db \<longleftrightarrow> (g, c) \<in> group_clients db \<and>
     set (case gu_asset_ids u of None \<Rightarrow> [] | Some l \<Rightarrow> l) \<subseteq> owned_assets db c"
| "op_allowed (Assign f c ids) db \<longleftrightarrow> (f, c) \<in> fence_clients db \<and> (\<forall>i \<in> set ids. (i, c) \<in> group_clients db)"
| "op_allowed _ db \<longleftrightarrow> True"

lemma validated_assets: "validate_asset_ids_for_client db c ids = Inr u \<Longrightarrow> set ids \<subseteq> owned_assets db c"
  by (force simp: validate_asset_ids_for_client_def Let_def filter_empty_conv client_assets_def owned_assets_def split: if_splits)

lemma validated_groups:
  assumes "validate_asset_group_ids_for_client db c ids True = Inr u" "i \<in> set ids"
  shows "(i, c) \<in> group_clients db"
  using assms
  by (force simp: validate_asset_group_ids_for_client_def Let_def filter_empty_conv group_clients_def image_iff split: if_splits)

lemma model_client: "get_asset_group_model_for_client db i c = Some g \<Longrightarrow> (i, c) \<in> group_clients db"
  using model_found [of db i c g] by (force simp: group_clients_def)

lemma fence_client: "get_geofence_for_client db f c = Some g \<Longrightarrow> (f, c) \<in> fence_clients db"
  unfolding get_geofence_for_client_def find_Some_iff fence_clients_def by (force simp: image_iff)

lemma ran_allowed:
  assumes "run_group_op stamp now op db = (True, db')"
  shows "op_allowed op db"
proof (cases op)
  case (Create c name desc ids)
  from assms [unfolded Create run_group_op.simps] show ?thesis unfolding Create
    by (cases rule: outcome_cases) (auto simp: create_asset_group_def transact_Inr res_simps dest!: validated_assets)
next
  case (Add g c ids)
  from assms [unfolded Add run_group_op.simps] show ?thesis unfolding Add
    by (cases rule: outcome_cases)
      (auto simp: add_members_def transact_Inr res_simps dest: validated_assets model_client split: option.splits)
next
  case (Update g c u)
  from assms [unfolded Update run_group_op.simps] show ?thesis unfolding Update
    by (cases rule: outcome_cases)
      (auto simp: update_asset_group_def replace_members_def transact_Inr res_simps dest: validated_assets model_client split: option.splits)
next
  case (Assign f c ids)
  with assms obtain r where "assign_groups_to_geofence stamp f c ids db = (Inr r, db')"
    by (auto simp: is_ok_iff split: prod.splits)
  with Assign show ?thesis
    by (auto simp: assign_groups_to_geofence_def transact_Inr res_simps dest: validated_groups fence_client split: option.splits)
qed simp_all

lemma view_step_tenants:
  assumes "tenants_ok (owned_assets db) (fence_clients db) v" "op_allowed op db" "group_clients db = gv_clients v"
  shows "tenants_ok (owned_assets db) (fence_clients db) (view_step op new v)"
proof (cases op)
  case (Create c name desc ids)
  with assms show ?thesis by (auto simp: tenants_ok_def)
next
  case (Add g c ids)
  with assms show ?thesis by (auto simp: tenants_ok_def)
next
  case (Remove g c ids)
  with assms show ?thesis by (auto simp: tenants_ok_def)
next
  case (Update g c u)
  with assms show ?thesis by (auto simp: tenants_ok_def split: option.splits)
next
  case (Activate g c b)
  with assms show ?thesis by (auto simp: tenants_ok_def)
next
  case (Assign f c ids)
  with assms show ?thesis by (auto simp: tenants_ok_def)
next
  case (Unassign f c ids)
  with assms show ?thesis by (auto simp: tenants_ok_def)
qed

definition group_tenants :: "tlrs_db \<Rightarrow> bool" where
  "group_tenants db \<longleftrightarrow> groups_ok db \<and> tenants_ok (owned_assets db) (fence_clients db) (view_of db)"

lemma group_frame_clients:
  assumes "group_frame db db'"
  shows "owned_assets db' = owned_assets db" "fence_clients db' = fence_clients db"
proof -
  from group_frame_base [OF assms] show "owned_assets db' = owned_assets db" "fence_clients db' = fence_clients db"
    by (simp_all add: owned_assets_def fence_clients_def fun_eq_iff)
qed

lemma group_op_tenants:
  assumes "group_tenants db" "distinct_ids op" "run_group_op stamp now op db = (ok, db')"
  shows "group_tenants db'"
proof -
  have gok: "groups_ok db" using assms(1) by (simp add: group_tenants_def)
  note step = group_op_step [OF gok assms(2,3)]
  show ?thesis
  proof (cases ok)
    case True
    with ran_allowed assms(3) have "op_allowed op db" by simp
    from view_step_tenants [OF _ this] assms(1) step True
    have "tenants_ok (owned_assets db) (fence_clients db) (view_of db')"
      by (simp add: group_tenants_def view_of_def)
    with step True group_frame_clients [of db db'] show ?thesis by (simp add: group_tenants_def)
  qed (use step assms(1) in simp)
qed

lemma group_history_tenants:
  "group_tenants db \<Longrightarrow> \<forall>op \<in> set ops. distinct_ids op \<Longrightarrow>
    group_tenants (fold (\<lambda>op d. snd (run_group_op stamp now op d)) ops db)"
proof (induction ops arbitrary: db)
  case (Cons op ops)
  have "distinct_ids op" using Cons.prems(2) by simp
  then have "group_tenants (snd (run_group_op stamp now op db))"
    by (rule group_op_tenants [OF Cons.prems(1)]) (rule prod.collapse [symmetric])
  from Cons.IH [OF this] Cons.prems(2) show ?case by simp
qed simp

text \<open>
  Property C13. Groups never cross clients: in whatever order groups are created, renamed, filled,
  emptied, switched and assigned - for whatever clients, groups, geofences and assets the
  requests name - every group exists under exactly one client and holds only assets of that client,
  linked to a geofence or not, and a geofence is linked only to groups of its own client.  So a
  geofence reaches through a group only assets of the client whose geofence it is.
\<close>
theorem groups_never_cross_clients:
  assumes "group_tenants db" "\<forall>op \<in> set ops. distinct_ids op"
    and "db' = fold (\<lambda>op d. snd (run_group_op stamp now op d)) ops db"
  shows "(\<forall>g a. (g, a) \<in> group_asset_links db' \<longrightarrow>
      (\<exists>!c. (g, c) \<in> group_clients db') \<and> (\<forall>c. (g, c) \<in> group_clients db' \<longrightarrow> a \<in> owned_assets db' c)) \<and>
    (\<forall>f g. (f, g) \<in> fence_group_links db' \<longrightarrow>
      (\<exists>!c. (g, c) \<in> group_clients db') \<and> (\<forall>c. (g, c) \<in> group_clients db' \<longrightarrow> (f, c) \<in> fence_clients db')) \<and>
    (\<forall>f g a. (f, g) \<in> fence_group_links db' \<and> (g, a) \<in> group_asset_links db' \<longrightarrow>
      (\<exists>c. (f, c) \<in> fence_clients db' \<and> a \<in> owned_assets db' c))"
proof -
  have ok: "group_tenants db'" unfolding assms(3) by (rule group_history_tenants [OF assms(1,2)])
  then have members: "\<forall>(g, a) \<in> group_asset_links db'. \<exists>c. (g, c) \<in> group_clients db' \<and> a \<in> owned_assets db' c"
    and fences: "\<forall>(f, g) \<in> fence_group_links db'. \<exists>c. (g, c) \<in> group_clients db' \<and> (f, c) \<in> fence_clients db'"
    by (simp_all add: group_tenants_def tenants_ok_def view_of_def)
  have one: "c = c'" if "(g, c) \<in> group_clients db'" "(g, c') \<in> group_clients db'" for g c c'
    using that ok same_key_same_row [of ag_id "db_asset_groups db'"] by (auto simp: group_clients_def group_tenants_def groups_ok_def)
  have unique: "(\<exists>!c. (g, c) \<in> group_clients db') \<and> (\<forall>c. (g, c) \<in> group_clients db' \<longrightarrow> P c)"
    if "\<exists>c. (g, c) \<in> group_clients db' \<and> P c" for g P
    using that one by blast
  show ?thesis
  proof (intro conjI allI impI; (elim conjE)?)
    fix g a assume "(g, a) \<in> group_asset_links db'"
    with members have "\<exists>c. (g, c) \<in> group_clients db' \<and> a \<in> owned_assets db' c" by blast
    note m = unique [OF this]
    show "\<exists>!c. (g, c) \<in> group_clients db'" by (rule conjunct1 [OF m])
    show "a \<in> owned_assets db' c" if "(g, c) \<in> group_clients db'" for c using m that by blast
  next
    fix f g assume "(f, g) \<in> fence_group_links db'"
    with fences have "\<exists>c. (g, c) \<in> group_clients db' \<and> (f, c) \<in> fence_clients db'" by blast
    note m = unique [OF this]
    show "\<exists>!c. (g, c) \<in> group_clients db'" by (rule conjunct1 [OF m])
    show "(f, c) \<in> fence_clients db'" if "(g, c) \<in> group_clients db'" for c using m that by blast
  next
    fix f g a assume "(f, g) \<in> fence_group_links db'" "(g, a) \<in> group_asset_links db'"
    then show "\<exists>c. (f, c) \<in> fence_clients db' \<and> a \<in> owned_assets db' c" using members fences one by blast
  qed
qed

lemma grouped_db_tenants: "group_tenants grouped_db"
  using grouped_db_ok
  by (auto simp: group_tenants_def tenants_ok_def view_of_def group_asset_links_def group_assets.links_iff fence_group_links_def
      fence_groups.links_iff grouped_db_def new_group_member_def new_fence_group_def group_clients_def owned_assets_def
      fence_clients_def idle_db_def sample_fence_def)

theorem groups_never_cross_clients_witness:
  "\<exists>db c. db = snd (run_group_op (\<lambda>_. 5) 5 (Activate 1 1 True) grouped_db) \<and> (1, 7) \<in> group_asset_links db \<and>
     (1, c) \<in> group_clients db \<and> 7 \<in> owned_assets db c \<and> (1, c) \<in> fence_clients db"
proof -
  let ?db = "snd (run_group_op (\<lambda>_. 5) 5 (Activate 1 1 True) grouped_db)"
  obtain ok where run: "run_group_op (\<lambda>_. 5) 5 (Activate 1 1 True) grouped_db = (ok, ?db)" by (metis prod.collapse)
  have d: "distinct_ids (Activate 1 1 True)" by simp
  have "view_of ?db = view_of grouped_db \<or> view_of ?db = view_step (Activate 1 1 True) 2 (view_of grouped_db)"
    using group_op_step [OF grouped_db_ok d run] by (cases ok) (simp_all add: view_of_def)
  then have "fence_group_links ?db = fence_group_links grouped_db" "group_asset_links ?db = group_asset_links grouped_db"
    by (auto simp: view_of_def)
  then have links: "(1, 1) \<in> fence_group_links ?db" "(1, 7) \<in> group_asset_links ?db"
    by (simp_all add: link_membership grouped_db_def new_fence_group_def new_group_member_def)
  have run: "?db = fold (\<lambda>op d. snd (run_group_op (\<lambda>_. 5) 5 op d)) [Activate 1 1 True] grouped_db"
    and distinct: "\<forall>op \<in> set [Activate 1 1 True]. distinct_ids op" by simp_all
  note tenants = groups_never_cross_clients [OF grouped_db_tenants distinct run]
  note members = tenants [THEN conjunct1, rule_format, OF links(2)] and fences = tenants [THEN conjunct2, THEN conjunct1, rule_format, OF links(1)]
  obtain c where "(1, c) \<in> group_clients ?db" using members by blast
  with members fences links(2) show ?thesis by blast
qed

end
