(* ===== verification/Geofence_Service.thy ===== *)
theory Geofence_Service
  imports Asset_Groups
begin

text \<open>
  Geofences and their direct assignments, \<open>src/service/crud_geofence.py\<close>, with the shapes the
  schema accepts (\<open>src/schemas/geofence.py\<close>).  PostGIS is outside: \<open>fe_parse_wkt\<close> is the shape it
  reads from a WKT text, \<open>fe_geojson\<close> what \<open>ST_AsGeoJSON\<close> and \<open>json.loads\<close> give back for a stored
  shape, \<open>fe_float\<close> the text of a float.
\<close>

record fence_env =
  fe_now :: int
  fe_stamp :: "nat \<Rightarrow> int"
  fe_float :: "rat \<Rightarrow> string"
  fe_parse_wkt :: "string \<Rightarrow> multipolygon"
  fe_geojson :: "multipolygon \<Rightarrow> multipolygon"

subsection \<open>Shapes\<close>

definition validate_ring :: "(rat \<times> rat) list \<Rightarrow> (string, unit) res" where
  "validate_ring ring =
     (if length ring < 4 then Inl ''Each linear ring requires at least four positions.''
      else if hd ring \<noteq> last ring then Inl ''Each linear ring must be closed.'' else Inr ())"

definition validate_coordinates :: "multipolygon \<Rightarrow> (string, multipolygon) res" where
  "validate_coordinates coordinates =
     (if coordinates = [] then Inl ''A geofence requires at least one polygon.''
      else bindE (for_each (\<lambda>polygon. if polygon = [] then Inl ''Each polygon requires at least one linear ring.''
          else for_each validate_ring polygon) coordinates) (\<lambda>_. Inr coordinates))"

lemma validate_coordinates_iff:
  "validate_coordinates cs = Inr cs' \<longleftrightarrow> cs' = cs \<and> cs \<noteq> [] \<and>
     (\<forall>polygon \<in> set cs. polygon \<noteq> [] \<and> (\<forall>ring \<in> set polygon. 4 \<le> length ring \<and> hd ring = last ring))"
proof -
  have ring: "validate_ring r = Inr () \<longleftrightarrow> 4 \<le> length r \<and> hd r = last r" for r by (auto simp: validate_ring_def)
  have "(if p = [] then Inl e else for_each validate_ring p) = Inr () \<longleftrightarrow>
      p \<noteq> [] \<and> (\<forall>r \<in> set p. 4 \<le> length r \<and> hd r = last r)" for p and e :: string
    by (simp add: for_each_ok_iff ring)
  then show ?thesis unfolding validate_coordinates_def by (auto simp: res_simps)
qed

fun join_with :: "string \<Rightarrow> string list \<Rightarrow> string" where
  "join_with sep [] = []"
| "join_with sep [x] = x"
| "join_with sep (x # y # xs) = x @ sep @ join_with sep (y # xs)"

definition wkt_ring :: "(rat \<Rightarrow> string) \<Rightarrow> (rat \<times> rat) list \<Rightarrow> string" where
  "wkt_ring float ring = ''('' @ join_with '', '' (map (\<lambda>(lon, lat). float lon @ '' '' @ float lat) ring) @ '')''"

definition shape_to_wkt :: "(rat \<Rightarrow> string) \<Rightarrow> multipolygon \<Rightarrow> string" where
  "shape_to_wkt float shape = ''MULTIPOLYGON('' @
     join_with '', '' (map (\<lambda>polygon. ''('' @ join_with '', '' (map (wkt_ring float) polygon) @ '')'') shape) @ '')''"

definition stored_shape :: "fence_env \<Rightarrow> multipolygon \<Rightarrow> multipolygon" where
  "stored_shape env shape = fe_parse_wkt env (shape_to_wkt (fe_float env) shape)"

subsection \<open>Geofences\<close>

record fence_read =
  fr_id :: nat
  fr_client_id :: nat
  fr_name :: string
  fr_description :: "string option"
  fr_shape :: multipolygon
  fr_active :: bool
  fr_created_at :: int
  fr_updated_at :: int

definition format_geofence :: "fence_env \<Rightarrow> geofence \<Rightarrow> fence_read" where
  "format_geofence env g = \<lparr>fr_id = gf_id g, fr_client_id = gf_client_id g, fr_name = gf_name g,
     fr_description = gf_description g, fr_shape = fe_geojson env (gf_shape g), fr_active = gf_active g,
     fr_created_at = gf_created_at g, fr_updated_at = gf_updated_at g\<rparr>"

definition read_geofence_for_client :: "fence_env \<Rightarrow> tlrs_db \<Rightarrow> nat \<Rightarrow> nat \<Rightarrow> fence_read option" where
  "read_geofence_for_client env db geofence_id client_id =
     map_option (format_geofence env) (get_geofence_for_client db geofence_id client_id)"

definition get_geofences_by_client_id :: "fence_env \<Rightarrow> tlrs_db \<Rightarrow> nat \<Rightarrow> nat \<Rightarrow> nat \<Rightarrow> fence_read list" where
  "get_geofences_by_client_id env db client_id skip limit =
     map (format_geofence env) (take limit (drop skip (sort_key (\<lambda>g. - gf_created_at g)
       (filter (\<lambda>g. gf_client_id g = client_id \<and> gf_deleted g = CHR ''N'') (db_geofences db)))))"

definition create_geofence ::
  "fence_env \<Rightarrow> nat \<Rightarrow> string \<Rightarrow> string option \<Rightarrow> multipolygon \<Rightarrow> bool \<Rightarrow> (tlrs_db, py_exc, fence_read option) act" where
  "create_geofence env client_id name description shape active = transact (\<lambda>db.
     let g = \<lparr>gf_id = fresh gf_id (db_geofences db), gf_client_id = client_id, gf_name = name, gf_description = description,
           gf_shape = stored_shape env shape, gf_active = active, gf_deleted = CHR ''N'',
           gf_created_at = fe_stamp env 0, gf_updated_at = fe_stamp env 0\<rparr>
     in bindE (commit_fences (db\<lparr>db_geofences := db_geofences db @ [g]\<rparr>))
          (\<lambda>db'. Inr (read_geofence_for_client env db' (gf_id g) client_id, db')))"

record fence_update =
  fu_name :: "string option option"
  fu_description :: "string option option"
  fu_active :: "bool option option"
  fu_shape :: "multipolygon option option"

definition apply_fence_update :: "fence_env \<Rightarrow> fence_update \<Rightarrow> geofence \<Rightarrow> geofence" where
  "apply_fence_update env u g =
     (let g1 = (case fu_name u of Some (Some n) \<Rightarrow> g\<lparr>gf_name := n\<rparr> | _ \<Rightarrow> g);
          g2 = (case fu_description u of None \<Rightarrow> g1 | Some x \<Rightarrow> g1\<lparr>gf_description := x\<rparr>);
          g3 = (case fu_active u of Some (Some b) \<Rightarrow> g2\<lparr>gf_active := b\<rparr> | _ \<Rightarrow> g2)
      in (case fu_shape u of
            Some (Some s) \<Rightarrow> g3\<lparr>gf_shape := stored_shape env s, gf_updated_at := fe_now env\<rparr>
          | _ \<Rightarrow> if g3 = g then g else g3\<lparr>gf_updated_at := fe_now env\<rparr>))"

definition update_geofence :: "fence_env \<Rightarrow> nat \<Rightarrow> nat \<Rightarrow> fence_update \<Rightarrow> (tlrs_db, py_exc, fence_read option) act" where
  "update_geofence env geofence_id client_id u = transact (\<lambda>db.
     case get_geofence_for_client db geofence_id client_id of
       None \<Rightarrow> Inr (None, db)
     | Some g \<Rightarrow>
         if fu_name u = Some None \<or> fu_active u = Some None then Inl (Integrity_Error ''geofences'')
         else bindE (commit_fences (db\<lparr>db_geofences := put gf_id (apply_fence_update env u g) (db_geofences db)\<rparr>))
           (\<lambda>db'. Inr (read_geofence_for_client env db' geofence_id client_id, db')))"

definition delete_geofence :: "fence_env \<Rightarrow> nat \<Rightarrow> nat \<Rightarrow> (tlrs_db, py_exc, bool) act" where
  "delete_geofence env geofence_id client_id = transact (\<lambda>db.
     case get_geofence_for_client db geofence_id client_id of
       None \<Rightarrow> Inr (False, db)
     | Some g \<Rightarrow>
         bindE (commit_fences (db\<lparr>db_geofences := put gf_id (g\<lparr>gf_deleted := CHR ''Y'', gf_active := False,
             gf_updated_at := fe_now env\<rparr>) (db_geofences db)\<rparr>))
           (\<lambda>db'. Inr (True, db')))"

definition set_geofence_active :: "fence_env \<Rightarrow> nat \<Rightarrow> nat \<Rightarrow> bool \<Rightarrow> (tlrs_db, py_exc, fence_read option) act" where
  "set_geofence_active env geofence_id client_id active = transact (\<lambda>db.
     case get_geofence_for_client db geofence_id client_id of
       None \<Rightarrow> Inr (None, db)
     | Some g \<Rightarrow>
         bindE (commit_fences (db\<lparr>db_geofences := put gf_id (if gf_active g = active then g
             else g\<lparr>gf_active := active, gf_updated_at := fe_now env\<rparr>) (db_geofences db)\<rparr>))
           (\<lambda>db'. Inr (read_geofence_for_client env db' geofence_id client_id, db')))"

subsection \<open>Direct assignments\<close>

definition assign_assets ::
  "fence_env \<Rightarrow> nat \<Rightarrow> nat \<Rightarrow> nat list \<Rightarrow> (tlrs_db, py_exc, (geofence_assignment list \<times> nat list) option) act" where
  "assign_assets env geofence_id client_id asset_ids = transact (\<lambda>db.
     case get_geofence_for_client db geofence_id client_id of
       None \<Rightarrow> Inr (None, db)
     | Some g \<Rightarrow>
         (let missing = filter (\<lambda>i. i \<notin> client_assets db client_id) asset_ids
          in if missing \<noteq> [] then Inr (Some ([], missing), db)
             else
               (let existing = filter (\<lambda>x. ga_fence_id x = geofence_id \<and> ga_asset_id x \<in> set asset_ids \<and> assignment_live x)
                      (db_geofence_assignments db);
                    new = filter (\<lambda>i. i \<notin> ga_asset_id ` set existing) asset_ids;
                    rows = add_rows ga_id (\<lambda>n i a. new_fence_assignment (fe_stamp env n) i (geofence_id, a)) 0 new
                      (db_geofence_assignments db)
                in bindE (commit_fences (db\<lparr>db_geofence_assignments := rows\<rparr>)) (\<lambda>db'.
                     Inr (Some (map (\<lambda>i. the (find (\<lambda>x. ga_asset_id x = i)
                       (rev (existing @ drop (length (db_geofence_assignments db)) rows)))) asset_ids, []), db')))))"

definition get_assignments :: "tlrs_db \<Rightarrow> nat \<Rightarrow> nat \<Rightarrow> geofence_assignment list option" where
  "get_assignments db geofence_id client_id =
     (case get_geofence_for_client db geofence_id client_id of
        None \<Rightarrow> None
      | Some g \<Rightarrow> Some (sort_key (\<lambda>x. - ga_assigned_at x)
          (filter (\<lambda>x. ga_fence_id x = geofence_id \<and> ga_deleted x = CHR ''N'') (db_geofence_assignments db))))"

definition client_assignment :: "tlrs_db \<Rightarrow> nat \<Rightarrow> nat \<Rightarrow> geofence_assignment option" where
  "client_assignment db assignment_id client_id =
     find (\<lambda>x. ga_id x = assignment_id \<and> ga_deleted x = CHR ''N'' \<and>
       list_ex (\<lambda>g. gf_id g = ga_fence_id x \<and> gf_client_id g = client_id \<and> gf_deleted g = CHR ''N'') (db_geofences db))
       (db_geofence_assignments db)"

text \<open>The clean-up runs before the change is flushed; see \<open>cleanup_effective_states\<close>.\<close>

definition deactivate_assignment :: "fence_env \<Rightarrow> nat \<Rightarrow> nat \<Rightarrow> (tlrs_db, py_exc, geofence_assignment option) act" where
  "deactivate_assignment env assignment_id client_id = transact (\<lambda>db.
     case client_assignment db assignment_id client_id of
       None \<Rightarrow> Inr (None, db)
     | Some x \<Rightarrow>
         (let x' = end_fence_assignment (fe_now env) x;
              db1 = snd (delete_state_if_unassigned (ga_fence_id x) (ga_asset_id x) db)
          in bindE (commit_fences (db1\<lparr>db_geofence_assignments := put ga_id x' (db_geofence_assignments db)\<rparr>))
               (\<lambda>db'. Inr (Some x', db'))))"

subsection \<open>Details\<close>

record direct_summary =
  ds_id :: nat
  ds_asset_id :: nat
  ds_asset_type :: string
  ds_asset_serial :: string
  ds_active :: bool
  ds_assigned_at :: int
  ds_unassigned_at :: "int option"

definition get_direct_assignment_summaries :: "tlrs_db \<Rightarrow> nat \<Rightarrow> direct_summary list" where
  "get_direct_assignment_summaries db geofence_id = sort_key (\<lambda>x. - ds_assigned_at x)
     [\<lparr>ds_id = ga_id x, ds_asset_id = ga_asset_id x, ds_asset_type = a_type a, ds_asset_serial = a_serial a,
       ds_active = ga_active x, ds_assigned_at = ga_assigned_at x, ds_unassigned_at = ga_unassigned_at x\<rparr>.
      x \<leftarrow> db_geofence_assignments db, ga_fence_id x = geofence_id \<and> assignment_live x,
      a \<leftarrow> db_assets db, a_id a = ga_asset_id x \<and> a_deleted a = CHR ''N'']"

record group_assignment_summary =
  gas_id :: nat
  gas_group_id :: nat
  gas_name :: string
  gas_description :: "string option"
  gas_group_active :: bool
  gas_active :: bool
  gas_assigned_at :: int
  gas_unassigned_at :: "int option"

definition get_asset_group_assignment_summaries :: "tlrs_db \<Rightarrow> nat \<Rightarrow> group_assignment_summary list" where
  "get_asset_group_assignment_summaries db geofence_id = sort_key (\<lambda>x. - gas_assigned_at x)
     [\<lparr>gas_id = gg_id x, gas_group_id = gg_group_id x, gas_name = ag_name g, gas_description = ag_description g,
       gas_group_active = ag_active g, gas_active = gg_active x, gas_assigned_at = gg_assigned_at x,
       gas_unassigned_at = gg_unassigned_at x\<rparr>.
      x \<leftarrow> db_fence_groups db, gg_geofence_id x = geofence_id \<and> fence_group_live x,
      g \<leftarrow> db_asset_groups db, ag_id g = gg_group_id x \<and> ag_deleted g = CHR ''N'']"

text \<open>The assets of the detail page: the same union as the evaluation's, but of an inactive geofence too.\<close>

definition effective_asset_ids :: "tlrs_db \<Rightarrow> nat \<Rightarrow> nat set" where
  "effective_asset_ids db geofence_id =
     set [ga_asset_id x. x \<leftarrow> db_geofence_assignments db, ga_fence_id x = geofence_id \<and> assignment_live x,
       a \<leftarrow> db_assets db, a_id a = ga_asset_id x \<and> a_deleted a = CHR ''N''] \<union>
     set [agm_asset_id m. x \<leftarrow> db_fence_groups db, gg_geofence_id x = geofence_id \<and> fence_group_live x,
       g \<leftarrow> db_asset_groups db, ag_id g = gg_group_id x \<and> ag_deleted g = CHR ''N'' \<and> ag_active g,
       m \<leftarrow> db_group_members db, agm_group_id m = ag_id g \<and> member_live m,
       a \<leftarrow> db_assets db, a_id a = agm_asset_id m \<and> a_deleted a = CHR ''N'']"

definition get_effective_asset_summaries :: "tlrs_db \<Rightarrow> nat \<Rightarrow> asset list" where
  "get_effective_asset_summaries db geofence_id =
     sort_key a_id (filter (\<lambda>a. a_id a \<in> effective_asset_ids db geofence_id) (db_assets db))"

record fence_detail =
  fd_fence :: fence_read
  fd_direct :: "direct_summary list"
  fd_groups :: "group_assignment_summary list"
  fd_effective :: "asset list"
  fd_totals :: "nat \<times> nat \<times> nat"

definition get_geofence_detail_for_client :: "fence_env \<Rightarrow> tlrs_db \<Rightarrow> nat \<Rightarrow> nat \<Rightarrow> fence_detail option" where
  "get_geofence_detail_for_client env db geofence_id client_id =
     map_option (\<lambda>f. let d = get_direct_assignment_summaries db geofence_id;
           g = get_asset_group_assignment_summaries db geofence_id;
           e = get_effective_asset_summaries db geofence_id
         in \<lparr>fd_fence = f, fd_direct = d, fd_groups = g, fd_effective = e, fd_totals = (length d, length g, length e)\<rparr>)
       (read_geofence_for_client env db geofence_id client_id)"

subsection \<open>Events\<close>

datatype time_filter = TODAY | LAST_7_DAYS | ALL_TIMES
datatype relevance_filter = ALL_EVENTS | IMPORTANT_ONLY

definition day_start :: "int \<Rightarrow> int" where
  "day_start t = t - t mod 86400000000"

definition event_matches ::
  "int \<Rightarrow> tlrs_db \<Rightarrow> nat \<Rightarrow> time_filter \<Rightarrow> relevance_filter \<Rightarrow> fence_event_type option \<Rightarrow> geofence_event \<Rightarrow> bool" where
  "event_matches now db client_id tf rf event_type e \<longleftrightarrow>
     list_ex (\<lambda>g. gf_id g = ge_fence_id e \<and> gf_client_id g = client_id \<and> gf_deleted g = CHR ''N'') (db_geofences db) \<and>
     (case tf of TODAY \<Rightarrow> ge_created_at e \<ge> day_start now
      | LAST_7_DAYS \<Rightarrow> ge_created_at e \<ge> now - 7 * 86400000000 | ALL_TIMES \<Rightarrow> True) \<and>
     (rf = IMPORTANT_ONLY \<longrightarrow> ge_event_type e \<in> {EV_EXITED, EV_NEAR_LIMIT}) \<and>
     (case event_type of None \<Rightarrow> True | Some t \<Rightarrow> ge_event_type e = t)"

record event_read =
  er_event :: geofence_event
  er_fence_name :: string
  er_device :: "string \<times> string"
  er_asset_type :: "string option"

definition get_events_by_client_id ::
  "int \<Rightarrow> tlrs_db \<Rightarrow> nat \<Rightarrow> nat \<Rightarrow> nat \<Rightarrow> time_filter \<Rightarrow> relevance_filter \<Rightarrow> fence_event_type option \<Rightarrow> event_read list" where
  "get_events_by_client_id now db client_id skip limit tf rf event_type =
     take limit (drop skip (sort_key (\<lambda>x. - ge_created_at (er_event x))
       [\<lparr>er_event = e, er_fence_name = gf_name g, er_device = (d_name d, d_serial d), er_asset_type = a\<rparr>.
        e \<leftarrow> filter (event_matches now db client_id tf rf event_type) (db_geofence_events db),
        g \<leftarrow> db_geofences db, gf_id g = ge_fence_id e,
        d \<leftarrow> db_devices db, d_id d = ge_device_id e,
        a \<leftarrow> (case filter (\<lambda>a. Some (a_id a) = ge_asset_id e) (db_assets db) of [] \<Rightarrow> [None] | as \<Rightarrow> map (\<lambda>a. Some (a_type a)) as)]))"

record event_stats =
  st_total :: nat
  st_near_limit :: nat
  st_exited :: nat
  st_returned :: nat
  st_gps_unknown :: nat

definition get_event_stats_by_client_id ::
  "int \<Rightarrow> tlrs_db \<Rightarrow> nat \<Rightarrow> time_filter \<Rightarrow> relevance_filter \<Rightarrow> fence_event_type option \<Rightarrow> event_stats" where
  "get_event_stats_by_client_id now db client_id tf rf event_type =
     (let es = filter (event_matches now db client_id tf rf event_type) (db_geofence_events db);
          count = (\<lambda>t. length (filter (\<lambda>e. ge_event_type e = t) es))
      in \<lparr>st_total = length es, st_near_limit = count EV_NEAR_LIMIT, st_exited = count EV_EXITED,
          st_returned = count EV_RETURNED, st_gps_unknown = count EV_GPS_UNCERTAIN\<rparr>)"

definition create_geofence_event :: "(nat \<Rightarrow> geofence_event) \<Rightarrow> tlrs_db \<Rightarrow> geofence_event \<times> tlrs_db" where
  "create_geofence_event payload db =
     (let e = payload (fresh ge_id (db_geofence_events db)) in (e, db\<lparr>db_geofence_events := db_geofence_events db @ [e]\<rparr>))"

subsection \<open>Direct assignments, as links\<close>

lemma commit_fences_Inr: "commit_fences db = Inr db' \<longleftrightarrow> db' = db \<and> fence_constraints db"
  by (auto simp: commit_fences_def)

lemma add_rows_new:
  obtains new where "add_rows key mk n xs rows = rows @ new" "\<forall>x \<in> set new. \<exists>n i y. y \<in> set xs \<and> x = mk n i y"
    "\<forall>y \<in> set xs. \<exists>n i. mk n i y \<in> set new"
proof -
  have "\<exists>new. add_rows key mk n xs rows = rows @ new \<and> (\<forall>x \<in> set new. \<exists>n i y. y \<in> set xs \<and> x = mk n i y) \<and>
      (\<forall>y \<in> set xs. \<exists>n i. mk n i y \<in> set new)"
  proof (induction xs arbitrary: n rows)
    case (Cons y ys)
    let ?x = "mk n (fresh key rows) y"
    from Cons.IH [of "Suc n" "rows @ [?x]"] obtain new where new: "add_rows key mk (Suc n) ys (rows @ [?x]) = (rows @ [?x]) @ new"
      "\<forall>x \<in> set new. \<exists>n i y. y \<in> set ys \<and> x = mk n i y" "\<forall>y \<in> set ys. \<exists>n i. mk n i y \<in> set new" by blast
    then have "add_rows key mk n (y # ys) rows = rows @ (?x # new)" by simp
    moreover have "\<forall>x \<in> set (?x # new). \<exists>n i z. z \<in> set (y # ys) \<and> x = mk n i z" using new(2) by (simp, blast)
    moreover have "\<forall>z \<in> set (y # ys). \<exists>n i. mk n i z \<in> set (?x # new)" using new(3) by (simp, blast)
    ultimately show ?case by blast
  qed simp
  with that show thesis by blast
qed

lemma found_fence: "get_geofence_for_client db f c = Some g \<Longrightarrow> g \<in> set (db_geofences db) \<and> gf_id g = f \<and> gf_client_id g = c \<and> gf_deleted g = CHR ''N''"
  unfolding get_geofence_for_client_def find_Some_iff by auto

lemma assign_assets_cases:
  assumes "assign_assets env f c ids db = (Inr (Some (xs, [])), db')"
  shows "fence_asset_links db' = fence_asset_links db \<union> {f} \<times> set ids" "map (\<lambda>x. (ga_fence_id x, ga_asset_id x)) xs = map (Pair f) ids"
    "set ids \<subseteq> client_assets db c" "(f, c) \<in> fence_clients db"
    "db' = db\<lparr>db_geofence_assignments := db_geofence_assignments db'\<rparr>" "fence_constraints db'"
proof -
  define existing where "existing = filter (\<lambda>x. ga_fence_id x = f \<and> ga_asset_id x \<in> set ids \<and> assignment_live x) (db_geofence_assignments db)"
  define add where "add = filter (\<lambda>i. i \<notin> ga_asset_id ` set existing) ids"
  define rows where "rows = add_rows ga_id (\<lambda>n i a. new_fence_assignment (fe_stamp env n) i (f, a)) 0 add (db_geofence_assignments db)"
  let ?found = "\<lambda>i. find (\<lambda>x. ga_asset_id x = i) (rev (existing @ drop (length (db_geofence_assignments db)) rows))"
  obtain g where g: "get_geofence_for_client db f c = Some g" using assms by (auto simp: assign_assets_def transact_Inr split: option.splits)
  have valid: "filter (\<lambda>i. i \<notin> client_assets db c) ids = []"
    using assms g by (auto simp: assign_assets_def transact_Inr Let_def split: if_splits)
  have "commit_fences (db\<lparr>db_geofence_assignments := rows\<rparr>) = Inr db' \<and> xs = map (\<lambda>i. the (?found i)) ids"
    using assms g valid unfolding assign_assets_def transact_Inr by (auto simp: Let_def res_simps existing_def add_def rows_def)
  then have db': "db' = db\<lparr>db_geofence_assignments := rows\<rparr>" "fence_constraints db'" and xs: "xs = map (\<lambda>i. the (?found i)) ids"
    by (auto simp: commit_fences_Inr)
  show "fence_constraints db'" by (rule db')
  show "db' = db\<lparr>db_geofence_assignments := db_geofence_assignments db'\<rparr>" by (simp add: db')
  show "(f, c) \<in> fence_clients db" by (rule fence_client [OF g])
  show "set ids \<subseteq> client_assets db c" using valid by (auto simp: filter_empty_conv)
  have "fence_assets.links rows = fence_asset_links db \<union> Pair f ` set add"
    unfolding rows_def fence_asset_links_def by (rule fence_assets.links_add_rows)
  moreover have "(f, a) \<in> fence_asset_links db" if "a \<in> set ids" "a \<notin> set add" for a
    using that by (auto simp: add_def existing_def fence_asset_links_def fence_assets.links_iff)
  moreover have "set add \<subseteq> set ids" by (auto simp: add_def)
  ultimately have "fence_assets.links rows = fence_asset_links db \<union> {f} \<times> set ids" by auto
  then show "fence_asset_links db' = fence_asset_links db \<union> {f} \<times> set ids" by (simp add: db'(1) fence_asset_links_def)
  obtain new where new: "rows = db_geofence_assignments db @ new"
    "\<forall>x \<in> set new. \<exists>n i y. y \<in> set add \<and> x = new_fence_assignment (fe_stamp env n) i (f, y)"
    "\<forall>y \<in> set add. \<exists>n i. new_fence_assignment (fe_stamp env n) i (f, y) \<in> set new"
    unfolding rows_def by (rule add_rows_new)
  have "ga_fence_id (the (?found a)) = f \<and> ga_asset_id (the (?found a)) = a" if a: "a \<in> set ids" for a
  proof -
    have "\<exists>x \<in> set (existing @ new). ga_asset_id x = a"
    proof (cases "a \<in> set add")
      case True
      with new(3) obtain n i where "new_fence_assignment (fe_stamp env n) i (f, a) \<in> set new" by blast
      then show ?thesis by (intro bexI [of _ "new_fence_assignment (fe_stamp env n) i (f, a)"]) (simp_all add: new_fence_assignment_def)
    next
      case False
      with a show ?thesis by (auto simp: add_def)
    qed
    then have "?found a \<noteq> None" by (auto simp: find_None_iff new(1))
    then obtain x where x: "?found a = Some x" by blast
    from find_member [OF this] have "x \<in> set (existing @ new)" "ga_asset_id x = a" by (auto simp: new(1))
    moreover have "\<forall>y \<in> set (existing @ new). ga_fence_id y = f" using new(2) by (auto simp: existing_def new_fence_assignment_def)
    ultimately show ?thesis using x by auto
  qed
  then show "map (\<lambda>x. (ga_fence_id x, ga_asset_id x)) xs = map (Pair f) ids" by (simp add: xs)
qed

lemma deactivate_cases:
  assumes "distinct (map ga_id (db_geofence_assignments db))" "fence_constraints db"
    and "deactivate_assignment env i c db = (Inr (Some x'), db')"
  obtains x where "x \<in> set (db_geofence_assignments db)" "ga_id x = i" "(ga_fence_id x, c) \<in> fence_clients db"
    "fence_asset_links db' = fence_asset_links db - (if assignment_live x then {(ga_fence_id x, ga_asset_id x)} else {})"
    "db_asset_states db' = db_asset_states (cleanup_effective_states [(ga_fence_id x, ga_asset_id x)] db)"
    "db' = db\<lparr>db_geofence_assignments := db_geofence_assignments db', db_asset_states := db_asset_states db'\<rparr>"
proof -
  let ?rows = "db_geofence_assignments db"
  obtain x where x: "client_assignment db i c = Some x"
    using assms(3) by (auto simp: deactivate_assignment_def transact_Inr split: option.splits)
  then have in_rows: "x \<in> set ?rows" "ga_id x = i" "ga_deleted x = CHR ''N''" "(ga_fence_id x, c) \<in> fence_clients db"
    unfolding client_assignment_def by (auto dest!: find_member simp: list_ex_iff fence_clients_def intro: rev_image_eqI)
  let ?x = "end_fence_assignment (fe_now env) x"
  have db': "db' = cleanup_effective_states [(ga_fence_id x, ga_asset_id x)] db\<lparr>db_geofence_assignments := put ga_id ?x ?rows\<rparr>"
    using assms(3) x by (auto simp: deactivate_assignment_def transact_Inr Let_def res_simps commit_fences_Inr cleanup_effective_states_def)
  have rows: "set (put ga_id ?x ?rows) = insert ?x (set ?rows - {x})"
    by (rule set_put [OF assms(1) in_rows(1)]) (simp add: end_fence_assignment_def)
  have unique: "y = x" if "y \<in> set ?rows" "assignment_live y" "assignment_live x" "(ga_fence_id y, ga_asset_id y) = (ga_fence_id x, ga_asset_id x)" for y
  proof -
    have "distinct (map (\<lambda>x. (ga_fence_id x, ga_asset_id x)) (filter assignment_live ?rows))"
      using assms(2) by (simp add: fence_constraints_def partial_unique_def)
    then show ?thesis by (rule same_key_same_row) (use that in_rows in simp_all)
  qed
  have dead: "\<not> assignment_live ?x" by (rule fence_assets.end_of)
  have "fence_assets.links (put ga_id ?x ?rows) = fence_assets.links ?rows - (if assignment_live x then {(ga_fence_id x, ga_asset_id x)} else {})"
  proof (cases "assignment_live x")
    case True
    then show ?thesis unfolding fence_assets.links_def rows using dead unique by fastforce
  next
    case False
    then show ?thesis unfolding fence_assets.links_def rows using dead False by auto
  qed
  then show thesis
    by (intro that [OF in_rows(1,2,4)]) (simp_all add: db' fence_asset_links_def, subst cleanup_frame, simp)
qed

text \<open>
  Property C22. Assigning assets to a geofence links exactly the assets asked for, answers them
  in the order of the request and touches only assets and a geofence of the caller's client;
  ending an assignment unlinks exactly its pair when the row was live and nothing when it had
  ended before, for an assignment of the caller's client.
\<close>
theorem direct_assignments_refine:
  assumes "distinct (map ga_id (db_geofence_assignments db))" "fence_constraints db"
  shows "(assign_assets env f c ids db = (Inr (Some (xs, [])), db') \<longrightarrow>
      fence_asset_links db' = fence_asset_links db \<union> {f} \<times> set ids \<and> map (\<lambda>x. (ga_fence_id x, ga_asset_id x)) xs = map (Pair f) ids \<and>
      set ids \<subseteq> client_assets db c \<and> (f, c) \<in> fence_clients db) \<and>
    (deactivate_assignment env i c db = (Inr (Some x'), db') \<longrightarrow>
      (\<exists>x \<in> set (db_geofence_assignments db). ga_id x = i \<and> (ga_fence_id x, c) \<in> fence_clients db \<and>
         fence_asset_links db' = fence_asset_links db - (if assignment_live x then {(ga_fence_id x, ga_asset_id x)} else {})))"
proof (intro conjI impI)
  assume run: "assign_assets env f c ids db = (Inr (Some (xs, [])), db')"
  note r = assign_assets_cases [OF run]
  show "fence_asset_links db' = fence_asset_links db \<union> {f} \<times> set ids" by (rule r)
  show "map (\<lambda>x. (ga_fence_id x, ga_asset_id x)) xs = map (Pair f) ids" by (rule r)
  show "set ids \<subseteq> client_assets db c" "(f, c) \<in> fence_clients db" by (rule r)+
next
  assume "deactivate_assignment env i c db = (Inr (Some x'), db')"
  with assms show "\<exists>x \<in> set (db_geofence_assignments db). ga_id x = i \<and> (ga_fence_id x, c) \<in> fence_clients db \<and>
      fence_asset_links db' = fence_asset_links db - (if assignment_live x then {(ga_fence_id x, ga_asset_id x)} else {})"
    by (rule deactivate_cases) blast
qed

definition sample_fence_env :: fence_env where
  "sample_fence_env = \<lparr>fe_now = 5, fe_stamp = (\<lambda>_. 5), fe_float = (\<lambda>_. ''0''), fe_parse_wkt = (\<lambda>_. []), fe_geojson = (\<lambda>s. s)\<rparr>"

definition fenced_db :: tlrs_db where
  "fenced_db = idle_db\<lparr>db_geofences := [sample_fence]\<rparr>"

lemma client_assets_code:
  "client_assets db c = set (map a_id (filter (\<lambda>a. a_client_id a = Some c \<and> a_deleted a = CHR ''N'') (db_assets db)))"
  by (simp add: client_assets_def)

lemma fenced_assets: "client_assets fenced_db 1 = {7}"
  by (simp only: client_assets_code fenced_db_def idle_db_def) simp

lemma assignment_runs: "\<exists>xs db'. assign_assets sample_fence_env 1 1 [7] fenced_db = (Inr (Some (xs, [])), db')"
  using fenced_assets by (simp add: assign_assets_def transact_def get_geofence_for_client_def fenced_db_def sample_fence_def
      idle_db_def empty_db_def commit_fences_def fence_constraints_def partial_unique_def new_fence_assignment_def Let_def
      assignment_live_def)

theorem direct_assignments_refine_witness:
  "\<exists>xs db'. assign_assets sample_fence_env 1 1 [7] fenced_db = (Inr (Some (xs, [])), db') \<and>
     fence_asset_links db' = fence_asset_links fenced_db \<union> {(1, 7)}"
proof -
  obtain xs db' where run: "assign_assets sample_fence_env 1 1 [7] fenced_db = (Inr (Some (xs, [])), db')"
    using assignment_runs by blast
  have "distinct (map ga_id (db_geofence_assignments fenced_db))" "fence_constraints fenced_db"
    by (simp_all add: fenced_db_def idle_db_def empty_db_def fence_constraints_def partial_unique_def)
  from direct_assignments_refine [OF this, of sample_fence_env 1 1 "[7]" xs db'] run show ?thesis by auto
qed

subsection \<open>States outlive their membership\<close>

lemma group_op_states:
  assumes "run_group_op stamp now op db = (ok, db')"
  obtains ps where "db_asset_states db' = db_asset_states (cleanup_effective_states ps db)"
proof -
  have none: "db_asset_states db = db_asset_states (cleanup_effective_states [] db)" by (simp add: cleanup_effective_states_def)
  have "\<exists>ps. db_asset_states db' = db_asset_states (cleanup_effective_states ps db)"
  proof (cases op)
    case (Create c name desc ids)
    from assms [unfolded Create run_group_op.simps] none show ?thesis
      by (cases rule: outcome_cases) (auto simp: create_asset_group_def transact_Inr res_simps Let_def group_commit_Inr dest!: transact_Inl)
  next
    case (Add g c ids)
    from assms [unfolded Add run_group_op.simps] none show ?thesis
      by (cases rule: outcome_cases)
        (auto simp: add_members_def transact_Inr res_simps Let_def group_commit_Inr dest!: transact_Inl split: option.splits)
  next
    case (Remove g c ids)
    from assms [unfolded Remove run_group_op.simps] none show ?thesis
      by (cases rule: outcome_cases)
        (auto simp: remove_members_def transact_Inr res_simps Let_def group_commit_Inr dest!: transact_Inl split: option.splits)
  next
    case (Update g c u)
    from assms [unfolded Update run_group_op.simps] none show ?thesis
      by (cases rule: outcome_cases)
        (auto simp: update_asset_group_def replace_members_def transact_Inr res_simps Let_def group_commit_Inr dest!: transact_Inl
          split: option.splits if_splits)
  next
    case (Activate g c b)
    from assms [unfolded Activate run_group_op.simps] none show ?thesis
      by (cases rule: outcome_cases)
        (auto simp: set_asset_group_active_def transact_Inr res_simps Let_def group_commit_Inr dest!: transact_Inl split: option.splits)
  next
    case (Assign f c ids)
    obtain r where "assign_groups_to_geofence stamp f c ids db = (r, db')" using assms Assign by (auto split: prod.splits)
    with none show ?thesis
      by (cases r) (auto simp: assign_groups_to_geofence_def transact_Inr res_simps Let_def group_commit_Inr dest!: transact_Inl
          split: option.splits)
  next
    case (Unassign f c ids)
    obtain r where "remove_groups_from_geofence now f c ids db = (r, db')" using assms Unassign by (auto split: prod.splits)
    with none show ?thesis
      by (cases r) (auto simp: remove_groups_from_geofence_def transact_Inr res_simps Let_def group_commit_Inr dest!: transact_Inl
          split: option.splits)
  qed
  with that show thesis by blast
qed

text \<open>
  The clean-up of states never cleans up: its queries run before the change they
  should see is flushed, so when a membership ends - by removing, replacing or switching off
  group members, by taking a group out of a geofence, by ending an assignment - the state of
  every pair that was in the geofence stays; an asset put back later is judged against it.
\<close>
theorem ended_membership_keeps_state:
  assumes "distinct (map gs_id (db_asset_states db))" "has_effective_assignment db f a"
    and "distinct (map ga_id (db_geofence_assignments db))" "fence_constraints db"
    and "run_group_op stamp now op db = (ok, db') \<or> deactivate_assignment env i c db = (Inr (Some x), db')"
  shows "find_state db' f a = find_state db f a"
proof -
  obtain ps where "db_asset_states db' = db_asset_states (cleanup_effective_states ps db)"
    using assms(5)
  proof
    assume "run_group_op stamp now op db = (ok, db')"
    then show thesis by (rule group_op_states) (rule that)
  next
    assume "deactivate_assignment env i c db = (Inr (Some x), db')"
    with assms(3,4) show thesis by (rule deactivate_cases) (rule that)
  qed
  then have "find_state db' f a = find_state (cleanup_effective_states ps db) f a" by (simp add: find_state_def)
  also have "\<dots> = find_state db f a" by (rule cleanup_keeps_state [OF assms(2,1)])
  finally show ?thesis .
qed

theorem ended_membership_keeps_state_witness:
  "\<exists>db'. run_group_op (\<lambda>_. 5) 5 (Remove 1 1 [7]) grouped_db = (True, db') \<and> \<not> has_effective_assignment db' 1 7 \<and>
     find_state db' 1 7 = Some sample_state"
proof -
  obtain db' where run: "run_group_op (\<lambda>_. 5) 5 (Remove 1 1 [7]) grouped_db = (True, db')"
    using removal_runs by (metis prod.collapse)
  have ids: "distinct (map gs_id (db_asset_states grouped_db))" "distinct (map ga_id (db_geofence_assignments grouped_db))"
    by (simp_all add: grouped_db_def idle_db_def empty_db_def)
  have ok: "fence_constraints grouped_db"
    by (simp add: fence_constraints_def partial_unique_def grouped_db_def idle_db_def empty_db_def)
  have "find_state db' 1 7 = find_state grouped_db 1 7"
    by (rule ended_membership_keeps_state [OF ids(1) grouped_db_effective ids(2) ok disjI1 [OF run]])
  also have "\<dots> = Some sample_state" by (simp add: find_state_def grouped_db_def sample_state_def)
  finally show ?thesis using run removal_ends [OF run] by blast
qed

end
