(* ===== verification/Web_Routes.thy ===== *)
theory Web_Routes
  imports Access_Control
begin

text \<open>
  What the HTTP routes share: the errors they answer with, the \<open>except\<close> chains that map the
  exceptions of the services to them, the 404 of an absent result, and the checks FastAPI makes on
  bodies and page parameters before a route runs.  \<open>Server_Crash\<close> is an exception that no \<open>except\<close>
  clause of the route names (status 500).
\<close>

datatype route_error = Http_Answer nat string "nat list" | Server_Crash

fun route_of_web :: "web_error \<Rightarrow> route_error" where
  "route_of_web (Http_Error code detail) = Http_Answer code detail []"
| "route_of_web (Web_Db e) = Server_Crash"

text \<open>The clauses of an \<open>except\<close> chain, in order.\<close>

fun except_clauses :: "('e \<Rightarrow> route_error option) list \<Rightarrow> 'e \<Rightarrow> route_error" where
  "except_clauses [] e = Server_Crash"
| "except_clauses (h # hs) e = (case h e of Some a \<Rightarrow> a | None \<Rightarrow> except_clauses hs e)"

fun on_integrity :: "string \<Rightarrow> py_exc \<Rightarrow> route_error option" where
  "on_integrity detail (Integrity_Error _) = Some (Http_Answer 409 detail [])"
| "on_integrity detail _ = None"

definition caught :: "('e \<Rightarrow> route_error option) list \<Rightarrow> ('e, 'a) res \<times> 's \<Rightarrow> (route_error, 'a) res \<times> 's" where
  "caught hs p = (case p of (Inl e, s) \<Rightarrow> (Inl (except_clauses hs e), s) | (Inr x, s) \<Rightarrow> (Inr x, s))"

definition or_404 :: "string \<Rightarrow> (route_error, 'a option) res \<times> 's \<Rightarrow> (route_error, 'a) res \<times> 's" where
  "or_404 detail p = (case p of
     (Inl e, s) \<Rightarrow> (Inl e, s)
   | (Inr None, s) \<Rightarrow> (Inl (Http_Answer 404 detail []), s)
   | (Inr (Some x), s) \<Rightarrow> (Inr x, s))"

text \<open>
  What the schemas ask of a body and of the page parameters, checked before the route runs: names
  of 1 to 255 characters, lists of ids without duplicates and with at least \<open>least\<close> members, pages
  of 1 to 500 rows.
\<close>

definition valid_name :: "string \<Rightarrow> bool" where
  "valid_name name \<longleftrightarrow> 1 \<le> length name \<and> length name \<le> 255"

definition valid_ids :: "nat \<Rightarrow> nat list \<Rightarrow> bool" where
  "valid_ids least ids \<longleftrightarrow> least \<le> length ids \<and> length ids = card (set ids)"

definition body_checked :: "bool \<Rightarrow> ('s, route_error, 'a) act \<Rightarrow> ('s, route_error, 'a) act" where
  "body_checked valid k s = (if valid then k s else (Inl (Http_Answer 422 ''Validation error'' []), s))"

definition page_checked :: "int \<Rightarrow> int \<Rightarrow> int \<Rightarrow> (nat \<Rightarrow> nat \<Rightarrow> ('s, route_error, 'a) act) \<Rightarrow> ('s, route_error, 'a) act" where
  "page_checked most skip limit k =
     body_checked (0 \<le> skip \<and> 1 \<le> limit \<and> limit \<le> most) (k (nat skip) (nat limit))"

definition reply :: "('a \<Rightarrow> 'b) \<Rightarrow> ('e, 'a) res \<times> 's \<Rightarrow> ('e, 'b) res \<times> 's" where
  "reply f p = (case p of (Inl e, s) \<Rightarrow> (Inl e, s) | (Inr x, s) \<Rightarrow> (Inr (f x), s))"

lemma snd_reply [simp]: "snd (reply f p) = snd p"
  by (simp add: reply_def split: prod.split sum.split)

lemma snd_caught [simp]: "snd (caught hs p) = snd p"
  by (simp add: caught_def split: prod.split sum.split)

lemma snd_or_404 [simp]: "snd (or_404 d p) = snd p"
  by (simp add: or_404_def split: prod.split sum.split option.split)

lemma snd_body [simp]: "snd (body_checked v k s) = (if v then snd (k s) else s)"
  by (simp add: body_checked_def)

end
