(* ===== verification/Fleet_Api.thy ===== *)
theory Fleet_Api
  imports Geofence_Service Web_Routes
begin

text \<open>
  The HTTP routes of geofences and asset groups, \<open>src/routers/geofence.py\<close> and
  \<open>src/routers/asset_group.py\<close>, with the request checks of their schemas.  A route is an
  operation on the tracking tables that answers a response or an error; the account tables are
  read only.
\<close>

subsection \<open>Guards and error mapping\<close>

definition resolve_client_id :: "string \<Rightarrow> token_data \<Rightarrow> nat option \<Rightarrow> (route_error, nat) res" where
  "resolve_client_id detail td requested =
     (if td_is_admin td \<and> requested \<noteq> None then Inr (the requested)
      else case td_client_id td of Some c \<Rightarrow> Inr c | None \<Rightarrow> Inl (Http_Answer 400 detail []))"

definition permitted_client ::
  "string \<Rightarrow> string \<Rightarrow> accounts \<Rightarrow> token_data \<Rightarrow> nat option \<Rightarrow> (route_error, nat) res" where
  "permitted_client detail service acc td requested =
     (case validate_user_service_access td service acc of
        Inl e \<Rightarrow> Inl (route_of_web e)
      | Inr _ \<Rightarrow> resolve_client_id detail td requested)"

definition fence_client :: "string \<Rightarrow> accounts \<Rightarrow> token_data \<Rightarrow> nat option \<Rightarrow> (route_error, nat) res" where
  "fence_client = permitted_client ''client_id is required for this geofence operation.''"

definition group_client :: "string \<Rightarrow> accounts \<Rightarrow> token_data \<Rightarrow> nat option \<Rightarrow> (route_error, nat) res" where
  "group_client = permitted_client ''client_id is required for this asset group operation.''"

fun group_not_found :: "group_error \<Rightarrow> route_error option" where
  "group_not_found (Group_Not_Found detail) = Some (Http_Answer 404 detail [])"
| "group_not_found _ = None"

fun group_assets_invalid :: "group_error \<Rightarrow> route_error option" where
  "group_assets_invalid (Group_Validation detail asset_ids group_ids) = Some (Http_Answer 404 detail asset_ids)"
| "group_assets_invalid _ = None"

fun group_ids_invalid :: "group_error \<Rightarrow> route_error option" where
  "group_ids_invalid (Group_Validation detail asset_ids group_ids) = Some (Http_Answer 404 detail group_ids)"
| "group_ids_invalid _ = None"

fun group_conflicts :: "group_error \<Rightarrow> route_error option" where
  "group_conflicts (Group_Conflict detail) = Some (Http_Answer 409 detail [])"
| "group_conflicts _ = None"

fun group_integrity :: "string \<Rightarrow> group_error \<Rightarrow> route_error option" where
  "group_integrity detail (Group_Db e) = on_integrity detail e"
| "group_integrity detail _ = None"

definition with_client :: "(route_error, nat) res \<Rightarrow> (nat \<Rightarrow> ('s, route_error, 'a) act) \<Rightarrow> ('s, route_error, 'a) act" where
  "with_client r k s = (case r of Inl e \<Rightarrow> (Inl e, s) | Inr c \<Rightarrow> k c s)"

subsection \<open>States, as the dashboard reads them\<close>

record asset_state_read =
  sr_asset :: "nat \<times> string \<times> string"
  sr_device :: "nat \<times> string \<times> string"
  sr_fence :: "nat \<times> string"
  sr_status :: fence_status
  sr_location :: "nat \<times> py_float \<times> py_float"
  sr_boundary_distance :: "py_float option"
  sr_last_accuracy :: "py_float option"
  sr_evaluated_at :: int

definition asset_states_select :: "tlrs_db \<Rightarrow> (geofence \<Rightarrow> asset \<Rightarrow> bool) \<Rightarrow> asset_state_read list" where
  "asset_states_select db P = sort_key (\<lambda>x. - sr_evaluated_at x)
     [\<lparr>sr_asset = (a_id a, a_type a, a_serial a), sr_device = (d_id d, d_serial d, d_name d),
       sr_fence = (gs_fence_id s, gf_name g), sr_status = gs_status s,
       sr_location = (l_id l, l_latitude l, l_longitude l), sr_boundary_distance = gs_last_distance s,
       sr_last_accuracy = gs_last_accuracy s, sr_evaluated_at = gs_last_evaluated_at s\<rparr>.
      s \<leftarrow> db_asset_states db, m \<leftarrow> effective_memberships db, m = (gs_fence_id s, gs_asset_id s),
      a \<leftarrow> db_assets db, a_id a = gs_asset_id s, d \<leftarrow> db_devices db, d_id d = gs_device_id s,
      g \<leftarrow> db_geofences db, gf_id g = gs_fence_id s, l \<leftarrow> db_locations db, l_id l = gs_last_location_id s, P g a]"

definition asset_state_filters :: "nat \<Rightarrow> nat option \<Rightarrow> geofence \<Rightarrow> asset \<Rightarrow> bool" where
  "asset_state_filters client_id asset_id g a \<longleftrightarrow>
     gf_client_id g = client_id \<and> gf_deleted g = CHR ''N'' \<and> gf_active g \<and> a_deleted a = CHR ''N'' \<and>
     (case asset_id of None \<Rightarrow> True | Some i \<Rightarrow> a_id a = i)"

definition get_asset_states :: "tlrs_db \<Rightarrow> nat \<Rightarrow> nat \<Rightarrow> nat \<Rightarrow> nat \<times> asset_state_read list" where
  "get_asset_states db client_id skip limit =
     (let rows = asset_states_select db (asset_state_filters client_id None)
      in (length rows, take limit (drop skip rows)))"

definition get_asset_states_by_asset_id :: "tlrs_db \<Rightarrow> nat \<Rightarrow> nat \<Rightarrow> (py_exc, asset_state_read list option) res" where
  "get_asset_states_by_asset_id db client_id asset_id =
     bindE (scalar_one_or_none (filter (\<lambda>a. a_id a = asset_id \<and> a_client_id a = Some client_id \<and> a_deleted a = CHR ''N'')
        (db_assets db)))
       (\<lambda>asset. Inr (map_option (\<lambda>_. asset_states_select db (asset_state_filters client_id (Some asset_id))) asset))"

subsection \<open>Routes of geofences\<close>


definition create_geofence_route ::
  "fence_env \<Rightarrow> accounts \<Rightarrow> token_data \<Rightarrow> nat option \<Rightarrow> string \<Rightarrow> string option \<Rightarrow> multipolygon \<Rightarrow> bool
   \<Rightarrow> (tlrs_db, route_error, fence_read option) act" where
  "create_geofence_route env acc td client_id name description shape active =
     body_checked (valid_name name \<and> is_ok (validate_coordinates shape))
     (with_client (fence_client ''geofence:create'' acc td client_id) (\<lambda>c db.
       caught [on_integrity ''Geofence name already exists for this client.'']
         (create_geofence env c name description shape active db)))"

definition get_my_geofences ::
  "fence_env \<Rightarrow> accounts \<Rightarrow> token_data \<Rightarrow> int \<Rightarrow> int \<Rightarrow> (tlrs_db, route_error, fence_read list) act" where
  "get_my_geofences env acc td skip limit =
     page_checked 500 skip limit (\<lambda>skip limit.
     with_client (fence_client ''geofence:get my geofences'' acc td None) (\<lambda>c db.
       (Inr (get_geofences_by_client_id env db c skip limit), db)))"

record event_page =
  ep_total :: nat
  ep_skip :: nat
  ep_limit :: nat
  ep_stats :: event_stats
  ep_items :: "event_read list"

definition get_my_geofence_events ::
  "fence_env \<Rightarrow> accounts \<Rightarrow> token_data \<Rightarrow> int \<Rightarrow> int \<Rightarrow> time_filter \<Rightarrow> relevance_filter \<Rightarrow> fence_event_type option
   \<Rightarrow> (tlrs_db, route_error, event_page) act" where
  "get_my_geofence_events env acc td skip limit tf rf event_type =
     page_checked 500 skip limit (\<lambda>skip limit.
     with_client (fence_client ''geofence:get events'' acc td None) (\<lambda>c db.
       let stats = get_event_stats_by_client_id (fe_now env) db c tf rf event_type;
           items = get_events_by_client_id (fe_now env) db c skip limit tf rf event_type
       in (Inr \<lparr>ep_total = st_total stats, ep_skip = skip, ep_limit = limit, ep_stats = stats, ep_items = items\<rparr>, db)))"

definition get_geofence_route ::
  "fence_env \<Rightarrow> accounts \<Rightarrow> token_data \<Rightarrow> nat \<Rightarrow> (tlrs_db, route_error, fence_detail) act" where
  "get_geofence_route env acc td geofence_id =
     with_client (fence_client ''geofence:get'' acc td None) (\<lambda>c db.
       or_404 ''Geofence not found.'' (Inr (get_geofence_detail_for_client env db geofence_id c), db))"

definition update_geofence_route ::
  "fence_env \<Rightarrow> accounts \<Rightarrow> token_data \<Rightarrow> nat \<Rightarrow> fence_update \<Rightarrow> (tlrs_db, route_error, fence_read) act" where
  "update_geofence_route env acc td geofence_id u =
     body_checked ((case fu_name u of Some (Some n) \<Rightarrow> valid_name n | _ \<Rightarrow> True) \<and>
       (case fu_shape u of Some (Some shape) \<Rightarrow> is_ok (validate_coordinates shape) | _ \<Rightarrow> True))
     (with_client (fence_client ''geofence:update'' acc td None) (\<lambda>c db.
       or_404 ''Geofence not found.''
         (caught [on_integrity ''Geofence name already exists for this client.''] (update_geofence env geofence_id c u db))))"

definition set_geofence_activation ::
  "fence_env \<Rightarrow> accounts \<Rightarrow> token_data \<Rightarrow> nat \<Rightarrow> bool \<Rightarrow> (tlrs_db, route_error, fence_read) act" where
  "set_geofence_activation env acc td geofence_id active =
     with_client (fence_client ''geofence:update'' acc td None) (\<lambda>c db.
       or_404 ''Geofence not found.'' (caught [] (set_geofence_active env geofence_id c active db)))"

definition delete_geofence_route :: "fence_env \<Rightarrow> accounts \<Rightarrow> token_data \<Rightarrow> nat \<Rightarrow> (tlrs_db, route_error, unit) act" where
  "delete_geofence_route env acc td geofence_id =
     with_client (fence_client ''geofence:delete'' acc td None) (\<lambda>c db.
       or_404 ''Geofence not found.'' (case caught [] (delete_geofence env geofence_id c db) of
          (Inl e, db') \<Rightarrow> (Inl e, db')
        | (Inr deleted, db') \<Rightarrow> (Inr (if deleted then Some () else None), db')))"

definition assign_assets_to_geofence ::
  "fence_env \<Rightarrow> accounts \<Rightarrow> token_data \<Rightarrow> nat \<Rightarrow> nat list \<Rightarrow> (tlrs_db, route_error, geofence_assignment list) act" where
  "assign_assets_to_geofence env acc td geofence_id asset_ids = body_checked (valid_ids 1 asset_ids)
     (with_client (fence_client ''geofence:assign asset'' acc td None) (\<lambda>c db.
       case or_404 ''Geofence not found.''
           (caught [on_integrity ''One or more assets are already assigned to this geofence.'']
             (assign_assets env geofence_id c asset_ids db)) of
         (Inl e, db') \<Rightarrow> (Inl e, db')
       | (Inr (assignments, missing), db') \<Rightarrow>
           if missing \<noteq> [] then (Inl (Http_Answer 404 ''One or more assets were not found for this client.'' missing), db')
           else (Inr assignments, db')))"

definition get_geofence_assignments ::
  "accounts \<Rightarrow> token_data \<Rightarrow> nat \<Rightarrow> (tlrs_db, route_error, geofence_assignment list) act" where
  "get_geofence_assignments acc td geofence_id =
     with_client (fence_client ''geofence:get assignments'' acc td None) (\<lambda>c db.
       or_404 ''Geofence not found.'' (Inr (get_assignments db geofence_id c), db))"

definition assign_asset_groups_to_geofence ::
  "fence_env \<Rightarrow> accounts \<Rightarrow> token_data \<Rightarrow> nat \<Rightarrow> nat list \<Rightarrow> (tlrs_db, route_error, fence_group list) act" where
  "assign_asset_groups_to_geofence env acc td geofence_id asset_group_ids = body_checked (valid_ids 1 asset_group_ids)
     (with_client (fence_client ''geofence:assign asset group'' acc td None) (\<lambda>c db.
       caught [group_not_found, group_ids_invalid, group_conflicts,
           group_integrity ''One or more asset groups are already assigned to this geofence.'']
         (assign_groups_to_geofence (fe_stamp env) geofence_id c asset_group_ids db)))"

definition remove_asset_groups_from_geofence ::
  "fence_env \<Rightarrow> accounts \<Rightarrow> token_data \<Rightarrow> nat \<Rightarrow> nat list \<Rightarrow> (tlrs_db, route_error, fence_group list) act" where
  "remove_asset_groups_from_geofence env acc td geofence_id asset_group_ids = body_checked (valid_ids 1 asset_group_ids)
     (with_client (fence_client ''geofence:remove asset group'' acc td None) (\<lambda>c db.
       caught [group_not_found] (remove_groups_from_geofence (fe_now env) geofence_id c asset_group_ids db)))"

definition deactivate_geofence_assignment ::
  "fence_env \<Rightarrow> accounts \<Rightarrow> token_data \<Rightarrow> nat \<Rightarrow> (tlrs_db, route_error, geofence_assignment) act" where
  "deactivate_geofence_assignment env acc td assignment_id =
     with_client (fence_client ''geofence:deactivate assignment'' acc td None) (\<lambda>c db.
       or_404 ''Assignment not found.'' (caught [] (deactivate_assignment env assignment_id c db)))"

record state_page =
  sp_total :: nat
  sp_skip :: nat
  sp_limit :: nat
  sp_items :: "asset_state_read list"

definition get_my_asset_states ::
  "accounts \<Rightarrow> token_data \<Rightarrow> int \<Rightarrow> int \<Rightarrow> (tlrs_db, route_error, state_page) act" where
  "get_my_asset_states acc td skip limit =
     page_checked 500 skip limit (\<lambda>skip limit.
     with_client (fence_client ''geofence:get events'' acc td None) (\<lambda>c db.
       case get_asset_states db c skip limit of
         (n, items) \<Rightarrow> (Inr \<lparr>sp_total = n, sp_skip = skip, sp_limit = limit, sp_items = items\<rparr>, db)))"

definition get_asset_states_by_asset_id_route ::
  "accounts \<Rightarrow> token_data \<Rightarrow> nat \<Rightarrow> (tlrs_db, route_error, asset_state_read list) act" where
  "get_asset_states_by_asset_id_route acc td asset_id =
     with_client (fence_client ''geofence:get events'' acc td None) (\<lambda>c db.
       or_404 ''Asset not found.'' (caught [] (get_asset_states_by_asset_id db c asset_id, db)))"

subsection \<open>Routes of asset groups\<close>

definition create_asset_group_route ::
  "fence_env \<Rightarrow> accounts \<Rightarrow> token_data \<Rightarrow> nat option \<Rightarrow> string \<Rightarrow> string option \<Rightarrow> nat list option
   \<Rightarrow> (tlrs_db, route_error, group_detail option) act" where
  "create_asset_group_route env acc td client_id name description asset_ids =
     body_checked (valid_name name \<and> valid_ids 0 (case asset_ids of None \<Rightarrow> [] | Some l \<Rightarrow> l))
     (with_client (group_client ''asset-group:create'' acc td client_id) (\<lambda>c db.
       caught [group_assets_invalid, group_integrity ''Asset group name already exists for this client.'']
         (create_asset_group (fe_stamp env) c name description asset_ids db)))"

definition get_my_asset_groups ::
  "accounts \<Rightarrow> token_data \<Rightarrow> bool option \<Rightarrow> int \<Rightarrow> int \<Rightarrow> string option
   \<Rightarrow> (tlrs_db, route_error, (group_summary \<times> assigned_fence list) list) act" where
  "get_my_asset_groups acc td active skip limit search =
     page_checked 500 skip limit (\<lambda>skip limit.
     with_client (group_client ''asset-group:get my asset groups'' acc td None) (\<lambda>c db.
       (Inr (get_asset_groups_by_client_id db c active skip limit search), db)))"

definition get_asset_group_route :: "accounts \<Rightarrow> token_data \<Rightarrow> nat \<Rightarrow> (tlrs_db, route_error, group_detail) act" where
  "get_asset_group_route acc td id_asset_group =
     with_client (group_client ''asset-group:get'' acc td None) (\<lambda>c db.
       or_404 ''Asset group not found.'' (Inr (get_asset_group_detail_for_client db id_asset_group c), db))"

definition update_asset_group_route ::
  "fence_env \<Rightarrow> accounts \<Rightarrow> token_data \<Rightarrow> nat \<Rightarrow> group_update \<Rightarrow> (tlrs_db, route_error, group_detail) act" where
  "update_asset_group_route env acc td id_asset_group u =
     body_checked ((case gu_name u of Some (Some n) \<Rightarrow> valid_name n | _ \<Rightarrow> True) \<and>
       valid_ids 0 (case gu_asset_ids u of None \<Rightarrow> [] | Some l \<Rightarrow> l))
     (with_client (group_client ''asset-group:update'' acc td None) (\<lambda>c db.
       or_404 ''Asset group not found.''
         (caught [group_assets_invalid, group_integrity ''Asset group name already exists for this client.'']
           (update_asset_group (fe_stamp env) (fe_now env) id_asset_group c u db))))"

definition set_asset_group_activation ::
  "fence_env \<Rightarrow> accounts \<Rightarrow> token_data \<Rightarrow> nat \<Rightarrow> bool \<Rightarrow> (tlrs_db, route_error, group_detail) act" where
  "set_asset_group_activation env acc td id_asset_group active =
     with_client (group_client ''asset-group:update activation'' acc td None) (\<lambda>c db.
       or_404 ''Asset group not found.'' (caught [] (set_asset_group_active (fe_now env) id_asset_group c active db)))"

definition add_asset_group_members ::
  "fence_env \<Rightarrow> accounts \<Rightarrow> token_data \<Rightarrow> nat \<Rightarrow> nat list \<Rightarrow> (tlrs_db, route_error, group_detail option) act" where
  "add_asset_group_members env acc td id_asset_group asset_ids = body_checked (valid_ids 1 asset_ids)
     (with_client (group_client ''asset-group:add members'' acc td None) (\<lambda>c db.
       caught [group_not_found, group_assets_invalid] (add_members (fe_stamp env) id_asset_group c asset_ids db)))"

definition remove_asset_group_members ::
  "fence_env \<Rightarrow> accounts \<Rightarrow> token_data \<Rightarrow> nat \<Rightarrow> nat list \<Rightarrow> (tlrs_db, route_error, group_detail option) act" where
  "remove_asset_group_members env acc td id_asset_group asset_ids = body_checked (valid_ids 1 asset_ids)
     (with_client (group_client ''asset-group:remove members'' acc td None) (\<lambda>c db.
       caught [group_not_found] (remove_members (fe_now env) id_asset_group c asset_ids db)))"

subsection \<open>Requests\<close>

datatype fleet_request =
    Post_Geofence "nat option" string "string option" multipolygon bool
  | Get_My_Geofences int int
  | Get_My_Events int int time_filter relevance_filter "fence_event_type option"
  | Get_Geofence nat
  | Patch_Geofence nat fence_update
  | Patch_Activation nat bool
  | Delete_Geofence nat
  | Post_Assignments nat "nat list"
  | Get_Assignments nat
  | Post_Fence_Groups nat "nat list"
  | Delete_Fence_Groups nat "nat list"
  | End_Assignment nat
  | Get_My_States int int
  | Get_Asset_States nat
  | Post_Group "nat option" string "string option" "nat list option"
  | Get_My_Groups "bool option" int int "string option"
  | Get_Group nat
  | Patch_Group nat group_update
  | Patch_Group_Activation nat bool
  | Post_Members nat "nat list"
  | Delete_Members nat "nat list"

datatype fleet_response =
    R_Fence "fence_read option" | R_Fences "fence_read list" | R_Events event_page | R_Fence_Detail fence_detail
  | R_Empty | R_Assignments "geofence_assignment list" | R_Fence_Groups "fence_group list"
  | R_Assignment geofence_assignment | R_States state_page | R_Asset_States "asset_state_read list"
  | R_Group "group_detail option" | R_Groups "(group_summary \<times> assigned_fence list) list"

fun fleet_api :: "fence_env \<Rightarrow> accounts \<Rightarrow> token_data \<Rightarrow> fleet_request \<Rightarrow> (tlrs_db, route_error, fleet_response) act" where
  "fleet_api env acc td (Post_Geofence c n d shape active) db = reply R_Fence (create_geofence_route env acc td c n d shape active db)"
| "fleet_api env acc td (Get_My_Geofences skip limit) db = reply R_Fences (get_my_geofences env acc td skip limit db)"
| "fleet_api env acc td (Get_My_Events skip limit tf rf t) db = reply R_Events (get_my_geofence_events env acc td skip limit tf rf t db)"
| "fleet_api env acc td (Get_Geofence i) db = reply R_Fence_Detail (get_geofence_route env acc td i db)"
| "fleet_api env acc td (Patch_Geofence i u) db = reply (R_Fence \<circ> Some) (update_geofence_route env acc td i u db)"
| "fleet_api env acc td (Patch_Activation i active) db = reply (R_Fence \<circ> Some) (set_geofence_activation env acc td i active db)"
| "fleet_api env acc td (Delete_Geofence i) db = reply (\<lambda>_. R_Empty) (delete_geofence_route env acc td i db)"
| "fleet_api env acc td (Post_Assignments i ids) db = reply R_Assignments (assign_assets_to_geofence env acc td i ids db)"
| "fleet_api env acc td (Get_Assignments i) db = reply R_Assignments (get_geofence_assignments acc td i db)"
| "fleet_api env acc td (Post_Fence_Groups i ids) db = reply R_Fence_Groups (assign_asset_groups_to_geofence env acc td i ids db)"
| "fleet_api env acc td (Delete_Fence_Groups i ids) db = reply R_Fence_Groups (remove_asset_groups_from_geofence env acc td i ids db)"
| "fleet_api env acc td (End_Assignment i) db = reply R_Assignment (deactivate_geofence_assignment env acc td i db)"
| "fleet_api env acc td (Get_My_States skip limit) db = reply R_States (get_my_asset_states acc td skip limit db)"
| "fleet_api env acc td (Get_Asset_States i) db = reply R_Asset_States (get_asset_states_by_asset_id_route acc td i db)"
| "fleet_api env acc td (Post_Group c n d ids) db = reply R_Group (create_asset_group_route env acc td c n d ids db)"
| "fleet_api env acc td (Get_My_Groups active skip limit search) db = reply R_Groups (get_my_asset_groups acc td active skip limit search db)"
| "fleet_api env acc td (Get_Group i) db = reply (R_Group \<circ> Some) (get_asset_group_route acc td i db)"
| "fleet_api env acc td (Patch_Group i u) db = reply (R_Group \<circ> Some) (update_asset_group_route env acc td i u db)"
| "fleet_api env acc td (Patch_Group_Activation i active) db = reply (R_Group \<circ> Some) (set_asset_group_activation env acc td i active db)"
| "fleet_api env acc td (Post_Members i ids) db = reply R_Group (add_asset_group_members env acc td i ids db)"
| "fleet_api env acc td (Delete_Members i ids) db = reply R_Group (remove_asset_group_members env acc td i ids db)"

end
