(* ===== verification/Fleet_Isolation.thy ===== *)
theory Fleet_Isolation
  imports Fleet_Api
begin

text \<open>
  What the routes of geofences and asset groups let a caller change.  A table is \<open>confined\<close> to a
  condition when no row outside it is added, removed or changed; every operation of the two
  services is confined to the rows of the client it acts for, and so is every request.  Histories of
  requests keep the invariants this rests on.
\<close>

subsection \<open>Confined changes\<close>

definition confined :: "('r \<Rightarrow> bool) \<Rightarrow> 'r list \<Rightarrow> 'r list \<Rightarrow> bool" where
  "confined P rows rows' \<longleftrightarrow> filter (\<lambda>r. \<not> P r) rows' = filter (\<lambda>r. \<not> P r) rows"

lemma confined_refl [simp]: "confined P rows rows"
  by (simp add: confined_def)

lemma confined_trans: "confined P xs ys \<Longrightarrow> confined P ys zs \<Longrightarrow> confined P xs zs"
  by (simp add: confined_def)

lemma confined_other:
  assumes "confined P xs ys" "\<And>r. Q r \<Longrightarrow> \<not> P r"
  shows "filter Q ys = filter Q xs"
proof -
  have outside: "filter Q rows = filter Q (filter (\<lambda>r. \<not> P r) rows)" for rows
    using assms(2) by (induction rows) auto
  have "filter Q ys = filter Q (filter (\<lambda>r. \<not> P r) ys)" by (rule outside)
  also have "\<dots> = filter Q (filter (\<lambda>r. \<not> P r) xs)" using assms(1) by (simp only: confined_def)
  also have "\<dots> = filter Q xs" by (rule outside [symmetric])
  finally show ?thesis .
qed

lemma confined_mono: "confined P xs ys \<Longrightarrow> (\<And>r. P r \<Longrightarrow> Q r) \<Longrightarrow> confined Q xs ys"
  unfolding confined_def [of Q] by (rule confined_other [of P]) auto

lemma confined_append [simp]: "confined P rows (rows @ [x]) \<longleftrightarrow> P x"
  by (simp add: confined_def)

lemma confined_map:
  assumes "\<And>r. r \<in> set rows \<Longrightarrow> f r \<noteq> r \<Longrightarrow> P r \<and> P (f r)"
  shows "confined P rows (map f rows)"
  using assms unfolding confined_def
proof (induction rows)
  case (Cons r rows)
  have "filter (\<lambda>r. \<not> P r) (map f rows) = filter (\<lambda>r. \<not> P r) rows" by (rule Cons.IH) (use Cons.prems in auto)
  with Cons.prems [of r] show ?case by (cases "f r = r") auto
qed simp

lemma confined_put:
  assumes "\<And>r. r \<in> set rows \<Longrightarrow> key r = key x \<Longrightarrow> P r" "P x"
  shows "confined P rows (put key x rows)"
  unfolding put_def by (rule confined_map) (use assms in \<open>auto split: if_splits\<close>)

lemma confined_put_row:
  assumes "distinct (map key rows)" "r \<in> set rows" "key x = key r" "P r" "P x"
  shows "confined P rows (put key x rows)"
proof (rule confined_put)
  fix y assume "y \<in> set rows" "key y = key x"
  with same_key_same_row [OF assms(1) _ assms(2)] assms(3) have "y = r" by simp
  with assms(4) show "P y" by simp
qed (rule assms(5))

lemma confined_add_rows:
  assumes "\<And>n i x. x \<in> set xs \<Longrightarrow> P (mk n i x)"
  shows "confined P rows (add_rows key mk n xs rows)"
  using assms
proof (induction xs arbitrary: n rows)
  case (Cons x xs)
  have "confined P rows (rows @ [mk n (fresh key rows) x])" using Cons.prems by simp
  from confined_trans [OF this Cons.IH] Cons.prems show ?case by simp
qed simp

lemma confined_upsert:
  assumes "\<And>n i a. P (new_group_member (stamp n) i (g, a))"
    and "\<And>m. m \<in> set existing \<Longrightarrow> P (m\<lparr>agm_deleted := CHR ''N''\<rparr>)"
    and "\<And>m x. m \<in> set existing \<Longrightarrow> x \<in> set rows \<Longrightarrow> agm_id x = agm_id m \<Longrightarrow> P x"
  shows "confined P rows (upsert_members stamp g existing n ids rows)"
  using assms(3)
proof (induction ids arbitrary: n rows)
  case (Cons a ids)
  let ?rows = "case member_by_asset existing a of
      None \<Rightarrow> rows @ [new_group_member (stamp n) (fresh agm_id rows) (g, a)]
    | Some m \<Rightarrow> if agm_deleted m = CHR ''Y'' then put agm_id (m\<lparr>agm_deleted := CHR ''N''\<rparr>) rows else rows"
  have step: "confined P rows ?rows \<and> (\<forall>m \<in> set existing. \<forall>x \<in> set ?rows. agm_id x = agm_id m \<longrightarrow> P x)"
  proof (cases "member_by_asset existing a")
    case None
    with Cons.prems assms(1) show ?thesis by auto
  next
    case (Some m)
    then have m: "m \<in> set existing" using member_by_asset_Some by blast
    have "confined P rows (put agm_id (m\<lparr>agm_deleted := CHR ''N''\<rparr>) rows)"
      by (rule confined_put) (use Cons.prems [OF m] assms(2) [OF m] in auto)
    moreover have "\<forall>x \<in> set (put agm_id (m\<lparr>agm_deleted := CHR ''N''\<rparr>) rows). x = m\<lparr>agm_deleted := CHR ''N''\<rparr> \<or> x \<in> set rows"
      by (auto simp: put_def)
    ultimately show ?thesis using Some Cons.prems assms(2) [OF m] by auto
  qed
  from confined_trans [OF conjunct1 [OF step] Cons.IH] step show ?case by auto
qed simp

lemma confined_states:
  assumes "distinct (map gs_id (db_asset_states db))"
  shows "confined (\<lambda>s. gs_fence_id s \<in> fst ` set ps) (db_asset_states db) (db_asset_states (cleanup_effective_states ps db))"
  using assms
proof (induction ps arbitrary: db)
  case (Cons p ps)
  obtain g a where p: "p = (g, a)" by (cases p)
  let ?db = "snd (delete_state_if_unassigned g a db)"
  have one: "confined (\<lambda>s. gs_fence_id s = g) (db_asset_states db) (db_asset_states ?db)"
  proof (cases "has_effective_assignment db g a \<or> find_state db g a = None")
    case True
    then show ?thesis by (auto simp: delete_state_if_unassigned_def)
  next
    case False
    then obtain s where s: "find_state db g a = Some s" by auto
    then have row: "s \<in> set (db_asset_states db)" "gs_fence_id s = g" unfolding find_state_def using find_member by fastforce+
    have "filter (\<lambda>r. gs_fence_id r \<noteq> g) (filter (\<lambda>r. gs_id r \<noteq> gs_id s) (db_asset_states db)) =
        filter (\<lambda>r. gs_fence_id r \<noteq> g) (db_asset_states db)"
      unfolding filter_filter
      by (rule filter_cong [OF refl]) (use same_key_same_row [OF Cons.prems _ row(1)] row(2) in blast)
    with False s show ?thesis by (simp add: confined_def delete_state_if_unassigned_def)
  qed
  have "confined (\<lambda>s. gs_fence_id s \<in> fst ` set ps) (db_asset_states ?db) (db_asset_states (cleanup_effective_states ps ?db))"
    by (rule Cons.IH) (rule delete_state_distinct [OF Cons.prems])
  with one show ?case
    by (auto simp: cleanup_effective_states_def p intro: confined_trans confined_mono)
qed (simp add: cleanup_effective_states_def)

subsection \<open>The rows of a client\<close>

definition foreign_fences :: "tlrs_db \<Rightarrow> nat \<Rightarrow> nat set" where
  "foreign_fences db c = {f. \<exists>c'. c' \<noteq> c \<and> (f, c') \<in> fence_clients db}"

definition foreign_groups :: "tlrs_db \<Rightarrow> nat \<Rightarrow> nat set" where
  "foreign_groups db c = {g. \<exists>c'. c' \<noteq> c \<and> (g, c') \<in> group_clients db}"

definition fleet_ids_ok :: "tlrs_db \<Rightarrow> bool" where
  "fleet_ids_ok db \<longleftrightarrow> distinct (map gf_id (db_geofences db)) \<and> distinct (map ga_id (db_geofence_assignments db)) \<and>
     distinct (map gs_id (db_asset_states db))"

definition fleet_ok :: "tlrs_db \<Rightarrow> bool" where
  "fleet_ok db \<longleftrightarrow> group_tenants db \<and> fleet_ids_ok db"

definition other_tables where
  "other_tables db = (db_devices db, db_assets db, db_device_assignments db, db_locations db, db_geofence_events db,
     db_commands db, db_new_commands db, db_cs_events db, db_clients db)"

text \<open>From \<open>db\<close> to \<open>db'\<close> nothing changed but rows of the client \<open>c\<close>, and only in six tables.\<close>

definition fleet_frame :: "nat \<Rightarrow> tlrs_db \<Rightarrow> tlrs_db \<Rightarrow> bool" where
  "fleet_frame c db db' \<longleftrightarrow>
     confined (\<lambda>g. gf_client_id g = c) (db_geofences db) (db_geofences db') \<and>
     confined (\<lambda>g. ag_client_id g = c) (db_asset_groups db) (db_asset_groups db') \<and>
     confined (\<lambda>x. ga_fence_id x \<notin> foreign_fences db c) (db_geofence_assignments db) (db_geofence_assignments db') \<and>
     confined (\<lambda>m. agm_group_id m \<notin> foreign_groups db c) (db_group_members db) (db_group_members db') \<and>
     confined (\<lambda>x. gg_geofence_id x \<notin> foreign_fences db c) (db_fence_groups db) (db_fence_groups db') \<and>
     confined (\<lambda>s. gs_fence_id s \<notin> foreign_fences db c) (db_asset_states db) (db_asset_states db') \<and>
     other_tables db' = other_tables db"

lemma fleet_frame_refl [simp]: "fleet_frame c db db"
  by (simp add: fleet_frame_def)

lemma own_fence:
  assumes "distinct (map gf_id (db_geofences db))" "(f, c) \<in> fence_clients db"
  shows "f \<notin> foreign_fences db c"
proof
  assume "f \<in> foreign_fences db c"
  then obtain g g' where "g \<in> set (db_geofences db)" "g' \<in> set (db_geofences db)" "gf_id g = gf_id g'" "gf_client_id g \<noteq> gf_client_id g'"
    using assms(2) by (auto simp: foreign_fences_def fence_clients_def)
  with same_key_same_row [OF assms(1)] show False by blast
qed

lemma own_group:
  assumes "distinct (map ag_id (db_asset_groups db))" "(i, c) \<in> group_clients db"
  shows "i \<notin> foreign_groups db c"
proof
  assume "i \<in> foreign_groups db c"
  then obtain g g' where "g \<in> set (db_asset_groups db)" "g' \<in> set (db_asset_groups db)" "ag_id g = ag_id g'" "ag_client_id g \<noteq> ag_client_id g'"
    using assms(2) by (auto simp: foreign_groups_def group_clients_def)
  with same_key_same_row [OF assms(1)] show False by blast
qed

lemma fleet_okD:
  assumes "fleet_ok db"
  shows "distinct (map gf_id (db_geofences db))" "distinct (map ga_id (db_geofence_assignments db))"
    "distinct (map gs_id (db_asset_states db))" "distinct (map ag_id (db_asset_groups db))"
    "distinct (map agm_id (db_group_members db))" "distinct (map gg_id (db_fence_groups db))" "group_tenants db"
  using assms by (simp_all add: fleet_ok_def fleet_ids_ok_def group_tenants_def groups_ok_def)

text \<open>The states that a clean-up for a group of the client may remove belong to the client.\<close>

lemma fence_of_group:
  assumes "fleet_ok db" "(g, c) \<in> group_clients db" "f \<in> set (get_active_geofence_ids_for_group db g)"
  shows "f \<notin> foreign_fences db c"
proof -
  from assms(3) have "(f, g) \<in> fence_group_links db"
    by (auto simp: get_active_geofence_ids_for_group_def fence_group_links_def fence_groups.links_iff)
  with fleet_okD(7) [OF assms(1)] obtain c' where c': "(g, c') \<in> group_clients db" "(f, c') \<in> fence_clients db"
    by (auto simp: group_tenants_def tenants_ok_def view_of_def)
  with own_group [OF fleet_okD(4) [OF assms(1)] assms(2)] have "c' = c" by (auto simp: foreign_groups_def)
  with c' own_fence [OF fleet_okD(1) [OF assms(1)]] show ?thesis by blast
qed

lemma states_of_client:
  assumes "fleet_ok db" "fst ` set ps \<inter> foreign_fences db c = {}"
  shows "confined (\<lambda>s. gs_fence_id s \<notin> foreign_fences db c) (db_asset_states db) (db_asset_states (cleanup_effective_states ps db))"
  by (rule confined_mono [OF confined_states [OF fleet_okD(3) [OF assms(1)]]]) (use assms(2) in blast)

lemma pairs_fences: "fst ` set (build_membership_pairs fs as) \<subseteq> set fs"
  by (auto simp: build_membership_pairs_def)

lemma other_tables_writes [simp]:
  "other_tables (db\<lparr>db_geofences := xs1\<rparr>) = other_tables db"
  "other_tables (db\<lparr>db_asset_groups := xs2\<rparr>) = other_tables db"
  "other_tables (db\<lparr>db_geofence_assignments := xs3\<rparr>) = other_tables db"
  "other_tables (db\<lparr>db_group_members := xs4\<rparr>) = other_tables db"
  "other_tables (db\<lparr>db_fence_groups := xs5\<rparr>) = other_tables db"
  "other_tables (db\<lparr>db_asset_states := xs6\<rparr>) = other_tables db"
  by (simp_all add: other_tables_def)

lemma other_tables_cleanup [simp]: "other_tables (cleanup_effective_states ps db) = other_tables db"
  by (subst cleanup_frame) simp

lemma no_cleanup: "cleanup_effective_states [] db = db"
  by (simp add: cleanup_effective_states_def)

subsection \<open>Every operation is confined to its client\<close>

lemma transact_frame:
  assumes "transact body db = (r, db')" "\<And>x. body db = Inr (x, db') \<Longrightarrow> fleet_frame c db db'"
  shows "fleet_frame c db db'"
  using assms by (auto simp: transact_def split: sum.splits prod.splits)

lemma fence_put_frame:
  assumes "fleet_ok db" "get_geofence_for_client db i c = Some g" "gf_id g' = gf_id g" "gf_client_id g' = c"
  shows "fleet_frame c db (db\<lparr>db_geofences := put gf_id g' (db_geofences db)\<rparr>)"
proof -
  have "confined (\<lambda>g. gf_client_id g = c) (db_geofences db) (put gf_id g' (db_geofences db))"
    using found_fence [OF assms(2)] assms(3,4) fleet_okD(1) [OF assms(1)] by (intro confined_put_row [of gf_id _ g]) auto
  then show ?thesis by (simp add: fleet_frame_def)
qed

lemma create_geofence_frame:
  "create_geofence env c n d shape active db = (r, db') \<Longrightarrow> fleet_frame c db db'"
  unfolding create_geofence_def
  by (erule transact_frame) (auto simp: Let_def res_simps commit_fences_Inr fleet_frame_def)

lemma apply_update_client: "gf_id (apply_fence_update env u g) = gf_id g" "gf_client_id (apply_fence_update env u g) = gf_client_id g"
  by (simp_all add: apply_fence_update_def Let_def split: option.split)

lemma update_geofence_frame:
  "fleet_ok db \<Longrightarrow> update_geofence env i c u db = (r, db') \<Longrightarrow> fleet_frame c db db'"
  unfolding update_geofence_def
  by (erule transact_frame)
    (auto simp: res_simps commit_fences_Inr apply_update_client dest: found_fence intro!: fence_put_frame split: option.splits if_splits)

lemma delete_geofence_frame: "fleet_ok db \<Longrightarrow> delete_geofence env i c db = (r, db') \<Longrightarrow> fleet_frame c db db'"
  unfolding delete_geofence_def
  by (erule transact_frame)
    (auto simp: res_simps commit_fences_Inr dest: found_fence intro!: fence_put_frame split: option.splits)

lemma set_geofence_active_frame: "fleet_ok db \<Longrightarrow> set_geofence_active env i c b db = (r, db') \<Longrightarrow> fleet_frame c db db'"
  unfolding set_geofence_active_def
  by (erule transact_frame)
    (auto simp: res_simps commit_fences_Inr dest: found_fence intro!: fence_put_frame split: option.splits)

lemma assign_assets_frame:
  assumes "fleet_ok db" "assign_assets env f c ids db = (r, db')"
  shows "fleet_frame c db db'"
  using assms(2) unfolding assign_assets_def
proof (rule transact_frame)
  fix x
  assume run: "(case get_geofence_for_client db f c of
       None \<Rightarrow> Inr (None, db)
     | Some g \<Rightarrow>
         (let missing = filter (\<lambda>i. i \<notin> client_assets db c) ids
          in if missing \<noteq> [] then Inr (Some ([], missing), db)
             else
               (let existing = filter (\<lambda>x. ga_fence_id x = f \<and> ga_asset_id x \<in> set ids \<and> assignment_live x)
                      (db_geofence_assignments db);
                    new = filter (\<lambda>i. i \<notin> ga_asset_id ` set existing) ids;
                    rows = add_rows ga_id (\<lambda>n i a. new_fence_assignment (fe_stamp env n) i (f, a)) 0 new
                      (db_geofence_assignments db)
                in bindE (commit_fences (db\<lparr>db_geofence_assignments := rows\<rparr>)) (\<lambda>db'.
                     Inr (Some (map (\<lambda>i. the (find (\<lambda>x. ga_asset_id x = i)
                       (rev (existing @ drop (length (db_geofence_assignments db)) rows)))) ids, []), db'))))) = Inr (x, db')"
  show "fleet_frame c db db'"
  proof (cases "get_geofence_for_client db f c")
    case None
    with run show ?thesis by simp
  next
    case (Some g)
    then have own: "f \<notin> foreign_fences db c" by (intro own_fence fleet_okD(1) [OF assms(1)] fence_client)
    have "confined (\<lambda>x. ga_fence_id x \<notin> foreign_fences db c) (db_geofence_assignments db)
        (add_rows ga_id (\<lambda>n i a. new_fence_assignment (fe_stamp env n) i (f, a)) 0 new (db_geofence_assignments db))" for new
      by (rule confined_add_rows) (simp add: new_fence_assignment_def own)
    with run Some show ?thesis by (auto simp: Let_def res_simps commit_fences_Inr fleet_frame_def split: if_splits)
  qed
qed

lemma deactivate_frame:
  assumes "fleet_ok db" "deactivate_assignment env i c db = (r, db')"
  shows "fleet_frame c db db'"
proof (cases "client_assignment db i c")
  case None
  with assms(2) show ?thesis by (simp add: deactivate_assignment_def transact_def)
next
  case (Some x)
  from find_member [OF Some [unfolded client_assignment_def]]
  have x: "x \<in> set (db_geofence_assignments db)" "(ga_fence_id x, c) \<in> fence_clients db"
    by (auto simp: list_ex_iff fence_clients_def image_iff) metis
  from x(2) have own: "ga_fence_id x \<notin> foreign_fences db c" by (rule own_fence [OF fleet_okD(1) [OF assms(1)]])
  let ?ps = "[(ga_fence_id x, ga_asset_id x)]"
  have del: "snd (delete_state_if_unassigned (ga_fence_id x) (ga_asset_id x) db) = cleanup_effective_states ?ps db"
    by (simp add: cleanup_effective_states_def)
  have "confined (\<lambda>x. ga_fence_id x \<notin> foreign_fences db c) (db_geofence_assignments db)
      (put ga_id (end_fence_assignment (fe_now env) x) (db_geofence_assignments db))"
    by (rule confined_put_row [OF fleet_okD(2) [OF assms(1)] x(1)]) (simp_all add: end_fence_assignment_def own)
  moreover have "confined (\<lambda>s. gs_fence_id s \<notin> foreign_fences db c) (db_asset_states db) (db_asset_states (cleanup_effective_states ?ps db))"
    by (rule states_of_client [OF assms(1)]) (simp add: own)
  ultimately have "fleet_frame c db (cleanup_effective_states ?ps db\<lparr>db_geofence_assignments :=
      put ga_id (end_fence_assignment (fe_now env) x) (db_geofence_assignments db)\<rparr>)"
    by (simp add: fleet_frame_def)
  moreover have "db' = db \<or> db' = cleanup_effective_states ?ps db\<lparr>db_geofence_assignments :=
      put ga_id (end_fence_assignment (fe_now env) x) (db_geofence_assignments db)\<rparr>"
    using assms(2) Some
    by (auto simp: deactivate_assignment_def transact_def Let_def del res_simps commit_fences_Inr split: sum.splits prod.splits)
  ultimately show ?thesis by auto
qed

subsection \<open>Group operations\<close>

lemma group_put_frame:
  assumes "fleet_ok db" "get_asset_group_model_for_client db i c = Some g" "ag_id g' = ag_id g" "ag_client_id g' = ag_client_id g"
  shows "confined (\<lambda>g. ag_client_id g = c) (db_asset_groups db) (put ag_id g' (db_asset_groups db))"
  using model_found [OF assms(2)] assms(3,4) fleet_okD(4) [OF assms(1)] by (intro confined_put_row [of ag_id _ g]) auto

lemma end_members_frame:
  assumes "\<And>m. Q m \<Longrightarrow> agm_group_id m \<notin> foreign_groups db c"
  shows "confined (\<lambda>m. agm_group_id m \<notin> foreign_groups db c) rows (map (\<lambda>m. if Q m then end_group_member now m else m) rows)"
  by (rule confined_map) (use assms in \<open>auto simp: end_group_member_def split: if_splits\<close>)

lemma upsert_frame:
  assumes "g \<notin> foreign_groups db c" "distinct (map agm_id rows)" "\<forall>m \<in> set existing. agm_group_id m = g"
    and "set (map (\<lambda>m. (agm_id m, agm_group_id m)) existing) \<subseteq> set (map (\<lambda>m. (agm_id m, agm_group_id m)) rows)"
  shows "confined (\<lambda>m. agm_group_id m \<notin> foreign_groups db c) rows (upsert_members stamp g existing n ids rows)"
proof (rule confined_upsert)
  fix m x assume m: "m \<in> set existing" "x \<in> set rows" "agm_id x = agm_id m"
  have "(agm_id m, agm_group_id m) \<in> (\<lambda>m. (agm_id m, agm_group_id m)) ` set rows"
    using m(1) assms(4) unfolding set_map by blast
  then obtain y where y: "y \<in> set rows" "agm_id y = agm_id m" "agm_group_id y = agm_group_id m"
    by auto
  with same_key_same_row [OF assms(2) m(2)] m(3) have "x = y" by metis
  with y m(1) assms(3) have "agm_group_id x = g" by simp
  with assms(1) show "agm_group_id x \<notin> foreign_groups db c" by simp
qed (use assms in \<open>auto simp: new_group_member_def\<close>)

lemma group_states_frame:
  assumes "fleet_ok db" "get_asset_group_model_for_client db i c = Some g"
  shows "confined (\<lambda>s. gs_fence_id s \<notin> foreign_fences db c) (db_asset_states db)
    (db_asset_states (cleanup_effective_states (build_membership_pairs (get_active_geofence_ids_for_group db i) as) db))"
  by (rule states_of_client [OF assms(1)])
    (use pairs_fences fence_of_group [OF assms(1) model_client [OF assms(2)]] in blast)

lemma create_group_frame:
  assumes "fleet_ok db" "create_asset_group stamp c n d ids db = (r, db')"
  shows "fleet_frame c db db'"
proof -
  let ?i = "fresh ag_id (db_asset_groups db)"
  have "?i \<notin> foreign_groups db c" using fresh_not_in [of ag_id "db_asset_groups db"]
    by (auto simp: foreign_groups_def group_clients_def)
  then have "confined (\<lambda>m. agm_group_id m \<notin> foreign_groups db c) rows
      (add_rows agm_id (\<lambda>n i a. new_group_member (stamp (Suc n)) i (?i, a)) k xs rows)" for rows k xs
    by (intro confined_add_rows) (simp add: new_group_member_def)
  with assms(2) show ?thesis unfolding create_asset_group_def
    by - (erule transact_frame, auto simp: Let_def res_simps group_commit_Inr fleet_frame_def)
qed

lemma add_members_frame:
  assumes "fleet_ok db" "add_members stamp i c ids db = (r, db')"
  shows "fleet_frame c db db'"
proof -
  have "confined (\<lambda>m. agm_group_id m \<notin> foreign_groups db c) (db_group_members db)
      (upsert_members stamp i (filter (\<lambda>m. agm_group_id m = i \<and> agm_asset_id m \<in> set ids) (db_group_members db)) k ids (db_group_members db))"
    if "get_asset_group_model_for_client db i c = Some g" for g k
    by (rule upsert_frame [OF own_group [OF fleet_okD(4) [OF assms(1)] model_client [OF that]] fleet_okD(5) [OF assms(1)]]) auto
  with assms(2) show ?thesis unfolding add_members_def
    by - (erule transact_frame, auto simp: Let_def res_simps group_commit_Inr fleet_frame_def split: option.splits)
qed

lemma remove_members_frame:
  assumes "fleet_ok db" "remove_members now i c ids db = (r, db')"
  shows "fleet_frame c db db'"
  using assms(2) unfolding remove_members_def
  by (rule transact_frame)
    (auto simp: Let_def res_simps group_commit_Inr fleet_frame_def split: option.splits
      intro!: end_members_frame group_states_frame [OF assms(1)] own_group [OF fleet_okD(4) [OF assms(1)] model_client])

lemma update_group_frame:
  assumes "fleet_ok db" "update_asset_group stamp now i c u db = (r, db')"
  shows "fleet_frame c db db'"
  using assms(2) unfolding update_asset_group_def
proof (rule transact_frame)
  fix x
  assume run: "(case get_asset_group_model_for_client db i c of
       None \<Rightarrow> Inr (None, db)
     | Some g \<Rightarrow>
         bindE (case gu_asset_ids u of None \<Rightarrow> Inr db | Some ids \<Rightarrow> replace_members stamp now i c ids db) (\<lambda>db1.
           if gu_name u = Some None then Inl (Group_Db (Integrity_Error ''asset_groups.name''))
           else bindE (group_commit (db1\<lparr>db_asset_groups := put ag_id (touched now g (apply_group_update u g)) (db_asset_groups db)\<rparr>))
             (\<lambda>db'. Inr (get_asset_group_detail_for_client db' i c, db')))) = Inr (x, db')"
  show "fleet_frame c db db'"
  proof (cases "get_asset_group_model_for_client db i c")
    case None
    with run show ?thesis by simp
  next
    case (Some g)
    have own: "i \<notin> foreign_groups db c" by (rule own_group [OF fleet_okD(4) [OF assms(1)] model_client [OF Some]])
    have groups: "confined (\<lambda>g. ag_client_id g = c) (db_asset_groups db) (put ag_id (touched now g (apply_group_update u g)) (db_asset_groups db))"
      by (rule group_put_frame [OF assms(1) Some]) simp_all
    show ?thesis
    proof (cases "gu_asset_ids u")
      case None
      with run Some groups show ?thesis by (auto simp: res_simps group_commit_Inr fleet_frame_def split: if_splits)
    next
      case ids: (Some ids)
      let ?removed = "\<lambda>m. agm_group_id m = i \<and> agm_asset_id m \<notin> set ids"
      let ?members = "filter (\<lambda>m. agm_group_id m = i) (db_group_members db)"
      let ?ended = "map (\<lambda>m. if member_live m \<and> ?removed m then end_group_member now m else m) (db_group_members db)"
      let ?ps = "build_membership_pairs (get_active_geofence_ids_for_group db i) (map agm_asset_id (filter (\<lambda>m. member_live m \<and> ?removed m) ?members))"
      have same: "agm_id (end_group_member now m) = agm_id m" "agm_group_id (end_group_member now m) = agm_group_id m" for m
        by (simp_all add: end_group_member_def)
      have "confined (\<lambda>m. agm_group_id m \<notin> foreign_groups db c) (db_group_members db) ?ended"
        by (rule end_members_frame) (use own in simp)
      moreover have "confined (\<lambda>m. agm_group_id m \<notin> foreign_groups db c) ?ended (upsert_members stamp i ?members 0 ids ?ended)"
      proof (rule upsert_frame [OF own])
        show "distinct (map agm_id ?ended)"
          using fleet_okD(5) [OF assms(1)] by (intro distinct_map_keys) (simp_all add: same)
        have "map (\<lambda>m. (agm_id m, agm_group_id m)) ?ended = map (\<lambda>m. (agm_id m, agm_group_id m)) (db_group_members db)"
          by (simp add: same)
        then show "set (map (\<lambda>m. (agm_id m, agm_group_id m)) ?members) \<subseteq> set (map (\<lambda>m. (agm_id m, agm_group_id m)) ?ended)"
          by (simp only: set_map) (auto simp: same)
      qed simp
      ultimately have members: "confined (\<lambda>m. agm_group_id m \<notin> foreign_groups db c) (db_group_members db) (upsert_members stamp i ?members 0 ids ?ended)"
        by (rule confined_trans)
      from run Some ids have "db' = cleanup_effective_states ?ps db\<lparr>db_group_members := upsert_members stamp i ?members 0 ids ?ended,
          db_asset_groups := put ag_id (touched now g (apply_group_update u g)) (db_asset_groups db)\<rparr>"
        by (auto simp: replace_members_def Let_def res_simps group_commit_Inr split: if_splits)
      with groups members group_states_frame [OF assms(1) Some] show ?thesis by (simp add: fleet_frame_def)
    qed
  qed
qed

lemma activate_group_frame:
  assumes "fleet_ok db" "set_asset_group_active now i c b db = (r, db')"
  shows "fleet_frame c db db'"
  using assms(2) unfolding set_asset_group_active_def
  by (rule transact_frame)
    (auto simp: Let_def res_simps group_commit_Inr fleet_frame_def no_cleanup split: option.splits if_splits
      intro!: group_put_frame [OF assms(1)] group_states_frame [OF assms(1)])

lemma assign_groups_frame:
  assumes "fleet_ok db" "assign_groups_to_geofence stamp f c ids db = (r, db')"
  shows "fleet_frame c db db'"
proof -
  have "confined (\<lambda>x. gg_geofence_id x \<notin> foreign_fences db c) rows (add_rows gg_id (\<lambda>n i g. new_fence_group (stamp n) i (f, g)) k xs rows)"
    if "get_geofence_for_client db f c = Some g" for g k xs rows
    using own_fence [OF fleet_okD(1) [OF assms(1)] fence_client [OF that]]
    by (intro confined_add_rows) (simp add: new_fence_group_def)
  with assms(2) show ?thesis unfolding assign_groups_to_geofence_def
    by - (erule transact_frame, auto simp: Let_def res_simps group_commit_Inr fleet_frame_def split: option.splits)
qed

lemma remove_groups_frame:
  assumes "fleet_ok db" "remove_groups_from_geofence now f c ids db = (r, db')"
  shows "fleet_frame c db db'"
  using assms(2) unfolding remove_groups_from_geofence_def
proof (rule transact_frame)
  fix x
  let ?removed = "\<lambda>x. gg_geofence_id x = f \<and> gg_group_id x \<in> set ids"
  let ?found = "filter (\<lambda>x. fence_group_live x \<and> ?removed x) (db_fence_groups db)"
  let ?ps = "remdups (concat (map (\<lambda>x. build_membership_pairs [f] (get_active_asset_ids_for_group db (gg_group_id x))) ?found))"
  assume run: "(case get_geofence_for_client db f c of
       None \<Rightarrow> Inl (Group_Not_Found ''Geofence not found.'')
     | Some fence \<Rightarrow>
         (let removed = ?removed; found = filter (\<lambda>x. fence_group_live x \<and> removed x) (db_fence_groups db);
              pairs = remdups (concat (map (\<lambda>x. build_membership_pairs [f] (get_active_asset_ids_for_group db (gg_group_id x))) found));
              db1 = cleanup_effective_states pairs db
          in bindE (group_commit (db1\<lparr>db_fence_groups :=
               map (\<lambda>x. if fence_group_live x \<and> removed x then end_fence_group now x else x) (db_fence_groups db)\<rparr>))
             (\<lambda>db'. Inr (map (end_fence_group now) found, db')))) = Inr (x, db')"
  show "fleet_frame c db db'"
  proof (cases "get_geofence_for_client db f c")
    case None
    with run show ?thesis by simp
  next
    case (Some g)
    then have own: "f \<notin> foreign_fences db c" by (intro own_fence fleet_okD(1) [OF assms(1)] fence_client)
    have "confined (\<lambda>x. gg_geofence_id x \<notin> foreign_fences db c) (db_fence_groups db)
        (map (\<lambda>x. if fence_group_live x \<and> ?removed x then end_fence_group now x else x) (db_fence_groups db))"
      by (rule confined_map) (use own in \<open>auto simp: end_fence_group_def split: if_splits\<close>)
    moreover have "confined (\<lambda>s. gs_fence_id s \<notin> foreign_fences db c) (db_asset_states db) (db_asset_states (cleanup_effective_states ?ps db))"
      by (rule states_of_client [OF assms(1)]) (use own in \<open>auto simp: build_membership_pairs_def\<close>)
    ultimately show ?thesis using run Some by (auto simp: Let_def res_simps group_commit_Inr fleet_frame_def)
  qed
qed

subsection \<open>Requests\<close>

text \<open>The client a request acts for, and the service its route asks the guard for.\<close>

fun requested_client :: "fleet_request \<Rightarrow> nat option" where
  "requested_client (Post_Geofence c _ _ _ _) = c"
| "requested_client (Post_Group c _ _ _) = c"
| "requested_client _ = None"

definition acts_for :: "token_data \<Rightarrow> fleet_request \<Rightarrow> nat \<Rightarrow> bool" where
  "acts_for td req c \<longleftrightarrow>
     (if td_is_admin td \<and> requested_client req \<noteq> None then requested_client req else td_client_id td) = Some c"

fun service_asked :: "fleet_request \<Rightarrow> string" where
  "service_asked (Post_Geofence _ _ _ _ _) = ''geofence:create''"
| "service_asked (Get_My_Geofences _ _) = ''geofence:get my geofences''"
| "service_asked (Get_My_Events _ _ _ _ _) = ''geofence:get events''"
| "service_asked (Get_Geofence _) = ''geofence:get''"
| "service_asked (Patch_Geofence _ _) = ''geofence:update''"
| "service_asked (Patch_Activation _ _) = ''geofence:update''"
| "service_asked (Delete_Geofence _) = ''geofence:delete''"
| "service_asked (Post_Assignments _ _) = ''geofence:assign asset''"
| "service_asked (Get_Assignments _) = ''geofence:get assignments''"
| "service_asked (Post_Fence_Groups _ _) = ''geofence:assign asset group''"
| "service_asked (Delete_Fence_Groups _ _) = ''geofence:remove asset group''"
| "service_asked (End_Assignment _) = ''geofence:deactivate assignment''"
| "service_asked (Get_My_States _ _) = ''geofence:get events''"
| "service_asked (Get_Asset_States _) = ''geofence:get events''"
| "service_asked (Post_Group _ _ _ _) = ''asset-group:create''"
| "service_asked (Get_My_Groups _ _ _ _) = ''asset-group:get my asset groups''"
| "service_asked (Get_Group _) = ''asset-group:get''"
| "service_asked (Patch_Group _ _) = ''asset-group:update''"
| "service_asked (Patch_Group_Activation _ _) = ''asset-group:update activation''"
| "service_asked (Post_Members _ _) = ''asset-group:add members''"
| "service_asked (Delete_Members _ _) = ''asset-group:remove members''"

definition permitted :: "accounts \<Rightarrow> token_data \<Rightarrow> string \<Rightarrow> bool" where
  "permitted acc td service \<longleftrightarrow> td_is_admin td \<or> (td_user_id td, service) \<in> may_use acc"

lemma fence_client_Inr:
  "fence_client service acc td requested = Inr c \<longleftrightarrow>
     permitted acc td service \<and> (if td_is_admin td \<and> requested \<noteq> None then requested else td_client_id td) = Some c"
  by (auto simp: fence_client_def permitted_client_def access_iff permitted_def resolve_client_id_def split: option.splits)

lemma group_client_Inr:
  "group_client service acc td requested = Inr c \<longleftrightarrow>
     permitted acc td service \<and> (if td_is_admin td \<and> requested \<noteq> None then requested else td_client_id td) = Some c"
  by (auto simp: group_client_def permitted_client_def access_iff permitted_def resolve_client_id_def split: option.splits)

text \<open>Either nothing happens or the guard let the request through for a client, and a service operation ran.\<close>

definition let_through :: "accounts \<Rightarrow> token_data \<Rightarrow> fleet_request \<Rightarrow> tlrs_db \<Rightarrow> tlrs_db \<Rightarrow> bool" where
  "let_through acc td req db db' \<longleftrightarrow>
     db' = db \<or> (\<exists>c. permitted acc td (service_asked req) \<and> acts_for td req c \<and> fleet_frame c db db')"

lemma snd_with_fence:
  assumes "service = service_asked req" "requested = requested_client req"
    and "\<And>c. fleet_frame c db (snd (k c db))"
  shows "let_through acc td req db (snd (with_client (fence_client service acc td requested) k db))"
proof (cases "fence_client service acc td requested")
  case (Inr c)
  then have "permitted acc td (service_asked req) \<and> acts_for td req c"
    unfolding fence_client_Inr acts_for_def assms(1,2) .
  moreover have "with_client (fence_client service acc td requested) k db = k c db" using Inr by (simp add: with_client_def)
  ultimately show ?thesis using assms(3) [of c] unfolding let_through_def by metis
qed (simp add: let_through_def with_client_def)

lemma snd_with_group:
  assumes "service = service_asked req" "requested = requested_client req"
    and "\<And>c. fleet_frame c db (snd (k c db))"
  shows "let_through acc td req db (snd (with_client (group_client service acc td requested) k db))"
proof (cases "group_client service acc td requested")
  case (Inr c)
  then have "permitted acc td (service_asked req) \<and> acts_for td req c"
    unfolding group_client_Inr acts_for_def assms(1,2) .
  moreover have "with_client (group_client service acc td requested) k db = k c db" using Inr by (simp add: with_client_def)
  ultimately show ?thesis using assms(3) [of c] unfolding let_through_def by metis
qed (simp add: let_through_def with_client_def)

lemma not_through [simp]: "let_through acc td req db db"
  by (simp add: let_through_def)

lemma snd_page:
  "(\<And>skip limit. let_through acc td req db (snd (k skip limit db))) \<Longrightarrow>
     let_through acc td req db (snd (page_checked most skip limit k db))"
  by (simp add: page_checked_def)

lemmas operation_frames = create_geofence_frame update_geofence_frame delete_geofence_frame set_geofence_active_frame
  assign_assets_frame deactivate_frame create_group_frame add_members_frame remove_members_frame update_group_frame
  activate_group_frame assign_groups_frame remove_groups_frame

lemmas fence_routes = create_geofence_route_def get_my_geofences_def get_my_geofence_events_def get_geofence_route_def
  update_geofence_route_def set_geofence_activation_def delete_geofence_route_def assign_assets_to_geofence_def
  get_geofence_assignments_def assign_asset_groups_to_geofence_def remove_asset_groups_from_geofence_def
  deactivate_geofence_assignment_def get_my_asset_states_def get_asset_states_by_asset_id_route_def

lemmas group_routes = create_asset_group_route_def get_my_asset_groups_def get_asset_group_route_def
  update_asset_group_route_def set_asset_group_activation_def add_asset_group_members_def remove_asset_group_members_def

lemma snd_missing [simp]:
  "snd (case p of (Inl e, s) \<Rightarrow> (Inl e, s) | (Inr (xs, missing), s) \<Rightarrow>
     if missing \<noteq> [] then (Inl (E missing), s) else (Inr xs, s)) = snd p"
  by (simp split: prod.split sum.split)

lemma snd_deleted [simp]:
  "snd (case p of (Inl e, s) \<Rightarrow> (Inl e, s) | (Inr b, s) \<Rightarrow> (Inr (f b), s)) = snd p"
  by (simp split: prod.split sum.split)

lemma request_through:
  assumes "fleet_ok db"
  shows "let_through acc td req db (snd (fleet_api env acc td req db))"
proof -
  note frame = create_geofence_frame [OF prod.collapse [symmetric]] operation_frames(2-) [OF assms prod.collapse [symmetric]]
  show ?thesis
    by (cases req)
      (auto simp: fence_routes group_routes Let_def get_asset_states_def intro!: snd_with_fence snd_with_group snd_page frame)
qed

subsection \<open>Requests keep the invariants\<close>

lemma cleanup_distinct:
  "distinct (map gs_id (db_asset_states db)) \<Longrightarrow> distinct (map gs_id (db_asset_states (cleanup_effective_states ps db)))"
proof (induction ps arbitrary: db)
  case (Cons p ps)
  obtain g a where p: "p = (g, a)" by (cases p)
  from Cons.IH [OF delete_state_distinct [OF Cons.prems]] show ?case by (simp add: cleanup_effective_states_def p)
qed (simp add: cleanup_effective_states_def)

lemma group_run_ok:
  assumes "fleet_ok db" "distinct_ids op"
  shows "fleet_ok (snd (run_group_op stamp now op db))"
proof -
  obtain ok db' where run: "run_group_op stamp now op db = (ok, db')" by (cases "run_group_op stamp now op db")
  have tenants: "group_tenants db'" by (rule group_op_tenants [OF fleet_okD(7) [OF assms(1)] assms(2) run])
  have "groups_ok db" using fleet_okD(7) [OF assms(1)] by (simp add: group_tenants_def)
  with group_op_step [OF _ assms(2) run] have "db' = db \<or> group_frame db db'" by (auto split: if_splits)
  then have same: "db_geofences db' = db_geofences db" "db_geofence_assignments db' = db_geofence_assignments db"
    using group_frame_base(1,3) by auto
  obtain ps where "db_asset_states db' = db_asset_states (cleanup_effective_states ps db)" by (rule group_op_states [OF run])
  with cleanup_distinct [OF fleet_okD(3) [OF assms(1)]] have "fleet_ids_ok db'"
    using fleet_okD(1,2) [OF assms(1)] by (simp add: fleet_ids_ok_def same)
  with tenants run show ?thesis by (simp add: fleet_ok_def)
qed

lemma snd_outcome [simp]: "snd (outcome p) = snd p"
  by (simp add: outcome_def split: prod.split sum.split option.split)

lemma group_operations_ok:
  assumes "fleet_ok db"
  shows "valid_ids k (case ids of None \<Rightarrow> [] | Some l \<Rightarrow> l) \<Longrightarrow> fleet_ok (snd (create_asset_group stamp c n d ids db))"
    "valid_ids k l \<Longrightarrow> fleet_ok (snd (add_members stamp g c l db))"
    "valid_ids k l \<Longrightarrow> fleet_ok (snd (remove_members now g c l db))"
    "valid_ids k (case gu_asset_ids u of None \<Rightarrow> [] | Some l \<Rightarrow> l) \<Longrightarrow> fleet_ok (snd (update_asset_group stamp now g c u db))"
    "fleet_ok (snd (set_asset_group_active now g c b db))"
    "valid_ids k l \<Longrightarrow> fleet_ok (snd (assign_groups_to_geofence stamp f c l db))"
    "valid_ids k l \<Longrightarrow> fleet_ok (snd (remove_groups_from_geofence now f c l db))"
proof -
  note run = group_run_ok [OF assms]
  have distinct: "valid_ids k l \<Longrightarrow> distinct l" for k and l :: "nat list" by (simp add: valid_ids_def card_distinct)
  show "valid_ids k (case ids of None \<Rightarrow> [] | Some l \<Rightarrow> l) \<Longrightarrow> fleet_ok (snd (create_asset_group stamp c n d ids db))"
    using run [of "Create c n d ids" stamp 0] distinct by (auto split: option.splits)
  show "valid_ids k l \<Longrightarrow> fleet_ok (snd (add_members stamp g c l db))" using run [of "Add g c l" stamp 0] distinct by simp
  show "valid_ids k l \<Longrightarrow> fleet_ok (snd (remove_members now g c l db))" using run [of "Remove g c l" stamp now] distinct by simp
  show "valid_ids k (case gu_asset_ids u of None \<Rightarrow> [] | Some l \<Rightarrow> l) \<Longrightarrow> fleet_ok (snd (update_asset_group stamp now g c u db))"
    using run [of "Update g c u" stamp now] distinct by (auto split: option.splits)
  show "fleet_ok (snd (set_asset_group_active now g c b db))" using run [of "Activate g c b" stamp now] by simp
  show "valid_ids k l \<Longrightarrow> fleet_ok (snd (assign_groups_to_geofence stamp f c l db))"
    using run [of "Assign f c l" stamp 0] distinct by (simp add: split_beta)
  show "valid_ids k l \<Longrightarrow> fleet_ok (snd (remove_groups_from_geofence now f c l db))"
    using run [of "Unassign f c l" stamp now] distinct by (simp add: split_beta)
qed

text \<open>Operations on geofences leave the group tables alone and keep every geofence's client.\<close>

lemma fence_write_ok:
  assumes "fleet_ok db" "distinct (map gf_id (db_geofences db'))" "fence_clients db \<subseteq> fence_clients db'"
    and "distinct (map ga_id (db_geofence_assignments db'))" "distinct (map gs_id (db_asset_states db'))"
    and "db_asset_groups db' = db_asset_groups db" "db_group_members db' = db_group_members db"
    "db_fence_groups db' = db_fence_groups db" "db_assets db' = db_assets db"
  shows "fleet_ok db'"
proof -
  have "view_of db' = view_of db" "owned_assets db' = owned_assets db"
    using assms(6-9) by (simp_all add: view_of_def group_asset_links_def fence_group_links_def live_groups_def group_clients_def
        owned_assets_def fun_eq_iff)
  with fleet_okD(7) [OF assms(1)] assms(3) have "group_tenants db'"
    by (auto simp: group_tenants_def groups_ok_def tenants_ok_def assms(6-8)) blast
  with assms(2,4,5) show ?thesis by (simp add: fleet_ok_def fleet_ids_ok_def)
qed

lemma fence_put_ok:
  assumes "fleet_ok db" "get_geofence_for_client db i c = Some g" "gf_id g' = gf_id g" "gf_client_id g' = gf_client_id g"
  shows "fleet_ok (db\<lparr>db_geofences := put gf_id g' (db_geofences db)\<rparr>)"
proof (rule fence_write_ok [OF assms(1)])
  have "map (\<lambda>g. (gf_id g, gf_client_id g)) (put gf_id g' (db_geofences db)) = map (\<lambda>g. (gf_id g, gf_client_id g)) (db_geofences db)"
    using found_fence [OF assms(2)] assms(3,4) same_key_same_row [OF fleet_okD(1) [OF assms(1)]] by (auto simp: put_def) metis
  from arg_cong [OF this, of set] show "fence_clients db \<subseteq> fence_clients (db\<lparr>db_geofences := put gf_id g' (db_geofences db)\<rparr>)"
    by (simp add: fence_clients_def)
qed (use fleet_okD [OF assms(1)] in simp_all)

lemma transact_ok:
  assumes "fleet_ok db" "\<And>x db'. body db = Inr (x, db') \<Longrightarrow> fleet_ok db'"
  shows "fleet_ok (snd (transact body db))"
  using assms by (auto simp: transact_def split: sum.splits prod.splits)

lemma fence_operations_ok:
  assumes "fleet_ok db"
  shows "fleet_ok (snd (create_geofence env c n d shape active db))"
    "fleet_ok (snd (update_geofence env i c u db))"
    "fleet_ok (snd (delete_geofence env i c db))"
    "fleet_ok (snd (set_geofence_active env i c b db))"
    "fleet_ok (snd (assign_assets env i c ids db))"
    "fleet_ok (snd (deactivate_assignment env i c db))"
proof -
  note okD = fleet_okD [OF assms] and tok = transact_ok [OF assms]
  have kept: "db_assets (snd (delete_state_if_unassigned g a db)) = db_assets db"
    "db_geofences (snd (delete_state_if_unassigned g a db)) = db_geofences db"
    "db_asset_groups (snd (delete_state_if_unassigned g a db)) = db_asset_groups db"
    "db_group_members (snd (delete_state_if_unassigned g a db)) = db_group_members db"
    "db_fence_groups (snd (delete_state_if_unassigned g a db)) = db_fence_groups db" for g a
    using delete_state_base [of db g a] by (simp_all add: same_base_def)
  have new: "g \<in> set (db_geofences db) \<Longrightarrow> fresh gf_id (db_geofences db) = gf_id g \<Longrightarrow> False" for g
    using fresh_not_in [of gf_id "db_geofences db"] by auto
  show "fleet_ok (snd (create_geofence env c n d shape active db))" unfolding create_geofence_def
    by (rule tok) (auto simp: Let_def res_simps commit_fences_Inr fence_clients_def okD dest: new intro!: fence_write_ok [OF assms])
  show "fleet_ok (snd (update_geofence env i c u db))" unfolding update_geofence_def
    by (rule tok) (auto simp: res_simps commit_fences_Inr apply_update_client assms intro!: fence_put_ok split: option.splits if_splits)
  show "fleet_ok (snd (delete_geofence env i c db))" unfolding delete_geofence_def
    by (rule tok) (auto simp: res_simps commit_fences_Inr assms intro!: fence_put_ok split: option.splits)
  show "fleet_ok (snd (set_geofence_active env i c b db))" unfolding set_geofence_active_def
    by (rule tok) (auto simp: res_simps commit_fences_Inr assms intro!: fence_put_ok split: option.splits)
  show "fleet_ok (snd (assign_assets env i c ids db))" unfolding assign_assets_def
    by (rule tok) (auto simp: Let_def res_simps commit_fences_Inr assms fence_clients_def okD split: option.splits if_splits
        intro!: fence_write_ok [OF assms] fence_assets.keys_add_rows)
  show "fleet_ok (snd (deactivate_assignment env i c db))" unfolding deactivate_assignment_def
    by (rule tok) (auto simp: Let_def res_simps commit_fences_Inr assms fence_clients_def okD kept split: option.splits
        intro!: fence_write_ok [OF assms] delete_state_distinct)
qed

lemma snd_client_ok: "fleet_ok db \<Longrightarrow> (\<And>c. fleet_ok (snd (k c db))) \<Longrightarrow> fleet_ok (snd (with_client r k db))"
  by (simp add: with_client_def split: sum.split)

lemma snd_page_ok: "fleet_ok db \<Longrightarrow> (\<And>skip limit. fleet_ok (snd (k skip limit db))) \<Longrightarrow> fleet_ok (snd (page_checked most skip limit k db))"
  by (simp add: page_checked_def)

lemma request_ok:
  assumes "fleet_ok db"
  shows "fleet_ok (snd (fleet_api env acc td req db))"
  using assms
  by (cases req)
    (auto simp: fence_routes group_routes Let_def get_asset_states_def
      intro!: snd_client_ok snd_page_ok fence_operations_ok [OF assms] group_operations_ok [OF assms])

subsection \<open>Clients do not interfere\<close>

record tenant_view =
  tv_fences :: "geofence list"
  tv_groups :: "asset_group list"
  tv_assignments :: "geofence_assignment list"
  tv_members :: "group_member list"
  tv_fence_groups :: "fence_group list"
  tv_states :: "asset_state list"

definition tenant_view :: "nat \<Rightarrow> tlrs_db \<Rightarrow> tenant_view" where
  "tenant_view c db = \<lparr>tv_fences = filter (\<lambda>g. gf_client_id g = c) (db_geofences db),
     tv_groups = filter (\<lambda>g. ag_client_id g = c) (db_asset_groups db),
     tv_assignments = filter (\<lambda>x. (ga_fence_id x, c) \<in> fence_clients db) (db_geofence_assignments db),
     tv_members = filter (\<lambda>m. (agm_group_id m, c) \<in> group_clients db) (db_group_members db),
     tv_fence_groups = filter (\<lambda>x. (gg_geofence_id x, c) \<in> fence_clients db) (db_fence_groups db),
     tv_states = filter (\<lambda>s. (gs_fence_id s, c) \<in> fence_clients db) (db_asset_states db)\<rparr>"

lemma fleet_frame_other:
  assumes "fleet_frame c0 db db'" "c \<noteq> c0"
  shows "tenant_view c db' = tenant_view c db"
proof -
  have fences: "filter (\<lambda>g. gf_client_id g = c) (db_geofences db') = filter (\<lambda>g. gf_client_id g = c) (db_geofences db)"
    by (rule confined_other [of "\<lambda>g. gf_client_id g = c0"]) (use assms in \<open>simp_all add: fleet_frame_def\<close>)
  have groups: "filter (\<lambda>g. ag_client_id g = c) (db_asset_groups db') = filter (\<lambda>g. ag_client_id g = c) (db_asset_groups db)"
    by (rule confined_other [of "\<lambda>g. ag_client_id g = c0"]) (use assms in \<open>simp_all add: fleet_frame_def\<close>)
  have own: "(f, c) \<in> fence_clients d \<longleftrightarrow> f \<in> gf_id ` set (filter (\<lambda>g. gf_client_id g = c) (db_geofences d))"
    "(g, c) \<in> group_clients d \<longleftrightarrow> g \<in> ag_id ` set (filter (\<lambda>g. ag_client_id g = c) (db_asset_groups d))" for f g d
    by (auto simp: fence_clients_def group_clients_def)
  have same: "(f, c) \<in> fence_clients db' \<longleftrightarrow> (f, c) \<in> fence_clients db" "(g, c) \<in> group_clients db' \<longleftrightarrow> (g, c) \<in> group_clients db" for f g
    by (simp_all only: own fences groups)
  have foreign: "(f, c) \<in> fence_clients db \<Longrightarrow> \<not> f \<notin> foreign_fences db c0" "(g, c) \<in> group_clients db \<Longrightarrow> \<not> g \<notin> foreign_groups db c0" for f g
    using assms(2) by (auto simp: foreign_fences_def foreign_groups_def)
  have "filter (\<lambda>x. (ga_fence_id x, c) \<in> fence_clients db) (db_geofence_assignments db') =
      filter (\<lambda>x. (ga_fence_id x, c) \<in> fence_clients db) (db_geofence_assignments db)"
    "filter (\<lambda>m. (agm_group_id m, c) \<in> group_clients db) (db_group_members db') =
      filter (\<lambda>m. (agm_group_id m, c) \<in> group_clients db) (db_group_members db)"
    "filter (\<lambda>x. (gg_geofence_id x, c) \<in> fence_clients db) (db_fence_groups db') =
      filter (\<lambda>x. (gg_geofence_id x, c) \<in> fence_clients db) (db_fence_groups db)"
    "filter (\<lambda>s. (gs_fence_id s, c) \<in> fence_clients db) (db_asset_states db') =
      filter (\<lambda>s. (gs_fence_id s, c) \<in> fence_clients db) (db_asset_states db)"
    using assms(1) unfolding fleet_frame_def
    by (auto elim!: confined_other simp: foreign [simplified])
  with fences groups show ?thesis unfolding tenant_view_def same by simp
qed

text \<open>A history: requests, each with the clock and the account tables at that time.\<close>

type_synonym fleet_history = "(fence_env \<times> accounts \<times> token_data \<times> fleet_request) list"

primrec run_requests :: "fleet_history \<Rightarrow> tlrs_db \<Rightarrow> tlrs_db" where
  "run_requests [] db = db"
| "run_requests (r # rs) db = (case r of (env, acc, td, req) \<Rightarrow> run_requests rs (snd (fleet_api env acc td req db)))"

lemma history_isolated:
  assumes "fleet_ok db" "\<forall>(env, acc, td, req) \<in> set h. \<not> (acts_for td req c \<and> permitted acc td (service_asked req))"
  shows "fleet_ok (run_requests h db) \<and> tenant_view c (run_requests h db) = tenant_view c db \<and>
    other_tables (run_requests h db) = other_tables db"
  using assms
proof (induction h arbitrary: db)
  case (Cons r h)
  obtain env acc td req where r: "r = (env, acc, td, req)" by (cases r)
  let ?db = "snd (fleet_api env acc td req db)"
  have "tenant_view c ?db = tenant_view c db \<and> other_tables ?db = other_tables db"
    using request_through [OF Cons.prems(1), of acc td req env] Cons.prems(2) fleet_frame_other [of _ db ?db c]
    by (auto simp: let_through_def r fleet_frame_def)
  moreover have "fleet_ok ?db" by (rule request_ok [OF Cons.prems(1)])
  ultimately show ?case using Cons.IH [of ?db] Cons.prems(2) by (simp add: r)
qed simp

text \<open>
  Property C6. Clients do not interfere: whatever requests arrive at the routes of geofences and
  asset groups, from whichever users, nothing of a client - its geofences and groups, their
  assignments, members and links, the states of its assets - is added, changed or removed unless a
  user with the permission its route asks for acts for that client; and no other table changes at all.
\<close>
theorem clients_do_not_interfere:
  assumes "fleet_ok db" "\<forall>(env, acc, td, req) \<in> set h. \<not> (acts_for td req c \<and> permitted acc td (service_asked req))"
  shows "fleet_ok (run_requests h db) \<and> tenant_view c (run_requests h db) = tenant_view c db \<and>
    other_tables (run_requests h db) = other_tables db"
  using assms by (rule history_isolated)

definition other_admin :: token_data where
  "other_admin = \<lparr>td_user_id = 1, td_username = ''b'', td_client_id = Some 2, td_is_admin = True, td_session_id = None\<rparr>"

lemma grouped_db_fleet: "fleet_ok grouped_db"
  using grouped_db_tenants by (simp add: fleet_ok_def fleet_ids_ok_def grouped_db_def idle_db_def empty_db_def)

theorem clients_do_not_interfere_witness:
  "\<exists>db. db = run_requests [(sample_fence_env, one_user, other_admin, Delete_Members 1 [7]),
      (sample_fence_env, one_user, other_admin, Post_Group None ''mine'' None None)] grouped_db \<and>
    tv_members (tenant_view 1 db) = tv_members (tenant_view 1 grouped_db)"
  using clients_do_not_interfere [OF grouped_db_fleet, of "[(sample_fence_env, one_user, other_admin, Delete_Members 1 [7]),
      (sample_fence_env, one_user, other_admin, Post_Group None ''mine'' None None)]" 1]
  by (simp add: acts_for_def other_admin_def)

end
