(* ===== verification/Account_Api.thy ===== *)
theory Account_Api
  imports Web_Routes
begin

text \<open>
  The HTTP routes of accounts and roles, \<open>src/routers/user.py\<close> and \<open>src/routers/rbac.py\<close>: the
  registration, login, refresh and logout of users with their cookie, and the grants.  The
  settings a route reads are the record \<open>login_settings\<close>; the library for JWTs and bcrypt are
  parameters, with \<open>jwt_law\<close> and \<open>bcrypt_law\<close> for what the code relies on.
\<close>

subsection \<open>The refresh cookie\<close>

record login_settings =
  ls_secret_key :: "string option"
  ls_algorithm :: "string option"
  ls_access_minutes :: int
  ls_refresh_days :: int
  ls_environment :: string
  ls_cookie_secure :: "bool option"
  ls_cookie_samesite :: string
  ls_cookie_path :: string

record cookie_attributes =
  ck_httponly :: bool
  ck_secure :: bool
  ck_samesite :: string
  ck_path :: string

datatype cookie_action =
    Keep_Cookie
  | Set_Cookie string string int cookie_attributes
  | Delete_Cookie string cookie_attributes

definition REFRESH_TOKEN_COOKIE_KEY :: string where "REFRESH_TOKEN_COOKIE_KEY = ''refresh_token''"

definition refresh_token_cookie_max_age :: "login_settings \<Rightarrow> int" where
  "refresh_token_cookie_max_age ls = ls_refresh_days ls * 24 * 60 * 60"

definition refresh_token_cookie_secure :: "login_settings \<Rightarrow> bool" where
  "refresh_token_cookie_secure ls =
     (case ls_cookie_secure ls of Some b \<Rightarrow> b | None \<Rightarrow> py_lower (ls_environment ls) \<in> {''prod'', ''production''})"

definition cookie_attributes_of :: "login_settings \<Rightarrow> cookie_attributes" where
  "cookie_attributes_of ls = \<lparr>ck_httponly = True, ck_secure = refresh_token_cookie_secure ls,
     ck_samesite = ls_cookie_samesite ls, ck_path = ls_cookie_path ls\<rparr>"

definition set_refresh_token_cookie :: "login_settings \<Rightarrow> string \<Rightarrow> cookie_action" where
  "set_refresh_token_cookie ls refresh_token =
     Set_Cookie REFRESH_TOKEN_COOKIE_KEY refresh_token (refresh_token_cookie_max_age ls) (cookie_attributes_of ls)"

definition delete_refresh_token_cookie :: "login_settings \<Rightarrow> cookie_action" where
  "delete_refresh_token_cookie ls = Delete_Cookie REFRESH_TOKEN_COOKIE_KEY (cookie_attributes_of ls)"

subsection \<open>Routes of users\<close>

definition web_respond :: "(web_error, 'a) res \<times> 's \<Rightarrow> (route_error, 'a) res \<times> 's" where
  "web_respond p = (case p of (Inl e, s) \<Rightarrow> (Inl (route_of_web e), s) | (Inr x, s) \<Rightarrow> (Inr x, s))"

fun user_integrity :: "string \<Rightarrow> web_error \<Rightarrow> route_error option" where
  "user_integrity detail (Web_Db e) = on_integrity detail e"
| "user_integrity detail (Http_Error code d) = Some (Http_Answer code d [])"

definition create_user_route ::
  "(string \<Rightarrow> string) \<Rightarrow> string \<Rightarrow> string \<Rightarrow> string \<Rightarrow> nat option \<Rightarrow> bool \<Rightarrow> (accounts, route_error, user) act" where
  "create_user_route bcrypt_hash name email password client_id is_admin acc =
     caught [user_integrity ''Username or email already exists.''] (create_user bcrypt_hash name email password client_id is_admin acc)"

record login_env =
  le_settings :: login_settings
  le_session :: session_env
  le_token_now :: int
  le_jwt_encode :: "string \<Rightarrow> string \<Rightarrow> token_claims \<Rightarrow> string"
  le_bcrypt_verify :: "string \<Rightarrow> string \<Rightarrow> bool"

definition access_token_for :: "login_env \<Rightarrow> token_data \<Rightarrow> nat \<Rightarrow> (web_error, string) res" where
  "access_token_for env td session_id =
     create_token (le_jwt_encode env) (ls_secret_key (le_settings env)) (ls_algorithm (le_settings env)) (le_token_now env)
       (ls_access_minutes (le_settings env) * 60000000) (td_user_id td) (td_username td) (td_client_id td) (td_is_admin td) session_id"

text \<open>The session is committed before the token is made: an error of \<open>create_token\<close> leaves it.\<close>

definition login ::
  "login_env \<Rightarrow> string \<Rightarrow> string \<Rightarrow> string option \<Rightarrow> string option \<Rightarrow> (accounts, route_error, string \<times> cookie_action) act" where
  "login env username password user_agent ip_address acc = web_respond
     (case auth_user (le_bcrypt_verify env) password username acc of
        Inl e \<Rightarrow> (Inl e, acc)
      | Inr u \<Rightarrow>
          (case create_refresh_session (le_session env) (u_id u) user_agent ip_address acc of
             (Inl e, acc') \<Rightarrow> (Inl e, acc')
           | (Inr p, acc') \<Rightarrow>
               (case access_token_for env (token_data_of u) (us_id (tp_session p)) of
                  Inl e \<Rightarrow> (Inl e, acc')
                | Inr tok \<Rightarrow> (Inr (tok, set_refresh_token_cookie (le_settings env) (tp_refresh_token p)), acc'))))"

definition refresh_token ::
  "login_env \<Rightarrow> string option \<Rightarrow> string option \<Rightarrow> string option \<Rightarrow> (accounts, route_error, string \<times> cookie_action) act" where
  "refresh_token env refresh_cookie user_agent ip_address acc = web_respond
     (case refresh_cookie of
        None \<Rightarrow> (Inl (Http_Error 401 ''Refresh token cookie is missing.''), acc)
      | Some tok \<Rightarrow>
          (case rotate_refresh_session (le_session env) tok user_agent ip_address acc of
             (Inl e, acc') \<Rightarrow> (Inl e, acc')
           | (Inr r, acc') \<Rightarrow>
               (case access_token_for env (rr_token_data r) (us_id (rr_session r)) of
                  Inl e \<Rightarrow> (Inl e, acc')
                | Inr access \<Rightarrow> (Inr (access, case rr_pair r of
                      None \<Rightarrow> Keep_Cookie | Some p \<Rightarrow> set_refresh_token_cookie (le_settings env) (tp_refresh_token p)), acc'))))"

definition logout :: "login_env \<Rightarrow> string option \<Rightarrow> (accounts, route_error, cookie_action) act" where
  "logout env refresh_cookie acc = web_respond
     (case refresh_cookie of
        None \<Rightarrow> (Inr (delete_refresh_token_cookie (le_settings env)), acc)
      | Some tok \<Rightarrow>
          (case revoke_refresh_session (le_session env) tok acc of
             (Inl e, acc') \<Rightarrow> (Inl e, acc')
           | (Inr _, acc') \<Rightarrow> (Inr (delete_refresh_token_cookie (le_settings env)), acc')))"

subsection \<open>Routes of roles\<close>

fun rbac_conflict :: "rbac_error \<Rightarrow> route_error option" where
  "rbac_conflict (Rbac_Conflict detail) = Some (Http_Answer 409 detail [])"
| "rbac_conflict _ = None"

fun rbac_not_found :: "rbac_error \<Rightarrow> route_error option" where
  "rbac_not_found (Rbac_Not_Found detail) = Some (Http_Answer 404 detail [])"
| "rbac_not_found _ = None"

definition create_service_route :: "string \<Rightarrow> (accounts, route_error, service) act" where
  "create_service_route name acc = caught [rbac_conflict] (create_service name acc)"

definition create_role_route :: "string \<Rightarrow> (accounts, route_error, role) act" where
  "create_role_route name acc = caught [rbac_conflict] (create_role name acc)"

definition assign_service_to_role_route :: "nat \<Rightarrow> nat \<Rightarrow> (accounts, route_error, service_role) act" where
  "assign_service_to_role_route role_id service_id acc =
     caught [rbac_not_found, rbac_conflict] (assign_service_to_role role_id service_id acc)"

definition assign_role_to_user_route :: "nat \<Rightarrow> nat \<Rightarrow> (accounts, route_error, user_role) act" where
  "assign_role_to_user_route user_id role_id acc =
     caught [rbac_not_found, rbac_conflict] (assign_role_to_user user_id role_id acc)"

subsection \<open>What the code relies on\<close>

text \<open>
  PyJWT, for the key and the algorithm of the settings, where that is one of the HMAC algorithms the
  service is configured with: a token it has encoded is decoded until a second before its expiry at
  the latest; the expiry itself is kept in whole seconds only, so it may come back changed.
\<close>

definition hmac_algorithms :: "string set" where
  "hmac_algorithms = {''HS256'', ''HS384'', ''HS512''}"

definition jwt_law :: "int \<Rightarrow> login_env \<Rightarrow> (string \<Rightarrow> string \<Rightarrow> string \<Rightarrow> token_claims option) \<Rightarrow> bool" where
  "jwt_law now env dec \<longleftrightarrow>
     (case (ls_secret_key (le_settings env), ls_algorithm (le_settings env)) of
        (Some k, Some alg) \<Rightarrow> alg \<in> hmac_algorithms \<and> (\<forall>c. now + 1000000 \<le> tc_exp c \<longrightarrow>
          (\<exists>e. dec k alg (le_jwt_encode env k alg c) = Some (c\<lparr>tc_exp := e\<rparr>)))
      | _ \<Rightarrow> False)"

definition bcrypt_law :: "(string \<Rightarrow> string) \<Rightarrow> (string \<Rightarrow> string \<Rightarrow> bool) \<Rightarrow> bool" where
  "bcrypt_law hash verify \<longleftrightarrow> (\<forall>p. utf8_length p \<le> 72 \<longrightarrow> verify p (hash p))"

subsection \<open>Access tokens name their owner\<close>

text \<open>
  \<open>names_owner td u s\<close>: the identity \<open>td\<close> is that of the user \<open>u\<close>, who is not deleted, in \<open>s\<close>, one of the
  user's sessions.
\<close>

definition names_owner :: "token_data \<Rightarrow> user \<Rightarrow> user_session \<Rightarrow> bool" where
  "names_owner td u s \<longleftrightarrow> td = (token_data_of u)\<lparr>td_session_id := Some (us_id s)\<rparr> \<and> u_deleted u = CHR ''N'' \<and>
     us_user_id s = u_id u"

abbreviation current_user :: "login_env \<Rightarrow> (string \<Rightarrow> string \<Rightarrow> string \<Rightarrow> token_claims option) \<Rightarrow> string \<Rightarrow> (web_error, token_data) res" where
  "current_user env dec tok \<equiv> get_current_user dec (ls_secret_key (le_settings env)) (ls_algorithm (le_settings env)) tok"

lemma access_token_identifies:
  assumes "access_token_for env td i = Inr tok" "jwt_law now env dec"
    and "now + 1000000 \<le> le_token_now env + ls_access_minutes (le_settings env) * 60000000"
  shows "current_user env dec tok = Inr (td\<lparr>td_session_id := Some i\<rparr>)"
proof -
  obtain k alg where keys: "ls_secret_key (le_settings env) = Some k" "ls_algorithm (le_settings env) = Some alg"
    using assms(1) by (auto simp: access_token_for_def create_token_def split: option.splits)
  let ?c = "\<lparr>tc_type = Some ''access'', tc_sub = Some (td_username td), tc_id = Some (td_user_id td),
      tc_client_id = td_client_id td, tc_is_admin = Some (td_is_admin td), tc_session_id = Some i,
      tc_exp = le_token_now env + ls_access_minutes (le_settings env) * 60000000\<rparr>"
  have tok: "tok = le_jwt_encode env k alg ?c" using assms(1) keys by (simp add: access_token_for_def create_token_def)
  have "now + 1000000 \<le> tc_exp ?c" using assms(3) by simp
  moreover from assms(2) have "\<forall>c. now + 1000000 \<le> tc_exp c \<longrightarrow>
      (\<exists>e. dec k alg (le_jwt_encode env k alg c) = Some (c\<lparr>tc_exp := e\<rparr>))"
    by (simp add: jwt_law_def keys)
  ultimately obtain e where "dec k alg (le_jwt_encode env k alg ?c) = Some (?c\<lparr>tc_exp := e\<rparr>)" by blast
  then show ?thesis by (cases td) (simp add: get_current_user_def keys tok)
qed

lemma auth_user_Inr:
  assumes "auth_user v password username acc = Inr u"
  shows "u \<in> set (acc_users acc)" "u_name u = username" "u_deleted u = CHR ''N''" "v password (u_password u)"
proof -
  have one: "filter (\<lambda>u. u_name u = username \<and> u_deleted u = CHR ''N'') (acc_users acc) = [u]" and pw: "v password (u_password u)"
    using assms by (auto simp: auth_user_def res_simps web_result_def scalar_one_or_none_Some split: sum.splits option.splits if_splits)
  have "u \<in> set (filter (\<lambda>u. u_name u = username \<and> u_deleted u = CHR ''N'') (acc_users acc))" unfolding one by simp
  then show "u \<in> set (acc_users acc)" "u_name u = username" "u_deleted u = CHR ''N''" by simp_all
  show "v password (u_password u)" by (rule pw)
qed

lemma login_cases:
  assumes "login env username password ua ip acc = (Inr (tok, ck), acc')"
  obtains u p where "auth_user (le_bcrypt_verify env) password username acc = Inr u"
    "create_refresh_session (le_session env) (u_id u) ua ip acc = (Inr p, acc')"
    "access_token_for env (token_data_of u) (us_id (tp_session p)) = Inr tok"
    "ck = set_refresh_token_cookie (le_settings env) (tp_refresh_token p)"
  using assms by (auto simp: login_def web_respond_def split: sum.splits prod.splits)

lemma refresh_cases:
  assumes "refresh_token env cookie ua ip acc = (Inr (tok, ck), acc')"
  obtains t r where "cookie = Some t" "rotate_refresh_session (le_session env) t ua ip acc = (Inr r, acc')"
    "access_token_for env (rr_token_data r) (us_id (rr_session r)) = Inr tok"
    "ck = (case rr_pair r of None \<Rightarrow> Keep_Cookie | Some p \<Rightarrow> set_refresh_token_cookie (le_settings env) (tp_refresh_token p))"
  using assms by (auto simp: refresh_token_def web_respond_def split: sum.splits prod.splits option.splits)

lemma session_of_login:
  assumes "create_refresh_session env i ua ip acc = (Inr p, acc')"
  shows "tp_session p \<in> set (acc_sessions acc')" "us_user_id (tp_session p) = i"
    "us_token_hash (tp_session p) = se_hash env (tp_refresh_token p)"
  using assms by (auto elim!: create_session_cases simp: new_session_def)

lemma session_of_rotation:
  assumes "distinct (map us_id (acc_sessions acc))" "s \<in> set (acc_sessions acc)"
    and "enforce_active_session_limit env i (put us_id (s\<lparr>us_revoked_at := t\<rparr>) (acc_sessions acc)) = Inr ss"
    and "n = new_session env base i ua ip ss"
  shows "n \<in> set (put us_id (s\<lparr>us_revoked_at := t, us_replaced_by := Some (us_id n)\<rparr>) (ss @ [n]))"
    "us_id n \<notin> us_id ` set (acc_sessions acc)"
proof -
  have ids: "map us_id ss = map us_id (put us_id (s\<lparr>us_revoked_at := t\<rparr>) (acc_sessions acc))"
    by (rule enforce_spec(1) [OF _ assms(3)]) (simp add: assms(1))
  then have "us_id ` set ss = us_id ` set (acc_sessions acc)" by (metis map_key_put set_map)
  moreover have "us_id n \<notin> us_id ` set ss" using fresh_not_in [of us_id ss] by (simp add: assms(4) new_session_def)
  ultimately show new: "us_id n \<notin> us_id ` set (acc_sessions acc)" by simp
  with assms(2) show "n \<in> set (put us_id (s\<lparr>us_revoked_at := t, us_replaced_by := Some (us_id n)\<rparr>) (ss @ [n]))"
    by (auto simp: put_def)
qed

text \<open>
  What the holder of the access token \<open>tok\<close> is, after a login: the user of the name and the password,
  in the session whose refresh token the cookie carries.
\<close>

definition token_of_login ::
  "login_env \<Rightarrow> string \<Rightarrow> string \<Rightarrow> accounts \<Rightarrow> cookie_action \<Rightarrow> accounts \<Rightarrow> token_data \<Rightarrow> bool" where
  "token_of_login env username password acc ck acc' td \<longleftrightarrow>
     (\<exists>u \<in> set (acc_users acc). \<exists>s \<in> set (acc_sessions acc'). \<exists>rt. names_owner td u s \<and>
       u_name u = username \<and> le_bcrypt_verify env password (u_password u) \<and>
       us_token_hash s = se_hash (le_session env) rt \<and> ck = set_refresh_token_cookie (le_settings env) rt)"

text \<open>
  After a refresh: the owner of the stored session \<open>s0\<close> that the token of the cookie belongs to.  If \<open>s0\<close>
  was active, the identity is in a session that is new, whose refresh token the cookie now
  carries; otherwise \<open>s0\<close> was rotated within the grace period, and the identity is in the session
  that replaced it, with the cookie kept.
\<close>

definition token_of_refresh ::
  "login_env \<Rightarrow> string option \<Rightarrow> accounts \<Rightarrow> cookie_action \<Rightarrow> accounts \<Rightarrow> token_data \<Rightarrow> bool" where
  "token_of_refresh env cookie acc ck acc' td \<longleftrightarrow>
     (\<exists>t s0 u s. cookie = Some t \<and> s0 \<in> set (acc_sessions acc) \<and> us_token_hash s0 = se_hash (le_session env) t \<and>
       us_deleted s0 = CHR ''N'' \<and> us_user_id s0 = u_id u \<and> u \<in> set (acc_users acc) \<and> s \<in> set (acc_sessions acc') \<and>
       names_owner td u s \<and>
       (session_active (se_now (le_session env)) (u_id u) s0 \<and> us_id s \<notin> us_id ` set (acc_sessions acc) \<and>
          (\<exists>rt. us_token_hash s = se_hash (le_session env) rt \<and> ck = set_refresh_token_cookie (le_settings env) rt) \<or>
        (\<exists>r. us_revoked_at s0 = Some r \<and>
          se_now (le_session env) - seconds_us (se_grace_seconds (le_session env)) \<le> r) \<and>
          us_replaced_by s0 = Some (us_id s) \<and> session_active (se_now (le_session env)) (u_id u) s \<and>
          acc' = acc \<and> ck = Keep_Cookie))"

lemma login_names_owner:
  assumes "login env username password ua ip acc = (Inr (tok, ck), acc')" "jwt_law now env dec"
    and "now + 1000000 \<le> le_token_now env + ls_access_minutes (le_settings env) * 60000000"
  shows "\<exists>td. current_user env dec tok = Inr td \<and> token_of_login env username password acc ck acc' td"
  using assms(1)
proof (cases rule: login_cases)
  case (1 u p)
  from auth_user_Inr [OF 1(1)] session_of_login [OF 1(2)] 1(4)
  have "token_of_login env username password acc ck acc' ((token_data_of u)\<lparr>td_session_id := Some (us_id (tp_session p))\<rparr>)"
    unfolding token_of_login_def names_owner_def by blast
  with access_token_identifies [OF 1(3) assms(2,3)] show ?thesis by blast
qed

lemma refresh_names_owner:
  assumes "refresh_token env cookie ua ip acc = (Inr (tok, ck), acc')" "jwt_law now env dec"
    and "now + 1000000 \<le> le_token_now env + ls_access_minutes (le_settings env) * 60000000"
    and "distinct (map us_id (acc_sessions acc))"
  shows "\<exists>td. current_user env dec tok = Inr td \<and> token_of_refresh env cookie acc ck acc' td"
  using assms(1)
proof (cases rule: refresh_cases)
  case (1 t r)
  let ?td = "(rr_token_data r)\<lparr>td_session_id := Some (us_id (rr_session r))\<rparr>"
  from 1(2) have "token_of_refresh env cookie acc ck acc' ?td"
  proof (cases rule: rotate_cases)
    case (rotated s u ss n)
    from session_of_rotation [OF assms(4) rotated(1,7,8)] rotated
    have "n \<in> set (acc_sessions acc')" "us_id n \<notin> us_id ` set (acc_sessions acc)" by simp_all
    with rotated 1(1,4) show ?thesis
      unfolding token_of_refresh_def names_owner_def
      by (intro exI [of _ t] exI [of _ s] exI [of _ u] exI [of _ n]) (auto simp: new_session_def session_active_def)
  next
    case reused
    from reused(1) show ?thesis
    proof (cases rule: reuse_cases)
      case reuse: (1 s u x)
      with reused(2) 1(1,4) show ?thesis
        unfolding token_of_refresh_def names_owner_def
        by (intro exI [of _ t] exI [of _ s] exI [of _ u] exI [of _ x]) (auto simp: session_active_def)
    qed
  qed
  with access_token_identifies [OF 1(3) assms(2,3)] show ?thesis by blast
qed

text \<open>
  Property C16. Access tokens name their owner: as long as it has not expired, the access token that a login
  hands out decodes to the identity of a user who is not deleted, bears the name given and
  verifies the password given, in a stored session of that user whose refresh token the cookie
  carries; and the one that a refresh hands out decodes to the identity of the owner of the
  session whose token hash the cookie's token has, in a new session of that user, or, for a
  token rotated within the grace period, in the active session that replaced it.
\<close>
theorem access_token_names_owner:
  assumes "distinct (map us_id (acc_sessions acc))" "jwt_law now env dec"
    and "now + 1000000 \<le> le_token_now env + ls_access_minutes (le_settings env) * 60000000"
  shows "(login env username password ua ip acc = (Inr (tok, ck), acc') \<longrightarrow>
      (\<exists>td. current_user env dec tok = Inr td \<and> token_of_login env username password acc ck acc' td)) \<and>
    (refresh_token env cookie ua ip acc = (Inr (tok, ck), acc') \<longrightarrow>
      (\<exists>td. current_user env dec tok = Inr td \<and> token_of_refresh env cookie acc ck acc' td))"
  using login_names_owner [OF _ assms(2,3)] refresh_names_owner [OF _ assms(2,3,1)] by blast

text \<open>An unsigned token format that meets the law, for concrete runs.\<close>

definition put_text :: "string \<Rightarrow> string" where
  "put_text s = concat (map (\<lambda>c. [CHR ''c'', c]) s) @ '';''"

fun get_text :: "string \<Rightarrow> string \<times> string" where
  "get_text (x # c # xs) = (if x = CHR '';'' then ([], c # xs) else case get_text xs of (s, ys) \<Rightarrow> (c # s, ys))"
| "get_text [x] = ([], [])"
| "get_text [] = ([], [])"

lemma get_put_text [simp]: "get_text (put_text s @ rest) = (s, rest)"
  by (induction s) (auto simp: put_text_def, cases rest, auto)

definition put_option :: "('a \<Rightarrow> string) \<Rightarrow> 'a option \<Rightarrow> string" where
  "put_option f x = (case x of None \<Rightarrow> ''-'' | Some y \<Rightarrow> ''+'' @ put_text (f y))"

definition get_option :: "(string \<Rightarrow> 'a) \<Rightarrow> string \<Rightarrow> 'a option \<times> string" where
  "get_option g t = (if hd t = CHR ''-'' then (None, tl t) else case get_text (tl t) of (s, ys) \<Rightarrow> (Some (g s), ys))"

lemma get_put_option [simp]: "(\<And>y. g (f y) = y) \<Longrightarrow> get_option g (put_option f x @ rest) = (x, rest)"
  by (simp add: get_option_def put_option_def split: option.split)

definition plain_encode :: "string \<Rightarrow> string \<Rightarrow> token_claims \<Rightarrow> string" where
  "plain_encode k alg c = put_option id (tc_type c) @ put_option id (tc_sub c) @
     put_option (\<lambda>n. replicate n CHR ''1'') (tc_id c) @ put_option (\<lambda>n. replicate n CHR ''1'') (tc_client_id c) @
     put_option (\<lambda>b. if b then ''t'' else ''f'') (tc_is_admin c) @
     put_option (\<lambda>n. replicate n CHR ''1'') (tc_session_id c)"

definition plain_decode :: "string \<Rightarrow> string \<Rightarrow> string \<Rightarrow> token_claims option" where
  "plain_decode k alg t =
     (let (ty, t1) = get_option id t; (sub, t2) = get_option id t1; (i, t3) = get_option length t2;
          (cl, t4) = get_option length t3; (adm, t5) = get_option (\<lambda>s. s = ''t'') t4; (sess, t6) = get_option length t5
      in Some \<lparr>tc_type = ty, tc_sub = sub, tc_id = i, tc_client_id = cl, tc_is_admin = adm, tc_session_id = sess, tc_exp = 0\<rparr>)"

lemma plain_decode_encode: "plain_decode k alg (plain_encode k alg c) = Some (c\<lparr>tc_exp := 0\<rparr>)"
proof -
  have b: "((if b then ''t'' else ''f'') = ''t'') = b" for b by simp
  have last: "get_option length (put_option (\<lambda>n. replicate n CHR ''1'') x) = (x, [])" for x
    using get_put_option [of length "\<lambda>n. replicate n CHR ''1''" x "[]"] by simp
  show ?thesis by (cases c) (simp add: plain_decode_def plain_encode_def b last)
qed

definition sample_login_env :: login_env where
  "sample_login_env = \<lparr>le_settings = \<lparr>ls_secret_key = Some ''k'', ls_algorithm = Some ''HS256'', ls_access_minutes = 15,
       ls_refresh_days = 30, ls_environment = ''development'', ls_cookie_secure = None, ls_cookie_samesite = ''lax'',
       ls_cookie_path = ''/user/auth''\<rparr>,
     le_session = sample_session_env 0 ''t'', le_token_now = 0, le_jwt_encode = plain_encode,
     le_bcrypt_verify = (\<lambda>p h. p = h)\<rparr>"

lemma sample_jwt_law: "jwt_law now sample_login_env plain_decode" "jwt_law now (sample_login_env\<lparr>le_session := se\<rparr>) plain_decode"
  by (auto simp: jwt_law_def sample_login_env_def hmac_algorithms_def plain_decode_encode)

lemma sample_login: "\<exists>tok ck acc'. login sample_login_env ''ana'' ''p'' None None one_user = (Inr (tok, ck), acc')"
proof -
  obtain p acc' where "create_refresh_session (sample_session_env 0 ''t'') 1 None None one_user = (Inr p, acc')"
    using first_login by blast
  then show ?thesis
    by (simp add: login_def auth_user_def one_user_def web_result_def sample_login_env_def access_token_for_def create_token_def
        web_respond_def)
qed

lemma sample_refresh: "\<exists>tok ck acc'. refresh_token (sample_login_env\<lparr>le_session := sample_session_env 10 ''n''\<rparr>) (Some ''t'') None None
    logged_in = (Inr (tok, ck), acc')"
proof -
  obtain r acc' where "rotate_refresh_session (sample_session_env 10 ''n'') ''t'' None None logged_in = (Inr r, acc')"
    using refresh_works by blast
  then show ?thesis
    by (simp add: refresh_token_def sample_login_env_def access_token_for_def create_token_def web_respond_def)
qed

theorem access_token_names_owner_witness:
  "(\<exists>tok ck acc' td. login sample_login_env ''ana'' ''p'' None None one_user = (Inr (tok, ck), acc') \<and>
     current_user sample_login_env plain_decode tok = Inr td \<and> token_of_login sample_login_env ''ana'' ''p'' one_user ck acc' td) \<and>
   (\<exists>tok ck acc' td. refresh_token (sample_login_env\<lparr>le_session := sample_session_env 10 ''n''\<rparr>) (Some ''t'') None None logged_in
       = (Inr (tok, ck), acc') \<and>
     current_user (sample_login_env\<lparr>le_session := sample_session_env 10 ''n''\<rparr>) plain_decode tok = Inr td \<and>
     token_of_refresh (sample_login_env\<lparr>le_session := sample_session_env 10 ''n''\<rparr>) (Some ''t'') logged_in ck acc' td)"
proof
  have time: "0 + 1000000 \<le> le_token_now sample_login_env + ls_access_minutes (le_settings sample_login_env) * 60000000"
    "0 + 1000000 \<le> le_token_now (sample_login_env\<lparr>le_session := sample_session_env 10 ''n''\<rparr>)
       + ls_access_minutes (le_settings (sample_login_env\<lparr>le_session := sample_session_env 10 ''n''\<rparr>)) * 60000000"
    by (simp_all add: sample_login_env_def)
  have d: "distinct (map us_id (acc_sessions one_user))" "distinct (map us_id (acc_sessions logged_in))"
    by (simp_all add: one_user_def logged_in_def)
  show "\<exists>tok ck acc' td. login sample_login_env ''ana'' ''p'' None None one_user = (Inr (tok, ck), acc') \<and>
     current_user sample_login_env plain_decode tok = Inr td \<and> token_of_login sample_login_env ''ana'' ''p'' one_user ck acc' td"
    using sample_login access_token_names_owner [OF d(1) sample_jwt_law(1) time(1), THEN conjunct1] by blast
  show "\<exists>tok ck acc' td. refresh_token (sample_login_env\<lparr>le_session := sample_session_env 10 ''n''\<rparr>) (Some ''t'') None None logged_in
       = (Inr (tok, ck), acc') \<and>
     current_user (sample_login_env\<lparr>le_session := sample_session_env 10 ''n''\<rparr>) plain_decode tok = Inr td \<and>
     token_of_refresh (sample_login_env\<lparr>le_session := sample_session_env 10 ''n''\<rparr>) (Some ''t'') logged_in ck acc' td"
    using sample_refresh access_token_names_owner [OF d(2) sample_jwt_law(2) time(2), THEN conjunct2] by blast
qed

subsection \<open>What an anonymous caller can reach\<close>

lemma insert_session_fresh:
  assumes "1 \<le> se_max_sessions env" "se_hash env (se_token env) \<notin> us_token_hash ` set (acc_sessions acc)"
    and "distinct (map us_id (acc_sessions acc))"
  shows "\<exists>p acc'. create_refresh_session env i ua ip acc = (Inr p, acc') \<and> acc_users acc' = acc_users acc"
proof -
  obtain ss where ss: "enforce_active_session_limit env i (acc_sessions acc) = Inr ss"
    using assms(1) by (simp add: enforce_active_session_limit_def Let_def)
  have "us_token_hash ` set ss \<subseteq> us_token_hash ` set (acc_sessions acc)"
    using enforce_spec(5) [OF assms(3) ss] by fastforce
  with assms(2) ss show ?thesis
    by (auto simp: create_refresh_session_def with_sessions_def Let_def insert_session_def new_session_def)
qed

text \<open>
  Anyone can become an administrator: \<open>POST /user\<close> asks for no credentials and stores
  the \<open>is_admin\<close> of its body, so whoever registers a name and an email that are free, with that flag
  set, can log in with the password just chosen and hold an access token whose bearer every guard
  of \<open>validate_user_service_access\<close> lets through, whatever grants the account tables hold.
\<close>
theorem registration_makes_admin:
  assumes "name \<notin> u_name ` set (acc_users acc)" "email \<notin> u_email ` set (acc_users acc)" "utf8_length password \<le> 72"
    and "bcrypt_law hash (le_bcrypt_verify env)" "jwt_law now env dec"
    and "now + 1000000 \<le> le_token_now env + ls_access_minutes (le_settings env) * 60000000"
    and "1 \<le> se_max_sessions (le_session env)" "distinct (map us_id (acc_sessions acc))"
    and "se_hash (le_session env) (se_token (le_session env)) \<notin> us_token_hash ` set (acc_sessions acc)"
  shows "\<exists>u acc1 tok ck acc2 td. create_user_route hash name email password client_id True acc = (Inr u, acc1) \<and>
    login env name password ua ip acc1 = (Inr (tok, ck), acc2) \<and> current_user env dec tok = Inr td \<and>
    (\<forall>service. validate_user_service_access td service acc2 = Inr True)"
proof -
  let ?u = "\<lparr>u_id = fresh u_id (acc_users acc), u_name = name, u_email = email, u_password = hash password,
      u_deleted = CHR ''N'', u_client_id = client_id, u_is_admin = True\<rparr>"
  let ?acc = "acc\<lparr>acc_users := acc_users acc @ [?u]\<rparr>"
  have created: "create_user_route hash name email password client_id True acc = (Inr ?u, ?acc)"
    using assms(1-3) by (simp add: create_user_route_def create_user_def caught_def Let_def)
  have "filter (\<lambda>u. u_name u = name \<and> u_deleted u = CHR ''N'') (acc_users ?acc) = [?u]"
    using assms(1) by (auto simp: filter_empty_conv)
  then have auth: "auth_user (le_bcrypt_verify env) password name ?acc = Inr ?u"
    using assms(3,4) by (simp add: auth_user_def web_result_def bcrypt_law_def)
  obtain p acc2 where p: "create_refresh_session (le_session env) (u_id ?u) ua ip ?acc = (Inr p, acc2)"
    using insert_session_fresh [of "le_session env" ?acc "u_id ?u" ua ip] assms(7-9) by auto
  obtain tok where tok: "access_token_for env (token_data_of ?u) (us_id (tp_session p)) = Inr tok"
    using assms(5) by (auto simp: access_token_for_def create_token_def jwt_law_def split: option.splits)
  have "login env name password ua ip ?acc = (Inr (tok, set_refresh_token_cookie (le_settings env) (tp_refresh_token p)), acc2)"
    using auth p tok by (simp add: login_def web_respond_def)
  moreover have "current_user env dec tok = Inr ((token_data_of ?u)\<lparr>td_session_id := Some (us_id (tp_session p))\<rparr>)"
    by (rule access_token_identifies [OF tok assms(5,6)])
  moreover have "validate_user_service_access ((token_data_of ?u)\<lparr>td_session_id := Some (us_id (tp_session p))\<rparr>) service acc2 = Inr True" for service
    by (simp add: validate_user_service_access_def token_data_of_def)
  ultimately show ?thesis using created by blast
qed

theorem registration_makes_admin_witness:
  "\<exists>u acc1 tok ck acc2 td. create_user_route id ''eve'' ''e'' ''x'' None True one_user = (Inr u, acc1) \<and>
    login sample_login_env ''eve'' ''x'' None None acc1 = (Inr (tok, ck), acc2) \<and>
    current_user sample_login_env plain_decode tok = Inr td \<and>
    (\<forall>service. validate_user_service_access td service acc2 = Inr True)"
  by (rule registration_makes_admin [OF _ _ _ _ sample_jwt_law(1) [of 0]])
    (simp_all add: one_user_def sample_login_env_def sample_session_env_def bcrypt_law_def utf8_length_def)

end
