(* ===== verification/Device_Provisioning.thy ===== *)
theory Device_Provisioning
  imports Device_Service ChirpStack_Api "HOL-Library.Sublist"
begin

text \<open>
  Provisioning, \<open>src/service/device_provisioning_service.py\<close>: a device is stored with its first
  asset, created on the ChirpStack server with its keys, and marked as provisioned or failed.
  The state is the database together with the world behind the gRPC stub; the server's answers
  are the stub's.  What is stored of a failure is the sanitised message.
\<close>

subsection \<open>Errors and texts\<close>

datatype prov_error = Prov_Error string | Prov_Conflict string | Prov_Not_Found string
  | Prov_Api api_error | Prov_Db assignment_error

fun prov_message :: "prov_error \<Rightarrow> string" where
  "prov_message (Prov_Error m) = m"
| "prov_message (Prov_Conflict m) = m"
| "prov_message (Prov_Not_Found m) = m"
| "prov_message (Prov_Api e) = api_message e"
| "prov_message (Prov_Db e) = assignment_message e"

text \<open>\<open>s.replace(needle, replacement)\<close> for a non-empty needle: left to right, not overlapping.\<close>

function py_replace :: "string \<Rightarrow> string \<Rightarrow> string \<Rightarrow> string" where
  "py_replace needle replacement s =
     (if needle = [] \<or> s = [] then s
      else if prefix needle s then replacement @ py_replace needle replacement (drop (length needle) s)
      else hd s # py_replace needle replacement (tl s))"
  by pat_completeness auto
termination
  by (relation "measure (\<lambda>(needle, replacement, s). length s)") (auto simp: neq_Nil_conv)

declare py_replace.simps [simp del]

definition sanitize_error_message :: "string \<Rightarrow> string option \<Rightarrow> string" where
  "sanitize_error_message message app_key =
     (let sanitized = py_strip message
      in take 500 (if or_empty app_key = [] then sanitized
                   else py_replace (or_empty app_key) ''[REDACTED]'' sanitized))"

definition require_field :: "string option \<Rightarrow> string \<Rightarrow> (prov_error, string) res" where
  "require_field v field_name = (if py_strip (or_empty v) = []
     then Inl (Prov_Error (field_name @ '' is required for provisioning'')) else Inr (py_strip (or_empty v)))"

definition last4 :: "string \<Rightarrow> string" where
  "last4 s = drop (length s - 4) s"

subsection \<open>The remote side\<close>

definition validate_remote_device_compatibility :: "device \<Rightarrow> device_record \<Rightarrow> (prov_error, unit) res" where
  "validate_remote_device_compatibility d remote =
     bindE (require_field (d_application_id d) ''chirpstack_application_id'') (\<lambda>app.
     bindE (require_field (d_device_profile_id d) ''chirpstack_device_profile_id'') (\<lambda>prof.
       if dr_application_id remote \<noteq> app then
         Inl (Prov_Conflict ''Existing ChirpStack device belongs to a different application_id'')
       else if dr_device_profile_id remote \<noteq> prof then
         Inl (Prov_Conflict ''Existing ChirpStack device belongs to a different device_profile_id'')
       else Inr ()))"

definition remote_message :: "device \<Rightarrow> string option \<Rightarrow> bool \<Rightarrow> (prov_error, (api_error, device_message) res) res" where
  "remote_message d description is_disabled =
     bindE (require_field (d_dev_eui d) ''dev_eui'') (\<lambda>eui.
     bindE (require_field (Some (d_name d)) ''name'') (\<lambda>nm.
     bindE (require_field (d_application_id d) ''chirpstack_application_id'') (\<lambda>app.
     bindE (require_field (d_device_profile_id d) ''chirpstack_device_profile_id'') (\<lambda>prof.
     bindE (require_field (d_join_eui d) ''join_eui'') (\<lambda>jeui.
       Inr (populate_device_message (Some eui) (Some nm) (Some app) (Some prof) (Some jeui) description is_disabled
         [(''serial'', d_serial d)]))))))"

definition lift_api :: "('w, api_error, 'a) act \<Rightarrow> ('w, prov_error, 'a) act" where
  "lift_api m = catchS m (\<lambda>e. raiseS (Prov_Api e))"

definition upsert_remote_device ::
  "api_client \<Rightarrow> 'w device_stub \<Rightarrow> device \<Rightarrow> string option \<Rightarrow> bool option \<Rightarrow> ('w, prov_error, unit) act" where
  "upsert_remote_device cl stub d description is_disabled =
     bindS (liftS (remote_message d description (is_disabled = Some True))) (\<lambda>message.
       catchS (api_create_device cl stub message) (\<lambda>e.
         case e of
           Already_Exists_Error _ \<Rightarrow>
             bindS (liftS (require_field (d_dev_eui d) ''dev_eui'')) (\<lambda>eui.
             bindS (lift_api (api_get_device cl stub eui)) (\<lambda>remote.
             bindS (liftS (validate_remote_device_compatibility d remote)) (\<lambda>_.
             bindS (liftS (remote_message d
                 (if description \<noteq> None then description else dr_description remote)
                 (case is_disabled of Some b \<Rightarrow> b | None \<Rightarrow> dr_is_disabled remote))) (\<lambda>message'.
               lift_api (api_update_device cl stub message')))))
         | _ \<Rightarrow> raiseS (Prov_Api e)))"

definition ensure_remote_keys ::
  "api_client \<Rightarrow> 'w device_stub \<Rightarrow> device \<Rightarrow> string option \<Rightarrow> bool \<Rightarrow> ('w, prov_error, unit) act" where
  "ensure_remote_keys cl stub d app_key allow_update =
     bindS (liftS (require_field (d_dev_eui d) ''dev_eui'')) (\<lambda>eui.
       case app_key of
         None \<Rightarrow>
           catchS (bindS (api_get_device_keys cl stub eui) (\<lambda>_. retS ())) (\<lambda>e.
             case e of
               Not_Found_Error _ \<Rightarrow> raiseS (Prov_Error ''app_key is required to provision missing ChirpStack OTAA keys'')
             | _ \<Rightarrow> raiseS (Prov_Api e))
       | Some k \<Rightarrow>
           catchS (api_create_device_keys cl stub (Some eui) (Some k)) (\<lambda>e.
             case e of
               Already_Exists_Error _ \<Rightarrow>
                 (if \<not> allow_update then retS ()
                  else lift_api (api_update_device_keys cl stub (Some eui) (Some k)))
             | _ \<Rightarrow> raiseS (Prov_Api e)))"

definition remote_provisioning ::
  "api_client \<Rightarrow> 'w device_stub \<Rightarrow> device \<Rightarrow> string option \<Rightarrow> bool option \<Rightarrow> string option \<Rightarrow> bool
   \<Rightarrow> ('w, prov_error, unit) act" where
  "remote_provisioning cl stub d description is_disabled app_key allow_update =
     bindS (upsert_remote_device cl stub d description is_disabled) (\<lambda>_.
       ensure_remote_keys cl stub d app_key allow_update)"

subsection \<open>The local side\<close>

record provisioning_asset =
  pa_type :: string
  pa_serial :: string
  pa_status :: asset_status

definition validate_client :: "tlrs_db \<Rightarrow> nat \<Rightarrow> (prov_error, unit) res" where
  "validate_client db client_id =
     (case scalar_one_or_none (filter (\<lambda>c. cl_id c = client_id \<and> cl_deleted c = CHR ''N'') (db_clients db)) of
        Inl e \<Rightarrow> Inl (Prov_Db (Query_Error e))
      | Inr r \<Rightarrow> guardE (r = None) (Prov_Not_Found ''Client not found.''))"

text \<open>A new asset is flushed, so that its unique serial is checked, but not yet committed.\<close>

definition resolve_asset ::
  "nat \<Rightarrow> nat option \<Rightarrow> provisioning_asset option \<Rightarrow> tlrs_db \<Rightarrow> (prov_error, asset \<times> tlrs_db) res" where
  "resolve_asset client_id asset_id new_asset db =
     bindE (guardE ((asset_id = None) = (new_asset = None)) (Prov_Error ''Exactly one of asset_id or asset is required'')) (\<lambda>_.
     bindE (validate_client db client_id) (\<lambda>_.
       case new_asset of
         Some pa \<Rightarrow>
           (if pa_status pa \<noteq> ACTIVE then Inl (Prov_Error ''A newly provisioned device requires an active asset'')
            else (let a = \<lparr>a_id = fresh a_id (db_assets db), a_type = pa_type pa, a_serial = pa_serial pa,
                    a_deleted = CHR ''N'', a_client_id = Some client_id, a_status = pa_status pa\<rparr>
              in if pa_serial pa \<in> a_serial ` set (db_assets db)
                   then Inl (Prov_Db (Query_Error (Integrity_Error ''assets_serial_key'')))
                 else Inr (a, db\<lparr>db_assets := db_assets db @ [a]\<rparr>)))
       | None \<Rightarrow>
           (case scalar_one_or_none (filter (\<lambda>a. a_id a = the asset_id \<and> a_client_id a = Some client_id \<and>
                a_deleted a = CHR ''N'') (db_assets db)) of
              Inl e \<Rightarrow> Inl (Prov_Db (Query_Error e))
            | Inr None \<Rightarrow> Inl (Prov_Not_Found ''Asset not found for this client.'')
            | Inr (Some a) \<Rightarrow> if a_status a \<noteq> ACTIVE then Inl (Prov_Conflict ''Asset is inactive.'') else Inr (a, db))))"

definition failed_device :: "string \<Rightarrow> string option \<Rightarrow> device \<Rightarrow> device" where
  "failed_device message app_key d = d\<lparr>d_provisioning_status := PROV_FAILED, d_provisioned_at := None,
     d_provisioning_error := Some (sanitize_error_message message app_key)\<rparr>"

definition provisioned_device :: "int \<Rightarrow> string option \<Rightarrow> device \<Rightarrow> device" where
  "provisioned_device now app_key_last4 d =
     (let d' = d\<lparr>d_provisioning_status := PROVISIONED, d_provisioned_at := Some now, d_provisioning_error := None\<rparr>
      in case app_key_last4 of None \<Rightarrow> d' | Some k \<Rightarrow> d'\<lparr>d_app_key_last4 := Some k\<rparr>)"

definition store_device :: "device \<Rightarrow> tlrs_db \<Rightarrow> tlrs_db" where
  "store_device d db = db\<lparr>db_devices := put d_id d (db_devices db)\<rparr>"

record provisioning_read =
  pv_id :: nat
  pv_serial :: string
  pv_dev_eui :: "string option"
  pv_join_eui :: "string option"
  pv_application_id :: "string option"
  pv_device_profile_id :: "string option"
  pv_status :: provisioning_status
  pv_provisioned_at :: "int option"
  pv_error :: "string option"
  pv_app_key_last4 :: "string option"

definition build_provisioning_read :: "device \<Rightarrow> provisioning_read" where
  "build_provisioning_read d = \<lparr>pv_id = d_id d, pv_serial = d_serial d, pv_dev_eui = d_dev_eui d,
     pv_join_eui = d_join_eui d, pv_application_id = d_application_id d,
     pv_device_profile_id = d_device_profile_id d, pv_status = d_provisioning_status d,
     pv_provisioned_at = d_provisioned_at d, pv_error = d_provisioning_error d,
     pv_app_key_last4 = d_app_key_last4 d\<rparr>"

subsection \<open>Provisioning\<close>

record provisioning_request =
  rq_serial :: string
  rq_name :: string
  rq_type :: string
  rq_dev_eui :: string
  rq_join_eui :: string
  rq_app_key :: string
  rq_application_id :: string
  rq_device_profile_id :: string
  rq_client_id :: nat
  rq_asset_id :: "nat option"
  rq_asset :: "provisioning_asset option"
  rq_protocol :: communication_protocol
  rq_description :: "string option"
  rq_is_disabled :: bool

definition requested_device :: "provisioning_request \<Rightarrow> device" where
  "requested_device rq = \<lparr>d_id = 0, d_serial = rq_serial rq, d_name = rq_name rq, d_type = rq_type rq,
     d_last_seen_at = None, d_dev_eui = Some (rq_dev_eui rq), d_join_eui = Some (rq_join_eui rq),
     d_application_id = Some (rq_application_id rq), d_lorawan_class = None,
     d_device_profile_id = Some (rq_device_profile_id rq), d_provisioning_status = PROV_PENDING,
     d_provisioned_at = None, d_provisioning_error = None, d_app_key_last4 = None, d_deleted = CHR ''N'',
     d_state = OFF, d_protocol = CHIRPSTACK, d_client_id = Some (rq_client_id rq), d_asset_id = None,
     d_active = True\<rparr>"

definition conflict_of :: "assignment_error \<Rightarrow> prov_error" where
  "conflict_of e = (case e of Query_Error _ \<Rightarrow> Prov_Db e | _ \<Rightarrow> Prov_Conflict (assignment_message e))"

text \<open>What follows the stored device: the remote calls, then the mark of their outcome.\<close>

definition finish_provisioning ::
  "int \<Rightarrow> string option \<Rightarrow> string option \<Rightarrow> ('w, prov_error, unit) act \<Rightarrow> device
   \<Rightarrow> (tlrs_db \<times> 'w, prov_error, provisioning_read) act" where
  "finish_provisioning now app_key app_key_last4 remote d = (\<lambda>(db, w).
     case remote w of
       (Inl e, w') \<Rightarrow> (Inl e, (store_device (failed_device (prov_message e) app_key d) db, w'))
     | (Inr _, w') \<Rightarrow>
         (let d' = provisioned_device now app_key_last4 d
          in (Inr (build_provisioning_read d'), (store_device d' db, w'))))"

definition provision_device ::
  "int \<Rightarrow> int \<Rightarrow> api_client \<Rightarrow> 'w device_stub \<Rightarrow> provisioning_request
   \<Rightarrow> (tlrs_db \<times> 'w, prov_error, provisioning_read) act" where
  "provision_device now created cl stub rq = (\<lambda>(db, w).
     if rq_protocol rq \<noteq> CHIRPSTACK then (Inl (Prov_Error ''Only CHIRPSTACK device provisioning is supported''), (db, w))
     else case resolve_asset (rq_client_id rq) (rq_asset_id rq) (rq_asset rq) db of
       Inl e \<Rightarrow> (Inl e, (db, w))
     | Inr (a, db1) \<Rightarrow>
         (case create_initial_assignment now created (requested_device rq) a db1 of
            (Inl e, _) \<Rightarrow> (Inl (conflict_of e), (db, w))
          | (Inr d, db2) \<Rightarrow> finish_provisioning now (Some (rq_app_key rq)) (Some (last4 (rq_app_key rq)))
              (remote_provisioning cl stub d (rq_description rq) (Some (rq_is_disabled rq)) (Some (rq_app_key rq)) True)
              d (db2, w)))"

definition validate_retryable_device :: "device \<Rightarrow> (prov_error, unit) res" where
  "validate_retryable_device d =
     (if d_protocol d \<noteq> CHIRPSTACK then Inl (Prov_Error ''Only CHIRPSTACK devices can be retried through this endpoint'')
      else if d_provisioning_status d = PROVISIONED then Inl (Prov_Conflict ''Device is already provisioned.'')
      else bindE (require_field (d_dev_eui d) ''dev_eui'') (\<lambda>_.
        bindE (require_field (d_join_eui d) ''join_eui'') (\<lambda>_.
        bindE (require_field (d_application_id d) ''chirpstack_application_id'') (\<lambda>_.
        bindE (require_field (d_device_profile_id d) ''chirpstack_device_profile_id'') (\<lambda>_. Inr ())))))"

definition get_provisioning_device :: "tlrs_db \<Rightarrow> nat \<Rightarrow> (prov_error, device) res" where
  "get_provisioning_device db i =
     (case get_device_for_update db i of
        Inl e \<Rightarrow> Inl (Prov_Db e)
      | Inr None \<Rightarrow> Inl (Prov_Not_Found ''Device not found.'')
      | Inr (Some d) \<Rightarrow> Inr d)"

definition retry_provisioning ::
  "int \<Rightarrow> api_client \<Rightarrow> 'w device_stub \<Rightarrow> nat \<Rightarrow> string option
   \<Rightarrow> (tlrs_db \<times> 'w, prov_error, provisioning_read) act" where
  "retry_provisioning now cl stub i app_key = (\<lambda>(db, w).
     case bindE (get_provisioning_device db i) (\<lambda>d. bindE (validate_retryable_device d) (\<lambda>_. Inr d)) of
       Inl e \<Rightarrow> (Inl e, (db, w))
     | Inr d0 \<Rightarrow>
         (let d = d0\<lparr>d_provisioning_status := PROV_PENDING, d_provisioning_error := None\<rparr>
          in finish_provisioning now app_key
               (case app_key of Some k \<Rightarrow> Some (last4 k) | None \<Rightarrow> d_app_key_last4 d)
               (remote_provisioning cl stub d None None app_key (app_key \<noteq> None)) d (store_device d db, w)))"

definition get_provisioning :: "tlrs_db \<Rightarrow> nat \<Rightarrow> (prov_error, provisioning_read) res" where
  "get_provisioning db i = bindE (get_provisioning_device db i) (\<lambda>d. Inr (build_provisioning_read d))"

subsection \<open>No key in a stored message\<close>

text \<open>A copied prefix of the output, free of brackets, is a prefix of the input.\<close>

lemma replace_prefix:
  assumes "CHR ''['' \<notin> set p" "prefix p (py_replace needle (CHR ''['' # r) s)"
  shows "prefix p s"
  using assms
proof (induction needle "CHR ''['' # r" s arbitrary: p rule: py_replace.induct)
  case (1 needle s)
  show ?case
  proof (cases "needle = [] \<or> s = []")
    case True
    with 1(4) show ?thesis by (simp add: py_replace.simps)
  next
    case False
    show ?thesis
    proof (cases "prefix needle s")
      case True
      with False 1(4) have "prefix p (CHR ''['' # r @ py_replace needle (CHR ''['' # r) (drop (length needle) s))"
        by (simp add: py_replace.simps)
      with 1(3) have "p = []" by (cases p) auto
      then show ?thesis by simp
    next
      case np: False
      from False obtain c cs where s: "s = c # cs" by (cases s) auto
      with False np 1(4) have "prefix p (c # py_replace needle (CHR ''['' # r) cs)" by (simp add: py_replace.simps)
      with 1(2) [of "tl p"] 1(3) False np s show ?thesis by (cases p) auto
    qed
  qed
qed

lemma sublist_split:
  assumes "c \<notin> set needle"
  shows "sublist needle (xs @ c # ys) \<longleftrightarrow> sublist needle xs \<or> sublist needle ys"
proof -
  have "p = []" if "prefix p (c # ys)" "needle = q @ p" for p q
    using that assms by (cases p) auto
  then have "sublist needle (xs @ c # ys) \<Longrightarrow> sublist needle xs \<or> sublist needle ys"
    unfolding sublist_append sublist_Cons_right
    by (elim disjE exE conjE) (metis append_Nil append_Nil2 sublist_Nil_left suffix_imp_sublist)+
  then show ?thesis unfolding sublist_append sublist_Cons_right by blast
qed

lemma replace_removes:
  assumes "set needle \<subseteq> set hex_digits" "8 < length needle"
  shows "\<not> sublist needle (py_replace needle ''[REDACTED]'' s)"
proof (induction s rule: length_induct)
  case (1 s)
  have bracket: "CHR ''['' \<notin> set needle" "CHR '']'' \<notin> set needle"
    using assms(1) by (auto simp: hex_digits_def)
  have ne: "needle \<noteq> []" using assms(2) by auto
  show ?case
  proof (cases s)
    case Nil
    with ne show ?thesis by (simp add: py_replace.simps sublist_def)
  next
    case (Cons c cs)
    show ?thesis
    proof (cases "prefix needle s")
      case True
      define rest where "rest = py_replace needle ''[REDACTED]'' (drop (length needle) s)"
      have "length (drop (length needle) s) < length s" using ne Cons by simp
      with 1 have rest: "\<not> sublist needle rest" by (simp add: rest_def)
      have "py_replace needle ''[REDACTED]'' s = ''[REDACTED]'' @ rest"
        unfolding rest_def by (subst py_replace.simps) (use True ne Cons in simp)
      also have "\<dots> = [] @ CHR ''['' # (''REDACTED'' @ CHR '']'' # rest)" by simp
      finally have eq: "py_replace needle ''[REDACTED]'' s = [] @ CHR ''['' # (''REDACTED'' @ CHR '']'' # rest)" .
      have "\<not> sublist needle ''REDACTED''" using assms(2) sublist_length_le [of needle "''REDACTED''"] by auto
      moreover have "\<not> sublist needle []" using ne by (simp add: sublist_def)
      ultimately show ?thesis
        unfolding eq sublist_split [OF bracket(1)] sublist_split [OF bracket(2)] using rest by blast
    next
      case False
      define rest where "rest = py_replace needle ''[REDACTED]'' cs"
      have rest: "\<not> sublist needle rest" using 1 Cons by (simp add: rest_def)
      have eq: "py_replace needle ''[REDACTED]'' s = c # rest"
        unfolding rest_def by (subst py_replace.simps) (use False ne Cons in simp)
      have "\<not> prefix needle (c # rest)"
        using replace_prefix [OF bracket(1), of needle "''REDACTED]''" s] False unfolding eq by blast
      with rest show ?thesis by (simp add: eq sublist_Cons_right)
    qed
  qed
qed

lemma sanitized_without_key:
  assumes "set k \<subseteq> set hex_digits" "length k = 32"
  shows "\<not> sublist k (sanitize_error_message m (Some k)) \<and> length (sanitize_error_message m (Some k)) \<le> 500"
proof -
  have "\<not> sublist k (take 500 x)" if "\<not> sublist k x" for x
    using that by (metis sublist_order.order_trans sublist_take)
  with replace_removes [of k] assms show ?thesis
    by (auto simp: sanitize_error_message_def Let_def or_empty_def)
qed

subsection \<open>Outcomes\<close>

lemma resolve_asset_frame:
  assumes "resolve_asset c aid na db = Inr (a, db1)"
  shows "db_devices db1 = db_devices db" "db_device_assignments db1 = db_device_assignments db"
  using assms by (auto simp: resolve_asset_def res_simps Let_def split: option.splits if_splits sum.splits)

lemma marked_simps [simp]:
  "d_id (failed_device m k d) = d_id d" "d_deleted (failed_device m k d) = d_deleted d"
  "d_asset_id (failed_device m k d) = d_asset_id d" "d_id (provisioned_device now l d) = d_id d"
  "d_deleted (provisioned_device now l d) = d_deleted d" "d_asset_id (provisioned_device now l d) = d_asset_id d"
  by (simp_all add: failed_device_def provisioned_device_def Let_def split: option.split)

text \<open>The mark that every run of the second half leaves.\<close>

definition marked :: "int \<Rightarrow> string option \<Rightarrow> string option \<Rightarrow> (prov_error, provisioning_read) res \<Rightarrow> device \<Rightarrow> device \<Rightarrow> bool" where
  "marked now app_key l r d d' \<longleftrightarrow>
     (case r of
        Inl e \<Rightarrow> d' = failed_device (prov_message e) app_key d
      | Inr rd \<Rightarrow> d' = provisioned_device now l d \<and> rd = build_provisioning_read d')"

lemma finish_marks:
  assumes "finish_provisioning now app_key l remote d (db, w) = (r, (db', w'))"
  shows "\<exists>d'. marked now app_key l r d d' \<and> db' = store_device d' db"
  using assms by (auto simp: finish_provisioning_def marked_def Let_def split: prod.splits sum.splits)

lemma store_keeps_timeline:
  assumes "timeline_ok db" "d \<in> set (db_devices db)" "d_id d' = d_id d" "d_deleted d' = d_deleted d" "d_asset_id d' = d_asset_id d"
  shows "timeline_ok (store_device d' db) \<and> asset_at (store_device d' db) = asset_at db"
  using same_asset_keeps [OF assms]
  by (auto simp: store_device_def asset_at_def get_assignment_for_device_at_def intro!: ext)

lemma marked_keeps: "marked now k l r d d' \<Longrightarrow> d_id d' = d_id d \<and> d_deleted d' = d_deleted d \<and> d_asset_id d' = d_asset_id d"
  by (auto simp: marked_def split: sum.splits)

lemma provision_cases:
  assumes ok: "timeline_ok db" and clk: "clock_ok now db"
    and run: "provision_device now created cl stub rq (db, w) = (r, (db', w'))"
  obtains (refused) e where "r = Inl e" "db' = db" "w' = w"
  | (stored) d d' a where "marked now (Some (rq_app_key rq)) (Some (last4 (rq_app_key rq))) r d d'"
      "db_devices db' = db_devices db @ [d']" "d_id d' = fresh d_id (db_devices db)" "d_asset_id d' = Some a"
      "timeline_ok db'" "asset_at db' = (\<lambda>j t. if j = d_id d' \<and> now \<le> t then Some a else asset_at db j t)"
proof (cases "rq_protocol rq = CHIRPSTACK")
  case False
  with run refused show ?thesis by (auto simp: provision_device_def)
next
  case True
  show ?thesis
  proof (cases "resolve_asset (rq_client_id rq) (rq_asset_id rq) (rq_asset rq) db")
    case (Inl e)
    with run True refused show ?thesis by (auto simp: provision_device_def)
  next
    case (Inr adb)
    obtain a db1 where adb: "adb = (a, db1)" by (cases adb)
    note frame = resolve_asset_frame [OF Inr [unfolded adb]]
    have ok1: "timeline_ok db1" and clk1: "clock_ok now db1" and at1: "asset_at db1 = asset_at db"
      using ok clk frame by (auto simp: timeline_ok_def clock_ok_def asset_at_def get_assignment_for_device_at_def intro!: ext)
    show ?thesis
    proof (cases "create_initial_assignment now created (requested_device rq) a db1")
      case (Pair out db2)
      show ?thesis
      proof (cases out)
        case (Inl e)
        with run True Inr adb Pair refused show ?thesis by (auto simp: provision_device_def)
      next
        case (Inr d)
        have live: "d_deleted (requested_device rq) = CHR ''N''" by (simp add: requested_device_def)
        from initial_keeps [OF ok1 clk1 live Pair [unfolded Inr]]
        have d: "timeline_ok db2" "d \<in> set (db_devices db2)" "d_id d = fresh d_id (db_devices db1)"
          "d = (requested_device rq)\<lparr>d_id := d_id d, d_asset_id := Some (a_id a)\<rparr>"
          "db_devices db2 = db_devices db1 @ [d]"
          "asset_at db2 = (\<lambda>j t. if j = d_id d \<and> now \<le> t then Some (a_id a) else asset_at db1 j t)"
          by blast+
        obtain d' where d': "marked now (Some (rq_app_key rq)) (Some (last4 (rq_app_key rq))) r d d'" "db' = store_device d' db2"
          using run True \<open>resolve_asset _ _ _ db = _\<close> adb Pair Inr
          by (auto simp: provision_device_def dest: finish_marks)
        have "d_asset_id d = Some (a_id a)" using d(4) by (metis device.select_convs(19) device.surjective device.update_convs(19))
        then have keep: "d_id d' = d_id d" "d_deleted d' = d_deleted d" "d_asset_id d' = Some (a_id a)" "d_asset_id d' = d_asset_id d"
          using marked_keeps [OF d'(1)] by auto
        have "db_devices db' = db_devices db @ [d']"
          using d'(2) d(3,5) keep(1) frame(1) by (simp add: store_device_def put_append) (simp add: put_def)
        moreover have "asset_at db' = (\<lambda>j t. if j = d_id d' \<and> now \<le> t then Some (a_id a) else asset_at db j t)"
          using store_keeps_timeline [OF d(1,2) keep(1,2,4)] d(6) unfolding d'(2) keep(1) at1 by simp
        ultimately show ?thesis
          using store_keeps_timeline [OF d(1,2) keep(1,2,4)] d(3) d' keep(1,3) frame(1)
          by (intro stored [of d d' "a_id a"]) simp_all
      qed
    qed
  qed
qed

text \<open>
  Property C19. Provisioning leaves a definite outcome: either it refuses and the database is as it
  was, or the device is stored as the last one with an asset it tracks from now on and is marked
  - provisioned, with the last four digits of its key, when the answer is a success; failed,
  with a message of at most 500 characters in which the application key does not occur, when
  it is an error. It is never left pending.
\<close>
theorem provisioning_outcome:
  assumes "timeline_ok db" "clock_ok now db"
    and "provision_device now created cl stub rq (db, w) = (r, (db', w'))"
    and "set (rq_app_key rq) \<subseteq> set hex_digits" "length (rq_app_key rq) = 32"
  shows "\<not> is_ok r \<and> db' = db \<or>
    (\<exists>d a. db_devices db' = db_devices db @ [d] \<and> timeline_ok db' \<and>
       (\<forall>j t. asset_at db' j t = (if j = d_id d \<and> now \<le> t then Some a else asset_at db j t)) \<and>
       (case r of
          Inr rd \<Rightarrow> d_provisioning_status d = PROVISIONED \<and> d_provisioning_error d = None \<and>
            d_app_key_last4 d = Some (last4 (rq_app_key rq)) \<and> rd = build_provisioning_read d
        | Inl e \<Rightarrow> d_provisioning_status d = PROV_FAILED \<and> d_provisioned_at d = None \<and>
            (\<exists>m. d_provisioning_error d = Some m \<and> \<not> sublist (rq_app_key rq) m \<and> length m \<le> 500)))"
proof (cases rule: provision_cases [OF assms(1-3)])
  case (1 e)
  then show ?thesis by simp
next
  case (2 d d' a)
  have "case r of
      Inr rd \<Rightarrow> d_provisioning_status d' = PROVISIONED \<and> d_provisioning_error d' = None \<and>
        d_app_key_last4 d' = Some (last4 (rq_app_key rq)) \<and> rd = build_provisioning_read d'
    | Inl e \<Rightarrow> d_provisioning_status d' = PROV_FAILED \<and> d_provisioned_at d' = None \<and>
        (\<exists>m. d_provisioning_error d' = Some m \<and> \<not> sublist (rq_app_key rq) m \<and> length m \<le> 500)"
    using 2(1) sanitized_without_key [OF assms(4,5)]
    by (cases r) (auto simp: marked_def failed_device_def provisioned_device_def Let_def)
  with 2 show ?thesis by (intro disjI2 exI [of _ d'] exI [of _ a]) simp
qed

text \<open>The retry: it refuses, or it marks the device it found, which keeps its asset.\<close>

lemma retry_outcome:
  assumes ok: "timeline_ok db" and run: "retry_provisioning now cl stub i app_key (db, w) = (r, (db', w'))"
  shows "(\<not> is_ok r \<and> db' = db \<and> w' = w) \<or>
    (\<exists>d0 d'. d0 \<in> set (db_devices db) \<and> d_id d0 = i \<and> d_provisioning_status d0 \<noteq> PROVISIONED \<and>
       marked now app_key (case app_key of Some k \<Rightarrow> Some (last4 k) | None \<Rightarrow> d_app_key_last4 d0) r
         (d0\<lparr>d_provisioning_status := PROV_PENDING, d_provisioning_error := None\<rparr>) d' \<and>
       set (db_devices db') = insert d' (set (db_devices db) - {d0}) \<and> timeline_ok db' \<and> asset_at db' = asset_at db)"
proof (cases "bindE (get_provisioning_device db i) (\<lambda>d. bindE (validate_retryable_device d) (\<lambda>_. Inr d))")
  case (Inl e)
  with run show ?thesis by (auto simp: retry_provisioning_def)
next
  case (Inr d0)
  then have look: "get_device_for_update db i = Inr (Some d0)" and retry: "d_provisioning_status d0 \<noteq> PROVISIONED"
    by (auto simp: get_provisioning_device_def validate_retryable_device_def res_simps split: sum.splits option.splits if_splits)
  note dev = device_lookup [OF ok look]
  let ?d = "d0\<lparr>d_provisioning_status := PROV_PENDING, d_provisioning_error := None\<rparr>"
  obtain d' where d': "marked now app_key (case app_key of Some k \<Rightarrow> Some (last4 k) | None \<Rightarrow> d_app_key_last4 d0) r ?d d'"
    "db' = store_device d' (store_device ?d db)"
    using run Inr by (cases app_key) (auto simp: retry_provisioning_def Let_def dest!: finish_marks)
  have keep: "d_id d' = d_id d0" "d_deleted d' = d_deleted d0" "d_asset_id d' = d_asset_id d0"
    using marked_keeps [OF d'(1)] by auto
  have "db' = store_device d' db"
    using d'(2) keep(1) by (simp add: store_device_def) (auto simp: put_def)
  with store_keeps_timeline [OF ok dev(1) keep] put_device_rows [OF timelineD(1) [OF ok] dev(1) keep(1)] d'(1) dev retry
  show ?thesis by (intro disjI2 exI [of _ d0] exI [of _ d']) (simp add: store_device_def)
qed

definition down_stub :: "unit device_stub" where
  "down_stub = \<lparr>st_enqueue = \<lambda>_ _ w. (Inl Future_Timeout, w), st_get = \<lambda>_ _ w. (Inl Future_Timeout, w),
     st_create = \<lambda>_ _ w. (Inl Future_Timeout, w), st_update = \<lambda>_ _ w. (Inl Future_Timeout, w),
     st_get_keys = \<lambda>_ _ w. (Inl Future_Timeout, w), st_create_keys = \<lambda>_ _ w. (Inl Future_Timeout, w),
     st_update_keys = \<lambda>_ _ w. (Inl Future_Timeout, w)\<rparr>"

definition sample_client :: api_client where
  "sample_client = \<lparr>ac_host = ''h'', ac_port = 1, ac_token = ''t'', ac_use_tls = False, ac_timeout_seconds = 10, ac_dependencies = True\<rparr>"

definition sample_request :: provisioning_request where
  "sample_request = \<lparr>rq_serial = ''S2'', rq_name = ''n'', rq_type = ''t'', rq_dev_eui = ''0102030405060708'',
     rq_join_eui = ''0102030405060708'', rq_app_key = replicate 32 (CHR ''a''), rq_application_id = ''app'',
     rq_device_profile_id = ''prof'', rq_client_id = 1, rq_asset_id = Some 7, rq_asset = None, rq_protocol = CHIRPSTACK,
     rq_description = None, rq_is_disabled = False\<rparr>"

definition client_db :: tlrs_db where
  "client_db = idle_db\<lparr>db_clients := [\<lparr>cl_id = 1, cl_name = ''c'', cl_email = ''e'', cl_deleted = CHR ''N''\<rparr>]\<rparr>"

lemma sample_failure:
  "case provision_device 5 5 sample_client down_stub sample_request (client_db, ()) of
     (r, (db', w')) \<Rightarrow> \<not> is_ok r \<and> length (db_devices db') = 2"
  by code_simp

theorem provisioning_outcome_witness:
  "\<exists>r db' w' d m. provision_device 5 5 sample_client down_stub sample_request (client_db, ()) = (r, (db', w')) \<and>
     db_devices db' = db_devices client_db @ [d] \<and> d_provisioning_status d = PROV_FAILED \<and>
     d_provisioning_error d = Some m \<and> \<not> sublist (rq_app_key sample_request) m"
proof -
  obtain r db' w' where run: "provision_device 5 5 sample_client down_stub sample_request (client_db, ()) = (r, (db', w'))"
    by (metis surj_pair)
  have ok: "timeline_ok client_db" "clock_ok 5 client_db"
    using idle_db_ok(1) idle_db_ok(2) [of 5] by (simp_all add: client_db_def timeline_ok_def clock_ok_def)
  have key: "set (rq_app_key sample_request) \<subseteq> set hex_digits" "length (rq_app_key sample_request) = 32"
    by (simp_all add: sample_request_def hex_digits_def)
  obtain e where e: "r = Inl e" using sample_failure run by (cases r) auto
  have "db' \<noteq> client_db"
    using sample_failure run by (auto simp: client_db_def idle_db_def)
  with provisioning_outcome [OF ok run key] obtain d m where
    "db_devices db' = db_devices client_db @ [d]" "d_provisioning_status d = PROV_FAILED"
    "d_provisioning_error d = Some m" "\<not> sublist (rq_app_key sample_request) m"
    by (auto simp: e)
  with run show ?thesis by blast
qed

end
