(* ===== verification/Device_Schemas.thy ===== *)
theory Device_Schemas
  imports Device_Provisioning Web_Routes
begin

text \<open>
  The bodies of the device and asset routes, \<open>src/schemas/device.py\<close> and \<open>src/schemas/asset.py\<close>:
  which bodies are accepted and what they become.  The raw fields have the Python types of the
  annotations already; a validator answers the normalised value or its message.
\<close>

subsection \<open>Validators\<close>

definition hex_error_message :: "string \<Rightarrow> string \<Rightarrow> string" where
  "hex_error_message field_name len = field_name @ '' must be a valid '' @ len @ ''-character hex string''"

definition is_hex :: "nat \<Rightarrow> string \<Rightarrow> bool" where
  "is_hex n s \<longleftrightarrow> length s = n \<and> list_all (\<lambda>c. c \<in> set hex_digits) s"

definition normalize_hex :: "string \<Rightarrow> nat \<Rightarrow> string \<Rightarrow> string \<Rightarrow> (string, string) res" where
  "normalize_hex field_name n len value =
     (let normalized = py_lower (py_compact value)
      in if normalized = [] then Inl (field_name @ '' is required'')
         else if \<not> is_hex n normalized then Inl (hex_error_message field_name len)
         else Inr normalized)"

definition normalize_dev_eui :: "string \<Rightarrow> (string, string) res" where
  "normalize_dev_eui = normalize_hex ''dev_eui'' 16 ''16''"

definition normalize_join_eui :: "string \<Rightarrow> (string, string) res" where
  "normalize_join_eui = normalize_hex ''join_eui'' 16 ''16''"

definition normalize_request_app_key :: "string \<Rightarrow> (string, string) res" where
  "normalize_request_app_key = normalize_hex ''app_key'' 32 ''32''"

definition normalize_retry_app_key :: "string option \<Rightarrow> (string, string option) res" where
  "normalize_retry_app_key value =
     (case value of
        None \<Rightarrow> Inr None
      | Some v \<Rightarrow> (let normalized = py_lower (py_compact v)
          in if normalized = [] then Inr None
             else if \<not> is_hex 32 normalized then Inl (hex_error_message ''app_key'' ''32'')
             else Inr (Some normalized)))"

subsection \<open>Bodies\<close>

record asset_body =
  ab_type :: string
  ab_serial :: string
  ab_status :: asset_status

record device_body =
  cb_serial :: string
  cb_name :: string
  cb_type :: string
  cb_client_id :: int
  cb_asset_id :: "int option"
  cb_asset :: "asset_body option"
  cb_protocol :: communication_protocol
  cb_dev_eui :: string
  cb_join_eui :: string
  cb_app_key :: string
  cb_application_id :: "string option"
  cb_device_profile_id :: "string option"
  cb_description :: "string option"
  cb_is_disabled :: bool

text \<open>The fields first; the model validator runs on a body whose fields are valid.\<close>

definition validate_chirpstack_requirements :: "device_body \<Rightarrow> (string, unit) res" where
  "validate_chirpstack_requirements b =
     (if cb_protocol b \<noteq> CHIRPSTACK then Inl ''Only CHIRPSTACK devices can be created through this endpoint''
      else if cb_application_id b = None then Inl ''chirpstack_application_id is required for CHIRPSTACK devices''
      else if cb_device_profile_id b = None then Inl ''chirpstack_device_profile_id is required for CHIRPSTACK devices''
      else if (cb_asset_id b = None) = (cb_asset b = None) then Inl ''Exactly one of asset_id or asset is required''
      else Inr ())"

definition requested_asset :: "asset_body \<Rightarrow> provisioning_asset" where
  "requested_asset a = \<lparr>pa_type = ab_type a, pa_serial = ab_serial a, pa_status = ab_status a\<rparr>"

text \<open>An \<open>asset_id\<close> that is not positive is no asset's: the model gives it the key 0, which no row has.\<close>

definition validated_device_create :: "device_body \<Rightarrow> (string, provisioning_request) res" where
  "validated_device_create b =
     bindE (guardE (\<not> (valid_name (cb_serial b) \<and> valid_name (cb_name b) \<and> valid_name (cb_type b))) ''length'') (\<lambda>_.
     bindE (guardE (cb_client_id b \<le> 0) ''client_id'') (\<lambda>_.
     bindE (guardE (case cb_asset b of None \<Rightarrow> False | Some a \<Rightarrow> \<not> (valid_name (ab_type a) \<and> valid_name (ab_serial a))) ''asset'') (\<lambda>_.
     bindE (normalize_dev_eui (cb_dev_eui b)) (\<lambda>dev_eui.
     bindE (normalize_join_eui (cb_join_eui b)) (\<lambda>join_eui.
     bindE (normalize_request_app_key (cb_app_key b)) (\<lambda>app_key.
       let b' = b\<lparr>cb_dev_eui := dev_eui, cb_join_eui := join_eui, cb_app_key := app_key,
             cb_application_id := normalize_optional_text (cb_application_id b),
             cb_device_profile_id := normalize_optional_text (cb_device_profile_id b),
             cb_description := normalize_optional_text (cb_description b)\<rparr>
       in bindE (validate_chirpstack_requirements b') (\<lambda>_.
            Inr \<lparr>rq_serial = cb_serial b, rq_name = cb_name b, rq_type = cb_type b, rq_dev_eui = dev_eui, rq_join_eui = join_eui,
              rq_app_key = app_key, rq_application_id = the (cb_application_id b'), rq_device_profile_id = the (cb_device_profile_id b'),
              rq_client_id = nat (cb_client_id b), rq_asset_id = map_option nat (cb_asset_id b),
              rq_asset = map_option requested_asset (cb_asset b), rq_protocol = cb_protocol b,
              rq_description = cb_description b', rq_is_disabled = cb_is_disabled b\<rparr>)))))))"

definition validated_assignment_request :: "int \<Rightarrow> (string, nat) res" where
  "validated_assignment_request asset_id = (if asset_id \<le> 0 then Inl ''asset_id'' else Inr (nat asset_id))"

record asset_create_body =
  ac_asset_type :: string
  ac_asset_serial :: string
  ac_asset_client_id :: int
  ac_asset_status :: asset_status

definition validated_asset_create :: "asset_create_body \<Rightarrow> bool" where
  "validated_asset_create b \<longleftrightarrow> valid_name (ac_asset_type b) \<and> valid_name (ac_asset_serial b) \<and> 0 < ac_asset_client_id b"

subsection \<open>A validated body is well formed\<close>

lemma normalize_hex_Inr:
  "normalize_hex f n len v = Inr k \<longleftrightarrow> k = py_lower (py_compact v) \<and> k \<noteq> [] \<and> is_hex n k"
  by (auto simp: normalize_hex_def Let_def)

lemma normalize_hex_again: "normalize_hex f n len v = Inr k \<Longrightarrow> normalize_hex f n len k = Inr k"
  by (auto simp: normalize_hex_def Let_def py_compact_lower split: if_splits)

lemma normalize_optional_Some:
  "normalize_optional_text v = Some s \<Longrightarrow> s \<noteq> [] \<and> py_strip s = s"
  by (auto simp: normalize_optional_text_def split: option.splits if_splits)

lemma normalize_optional_again: "normalize_optional_text (normalize_optional_text v) = normalize_optional_text v"
  by (auto simp: normalize_optional_text_def split: option.splits)

lemma hex_normalized: "is_hex n k \<Longrightarrow> k = py_lower (py_compact v) \<Longrightarrow> length k = n \<and> (\<forall>c \<in> set k. c \<in> set hex_digits) \<and> py_lower (py_compact k) = k"
  by (auto simp: is_hex_def list_all_iff py_compact_lower)

lemma validated_device_cases:
  assumes "validated_device_create b = Inr rq"
  shows "0 < rq_client_id rq" "rq_protocol rq = CHIRPSTACK" "(rq_asset_id rq = None) \<noteq> (rq_asset rq = None)"
    "normalize_dev_eui (cb_dev_eui b) = Inr (rq_dev_eui rq)" "normalize_join_eui (cb_join_eui b) = Inr (rq_join_eui rq)"
    "normalize_request_app_key (cb_app_key b) = Inr (rq_app_key rq)"
    "normalize_optional_text (cb_application_id b) = Some (rq_application_id rq)"
    "normalize_optional_text (cb_device_profile_id b) = Some (rq_device_profile_id rq)"
    "normalize_optional_text (cb_description b) = rq_description rq"
  using assms by (auto simp: validated_device_create_def res_simps guardE_Inr_iff Let_def validate_chirpstack_requirements_def
      split: if_splits)

text \<open>
  Property C24. A device body the schema accepts is well typed for everything behind it: the client id is
  positive, exactly one of asset and asset id is given, the EUIs are 16 and the key 32 lower-case
  hexadecimal digits, so the checks that the provisioning service and the ChirpStack client make of
  the same fields accept them and change nothing; and validating the normalised fields again gives
  the same request.
\<close>
theorem device_body_well_typed:
  assumes "validated_device_create b = Inr rq"
  shows "0 < rq_client_id rq \<and> rq_protocol rq = CHIRPSTACK \<and> (rq_asset_id rq = None) \<noteq> (rq_asset rq = None) \<and>
    normalize_eui (Some (rq_dev_eui rq)) f = Inr (rq_dev_eui rq) \<and> normalize_eui (Some (rq_join_eui rq)) g = Inr (rq_join_eui rq) \<and>
    normalize_app_key (Some (rq_app_key rq)) = Inr (rq_app_key rq) \<and>
    length (rq_app_key rq) = 32 \<and> set (rq_app_key rq) \<subseteq> set hex_digits \<and>
    require_field (Some (rq_application_id rq)) h = Inr (rq_application_id rq) \<and>
    require_field (Some (rq_device_profile_id rq)) h = Inr (rq_device_profile_id rq) \<and>
    validated_device_create (b\<lparr>cb_dev_eui := rq_dev_eui rq, cb_join_eui := rq_join_eui rq, cb_app_key := rq_app_key rq,
      cb_application_id := Some (rq_application_id rq), cb_device_profile_id := Some (rq_device_profile_id rq),
      cb_description := rq_description rq\<rparr>) = Inr rq"
proof -
  note c = validated_device_cases [OF assms]
  have dev: "is_hex 16 (rq_dev_eui rq)" "rq_dev_eui rq = py_lower (py_compact (cb_dev_eui b))"
    and join: "is_hex 16 (rq_join_eui rq)" "rq_join_eui rq = py_lower (py_compact (cb_join_eui b))"
    and key: "is_hex 32 (rq_app_key rq)" "rq_app_key rq = py_lower (py_compact (cb_app_key b))"
    using c(4-6) unfolding normalize_dev_eui_def normalize_join_eui_def normalize_request_app_key_def normalize_hex_Inr by blast+
  note hex = hex_normalized [OF dev] hex_normalized [OF join] hex_normalized [OF key]
  have again: "normalize_dev_eui (rq_dev_eui rq) = Inr (rq_dev_eui rq)" "normalize_join_eui (rq_join_eui rq) = Inr (rq_join_eui rq)"
    "normalize_request_app_key (rq_app_key rq) = Inr (rq_app_key rq)"
    using normalize_hex_again c(4-6)
    unfolding normalize_dev_eui_def normalize_join_eui_def normalize_request_app_key_def by blast+
  have texts: "normalize_optional_text (Some (rq_application_id rq)) = Some (rq_application_id rq)"
    "normalize_optional_text (Some (rq_device_profile_id rq)) = Some (rq_device_profile_id rq)"
    "normalize_optional_text (rq_description rq) = rq_description rq"
    using normalize_optional_again c(7-9) by metis+
  have "validated_device_create (b\<lparr>cb_dev_eui := rq_dev_eui rq, cb_join_eui := rq_join_eui rq, cb_app_key := rq_app_key rq,
      cb_application_id := Some (rq_application_id rq), cb_device_profile_id := Some (rq_device_profile_id rq),
      cb_description := rq_description rq\<rparr>) = validated_device_create b"
    unfolding validated_device_create_def Let_def validate_chirpstack_requirements_def by (simp add: again texts c(4-9))
  moreover have "normalize_eui (Some (rq_dev_eui rq)) f = Inr (rq_dev_eui rq)" "normalize_eui (Some (rq_join_eui rq)) g = Inr (rq_join_eui rq)"
    "normalize_app_key (Some (rq_app_key rq)) = Inr (rq_app_key rq)"
    using hex by (auto simp: normalize_eui_def normalize_app_key_def Let_def or_empty_def list_all_iff)
  moreover have "require_field (Some (rq_application_id rq)) h = Inr (rq_application_id rq)"
    "require_field (Some (rq_device_profile_id rq)) h = Inr (rq_device_profile_id rq)"
    using normalize_optional_Some [OF c(7)] normalize_optional_Some [OF c(8)] by (simp_all add: require_field_def or_empty_def)
  ultimately show ?thesis
    using c(1-3) hex assms by auto
qed

definition sample_device_body :: device_body where
  "sample_device_body = \<lparr>cb_serial = ''s'', cb_name = ''n'', cb_type = ''t'', cb_client_id = 1, cb_asset_id = Some 7, cb_asset = None,
     cb_protocol = CHIRPSTACK, cb_dev_eui = ''0011 2233 4455 66AA'', cb_join_eui = ''0000000000000001'',
     cb_app_key = ''00112233445566778899AABBCCDDEEFF'', cb_application_id = Some '' app '', cb_device_profile_id = Some ''p'',
     cb_description = Some '' '', cb_is_disabled = False\<rparr>"

theorem device_body_well_typed_witness:
  "\<exists>rq. validated_device_create sample_device_body = Inr rq \<and> normalize_eui (Some (rq_dev_eui rq)) [] = Inr (rq_dev_eui rq) \<and>
     rq_application_id rq = ''app''"
proof -
  have "is_ok (validated_device_create sample_device_body)" by code_simp
  then obtain rq where rq: "validated_device_create sample_device_body = Inr rq" by (auto simp: is_ok_iff)
  have "normalize_optional_text (cb_application_id sample_device_body) = Some ''app''" by code_simp
  with validated_device_cases(7) [OF rq] device_body_well_typed [OF rq, of "[]"] rq show ?thesis by auto
qed

end
