(* ===== verification/Device_Views.thy ===== *)
theory Device_Views
  imports Device_Schemas Geofence_Evaluation
begin

text \<open>
  Assets and the dashboards of the administrator: \<open>src/service/crud_asset.py\<close>,
  \<open>src/service/crud_client.py\<close>, \<open>src/service/admin_service.py\<close> and the views of
  \<open>src/service/crud_device.py\<close> and \<open>src/service/crud_user.py\<close>.  A query without \<open>ORDER BY\<close> lists
  rows in table order, and among the rows with the latest time \<open>row_number() = 1\<close> takes the first.
\<close>

subsection \<open>Queries\<close>

text \<open>The rows an outer join pairs a row with.\<close>

definition outer_join :: "('r \<Rightarrow> bool) \<Rightarrow> 'r list \<Rightarrow> 'r option list" where
  "outer_join on rows = (case filter on rows of [] \<Rightarrow> [None] | x # xs \<Rightarrow> map Some (x # xs))"

definition latest_row :: "('r \<Rightarrow> int) \<Rightarrow> 'r list \<Rightarrow> 'r option" where
  "latest_row time rows = (case sort_key (\<lambda>r. - time r) rows of [] \<Rightarrow> None | r # _ \<Rightarrow> Some r)"

lemma latest_row_Some:
  assumes "latest_row time rows = Some r"
  shows "r \<in> set rows \<and> (\<forall>x \<in> set rows. time x \<le> time r)"
proof -
  obtain rs where rs: "sort_key (\<lambda>r. - time r) rows = r # rs"
    using assms by (auto simp: latest_row_def split: list.splits)
  have "sorted (map (\<lambda>r. - time r) (r # rs))" unfolding rs [symmetric] by simp
  then have "\<forall>x \<in> set (r # rs). time x \<le> time r" by auto
  moreover have "set (r # rs) = set rows" unfolding rs [symmetric] by simp
  ultimately show ?thesis by auto
qed

lemma latest_row_None: "latest_row time rows = None \<longleftrightarrow> rows = []"
  by (cases "sort_key (\<lambda>r. - time r) rows") (auto simp: latest_row_def dest: arg_cong [where f = set])

subsection \<open>Assets\<close>

datatype asset_error = Asset_Not_Found string | Asset_Db py_exc

definition validate_asset_client :: "tlrs_db \<Rightarrow> nat \<Rightarrow> (asset_error, unit) res" where
  "validate_asset_client db client_id =
     (case scalar_one_or_none (filter (\<lambda>c. cl_id c = client_id \<and> cl_deleted c = CHR ''N'') (db_clients db)) of
        Inl e \<Rightarrow> Inl (Asset_Db e)
      | Inr r \<Rightarrow> guardE (r = None) (Asset_Not_Found ''Client not found.''))"

definition asset_of_body :: "asset_create_body \<Rightarrow> asset" where
  "asset_of_body b = \<lparr>a_id = 0, a_type = ac_asset_type b, a_serial = ac_asset_serial b, a_deleted = CHR ''N'',
     a_client_id = Some (nat (ac_asset_client_id b)), a_status = ac_asset_status b\<rparr>"

definition asset_deleted :: "asset deleted_field" where
  "asset_deleted = Some (a_deleted, \<lambda>c a. a\<lparr>a_deleted := c\<rparr>)"

text \<open>The serial of an asset is unique among all rows, deleted ones included.\<close>

definition create_asset :: "asset_create_body \<Rightarrow> (tlrs_db, asset_error, asset) act" where
  "create_asset b db =
     (case validate_asset_client db (nat (ac_asset_client_id b)) of
        Inl e \<Rightarrow> (Inl e, db)
      | Inr _ \<Rightarrow>
          (let (a, rows) = crud_create (\<lambda>i a. a\<lparr>a_id := i\<rparr>) a_id asset_deleted False (asset_of_body b) (db_assets db)
           in if a_serial a \<in> a_serial ` set (db_assets db) then (Inl (Asset_Db (Integrity_Error ''assets_serial_key'')), db)
              else (Inr a, db\<lparr>db_assets := rows\<rparr>)))"

definition asset_rows :: "tlrs_db \<Rightarrow> nat \<Rightarrow> (asset \<times> nat option) list" where
  "asset_rows db client_id = sort_key (\<lambda>(a, _). a_id a)
     [(a, map_option d_id d). a \<leftarrow> db_assets db, a_client_id a = Some client_id \<and> a_deleted a = CHR ''N'',
       d \<leftarrow> outer_join (\<lambda>d. d_asset_id d = Some (a_id a) \<and> d_deleted d = CHR ''N'') (db_devices db)]"

definition get_assets_by_client_id :: "tlrs_db \<Rightarrow> nat \<Rightarrow> bool option \<Rightarrow> (asset_error, (asset \<times> nat option) list) res" where
  "get_assets_by_client_id db client_id unassigned =
     bindE (validate_asset_client db client_id) (\<lambda>_. Inr (case unassigned of
        None \<Rightarrow> asset_rows db client_id
      | Some True \<Rightarrow> filter (\<lambda>(_, d). d = None) (asset_rows db client_id)
      | Some False \<Rightarrow> filter (\<lambda>(_, d). d \<noteq> None) (asset_rows db client_id)))"

subsection \<open>Devices with their latest location\<close>

definition latest_location :: "tlrs_db \<Rightarrow> nat \<Rightarrow> location option" where
  "latest_location db i = latest_row l_received_at
     (filter (\<lambda>l. l_deleted l = CHR ''N'' \<and> l_device_id l = i) (db_locations db))"

definition get_latest_locations_by_client_id :: "tlrs_db \<Rightarrow> nat option \<Rightarrow> (device \<times> string option \<times> location) list" where
  "get_latest_locations_by_client_id db c =
     [(d, map_option a_type a, l). d \<leftarrow> db_devices db, d_client_id d = c \<and> d_deleted d = CHR ''N'',
       l \<leftarrow> (case latest_location db (d_id d) of Some l \<Rightarrow> if l_point l = None then [] else [l] | None \<Rightarrow> []),
       a \<leftarrow> outer_join (\<lambda>a. d_asset_id d = Some (a_id a)) (db_assets db)]"

text \<open>
  No location in the list is older than another that is stored for the same device, and a device
  whose latest location has no point is not listed, even if an earlier one has.
\<close>

lemma latest_location_is_latest:
  assumes "(d, n, l) \<in> set (get_latest_locations_by_client_id db c)"
  shows "d_client_id d = c \<and> l \<in> set (db_locations db) \<and> l_device_id l = d_id d \<and> l_point l \<noteq> None \<and>
    (\<forall>x \<in> set (db_locations db). l_device_id x = d_id d \<and> l_deleted x = CHR ''N'' \<longrightarrow> l_received_at x \<le> l_received_at l)"
  using assms by (auto simp: get_latest_locations_by_client_id_def latest_location_def dest!: latest_row_Some latest_row_Some [OF sym]
      split: option.splits if_splits)

subsection \<open>The administrator's device list\<close>

definition latest_effective_state :: "tlrs_db \<Rightarrow> nat \<Rightarrow> asset_state option" where
  "latest_effective_state db i = latest_row gs_last_evaluated_at
     (filter (\<lambda>s. gs_device_id s = i \<and> (gs_fence_id s, gs_asset_id s) \<in> set (effective_memberships db)) (db_asset_states db))"

record device_admin_read =
  dar_device :: device
  dar_client_name :: "string option"
  dar_asset_name :: "string option"
  dar_status :: "fence_status option"

definition get_devices :: "tlrs_db \<Rightarrow> nat \<Rightarrow> nat \<Rightarrow> device_admin_read list" where
  "get_devices db skip limit = take limit (drop skip
     [\<lparr>dar_device = d, dar_client_name = map_option cl_name c, dar_asset_name = map_option a_type a,
       dar_status = map_option gs_status (latest_effective_state db (d_id d))\<rparr>.
      d \<leftarrow> db_devices db, d_deleted d = CHR ''N'',
      c \<leftarrow> outer_join (\<lambda>c. d_client_id d = Some (cl_id c)) (db_clients db),
      a \<leftarrow> outer_join (\<lambda>a. d_asset_id d = Some (a_id a)) (db_assets db)])"

subsection \<open>Dashboards\<close>

definition get_clients_count :: "tlrs_db \<Rightarrow> nat" where
  "get_clients_count db = length (filter (\<lambda>c. cl_deleted c = CHR ''N'') (db_clients db))"

record client_dashboard =
  cd_client :: client
  cd_device_count :: nat
  cd_user_count :: nat

definition device_count :: "tlrs_db \<Rightarrow> nat \<Rightarrow> nat" where
  "device_count db c = length (filter (\<lambda>d. d_deleted d = CHR ''N'' \<and> d_client_id d = Some c) (db_devices db))"

definition user_count :: "accounts \<Rightarrow> nat \<Rightarrow> nat" where
  "user_count acc c = length (filter (\<lambda>u. u_deleted u = CHR ''N'' \<and> u_client_id u = Some c) (acc_users acc))"

definition get_clients_dashboard :: "accounts \<Rightarrow> tlrs_db \<Rightarrow> nat \<Rightarrow> nat \<Rightarrow> client_dashboard list" where
  "get_clients_dashboard acc db skip limit = take limit (drop skip
     (map (\<lambda>c. \<lparr>cd_client = c, cd_device_count = device_count db (cl_id c), cd_user_count = user_count acc (cl_id c)\<rparr>)
       (filter (\<lambda>c. cl_deleted c = CHR ''N'') (db_clients db))))"

record user_dashboard =
  ud_id :: nat
  ud_client_name :: "string option"
  ud_is_admin :: bool
  ud_last_login :: "int option"

definition last_login :: "accounts \<Rightarrow> nat \<Rightarrow> int option" where
  "last_login acc i =
     (case filter (\<lambda>s. us_user_id s = i \<and> us_deleted s = CHR ''N'' \<and> us_revoked_at s = None) (acc_sessions acc) of
        [] \<Rightarrow> None
      | s # ss \<Rightarrow> Some (Max (us_issued_at ` set (s # ss))))"

definition get_users_dashboard :: "accounts \<Rightarrow> tlrs_db \<Rightarrow> nat \<Rightarrow> nat \<Rightarrow> user_dashboard list" where
  "get_users_dashboard acc db skip limit = take limit (drop skip
     [\<lparr>ud_id = u_id u, ud_client_name = map_option cl_name c, ud_is_admin = u_is_admin u, ud_last_login = last_login acc (u_id u)\<rparr>.
      u \<leftarrow> acc_users acc, u_deleted u = CHR ''N'',
      c \<leftarrow> outer_join (\<lambda>c. u_client_id u = Some (cl_id c)) (db_clients db)])"

record dashboard_stats =
  dst_devices :: device_stats
  dst_clients :: nat
  dst_users :: nat

definition get_admin_dashboard_stats :: "accounts \<Rightarrow> tlrs_db \<Rightarrow> dashboard_stats" where
  "get_admin_dashboard_stats acc db = \<lparr>dst_devices = get_devices_admin_stats db, dst_clients = get_clients_count db,
     dst_users = get_active_users_count acc\<rparr>"

subsection \<open>What the asset service keeps\<close>

lemma create_asset_cases:
  assumes "create_asset b db = (Inr a, db')"
  obtains "db' = db\<lparr>db_assets := db_assets db @ [a]\<rparr>" "a_id a = fresh a_id (db_assets db)"
    "a_serial a \<notin> a_serial ` set (db_assets db)" "a_client_id a = Some (nat (ac_asset_client_id b))" "a_deleted a = CHR ''N''"
  using assms by (auto simp: create_asset_def crud_create_def asset_deleted_def Let_def asset_of_body_def
      split: sum.splits if_splits)

lemma create_asset_error: "create_asset b db = (Inl e, db') \<Longrightarrow> db' = db"
  by (auto simp: create_asset_def Let_def split: sum.splits if_splits prod.splits)

lemma outer_join_ne: "outer_join P rows \<noteq> []"
  by (cases "filter P rows") (simp_all add: outer_join_def)

lemma in_outer_join:
  "x \<in> set (outer_join P rows) \<longleftrightarrow>
     (case x of None \<Rightarrow> (\<forall>r \<in> set rows. \<not> P r) | Some r \<Rightarrow> r \<in> set rows \<and> P r)"
proof -
  have "set (filter P rows) = {r \<in> set rows. P r}" by auto
  then show ?thesis
    by (cases "filter P rows"; cases x) (auto simp: outer_join_def filter_empty_conv)
qed

lemma in_asset_rows:
  "(a, x) \<in> set (asset_rows db c) \<longleftrightarrow> a \<in> set (db_assets db) \<and> a_client_id a = Some c \<and> a_deleted a = CHR ''N'' \<and>
     (\<exists>d \<in> set (outer_join (\<lambda>d. d_asset_id d = Some (a_id a) \<and> d_deleted d = CHR ''N'') (db_devices db)). x = map_option d_id d)"
  by (fastforce simp: asset_rows_def)

text \<open>
  The filter \<open>unassigned\<close> splits the assets of a client: every asset is in exactly one of the two
  lists, in the one of the assigned exactly if a live device tracks it.
\<close>

lemma unassigned_splits:
  assumes "get_assets_by_client_id db c (Some True) = Inr free" "get_assets_by_client_id db c (Some False) = Inr taken"
  shows "\<exists>rows. get_assets_by_client_id db c None = Inr rows \<and> set rows = set free \<union> set taken \<and> set free \<inter> set taken = {}"
    and "(a, None) \<in> set free \<longleftrightarrow> a \<in> set (db_assets db) \<and> a_client_id a = Some c \<and> a_deleted a = CHR ''N'' \<and>
      \<not> (\<exists>d \<in> set (db_devices db). d_asset_id d = Some (a_id a) \<and> d_deleted d = CHR ''N'')"
proof -
  have v: "validate_asset_client db c = Inr ()" and fr: "free = filter (\<lambda>(_, d). d = None) (asset_rows db c)"
    and tk: "taken = filter (\<lambda>(_, d). d \<noteq> None) (asset_rows db c)"
    using assms by (auto simp: get_assets_by_client_id_def res_simps)
  from v show "\<exists>rows. get_assets_by_client_id db c None = Inr rows \<and> set rows = set free \<union> set taken \<and> set free \<inter> set taken = {}"
    by (auto simp: get_assets_by_client_id_def fr tk)
  show "(a, None) \<in> set free \<longleftrightarrow> a \<in> set (db_assets db) \<and> a_client_id a = Some c \<and> a_deleted a = CHR ''N'' \<and>
      \<not> (\<exists>d \<in> set (db_devices db). d_asset_id d = Some (a_id a) \<and> d_deleted d = CHR ''N'')"
    by (auto simp: fr in_asset_rows in_outer_join)
qed

end
