(* ===== verification/Device_Api.thy ===== *)
theory Device_Api
  imports Device_Views
begin

text \<open>
  The HTTP routes of devices and assets and the administrator's, \<open>src/routers/device.py\<close>,
  \<open>src/routers/asset.py\<close> and \<open>src/routers/admin.py\<close>: who may call them, the checks of their
  bodies and pages, and the \<open>except\<close> chains that turn the services' errors into answers.  The
  state of a device route is the tracking tables with the world behind the gRPC stub; the
  account tables decide who may call and are read only, except by the routes of users.
\<close>

subsection \<open>Guards\<close>

definition require_admin_user :: "string \<Rightarrow> token_data \<Rightarrow> ('s, route_error, 'a) act \<Rightarrow> ('s, route_error, 'a) act" where
  "require_admin_user detail td k s = (if td_is_admin td then k s else (Inl (Http_Answer 403 detail []), s))"

definition require_admin_device :: "token_data \<Rightarrow> ('s, route_error, 'a) act \<Rightarrow> ('s, route_error, 'a) act" where
  "require_admin_device = require_admin_user ''Only admin users can manage device provisioning and asset assignments.''"

definition require_admin_asset :: "token_data \<Rightarrow> ('s, route_error, 'a) act \<Rightarrow> ('s, route_error, 'a) act" where
  "require_admin_asset = require_admin_user ''Only admin users can manage assets.''"

definition with_service :: "string \<Rightarrow> accounts \<Rightarrow> token_data \<Rightarrow> ('s, route_error, 'a) act \<Rightarrow> ('s, route_error, 'a) act" where
  "with_service service acc td k s =
     (case validate_user_service_access td service acc of Inl e \<Rightarrow> (Inl (route_of_web e), s) | Inr _ \<Rightarrow> k s)"

subsection \<open>Error mapping\<close>

definition constraint_messages :: "(string \<times> string) list" where
  "constraint_messages =
     [(''uq_devices_serial_active'', ''Device serial already exists.''),
      (''uq_devices_asset_id_active'', ''Asset already has a device assigned.''),
      (''uq_device_asset_assignments_device_active'', ''Device already has an active asset assignment.''),
      (''uq_device_asset_assignments_asset_active'', ''Asset already has a device assigned.''),
      (''uq_devices_chirpstack_dev_eui_active'', ''ChirpStack DevEUI already exists.'')]"

definition device_conflict_message :: "string \<Rightarrow> string" where
  "device_conflict_message error_text =
     (case find (\<lambda>(name, _). sublist name error_text) constraint_messages of
        Some (_, message) \<Rightarrow> message
      | None \<Rightarrow> ''Device serial, asset or ChirpStack DevEUI already exists.'')"

text \<open>\<open>de_error_text\<close>: the text of the driver for a violated constraint.\<close>

record 'w device_env =
  de_now :: int
  de_created :: int
  de_client :: api_client
  de_stub :: "'w device_stub"
  de_error_text :: "py_exc \<Rightarrow> string"

fun integrity_conflict :: "(py_exc \<Rightarrow> string) \<Rightarrow> assignment_error \<Rightarrow> route_error option" where
  "integrity_conflict txt (Query_Error (Integrity_Error m)) = Some (Http_Answer 409 (device_conflict_message (txt (Integrity_Error m))) [])"
| "integrity_conflict txt _ = None"

fun assignment_value_error :: "assignment_error \<Rightarrow> route_error option" where
  "assignment_value_error (Assignment_Error m) = Some (Http_Answer 409 m [])"
| "assignment_value_error (Assignment_Invariant_Error m) = Some (Http_Answer 409 m [])"
| "assignment_value_error (Query_Error (Value_Error m)) = Some (Http_Answer 409 m [])"
| "assignment_value_error (Query_Error _) = None"

fun prov_integrity :: "(py_exc \<Rightarrow> string) \<Rightarrow> prov_error \<Rightarrow> route_error option" where
  "prov_integrity txt (Prov_Db e) = integrity_conflict txt e"
| "prov_integrity txt _ = None"

fun prov_not_found :: "prov_error \<Rightarrow> route_error option" where
  "prov_not_found (Prov_Not_Found m) = Some (Http_Answer 404 m [])"
| "prov_not_found _ = None"

fun prov_conflict :: "prov_error \<Rightarrow> route_error option" where
  "prov_conflict (Prov_Conflict m) = Some (Http_Answer 409 m [])"
| "prov_conflict _ = None"

text \<open>The base class of the two errors above.\<close>

fun prov_invalid :: "prov_error \<Rightarrow> route_error option" where
  "prov_invalid (Prov_Error m) = Some (Http_Answer 400 m [])"
| "prov_invalid (Prov_Not_Found m) = Some (Http_Answer 400 m [])"
| "prov_invalid (Prov_Conflict m) = Some (Http_Answer 400 m [])"
| "prov_invalid _ = None"

fun prov_unavailable :: "prov_error \<Rightarrow> route_error option" where
  "prov_unavailable (Prov_Api (Timeout_Error m)) = Some (Http_Answer 503 m [])"
| "prov_unavailable (Prov_Api (Connection_Error m)) = Some (Http_Answer 503 m [])"
| "prov_unavailable _ = None"

fun prov_gateway :: "prov_error \<Rightarrow> route_error option" where
  "prov_gateway (Prov_Api e) = (case e of
     Timeout_Error _ \<Rightarrow> None | Connection_Error _ \<Rightarrow> None | _ \<Rightarrow> Some (Http_Answer 502 (api_message e) []))"
| "prov_gateway _ = None"

fun asset_not_found :: "asset_error \<Rightarrow> route_error option" where
  "asset_not_found (Asset_Not_Found m) = Some (Http_Answer 404 m [])"
| "asset_not_found _ = None"

fun asset_integrity :: "asset_error \<Rightarrow> route_error option" where
  "asset_integrity (Asset_Db e) = on_integrity ''Asset serial already exists.'' e"
| "asset_integrity _ = None"

fun device_value_error :: "nat \<Rightarrow> device_error \<Rightarrow> route_error option" where
  "device_value_error code (Device_Value_Error m) = Some (Http_Answer code m [])"
| "device_value_error code _ = None"

subsection \<open>Routes of devices\<close>

text \<open>Lifting an operation on the tables to the pair with the world.\<close>

definition on_db :: "(tlrs_db, 'e, 'a) act \<Rightarrow> (tlrs_db \<times> 'w, 'e, 'a) act" where
  "on_db m s = (case m (fst s) of (r, db') \<Rightarrow> (r, (db', snd s)))"

definition create_device ::
  "'w device_env \<Rightarrow> token_data \<Rightarrow> device_body \<Rightarrow> (tlrs_db \<times> 'w, route_error, provisioning_read) act" where
  "create_device env td body =
     (case validated_device_create body of
        Inl _ \<Rightarrow> raiseS (Http_Answer 422 ''Validation error'' [])
      | Inr rq \<Rightarrow> require_admin_device td (\<lambda>s.
          caught [prov_integrity (de_error_text env), prov_not_found, prov_conflict, prov_invalid, prov_unavailable, prov_gateway]
            (provision_device (de_now env) (de_created env) (de_client env) (de_stub env) rq s)))"

definition assign_device_asset ::
  "'w device_env \<Rightarrow> token_data \<Rightarrow> nat \<Rightarrow> int \<Rightarrow> (tlrs_db, route_error, device) act" where
  "assign_device_asset env td id_device asset_id =
     (case validated_assignment_request asset_id of
        Inl _ \<Rightarrow> raiseS (Http_Answer 422 ''Validation error'' [])
      | Inr aid \<Rightarrow> require_admin_device td (\<lambda>db. or_404 ''Device not found.''
          (caught [integrity_conflict (de_error_text env), assignment_value_error]
            (assign_asset (de_now env) (de_created env) id_device aid db))))"

definition release_device_asset ::
  "'w device_env \<Rightarrow> token_data \<Rightarrow> nat \<Rightarrow> (tlrs_db, route_error, device) act" where
  "release_device_asset env td id_device = require_admin_device td (\<lambda>db. or_404 ''Device not found.''
     (caught [integrity_conflict (de_error_text env), assignment_value_error]
       (release_asset (de_now env) id_device db)))"

text \<open>The retry has no clause for \<open>IntegrityError\<close>.\<close>

definition retry_provisioning_route ::
  "'w device_env \<Rightarrow> token_data \<Rightarrow> nat \<Rightarrow> string option \<Rightarrow> (tlrs_db \<times> 'w, route_error, provisioning_read) act" where
  "retry_provisioning_route env td id_device app_key =
     (case normalize_retry_app_key app_key of
        Inl _ \<Rightarrow> raiseS (Http_Answer 422 ''Validation error'' [])
      | Inr key \<Rightarrow> require_admin_device td (\<lambda>s.
          caught [prov_not_found, prov_conflict, prov_invalid, prov_unavailable, prov_gateway]
            (retry_provisioning (de_now env) (de_client env) (de_stub env) id_device key s)))"

definition get_device_provisioning :: "token_data \<Rightarrow> nat \<Rightarrow> (tlrs_db, route_error, provisioning_read) act" where
  "get_device_provisioning td id_device =
     require_admin_device td (\<lambda>db. caught [prov_not_found] (get_provisioning db id_device, db))"

record device_page =
  dp_total :: nat
  dp_skip :: nat
  dp_limit :: nat
  dp_stats :: device_stats
  dp_items :: "(device \<times> string) list"

definition get_my_devices :: "accounts \<Rightarrow> token_data \<Rightarrow> int \<Rightarrow> int \<Rightarrow> (tlrs_db, route_error, device_page) act" where
  "get_my_devices acc td skip limit = page_checked 500 skip limit (\<lambda>skip limit.
     with_service ''device:get my devices'' acc td (\<lambda>db.
       let stats = get_device_stats_by_client_id db (td_client_id td);
           items = get_devices_by_client_id db (td_client_id td) skip limit
       in (Inr \<lparr>dp_total = ds_total stats, dp_skip = skip, dp_limit = limit, dp_stats = stats, dp_items = items\<rparr>, db)))"

definition get_my_devices_latest_locations ::
  "accounts \<Rightarrow> token_data \<Rightarrow> (tlrs_db, route_error, (device \<times> string option \<times> location) list) act" where
  "get_my_devices_latest_locations acc td = with_service ''device:get latest locations'' acc td
     (\<lambda>db. (Inr (get_latest_locations_by_client_id db (td_client_id td)), db))"

subsection \<open>Routes of assets\<close>

definition create_asset_route :: "token_data \<Rightarrow> asset_create_body \<Rightarrow> (tlrs_db, route_error, asset) act" where
  "create_asset_route td body = body_checked (validated_asset_create body)
     (require_admin_asset td (\<lambda>db. caught [asset_not_found, asset_integrity] (create_asset body db)))"

definition get_assets ::
  "token_data \<Rightarrow> int \<Rightarrow> bool option \<Rightarrow> (tlrs_db, route_error, (asset \<times> nat option) list) act" where
  "get_assets td client_id unassigned = body_checked (0 < client_id)
     (require_admin_asset td (\<lambda>db. caught [asset_not_found] (get_assets_by_client_id db (nat client_id) unassigned, db)))"

definition get_my_assets ::
  "accounts \<Rightarrow> token_data \<Rightarrow> bool option \<Rightarrow> (tlrs_db, route_error, (asset \<times> nat option) list) act" where
  "get_my_assets acc td unassigned = with_service ''asset:get my assets'' acc td (\<lambda>db.
     case td_client_id td of
       None \<Rightarrow> (Inl (Http_Answer 400 ''client_id is required for this asset operation.'' []), db)
     | Some c \<Rightarrow> caught [asset_not_found] (get_assets_by_client_id db c unassigned, db))"

subsection \<open>Routes of the administrator\<close>

text \<open>
  The response model of the three device routes below is \<open>DeviceRead\<close>, filled from the attributes
  of the row object.  A required field that the class \<open>Device\<close> has no attribute for makes the
  response invalid: FastAPI raises after the route has run, with its writes committed.
\<close>

definition device_attributes :: "string list" where
  "device_attributes = [''id_device'', ''serial'', ''name'', ''type'', ''last_seen_at'', ''chirpstack_dev_eui'', ''join_eui'',
     ''chirpstack_application_id'', ''lorawan_class'', ''chirpstack_device_profile_id'', ''provisioning_status'',
     ''provisioned_at'', ''provisioning_error'', ''app_key_last4'', ''deleted'', ''state'', ''communication_protocol'',
     ''client_id'', ''asset_id'', ''active'', ''client'', ''asset'', ''asset_assignments'', ''locations'', ''chirpstack_events'']"

definition device_read_required :: "string list" where
  "device_read_required = [''id_device'', ''serial'', ''name'', ''asset_name'', ''type'']"

definition device_read_response :: "(route_error, device) res \<times> 's \<Rightarrow> (route_error, device) res \<times> 's" where
  "device_read_response p = (case p of
     (Inr d, s) \<Rightarrow> (if set device_read_required \<subseteq> set device_attributes then Inr d else Inl Server_Crash, s)
   | (Inl e, s) \<Rightarrow> (Inl e, s))"

definition update_device_route ::
  "accounts \<Rightarrow> token_data \<Rightarrow> nat \<Rightarrow> device_update \<Rightarrow> (tlrs_db, route_error, device) act" where
  "update_device_route acc td device_id u = with_service ''admin:update device'' acc td (\<lambda>db. device_read_response
     (or_404 ''Device not found.'' (caught [device_value_error 400] (update_device device_id (validated_update u) db))))"

definition deactivate_device_route :: "accounts \<Rightarrow> token_data \<Rightarrow> nat \<Rightarrow> (tlrs_db, route_error, device) act" where
  "deactivate_device_route acc td device_id = with_service ''admin:deactivate device'' acc td (\<lambda>db. device_read_response
     (or_404 ''Device not found.'' (caught [] (deactivate_device device_id db))))"

definition reactivate_device_route :: "accounts \<Rightarrow> token_data \<Rightarrow> nat \<Rightarrow> (tlrs_db, route_error, device) act" where
  "reactivate_device_route acc td device_id = with_service ''admin:reactivate device'' acc td (\<lambda>db. device_read_response
     (or_404 ''Device not found.'' (caught [device_value_error 409] (reactivate_device device_id db))))"

definition get_all_devices :: "accounts \<Rightarrow> token_data \<Rightarrow> int \<Rightarrow> int \<Rightarrow> (tlrs_db, route_error, device_admin_read list) act" where
  "get_all_devices acc td skip limit = page_checked 100 skip limit (\<lambda>skip limit.
     with_service ''admin:get all devices'' acc td (\<lambda>db. (Inr (get_devices db skip limit), db)))"

text \<open>The dashboards of clients and users take the default page of 20 rows.\<close>

definition get_clients :: "accounts \<Rightarrow> token_data \<Rightarrow> (tlrs_db, route_error, client_dashboard list) act" where
  "get_clients acc td = with_service ''admin:get clients'' acc td (\<lambda>db. (Inr (get_clients_dashboard acc db 0 20), db))"

definition get_all_users :: "accounts \<Rightarrow> token_data \<Rightarrow> (tlrs_db, route_error, user_dashboard list) act" where
  "get_all_users acc td = with_service ''admin:get all users'' acc td (\<lambda>db. (Inr (get_users_dashboard acc db 0 20), db))"

definition get_admin_dashboard_stats_route :: "accounts \<Rightarrow> token_data \<Rightarrow> (tlrs_db, route_error, dashboard_stats) act" where
  "get_admin_dashboard_stats_route acc td = with_service ''admin:get dashboard stats'' acc td
     (\<lambda>db. (Inr (get_admin_dashboard_stats acc db), db))"

definition get_client_users :: "token_data \<Rightarrow> nat \<Rightarrow> int \<Rightarrow> int \<Rightarrow> (accounts, route_error, user list) act" where
  "get_client_users td client_id skip limit = page_checked 100 skip limit (\<lambda>skip limit acc.
     with_service ''admin:get client users'' acc td (\<lambda>acc. (Inr (get_users_by_client_id acc client_id skip limit), acc)) acc)"

definition deactivate_user_route :: "int \<Rightarrow> token_data \<Rightarrow> nat \<Rightarrow> (accounts, route_error, user) act" where
  "deactivate_user_route now td user_id acc = with_service ''admin:deactivate user'' acc td (\<lambda>acc.
     case deactivate_user now user_id acc of (u, acc') \<Rightarrow> or_404 ''User not found.'' (Inr u, acc')) acc"

definition reactivate_user_route :: "token_data \<Rightarrow> nat \<Rightarrow> (accounts, route_error, user) act" where
  "reactivate_user_route td user_id acc = with_service ''admin:reactivate user'' acc td (\<lambda>acc.
     case reactivate_user user_id acc of (u, acc') \<Rightarrow> or_404 ''User not found.'' (Inr u, acc')) acc"

subsection \<open>The interface\<close>

datatype device_request =
    Post_Device device_body
  | Put_Device_Asset nat int
  | Delete_Device_Asset nat
  | Post_Retry nat "string option"
  | Get_Provisioning nat
  | Get_My_Devices int int
  | Get_My_Latest_Locations
  | Post_Asset asset_create_body
  | Get_Assets int "bool option"
  | Get_My_Assets "bool option"
  | Patch_Device nat device_update
  | Patch_Deactivate nat
  | Patch_Reactivate nat
  | Get_All_Devices int int
  | Get_Clients
  | Get_All_Users
  | Get_Stats

datatype device_response =
    D_Provisioning provisioning_read
  | D_Device device
  | D_Page device_page
  | D_Locations "(device \<times> string option \<times> location) list"
  | D_Asset asset
  | D_Assets "(asset \<times> nat option) list"
  | D_Admin_Devices "device_admin_read list"
  | D_Clients "client_dashboard list"
  | D_Users "user_dashboard list"
  | D_Stats dashboard_stats

fun device_api ::
  "'w device_env \<Rightarrow> accounts \<Rightarrow> token_data \<Rightarrow> device_request \<Rightarrow> (tlrs_db \<times> 'w, route_error, device_response) act" where
  "device_api env acc td (Post_Device b) s = reply D_Provisioning (create_device env td b s)"
| "device_api env acc td (Put_Device_Asset i a) s = reply D_Device (on_db (assign_device_asset env td i a) s)"
| "device_api env acc td (Delete_Device_Asset i) s = reply D_Device (on_db (release_device_asset env td i) s)"
| "device_api env acc td (Post_Retry i k) s = reply D_Provisioning (retry_provisioning_route env td i k s)"
| "device_api env acc td (Get_Provisioning i) s = reply D_Provisioning (on_db (get_device_provisioning td i) s)"
| "device_api env acc td (Get_My_Devices skip limit) s = reply D_Page (on_db (get_my_devices acc td skip limit) s)"
| "device_api env acc td Get_My_Latest_Locations s = reply D_Locations (on_db (get_my_devices_latest_locations acc td) s)"
| "device_api env acc td (Post_Asset b) s = reply D_Asset (on_db (create_asset_route td b) s)"
| "device_api env acc td (Get_Assets c u) s = reply D_Assets (on_db (get_assets td c u) s)"
| "device_api env acc td (Get_My_Assets u) s = reply D_Assets (on_db (get_my_assets acc td u) s)"
| "device_api env acc td (Patch_Device i u) s = reply D_Device (on_db (update_device_route acc td i u) s)"
| "device_api env acc td (Patch_Deactivate i) s = reply D_Device (on_db (deactivate_device_route acc td i) s)"
| "device_api env acc td (Patch_Reactivate i) s = reply D_Device (on_db (reactivate_device_route acc td i) s)"
| "device_api env acc td (Get_All_Devices skip limit) s = reply D_Admin_Devices (on_db (get_all_devices acc td skip limit) s)"
| "device_api env acc td Get_Clients s = reply D_Clients (on_db (get_clients acc td) s)"
| "device_api env acc td Get_All_Users s = reply D_Users (on_db (get_all_users acc td) s)"
| "device_api env acc td Get_Stats s = reply D_Stats (on_db (get_admin_dashboard_stats_route acc td) s)"

end
