(* ===== verification/Device_History.thy ===== *)
theory Device_History
  imports Device_Api
begin

text \<open>
  What any sequence of requests to the device, asset and administrator routes keeps: the
  assignment history and its agreement with the present, and everything without a permission.
\<close>

subsection \<open>One operation\<close>

text \<open>A step at the time \<open>now\<close> that keeps the invariant and rewrites nothing that is past.\<close>

definition keeps_history :: "int \<Rightarrow> tlrs_db \<Rightarrow> tlrs_db \<Rightarrow> bool" where
  "keeps_history now db db' \<longleftrightarrow> timeline_ok db' \<and> (\<forall>later. now \<le> later \<longrightarrow> clock_ok later db') \<and>
     (\<forall>j t. t < now \<longrightarrow> asset_at db' j t = asset_at db j t)"

lemma clock_mono: "clock_ok now db \<Longrightarrow> now \<le> later \<Longrightarrow> clock_ok later db"
  by (fastforce simp: clock_ok_def)

lemma keeps_history_refl [intro]: "timeline_ok db \<Longrightarrow> clock_ok now db \<Longrightarrow> keeps_history now db db"
  by (auto simp: keeps_history_def intro: clock_mono)

lemma keeps_history_same_rows:
  assumes "clock_ok now db" "timeline_ok db'" "db_device_assignments db' = db_device_assignments db"
  shows "keeps_history now db db'"
  using assms by (auto simp: keeps_history_def asset_at_def get_assignment_for_device_at_def clock_ok_def intro: order_trans)

lemma bindE_case: "bindE m f = (case m of Inl e \<Rightarrow> Inl e | Inr x \<Rightarrow> f x)"
  by (cases m) simp_all

text \<open>Without a device in the answer nothing was written.\<close>

lemma unanswered_writes_nothing:
  "snd (assign_asset now created i a db) = db \<or> (\<exists>d. fst (assign_asset now created i a db) = Inr (Some d))"
  "snd (release_asset now i db) = db \<or> (\<exists>d. fst (release_asset now i db) = Inr (Some d))"
  by (simp_all add: assign_asset_def release_asset_def transact_def bindE_case Let_def commit_db_def split: sum.split option.split prod.split)

lemma assign_keeps_history:
  assumes "timeline_ok db" "clock_ok now db"
  shows "keeps_history now db (snd (assign_asset now created i a db))"
proof (cases "assign_asset now created i a db")
  case (Pair r db')
  show ?thesis
  proof (cases "\<exists>d. r = Inr (Some d)")
    case True
    then obtain d where "assign_asset now created i a db = (Inr (Some d), db')" using Pair by auto
    from assignment_step [OF assms, of created i a d db' "Some a"] this Pair show ?thesis
      by (auto simp: keeps_history_def)
  next
    case False
    then have "db' = db" using Pair unanswered_writes_nothing(1) [of now created i a db] by auto
    with assms Pair show ?thesis by auto
  qed
qed

lemma release_keeps_history:
  assumes "timeline_ok db" "clock_ok now db"
  shows "keeps_history now db (snd (release_asset now i db))"
proof (cases "release_asset now i db")
  case (Pair r db')
  show ?thesis
  proof (cases "\<exists>d. r = Inr (Some d)")
    case True
    then obtain d where "release_asset now i db = (Inr (Some d), db')" using Pair by auto
    from assignment_step [OF assms, of undefined i undefined d db' None] this Pair show ?thesis
      by (auto simp: keeps_history_def)
  next
    case False
    then have "db' = db" using Pair unanswered_writes_nothing(2) [of now i db] by auto
    with assms Pair show ?thesis by auto
  qed
qed

lemma provision_rows:
  assumes "provision_device now created cl stub rq (db, w) = (r, (db', w'))"
  shows "\<exists>rows. db_device_assignments db' = db_device_assignments db @ rows \<and>
    (\<forall>x \<in> set rows. da_assigned_at x = now \<and> da_unassigned_at x = None)"
proof -
  have "\<exists>rows. db_device_assignments db2 = db_device_assignments db1 @ rows \<and>
      (\<forall>x \<in> set rows. da_assigned_at x = now \<and> da_unassigned_at x = None)"
    if "create_initial_assignment now created d a db1 = (Inr d', db2)" for d a db1 d' db2
    using that by (auto simp: create_initial_assignment_def transact_def res_simps Let_def commit_Inr split: sum.splits)
  with assms show ?thesis
    by (fastforce simp: provision_device_def store_device_def dest!: finish_marks resolve_asset_frame(2)
        split: if_splits sum.splits prod.splits)
qed

lemma provision_keeps_history:
  assumes ok: "timeline_ok db" "clock_ok now db"
  shows "keeps_history now db (fst (snd (provision_device now created cl stub rq (db, w))))"
proof -
  obtain r db' w' where run: "provision_device now created cl stub rq (db, w) = (r, (db', w'))"
    by (metis prod.exhaust)
  have clk: "clock_ok later db'" if "now \<le> later" for later
    using provision_rows [OF run] clock_mono [OF ok(2) that] that by (auto simp: clock_ok_def)
  have "keeps_history now db db'"
    by (cases rule: provision_cases [OF ok run]) (use ok clk in \<open>auto simp: keeps_history_def\<close>)
  then show ?thesis by (simp add: run)
qed

lemma retry_keeps_history:
  assumes "timeline_ok db" "clock_ok now db"
  shows "keeps_history now db (fst (snd (retry_provisioning now cl stub i key (db, w))))"
proof -
  obtain r db' w' where run: "retry_provisioning now cl stub i key (db, w) = (r, (db', w'))"
    by (metis prod.exhaust)
  have rows: "db_device_assignments db' = db_device_assignments db"
    using run by (auto simp: retry_provisioning_def store_device_def Let_def dest!: finish_marks split: sum.splits)
  have "timeline_ok db'" using retry_outcome [OF assms(1) run] assms(1) by auto
  with keeps_history_same_rows [OF assms(2) _ rows] show ?thesis by (simp add: run)
qed

lemma edit_keeps_history:
  assumes ok: "timeline_ok db" "clock_ok now db"
  shows "keeps_history now db (snd (update_device i u db))" "keeps_history now db (snd (deactivate_device i db))"
proof -
  have put: "keeps_history now db (db\<lparr>db_devices := put d_id d' (db_devices db)\<rparr>)"
    if "d \<in> set (db_devices db)" "d_id d' = d_id d" "d_deleted d' = d_deleted d" "d_asset_id d' = d_asset_id d" for d d'
    using keeps_history_same_rows [OF ok(2) same_asset_keeps [OF ok(1) that]] by simp
  show "keeps_history now db (snd (update_device i u db))"
    using ok put
    by (auto simp: update_device_def crud_update_def Let_def commit_Inr dest!: crud_get_Some split: option.splits sum.splits prod.splits)
  show "keeps_history now db (snd (deactivate_device i db))"
    using ok put
    by (auto simp: deactivate_device_def write_device_def commit_Inr dest!: crud_get_Some split: option.splits sum.splits prod.splits)
qed

lemma create_asset_keeps_history:
  assumes "timeline_ok db" "clock_ok now db"
  shows "keeps_history now db (snd (create_asset b db))"
proof -
  have "timeline_ok (db\<lparr>db_assets := rows\<rparr>)" for rows using assms(1) by (simp add: timeline_ok_def)
  with assms keeps_history_same_rows [OF assms(2)] show ?thesis
    by (cases "create_asset b db"; cases "fst (create_asset b db)")
      (auto dest: create_asset_error elim!: create_asset_cases)
qed

subsection \<open>One request\<close>

lemma snd_device_read [simp]: "snd (device_read_response p) = snd p"
  by (simp add: device_read_response_def split: prod.split sum.split)

lemma snd_require [simp]:
  "snd (require_admin_user m td k s) = (if td_is_admin td then snd (k s) else s)"
  by (simp add: require_admin_user_def)

lemma snd_with_service [simp]:
  "snd (with_service n acc td k s) = (if td_is_admin td \<or> (td_user_id td, n) \<in> may_use acc then snd (k s) else s)"
  by (simp add: with_service_def access_iff)

lemma snd_on_db [simp]: "snd (on_db m s) = (snd (m (fst s)), snd s)"
  by (simp add: on_db_def split: prod.split)

lemma snd_device_page [simp]:
  "snd (page_checked most skip limit k s) = (if 0 \<le> skip \<and> 1 \<le> limit \<and> limit \<le> most then snd (k (nat skip) (nat limit) s) else s)"
  by (simp add: page_checked_def)

text \<open>The requests that write, and who may make them.\<close>

fun may_write :: "accounts \<Rightarrow> token_data \<Rightarrow> device_request \<Rightarrow> bool" where
  "may_write acc td (Patch_Device i u) = (td_is_admin td \<or> (td_user_id td, ''admin:update device'') \<in> may_use acc)"
| "may_write acc td (Patch_Deactivate i) = (td_is_admin td \<or> (td_user_id td, ''admin:deactivate device'') \<in> may_use acc)"
| "may_write acc td (Post_Device b) = td_is_admin td"
| "may_write acc td (Put_Device_Asset i a) = td_is_admin td"
| "may_write acc td (Delete_Device_Asset i) = td_is_admin td"
| "may_write acc td (Post_Retry i k) = td_is_admin td"
| "may_write acc td (Post_Asset b) = td_is_admin td"
| "may_write acc td rq = False"

lemmas route_defs = create_device_def assign_device_asset_def release_device_asset_def retry_provisioning_route_def
  get_device_provisioning_def get_my_devices_def get_my_devices_latest_locations_def create_asset_route_def get_assets_def
  get_my_assets_def update_device_route_def deactivate_device_route_def reactivate_device_route_def get_all_devices_def
  get_clients_def get_all_users_def get_admin_dashboard_stats_route_def require_admin_device_def require_admin_asset_def

lemma reads_write_nothing: "\<not> may_write acc td rq \<Longrightarrow> snd (device_api env acc td rq s) = s"
  by (cases rq) (auto simp: route_defs Let_def reactivation_never_succeeds(1) split: sum.split option.split)

lemma request_keeps_history:
  assumes "timeline_ok db" "clock_ok (de_now env) db"
  shows "keeps_history (de_now env) db (fst (snd (device_api env acc td rq (db, w))))"
proof (cases "may_write acc td rq")
  case True
  with assms show ?thesis
    by (cases rq) (auto simp: route_defs assign_keeps_history release_keeps_history provision_keeps_history
        retry_keeps_history edit_keeps_history create_asset_keeps_history split: sum.split)
next
  case False
  with assms show ?thesis by (simp add: reads_write_nothing keeps_history_refl)
qed

subsection \<open>Sequences of requests\<close>

fun run_device_requests ::
  "accounts \<Rightarrow> ('w device_env \<times> token_data \<times> device_request) list \<Rightarrow> tlrs_db \<times> 'w \<Rightarrow> tlrs_db \<times> 'w" where
  "run_device_requests acc [] s = s"
| "run_device_requests acc ((env, td, rq) # rs) s = run_device_requests acc rs (snd (device_api env acc td rq s))"

definition request_times :: "('w device_env \<times> token_data \<times> device_request) list \<Rightarrow> int list" where
  "request_times rs = map (\<lambda>(env, _, _). de_now env) rs"

lemma run_keeps_history:
  assumes "timeline_ok db" "clock_ok t0 db" "sorted (t0 # request_times rs)"
  shows "timeline_ok (fst (run_device_requests acc rs (db, w))) \<and>
    clock_ok (last (t0 # request_times rs)) (fst (run_device_requests acc rs (db, w))) \<and>
    (\<forall>j t. t < t0 \<longrightarrow> asset_at (fst (run_device_requests acc rs (db, w))) j t = asset_at db j t)"
  using assms
proof (induction rs arbitrary: t0 db w)
  case Nil
  then show ?case by (simp add: request_times_def)
next
  case (Cons r rs)
  obtain env td rq where r: "r = (env, td, rq)" by (cases r)
  obtain db1 w1 where one: "snd (device_api env acc td rq (db, w)) = (db1, w1)" by (metis prod.exhaust)
  have later: "t0 \<le> de_now env" "sorted (de_now env # request_times rs)"
    using Cons.prems(3) r by (auto simp: request_times_def)
  have kept: "keeps_history (de_now env) db db1"
    using request_keeps_history [OF Cons.prems(1) clock_mono [OF Cons.prems(2) later(1)], of acc td rq w] one by simp
  then have "timeline_ok db1" "clock_ok (de_now env) db1" by (simp_all add: keeps_history_def)
  from Cons.IH [OF this later(2), of w1] kept later(1) show ?case
    by (simp add: r one request_times_def keeps_history_def)
qed

text \<open>
  Property C7. No sequence of requests to the device, asset and administrator routes rewrites the
  assignment history: whatever devices are provisioned, assigned, released, retried, edited or
  deactivated, with requests failing or the ChirpStack server refusing at any point, as long as
  the clock does not run back the tracked asset of every device at every time before the first
  request is what it was, the invariant between history and present holds at the end, and from
  the last request on the history says of every live device what its row says. Requests that
  are not permitted to write leave the tables and the ChirpStack server untouched.
\<close>
theorem device_requests_keep_history:
  assumes "timeline_ok db" "clock_ok t0 db" "sorted (t0 # request_times rs)"
    and "run_device_requests acc rs (db, w) = (db', w')"
  shows "timeline_ok db' \<and> (\<forall>j t. t < t0 \<longrightarrow> asset_at db' j t = asset_at db j t) \<and>
    (\<forall>d t. d \<in> set (db_devices db') \<and> d_deleted d = CHR ''N'' \<and> last (t0 # request_times rs) \<le> t \<longrightarrow>
       asset_at db' (d_id d) t = d_asset_id d) \<and>
    ((\<forall>(env, td, rq) \<in> set rs. \<not> may_write acc td rq) \<longrightarrow> (db', w') = (db, w))"
proof -
  have "timeline_ok db'" "clock_ok (last (t0 # request_times rs)) db'" "\<forall>j t. t < t0 \<longrightarrow> asset_at db' j t = asset_at db j t"
    using run_keeps_history [OF assms(1-3), of acc w] assms(4) by simp_all
  moreover have "run_device_requests acc rs s = s" if "\<forall>(env, td, rq) \<in> set rs. \<not> may_write acc td rq" for s
    using that by (induction rs arbitrary: s) (auto simp: reads_write_nothing)
  ultimately show ?thesis using asset_at_present [of db'] assms(4) by auto
qed

definition admin_token :: token_data where
  "admin_token = \<lparr>td_user_id = 1, td_username = ''a'', td_client_id = None, td_is_admin = True, td_session_id = None\<rparr>"

definition sample_env :: "unit device_env" where
  "sample_env = \<lparr>de_now = 5, de_created = 5, de_client = sample_client, de_stub = down_stub, de_error_text = (\<lambda>_. [])\<rparr>"

definition no_accounts :: accounts where
  "no_accounts = \<lparr>acc_users = [], acc_sessions = [], acc_roles = [], acc_user_roles = [], acc_services = [], acc_service_roles = []\<rparr>"

theorem device_requests_keep_history_witness:
  "\<exists>db' w'. run_device_requests no_accounts [(sample_env, admin_token, Put_Device_Asset 1 7), (sample_env, admin_token, Delete_Device_Asset 1)]
     (idle_db, ()) = (db', w') \<and> length (db_device_assignments db') = 1 \<and> timeline_ok db'"
proof -
  let ?rs = "[(sample_env, admin_token, Put_Device_Asset 1 7), (sample_env, admin_token, Delete_Device_Asset 1)]"
  obtain db' w' where run: "run_device_requests no_accounts ?rs (idle_db, ()) = (db', w')"
    by (metis prod.exhaust)
  have "length (db_device_assignments (fst (run_device_requests no_accounts ?rs (idle_db, ())))) = 1" by code_simp
  moreover have "sorted (5 # request_times ?rs)" by (simp add: request_times_def sample_env_def)
  note device_requests_keep_history [OF idle_db_ok(1) idle_db_ok(2) this run]
  ultimately show ?thesis using run by auto
qed

subsection \<open>Answers of the administrator's device routes\<close>

text \<open>
  None of the three routes that answer a \<open>DeviceRead\<close> ever succeeds: the required field
  \<open>asset_name\<close> is no attribute of the row, so the answer is status 500 - after an update or a
  deactivation that has been committed.
\<close>

lemma device_read_never_answers: "\<not> is_ok (fst (device_read_response p))"
  by (auto simp: device_read_response_def device_read_required_def device_attributes_def split: prod.split sum.split)

lemma admin_device_routes_never_answer:
  "\<not> is_ok (fst (update_device_route acc td i u db))" "\<not> is_ok (fst (deactivate_device_route acc td i db))"
  "\<not> is_ok (fst (reactivate_device_route acc td i db))"
  by (simp_all add: update_device_route_def deactivate_device_route_def reactivate_device_route_def with_service_def
      device_read_never_answers split: sum.split)

lemma deactivation_commits_without_answer:
  assumes "deactivate_device i db = (Inr (Some d), db')" "td_is_admin td"
  shows "deactivate_device_route acc td i db = (Inl Server_Crash, db')"
  using assms by (simp add: deactivate_device_route_def with_service_def access_iff caught_def or_404_def device_read_response_def
      device_read_required_def device_attributes_def)

end
