(* ===== verification/Schema_Migrations.thy ===== *)
theory Schema_Migrations
  imports Device_Service
begin

text \<open>
  The migrations under \<open>alembic/versions\<close> that change rows: those of the device and assignment
  tables, in the order of their revisions.  They run once, in a transaction: an error leaves the
  database as it was.  The migrations that only create, alter or drop tables and indexes are the
  constraints of the other theories.
\<close>

subsection \<open>Devices\<close>

datatype migration_error = Runtime_Error string | Migration_Db py_exc

text \<open>\<open>8c6e1b2f4a90\<close>: the check constraint is only added when no row violates it; \<open>btrim\<close> strips spaces.\<close>

definition lacks_application :: "device \<Rightarrow> bool" where
  "lacks_application d \<longleftrightarrow> d_protocol d = CHIRPSTACK \<and>
     (case d_application_id d of None \<Rightarrow> True | Some s \<Rightarrow> \<not> list_ex (\<lambda>c. c \<noteq> CHR '' '') s)"

definition require_application_id :: "device list \<Rightarrow> (migration_error, unit) res" where
  "require_application_id ds =
     (let invalid_rows = length (filter lacks_application ds)
      in guardE (invalid_rows \<noteq> 0) (Runtime_Error (''Cannot enforce ChirpStack application_id requirement while devices '' @
           ''without chirpstack_application_id still exist: '' @ py_str_int (int invalid_rows) @
           ''. Delete or fix those devices before running this migration.'')))"

text \<open>\<open>e1c4a8b9d2f3\<close>: new columns with their defaults, then the update.\<close>

definition add_provisioning_columns :: "device \<Rightarrow> device" where
  "add_provisioning_columns d = d\<lparr>d_join_eui := None, d_provisioning_status := NOT_PROVISIONED, d_provisioned_at := None,
     d_provisioning_error := None, d_app_key_last4 := None\<rparr>"

definition mark_provisioned :: "device \<Rightarrow> device" where
  "mark_provisioned d = (if d_protocol d = CHIRPSTACK then d\<lparr>d_provisioning_status := PROVISIONED\<rparr> else d)"

text \<open>\<open>d4f8a2c6e9b1\<close>: an active device without an asset is switched off.\<close>

definition deactivate_orphan :: "device \<Rightarrow> device" where
  "deactivate_orphan d = (if d_active d \<and> d_asset_id d = None then d\<lparr>d_active := False, d_state := OFF\<rparr> else d)"

text \<open>
  \<open>b7c3d5e9f1a2\<close>: one open row for each live device that tracks an asset.  A second open row of a
  device is skipped by \<open>ON CONFLICT\<close>, one of an asset violates the other unique index.
\<close>

fun backfill_assignments :: "int \<Rightarrow> device list \<Rightarrow> device_assignment list \<Rightarrow> (migration_error, device_assignment list) res" where
  "backfill_assignments now [] rows = Inr rows"
| "backfill_assignments now (d # ds) rows =
     (case d_asset_id d of
        None \<Rightarrow> backfill_assignments now ds rows
      | Some a \<Rightarrow>
          if d_deleted d \<noteq> CHR ''N'' \<or> list_ex (\<lambda>x. is_open x \<and> da_device_id x = d_id d) rows then backfill_assignments now ds rows
          else if list_ex (\<lambda>x. is_open x \<and> da_asset_id x = a) rows
            then Inl (Migration_Db (Integrity_Error ''uq_device_asset_assignments_asset_active''))
          else backfill_assignments now ds (rows @ [new_assignment now now (d_id d) a rows]))"

definition upgrade_devices :: "int \<Rightarrow> tlrs_db \<Rightarrow> (migration_error, tlrs_db) res" where
  "upgrade_devices now db =
     bindE (require_application_id (db_devices db)) (\<lambda>_.
       let ds = map (deactivate_orphan \<circ> mark_provisioned \<circ> add_provisioning_columns) (db_devices db)
       in bindE (backfill_assignments now ds []) (\<lambda>rows.
            Inr (db\<lparr>db_devices := ds, db_device_assignments := rows\<rparr>)))"

subsection \<open>The history starts consistent\<close>

text \<open>The unique indexes the table has when the migrations run.\<close>

definition device_indexes :: "device list \<Rightarrow> bool" where
  "device_indexes ds \<longleftrightarrow> (let live = filter (\<lambda>d. d_deleted d = CHR ''N'') ds
      in distinct (map d_serial live) \<and> distinct (map d_asset_id (filter (\<lambda>d. d_asset_id d \<noteq> None) live)) \<and>
         distinct (map d_dev_eui (filter (\<lambda>d. d_dev_eui d \<noteq> None) live)))"

abbreviation migrated :: "device \<Rightarrow> device" where
  "migrated d \<equiv> deactivate_orphan (mark_provisioned (add_provisioning_columns d))"

lemma migrated_simps [simp]:
  "d_id (migrated d) = d_id d" "d_serial (migrated d) = d_serial d" "d_dev_eui (migrated d) = d_dev_eui d"
  "d_asset_id (migrated d) = d_asset_id d" "d_deleted (migrated d) = d_deleted d" "d_protocol (migrated d) = d_protocol d"
  "d_application_id (migrated d) = d_application_id d"
  by (simp_all add: deactivate_orphan_def mark_provisioned_def add_provisioning_columns_def)

lemma migrated_active: "d_active (migrated d) \<longleftrightarrow> d_active d \<and> d_asset_id d \<noteq> None"
  by (auto simp: deactivate_orphan_def mark_provisioned_def add_provisioning_columns_def)

lemma migrated_device_constraints:
  assumes "device_indexes ds" "\<not> list_ex lacks_application ds"
  shows "device_constraints (map migrated ds)"
proof -
  have "list_all (\<lambda>d. d_protocol d = CHIRPSTACK \<longrightarrow>
      (case d_application_id d of None \<Rightarrow> False | Some s \<Rightarrow> list_ex (\<lambda>c. c \<noteq> CHR '' '') s)) (map migrated ds)"
    using assms(2) by (auto simp: list_all_iff list_ex_iff lacks_application_def split: option.splits)
  moreover have "list_all (\<lambda>d. d_active d \<longrightarrow> d_asset_id d \<noteq> None) (map migrated ds)"
    by (simp add: list_all_iff migrated_active)
  ultimately show ?thesis
    using assms(1) by (simp add: device_constraints_def device_indexes_def filter_map o_def Let_def)
qed

definition tracked :: "device \<Rightarrow> bool" where
  "tracked d \<longleftrightarrow> d_deleted d = CHR ''N'' \<and> d_asset_id d \<noteq> None"

lemma backfill_spec:
  assumes "distinct (map d_id ds)" "distinct (map d_asset_id (filter tracked ds))" "distinct (map da_id rows)"
    and "\<And>x d. x \<in> set rows \<Longrightarrow> is_open x \<Longrightarrow> d \<in> set ds \<Longrightarrow> da_device_id x \<noteq> d_id d \<and> (tracked d \<longrightarrow> d_asset_id d \<noteq> Some (da_asset_id x))"
  shows "\<exists>new. backfill_assignments now ds rows = Inr (rows @ new) \<and> distinct (map da_id (rows @ new)) \<and>
    (\<forall>x \<in> set new. da_assigned_at x = now \<and> da_unassigned_at x = None) \<and>
    map (\<lambda>x. (da_device_id x, Some (da_asset_id x))) new = map (\<lambda>d. (d_id d, d_asset_id d)) (filter tracked ds)"
  using assms
proof (induction ds arbitrary: rows)
  case Nil
  then show ?case by simp
next
  case (Cons d ds)
  show ?case
  proof (cases "tracked d")
    case False
    then have "backfill_assignments now (d # ds) rows = backfill_assignments now ds rows"
      by (auto simp: tracked_def split: option.splits)
    moreover have "\<exists>new. backfill_assignments now ds rows = Inr (rows @ new) \<and> distinct (map da_id (rows @ new)) \<and>
        (\<forall>x \<in> set new. da_assigned_at x = now \<and> da_unassigned_at x = None) \<and>
        map (\<lambda>x. (da_device_id x, Some (da_asset_id x))) new = map (\<lambda>d. (d_id d, d_asset_id d)) (filter tracked ds)"
      by (rule Cons.IH) (use Cons.prems False in auto)
    ultimately show ?thesis using False by simp
  next
    case True
    then obtain a where a: "d_asset_id d = Some a" "d_deleted d = CHR ''N''" by (auto simp: tracked_def)
    let ?x = "new_assignment now now (d_id d) a rows"
    have step: "backfill_assignments now (d # ds) rows = backfill_assignments now ds (rows @ [?x])"
      using Cons.prems(4) [of _ d] a True by (auto simp: list_ex_iff)
    have "\<exists>new. backfill_assignments now ds (rows @ [?x]) = Inr ((rows @ [?x]) @ new) \<and> distinct (map da_id ((rows @ [?x]) @ new)) \<and>
        (\<forall>x \<in> set new. da_assigned_at x = now \<and> da_unassigned_at x = None) \<and>
        map (\<lambda>x. (da_device_id x, Some (da_asset_id x))) new = map (\<lambda>d. (d_id d, d_asset_id d)) (filter tracked ds)"
    proof (rule Cons.IH)
      show "distinct (map da_id (rows @ [?x]))" by (rule distinct_append_fresh [OF Cons.prems(3)]) simp
      show "da_device_id x \<noteq> d_id e \<and> (tracked e \<longrightarrow> d_asset_id e \<noteq> Some (da_asset_id x))"
        if "x \<in> set (rows @ [?x])" "is_open x" "e \<in> set ds" for x e
      proof (cases "x = ?x")
        case True
        with Cons.prems(1,2) that(3) a \<open>tracked d\<close> show ?thesis by (auto simp: image_iff)
      next
        case False
        with Cons.prems(4) [of x e] that show ?thesis by simp
      qed
    qed (use Cons.prems(1,2) True in auto)
    then obtain new where "backfill_assignments now ds (rows @ [?x]) = Inr ((rows @ [?x]) @ new)"
      "distinct (map da_id ((rows @ [?x]) @ new))" "\<forall>x \<in> set new. da_assigned_at x = now \<and> da_unassigned_at x = None"
      "map (\<lambda>x. (da_device_id x, Some (da_asset_id x))) new = map (\<lambda>d. (d_id d, d_asset_id d)) (filter tracked ds)" by blast
    then show ?thesis
      unfolding step by (intro exI [of _ "?x # new"]) (simp add: True a)
  qed
qed

lemma backfilled_timeline:
  assumes "distinct (map d_id (db_devices db))" "distinct (map d_asset_id (filter tracked (db_devices db)))"
    and rows: "distinct (map da_id (db_device_assignments db))"
      "\<forall>x \<in> set (db_device_assignments db). da_assigned_at x = now \<and> da_unassigned_at x = None"
      "map (\<lambda>x. (da_device_id x, Some (da_asset_id x))) (db_device_assignments db) = map (\<lambda>d. (d_id d, d_asset_id d)) (filter tracked (db_devices db))"
  shows "timeline_ok db \<and> clock_ok now db"
proof -
  let ?rows = "db_device_assignments db" and ?ds = "db_devices db"
  have pairs: "(\<exists>x \<in> set ?rows. da_device_id x = i \<and> da_asset_id x = a) \<longleftrightarrow>
      (\<exists>d \<in> set ?ds. d_deleted d = CHR ''N'' \<and> d_id d = i \<and> d_asset_id d = Some a)" for i a
  proof -
    have "(\<exists>x \<in> set ?rows. da_device_id x = i \<and> da_asset_id x = a) \<longleftrightarrow>
        (i, Some a) \<in> set (map (\<lambda>x. (da_device_id x, Some (da_asset_id x))) ?rows)" by auto
    also have "\<dots> \<longleftrightarrow> (\<exists>d \<in> set ?ds. d_deleted d = CHR ''N'' \<and> d_id d = i \<and> d_asset_id d = Some a)"
      unfolding rows(3) by (auto simp: tracked_def)
    finally show ?thesis .
  qed
  have devs: "map da_device_id ?rows = map d_id (filter tracked ?ds)" and assets: "map (Some \<circ> da_asset_id) ?rows = map d_asset_id (filter tracked ?ds)"
    using arg_cong [OF rows(3), of "map fst"] arg_cong [OF rows(3), of "map snd"] by (simp_all add: o_def)
  have "distinct (map da_device_id ?rows)" unfolding devs using assms(1) by (rule distinct_map_filter)
  moreover have "distinct (map (Some \<circ> da_asset_id) ?rows)" unfolding assets by (rule assms(2))
  then have "distinct (map da_asset_id ?rows)" by (simp add: distinct_map inj_on_def)
  ultimately have one: "da_id x = da_id y" if "x \<in> set ?rows" "y \<in> set ?rows" "da_device_id x = da_device_id y \<or> da_asset_id x = da_asset_id y" for x y
    using that same_key_same_row by metis
  have tr: "\<exists>d \<in> set ?ds. d_deleted d = CHR ''N'' \<and> d_id d = da_device_id x \<and> d_asset_id d = Some (da_asset_id x)" if "x \<in> set ?rows" for x
    using pairs [of "da_device_id x" "da_asset_id x"] that by auto
  have "timeline_ok db"
    unfolding timeline_ok_def Let_def
  proof (intro conjI ballI allI impI)
    fix x assume "x \<in> set ?rows" then show "da_device_id x \<in> d_id ` set ?ds" using tr by force
  next
    fix x assume "x \<in> set ?rows" then show "\<exists>d \<in> set ?ds. d_id d = da_device_id x \<and> d_deleted d = CHR ''N'' \<and> d_asset_id d = Some (da_asset_id x)"
      using tr by blast
  next
    fix d a assume "d \<in> set ?ds" "d_deleted d = CHR ''N'' \<and> d_asset_id d = Some a"
    then show "\<exists>x \<in> set ?rows. is_open x \<and> da_device_id x = d_id d \<and> da_asset_id x = a"
      using pairs [of "d_id d" a] rows(2) by (auto simp: is_open_def)
  next
    fix x u assume "x \<in> set ?rows" "da_unassigned_at x = Some u" then show "da_assigned_at x \<le> u" using rows(2) by simp
  next
    fix x y assume "x \<in> set ?rows" "y \<in> set ?rows"
      "da_id x \<noteq> da_id y \<and> (da_device_id x = da_device_id y \<or> da_asset_id x = da_asset_id y)"
    then show "apart x y" using one by blast
  qed (rule assms(1), rule rows(1))
  moreover have "clock_ok now db" using rows(2) by (simp add: clock_ok_def)
  ultimately show ?thesis by simp
qed

text \<open>
  Property C34. The migrations establish what the services keep: on a device table with its unique
  indexes the upgrade fails exactly if some ChirpStack device has no application id, and
  otherwise it leaves a database in which history and present agree, all constraints hold, every
  live device tracks from that instant on the asset its row has, nothing is claimed for earlier
  times, and no row has another asset than before.
\<close>
theorem migrations_establish_history:
  assumes "distinct (map d_id (db_devices db))" "device_indexes (db_devices db)"
  shows "case upgrade_devices now db of
      Inl e \<Rightarrow> list_ex lacks_application (db_devices db)
    | Inr db' \<Rightarrow> \<not> list_ex lacks_application (db_devices db) \<and> timeline_ok db' \<and> clock_ok now db' \<and>
        device_constraints (db_devices db') \<and> assignment_constraints (db_device_assignments db') \<and>
        (\<forall>d \<in> set (db_devices db'). \<forall>t. asset_at db' (d_id d) t =
           (if now \<le> t \<and> d_deleted d = CHR ''N'' then d_asset_id d else None)) \<and>
        map (\<lambda>d. (d_id d, d_asset_id d)) (db_devices db') = map (\<lambda>d. (d_id d, d_asset_id d)) (db_devices db)"
proof (cases "list_ex lacks_application (db_devices db)")
  case True
  then have "filter lacks_application (db_devices db) \<noteq> []" by (auto simp: list_ex_iff filter_empty_conv)
  with True show ?thesis by (simp add: upgrade_devices_def require_application_id_def Let_def)
next
  case False
  let ?ds = "map migrated (db_devices db)"
  have req: "require_application_id (db_devices db) = Inr ()"
    using False by (auto simp: require_application_id_def list_ex_iff filter_empty_conv)
  have keys: "distinct (map d_id ?ds)" using assms(1) by (simp add: o_def)
  have assets: "distinct (map d_asset_id (filter tracked ?ds))"
    using assms(2) by (simp add: device_indexes_def Let_def tracked_def filter_map o_def)
  obtain new where new: "backfill_assignments now ?ds [] = Inr new" "distinct (map da_id new)"
    "\<forall>x \<in> set new. da_assigned_at x = now \<and> da_unassigned_at x = None"
    "map (\<lambda>x. (da_device_id x, Some (da_asset_id x))) new = map (\<lambda>d. (d_id d, d_asset_id d)) (filter tracked ?ds)"
    using backfill_spec [OF keys assets, of "[]" now] unfolding append_Nil by (simp only: list.set empty_iff distinct.simps list.map) blast
  let ?db = "db\<lparr>db_devices := ?ds, db_device_assignments := new\<rparr>"
  have up: "upgrade_devices now db = Inr ?db"
    using req new(1) by (simp add: upgrade_devices_def o_def)
  have ok: "timeline_ok ?db" "clock_ok now ?db"
    using backfilled_timeline [of ?db now] keys assets new(2-4) by simp_all
  have "asset_at ?db (d_id d) t = (if now \<le> t \<and> d_deleted d = CHR ''N'' then d_asset_id d else None)" if d: "d \<in> set ?ds" for d t
  proof (cases "now \<le> t \<and> d_deleted d = CHR ''N''")
    case True
    with asset_at_present [OF ok, of d t] d show ?thesis by simp
  next
    case F: False
    have none: "\<not> (da_device_id x = d_id d \<and> in_effect t x)" if x: "x \<in> set new" for x
    proof
      assume h: "da_device_id x = d_id d \<and> in_effect t x"
      have row: "x \<in> set (db_device_assignments ?db)" "is_open x" using x new(3) by (simp_all add: is_open_def)
      obtain e where e: "e \<in> set (db_devices ?db)" "d_id e = da_device_id x" "d_deleted e = CHR ''N''"
        using timelineD(5) [OF ok(1) row] by blast
      have "e = d" by (rule same_key_same_row [OF timelineD(1) [OF ok(1)] e(1)]) (use d e(2) h in simp_all)
      moreover have "now \<le> t" using h new(3) x by (simp add: in_effect_def)
      ultimately show False using F e(3) by simp
    qed
    have "\<not> (\<exists>a. asset_at ?db (d_id d) t = Some a)"
      unfolding asset_at_iff [OF ok(1)] using none by simp blast
    with F show ?thesis by (simp only: not_Some_eq not_ex if_False)
  qed
  then have present: "\<forall>d \<in> set ?ds. \<forall>t. asset_at ?db (d_id d) t = (if now \<le> t \<and> d_deleted d = CHR ''N'' then d_asset_id d else None)"
    by blast
  have rows: "map (\<lambda>d. (d_id d, d_asset_id d)) ?ds = map (\<lambda>d. (d_id d, d_asset_id d)) (db_devices db)" by (simp add: o_def)
  have sel: "db_devices ?db = ?ds" "db_device_assignments ?db = new" by simp_all
  show ?thesis
    unfolding up sum.case sel
    using False ok present rows migrated_device_constraints [OF assms(2) False] assignment_constraints_timeline [OF ok(1), unfolded sel]
    by blast
qed

theorem migrations_establish_history_witness:
  "case upgrade_devices 5 (idle_db\<lparr>db_devices := [idle_device\<lparr>d_asset_id := Some 7\<rparr>]\<rparr>) of
     Inl _ \<Rightarrow> False | Inr db' \<Rightarrow> timeline_ok db' \<and> asset_at db' 1 6 = Some 7 \<and> asset_at db' 1 4 = None"
proof -
  let ?db = "idle_db\<lparr>db_devices := [idle_device\<lparr>d_asset_id := Some 7\<rparr>]\<rparr>"
  have ok: "\<not> list_ex lacks_application (db_devices ?db)" by (simp add: lacks_application_def idle_device_def)
  have "distinct (map d_id (db_devices ?db))" "device_indexes (db_devices ?db)"
    by (simp_all add: device_indexes_def)
  from migrations_establish_history [OF this, of 5] ok obtain db' where up: "upgrade_devices 5 ?db = Inr db'"
    and h: "timeline_ok db'" "\<forall>d \<in> set (db_devices db'). \<forall>t. asset_at db' (d_id d) t =
        (if 5 \<le> t \<and> d_deleted d = CHR ''N'' then d_asset_id d else None)"
      "map (\<lambda>d. (d_id d, d_asset_id d)) (db_devices db') = [(1, Some 7)]"
    by (cases "upgrade_devices 5 ?db") (auto simp: idle_device_def)
  have "map d_deleted (db_devices db') = [CHR ''N'']"
    using up by (auto simp: upgrade_devices_def res_simps Let_def idle_device_def)
  with h(3) obtain z where z: "db_devices db' = [z]" "d_id z = 1" "d_asset_id z = Some 7" "d_deleted z = CHR ''N''"
    by (auto simp: map_eq_Cons_conv)
  have "asset_at db' 1 t = (if 5 \<le> t then Some 7 else None)" for t
    using h(2) z by (metis list.set_intros(1))
  with h(1) up show ?thesis by simp
qed

end
