(* ===== verification/Service_Migrations.thy ===== *)
theory Service_Migrations
  imports Access_Control Schema_Migrations
begin

text \<open>
  The migrations that grant services to the default role,
  \<open>alembic/versions/2026_06_16_1300_a7f43b6d9211_add_asset_group_rbac_services.py\<close> and
  \<open>alembic/versions/2026_09_02_1200_d2a4f6c8e0b1_add_asset_rbac_service.py\<close>, with their
  downgrades.  A lookup is a comprehension over the relations of \<open>Access_Control\<close>.
\<close>

subsection \<open>Services of the default role\<close>

definition DEFAULT_ROLE_ID :: nat where "DEFAULT_ROLE_ID = 1"

definition GROUP_SERVICE_NAMES :: "string list" where
  "GROUP_SERVICE_NAMES = [''asset-group:create'', ''asset-group:get my asset groups'', ''asset-group:get'', ''asset-group:update'',
     ''asset-group:update activation'', ''asset-group:add members'', ''asset-group:remove members'',
     ''geofence:assign asset group'', ''geofence:remove asset group'']"

definition ASSET_SERVICE_NAME :: string where "ASSET_SERVICE_NAME = ''asset:get my assets''"

text \<open>\<open>UPDATE ... SET ... WHERE ...\<close>.\<close>

definition update_where :: "('r \<Rightarrow> bool) \<Rightarrow> ('r \<Rightarrow> 'r) \<Rightarrow> 'r list \<Rightarrow> 'r list" where
  "update_where P f rows = map (\<lambda>r. if P r then f r else r) rows"

lemma map_update_where [simp]: "(\<And>r. k (f r) = k r) \<Longrightarrow> map k (update_where P f rows) = map k rows"
  by (induction rows) (auto simp: update_where_def)

lemma set_update_where: "x \<in> set (update_where P f rows) \<longleftrightarrow> (\<exists>r \<in> set rows. x = (if P r then f r else r))"
  by (auto simp: update_where_def)

text \<open>\<open>INSERT ... ON CONFLICT ... DO UPDATE SET deleted = 'N'\<close>: a service, and its link with the role.\<close>

definition upsert_service :: "string \<Rightarrow> accounts \<Rightarrow> accounts" where
  "upsert_service name acc = acc\<lparr>acc_services :=
     (if name \<in> sv_name ` set (acc_services acc)
      then update_where (\<lambda>s. sv_name s = name) (\<lambda>s. s\<lparr>sv_deleted := CHR ''N''\<rparr>) (acc_services acc)
      else acc_services acc @ [\<lparr>sv_id = fresh sv_id (acc_services acc), sv_name = name, sv_deleted = CHR ''N''\<rparr>])\<rparr>"

definition upsert_link :: "nat \<Rightarrow> nat \<Rightarrow> service_role list \<Rightarrow> service_role list" where
  "upsert_link role_id service_id rows =
     (if list_ex (\<lambda>x. sr_service_id x = service_id \<and> sr_role_id x = role_id) rows
      then update_where (\<lambda>x. sr_service_id x = service_id \<and> sr_role_id x = role_id) (\<lambda>x. x\<lparr>sr_deleted := CHR ''N''\<rparr>) rows
      else rows @ [\<lparr>sr_id = fresh sr_id rows, sr_service_id = service_id, sr_role_id = role_id, sr_deleted = CHR ''N''\<rparr>])"

definition link_default_role :: "string \<Rightarrow> accounts \<Rightarrow> accounts" where
  "link_default_role name acc = acc\<lparr>acc_service_roles :=
     fold (\<lambda>s. upsert_link DEFAULT_ROLE_ID (sv_id s)) (filter (\<lambda>s. sv_name s = name) (acc_services acc)) (acc_service_roles acc)\<rparr>"

text \<open>The foreign key of the links needs the default role.\<close>

definition grant_services :: "string list \<Rightarrow> accounts \<Rightarrow> (migration_error, accounts) res" where
  "grant_services names acc =
     (if names \<noteq> [] \<and> DEFAULT_ROLE_ID \<notin> r_id ` set (acc_roles acc)
      then Inl (Migration_Db (Integrity_Error ''service_roles_role_id_fkey''))
      else Inr (fold link_default_role names (fold upsert_service names acc)))"

definition withdraw_service :: "string \<Rightarrow> accounts \<Rightarrow> accounts" where
  "withdraw_service name acc =
     (let ids = sv_id ` set (filter (\<lambda>s. sv_name s = name) (acc_services acc))
      in acc\<lparr>acc_service_roles := update_where (\<lambda>x. sr_role_id x = DEFAULT_ROLE_ID \<and> sr_service_id x \<in> ids)
             (\<lambda>x. x\<lparr>sr_deleted := CHR ''Y''\<rparr>) (acc_service_roles acc),
           acc_services := update_where (\<lambda>s. sv_name s = name) (\<lambda>s. s\<lparr>sv_deleted := CHR ''Y''\<rparr>) (acc_services acc)\<rparr>)"

definition withdraw_services :: "string list \<Rightarrow> accounts \<Rightarrow> accounts" where
  "withdraw_services names acc = fold withdraw_service names acc"

subsection \<open>Granting and withdrawing services\<close>

definition all_services :: "accounts \<Rightarrow> (nat \<times> string) set" where
  "all_services acc = (\<lambda>s. (sv_id s, sv_name s)) ` set (acc_services acc)"

lemma in_all_services: "(i, n) \<in> all_services acc \<longleftrightarrow> (\<exists>x \<in> set (acc_services acc). sv_id x = i \<and> sv_name x = n)"
  by (auto simp: all_services_def)

lemma in_service_names:
  "(i, n) \<in> service_names acc \<longleftrightarrow> (\<exists>x \<in> set (acc_services acc). sv_deleted x = CHR ''N'' \<and> sv_id x = i \<and> sv_name x = n)"
  by (auto simp: service_names_def)

lemma in_linked:
  "(r, i) \<in> linked acc \<longleftrightarrow> (\<exists>x \<in> set (acc_service_roles acc). sr_deleted x = CHR ''N'' \<and> sr_role_id x = r \<and> sr_service_id x = i)"
  by (auto simp: linked_def)

lemma in_live:
  "(r, i) \<in> service_links.live rows \<longleftrightarrow> (\<exists>x \<in> set rows. sr_deleted x = CHR ''N'' \<and> sr_role_id x = r \<and> sr_service_id x = i)"
  by (auto simp: service_links.live_def)

lemma bex_update_where:
  "(\<exists>x \<in> set (update_where P f rows). Q x) \<longleftrightarrow> (\<exists>r \<in> set rows. P r \<and> Q (f r)) \<or> (\<exists>r \<in> set rows. \<not> P r \<and> Q r)"
  by (force simp: update_where_def)

text \<open>An update on the rows that meet a condition, as a change of the live pairs.\<close>

lemma upsert_service_spec:
  assumes "rbac_ok acc"
  shows "rbac_ok (upsert_service n acc)" "has_role (upsert_service n acc) = has_role acc" "linked (upsert_service n acc) = linked acc"
    "service_names acc \<subseteq> service_names (upsert_service n acc)" "\<exists>i. (i, n) \<in> service_names (upsert_service n acc)"
    "(i, m) \<in> service_names (upsert_service n acc) \<Longrightarrow> m \<noteq> n \<Longrightarrow> (i, m) \<in> service_names acc"
proof -
  let ?ss = "acc_services acc"
  have "distinct (map sv_id (?ss @ [\<lparr>sv_id = fresh sv_id ?ss, sv_name = n, sv_deleted = CHR ''N''\<rparr>]))"
    by (rule distinct_append_fresh) (use assms in \<open>simp_all add: rbac_ok_def\<close>)
  then show "rbac_ok (upsert_service n acc)" using assms by (simp add: rbac_ok_def upsert_service_def)
  have mem: "(i, m) \<in> service_names (upsert_service n acc) \<longleftrightarrow> (if n \<in> sv_name ` set ?ss
      then \<exists>x \<in> set ?ss. (sv_name x = n \<or> sv_deleted x = CHR ''N'') \<and> sv_id x = i \<and> sv_name x = m
      else (i, m) \<in> service_names acc \<or> i = fresh sv_id ?ss \<and> m = n)" for i m
    unfolding in_service_names upsert_service_def by (auto simp: bex_update_where)
  show "service_names acc \<subseteq> service_names (upsert_service n acc)"
    by (rule subrelI) (unfold mem, auto simp: in_service_names)
  show "\<exists>i. (i, n) \<in> service_names (upsert_service n acc)"
    by (auto simp: mem)
  show "(i, m) \<in> service_names (upsert_service n acc) \<Longrightarrow> m \<noteq> n \<Longrightarrow> (i, m) \<in> service_names acc"
    unfolding mem by (auto simp: in_service_names split: if_splits)
qed (simp_all add: has_role_def linked_def upsert_service_def)

lemma upsert_services_spec:
  assumes "rbac_ok acc"
  shows "rbac_ok (fold upsert_service ns acc) \<and> has_role (fold upsert_service ns acc) = has_role acc \<and>
    linked (fold upsert_service ns acc) = linked acc \<and> service_names acc \<subseteq> service_names (fold upsert_service ns acc) \<and>
    (\<forall>n \<in> set ns. \<exists>i. (i, n) \<in> service_names (fold upsert_service ns acc)) \<and>
    (\<forall>i m. (i, m) \<in> service_names (fold upsert_service ns acc) \<and> m \<notin> set ns \<longrightarrow> (i, m) \<in> service_names acc)"
  using assms
proof (induction ns arbitrary: acc)
  case Nil
  then show ?case by simp
next
  case (Cons n ns)
  note one = upsert_service_spec [OF Cons.prems, where n = n]
  note rest = Cons.IH [OF one(1)]
  have "\<exists>i. (i, m) \<in> service_names (fold upsert_service (n # ns) acc)" if "m \<in> set (n # ns)" for m
    using that one(5) rest by auto
  moreover have "(i, m) \<in> service_names acc" if "(i, m) \<in> service_names (fold upsert_service (n # ns) acc)" "m \<notin> set (n # ns)" for i m
  proof -
    have "(i, m) \<in> service_names (upsert_service n acc)" using rest that by simp
    with one(6) that(2) show ?thesis by simp
  qed
  ultimately show ?case using rest one(2-4) by (intro conjI ballI allI impI) (simp_all, blast)
qed

lemma upsert_link_spec:
  assumes "distinct (map sr_id rows)" "distinct (map (\<lambda>x. (sr_role_id x, sr_service_id x)) rows)"
  shows "distinct (map sr_id (upsert_link r s rows))" "distinct (map (\<lambda>x. (sr_role_id x, sr_service_id x)) (upsert_link r s rows))"
    "service_links.live (upsert_link r s rows) = insert (r, s) (service_links.live rows)"
proof -
  have "distinct (map sr_id (rows @ [\<lparr>sr_id = fresh sr_id rows, sr_service_id = s, sr_role_id = r, sr_deleted = CHR ''N''\<rparr>]))"
    by (rule distinct_append_fresh [OF assms(1)]) simp
  then show "distinct (map sr_id (upsert_link r s rows))" "distinct (map (\<lambda>x. (sr_role_id x, sr_service_id x)) (upsert_link r s rows))"
    using assms by (auto simp: upsert_link_def list_ex_iff)
  show "service_links.live (upsert_link r s rows) = insert (r, s) (service_links.live rows)"
  proof (rule set_eqI)
    fix p :: "nat \<times> nat"
    obtain q i where p: "p = (q, i)" by (cases p)
    show "p \<in> service_links.live (upsert_link r s rows) \<longleftrightarrow> p \<in> insert (r, s) (service_links.live rows)"
    proof (cases "list_ex (\<lambda>x. sr_service_id x = s \<and> sr_role_id x = r) rows")
      case True
      then obtain x where "x \<in> set rows" "sr_service_id x = s" "sr_role_id x = r" by (auto simp: list_ex_iff)
      then show ?thesis unfolding p insert_iff in_live upsert_link_def if_P [OF True] bex_update_where by auto
    next
      case False
      then show ?thesis unfolding p insert_iff in_live upsert_link_def by auto
    qed
  qed
qed

lemma link_default_spec:
  assumes "rbac_ok acc"
  shows "rbac_ok (link_default_role n acc)" "has_role (link_default_role n acc) = has_role acc"
    "acc_services (link_default_role n acc) = acc_services acc"
    "linked (link_default_role n acc) = linked acc \<union> {(DEFAULT_ROLE_ID, i) | i. (i, n) \<in> all_services acc}"
proof -
  have links: "distinct (map sr_id (fold (\<lambda>s. upsert_link r (sv_id s)) ss rows)) \<and>
      distinct (map (\<lambda>x. (sr_role_id x, sr_service_id x)) (fold (\<lambda>s. upsert_link r (sv_id s)) ss rows)) \<and>
      service_links.live (fold (\<lambda>s. upsert_link r (sv_id s)) ss rows) = service_links.live rows \<union> Pair r ` sv_id ` set ss"
    if "distinct (map sr_id rows)" "distinct (map (\<lambda>x. (sr_role_id x, sr_service_id x)) rows)" for r and ss :: "service list" and rows
    using that
  proof (induction ss arbitrary: rows)
    case (Cons s ss)
    from Cons.IH [OF upsert_link_spec(1,2) [OF Cons.prems]] upsert_link_spec(3) [OF Cons.prems] show ?case by simp
  qed simp
  have d: "distinct (map sr_id (acc_service_roles acc))" "distinct (map (\<lambda>x. (sr_role_id x, sr_service_id x)) (acc_service_roles acc))"
    using assms by (simp_all add: rbac_ok_def)
  from links [OF d, of DEFAULT_ROLE_ID "filter (\<lambda>s. sv_name s = n) (acc_services acc)"] show "rbac_ok (link_default_role n acc)"
    using assms by (simp add: rbac_ok_def link_default_role_def)
  have "Pair r ` sv_id ` set (filter (\<lambda>s. sv_name s = n) (acc_services acc)) = {(r, i) | i. (i, n) \<in> all_services acc}" for r :: nat
    by (force simp: in_all_services)
  with links [OF d, of DEFAULT_ROLE_ID "filter (\<lambda>s. sv_name s = n) (acc_services acc)"]
  show "linked (link_default_role n acc) = linked acc \<union> {(DEFAULT_ROLE_ID, i) | i. (i, n) \<in> all_services acc}"
    by (simp add: linked_def service_links.live_def link_default_role_def)
qed (simp_all add: has_role_def link_default_role_def)

lemma link_services_spec:
  assumes "rbac_ok acc"
  shows "rbac_ok (fold link_default_role ns acc) \<and> has_role (fold link_default_role ns acc) = has_role acc \<and>
    acc_services (fold link_default_role ns acc) = acc_services acc \<and>
    linked (fold link_default_role ns acc) = linked acc \<union> {(DEFAULT_ROLE_ID, i) | i n. n \<in> set ns \<and> (i, n) \<in> all_services acc}"
  using assms
proof (induction ns arbitrary: acc)
  case Nil
  then show ?case by simp
next
  case (Cons n ns)
  note one = link_default_spec [OF Cons.prems, where n = n]
  from Cons.IH [OF one(1)] have *: "rbac_ok (fold link_default_role (n # ns) acc)" "has_role (fold link_default_role (n # ns) acc) = has_role acc"
    "acc_services (fold link_default_role (n # ns) acc) = acc_services acc"
    "linked (fold link_default_role (n # ns) acc) = linked (link_default_role n acc) \<union>
       {(DEFAULT_ROLE_ID, i) | i n. n \<in> set ns \<and> (i, n) \<in> all_services acc}"
    by (simp_all add: one(2,3) all_services_def)
  from * show ?case unfolding one(4) by (intro conjI) (simp_all, blast)
qed

lemma withdraw_spec:
  shows "has_role (withdraw_service n acc) = has_role acc" "service_names (withdraw_service n acc) = {(i, m) \<in> service_names acc. m \<noteq> n}"
    "linked (withdraw_service n acc) = {(r, i) \<in> linked acc. \<not> (r = DEFAULT_ROLE_ID \<and> (i, n) \<in> all_services acc)}"
    "all_services (withdraw_service n acc) = all_services acc"
proof -
  show "service_names (withdraw_service n acc) = {(i, m) \<in> service_names acc. m \<noteq> n}"
    by (rule set_eqI) (auto simp: in_service_names withdraw_service_def Let_def bex_update_where split: if_splits)
  show "linked (withdraw_service n acc) = {(r, i) \<in> linked acc. \<not> (r = DEFAULT_ROLE_ID \<and> (i, n) \<in> all_services acc)}"
    by (rule set_eqI) (fastforce simp: in_linked in_all_services withdraw_service_def Let_def bex_update_where)
  have "map (\<lambda>s. (sv_id s, sv_name s)) (acc_services (withdraw_service n acc)) = map (\<lambda>s. (sv_id s, sv_name s)) (acc_services acc)"
    by (simp add: withdraw_service_def Let_def)
  then show "all_services (withdraw_service n acc) = all_services acc" unfolding all_services_def by (metis list.set_map)
qed (simp add: has_role_def withdraw_service_def Let_def)

lemma service_id_name:
  assumes "rbac_ok acc" "(i, n) \<in> all_services acc" "(i, m) \<in> all_services acc"
  shows "n = m"
proof -
  obtain x y where "x \<in> set (acc_services acc)" "y \<in> set (acc_services acc)" "sv_id x = i" "sv_id y = i" "sv_name x = n" "sv_name y = m"
    using assms(2,3) unfolding in_all_services by blast
  then show ?thesis using assms(1) same_key_same_row [of sv_id "acc_services acc" x y] by (simp add: rbac_ok_def)
qed

lemma service_names_all: "(i, n) \<in> service_names acc \<Longrightarrow> (i, n) \<in> all_services acc"
  unfolding in_service_names in_all_services by blast

lemma withdraw_may_use:
  assumes "rbac_ok acc"
  shows "(u, m) \<in> may_use (withdraw_service n acc) \<longleftrightarrow> m \<noteq> n \<and> (u, m) \<in> may_use acc"
proof -
  have "\<not> (i, n) \<in> all_services acc" if "(i, m) \<in> service_names acc" "m \<noteq> n" for i
    using service_id_name [OF assms _ service_names_all [OF that(1)], of n] that(2) by auto
  then show ?thesis
    unfolding may_use_def relcomp_unfold withdraw_spec by blast
qed

lemma withdraw_keeps_ok: "rbac_ok acc \<Longrightarrow> rbac_ok (withdraw_service n acc)"
  by (simp add: rbac_ok_def withdraw_service_def Let_def)

text \<open>
  Granting gives the holders of the default role exactly the named services on top of what they
  could use, and nobody anything under another name; withdrawing afterwards takes the named
  services from everybody and nothing else.
\<close>

lemma granted_services:
  assumes ok: "rbac_ok acc" and "grant_services ns acc = Inr acc'"
  shows "rbac_ok acc'" "has_role acc' = has_role acc"
    "n \<in> set ns \<Longrightarrow> (u, DEFAULT_ROLE_ID) \<in> has_role acc \<Longrightarrow> (u, n) \<in> may_use acc'"
    "m \<notin> set ns \<Longrightarrow> (u, m) \<in> may_use acc' \<longleftrightarrow> (u, m) \<in> may_use acc"
    "(u, m) \<in> may_use (withdraw_services ns acc') \<longleftrightarrow> m \<notin> set ns \<and> (u, m) \<in> may_use acc"
proof -
  let ?acc1 = "fold upsert_service ns acc"
  have acc': "acc' = fold link_default_role ns ?acc1"
    using assms(2) by (auto simp: grant_services_def split: if_splits)
  have ok1: "rbac_ok ?acc1" and up_roles: "has_role ?acc1 = has_role acc" and up_linked: "linked ?acc1 = linked acc"
    and up_names: "service_names acc \<subseteq> service_names ?acc1" "\<And>n. n \<in> set ns \<Longrightarrow> \<exists>i. (i, n) \<in> service_names ?acc1"
      "\<And>i m. (i, m) \<in> service_names ?acc1 \<Longrightarrow> m \<notin> set ns \<Longrightarrow> (i, m) \<in> service_names acc"
    using upsert_services_spec [OF ok, of ns] by simp_all
  note ln = link_services_spec [OF ok1, of ns]
  have lk: "linked acc' = linked ?acc1 \<union> {(DEFAULT_ROLE_ID, i) | i n. n \<in> set ns \<and> (i, n) \<in> all_services ?acc1}"
    using ln unfolding acc' by (elim conjE)
  show ok': "rbac_ok acc'" and roles: "has_role acc' = has_role acc" using up_roles ln by (simp_all add: acc')
  have names: "service_names acc' = service_names ?acc1" using ln by (simp add: acc' service_names_def)
  show "(u, n) \<in> may_use acc'" if n: "n \<in> set ns" and u: "(u, DEFAULT_ROLE_ID) \<in> has_role acc"
  proof -
    obtain i where i: "(i, n) \<in> service_names ?acc1" using up_names(2) [OF n] by blast
    then have "(DEFAULT_ROLE_ID, i) \<in> linked acc'" unfolding lk using n service_names_all [OF i] by blast
    with i u show ?thesis unfolding may_use_def relcomp_unfold roles names by blast
  qed
  show other: "(u, m) \<in> may_use acc' \<longleftrightarrow> (u, m) \<in> may_use acc" if "m \<notin> set ns" for u m
  proof -
    have sn: "(i, m) \<in> service_names ?acc1 \<longleftrightarrow> (i, m) \<in> service_names acc" for i using up_names(1,3) that by blast
    have "(r, i) \<in> linked acc' \<longleftrightarrow> (r, i) \<in> linked acc" if "(i, m) \<in> service_names ?acc1" for r i
      unfolding lk up_linked using service_id_name [OF ok1 _ service_names_all [OF that]] \<open>m \<notin> set ns\<close> by blast
    then show ?thesis unfolding may_use_def relcomp_unfold roles names using sn by auto
  qed
  have withdrawn: "(u, m) \<in> may_use (fold withdraw_service ns a) \<longleftrightarrow> m \<notin> set ns \<and> (u, m) \<in> may_use a" if "rbac_ok a" for a
    using that
  proof (induction ns arbitrary: a)
    case (Cons n ns)
    from Cons.IH [OF withdraw_keeps_ok [OF Cons.prems]] withdraw_may_use [OF Cons.prems] show ?case by auto
  qed simp
  show "(u, m) \<in> may_use (withdraw_services ns acc') \<longleftrightarrow> m \<notin> set ns \<and> (u, m) \<in> may_use acc"
    by (cases "m \<in> set ns") (simp_all add: withdraw_services_def withdrawn [OF ok'] other)
qed

end
