(* ===== verification/Bucket_Loop.thy ===== *)
theory Bucket_Loop
  imports Temporal_Bucketing "HOL-Library.While_Combinator"
begin

text \<open>
  The \<open>while\<close> loop of \<open>src/application/analytics/temporal_bucketing.py\<close> as a loop: no guard makes it
  end, as one does in the recursion \<open>fill_buckets\<close> of \<open>Temporal_Bucketing\<close>.  For the bucket
  lengths the validation lets through it ends, with what the recursion computes, and within the
  number of buckets the span touches.
\<close>

definition bucket_step :: "int \<Rightarrow> int \<Rightarrow> int \<times> bucket_totals \<Rightarrow> int \<times> bucket_totals" where
  "bucket_step bucket_seconds clipped_end = (\<lambda>(current_start, totals).
     let bucket_start = floor_bucket_start current_start bucket_seconds;
         bucket_end = bucket_start + bucket_seconds * 1000000;
         segment_end = min bucket_end clipped_end;
         segment_seconds = total_seconds (segment_end - current_start)
     in (segment_end, add_total bucket_start segment_seconds totals))"

definition bucket_loop :: "int \<Rightarrow> int \<Rightarrow> int \<Rightarrow> bucket_totals \<Rightarrow> (int \<times> bucket_totals) option" where
  "bucket_loop bucket_seconds clipped_start clipped_end totals =
     while_option (\<lambda>(current_start, _). current_start < clipped_end) (bucket_step bucket_seconds clipped_end) (clipped_start, totals)"

lemma bucket_loop_unfold:
  "bucket_loop b s e totals = (if s < e then bucket_loop b (fst (bucket_step b e (s, totals))) e (snd (bucket_step b e (s, totals)))
     else Some (s, totals))"
  unfolding bucket_loop_def by (subst while_option_unfold) simp

lemma floor_of_aligned: "floor_bucket_start (floor_bucket_start t b + b * 1000000) b = floor_bucket_start t b + b * 1000000"
  by (cases "b = 0") (simp_all add: floor_bucket_start_def Let_def algebra_simps)

text \<open>\<open>k\<close> runs of the body, in each of which the condition of the loop held.\<close>

definition runs :: "int \<Rightarrow> int \<Rightarrow> nat \<Rightarrow> int \<times> bucket_totals \<Rightarrow> int \<times> bucket_totals \<Rightarrow> bool" where
  "runs b e k x y \<longleftrightarrow> y = (bucket_step b e ^^ k) x \<and> (\<forall>j < k. fst ((bucket_step b e ^^ j) x) < e)"

lemma runs_Suc: "fst x < e \<Longrightarrow> runs b e k (bucket_step b e x) y \<Longrightarrow> runs b e (Suc k) x y"
  by (auto simp: runs_def funpow_swap1 less_Suc_eq_0_disj)

lemma loop_spec:
  assumes "0 < b"
  shows "bucket_loop b s e totals = Some (max s e, fill_buckets b s e totals) \<and>
    (\<exists>k. runs b e k (s, totals) (max s e, fill_buckets b s e totals) \<and>
      (if s < e then int k * (b * 1000000) < e - floor_bucket_start s b + b * 1000000 else k = 0))"
  using assms
proof (induction b s e totals rule: fill_buckets.induct)
  case (1 b s e totals)
  show ?case
  proof (cases "s < e")
    case False
    then show ?thesis
      by (auto simp: bucket_loop_unfold [of b s] fill_buckets.simps [of b s] runs_def)
  next
    case True
    define fl where "fl = floor_bucket_start s b"
    define se where "se = min (fl + b * 1000000) e"
    define totals' where "totals' = add_total fl (total_seconds (se - s)) totals"
    note bounds = floor_bucket_start_bounds [OF 1(2), of s, folded fl_def]
    have step: "bucket_step b e (s, totals) = (se, totals')"
      by (simp add: bucket_step_def Let_def fl_def se_def totals'_def)
    have fill: "fill_buckets b s e totals = fill_buckets b se e totals'"
      using True 1(2) by (simp add: fill_buckets.simps [of b s] Let_def fl_def se_def totals'_def)
    have se: "s < se" "se \<le> e" using bounds True by (auto simp: se_def)
    have IH: "bucket_loop b se e totals' = Some (max se e, fill_buckets b se e totals') \<and>
        (\<exists>k. runs b e k (se, totals') (max se e, fill_buckets b se e totals') \<and>
          (if se < e then int k * (b * 1000000) < e - floor_bucket_start se b + b * 1000000 else k = 0))"
      using 1(1) [of fl se] True 1(2) by (simp add: fl_def se_def totals'_def Let_def)
    then obtain k where k: "runs b e k (se, totals') (max se e, fill_buckets b se e totals')"
      "if se < e then int k * (b * 1000000) < e - floor_bucket_start se b + b * 1000000 else k = 0" by blast
    have "runs b e (Suc k) (s, totals) (max s e, fill_buckets b s e totals)"
      using k(1) True se by (intro runs_Suc) (simp_all add: step fill max_def)
    moreover have "int (Suc k) * (b * 1000000) < e - fl + b * 1000000"
    proof (cases "se < e")
      case True
      then have "se = fl + b * 1000000" by (auto simp: se_def)
      then have "floor_bucket_start se b = fl + b * 1000000" using floor_of_aligned [of s b] by (simp add: fl_def)
      with k(2) True show ?thesis by (simp add: algebra_simps)
    next
      case False
      with k(2) have "k = 0" by simp
      with bounds \<open>s < e\<close> show ?thesis by simp
    qed
    moreover have "bucket_loop b s e totals = Some (max s e, fill_buckets b s e totals)"
      using IH True se by (simp add: bucket_loop_unfold [of b s] step fill max_def)
    ultimately show ?thesis using True by (intro conjI exI [of _ "Suc k"]) (simp_all add: fl_def)
  qed
qed

text \<open>
  Property C35. The bucketing loop ends: with the arguments the validation accepts, the loop over one
  clipped span stops, after no more passes than buckets the span touches, and the totals are
  those the recursive definition gives.
\<close>
theorem bucket_loop_terminates:
  assumes "validate_bucket_seconds (PyInt b) = Inr ()" "s < e"
  shows "bucket_loop b s e totals = Some (e, fill_buckets b s e totals) \<and>
    (\<exists>k. runs b e k (s, totals) (e, fill_buckets b s e totals) \<and>
       int k \<le> (e - 1 - floor_bucket_start s b) div (b * 1000000) + 1)"
proof -
  have b: "0 < b" using assms(1) by (auto simp: validate_bucket_seconds_def res_simps split: if_splits)
  obtain k where k: "runs b e k (s, totals) (e, fill_buckets b s e totals)"
    "int k * (b * 1000000) < e - floor_bucket_start s b + b * 1000000"
    using loop_spec [OF b, of s e totals] assms(2) by auto
  have "(int k - 1) * (b * 1000000) \<le> e - 1 - floor_bucket_start s b"
    using k(2) by (simp add: algebra_simps)
  then have "(int k - 1) * (b * 1000000) div (b * 1000000) \<le> (e - 1 - floor_bucket_start s b) div (b * 1000000)"
    using b by (intro zdiv_mono1) simp_all
  then have "int k - 1 \<le> (e - 1 - floor_bucket_start s b) div (b * 1000000)"
    using b nonzero_mult_div_cancel_right [of "b * 1000000" "int k - 1"] by simp
  with k loop_spec [OF b, of s e totals] assms(2) show ?thesis by auto
qed

theorem bucket_loop_terminates_witness:
  "bucket_loop 60 30000000 150000000 [] = Some (150000000, fill_buckets 60 30000000 150000000 [])"
proof -
  have "validate_bucket_seconds (PyInt 60) = Inr ()" by code_simp
  from bucket_loop_terminates [OF this, of 30000000 150000000 "[]"] show ?thesis by simp
qed

end
