(* ===== verification/App_Settings.thy ===== *)
theory App_Settings
  imports Py_Text
begin

text \<open>
  The settings, \<open>src/settings.py\<close>: where the value of a field comes from - the constructor, the
  environment, a mounted secret, the \<open>.env\<close> file - and the properties derived from the fields.
  The file system and \<open>os.environ\<close> are arguments; the conversion of a text to the type of its
  field is pydantic's.
\<close>

subsection \<open>Sources of values\<close>

text \<open>\<open>s.strip(cs)\<close> and \<open>s.splitlines()\<close>.\<close>

definition strip_chars :: "string \<Rightarrow> string \<Rightarrow> string" where
  "strip_chars cs s = rev (dropWhile (\<lambda>c. c \<in> set cs) (rev (dropWhile (\<lambda>c. c \<in> set cs) s)))"

definition line_break :: "char \<Rightarrow> bool" where
  "line_break c \<longleftrightarrow> (of_char c :: nat) \<in> {10, 11, 12, 13, 28, 29, 30, 133}"

fun splitlines_from :: "string \<Rightarrow> string \<Rightarrow> string list" where
  "splitlines_from line [] = (if line = [] then [] else [line])"
| "splitlines_from line (c # s) =
     (if c = CHR 0x0D \<and> take 1 s = [CHR 0x0A] then line # splitlines_from [] (tl s)
      else if line_break c then line # splitlines_from [] s
      else splitlines_from (line @ [c]) s)"

definition splitlines :: "string \<Rightarrow> string list" where
  "splitlines s = splitlines_from [] s"

definition quotes :: string where "quotes = [CHR 0x22, CHR 0x27]"

definition clean_env_value :: "string \<Rightarrow> string" where
  "clean_env_value value =
     (let cleaned = py_strip value;
          cleaned' = (if take 1 cleaned = ''='' then py_strip (tl cleaned) else cleaned)
      in strip_chars quotes cleaned')"

definition env_entry :: "string \<Rightarrow> (string \<times> string) option" where
  "env_entry raw_line =
     (let line = py_strip raw_line
      in if line = [] \<or> take 1 line = ''#'' \<or> CHR ''='' \<notin> set line then None
         else Some (py_lower (py_strip (takeWhile (\<lambda>c. c \<noteq> CHR ''='') line)),
                    clean_env_value (tl (dropWhile (\<lambda>c. c \<noteq> CHR ''='') line))))"

definition read_env_file :: "string option \<Rightarrow> string \<rightharpoonup> string" where
  "read_env_file text = (case text of None \<Rightarrow> Map.empty
     | Some t \<Rightarrow> map_of (rev (List.map_filter env_entry (splitlines t))))"

text \<open>The entries of the directory, with the text of those that are files.\<close>

definition read_secrets_dir :: "(string \<times> string option) list option \<Rightarrow> string \<rightharpoonup> string" where
  "read_secrets_dir entries = (case entries of None \<Rightarrow> Map.empty
     | Some es \<Rightarrow> map_of (rev (List.map_filter (\<lambda>(name, text). map_option (\<lambda>t. (py_lower name, py_strip t)) text) es)))"

definition read_env_value :: "(string \<rightharpoonup> string) \<Rightarrow> string \<Rightarrow> string option" where
  "read_env_value environ field_name =
     (case environ field_name of
        Some v \<Rightarrow> Some (clean_env_value v)
      | None \<Rightarrow> map_option clean_env_value (environ (py_upper field_name)))"

text \<open>The keyword arguments of \<open>BaseModel.__init__\<close>.\<close>

definition settings_values ::
  "string list \<Rightarrow> string option \<Rightarrow> (string \<times> string option) list option \<Rightarrow> (string \<rightharpoonup> string) \<Rightarrow> (string \<rightharpoonup> py_value)
   \<Rightarrow> string \<rightharpoonup> py_value" where
  "settings_values model_fields env_file secrets_dir environ data =
     (let values = map_option PvStr \<circ> (read_env_file env_file ++ read_secrets_dir secrets_dir);
          values' = fold (\<lambda>f values. case read_env_value environ f of None \<Rightarrow> values | Some v \<Rightarrow> values(f \<mapsto> PvStr v))
            model_fields values
      in values' ++ data)"

subsection \<open>The settings\<close>

definition SETTINGS_FIELDS :: "string list" where
  "SETTINGS_FIELDS = [''db_connection_url'', ''database_url'', ''db_schema_name'', ''redis_url'', ''mqtt_host'', ''mqtt_port'',
     ''mqtt_username'', ''mqtt_password'', ''mqtt_tls_enabled'', ''chirpstack_mqtt_host'', ''chirpstack_mqtt_port'',
     ''chirpstack_mqtt_username'', ''chirpstack_mqtt_password'', ''chirpstack_mqtt_use_tls'', ''chirpstack_mqtt_topic_filter'',
     ''chirpstack_api_host'', ''chirpstack_api_port'', ''chirpstack_api_token'', ''chirpstack_api_use_tls'',
     ''chirpstack_api_timeout_seconds'', ''command_default_expires_seconds'', ''jwt_secret_key'', ''jwt_algorithm'',
     ''jwt_access_token_expire_minutes'', ''jwt_refresh_token_expire_days'', ''environment'', ''cors_allowed_origins'',
     ''refresh_token_cookie_secure'', ''refresh_token_cookie_samesite'', ''refresh_token_cookie_path'',
     ''refresh_token_reuse_grace_seconds'', ''user_session_max_active_sessions'', ''user_session_cleanup_retention_days'',
     ''user_session_cleanup_interval_hours'', ''websocket_ticket_ttl_seconds'']"

definition validate_refresh_token_cookie_secure :: "py_value \<Rightarrow> py_value" where
  "validate_refresh_token_cookie_secure value =
     (case value of
        PvStr s \<Rightarrow> (let normalized = py_lower (strip_chars quotes (py_strip s))
          in if normalized \<in> {'''', ''none'', ''null'', ''bool | none = none''} then PvNone else value)
      | _ \<Rightarrow> value)"

text \<open>The fields after pydantic's conversion, and the defaults; the two without one are required.\<close>

record settings =
  st_db_connection_url :: "string option"
  st_database_url :: "string option"
  st_db_schema_name :: string
  st_redis_url :: string
  st_mqtt_host :: string
  st_mqtt_port :: int
  st_mqtt_username :: string
  st_mqtt_password :: string
  st_mqtt_tls_enabled :: bool
  st_chirpstack_mqtt_host :: "string option"
  st_chirpstack_mqtt_port :: "int option"
  st_chirpstack_mqtt_username :: "string option"
  st_chirpstack_mqtt_password :: "string option"
  st_chirpstack_mqtt_use_tls :: "bool option"
  st_chirpstack_mqtt_topic_filter :: string
  st_chirpstack_api_host :: string
  st_chirpstack_api_port :: int
  st_chirpstack_api_token :: "string option"
  st_chirpstack_api_use_tls :: bool
  st_chirpstack_api_timeout_seconds :: int
  st_command_default_expires_seconds :: int
  st_jwt_secret_key :: "string option"
  st_jwt_algorithm :: "string option"
  st_jwt_access_token_expire_minutes :: int
  st_jwt_refresh_token_expire_days :: int
  st_environment :: string
  st_cors_allowed_origins :: string
  st_refresh_token_cookie_secure :: "bool option"
  st_refresh_token_cookie_samesite :: string
  st_refresh_token_cookie_path :: string
  st_refresh_token_reuse_grace_seconds :: int
  st_user_session_max_active_sessions :: int
  st_user_session_cleanup_retention_days :: int
  st_user_session_cleanup_interval_hours :: int
  st_websocket_ticket_ttl_seconds :: int

definition default_settings :: "string \<Rightarrow> int \<Rightarrow> settings" where
  "default_settings mqtt_host mqtt_port = \<lparr>st_db_connection_url = None, st_database_url = None, st_db_schema_name = ''public'', st_redis_url =
     ''redis://redis:6379/0'', st_mqtt_host = mqtt_host, st_mqtt_port = mqtt_port, st_mqtt_username =
     ''gps_worker'', st_mqtt_password = ''password'', st_mqtt_tls_enabled = False, st_chirpstack_mqtt_host =
     None, st_chirpstack_mqtt_port = None, st_chirpstack_mqtt_username = None, st_chirpstack_mqtt_password =
     None, st_chirpstack_mqtt_use_tls = None, st_chirpstack_mqtt_topic_filter =
     ''application/+/device/+/event/+'', st_chirpstack_api_host = ''localhost'', st_chirpstack_api_port =
     8080, st_chirpstack_api_token = None, st_chirpstack_api_use_tls = False,
     st_chirpstack_api_timeout_seconds = 10, st_command_default_expires_seconds = 1200, st_jwt_secret_key =
     None, st_jwt_algorithm = None, st_jwt_access_token_expire_minutes = 15, st_jwt_refresh_token_expire_days
     = 30, st_environment = ''development'', st_cors_allowed_origins = ''http://localhost:5173'',
     st_refresh_token_cookie_secure = None, st_refresh_token_cookie_samesite = ''lax'',
     st_refresh_token_cookie_path = ''/user/auth'', st_refresh_token_reuse_grace_seconds = 5,
     st_user_session_max_active_sessions = 5, st_user_session_cleanup_retention_days = 2,
     st_user_session_cleanup_interval_hours = 6, st_websocket_ticket_ttl_seconds = 60\<rparr>"

text \<open>\<open>a or b\<close> for an optional text.\<close>

definition or_text :: "string option \<Rightarrow> string \<Rightarrow> string" where
  "or_text a b = (case a of None \<Rightarrow> b | Some s \<Rightarrow> if s = [] then b else s)"

definition sqlalchemy_database_url :: "settings \<Rightarrow> (string, string) res" where
  "sqlalchemy_database_url s =
     (let database_url = or_text (st_db_connection_url s) (case st_database_url s of None \<Rightarrow> [] | Some u \<Rightarrow> u)
      in if database_url \<noteq> [] then Inr database_url
         else Inl (''Database connection is not configured. Set DB_CONNECTION_URL, '' @
           ''DATABASE_URL, or mount /run/secrets/db_connection_url.''))"

definition chirpstack_event_mqtt_host :: "settings \<Rightarrow> string" where
  "chirpstack_event_mqtt_host s = or_text (st_chirpstack_mqtt_host s) (st_mqtt_host s)"

definition chirpstack_event_mqtt_port :: "settings \<Rightarrow> int" where
  "chirpstack_event_mqtt_port s = (case st_chirpstack_mqtt_port s of None \<Rightarrow> st_mqtt_port s
     | Some p \<Rightarrow> if p = 0 then st_mqtt_port s else p)"

definition chirpstack_event_mqtt_username :: "settings \<Rightarrow> string" where
  "chirpstack_event_mqtt_username s = or_text (st_chirpstack_mqtt_username s) (st_mqtt_username s)"

definition chirpstack_event_mqtt_password :: "settings \<Rightarrow> string" where
  "chirpstack_event_mqtt_password s = or_text (st_chirpstack_mqtt_password s) (st_mqtt_password s)"

definition chirpstack_event_mqtt_tls_enabled :: "settings \<Rightarrow> bool" where
  "chirpstack_event_mqtt_tls_enabled s =
     (case st_chirpstack_mqtt_use_tls s of None \<Rightarrow> st_mqtt_tls_enabled s | Some b \<Rightarrow> b)"

definition cors_allowed_origins_list :: "settings \<Rightarrow> string list" where
  "cors_allowed_origins_list s =
     map py_strip (filter (\<lambda>origin. py_strip origin \<noteq> []) (split_on CHR '','' (st_cors_allowed_origins s)))"

subsection \<open>Reading back what was written\<close>

text \<open>A line \<open>KEY=VALUE\<close> of a \<open>.env\<close> file, the value bare or in quotes.\<close>

type_synonym env_assignment = "string \<times> string \<times> string"

definition env_line :: "env_assignment \<Rightarrow> string" where
  "env_line = (\<lambda>(k, q, v). k @ CHR ''='' # q @ v @ q)"

definition env_file :: "env_assignment list \<Rightarrow> string" where
  "env_file es = concat (map (\<lambda>e. env_line e @ [CHR 0x0A]) es)"

definition writable :: "env_assignment \<Rightarrow> bool" where
  "writable = (\<lambda>(k, q, v). k \<noteq> [] \<and> py_strip k = k \<and> CHR ''='' \<notin> set k \<and> hd k \<noteq> CHR ''#'' \<and>
     \<not> list_ex line_break k \<and> \<not> list_ex line_break v \<and> q \<in> {'''', [CHR 0x22], [CHR 0x27]} \<and>
     (v = [] \<or> hd v \<notin> set quotes \<and> last v \<notin> set quotes) \<and>
     (q = [] \<longrightarrow> py_strip v = v \<and> take 1 v \<noteq> ''=''))"

lemma py_strip_id: "s = [] \<or> \<not> py_isspace (hd s) \<and> \<not> py_isspace (last s) \<Longrightarrow> py_strip s = s"
  by (cases "s = []") (simp_all add: py_strip_def dropWhile_id hd_rev)

lemma stripped_ends:
  assumes "py_strip s = s" "s \<noteq> []"
  shows "\<not> py_isspace (hd s) \<and> \<not> py_isspace (last s)"
proof -
  let ?t = "dropWhile py_isspace s"
  have "length s \<le> length ?t"
    using assms(1) length_dropWhile_le [of py_isspace "rev ?t"] by (simp add: py_strip_def) (metis length_rev)
  then have t: "?t = s" by (metis append_self_conv2 length_append length_dropWhile_le le_antisym list.size(3) add_is_0 takeWhile_dropWhile_id append_Nil length_0_conv add_cancel_left_left)
  then have hd: "\<not> py_isspace (hd s)" using hd_dropWhile [of py_isspace s] assms(2) by metis
  have "rev (dropWhile py_isspace (rev s)) = s" using assms(1) t by (simp add: py_strip_def)
  then have "dropWhile py_isspace (rev s) = rev s" by (metis rev_rev_ident)
  then have "\<not> py_isspace (hd (rev s))" using hd_dropWhile [of py_isspace "rev s"] assms(2) by (metis rev_is_Nil_conv)
  with hd assms(2) show ?thesis by (simp add: hd_rev)
qed

lemma no_space: "\<not> py_isspace CHR ''=''" "\<not> py_isspace CHR 0x22" "\<not> py_isspace CHR 0x27"
  by code_simp+

lemma unquoted:
  assumes "q \<in> {'''', [CHR 0x22], [CHR 0x27]}" "v = [] \<or> hd v \<notin> set quotes \<and> last v \<notin> set quotes"
  shows "strip_chars quotes (q @ v @ q) = v"
proof -
  have q: "\<forall>c \<in> set q. c \<in> set quotes" using assms(1) by (auto simp: quotes_def)
  show ?thesis
  proof (cases "v = []")
    case True
    with assms(1) show ?thesis by (auto simp: strip_chars_def quotes_def)
  next
    case False
    then obtain c w where v: "v = c # w" by (cases v) auto
    have "dropWhile (\<lambda>c. c \<in> set quotes) (q @ v @ q) = v @ q"
      using q assms(2) False by (simp add: dropWhile_append v)
    moreover have "rev v \<noteq> []" "hd (rev v) \<notin> set quotes" using False assms(2) by (simp_all add: hd_rev)
    then have "dropWhile (\<lambda>c. c \<in> set quotes) (rev q @ rev v) = rev v"
      using q by (simp add: dropWhile_append) (cases "rev v", auto)
    ultimately show ?thesis by (simp add: strip_chars_def)
  qed
qed

lemma written_entry:
  assumes "writable (k, q, v)"
  shows "env_entry (env_line (k, q, v)) = Some (py_lower k, v)"
proof -
  let ?line = "k @ CHR ''='' # q @ v @ q"
  note w = assms [unfolded writable_def split_conv]
  have k: "\<not> py_isspace (hd k)" "k \<noteq> []" using w stripped_ends [of k] by auto
  have stripped: "py_strip (q @ v @ q) = q @ v @ q"
  proof (cases "q = []")
    case False
    with w have "hd (q @ v @ q) = hd q" "last (q @ v @ q) = last q" by auto
    with w False no_space show ?thesis by (intro py_strip_id disjI2) auto
  qed (use w in simp)
  have no_eq: "take 1 (q @ v @ q) \<noteq> ''=''" using w by (cases "q = []") auto
  have "\<not> py_isspace (last ?line)"
  proof (cases "q @ v @ q = []")
    case False
    then have "last ?line = last (q @ v @ q)" by (simp del: append_is_Nil_conv)
    with stripped_ends [OF stripped False] show ?thesis by simp
  qed (simp add: no_space)
  then have line: "py_strip ?line = ?line" using k by (intro py_strip_id disjI2) simp
  have "take 1 ?line \<noteq> ''#''" using w by (cases k) auto
  moreover have "takeWhile (\<lambda>c. c \<noteq> CHR ''='') ?line = k" "dropWhile (\<lambda>c. c \<noteq> CHR ''='') ?line = CHR ''='' # q @ v @ q"
    using w by (auto simp: takeWhile_append dropWhile_append)
  moreover have "clean_env_value (q @ v @ q) = v"
    using w no_eq unquoted [of q v] by (simp add: clean_env_value_def stripped Let_def)
  ultimately show ?thesis using w by (simp add: env_line_def env_entry_def Let_def line)
qed

lemma splitlines_line:
  assumes "\<not> list_ex line_break s"
  shows "splitlines_from acc (s @ CHR 0x0A # t) = (acc @ s) # splitlines_from [] t"
  using assms
proof (induction s arbitrary: acc)
  case Nil
  have "line_break (CHR 0x0A)" by code_simp
  then show ?case by simp
next
  case (Cons c s)
  moreover have "line_break (CHR 0x0D)" by code_simp
  ultimately show ?case by auto
qed

lemma written_lines:
  assumes "list_all writable es"
  shows "splitlines (env_file es) = map env_line es"
  using assms unfolding splitlines_def
proof (induction es)
  case (Cons e es)
  obtain k q v where e: "e = (k, q, v)" by (cases e) auto
  have "\<not> line_break (CHR ''='')" "\<not> line_break (CHR 0x22)" "\<not> line_break (CHR 0x27)" by code_simp+
  then have "\<not> list_ex line_break (env_line e)"
    using Cons.prems by (auto simp: e env_line_def writable_def)
  with Cons show ?case by (simp add: env_file_def splitlines_line)
qed (simp add: env_file_def)

lemma written_file:
  assumes "list_all writable es"
  shows "read_env_file (Some (env_file es)) = map_of (rev (map (\<lambda>(k, q, v). (py_lower k, v)) es))"
proof -
  have "List.map_filter env_entry (map env_line es) = map (\<lambda>(k, q, v). (py_lower k, v)) es"
    using assms by (induction es) (auto simp: map_filter_simps written_entry)
  then show ?thesis by (simp add: read_env_file_def written_lines [OF assms])
qed

lemma fold_environment:
  "fold (\<lambda>f values. case g f of None \<Rightarrow> values | Some v \<Rightarrow> values(f \<mapsto> h v)) fs m x =
     (case (if x \<in> set fs then g x else None) of None \<Rightarrow> m x | Some v \<Rightarrow> Some (h v))"
  by (induction fs arbitrary: m) (auto split: option.splits)

text \<open>
  Property C40. Where a setting comes from: an argument of the constructor wins over the environment
  (read for the declared fields only), that over a mounted secret, that over the \<open>.env\<close> file; and a
  file written as lines of assignments, bare or quoted, gives each key, in lower case, the last
  value assigned to it, unchanged.
\<close>
theorem settings_resolved:
  assumes "list_all writable es"
  shows "settings_values names (Some (env_file es)) secrets environ data f =
    (case data f of
       Some v \<Rightarrow> Some v
     | None \<Rightarrow>
        (case (if f \<in> set names then read_env_value environ f else None) of
           Some v \<Rightarrow> Some (PvStr v)
         | None \<Rightarrow>
            (case read_secrets_dir secrets f of
               Some v \<Rightarrow> Some (PvStr v)
             | None \<Rightarrow> map_option PvStr (map_of (rev (map (\<lambda>(k, q, v). (py_lower k, v)) es)) f))))"
  by (auto simp: settings_values_def Let_def fold_environment written_file [OF assms] map_add_def split: option.splits)

theorem settings_resolved_witness:
  "settings_values SETTINGS_FIELDS (Some (env_file [(''MQTT_HOST'', [CHR 0x22], ''= a b ''), (''mqtt_host'', '''', ''broker''), (''other'', '''', '''')]))
     (Some [(''REDIS_URL'', Some '' r ''), (''d'', None)]) [''MQTT_PORT'' \<mapsto> '' =1883''] Map.empty ''mqtt_host'' = Some (PvStr ''broker'')"
proof -
  have "list_all writable [(''MQTT_HOST'', [CHR 0x22], ''= a b ''), (''mqtt_host'', '''', ''broker''), (''other'', '''', '''')]"
    by code_simp
  note resolved = settings_resolved [OF this, of SETTINGS_FIELDS "Some [(''REDIS_URL'', Some '' r ''), (''d'', None)]" "[''MQTT_PORT'' \<mapsto> '' =1883'']" Map.empty "''mqtt_host''"]
  have 1: "read_env_value [''MQTT_PORT'' \<mapsto> '' =1883''] ''mqtt_host'' = None" by code_simp
  have 2: "read_secrets_dir (Some [(''REDIS_URL'', Some '' r ''), (''d'', None)]) ''mqtt_host'' = None" by code_simp
  have 3: "map_of (rev (map (\<lambda>(k, q, v). (py_lower k, v))
    [(''MQTT_HOST'', [CHR 0x22], ''= a b ''), (''mqtt_host'', '''', ''broker''), (''other'', '''', '''')])) ''mqtt_host'' = Some ''broker''"
    by code_simp
  show ?thesis unfolding resolved 1 2 3 if_cancel by (simp only: option.case option.map)
qed

end
