(* ===== verification/Ack_Simulator.thy ===== *)
theory Ack_Simulator
  imports ChirpStack_Events
begin

text \<open>
  The simulated device, \<open>scripts/simulate_chirpstack_command_ack.py\<close>: it answers a downlink published
  over MQTT as a gateway, a network server and a device would, with a transmission report, a
  network acknowledgement and an application acknowledgement.  The JSON and UTF-8 decoders, the
  clock, the environment variable and the broker's return codes are fields of \<open>simulator_env\<close>.
\<close>

subsection \<open>Decoding the downlink\<close>

text \<open>
  \<open>base64.b64decode(data)\<close> without validation: characters outside the alphabet are skipped, and a
  complete padding ends the input.  The arguments are the position in the group of four, the
  bits left over and the padding characters seen.
\<close>

fun b64_lenient :: "nat \<Rightarrow> nat \<Rightarrow> nat \<Rightarrow> string \<Rightarrow> byte list option" where
  "b64_lenient quad_pos leftchar pads [] = (if quad_pos = 0 then Some [] else None)"
| "b64_lenient quad_pos leftchar pads (c # cs) =
     (if c = CHR ''='' then
        (if 2 \<le> quad_pos \<and> 4 \<le> quad_pos + Suc pads then Some []
         else b64_lenient quad_pos leftchar (if 2 \<le> quad_pos then Suc pads else pads) cs)
      else case b64_val c of
        None \<Rightarrow> b64_lenient quad_pos leftchar pads cs
      | Some v \<Rightarrow>
          if quad_pos = 0 then b64_lenient 1 v 0 cs
          else if quad_pos = 1 then map_option ((#) (of_nat (leftchar * 4 + v div 16))) (b64_lenient 2 (v mod 16) 0 cs)
          else if quad_pos = 2 then map_option ((#) (of_nat (leftchar * 16 + v div 4))) (b64_lenient 3 (v mod 4) 0 cs)
          else map_option ((#) (of_nat (leftchar * 64 + v))) (b64_lenient 0 0 0 cs))"

record simulator_env =
  sim_load :: "byte list \<Rightarrow> py_value option"
  sim_now_iso :: "nat \<Rightarrow> string"
  sim_millis :: int
  sim_getenv :: "string option"
  sim_publish_rc :: "string \<Rightarrow> int"
  sim_decode_text :: "string \<Rightarrow> string"

definition is_ascii :: "string \<Rightarrow> bool" where
  "is_ascii s \<longleftrightarrow> list_all (\<lambda>c. (of_char c :: nat) < 128) s"

definition extract_command_metadata ::
  "simulator_env \<Rightarrow> (string \<times> py_value) list \<Rightarrow> string option \<times> int option \<times> string option" where
  "extract_command_metadata sim payload =
     (let command_uuid = (case map_of payload ''commandId'' of
            Some (PvStr s) \<Rightarrow> if py_strip s \<noteq> [] then Some (py_strip s) else None | _ \<Rightarrow> None);
          command_seq_value = (case map_of payload ''commandSeq'' of
            Some (PvInt n) \<Rightarrow> if n > 0 then Some n else None
          | Some (PvBool True) \<Rightarrow> Some 1 | _ \<Rightarrow> None)
      in case map_of payload ''data'' of
           Some (PvStr data) \<Rightarrow>
             (if py_strip data = [] then (command_uuid, command_seq_value, None)
              else case (if is_ascii data then b64_lenient 0 0 0 data else None) of
                None \<Rightarrow> (command_uuid, command_seq_value, Some (sim_decode_text sim data))
              | Some decoded \<Rightarrow>
                  (case decode_command_downlink_payload_v1 decoded of
                     Inl e \<Rightarrow> (command_uuid, command_seq_value, Some (exc_message e))
                   | Inr d \<Rightarrow> (command_uuid, Some (dd_command_seq d), None)))
         | _ \<Rightarrow> (command_uuid, command_seq_value, None))"

subsection \<open>The answers\<close>

definition COMMAND_ACK_ERROR_INVALID_PAYLOAD :: int where "COMMAND_ACK_ERROR_INVALID_PAYLOAD = 2"

definition simulated_ack_status :: "simulator_env \<Rightarrow> string" where
  "simulated_ack_status sim = py_upper (py_strip (case sim_getenv sim of None \<Rightarrow> ''EXECUTED'' | Some s \<Rightarrow> s))"

text \<open>A \<open>KeyError\<close> for a status outside the contract.\<close>

definition simulated_ack_status_code :: "simulator_env \<Rightarrow> (string, int) res" where
  "simulated_ack_status_code sim =
     (case map_of [(''EXECUTED'', 1), (''REJECTED'', 2), (''FAILED'', 3), (''EXPIRED'', 4), (''DUPLICATE'', 5)] (simulated_ack_status sim) of
        None \<Rightarrow> Inl (simulated_ack_status sim) | Some code \<Rightarrow> Inr code)"

definition build_txack_payload :: "string \<Rightarrow> string \<Rightarrow> (string \<times> py_value) list" where
  "build_txack_payload now_iso command_uuid = [(''commandId'', PvStr command_uuid), (''queueItemId'', PvNone),
     (''gatewayId'', PvStr ''gateway-sim-001''), (''time'', PvStr now_iso), (''status'', PvStr ''OK'')]"

definition build_network_ack_payload :: "string \<Rightarrow> string \<Rightarrow> (string \<times> py_value) list" where
  "build_network_ack_payload now_iso command_uuid = [(''commandId'', PvStr command_uuid), (''queueItemId'', PvNone),
     (''acknowledged'', PvBool True), (''time'', PvStr now_iso)]"

text \<open>\<open>struct.pack\<close> refuses a sequence number that is no unsigned 16-bit integer.\<close>

definition build_application_ack_payload ::
  "string \<Rightarrow> int \<Rightarrow> string \<Rightarrow> string \<Rightarrow> int \<Rightarrow> int \<Rightarrow> int \<Rightarrow> (string, (string \<times> py_value) list) res" where
  "build_application_ack_payload now_iso millis application_id dev_eui command_seq status_code error_code =
     (if command_seq < 0 \<or> 65535 < command_seq then Inl ''ushort format requires 0 <= number <= 65535''
      else Inr [(''deduplicationId'', PvStr (''ack-'' @ dev_eui @ ''-'' @ py_str_int command_seq @ ''-'' @ py_str_int millis)),
        (''time'', PvStr now_iso),
        (''deviceInfo'', PvDict [(''applicationId'', PvStr application_id), (''devEui'', PvStr dev_eui)]),
        (''fPort'', PvInt COMMAND_ACK_FPORT),
        (''data'', PvStr (b64encode (pack_u8 PROTOCOL_VERSION_V1 @ pack_16 command_seq @ pack_u8 status_code @ pack_u8 error_code)))])"

text \<open>What has been published, as the state of the handler; a raised exception ends it.\<close>

type_synonym publishing = "((string \<times> (string \<times> py_value) list) list, string, unit) act"

definition publish_json :: "simulator_env \<Rightarrow> string \<Rightarrow> (string \<times> py_value) list \<Rightarrow> publishing" where
  "publish_json sim tpc payload =
     (if sim_publish_rc sim tpc \<noteq> 0 then raiseS (''MQTT publish failed with rc='' @ py_str_int (sim_publish_rc sim tpc))
      else modifyS (\<lambda>published. published @ [(tpc, payload)]))"

definition event_topic :: "downlink_topic_info \<Rightarrow> string \<Rightarrow> string" where
  "event_topic ti event_type =
     ''application/'' @ dt_application_id ti @ ''/device/'' @ dt_dev_eui ti @ ''/event/'' @ event_type"

definition on_message :: "simulator_env \<Rightarrow> string \<Rightarrow> byte list \<Rightarrow> publishing" where
  "on_message sim tpc raw =
     (case parse_downlink_topic tpc of
        Inl _ \<Rightarrow> retS ()
      | Inr ti \<Rightarrow>
          (case sim_load sim raw of
             None \<Rightarrow> retS ()
           | Some (PvDict payload) \<Rightarrow>
               (case extract_command_metadata sim payload of
                  (Some command_uuid, Some command_seq, decode_error) \<Rightarrow>
                    bindS (publish_json sim (event_topic ti ''txack'') (build_txack_payload (sim_now_iso sim 0) command_uuid)) (\<lambda>_.
                    bindS (publish_json sim (event_topic ti ''ack'') (build_network_ack_payload (sim_now_iso sim 1) command_uuid)) (\<lambda>_.
                    bindS (liftS (simulated_ack_status_code sim)) (\<lambda>code.
                    bindS (liftS (build_application_ack_payload (sim_now_iso sim 2) (sim_millis sim) (dt_application_id ti) (dt_dev_eui ti) command_seq
                        (if decode_error \<noteq> None then 3 else code)
                        (if decode_error \<noteq> None then COMMAND_ACK_ERROR_INVALID_PAYLOAD else 0))) (\<lambda>ack.
                      publish_json sim (event_topic ti ''up'') ack))))
                | _ \<Rightarrow> retS ())
           | Some _ \<Rightarrow> raiseS ''object has no attribute get''))"

subsection \<open>Lemmas\<close>

lemma b64_val_not_pad: "b64_val c = Some v \<Longrightarrow> c \<noteq> CHR ''=''"
proof -
  have "b64_val CHR ''='' = None" by code_simp
  then show "b64_val c = Some v \<Longrightarrow> c \<noteq> CHR ''=''" by auto
qed

text \<open>What the strict decoder accepts, the lenient one decodes to the same bytes.\<close>

lemma lenient_quad:
  assumes "b64_quad c1 c2 c3 c4 = Some p"
  shows "b64_lenient 0 l k (c1 # c2 # c3 # c4 # cs) = map_option (\<lambda>q. p @ q) (b64_lenient 0 0 0 cs)"
proof -
  obtain v1 v2 v3 v4 where v: "b64_val c1 = Some v1" "b64_val c2 = Some v2" "b64_val c3 = Some v3" "b64_val c4 = Some v4"
    "p = [of_nat (v1 * 4 + v2 div 16), of_nat (v2 mod 16 * 16 + v3 div 4), of_nat (v3 mod 4 * 64 + v4)]"
    using assms by (auto simp: b64_quad_def split: option.splits)
  have "c1 \<noteq> CHR ''=''" "c2 \<noteq> CHR ''=''" "c3 \<noteq> CHR ''=''" "c4 \<noteq> CHR ''=''" using v(1-4) b64_val_not_pad by blast+
  with v(1-4) show ?thesis unfolding v(5) by (simp add: option.map_comp o_def)
qed

lemma lenient_last:
  assumes "b64_last c1 c2 c3 c4 = Some p"
  shows "b64_lenient 0 l k [c1, c2, c3, c4] = Some p"
proof (cases "c4 = CHR ''=''")
  case False
  with assms have "b64_quad c1 c2 c3 c4 = Some p" by (simp add: b64_last_def)
  from lenient_quad [OF this, of l k "[]"] show ?thesis by simp
next
  case True
  show ?thesis
  proof (cases "c3 = CHR ''=''")
    case True
    with \<open>c4 = CHR ''=''\<close> obtain v1 v2 where v: "b64_val c1 = Some v1" "b64_val c2 = Some v2" "p = [of_nat (v1 * 4 + v2 div 16)]"
      using assms by (auto simp: b64_last_def split: option.splits)
    with True \<open>c4 = CHR ''=''\<close> b64_val_not_pad [OF v(1)] b64_val_not_pad [OF v(2)] show ?thesis by simp
  next
    case False
    with \<open>c4 = CHR ''=''\<close> obtain v1 v2 v3 where v: "b64_val c1 = Some v1" "b64_val c2 = Some v2" "b64_val c3 = Some v3"
      "p = [of_nat (v1 * 4 + v2 div 16), of_nat (v2 mod 16 * 16 + v3 div 4)]"
      using assms by (auto simp: b64_last_def split: option.splits)
    with False \<open>c4 = CHR ''=''\<close> b64_val_not_pad [OF v(1)] b64_val_not_pad [OF v(2)] show ?thesis by simp
  qed
qed

lemma b64decode_longer:
  assumes "b64decode (c1 # c2 # c3 # c4 # c # cs) = Some bs"
  obtains p q where "b64_quad c1 c2 c3 c4 = Some p" "b64decode (c # cs) = Some q" "bs = p @ q"
proof -
  have "(case b64_quad c1 c2 c3 c4 of None \<Rightarrow> None | Some p \<Rightarrow> map_option ((@) p) (b64decode (c # cs))) = Some bs"
    using assms by (simp only: b64decode.simps)
  with that show thesis
    by (cases "b64_quad c1 c2 c3 c4"; cases "b64decode (c # cs)") simp_all
qed

lemma lenient_of_strict: "b64decode s = Some bs \<Longrightarrow> b64_lenient 0 l k s = Some bs"
proof (induction "length s" arbitrary: s bs l k rule: less_induct)
  case less
  consider "s = []" | c1 c2 c3 c4 where "s = [c1, c2, c3, c4]" | c1 c2 c3 c4 c cs where "s = c1 # c2 # c3 # c4 # c # cs"
    using less.prems by (cases s rule: b64decode.cases) (auto simp only: b64decode.simps option.distinct)
  then show ?case
  proof cases
    case 1
    with less.prems show ?thesis by simp
  next
    case 2
    with less.prems show ?thesis by (simp only: b64decode.simps lenient_last)
  next
    case 3
    with less.prems obtain p q where pq: "b64_quad c1 c2 c3 c4 = Some p" "b64decode (c # cs) = Some q" "bs = p @ q"
      by (blast elim: b64decode_longer)
    have "b64_lenient 0 0 0 (c # cs) = Some q" by (rule less.hyps [OF _ pq(2)]) (simp add: 3)
    then show ?thesis unfolding 3 lenient_quad [OF pq(1)] pq(3) by simp
  qed
qed

lemma b64_char_ascii: "i < 64 \<Longrightarrow> (of_char (b64_char i) :: nat) < 128"
proof -
  have "length b64_alphabet = 64" "\<forall>c \<in> set b64_alphabet. (of_char c :: nat) < 128" by (simp_all add: b64_alphabet_def)
  then show "i < 64 \<Longrightarrow> (of_char (b64_char i) :: nat) < 128" by (simp add: b64_char_def)
qed

lemma b64encode_ascii: "is_ascii (b64encode bs)"
proof (induction bs rule: b64encode.induct)
  case (2 a)
  show ?case using unat_byte_bound [of a] by (auto simp: is_ascii_def Let_def b64_char_ascii)
next
  case (3 a b)
  show ?case using unat_byte_bound [of a] unat_byte_bound [of b]
    by (auto simp: is_ascii_def Let_def b64_char_ascii)
next
  case (4 a b c bs)
  then show ?case using unat_byte_bound [of a] unat_byte_bound [of b] unat_byte_bound [of c]
    by (auto simp: is_ascii_def Let_def b64_char_ascii)
qed (simp add: is_ascii_def)

end
