(* ===== verification/Command_Roundtrip.thy ===== *)
theory Command_Roundtrip
  imports Ack_Simulator
begin

text \<open>
  A command on its way to the device and back: the frame the command service stored, the
  simulated device that answers it, and the uplink service that takes the answers in.
\<close>

definition handle_all :: "(event_env \<times> string \<times> (string \<times> py_value) list) list \<Rightarrow> tlrs_db \<Rightarrow> tlrs_db" where
  "handle_all = fold (\<lambda>(env, tpc, p) db. snd (handle_event env tpc p db))"

text \<open>
  What the models read from a payload they accept: a field of the declared type is taken over,
  an absent or null one is \<open>None\<close>, the EUI is normalised.
\<close>

definition pydantic_reads :: "event_env \<Rightarrow> bool" where
  "pydantic_reads env \<longleftrightarrow>
     (\<forall>p tx. en_validate_txack env (PvDict p) = Inr tx \<longrightarrow> map_of p ''queueItemId'' = Some PvNone \<longrightarrow> tx_queue_item_id tx = None) \<and>
     (\<forall>p na. en_validate_network_ack env (PvDict p) = Inr na \<longrightarrow> map_of p ''queueItemId'' = Some PvNone \<longrightarrow> na_queue_item_id na = None) \<and>
     (\<forall>p up. en_validate_up env (PvDict p) = Inr up \<longrightarrow>
        (\<forall>n. map_of p ''fPort'' = Some (PvInt n) \<longrightarrow> ue_fport up = Some n) \<and>
        (\<forall>s. map_of p ''data'' = Some (PvStr s) \<longrightarrow> ue_data up = Some s) \<and>
        (map_of p ''object'' = None \<longrightarrow> ue_object up = None) \<and>
        (\<forall>i s. map_of p ''deviceInfo'' = Some (PvDict i) \<longrightarrow> map_of i ''devEui'' = Some (PvStr s) \<longrightarrow>
           di_dev_eui (ue_device_info up) = normalize_eui_text s))"

subsection \<open>The three answers\<close>

lemma split_parts: "p \<in> set (split_on c s) \<Longrightarrow> c \<notin> set p"
proof (induction s arbitrary: p)
  case (Cons x s)
  obtain q qs where q: "split_on c s = q # qs" by (cases "split_on c s") simp_all
  with Cons show ?case by (auto split: if_splits)
qed simp

lemma lowered_slash: "py_lower_char c = CHR ''/'' \<Longrightarrow> c = CHR ''/''"
proof -
  assume c: "py_lower_char c = CHR ''/''"
  define n where "n = (of_char c :: nat)"
  have "(of_char (CHR ''/'') :: nat) = 47" by simp
  then have 47: "(of_char (py_lower_char c) :: nat) = 47" unfolding c .
  have "n = 47"
  proof (cases "(65 \<le> n \<and> n \<le> 90) \<or> (192 \<le> n \<and> n \<le> 222 \<and> n \<noteq> 215)")
    case True
    then have "py_lower_char c = char_of (n + 32)" unfolding py_lower_char_def Let_def n_def by (rule if_P)
    with 47 have "(n + 32) mod 256 = 47" by simp
    with True show ?thesis by auto
  next
    case False
    then have "py_lower_char c = c" unfolding py_lower_char_def Let_def n_def by (rule if_not_P)
    with 47 show ?thesis by (simp add: n_def)
  qed
  then have "(of_char c :: nat) = of_char (CHR ''/'')" by (simp add: n_def)
  then show "c = CHR ''/''" by (simp only: of_char_eq_iff)
qed

lemma event_topic_parses:
  assumes "parse_downlink_topic tpc = Inr ti" and "ev \<in> {''txack'', ''ack'', ''up''}"
  shows "parse_event_topic (event_topic ti ev) =
    Inr \<lparr>ti_application_id = dt_application_id ti, ti_dev_eui = dt_dev_eui ti, ti_event_type = ev\<rparr>"
proof -
  let ?parts = "split_on CHR ''/'' tpc" and ?a = "dt_application_id ti" and ?d = "dt_dev_eui ti"
  from assms(1) have ti: "length ?parts = 6" "?a = py_strip (?parts ! 1)" "?d = normalize_eui_text (?parts ! 3)" "?a \<noteq> []" "?d \<noteq> []"
    by (auto simp: parse_downlink_topic_def normalize_eui_text_def Let_def split: if_splits)
  have "CHR ''/'' \<notin> set (?parts ! i)" if "i < 6" for i
    by (rule split_parts [of _ _ tpc]) (use that ti(1) in simp)
  from this [of 1] this [of 3] have "CHR ''/'' \<notin> set (?parts ! 1)" "CHR ''/'' \<notin> set (?parts ! 3)" by simp_all
  then have a: "CHR ''/'' \<notin> set ?a" using set_py_strip [of "?parts ! 1"] ti(2) by auto
  have "CHR ''/'' \<notin> set ?d"
  proof
    assume "CHR ''/'' \<in> set ?d"
    then obtain c where "c \<in> set (?parts ! 3)" "py_lower_char c = CHR ''/''"
      unfolding ti(3) normalize_eui_text_def py_lower_def py_compact_def set_map set_filter by (metis (no_types, lifting) imageE mem_Collect_eq)
    with lowered_slash [of c] \<open>CHR ''/'' \<notin> set (?parts ! 3)\<close> show False by blast
  qed
  moreover have "CHR ''/'' \<notin> set ev" using assms(2) by auto
  moreover have "event_topic ti ev = ''application'' @ CHR ''/'' # ?a @ CHR ''/'' # ''device'' @ CHR ''/'' # ?d @ CHR ''/'' # ''event'' @ CHR ''/'' # ev"
    by (simp add: event_topic_def)
  ultimately have parts: "split_on CHR ''/'' (event_topic ti ev) = [''application'', ?a, ''device'', ?d, ''event'', ev]"
    using a by (simp only: split_on_append) (simp add: split_on_append split_on_no_sep)
  have "py_lower (py_strip ev) = ev" using assms(2) by (auto simp: py_strip_def py_isspace_def py_lower_def py_lower_char_def)
  moreover have "normalize_eui_text ?d = ?d" by (simp add: ti(3))
  moreover have "py_strip ?a = ?a" by (simp add: ti(2))
  moreover have "ev \<noteq> []" using assms(2) by auto
  ultimately show ?thesis using ti(4,5) by (simp add: parse_event_topic_def parts normalize_eui_text_def)
qed

lemma simulator_answers:
  assumes "parse_downlink_topic tpc = Inr ti" "sim_load sim raw = Some (PvDict p)"
    and "extract_command_metadata sim p = (Some uuid, Some n, None)" "0 \<le> n" "n \<le> 65535"
    and "\<forall>x. sim_publish_rc sim x = 0" "simulated_ack_status_code sim = Inr code"
  obtains ack where "build_application_ack_payload (sim_now_iso sim 2) (sim_millis sim) (dt_application_id ti) (dt_dev_eui ti) n code 0 = Inr ack"
    "on_message sim tpc raw [] = (Inr (), [(event_topic ti ''txack'', build_txack_payload (sim_now_iso sim 0) uuid),
       (event_topic ti ''ack'', build_network_ack_payload (sim_now_iso sim 1) uuid), (event_topic ti ''up'', ack)])"
  using assms by (auto simp: on_message_def publish_json_def build_application_ack_payload_def)

text \<open>The network messages name no queue item, so the service finds no command for them.\<close>

lemma network_answer_changes_nothing:
  assumes "pydantic_reads env" "parse_event_topic tpc = Inr ti" "ti_event_type ti \<in> {''txack'', ''ack''}"
    and "map_of p ''queueItemId'' = Some PvNone" "map_of p ''deduplicationId'' = None" "db_new_commands db = []"
  shows "\<exists>e. snd (handle_event env tpc p db) = db\<lparr>db_cs_events := db_cs_events db @ [e]\<rparr> \<and> ce_deduplication_id e = None"
proof -
  let ?e = "new_event db ti None tpc p"
  let ?db = "db\<lparr>db_cs_events := db_cs_events db @ [?e]\<rparr>"
  obtain r db' where run: "process_and_commit env ti (PvDict p) ?e ?db = (r, db')" by (cases "process_and_commit env ti (PvDict p) ?e ?db")
  have snd: "snd (handle_event env tpc p db) = db'"
    using assms(2,5) run by (simp add: handle_event_def deduplication_id_of_def Let_def)
  have same: "dbx = ?db" "out = Inr (res, e) \<Longrightarrow> \<not> hr_success res" if "process_event env ti (PvDict p) ?e ?db = (out, dbx)" for out dbx res e
    using that assms(1,3,4)
    by (auto simp: process_event_def process_txack_event_def process_network_ack_event_def with_network_command_def rejected_def result_of_def
        resolve_command_for_network_event_def pydantic_reads_def or_empty_def split: sum.splits option.splits)
  have "db_cs_events ?db = db_cs_events db @ [?e]" "ce_id ?e \<notin> ce_id ` set (db_cs_events db)"
    using fresh_not_in by (simp_all add: new_event_def)
  note cases = process_and_commit_cases [OF run this]
  have flushed: "flush_commands (now_of env) ?db = ?db" using assms(6) by (simp add: flush_commands_def)
  have "\<exists>e. db' = ?db\<lparr>db_cs_events := db_cs_events db @ [e]\<rparr> \<and> ce_deduplication_id e = None"
  proof (rule cases)
    fix res e dbx
    assume *: "process_event env ti (PvDict p) ?e ?db = (Inr (res, e), dbx)" "ce_deduplication_id e = ce_deduplication_id ?e"
      "db' = (flush_commands (now_of env) dbx)\<lparr>db_cs_events := db_cs_events db @ [e], db_published := db_published ?db @ publications env res\<rparr>"
    have "publications env res = []" using same(2) [OF *(1) refl] by (simp add: publications_def)
    then have "db' = ?db\<lparr>db_cs_events := db_cs_events db @ [e]\<rparr>" using *(3) unfolding same(1) [OF *(1)] flushed by simp
    with *(2) show ?thesis by (intro exI [of _ e]) (simp add: new_event_def)
  next
    fix res dbx err and e :: cs_event
    assume *: "process_event env ti (PvDict p) ?e ?db = (Inr (res, e), dbx)" "publish_fails env res err"
    with same(2) [OF *(1) refl] show ?thesis by (simp add: publish_fails_def)
  qed (auto simp: new_event_def)
  with snd show ?thesis by auto
qed

lemma build_txack_payload_keys: "map_of (build_txack_payload t u) ''queueItemId'' = Some PvNone" "map_of (build_txack_payload t u) ''deduplicationId'' = None"
  by (simp_all add: build_txack_payload_def)

lemma build_network_ack_payload_keys:
  "map_of (build_network_ack_payload t u) ''queueItemId'' = Some PvNone" "map_of (build_network_ack_payload t u) ''deduplicationId'' = None"
  by (simp_all add: build_network_ack_payload_def)

lemma network_answer:
  assumes "pydantic_reads env" "parse_downlink_topic tpc = Inr ti" "db_new_commands db = []" "ev \<in> {''txack'', ''ack''}"
    and "map_of p ''queueItemId'' = Some PvNone" "map_of p ''deduplicationId'' = None"
  shows "\<exists>e. handle_all [(env, event_topic ti ev, p)] db = db\<lparr>db_cs_events := db_cs_events db @ [e]\<rparr> \<and> ce_deduplication_id e = None"
proof -
  have "ev \<in> {''txack'', ''ack'', ''up''}" using assms(4) by auto
  then have "parse_event_topic (event_topic ti ev) =
      Inr \<lparr>ti_application_id = dt_application_id ti, ti_dev_eui = dt_dev_eui ti, ti_event_type = ev\<rparr>"
    by (rule event_topic_parses [OF assms(2)])
  from network_answer_changes_nothing [OF assms(1) this _ assms(5,6,3)] assms(4) show ?thesis by (simp add: handle_all_def)
qed

text \<open>The bytes of the application acknowledgement decode to the status and the sequence number.\<close>

lemma ack_bytes_decode:
  assumes "1 \<le> n" "n \<le> 65535" "decode_ack_status code = Inr st"
    and "ue_data up = Some (b64encode (pack_u8 PROTOCOL_VERSION_V1 @ pack_16 n @ pack_u8 code @ pack_u8 0))"
  shows "decode_command_ack_payload_v1 up = Inr \<lparr>ap_command_id = None, ap_command_seq = Some n, ap_status = st,
    ap_executed_at = ue_time up, ap_error_message = None\<rparr>"
proof -
  let ?bs = "pack_u8 PROTOCOL_VERSION_V1 @ pack_16 n @ pack_u8 code @ pack_u8 0"
  have data: "decode_base64_data (ue_data up) = Inr ?bs"
    unfolding assms(4) by (rule decode_base64_of_bytes) (simp add: pack_u8_def)
  have "code \<in> {1, 2, 3, 4, 5}" using assms(3) by (auto simp: decode_ack_status_def split: if_splits)
  then have "code mod 256 = code" by auto
  then have "length ?bs = 5 \<and> u8_at ?bs 0 = 1 \<and> u16_at ?bs 1 = n \<and> u8_at ?bs 3 = code \<and> u8_at ?bs 4 = 0"
    using assms(1,2) by (simp add: byte_simps contract_defs)
  then show ?thesis using assms(1,3) ack_payload_accepted_iff [OF data] by (simp add: decode_ack_error_def)
qed

lemma command_of_seq:
  assumes "seqs_ok db" "c \<in> set (db_commands db)" "cmd_device_id c = dev" "cmd_seq c = Some n"
  shows "get_command_by_device_and_seq db dev n = Inr (Some c)"
proof -
  have "filter (\<lambda>x. cmd_device_id x = dev \<and> cmd_seq x = Some n) rows = [c]"
    if "distinct (device_seqs dev rows)" "c \<in> set rows" for rows
    using that
  proof (induction rows)
    case (Cons r rows)
    have seen: "n \<in> set (device_seqs dev rows)" if "x \<in> set rows" "cmd_device_id x = dev" "cmd_seq x = Some n" for x
      using that by (force simp: device_seqs_def)
    show ?case
    proof (cases "cmd_device_id r = dev \<and> cmd_seq r = Some n")
      case True
      then have new: "n \<notin> set (device_seqs dev rows)" using Cons.prems(1) by simp
      with seen have "c = r" using Cons.prems(2) assms(3,4) by auto
      moreover have "filter (\<lambda>x. cmd_device_id x = dev \<and> cmd_seq x = Some n) rows = []"
        using seen new by (auto simp: filter_empty_conv)
      ultimately show ?thesis using True by simp
    next
      case False
      with Cons.prems(2) assms(3,4) have "c \<in> set rows" by (metis set_ConsD)
      moreover have "distinct (device_seqs dev rows)" using Cons.prems(1) by (simp only: device_seqs_simps distinct_append)
      ultimately show ?thesis using False Cons.IH by (simp only: filter.simps if_False)
    qed
  qed simp
  from this [of "db_commands db"] assms(1,2) show ?thesis
    by (simp add: get_command_by_device_and_seq_def seqs_ok_def all_commands_def)
qed

lemma application_answer_applied:
  assumes "pydantic_reads env" "en_validate_up env (PvDict p) = Inr up" "\<not> en_raced env"
    and built: "build_application_ack_payload now_iso millis app eui n code 0 = Inr p" "1 \<le> n" "decode_ack_status code = Inr st"
    and tpc: "parse_event_topic tpc = Inr \<lparr>ti_application_id = app, ti_dev_eui = eui, ti_event_type = ''up''\<rparr>"
    and d: "get_device db eui = Inr (Some d)" "validate_device_application_id d app = None" "normalize_eui_text eui = eui"
    and c: "seqs_ok db" "c \<in> set (db_commands db)" "cmd_device_id c = d_id d" "cmd_seq c = Some n" "db_new_commands db = []"
    and new: "\<And>s. deduplication_id_of p = Inr (Some s) \<Longrightarrow> \<not> event_exists db s"
  shows "db_commands (snd (handle_event env tpc p db)) = put cmd_id (apply_ack (now_of env) \<lparr>ap_command_id = None,
    ap_command_seq = Some n, ap_status = st, ap_executed_at = ue_time up, ap_error_message = None\<rparr> c) (db_commands db)"
proof -
  let ?ti = "\<lparr>ti_application_id = app, ti_dev_eui = eui, ti_event_type = ''up''\<rparr>"
  let ?a = "\<lparr>ap_command_id = None, ap_command_seq = Some n, ap_status = st, ap_executed_at = ue_time up, ap_error_message = None\<rparr>"
  have n: "n \<le> 65535" and p: "map_of p ''fPort'' = Some (PvInt COMMAND_ACK_FPORT)" "map_of p ''object'' = None"
    "map_of p ''data'' = Some (PvStr (b64encode (pack_u8 PROTOCOL_VERSION_V1 @ pack_16 n @ pack_u8 code @ pack_u8 0)))"
    "map_of p ''deviceInfo'' = Some (PvDict [(''applicationId'', PvStr app), (''devEui'', PvStr eui)])"
    "deduplication_id_of p = Inr (Some (''ack-'' @ eui @ ''-'' @ py_str_int n @ ''-'' @ py_str_int millis))"
    using built(1,2) by (auto simp: build_application_ack_payload_def deduplication_id_of_def split: if_splits)
  have up: "ue_fport up = Some COMMAND_ACK_FPORT" "ue_object up = None" "di_dev_eui (ue_device_info up) = eui"
    "ue_data up = Some (b64encode (pack_u8 PROTOCOL_VERSION_V1 @ pack_16 n @ pack_u8 code @ pack_u8 0))"
    using assms(1,2) p d(3) by (auto simp: pydantic_reads_def)
  note decoded = ack_bytes_decode [OF built(2) n built(3) up(4)]
  define event where "event = new_event db ?ti (Some (''ack-'' @ eui @ ''-'' @ py_str_int n @ ''-'' @ py_str_int millis)) tpc p"
  define db0 where "db0 = db\<lparr>db_cs_events := db_cs_events db @ [event]\<rparr>"
  have run: "snd (handle_event env tpc p db) = snd (process_and_commit env ?ti (PvDict p) event db0)"
    using new [OF p(5)] assms(3) by (simp add: handle_event_def tpc p(5) event_def db0_def Let_def split: prod.split)
  have dev: "get_device db0 eui = Inr (Some d)" using d(1) by (simp add: db0_def get_device_def)
  define d1 where "d1 = (if d_device_profile_id d = None then d\<lparr>d_device_profile_id := di_device_profile_id (ue_device_info up)\<rparr> else d)"
  have "seqs_ok (put_device d1 db0)" "c \<in> set (db_commands (put_device d1 db0))" "cmd_device_id c = d_id d1"
    using c by (simp_all add: put_device_def db0_def seqs_ok_def all_commands_def d1_def)
  then have found: "get_command_by_device_and_seq (put_device d1 db0) (d_id d1) n = Inr (Some c)" using c(4) by (rule command_of_seq)
  have "\<exists>res e dbx. process_event env ?ti (PvDict p) event db0 = (Inr (res, e), dbx) \<and> hr_processed_kind res = Some ''command_ack'' \<and>
      db_commands dbx = put cmd_id (apply_ack (now_of env) ?a c) (db_commands db) \<and> db_new_commands dbx = []"
    using dev d(2) assms(2) up decoded found c(5)
    by (simp add: process_event_def process_up_event_def validate_up_event_def process_application_ack_up_event_def
        build_command_ack_payload_def process_ack_by_command_seq_def apply_ack_to_command_def d1_def [symmetric] Let_def result_of_def)
      (simp add: put_device_def db0_def)
  then show ?thesis
    unfolding run by (auto simp: process_and_commit_def publish_realtime_location_event_def put_event_def flush_commands_def Let_def)
qed

subsection \<open>From the stored frame to the acknowledged command\<close>

lemma b64encode_not_blank:
  assumes "bs \<noteq> []"
  shows "py_strip (b64encode bs) \<noteq> []"
proof
  assume blank: "py_strip (b64encode bs) = []"
  obtain i s where s: "b64encode bs = b64_char i # s" "i < 64"
  proof (cases bs rule: b64encode.cases)
    case (2 a)
    then show thesis using that [of "unat a * 16 div 64"] unat_byte_bound [of a] by (simp add: Let_def)
  next
    case (3 a b)
    then show thesis using that [of "(unat a * 256 + unat b) * 4 div 4096"] unat_byte_bound [of a] unat_byte_bound [of b]
      by (simp add: Let_def)
  next
    case (4 a b c rest)
    then show thesis using that [of "(unat a * 65536 + unat b * 256 + unat c) div 262144"]
        unat_byte_bound [of a] unat_byte_bound [of b] unat_byte_bound [of c] by (simp add: Let_def)
  qed (use assms in simp_all)
  have "length b64_alphabet = 64" "\<forall>c \<in> set b64_alphabet. \<not> py_isspace c" by (simp_all add: b64_alphabet_def py_isspace_def)
  with s(2) have "\<not> py_isspace (b64_char i)" by (simp add: b64_char_def)
  with blank s(1) show False by (simp add: py_strip_def)
qed

text \<open>The simulator reads the identity of the command out of the stored payload.\<close>

lemma metadata_of_stored:
  assumes "encode_command_downlink uuid n t (Some pf) = Inr e" "py_strip uuid \<noteq> []" "build_payload eui e True = PvDict p"
  shows "extract_command_metadata sim p = (Some (py_strip uuid), Some n, None)"
proof -
  obtain dd where dd: "decode_command_downlink_payload_v1 (ed_data e) = Inr dd" "dd_command_seq dd = n" "ed_command_id e = uuid"
    using encoded_frame_decodes(3) [OF assms(1)] by blast
  then have "ed_data e \<noteq> []" by (auto simp: decode_command_downlink_payload_v1_def)
  then have "py_strip (b64encode (ed_data e)) \<noteq> []" by (rule b64encode_not_blank)
  moreover have "b64_lenient 0 0 0 (b64encode (ed_data e)) = Some (ed_data e)" by (rule lenient_of_strict) simp
  ultimately show ?thesis using dd assms(2,3) b64encode_ascii [of "ed_data e"]
    by (auto simp: extract_command_metadata_def build_payload_def)
qed

lemma stored_transport:
  assumes "resolve_command_transport d uuid (cmd_seq c) t pf = Inr (Some (cmd_topic c, PvDict p))"
  obtains n e app eui fields where "cmd_seq c = Some n" "encode_command_downlink uuid n t (Some fields) = Inr e"
    "build_payload eui e True = PvDict p" "d_application_id d = Some app" "d_dev_eui d = Some eui" "cmd_topic c = build_topic app eui"
proof -
  from assms obtain n e where e: "cmd_seq c = Some n" "encode_command_downlink uuid n t pf = Inr e"
      "cmd_topic c = build_topic (the (d_application_id d)) (the (d_dev_eui d))" "build_payload (the (d_dev_eui d)) e True = PvDict p"
      "or_empty (d_application_id d) \<noteq> []" "or_empty (d_dev_eui d) \<noteq> []"
    by (auto simp: resolve_command_transport_def res_simps split: if_splits option.splits)
  moreover have "encode_command_downlink uuid n t pf = encode_command_downlink uuid n t (Some (case pf of None \<Rightarrow> [] | Some f \<Rightarrow> f))"
    by (cases pf) (simp_all add: encode_command_downlink_def)
  ultimately show thesis using that [of n "case pf of None \<Rightarrow> [] | Some f \<Rightarrow> f" e] by (auto simp: or_empty_nonempty)
qed

definition status_after :: "int \<Rightarrow> command_status" where
  "status_after code = (if code = 1 \<or> code = 5 then CMD_ACKED else if code = 4 then CMD_EXPIRED else CMD_FAILED)"

lemma status_after_ack:
  "decode_ack_status code = Inr (ap_status a) \<Longrightarrow> cmd_status (apply_ack now a c) = status_after code"
  by (auto simp: decode_ack_status_def apply_ack_def status_after_def split: if_splits)

text \<open>
  Property C27. A command reaches the device and its answer comes back: for a stored command with the
  frame the service built, whose topic the transport accepts, the simulated device publishes
  exactly three messages; the service takes the transmission report and the network
  acknowledgement without changing any command, since they name no queue item; the application
  acknowledgement, if its model accepts it and its deduplication id is new, gives exactly this command the status the
  simulated device reports and leaves every other command as it is.
\<close>
theorem simulated_device_acknowledges:
  assumes frame: "resolve_command_transport d uuid (cmd_seq c) t pf = Inr (Some (cmd_topic c, PvDict p))"
      "is_downlink_topic (cmd_topic c)" "py_strip uuid \<noteq> []"
    and simulator: "sim_load sim raw = Some (PvDict p)" "\<forall>x. sim_publish_rc sim x = 0" "simulated_ack_status_code sim = Inr code"
    and device: "get_device db eui = Inr (Some d)" "normalize_eui_text eui = eui"
    and stored: "seqs_ok db" "c \<in> set (db_commands db)" "cmd_device_id c = d_id d" "db_new_commands db = []" "distinct (map cmd_id (db_commands db))"
    and models: "pydantic_reads env1" "pydantic_reads env2" "pydantic_reads env3"
  shows "\<exists>m1 m2 ack. on_message sim (cmd_topic c) raw [] = (Inr (), [m1, m2, ack]) \<and>
    db_commands (handle_all [(env1, m1), (env2, m2)] db) = db_commands db \<and>
    (is_ok (en_validate_up env3 (PvDict (snd ack))) \<and> \<not> en_raced env3 \<and>
      (\<forall>x \<in> set (db_cs_events db). deduplication_id_of (snd ack) \<noteq> Inr (ce_deduplication_id x)) \<longrightarrow>
     (\<exists>c'. cmd_status c' = status_after code \<and> cmd_id c' = cmd_id c \<and> cmd_uuid c' = cmd_uuid c \<and>
       set (db_commands (handle_all [(env1, m1), (env2, m2), (env3, ack)] db)) = insert c' (set (db_commands db) - {c})))"
proof -
  obtain n e app eui' fields where s: "cmd_seq c = Some n" "encode_command_downlink uuid n t (Some fields) = Inr e"
      "build_payload eui' e True = PvDict p" "d_application_id d = Some app" "d_dev_eui d = Some eui'" "cmd_topic c = build_topic app eui'"
    using frame(1) by (rule stored_transport)
  have eui: "eui' = eui" using device(1) s(5)
    by (auto simp: get_device_def text_error_def scalar_one_or_none_Some filter_eq_Cons_iff split: sum.splits)
  let ?ti = "\<lparr>dt_application_id = py_strip app, dt_dev_eui = eui\<rparr>"
  have tpc: "parse_downlink_topic (cmd_topic c) = Inr ?ti" "py_strip app \<noteq> []"
    using frame(2) device(2) parse_built_topic [of app eui] by (auto simp: is_downlink_topic_def is_ok_iff s(6) eui normalize_eui_text_def)
  have code: "\<exists>st. decode_ack_status code = Inr st"
    using simulator(3) by (auto simp: simulated_ack_status_code_def decode_ack_status_def split: if_splits)
  then obtain st where st: "decode_ack_status code = Inr st" by blast
  note n = encoded_frame_decodes(1,2) [OF s(2)]
  obtain q where q: "build_application_ack_payload (sim_now_iso sim 2) (sim_millis sim) (py_strip app) eui n code 0 = Inr q"
    "on_message sim (cmd_topic c) raw [] = (Inr (), [(event_topic ?ti ''txack'', build_txack_payload (sim_now_iso sim 0) (py_strip uuid)),
       (event_topic ?ti ''ack'', build_network_ack_payload (sim_now_iso sim 1) (py_strip uuid)), (event_topic ?ti ''up'', q)])"
    using simulator_answers [OF tpc(1) simulator(1) metadata_of_stored [OF s(2) frame(3) s(3)] _ n(2) simulator(2,3)] n(1) by auto
  let ?m1 = "(event_topic ?ti ''txack'', build_txack_payload (sim_now_iso sim 0) (py_strip uuid))"
  let ?m2 = "(event_topic ?ti ''ack'', build_network_ack_payload (sim_now_iso sim 1) (py_strip uuid))"
  obtain e1 where e1: "handle_all [(env1, ?m1)] db = db\<lparr>db_cs_events := db_cs_events db @ [e1]\<rparr>" "ce_deduplication_id e1 = None"
    using network_answer [OF models(1) tpc(1) stored(4), of "''txack''"] by (metis build_txack_payload_keys insertI1)
  let ?db1 = "db\<lparr>db_cs_events := db_cs_events db @ [e1]\<rparr>"
  have "db_new_commands ?db1 = []" using stored(4) by simp
  then obtain e2 where e2: "handle_all [(env2, ?m2)] ?db1 = ?db1\<lparr>db_cs_events := db_cs_events ?db1 @ [e2]\<rparr>" "ce_deduplication_id e2 = None"
    using network_answer [OF models(2) tpc(1), of ?db1 "''ack''"] by (metis build_network_ack_payload_keys insertI1 insertI2)
  let ?db2 = "?db1\<lparr>db_cs_events := db_cs_events ?db1 @ [e2]\<rparr>"
  have two: "handle_all [(env1, ?m1), (env2, ?m2)] db = ?db2"
    using e1(1) e2(1) by (simp add: handle_all_def)
  have "\<exists>c'. cmd_status c' = status_after code \<and> cmd_id c' = cmd_id c \<and> cmd_uuid c' = cmd_uuid c \<and>
      set (db_commands (snd (handle_event env3 (event_topic ?ti ''up'') q ?db2))) = insert c' (set (db_commands db) - {c})"
    if up: "en_validate_up env3 (PvDict q) = Inr up" and new: "\<not> en_raced env3"
      "\<forall>x \<in> set (db_cs_events db). deduplication_id_of q \<noteq> Inr (ce_deduplication_id x)" for up
  proof -
    let ?a = "\<lparr>ap_command_id = None, ap_command_seq = Some n, ap_status = st, ap_executed_at = ue_time up, ap_error_message = None\<rparr>"
    let ?c' = "apply_ack (now_of env3) ?a c"
    have "get_device ?db2 eui = Inr (Some d)" using device(1) by (simp add: get_device_def)
    moreover have "validate_device_application_id d (py_strip app) = None"
      using tpc(2) by (simp add: validate_device_application_id_def s(4) or_empty_def Let_def)
    moreover have "seqs_ok ?db2" using stored(1) by (simp add: seqs_ok_def all_commands_def)
    moreover have "\<not> event_exists ?db2 x" if "deduplication_id_of q = Inr (Some x)" for x
      using new(2) that e1(2) e2(2) by (force simp: event_exists_def)
    ultimately have "db_commands (snd (handle_event env3 (event_topic ?ti ''up'') q ?db2)) = put cmd_id ?c' (db_commands db)"
      using application_answer_applied [where tpc = "event_topic ?ti ''up''" and d = d and db = ?db2 and c = c, OF models(3) up new(1) q(1) n(1) st]
        event_topic_parses [OF tpc(1), of "''up''"] device(2) stored s(1) by simp
    moreover have "cmd_id ?c' = cmd_id c" "cmd_uuid ?c' = cmd_uuid c" "cmd_status ?c' = status_after code"
      using status_after_ack [of code ?a] st by (simp_all add: apply_ack_def)
    ultimately show ?thesis using set_put [OF stored(5,2), of ?c'] by (intro exI [of _ ?c']) simp
  qed
  with two q(2) show ?thesis
    by (intro exI [of _ ?m1] exI [of _ ?m2] exI [of _ "(event_topic ?ti ''up'', q)"]) (auto simp: is_ok_iff handle_all_def)
qed

definition sent_sample :: device_command where
  "sent_sample = \<lparr>cmd_id = 1, cmd_uuid = ''u'', cmd_queue_item_id = None, cmd_seq = Some 1, cmd_device_id = 1, cmd_asset_id = None,
     cmd_event_id = None, cmd_type = STOP_CORRECTION, cmd_status = CMD_SENT, cmd_topic = build_topic ''app'' sample_eui,
     cmd_payload = build_payload sample_eui \<lparr>ed_command_id = ''u'', ed_command_seq = 1, ed_command_type = STOP_CORRECTION,
       ed_f_port = COMMAND_FPORT, ed_data = [1, 3, 0, 1, 0], ed_confirmed = True\<rparr> True,
     cmd_qos = 1, cmd_retain = False, cmd_created_at = 0, cmd_sent_at = Some 0, cmd_tx_acked_at = None, cmd_lorawan_ack_at = None,
     cmd_ack_at = None, cmd_failed_at = None, cmd_expires_at = None, cmd_error_message = None\<rparr>"

definition sample_simulator :: simulator_env where
  "sample_simulator = \<lparr>sim_load = \<lambda>_. Some (cmd_payload sent_sample), sim_now_iso = \<lambda>_. ''t'', sim_millis = 7, sim_getenv = None,
     sim_publish_rc = \<lambda>_. 0, sim_decode_text = \<lambda>_. ''''\<rparr>"

definition read_up :: "py_value \<Rightarrow> (string, up_event) res" where
  "read_up v = (case v of
     PvDict p \<Rightarrow>
       (case (map_of p ''fPort'', map_of p ''data'', map_of p ''deviceInfo'') of
          (Some (PvInt n), Some (PvStr s), Some (PvDict i)) \<Rightarrow>
            (case map_of i ''devEui'' of
               Some (PvStr eui) \<Rightarrow>
                 (if map_of p ''object'' \<noteq> None then Inl ''object''
                  else Inr \<lparr>ue_time = None, ue_device_info = \<lparr>di_device_profile_id = None, di_device_name = None,
                      di_dev_eui = normalize_eui_text eui, di_tags = []\<rparr>,
                    ue_fport = Some n, ue_object = None, ue_data = Some s, ue_rx_info = []\<rparr>)
             | _ \<Rightarrow> Inl ''devEui'')
        | _ \<Rightarrow> Inl ''field'')
   | _ \<Rightarrow> Inl ''dict'')"

lemma read_up_ok:
  assumes "read_up (PvDict p) = Inr up"
  shows "\<exists>n s i eui. map_of p ''fPort'' = Some (PvInt n) \<and> map_of p ''data'' = Some (PvStr s) \<and> map_of p ''deviceInfo'' = Some (PvDict i) \<and>
    map_of i ''devEui'' = Some (PvStr eui) \<and> map_of p ''object'' = None \<and>
    ue_fport up = Some n \<and> ue_data up = Some s \<and> ue_object up = None \<and> di_dev_eui (ue_device_info up) = normalize_eui_text eui"
proof -
  obtain n s i where f: "map_of p ''fPort'' = Some (PvInt n)" "map_of p ''data'' = Some (PvStr s)" "map_of p ''deviceInfo'' = Some (PvDict i)"
    using assms by (simp add: read_up_def split: option.splits py_value.splits)
  then obtain eui where "map_of i ''devEui'' = Some (PvStr eui)" "map_of p ''object'' = None"
    using assms by (simp add: read_up_def split: option.splits py_value.splits if_splits)
  with assms f show ?thesis by (auto simp: read_up_def)
qed

lemma read_up_answer: "build_application_ack_payload t m a e n code err = Inr q \<Longrightarrow> is_ok (read_up (PvDict q))"
  by (auto simp: build_application_ack_payload_def read_up_def split: if_splits)

definition sample_ack_env :: event_env where
  "sample_ack_env = sample_event_env\<lparr>en_validate_up := read_up\<rparr>"

definition sample_command_db :: tlrs_db where
  "sample_command_db = empty_db\<lparr>db_devices := [sample_device], db_commands := [sent_sample]\<rparr>"

lemma sample_frame:
  "encode_command_downlink ''u'' 1 STOP_CORRECTION None = Inr \<lparr>ed_command_id = ''u'', ed_command_seq = 1,
     ed_command_type = STOP_CORRECTION, ed_f_port = COMMAND_FPORT, ed_data = [1, 3, 0, 1, 0], ed_confirmed = True\<rparr>"
  by (simp add: encode_command_downlink_def validate_command_seq_def normalize_flags_def encode_command_payload_def
      command_type_to_code_def contract_defs pack_u8_def pack_16_def Let_def)

lemma sample_frame_fields: "encode_command_downlink ''u'' 1 STOP_CORRECTION (Some []) = Inr \<lparr>ed_command_id = ''u'', ed_command_seq = 1,
     ed_command_type = STOP_CORRECTION, ed_f_port = COMMAND_FPORT, ed_data = [1, 3, 0, 1, 0], ed_confirmed = True\<rparr>"
  using sample_frame by (simp add: encode_command_downlink_def)

theorem simulated_device_acknowledges_witness:
  "\<exists>ms. on_message sample_simulator (cmd_topic sent_sample) [] [] = (Inr (), ms) \<and>
     (\<exists>c' \<in> set (db_commands (handle_all (map (Pair sample_ack_env) ms) sample_command_db)). cmd_status c' = CMD_ACKED)"
proof -
  obtain p where p: "cmd_payload sent_sample = PvDict p" by (simp add: sent_sample_def build_payload_def)
  have frame: "resolve_command_transport sample_device ''u'' (cmd_seq sent_sample) STOP_CORRECTION None = Inr (Some (cmd_topic sent_sample, PvDict p))"
    unfolding p [symmetric]
    by (simp add: resolve_command_transport_def sample_device_def sent_sample_def sample_frame or_empty_def sample_eui_def)
  have "CHR ''/'' \<notin> set ''app'' \<and> CHR ''/'' \<notin> set sample_eui \<and> py_strip ''app'' = ''app'' \<and> py_compact sample_eui \<noteq> []" by code_simp
  then have parsed: "\<exists>ti. parse_downlink_topic (cmd_topic sent_sample) = Inr ti" by (simp add: sent_sample_def parse_built_topic)
  then have topic: "is_downlink_topic (cmd_topic sent_sample)" by (simp add: is_downlink_topic_def is_ok_iff)
  have strip: "py_strip ''u'' \<noteq> []" by code_simp
  have "py_upper (py_strip ''EXECUTED'') = ''EXECUTED''" by code_simp
  then have code: "simulated_ack_status_code sample_simulator = Inr 1"
    by (simp add: simulated_ack_status_code_def simulated_ack_status_def sample_simulator_def)
  have eui: "normalize_eui_text sample_eui = sample_eui" by code_simp
  have dev: "get_device sample_command_db sample_eui = Inr (Some sample_device)"
    by (rule sample_known_device) (simp add: sample_command_db_def)
  have seqs: "seqs_ok sample_command_db"
  proof -
    have "device_seqs dev (all_commands sample_command_db) = (if dev = 1 then [1] else [])" for dev
      by (simp add: device_seqs_def all_commands_def sample_command_db_def empty_db_def) (simp add: sent_sample_def)
    then show ?thesis by (simp add: seqs_ok_def MIN_COMMAND_SEQ_def MAX_COMMAND_SEQ_def)
  qed
  have models: "pydantic_reads sample_ack_env"
    unfolding pydantic_reads_def
    by (intro conjI allI impI; clarsimp simp: sample_ack_env_def sample_event_env_def dest!: read_up_ok)
  have load: "sim_load sample_simulator [] = Some (PvDict p)" "\<forall>x. sim_publish_rc sample_simulator x = 0"
    by (simp_all add: sample_simulator_def p)
  have rows: "sent_sample \<in> set (db_commands sample_command_db)" "cmd_device_id sent_sample = d_id sample_device"
    "db_new_commands sample_command_db = []" "distinct (map cmd_id (db_commands sample_command_db))" "db_cs_events sample_command_db = []"
    by (simp_all add: sample_command_db_def empty_db_def) (simp add: sent_sample_def sample_device_def)
  obtain m1 m2 ack where run: "on_message sample_simulator (cmd_topic sent_sample) [] [] = (Inr (), [m1, m2, ack])"
    and acked: "is_ok (en_validate_up sample_ack_env (PvDict (snd ack))) \<and> \<not> en_raced sample_ack_env \<and>
      (\<forall>x \<in> set (db_cs_events sample_command_db). deduplication_id_of (snd ack) \<noteq> Inr (ce_deduplication_id x)) \<longrightarrow>
      (\<exists>c'. cmd_status c' = status_after 1 \<and> cmd_id c' = cmd_id sent_sample \<and> cmd_uuid c' = cmd_uuid sent_sample \<and>
       set (db_commands (handle_all [(sample_ack_env, m1), (sample_ack_env, m2), (sample_ack_env, ack)] sample_command_db)) =
         insert c' (set (db_commands sample_command_db) - {sent_sample}))"
    using simulated_device_acknowledges [OF frame topic strip load code dev eui seqs rows(1-4) models models models] by (elim exE conjE)
  obtain ti where ti: "parse_downlink_topic (cmd_topic sent_sample) = Inr ti" using parsed by blast
  have meta: "extract_command_metadata sample_simulator p = (Some (py_strip ''u''), Some 1, None)"
    by (rule metadata_of_stored [OF _ strip, where eui = sample_eui]) (rule sample_frame_fields, simp add: p [symmetric] sent_sample_def)
  have "\<exists>now_iso millis. build_application_ack_payload now_iso millis (dt_application_id ti) (dt_dev_eui ti) 1 1 0 = Inr (snd ack)"
    by (rule simulator_answers [OF ti load(1) meta _ _ load(2) code]) (use run in auto)
  then have "is_ok (read_up (PvDict (snd ack)))" by (blast intro: read_up_answer)
  then have "is_ok (en_validate_up sample_ack_env (PvDict (snd ack)))" by (simp add: sample_ack_env_def)
  moreover have "\<not> en_raced sample_ack_env" by (simp add: sample_ack_env_def sample_event_env_def)
  ultimately obtain c' where "cmd_status c' = CMD_ACKED"
    "c' \<in> set (db_commands (handle_all [(sample_ack_env, m1), (sample_ack_env, m2), (sample_ack_env, ack)] sample_command_db))"
    using acked rows(5) by (auto simp: status_after_def)
  with run show ?thesis by (intro exI [of _ "[m1, m2, ack]"]) auto
qed

end
