(* ===== verification/Location_Simulator.thy ===== *)
theory Location_Simulator
  imports ChirpStack_Payload App_Settings
begin

text \<open>
  The simulated tracker, \<open>scripts/simulate_chirpstack_up_events.py\<close>: a route over the polygon of a
  geofence, read from its EWKB text, and the uplinks that report it.  Floats are rationals; a
  double in the shape is its eight bytes, most significant first.  The environment is a map, the
  clock, \<open>math.cos\<close>, \<open>random.uniform\<close> and \<open>float\<close> of a text are parameters.
\<close>

subsection \<open>Reading EWKB\<close>

text \<open>The reader's state is its offset; an exception is its text.\<close>

type_synonym 'a reading = "(nat, string, 'a) act"

record 'c point =
  pt_lng :: 'c
  pt_lat :: 'c

type_synonym double = "byte list"

definition hex_value :: "char \<Rightarrow> nat option" where
  "hex_value c = (let n = of_char c in
     if 48 \<le> n \<and> n \<le> 57 then Some (n - 48)
     else if 97 \<le> n \<and> n \<le> 102 then Some (n - 87)
     else if 65 \<le> n \<and> n \<le> 70 then Some (n - 55) else None)"

fun bytes_fromhex :: "string \<Rightarrow> (string, byte list) res" where
  "bytes_fromhex [] = Inr []"
| "bytes_fromhex (a # b # s) =
     (case (hex_value a, hex_value b) of
        (Some x, Some y) \<Rightarrow> bindE (bytes_fromhex s) (\<lambda>bs. Inr (of_nat (16 * x + y) # bs))
      | _ \<Rightarrow> Inl ''non-hexadecimal number found in fromhex() arg'')"
| "bytes_fromhex _ = Inl ''non-hexadecimal number found in fromhex() arg''"

definition little_endian :: "int \<Rightarrow> (string, bool) res" where
  "little_endian byte_order = (if byte_order = 0 then Inr False else if byte_order = 1 then Inr True
     else Inl ''Invalid EWKB byte order.'')"

definition take_bytes :: "byte list \<Rightarrow> nat \<Rightarrow> byte list reading" where
  "take_bytes data n offset =
     (if length data < offset + n then (Inl ''unpack_from requires a larger buffer'', offset)
      else (Inr (take n (drop offset data)), offset + n))"

definition read_uint32 :: "byte list \<Rightarrow> bool \<Rightarrow> int reading" where
  "read_uint32 data little = bindS (take_bytes data 4) (\<lambda>bs. retS (u32_at (if little then rev bs else bs) 0))"

definition read_double :: "byte list \<Rightarrow> bool \<Rightarrow> double reading" where
  "read_double data little = bindS (take_bytes data 8) (\<lambda>bs. retS (if little then rev bs else bs))"

definition read_byte :: "byte list \<Rightarrow> int reading" where
  "read_byte data offset = (if offset < length data then (Inr (u8_at data offset), offset + 1)
     else (Inl ''index out of range'', offset))"

definition read_header :: "byte list \<Rightarrow> (bool \<times> int) reading" where
  "read_header data =
     bindS (read_byte data) (\<lambda>byte_order.
     bindS (liftS (little_endian byte_order)) (\<lambda>little.
     bindS (read_uint32 data little) (\<lambda>geometry_type. retS (little, geometry_type))))"

fun read_many :: "nat \<Rightarrow> 'a reading \<Rightarrow> 'a list reading" where
  "read_many 0 m = retS []"
| "read_many (Suc n) m = bindS m (\<lambda>x. bindS (read_many n m) (\<lambda>xs. retS (x # xs)))"

definition read_point :: "byte list \<Rightarrow> bool \<Rightarrow> double point reading" where
  "read_point data little = bindS (read_double data little) (\<lambda>lng. bindS (read_double data little) (\<lambda>lat.
     retS \<lparr>pt_lng = lng, pt_lat = lat\<rparr>))"

definition read_ring :: "byte list \<Rightarrow> bool \<Rightarrow> double point list reading" where
  "read_ring data little = bindS (read_uint32 data little) (\<lambda>point_count. read_many (nat point_count) (read_point data little))"

definition read_polygon :: "byte list \<Rightarrow> double point list list reading" where
  "read_polygon data =
     bindS (read_header data) (\<lambda>(little, geometry_type).
       if geometry_type mod 256 \<noteq> 3 then raiseS ''Expected Polygon inside MultiPolygon EWKB.''
       else bindS (read_uint32 data little) (\<lambda>ring_count. read_many (nat ring_count) (read_ring data little)))"

definition read_multipolygon :: "byte list \<Rightarrow> double point list list list reading" where
  "read_multipolygon data =
     bindS (read_header data) (\<lambda>(little, geometry_type).
       if geometry_type mod 256 \<noteq> 6 then raiseS ''The provided shape must be an EWKB MultiPolygon.''
       else bindS (if geometry_type div 536870912 mod 2 = 1 then bindS (read_uint32 data little) (\<lambda>_. retS ()) else retS ()) (\<lambda>_.
            bindS (read_uint32 data little) (\<lambda>polygon_count. read_many (nat polygon_count) (read_polygon data))))"

definition read_shape :: "string \<Rightarrow> (string, double point list list list) res" where
  "read_shape hex_text = bindE (bytes_fromhex (py_compact hex_text)) (\<lambda>data. fst (read_multipolygon data 0))"

text \<open>The number a double stands for, if it is finite.\<close>

definition double_value :: "double \<Rightarrow> rat option" where
  "double_value bs =
     (let e = (u16_at bs 0 div 16) mod 2048;
          m = (u16_at bs 0 mod 16) * 2 ^ 48 + (u16_at bs 2) * 2 ^ 32 + u32_at bs 4;
          sign = (if u8_at bs 0 \<ge> 128 then -1 else 1 :: rat)
      in if e = 2047 then None
         else if e = 0 then Some (sign * of_int m / 2 ^ 1074)
         else if e \<ge> 1075 then Some (sign * of_int ((2 ^ 52 + m) * 2 ^ nat (e - 1075)))
         else Some (sign * of_int (2 ^ 52 + m) / 2 ^ nat (1075 - e)))"

subsection \<open>Geometry\<close>

definition pairs :: "'a list \<Rightarrow> ('a \<times> 'a) list" where
  "pairs points = map (\<lambda>i. (points ! i, points ! ((i + 1) mod length points))) [0..<length points]"

definition cross :: "rat point \<Rightarrow> rat point \<Rightarrow> rat" where
  "cross p q = pt_lng p * pt_lat q - pt_lng q * pt_lat p"

definition polygon_centroid :: "rat point list \<Rightarrow> (string, rat point) res" where
  "polygon_centroid ring =
     (if ring = [] then Inl ''list index out of range''
      else let points = (if hd ring = last ring then butlast ring else ring);
               signed_area = sum_list (map (\<lambda>(p, q). cross p q) (pairs points)) * (1 / 2);
               centroid_lng = sum_list (map (\<lambda>(p, q). (pt_lng p + pt_lng q) * cross p q) (pairs points));
               centroid_lat = sum_list (map (\<lambda>(p, q). (pt_lat p + pt_lat q) * cross p q) (pairs points))
      in if \<bar>signed_area\<bar> < 1 / 1000000000 then
           (if points = [] then Inl ''division by zero''
            else Inr \<lparr>pt_lng = sum_list (map pt_lng points) / of_nat (length points),
                      pt_lat = sum_list (map pt_lat points) / of_nat (length points)\<rparr>)
         else Inr \<lparr>pt_lng = centroid_lng / (6 * signed_area), pt_lat = centroid_lat / (6 * signed_area)\<rparr>)"

text \<open>Distances are compared by their squares; the first of several farthest points is taken.\<close>

definition distance_squared :: "rat point \<Rightarrow> rat point \<Rightarrow> rat" where
  "distance_squared p q = (pt_lng p - pt_lng q) * (pt_lng p - pt_lng q) + (pt_lat p - pt_lat q) * (pt_lat p - pt_lat q)"

definition farthest_point :: "rat point \<Rightarrow> rat point list \<Rightarrow> (string, rat point) res" where
  "farthest_point origin points = (case points of [] \<Rightarrow> Inl ''max() iterable argument is empty''
     | p # ps \<Rightarrow> Inr (fold (\<lambda>q best. if distance_squared origin best < distance_squared origin q then q else best) ps p))"

definition interpolate :: "rat point \<Rightarrow> rat point \<Rightarrow> rat \<Rightarrow> rat point" where
  "interpolate p q ratio = \<lparr>pt_lng = pt_lng p + (pt_lng q - pt_lng p) * ratio, pt_lat = pt_lat p + (pt_lat q - pt_lat p) * ratio\<rparr>"

text \<open>\<open>uniform i\<close> is the \<open>i\<close>-th draw, in units of the bound.\<close>

definition jitter :: "(rat \<Rightarrow> rat) \<Rightarrow> (nat \<Rightarrow> rat) \<Rightarrow> rat point \<Rightarrow> rat \<Rightarrow> rat point" where
  "jitter cos_degrees uniform point jitter_meters =
     (if jitter_meters \<le> 0 then point
      else let meters_per_degree_lat = 111320; meters_per_degree_lng = meters_per_degree_lat * cos_degrees (pt_lat point)
      in \<lparr>pt_lng = pt_lng point + uniform 0 * jitter_meters / meters_per_degree_lng,
          pt_lat = pt_lat point + uniform 1 * jitter_meters / meters_per_degree_lat\<rparr>)"

subsection \<open>Routes\<close>

record sim_point =
  sp_lat :: rat
  sp_lng :: rat
  sp_altitude :: rat
  sp_accuracy :: rat
  sp_battery :: rat
  sp_label :: "string option"

definition DEFAULT_STATIC_POINTS :: "sim_point list" where
  "DEFAULT_STATIC_POINTS =
     [\<lparr>sp_lat = -333012 / 10000, sp_lng = -663371 / 10000, sp_altitude = 5204 / 10, sp_accuracy = 48 / 10, sp_battery = 87, sp_label = None\<rparr>,
      \<lparr>sp_lat = -3330105 / 100000, sp_lng = -6633685 / 100000, sp_altitude = 521, sp_accuracy = 46 / 10, sp_battery = 86, sp_label = None\<rparr>,
      \<lparr>sp_lat = -333009 / 10000, sp_lng = -6633655 / 100000, sp_altitude = 5217 / 10, sp_accuracy = 49 / 10, sp_battery = 85, sp_label = None\<rparr>]"

text \<open>\<open>round(x)\<close>: to the nearest integer, a half to the even one; \<open>round(x, 7)\<close>.\<close>

definition py_round :: "rat \<Rightarrow> int" where
  "py_round x = (let k = \<lfloor>x\<rfloor>; r = x - of_int k in
     if r < 1 / 2 then k else if r > 1 / 2 then k + 1 else if even k then k else k + 1)"

definition round_7 :: "rat \<Rightarrow> rat" where
  "round_7 x = of_int (py_round (x * 10000000)) / 10000000"

definition getenv :: "(string \<rightharpoonup> string) \<Rightarrow> string \<Rightarrow> string \<Rightarrow> string" where
  "getenv environ name fallback = (case environ name of None \<Rightarrow> fallback | Some v \<Rightarrow> v)"

definition env_bool :: "(string \<rightharpoonup> string) \<Rightarrow> string \<Rightarrow> bool \<Rightarrow> bool" where
  "env_bool environ name fallback = (case environ name of None \<Rightarrow> fallback
     | Some v \<Rightarrow> py_lower (py_strip v) \<in> {''1'', ''true'', ''yes'', ''on''})"

definition mqtt_host :: "(string \<rightharpoonup> string) \<Rightarrow> settings \<Rightarrow> string" where
  "mqtt_host environ s = or_text (environ ''CHIRPSTACK_MQTT_HOST'') (chirpstack_event_mqtt_host s)"

definition mqtt_port :: "(string \<rightharpoonup> string) \<Rightarrow> settings \<Rightarrow> (py_exc, int) res" where
  "mqtt_port environ s = (case environ ''CHIRPSTACK_MQTT_PORT'' of
     None \<Rightarrow> Inr (chirpstack_event_mqtt_port s)
   | Some v \<Rightarrow> if v = [] then Inr (chirpstack_event_mqtt_port s) else py_int (PvStr v))"

definition mqtt_username :: "(string \<rightharpoonup> string) \<Rightarrow> settings \<Rightarrow> string" where
  "mqtt_username environ s = or_text (environ ''CHIRPSTACK_MQTT_USERNAME'') (chirpstack_event_mqtt_username s)"

definition mqtt_password :: "(string \<rightharpoonup> string) \<Rightarrow> settings \<Rightarrow> string" where
  "mqtt_password environ s = or_text (environ ''CHIRPSTACK_MQTT_PASSWORD'') (chirpstack_event_mqtt_password s)"

definition mqtt_tls_enabled :: "(string \<rightharpoonup> string) \<Rightarrow> settings \<Rightarrow> bool" where
  "mqtt_tls_enabled environ s = (if environ ''CHIRPSTACK_MQTT_USE_TLS'' \<noteq> None
     then env_bool environ ''CHIRPSTACK_MQTT_USE_TLS'' False else chirpstack_event_mqtt_tls_enabled s)"

text \<open>
  \<open>py_float\<close> is \<open>float\<close> of a text.  A shape with a coordinate that is no finite number is
  outside the model: \<open>finite_point\<close> turns it into an error here.
\<close>

definition finite_point :: "double point \<Rightarrow> (string, rat point) res" where
  "finite_point p = (case (double_value (pt_lng p), double_value (pt_lat p)) of
     (Some x, Some y) \<Rightarrow> Inr \<lparr>pt_lng = x, pt_lat = y\<rparr> | _ \<Rightarrow> Inl ''coordinate is not finite'')"

definition route_of :: "string \<Rightarrow> (string, (rat \<times> rat \<times> string) list) res" where
  "route_of scenario =
     (if scenario = ''inside-outside'' then
        Inr [(20 / 100, 48 / 10, ''inside''), (72 / 100, 46 / 10, ''near-limit''), (118 / 100, 49 / 10, ''outside'')]
      else if scenario = ''outside-only'' then
        Inr [(110 / 100, 48 / 10, ''outside''), (118 / 100, 46 / 10, ''outside''), (126 / 100, 49 / 10, ''outside'')]
      else Inl ''CHIRPSTACK_SIM_SCENARIO must be one of: static, inside-outside, outside-only'')"

definition build_points_for_scenario ::
  "(string \<Rightarrow> (string, rat) res) \<Rightarrow> (rat \<Rightarrow> rat) \<Rightarrow> (nat \<Rightarrow> nat \<Rightarrow> rat) \<Rightarrow> (string \<rightharpoonup> string) \<Rightarrow> (string, string \<times> sim_point list) res" where
  "build_points_for_scenario py_float cos_degrees uniform environ =
     (let scenario = py_lower (py_strip (getenv environ ''CHIRPSTACK_SIM_SCENARIO'' ''static'')) in
      if scenario = ''static'' then Inr (scenario, DEFAULT_STATIC_POINTS)
      else let shape_hex = getenv environ ''CHIRPSTACK_SHAPE_HEX'' [] in
        if shape_hex = [] then Inl (''CHIRPSTACK_SHAPE_HEX is required when CHIRPSTACK_SIM_SCENARIO is not '' @ [CHR 0x27] @ ''static'' @ [CHR 0x27])
        else bindE (read_shape shape_hex) (\<lambda>multipolygon.
          case multipolygon of
            (outer # _) # _ \<Rightarrow>
              bindE (mapE finite_point outer) (\<lambda>outer_ring.
              bindE (polygon_centroid outer_ring) (\<lambda>center.
              bindE (farthest_point center (butlast outer_ring)) (\<lambda>boundary.
              bindE (py_float (getenv environ ''CHIRPSTACK_SIM_ALTITUDE'' ''520.4'')) (\<lambda>altitude.
              bindE (case py_int (PvStr (getenv environ ''CHIRPSTACK_SIM_BATTERY_START'' ''87'')) of
                  Inl _ \<Rightarrow> Inl ''invalid literal for int() with base 10'' | Inr n \<Rightarrow> Inr n) (\<lambda>battery_start.
              bindE (py_float (getenv environ ''CHIRPSTACK_SIM_JITTER_METERS'' ''0'')) (\<lambda>jitter_meters.
              bindE (route_of scenario) (\<lambda>route.
                Inr (scenario, map (\<lambda>(index, ratio, accuracy, label).
                  let point = jitter cos_degrees (uniform index) (interpolate center boundary ratio) jitter_meters
                  in \<lparr>sp_lat = round_7 (pt_lat point), sp_lng = round_7 (pt_lng point),
                      sp_altitude = altitude + of_nat index * (1 / 2), sp_accuracy = accuracy,
                      sp_battery = of_int (battery_start - int index), sp_label = Some label\<rparr>)
                  (zip [0..<length route] route)))))))))
          | _ \<Rightarrow> Inl ''list index out of range''))"

subsection \<open>Uplinks\<close>

text \<open>\<open>struct.pack\<close> refuses a coordinate or an altitude outside its field.\<close>

definition encode_location_payload :: "sim_point \<Rightarrow> (string, string) res" where
  "encode_location_payload point =
     (let lat = py_round (sp_lat point * 10000000); lng = py_round (sp_lng point * 10000000); altitude = py_round (sp_altitude point)
      in if lat < -2147483648 \<or> 2147483647 < lat \<or> lng < -2147483648 \<or> 2147483647 < lng
           then Inl ''argument out of range''
         else if altitude < -32768 \<or> 32767 < altitude then Inl ''short format requires (-32768) <= number <= 32767''
         else Inr (b64encode (pack_u8 PROTOCOL_VERSION_V1 @ pack_u8 LOCATION_MESSAGE_TYPE @ pack_32 lat @ pack_32 lng @ pack_16 altitude @
           pack_u8 (max 0 (min 255 (py_round (sp_accuracy point)))) @ pack_u8 (max 0 (min 255 (py_round (sp_battery point)))) @ pack_u8 1)))"

definition point_object :: "sim_point \<Rightarrow> py_value" where
  "point_object point = PvDict ([(''lat'', PvFloat (sp_lat point)), (''lng'', PvFloat (sp_lng point)), (''altitude'', PvFloat (sp_altitude point)),
     (''accuracy'', PvFloat (sp_accuracy point)), (''battery'', PvFloat (sp_battery point))] @
     (case sp_label point of None \<Rightarrow> [] | Some l \<Rightarrow> [(''sim_label'', PvStr l)]))"

definition uplink_payload ::
  "(string \<rightharpoonup> string) \<Rightarrow> string \<Rightarrow> string \<Rightarrow> string \<Rightarrow> string \<Rightarrow> nat \<Rightarrow> (string \<times> py_value) list" where
  "uplink_payload environ application_id dev_eui run_id now_iso index =
     [(''deduplicationId'', PvStr (''sim-'' @ dev_eui @ ''-'' @ run_id @ ''-'' @ py_str_int (int index))),
      (''time'', PvStr now_iso),
      (''deviceInfo'', PvDict [(''tenantId'', PvStr (getenv environ ''CHIRPSTACK_TENANT_ID'' ''manea-tenant-dev'')),
         (''tenantName'', PvStr (getenv environ ''CHIRPSTACK_TENANT_NAME'' ''Manea'')),
         (''applicationId'', PvStr application_id),
         (''applicationName'', PvStr (getenv environ ''CHIRPSTACK_APPLICATION_NAME'' ''Manea Dev'')),
         (''deviceProfileId'', PvStr (getenv environ ''CHIRPSTACK_DEVICE_PROFILE_ID'' ''collar-gps-profile'')),
         (''deviceProfileName'', PvStr (getenv environ ''CHIRPSTACK_DEVICE_PROFILE_NAME'' ''Collar GPS'')),
         (''deviceName'', PvStr (getenv environ ''CHIRPSTACK_DEVICE_NAME'' ''Collar 001'')),
         (''devEui'', PvStr dev_eui),
         (''tags'', PvDict [(''serial'', PvStr (getenv environ ''CHIRPSTACK_DEVICE_SERIAL'' ''COLLAR-001''))])]),
      (''fPort'', PvInt 10),
      (''rxInfo'', PvList [
         PvDict [(''gatewayId'', PvStr (getenv environ ''CHIRPSTACK_GATEWAY_ID'' ''gateway-sim-001'')), (''rssi'', PvInt (-72)), (''snr'', PvFloat (85 / 10))],
         PvDict [(''gatewayId'', PvStr (getenv environ ''CHIRPSTACK_GATEWAY_ID_SECONDARY'' ''gateway-sim-002'')), (''rssi'', PvInt (-75)), (''snr'', PvFloat (79 / 10))]])]"

definition build_messages ::
  "(string \<rightharpoonup> string) \<Rightarrow> (nat \<Rightarrow> string) \<Rightarrow> string \<Rightarrow> string \<Rightarrow> string \<Rightarrow> sim_point list \<Rightarrow> (string, (string \<times> (string \<times> py_value) list) list) res" where
  "build_messages environ now_iso application_id dev_eui run_id points =
     (let tpc = ''application/'' @ application_id @ ''/device/'' @ dev_eui @ ''/event/up'';
          payload_format = py_lower (py_strip (getenv environ ''CHIRPSTACK_SIM_FORMAT'' ''binary''))
      in mapE (\<lambda>(index, point).
           let payload = uplink_payload environ application_id dev_eui run_id (now_iso index) index in
           if payload_format = ''legacy'' then Inr (tpc, payload @ [(''object'', point_object point)])
           else bindE (encode_location_payload point) (\<lambda>data. Inr (tpc, payload @ [(''data'', PvStr data)])))
         (zip [1..<Suc (length points)] points))"

subsection \<open>Rounding\<close>

lemma py_round_near: "\<bar>of_int (py_round x) - x\<bar> \<le> 1 / 2"
proof -
  have "of_int \<lfloor>x\<rfloor> \<le> x" "x < of_int \<lfloor>x\<rfloor> + 1" by linarith+
  then show ?thesis by (auto simp: py_round_def Let_def abs_le_iff)
qed

lemma py_round_bounded:
  assumes "\<bar>x\<bar> \<le> of_int k"
  shows "\<bar>py_round x\<bar> \<le> k"
proof -
  have "of_int (py_round x) < (of_int (k + 1) :: rat)" "(of_int (- k - 1) :: rat) < of_int (py_round x)"
    using assms py_round_near [of x] unfolding abs_le_iff by simp_all
  then show ?thesis unfolding of_int_less_iff by linarith
qed

lemma clamp_near:
  assumes "0 \<le> x" "x \<le> 255"
  shows "\<bar>of_int (max 0 (min 255 (py_round x))) - x\<bar> \<le> 1 / 2"
proof -
  have "\<bar>py_round x\<bar> \<le> 255" using assms py_round_bounded [of x 255] by simp
  moreover have "(of_int (- 1) :: rat) < of_int (py_round x)" using assms py_round_near [of x] unfolding abs_le_iff by simp
  then have "0 \<le> py_round x" unfolding of_int_less_iff by linarith
  ultimately have "max 0 (min 255 (py_round x)) = py_round x" by simp
  then show ?thesis using py_round_near by simp
qed

text \<open>
  What the tracker reports arrives: for a point on the globe the simulator's binary payload
  decodes to a position at most half a unit of the seventh decimal away from it, with the
  altitude, and the accuracy and battery level if they fit a byte, rounded to the nearest
  integer; so the service sees the simulated point, with a GPS fix.
\<close>
lemma simulated_position_decodes:
  assumes "encode_location_payload pt = Inr data" "ue_data event = Some data" "\<bar>sp_lat pt\<bar> \<le> 90" "\<bar>sp_lng pt\<bar> \<le> 180"
  shows "\<exists>t lat lng alt acc bat. decode_location_payload_v1 event = Inr t \<and>
    nt_latitude t = Finite lat \<and> \<bar>lat - sp_lat pt\<bar> \<le> 1 / 20000000 \<and>
    nt_longitude t = Finite lng \<and> \<bar>lng - sp_lng pt\<bar> \<le> 1 / 20000000 \<and>
    nt_altitude t = Some (Finite alt) \<and> \<bar>alt - sp_altitude pt\<bar> \<le> 1 / 2 \<and>
    nt_accuracy t = Some (Finite acc) \<and> (sp_accuracy pt \<in> {0..255} \<longrightarrow> \<bar>acc - sp_accuracy pt\<bar> \<le> 1 / 2) \<and>
    te_battery (nt_extra t) = Some (Finite bat) \<and> (sp_battery pt \<in> {0..255} \<longrightarrow> \<bar>bat - sp_battery pt\<bar> \<le> 1 / 2)"
proof -
  let ?lat = "py_round (sp_lat pt * 10000000)" and ?lng = "py_round (sp_lng pt * 10000000)" and ?alt = "py_round (sp_altitude pt)"
  let ?acc = "max 0 (min 255 (py_round (sp_accuracy pt)))" and ?bat = "max 0 (min 255 (py_round (sp_battery pt)))"
  have alt: "- 32768 \<le> ?alt" "?alt < 32768" and data: "data = b64encode (location_bytes ?lat ?lng ?alt ?acc ?bat 1)"
    using assms(1) by (auto simp: encode_location_payload_def location_bytes_def Let_def split: if_splits)
  have lat: "\<bar>?lat\<bar> \<le> 900000000" by (rule py_round_bounded) (use assms(3) in \<open>simp add: abs_mult\<close>)
  have lng: "\<bar>?lng\<bar> \<le> 1800000000" by (rule py_round_bounded) (use assms(4) in \<open>simp add: abs_mult\<close>)
  have "ue_data event = Some (b64encode (location_bytes ?lat ?lng ?alt ?acc ?bat 1))" using assms(2) data by simp
  moreover have "0 \<le> ?acc" "?acc < 256" "0 \<le> ?bat" "?bat < 256" "(0::int) \<le> 1" "(1::int) \<le> 3" by simp_all
  ultimately obtain t where t: "decode_location_payload_v1 event = Inr t" "nt_latitude t = Finite (of_int ?lat / 10000000)"
      "nt_longitude t = Finite (of_int ?lng / 10000000)" "nt_altitude t = Some (Finite (of_int ?alt))" "nt_accuracy t = Some (Finite (of_int ?acc))"
      "te_battery (nt_extra t) = Some (Finite (of_int ?bat))"
    using location_payload_roundtrip [OF lat lng alt, of ?acc ?bat 1 event] by (auto simp: GPS_FIX_NO_FIX_def simp del: of_int_max)
  have near: "\<bar>of_int (py_round (x * 10000000)) / 10000000 - x\<bar> \<le> 1 / 20000000" for x :: rat
    using py_round_near [of "x * 10000000"] by (simp add: abs_le_iff field_simps)
  have "\<bar>of_int ?lat / 10000000 - sp_lat pt\<bar> \<le> 1 / 20000000" "\<bar>of_int ?lng / 10000000 - sp_lng pt\<bar> \<le> 1 / 20000000"
    by (rule near)+
  moreover have "\<bar>of_int ?alt - sp_altitude pt\<bar> \<le> 1 / 2" by (rule py_round_near)
  moreover have "sp_accuracy pt \<in> {0..255} \<longrightarrow> \<bar>of_int ?acc - sp_accuracy pt\<bar> \<le> 1 / 2"
    "sp_battery pt \<in> {0..255} \<longrightarrow> \<bar>of_int ?bat - sp_battery pt\<bar> \<le> 1 / 2"
    by (intro impI clamp_near; simp only: atLeastAtMost_iff)+
  ultimately show ?thesis using t by blast
qed

lemma default_point_encodes: "\<exists>data. encode_location_payload (hd DEFAULT_STATIC_POINTS) = Inr data"
proof -
  have "\<bar>py_round (sp_lat (hd DEFAULT_STATIC_POINTS) * 10000000)\<bar> \<le> 900000000" "\<bar>py_round (sp_lng (hd DEFAULT_STATIC_POINTS) * 10000000)\<bar> \<le> 1800000000"
    "\<bar>py_round (sp_altitude (hd DEFAULT_STATIC_POINTS))\<bar> \<le> 1000"
    by (rule py_round_bounded, simp add: DEFAULT_STATIC_POINTS_def)+
  then have "\<not> (py_round (sp_lat (hd DEFAULT_STATIC_POINTS) * 10000000) < -2147483648 \<or> 2147483647 < py_round (sp_lat (hd DEFAULT_STATIC_POINTS) * 10000000) \<or>
      py_round (sp_lng (hd DEFAULT_STATIC_POINTS) * 10000000) < -2147483648 \<or> 2147483647 < py_round (sp_lng (hd DEFAULT_STATIC_POINTS) * 10000000))"
    "\<not> (py_round (sp_altitude (hd DEFAULT_STATIC_POINTS)) < -32768 \<or> 32767 < py_round (sp_altitude (hd DEFAULT_STATIC_POINTS)))"
    by linarith+
  then show ?thesis unfolding encode_location_payload_def Let_def by (simp only: if_False) blast
qed

end
