(* ===== verification/Shape_Format.thy ===== *)
theory Shape_Format
  imports Location_Simulator
begin

text \<open>
  The EWKB reader of the simulated tracker against the format: a writer for multipolygons in
  either byte order, with or without a reference system, and the proof that the reader gives the
  shape back and never reads past the end of its data.
\<close>

subsection \<open>Readers\<close>

text \<open>
  A reader reads \<open>bs\<close> as \<open>x\<close> when it does so wherever \<open>bs\<close> stands in the data; readers compose.
\<close>

definition reads :: "(byte list \<Rightarrow> 'a reading) \<Rightarrow> byte list \<Rightarrow> 'a \<Rightarrow> bool" where
  "reads m bs x \<longleftrightarrow> (\<forall>pre post. m (pre @ bs @ post) (length pre) = (Inr x, length pre + length bs))"

lemma readsI: "(\<And>pre post. m (pre @ bs @ post) (length pre) = (Inr x, length pre + length bs)) \<Longrightarrow> reads m bs x"
  by (simp add: reads_def)

lemma reads_bind:
  assumes "reads m bs x" "reads (\<lambda>data. k data x) cs y"
  shows "reads (\<lambda>data. bindS (m data) (k data)) (bs @ cs) y"
proof (rule readsI)
  fix pre post :: "byte list"
  have "m (pre @ bs @ cs @ post) (length pre) = (Inr x, length (pre @ bs))" using assms(1) by (simp add: reads_def)
  moreover have "k ((pre @ bs) @ cs @ post) x (length (pre @ bs)) = (Inr y, length (pre @ bs) + length cs)"
    using assms(2) unfolding reads_def by blast
  ultimately show "bindS (m (pre @ (bs @ cs) @ post)) (k (pre @ (bs @ cs) @ post)) (length pre) = (Inr y, length pre + length (bs @ cs))"
    by simp
qed

lemma reads_ret: "reads (\<lambda>data. retS x) [] x"
  by (simp add: reads_def)

lemma reads_last: "reads m bs x \<Longrightarrow> f x = y \<Longrightarrow> reads (\<lambda>data. bindS (m data) (\<lambda>x. retS (f x))) bs y"
  using reads_bind [of m bs x "\<lambda>data x. retS (f x)" "[]"] reads_ret by fastforce

lemma reads_pure: "reads (k x) bs y \<Longrightarrow> reads (\<lambda>data. bindS (liftS (Inr x)) (\<lambda>x. k x data)) bs y"
  by (simp add: reads_def bindS_def)

lemma reads_many:
  assumes "\<And>x. x \<in> set xs \<Longrightarrow> reads m (enc x) (f x)"
  shows "reads (\<lambda>data. read_many (length xs) (m data)) (concat (map enc xs)) (map f xs)"
  using assms
proof (induction xs)
  case Nil
  then show ?case by (simp add: reads_def)
next
  case (Cons x xs)
  have "reads (\<lambda>data. read_many (length xs) (m data)) (concat (map enc xs)) (map f xs)" using Cons by simp
  then have "reads (\<lambda>data. bindS (read_many (length xs) (m data)) (\<lambda>ys. retS (f x # ys))) (concat (map enc xs)) (f x # map f xs)"
    by (rule reads_last) simp
  then show ?case using Cons.prems [of x] by (auto intro!: reads_bind)
qed

lemma reads_take: "length bs = n \<Longrightarrow> reads (\<lambda>data. take_bytes data n) bs bs"
  by (auto simp: reads_def take_bytes_def)

subsection \<open>Writing EWKB\<close>

definition ordered :: "bool \<Rightarrow> byte list \<Rightarrow> byte list" where
  "ordered little bs = (if little then rev bs else bs)"

definition ewkb_uint32 :: "bool \<Rightarrow> int \<Rightarrow> byte list" where
  "ewkb_uint32 little n = ordered little (pack_32 n)"

definition ewkb_header :: "bool \<Rightarrow> int \<Rightarrow> byte list" where
  "ewkb_header little geometry_type = pack_u8 (if little then 1 else 0) @ ewkb_uint32 little geometry_type"

definition ewkb_point :: "bool \<Rightarrow> double point \<Rightarrow> byte list" where
  "ewkb_point little p = ordered little (pt_lng p) @ ordered little (pt_lat p)"

definition ewkb_ring :: "bool \<Rightarrow> double point list \<Rightarrow> byte list" where
  "ewkb_ring little ring = ewkb_uint32 little (int (length ring)) @ concat (map (ewkb_point little) ring)"

text \<open>Each polygon chooses its byte order.\<close>

definition ewkb_polygon :: "bool \<times> double point list list \<Rightarrow> byte list" where
  "ewkb_polygon = (\<lambda>(little, rings). ewkb_header little 3 @ ewkb_uint32 little (int (length rings)) @ concat (map (ewkb_ring little) rings))"

definition ewkb_multipolygon :: "bool \<Rightarrow> int option \<Rightarrow> (bool \<times> double point list list) list \<Rightarrow> byte list" where
  "ewkb_multipolygon little srid polygons =
     (case srid of None \<Rightarrow> ewkb_header little 6 | Some s \<Rightarrow> ewkb_header little (6 + 536870912) @ ewkb_uint32 little s) @
     ewkb_uint32 little (int (length polygons)) @ concat (map ewkb_polygon polygons)"

definition hex_char :: "nat \<Rightarrow> char" where
  "hex_char d = char_of (if d < 10 then 48 + d else 55 + d)"

definition hex_text :: "byte list \<Rightarrow> string" where
  "hex_text bs = concat (map (\<lambda>b. [hex_char (unat b div 16), hex_char (unat b mod 16)]) bs)"

text \<open>Counts fit their field and a double has eight bytes.\<close>

definition counted :: "'a list \<Rightarrow> bool" where
  "counted xs \<longleftrightarrow> length xs < 4294967296"

definition point_ok :: "double point \<Rightarrow> bool" where
  "point_ok p \<longleftrightarrow> length (pt_lng p) = 8 \<and> length (pt_lat p) = 8"

definition ring_ok :: "double point list \<Rightarrow> bool" where
  "ring_ok ring \<longleftrightarrow> counted ring \<and> list_all point_ok ring"

definition shape_ok :: "(bool \<times> double point list list) list \<Rightarrow> bool" where
  "shape_ok polygons \<longleftrightarrow> counted polygons \<and> list_all (\<lambda>(little, rings). counted rings \<and> list_all ring_ok rings) polygons"

subsection \<open>Reading back\<close>

lemma ordered_simps [simp]: "length (ordered little bs) = length bs" "(if little then rev (ordered little bs) else ordered little bs) = bs"
  by (simp_all add: ordered_def)

lemma reads_uint32:
  assumes "0 \<le> n" "n < 4294967296"
  shows "reads (\<lambda>data. read_uint32 data little) (ewkb_uint32 little n) n"
  unfolding read_uint32_def
proof (rule reads_last [OF reads_take])
  show "u32_at (if little then rev (ewkb_uint32 little n) else ewkb_uint32 little n) 0 = n"
    using u32_at_pack [of "[]" 0 n "[]"] assms by (simp add: ewkb_uint32_def ordered_def)
qed (simp add: ewkb_uint32_def)

lemma reads_double: "length d = 8 \<Longrightarrow> reads (\<lambda>data. read_double data little) (ordered little d) d"
  unfolding read_double_def by (rule reads_last [OF reads_take]) simp_all

lemma reads_byte: "reads read_byte (pack_u8 n) (n mod 256)"
  using u8_at_pack by (auto simp: reads_def read_byte_def)

lemma reads_header:
  assumes "0 \<le> g" "g < 4294967296"
  shows "reads read_header (ewkb_header little g) (little, g)"
proof -
  have "reads (\<lambda>data. bindS (read_uint32 data little) (\<lambda>g. retS (little, g))) (ewkb_uint32 little g) (little, g)"
    using reads_uint32 [OF assms] by (rule reads_last) simp
  then have "reads (\<lambda>data. bindS (liftS (little_endian ((if little then 1 else 0) mod 256))) (\<lambda>l. bindS (read_uint32 data l) (\<lambda>g. retS (l, g))))
      (ewkb_uint32 little g) (little, g)"
    by (cases little) (simp_all add: little_endian_def reads_pure)
  then show ?thesis unfolding read_header_def ewkb_header_def by (rule reads_bind [OF reads_byte])
qed

lemma reads_point: "point_ok p \<Longrightarrow> reads (\<lambda>data. read_point data little) (ewkb_point little p) p"
  unfolding read_point_def ewkb_point_def point_ok_def
  by (rule reads_bind [OF reads_double reads_last [OF reads_double]]) simp_all

lemma reads_counted:
  assumes "counted xs" "\<And>x. x \<in> set xs \<Longrightarrow> reads m (enc x) (f x)"
  shows "reads (\<lambda>data. bindS (read_uint32 data little) (\<lambda>n. read_many (nat n) (m data)))
           (ewkb_uint32 little (int (length xs)) @ concat (map enc xs)) (map f xs)"
proof (rule reads_bind)
  show "reads (\<lambda>data. read_uint32 data little) (ewkb_uint32 little (int (length xs))) (int (length xs))"
    using assms(1) by (intro reads_uint32) (simp_all add: counted_def)
qed (use reads_many [of xs m enc f] assms(2) in simp)

lemma reads_ring: "ring_ok ring \<Longrightarrow> reads (\<lambda>data. read_ring data little) (ewkb_ring little ring) ring"
  unfolding read_ring_def ewkb_ring_def ring_ok_def list_all_iff
  using reads_counted [of ring "\<lambda>data. read_point data little" "ewkb_point little" "\<lambda>p. p" little] reads_point by auto

lemma reads_polygon:
  assumes "counted rings" "list_all ring_ok rings"
  shows "reads read_polygon (ewkb_polygon (little, rings)) rings"
proof -
  have "reads (\<lambda>data. bindS (read_uint32 data little) (\<lambda>n. read_many (nat n) (read_ring data little)))
      (ewkb_uint32 little (int (length rings)) @ concat (map (ewkb_ring little) rings)) (map (\<lambda>r. r) rings)"
    using assms reads_ring by (intro reads_counted) (auto simp: list_all_iff)
  then show ?thesis unfolding read_polygon_def ewkb_polygon_def
    by (auto intro!: reads_bind reads_header)
qed

lemma reads_multipolygon:
  assumes "shape_ok polygons" "\<And>s. srid = Some s \<Longrightarrow> 0 \<le> s \<and> s < 4294967296"
  shows "reads read_multipolygon (ewkb_multipolygon little srid polygons) (map snd polygons)"
proof -
  have body: "reads (\<lambda>data. bindS (read_uint32 data little) (\<lambda>n. read_many (nat n) (read_polygon data)))
      (ewkb_uint32 little (int (length polygons)) @ concat (map ewkb_polygon polygons)) (map snd polygons)"
    using assms(1) reads_polygon by (intro reads_counted) (auto simp: shape_ok_def list_all_iff)
  show ?thesis
  proof (cases srid)
    case None
    from reads_bind [OF reads_ret [of "()"] body] None show ?thesis unfolding read_multipolygon_def ewkb_multipolygon_def
      by (auto intro!: reads_bind [OF reads_header])
  next
    case (Some s)
    have "reads (\<lambda>data. bindS (read_uint32 data little) (\<lambda>_. retS ())) (ewkb_uint32 little s) ()"
      using assms(2) [OF Some] by (auto intro!: reads_last reads_uint32)
    from reads_bind [OF this body] Some show ?thesis unfolding read_multipolygon_def ewkb_multipolygon_def
      by (auto intro!: reads_bind [OF reads_header])
  qed
qed

subsection \<open>Bounds\<close>

definition stays :: "byte list \<Rightarrow> 'a reading \<Rightarrow> bool" where
  "stays data m \<longleftrightarrow> (\<forall>offset \<le> length data. snd (m offset) \<le> length data)"

lemma stays_bind [intro]:
  assumes "stays data m" "\<And>x. stays data (k x)"
  shows "stays data (bindS m k)"
  unfolding stays_def
proof (intro allI impI)
  fix offset assume "offset \<le> length data"
  moreover obtain r next_offset where "m offset = (r, next_offset)" by fastforce
  ultimately show "snd (bindS m k offset) \<le> length data"
    using assms unfolding stays_def by (cases r) (auto simp: bindS_def dest!: spec [of _ offset])
qed

lemma stays_basic [intro]: "stays data (retS x)" "stays data (raiseS e)" "stays data (liftS r)" "stays data (take_bytes data n)" "stays data (read_byte data)"
  by (auto simp: stays_def take_bytes_def read_byte_def)

lemma stays_many [intro]: "stays data m \<Longrightarrow> stays data (read_many n m)"
  by (induction n) auto

lemma stays_cases [intro]: "stays data m \<Longrightarrow> stays data m' \<Longrightarrow> stays data (if b then m else m')"
  "(\<And>x y. stays data (f x y)) \<Longrightarrow> stays data (case p of (x, y) \<Rightarrow> f x y)"
  by (simp_all split: prod.split)

lemma stays_fields [intro]: "stays data (read_uint32 data little)" "stays data (read_double data little)" "stays data (read_header data)"
  unfolding read_uint32_def read_double_def read_header_def by (intro stays_bind stays_basic)+

lemma stays_parts [intro]: "stays data (read_point data little)" "stays data (read_ring data little)" "stays data (read_polygon data)"
  unfolding read_point_def read_ring_def read_polygon_def by (intro stays_bind stays_basic stays_fields stays_many stays_cases)+

lemma stays_multipolygon: "stays data (read_multipolygon data)"
  unfolding read_multipolygon_def by (intro stays_bind stays_basic stays_fields stays_parts stays_many stays_cases)

subsection \<open>Hexadecimal text\<close>

lemma hex_value_char: "d < 16 \<Longrightarrow> hex_value (hex_char d) = Some d"
  unfolding hex_value_def hex_char_def by (auto simp: Let_def)

lemma bytes_fromhex_text: "bytes_fromhex (hex_text bs) = Inr bs"
proof (induction bs)
  case (Cons b bs)
  have "unat b < 256" using unsigned_less [of b] by simp
  then have "hex_value (hex_char (unat b div 16)) = Some (unat b div 16)" "hex_value (hex_char (unat b mod 16)) = Some (unat b mod 16)"
    by (auto intro!: hex_value_char)
  moreover have "(of_nat (16 * (unat b div 16) + unat b mod 16) :: byte) = b" by (simp only: mult_div_mod_eq) simp
  ultimately show ?case using Cons by (simp add: hex_text_def)
qed (simp add: hex_text_def)

text \<open>
  Property C38. A multipolygon written in EWKB, in either byte order, with or without a spatial
  reference, its polygons in any byte order, and given as hexadecimal text with any white space in
  it, is read back by the simulated tracker exactly as written: the same polygons, rings and points
  in the same order, each coordinate the same eight-byte double.  On any data whatever, also a truncated or a
  corrupt one, the reader's offset never passes the end of the data.
\<close>

theorem shape_roundtrip:
  assumes "shape_ok polygons" "\<And>s. srid = Some s \<Longrightarrow> 0 \<le> s \<and> s < 4294967296"
    and "py_compact hex = hex_text (ewkb_multipolygon little srid polygons)"
  shows "read_shape hex = Inr (map snd polygons) \<and> (\<forall>data. snd (read_multipolygon data 0) \<le> length data)"
proof -
  have "reads read_multipolygon (ewkb_multipolygon little srid polygons) (map snd polygons)"
    by (rule reads_multipolygon [OF assms(1,2)])
  then have "read_multipolygon ([] @ ewkb_multipolygon little srid polygons @ []) (length ([] :: byte list)) =
      (Inr (map snd polygons), length ([] :: byte list) + length (ewkb_multipolygon little srid polygons))"
    unfolding reads_def by blast
  then show ?thesis unfolding read_shape_def assms(3) bytes_fromhex_text using stays_multipolygon by (simp add: stays_def)
qed

definition sample_ring :: "double point list" where
  "sample_ring = [\<lparr>pt_lng = [63, 240, 0, 0, 0, 0, 0, 0], pt_lat = [0, 0, 0, 0, 0, 0, 0, 0]\<rparr>]"

definition sample_shape :: string where
  "sample_shape = ''01 06000020 E6100000 01000000
     01 03000000 01000000 01000000 000000000000F03F 0000000000000000''"

theorem shape_roundtrip_witness: "read_shape sample_shape = Inr [[sample_ring]]"
proof -
  have "shape_ok [(True, [sample_ring])]" by (simp add: shape_ok_def counted_def ring_ok_def point_ok_def sample_ring_def)
  moreover have "py_compact sample_shape = hex_text (ewkb_multipolygon True (Some 4326) [(True, [sample_ring])])" by code_simp
  ultimately show ?thesis using shape_roundtrip [where polygons = "[(True, [sample_ring])]" and srid = "Some 4326" and little = True and hex = sample_shape] by simp
qed

end
