(* ===== verification/Event_Effects.thy ===== *)
theory Event_Effects
  imports Command_Lifecycle "HOL-Library.Sublist"
begin

text \<open>
  What handling one ChirpStack message may do to the tables: stored commands move only along
  steps of their life, new ones are pending, locations and geofence events are only added, and no
  device changes its asset or its deletion flag.
\<close>

subsection \<open>Adding rows\<close>

definition pending_row :: "device_command \<Rightarrow> bool" where
  "pending_row c \<longleftrightarrow> cmd_status c = CMD_PENDING \<and> timestamps_ok c"

lemma pending_row_stored [simp]: "pending_row (c\<lparr>cmd_id := i, cmd_created_at := t\<rparr>) \<longleftrightarrow> pending_row c"
  by (simp add: pending_row_def timestamps_ok_def split: command_status.split)

text \<open>From \<open>db\<close> to \<open>db'\<close> commands, locations and events were only added.\<close>

definition grows :: "tlrs_db \<Rightarrow> tlrs_db \<Rightarrow> bool" where
  "grows db db' \<longleftrightarrow>
     (list_all pending_row (db_new_commands db) \<longrightarrow> list_all pending_row (db_new_commands db') \<and>
        (\<exists>xs. db_commands db' = db_commands db @ xs \<and> list_all pending_row xs)) \<and>
     (distinct (map cmd_id (db_commands db)) \<longrightarrow> distinct (map cmd_id (db_commands db'))) \<and>
     prefix (db_locations db) (db_locations db') \<and> prefix (db_geofence_events db) (db_geofence_events db') \<and>
     db_clients db' = db_clients db"

lemma grows_refl [simp]: "grows db db"
  by (simp add: grows_def)

lemma grows_trans [trans]: "grows a b \<Longrightarrow> grows b c \<Longrightarrow> grows a c"
  unfolding grows_def by (auto intro: prefix_order.trans)

lemma grows_bindS:
  assumes "\<And>r db1. m db = (r, db1) \<Longrightarrow> grows db db1" "\<And>x db1 r db2. f x db1 = (r, db2) \<Longrightarrow> grows db1 db2"
    and "bindS m f db = (r, db')"
  shows "grows db db'"
  using assms by (auto simp: bindS_def split: prod.splits sum.splits intro: grows_trans)

lemma insert_pending:
  "list_all pending_row cs \<Longrightarrow> \<exists>xs. insert_commands now cs rows = rows @ xs \<and> list_all pending_row xs"
proof (induction cs arbitrary: rows)
  case (Cons c cs)
  from Cons.IH [of "rows @ [c\<lparr>cmd_id := fresh cmd_id rows, cmd_created_at := now\<rparr>]"] Cons.prems show ?case by auto
qed simp

lemma grows_flush: "grows db (flush_commands now db)"
  using insert_pending distinct_ids_insert by (simp add: grows_def flush_commands_def)

lemma grows_create: "create_pending_command now exs uuid d t aid eid ex pf db = (r, db') \<Longrightarrow> grows db db'"
  by (auto simp: create_pending_command_def grows_def pending_row_def timestamps_ok_def Let_def
      split: sum.splits option.splits prod.splits)

lemma grows_create_loop: "create_commands_loop now exs u ev d specs db = (r, db') \<Longrightarrow> grows db db'"
proof (induction specs arbitrary: db r db')
  case (Cons spec specs)
  obtain t pf where spec: "spec = (t, pf)" by (cases spec)
  obtain r1 db1 where c: "create_pending_command now exs (u db) d t (ge_asset_id ev) (Some (ge_id ev)) None (Some pf) db = (r1, db1)"
    by (metis surj_pair)
  have one: "grows db db1" by (rule grows_create [OF c])
  have rest: "bindS (create_commands_loop now exs u ev d specs) (\<lambda>cs. retS (x # cs)) db1 = (r, db') \<Longrightarrow> grows db1 db'" for x
    by (rule grows_bindS [of "create_commands_loop now exs u ev d specs"]) (auto intro: Cons.IH)
  show ?case
    using Cons.prems one Cons.IH [of db r db'] Cons.IH [of db1 r db'] rest c
    by (auto simp: spec split: sum.splits bool.splits py_exc.splits intro: grows_trans)
qed simp

lemma grows_states: "grows db (db\<lparr>db_asset_states := rows\<rparr>)"
  by (simp add: grows_def)

lemma grows_row:
  assumes "evaluate_row env d a loc row db = (r, db')"
  shows "grows db db'"
proof -
  let ?level = "resolve_status env (sr_inside row) (sr_distance row) (l_accuracy loc)"
  obtain s prev db1 where load: "get_or_create_asset_state env (sr_fence_id row) a (d_id d) (l_id loc)
      ?level (sr_distance row) (l_accuracy loc) db = ((s, prev), db1)"
    by (metis surj_pair)
  have db1: "grows db db1" using load by (auto simp: get_or_create_asset_state_def Let_def grows_states split: option.splits)
  let ?db2 = "update_asset_state env s (d_id d) (l_id loc) ?level (sr_distance row) (l_accuracy loc) db1"
  have db2: "grows db ?db2" using grows_trans [OF db1 grows_states] by (simp add: update_asset_state_def)
  show ?thesis
  proof (cases "resolve_event_type_from_transition prev ?level")
    case None
    with load db2 assms show ?thesis by (simp add: evaluate_row_def Let_def)
  next
    case (Some t)
    obtain ev db3 where e: "create_event env (sr_fence_id row) (d_id d) a (l_id loc) t (sr_distance row) (l_accuracy loc) ?db2 = (ev, db3)"
      by (metis surj_pair)
    have "grows ?db2 (?db2\<lparr>db_geofence_events := db_geofence_events ?db2 @ [ev]\<rparr>)" by (simp add: grows_def)
    from grows_trans [OF this grows_flush] e have "grows ?db2 db3" by (auto simp: create_event_def Let_def)
    moreover have "grows db3 db'"
      by (rule grows_bindS [of "create_commands_for_geofence_event (en_now env) (en_expires_seconds env) (en_new_uuid env) ev d" db3
            "\<lambda>_. retS \<lparr>ev_fence_id = sr_fence_id row, ev_level = ?level, ev_distance = sr_distance row,
               ev_accuracy = l_accuracy loc, ev_event_created = True\<rparr>" r])
        (use assms load Some e in \<open>auto simp: evaluate_row_def Let_def create_commands_for_geofence_event_def intro: grows_create_loop\<close>)
    ultimately show ?thesis using db2 by (blast intro: grows_trans)
  qed
qed

lemma grows_rows: "evaluate_rows env d a loc rows db = (r, db') \<Longrightarrow> grows db db'"
proof (induction rows arbitrary: db r db')
  case (Cons row rows)
  from Cons.prems show ?case unfolding evaluate_rows.simps
    by (rule grows_bindS [rotated 2]) (auto intro: grows_row elim!: grows_bindS [rotated 2] Cons.IH)
qed simp

lemma grows_evaluate: "evaluate_location env i j db = (r, db') \<Longrightarrow> grows db db'"
  by (auto simp: evaluate_location_def dest: grows_rows split: option.splits)

subsection \<open>The effect of a step\<close>

text \<open>What identifies a device in the history of assignments.\<close>

definition tracked :: "device \<Rightarrow> nat \<times> char \<times> nat option" where
  "tracked d = (d_id d, d_deleted d, d_asset_id d)"

text \<open>The rows after: those before, each moved along its life, then rows that began as pending.\<close>

definition commands_follow :: "device_command list \<Rightarrow> device_command list \<Rightarrow> bool" where
  "commands_follow rows rows' \<longleftrightarrow> (\<exists>moved new. rows' = moved @ new \<and> rows_reached rows moved \<and>
     (\<forall>c \<in> set new. \<exists>c0. pending_row c0 \<and> reachable c0 c))"

lemma commands_follow_reached: "rows_reached rows rows' \<Longrightarrow> commands_follow rows rows'"
  unfolding commands_follow_def by (intro exI [of _ rows'] exI [of _ "[]"]) simp

lemma commands_follow_refl [simp]: "commands_follow rows rows"
  by (simp add: commands_follow_reached)

lemma commands_follow_added: "list_all pending_row xs \<Longrightarrow> commands_follow rows (rows @ xs)"
  unfolding commands_follow_def list_all_iff by (intro exI [of _ rows] exI [of _ xs]) (auto intro: reachable.start)

lemma commands_follow_trans:
  assumes "commands_follow a b" "commands_follow b c"
  shows "commands_follow a c"
proof -
  obtain m n where b: "b = m @ n" "rows_reached a m" "\<forall>c \<in> set n. \<exists>c0. pending_row c0 \<and> reachable c0 c"
    using assms(1) by (auto simp: commands_follow_def)
  obtain m' n' where c: "c = m' @ n'" "rows_reached b m'" "\<forall>c \<in> set n'. \<exists>c0. pending_row c0 \<and> reachable c0 c"
    using assms(2) by (auto simp: commands_follow_def)
  obtain m1 m2 where m': "m' = m1 @ m2" "rows_reached m m1" "rows_reached n m2"
    using c(2) unfolding b(1) rows_reached_def list_all2_append1 by blast
  have "\<exists>c0. pending_row c0 \<and> reachable c0 x" if "x \<in> set m2" for x
    using that m'(3) b(3) unfolding rows_reached_def list_all2_conv_all_nth in_set_conv_nth by (metis nth_mem reachable_trans)
  with c(3) b(2) m'(2) rows_reached_trans show ?thesis
    unfolding commands_follow_def c(1) m'(1) by (intro exI [of _ m1] exI [of _ "m2 @ n'"]) auto
qed

text \<open>The constraints the handlers rely on and keep.\<close>

definition sound :: "tlrs_db \<Rightarrow> bool" where
  "sound db \<longleftrightarrow> eval_ok db \<and> distinct (map cmd_id (db_commands db)) \<and> list_all timestamps_ok (db_commands db) \<and>
     list_all pending_row (db_new_commands db) \<and> distinct (map gf_id (db_geofences db)) \<and> distinct (map d_id (db_devices db))"

definition event_effect :: "tlrs_db \<Rightarrow> tlrs_db \<Rightarrow> bool" where
  "event_effect db db' \<longleftrightarrow> sound db' \<and> map tracked (db_devices db') = map tracked (db_devices db) \<and>
     db_assets db' = db_assets db \<and> db_device_assignments db' = db_device_assignments db \<and>
     db_geofences db' = db_geofences db \<and> db_geofence_assignments db' = db_geofence_assignments db \<and>
     db_asset_groups db' = db_asset_groups db \<and> db_group_members db' = db_group_members db \<and>
     db_fence_groups db' = db_fence_groups db \<and> db_clients db' = db_clients db \<and>
     prefix (db_locations db) (db_locations db') \<and> prefix (db_geofence_events db) (db_geofence_events db') \<and>
     commands_follow (db_commands db) (db_commands db')"

lemma event_effect_refl [simp]: "sound db \<Longrightarrow> event_effect db db"
  by (simp add: event_effect_def)

lemma event_effect_trans: "event_effect a b \<Longrightarrow> event_effect b c \<Longrightarrow> event_effect a c"
  unfolding event_effect_def by (auto intro: prefix_order.trans commands_follow_trans)

lemma sound_events [simp]: "sound (db\<lparr>db_cs_events := es\<rparr>) \<longleftrightarrow> sound db" "sound (db\<lparr>db_published := ps\<rparr>) \<longleftrightarrow> sound db"
  by (simp_all add: sound_def eval_ok_def seqs_ok_def all_commands_def)

lemma event_effect_events [simp]:
  "event_effect (db\<lparr>db_cs_events := es\<rparr>) db' \<longleftrightarrow> event_effect db db'" "event_effect db (db'\<lparr>db_cs_events := es\<rparr>) \<longleftrightarrow> event_effect db db'"
  "event_effect db (db'\<lparr>db_published := ps\<rparr>) \<longleftrightarrow> event_effect db db'"
  by (simp_all add: event_effect_def)

lemma event_effect_sound: "event_effect db db' \<Longrightarrow> sound db'"
  by (simp add: event_effect_def)

subsection \<open>Constraints under moved commands\<close>

lemma device_seqs_identity:
  "map identity_of cs' = map identity_of cs \<Longrightarrow> device_seqs dev cs' = device_seqs dev cs"
proof (induction cs arbitrary: cs')
  case (Cons c cs)
  then obtain c' ds where "cs' = c' # ds" "identity_of c' = identity_of c" "map identity_of ds = map identity_of cs" by (cases cs') auto
  moreover from this Cons.IH have "device_seqs dev ds = device_seqs dev cs" by blast
  ultimately show ?case by (simp add: identity_of_def)
qed simp

lemma eval_ok_moved:
  assumes "eval_ok db" "map identity_of rows = map identity_of (db_commands db)"
  shows "eval_ok (db\<lparr>db_commands := rows\<rparr>)"
proof -
  have "map identity_of (all_commands (db\<lparr>db_commands := rows\<rparr>)) = map identity_of (all_commands db)"
    using assms(2) by (simp add: all_commands_def)
  then have seqs: "device_seqs dev (all_commands (db\<lparr>db_commands := rows\<rparr>)) = device_seqs dev (all_commands db)"
    and ids: "cmd_event_id ` set (all_commands (db\<lparr>db_commands := rows\<rparr>)) = cmd_event_id ` set (all_commands db)" for dev
  proof (rule device_seqs_identity)
    have "map (\<lambda>(_, _, _, _, _, e, _). e) (map identity_of (all_commands (db\<lparr>db_commands := rows\<rparr>))) =
        map (\<lambda>(_, _, _, _, _, e, _). e) (map identity_of (all_commands db))"
      using \<open>map identity_of (all_commands (db\<lparr>db_commands := rows\<rparr>)) = _\<close> by simp
    then have "map cmd_event_id (all_commands (db\<lparr>db_commands := rows\<rparr>)) = map cmd_event_id (all_commands db)"
      by (simp add: comp_def identity_of_def)
    then show "cmd_event_id ` set (all_commands (db\<lparr>db_commands := rows\<rparr>)) = cmd_event_id ` set (all_commands db)"
      by (metis list.set_map)
  qed
  with assms(1) show ?thesis by (simp add: eval_ok_iff seqs_ok_def)
qed

lemma reachable_identity: "reachable c c' \<Longrightarrow> identity_of c' = identity_of c"
  by (induction rule: reachable.induct) (simp_all add: step_keeps_identity)

lemma reachable_timestamps: "reachable c c' \<Longrightarrow> timestamps_ok c \<Longrightarrow> timestamps_ok c'"
  by (induction rule: reachable.induct) (auto intro: timestamps_step)

lemma rows_reached_map:
  assumes "rows_reached rows rows'"
  shows "map identity_of rows' = map identity_of rows" "list_all timestamps_ok rows \<Longrightarrow> list_all timestamps_ok rows'"
  using assms unfolding rows_reached_def by (induction rule: list_all2_induct) (simp_all add: reachable_identity reachable_timestamps)

lemma effect_moved:
  assumes "sound db" "rows_reached (db_commands db) rows"
  shows "event_effect db (db\<lparr>db_commands := rows\<rparr>)"
  using assms rows_reached_map [OF assms(2)] rows_reached_ids [OF assms(2)]
  by (simp add: event_effect_def sound_def eval_ok_moved commands_follow_reached)

lemma effect_put_command:
  assumes "sound db" "c \<in> set (db_commands db)" "cmd_step c c'"
  shows "event_effect db (put_command c' db)"
  using assms step_keeps_identity [OF assms(3)] unfolding put_command_def
  by (intro effect_moved rows_reached_put) (simp_all add: sound_def identity_of_def)

lemma map_tracked_put:
  assumes "distinct (map d_id ds)" "tracked d \<in> tracked ` set ds"
  shows "map tracked (put d_id d ds) = map tracked ds"
proof -
  obtain d0 where d0: "d0 \<in> set ds" "tracked d = tracked d0" using assms(2) by auto
  then have "tracked x = tracked d" if "x \<in> set ds" "d_id x = d_id d" for x
    using same_key_same_row [OF assms(1) that(1) d0(1)] that(2) by (simp add: tracked_def)
  then show ?thesis by (auto simp: put_def)
qed

lemma effect_put_device:
  assumes "sound db" "tracked d \<in> tracked ` set (db_devices db)"
  shows "event_effect db (put_device d db)"
proof -
  have "map d_id (put d_id d (db_devices db)) = map d_id (db_devices db)" by simp
  with assms map_tracked_put [OF _ assms(2)] show ?thesis
    by (simp add: event_effect_def sound_def put_device_def eval_ok_def seqs_ok_def all_commands_def)
qed

subsection \<open>Ingesting a location\<close>

lemma effect_grows:
  assumes "sound db" "eval_ok db'" "same_base db db'" "grows db db'"
  shows "event_effect db db'"
proof -
  obtain xs where xs: "db_commands db' = db_commands db @ xs" "list_all pending_row xs" "list_all pending_row (db_new_commands db')"
    using assms(1,4) by (auto simp: grows_def sound_def)
  then have "list_all timestamps_ok xs" by (simp add: list_all_iff pending_row_def)
  then have "sound db'" using assms xs by (auto simp: sound_def same_base_def grows_def)
  then show ?thesis using assms(3,4) xs commands_follow_added by (simp add: event_effect_def same_base_def grows_def)
qed

lemma effect_flush:
  assumes "sound db"
  shows "event_effect db (flush_commands now db)"
proof (rule effect_grows [OF assms _ _ grows_flush])
  show "eval_ok (flush_commands now db)"
    using assms event_ids_flush [of now db] seqs_ok_flush [of now db] unfolding sound_def eval_ok_iff
    by (simp add: flush_commands_def)
  show "same_base db (flush_commands now db)" by (simp add: flush_commands_def same_base_def)
qed

lemma effect_evaluate:
  assumes "sound db" "evaluate_location env i l db = (r, db')"
  shows "event_effect db db'"
proof (cases "\<exists>d a loc. fetch d_id i (db_devices db) = Some d \<and> d_asset_id d = Some a \<and> fetch l_id l (db_locations db) = Some loc")
  case True
  then obtain d a loc where found: "fetch d_id i (db_devices db) = Some d" "d_asset_id d = Some a" "fetch l_id l (db_locations db) = Some loc"
    by blast
  have "eval_ok db" "distinct (map gf_id (db_geofences db))" using assms(1) by (simp_all add: sound_def)
  from evaluate_location_total [OF this found refl, of env] assms(2) have "eval_ok db'" "same_base db db'" by auto
  then show ?thesis using effect_grows [OF assms(1)] grows_evaluate [OF assms(2)] by blast
next
  case False
  with assms show ?thesis by (auto simp: evaluate_location_def split: option.splits)
qed

lemma snd_bind_ret: "snd (bindS m (\<lambda>_. retS x) s) = snd (m s)"
  by (simp add: bindS_def split: prod.split sum.split)

lemma effect_persist:
  assumes "sound db" "tracked d \<in> tracked ` set (db_devices db)" "persist_location env d t now db = (r, db')"
  shows "event_effect db db'"
proof -
  have "\<exists>loc. snd (persist_location env d t now db) = snd (evaluate_location env (d_id d) (l_id loc)
      (put_device (d\<lparr>d_state := ON, d_last_seen_at := Some now\<rparr>) (flush_commands (en_now env) (db\<lparr>db_locations := db_locations db @ [loc]\<rparr>))))"
    unfolding persist_location_def Let_def snd_bind_ret put_device_def by (intro exI) (rule refl)
  then obtain loc where loc: "db' = snd (evaluate_location env (d_id d) (l_id loc)
      (put_device (d\<lparr>d_state := ON, d_last_seen_at := Some now\<rparr>) (flush_commands (en_now env) (db\<lparr>db_locations := db_locations db @ [loc]\<rparr>))))"
    using assms(3) by auto
  let ?db = "db\<lparr>db_locations := db_locations db @ [loc]\<rparr>"
  let ?db1 = "flush_commands (en_now env) ?db"
  have new: "event_effect db ?db"
    using assms(1) by (simp add: event_effect_def sound_def eval_ok_def seqs_ok_def all_commands_def)
  then have "sound ?db" by (simp add: event_effect_def)
  from effect_flush [OF this] have flushed: "event_effect ?db ?db1" .
  then have "sound ?db1" by (simp add: event_effect_def)
  moreover have "tracked (d\<lparr>d_state := ON, d_last_seen_at := Some now\<rparr>) \<in> tracked ` set (db_devices ?db1)"
    using assms(2) by (simp add: tracked_def flush_commands_def)
  ultimately have put: "event_effect ?db1 (put_device (d\<lparr>d_state := ON, d_last_seen_at := Some now\<rparr>) ?db1)"
    by (rule effect_put_device)
  then have "sound (put_device (d\<lparr>d_state := ON, d_last_seen_at := Some now\<rparr>) ?db1)" by (simp add: event_effect_def)
  from effect_evaluate [OF this prod.collapse [symmetric], of env "d_id d" "l_id loc"]
  have "event_effect (put_device (d\<lparr>d_state := ON, d_last_seen_at := Some now\<rparr>) ?db1) db'" unfolding loc .
  with new flushed put show ?thesis by (blast intro: event_effect_trans)
qed

subsection \<open>Handling a message\<close>

lemma get_device_found: "get_device db eui = Inr (Some d) \<Longrightarrow> d \<in> set (db_devices db)"
  by (auto simp: get_device_def text_error_def scalar_one_or_none_Some filter_eq_Cons_iff split: sum.splits)

lemma scalar_found: "scalar_one_or_none (filter P xs) = Inr (Some x) \<Longrightarrow> x \<in> set xs"
  by (auto simp: scalar_one_or_none_Some filter_eq_Cons_iff)

lemma effect_ack:
  assumes "sound db" "tracked d \<in> tracked ` set (db_devices db)"
  shows "event_effect db (snd (process_application_ack_up_event env d up event db))"
proof -
  have ack: "event_effect db (snd (apply_ack_to_command now p c db))" if "c \<in> set (db_commands db)" for now p c
    using effect_put_command [OF assms(1) that application_ack] by (simp add: apply_ack_to_command_def put_command_def Let_def)
  have acked: "event_effect db (snd (process_ack now p db))" "event_effect db (snd (process_ack_by_command_seq now i p db))" for now i p
    using assms(1) ack
    by (auto simp: process_ack_def process_ack_by_command_seq_def get_command_by_uuid_def get_command_by_device_and_seq_def
        dest!: scalar_found split: sum.split option.split if_splits)
  have put: "event_effect db (put_device (d\<lparr>d_state := ON, d_last_seen_at := s\<rparr>) db1)" if "event_effect db db1" for s db1
  proof -
    have "sound db1" "map tracked (db_devices db1) = map tracked (db_devices db)" using that by (simp_all add: event_effect_def)
    moreover from this have "tracked d \<in> tracked ` set (db_devices db1)" using assms(2) by (metis list.set_map)
    then have "tracked (d\<lparr>d_state := ON, d_last_seen_at := s\<rparr>) \<in> tracked ` set (db_devices db1)" by (simp add: tracked_def)
    ultimately show ?thesis using effect_put_device event_effect_trans that by blast
  qed
  show ?thesis
    using assms(1) acked put by (auto simp: process_application_ack_up_event_def Let_def split: sum.split prod.split) (metis snd_conv)+
qed

lemma effect_network:
  assumes "sound db" "\<And>d v c. c \<in> set (db_commands db) \<Longrightarrow> event_effect db (snd (k d v c db))"
  shows "event_effect db (snd (with_network_command kind m n app eui validated q event k db))"
  using assms
  by (auto simp: with_network_command_def resolve_command_for_network_event_def get_command_by_queue_item_id_def text_error_def res_simps
      dest!: scalar_found split: sum.splits option.splits if_splits)

lemma effect_status:
  assumes "sound db" "tracked d \<in> tracked ` set (db_devices db)"
  shows "event_effect db (snd (process_status_up_event env d up event db))"
  using assms effect_put_device [OF assms(1), of "d\<lparr>d_state := ON, d_last_seen_at := Some (now_of env)\<rparr>"]
  by (auto simp: process_status_up_event_def tracked_def split: sum.split)

lemma effect_location:
  assumes "sound db" "tracked d \<in> tracked ` set (db_devices db)"
  shows "event_effect db (snd (process_location_up_event env d up event db))"
  using assms effect_persist [OF assms]
  by (auto simp: process_location_up_event_def split: sum.split prod.split)

lemma effect_up:
  assumes "sound db"
  shows "event_effect db (snd (process_up_event env app eui payload event db))"
proof (cases "get_device db eui")
  case (Inr r)
  show ?thesis
  proof (cases r)
    case (Some d)
    have put: "event_effect db (put_device d' db)" "sound (put_device d' db)" "tracked d' \<in> tracked ` set (db_devices (put_device d' db))"
      if "tracked d' = tracked d" for d'
    proof -
      have known: "tracked d' \<in> tracked ` set (db_devices db)" using get_device_found [OF Inr [unfolded Some]] that by simp
      show effect: "event_effect db (put_device d' db)" by (rule effect_put_device [OF assms known])
      then show "sound (put_device d' db)" by (simp add: event_effect_def)
      show "tracked d' \<in> tracked ` set (db_devices (put_device d' db))"
        using effect known unfolding event_effect_def by (metis list.set_map)
    qed
    have later: "event_effect db (snd (process_application_ack_up_event env d' up ev (put_device d' db)))"
      "event_effect db (snd (process_status_up_event env d' up ev (put_device d' db)))"
      "event_effect db (snd (process_location_up_event env d' up ev (put_device d' db)))" if "tracked d' = tracked d" for d' up ev
      using event_effect_trans [OF put(1) [OF that]] put(2,3) [OF that] effect_ack effect_status effect_location by blast+
    from Inr Some assms show ?thesis
      by (auto simp: process_up_event_def Let_def tracked_def split: option.split sum.split intro!: later put(1))
  qed (use Inr assms in \<open>simp add: process_up_event_def\<close>)
qed (use assms in \<open>simp add: process_up_event_def\<close>)

lemma effect_process:
  assumes "sound db"
  shows "event_effect db (snd (process_event env ti payload event db))"
proof -
  have network: "event_effect db (snd (process_txack_event env a b payload event db))"
    "event_effect db (snd (process_network_ack_event env a b payload event db))" for a b
    unfolding process_txack_event_def process_network_ack_event_def Let_def
    by (rule effect_network [OF assms], simp, rule effect_put_command [OF assms], assumption, rule cmd_step.intros)+
  have simple: "event_effect db (snd (process_join_event env a b event db))" "event_effect db (snd (process_log_event env a b event db))" for a b
    using assms get_device_found
    by (auto simp: process_join_event_def process_log_event_def tracked_def intro!: effect_put_device split: sum.split option.split)
  show ?thesis using network simple effect_up [OF assms] assms by (simp add: process_event_def)
qed

text \<open>A handled message: the effect of its event, and one more row in the event table.\<close>

lemma effect_message:
  assumes "sound db" "db_new_commands db = []" "handle_event env tpc payload db = (r, db')"
  shows "event_effect db db' \<and> db_new_commands db' = [] \<and> prefix (db_cs_events db) (db_cs_events db')"
proof (cases "db' = db")
  case False
  obtain ti dedup event res where ev: "event = new_event db ti dedup tpc payload"
      "process_and_commit env ti (PvDict payload) event (db\<lparr>db_cs_events := db_cs_events db @ [event]\<rparr>) = (res, db')"
    using assms(3) False by (auto simp: handle_event_def Let_def split: sum.splits prod.splits if_splits)
  let ?db = "db\<lparr>db_cs_events := db_cs_events db @ [event]\<rparr>"
  have sound: "sound ?db" using assms(1) by simp
  have effect: "event_effect ?db (flush_commands (now_of env) dbx)"
    if "process_event env ti (PvDict payload) event ?db = (x, dbx)" for x dbx
  proof -
    have "event_effect ?db dbx" using effect_process [OF sound, of env ti "PvDict payload" event] that by simp
    moreover from this have "event_effect dbx (flush_commands (now_of env) dbx)" using effect_flush event_effect_sound by blast
    ultimately show ?thesis by (rule event_effect_trans)
  qed
  have new: "db_cs_events ?db = db_cs_events db @ [event]" "ce_id event \<notin> ce_id ` set (db_cs_events db)"
    using fresh_not_in by (simp_all add: ev(1) new_event_def)
  from process_and_commit_cases [OF ev(2) new] show ?thesis
  proof cases
    case (1 err dbx)
    then show ?thesis using assms(1,2) by simp
  next
    case (2 re e dbx)
    then show ?thesis using effect [OF 2(1)] by (simp add: flush_commands_def)
  next
    case (3 re e dbx err)
    then show ?thesis using effect [OF 3(1)] by (simp add: flush_commands_def)
  qed
qed (use assms in simp)

end
