(* ===== verification/System_History.thy ===== *)
theory System_History
  imports Event_Effects Fleet_Isolation Device_History
begin

text \<open>
  The parts of the server on their one database: requests to the device and the fleet routes,
  messages of the ChirpStack worker and passes of the command dispatcher, in any order.  Each part
  is proved to keep what the others rely on.
\<close>

subsection \<open>Requests to the device routes\<close>

text \<open>They write devices, assets and assignments; assets are only added.\<close>

definition device_frame :: "tlrs_db \<Rightarrow> tlrs_db \<Rightarrow> bool" where
  "device_frame db db' \<longleftrightarrow> prefix (db_assets db) (db_assets db') \<and>
     db_locations db' = db_locations db \<and> db_geofences db' = db_geofences db \<and>
     db_geofence_assignments db' = db_geofence_assignments db \<and> db_geofence_events db' = db_geofence_events db \<and>
     db_asset_states db' = db_asset_states db \<and> db_asset_groups db' = db_asset_groups db \<and>
     db_group_members db' = db_group_members db \<and> db_fence_groups db' = db_fence_groups db \<and>
     db_commands db' = db_commands db \<and> db_new_commands db' = db_new_commands db \<and>
     db_cs_events db' = db_cs_events db \<and> db_clients db' = db_clients db"

lemma device_frame_refl [simp]: "device_frame db db"
  by (simp add: device_frame_def)

lemma device_frame_trans: "device_frame a b \<Longrightarrow> device_frame b c \<Longrightarrow> device_frame a c"
  unfolding device_frame_def by (auto intro: prefix_order.trans)

lemma device_frame_writes [simp]:
  "device_frame db (db\<lparr>db_devices := ds\<rparr>)" "device_frame db (db\<lparr>db_devices := ds, db_device_assignments := rows\<rparr>)"
  "device_frame db (db\<lparr>db_device_assignments := rows\<rparr>)" "device_frame db (db\<lparr>db_assets := db_assets db @ xs\<rparr>)"
  "device_frame db (db\<lparr>db_device_assignments := rows, db_devices := ds\<rparr>)" "device_frame db (store_device d db)"
  by (simp_all add: device_frame_def store_device_def)

lemma assignment_frames:
  "device_frame db (snd (assign_asset now created i a db))" "device_frame db (snd (release_asset now i db))"
  "device_frame db (snd (create_initial_assignment now created d a0 db))"
  by (simp_all add: assign_asset_def release_asset_def create_initial_assignment_def transact_def bindE_case Let_def commit_db_def guardE_def
      split: sum.split option.split prod.split)

lemma edit_frames:
  "device_frame db (snd (update_device i u db))" "device_frame db (snd (deactivate_device i db))" "device_frame db (snd (create_asset b db))"
proof -
  show "device_frame db (snd (update_device i u db))"
    by (auto simp: update_device_def crud_update_def Let_def commit_Inr split: option.splits sum.splits prod.splits)
  show "device_frame db (snd (deactivate_device i db))"
    by (auto simp: deactivate_device_def write_device_def commit_Inr split: option.splits sum.splits prod.splits)
  show "device_frame db (snd (create_asset b db))"
    by (cases "create_asset b db"; cases "fst (create_asset b db)") (auto dest: create_asset_error elim!: create_asset_cases)
qed

lemma provision_frame: "device_frame db (fst (snd (provision_device now created cl stub rq (db, w))))"
proof -
  have asset: "device_frame db db1" if "resolve_asset c aid na db = Inr (a, db1)" for c aid na a db1
    using that by (auto simp: resolve_asset_def res_simps Let_def split: option.splits if_splits sum.splits)
  have assign: "device_frame db1 db2" if "create_initial_assignment now created d a db1 = (r, db2)" for d a db1 r db2
    using assignment_frames(3) [of db1 now created d a] that by simp
  have finish: "device_frame db2 (fst (snd (finish_provisioning now k l remote d (db2, w))))" for k l remote d db2 w
    using finish_marks [of now k l remote d db2 w] by (metis device_frame_writes(6) prod.collapse)
  show ?thesis
    by (auto simp: provision_device_def split: sum.split prod.split intro!: device_frame_trans [OF device_frame_trans [OF asset assign] finish])
qed

lemma retry_frame: "device_frame db (fst (snd (retry_provisioning now cl stub i k (db, w))))"
proof -
  have finish: "device_frame db2 (fst (snd (finish_provisioning now k l remote d (db2, w))))" for k l remote d db2 w
    using finish_marks [of now k l remote d db2 w] by (metis device_frame_writes(6) prod.collapse)
  show ?thesis
    by (auto simp: retry_provisioning_def Let_def split: sum.split intro: device_frame_trans [OF _ finish])
qed

lemma device_request_frame: "device_frame db (fst (snd (device_api env acc td rq (db, w))))"
proof (cases "may_write acc td rq")
  case True
  then show ?thesis
    by (cases rq) (auto simp: route_defs assignment_frames edit_frames provision_frame retry_frame split: sum.split)
qed (simp add: reads_write_nothing)

lemma fleet_ok_more_assets:
  assumes "fleet_ok db" "device_frame db db'"
  shows "fleet_ok db'"
proof -
  have "owned_assets db c \<subseteq> owned_assets db' c" for c
    using assms(2) set_mono_prefix [of "db_assets db" "db_assets db'"] by (auto simp: device_frame_def owned_assets_def)
  moreover have "view_of db' = view_of db" "fence_clients db' = fence_clients db"
    using assms(2) by (simp_all add: device_frame_def view_of_def group_asset_links_def fence_group_links_def live_groups_def
        group_clients_def fence_clients_def fun_eq_iff)
  ultimately show ?thesis
    using assms unfolding fleet_ok_def group_tenants_def fleet_ids_ok_def groups_ok_def device_frame_def tenants_ok_def
    by (fastforce simp: split_beta)
qed

subsection \<open>Requests to the fleet routes\<close>

text \<open>States of geofences are only removed.\<close>

definition fewer_states :: "tlrs_db \<Rightarrow> tlrs_db \<Rightarrow> bool" where
  "fewer_states db db' \<longleftrightarrow> (\<exists>P. db_asset_states db' = filter P (db_asset_states db))"

lemma fewer_states_same: "db_asset_states db' = db_asset_states db \<Longrightarrow> fewer_states db db'"
  unfolding fewer_states_def by (intro exI [of _ "\<lambda>_. True"]) simp

lemma fewer_states_refl [simp]: "fewer_states db db"
  by (simp add: fewer_states_same)

lemma fewer_states_trans: "fewer_states a b \<Longrightarrow> fewer_states b c \<Longrightarrow> fewer_states a c"
  unfolding fewer_states_def by (metis filter_filter)

lemma fewer_delete: "fewer_states db (snd (delete_state_if_unassigned g a db))"
  by (auto simp: delete_state_if_unassigned_def fewer_states_def [of db "db\<lparr>db_asset_states := _\<rparr>"] split: option.split)

lemma fewer_cleanup: "fewer_states db (cleanup_effective_states ps db)"
proof (induction ps arbitrary: db)
  case (Cons p ps)
  obtain g a where p: "p = (g, a)" by (cases p)
  from fewer_states_trans [OF fewer_delete Cons.IH] show ?case by (simp add: cleanup_effective_states_def p)
qed (simp add: cleanup_effective_states_def)

lemma group_run_states: "fewer_states db (snd (run_group_op stamp now op db))"
proof -
  obtain ok db' where run: "run_group_op stamp now op db = (ok, db')" by (cases "run_group_op stamp now op db")
  obtain ps where "db_asset_states db' = db_asset_states (cleanup_effective_states ps db)" by (rule group_op_states [OF run])
  with fewer_cleanup [of db ps] run show ?thesis by (simp add: fewer_states_def)
qed

lemma group_operation_states:
  "fewer_states db (snd (create_asset_group stamp c n d ids db))" "fewer_states db (snd (add_members stamp g c l db))"
  "fewer_states db (snd (remove_members now g c l db))" "fewer_states db (snd (update_asset_group stamp now g c u db))"
  "fewer_states db (snd (set_asset_group_active now g c b db))" "fewer_states db (snd (assign_groups_to_geofence stamp f c l db))"
  "fewer_states db (snd (remove_groups_from_geofence now f c l db))"
  using group_run_states [of db stamp 0 "Create c n d ids"] group_run_states [of db stamp 0 "Add g c l"]
    group_run_states [of db stamp now "Remove g c l"] group_run_states [of db stamp now "Update g c u"]
    group_run_states [of db stamp now "Activate g c b"] group_run_states [of db stamp 0 "Assign f c l"]
    group_run_states [of db stamp now "Unassign f c l"] by (simp_all add: split_beta)

lemma transact_states: "(\<And>x db'. body db = Inr (x, db') \<Longrightarrow> fewer_states db db') \<Longrightarrow> fewer_states db (snd (transact body db))"
  by (auto simp: transact_def split: sum.splits prod.splits)

lemma fence_operation_states:
  "fewer_states db (snd (create_geofence env c n d shape active db))" "fewer_states db (snd (update_geofence env i c u db))"
  "fewer_states db (snd (delete_geofence env i c db))" "fewer_states db (snd (set_geofence_active env i c b db))"
  "fewer_states db (snd (assign_assets env i c ids db))" "fewer_states db (snd (deactivate_assignment env i c db))"
proof -
  have same: "fewer_states db (d\<lparr>db_geofence_assignments := rows\<rparr>) = fewer_states db d" for d rows by (simp add: fewer_states_def)
  show "fewer_states db (snd (create_geofence env c n d shape active db))" unfolding create_geofence_def
    by (rule transact_states) (auto simp: Let_def res_simps commit_fences_Inr intro: fewer_states_same)
  show "fewer_states db (snd (update_geofence env i c u db))" unfolding update_geofence_def
    by (rule transact_states) (auto simp: res_simps commit_fences_Inr intro: fewer_states_same split: option.splits if_splits)
  show "fewer_states db (snd (delete_geofence env i c db))" unfolding delete_geofence_def
    by (rule transact_states) (auto simp: res_simps commit_fences_Inr intro: fewer_states_same split: option.splits)
  show "fewer_states db (snd (set_geofence_active env i c b db))" unfolding set_geofence_active_def
    by (rule transact_states) (auto simp: res_simps commit_fences_Inr intro: fewer_states_same split: option.splits)
  show "fewer_states db (snd (assign_assets env i c ids db))" unfolding assign_assets_def
    by (rule transact_states) (auto simp: Let_def res_simps commit_fences_Inr intro: fewer_states_same split: option.splits if_splits)
  show "fewer_states db (snd (deactivate_assignment env i c db))" unfolding deactivate_assignment_def
    by (rule transact_states) (auto simp: Let_def res_simps commit_fences_Inr same fewer_delete split: option.splits)
qed

lemma snd_client_states: "(\<And>c. fewer_states db (snd (k c db))) \<Longrightarrow> fewer_states db (snd (with_client r k db))"
  by (simp add: with_client_def split: sum.split)

lemma snd_page_states: "(\<And>skip limit. fewer_states db (snd (k skip limit db))) \<Longrightarrow> fewer_states db (snd (page_checked most skip limit k db))"
  by (simp add: page_checked_def)

lemma fleet_request_states: "fewer_states db (snd (fleet_api env acc td req db))"
  by (cases req) (auto simp: fence_routes group_routes Let_def get_asset_states_def
      intro!: snd_client_states snd_page_states fence_operation_states group_operation_states)

lemma fleet_request_tables:
  assumes "fleet_ok db"
  shows "other_tables (snd (fleet_api env acc td req db)) = other_tables db"
  using request_through [OF assms, of acc td req env] by (auto simp: let_through_def fleet_frame_def)

subsection \<open>The system\<close>

text \<open>
  The invariant: the assignment history agrees with the present, groups stay within their client,
  and the commands, states and events satisfy the constraints the evaluation and the dispatcher
  rely on; nothing is pending in a session.
\<close>

definition system_ok :: "int \<Rightarrow> tlrs_db \<Rightarrow> bool" where
  "system_ok now db \<longleftrightarrow> timeline_ok db \<and> clock_ok now db \<and> fleet_ok db \<and> sound db \<and> db_new_commands db = []"

datatype 'w call =
  Device_Call accounts "'w device_env" token_data device_request
| Fleet_Call accounts fence_env token_data fleet_request
| Message event_env string "(string \<times> py_value) list"
| Dispatch int "nat \<Rightarrow> int \<times> int" "'w transport" nat

fun run_call :: "'w call \<Rightarrow> tlrs_db \<times> 'w \<Rightarrow> tlrs_db \<times> 'w" where
  "run_call (Device_Call acc env td rq) s = snd (device_api env acc td rq s)"
| "run_call (Fleet_Call acc env td rq) (db, w) = (snd (fleet_api env acc td rq db), w)"
| "run_call (Message env tpc payload) (db, w) = (snd (handle_event env tpc payload db), w)"
| "run_call (Dispatch now clock transport batch_limit) (db, w) = process_once now clock transport batch_limit db w"

definition run_calls :: "'w call list \<Rightarrow> tlrs_db \<times> 'w \<Rightarrow> tlrs_db \<times> 'w" where
  "run_calls calls s = fold run_call calls s"

text \<open>The calls that write assignments carry the clock they read.\<close>

fun clock_of :: "'w call \<Rightarrow> int list" where
  "clock_of (Device_Call acc env td rq) = [de_now env]"
| "clock_of _ = []"

definition call_times :: "'w call list \<Rightarrow> int list" where
  "call_times calls = concat (map clock_of calls)"

text \<open>What one call may do: rows of the logs are only added, commands move along their lives.\<close>

definition logs_grow :: "tlrs_db \<Rightarrow> tlrs_db \<Rightarrow> bool" where
  "logs_grow db db' \<longleftrightarrow> prefix (db_locations db) (db_locations db') \<and> prefix (db_geofence_events db) (db_geofence_events db') \<and>
     prefix (db_cs_events db) (db_cs_events db') \<and> prefix (db_assets db) (db_assets db') \<and>
     commands_follow (db_commands db) (db_commands db')"

lemma logs_grow_refl [simp]: "logs_grow db db"
  by (simp add: logs_grow_def)

lemma logs_grow_trans: "logs_grow a b \<Longrightarrow> logs_grow b c \<Longrightarrow> logs_grow a c"
  unfolding logs_grow_def by (auto intro: prefix_order.trans commands_follow_trans)

lemma device_call:
  assumes "system_ok now db" "now \<le> de_now env" "snd (device_api env acc td rq (db, w)) = (db', w')"
  shows "system_ok (de_now env) db' \<and> logs_grow db db' \<and> (\<forall>j t. t < de_now env \<longrightarrow> asset_at db' j t = asset_at db j t)"
proof -
  have "timeline_ok db" "clock_ok (de_now env) db" using assms(1,2) by (auto simp: system_ok_def intro: clock_mono)
  from request_keeps_history [OF this, of acc td rq w] assms(3) have kept: "keeps_history (de_now env) db db'" by simp
  have frame: "device_frame db db'" using device_request_frame [of db env acc td rq w] assms(3) by simp
  have "distinct (map d_id (db_devices db'))" using kept timelineD(1) by (simp add: keeps_history_def)
  then have "sound db'" using assms(1) frame
    by (auto simp: system_ok_def sound_def eval_ok_def seqs_ok_def all_commands_def device_frame_def)
  moreover have "fleet_ok db'" using assms(1) frame by (auto simp: system_ok_def intro: fleet_ok_more_assets)
  ultimately show ?thesis using kept frame assms(1) by (simp add: system_ok_def keeps_history_def logs_grow_def device_frame_def)
qed

lemma fleet_call:
  assumes "system_ok now db"
  shows "system_ok now (snd (fleet_api env acc td rq db)) \<and> logs_grow db (snd (fleet_api env acc td rq db)) \<and>
    asset_at (snd (fleet_api env acc td rq db)) = asset_at db"
proof -
  let ?db = "snd (fleet_api env acc td rq db)"
  have ok: "fleet_ok db" "fleet_ok ?db" using assms request_ok by (auto simp: system_ok_def)
  have same: "other_tables ?db = other_tables db" by (rule fleet_request_tables [OF ok(1)])
  obtain P where P: "db_asset_states ?db = filter P (db_asset_states db)"
    using fleet_request_states [of db env acc td rq] by (auto simp: fewer_states_def)
  have "sound db" using assms by (simp add: system_ok_def)
  then have "sound ?db" using same P fleet_okD(1) [OF ok(2)]
    by (simp add: sound_def eval_ok_def seqs_ok_def all_commands_def other_tables_def distinct_map_filter)
  moreover have "timeline_ok ?db" "clock_ok now ?db" "asset_at ?db = asset_at db"
    using same assms by (simp_all add: system_ok_def other_tables_def timeline_ok_def clock_ok_def asset_at_def
        get_assignment_for_device_at_def fun_eq_iff)
  ultimately show ?thesis using ok same assms by (simp add: system_ok_def logs_grow_def other_tables_def)
qed

text \<open>Messages and dispatcher passes: an event effect.\<close>

lemma timeline_tracked:
  assumes "map tracked (db_devices db') = map tracked (db_devices db)" "db_device_assignments db' = db_device_assignments db"
    and "timeline_ok db"
  shows "timeline_ok db'"
proof -
  have image: "tracked ` set (db_devices db') = tracked ` set (db_devices db)" using assms(1) by (metis list.set_map)
  have ids: "map d_id (db_devices db') = map d_id (db_devices db)"
    using arg_cong [OF assms(1), of "map fst"] by (simp add: tracked_def comp_def)
  have found: "\<exists>d \<in> set (db_devices db). tracked d = tracked d'" if "d' \<in> set (db_devices db')" for d'
    using that image by (metis image_iff)
  have found': "\<exists>d' \<in> set (db_devices db'). tracked d' = tracked d" if "d \<in> set (db_devices db)" for d
    using that image by (metis image_iff)
  note rows = timelineD [OF assms(3)]
  show ?thesis unfolding timeline_ok_def Let_def assms(2) ids
  proof (intro conjI)
    show "\<forall>x \<in> set (db_device_assignments db). da_device_id x \<in> d_id ` set (db_devices db') \<and>
        (\<forall>u. da_unassigned_at x = Some u \<longrightarrow> da_assigned_at x \<le> u)"
      using rows(3,4) ids by (metis list.set_map)
    show "\<forall>x \<in> set (db_device_assignments db). is_open x \<longrightarrow>
        (\<exists>d \<in> set (db_devices db'). d_id d = da_device_id x \<and> d_deleted d = CHR ''N'' \<and> d_asset_id d = Some (da_asset_id x))"
      using rows(5) found' unfolding tracked_def prod.inject by metis
    show "\<forall>d \<in> set (db_devices db'). \<forall>a. d_deleted d = CHR ''N'' \<and> d_asset_id d = Some a \<longrightarrow>
        (\<exists>x \<in> set (db_device_assignments db). is_open x \<and> da_device_id x = d_id d \<and> da_asset_id x = a)"
      using rows(6) found unfolding tracked_def prod.inject by metis
  qed (use rows in auto)
qed

lemma effect_call:
  assumes "system_ok now db" "event_effect db db'" "db_new_commands db' = []" "prefix (db_cs_events db) (db_cs_events db')"
  shows "system_ok now db' \<and> logs_grow db db' \<and> asset_at db' = asset_at db"
proof -
  have same: "db_device_assignments db' = db_device_assignments db" "sound db'" using assms(2) by (simp_all add: event_effect_def)
  have tables: "db_geofences db' = db_geofences db" "db_geofence_assignments db' = db_geofence_assignments db"
    "db_asset_groups db' = db_asset_groups db" "db_group_members db' = db_group_members db"
    "db_fence_groups db' = db_fence_groups db" "db_assets db' = db_assets db" "map tracked (db_devices db') = map tracked (db_devices db)"
    using assms(2) by (simp_all add: event_effect_def)
  have ok: "fleet_ok db" "timeline_ok db" "clock_ok now db" using assms(1) by (simp_all add: system_ok_def)
  have "fence_clients db \<subseteq> fence_clients db'" "distinct (map gs_id (db_asset_states db'))"
    using same(2) by (simp_all add: fence_clients_def tables sound_def eval_ok_def)
  then have "fleet_ok db'" using fleet_okD(1,2) [OF ok(1)] by (intro fence_write_ok [OF ok(1)]) (simp_all add: tables)
  moreover have "timeline_ok db'" by (rule timeline_tracked [OF tables(7) same(1) ok(2)])
  moreover have "clock_ok now db'" "asset_at db' = asset_at db"
    using ok(3) by (simp_all add: clock_ok_def asset_at_def get_assignment_for_device_at_def same(1) fun_eq_iff)
  moreover have "logs_grow db db'" using assms(2,4) by (simp add: logs_grow_def event_effect_def)
  ultimately show ?thesis using same(2) assms(3) by (simp add: system_ok_def)
qed

lemma message_call:
  assumes "system_ok now db"
  shows "system_ok now (snd (handle_event env tpc payload db)) \<and> logs_grow db (snd (handle_event env tpc payload db)) \<and>
    asset_at (snd (handle_event env tpc payload db)) = asset_at db"
proof -
  obtain r db' where run: "handle_event env tpc payload db = (r, db')" by (cases "handle_event env tpc payload db")
  have "sound db" "db_new_commands db = []" using assms by (simp_all add: system_ok_def)
  from effect_message [OF this run] have "event_effect db db'" "db_new_commands db' = []" "prefix (db_cs_events db) (db_cs_events db')"
    by blast+
  from effect_call [OF assms this] show ?thesis unfolding run snd_conv .
qed

lemma dispatch_call:
  assumes "system_ok now db" "process_once t clock transport k db w = (db', w')"
  shows "system_ok now db' \<and> logs_grow db db' \<and> asset_at db' = asset_at db"
proof -
  have "distinct (map cmd_id (db_commands db))" using assms(1) by (simp add: system_ok_def sound_def)
  from process_once_reached [OF this assms(2)] have "rows_reached (db_commands db) (db_commands db')" .
  moreover obtain rows where "db' = db\<lparr>db_commands := rows\<rparr>"
    using assms(2) by (auto simp: process_once_def Let_def split: prod.splits if_splits)
  ultimately have "event_effect db db'" "db_new_commands db' = []" "db_cs_events db' = db_cs_events db"
    using assms(1) effect_moved [of db rows] by (simp_all add: system_ok_def)
  with effect_call [OF assms(1)] show ?thesis by simp
qed

text \<open>The clock after a call.\<close>

lemma call_keeps:
  assumes "system_ok now db" "sorted (now # clock_of call)" "run_call call (db, w) = (db', w')"
  shows "system_ok (last (now # clock_of call)) db' \<and> logs_grow db db' \<and> (\<forall>j t. t < now \<longrightarrow> asset_at db' j t = asset_at db j t)"
proof (cases call)
  case (Device_Call acc env td rq)
  with device_call [OF assms(1), of env acc td rq w db' w'] assms(2,3) show ?thesis by simp
next
  case (Fleet_Call acc env td rq)
  with fleet_call [OF assms(1), of env acc td rq] assms(3) show ?thesis by simp
next
  case (Message env tpc payload)
  with message_call [OF assms(1), of env tpc payload] assms(3) show ?thesis by simp
next
  case (Dispatch t clock transport k)
  with dispatch_call [OF assms(1), of t clock transport k w db' w'] assms(3) show ?thesis by simp
qed

lemma calls_keep:
  assumes "system_ok now db" "sorted (now # call_times calls)" "run_calls calls (db, w) = (db', w')"
  shows "system_ok (last (now # call_times calls)) db' \<and> logs_grow db db' \<and> (\<forall>j t. t < now \<longrightarrow> asset_at db' j t = asset_at db j t)"
  using assms
proof (induction calls arbitrary: now db w)
  case (Cons call calls)
  obtain db1 w1 where one: "run_call call (db, w) = (db1, w1)" by (metis prod.exhaust)
  have times: "call_times (call # calls) = clock_of call @ call_times calls" by (simp add: call_times_def)
  have clocks: "sorted (now # clock_of call)" "sorted (last (now # clock_of call) # call_times calls)" "now \<le> last (now # clock_of call)"
    using Cons.prems(2) unfolding times by (cases call; simp)+
  have step: "system_ok (last (now # clock_of call)) db1" "logs_grow db db1" "\<forall>j t. t < now \<longrightarrow> asset_at db1 j t = asset_at db j t"
    using call_keeps [OF Cons.prems(1) clocks(1) one] by blast+
  have "run_calls calls (db1, w1) = (db', w')" using Cons.prems(3) one by (simp add: run_calls_def)
  from Cons.IH [OF step(1) clocks(2) this] step clocks(3) show ?case
    unfolding times by (cases call) (auto intro: logs_grow_trans)
qed (simp add: run_calls_def call_times_def)

lemma commands_followD:
  assumes "commands_follow rows rows'"
  shows "i < length rows \<Longrightarrow> i < length rows' \<and> reachable (rows ! i) (rows' ! i)"
    and "c \<in> set (drop (length rows) rows') \<Longrightarrow> \<exists>c0. cmd_status c0 = CMD_PENDING \<and> reachable c0 c"
proof -
  obtain m n where mn: "rows' = m @ n" "list_all2 reachable rows m" "\<forall>c \<in> set n. \<exists>c0. pending_row c0 \<and> reachable c0 c"
    using assms by (auto simp: commands_follow_def rows_reached_def)
  then have "length m = length rows" by (simp add: list_all2_lengthD)
  with mn show "i < length rows \<Longrightarrow> i < length rows' \<and> reachable (rows ! i) (rows' ! i)"
    "c \<in> set (drop (length rows) rows') \<Longrightarrow> \<exists>c0. cmd_status c0 = CMD_PENDING \<and> reachable c0 c"
    by (auto simp: nth_append pending_row_def list_all2_nthD)
qed

lemma reachable_frame: "reachable c c' \<Longrightarrow> identity_of c' = identity_of c \<and> frame_of c' = frame_of c"
  by (induction rule: reachable.induct) (simp_all add: step_keeps_identity)

text \<open>
  Property C1. The parts of the server work together on one database: in whatever order requests
  to the device, asset, geofence and group routes, ChirpStack messages and dispatcher passes
  arrive, and whatever they contain, the invariant they all rely on holds at the end.  The tracked
  asset of every device at every time before the first request is what it was; the locations, the
  geofence events and the ChirpStack events that were stored are still there, unchanged; every
  stored command is still there with its identity and frame and has only moved along the steps of
  its life; and every new command started as pending.
\<close>
theorem system_history:
  assumes "system_ok t0 db" "sorted (t0 # call_times calls)" "run_calls calls (db, w) = (db', w')"
  shows "system_ok (last (t0 # call_times calls)) db' \<and> (\<forall>j t. t < t0 \<longrightarrow> asset_at db' j t = asset_at db j t) \<and>
    prefix (db_locations db) (db_locations db') \<and> prefix (db_geofence_events db) (db_geofence_events db') \<and>
    prefix (db_cs_events db) (db_cs_events db') \<and>
    (\<forall>i < length (db_commands db). let c = db_commands db ! i; c' = db_commands db' ! i
       in identity_of c' = identity_of c \<and> frame_of c' = frame_of c \<and> reachable c c') \<and>
    (\<forall>c \<in> set (drop (length (db_commands db)) (db_commands db')). \<exists>c0. cmd_status c0 = CMD_PENDING \<and> reachable c0 c)"
proof -
  note kept = calls_keep [OF assms]
  then have "commands_follow (db_commands db) (db_commands db')" by (simp add: logs_grow_def)
  with kept show ?thesis by (auto simp: logs_grow_def Let_def dest: reachable_frame commands_followD)
qed

lemma idle_system: "system_ok 5 idle_db"
  using idle_db_ok
  by (simp add: system_ok_def fleet_ok_def group_tenants_def groups_ok_def tenants_ok_def view_of_def group_asset_links_def
      fence_group_links_def live_groups_def group_clients_def sound_def eval_ok_def seqs_ok_def all_commands_def fleet_ids_ok_def
      idle_db_def empty_db_def flagged_def fun_eq_iff)

definition sample_calls :: "unit call list" where
  "sample_calls = [Message sample_event_env sample_topic sample_payload,
     Device_Call no_accounts Device_History.sample_env admin_token (Put_Device_Asset 1 7),
     Dispatch 6 (\<lambda>_. (6, 6)) (\<lambda>c w. (\<lparr>er_sent = True, er_queue_item_id = None, er_transport = ''CHIRPSTACK'', er_error_message = None, er_retryable = False\<rparr>, w)) 10]"

theorem system_history_witness:
  "\<exists>db' w'. run_calls sample_calls (idle_db, ()) = (db', w') \<and> system_ok 5 db' \<and> (\<forall>j t. t < 5 \<longrightarrow> asset_at db' j t = asset_at idle_db j t)"
proof -
  obtain db' w' where run: "run_calls sample_calls (idle_db, ()) = (db', w')" by (metis prod.exhaust)
  have times: "call_times sample_calls = [5]" by (simp add: call_times_def sample_calls_def Device_History.sample_env_def)
  have "sorted (5 # call_times sample_calls)" unfolding times by simp
  from system_history [OF idle_system this run] show ?thesis using run by (auto simp: times)
qed

end
