(* ===== verification/Location_Delivery.thy ===== *)
theory Location_Delivery
  imports Command_Roundtrip Location_Simulator Event_Effects Realtime_Delivery "HOL-Library.Countable"
begin

text \<open>
  A position on its way: the simulated tracker's uplink, the ingestion that stores it and
  evaluates its geofences, the publication on Redis and the sockets of the client that owns the
  device.
\<close>

subsection \<open>Ingestion never fails\<close>

lemma evaluate_total: "sound db \<Longrightarrow> \<exists>rs db'. evaluate_location env i l db = (Inr rs, db')"
proof (cases "\<exists>d a loc. fetch d_id i (db_devices db) = Some d \<and> d_asset_id d = Some a \<and> fetch l_id l (db_locations db) = Some loc")
  case True
  assume "sound db"
  then have "eval_ok db" "distinct (map gf_id (db_geofences db))" by (simp_all add: sound_def)
  from True evaluate_location_total [OF this _ _ _ refl, of i] show ?thesis by blast
next
  case False
  then show ?thesis by (auto simp: evaluate_location_def split: option.splits)
qed

definition stored_location :: "tlrs_db \<Rightarrow> device \<Rightarrow> normalized_telemetry \<Rightarrow> int \<Rightarrow> location" where
  "stored_location db d t received_at = \<lparr>l_id = fresh l_id (db_locations db), l_device_id = d_id d, l_latitude = nt_latitude t,
     l_longitude = nt_longitude t, l_point = Some (nt_longitude t, nt_latitude t), l_altitude = nt_altitude t,
     l_accuracy = nt_accuracy t, l_device_timestamp = nt_device_timestamp t, l_received_at = received_at, l_deleted = CHR ''N''\<rparr>"

lemma persist_total:
  assumes "sound db" "tracked d \<in> tracked ` set (db_devices db)"
  shows "\<exists>db'. persist_location env d t now db = (Inr (stored_location db d t now), db') \<and> event_effect db db' \<and>
    stored_location db d t now \<in> set (db_locations db')"
proof -
  let ?loc = "stored_location db d t now"
  let ?db1 = "flush_commands (en_now env) (db\<lparr>db_locations := db_locations db @ [?loc]\<rparr>)"
  let ?db2 = "?db1\<lparr>db_devices := put d_id (d\<lparr>d_state := ON, d_last_seen_at := Some now\<rparr>) (db_devices ?db1)\<rparr>"
  have run: "persist_location env d t now db = bindS (evaluate_location env (d_id d) (l_id ?loc)) (\<lambda>_. retS ?loc) ?db2"
    by (simp add: persist_location_def stored_location_def Let_def)
  have new: "sound (db\<lparr>db_locations := db_locations db @ [?loc]\<rparr>)"
    using assms(1) by (simp add: sound_def eval_ok_def seqs_ok_def all_commands_def)
  have "sound ?db2"
    using event_effect_sound [OF effect_put_device [OF event_effect_sound [OF effect_flush [OF new]]], of "d\<lparr>d_state := ON, d_last_seen_at := Some now\<rparr>"]
      assms(2) by (simp add: put_device_def tracked_def flush_commands_def)
  from evaluate_total [OF this] obtain rs db' where eval: "evaluate_location env (d_id d) (l_id ?loc) ?db2 = (Inr rs, db')" by blast
  then have stored: "persist_location env d t now db = (Inr ?loc, db')" unfolding run by simp
  have "prefix (db_locations ?db2) (db_locations db')" using grows_evaluate [OF eval] by (simp add: grows_def)
  then have "?loc \<in> set (db_locations db')" using set_mono_prefix [of "db_locations ?db2" "db_locations db'"] by (auto simp: flush_commands_def)
  with stored effect_persist [OF assms stored] show ?thesis by blast
qed

subsection \<open>The messages of the simulated tracker\<close>

lemma mapE_nth: "mapE f xs = Inr ys \<Longrightarrow> i < length xs \<Longrightarrow> f (xs ! i) = Inr (ys ! i)"
proof (induction xs arbitrary: ys i)
  case (Cons x xs)
  then show ?case by (cases i) (auto simp: res_simps)
qed simp

lemma simulated_message:
  assumes "build_messages environ now_iso app eui run_id points = Inr msgs" "i < length points"
    and "py_lower (py_strip (getenv environ ''CHIRPSTACK_SIM_FORMAT'' ''binary'')) \<noteq> ''legacy''"
  obtains data where "encode_location_payload (points ! i) = Inr data"
    "msgs ! i = (event_topic \<lparr>dt_application_id = app, dt_dev_eui = eui\<rparr> ''up'',
       uplink_payload environ app eui run_id (now_iso (i + 1)) (i + 1) @ [(''data'', PvStr data)])"
proof -
  have "zip [1..<Suc (length points)] points ! i = (i + 1, points ! i)"
    using assms(2) by (subst nth_zip) (simp_all only: length_upt nth_upt, simp_all)
  moreover have "i < length (zip [1..<Suc (length points)] points)" using assms(2) by (simp only: length_zip length_upt)
  note mapE_nth [OF assms(1) [unfolded build_messages_def Let_def] this]
  ultimately show ?thesis using assms(3) by (auto simp: res_simps event_topic_def intro: that)
qed

lemma simulated_topic:
  assumes "CHR ''/'' \<notin> set app" "CHR ''/'' \<notin> set eui" "py_strip app = app" "app \<noteq> []" "normalize_eui_text eui = eui" "eui \<noteq> []"
  shows "parse_event_topic (event_topic \<lparr>dt_application_id = app, dt_dev_eui = eui\<rparr> ''up'') =
    Inr \<lparr>ti_application_id = app, ti_dev_eui = eui, ti_event_type = ''up''\<rparr>"
proof -
  have "py_compact eui \<noteq> []" using assms(5,6) by (auto simp: normalize_eui_text_def py_lower_def)
  then have "parse_downlink_topic (build_topic app eui) = Inr \<lparr>dt_application_id = app, dt_dev_eui = eui\<rparr>"
    using assms by (simp add: parse_built_topic normalize_eui_text_def)
  from event_topic_parses [OF this] show ?thesis by simp
qed

lemma simulated_fields:
  "map_of (uplink_payload environ app eui run_id sent_at i @ [(''data'', PvStr data)]) ''data'' = Some (PvStr data)"
  "map_of (uplink_payload environ app eui run_id sent_at i @ [(''data'', PvStr data)]) ''fPort'' = Some (PvInt 10)"
  "map_of (uplink_payload environ app eui run_id sent_at i @ [(''data'', PvStr data)]) ''object'' = None"
  "\<exists>info. map_of (uplink_payload environ app eui run_id sent_at i @ [(''data'', PvStr data)]) ''deviceInfo'' = Some (PvDict info) \<and>
     map_of info ''devEui'' = Some (PvStr eui)"
  "deduplication_id_of (uplink_payload environ app eui run_id sent_at i @ [(''data'', PvStr data)]) =
     Inr (Some (''sim-'' @ eui @ ''-'' @ run_id @ ''-'' @ py_str_int (int i)))"
  by (simp_all add: uplink_payload_def deduplication_id_of_def)

subsection \<open>Handling a position uplink\<close>

text \<open>
  A known device of a client, whose uplink decodes: the position is stored and handed to Redis.  A
  Redis that fails costs only the publication; any other exception of the publication makes the
  handler report the event as failed, though its position is stored.
\<close>

definition publication_seen :: "event_env \<Rightarrow> realtime_location \<Rightarrow> handle_result \<Rightarrow> tlrs_db \<Rightarrow> tlrs_db \<Rightarrow> bool" where
  "publication_seen env e r db db' \<longleftrightarrow>
     (case en_redis_publish env LOCATION_CHANNEL (en_dump env e) of
        Published _ \<Rightarrow> hr_success r \<and> hr_realtime r = Some e \<and>
          db_published db' = db_published db @ [(LOCATION_CHANNEL, en_dump env e)]
      | Redis_Error _ \<Rightarrow> hr_success r \<and> hr_realtime r = Some e \<and> db_published db' = db_published db
      | Publish_Error err \<Rightarrow> \<not> hr_success r \<and> hr_failure_reason r = Some err \<and> db_published db' = db_published db)"

lemma publication_seen_events [simp]:
  "publication_seen env e r (db\<lparr>db_cs_events := es\<rparr>) db' = publication_seen env e r db db'"
  by (simp add: publication_seen_def split: publish_outcome.split)

lemma committed_publication:
  assumes "process_event env ti payload event db = (Inr (res, e), dbx)" "process_and_commit env ti payload event db = (r, db')"
    and "db_cs_events db = es @ [event]" "ce_id event \<notin> ce_id ` set es"
    and "hr_success res" "hr_processed_kind res = Some ''location''" "hr_realtime res = Some rt"
  shows "publication_seen env rt r db db' \<and> db_locations db' = db_locations dbx"
proof (rule process_and_commit_cases [OF assms(2-4)])
  fix res' e' dbx'
  assume f: "process_event env ti payload event db = (Inr (res', e'), dbx')"
    "db' = (flush_commands (now_of env) dbx')\<lparr>db_cs_events := es @ [e'], db_published := db_published db @ publications env res'\<rparr>"
    "r = res'\<lparr>hr_event := Some e'\<rparr>" and quiet: "\<And>err. \<not> publish_fails env res' err"
  have same: "res' = res" "dbx' = dbx" using f(1) assms(1) by simp_all
  have "en_redis_publish env LOCATION_CHANNEL (en_dump env rt) \<noteq> Publish_Error err" for err
    using quiet [of err] assms(5-7) by (simp add: publish_fails_def same)
  then show ?thesis using f(2,3) assms(5-7)
    by (auto simp: publication_seen_def publications_def same flush_commands_def split: publish_outcome.split)
next
  fix res' e' dbx' err
  assume f: "process_event env ti payload event db = (Inr (res', e'), dbx')"
    "db' = (flush_commands (now_of env) dbx')\<lparr>db_cs_events := es @ [e'\<lparr>ce_processed := False, ce_error_message := Some (take 500 err)\<rparr>],
       db_published := db_published db\<rparr>"
    "publish_fails env res' err" "hr_failure_reason r = Some err" "\<not> hr_success r"
  have same: "res' = res" "dbx' = dbx" using f(1) assms(1) by simp_all
  show ?thesis using f(2-5) assms(7) by (simp add: publication_seen_def publish_fails_def same flush_commands_def)
qed (use assms(1) in simp)

text \<open>The event that announces a stored location.\<close>

definition announced :: "location \<Rightarrow> device \<Rightarrow> nat \<Rightarrow> realtime_location" where
  "announced loc d c = \<lparr>rl_location_id = l_id loc, rl_client_id = c, rl_device_id = d_id d, rl_device_serial = d_serial d,
     rl_latitude = l_latitude loc, rl_longitude = l_longitude loc, rl_altitude = l_altitude loc, rl_accuracy = l_accuracy loc,
     rl_recorded_at = (case l_device_timestamp loc of Some t \<Rightarrow> t | None \<Rightarrow> l_received_at loc)\<rparr>"

lemma known_device_persists:
  assumes "sound db" "get_device db eui = Inr (Some d)" "d1 \<in> {d, d\<lparr>d_device_profile_id := p\<rparr>}"
  shows "\<exists>db2. persist_location env d1 t now (put_device d1 db) = (Inr (stored_location db d t now), db2) \<and>
    stored_location db d t now \<in> set (db_locations db2)"
proof -
  have keys: "tracked d1 = tracked d" "d_id d1 = d_id d" using assms(3) by (auto simp: tracked_def)
  have known: "tracked d1 \<in> tracked ` set (db_devices db)" using get_device_found [OF assms(2)] keys(1) by simp
  have effect: "event_effect db (put_device d1 db)" by (rule effect_put_device [OF assms(1) known])
  have sound: "sound (put_device d1 db)" by (rule event_effect_sound [OF effect])
  have known1: "tracked d1 \<in> tracked ` set (db_devices (put_device d1 db))"
    using known effect unfolding event_effect_def by (metis list.set_map)
  have "stored_location (put_device d1 db) d1 t now = stored_location db d t now" by (simp add: stored_location_def put_device_def keys)
  with persist_total [OF sound known1, of env t now] show ?thesis by auto
qed

lemma position_handled:
  assumes "sound db" "get_device db eui = Inr (Some d)" "d_client_id d = Some c"
    and "py_strip (or_empty (d_application_id d)) = app" "app \<noteq> []" "py_strip app = app"
    and "parse_event_topic tpc = Inr \<lparr>ti_application_id = app, ti_dev_eui = eui, ti_event_type = ''up''\<rparr>"
    and "deduplication_id_of payload = Inr (Some k)" "\<not> event_exists db k" "\<not> en_raced env"
    and "en_validate_up env (PvDict payload) = Inr up" "di_dev_eui (ue_device_info up) = eui" "ue_fport up = Some 10"
    and "decode_up_event up = Inr t"
  shows "\<exists>r db' l. handle_event env tpc payload db = (Inr r, db') \<and> l = stored_location db d t (now_of env) \<and>
    l \<in> set (db_locations db') \<and> publication_seen env (announced l d c) r db db'"
proof -
  let ?ti = "\<lparr>ti_application_id = app, ti_dev_eui = eui, ti_event_type = ''up''\<rparr>"
  let ?event = "new_event db ?ti (Some k) tpc payload"
  let ?db = "db\<lparr>db_cs_events := db_cs_events db @ [?event]\<rparr>"
  let ?d = "if d_device_profile_id d = None then d\<lparr>d_device_profile_id := di_device_profile_id (ue_device_info up)\<rparr> else d"
  let ?loc = "stored_location db d t (now_of env)" and ?rt = "announced (stored_location db d t (now_of env)) d c"
  have keys: "d_id ?d = d_id d" "d_client_id ?d = Some c" "d_serial ?d = d_serial d" using assms(3) by simp_all
  have dev: "get_device ?db eui = Inr (Some d)" using assms(2) by (simp add: get_device_def)
  have loc: "stored_location ?db d t (now_of env) = ?loc" by (simp add: stored_location_def)
  have one: "?d \<in> {d, d\<lparr>d_device_profile_id := di_device_profile_id (ue_device_info up)\<rparr>}" by simp
  have "sound ?db" using assms(1) by simp
  from known_device_persists [OF this dev one, of "en_eval env" t "now_of env", unfolded loc] obtain db2
    where persist: "persist_location (en_eval env) ?d t (now_of env) (put_device ?d ?db) = (Inr ?loc, db2)" "?loc \<in> set (db_locations db2)"
    by (elim exE conjE)
  have rt: "build_realtime_location_data db2 ?d ?loc = Inr (Some ?rt)"
    by (simp add: build_realtime_location_data_def resolve_device_client_id_def keys announced_def)
  have "validate_device_application_id d app = None"
    using assms(4-6) by (simp add: validate_device_application_id_def Let_def)
  then have "process_event env ?ti (PvDict payload) ?event ?db =
      process_location_up_event env ?d up (?event\<lparr>ce_device_id := Some (d_id d)\<rparr>) (put_device ?d ?db)"
    using assms(11-13) dev by (simp add: process_event_def process_up_event_def validate_up_event_def contract_defs Let_def)
  also have "\<dots> = (Inr ((result_of True ''location'')\<lparr>hr_device_id := Some (d_id d), hr_location_id := Some (l_id ?loc), hr_realtime := Some ?rt\<rparr>,
      accepted (?event\<lparr>ce_device_id := Some (d_id d)\<rparr>)), db2)"
    using assms(14) persist(1) rt by (simp add: process_location_up_event_def keys)
  finally have run: "process_event env ?ti (PvDict payload) ?event ?db = \<dots>" .
  obtain r db' where commit: "process_and_commit env ?ti (PvDict payload) ?event ?db = (r, db')" by (metis surj_pair)
  have "db_cs_events ?db = db_cs_events db @ [?event]" "ce_id ?event \<notin> ce_id ` set (db_cs_events db)"
    using fresh_not_in by (simp_all add: new_event_def)
  from committed_publication [OF run commit this, of ?rt]
  have "publication_seen env ?rt r db db'" "db_locations db' = db_locations db2"
    by (simp_all add: result_of_def)
  moreover have "handle_event env tpc payload db = (Inr r, db')"
    using assms(7-10) commit by (simp add: handle_event_def Let_def)
  ultimately show ?thesis using persist(2) by auto
qed

text \<open>An event all of whose floats are numbers; pydantic writes another float as \<open>null\<close>.\<close>

definition numeric_event :: "realtime_location \<Rightarrow> bool" where
  "numeric_event e \<longleftrightarrow> (\<exists>x. rl_latitude e = Finite x) \<and> (\<exists>x. rl_longitude e = Finite x) \<and>
     (\<forall>x. rl_altitude e = Some x \<or> rl_accuracy e = Some x \<longrightarrow> (\<exists>r. x = Finite r))"

text \<open>
  Property C39. A position of the simulated tracker reaches exactly the sockets of the client that
  owns the device.  When its message arrives for an active device of a client on a consistent
  database and was not seen before, the position is stored, at most half a unit of the seventh
  decimal from the simulated point, whatever the geofences of the device.  If Redis takes the
  publication, exactly one message is published, it names this location, the device and its client,
  and a subscriber hears it on its channel and sends it to every working socket of this client and
  to no other.  If Redis fails, the event succeeds with nothing published; any other failure of
  the publication makes the event fail, with the position stored and nothing published.
\<close>
theorem position_reaches_client:
  assumes "build_messages environ now_iso app eui run_id points = Inr msgs" "i < length points" "msgs ! i = (tpc, payload)"
    and "py_lower (py_strip (getenv environ ''CHIRPSTACK_SIM_FORMAT'' ''binary'')) \<noteq> ''legacy''"
    and "\<bar>sp_lat (points ! i)\<bar> \<le> 90" "\<bar>sp_lng (points ! i)\<bar> \<le> 180"
    and "CHR ''/'' \<notin> set app" "py_strip app = app" "app \<noteq> []" "CHR ''/'' \<notin> set eui" "normalize_eui_text eui = eui" "eui \<noteq> []"
    and "sound db" "get_device db eui = Inr (Some d)" "py_strip (or_empty (d_application_id d)) = app" "d_client_id d = Some c"
    and "\<forall>k. deduplication_id_of payload = Inr (Some k) \<longrightarrow> \<not> event_exists db k" "\<not> en_raced env"
    and "pydantic_reads env" "en_validate_up env (PvDict payload) = Inr up" "\<And>e. numeric_event e \<Longrightarrow> parse (en_dump env e) = Some e"
    and "manager_ok m" "\<And>S. finite S \<Longrightarrow> set (iter S) = S \<and> distinct (iter S)"
  shows "\<exists>r db' l e lat lng. handle_event env tpc payload db = (Inr r, db') \<and>
    l \<in> set (db_locations db') \<and> l_id l = rl_location_id e \<and> l_device_id l = d_id d \<and>
    l_latitude l = Finite lat \<and> l_longitude l = Finite lng \<and>
    \<bar>lat - sp_lat (points ! i)\<bar> \<le> 1 / 20000000 \<and> \<bar>lng - sp_lng (points ! i)\<bar> \<le> 1 / 20000000 \<and>
    rl_client_id e = c \<and> rl_device_id e = d_id d \<and> rl_latitude e = Finite lat \<and> rl_longitude e = Finite lng \<and>
    (case en_redis_publish env LOCATION_CHANNEL (en_dump env e) of
       Published _ \<Rightarrow> hr_success r \<and> hr_realtime r = Some e \<and>
         (\<exists>sent. db_published db' = db_published db @ sent \<and> length sent = 1 \<and>
           set (fst (deliver_all parse iter send (on_channel SUBSCRIBER_CHANNEL sent) m)) = {ws \<in> sockets m c. send ws = Sent} \<times> {e})
     | Redis_Error _ \<Rightarrow> hr_success r \<and> hr_realtime r = Some e \<and> db_published db' = db_published db
     | Publish_Error err \<Rightarrow> \<not> hr_success r \<and> hr_failure_reason r = Some err \<and> db_published db' = db_published db)"
proof -
  obtain data where data: "encode_location_payload (points ! i) = Inr data"
      "tpc = event_topic \<lparr>dt_application_id = app, dt_dev_eui = eui\<rparr> ''up''"
      "payload = uplink_payload environ app eui run_id (now_iso (i + 1)) (i + 1) @ [(''data'', PvStr data)]"
    using simulated_message [OF assms(1,2,4)] assms(3) by auto
  note topic = simulated_topic [OF assms(7,10,8,9,11,12), folded data(2)]
  note fields = simulated_fields [of environ app eui run_id "now_iso (i + 1)" "i + 1" data, folded data(3)]
  have up: "ue_data up = Some data" "ue_fport up = Some 10" "ue_object up = None" "di_dev_eui (ue_device_info up) = eui"
    using assms(11,19,20) fields(1-4) unfolding pydantic_reads_def by auto
  obtain t lat lng alt acc where t: "decode_location_payload_v1 up = Inr t"
      "nt_latitude t = Finite lat" "\<bar>lat - sp_lat (points ! i)\<bar> \<le> 1 / 20000000"
      "nt_longitude t = Finite lng" "\<bar>lng - sp_lng (points ! i)\<bar> \<le> 1 / 20000000"
      "nt_altitude t = Some (Finite alt)" "nt_accuracy t = Some (Finite acc)"
    using simulated_position_decodes [OF data(1) up(1) assms(5,6)] by blast
  have decoded: "decode_up_event up = Inr t" using t(1) up(3) by (simp add: decode_up_event_def)
  have new: "\<not> event_exists db (''sim-'' @ eui @ ''-'' @ run_id @ ''-'' @ py_str_int (int (i + 1)))" using assms(17) fields(5) by blast
  obtain r db' l where handled: "handle_event env tpc payload db = (Inr r, db')" "l = stored_location db d t (now_of env)"
      "l \<in> set (db_locations db')" "publication_seen env (announced l d c) r db db'"
    using position_handled [OF assms(13,14,16,15,9,8) topic fields(5) new assms(18,20) up(4,2) decoded] by blast
  let ?e = "announced l d c"
  have e: "rl_client_id ?e = c" "rl_device_id ?e = d_id d" "rl_latitude ?e = Finite lat" "rl_longitude ?e = Finite lng"
      "rl_location_id ?e = l_id l" "numeric_event ?e"
    using t by (auto simp: announced_def handled(2) stored_location_def numeric_event_def)
  let ?msg = "\<lparr>rm_type = ''message'', rm_data = en_dump env ?e\<rparr>"
  have heard: "on_channel SUBSCRIBER_CHANNEL [(LOCATION_CHANNEL, en_dump env ?e)] = [?msg]"
    by (simp add: on_channel_def SUBSCRIBER_CHANNEL_def LOCATION_CHANNEL_def)
  obtain took m' where run: "deliver parse iter send ?msg m = (took, m')" by (metis surj_pair)
  have "set took = {ws \<in> sockets m c. send ws = Sent} \<times> {?e}"
    using delivery_exact [OF assms(22,23) _ _ run, of ?e] assms(21) [OF e(6)] e(1) by simp
  then have "set (fst (deliver_all parse iter send (on_channel SUBSCRIBER_CHANNEL [(LOCATION_CHANNEL, en_dump env ?e)]) m)) =
      {ws \<in> sockets m c. send ws = Sent} \<times> {?e}" by (simp add: heard run)
  with handled(4) have "case en_redis_publish env LOCATION_CHANNEL (en_dump env ?e) of
       Published _ \<Rightarrow> hr_success r \<and> hr_realtime r = Some ?e \<and>
         (\<exists>sent. db_published db' = db_published db @ sent \<and> length sent = 1 \<and>
           set (fst (deliver_all parse iter send (on_channel SUBSCRIBER_CHANNEL sent) m)) = {ws \<in> sockets m c. send ws = Sent} \<times> {?e})
     | Redis_Error _ \<Rightarrow> hr_success r \<and> hr_realtime r = Some ?e \<and> db_published db' = db_published db
     | Publish_Error err \<Rightarrow> \<not> hr_success r \<and> hr_failure_reason r = Some err \<and> db_published db' = db_published db"
    by (cases "en_redis_publish env LOCATION_CHANNEL (en_dump env ?e)") (auto simp: publication_seen_def)
  moreover have "l_device_id l = d_id d" "l_latitude l = Finite lat" "l_longitude l = Finite lng"
    using t by (simp_all add: handled(2) stored_location_def)
  ultimately show ?thesis using handled(1,3) e(1-5) t(3,5)
    by (intro exI [of _ r] exI [of _ db'] exI [of _ l] exI [of _ ?e] exI [of _ lat] exI [of _ lng]) simp
qed

text \<open>A concrete text for a published position: its fields as one number, written in unary.\<close>

definition number_rat :: "rat \<Rightarrow> nat" where
  "number_rat r = (case quotient_of r of (p, q) \<Rightarrow> prod_encode (int_encode p, int_encode q))"

definition rat_of_number :: "nat \<Rightarrow> rat" where
  "rat_of_number n = (case prod_decode n of (p, q) \<Rightarrow> of_int (int_decode p) / of_int (int_decode q))"

definition number_float :: "py_float \<Rightarrow> nat" where
  "number_float x = (case x of Finite r \<Rightarrow> number_rat r | _ \<Rightarrow> 0)"

definition number_option :: "py_float option \<Rightarrow> nat" where
  "number_option x = (case x of None \<Rightarrow> 0 | Some r \<Rightarrow> Suc (number_float r))"

definition option_of_number :: "nat \<Rightarrow> py_float option" where
  "option_of_number n = (if n = 0 then None else Some (Finite (rat_of_number (n - 1))))"

definition dump_location :: "realtime_location \<Rightarrow> string" where
  "dump_location e = replicate (list_encode [rl_location_id e, rl_client_id e, rl_device_id e, list_encode (map of_char (rl_device_serial e)),
     number_float (rl_latitude e), number_float (rl_longitude e), number_option (rl_altitude e), number_option (rl_accuracy e),
     int_encode (rl_recorded_at e)]) (CHR ''1'')"

definition load_location :: "string \<Rightarrow> realtime_location option" where
  "load_location s = (let x = list_decode (length s) in Some \<lparr>rl_location_id = x ! 0, rl_client_id = x ! 1, rl_device_id = x ! 2,
     rl_device_serial = map char_of (list_decode (x ! 3)), rl_latitude = Finite (rat_of_number (x ! 4)), rl_longitude = Finite (rat_of_number (x ! 5)),
     rl_altitude = option_of_number (x ! 6), rl_accuracy = option_of_number (x ! 7), rl_recorded_at = int_decode (x ! 8)\<rparr>)"

lemma rat_numbered: "rat_of_number (number_rat r) = r"
  using quotient_of_div [of r] by (cases "quotient_of r") (simp add: rat_of_number_def number_rat_def)

lemma option_numbered: "(\<And>y. x = Some y \<Longrightarrow> \<exists>r. y = Finite r) \<Longrightarrow> option_of_number (number_option x) = x"
  by (cases x) (auto simp: option_of_number_def number_option_def number_float_def rat_numbered)

lemma location_loaded:
  assumes "numeric_event e"
  shows "load_location (dump_location e) = Some e"
proof -
  have chars: "map char_of (map (of_char :: char \<Rightarrow> nat) s) = s" for s by (simp add: map_idI)
  obtain la lo where "rl_latitude e = Finite la" "rl_longitude e = Finite lo" using assms by (auto simp: numeric_event_def)
  moreover have "option_of_number (number_option (rl_altitude e)) = rl_altitude e" "option_of_number (number_option (rl_accuracy e)) = rl_accuracy e"
    by (rule option_numbered; use assms in \<open>auto simp: numeric_event_def\<close>)+
  ultimately show ?thesis by (cases e) (simp add: load_location_def dump_location_def Let_def rat_numbered number_float_def chars del: map_map)
qed

definition position_env :: event_env where
  "position_env = sample_event_env\<lparr>en_validate_up := read_up, en_dump := dump_location, en_redis_publish := \<lambda>_ _. Published 1\<rparr>"

theorem position_reaches_client_witness:
  "\<exists>tpc payload r db' e lat sent. build_messages Map.empty (\<lambda>_. ''now'') ''app'' sample_eui ''run'' [hd DEFAULT_STATIC_POINTS] = Inr [(tpc, payload)] \<and>
     handle_event position_env tpc payload sample_device_db = (Inr r, db') \<and> hr_success r \<and> hr_realtime r = Some e \<and>
     rl_latitude e = Finite lat \<and> \<bar>lat + 333012 / 10000\<bar> \<le> 1 / 20000000 \<and>
     db_published db' = sent \<and> length sent = 1 \<and>
     set (fst (deliver_all load_location sorted_list_of_set (\<lambda>_. Sent) (on_channel SUBSCRIBER_CHANNEL sent) two_sockets)) = {(7, e)}"
proof -
  let ?pt = "hd DEFAULT_STATIC_POINTS"
  obtain data where data: "encode_location_payload ?pt = Inr data" using default_point_encodes by blast
  have format: "py_lower (py_strip (getenv Map.empty ''CHIRPSTACK_SIM_FORMAT'' ''binary'')) \<noteq> ''legacy''" by code_simp
  obtain tpc payload where sent: "build_messages Map.empty (\<lambda>_. ''now'') ''app'' sample_eui ''run'' [?pt] = Inr [(tpc, payload)]"
    and payload: "payload = uplink_payload Map.empty ''app'' sample_eui ''run'' ''now'' 1 @ [(''data'', PvStr data)]"
    using data format by (simp add: build_messages_def Let_def)
  have names: "CHR ''/'' \<notin> set ''app'' \<and> py_strip ''app'' = ''app'' \<and> CHR ''/'' \<notin> set sample_eui \<and> normalize_eui_text sample_eui = sample_eui \<and> sample_eui \<noteq> []"
    by code_simp
  have sound: "sound sample_device_db"
    by (simp add: sound_def sample_device_db_def empty_db_def eval_ok_def seqs_ok_def all_commands_def)
  have dev: "get_device sample_device_db sample_eui = Inr (Some sample_device)" "py_strip (or_empty (d_application_id sample_device)) = ''app''"
      "d_client_id sample_device = Some 1"
    using names by (simp_all add: sample_known_device sample_device_db_def) (simp_all add: sample_device_def or_empty_def)
  have models: "pydantic_reads position_env"
    unfolding pydantic_reads_def by (intro conjI allI impI; clarsimp simp: position_env_def sample_event_env_def dest!: read_up_ok)
  obtain up where up: "en_validate_up position_env (PvDict payload) = Inr up"
    by (simp add: position_env_def payload read_up_def uplink_payload_def)
  have env: "\<not> en_raced position_env" "en_dump position_env = dump_location" "en_redis_publish position_env ch x = Published 1" for ch x
    by (simp_all add: position_env_def sample_event_env_def)
  have loads: "numeric_event e \<Longrightarrow> load_location (en_dump position_env e) = Some e" for e by (simp add: env(2) location_loaded)
  have empty: "\<forall>k. deduplication_id_of payload = Inr (Some k) \<longrightarrow> \<not> event_exists sample_device_db k"
    by (simp add: event_exists_def sample_device_db_def empty_db_def)
  have globe: "\<bar>sp_lat ([?pt] ! 0)\<bar> \<le> 90" "\<bar>sp_lng ([?pt] ! 0)\<bar> \<le> 180" "sp_lat ?pt = - 333012 / 10000" by (simp_all add: DEFAULT_STATIC_POINTS_def)
  have socks: "sockets two_sockets 1 = {7}" by (simp add: two_sockets_def connect_sockets)
  have iter: "finite S \<Longrightarrow> set (sorted_list_of_set S) = S \<and> distinct (sorted_list_of_set S)" for S :: "nat set" by simp
  from position_reaches_client [where i = 0 and tpc = tpc and payload = payload and send = "\<lambda>_. Sent",
      OF sent _ _ format globe(1,2) _ _ _ _ _ _ sound dev empty env(1) models up loads two_sockets_ok iter] names
  obtain r db' e lat xs where "handle_event position_env tpc payload sample_device_db = (Inr r, db')" "hr_success r" "hr_realtime r = Some e"
      "rl_latitude e = Finite lat" "\<bar>lat - sp_lat ?pt\<bar> \<le> 1 / 20000000" "db_published db' = db_published sample_device_db @ xs" "length xs = 1"
      "set (fst (deliver_all load_location sorted_list_of_set (\<lambda>_. Sent) (on_channel SUBSCRIBER_CHANNEL xs) two_sockets)) = {7} \<times> {e}"
    by (auto simp: socks [unfolded One_nat_def] env(3))
  moreover have "db_published sample_device_db = []" by (simp add: sample_device_db_def empty_db_def)
  ultimately show ?thesis using sent globe(3) by auto
qed

end
