(* ===== verification/Realtime_World.thy ===== *)
theory Realtime_World
  imports Location_Delivery
begin

text \<open>
  The server as its websocket clients meet it: tickets are asked for and redeemed, sockets open
  and close, the ChirpStack worker handles messages and publishes, the subscriber dispatches what
  it hears, all of it interleaved.  The world's trace, newest first, says what happened and what
  was true then.
\<close>

subsection \<open>The world\<close>

datatype trace_event =
    Asked token_data accounts int
  | Accepted_Socket nat connection_scope accounts int
  | Published_Message string string
  | Sent_Event nat realtime_location

record 's world =
  w_accounts :: accounts
  w_redis :: 's
  w_db :: tlrs_db
  w_queue :: "redis_message list"
  w_manager :: manager
  w_sending :: "(realtime_location \<times> nat list \<times> nat list) option"
  w_trace :: "trace_event list"

text \<open>The messages of a handled event, as the trace records them and as a subscription hears them.\<close>

definition traced :: "(string \<times> string) list \<Rightarrow> trace_event list" where
  "traced ps = rev (map (\<lambda>(ch, x). Published_Message ch x) ps)"

text \<open>
  The rules.  Accounts and tables are changed by the rest of the server in any way; entries of
  Redis expire; a ticket is asked for with any token data; a handshake redeems a ticket against
  the accounts of that moment.  A publication is heard by the subscriber or lost while it is away.
  The subscriber takes one message at a time, like \<open>deliver\<close>; since it awaits every send, other
  steps may come between two of them, and \<open>w_sending\<close> holds the event, the sockets left to try and
  those that failed.  All environments share the settings, the hash and the JSON of \<open>base\<close>.
\<close>

inductive world_step ::
  "'s redis \<Rightarrow> realtime_env \<Rightarrow> (string \<Rightarrow> realtime_location option) \<Rightarrow> 's world \<Rightarrow> 's world \<Rightarrow> bool"
  for rd :: "'s redis" and base :: realtime_env and parse :: "string \<Rightarrow> realtime_location option" where
  accounts_change: "world_step rd base parse w (w\<lparr>w_accounts := acc\<rparr>)"
| tables_change: "db_published db = db_published (w_db w) \<Longrightarrow> world_step rd base parse w (w\<lparr>w_db := db\<rparr>)"
| entries_expire: "(\<And>k. rd_view rd s k \<in> {None, rd_view rd (w_redis w) k}) \<Longrightarrow> world_step rd base parse w (w\<lparr>w_redis := s\<rparr>)"
| asks: "create_websocket_ticket rd (base\<lparr>re_now := now, re_token := tok\<rparr>) (w_accounts w) td (w_redis w) = (r, s) \<Longrightarrow>
    world_step rd base parse w (w\<lparr>w_redis := s, w_trace := Asked td (w_accounts w) now # w_trace w\<rparr>)"
| accepts: "locations_websocket rd (base\<lparr>re_now := now\<rparr>) (w_accounts w) ticket origin (w_redis w) = (Accepted scope, s) \<Longrightarrow>
    (\<And>sc acc t. Accepted_Socket ws sc acc t \<notin> set (w_trace w)) \<Longrightarrow>
    world_step rd base parse w (w\<lparr>w_redis := s, w_manager := snd (connect (rs_client_id scope) ws (w_manager w)),
      w_trace := Accepted_Socket ws scope (w_accounts w) now # w_trace w\<rparr>)"
| refuses: "locations_websocket rd (base\<lparr>re_now := now\<rparr>) (w_accounts w) ticket origin (w_redis w) = (h, s) \<Longrightarrow>
    (\<And>scope. h \<noteq> Accepted scope) \<Longrightarrow> world_step rd base parse w (w\<lparr>w_redis := s\<rparr>)"
| closes: "Accepted_Socket ws scope acc now \<in> set (w_trace w) \<Longrightarrow>
    world_step rd base parse w (w\<lparr>w_manager := disconnect (rs_client_id scope) ws (w_manager w)\<rparr>)"
| handles: "handle_event env tpc payload (w_db w) = (r, db) \<Longrightarrow> db_published db = db_published (w_db w) @ ps \<Longrightarrow>
    heard \<in> {[], on_channel SUBSCRIBER_CHANNEL ps} \<Longrightarrow>
    world_step rd base parse w (w\<lparr>w_db := db, w_queue := w_queue w @ heard, w_trace := traced ps @ w_trace w\<rparr>)"
| restarts: "world_step rd base parse w (w\<lparr>w_queue := [], w_sending := None\<rparr>)"
| ignores: "w_sending w = None \<Longrightarrow> w_queue w = msg # rest \<Longrightarrow> received_event parse msg = None \<Longrightarrow>
    world_step rd base parse w (w\<lparr>w_queue := rest\<rparr>)"
| starts: "w_sending w = None \<Longrightarrow> w_queue w = msg # rest \<Longrightarrow> received_event parse msg = Some e \<Longrightarrow>
    set conns = sockets (w_manager w) (rl_client_id e) \<Longrightarrow> distinct conns \<Longrightarrow>
    world_step rd base parse w (w\<lparr>w_queue := rest, w_sending := Some (e, conns, [])\<rparr>)"
| sends: "w_sending w = Some (e, ws # rest, failed) \<Longrightarrow>
    world_step rd base parse w (w\<lparr>w_sending := Some (e, rest, failed), w_trace := Sent_Event ws e # w_trace w\<rparr>)"
| fails: "w_sending w = Some (e, ws # rest, failed) \<Longrightarrow>
    world_step rd base parse w (w\<lparr>w_sending := Some (e, rest, failed @ [ws])\<rparr>)"
| ends: "w_sending w = Some (e, [], failed) \<Longrightarrow>
    world_step rd base parse w (w\<lparr>w_manager := fold (disconnect (rl_client_id e)) failed (w_manager w), w_sending := None\<rparr>)"

text \<open>The world at its start: no tickets, no sockets, nothing heard or sent.\<close>

definition world_starts :: "'s redis \<Rightarrow> 's world \<Rightarrow> bool" where
  "world_starts rd w \<longleftrightarrow> (\<forall>k. rd_view rd (w_redis w) k = None) \<and> w_queue w = [] \<and> w_manager w = empty_manager \<and>
     w_sending w = None \<and> w_trace w = []"

subsection \<open>The rules of the subscriber are its code\<close>

text \<open>
  Not interrupted, the rules take a message off the queue exactly as \<open>deliver\<close> does: they reach
  the manager it returns and send what it sends, in its order.
\<close>

lemma send_steps:
  "(world_step rd base parse)\<^sup>*\<^sup>* (w\<lparr>w_sending := Some (e, conns, failed), w_trace := tr\<rparr>)
     (w\<lparr>w_sending := Some (e, [], failed @ filter (\<lambda>x. send x \<noteq> Sent) conns),
        w_trace := rev (map (\<lambda>x. Sent_Event x e) (filter (\<lambda>x. send x = Sent) conns)) @ tr\<rparr>)"
proof (induction conns arbitrary: failed tr)
  case (Cons x conns)
  let ?w = "w\<lparr>w_sending := Some (e, x # conns, failed), w_trace := tr\<rparr>"
  show ?case
  proof (cases "send x = Sent")
    case True
    have "world_step rd base parse ?w (w\<lparr>w_sending := Some (e, conns, failed), w_trace := Sent_Event x e # tr\<rparr>)"
      using world_step.sends [of ?w e x conns failed] by simp
    from converse_rtranclp_into_rtranclp [OF this Cons.IH] True show ?thesis by simp
  next
    case False
    have "world_step rd base parse ?w (w\<lparr>w_sending := Some (e, conns, failed @ [x]), w_trace := tr\<rparr>)"
      using world_step.fails [of ?w e x conns failed] by (cases w) simp
    from converse_rtranclp_into_rtranclp [OF this Cons.IH] False show ?thesis by simp
  qed
qed simp

lemma deliver_is_a_run:
  assumes "manager_ok (w_manager w)" "\<And>S. finite S \<Longrightarrow> set (iter S) = S \<and> distinct (iter S)"
    and "w_sending w = None" "w_queue w = msg # rest" "deliver parse iter send msg (w_manager w) = (sent, m')"
  shows "(world_step rd base parse)\<^sup>*\<^sup>* w
    (w\<lparr>w_queue := rest, w_manager := m', w_trace := rev (map (\<lambda>(x, e). Sent_Event x e) sent) @ w_trace w\<rparr>)"
proof (cases "received_event parse msg")
  case None
  with assms(5) have "sent = []" "m' = w_manager w" by (simp_all add: deliver_def)
  with world_step.ignores [OF assms(3,4) None] show ?thesis by (simp add: r_into_rtranclp)
next
  case (Some e)
  let ?conns = "iter (sockets (w_manager w) (rl_client_id e))"
  have conns: "set ?conns = sockets (w_manager w) (rl_client_id e)" "distinct ?conns"
    using assms(2) [OF sockets_finite [OF assms(1)]] by simp_all
  have sent: "sent = map (\<lambda>x. (x, e)) (filter (\<lambda>x. send x = Sent) ?conns)"
    "m' = fold (disconnect (rl_client_id e)) (filter (\<lambda>x. send x \<noteq> Sent) ?conns) (w_manager w)"
    using assms(5) Some by (auto simp: deliver_def send_to_client_def send_all_def Let_def split: if_splits)
  let ?v = "w\<lparr>w_queue := rest\<rparr>"
  have "world_step rd base parse w (?v\<lparr>w_sending := Some (e, ?conns, []), w_trace := w_trace w\<rparr>)"
    using world_step.starts [OF assms(3,4) Some conns] by simp
  also note send_steps [where w = ?v and send = send]
  also have "world_step rd base parse
      (?v\<lparr>w_sending := Some (e, [], [] @ filter (\<lambda>x. send x \<noteq> Sent) ?conns),
         w_trace := rev (map (\<lambda>x. Sent_Event x e) (filter (\<lambda>x. send x = Sent) ?conns)) @ w_trace w\<rparr>)
      (w\<lparr>w_queue := rest, w_manager := m', w_trace := rev (map (\<lambda>(x, e). Sent_Event x e) sent) @ w_trace w\<rparr>)"
    using world_step.ends [of "?v\<lparr>w_sending := Some (e, [], [] @ filter (\<lambda>x. send x \<noteq> Sent) ?conns),
         w_trace := rev (map (\<lambda>x. Sent_Event x e) (filter (\<lambda>x. send x = Sent) ?conns)) @ w_trace w\<rparr>" e] assms(3)
    by (cases w) (simp add: sent o_def)
  finally show ?thesis .
qed

subsection \<open>What every reachable world satisfies\<close>

text \<open>A socket was accepted for a client; a ticket was asked for while its user was entitled.\<close>

definition held_for :: "trace_event list \<Rightarrow> nat \<Rightarrow> nat \<Rightarrow> bool" where
  "held_for tr ws c \<longleftrightarrow> (\<exists>scope acc now. Accepted_Socket ws scope acc now \<in> set tr \<and> rs_client_id scope = c)"

definition ticket_backed :: "trace_event list \<Rightarrow> nat \<Rightarrow> nat \<Rightarrow> bool" where
  "ticket_backed tr user session \<longleftrightarrow>
     (\<exists>td acc now scope. Asked td acc now \<in> set tr \<and> td_user_id td = user \<and> td_session_id td = Some session \<and>
        entitled acc now scope \<and> rs_user_id scope = user \<and> rs_session_id scope = session)"

lemma held_for_mono: "held_for tr ws c \<Longrightarrow> set tr \<subseteq> set tr' \<Longrightarrow> held_for tr' ws c"
  unfolding held_for_def by blast

lemma ticket_backed_mono: "ticket_backed tr u s \<Longrightarrow> set tr \<subseteq> set tr' \<Longrightarrow> ticket_backed tr' u s"
  unfolding ticket_backed_def by blast

text \<open>Each entry of the trace is justified by the older ones.\<close>

fun justified :: "(string \<Rightarrow> realtime_location option) \<Rightarrow> trace_event \<Rightarrow> trace_event list \<Rightarrow> bool" where
  "justified parse (Accepted_Socket ws scope acc now) tr \<longleftrightarrow> entitled acc now scope \<and>
     ticket_backed tr (rs_user_id scope) (rs_session_id scope) \<and> (\<forall>sc a t. Accepted_Socket ws sc a t \<notin> set tr)"
| "justified parse (Sent_Event ws e) tr \<longleftrightarrow> held_for tr ws (rl_client_id e) \<and>
     (\<exists>x. Published_Message SUBSCRIBER_CHANNEL x \<in> set tr \<and> parse x = Some e)"
| "justified parse _ tr \<longleftrightarrow> True"

fun trace_ok :: "(string \<Rightarrow> realtime_location option) \<Rightarrow> trace_event list \<Rightarrow> bool" where
  "trace_ok parse [] \<longleftrightarrow> True"
| "trace_ok parse (x # tr) \<longleftrightarrow> justified parse x tr \<and> trace_ok parse tr"

lemma trace_ok_split: "trace_ok parse (newer @ x # older) \<Longrightarrow> justified parse x older \<and> trace_ok parse older"
  by (induction newer) auto

lemma trace_ok_append: "list_all (\<lambda>x. \<exists>ch y. x = Published_Message ch y) xs \<Longrightarrow> trace_ok parse (xs @ tr) \<longleftrightarrow> trace_ok parse tr"
  by (induction xs) auto

lemma trace_ok_published [simp]: "trace_ok parse (traced ps @ tr) \<longleftrightarrow> trace_ok parse tr"
  by (rule trace_ok_append) (auto simp: traced_def list_all_iff)

lemma one_acceptance:
  "trace_ok parse tr \<Longrightarrow> Accepted_Socket ws a x t \<in> set tr \<Longrightarrow> Accepted_Socket ws b y u \<in> set tr \<Longrightarrow> a = b"
proof (induction tr)
  case (Cons z tr)
  then show ?case by (cases z) auto
qed simp

text \<open>
  What is assumed of Redis beside \<open>redis_laws\<close>: a write that raises wrote its value or nothing.  Of the
  tickets' JSON: what is written is read back.
\<close>

definition redis_store_laws :: "'s redis \<Rightarrow> bool" where
  "redis_store_laws rd \<longleftrightarrow> redis_laws rd \<and>
     (\<forall>k v ttl s r s'. rd_set rd k v ttl s = (r, s') \<longrightarrow> rd_view rd s' k \<in> {rd_view rd s k, Some v})"

definition ticket_json :: "realtime_env \<Rightarrow> bool" where
  "ticket_json env \<longleftrightarrow> (\<forall>p. re_parse env (re_dump env p) = Some p)"

definition tickets_backed :: "'s redis \<Rightarrow> realtime_env \<Rightarrow> 's \<Rightarrow> trace_event list \<Rightarrow> bool" where
  "tickets_backed rd base s tr \<longleftrightarrow> (\<forall>k v. rd_view rd s k = Some v \<longrightarrow>
     (\<exists>p. v = re_dump base p \<and> ticket_backed tr (st_user_id p) (st_session_id p)))"

definition queue_published :: "redis_message list \<Rightarrow> trace_event list \<Rightarrow> bool" where
  "queue_published q tr \<longleftrightarrow> (\<forall>msg \<in> set q. Published_Message SUBSCRIBER_CHANNEL (rm_data msg) \<in> set tr)"

definition sockets_held :: "manager \<Rightarrow> trace_event list \<Rightarrow> bool" where
  "sockets_held m tr \<longleftrightarrow> (\<forall>ws c. ws \<in> sockets m c \<longrightarrow> held_for tr ws c)"

definition sending_ok ::
  "(string \<Rightarrow> realtime_location option) \<Rightarrow> (realtime_location \<times> nat list \<times> nat list) option \<Rightarrow> trace_event list \<Rightarrow> bool" where
  "sending_ok parse x tr \<longleftrightarrow> (\<forall>e rest failed. x = Some (e, rest, failed) \<longrightarrow>
     (\<forall>ws \<in> set rest \<union> set failed. held_for tr ws (rl_client_id e)) \<and>
     (\<exists>y. Published_Message SUBSCRIBER_CHANNEL y \<in> set tr \<and> parse y = Some e))"

definition world_ok ::
  "'s redis \<Rightarrow> realtime_env \<Rightarrow> (string \<Rightarrow> realtime_location option) \<Rightarrow> 's world \<Rightarrow> bool" where
  "world_ok rd base parse w \<longleftrightarrow> manager_ok (w_manager w) \<and> trace_ok parse (w_trace w) \<and>
     tickets_backed rd base (w_redis w) (w_trace w) \<and> queue_published (w_queue w) (w_trace w) \<and>
     sockets_held (w_manager w) (w_trace w) \<and> sending_ok parse (w_sending w) (w_trace w)"

lemma world_okD:
  assumes "world_ok rd base parse w"
  shows "manager_ok (w_manager w)" "trace_ok parse (w_trace w)" "tickets_backed rd base (w_redis w) (w_trace w)"
    "queue_published (w_queue w) (w_trace w)" "sockets_held (w_manager w) (w_trace w)" "sending_ok parse (w_sending w) (w_trace w)"
  using assms unfolding world_ok_def by blast+

text \<open>A longer trace backs what a shorter one does.\<close>

lemma longer_trace:
  assumes "set tr \<subseteq> set tr'"
  shows "tickets_backed rd base s tr \<Longrightarrow> tickets_backed rd base s tr'" "queue_published q tr \<Longrightarrow> queue_published q tr'"
    "sockets_held m tr \<Longrightarrow> sockets_held m tr'" "sending_ok parse x tr \<Longrightarrow> sending_ok parse x tr'"
proof -
  show "tickets_backed rd base s tr \<Longrightarrow> tickets_backed rd base s tr'"
    using ticket_backed_mono [OF _ assms] unfolding tickets_backed_def by blast
  show "queue_published q tr \<Longrightarrow> queue_published q tr'" using assms unfolding queue_published_def by blast
  show "sockets_held m tr \<Longrightarrow> sockets_held m tr'" using held_for_mono [OF _ assms] unfolding sockets_held_def by blast
  show "sending_ok parse x tr \<Longrightarrow> sending_ok parse x tr'"
    using held_for_mono [OF _ assms] assms unfolding sending_ok_def by (cases x) (auto, blast)
qed

lemma fewer_tickets: "tickets_backed rd base s tr \<Longrightarrow> (\<And>k. rd_view rd s' k \<in> {None, rd_view rd s k}) \<Longrightarrow> tickets_backed rd base s' tr"
  unfolding tickets_backed_def by (metis empty_iff insert_iff option.distinct(1))

lemma fewer_sockets: "sockets_held m tr \<Longrightarrow> (\<And>c. sockets m' c \<subseteq> sockets m c) \<Longrightarrow> sockets_held m' tr"
  unfolding sockets_held_def by blast

lemma own_sockets:
  assumes "world_ok rd base parse w" "held_for (w_trace w) ws c"
  shows "\<forall>c'. ws \<in> sockets (w_manager w) c' \<longrightarrow> c' = c"
  using world_okD(5) [OF assms(1)] assms(2) one_acceptance [OF world_okD(2) [OF assms(1)]]
  unfolding held_for_def sockets_held_def by metis

subsection \<open>Tickets\<close>

lemma ticket_asked:
  assumes "redis_store_laws rd" "create_websocket_ticket rd (base\<lparr>re_now := now, re_token := tok\<rparr>) acc td s = (r, s')"
    and "tickets_backed rd base s tr"
  shows "tickets_backed rd base s' (Asked td acc now # tr)"
proof -
  have laws: "redis_laws rd" using assms(1) by (simp add: redis_store_laws_def)
  have old: "tickets_backed rd base s (Asked td acc now # tr)" by (rule longer_trace(1) [OF _ assms(3)]) auto
  obtain r0 where "issue_ticket rd (base\<lparr>re_now := now, re_token := tok\<rparr>) acc td s = (r0, s')"
    using assms(2) by (auto simp: create_websocket_ticket_def split: prod.splits sum.splits)
  then show ?thesis
  proof (cases rule: issue_cases)
    case (refused e)
    with old show ?thesis by simp
  next
    case (tried scope x)
    let ?k = "build_ticket_key (base\<lparr>re_now := now, re_token := tok\<rparr>) tok"
    let ?p = "\<lparr>st_user_id = rs_user_id scope, st_session_id = rs_session_id scope\<rparr>"
    have set: "rd_set rd ?k (re_dump base ?p) (re_ttl base) s = (x, s')" using tried(4) by simp
    have here: "rd_view rd s' ?k \<in> {rd_view rd s ?k, Some (re_dump base ?p)}"
      using assms(1) set unfolding redis_store_laws_def by blast
    have backed: "ticket_backed (Asked td acc now # tr) (rs_user_id scope) (rs_session_id scope)"
      using tried(1-3) unfolding ticket_backed_def by (intro exI [of _ td] exI [of _ acc] exI [of _ now] exI [of _ scope]) simp
    show ?thesis
      unfolding tickets_backed_def
    proof (intro allI impI)
      fix k v
      assume v: "rd_view rd s' k = Some v"
      show "\<exists>p. v = re_dump base p \<and> ticket_backed (Asked td acc now # tr) (st_user_id p) (st_session_id p)"
      proof (cases "k = ?k \<and> v = re_dump base ?p")
        case True
        with backed show ?thesis by (intro exI [of _ ?p]) simp
      next
        case False
        have "rd_view rd s k = Some v" using False v here set_other [OF laws set, of k] by (cases "k = ?k") auto
        with old show ?thesis unfolding tickets_backed_def by blast
      qed
    qed
  qed
qed

lemma handshake_state:
  assumes "redis_laws rd" "locations_websocket rd env acc ticket origin s = (h, s')"
  shows "rd_view rd s' k \<in> {None, rd_view rd s k}"
proof (cases "consume_ticket rd env acc ticket s")
  case (Pair r s2)
  then have "s2 = s'" using assms(2) by (auto simp: locations_websocket_def split: sum.splits)
  with consume_state [OF assms(1) Pair] show ?thesis by simp
qed

lemma handshake_accepted:
  assumes "redis_laws rd" "ticket_json base" "locations_websocket rd (base\<lparr>re_now := now\<rparr>) acc ticket origin s = (Accepted scope, s')"
    and "tickets_backed rd base s tr"
  shows "entitled acc now scope \<and> ticket_backed tr (rs_user_id scope) (rs_session_id scope)"
proof (cases "consume_ticket rd (base\<lparr>re_now := now\<rparr>) acc ticket s")
  case (Pair r s2)
  have closed: "close_code e \<noteq> Accepted scope" for e by (cases e) simp_all
  from assms(3) Pair closed have "r = Inr scope" by (auto simp: locations_websocket_def split: sum.splits)
  with Pair have "consume_ticket rd (base\<lparr>re_now := now\<rparr>) acc ticket s = (Inr scope, s2)" by simp
  then show ?thesis
  proof (rule consume_cases)
    fix t v p
    assume redeemed: "rd_getdel rd (build_ticket_key (base\<lparr>re_now := now\<rparr>) t) s = (Some (Some v), s2)" "re_parse (base\<lparr>re_now := now\<rparr>) v = Some p"
      "entitled acc (re_now (base\<lparr>re_now := now\<rparr>)) scope" "rs_user_id scope = st_user_id p" "rs_session_id scope = st_session_id p"
    have "rd_view rd s (build_ticket_key (base\<lparr>re_now := now\<rparr>) t) = Some v" using getdelD(1) [OF assms(1) redeemed(1)] by simp
    then obtain q where q: "v = re_dump base q" "ticket_backed tr (st_user_id q) (st_session_id q)"
      using assms(4) unfolding tickets_backed_def by blast
    have "q = p" using redeemed(2) q(1) assms(2) by (simp add: ticket_json_def)
    with redeemed(3-5) q(2) show ?thesis by simp
  qed
qed

subsection \<open>The invariant\<close>

lemma world_step_ok:
  assumes "redis_store_laws rd" "ticket_json base" "world_step rd base parse w w'" "world_ok rd base parse w"
  shows "world_ok rd base parse w'"
proof -
  have laws: "redis_laws rd" using assms(1) by (simp add: redis_store_laws_def)
  note ok = world_okD [OF assms(4)]
  show ?thesis
    using assms(3)
  proof cases
    case (entries_expire s)
    then show ?thesis using ok fewer_tickets [OF ok(3)] by (simp add: world_ok_def)
  next
    case (asks tok now td r s)
    have "set (w_trace w) \<subseteq> set (Asked td (w_accounts w) now # w_trace w)" by auto
    note mono = longer_trace [OF this]
    show ?thesis using asks(1) ok ticket_asked [OF assms(1) asks(2) ok(3)] mono by (simp add: world_ok_def)
  next
    case (accepts now ticket origin scope s ws)
    let ?a = "Accepted_Socket ws scope (w_accounts w) now"
    have "set (w_trace w) \<subseteq> set (?a # w_trace w)" by auto
    note mono = longer_trace [OF this]
    have new: "\<not> held_for (w_trace w) ws c" for c using accepts(3) unfolding held_for_def by blast
    have "ws \<notin> sockets (w_manager w) c" for c using ok(5) new unfolding sockets_held_def by blast
    then have "manager_ok (snd (connect (rs_client_id scope) ws (w_manager w)))" by (intro connect_ok ok(1)) blast
    moreover have "trace_ok parse (?a # w_trace w)" using handshake_accepted [OF laws assms(2) accepts(2) ok(3)] ok(2) accepts(3) by simp
    moreover have "tickets_backed rd base s (?a # w_trace w)" by (rule fewer_tickets [OF mono(1) [OF ok(3)] handshake_state [OF laws accepts(2)]])
    moreover have "held_for (?a # w_trace w) ws (rs_client_id scope)" unfolding held_for_def by auto
    then have "sockets_held (snd (connect (rs_client_id scope) ws (w_manager w))) (?a # w_trace w)"
      using mono(3) [OF ok(5)] by (auto simp: sockets_held_def connect_sockets)
    ultimately show ?thesis using accepts(1) mono(2,4) ok(4,6) by (simp add: world_ok_def)
  next
    case (refuses now ticket origin h s)
    then show ?thesis using ok fewer_tickets [OF ok(3) handshake_state [OF laws refuses(2)]] by (simp add: world_ok_def)
  next
    case (closes ws scope acc now)
    have held: "held_for (w_trace w) ws (rs_client_id scope)" using closes(2) unfolding held_for_def by blast
    have "manager_ok (disconnect (rs_client_id scope) ws (w_manager w))"
      by (rule disconnect_ok [OF ok(1) own_sockets [OF assms(4) held]])
    moreover have "sockets_held (disconnect (rs_client_id scope) ws (w_manager w)) (w_trace w)"
      by (rule fewer_sockets [OF ok(5)]) (auto simp: disconnect_sockets)
    ultimately show ?thesis using closes(1) ok by (simp add: world_ok_def)
  next
    case (handles env tpc payload r db ps heard)
    have "set (w_trace w) \<subseteq> set (traced ps @ w_trace w)" by auto
    note mono = longer_trace [OF this]
    have "queue_published heard (traced ps @ w_trace w)"
      using handles(4) by (force simp: queue_published_def on_channel_def traced_def image_iff split_beta)
    then have "queue_published (w_queue w @ heard) (traced ps @ w_trace w)"
      using mono(2) [OF ok(4)] unfolding queue_published_def by auto
    then show ?thesis using handles(1) ok mono by (simp add: world_ok_def)
  next
    case restarts
    then show ?thesis using ok by (simp add: world_ok_def queue_published_def sending_ok_def)
  next
    case (ignores msg rest)
    then show ?thesis using ok by (simp add: world_ok_def queue_published_def)
  next
    case (starts msg rest e conns)
    have "parse (rm_data msg) = Some e" using starts(4) by (simp add: received_event_def split: if_splits)
    moreover have "Published_Message SUBSCRIBER_CHANNEL (rm_data msg) \<in> set (w_trace w)" using ok(4) starts(3) by (simp add: queue_published_def)
    moreover have "\<forall>ws \<in> set conns. held_for (w_trace w) ws (rl_client_id e)" using ok(5) starts(5) by (simp add: sockets_held_def)
    ultimately have "sending_ok parse (Some (e, conns, [])) (w_trace w)" by (auto simp: sending_ok_def)
    then show ?thesis using starts(1,3) ok by (simp add: world_ok_def queue_published_def)
  next
    case (sends e ws rest failed)
    have now: "held_for (w_trace w) ws (rl_client_id e)" "\<exists>y. Published_Message SUBSCRIBER_CHANNEL y \<in> set (w_trace w) \<and> parse y = Some e"
      "sending_ok parse (Some (e, rest, failed)) (w_trace w)"
      using ok(6) sends(2) by (auto simp: sending_ok_def)
    have "set (w_trace w) \<subseteq> set (Sent_Event ws e # w_trace w)" by auto
    note mono = longer_trace [OF this]
    show ?thesis using sends(1) ok mono(1-3) mono(4) [OF now(3)] now(1,2) by (simp add: world_ok_def)
  next
    case (fails e ws rest failed)
    have "sending_ok parse (Some (e, rest, failed @ [ws])) (w_trace w)" using ok(6) fails(2) by (auto simp: sending_ok_def)
    then show ?thesis using fails(1) ok by (simp add: world_ok_def)
  next
    case (ends e failed)
    have "\<forall>ws \<in> set failed. held_for (w_trace w) ws (rl_client_id e)" using ok(6) ends(2) by (simp add: sending_ok_def)
    then have "\<forall>ws \<in> set failed. \<forall>c'. ws \<in> sockets (w_manager w) c' \<longrightarrow> c' = rl_client_id e" using own_sockets [OF assms(4)] by blast
    note drop = drop_all [OF ok(1) this]
    have "sockets_held (fold (disconnect (rl_client_id e)) failed (w_manager w)) (w_trace w)"
      by (rule fewer_sockets [OF ok(5)]) (use drop in auto)
    then show ?thesis using ends(1) ok drop by (simp add: world_ok_def sending_ok_def)
  qed (use ok in \<open>simp_all add: world_ok_def\<close>)
qed

lemma world_run_ok:
  assumes "redis_store_laws rd" "ticket_json base" "world_starts rd w0" "(world_step rd base parse)\<^sup>*\<^sup>* w0 w"
  shows "world_ok rd base parse w"
  using assms(4)
proof (induction rule: rtranclp_induct)
  case base
  show ?case using assms(3) empty_manager_ok
    by (simp add: world_ok_def world_starts_def tickets_backed_def queue_published_def sockets_held_def sending_ok_def)
qed (rule world_step_ok [OF assms(1,2)])

text \<open>
  Property C8. Tenants are isolated.  In whatever order tickets are asked for and redeemed, sockets
  open, close and fail, accounts and tables change, messages are handled and published, lost and
  dispatched: an event sent to a socket had been published on the channel of locations, and the
  socket had been accepted for a scope whose client is the event's client.  A socket is accepted
  only when the scope is entitled in the accounts of that moment (a live user with an active
  session, the user's client, the realtime service) and only for a ticket that this user had asked
  for in this session while entitled.  The manager stays well-formed and registers a socket only
  under the client it was accepted for.
\<close>
theorem websocket_isolation:
  assumes "redis_store_laws rd" "ticket_json base" "world_starts rd w0" "(world_step rd base parse)\<^sup>*\<^sup>* w0 w"
  shows "manager_ok (w_manager w) \<and>
    (\<forall>ws c. ws \<in> sockets (w_manager w) c \<longrightarrow>
       (\<exists>scope acc now. Accepted_Socket ws scope acc now \<in> set (w_trace w) \<and> rs_client_id scope = c)) \<and>
    (\<forall>newer ws e older. w_trace w = newer @ Sent_Event ws e # older \<longrightarrow>
       (\<exists>x. Published_Message LOCATION_CHANNEL x \<in> set older \<and> parse x = Some e) \<and>
       (\<exists>scope acc now. Accepted_Socket ws scope acc now \<in> set older \<and> rs_client_id scope = rl_client_id e)) \<and>
    (\<forall>newer ws scope acc now older. w_trace w = newer @ Accepted_Socket ws scope acc now # older \<longrightarrow>
       entitled acc now scope \<and>
       (\<exists>td acc' now' scope'. Asked td acc' now' \<in> set older \<and> td_user_id td = rs_user_id scope \<and>
          td_session_id td = Some (rs_session_id scope) \<and> entitled acc' now' scope' \<and>
          rs_user_id scope' = rs_user_id scope \<and> rs_session_id scope' = rs_session_id scope))"
proof -
  note ok = world_okD [OF world_run_ok [OF assms]]
  have channel: "SUBSCRIBER_CHANNEL = LOCATION_CHANNEL" by (simp add: SUBSCRIBER_CHANNEL_def LOCATION_CHANNEL_def)
  have sent: "justified parse x older" if "w_trace w = newer @ x # older" for newer x older
    using trace_ok_split [of parse newer x older] ok(2) that by simp
  have "(\<exists>x. Published_Message LOCATION_CHANNEL x \<in> set older \<and> parse x = Some e) \<and>
      (\<exists>scope acc now. Accepted_Socket ws scope acc now \<in> set older \<and> rs_client_id scope = rl_client_id e)"
    if "w_trace w = newer @ Sent_Event ws e # older" for newer ws e older
    using sent [OF that] channel by (auto simp: held_for_def)
  moreover have "entitled acc now scope \<and> ticket_backed older (rs_user_id scope) (rs_session_id scope)"
    if "w_trace w = newer @ Accepted_Socket ws scope acc now # older" for newer ws scope acc now older
    using sent [OF that] by simp
  ultimately show ?thesis using ok(1,5) unfolding sockets_held_def held_for_def ticket_backed_def by blast
qed

text \<open>A run: a ticket is asked for and redeemed, a position is handled, published and sent.\<close>

definition world_env :: realtime_env where
  "world_env = (sample_realtime_env 0 [])\<lparr>
     re_dump := \<lambda>p. replicate (st_user_id p) (CHR ''u'') @ replicate (st_session_id p) (CHR ''s''),
     re_parse := \<lambda>x. Some \<lparr>st_user_id = length (filter ((=) (CHR ''u'')) x), st_session_id = length (filter ((=) (CHR ''s'')) x)\<rparr>\<rparr>"

definition first_world :: "(string \<Rightarrow> string option) world" where
  "first_world = \<lparr>w_accounts = admin_logged_in, w_redis = Map.empty, w_db = sample_device_db, w_queue = [],
     w_manager = empty_manager, w_sending = None, w_trace = []\<rparr>"

definition admin_token :: token_data where
  "admin_token = (token_data_of (hd (acc_users admin_logged_in)))\<lparr>td_session_id := Some 1\<rparr>"

lemma world_env_json: "ticket_json world_env"
  by (simp add: ticket_json_def world_env_def)

lemma map_redis_store: "redis_store_laws map_redis"
  using map_redis_laws by (auto simp: redis_store_laws_def map_redis_def)

lemma world_ticket:
  "\<exists>t. create_websocket_ticket map_redis (world_env\<lparr>re_now := 0, re_token := ''k''\<rparr>) admin_logged_in admin_token Map.empty =
     (Inr t, [''manea:ws-ticket:k'' \<mapsto> ''us''])"
  "locations_websocket map_redis (world_env\<lparr>re_now := 5\<rparr>) admin_logged_in (Some ''k'') (Some ''o'') [''manea:ws-ticket:k'' \<mapsto> ''us''] =
     (Accepted admin_scope, Map.empty)"
  by (simp_all add: create_websocket_ticket_def locations_websocket_def issue_ticket_def consume_ticket_def resolve_realtime_access_def
      get_active_user_session_def active_user_sessions_def admin_logged_in_def logged_in_def one_user_def session_active_def access_of_def
      validate_user_service_access_def token_data_of_def map_redis_def sample_realtime_env_def build_ticket_key_def world_env_def
      WS_TICKET_KEY_PREFIX_def admin_scope_def admin_token_def validate_origin_def py_strip_def py_isspace_def)

lemma sample_published:
  "\<exists>env r db e. handle_event env sample_topic sample_payload sample_device_db = (Inr r, db) \<and> db_published db = [(LOCATION_CHANNEL, dump_location e)] \<and>
     load_location (dump_location e) = Some e \<and> rl_client_id e = 1"
proof -
  let ?up = "sample_object_event\<lparr>ue_device_info := (ue_device_info sample_object_event)\<lparr>di_dev_eui := sample_eui\<rparr>\<rparr>"
  let ?env = "position_env\<lparr>en_validate_up := \<lambda>_. Inr ?up\<rparr>"
  obtain t where t: "decode_up_event ?up = Inr t" "nt_latitude t = Finite 45" "nt_longitude t = Finite 120" "nt_altitude t = None" "nt_accuracy t = Some (Finite 4)"
    by (simp add: decode_up_event_def decode_from_object_def sample_object_event_def)
  have sound: "sound sample_device_db"
    by (simp add: sound_def sample_device_db_def empty_db_def eval_ok_def seqs_ok_def all_commands_def)
  have app: "py_strip ''app'' = ''app''" by code_simp
  have dev: "get_device sample_device_db sample_eui = Inr (Some sample_device)" "d_client_id sample_device = Some 1"
      "py_strip (or_empty (d_application_id sample_device)) = ''app''"
    using app by (simp_all add: sample_known_device sample_device_db_def) (simp_all add: sample_device_def or_empty_def)
  have env: "\<not> en_raced ?env" "en_validate_up ?env (PvDict sample_payload) = Inr ?up" "en_dump ?env = dump_location"
      "en_redis_publish ?env LOCATION_CHANNEL x = Published 1" for x
    by (simp_all add: position_env_def sample_event_env_def)
  have up: "di_dev_eui (ue_device_info ?up) = sample_eui" "ue_fport ?up = Some 10" by (simp_all add: sample_object_event_def)
  have new: "\<not> event_exists sample_device_db ''k1''" by (simp add: event_exists_def sample_device_db_def empty_db_def)
  have "''app'' \<noteq> []" by simp
  from position_handled [OF sound dev this app sample_topic_parses sample_dedup new env(1,2) up t(1)] obtain r db l
    where run: "handle_event ?env sample_topic sample_payload sample_device_db = (Inr r, db)"
      "l = stored_location sample_device_db sample_device t (now_of ?env)" "publication_seen ?env (announced l sample_device 1) r sample_device_db db"
    by blast
  have "db_published db = [(LOCATION_CHANNEL, dump_location (announced l sample_device 1))]"
    using run(3) env(3,4) by (simp add: publication_seen_def sample_device_db_def empty_db_def)
  moreover have "numeric_event (announced l sample_device 1)"
    using t(2-5) by (simp add: run(2) announced_def stored_location_def numeric_event_def)
  moreover have "rl_client_id (announced l sample_device 1) = 1" by (simp add: announced_def)
  ultimately show ?thesis using run(1) location_loaded by blast
qed

theorem websocket_isolation_witness:
  "\<exists>w e tr scope acc now. (world_step map_redis world_env load_location)\<^sup>*\<^sup>* first_world w \<and> w_trace w = Sent_Event 7 e # tr \<and>
     Accepted_Socket 7 scope acc now \<in> set tr \<and> rs_client_id scope = rl_client_id e"
proof -
  let ?step = "world_step map_redis world_env load_location"
  obtain r0 where asked: "create_websocket_ticket map_redis (world_env\<lparr>re_now := 0, re_token := ''k''\<rparr>) admin_logged_in admin_token Map.empty =
     (Inr r0, [''manea:ws-ticket:k'' \<mapsto> ''us''])" using world_ticket(1) by blast
  obtain env r db e where handled: "handle_event env sample_topic sample_payload sample_device_db = (Inr r, db)"
      "db_published db = [(LOCATION_CHANNEL, dump_location e)]" "load_location (dump_location e) = Some e" "rl_client_id e = 1"
    using sample_published by blast
  let ?msg = "\<lparr>rm_type = ''message'', rm_data = dump_location e\<rparr>"
  have scope: "rs_client_id admin_scope = 1" by (simp add: admin_scope_def)
  let ?tr1 = "[Asked admin_token admin_logged_in 0]"
  let ?w1 = "first_world\<lparr>w_redis := [''manea:ws-ticket:k'' \<mapsto> ''us''], w_trace := ?tr1\<rparr>"
  let ?tr2 = "Accepted_Socket 7 admin_scope admin_logged_in 5 # ?tr1"
  let ?m = "snd (connect 1 7 empty_manager)"
  let ?w2 = "first_world\<lparr>w_manager := ?m, w_trace := ?tr2\<rparr>"
  let ?tr3 = "Published_Message LOCATION_CHANNEL (dump_location e) # ?tr2"
  let ?w3 = "first_world\<lparr>w_db := db, w_queue := [?msg], w_manager := ?m, w_trace := ?tr3\<rparr>"
  let ?w4 = "first_world\<lparr>w_db := db, w_manager := ?m, w_sending := Some (e, [7], []), w_trace := ?tr3\<rparr>"
  let ?w5 = "first_world\<lparr>w_db := db, w_manager := ?m, w_sending := Some (e, [], []), w_trace := Sent_Event 7 e # ?tr3\<rparr>"
  have "?step\<^sup>*\<^sup>* first_world first_world" by simp
  also have "?step first_world ?w1" using world_step.asks [where rd = map_redis and base = world_env and now = 0 and tok = "''k''" and w = first_world and parse = load_location] asked by (simp add: first_world_def)
  also have "?step ?w1 ?w2"
    using world_step.accepts [where rd = map_redis and base = world_env and now = 5 and w = ?w1 and ws = 7 and parse = load_location
        and ticket = "Some ''k''" and origin = "Some ''o''" and scope = admin_scope and s = Map.empty] world_ticket(2) scope
    by (simp add: first_world_def)
  also have "?step ?w2 ?w3"
    using world_step.handles [where rd = map_redis and base = world_env and w = ?w2 and heard = "[?msg]" and parse = load_location
        and env = env and tpc = sample_topic and payload = sample_payload and db = db and r = "Inr r"] handled
    by (simp add: first_world_def on_channel_def traced_def LOCATION_CHANNEL_def SUBSCRIBER_CHANNEL_def sample_device_db_def empty_db_def)
  also have "?step ?w3 ?w4"
    using world_step.starts [where rd = map_redis and base = world_env and w = ?w3 and conns = "[7]" and parse = load_location] handled(3,4)
    by (simp add: first_world_def received_event_def connect_sockets)
  also have "?step ?w4 ?w5" using world_step.sends [where rd = map_redis and base = world_env and w = ?w4 and parse = load_location] by (simp add: first_world_def)
  finally have run: "?step\<^sup>*\<^sup>* first_world ?w5" .
  have "world_starts map_redis first_world" by (simp add: world_starts_def first_world_def map_redis_def)
  note isolated = websocket_isolation [OF map_redis_store world_env_json this run]
  have "w_trace ?w5 = [] @ Sent_Event 7 e # ?tr3" by simp
  from isolated [THEN conjunct2, THEN conjunct2, THEN conjunct1, rule_format, OF this]
  have "\<exists>scope acc now. Accepted_Socket 7 scope acc now \<in> set ?tr3 \<and> rs_client_id scope = rl_client_id e" by (rule conjunct2)
  with run show ?thesis by (intro exI [of _ ?w5] exI [of _ e] exI [of _ ?tr3]) simp
qed

end
