(* ===== verification/Worker_Loops.thy ===== *)
theory Worker_Loops
  imports Command_Lifecycle User_Sessions Asset_Groups
begin

text \<open>
  The loops around the units of work: the polling loop of the dispatcher
  (\<open>command_dispatcher_worker/main.py\<close>), the session clean-up job
  (\<open>src/application/security/session_cleanup_job.py\<close>), the log lines of the event worker and the
  maintenance script for old events.  A loop runs over the list of its rounds, one entry per round
  until it is stopped, each with the clock readings of that round; \<open>None\<close> is a round whose unit of
  work raised before it committed anything, which is logged and skipped.
\<close>

subsection \<open>The dispatcher's polling loop\<close>

fun dispatcher_run :: "(int \<times> (nat \<Rightarrow> int \<times> int)) option list \<Rightarrow> 'w transport \<Rightarrow> nat \<Rightarrow> tlrs_db \<Rightarrow> 'w \<Rightarrow> tlrs_db \<times> 'w" where
  "dispatcher_run [] transport batch_limit db w = (db, w)"
| "dispatcher_run (None # cycles) transport batch_limit db w = dispatcher_run cycles transport batch_limit db w"
| "dispatcher_run (Some (now, clock) # cycles) transport batch_limit db w =
     (case process_once now clock transport batch_limit db w of
        (db', w') \<Rightarrow> dispatcher_run cycles transport batch_limit db' w')"

subsection \<open>Session clean-up\<close>

definition cleanup_user_sessions_once :: "int \<Rightarrow> int \<Rightarrow> accounts \<Rightarrow> nat \<times> accounts" where
  "cleanup_user_sessions_once retention_days now acc = delete_stale_sessions now retention_days acc"

text \<open>The result lists the counts that are logged.\<close>

fun run_user_session_cleanup_job :: "int \<Rightarrow> int option list \<Rightarrow> accounts \<Rightarrow> nat list \<times> accounts" where
  "run_user_session_cleanup_job retention_days [] acc = ([], acc)"
| "run_user_session_cleanup_job retention_days (None # moments) acc = run_user_session_cleanup_job retention_days moments acc"
| "run_user_session_cleanup_job retention_days (Some now # moments) acc =
     (let (deleted_count, acc') = cleanup_user_sessions_once retention_days now acc;
          (counts, acc'') = run_user_session_cleanup_job retention_days moments acc'
      in ((if deleted_count = 0 then counts else deleted_count # counts), acc''))"

subsection \<open>Log lines of the event worker\<close>

datatype log_line =
  Location_Processed "nat option" "nat option" "nat option"
| Command_Updated string command_status

definition log_processed_result :: "handle_result \<Rightarrow> log_line option" where
  "log_processed_result r =
     (if \<not> hr_success r then None
      else if hr_processed_kind r = Some ''location'' then
        Some (Location_Processed (hr_device_id r) (hr_location_id r) (map_option rl_client_id (hr_realtime r)))
      else if hr_command_status_changed r \<and> or_empty (hr_command_uuid r) \<noteq> [] \<and> hr_command_status r \<noteq> None then
        Some (Command_Updated (the (hr_command_uuid r)) (the (hr_command_status r)))
      else None)"

subsection \<open>Old events of types that were not supported\<close>

definition old_unsupported :: "cs_event \<Rightarrow> bool" where
  "old_unsupported e \<longleftrightarrow> ce_event_type e \<in> {''join'', ''log''} \<and>
     (case ce_error_message e of None \<Rightarrow> False | Some m \<Rightarrow> sql_like ''Unsupported ChirpStack event type:%'' m)"

text \<open>The number of matched rows and the tables.\<close>

definition mark_old_events :: "bool \<Rightarrow> tlrs_db \<Rightarrow> nat \<times> tlrs_db" where
  "mark_old_events dry_run db =
     (let events = filter old_unsupported (db_cs_events db)
      in if events = [] \<or> dry_run then (length events, db)
         else (length events, db\<lparr>db_cs_events := map (\<lambda>e. if old_unsupported e
            then e\<lparr>ce_processed := True, ce_error_message := None\<rparr> else e) (db_cs_events db)\<rparr>))"

lemma mark_old_events_once: "fst (mark_old_events dry_run (snd (mark_old_events False db))) = 0"
proof -
  have "\<not> old_unsupported (e\<lparr>ce_processed := True, ce_error_message := None\<rparr>)" for e by (simp add: old_unsupported_def)
  then have "filter old_unsupported (map (\<lambda>e. if old_unsupported e then e\<lparr>ce_processed := True, ce_error_message := None\<rparr> else e) es) = []" for es
    by (induction es) simp_all
  then show ?thesis by (cases "filter old_unsupported (db_cs_events db) = []") (simp_all add: mark_old_events_def Let_def)
qed

subsection \<open>Cleaning up in one go\<close>

text \<open>What is stale stays stale, so the rounds of the job amount to its last one.\<close>

lemma stale_later: "is_stale t days s \<Longrightarrow> t \<le> t' \<Longrightarrow> is_stale t' days s"
  by (auto simp: is_stale_def)

definition relinked :: "nat set \<Rightarrow> user_session \<Rightarrow> user_session" where
  "relinked K s = (if (case us_replaced_by s of None \<Rightarrow> False | Some i \<Rightarrow> i \<in> K) then s\<lparr>us_replaced_by := None\<rparr> else s)"

lemma relinked_simps [simp]: "us_id (relinked K s) = us_id s" "is_stale t days (relinked K s) = is_stale t days s"
  by (simp_all add: relinked_def is_stale_def)

lemma relinked_twice: "K \<subseteq> K' \<Longrightarrow> relinked K' (relinked K s) = relinked K' s"
  by (auto simp: relinked_def split: option.split)

definition stale_ids :: "int \<Rightarrow> int \<Rightarrow> accounts \<Rightarrow> nat set" where
  "stale_ids now days acc = us_id ` set (filter (is_stale now days) (acc_sessions acc))"

lemma delete_stale_eq:
  "snd (delete_stale_sessions now days acc) =
     acc\<lparr>acc_sessions := filter (\<lambda>s. us_id s \<notin> stale_ids now days acc) (map (relinked (stale_ids now days acc)) (acc_sessions acc))\<rparr>"
  by (simp add: delete_stale_sessions_def stale_ids_def relinked_def [abs_def] Let_def)

lemma cleanup_absorbs:
  assumes "distinct (map us_id (acc_sessions acc))" "t \<le> t'"
  shows "snd (delete_stale_sessions t' days (snd (delete_stale_sessions t days acc))) = snd (delete_stale_sessions t' days acc)"
proof -
  let ?K = "stale_ids t days acc" and ?K' = "stale_ids t' days acc" and ?acc = "snd (delete_stale_sessions t days acc)"
  have sub: "?K \<subseteq> ?K'" using stale_later [OF _ assms(2)] by (auto simp: stale_ids_def)
  have "stale_ids t' days ?acc = us_id ` {x \<in> relinked ?K ` set (acc_sessions acc). us_id x \<notin> ?K \<and> is_stale t' days x}"
    unfolding stale_ids_def [of t' days ?acc] by (simp add: delete_stale_eq conj_commute)
  also have "{x \<in> relinked ?K ` set (acc_sessions acc). us_id x \<notin> ?K \<and> is_stale t' days x} =
      relinked ?K ` {x \<in> set (acc_sessions acc). us_id x \<notin> ?K \<and> is_stale t' days x}" by auto
  also have "us_id ` \<dots> = us_id ` {x \<in> set (acc_sessions acc). us_id x \<notin> ?K \<and> is_stale t' days x}"
    by (simp add: image_image)
  also have "\<dots> = ?K' - ?K" by (auto simp: stale_ids_def [of t'])
  finally have rest: "stale_ids t' days ?acc = ?K' - ?K" .
  have "relinked (?K' - ?K) (relinked ?K s) = relinked ?K' s" for s
    using sub by (auto simp: relinked_def split: option.split)
  then have "map (relinked (?K' - ?K)) (filter (\<lambda>s. us_id s \<notin> ?K) (map (relinked ?K) (acc_sessions acc))) =
      filter (\<lambda>s. us_id s \<notin> ?K) (map (relinked ?K') (acc_sessions acc))"
    by (simp add: filter_map comp_def)
  moreover have "filter (\<lambda>s. us_id s \<notin> ?K' - ?K) (filter (\<lambda>s. us_id s \<notin> ?K) xs) = filter (\<lambda>s. us_id s \<notin> ?K') xs" for xs :: "user_session list"
    unfolding filter_filter by (rule filter_cong) (use sub in auto)
  ultimately show ?thesis unfolding delete_stale_eq [of t' days ?acc] rest by (simp add: delete_stale_eq)
qed

lemma cleanup_job_eq:
  assumes "distinct (map us_id (acc_sessions acc))" "sorted (moments @ [t])"
  shows "snd (run_user_session_cleanup_job days (map Some moments @ [Some t]) acc) = snd (delete_stale_sessions t days acc)"
  using assms
proof (induction moments arbitrary: acc)
  case (Cons s moments)
  let ?acc = "snd (delete_stale_sessions s days acc)"
  have "distinct (map us_id (acc_sessions ?acc))"
    unfolding delete_stale_eq using Cons.prems(1) by (simp add: comp_def) (rule distinct_map_filter, simp add: comp_def)
  from Cons.IH [OF this] Cons.prems cleanup_absorbs [OF Cons.prems(1), of s t days] show ?case
    by (simp add: cleanup_user_sessions_once_def split_beta Let_def sorted_append)
qed (simp add: cleanup_user_sessions_once_def split_beta Let_def)

subsection \<open>Draining a backlog\<close>

text \<open>
  The work left until \<open>T\<close>: a pending command has to be sent or expired, an open one that ends by
  \<open>T\<close> has to be expired.
\<close>

definition open_until :: "int \<Rightarrow> device_command \<Rightarrow> bool" where
  "open_until T c \<longleftrightarrow> \<not> terminal_status (cmd_status c) \<and> (case cmd_expires_at c of None \<Rightarrow> False | Some t \<Rightarrow> t \<le> T)"

definition weight :: "int \<Rightarrow> device_command \<Rightarrow> nat" where
  "weight T c = of_bool (cmd_status c = CMD_PENDING) + of_bool (open_until T c)"

definition work :: "int \<Rightarrow> device_command list \<Rightarrow> nat" where
  "work T rows = sum_list (map (weight T) rows)"

lemma work_put:
  assumes "distinct (map cmd_id rows)" "c \<in> set rows" "cmd_id c' = cmd_id c"
  shows "work T (put cmd_id c' rows) + weight T c = work T rows + weight T c'"
  using assms(1,2)
proof (induction rows)
  case (Cons a rows)
  show ?case
  proof (cases "a = c")
    case True
    then have "put cmd_id c' (a # rows) = c' # rows" using Cons.prems(1) assms(3) put_absent [of cmd_id c' rows] by (auto simp: put_def)
    then show ?thesis using True by (simp add: work_def)
  next
    case False
    then have "cmd_id a \<noteq> cmd_id c'" using Cons.prems assms(3) by auto
    then have "put cmd_id c' (a # rows) = a # put cmd_id c' rows" by (simp add: put_def)
    with Cons False show ?thesis by (simp add: work_def)
  qed
qed simp

lemma weight_overdue: "is_overdue now c \<Longrightarrow> now \<le> T \<Longrightarrow> weight T (expire_command now c) + 1 \<le> weight T c"
  by (auto simp: weight_def open_until_def is_overdue_def expire_command_def terminal_status_def split: option.splits)

lemma weight_enqueued:
  assumes "decisive tr" "is_due t c" "enqueue_command now tr c w = (c', w')"
  shows "weight T c' + 1 \<le> weight T c"
proof -
  have "cmd_expires_at c' = cmd_expires_at c"
    using assms(3) by (auto simp: enqueue_command_def Let_def split: prod.splits if_splits)
  moreover have "cmd_status c' = CMD_SENT \<or> cmd_status c' = CMD_FAILED" by (rule decided_not_pending [OF assms(1,3)])
  ultimately show ?thesis using assms(2) by (auto simp: weight_def open_until_def is_due_def terminal_status_def)
qed

lemma work_expired:
  assumes "distinct (map cmd_id rows)" "distinct (map cmd_id cs)" "\<forall>c \<in> set cs. c \<in> set rows \<and> is_overdue now c" "now \<le> T"
  shows "work T (put_commands (map (expire_command now) cs) rows) + length cs \<le> work T rows"
  using assms(1-3) unfolding put_commands_def
proof (induction cs arbitrary: rows)
  case (Cons c cs)
  let ?rows = "put cmd_id (expire_command now c) rows"
  have "work T ?rows + weight T c = work T rows + weight T (expire_command now c)"
    using Cons.prems by (intro work_put) simp_all
  moreover have "weight T (expire_command now c) + 1 \<le> weight T c" using Cons.prems(3) assms(4) by (intro weight_overdue) simp_all
  moreover have "x \<in> set ?rows" if "x \<in> set cs" for x
  proof -
    have "cmd_id x \<noteq> cmd_id c" using that Cons.prems(2) by (auto simp: image_iff)
    with that Cons.prems(3) show ?thesis by (force simp: put_def)
  qed
  then have "work T (fold (put cmd_id) (map (expire_command now) cs) ?rows) + length cs \<le> work T ?rows"
    using Cons.prems by (intro Cons.IH) auto
  ultimately show ?case by simp
qed simp

lemma loop_progress:
  assumes "decisive tr" "\<forall>i. fst (clock i) \<le> T" "distinct (map cmd_id rows)" "dispatch_loop clock tr i n rows w = (rows', w')"
  shows "(\<forall>c \<in> set rows'. \<not> is_due T c) \<or> work T rows' + n \<le> work T rows"
  using assms(3,4)
proof (induction n arbitrary: i rows w)
  case (Suc n)
  show ?case
  proof (cases "next_due (fst (clock i)) rows")
    case None
    then have "\<forall>c \<in> set rows. \<not> is_due (fst (clock i)) c" by (simp add: next_due_None)
    with None Suc.prems assms(2) is_due_later show ?thesis by fastforce
  next
    case (Some d)
    obtain d' v where d': "enqueue_command (snd (clock i)) tr d w = (d', v)" by (cases "enqueue_command (snd (clock i)) tr d w")
    note due = next_due_Some [OF Some]
    have "work T (put cmd_id d' rows) + weight T d = work T rows + weight T d'"
      using Suc.prems(1) due enqueue_keeps_id [OF d'] by (intro work_put) simp_all
    moreover have "weight T d' + 1 \<le> weight T d" using weight_enqueued [OF assms(1) _ d'] due by blast
    moreover have "(\<forall>c \<in> set rows'. \<not> is_due T c) \<or> work T rows' + n \<le> work T (put cmd_id d' rows)"
      by (rule Suc.IH) (use Suc.prems Some d' in simp_all)
    ultimately show ?thesis by auto
  qed
qed simp

text \<open>
  Settled, for a run between \<open>T0\<close> and \<open>T\<close>: no open command ended by \<open>T0\<close>, and none still waits to be
  sent at \<open>T\<close>.
\<close>

definition settled :: "int \<Rightarrow> int \<Rightarrow> device_command list \<Rightarrow> bool" where
  "settled T0 T rows \<longleftrightarrow> (\<forall>c \<in> set rows. \<not> is_overdue T0 c \<and> \<not> is_due T c)"

lemma step_stays_terminal: "cmd_step c c' \<Longrightarrow> terminal_status (cmd_status c) \<Longrightarrow> terminal_status (cmd_status c')"
  by (erule cmd_stepE) (auto simp: step_defs Let_def split: prod.splits if_splits option.splits bool.splits)

lemma reachable_stays:
  assumes "reachable c c'"
  shows "cmd_expires_at c' = cmd_expires_at c \<and> (cmd_status c' = CMD_PENDING \<longrightarrow> cmd_status c = CMD_PENDING) \<and>
    (terminal_status (cmd_status c) \<longrightarrow> terminal_status (cmd_status c'))"
  using assms
  by (induction rule: reachable.induct)
    (use never_pending_again step_keeps_identity step_stays_terminal in \<open>auto simp: frame_of_def\<close>)

lemma settled_reached:
  assumes "rows_reached rows rows'"
  shows "\<forall>c \<in> set rows. \<not> is_overdue t c \<Longrightarrow> \<forall>c \<in> set rows'. \<not> is_overdue t c"
    "settled T0 T rows \<Longrightarrow> settled T0 T rows'"
proof -
  have row: "\<exists>c \<in> set rows. reachable c c'" if "c' \<in> set rows'" for c'
    using assms that unfolding rows_reached_def list_all2_conv_all_nth by (metis in_set_conv_nth)
  have "\<not> is_overdue s c'" if "reachable c c'" "\<not> is_overdue s c" for c c' s
    using reachable_stays [OF that(1)] that(2) by (auto simp: is_overdue_def)
  moreover have "\<not> is_due s c'" if "reachable c c'" "\<not> is_due s c" for c c' s
    using reachable_stays [OF that(1)] that(2) by (auto simp: is_due_def)
  ultimately show "\<forall>c \<in> set rows. \<not> is_overdue t c \<Longrightarrow> \<forall>c \<in> set rows'. \<not> is_overdue t c"
    "settled T0 T rows \<Longrightarrow> settled T0 T rows'"
    unfolding settled_def using row by metis+
qed

lemma overdue_later: "is_overdue t c \<Longrightarrow> t \<le> t' \<Longrightarrow> is_overdue t' c"
  by (auto simp: is_overdue_def split: option.splits)

lemma all_expired:
  assumes "distinct (map cmd_id rows)" "length (expired_commands now k rows) < k"
  shows "\<forall>c \<in> set (after_expiry now k rows). \<not> is_overdue now c"
proof -
  have "length (oldest_first (filter (is_overdue now) rows)) < k"
    using assms(2) by (simp add: expired_commands_def)
  then have "set (expired_commands now k rows) = {c \<in> set rows. is_overdue now c}"
    by (simp add: expired_commands_def oldest_first_def)
  then show ?thesis
    using after_expiry_iff [OF assms(1)] by (auto simp: is_overdue_def expire_command_def terminal_status_def)
qed

lemma pass_progress:
  assumes "decisive tr" "T0 \<le> now" "now \<le> T" "\<forall>i. fst (clock i) \<le> T" "distinct (map cmd_id (db_commands db))"
    and "process_once now clock tr k db w = (db', w')"
  shows "settled T0 T (db_commands db') \<or> work T (db_commands db') + k \<le> work T (db_commands db)"
proof -
  let ?rows = "db_commands db" and ?ex = "expired_commands now k (db_commands db)" and ?rest = "after_expiry now k (db_commands db)"
  have expired: "work T ?rest + length ?ex \<le> work T ?rows"
    unfolding after_expiry_def using assms(3,5) expired_overdue by (intro work_expired expired_ids) auto
  obtain rows' where run: "dispatch_loop clock tr 0 (k - length ?ex) ?rest w = (rows', w')"
    and db': "db_commands db' = rows'"
    using assms(6) by (auto simp: process_once_eq split: prod.splits)
  show ?thesis
  proof (cases "length ?ex < k")
    case True
    from all_expired [OF assms(5) True] overdue_later [OF _ assms(2)] have "\<forall>c \<in> set ?rest. \<not> is_overdue T0 c" by blast
    then have "\<forall>c \<in> set rows'. \<not> is_overdue T0 c"
      by (rule settled_reached(1) [OF dispatch_loop_reached [OF distinct_after_expiry [OF assms(5)] run]])
    with loop_progress [OF assms(1,4) distinct_after_expiry [OF assms(5)] run] expired db' True show ?thesis
      by (auto simp: settled_def)
  next
    case False
    with run have "rows' = ?rest" by simp
    with expired db' False show ?thesis by simp
  qed
qed

lemma pass_keeps_settled:
  assumes "distinct (map cmd_id (db_commands db))" "process_once now clock tr k db w = (db', w')" "settled T0 T (db_commands db)"
  shows "settled T0 T (db_commands db')"
  by (rule settled_reached(2) [OF process_once_reached [OF assms(1,2)] assms(3)])

lemma run_settled:
  assumes "distinct (map cmd_id (db_commands db))" "dispatcher_run cycles tr k db w = (db', w')" "settled T0 T (db_commands db)"
  shows "settled T0 T (db_commands db')"
  using assms
proof (induction cycles tr k db w rule: dispatcher_run.induct)
  case (3 now clock cycles tr k db w)
  obtain db1 w1 where pass: "process_once now clock tr k db w = (db1, w1)" by (cases "process_once now clock tr k db w")
  have "distinct (map cmd_id (db_commands db1))"
    using rows_reached_ids [OF process_once_reached [OF 3(2) pass]] 3(2) by simp
  from 3(1) [OF pass [symmetric] this _ pass_keeps_settled [OF 3(2) pass 3(4)]] 3(3) pass show ?case by simp
qed simp_all

definition rounds_run :: "(int \<times> (nat \<Rightarrow> int \<times> int)) option list \<Rightarrow> nat" where
  "rounds_run cycles = length (filter (\<lambda>c. c \<noteq> None) cycles)"

lemma run_progress:
  assumes "decisive tr" "\<forall>now clock. Some (now, clock) \<in> set cycles \<longrightarrow> T0 \<le> now \<and> now \<le> T \<and> (\<forall>i. fst (clock i) \<le> T)"
    and "distinct (map cmd_id (db_commands db))" "dispatcher_run cycles tr k db w = (db', w')"
  shows "settled T0 T (db_commands db') \<or> work T (db_commands db') + rounds_run cycles * k \<le> work T (db_commands db)"
  using assms(1,2,3,4)
proof (induction cycles tr k db w rule: dispatcher_run.induct)
  case (3 now clock cycles tr k db w)
  obtain db1 w1 where pass: "process_once now clock tr k db w = (db1, w1)" by (cases "process_once now clock tr k db w")
  have ids: "distinct (map cmd_id (db_commands db1))"
    using rows_reached_ids [OF process_once_reached [OF 3(4) pass]] 3(4) by simp
  have run: "dispatcher_run cycles tr k db1 w1 = (db', w')" using 3(5) pass by simp
  have "settled T0 T (db_commands db1) \<or> work T (db_commands db1) + k \<le> work T (db_commands db)"
    using 3(3) by (intro pass_progress [OF 3(2) _ _ _ 3(4) pass]) auto
  moreover have "settled T0 T (db_commands db') \<or> work T (db_commands db') + rounds_run cycles * k \<le> work T (db_commands db1)"
    using 3(3) by (intro 3(1) [OF pass [symmetric] 3(2) _ ids run]) simp
  ultimately show ?case using run_settled [OF ids run] by (auto simp: rounds_run_def)
qed (simp_all add: rounds_run_def)

lemma work_split: "work T rows = length (filter (\<lambda>c. cmd_status c = CMD_PENDING) rows) + length (filter (open_until T) rows)"
  by (induction rows) (simp_all add: work_def weight_def)

lemma no_work: "work T rows = 0 \<Longrightarrow> T0 \<le> T \<Longrightarrow> settled T0 T rows"
  by (auto simp: work_split is_due_def is_overdue_def open_until_def settled_def filter_empty_conv split: option.splits)

text \<open>
  Property C32. The dispatcher drains any backlog: with a transport that decides every command, over
  rounds between \<open>T0\<close> and \<open>T\<close>, and as long as the work - a unit for every pending command and one for
  every open command that ends by \<open>T\<close> - is at most the number of rounds times the batch limit,
  afterwards no command that ended by \<open>T0\<close> is still open, pending or sent, and no command is left
  waiting to be sent at \<open>T\<close>, however much larger than a batch the backlog was and whatever
  expires on the way.
\<close>
theorem dispatcher_drains_backlog:
  assumes "decisive tr" "T0 \<le> T"
    and "\<forall>now clock. Some (now, clock) \<in> set cycles \<longrightarrow> T0 \<le> now \<and> now \<le> T \<and> (\<forall>i. fst (clock i) \<le> T)"
    and "distinct (map cmd_id (db_commands db))"
    and "length (filter (\<lambda>c. cmd_status c = CMD_PENDING) (db_commands db)) + length (filter (open_until T) (db_commands db))
      \<le> rounds_run cycles * k"
    and "dispatcher_run cycles tr k db w = (db', w')"
  shows "\<forall>c \<in> set (db_commands db'). \<not> is_overdue T0 c \<and> \<not> is_due T c"
proof (cases "settled T0 T (db_commands db')")
  case False
  moreover have "work T (db_commands db) \<le> rounds_run cycles * k" using assms(5) by (simp add: work_split)
  ultimately have "work T (db_commands db') = 0" using run_progress [OF assms(1,3,4,6)] by linarith
  then have "settled T0 T (db_commands db')" using assms(2) by (rule no_work)
  then show ?thesis by (simp add: settled_def)
qed (simp add: settled_def)

text \<open>Two pending commands and a sent one that has expired, one a round.\<close>

definition backlog_db :: tlrs_db where
  "backlog_db = two_commands\<lparr>db_commands :=
     [sample_command\<lparr>cmd_id := 1, cmd_status := CMD_PENDING, cmd_expires_at := None\<rparr>,
      sample_command\<lparr>cmd_id := 2, cmd_status := CMD_PENDING, cmd_expires_at := None\<rparr>,
      sample_command\<lparr>cmd_id := 3, cmd_status := CMD_SENT, cmd_expires_at := Some 4\<rparr>]\<rparr>"

theorem dispatcher_drains_backlog_witness:
  "\<exists>db' w'. dispatcher_run [Some (5, \<lambda>_. (5, 5)), None, Some (6, \<lambda>_. (6, 6)), Some (7, \<lambda>_. (7, 7))] (failing_transport False) 1 backlog_db 0 = (db', w') \<and>
     (\<exists>c \<in> set (db_commands backlog_db). is_overdue 5 c) \<and> (\<exists>c \<in> set (db_commands backlog_db). is_due 7 c) \<and>
     (\<forall>c \<in> set (db_commands db'). \<not> is_overdue 5 c \<and> \<not> is_due 7 c)"
proof -
  let ?cycles = "[Some (5, \<lambda>_. (5, 5)), None, Some (6, \<lambda>_. (6, 6)), Some (7, \<lambda>_. (7, 7))] :: (int \<times> (nat \<Rightarrow> int \<times> int)) option list"
  obtain db' w' where run: "dispatcher_run ?cycles (failing_transport False) 1 backlog_db 0 = (db', w')"
    by (cases "dispatcher_run ?cycles (failing_transport False) 1 backlog_db 0")
  have dec: "decisive (failing_transport False)" by (simp add: decisive_def failing_transport_def)
  have clocks: "\<forall>now clock. Some (now, clock) \<in> set ?cycles \<longrightarrow> 5 \<le> now \<and> now \<le> 7 \<and> (\<forall>i. fst (clock i) \<le> 7)" by auto
  have rows: "distinct (map cmd_id (db_commands backlog_db))"
    "length (filter (\<lambda>c. cmd_status c = CMD_PENDING) (db_commands backlog_db)) + length (filter (open_until 7) (db_commands backlog_db))
      \<le> rounds_run ?cycles * 1"
    by (simp_all add: backlog_db_def open_until_def terminal_status_def rounds_run_def)
  have waiting: "\<exists>c \<in> set (db_commands backlog_db). is_overdue 5 c" "\<exists>c \<in> set (db_commands backlog_db). is_due 7 c"
    by (simp_all add: backlog_db_def is_overdue_def is_due_def terminal_status_def)
  have "(5::int) \<le> 7" by simp
  from dispatcher_drains_backlog [OF dec this clocks rows run] run waiting show ?thesis by blast
qed

end
