(* ===== verification/Id_Check.thy ===== *)
theory Id_Check
  imports App_Settings Device_Commands
begin

text \<open>
  The script \<open>scripts/check_chirpstack_ids.py\<close>: environment files, loaded without overriding what is
  set, and the comparison of the ChirpStack ids they give with the device table.  A file is its
  text, \<open>None\<close> where it does not exist; what is printed is the result.
\<close>

subsection \<open>Environment files\<close>

definition load_env_line :: "string \<Rightarrow> (string \<rightharpoonup> string) \<Rightarrow> (string \<rightharpoonup> string)" where
  "load_env_line raw_line environ =
     (let line = py_strip raw_line in
      if line = [] \<or> hd line = CHR ''#'' \<or> CHR ''='' \<notin> set line then environ
      else let key = py_strip (takeWhile (\<lambda>c. c \<noteq> CHR ''='') line);
               cleaned = clean_env_value (tl (dropWhile (\<lambda>c. c \<noteq> CHR ''='') line))
      in if key = [] \<or> environ key \<noteq> None then environ else environ(key \<mapsto> cleaned))"

definition load_env_file :: "string \<Rightarrow> (string \<rightharpoonup> string) \<Rightarrow> (string \<rightharpoonup> string)" where
  "load_env_file file_text environ = fold load_env_line (splitlines file_text) environ"

definition load_env_files :: "string option list \<Rightarrow> (string \<rightharpoonup> string) \<Rightarrow> (string \<rightharpoonup> string)" where
  "load_env_files candidates environ = fold (\<lambda>f e. case f of None \<Rightarrow> e | Some t \<Rightarrow> load_env_file t e) candidates environ"

lemma line_keeps: "environ k = Some v \<Longrightarrow> load_env_line raw environ k = Some v"
  by (auto simp: load_env_line_def Let_def)

lemma file_keeps: "environ k = Some v \<Longrightarrow> load_env_file t environ k = Some v"
proof -
  have "fold load_env_line ls e k = Some v" if "e k = Some v" for ls e using that by (induction ls arbitrary: e) (simp_all add: line_keeps)
  then show "environ k = Some v \<Longrightarrow> load_env_file t environ k = Some v" by (simp add: load_env_file_def)
qed

text \<open>What is set stays; of the files the first that sets a name decides.\<close>

lemma files_precedence:
  "environ k = Some v \<Longrightarrow> load_env_files fs environ k = Some v"
  "load_env_file t environ k = Some v \<Longrightarrow> load_env_files (Some t # fs) environ k = Some v"
proof -
  have keep: "load_env_files fs e k = Some v" if "e k = Some v" for e
    using that unfolding load_env_files_def by (induction fs arbitrary: e) (simp_all add: file_keeps split: option.split)
  then show "environ k = Some v \<Longrightarrow> load_env_files fs environ k = Some v" .
  show "load_env_file t environ k = Some v \<Longrightarrow> load_env_files (Some t # fs) environ k = Some v"
    using keep [of "load_env_file t environ"] by (simp add: load_env_files_def)
qed

subsection \<open>The comparison\<close>

datatype id_check =
  Ids_Required
| Device_Not_Found string
| Mismatches "string list"
| Aligned

fun exit_code :: "id_check \<Rightarrow> int" where
  "exit_code Aligned = 0"
| "exit_code _ = 1"

definition py_str_text :: "string option \<Rightarrow> string" where
  "py_str_text s = (case s of None \<Rightarrow> ''None'' | Some t \<Rightarrow> t)"

definition check_ids :: "(string \<rightharpoonup> string) \<Rightarrow> tlrs_db \<Rightarrow> (py_exc, id_check) res" where
  "check_ids environ db =
     (let application_id = or_empty (environ ''CHIRPSTACK_APPLICATION_ID'');
          dev_eui = py_lower (filter (\<lambda>c. c \<noteq> CHR '' '') (or_empty (environ ''CHIRPSTACK_DEV_EUI'')));
          device_profile_id = or_empty (environ ''CHIRPSTACK_DEVICE_PROFILE_ID'')
      in if application_id = [] \<or> dev_eui = [] then Inr Ids_Required
         else bindE (scalar_one_or_none (filter (\<lambda>d. d_dev_eui d = Some dev_eui \<and> d_deleted d = CHR ''N'') (db_devices db))) (\<lambda>r.
           case r of
             None \<Rightarrow> Inr (Device_Not_Found dev_eui)
           | Some d \<Rightarrow>
               (let mismatches =
                  (if d_application_id d \<noteq> Some application_id
                   then [''application_id mismatch env='' @ application_id @ '' db='' @ py_str_text (d_application_id d)] else []) @
                  (if d_dev_eui d \<noteq> Some dev_eui
                   then [''dev_eui mismatch env='' @ dev_eui @ '' db='' @ py_str_text (d_dev_eui d)] else []) @
                  (if device_profile_id \<noteq> [] \<and> d_device_profile_id d \<noteq> Some device_profile_id
                   then [''device_profile_id mismatch env='' @ device_profile_id @ '' db='' @ py_str_text (d_device_profile_id d)] else [])
                in Inr (if mismatches = [] then Aligned else Mismatches mismatches))))"

text \<open>
  The script answers that the ids are aligned exactly when one live device has the EUI and it has
  the application id and, where one is set, the profile id; the comparison of the EUI never fails.
\<close>

lemma ids_aligned:
  assumes "or_empty (environ ''CHIRPSTACK_APPLICATION_ID'') = app" "app \<noteq> []"
    and "py_lower (filter (\<lambda>c. c \<noteq> CHR '' '') (or_empty (environ ''CHIRPSTACK_DEV_EUI''))) = eui" "eui \<noteq> []"
    and "or_empty (environ ''CHIRPSTACK_DEVICE_PROFILE_ID'') = profile"
  shows "check_ids environ db = Inr Aligned \<longleftrightarrow>
    (\<exists>d. filter (\<lambda>d. d_dev_eui d = Some eui \<and> d_deleted d = CHR ''N'') (db_devices db) = [d] \<and>
       d_application_id d = Some app \<and> (profile = [] \<or> d_device_profile_id d = Some profile))"
proof -
  let ?rows = "filter (\<lambda>d. d_dev_eui d = Some eui \<and> d_deleted d = CHR ''N'') (db_devices db)"
  have eui: "d_dev_eui d = Some eui" if "?rows = [d]" for d using that by (auto simp: filter_eq_Cons_iff)
  show ?thesis
  proof (cases "scalar_one_or_none ?rows")
    case (Inl e)
    then have "?rows \<noteq> [d]" for d using scalar_one_or_none_Some [of ?rows d] by auto
    with Inl assms show ?thesis by (simp add: check_ids_def)
  next
    case (Inr r)
    show ?thesis
    proof (cases r)
      case None
      with Inr assms scalar_one_or_none_None [of ?rows] show ?thesis by (simp add: check_ids_def)
    next
      case (Some d)
      with Inr have rows: "?rows = [d]" by (simp add: scalar_one_or_none_Some)
      show ?thesis using assms(2,4) eui [OF rows] Inr Some unfolding check_ids_def assms(1,3,5) rows Let_def by simp
    qed
  qed
qed

end
