(* ===== verification/Downlink_Publish.thy ===== *)
theory Downlink_Publish
  imports App_Settings Downlink_Codec
begin

text \<open>
  The MQTT side of the downlink client, \<open>src/integrations/chirpstack/downlink_client.py\<close>: the calls
  it makes on the paho client, in order, and how their failures come back.  The broker's answers
  and \<open>json.dumps\<close> are parameters; an exception is its text.
\<close>

datatype mqtt_call =
  Username_Pw_Set string string
| Tls_Set
| Tls_Insecure_Set bool
| Connect string int int
| Loop_Start
| Publish string string int bool
| Wait_For_Publish int
| Loop_Stop
| Disconnect

record broker =
  br_connect_error :: "string option"
  br_publish_error :: "string option"
  br_wait_error :: "string option"
  br_rc :: int
  br_dumps :: "py_value \<Rightarrow> (string, string) res"

type_synonym 'a mqtt = "(mqtt_call list, string, 'a) act"

definition mqtt_do :: "mqtt_call \<Rightarrow> string option \<Rightarrow> unit mqtt" where
  "mqtt_do c failure calls = ((case failure of None \<Rightarrow> Inr () | Some e \<Rightarrow> Inl e), calls @ [c])"

definition configure_client :: "settings \<Rightarrow> mqtt_call list" where
  "configure_client s =
     (if chirpstack_event_mqtt_username s = [] then []
      else [Username_Pw_Set (chirpstack_event_mqtt_username s) (chirpstack_event_mqtt_password s)]) @
     (if chirpstack_event_mqtt_tls_enabled s then [Tls_Set, Tls_Insecure_Set False] else [])"

definition publish_downlink ::
  "settings \<Rightarrow> broker \<Rightarrow> int \<Rightarrow> string \<Rightarrow> py_value \<Rightarrow> int \<Rightarrow> bool \<Rightarrow> (string, unit) res \<times> mqtt_call list" where
  "publish_downlink s br keepalive tpc payload qos retain =
     (let (r, calls) =
        bindS (mqtt_do (Connect (chirpstack_event_mqtt_host s) (chirpstack_event_mqtt_port s) keepalive) (br_connect_error br)) (\<lambda>_.
        bindS (mqtt_do Loop_Start None) (\<lambda>_.
        bindS (liftS (br_dumps br payload)) (\<lambda>body.
        bindS (mqtt_do (Publish tpc body qos retain) (br_publish_error br)) (\<lambda>_.
        bindS (mqtt_do (Wait_For_Publish 10) (br_wait_error br)) (\<lambda>_.
          if br_rc br \<noteq> 0 then raiseS (''ChirpStack downlink publish failed with rc='' @ py_str_int (br_rc br)) else retS ())))))
        (configure_client s)
      in (r, calls @ [Loop_Stop, Disconnect]))"

text \<open>
  The publication succeeds exactly when every call does; then the frame went out once, on the
  topic asked for; the client is always stopped and disconnected, and at most one message is sent.
\<close>

lemma configured_publishes: "Publish a b c d \<notin> set (configure_client s)"
  by (simp add: configure_client_def)

lemma publish_downlink_outcome:
  assumes "publish_downlink s br keepalive tpc payload qos retain = (r, calls)"
  shows "is_ok r \<longleftrightarrow> br_connect_error br = None \<and> br_publish_error br = None \<and> br_wait_error br = None \<and> br_rc br = 0 \<and> is_ok (br_dumps br payload)"
    and "\<exists>before. calls = before @ [Loop_Stop, Disconnect]"
    and "is_ok r \<Longrightarrow> \<exists>body. br_dumps br payload = Inr body \<and> Publish tpc body qos retain \<in> set calls"
    and "Publish tpc' body' qos' retain' \<in> set calls \<Longrightarrow> tpc' = tpc \<and> br_dumps br payload = Inr body'"
  using assms configured_publishes [of _ _ _ _ s]
  by (cases "br_connect_error br"; cases "br_dumps br payload"; cases "br_publish_error br"; cases "br_wait_error br";
      auto simp: publish_downlink_def mqtt_do_def Let_def is_ok_def split: if_splits)+

end
