(* ===== verification/Database_Schema.thy ===== *)
theory Database_Schema
  imports TLRS_Prelude "HOL-Library.AList_Mapping"
begin

text \<open>
  The schema of the database and the statements the migrations change it with: types, tables with
  their columns and constraints, and indexes, each found by its name, so that the order in which
  columns or tables were added does not count.  A statement fails as PostgreSQL refuses it.  The
  rows, the extensions and the default expressions' values are outside.
\<close>

subsection \<open>Schemas\<close>

datatype sql_type = INTEGER | BOOLEAN | VARCHAR "nat option" | TEXT | FLOAT | TIMESTAMP bool | JSONB
  | ENUM string | GEOMETRY string int | GEOGRAPHY string int

record sql_column =
  col_type :: sql_type
  col_nullable :: bool
  col_default :: "string option"

text \<open>A check names the columns its expression mentions.\<close>

datatype table_constraint =
  Primary_Key "string list"
| Foreign_Key "string list" string "string list"
| Unique_Key "string list"
| Check "string list" string

record sql_table =
  tb_columns :: "(string, sql_column) mapping"
  tb_constraints :: "(string, table_constraint) mapping"

record sql_index =
  ix_table :: string
  ix_columns :: "string list"
  ix_unique :: bool
  ix_where :: "string option"
  ix_method :: string

record db_schema =
  sc_types :: "(string, string list) mapping"
  sc_tables :: "(string, sql_table) mapping"
  sc_indexes :: "(string, sql_index) mapping"

definition empty_schema :: db_schema where
  "empty_schema = \<lparr>sc_types = Mapping.empty, sc_tables = Mapping.empty, sc_indexes = Mapping.empty\<rparr>"

datatype ddl_error = Already_Exists string | Does_Not_Exist string | Still_Used string | No_Name

subsection \<open>Statements\<close>

record column_change =
  new_name :: "string option"
  new_type :: "sql_type option"
  new_nullable :: "bool option"
  drop_default :: bool

text \<open>
  \<open>Table_Type\<close> is the \<open>CREATE TYPE\<close> that \<open>create_table\<close> issues for an enumeration column; a type
  created that way is remembered for the rest of the run.  A constraint without a name is named by
  the server when it is added, and cannot be dropped.
\<close>

datatype ddl =
  Create_Type string "string list" bool
| Drop_Type string bool
| Add_Value string string
| Rename_Type string string
| Table_Type string "string list"
| Create_Table string "(string \<times> sql_column) list" "(string option \<times> table_constraint) list"
| Drop_Table string
| Add_Column string "string \<times> sql_column"
| Drop_Column string string
| Alter_Column string string column_change
| Add_Constraint string "string option \<times> table_constraint"
| Drop_Constraint string "string option" bool
| Create_Index string sql_index
| Drop_Index string bool

subsection \<open>Helpers\<close>

definition put_new :: "string \<Rightarrow> 'a \<Rightarrow> (string, 'a) mapping \<Rightarrow> (ddl_error, (string, 'a) mapping) res" where
  "put_new n x m = (if Mapping.lookup m n = None then Inr (Mapping.update n x m) else Inl (Already_Exists n))"

definition find_in :: "string \<Rightarrow> (string, 'a) mapping \<Rightarrow> (ddl_error, 'a) res" where
  "find_in n m = (case Mapping.lookup m n of None \<Rightarrow> Inl (Does_Not_Exist n) | Some x \<Rightarrow> Inr x)"

definition take_out :: "string \<Rightarrow> (string, 'a) mapping \<Rightarrow> (ddl_error, (string, 'a) mapping) res" where
  "take_out n m = (if Mapping.lookup m n = None then Inl (Does_Not_Exist n) else Inr (Mapping.delete n m))"

fun foldE :: "('a \<Rightarrow> 's \<Rightarrow> ('e, 's) res) \<Rightarrow> 'a list \<Rightarrow> 's \<Rightarrow> ('e, 's) res" where
  "foldE f [] s = Inr s"
| "foldE f (x # xs) s = bindE (f x s) (foldE f xs)"

definition exists_in :: "('a \<Rightarrow> bool) \<Rightarrow> (string, 'a) mapping \<Rightarrow> bool" where
  "exists_in P m \<longleftrightarrow> \<not> Mapping.is_empty (Mapping.filter (\<lambda>_. P) m)"

text \<open>PostgreSQL names a constraint after its table and columns.\<close>

fun joined :: "string \<Rightarrow> string list \<Rightarrow> string" where
  "joined n [] = n"
| "joined n (c # cs) = joined (n @ ''_'' @ c) cs"

fun default_name :: "string \<Rightarrow> table_constraint \<Rightarrow> string" where
  "default_name t (Primary_Key cs) = t @ ''_pkey''"
| "default_name t (Foreign_Key cs _ _) = joined t cs @ ''_fkey''"
| "default_name t (Unique_Key cs) = joined t cs @ ''_key''"
| "default_name t (Check cs _) = joined t cs @ ''_check''"

fun constraint_columns :: "table_constraint \<Rightarrow> string list" where
  "constraint_columns (Primary_Key cs) = cs"
| "constraint_columns (Foreign_Key cs _ _) = cs"
| "constraint_columns (Unique_Key cs) = cs"
| "constraint_columns (Check cs _) = cs"

text \<open>The table and columns a foreign key refers to.\<close>

fun target :: "table_constraint \<Rightarrow> (string \<times> string list) option" where
  "target (Foreign_Key _ t ks) = Some (t, ks)"
| "target _ = None"

definition refers_to :: "string \<Rightarrow> table_constraint \<Rightarrow> bool" where
  "refers_to t k = (case target k of None \<Rightarrow> False | Some (t', ks) \<Rightarrow> t' = t)"

definition refers_to_column :: "string \<Rightarrow> string \<Rightarrow> table_constraint \<Rightarrow> bool" where
  "refers_to_column t c k = (case target k of None \<Rightarrow> False | Some (t', ks) \<Rightarrow> t' = t \<and> c \<in> set ks)"

text \<open>Renaming column \<open>c\<close> of table \<open>t\<close> to \<open>c'\<close>, in the constraints of a table \<open>u\<close> and in an index.\<close>

definition renamed :: "string \<Rightarrow> string \<Rightarrow> string list \<Rightarrow> string list" where
  "renamed c c' cs = map (\<lambda>x. if x = c then c' else x) cs"

fun rename_in :: "string \<Rightarrow> string \<Rightarrow> string \<Rightarrow> string \<Rightarrow> table_constraint \<Rightarrow> table_constraint" where
  "rename_in t c c' u (Primary_Key cs) = Primary_Key (if u = t then renamed c c' cs else cs)"
| "rename_in t c c' u (Foreign_Key cs t' ks) =
     Foreign_Key (if u = t then renamed c c' cs else cs) t' (if t' = t then renamed c c' ks else ks)"
| "rename_in t c c' u (Unique_Key cs) = Unique_Key (if u = t then renamed c c' cs else cs)"
| "rename_in t c c' u (Check cs e) = Check (if u = t then renamed c c' cs else cs) e"

definition rename_in_table :: "string \<Rightarrow> string \<Rightarrow> string \<Rightarrow> string \<Rightarrow> sql_table \<Rightarrow> sql_table" where
  "rename_in_table t c c' u tb = tb\<lparr>tb_constraints := Mapping.map_values (\<lambda>_. rename_in t c c' u) (tb_constraints tb)\<rparr>"

definition rename_in_index :: "string \<Rightarrow> string \<Rightarrow> string \<Rightarrow> sql_index \<Rightarrow> sql_index" where
  "rename_in_index t c c' ix = (if ix_table ix = t then ix\<lparr>ix_columns := renamed c c' (ix_columns ix)\<rparr> else ix)"

definition type_known :: "db_schema \<Rightarrow> sql_type \<Rightarrow> (ddl_error, unit) res" where
  "type_known s ty = (case ty of ENUM n \<Rightarrow> guardE (Mapping.lookup (sc_types s) n = None) (Does_Not_Exist n) | _ \<Rightarrow> Inr ())"

definition uses_type :: "string \<Rightarrow> sql_table \<Rightarrow> bool" where
  "uses_type n tb \<longleftrightarrow> exists_in (\<lambda>c. col_type c = ENUM n) (tb_columns tb)"

definition change_table :: "string \<Rightarrow> (sql_table \<Rightarrow> (ddl_error, sql_table) res) \<Rightarrow> db_schema \<Rightarrow> (ddl_error, db_schema) res" where
  "change_table t f s = bindE (find_in t (sc_tables s)) (\<lambda>tb. bindE (f tb) (\<lambda>tb'.
     Inr (s\<lparr>sc_tables := Mapping.update t tb' (sc_tables s)\<rparr>)))"

definition relation_free :: "string \<Rightarrow> db_schema \<Rightarrow> (ddl_error, unit) res" where
  "relation_free n s = guardE (Mapping.lookup (sc_tables s) n \<noteq> None \<or> Mapping.lookup (sc_indexes s) n \<noteq> None) (Already_Exists n)"

definition has_columns :: "sql_table \<Rightarrow> string list \<Rightarrow> (ddl_error, unit) res" where
  "has_columns tb cs = for_each (\<lambda>c. bindE (find_in c (tb_columns tb)) (\<lambda>_. Inr ())) cs"

subsection \<open>What a statement does\<close>

definition add_column :: "db_schema \<Rightarrow> string \<times> sql_column \<Rightarrow> sql_table \<Rightarrow> (ddl_error, sql_table) res" where
  "add_column s nc tb = bindE (type_known s (col_type (snd nc))) (\<lambda>_.
     bindE (put_new (fst nc) (snd nc) (tb_columns tb)) (\<lambda>cs. Inr (tb\<lparr>tb_columns := cs\<rparr>)))"

definition drop_column :: "string \<Rightarrow> sql_table \<Rightarrow> (ddl_error, sql_table) res" where
  "drop_column c tb = bindE (take_out c (tb_columns tb)) (\<lambda>cs. Inr (tb\<lparr>tb_columns := cs,
     tb_constraints := Mapping.filter (\<lambda>_ k. c \<notin> set (constraint_columns k)) (tb_constraints tb)\<rparr>))"

definition changed_column :: "column_change \<Rightarrow> sql_column \<Rightarrow> sql_column" where
  "changed_column ch col = \<lparr>col_type = (case new_type ch of None \<Rightarrow> col_type col | Some ty \<Rightarrow> ty),
     col_nullable = (case new_nullable ch of None \<Rightarrow> col_nullable col | Some b \<Rightarrow> b),
     col_default = (if drop_default ch then None else col_default col)\<rparr>"

definition alter_column :: "db_schema \<Rightarrow> string \<Rightarrow> column_change \<Rightarrow> sql_table \<Rightarrow> (ddl_error, sql_table) res" where
  "alter_column s c ch tb = bindE (find_in c (tb_columns tb)) (\<lambda>col.
     bindE (type_known s (col_type (changed_column ch col))) (\<lambda>_.
       case new_name ch of
         None \<Rightarrow> Inr (tb\<lparr>tb_columns := Mapping.update c (changed_column ch col) (tb_columns tb)\<rparr>)
       | Some c' \<Rightarrow> bindE (put_new c' (changed_column ch col) (Mapping.delete c (tb_columns tb))) (\<lambda>cs. Inr (tb\<lparr>tb_columns := cs\<rparr>))))"

text \<open>A foreign key must find its table and columns, which may be those of the table itself.\<close>

definition add_constraint :: "db_schema \<Rightarrow> string \<Rightarrow> string option \<times> table_constraint \<Rightarrow> sql_table \<Rightarrow> (ddl_error, sql_table) res" where
  "add_constraint s t nk tb = bindE (has_columns tb (constraint_columns (snd nk))) (\<lambda>_.
     bindE (case target (snd nk) of
              None \<Rightarrow> Inr ()
            | Some (t', ks) \<Rightarrow> if t' = t then has_columns tb ks else bindE (find_in t' (sc_tables s)) (\<lambda>tb'. has_columns tb' ks)) (\<lambda>_.
       bindE (put_new (case fst nk of None \<Rightarrow> default_name t (snd nk) | Some n \<Rightarrow> n) (snd nk) (tb_constraints tb)) (\<lambda>ks.
         Inr (tb\<lparr>tb_constraints := ks\<rparr>))))"

definition create_type :: "string \<Rightarrow> string list \<Rightarrow> db_schema \<Rightarrow> (ddl_error, db_schema) res" where
  "create_type n vs s = bindE (put_new n vs (sc_types s)) (\<lambda>ts. Inr (s\<lparr>sc_types := ts\<rparr>))"

definition retyped :: "string \<Rightarrow> string \<Rightarrow> sql_column \<Rightarrow> sql_column" where
  "retyped n n' c = (if col_type c = ENUM n then c\<lparr>col_type := ENUM n'\<rparr> else c)"

fun change_schema :: "ddl \<Rightarrow> db_schema \<Rightarrow> (ddl_error, db_schema) res" where
  "change_schema (Create_Type n vs checkfirst) s =
     (if checkfirst \<and> Mapping.lookup (sc_types s) n \<noteq> None then Inr s else create_type n vs s)"
| "change_schema (Drop_Type n checkfirst) s =
     (if checkfirst \<and> Mapping.lookup (sc_types s) n = None then Inr s
      else bindE (take_out n (sc_types s)) (\<lambda>ts. bindE (guardE (exists_in (uses_type n) (sc_tables s)) (Still_Used n)) (\<lambda>_.
        Inr (s\<lparr>sc_types := ts\<rparr>))))"
| "change_schema (Add_Value n v) s = bindE (find_in n (sc_types s)) (\<lambda>vs.
     Inr (if v \<in> set vs then s else s\<lparr>sc_types := Mapping.update n (vs @ [v]) (sc_types s)\<rparr>))"
| "change_schema (Rename_Type n n') s = bindE (find_in n (sc_types s)) (\<lambda>vs.
     bindE (put_new n' vs (Mapping.delete n (sc_types s))) (\<lambda>ts.
       Inr (s\<lparr>sc_types := ts, sc_tables := Mapping.map_values (\<lambda>_ tb.
         tb\<lparr>tb_columns := Mapping.map_values (\<lambda>_. retyped n n') (tb_columns tb)\<rparr>) (sc_tables s)\<rparr>)))"
| "change_schema (Table_Type n vs) s = create_type n vs s"
| "change_schema (Create_Table t cols keys) s = bindE (relation_free t s) (\<lambda>_.
     bindE (foldE (add_column s) cols \<lparr>tb_columns = Mapping.empty, tb_constraints = Mapping.empty\<rparr>) (\<lambda>tb.
       bindE (foldE (add_constraint s t) keys tb) (\<lambda>tb'. Inr (s\<lparr>sc_tables := Mapping.update t tb' (sc_tables s)\<rparr>))))"
| "change_schema (Drop_Table t) s = bindE (take_out t (sc_tables s)) (\<lambda>tbs.
     bindE (guardE (exists_in (\<lambda>tb. exists_in (refers_to t) (tb_constraints tb)) tbs) (Still_Used t)) (\<lambda>_.
       Inr (s\<lparr>sc_tables := tbs, sc_indexes := Mapping.filter (\<lambda>_ ix. ix_table ix \<noteq> t) (sc_indexes s)\<rparr>)))"
| "change_schema (Add_Column t nc) s = change_table t (add_column s nc) s"
| "change_schema (Drop_Column t c) s =
     bindE (guardE (exists_in (\<lambda>tb. exists_in (refers_to_column t c) (tb_constraints tb)) (sc_tables s)) (Still_Used c)) (\<lambda>_.
       bindE (change_table t (drop_column c) s) (\<lambda>s'.
         Inr (s'\<lparr>sc_indexes := Mapping.filter (\<lambda>_ ix. \<not> (ix_table ix = t \<and> c \<in> set (ix_columns ix))) (sc_indexes s)\<rparr>)))"
| "change_schema (Alter_Column t c ch) s = bindE (change_table t (alter_column s c ch) s) (\<lambda>s'.
     Inr (case new_name ch of None \<Rightarrow> s'
       | Some c' \<Rightarrow> s'\<lparr>sc_tables := Mapping.map_values (rename_in_table t c c') (sc_tables s'),
           sc_indexes := Mapping.map_values (\<lambda>_. rename_in_index t c c') (sc_indexes s)\<rparr>))"
| "change_schema (Add_Constraint t nk) s = change_table t (add_constraint s t nk) s"
| "change_schema (Drop_Constraint t k if_exists) s = (case k of
     None \<Rightarrow> Inl No_Name
   | Some n \<Rightarrow> change_table t (\<lambda>tb.
       if if_exists \<and> Mapping.lookup (tb_constraints tb) n = None then Inr tb
       else bindE (take_out n (tb_constraints tb)) (\<lambda>ks. Inr (tb\<lparr>tb_constraints := ks\<rparr>))) s)"
| "change_schema (Create_Index n ix) s = bindE (relation_free n s) (\<lambda>_. bindE (find_in (ix_table ix) (sc_tables s)) (\<lambda>tb.
     bindE (has_columns tb (ix_columns ix)) (\<lambda>_. Inr (s\<lparr>sc_indexes := Mapping.update n ix (sc_indexes s)\<rparr>))))"
| "change_schema (Drop_Index n if_exists) s =
     (if if_exists \<and> Mapping.lookup (sc_indexes s) n = None then Inr s
      else bindE (take_out n (sc_indexes s)) (\<lambda>ixs. Inr (s\<lparr>sc_indexes := ixs\<rparr>)))"

subsection \<open>A run of a migration\<close>

text \<open>
  Whether \<open>create_table\<close> looks for a type it did not create itself before it creates it depends on
  the library: \<open>strict\<close> is that it does not, so that an existing type makes it fail.
\<close>

fun apply_ddl :: "bool \<Rightarrow> ddl \<Rightarrow> db_schema \<times> string list \<Rightarrow> (ddl_error, db_schema \<times> string list) res" where
  "apply_ddl strict (Table_Type n vs) (s, memo) =
     (if n \<in> set memo then Inr (s, memo)
      else if \<not> strict \<and> Mapping.lookup (sc_types s) n \<noteq> None then Inr (s, n # memo)
      else bindE (create_type n vs s) (\<lambda>s'. Inr (s', n # memo)))"
| "apply_ddl strict op (s, memo) = bindE (change_schema op s) (\<lambda>s'. Inr (s', memo))"

definition run_ddl :: "bool \<Rightarrow> ddl list \<Rightarrow> db_schema \<Rightarrow> (ddl_error, db_schema) res" where
  "run_ddl strict ops s = bindE (foldE (apply_ddl strict) ops (s, [])) (\<lambda>(s', memo). Inr s')"

end
