(* ===== verification/Migration_Steps.thy ===== *)
theory Migration_Steps
  imports Database_Schema
begin

text \<open>
  The migrations under \<open>alembic/versions\<close> as statements on the schema, in the order of their
  revisions.  Statements on rows (\<open>INSERT\<close>, \<open>UPDATE\<close>), which Schema_Migrations and
  Service_Migrations model, and the extension PostGIS are left out, and so is the refusal of
  \<open>8c6e1b2f4a90\<close>, which depends on rows.
\<close>

subsection \<open>Notation\<close>

abbreviation varchar :: sql_type where "varchar \<equiv> VARCHAR None"
abbreviation quote :: string where "quote \<equiv> [CHR 0x27]"

definition required :: "string \<Rightarrow> sql_type \<Rightarrow> string \<times> sql_column" where
  "required n ty = (n, \<lparr>col_type = ty, col_nullable = False, col_default = None\<rparr>)"

definition nullable :: "string \<Rightarrow> sql_type \<Rightarrow> string \<times> sql_column" where
  "nullable n ty = (n, \<lparr>col_type = ty, col_nullable = True, col_default = None\<rparr>)"

definition with_default :: "string \<Rightarrow> string \<times> sql_column \<Rightarrow> string \<times> sql_column" where
  "with_default d nc = (fst nc, (snd nc)\<lparr>col_default := Some d\<rparr>)"

definition no_change :: column_change where
  "no_change = \<lparr>new_name = None, new_type = None, new_nullable = None, drop_default = False\<rparr>"

definition set_type :: "sql_type \<Rightarrow> column_change" where
  "set_type ty = no_change\<lparr>new_type := Some ty\<rparr>"

definition index_on :: "string \<Rightarrow> string list \<Rightarrow> sql_index" where
  "index_on t cs = \<lparr>ix_table = t, ix_columns = cs, ix_unique = False, ix_where = None, ix_method = ''btree''\<rparr>"

definition unique_index :: "string \<Rightarrow> string list \<Rightarrow> sql_index" where
  "unique_index t cs = (index_on t cs)\<lparr>ix_unique := True\<rparr>"

definition unique_where :: "string \<Rightarrow> string \<Rightarrow> string list \<Rightarrow> sql_index" where
  "unique_where p t cs = (index_on t cs)\<lparr>ix_unique := True, ix_where := Some p\<rparr>"

definition gist_index :: "string \<Rightarrow> string list \<Rightarrow> sql_index" where
  "gist_index t cs = (index_on t cs)\<lparr>ix_method := ''gist''\<rparr>"

text \<open>Conditions that occur more than once.\<close>

definition live :: string where
  "live = ''deleted = '' @ quote @ ''N'' @ quote"

definition live_and :: "string \<Rightarrow> string" where
  "live_and p = live @ '' AND '' @ p"

definition application_id_check :: string where
  "application_id_check = ''communication_protocol != '' @ quote @ ''CHIRPSTACK'' @ quote @
     '' OR (chirpstack_application_id IS NOT NULL AND btrim(chirpstack_application_id) <> '' @ quote @ quote @ '')''"

subsection \<open>The migrations\<close>

text \<open>\<open>e164566bafe4\<close>: the first tables.\<close>

definition upgrade_e164566bafe4 :: "ddl list" where
  "upgrade_e164566bafe4 = [
     Create_Table ''clients''
       [required ''id_client'' INTEGER,
        required ''name'' varchar,
        required ''email'' varchar]
       [(None, Primary_Key [''id_client''])],
     Create_Table ''assets''
       [required ''id_asset'' INTEGER,
        required ''type_aseet'' varchar,
        nullable ''serial'' varchar,
        nullable ''client_id'' INTEGER,
        required ''status'' (VARCHAR (Some 1))]
       [(None, Foreign_Key [''client_id''] ''clients'' [''id_client'']),
        (None, Primary_Key [''id_asset'']),
        (None, Unique_Key [''serial''])],
     Table_Type ''devicestate'' [''ON'', ''OFF''], Table_Type ''devicecomunicationprotocol'' [''HTTP'', ''MQTT''],
     Create_Table ''devices''
       [required ''id_device'' INTEGER,
        nullable ''serial'' varchar,
        nullable ''name'' varchar,
        nullable ''type'' varchar,
        required ''state'' (ENUM ''devicestate''),
        required ''comunication_protocol'' (ENUM ''devicecomunicationprotocol''),
        nullable ''client_id'' INTEGER,
        nullable ''asset_id'' INTEGER,
        nullable ''active'' BOOLEAN]
       [(None, Foreign_Key [''asset_id''] ''assets'' [''id_asset'']),
        (None, Foreign_Key [''client_id''] ''clients'' [''id_client'']),
        (None, Primary_Key [''id_device'']),
        (None, Unique_Key [''serial''])],
     Create_Table ''device_credentials''
       [required ''id'' INTEGER,
        required ''device_id'' INTEGER,
        required ''secret'' varchar,
        required ''status'' (VARCHAR (Some 1)),
        required ''created_at'' (TIMESTAMP False),
        nullable ''revoked_at'' (TIMESTAMP False)]
       [(None, Foreign_Key [''device_id''] ''devices'' [''id_device'']),
        (None, Primary_Key [''id''])],
     Create_Table ''locations''
       [required ''id_location'' INTEGER,
        required ''device_id'' INTEGER,
        required ''lat'' varchar,
        required ''long'' varchar,
        required ''altitude'' varchar,
        required ''accuarcy'' varchar,
        required ''geometry'' varchar]
       [(None, Foreign_Key [''device_id''] ''devices'' [''id_device'']),
        (None, Primary_Key [''id_location''])],
     Table_Type ''devicecomunicationprotocol'' [''HTTP'', ''MQTT''],
     Create_Table ''telemetry_messages''
       [required ''id_telemetry'' INTEGER,
        required ''device_id'' INTEGER,
        required ''recived_at'' (TIMESTAMP False),
        required ''raw_payload'' varchar,
        required ''protocol'' (ENUM ''devicecomunicationprotocol''),
        required ''source_ip'' varchar]
       [(None, Foreign_Key [''device_id''] ''devices'' [''id_device'']),
        (None, Primary_Key [''id_telemetry''])]]"

definition downgrade_e164566bafe4 :: "ddl list" where
  "downgrade_e164566bafe4 = [
     Drop_Table ''telemetry_messages'', Drop_Table ''locations'', Drop_Table ''device_credentials'',
     Drop_Table ''devices'', Drop_Table ''assets'', Drop_Table ''clients'']"

text \<open>\<open>be6f45e50817\<close>: names and types of the second model.\<close>

definition upgrade_be6f45e50817 :: "ddl list" where
  "upgrade_be6f45e50817 = [
     Create_Type ''assetstatus'' [''ACTIVE'', ''INACTIVE''] True,
     Create_Type ''credentialstatus'' [''ACTIVE'', ''REVOKED''] True,
     Create_Type ''devicecommunicationprotocol'' [''HTTP'', ''MQTT''] True,
     Alter_Column ''assets'' ''type_aseet'' (no_change\<lparr>new_name := Some ''asset_type''\<rparr>),
     Alter_Column ''assets'' ''serial'' (no_change\<lparr>new_nullable := Some False\<rparr>),
     Alter_Column ''assets'' ''status'' (set_type (ENUM ''assetstatus'')),
     Alter_Column ''device_credentials'' ''status'' (set_type (ENUM ''credentialstatus'')),
     Alter_Column ''devices'' ''comunication_protocol'' (no_change\<lparr>new_name := Some ''communication_protocol''\<rparr>),
     Alter_Column ''devices'' ''communication_protocol'' (set_type (ENUM ''devicecommunicationprotocol'')),
     Alter_Column ''devices'' ''serial'' (no_change\<lparr>new_nullable := Some False\<rparr>),
     Alter_Column ''devices'' ''name'' (no_change\<lparr>new_nullable := Some False\<rparr>),
     Alter_Column ''devices'' ''type'' (no_change\<lparr>new_nullable := Some False\<rparr>),
     Alter_Column ''devices'' ''active'' (no_change\<lparr>new_nullable := Some False\<rparr>),
     Alter_Column ''locations'' ''lat'' (no_change\<lparr>new_name := Some ''latitude''\<rparr>),
     Alter_Column ''locations'' ''long'' (no_change\<lparr>new_name := Some ''longitude''\<rparr>),
     Alter_Column ''locations'' ''accuarcy'' (no_change\<lparr>new_name := Some ''accuracy''\<rparr>),
     Add_Column ''locations'' (nullable ''device_timestamp'' (TIMESTAMP False)),
     Add_Column ''locations'' (with_default ''now()'' (required ''received_at'' (TIMESTAMP False))),
     Alter_Column ''locations'' ''latitude'' (no_change\<lparr>new_type := Some FLOAT\<rparr>),
     Alter_Column ''locations'' ''longitude'' (no_change\<lparr>new_type := Some FLOAT\<rparr>),
     Alter_Column ''locations'' ''accuracy'' (no_change\<lparr>new_type := Some FLOAT, new_nullable := Some True\<rparr>),
     Alter_Column ''locations'' ''altitude'' (no_change\<lparr>new_type := Some FLOAT, new_nullable := Some True\<rparr>),
     Alter_Column ''locations'' ''geometry'' (no_change\<lparr>new_nullable := Some True\<rparr>),
     Alter_Column ''locations'' ''received_at'' (no_change\<lparr>drop_default := True\<rparr>),
     Alter_Column ''telemetry_messages'' ''recived_at'' (no_change\<lparr>new_name := Some ''received_at''\<rparr>),
     Alter_Column ''telemetry_messages'' ''raw_payload'' (no_change\<lparr>new_type := Some TEXT\<rparr>),
     Alter_Column ''telemetry_messages'' ''protocol'' (set_type (ENUM ''devicecommunicationprotocol'')),
     Alter_Column ''telemetry_messages'' ''source_ip'' (no_change\<lparr>new_nullable := Some True\<rparr>),
     Drop_Type ''devicecomunicationprotocol'' True]"

definition downgrade_be6f45e50817 :: "ddl list" where
  "downgrade_be6f45e50817 = [
     Create_Type ''devicecomunicationprotocol'' [''HTTP'', ''MQTT''] True,
     Alter_Column ''telemetry_messages'' ''received_at'' (no_change\<lparr>new_name := Some ''recived_at''\<rparr>),
     Alter_Column ''telemetry_messages'' ''source_ip'' (no_change\<lparr>new_nullable := Some False\<rparr>),
     Alter_Column ''telemetry_messages'' ''protocol'' (set_type (ENUM ''devicecomunicationprotocol'')),
     Alter_Column ''telemetry_messages'' ''raw_payload'' (no_change\<lparr>new_type := Some varchar\<rparr>),
     Alter_Column ''locations'' ''geometry'' (no_change\<lparr>new_nullable := Some False\<rparr>),
     Alter_Column ''locations'' ''altitude'' (no_change\<lparr>new_type := Some varchar, new_nullable := Some False\<rparr>),
     Alter_Column ''locations'' ''accuracy'' (no_change\<lparr>new_type := Some varchar, new_nullable := Some False\<rparr>),
     Alter_Column ''locations'' ''longitude'' (no_change\<lparr>new_type := Some varchar\<rparr>),
     Alter_Column ''locations'' ''latitude'' (no_change\<lparr>new_type := Some varchar\<rparr>),
     Drop_Column ''locations'' ''received_at'', Drop_Column ''locations'' ''device_timestamp'',
     Alter_Column ''locations'' ''accuracy'' (no_change\<lparr>new_name := Some ''accuarcy''\<rparr>),
     Alter_Column ''locations'' ''longitude'' (no_change\<lparr>new_name := Some ''long''\<rparr>),
     Alter_Column ''locations'' ''latitude'' (no_change\<lparr>new_name := Some ''lat''\<rparr>),
     Alter_Column ''devices'' ''active'' (no_change\<lparr>new_nullable := Some True\<rparr>),
     Alter_Column ''devices'' ''type'' (no_change\<lparr>new_nullable := Some True\<rparr>),
     Alter_Column ''devices'' ''name'' (no_change\<lparr>new_nullable := Some True\<rparr>),
     Alter_Column ''devices'' ''serial'' (no_change\<lparr>new_nullable := Some True\<rparr>),
     Alter_Column ''devices'' ''communication_protocol'' (set_type (ENUM ''devicecomunicationprotocol'')),
     Alter_Column ''devices'' ''communication_protocol'' (no_change\<lparr>new_name := Some ''comunication_protocol''\<rparr>),
     Alter_Column ''device_credentials'' ''status'' (set_type (VARCHAR (Some 1))),
     Alter_Column ''assets'' ''status'' (set_type (VARCHAR (Some 1))),
     Alter_Column ''assets'' ''serial'' (no_change\<lparr>new_nullable := Some True\<rparr>),
     Alter_Column ''assets'' ''asset_type'' (no_change\<lparr>new_name := Some ''type_aseet''\<rparr>),
     Drop_Type ''devicecommunicationprotocol'' True, Drop_Type ''credentialstatus'' True,
     Drop_Type ''assetstatus'' True]"

text \<open>\<open>4511f23b597d\<close>: telemetry processing.\<close>

definition upgrade_4511f23b597d :: "ddl list" where
  "upgrade_4511f23b597d = [
     Add_Column ''telemetry_messages'' (with_default ''false'' (required ''processed'' BOOLEAN)),
     Add_Column ''telemetry_messages'' (nullable ''error_message'' varchar)]"

definition downgrade_4511f23b597d :: "ddl list" where
  "downgrade_4511f23b597d = [
     Drop_Column ''telemetry_messages'' ''error_message'', Drop_Column ''telemetry_messages'' ''processed'']"

text \<open>\<open>f832219bc3af\<close>: last contact of a device.\<close>

definition upgrade_f832219bc3af :: "ddl list" where
  "upgrade_f832219bc3af = [
     Add_Column ''devices'' (nullable ''last_seen_at'' (TIMESTAMP False))]"

definition downgrade_f832219bc3af :: "ddl list" where
  "downgrade_f832219bc3af = [
     Drop_Column ''devices'' ''last_seen_at'']"

text \<open>\<open>e0f71f0db473\<close>: soft deletion.\<close>

definition upgrade_e0f71f0db473 :: "ddl list" where
  "upgrade_e0f71f0db473 = [
     Add_Column ''assets'' (with_default ''N'' (required ''deleted'' (VARCHAR (Some 1)))),
     Add_Column ''clients'' (with_default ''N'' (required ''deleted'' (VARCHAR (Some 1)))),
     Add_Column ''device_credentials'' (with_default ''N'' (required ''deleted'' (VARCHAR (Some 1)))),
     Add_Column ''devices'' (with_default ''N'' (required ''deleted'' (VARCHAR (Some 1)))),
     Add_Column ''locations'' (with_default ''N'' (required ''deleted'' (VARCHAR (Some 1)))),
     Add_Column ''telemetry_messages'' (with_default ''N'' (required ''deleted'' (VARCHAR (Some 1))))]"

definition downgrade_e0f71f0db473 :: "ddl list" where
  "downgrade_e0f71f0db473 = [
     Drop_Column ''telemetry_messages'' ''deleted'', Drop_Column ''locations'' ''deleted'',
     Drop_Column ''devices'' ''deleted'', Drop_Column ''device_credentials'' ''deleted'',
     Drop_Column ''clients'' ''deleted'', Drop_Column ''assets'' ''deleted'']"

text \<open>\<open>9c282ac96d95\<close>: MQTT credentials; its downgrade drops a constraint without naming it.\<close>

definition upgrade_9c282ac96d95 :: "ddl list" where
  "upgrade_9c282ac96d95 = [
     Add_Column ''device_credentials'' (nullable ''mqtt_username'' varchar),
     Add_Column ''device_credentials'' (nullable ''mqtt_password'' varchar),
     Add_Column ''device_credentials'' (nullable ''location_topic'' varchar),
     Add_Column ''device_credentials'' (nullable ''status_topic'' varchar),
     Add_Column ''device_credentials'' (nullable ''heartbeat_topic'' varchar),
     Add_Constraint ''device_credentials'' (None, Unique_Key [''mqtt_username''])]"

definition downgrade_9c282ac96d95 :: "ddl list" where
  "downgrade_9c282ac96d95 = [
     Drop_Constraint ''device_credentials'' None False, Drop_Column ''device_credentials'' ''heartbeat_topic'',
     Drop_Column ''device_credentials'' ''status_topic'', Drop_Column ''device_credentials'' ''location_topic'',
     Drop_Column ''device_credentials'' ''mqtt_password'', Drop_Column ''device_credentials'' ''mqtt_username'']"

text \<open>\<open>10718bead5ab\<close>: hashed and encrypted passwords.\<close>

definition upgrade_10718bead5ab :: "ddl list" where
  "upgrade_10718bead5ab = [
     Create_Type ''mqttprovider'' [''EMQX_CLOUD'', ''MOSQUITTO''] True,
     Add_Column ''device_credentials'' (nullable ''mqtt_password_hash'' varchar),
     Add_Column ''device_credentials'' (nullable ''mqtt_password_encrypted'' varchar),
     Add_Column ''device_credentials'' (nullable ''mqtt_provider'' (ENUM ''mqttprovider'')),
     Add_Constraint ''device_credentials'' (Some ''uq_device_credentials_mqtt_password_hash'', Unique_Key [''mqtt_password_hash'']),
     Add_Constraint ''device_credentials'' (Some ''uq_device_credentials_mqtt_password_encrypted'', Unique_Key [''mqtt_password_encrypted'']),
     Drop_Column ''device_credentials'' ''mqtt_password'']"

definition downgrade_10718bead5ab :: "ddl list" where
  "downgrade_10718bead5ab = [
     Add_Column ''device_credentials'' (nullable ''mqtt_password'' varchar),
     Drop_Constraint ''device_credentials'' (Some ''uq_device_credentials_mqtt_password_encrypted'') False,
     Drop_Constraint ''device_credentials'' (Some ''uq_device_credentials_mqtt_password_hash'') False,
     Drop_Column ''device_credentials'' ''mqtt_provider'',
     Drop_Column ''device_credentials'' ''mqtt_password_encrypted'',
     Drop_Column ''device_credentials'' ''mqtt_password_hash'', Drop_Type ''mqttprovider'' True]"

text \<open>\<open>6f0d9d3a4b21\<close>: users, roles and services.\<close>

definition upgrade_6f0d9d3a4b21 :: "ddl list" where
  "upgrade_6f0d9d3a4b21 = [
     Create_Table ''users''
       [required ''id_user'' INTEGER,
        required ''name'' varchar,
        required ''email'' varchar,
        required ''password'' varchar,
        required ''deleted'' (VARCHAR (Some 1)),
        nullable ''id_client'' INTEGER,
        required ''is_admin'' BOOLEAN]
       [(None, Foreign_Key [''id_client''] ''clients'' [''id_client'']),
        (None, Primary_Key [''id_user'']),
        (None, Unique_Key [''email'']),
        (None, Unique_Key [''name''])],
     Create_Table ''roles''
       [required ''id_role'' INTEGER,
        required ''name'' varchar,
        required ''deleted'' (VARCHAR (Some 1))]
       [(None, Primary_Key [''id_role'']),
        (None, Unique_Key [''name''])],
     Create_Table ''services''
       [required ''id_service'' INTEGER,
        required ''name'' varchar,
        required ''deleted'' (VARCHAR (Some 1))]
       [(None, Primary_Key [''id_service'']),
        (None, Unique_Key [''name''])],
     Create_Table ''user_roles''
       [required ''id_user_role'' INTEGER,
        required ''user_id'' INTEGER,
        required ''role_id'' INTEGER,
        required ''deleted'' (VARCHAR (Some 1))]
       [(None, Foreign_Key [''role_id''] ''roles'' [''id_role'']),
        (None, Foreign_Key [''user_id''] ''users'' [''id_user'']),
        (None, Primary_Key [''id_user_role'']),
        (Some ''uq_user_roles_user_role'', Unique_Key [''user_id'', ''role_id''])],
     Create_Table ''service_roles''
       [required ''id_service_role'' INTEGER,
        required ''service_id'' INTEGER,
        required ''role_id'' INTEGER,
        required ''deleted'' (VARCHAR (Some 1))]
       [(None, Foreign_Key [''role_id''] ''roles'' [''id_role'']),
        (None, Foreign_Key [''service_id''] ''services'' [''id_service'']),
        (None, Primary_Key [''id_service_role'']),
        (Some ''uq_service_roles_service_role'', Unique_Key [''service_id'', ''role_id''])]]"

definition downgrade_6f0d9d3a4b21 :: "ddl list" where
  "downgrade_6f0d9d3a4b21 = [
     Drop_Table ''service_roles'', Drop_Table ''user_roles'', Drop_Table ''services'', Drop_Table ''roles'',
     Drop_Table ''users'']"

text \<open>\<open>a4f2c8d91b63\<close>: uniqueness among the live rows.\<close>

definition upgrade_a4f2c8d91b63 :: "ddl list" where
  "upgrade_a4f2c8d91b63 = [
     Drop_Constraint ''devices'' (Some ''devices_serial_key'') True,
     Drop_Constraint ''device_credentials'' (Some ''device_credentials_mqtt_username_key'') True,
     Drop_Constraint ''device_credentials'' (Some ''uq_device_credentials_mqtt_password_hash'') True,
     Drop_Constraint ''device_credentials'' (Some ''uq_device_credentials_mqtt_password_encrypted'') True,
     Create_Index ''uq_devices_serial_active'' (unique_where live ''devices'' [''serial'']),
     Create_Index ''uq_device_credentials_mqtt_username_active'' (unique_where (live_and ''mqtt_username IS NOT NULL'') ''device_credentials'' [''mqtt_username'']),
     Create_Index ''uq_device_credentials_mqtt_password_hash_active'' (unique_where (live_and ''mqtt_password_hash IS NOT NULL'') ''device_credentials'' [''mqtt_password_hash'']),
     Create_Index ''uq_device_credentials_mqtt_password_encrypted_active'' (unique_where (live_and ''mqtt_password_encrypted IS NOT NULL'') ''device_credentials'' [''mqtt_password_encrypted''])]"

definition downgrade_a4f2c8d91b63 :: "ddl list" where
  "downgrade_a4f2c8d91b63 = [
     Drop_Index ''uq_device_credentials_mqtt_password_encrypted_active'' False,
     Drop_Index ''uq_device_credentials_mqtt_password_hash_active'' False,
     Drop_Index ''uq_device_credentials_mqtt_username_active'' False, Drop_Index ''uq_devices_serial_active'' False,
     Add_Constraint ''devices'' (Some ''devices_serial_key'', Unique_Key [''serial'']),
     Add_Constraint ''device_credentials'' (Some ''device_credentials_mqtt_username_key'', Unique_Key [''mqtt_username'']),
     Add_Constraint ''device_credentials'' (Some ''uq_device_credentials_mqtt_password_hash'', Unique_Key [''mqtt_password_hash'']),
     Add_Constraint ''device_credentials'' (Some ''uq_device_credentials_mqtt_password_encrypted'', Unique_Key [''mqtt_password_encrypted''])]"

text \<open>\<open>c9b1d44e8c72\<close>: the geography of a location.\<close>

definition upgrade_c9b1d44e8c72 :: "ddl list" where
  "upgrade_c9b1d44e8c72 = [
     Add_Column ''locations'' (nullable ''point'' (GEOGRAPHY ''POINT'' 4326)),
     Create_Index ''ix_locations_point_gist'' (gist_index ''locations'' [''point''])]"

definition downgrade_c9b1d44e8c72 :: "ddl list" where
  "downgrade_c9b1d44e8c72 = [
     Drop_Index ''ix_locations_point_gist'' True, Drop_Column ''locations'' ''point'']"

text \<open>\<open>b8c1e9d2a734\<close>: user sessions.\<close>

definition upgrade_b8c1e9d2a734 :: "ddl list" where
  "upgrade_b8c1e9d2a734 = [
     Create_Table ''user_sessions''
       [required ''id_session'' INTEGER,
        required ''user_id'' INTEGER,
        required ''refresh_token_hash'' (VARCHAR (Some 64)),
        required ''issued_at'' (TIMESTAMP False),
        required ''expires_at'' (TIMESTAMP False),
        nullable ''revoked_at'' (TIMESTAMP False),
        nullable ''replaced_by_session_id'' INTEGER,
        nullable ''user_agent'' (VARCHAR (Some 512)),
        nullable ''ip_address'' (VARCHAR (Some 45)),
        required ''deleted'' (VARCHAR (Some 1))]
       [(None, Foreign_Key [''replaced_by_session_id''] ''user_sessions'' [''id_session'']),
        (None, Foreign_Key [''user_id''] ''users'' [''id_user'']),
        (None, Primary_Key [''id_session'']),
        (None, Unique_Key [''refresh_token_hash''])],
     Create_Index ''ix_user_sessions_expires_at'' (index_on ''user_sessions'' [''expires_at'']),
     Create_Index ''ix_user_sessions_refresh_token_hash'' (unique_index ''user_sessions'' [''refresh_token_hash'']),
     Create_Index ''ix_user_sessions_user_id'' (index_on ''user_sessions'' [''user_id''])]"

definition downgrade_b8c1e9d2a734 :: "ddl list" where
  "downgrade_b8c1e9d2a734 = [
     Drop_Index ''ix_user_sessions_user_id'' False, Drop_Index ''ix_user_sessions_refresh_token_hash'' False,
     Drop_Index ''ix_user_sessions_expires_at'' False, Drop_Table ''user_sessions'']"

text \<open>\<open>57d10e96a538\<close>: geofences, assignments and events.\<close>

definition upgrade_57d10e96a538 :: "ddl list" where
  "upgrade_57d10e96a538 = [
     Create_Type ''fenceeventtype'' [''NEAR_LIMIT'', ''EXITED'', ''ENTERED'', ''RETURNED'', ''GPS_UNCERTAIN''] True,
     Create_Table ''geofences''
       [required ''id_geofence'' INTEGER,
        required ''client_id'' INTEGER,
        required ''name'' varchar,
        nullable ''description'' varchar,
        required ''shape'' (GEOMETRY ''MULTIPOLYGON'' 4326),
        required ''active'' BOOLEAN,
        required ''deleted'' (VARCHAR (Some 1)),
        required ''created_at'' (TIMESTAMP False),
        required ''updated_at'' (TIMESTAMP False)]
       [(None, Foreign_Key [''client_id''] ''clients'' [''id_client'']),
        (None, Primary_Key [''id_geofence''])],
     Create_Index ''idx_geofences_shape'' (gist_index ''geofences'' [''shape'']),
     Create_Index ''idx_geofences_client_id'' (index_on ''geofences'' [''client_id'']),
     Create_Index ''uq_geofences_client_name_active'' (unique_where live ''geofences'' [''client_id'', ''name'']),
     Create_Table ''geofence_assignments''
       [required ''id_assignment'' INTEGER,
        required ''asset_id'' INTEGER,
        required ''fence_id'' INTEGER,
        required ''active'' BOOLEAN,
        required ''deleted'' (VARCHAR (Some 1)),
        required ''assigned_at'' (TIMESTAMP False),
        nullable ''unassigned_at'' (TIMESTAMP False),
        required ''created_at'' (TIMESTAMP False),
        required ''updated_at'' (TIMESTAMP False)]
       [(None, Foreign_Key [''asset_id''] ''assets'' [''id_asset'']),
        (None, Foreign_Key [''fence_id''] ''geofences'' [''id_geofence'']),
        (None, Primary_Key [''id_assignment''])],
     Create_Index ''idx_geofence_assignments_asset_id'' (index_on ''geofence_assignments'' [''asset_id'']),
     Create_Index ''idx_geofence_assignments_fence_id'' (index_on ''geofence_assignments'' [''fence_id'']),
     Create_Index ''uq_geofence_assignments_asset_fence_active'' (unique_where (live_and ''active = true'') ''geofence_assignments'' [''asset_id'', ''fence_id'']),
     Create_Table ''geofence_events''
       [required ''id_event'' INTEGER,
        required ''fence_id'' INTEGER,
        required ''device_id'' INTEGER,
        nullable ''asset_id'' INTEGER,
        required ''location_id'' INTEGER,
        required ''event_type'' (ENUM ''fenceeventtype''),
        nullable ''distance_to_boundary_meters'' FLOAT,
        nullable ''accuracy'' FLOAT,
        required ''created_at'' (TIMESTAMP False)]
       [(None, Foreign_Key [''asset_id''] ''assets'' [''id_asset'']),
        (None, Foreign_Key [''device_id''] ''devices'' [''id_device'']),
        (None, Foreign_Key [''fence_id''] ''geofences'' [''id_geofence'']),
        (None, Foreign_Key [''location_id''] ''locations'' [''id_location'']),
        (None, Primary_Key [''id_event''])],
     Create_Index ''idx_geofence_events_device_id_created_at'' (index_on ''geofence_events'' [''device_id'', ''created_at'']),
     Create_Index ''idx_geofence_events_location_id'' (index_on ''geofence_events'' [''location_id'']),
     Create_Index ''idx_geofence_events_fence_id_created_at'' (index_on ''geofence_events'' [''fence_id'', ''created_at''])]"

definition downgrade_57d10e96a538 :: "ddl list" where
  "downgrade_57d10e96a538 = [
     Drop_Index ''idx_geofence_events_fence_id_created_at'' False,
     Drop_Index ''idx_geofence_events_location_id'' False,
     Drop_Index ''idx_geofence_events_device_id_created_at'' False, Drop_Table ''geofence_events'',
     Drop_Index ''uq_geofence_assignments_asset_fence_active'' False,
     Drop_Index ''idx_geofence_assignments_fence_id'' False, Drop_Index ''idx_geofence_assignments_asset_id'' False,
     Drop_Table ''geofence_assignments'', Drop_Index ''uq_geofences_client_name_active'' False,
     Drop_Index ''idx_geofences_client_id'' False, Drop_Index ''idx_geofences_shape'' False, Drop_Table ''geofences'',
     Drop_Type ''fenceeventtype'' True]"

text \<open>\<open>90492c6dd84e\<close>: geofence states.\<close>

definition upgrade_90492c6dd84e :: "ddl list" where
  "upgrade_90492c6dd84e = [
     Create_Type ''geofencestatus'' [''SAFE'', ''NEAR_LIMIT'', ''OUTSIDE'', ''GPS_UNCERTAIN''] True,
     Create_Table ''geofence_asset_states''
       [required ''id_state'' INTEGER,
        required ''fence_id'' INTEGER,
        required ''asset_id'' INTEGER,
        required ''device_id'' INTEGER,
        required ''current_status'' (ENUM ''geofencestatus''),
        required ''last_location_id'' INTEGER,
        nullable ''last_distance_to_boundary_meters'' FLOAT,
        nullable ''last_accuracy'' FLOAT,
        required ''first_detected_at'' (TIMESTAMP False),
        required ''last_evaluated_at'' (TIMESTAMP False),
        required ''created_at'' (TIMESTAMP False),
        required ''updated_at'' (TIMESTAMP False)]
       [(None, Foreign_Key [''fence_id''] ''geofences'' [''id_geofence'']),
        (None, Foreign_Key [''asset_id''] ''assets'' [''id_asset'']),
        (None, Foreign_Key [''device_id''] ''devices'' [''id_device'']),
        (None, Foreign_Key [''last_location_id''] ''locations'' [''id_location'']),
        (None, Primary_Key [''id_state'']),
        (Some ''uq_geofence_asset_state_fence_asset'', Unique_Key [''fence_id'', ''asset_id''])],
     Create_Index ''idx_geofence_asset_states_asset_id'' (index_on ''geofence_asset_states'' [''asset_id'']),
     Create_Index ''idx_geofence_asset_states_device_id'' (index_on ''geofence_asset_states'' [''device_id'']),
     Create_Index ''idx_geofence_asset_states_status'' (index_on ''geofence_asset_states'' [''current_status''])]"

definition downgrade_90492c6dd84e :: "ddl list" where
  "downgrade_90492c6dd84e = [
     Drop_Index ''idx_geofence_asset_states_status'' False, Drop_Index ''idx_geofence_asset_states_device_id'' False,
     Drop_Index ''idx_geofence_asset_states_asset_id'' False, Drop_Table ''geofence_asset_states'',
     Drop_Type ''geofencestatus'' True]"

text \<open>\<open>3f4c8b9d2a11\<close>: device commands.\<close>

definition upgrade_3f4c8b9d2a11 :: "ddl list" where
  "upgrade_3f4c8b9d2a11 = [
     Create_Type ''devicecommandtype'' [''SET_REPORT_INTERVAL'', ''WARNING_SOUND'', ''VIBRATION'', ''STOP_CORRECTION'', ''EMERGENCY_DISABLE''] True,
     Create_Type ''devicecommandstatus'' [''PENDING'', ''SENT'', ''ACKED'', ''FAILED'', ''EXPIRED''] True,
     Create_Table ''device_commands''
       [required ''id_command'' INTEGER,
        required ''command_uuid'' varchar,
        required ''device_id'' INTEGER,
        nullable ''asset_id'' INTEGER,
        nullable ''geofence_event_id'' INTEGER,
        required ''command_type'' (ENUM ''devicecommandtype''),
        required ''status'' (ENUM ''devicecommandstatus''),
        required ''topic'' varchar,
        required ''payload'' JSONB,
        with_default ''1'' (required ''qos'' INTEGER),
        with_default ''false'' (required ''retain'' BOOLEAN),
        required ''created_at'' (TIMESTAMP False),
        nullable ''sent_at'' (TIMESTAMP False),
        nullable ''ack_at'' (TIMESTAMP False),
        nullable ''failed_at'' (TIMESTAMP False),
        nullable ''expires_at'' (TIMESTAMP False),
        nullable ''error_message'' varchar]
       [(None, Foreign_Key [''asset_id''] ''assets'' [''id_asset'']),
        (None, Foreign_Key [''device_id''] ''devices'' [''id_device'']),
        (None, Foreign_Key [''geofence_event_id''] ''geofence_events'' [''id_event'']),
        (None, Primary_Key [''id_command'']),
        (Some ''uq_device_commands_command_uuid'', Unique_Key [''command_uuid''])],
     Create_Index ''idx_device_commands_status_created_at'' (index_on ''device_commands'' [''status'', ''created_at'']),
     Create_Index ''idx_device_commands_device_id_created_at'' (index_on ''device_commands'' [''device_id'', ''created_at'']),
     Create_Index ''idx_device_commands_geofence_event_id'' (index_on ''device_commands'' [''geofence_event_id''])]"

definition downgrade_3f4c8b9d2a11 :: "ddl list" where
  "downgrade_3f4c8b9d2a11 = [
     Drop_Index ''idx_device_commands_geofence_event_id'' False,
     Drop_Index ''idx_device_commands_device_id_created_at'' False,
     Drop_Index ''idx_device_commands_status_created_at'' False, Drop_Table ''device_commands'',
     Drop_Type ''devicecommandstatus'' True, Drop_Type ''devicecommandtype'' True]"

text \<open>\<open>8c1f2a9b7d44\<close>: command topics.\<close>

definition upgrade_8c1f2a9b7d44 :: "ddl list" where
  "upgrade_8c1f2a9b7d44 = [
     Add_Column ''device_credentials'' (nullable ''commands_topic'' varchar),
     Add_Column ''device_credentials'' (nullable ''acks_topic'' varchar)]"

definition downgrade_8c1f2a9b7d44 :: "ddl list" where
  "downgrade_8c1f2a9b7d44 = [
     Drop_Column ''device_credentials'' ''acks_topic'', Drop_Column ''device_credentials'' ''commands_topic'']"

text \<open>\<open>5b4b3db4ef01\<close>: asset groups.\<close>

definition upgrade_5b4b3db4ef01 :: "ddl list" where
  "upgrade_5b4b3db4ef01 = [
     Create_Table ''asset_groups''
       [required ''id_asset_group'' INTEGER,
        required ''client_id'' INTEGER,
        required ''name'' varchar,
        nullable ''description'' varchar,
        required ''active'' BOOLEAN,
        required ''deleted'' (VARCHAR (Some 1)),
        required ''created_at'' (TIMESTAMP False),
        required ''updated_at'' (TIMESTAMP False)]
       [(None, Foreign_Key [''client_id''] ''clients'' [''id_client'']),
        (None, Primary_Key [''id_asset_group''])],
     Create_Index ''idx_asset_groups_client_id'' (index_on ''asset_groups'' [''client_id'']),
     Create_Index ''uq_asset_groups_client_name_active'' (unique_where live ''asset_groups'' [''client_id'', ''name'']),
     Create_Table ''asset_group_members''
       [required ''id_asset_group_member'' INTEGER,
        required ''asset_group_id'' INTEGER,
        required ''asset_id'' INTEGER,
        required ''deleted'' (VARCHAR (Some 1)),
        required ''created_at'' (TIMESTAMP False)]
       [(None, Foreign_Key [''asset_group_id''] ''asset_groups'' [''id_asset_group'']),
        (None, Foreign_Key [''asset_id''] ''assets'' [''id_asset'']),
        (None, Primary_Key [''id_asset_group_member''])],
     Create_Index ''idx_asset_group_members_asset_group_id'' (index_on ''asset_group_members'' [''asset_group_id'']),
     Create_Index ''idx_asset_group_members_asset_id'' (index_on ''asset_group_members'' [''asset_id'']),
     Create_Index ''uq_asset_group_members_group_asset_active'' (unique_where live ''asset_group_members'' [''asset_group_id'', ''asset_id'']),
     Create_Table ''geofence_asset_groups''
       [required ''id_geofence_asset_group'' INTEGER,
        required ''geofence_id'' INTEGER,
        required ''asset_group_id'' INTEGER,
        required ''active'' BOOLEAN,
        required ''deleted'' (VARCHAR (Some 1)),
        required ''assigned_at'' (TIMESTAMP False),
        nullable ''unassigned_at'' (TIMESTAMP False),
        required ''created_at'' (TIMESTAMP False),
        required ''updated_at'' (TIMESTAMP False)]
       [(None, Foreign_Key [''asset_group_id''] ''asset_groups'' [''id_asset_group'']),
        (None, Foreign_Key [''geofence_id''] ''geofences'' [''id_geofence'']),
        (None, Primary_Key [''id_geofence_asset_group''])],
     Create_Index ''idx_geofence_asset_groups_geofence_id'' (index_on ''geofence_asset_groups'' [''geofence_id'']),
     Create_Index ''idx_geofence_asset_groups_asset_group_id'' (index_on ''geofence_asset_groups'' [''asset_group_id'']),
     Create_Index ''uq_geofence_asset_groups_geofence_group_active'' (unique_where (live_and ''active = true'') ''geofence_asset_groups'' [''geofence_id'', ''asset_group_id'']),
     Create_Index ''uq_devices_asset_id_active'' (unique_where (live_and ''asset_id IS NOT NULL'') ''devices'' [''asset_id''])]"

definition downgrade_5b4b3db4ef01 :: "ddl list" where
  "downgrade_5b4b3db4ef01 = [
     Drop_Index ''uq_devices_asset_id_active'' False,
     Drop_Index ''uq_geofence_asset_groups_geofence_group_active'' False,
     Drop_Index ''idx_geofence_asset_groups_asset_group_id'' False,
     Drop_Index ''idx_geofence_asset_groups_geofence_id'' False, Drop_Table ''geofence_asset_groups'',
     Drop_Index ''uq_asset_group_members_group_asset_active'' False,
     Drop_Index ''idx_asset_group_members_asset_id'' False,
     Drop_Index ''idx_asset_group_members_asset_group_id'' False, Drop_Table ''asset_group_members'',
     Drop_Index ''uq_asset_groups_client_name_active'' False, Drop_Index ''idx_asset_groups_client_id'' False,
     Drop_Table ''asset_groups'']"

text \<open>\<open>d4c8e1f9b2a6\<close>: ChirpStack devices and events.\<close>

definition upgrade_d4c8e1f9b2a6 :: "ddl list" where
  "upgrade_d4c8e1f9b2a6 = [
     Add_Value ''devicecommunicationprotocol'' ''CHIRPSTACK'',
     Add_Column ''devices'' (nullable ''chirpstack_dev_eui'' varchar),
     Add_Column ''devices'' (nullable ''chirpstack_application_id'' varchar),
     Add_Column ''devices'' (nullable ''lorawan_class'' varchar),
     Add_Column ''devices'' (nullable ''chirpstack_device_profile_id'' varchar),
     Create_Index ''uq_devices_chirpstack_dev_eui_active'' (unique_where (live_and ''chirpstack_dev_eui IS NOT NULL'') ''devices'' [''chirpstack_dev_eui'']),
     Create_Table ''chirpstack_events''
       [required ''id'' INTEGER,
        nullable ''device_id'' INTEGER,
        required ''event_type'' varchar,
        required ''application_id'' varchar,
        required ''dev_eui'' varchar,
        nullable ''deduplication_id'' varchar,
        required ''topic'' varchar,
        required ''payload'' JSONB,
        with_default ''false'' (required ''processed'' BOOLEAN),
        nullable ''error_message'' varchar,
        with_default (''TIMEZONE('' @ quote @ ''utc'' @ quote @ '', NOW())'') (required ''created_at'' (TIMESTAMP True))]
       [(None, Foreign_Key [''device_id''] ''devices'' [''id_device'']),
        (None, Primary_Key [''id'']),
        (Some ''uq_chirpstack_events_deduplication_id'', Unique_Key [''deduplication_id''])],
     Create_Index ''idx_chirpstack_events_device_id_created_at'' (index_on ''chirpstack_events'' [''device_id'', ''created_at'']),
     Create_Index ''idx_chirpstack_events_dev_eui_created_at'' (index_on ''chirpstack_events'' [''dev_eui'', ''created_at'']),
     Create_Type ''devicecommunicationprotocol'' [''HTTP'', ''MQTT'', ''CHIRPSTACK''] True]"

definition downgrade_d4c8e1f9b2a6 :: "ddl list" where
  "downgrade_d4c8e1f9b2a6 = [
     Drop_Index ''idx_chirpstack_events_dev_eui_created_at'' False,
     Drop_Index ''idx_chirpstack_events_device_id_created_at'' False, Drop_Table ''chirpstack_events'',
     Drop_Index ''uq_devices_chirpstack_dev_eui_active'' False,
     Drop_Column ''devices'' ''chirpstack_device_profile_id'', Drop_Column ''devices'' ''lorawan_class'',
     Drop_Column ''devices'' ''chirpstack_application_id'', Drop_Column ''devices'' ''chirpstack_dev_eui'',
     Rename_Type ''devicecommunicationprotocol'' ''devicecommunicationprotocol_old'',
     Create_Type ''devicecommunicationprotocol'' [''HTTP'', ''MQTT''] False,
     Alter_Column ''devices'' ''communication_protocol'' (set_type (ENUM ''devicecommunicationprotocol'')),
     Alter_Column ''telemetry_messages'' ''protocol'' (set_type (ENUM ''devicecommunicationprotocol'')),
     Drop_Type ''devicecommunicationprotocol_old'' False]"

text \<open>\<open>b91c2e7d4a10\<close>: network acknowledgements.\<close>

definition upgrade_b91c2e7d4a10 :: "ddl list" where
  "upgrade_b91c2e7d4a10 = [
     Add_Column ''device_commands'' (nullable ''tx_acked_at'' (TIMESTAMP False)),
     Add_Column ''device_commands'' (nullable ''lorawan_ack_at'' (TIMESTAMP False))]"

definition downgrade_b91c2e7d4a10 :: "ddl list" where
  "downgrade_b91c2e7d4a10 = [
     Drop_Column ''device_commands'' ''lorawan_ack_at'', Drop_Column ''device_commands'' ''tx_acked_at'']"

text \<open>\<open>3d7a9c1b5e21\<close>: queue items.\<close>

definition upgrade_3d7a9c1b5e21 :: "ddl list" where
  "upgrade_3d7a9c1b5e21 = [
     Add_Column ''device_commands'' (nullable ''chirpstack_queue_item_id'' varchar),
     Create_Index ''idx_device_commands_chirpstack_queue_item_id'' (index_on ''device_commands'' [''chirpstack_queue_item_id''])]"

definition downgrade_3d7a9c1b5e21 :: "ddl list" where
  "downgrade_3d7a9c1b5e21 = [
     Drop_Index ''idx_device_commands_chirpstack_queue_item_id'' False,
     Drop_Column ''device_commands'' ''chirpstack_queue_item_id'']"

text \<open>\<open>7e4f6a1c9b2d\<close>: sequence numbers.\<close>

definition upgrade_7e4f6a1c9b2d :: "ddl list" where
  "upgrade_7e4f6a1c9b2d = [
     Add_Value ''devicecommandtype'' ''REQUEST_STATUS'',
     Add_Column ''device_commands'' (nullable ''command_seq'' INTEGER),
     Create_Index ''idx_device_commands_device_id_command_seq'' (index_on ''device_commands'' [''device_id'', ''command_seq'']),
     Add_Constraint ''device_commands'' (Some ''uq_device_commands_device_id_command_seq'', Unique_Key [''device_id'', ''command_seq'']),
     Add_Constraint ''device_commands'' (Some ''ck_device_commands_command_seq_uint16'', Check [''command_seq''] ''command_seq IS NULL OR (command_seq >= 1 AND command_seq <= 65535)'')]"

definition downgrade_7e4f6a1c9b2d :: "ddl list" where
  "downgrade_7e4f6a1c9b2d = [
     Drop_Constraint ''device_commands'' (Some ''ck_device_commands_command_seq_uint16'') False,
     Drop_Constraint ''device_commands'' (Some ''uq_device_commands_device_id_command_seq'') False,
     Drop_Index ''idx_device_commands_device_id_command_seq'' False, Drop_Column ''device_commands'' ''command_seq'']"

text \<open>\<open>5f2c1d8a7b44\<close>: credentials removed.\<close>

definition upgrade_5f2c1d8a7b44 :: "ddl list" where
  "upgrade_5f2c1d8a7b44 = [
     Drop_Table ''device_credentials'', Drop_Type ''credentialstatus'' True, Drop_Type ''mqttprovider'' True]"

definition downgrade_5f2c1d8a7b44 :: "ddl list" where
  "downgrade_5f2c1d8a7b44 = [
     Create_Type ''credentialstatus'' [''ACTIVE'', ''REVOKED''] True,
     Create_Type ''mqttprovider'' [''EMQX_CLOUD'', ''MOSQUITTO''] True,
     Table_Type ''mqttprovider'' [''EMQX_CLOUD'', ''MOSQUITTO''],
     Table_Type ''credentialstatus'' [''ACTIVE'', ''REVOKED''],
     Create_Table ''device_credentials''
       [required ''id'' INTEGER,
        required ''device_id'' INTEGER,
        required ''secret'' varchar,
        nullable ''mqtt_username'' varchar,
        nullable ''mqtt_password_hash'' varchar,
        nullable ''mqtt_password_encrypted'' varchar,
        nullable ''mqtt_provider'' (ENUM ''mqttprovider''),
        nullable ''location_topic'' varchar,
        nullable ''status_topic'' varchar,
        nullable ''heartbeat_topic'' varchar,
        nullable ''commands_topic'' varchar,
        nullable ''acks_topic'' varchar,
        with_default ''N'' (required ''deleted'' (VARCHAR (Some 1))),
        required ''status'' (ENUM ''credentialstatus''),
        required ''created_at'' (TIMESTAMP False),
        nullable ''revoked_at'' (TIMESTAMP False)]
       [(None, Foreign_Key [''device_id''] ''devices'' [''id_device'']),
        (None, Primary_Key [''id''])],
     Create_Index ''uq_device_credentials_mqtt_username_active'' (unique_where (live_and ''mqtt_username IS NOT NULL'') ''device_credentials'' [''mqtt_username'']),
     Create_Index ''uq_device_credentials_mqtt_password_hash_active'' (unique_where (live_and ''mqtt_password_hash IS NOT NULL'') ''device_credentials'' [''mqtt_password_hash'']),
     Create_Index ''uq_device_credentials_mqtt_password_encrypted_active'' (unique_where (live_and ''mqtt_password_encrypted IS NOT NULL'') ''device_credentials'' [''mqtt_password_encrypted''])]"

text \<open>\<open>2ab4c6d8e9f1\<close>: telemetry removed.\<close>

definition upgrade_2ab4c6d8e9f1 :: "ddl list" where
  "upgrade_2ab4c6d8e9f1 = [
     Drop_Table ''telemetry_messages'']"

definition downgrade_2ab4c6d8e9f1 :: "ddl list" where
  "downgrade_2ab4c6d8e9f1 = [
     Create_Table ''telemetry_messages''
       [required ''id_telemetry'' INTEGER,
        required ''device_id'' INTEGER,
        required ''received_at'' (TIMESTAMP False),
        required ''raw_payload'' TEXT,
        required ''protocol'' (ENUM ''devicecommunicationprotocol''),
        with_default ''false'' (required ''processed'' BOOLEAN),
        nullable ''error_message'' varchar,
        nullable ''source_ip'' varchar,
        with_default ''N'' (required ''deleted'' (VARCHAR (Some 1)))]
       [(None, Foreign_Key [''device_id''] ''devices'' [''id_device'']),
        (None, Primary_Key [''id_telemetry''])]]"

text \<open>\<open>8c6e1b2f4a90\<close>: application ids required.\<close>

definition upgrade_8c6e1b2f4a90 :: "ddl list" where
  "upgrade_8c6e1b2f4a90 = [
     Add_Constraint ''devices'' (Some ''ck_devices_chirpstack_requires_application_id'', Check [''communication_protocol'', ''chirpstack_application_id''] application_id_check)]"

definition downgrade_8c6e1b2f4a90 :: "ddl list" where
  "downgrade_8c6e1b2f4a90 = [
     Drop_Constraint ''devices'' (Some ''ck_devices_chirpstack_requires_application_id'') False]"

text \<open>\<open>e1c4a8b9d2f3\<close>: provisioning.\<close>

definition upgrade_e1c4a8b9d2f3 :: "ddl list" where
  "upgrade_e1c4a8b9d2f3 = [
     Add_Column ''devices'' (nullable ''join_eui'' varchar),
     Add_Column ''devices'' (with_default ''NOT_PROVISIONED'' (required ''provisioning_status'' varchar)),
     Add_Column ''devices'' (nullable ''provisioned_at'' (TIMESTAMP False)),
     Add_Column ''devices'' (nullable ''provisioning_error'' TEXT),
     Add_Column ''devices'' (nullable ''app_key_last4'' (VARCHAR (Some 4)))]"

definition downgrade_e1c4a8b9d2f3 :: "ddl list" where
  "downgrade_e1c4a8b9d2f3 = [
     Drop_Column ''devices'' ''app_key_last4'', Drop_Column ''devices'' ''provisioning_error'',
     Drop_Column ''devices'' ''provisioned_at'', Drop_Column ''devices'' ''provisioning_status'',
     Drop_Column ''devices'' ''join_eui'']"

text \<open>\<open>d4f8a2c6e9b1\<close>: an active device has an asset.\<close>

definition upgrade_d4f8a2c6e9b1 :: "ddl list" where
  "upgrade_d4f8a2c6e9b1 = [
     Add_Constraint ''devices'' (Some ''ck_devices_active_requires_asset'', Check [''active'', ''asset_id''] ''active = false OR asset_id IS NOT NULL'')]"

definition downgrade_d4f8a2c6e9b1 :: "ddl list" where
  "downgrade_d4f8a2c6e9b1 = [
     Drop_Constraint ''devices'' (Some ''ck_devices_active_requires_asset'') False]"

text \<open>\<open>b7c3d5e9f1a2\<close>: assignment history.\<close>

definition upgrade_b7c3d5e9f1a2 :: "ddl list" where
  "upgrade_b7c3d5e9f1a2 = [
     Create_Table ''device_asset_assignments''
       [required ''id_device_asset_assignment'' INTEGER,
        required ''device_id'' INTEGER,
        required ''asset_id'' INTEGER,
        required ''assigned_at'' (TIMESTAMP False),
        nullable ''unassigned_at'' (TIMESTAMP False),
        with_default (''timezone('' @ quote @ ''utc'' @ quote @ '', now())'') (required ''created_at'' (TIMESTAMP False))]
       [(Some ''ck_device_asset_assignments_valid_interval'', Check [''unassigned_at'', ''assigned_at''] ''unassigned_at IS NULL OR unassigned_at >= assigned_at''),
        (None, Foreign_Key [''asset_id''] ''assets'' [''id_asset'']),
        (None, Foreign_Key [''device_id''] ''devices'' [''id_device'']),
        (None, Primary_Key [''id_device_asset_assignment''])],
     Create_Index ''uq_device_asset_assignments_device_active'' (unique_where ''unassigned_at IS NULL'' ''device_asset_assignments'' [''device_id'']),
     Create_Index ''uq_device_asset_assignments_asset_active'' (unique_where ''unassigned_at IS NULL'' ''device_asset_assignments'' [''asset_id'']),
     Create_Index ''idx_device_asset_assignments_device_assigned_at'' (index_on ''device_asset_assignments'' [''device_id'', ''assigned_at'']),
     Create_Index ''idx_device_asset_assignments_asset_assigned_at'' (index_on ''device_asset_assignments'' [''asset_id'', ''assigned_at''])]"

definition downgrade_b7c3d5e9f1a2 :: "ddl list" where
  "downgrade_b7c3d5e9f1a2 = [
     Drop_Index ''idx_device_asset_assignments_asset_assigned_at'' False,
     Drop_Index ''idx_device_asset_assignments_device_assigned_at'' False,
     Drop_Index ''uq_device_asset_assignments_asset_active'' False,
     Drop_Index ''uq_device_asset_assignments_device_active'' False, Drop_Table ''device_asset_assignments'']"

subsection \<open>The chain of revisions\<close>

text \<open>The two migrations of services only write rows.\<close>

record migration =
  mg_revision :: string
  mg_down :: "string option"
  mg_upgrade :: "ddl list"
  mg_downgrade :: "ddl list"

definition migration_of :: "string \<Rightarrow> string option \<Rightarrow> ddl list \<Rightarrow> ddl list \<Rightarrow> migration" where
  "migration_of r d us ds = \<lparr>mg_revision = r, mg_down = d, mg_upgrade = us, mg_downgrade = ds\<rparr>"

definition migrations :: "migration list" where
  "migrations = [
     migration_of ''e164566bafe4'' None upgrade_e164566bafe4 downgrade_e164566bafe4,
     migration_of ''be6f45e50817'' (Some ''e164566bafe4'') upgrade_be6f45e50817 downgrade_be6f45e50817,
     migration_of ''4511f23b597d'' (Some ''be6f45e50817'') upgrade_4511f23b597d downgrade_4511f23b597d,
     migration_of ''f832219bc3af'' (Some ''4511f23b597d'') upgrade_f832219bc3af downgrade_f832219bc3af,
     migration_of ''e0f71f0db473'' (Some ''f832219bc3af'') upgrade_e0f71f0db473 downgrade_e0f71f0db473,
     migration_of ''9c282ac96d95'' (Some ''e0f71f0db473'') upgrade_9c282ac96d95 downgrade_9c282ac96d95,
     migration_of ''10718bead5ab'' (Some ''9c282ac96d95'') upgrade_10718bead5ab downgrade_10718bead5ab,
     migration_of ''6f0d9d3a4b21'' (Some ''10718bead5ab'') upgrade_6f0d9d3a4b21 downgrade_6f0d9d3a4b21,
     migration_of ''a4f2c8d91b63'' (Some ''6f0d9d3a4b21'') upgrade_a4f2c8d91b63 downgrade_a4f2c8d91b63,
     migration_of ''c9b1d44e8c72'' (Some ''a4f2c8d91b63'') upgrade_c9b1d44e8c72 downgrade_c9b1d44e8c72,
     migration_of ''b8c1e9d2a734'' (Some ''c9b1d44e8c72'') upgrade_b8c1e9d2a734 downgrade_b8c1e9d2a734,
     migration_of ''57d10e96a538'' (Some ''b8c1e9d2a734'') upgrade_57d10e96a538 downgrade_57d10e96a538,
     migration_of ''90492c6dd84e'' (Some ''57d10e96a538'') upgrade_90492c6dd84e downgrade_90492c6dd84e,
     migration_of ''3f4c8b9d2a11'' (Some ''90492c6dd84e'') upgrade_3f4c8b9d2a11 downgrade_3f4c8b9d2a11,
     migration_of ''8c1f2a9b7d44'' (Some ''3f4c8b9d2a11'') upgrade_8c1f2a9b7d44 downgrade_8c1f2a9b7d44,
     migration_of ''5b4b3db4ef01'' (Some ''8c1f2a9b7d44'') upgrade_5b4b3db4ef01 downgrade_5b4b3db4ef01,
     migration_of ''a7f43b6d9211'' (Some ''5b4b3db4ef01'') [] [],
     migration_of ''d4c8e1f9b2a6'' (Some ''a7f43b6d9211'') upgrade_d4c8e1f9b2a6 downgrade_d4c8e1f9b2a6,
     migration_of ''b91c2e7d4a10'' (Some ''d4c8e1f9b2a6'') upgrade_b91c2e7d4a10 downgrade_b91c2e7d4a10,
     migration_of ''3d7a9c1b5e21'' (Some ''b91c2e7d4a10'') upgrade_3d7a9c1b5e21 downgrade_3d7a9c1b5e21,
     migration_of ''7e4f6a1c9b2d'' (Some ''3d7a9c1b5e21'') upgrade_7e4f6a1c9b2d downgrade_7e4f6a1c9b2d,
     migration_of ''5f2c1d8a7b44'' (Some ''7e4f6a1c9b2d'') upgrade_5f2c1d8a7b44 downgrade_5f2c1d8a7b44,
     migration_of ''2ab4c6d8e9f1'' (Some ''5f2c1d8a7b44'') upgrade_2ab4c6d8e9f1 downgrade_2ab4c6d8e9f1,
     migration_of ''8c6e1b2f4a90'' (Some ''2ab4c6d8e9f1'') upgrade_8c6e1b2f4a90 downgrade_8c6e1b2f4a90,
     migration_of ''e1c4a8b9d2f3'' (Some ''8c6e1b2f4a90'') upgrade_e1c4a8b9d2f3 downgrade_e1c4a8b9d2f3,
     migration_of ''d4f8a2c6e9b1'' (Some ''e1c4a8b9d2f3'') upgrade_d4f8a2c6e9b1 downgrade_d4f8a2c6e9b1,
     migration_of ''b7c3d5e9f1a2'' (Some ''d4f8a2c6e9b1'') upgrade_b7c3d5e9f1a2 downgrade_b7c3d5e9f1a2,
     migration_of ''d2a4f6c8e0b1'' (Some ''b7c3d5e9f1a2'') [] []]"

end
