(* ===== verification/Schema_Safety.thy ===== *)
theory Schema_Safety
  imports Migration_Steps
begin

text \<open>
  Statements keep a schema well formed, and a creating statement is undone by the dropping one.
\<close>

subsection \<open>Mappings\<close>

named_theorems ddl_simps \<open>what a statement's success says\<close>

lemma put_new_Inr [ddl_simps]: "put_new n x m = Inr m' \<longleftrightarrow> Mapping.lookup m n = None \<and> m' = Mapping.update n x m"
  by (auto simp: put_new_def)

lemma take_out_Inr [ddl_simps]: "take_out n m = Inr m' \<longleftrightarrow> (\<exists>x. Mapping.lookup m n = Some x) \<and> m' = Mapping.delete n m"
  by (auto simp: take_out_def)

lemma find_in_Inr [ddl_simps]: "find_in n m = Inr x \<longleftrightarrow> Mapping.lookup m n = Some x"
  by (auto simp: find_in_def split: option.split)

lemma exists_in_iff [ddl_simps]: "exists_in P m \<longleftrightarrow> (\<exists>n x. Mapping.lookup m n = Some x \<and> P x)"
proof -
  have "Mapping.is_empty (Mapping.filter (\<lambda>_. P) m) \<longleftrightarrow> (\<forall>n. Mapping.lookup (Mapping.filter (\<lambda>_. P) m) n = None)"
    by (auto simp: Mapping.is_empty_def keys_dom_lookup)
  moreover have "Mapping.lookup (Mapping.filter (\<lambda>_. P) m) n = Some x \<longleftrightarrow> Mapping.lookup m n = Some x \<and> P x" for n x
    by (auto simp: lookup_filter split: option.splits if_splits)
  ultimately show ?thesis unfolding exists_in_def by (metis not_None_eq)
qed

lemma lookup_delete': "Mapping.lookup (Mapping.delete k m) n = (if n = k then None else Mapping.lookup m n)"
  by (cases "n = k") (auto simp: lookup_delete_neq)

lemmas lookup_simps = lookup_update' lookup_delete' lookup_filter lookup_map_values

lemma filter_all: "(\<And>n x. Mapping.lookup m n = Some x \<Longrightarrow> P n x) \<Longrightarrow> Mapping.filter P m = m"
  by (rule mapping_eqI) (auto simp: lookup_filter split: option.split)

lemma delete_put: "Mapping.lookup m n = None \<Longrightarrow> Mapping.delete n (Mapping.update n x m) = m"
  by (rule mapping_eqI) (auto simp: lookup_simps)

lemma foldE_snoc: "foldE f (xs @ ys) s = bindE (foldE f xs s) (foldE f ys)"
proof (induction xs arbitrary: s)
  case (Cons x xs)
  then show ?case by (cases "f x s") auto
qed simp

lemma foldE_invariant:
  assumes "foldE f xs s = Inr s'" "I s" "\<And>x s s'. x \<in> set xs \<Longrightarrow> I s \<Longrightarrow> f x s = Inr s' \<Longrightarrow> I s'"
  shows "I s'"
  using assms by (induction xs arbitrary: s) (auto simp: res_simps)


subsection \<open>Well-formed schemas\<close>

text \<open>
  Types, constraints and indexes only name what there is: a column of an enumeration type has its
  type, a constraint and an index have their columns, a foreign key its table and columns.
\<close>

definition columns_of :: "db_schema \<Rightarrow> string \<Rightarrow> string set option" where
  "columns_of s t = map_option (\<lambda>tb. Mapping.keys (tb_columns tb)) (Mapping.lookup (sc_tables s) t)"

definition refers_ok :: "(string \<Rightarrow> string set option) \<Rightarrow> string \<Rightarrow> string list \<Rightarrow> bool" where
  "refers_ok C t ks \<longleftrightarrow> (\<exists>cs. C t = Some cs \<and> set ks \<subseteq> cs)"

definition constraint_ok :: "(string \<Rightarrow> string set option) \<Rightarrow> string set \<Rightarrow> table_constraint \<Rightarrow> bool" where
  "constraint_ok C own k \<longleftrightarrow> set (constraint_columns k) \<subseteq> own \<and> (\<forall>t ks. target k = Some (t, ks) \<longrightarrow> refers_ok C t ks)"

definition types_ok :: "string set \<Rightarrow> sql_table \<Rightarrow> bool" where
  "types_ok T tb \<longleftrightarrow> (\<forall>n c e. Mapping.lookup (tb_columns tb) n = Some c \<and> col_type c = ENUM e \<longrightarrow> e \<in> T)"

definition table_ok :: "string set \<Rightarrow> (string \<Rightarrow> string set option) \<Rightarrow> sql_table \<Rightarrow> bool" where
  "table_ok T C tb \<longleftrightarrow> types_ok T tb \<and>
     (\<forall>n k. Mapping.lookup (tb_constraints tb) n = Some k \<longrightarrow> constraint_ok C (Mapping.keys (tb_columns tb)) k)"

definition schema_ok :: "db_schema \<Rightarrow> bool" where
  "schema_ok s \<longleftrightarrow>
     (\<forall>t tb. Mapping.lookup (sc_tables s) t = Some tb \<longrightarrow> table_ok (Mapping.keys (sc_types s)) (columns_of s) tb) \<and>
     (\<forall>n ix. Mapping.lookup (sc_indexes s) n = Some ix \<longrightarrow> refers_ok (columns_of s) (ix_table ix) (ix_columns ix))"

lemma schema_okD:
  assumes "schema_ok s"
  shows "Mapping.lookup (sc_tables s) t = Some tb \<Longrightarrow> table_ok (Mapping.keys (sc_types s)) (columns_of s) tb"
    and "Mapping.lookup (sc_indexes s) n = Some ix \<Longrightarrow> refers_ok (columns_of s) (ix_table ix) (ix_columns ix)"
    and "Mapping.lookup (sc_tables s) t = Some tb \<Longrightarrow> Mapping.lookup (tb_columns tb) c = Some col \<Longrightarrow> col_type col = ENUM e \<Longrightarrow>
      Mapping.lookup (sc_types s) e \<noteq> None"
proof -
  show table: "Mapping.lookup (sc_tables s) t = Some tb \<Longrightarrow> table_ok (Mapping.keys (sc_types s)) (columns_of s) tb"
    using assms by (simp add: schema_ok_def)
  then show "Mapping.lookup (sc_tables s) t = Some tb \<Longrightarrow> Mapping.lookup (tb_columns tb) c = Some col \<Longrightarrow> col_type col = ENUM e \<Longrightarrow>
      Mapping.lookup (sc_types s) e \<noteq> None"
    unfolding table_ok_def types_ok_def keys_dom_lookup by blast
qed (use assms in \<open>simp add: schema_ok_def\<close>)

lemma empty_ok: "schema_ok empty_schema"
  by (simp add: schema_ok_def empty_schema_def)

text \<open>More columns keep what is said of them.\<close>

definition wider :: "(string \<Rightarrow> string set option) \<Rightarrow> (string \<Rightarrow> string set option) \<Rightarrow> bool" where
  "wider C C' \<longleftrightarrow> (\<forall>t cs. C t = Some cs \<longrightarrow> (\<exists>cs'. C' t = Some cs' \<and> cs \<subseteq> cs'))"

lemma wider_refl [simp]: "wider C C"
  by (simp add: wider_def)

lemma wider_upd: "wider (C(t \<mapsto> cs)) (C(t \<mapsto> cs'))" if "cs \<subseteq> cs'"
  using that by (simp add: wider_def)

lemma wider_new: "C t = None \<Longrightarrow> wider C (C(t \<mapsto> cs))"
  by (auto simp: wider_def)

lemma refers_mono: "refers_ok C t ks \<Longrightarrow> wider C C' \<Longrightarrow> refers_ok C' t ks"
  unfolding refers_ok_def wider_def by blast

lemma constraint_mono: "constraint_ok C own k \<Longrightarrow> wider C C' \<Longrightarrow> own \<subseteq> own' \<Longrightarrow> constraint_ok C' own' k"
  unfolding constraint_ok_def using refers_mono by blast

lemma table_mono: "table_ok T C tb \<Longrightarrow> wider C C' \<Longrightarrow> T \<subseteq> T' \<Longrightarrow> table_ok T' C' tb"
  unfolding table_ok_def types_ok_def using constraint_mono by blast

lemma table_keep:
  assumes "table_ok T C tb"
    and "\<And>n k t ks. Mapping.lookup (tb_constraints tb) n = Some k \<Longrightarrow> target k = Some (t, ks) \<Longrightarrow> refers_ok C t ks \<Longrightarrow> refers_ok C' t ks"
  shows "table_ok T C' tb"
  using assms unfolding table_ok_def constraint_ok_def by blast

text \<open>The schema with one table put in.\<close>

definition with_table :: "string \<Rightarrow> sql_table \<Rightarrow> db_schema \<Rightarrow> db_schema" where
  "with_table t tb s = s\<lparr>sc_tables := Mapping.update t tb (sc_tables s)\<rparr>"

lemma with_table_simps [simp]:
  "sc_types (with_table t tb s) = sc_types s" "sc_indexes (with_table t tb s) = sc_indexes s"
  "Mapping.lookup (sc_tables (with_table t tb s)) u = (if u = t then Some tb else Mapping.lookup (sc_tables s) u)"
  "columns_of (with_table t tb s) = (columns_of s)(t \<mapsto> Mapping.keys (tb_columns tb))"
  by (auto simp: with_table_def lookup_update' columns_of_def)

lemma with_same: "Mapping.lookup (sc_tables s) t = Some tb \<Longrightarrow> with_table t tb s = s"
  by (cases s) (auto simp: with_table_def lookup_update' intro!: mapping_eqI)

lemma change_table_Inr [ddl_simps]:
  "change_table t f s = Inr s' \<longleftrightarrow> (\<exists>tb tb'. Mapping.lookup (sc_tables s) t = Some tb \<and> f tb = Inr tb' \<and> s' = with_table t tb' s)"
  by (auto simp: change_table_def with_table_def res_simps ddl_simps)

lemma type_known_Inr [ddl_simps]: "type_known s ty = Inr u \<longleftrightarrow> (\<forall>e. ty = ENUM e \<longrightarrow> e \<in> Mapping.keys (sc_types s))"
  by (auto simp: type_known_def guardE_def keys_dom_lookup split: sql_type.split)

lemma has_columns_Inr [ddl_simps]: "has_columns tb cs = Inr u \<longleftrightarrow> set cs \<subseteq> Mapping.keys (tb_columns tb)"
  by (auto simp: has_columns_def res_simps ddl_simps keys_dom_lookup)

lemma relation_free_Inr [ddl_simps]:
  "relation_free n s = Inr u \<longleftrightarrow> Mapping.lookup (sc_tables s) n = None \<and> Mapping.lookup (sc_indexes s) n = None"
  by (simp add: relation_free_def res_simps)

lemma grow_table:
  assumes "schema_ok (with_table t tb s)" "Mapping.keys (tb_columns tb) \<subseteq> Mapping.keys (tb_columns tb')"
    and "table_ok (Mapping.keys (sc_types s)) ((columns_of s)(t \<mapsto> Mapping.keys (tb_columns tb'))) tb'"
  shows "schema_ok (with_table t tb' s)"
  using assms(1,3) table_mono [OF _ wider_upd [OF assms(2)]] refers_mono [OF _ wider_upd [OF assms(2)]]
  unfolding schema_ok_def by (auto split: if_splits)

lemma with_table_ok:
  "schema_ok (with_table t tb s) \<Longrightarrow> table_ok (Mapping.keys (sc_types s)) ((columns_of s)(t \<mapsto> Mapping.keys (tb_columns tb))) tb"
  unfolding schema_ok_def by (auto split: if_splits)

lemma add_column_ok:
  assumes "schema_ok (with_table t tb s)" "add_column s nc tb = Inr tb'"
  shows "schema_ok (with_table t tb' s)"
proof (rule grow_table [OF assms(1)])
  have tb': "tb' = tb\<lparr>tb_columns := Mapping.update (fst nc) (snd nc) (tb_columns tb)\<rparr>"
    and ty: "\<And>e. col_type (snd nc) = ENUM e \<Longrightarrow> e \<in> Mapping.keys (sc_types s)"
    using assms(2) by (auto simp: add_column_def res_simps ddl_simps)
  then show grown: "Mapping.keys (tb_columns tb) \<subseteq> Mapping.keys (tb_columns tb')" by auto
  from table_mono [OF with_table_ok [OF assms(1)] wider_upd [OF grown] order_refl]
  show "table_ok (Mapping.keys (sc_types s)) ((columns_of s)(t \<mapsto> Mapping.keys (tb_columns tb'))) tb'"
    using constraint_mono [OF _ wider_refl grown] ty unfolding table_ok_def types_ok_def
    by (auto simp: tb' lookup_update' split: if_splits)
qed

lemma add_constraint_ok:
  assumes "schema_ok (with_table t tb s)" "add_constraint s t nk tb = Inr tb'"
  shows "schema_ok (with_table t tb' s)"
proof (rule grow_table [OF assms(1)])
  obtain n where tb': "tb' = tb\<lparr>tb_constraints := Mapping.update n (snd nk) (tb_constraints tb)\<rparr>"
    using assms(2) by (auto simp: add_constraint_def res_simps ddl_simps)
  have "constraint_ok ((columns_of s)(t \<mapsto> Mapping.keys (tb_columns tb))) (Mapping.keys (tb_columns tb)) (snd nk)"
    using assms(2) by (auto simp: add_constraint_def res_simps ddl_simps constraint_ok_def refers_ok_def columns_of_def split: if_splits)
  with with_table_ok [OF assms(1)]
  show "table_ok (Mapping.keys (sc_types s)) ((columns_of s)(t \<mapsto> Mapping.keys (tb_columns tb'))) tb'"
    unfolding table_ok_def types_ok_def by (auto simp: tb' lookup_update' split: if_splits)
qed (use assms(2) in \<open>auto simp: add_constraint_def res_simps ddl_simps\<close>)

lemma fewer_constraints_ok:
  assumes "schema_ok (with_table t tb s)"
  shows "schema_ok (with_table t (tb\<lparr>tb_constraints := Mapping.delete n (tb_constraints tb)\<rparr>) s)"
  by (rule grow_table [OF assms]) (use with_table_ok [OF assms] in \<open>auto simp: table_ok_def types_ok_def lookup_delete'\<close>)

lemma new_table_ok:
  assumes "schema_ok s" "Mapping.lookup (sc_tables s) t = None"
  shows "schema_ok (with_table t \<lparr>tb_columns = Mapping.empty, tb_constraints = Mapping.empty\<rparr> s)"
proof -
  have "wider (columns_of s) ((columns_of s)(t \<mapsto> {}))" using assms(2) by (intro wider_new) (simp add: columns_of_def)
  note mono = table_mono [OF _ this order_refl] refers_mono [OF _ this]
  have "table_ok T C \<lparr>tb_columns = Mapping.empty, tb_constraints = Mapping.empty\<rparr>" for T C by (simp add: table_ok_def types_ok_def)
  then show ?thesis using assms(1) mono unfolding schema_ok_def by auto
qed

lemma create_table_ok:
  assumes "schema_ok s" "change_schema (Create_Table t cols keys) s = Inr s'"
  shows "schema_ok s'"
proof -
  from assms(2) obtain tb tb' where run: "foldE (add_column s) cols \<lparr>tb_columns = Mapping.empty, tb_constraints = Mapping.empty\<rparr> = Inr tb"
    "foldE (add_constraint s t) keys tb = Inr tb'" and s': "s' = with_table t tb' s" and new: "Mapping.lookup (sc_tables s) t = None"
    by (auto simp: res_simps ddl_simps with_table_def)
  have "schema_ok (with_table t tb s)"
    by (rule foldE_invariant [OF run(1), where I = "\<lambda>tb. schema_ok (with_table t tb s)"]) (use new_table_ok [OF assms(1) new] add_column_ok in auto)
  then show ?thesis unfolding s'
    by (intro foldE_invariant [OF run(2), where I = "\<lambda>tb. schema_ok (with_table t tb s)"]) (use add_constraint_ok in auto)
qed

lemma unused:
  "\<not> exists_in (\<lambda>tb. exists_in P (tb_constraints tb)) m \<Longrightarrow> Mapping.lookup m u = Some tb \<Longrightarrow>
     Mapping.lookup (tb_constraints tb) n = Some k \<Longrightarrow> \<not> P k"
  by (auto simp: ddl_simps)

lemma drop_table_ok:
  assumes "schema_ok s" "change_schema (Drop_Table t) s = Inr s'"
  shows "schema_ok s'"
proof -
  have s': "s' = s\<lparr>sc_tables := Mapping.delete t (sc_tables s), sc_indexes := Mapping.filter (\<lambda>_ ix. ix_table ix \<noteq> t) (sc_indexes s)\<rparr>"
    and free: "\<not> exists_in (\<lambda>tb. exists_in (refers_to t) (tb_constraints tb)) (Mapping.delete t (sc_tables s))"
    using assms(2) by (simp_all add: res_simps ddl_simps del: exists_in_iff)
  have cols: "columns_of s' = (columns_of s)(t := None)" by (auto simp: s' columns_of_def lookup_delete')
  have refers: "refers_ok (columns_of s') u ks" if "refers_ok (columns_of s) u ks" "u \<noteq> t" for u ks
    using that by (simp add: refers_ok_def cols)
  have "table_ok (Mapping.keys (sc_types s')) (columns_of s') tb" if tb: "u \<noteq> t" "Mapping.lookup (sc_tables s) u = Some tb" for u tb
  proof (rule table_keep)
    show "table_ok (Mapping.keys (sc_types s')) (columns_of s) tb" using assms(1) tb by (simp add: schema_ok_def s')
    fix n k v ks assume k: "Mapping.lookup (tb_constraints tb) n = Some k" "target k = Some (v, ks)" "refers_ok (columns_of s) v ks"
    from unused [OF free _ k(1), of u] tb have "\<not> refers_to t k" by (simp add: lookup_delete')
    with k refers show "refers_ok (columns_of s') v ks" by (simp add: refers_to_def)
  qed
  moreover have "refers_ok (columns_of s') (ix_table ix) (ix_columns ix)" if "Mapping.lookup (sc_indexes s') n = Some ix" for n ix
    using that assms(1) refers unfolding schema_ok_def by (auto simp: s' lookup_simps split: option.splits if_splits)
  ultimately show ?thesis unfolding schema_ok_def by (simp add: s' lookup_delete')
qed

lemma fewer_columns:
  assumes "table_ok T C tb"
  shows "table_ok T C (tb\<lparr>tb_columns := Mapping.delete c (tb_columns tb),
    tb_constraints := Mapping.filter (\<lambda>_ k. c \<notin> set (constraint_columns k)) (tb_constraints tb)\<rparr>)"
proof -
  have "types_ok T (tb\<lparr>tb_columns := Mapping.delete c (tb_columns tb), tb_constraints := ks\<rparr>)" for ks
    using assms by (auto simp: table_ok_def types_ok_def lookup_delete' split: if_splits)
  moreover have "constraint_ok C (Mapping.keys (tb_columns tb) - {c}) k"
    if "Mapping.lookup (Mapping.filter (\<lambda>_ k. c \<notin> set (constraint_columns k)) (tb_constraints tb)) n = Some k" for n k
    using assms that by (auto simp: table_ok_def constraint_ok_def lookup_filter split: option.splits if_splits)
  ultimately show ?thesis by (simp add: table_ok_def)
qed

lemma drop_column_ok:
  assumes "schema_ok s" "change_schema (Drop_Column t c) s = Inr s'"
  shows "schema_ok s'"
proof -
  obtain tb where tb: "Mapping.lookup (sc_tables s) t = Some tb"
    and s': "s' = (with_table t (tb\<lparr>tb_columns := Mapping.delete c (tb_columns tb),
        tb_constraints := Mapping.filter (\<lambda>_ k. c \<notin> set (constraint_columns k)) (tb_constraints tb)\<rparr>) s)
      \<lparr>sc_indexes := Mapping.filter (\<lambda>_ ix. \<not> (ix_table ix = t \<and> c \<in> set (ix_columns ix))) (sc_indexes s)\<rparr>"
    and free: "\<not> exists_in (\<lambda>tb. exists_in (refers_to_column t c) (tb_constraints tb)) (sc_tables s)"
    using assms(2) by (auto simp: drop_column_def res_simps ddl_simps simp del: exists_in_iff)
  have cols: "columns_of s' = (columns_of s)(t \<mapsto> Mapping.keys (tb_columns tb) - {c})"
    using columns_of_def s' by (auto simp: columns_of_def)
  have C: "columns_of s t = Some (Mapping.keys (tb_columns tb))" by (simp add: columns_of_def tb)
  have refers: "refers_ok (columns_of s') u ks" if "refers_ok (columns_of s) u ks" "\<not> (u = t \<and> c \<in> set ks)" for u ks
    using that C by (auto simp: refers_ok_def cols)
  have target: "refers_ok (columns_of s') v ks"
    if "Mapping.lookup (sc_tables s) u = Some x" "Mapping.lookup (tb_constraints x) n = Some k" "target k = Some (v, ks)" "refers_ok (columns_of s) v ks"
    for u x n k v ks
    using unused [OF free that(1,2)] that(3) refers [OF that(4)] by (simp add: refers_to_column_def)
  have kept: "table_ok (Mapping.keys (sc_types s)) (columns_of s') x" if "Mapping.lookup (sc_tables s) u = Some x" for u x
  proof (rule table_keep)
    show "table_ok (Mapping.keys (sc_types s)) (columns_of s) x" using assms(1) that by (simp add: schema_ok_def)
  qed (rule target [OF that])
  have "table_ok (Mapping.keys (sc_types s')) (columns_of s') x" if "Mapping.lookup (sc_tables s') u = Some x" for u x
  proof (cases "u = t")
    case True
    have "sc_types s' = sc_types s" by (simp add: s')
    moreover have "x = tb\<lparr>tb_columns := Mapping.delete c (tb_columns tb),
        tb_constraints := Mapping.filter (\<lambda>_ k. c \<notin> set (constraint_columns k)) (tb_constraints tb)\<rparr>"
      using that True by (simp add: s')
    ultimately show ?thesis using fewer_columns [OF kept [OF tb], of c] by simp
  next
    case False
    with that kept [of u x] show ?thesis by (simp add: s')
  qed
  moreover have "refers_ok (columns_of s') (ix_table ix) (ix_columns ix)" if "Mapping.lookup (sc_indexes s') n = Some ix" for n ix
    using that assms(1) refers unfolding schema_ok_def by (auto simp: s' lookup_simps split: option.splits if_splits)
  ultimately show ?thesis unfolding schema_ok_def by blast
qed

subsection \<open>Renaming\<close>

lemma rename_in_parts:
  "constraint_columns (rename_in t c c' u k) = (if u = t then renamed c c' (constraint_columns k) else constraint_columns k)"
  "target (rename_in t c c' u k) = map_option (\<lambda>(t', ks). (t', if t' = t then renamed c c' ks else ks)) (target k)"
  by (cases k; simp)+

lemma renamed_subset: "set cs \<subseteq> K \<Longrightarrow> set (renamed c c' cs) \<subseteq> insert c' (K - {c})"
  by (auto simp: renamed_def)

lemma rename_refers:
  assumes "C t = Some K"
  shows "refers_ok C t ks \<Longrightarrow> refers_ok (C(t \<mapsto> insert c' (K - {c}))) t (renamed c c' ks)"
    and "refers_ok C v ks \<Longrightarrow> v \<noteq> t \<Longrightarrow> refers_ok (C(t \<mapsto> insert c' (K - {c}))) v ks"
  using assms renamed_subset [of ks K c c'] by (auto simp: refers_ok_def)

lemma rename_constraint:
  assumes "constraint_ok C own k" "C t = Some K" "u = t \<Longrightarrow> own = K"
  shows "constraint_ok (C(t \<mapsto> insert c' (K - {c}))) (if u = t then insert c' (K - {c}) else own) (rename_in t c c' u k)"
proof -
  have "set (constraint_columns (rename_in t c c' u k)) \<subseteq> (if u = t then insert c' (K - {c}) else own)"
    using assms renamed_subset [of "constraint_columns k" K c c'] by (auto simp: constraint_ok_def rename_in_parts)
  moreover have "refers_ok (C(t \<mapsto> insert c' (K - {c}))) v ks" if new: "target (rename_in t c c' u k) = Some (v, ks)" for v ks
  proof -
    obtain ks0 where k: "target k = Some (v, ks0)" "ks = (if v = t then renamed c c' ks0 else ks0)"
      using new by (cases "target k") (auto simp: rename_in_parts)
    then have "refers_ok C v ks0" using assms(1) by (simp add: constraint_ok_def)
    then show ?thesis using k(2) rename_refers [where C = C and t = t and K = K and c = c and c' = c', OF assms(2)] by (cases "v = t") simp_all
  qed
  ultimately show ?thesis by (simp add: constraint_ok_def)
qed

lemma rename_table:
  assumes "table_ok T C tb" "C u = Some (Mapping.keys (tb_columns tb))" "C t = Some K" "types_ok T tb'"
    and "tb_constraints tb' = tb_constraints tb"
    and "Mapping.keys (tb_columns tb') = (if u = t then insert c' (K - {c}) else Mapping.keys (tb_columns tb))"
  shows "table_ok T (C(t \<mapsto> insert c' (K - {c}))) (rename_in_table t c c' u tb')"
proof -
  have "constraint_ok (C(t \<mapsto> insert c' (K - {c}))) (Mapping.keys (tb_columns tb')) (rename_in t c c' u k)"
    if "Mapping.lookup (tb_constraints tb) n = Some k" for n k
    using rename_constraint [where C = C and t = t and K = K and k = k and u = u and c = c and c' = c'] assms(1,2,3,6) that by (auto simp: table_ok_def)
  then show ?thesis
    using assms(4,5) by (auto simp: table_ok_def types_ok_def rename_in_table_def lookup_map_values)
qed

lemma alter_column_ok:
  assumes "schema_ok s" "change_schema (Alter_Column t c ch) s = Inr s'"
  shows "schema_ok s'"
proof -
  obtain tb tb' where tb: "Mapping.lookup (sc_tables s) t = Some tb" and alter: "alter_column s c ch tb = Inr tb'"
    and s': "s' = (case new_name ch of None \<Rightarrow> with_table t tb' s
       | Some c' \<Rightarrow> (with_table t tb' s)\<lparr>sc_tables := Mapping.map_values (rename_in_table t c c') (sc_tables (with_table t tb' s)),
           sc_indexes := Mapping.map_values (\<lambda>_. rename_in_index t c c') (sc_indexes s)\<rparr>)"
    using assms(2) by (auto simp: res_simps ddl_simps)
  have parts: "tb_constraints tb' = tb_constraints tb" "c \<in> Mapping.keys (tb_columns tb)"
    using alter by (auto simp: alter_column_def res_simps ddl_simps keys_dom_lookup split: option.splits)
  have ok: "table_ok (Mapping.keys (sc_types s)) (columns_of s) x" if "Mapping.lookup (sc_tables s) u = Some x" for u x
    using assms(1) that by (simp add: schema_ok_def)
  have types: "types_ok (Mapping.keys (sc_types s)) tb'"
  proof -
    have old: "types_ok (Mapping.keys (sc_types s)) tb" using ok [OF tb] by (simp add: table_ok_def)
    obtain col where "\<forall>e. col_type (changed_column ch col) = ENUM e \<longrightarrow> e \<in> Mapping.keys (sc_types s)"
      and "tb_columns tb' = (case new_name ch of None \<Rightarrow> Mapping.update c (changed_column ch col) (tb_columns tb)
             | Some c' \<Rightarrow> Mapping.update c' (changed_column ch col) (Mapping.delete c (tb_columns tb)))"
      using alter by (cases "new_name ch") (auto simp: alter_column_def res_simps ddl_simps)
    then show ?thesis using old by (auto simp: types_ok_def lookup_simps split: option.splits if_splits)
  qed
  show ?thesis
  proof (cases "new_name ch")
    case None
    then have keys: "Mapping.keys (tb_columns tb') = Mapping.keys (tb_columns tb)"
      using alter parts(2) by (auto simp: alter_column_def res_simps)
    have "schema_ok (with_table t tb s)" using assms(1) by (simp add: with_same tb)
    then show ?thesis unfolding s' None option.case
    proof (rule grow_table)
      show "table_ok (Mapping.keys (sc_types s)) ((columns_of s)(t \<mapsto> Mapping.keys (tb_columns tb'))) tb'"
        using ok [OF tb] types parts(1) by (simp add: table_ok_def keys fun_upd_idem columns_of_def tb)
    qed (simp add: keys)
  next
    case (Some c')
    let ?K = "Mapping.keys (tb_columns tb)"
    have keys: "Mapping.keys (tb_columns tb') = insert c' (?K - {c})"
      using alter Some by (auto simp: alter_column_def res_simps ddl_simps)
    have C: "columns_of s t = Some ?K" by (simp add: columns_of_def tb)
    have cols: "columns_of s' = (columns_of s)(t \<mapsto> insert c' (?K - {c}))"
      by (auto simp: s' Some columns_of_def lookup_map_values rename_in_table_def option.map_comp o_def keys)
    have "table_ok (Mapping.keys (sc_types s')) (columns_of s') x" if x: "Mapping.lookup (sc_tables s') u = Some x" for u x
    proof -
      obtain y where y: "Mapping.lookup (sc_tables s) u = Some y" by (cases "u = t") (use x in \<open>auto simp: s' Some tb lookup_map_values\<close>)
      have "x = rename_in_table t c c' u (if u = t then tb' else y)"
        using x y by (auto simp: s' Some lookup_map_values)
      moreover have "table_ok (Mapping.keys (sc_types s)) ((columns_of s)(t \<mapsto> insert c' (?K - {c}))) (rename_in_table t c c' u (if u = t then tb' else y))"
        by (rule rename_table [OF ok [OF y] _ C]) (use y tb ok [OF y] types parts keys in \<open>auto simp: columns_of_def table_ok_def\<close>)
      ultimately show ?thesis unfolding cols by (simp only:) (simp add: s' Some)
    qed
    moreover have "refers_ok (columns_of s') (ix_table ix) (ix_columns ix)" if ix: "Mapping.lookup (sc_indexes s') n = Some ix" for n ix
    proof -
      obtain ix0 where "Mapping.lookup (sc_indexes s) n = Some ix0" "ix = rename_in_index t c c' ix0"
        using ix by (auto simp: s' Some lookup_map_values)
      then show ?thesis unfolding cols
        using assms(1) rename_refers [where C = "columns_of s" and t = t and K = ?K and c = c and c' = c', OF C]
        by (auto simp: schema_ok_def rename_in_index_def)
    qed
    ultimately show ?thesis unfolding schema_ok_def by blast
  qed
qed


subsection \<open>Types\<close>

lemma columns_of_same [simp]: "columns_of (s\<lparr>sc_types := ts\<rparr>) = columns_of s" "columns_of (s\<lparr>sc_indexes := ixs\<rparr>) = columns_of s"
  by (simp_all add: columns_of_def fun_eq_iff)

lemma more_types_ok: "schema_ok s \<Longrightarrow> schema_ok (s\<lparr>sc_types := Mapping.update n vs (sc_types s)\<rparr>)"
  unfolding schema_ok_def by (auto intro: table_mono [OF _ wider_refl])

lemma create_type_ok: "schema_ok s \<Longrightarrow> create_type n vs s = Inr s' \<Longrightarrow> schema_ok s'"
  using more_types_ok by (auto simp: create_type_def res_simps ddl_simps)

lemma drop_type_ok:
  assumes "schema_ok s" "change_schema (Drop_Type n b) s = Inr s'"
  shows "schema_ok s'"
proof (cases "s' = s")
  case False
  then have s': "s' = s\<lparr>sc_types := Mapping.delete n (sc_types s)\<rparr>" and free: "\<not> exists_in (uses_type n) (sc_tables s)"
    using assms(2) by (auto simp: res_simps ddl_simps simp del: exists_in_iff split: if_splits)
  have "columns_of s' = columns_of s" by (simp add: s')
  moreover have "table_ok (Mapping.keys (sc_types s')) C tb" if "Mapping.lookup (sc_tables s) t = Some tb" "table_ok (Mapping.keys (sc_types s)) C tb" for t tb C
    using free that by (auto simp: table_ok_def types_ok_def s' ddl_simps uses_type_def)
  ultimately show ?thesis using assms(1) unfolding schema_ok_def by (simp add: s')
qed (use assms(1) in simp)

lemma rename_type_ok:
  assumes "schema_ok s" "change_schema (Rename_Type n n') s = Inr s'"
  shows "schema_ok s'"
proof -
  let ?tb = "\<lambda>tb. tb\<lparr>tb_columns := Mapping.map_values (\<lambda>_. retyped n n') (tb_columns tb)\<rparr>"
  obtain vs where s': "s' = s\<lparr>sc_types := Mapping.update n' vs (Mapping.delete n (sc_types s)), sc_tables := Mapping.map_values (\<lambda>_. ?tb) (sc_tables s)\<rparr>"
    using assms(2) by (auto simp: res_simps ddl_simps)
  have type: "col_type (retyped n n' c) = (if col_type c = ENUM n then ENUM n' else col_type c)" for c by (simp add: retyped_def)
  have cols: "columns_of s' = columns_of s"
    by (auto simp: s' columns_of_def lookup_map_values option.map_comp o_def)
  have "table_ok (Mapping.keys (sc_types s')) C (?tb tb)" if "table_ok (Mapping.keys (sc_types s)) C tb" for tb C
    using that by (auto simp: table_ok_def types_ok_def s' lookup_map_values type split: if_splits)
  then show ?thesis using assms(1) unfolding schema_ok_def cols by (auto simp: s' lookup_map_values)
qed

lemma add_value_ok: "schema_ok s \<Longrightarrow> change_schema (Add_Value n v) s = Inr s' \<Longrightarrow> schema_ok s'"
  using more_types_ok by (auto simp: res_simps ddl_simps)

subsection \<open>Every statement keeps a schema well formed\<close>

lemma add_statements_ok:
  assumes "schema_ok s"
  shows "change_schema (Add_Column t nc) s = Inr s' \<Longrightarrow> schema_ok s'" "change_schema (Add_Constraint t nk) s = Inr s' \<Longrightarrow> schema_ok s'"
    "change_schema (Drop_Constraint t k b) s = Inr s' \<Longrightarrow> schema_ok s'"
proof -
  have same: "schema_ok (with_table t tb s)" if "Mapping.lookup (sc_tables s) t = Some tb" for tb
    using that assms by (simp add: with_same)
  show "change_schema (Add_Column t nc) s = Inr s' \<Longrightarrow> schema_ok s'"
    using add_column_ok [OF same, where nc = nc] by (auto simp: ddl_simps)
  show "change_schema (Add_Constraint t nk) s = Inr s' \<Longrightarrow> schema_ok s'"
    using add_constraint_ok [OF same, where nk = nk] by (auto simp: ddl_simps)
  show "change_schema (Drop_Constraint t k b) s = Inr s' \<Longrightarrow> schema_ok s'"
    using fewer_constraints_ok [OF same] same by (auto simp: ddl_simps res_simps split: option.splits if_splits)
qed

lemma index_statements_ok:
  assumes "schema_ok s"
  shows "change_schema (Create_Index n ix) s = Inr s' \<Longrightarrow> schema_ok s'" "change_schema (Drop_Index n b) s = Inr s' \<Longrightarrow> schema_ok s'"
proof -
  show "change_schema (Create_Index n ix) s = Inr s' \<Longrightarrow> schema_ok s'"
    using assms unfolding schema_ok_def
    by (auto simp: res_simps ddl_simps lookup_update' refers_ok_def columns_of_def split: if_splits)
  show "change_schema (Drop_Index n b) s = Inr s' \<Longrightarrow> schema_ok s'"
    using assms unfolding schema_ok_def by (auto simp: res_simps ddl_simps lookup_delete' split: if_splits)
qed

lemma statement_ok:
  assumes ok: "schema_ok s"
  shows "change_schema op s = Inr s' \<Longrightarrow> schema_ok s'"
proof (induction op)
  case (Create_Type n vs b)
  with ok create_type_ok show ?case by (auto split: if_splits)
next
  case (Table_Type n vs)
  with ok create_type_ok show ?case by auto
qed (erule drop_type_ok [OF ok] rename_type_ok [OF ok] add_value_ok [OF ok] create_table_ok [OF ok] drop_table_ok [OF ok]
      drop_column_ok [OF ok] alter_column_ok [OF ok] add_statements_ok [OF ok] index_statements_ok [OF ok])+

lemma table_type_ok:
  "schema_ok s \<Longrightarrow> apply_ddl strict (Table_Type n vs) (s, memo) = Inr (s', memo') \<Longrightarrow> schema_ok s'"
  using create_type_ok by (auto simp: res_simps split: if_splits)

lemma apply_ok: "schema_ok s \<Longrightarrow> apply_ddl strict op (s, memo) = Inr (s', memo') \<Longrightarrow> schema_ok s'"
  using statement_ok [of s op s'] table_type_ok
  by (cases op) (auto simp: res_simps simp del: change_schema.simps)

lemma run_ok:
  assumes "schema_ok s" "run_ddl strict ops s = Inr s'"
  shows "schema_ok s'"
proof -
  obtain memo where "foldE (apply_ddl strict) ops (s, []) = Inr (s', memo)" using assms(2) by (auto simp: run_ddl_def res_simps)
  then show ?thesis
    using foldE_invariant [where I = "\<lambda>st. schema_ok (fst st)" and f = "apply_ddl strict" and xs = ops] apply_ok assms(1) by fastforce
qed


subsection \<open>Undoing\<close>

text \<open>The statement that takes back what another created.\<close>

fun undoes :: "ddl \<Rightarrow> ddl \<Rightarrow> bool" where
  "undoes (Create_Type n vs b) op' \<longleftrightarrow> (case op' of Drop_Type n' b' \<Rightarrow> n' = n | _ \<Rightarrow> False)"
| "undoes (Create_Table t cols keys) op' \<longleftrightarrow> (case op' of Drop_Table t' \<Rightarrow> t' = t | _ \<Rightarrow> False)"
| "undoes (Add_Column t nc) op' \<longleftrightarrow> (case op' of Drop_Column t' c \<Rightarrow> t' = t \<and> c = fst nc | _ \<Rightarrow> False)"
| "undoes (Add_Constraint t nk) op' \<longleftrightarrow> (case op' of Drop_Constraint t' k b \<Rightarrow> t' = t \<and> k = fst nk \<and> k \<noteq> None | _ \<Rightarrow> False)"
| "undoes (Create_Index n ix) op' \<longleftrightarrow> (case op' of Drop_Index n' b \<Rightarrow> n' = n | _ \<Rightarrow> False)"
| "undoes _ op' \<longleftrightarrow> False"

definition type_new :: "ddl \<Rightarrow> db_schema \<Rightarrow> bool" where
  "type_new op s \<longleftrightarrow> (\<forall>n vs b. op = Create_Type n vs b \<longrightarrow> Mapping.lookup (sc_types s) n = None)"

lemma undo_create_type:
  assumes "schema_ok s" "Mapping.lookup (sc_types s) n = None" "change_schema (Create_Type n vs b) s = Inr s'"
  shows "change_schema (Drop_Type n b') s' = Inr s"
proof -
  have s': "s' = s\<lparr>sc_types := Mapping.update n vs (sc_types s)\<rparr>" using assms(2,3) by (auto simp: create_type_def res_simps ddl_simps)
  have "\<not> exists_in (uses_type n) (sc_tables s)"
    using schema_okD(3) [OF assms(1), of _ _ _ _ n] assms(2) unfolding exists_in_iff uses_type_def by blast
  then show ?thesis using assms(2) by (auto simp: s' bindE_Inr_iff take_out_Inr guardE_Inr_iff delete_put)
qed

lemma unreferenced:
  assumes "schema_ok s" "Mapping.lookup (sc_tables s) t = None"
  shows "Mapping.lookup (sc_tables s) u = Some tb \<Longrightarrow> Mapping.lookup (tb_constraints tb) n = Some k \<Longrightarrow> \<not> refers_to t k"
    and "Mapping.lookup (sc_indexes s) m = Some ix \<Longrightarrow> ix_table ix \<noteq> t"
proof -
  have none: "\<not> refers_ok (columns_of s) t ks" for ks using assms(2) by (simp add: refers_ok_def columns_of_def)
  show "Mapping.lookup (sc_tables s) u = Some tb \<Longrightarrow> Mapping.lookup (tb_constraints tb) n = Some k \<Longrightarrow> \<not> refers_to t k"
    using assms(1) none by (fastforce simp: schema_ok_def table_ok_def constraint_ok_def refers_to_def split: option.splits)
  show "Mapping.lookup (sc_indexes s) m = Some ix \<Longrightarrow> ix_table ix \<noteq> t"
    using schema_okD(2) [OF assms(1), of m ix] none by auto
qed

lemma undo_create_table:
  assumes "schema_ok s" "change_schema (Create_Table t cols keys) s = Inr s'"
  shows "change_schema (Drop_Table t) s' = Inr s"
proof -
  obtain tb where s': "s' = with_table t tb s" and new: "Mapping.lookup (sc_tables s) t = None"
    using assms(2) by (auto simp: res_simps ddl_simps with_table_def)
  have "Mapping.delete t (sc_tables s') = sc_tables s" using new by (simp add: s' with_table_def delete_put)
  moreover have "\<not> exists_in (\<lambda>tb. exists_in (refers_to t) (tb_constraints tb)) (sc_tables s)"
    using unreferenced(1) [OF assms(1) new] by (auto simp: ddl_simps)
  moreover have "Mapping.filter (\<lambda>_ ix. ix_table ix \<noteq> t) (sc_indexes s') = sc_indexes s"
    using unreferenced(2) [OF assms(1) new] by (simp add: s' filter_all)
  ultimately show ?thesis by (auto simp: bindE_Inr_iff take_out_Inr guardE_Inr_iff) (simp_all add: s' with_table_def)
qed

lemma undo_add_column:
  assumes "schema_ok s" "change_schema (Add_Column t nc) s = Inr s'"
  shows "change_schema (Drop_Column t (fst nc)) s' = Inr s"
proof -
  obtain tb where tb: "Mapping.lookup (sc_tables s) t = Some tb" and new: "Mapping.lookup (tb_columns tb) (fst nc) = None"
    and s': "s' = with_table t (tb\<lparr>tb_columns := Mapping.update (fst nc) (snd nc) (tb_columns tb)\<rparr>) s"
    using assms(2) by (auto simp: add_column_def res_simps ddl_simps)
  have fresh: "refers_ok (columns_of s) t ks \<Longrightarrow> fst nc \<notin> set ks" for ks
    using tb new by (auto simp: refers_ok_def columns_of_def keys_dom_lookup)
  have unmentioned: "fst nc \<notin> set (constraint_columns k)" if "Mapping.lookup (tb_constraints tb) n = Some k" for n k
    using assms(1) tb new that by (fastforce simp: schema_ok_def table_ok_def constraint_ok_def keys_dom_lookup)
  have unreferred: "\<not> refers_to_column t (fst nc) k" if "Mapping.lookup (sc_tables s) u = Some x" "Mapping.lookup (tb_constraints x) n = Some k" for u x n k
    using assms(1) fresh that by (fastforce simp: schema_ok_def table_ok_def constraint_ok_def refers_to_column_def split: option.splits)
  have "\<not> exists_in (\<lambda>tb. exists_in (refers_to_column t (fst nc)) (tb_constraints tb)) (sc_tables s')"
    using unreferred tb by (auto simp: ddl_simps s' split: if_splits)
  moreover have "change_table t (drop_column (fst nc)) s' = Inr s"
    using unmentioned new tb by (simp add: s' change_table_def drop_column_def find_in_def take_out_def delete_put filter_all
        with_table_def lookup_update' update_update with_same [unfolded with_table_def])
  moreover have "Mapping.filter (\<lambda>_ ix. \<not> (ix_table ix = t \<and> fst nc \<in> set (ix_columns ix))) (sc_indexes s') = sc_indexes s"
    using assms(1) fresh by (auto simp: s' schema_ok_def intro!: filter_all)
  ultimately show ?thesis by (simp add: bindE_Inr_iff guardE_Inr_iff)
qed

lemma undo_add_constraint:
  assumes "change_schema (Add_Constraint t (Some n, k)) s = Inr s'"
  shows "change_schema (Drop_Constraint t (Some n) b) s' = Inr s"
proof -
  obtain tb where tb: "Mapping.lookup (sc_tables s) t = Some tb" and new: "Mapping.lookup (tb_constraints tb) n = None"
    and s': "s' = with_table t (tb\<lparr>tb_constraints := Mapping.update n k (tb_constraints tb)\<rparr>) s"
    using assms by (auto simp: add_constraint_def res_simps ddl_simps)
  then show ?thesis
    by (simp add: s' change_table_def find_in_def take_out_def delete_put with_table_def lookup_update' update_update with_same [unfolded with_table_def])
qed

lemma undo_create_index:
  "change_schema (Create_Index n ix) s = Inr s' \<Longrightarrow> change_schema (Drop_Index n b) s' = Inr s"
  by (auto simp: res_simps ddl_simps take_out_def delete_put)

lemma undo:
  assumes "undoes op op'" "schema_ok s" "type_new op s" "change_schema op s = Inr s'"
  shows "change_schema op' s' = Inr s"
proof (cases op)
  case (Create_Type n vs b)
  with assms undo_create_type show ?thesis by (auto simp: type_new_def simp del: change_schema.simps split: ddl.splits)
next
  case (Create_Table t cols keys)
  with assms undo_create_table show ?thesis by (auto simp del: change_schema.simps split: ddl.splits)
next
  case (Add_Column t nc)
  with assms undo_add_column [of s t nc] show ?thesis by (auto simp del: change_schema.simps split: ddl.splits)
next
  case (Add_Constraint t nk)
  with assms obtain n k b where "nk = (Some n, k)" "op' = Drop_Constraint t (Some n) b"
    by (cases nk) (auto simp del: change_schema.simps split: ddl.splits)
  with Add_Constraint assms(4) undo_add_constraint show ?thesis by (simp del: change_schema.simps)
next
  case (Create_Index n ix)
  with assms undo_create_index show ?thesis by (auto simp del: change_schema.simps split: ddl.splits)
qed (use assms(1) in simp_all)

text \<open>The types a list of statements creates.\<close>

definition created_types :: "ddl list \<Rightarrow> string list" where
  "created_types ops = List.map_filter (\<lambda>op. case op of Create_Type n vs b \<Rightarrow> Some n | _ \<Rightarrow> None) ops"

lemma undoable_types:
  assumes "undoes op op'" "change_schema op s = Inr s'" "n \<notin> set (created_types [op])"
  shows "Mapping.lookup (sc_types s') n = Mapping.lookup (sc_types s) n"
  using assms by (cases op) (auto simp: created_types_def create_type_def res_simps ddl_simps lookup_update' split: if_splits)

lemma undo_all:
  assumes "list_all2 undoes us ds" "schema_ok s" "distinct (created_types us)"
    and "\<forall>n \<in> set (created_types us). Mapping.lookup (sc_types s) n = None" "foldE change_schema us s = Inr s'"
  shows "foldE change_schema (rev ds) s' = Inr s"
  using assms
proof (induction us ds arbitrary: s rule: list_all2_induct)
  case (Cons u us d ds)
  from Cons.prems(4) obtain s1 where s1: "change_schema u s = Inr s1" "foldE change_schema us s1 = Inr s'" by (auto simp: res_simps)
  have types: "created_types (u # us) = created_types [u] @ created_types us" by (simp add: created_types_def map_filter_def)
  have "\<forall>n \<in> set (created_types us). Mapping.lookup (sc_types s1) n = None"
  proof
    fix n assume n: "n \<in> set (created_types us)"
    with Cons.prems(2) have "n \<notin> set (created_types [u])" unfolding types by auto
    from undoable_types [OF Cons.hyps(1) s1(1) this] n Cons.prems(3) show "Mapping.lookup (sc_types s1) n = None" unfolding types by simp
  qed
  then have "foldE change_schema (rev ds) s1' = Inr s1" if "s1' = s'" for s1'
    using Cons.IH [OF statement_ok [OF Cons.prems(1) s1(1)]] Cons.prems(2) s1(2) that unfolding types by simp
  moreover have "type_new u s"
    using Cons.prems(3) by (auto simp: type_new_def created_types_def map_filter_def)
  then have "change_schema d s1 = Inr s" by (rule undo [OF Cons.hyps(1) Cons.prems(1) _ s1(1)])
  ultimately show ?case by (simp add: foldE_snoc del: change_schema.simps)
qed simp

end
