(* ===== verification/Migration_Rows.thy ===== *)
theory Migration_Rows
  imports Service_Migrations Schema_Safety
begin

text \<open>
  The migrations under \<open>alembic/versions\<close> as a whole: each one's statements on the schema together
  with those on the rows of devices, assignments, services and roles.  Within a migration the
  schema is changed first; the order only decides which of two errors is reported.  The
  statements that rewrite rows of locations and, in a downgrade, the protocol of devices are
  left out.
\<close>

type_synonym db_rows = "tlrs_db \<times> accounts"

definition no_accounts :: accounts where
  "no_accounts = \<lparr>acc_users = [], acc_sessions = [], acc_roles = [], acc_user_roles = [], acc_services = [], acc_service_roles = []\<rparr>"

subsection \<open>The rows a revision changes\<close>

definition upgrade_rows :: "int \<Rightarrow> string \<Rightarrow> db_rows \<Rightarrow> (migration_error, db_rows) res" where
  "upgrade_rows now revision rows = (case rows of (db, acc) \<Rightarrow>
     if revision = ''a7f43b6d9211'' then bindE (grant_services GROUP_SERVICE_NAMES acc) (\<lambda>acc'. Inr (db, acc'))
     else if revision = ''8c6e1b2f4a90'' then bindE (require_application_id (db_devices db)) (\<lambda>_. Inr (db, acc))
     else if revision = ''e1c4a8b9d2f3'' then Inr (db\<lparr>db_devices := map (mark_provisioned \<circ> add_provisioning_columns) (db_devices db)\<rparr>, acc)
     else if revision = ''d4f8a2c6e9b1'' then Inr (db\<lparr>db_devices := map deactivate_orphan (db_devices db)\<rparr>, acc)
     else if revision = ''b7c3d5e9f1a2'' then
       bindE (backfill_assignments now (db_devices db) []) (\<lambda>assignments. Inr (db\<lparr>db_device_assignments := assignments\<rparr>, acc))
     else if revision = ''d2a4f6c8e0b1'' then bindE (grant_services [ASSET_SERVICE_NAME] acc) (\<lambda>acc'. Inr (db, acc'))
     else Inr (db, acc))"

datatype upgrade_error = On_Schema ddl_error | On_Rows migration_error

definition upgrade_revision ::
  "bool \<Rightarrow> int \<Rightarrow> migration \<Rightarrow> db_schema \<times> db_rows \<Rightarrow> (upgrade_error, db_schema \<times> db_rows) res" where
  "upgrade_revision strict now m st = (case st of (s, rows) \<Rightarrow>
     (case run_ddl strict (mg_upgrade m) s of
        Inl e \<Rightarrow> Inl (On_Schema e)
      | Inr s' \<Rightarrow> (case upgrade_rows now (mg_revision m) rows of
          Inl e \<Rightarrow> Inl (On_Rows e)
        | Inr rows' \<Rightarrow> Inr (s', rows'))))"

text \<open>\<open>alembic upgrade\<close> over the given revisions, in one transaction: an error leaves the database as it was.\<close>

definition alembic_upgrade ::
  "bool \<Rightarrow> int \<Rightarrow> migration list \<Rightarrow> db_schema \<times> db_rows \<Rightarrow> (upgrade_error, db_schema \<times> db_rows) res" where
  "alembic_upgrade strict now = foldE (upgrade_revision strict now)"

abbreviation device_revisions :: "string list" where
  "device_revisions \<equiv> [''8c6e1b2f4a90'', ''e1c4a8b9d2f3'', ''d4f8a2c6e9b1'', ''b7c3d5e9f1a2'']"

text \<open>The four revisions of the devices are the migration that establishes the history.\<close>

lemma device_revisions_run:
  "foldE (upgrade_rows now) device_revisions (db, acc) = bindE (upgrade_devices now db) (\<lambda>db'. Inr (db', acc))"
proof (cases "require_application_id (db_devices db)")
  case (Inr u)
  let ?ds = "map (deactivate_orphan \<circ> (mark_provisioned \<circ> add_provisioning_columns)) (db_devices db)"
  show ?thesis
    by (cases "backfill_assignments now ?ds []") (simp_all add: Inr upgrade_rows_def upgrade_devices_def Let_def comp_assoc)
qed (simp add: upgrade_rows_def upgrade_devices_def)

subsection \<open>Schema and rows apart\<close>

lemma alembic_upgrade_Inr:
  assumes "foldE (\<lambda>m. run_ddl strict (mg_upgrade m)) ms s = Inr s'" "foldE (upgrade_rows now) (map mg_revision ms) rows = Inr rows'"
  shows "alembic_upgrade strict now ms (s, rows) = Inr (s', rows')"
  using assms unfolding alembic_upgrade_def
proof (induction ms arbitrary: s rows)
  case (Cons m ms)
  from Cons.prems obtain s1 rows1 where "run_ddl strict (mg_upgrade m) s = Inr s1" "upgrade_rows now (mg_revision m) rows = Inr rows1"
    "foldE (\<lambda>m. run_ddl strict (mg_upgrade m)) ms s1 = Inr s'" "foldE (upgrade_rows now) (map mg_revision ms) rows1 = Inr rows'"
    by (auto simp: res_simps)
  with Cons.IH [of s1 rows1] show ?case by (simp add: upgrade_revision_def)
qed simp

lemma alembic_upgrade_append: "alembic_upgrade strict now (ms @ ms') st = bindE (alembic_upgrade strict now ms st) (alembic_upgrade strict now ms')"
  by (simp add: alembic_upgrade_def foldE_snoc)

subsection \<open>What the default role offers\<close>

lemma granted_role_services:
  assumes ok: "rbac_ok acc" and "grant_services ns acc = Inr acc'"
  shows "(DEFAULT_ROLE_ID, n) \<in> linked acc' O service_names acc' \<longleftrightarrow>
    n \<in> set ns \<or> (DEFAULT_ROLE_ID, n) \<in> linked acc O service_names acc"
proof -
  let ?acc1 = "fold upsert_service ns acc"
  have acc': "acc' = fold link_default_role ns ?acc1" using assms(2) by (auto simp: grant_services_def split: if_splits)
  note up = upsert_services_spec [OF ok, of ns]
  then have ok1: "rbac_ok ?acc1" by blast
  note ln = link_services_spec [OF ok1, of ns]
  have linked': "linked acc' = linked acc \<union> {(DEFAULT_ROLE_ID, i) | i n. n \<in> set ns \<and> (i, n) \<in> all_services ?acc1}"
    using ln up unfolding acc' by simp
  have names': "service_names acc' = service_names ?acc1" using ln unfolding acc' service_names_def by simp
  show ?thesis
  proof (cases "n \<in> set ns")
    case True
    with up obtain i where "(i, n) \<in> service_names ?acc1" by blast
    with True service_names_all [OF this] show ?thesis unfolding linked' names' by blast
  next
    case False
    have "(i, n) \<in> service_names ?acc1 \<longleftrightarrow> (i, n) \<in> service_names acc" for i using up False by blast
    moreover have "(r, i) \<in> linked acc' \<longleftrightarrow> (r, i) \<in> linked acc" if "(i, n) \<in> service_names ?acc1" for r i
      unfolding linked' using service_id_name [OF ok1 _ service_names_all [OF that]] False by blast
    ultimately show ?thesis using False unfolding names' relcomp_unfold by auto
  qed
qed

lemma grant_keeps_roles: "grant_services ns acc = Inr acc' \<Longrightarrow> acc_roles acc' = acc_roles acc"
proof -
  have "acc_roles (fold upsert_service ns a) = acc_roles a" for a by (induction ns arbitrary: a) (simp_all add: upsert_service_def)
  moreover have "acc_roles (fold link_default_role ns a) = acc_roles a" for a by (induction ns arbitrary: a) (simp_all add: link_default_role_def)
  ultimately show "grant_services ns acc = Inr acc' \<Longrightarrow> acc_roles acc' = acc_roles acc" by (auto simp: grant_services_def split: if_splits)
qed

text \<open>The rows along the chain: up to \<open>5b4b3db4ef01\<close> nothing, then the grants, on a database without devices.\<close>

abbreviation early_revisions :: "string list" where
  "early_revisions \<equiv> [''e164566bafe4'', ''be6f45e50817'', ''4511f23b597d'', ''f832219bc3af'', ''e0f71f0db473'', ''9c282ac96d95'',
     ''10718bead5ab'', ''6f0d9d3a4b21'', ''a4f2c8d91b63'', ''c9b1d44e8c72'', ''b8c1e9d2a734'', ''57d10e96a538'', ''90492c6dd84e'',
     ''3f4c8b9d2a11'', ''8c1f2a9b7d44'', ''5b4b3db4ef01'']"

abbreviation later_revisions :: "string list" where
  "later_revisions \<equiv> [''a7f43b6d9211'', ''d4c8e1f9b2a6'', ''b91c2e7d4a10'', ''3d7a9c1b5e21'', ''7e4f6a1c9b2d'', ''5f2c1d8a7b44'',
     ''2ab4c6d8e9f1''] @ device_revisions @ [''d2a4f6c8e0b1'']"

lemma revisions: "map mg_revision (take 16 migrations) = early_revisions" "map mg_revision (drop 16 migrations) = later_revisions"
  by (simp_all add: migrations_def migration_of_def)

lemma early_rows: "foldE (upgrade_rows now) early_revisions rows = Inr rows"
  by (cases rows) (simp add: upgrade_rows_def)

lemma later_rows:
  assumes "DEFAULT_ROLE_ID \<in> r_id ` set roles"
  shows "\<exists>acc. foldE (upgrade_rows now) later_revisions (empty_db, no_accounts\<lparr>acc_roles := roles\<rparr>) = Inr (empty_db, acc) \<and>
    (\<forall>n. (DEFAULT_ROLE_ID, n) \<in> linked acc O service_names acc \<longleftrightarrow> n \<in> set (GROUP_SERVICE_NAMES @ [ASSET_SERVICE_NAME]))"
proof -
  let ?acc = "no_accounts\<lparr>acc_roles := roles\<rparr>"
  have ok: "rbac_ok ?acc" and none: "linked ?acc = {}" by (simp_all add: rbac_ok_def no_accounts_def linked_def)
  obtain acc1 where g1: "grant_services GROUP_SERVICE_NAMES ?acc = Inr acc1" using assms by (simp add: grant_services_def)
  have "acc_roles acc1 = roles" using grant_keeps_roles [OF g1] by simp
  with assms obtain acc2 where g2: "grant_services [ASSET_SERVICE_NAME] acc1 = Inr acc2" by (simp add: grant_services_def)
  have unchanged: "upgrade_devices now empty_db = Inr empty_db"
    by (simp add: upgrade_devices_def require_application_id_def empty_db_def)
  have "foldE (upgrade_rows now) (device_revisions @ [''d2a4f6c8e0b1'']) (empty_db, acc1) = Inr (empty_db, acc2)"
    unfolding foldE_snoc device_revisions_run unchanged by (simp add: upgrade_rows_def g2)
  then have "foldE (upgrade_rows now) later_revisions (empty_db, ?acc) = Inr (empty_db, acc2)"
    unfolding foldE_snoc by (simp add: upgrade_rows_def g1)
  moreover have "(DEFAULT_ROLE_ID, n) \<in> linked acc2 O service_names acc2 \<longleftrightarrow> n \<in> set (GROUP_SERVICE_NAMES @ [ASSET_SERVICE_NAME])" for n
    using granted_role_services [OF granted_services(1) [OF ok g1] g2, of n] granted_role_services [OF ok g1, of n] none by auto
  ultimately show ?thesis by blast
qed

end
