(* ===== verification/Model_Tables.thy ===== *)
theory Model_Tables
  imports Migration_Steps
begin

text \<open>
  The tables as the classes under \<open>models\<close> declare them, and the statements \<open>create_all\<close> derives:
  a primary key, foreign keys and unique constraints from the columns, an index for an indexed
  column (which is the unique one if the column is unique), and the spatial index of a geometry or
  geography column.  Relationships and defaults on the side of Python have no trace in the schema.
\<close>

datatype column_option = Primary | Unique | Indexed | References string string | Null | Not_Null | Server_Default string

record model_table =
  mt_name :: string
  mt_columns :: "(string \<times> sql_type \<times> column_option list) list"
  mt_constraints :: "(string option \<times> table_constraint) list"
  mt_indexes :: "(string \<times> sql_index) list"

subsection \<open>From a class to statements\<close>

fun model_column :: "string \<times> sql_type \<times> column_option list \<Rightarrow> string \<times> sql_column" where
  "model_column (n, ty, os) = (n, \<lparr>col_type = ty, col_nullable = (Primary \<notin> set os \<and> Not_Null \<notin> set os),
     col_default = List.find (\<lambda>_. True) (List.map_filter (\<lambda>p. case p of Server_Default d \<Rightarrow> Some d | _ \<Rightarrow> None) os)\<rparr>)"

fun column_constraints :: "string \<times> sql_type \<times> column_option list \<Rightarrow> (string option \<times> table_constraint) list" where
  "column_constraints (n, ty, os) =
     List.map_filter (\<lambda>p. case p of References t c \<Rightarrow> Some (None, Foreign_Key [n] t [c]) | _ \<Rightarrow> None) os @
     (if Unique \<in> set os \<and> Indexed \<notin> set os then [(None, Unique_Key [n])] else [])"

fun spatial :: "sql_type \<Rightarrow> bool" where
  "spatial (GEOMETRY _ _) = True"
| "spatial (GEOGRAPHY _ _) = True"
| "spatial _ = False"

fun column_indexes :: "string \<Rightarrow> string \<times> sql_type \<times> column_option list \<Rightarrow> (string \<times> sql_index) list" where
  "column_indexes t (n, ty, os) =
     (if Indexed \<in> set os then [(''ix_'' @ t @ ''_'' @ n, if Unique \<in> set os then unique_index t [n] else index_on t [n])] else []) @
     (if spatial ty then [(''idx_'' @ t @ ''_'' @ n, gist_index t [n])] else [])"

definition create_model :: "model_table \<Rightarrow> ddl list" where
  "create_model m =
     Create_Table (mt_name m) (map model_column (mt_columns m))
       ((None, Primary_Key (map fst (filter (\<lambda>(n, ty, os). Primary \<in> set os) (mt_columns m)))) #
        concat (map column_constraints (mt_columns m)) @ mt_constraints m)
     # map (\<lambda>(n, ix). Create_Index n ix) (concat (map (column_indexes (mt_name m)) (mt_columns m)) @ mt_indexes m)"

subsection \<open>The classes\<close>

text \<open>Class \<open>Client\<close>.\<close>

definition model_clients :: model_table where
  "model_clients = \<lparr>mt_name = ''clients'',
     mt_columns = [
       (''id_client'', INTEGER, [Primary]),
       (''name'', varchar, [Not_Null]),
       (''email'', varchar, [Not_Null]),
       (''deleted'', VARCHAR (Some 1), [Not_Null])],
     mt_constraints = [],
     mt_indexes = []\<rparr>"

text \<open>Class \<open>Asset\<close>.\<close>

definition model_assets :: model_table where
  "model_assets = \<lparr>mt_name = ''assets'',
     mt_columns = [
       (''id_asset'', INTEGER, [Primary]),
       (''asset_type'', varchar, [Not_Null]),
       (''serial'', varchar, [Unique, Not_Null]),
       (''deleted'', VARCHAR (Some 1), [Not_Null]),
       (''client_id'', INTEGER, [References ''clients'' ''id_client'', Null]),
       (''status'', ENUM ''assetstatus'', [Not_Null])],
     mt_constraints = [],
     mt_indexes = []\<rparr>"

text \<open>Class \<open>AssetGroup\<close>.\<close>

definition model_asset_groups :: model_table where
  "model_asset_groups = \<lparr>mt_name = ''asset_groups'',
     mt_columns = [
       (''id_asset_group'', INTEGER, [Primary]),
       (''client_id'', INTEGER, [References ''clients'' ''id_client'', Not_Null]),
       (''name'', varchar, [Not_Null]),
       (''description'', varchar, [Null]),
       (''active'', BOOLEAN, [Not_Null]),
       (''deleted'', VARCHAR (Some 1), [Not_Null]),
       (''created_at'', TIMESTAMP False, [Not_Null]),
       (''updated_at'', TIMESTAMP False, [Not_Null])],
     mt_constraints = [],
     mt_indexes = [(''idx_asset_groups_client_id'', index_on ''asset_groups'' [''client_id'']),
       (''uq_asset_groups_client_name_active'', unique_where live ''asset_groups'' [''client_id'', ''name''])]\<rparr>"

text \<open>Class \<open>AssetGroupMember\<close>.\<close>

definition model_asset_group_members :: model_table where
  "model_asset_group_members = \<lparr>mt_name = ''asset_group_members'',
     mt_columns = [
       (''id_asset_group_member'', INTEGER, [Primary]),
       (''asset_group_id'', INTEGER, [References ''asset_groups'' ''id_asset_group'', Not_Null]),
       (''asset_id'', INTEGER, [References ''assets'' ''id_asset'', Not_Null]),
       (''deleted'', VARCHAR (Some 1), [Not_Null]),
       (''created_at'', TIMESTAMP False, [Not_Null])],
     mt_constraints = [],
     mt_indexes = [(''idx_asset_group_members_asset_group_id'', index_on ''asset_group_members'' [''asset_group_id'']),
       (''idx_asset_group_members_asset_id'', index_on ''asset_group_members'' [''asset_id'']),
       (''uq_asset_group_members_group_asset_active'', unique_where live ''asset_group_members'' [''asset_group_id'', ''asset_id''])]\<rparr>"

text \<open>Class \<open>Device\<close>.\<close>

definition model_devices :: model_table where
  "model_devices = \<lparr>mt_name = ''devices'',
     mt_columns = [
       (''id_device'', INTEGER, [Primary]),
       (''serial'', varchar, [Not_Null]),
       (''name'', varchar, [Not_Null]),
       (''type'', varchar, [Not_Null]),
       (''last_seen_at'', TIMESTAMP False, [Null]),
       (''chirpstack_dev_eui'', varchar, [Null]),
       (''join_eui'', varchar, [Null]),
       (''chirpstack_application_id'', varchar, [Null]),
       (''lorawan_class'', varchar, [Null]),
       (''chirpstack_device_profile_id'', varchar, [Null]),
       (''provisioning_status'', varchar, [Not_Null, Server_Default ''NOT_PROVISIONED'']),
       (''provisioned_at'', TIMESTAMP False, [Null]),
       (''provisioning_error'', TEXT, [Null]),
       (''app_key_last4'', VARCHAR (Some 4), [Null]),
       (''deleted'', VARCHAR (Some 1), [Not_Null]),
       (''state'', ENUM ''devicestate'', [Not_Null]),
       (''communication_protocol'', ENUM ''devicecommunicationprotocol'', [Not_Null]),
       (''client_id'', INTEGER, [References ''clients'' ''id_client'', Null]),
       (''asset_id'', INTEGER, [References ''assets'' ''id_asset'', Null]),
       (''active'', BOOLEAN, [Not_Null])],
     mt_constraints = [(Some ''ck_devices_chirpstack_requires_application_id'', Check [''communication_protocol'', ''chirpstack_application_id''] application_id_check),
       (Some ''ck_devices_active_requires_asset'', Check [''active'', ''asset_id''] ''active = false OR asset_id IS NOT NULL'')],
     mt_indexes = [(''uq_devices_serial_active'', unique_where live ''devices'' [''serial'']),
       (''uq_devices_asset_id_active'', unique_where (live_and ''asset_id IS NOT NULL'') ''devices'' [''asset_id'']),
       (''uq_devices_chirpstack_dev_eui_active'', unique_where (live_and ''chirpstack_dev_eui IS NOT NULL'') ''devices'' [''chirpstack_dev_eui''])]\<rparr>"

text \<open>Class \<open>ChirpStackEvent\<close>.\<close>

definition model_chirpstack_events :: model_table where
  "model_chirpstack_events = \<lparr>mt_name = ''chirpstack_events'',
     mt_columns = [
       (''id'', INTEGER, [Primary]),
       (''device_id'', INTEGER, [References ''devices'' ''id_device'', Null]),
       (''event_type'', varchar, [Not_Null]),
       (''application_id'', varchar, [Not_Null]),
       (''dev_eui'', varchar, [Not_Null]),
       (''deduplication_id'', varchar, [Unique, Null]),
       (''topic'', varchar, [Not_Null]),
       (''payload'', JSONB, [Not_Null]),
       (''processed'', BOOLEAN, [Not_Null]),
       (''error_message'', varchar, [Null]),
       (''created_at'', TIMESTAMP True, [Not_Null, Server_Default (''TIMEZONE('' @ quote @ ''utc'' @ quote @ '', NOW())'')])],
     mt_constraints = [],
     mt_indexes = []\<rparr>"

text \<open>Class \<open>DeviceAssetAssignment\<close>.\<close>

definition model_device_asset_assignments :: model_table where
  "model_device_asset_assignments = \<lparr>mt_name = ''device_asset_assignments'',
     mt_columns = [
       (''id_device_asset_assignment'', INTEGER, [Primary]),
       (''device_id'', INTEGER, [References ''devices'' ''id_device'', Not_Null]),
       (''asset_id'', INTEGER, [References ''assets'' ''id_asset'', Not_Null]),
       (''assigned_at'', TIMESTAMP False, [Not_Null]),
       (''unassigned_at'', TIMESTAMP False, [Null]),
       (''created_at'', TIMESTAMP False, [Not_Null])],
     mt_constraints = [(Some ''ck_device_asset_assignments_valid_interval'', Check [''unassigned_at'', ''assigned_at''] ''unassigned_at IS NULL OR unassigned_at >= assigned_at'')],
     mt_indexes = [(''uq_device_asset_assignments_device_active'', unique_where ''unassigned_at IS NULL'' ''device_asset_assignments'' [''device_id'']),
       (''uq_device_asset_assignments_asset_active'', unique_where ''unassigned_at IS NULL'' ''device_asset_assignments'' [''asset_id'']),
       (''idx_device_asset_assignments_device_assigned_at'', index_on ''device_asset_assignments'' [''device_id'', ''assigned_at'']),
       (''idx_device_asset_assignments_asset_assigned_at'', index_on ''device_asset_assignments'' [''asset_id'', ''assigned_at''])]\<rparr>"

text \<open>Class \<open>GeoFence\<close>.\<close>

definition model_geofences :: model_table where
  "model_geofences = \<lparr>mt_name = ''geofences'',
     mt_columns = [
       (''id_geofence'', INTEGER, [Primary]),
       (''client_id'', INTEGER, [References ''clients'' ''id_client'', Not_Null]),
       (''name'', varchar, [Not_Null]),
       (''description'', varchar, [Null]),
       (''shape'', GEOMETRY ''MULTIPOLYGON'' 4326, [Not_Null]),
       (''active'', BOOLEAN, [Not_Null]),
       (''deleted'', VARCHAR (Some 1), [Not_Null]),
       (''created_at'', TIMESTAMP False, [Not_Null]),
       (''updated_at'', TIMESTAMP False, [Not_Null])],
     mt_constraints = [],
     mt_indexes = [(''idx_geofences_client_id'', index_on ''geofences'' [''client_id'']),
       (''uq_geofences_client_name_active'', unique_where live ''geofences'' [''client_id'', ''name''])]\<rparr>"

text \<open>Class \<open>GeoFenceAssetGroup\<close>.\<close>

definition model_geofence_asset_groups :: model_table where
  "model_geofence_asset_groups = \<lparr>mt_name = ''geofence_asset_groups'',
     mt_columns = [
       (''id_geofence_asset_group'', INTEGER, [Primary]),
       (''geofence_id'', INTEGER, [References ''geofences'' ''id_geofence'', Not_Null]),
       (''asset_group_id'', INTEGER, [References ''asset_groups'' ''id_asset_group'', Not_Null]),
       (''active'', BOOLEAN, [Not_Null]),
       (''deleted'', VARCHAR (Some 1), [Not_Null]),
       (''assigned_at'', TIMESTAMP False, [Not_Null]),
       (''unassigned_at'', TIMESTAMP False, [Null]),
       (''created_at'', TIMESTAMP False, [Not_Null]),
       (''updated_at'', TIMESTAMP False, [Not_Null])],
     mt_constraints = [],
     mt_indexes = [(''idx_geofence_asset_groups_geofence_id'', index_on ''geofence_asset_groups'' [''geofence_id'']),
       (''idx_geofence_asset_groups_asset_group_id'', index_on ''geofence_asset_groups'' [''asset_group_id'']),
       (''uq_geofence_asset_groups_geofence_group_active'', unique_where (live_and ''active = true'') ''geofence_asset_groups'' [''geofence_id'', ''asset_group_id''])]\<rparr>"

text \<open>Class \<open>GeoFenceAssignment\<close>.\<close>

definition model_geofence_assignments :: model_table where
  "model_geofence_assignments = \<lparr>mt_name = ''geofence_assignments'',
     mt_columns = [
       (''id_assignment'', INTEGER, [Primary]),
       (''asset_id'', INTEGER, [References ''assets'' ''id_asset'', Not_Null]),
       (''fence_id'', INTEGER, [References ''geofences'' ''id_geofence'', Not_Null]),
       (''active'', BOOLEAN, [Not_Null]),
       (''deleted'', VARCHAR (Some 1), [Not_Null]),
       (''assigned_at'', TIMESTAMP False, [Not_Null]),
       (''unassigned_at'', TIMESTAMP False, [Null]),
       (''created_at'', TIMESTAMP False, [Not_Null]),
       (''updated_at'', TIMESTAMP False, [Not_Null])],
     mt_constraints = [],
     mt_indexes = [(''idx_geofence_assignments_asset_id'', index_on ''geofence_assignments'' [''asset_id'']),
       (''idx_geofence_assignments_fence_id'', index_on ''geofence_assignments'' [''fence_id'']),
       (''uq_geofence_assignments_asset_fence_active'', unique_where (live_and ''active = true'') ''geofence_assignments'' [''asset_id'', ''fence_id''])]\<rparr>"

text \<open>Class \<open>Location\<close>.\<close>

definition model_locations :: model_table where
  "model_locations = \<lparr>mt_name = ''locations'',
     mt_columns = [
       (''id_location'', INTEGER, [Primary]),
       (''device_id'', INTEGER, [References ''devices'' ''id_device'', Not_Null]),
       (''latitude'', FLOAT, [Not_Null]),
       (''longitude'', FLOAT, [Not_Null]),
       (''point'', GEOGRAPHY ''POINT'' 4326, [Null]),
       (''altitude'', FLOAT, [Null]),
       (''accuracy'', FLOAT, [Null]),
       (''device_timestamp'', TIMESTAMP False, [Null]),
       (''received_at'', TIMESTAMP False, [Not_Null]),
       (''geometry'', varchar, [Null]),
       (''deleted'', VARCHAR (Some 1), [Not_Null])],
     mt_constraints = [],
     mt_indexes = []\<rparr>"

text \<open>Class \<open>GeoFenceEvent\<close>.\<close>

definition model_geofence_events :: model_table where
  "model_geofence_events = \<lparr>mt_name = ''geofence_events'',
     mt_columns = [
       (''id_event'', INTEGER, [Primary]),
       (''fence_id'', INTEGER, [References ''geofences'' ''id_geofence'', Not_Null]),
       (''device_id'', INTEGER, [References ''devices'' ''id_device'', Not_Null]),
       (''asset_id'', INTEGER, [References ''assets'' ''id_asset'', Null]),
       (''location_id'', INTEGER, [References ''locations'' ''id_location'', Not_Null]),
       (''event_type'', ENUM ''fenceeventtype'', [Not_Null]),
       (''distance_to_boundary_meters'', FLOAT, [Null]),
       (''accuracy'', FLOAT, [Null]),
       (''created_at'', TIMESTAMP False, [Not_Null])],
     mt_constraints = [],
     mt_indexes = [(''idx_geofence_events_device_id_created_at'', index_on ''geofence_events'' [''device_id'', ''created_at'']),
       (''idx_geofence_events_fence_id_created_at'', index_on ''geofence_events'' [''fence_id'', ''created_at'']),
       (''idx_geofence_events_location_id'', index_on ''geofence_events'' [''location_id''])]\<rparr>"

text \<open>Class \<open>DeviceCommand\<close>.\<close>

definition model_device_commands :: model_table where
  "model_device_commands = \<lparr>mt_name = ''device_commands'',
     mt_columns = [
       (''id_command'', INTEGER, [Primary]),
       (''command_uuid'', varchar, [Unique, Not_Null]),
       (''chirpstack_queue_item_id'', varchar, [Null]),
       (''command_seq'', INTEGER, [Null]),
       (''device_id'', INTEGER, [References ''devices'' ''id_device'', Not_Null]),
       (''asset_id'', INTEGER, [References ''assets'' ''id_asset'', Null]),
       (''geofence_event_id'', INTEGER, [References ''geofence_events'' ''id_event'', Null]),
       (''command_type'', ENUM ''devicecommandtype'', [Not_Null]),
       (''status'', ENUM ''devicecommandstatus'', [Not_Null]),
       (''topic'', varchar, [Not_Null]),
       (''payload'', JSONB, [Not_Null]),
       (''qos'', INTEGER, [Not_Null]),
       (''retain'', BOOLEAN, [Not_Null]),
       (''created_at'', TIMESTAMP False, [Not_Null]),
       (''sent_at'', TIMESTAMP False, [Null]),
       (''tx_acked_at'', TIMESTAMP False, [Null]),
       (''lorawan_ack_at'', TIMESTAMP False, [Null]),
       (''ack_at'', TIMESTAMP False, [Null]),
       (''failed_at'', TIMESTAMP False, [Null]),
       (''expires_at'', TIMESTAMP False, [Null]),
       (''error_message'', varchar, [Null])],
     mt_constraints = [(Some ''uq_device_commands_device_id_command_seq'', Unique_Key [''device_id'', ''command_seq'']),
       (Some ''ck_device_commands_command_seq_uint16'', Check [''command_seq''] ''command_seq IS NULL OR (command_seq >= 1 AND command_seq <= 65535)'')],
     mt_indexes = [(''idx_device_commands_status_created_at'', index_on ''device_commands'' [''status'', ''created_at'']),
       (''idx_device_commands_device_id_created_at'', index_on ''device_commands'' [''device_id'', ''created_at'']),
       (''idx_device_commands_device_id_command_seq'', index_on ''device_commands'' [''device_id'', ''command_seq'']),
       (''idx_device_commands_geofence_event_id'', index_on ''device_commands'' [''geofence_event_id'']),
       (''idx_device_commands_chirpstack_queue_item_id'', index_on ''device_commands'' [''chirpstack_queue_item_id''])]\<rparr>"

text \<open>Class \<open>GeoFenceAssetState\<close>.\<close>

definition model_geofence_asset_states :: model_table where
  "model_geofence_asset_states = \<lparr>mt_name = ''geofence_asset_states'',
     mt_columns = [
       (''id_state'', INTEGER, [Primary]),
       (''fence_id'', INTEGER, [References ''geofences'' ''id_geofence'', Not_Null]),
       (''asset_id'', INTEGER, [References ''assets'' ''id_asset'', Not_Null]),
       (''device_id'', INTEGER, [References ''devices'' ''id_device'', Not_Null]),
       (''current_status'', ENUM ''geofencestatus'', [Not_Null]),
       (''last_location_id'', INTEGER, [References ''locations'' ''id_location'', Not_Null]),
       (''last_distance_to_boundary_meters'', FLOAT, [Null]),
       (''last_accuracy'', FLOAT, [Null]),
       (''first_detected_at'', TIMESTAMP False, [Not_Null]),
       (''last_evaluated_at'', TIMESTAMP False, [Not_Null]),
       (''created_at'', TIMESTAMP False, [Not_Null]),
       (''updated_at'', TIMESTAMP False, [Not_Null])],
     mt_constraints = [(Some ''uq_geofence_asset_state_fence_asset'', Unique_Key [''fence_id'', ''asset_id''])],
     mt_indexes = []\<rparr>"

text \<open>Class \<open>Service\<close>.\<close>

definition model_services :: model_table where
  "model_services = \<lparr>mt_name = ''services'',
     mt_columns = [
       (''id_service'', INTEGER, [Primary]),
       (''name'', varchar, [Unique, Not_Null]),
       (''deleted'', VARCHAR (Some 1), [Not_Null])],
     mt_constraints = [],
     mt_indexes = []\<rparr>"

text \<open>Class \<open>User\<close>.\<close>

definition model_users :: model_table where
  "model_users = \<lparr>mt_name = ''users'',
     mt_columns = [
       (''id_user'', INTEGER, [Primary]),
       (''name'', varchar, [Unique, Not_Null]),
       (''email'', varchar, [Unique, Not_Null]),
       (''password'', varchar, [Not_Null]),
       (''deleted'', VARCHAR (Some 1), [Not_Null]),
       (''id_client'', INTEGER, [References ''clients'' ''id_client'', Null]),
       (''is_admin'', BOOLEAN, [Not_Null])],
     mt_constraints = [],
     mt_indexes = []\<rparr>"

text \<open>Class \<open>UserSession\<close>.\<close>

definition model_user_sessions :: model_table where
  "model_user_sessions = \<lparr>mt_name = ''user_sessions'',
     mt_columns = [
       (''id_session'', INTEGER, [Primary]),
       (''user_id'', INTEGER, [References ''users'' ''id_user'', Indexed, Not_Null]),
       (''refresh_token_hash'', VARCHAR (Some 64), [Unique, Indexed, Not_Null]),
       (''issued_at'', TIMESTAMP False, [Not_Null]),
       (''expires_at'', TIMESTAMP False, [Indexed, Not_Null]),
       (''revoked_at'', TIMESTAMP False, [Null]),
       (''replaced_by_session_id'', INTEGER, [References ''user_sessions'' ''id_session'', Null]),
       (''user_agent'', VARCHAR (Some 512), [Null]),
       (''ip_address'', VARCHAR (Some 45), [Null]),
       (''deleted'', VARCHAR (Some 1), [Not_Null])],
     mt_constraints = [],
     mt_indexes = []\<rparr>"

text \<open>Class \<open>Role\<close>.\<close>

definition model_roles :: model_table where
  "model_roles = \<lparr>mt_name = ''roles'',
     mt_columns = [
       (''id_role'', INTEGER, [Primary]),
       (''name'', varchar, [Unique, Not_Null]),
       (''deleted'', VARCHAR (Some 1), [Not_Null])],
     mt_constraints = [],
     mt_indexes = []\<rparr>"

text \<open>Class \<open>ServiceRoles\<close>.\<close>

definition model_service_roles :: model_table where
  "model_service_roles = \<lparr>mt_name = ''service_roles'',
     mt_columns = [
       (''id_service_role'', INTEGER, [Primary]),
       (''service_id'', INTEGER, [References ''services'' ''id_service'', Not_Null]),
       (''role_id'', INTEGER, [References ''roles'' ''id_role'', Not_Null]),
       (''deleted'', VARCHAR (Some 1), [Not_Null])],
     mt_constraints = [(Some ''uq_service_roles_service_role'', Unique_Key [''service_id'', ''role_id''])],
     mt_indexes = []\<rparr>"

text \<open>Class \<open>UserRoles\<close>.\<close>

definition model_user_roles :: model_table where
  "model_user_roles = \<lparr>mt_name = ''user_roles'',
     mt_columns = [
       (''id_user_role'', INTEGER, [Primary]),
       (''user_id'', INTEGER, [References ''users'' ''id_user'', Not_Null]),
       (''role_id'', INTEGER, [References ''roles'' ''id_role'', Not_Null]),
       (''deleted'', VARCHAR (Some 1), [Not_Null])],
     mt_constraints = [(Some ''uq_user_roles_user_role'', Unique_Key [''user_id'', ''role_id''])],
     mt_indexes = []\<rparr>"

subsection \<open>All of them\<close>

text \<open>An enumeration becomes a type of its name in lower case.\<close>

definition model_types :: "(string \<times> string list) list" where
  "model_types = [
     (''assetstatus'', [''ACTIVE'', ''INACTIVE'']),
     (''devicestate'', [''ON'', ''OFF'']),
     (''devicecommunicationprotocol'', [''HTTP'', ''MQTT'', ''CHIRPSTACK'']),
     (''devicecommandtype'', [''SET_REPORT_INTERVAL'', ''WARNING_SOUND'', ''VIBRATION'', ''STOP_CORRECTION'', ''EMERGENCY_DISABLE'', ''REQUEST_STATUS'']),
     (''devicecommandstatus'', [''PENDING'', ''SENT'', ''ACKED'', ''FAILED'', ''EXPIRED'']),
     (''fenceeventtype'', [''NEAR_LIMIT'', ''EXITED'', ''ENTERED'', ''RETURNED'', ''GPS_UNCERTAIN'']),
     (''geofencestatus'', [''SAFE'', ''NEAR_LIMIT'', ''OUTSIDE'', ''GPS_UNCERTAIN''])]"

text \<open>A table comes after those its foreign keys refer to.\<close>

definition model_tables :: "model_table list" where
  "model_tables = [
     model_clients, model_assets, model_asset_groups, model_asset_group_members,
     model_devices, model_chirpstack_events, model_device_asset_assignments, model_geofences,
     model_geofence_asset_groups, model_geofence_assignments, model_locations, model_geofence_events,
     model_device_commands, model_geofence_asset_states, model_services, model_users,
     model_user_sessions, model_roles, model_service_roles, model_user_roles]"

definition create_all :: "(ddl_error, db_schema) res" where
  "create_all = run_ddl True (map (\<lambda>(n, vs). Create_Type n vs True) model_types @ concat (map create_model model_tables)) empty_schema"

end
