(* ===== verification/Migration_History.thy ===== *)
theory Migration_History
  imports Migration_Rows Model_Tables
begin

text \<open>
  What the migrations do: on an empty database the chain stops at the first grant to the default
  role, and with that role stored before it all of them together give the tables the classes
  declare, with the differences named; none ever leaves the schema with a dangling reference; most
  are taken back exactly by their downgrade, and one can never be taken back.
\<close>

subsection \<open>The migrated schema and the classes\<close>

definition upgrade_all :: "bool \<Rightarrow> db_schema \<Rightarrow> (ddl_error, db_schema) res" where
  "upgrade_all strict = foldE (\<lambda>m. run_ddl strict (mg_upgrade m)) migrations"

text \<open>The columns without their defaults, and the constraints without their names.\<close>

definition bare_columns :: "sql_table \<Rightarrow> (string, sql_column) mapping" where
  "bare_columns tb = Mapping.map_values (\<lambda>_ c. c\<lparr>col_default := None\<rparr>) (tb_columns tb)"

definition keys_of :: "sql_table \<Rightarrow> table_constraint set" where
  "keys_of tb = snd ` Mapping.entries (tb_constraints tb)"

definition migrated_keys :: "string \<Rightarrow> table_constraint set" where
  "migrated_keys t = (if t = ''user_sessions'' then {Unique_Key [''refresh_token_hash'']} else {})"

definition migrated_indexes :: "string list" where
  "migrated_indexes = [''idx_geofence_asset_states_asset_id'', ''idx_geofence_asset_states_device_id'', ''idx_geofence_asset_states_status'',
     ''idx_chirpstack_events_device_id_created_at'', ''idx_chirpstack_events_dev_eui_created_at'', ''ix_locations_point_gist'']"

definition agree :: "db_schema \<Rightarrow> db_schema \<Rightarrow> bool" where
  "agree s m \<longleftrightarrow> sc_types s = sc_types m \<and>
     Mapping.map_values (\<lambda>_. bare_columns) (sc_tables s) = Mapping.map_values (\<lambda>_. bare_columns) (sc_tables m) \<and>
     Mapping.map_values (\<lambda>t tb. keys_of tb - migrated_keys t) (sc_tables s) = Mapping.map_values (\<lambda>_. keys_of) (sc_tables m) \<and>
     set migrated_indexes \<subseteq> Mapping.keys (sc_indexes s) \<and>
     Mapping.filter (\<lambda>n _. n \<notin> set migrated_indexes) (sc_indexes s) = Mapping.delete ''idx_locations_point'' (sc_indexes m)"

definition both_agree :: bool where
  "both_agree = (case upgrade_all True empty_schema of Inl _ \<Rightarrow> False
     | Inr s \<Rightarrow> (case create_all of Inl _ \<Rightarrow> False | Inr m \<Rightarrow> agree s m))"

lemma both_agree: both_agree
  by code_simp

lemma checked_run:
  assumes "run_ddl True ops s = Inr s'"
  shows "run_ddl strict ops s = Inr s'"
proof -
  have step: "apply_ddl True op st = Inr st' \<Longrightarrow> apply_ddl strict op st = Inr st'" for op st st'
    by (cases st; cases op) (auto simp: create_type_def res_simps ddl_simps simp del: change_schema.simps split: if_splits)
  have "foldE (apply_ddl True) ops st = Inr st' \<Longrightarrow> foldE (apply_ddl strict) ops st = Inr st'" for st st'
  proof (induction ops arbitrary: st)
    case (Cons op ops)
    then obtain st1 where "apply_ddl True op st = Inr st1" "foldE (apply_ddl True) ops st1 = Inr st'" by (auto simp: res_simps)
    with Cons.IH [of st1] step [of op st st1] show ?case by simp
  qed simp
  then show ?thesis using assms by (auto simp: run_ddl_def res_simps)
qed

lemma checked_upgrade: "upgrade_all True s = Inr s' \<Longrightarrow> upgrade_all strict s = Inr s'"
proof -
  have "foldE (\<lambda>m. run_ddl True (mg_upgrade m)) ms s = Inr s' \<Longrightarrow> foldE (\<lambda>m. run_ddl strict (mg_upgrade m)) ms s = Inr s'" for ms s
  proof (induction ms arbitrary: s)
    case (Cons m ms)
    then obtain s1 where "run_ddl True (mg_upgrade m) s = Inr s1" "foldE (\<lambda>m. run_ddl True (mg_upgrade m)) ms s1 = Inr s'" by (auto simp: res_simps)
    with Cons.IH [of s1] checked_run [of "mg_upgrade m" s s1] show ?case by simp
  qed simp
  then show "upgrade_all True s = Inr s' \<Longrightarrow> upgrade_all strict s = Inr s'" by (simp add: upgrade_all_def)
qed

lemma upgrade_all_ok: "upgrade_all strict s = Inr s' \<Longrightarrow> schema_ok s \<Longrightarrow> schema_ok s'"
  unfolding upgrade_all_def by (erule foldE_invariant) (auto intro: run_ok)

lemma schema_halves:
  assumes "upgrade_all strict s = Inr s'"
  obtains s0 where "foldE (\<lambda>m. run_ddl strict (mg_upgrade m)) (take 16 migrations) s = Inr s0"
    "foldE (\<lambda>m. run_ddl strict (mg_upgrade m)) (drop 16 migrations) s0 = Inr s'"
proof -
  have "foldE (\<lambda>m. run_ddl strict (mg_upgrade m)) (take 16 migrations @ drop 16 migrations) s = Inr s'"
    using assms by (simp only: append_take_drop_id upgrade_all_def)
  then show thesis using that unfolding foldE_snoc by (auto simp: res_simps)
qed

lemma first_grant_fails:
  assumes "DEFAULT_ROLE_ID \<notin> r_id ` set (acc_roles acc)"
  shows "alembic_upgrade strict now (drop 16 migrations) (s, db, acc)
    = Inl (On_Rows (Migration_Db (Integrity_Error ''service_roles_role_id_fkey'')))"
proof -
  have "grant_services GROUP_SERVICE_NAMES acc = Inl (Migration_Db (Integrity_Error ''service_roles_role_id_fkey''))"
    using assms by (simp add: grant_services_def GROUP_SERVICE_NAMES_def)
  then show ?thesis
    by (simp add: alembic_upgrade_def migrations_def migration_of_def upgrade_revision_def upgrade_rows_def run_ddl_def)
qed

text \<open>
  Property C36. The migrations build what the classes declare, given the default role.  On an empty
  database \<open>alembic upgrade head\<close> fails: the first sixteen revisions run, up to \<open>5b4b3db4ef01\<close>, and
  the next one, \<open>a7f43b6d9211\<close>, breaks a foreign key, since it links its services with the role of
  id 1, which no revision stores.  Where the roles stored in between include that one, the other
  revisions run in their order, and \<open>create_all\<close> on the classes runs.  The results have the same types
  and tables, each table the same columns with the same types and nullability, and the same keys,
  checks and foreign keys, but for one redundant unique constraint on the refresh token.  They have
  the same indexes, but for five the classes do not declare (three on the geofence states, two on
  the ChirpStack events) and the spatial index of the locations, which has another name.  The
  default role then offers exactly the ten services the migrations name.
\<close>

theorem migrations_reach_models:
  assumes "DEFAULT_ROLE_ID \<in> r_id ` set roles"
  shows "alembic_upgrade strict now migrations (empty_schema, empty_db, no_accounts)
      = Inl (On_Rows (Migration_Db (Integrity_Error ''service_roles_role_id_fkey''))) \<and>
    (\<exists>s0 s m acc. alembic_upgrade strict now (take 16 migrations) (empty_schema, empty_db, no_accounts) = Inr (s0, empty_db, no_accounts) \<and>
     alembic_upgrade strict now (drop 16 migrations) (s0, empty_db, no_accounts\<lparr>acc_roles := roles\<rparr>) = Inr (s, empty_db, acc) \<and>
     create_all = Inr m \<and> schema_ok s \<and> sc_types s = sc_types m \<and>
     Mapping.map_values (\<lambda>_. bare_columns) (sc_tables s) = Mapping.map_values (\<lambda>_. bare_columns) (sc_tables m) \<and>
     Mapping.map_values (\<lambda>t tb. keys_of tb - migrated_keys t) (sc_tables s) = Mapping.map_values (\<lambda>_. keys_of) (sc_tables m) \<and>
     set migrated_indexes \<subseteq> Mapping.keys (sc_indexes s) \<and>
     Mapping.filter (\<lambda>n _. n \<notin> set migrated_indexes) (sc_indexes s) = Mapping.delete ''idx_locations_point'' (sc_indexes m) \<and>
     (\<forall>n. (DEFAULT_ROLE_ID, n) \<in> linked acc O service_names acc \<longleftrightarrow> n \<in> set (GROUP_SERVICE_NAMES @ [ASSET_SERVICE_NAME])))"
proof -
  obtain s m where "upgrade_all True empty_schema = Inr s" and m: "create_all = Inr m" "agree s m"
    using both_agree unfolding both_agree_def by (auto split: sum.splits)
  with checked_upgrade have up: "upgrade_all strict empty_schema = Inr s" by blast
  then obtain s0 where s0: "foldE (\<lambda>m. run_ddl strict (mg_upgrade m)) (take 16 migrations) empty_schema = Inr s0"
    "foldE (\<lambda>m. run_ddl strict (mg_upgrade m)) (drop 16 migrations) s0 = Inr s" by (rule schema_halves)
  have early: "alembic_upgrade strict now (take 16 migrations) (empty_schema, empty_db, no_accounts) = Inr (s0, empty_db, no_accounts)"
    by (rule alembic_upgrade_Inr [OF s0(1)]) (unfold revisions, rule early_rows)
  have "alembic_upgrade strict now (take 16 migrations @ drop 16 migrations) (empty_schema, empty_db, no_accounts)
      = Inl (On_Rows (Migration_Db (Integrity_Error ''service_roles_role_id_fkey'')))"
    unfolding alembic_upgrade_append early by (simp add: first_grant_fails no_accounts_def)
  then have stops: "alembic_upgrade strict now migrations (empty_schema, empty_db, no_accounts)
      = Inl (On_Rows (Migration_Db (Integrity_Error ''service_roles_role_id_fkey'')))" by (simp only: append_take_drop_id)
  obtain acc where rows: "foldE (upgrade_rows now) later_revisions (empty_db, no_accounts\<lparr>acc_roles := roles\<rparr>) = Inr (empty_db, acc)"
    "\<forall>n. (DEFAULT_ROLE_ID, n) \<in> linked acc O service_names acc \<longleftrightarrow> n \<in> set (GROUP_SERVICE_NAMES @ [ASSET_SERVICE_NAME])"
    using later_rows [OF assms] by blast
  have "alembic_upgrade strict now (drop 16 migrations) (s0, empty_db, no_accounts\<lparr>acc_roles := roles\<rparr>) = Inr (s, empty_db, acc)"
    by (rule alembic_upgrade_Inr [OF s0(2)]) (unfold revisions, rule rows(1))
  with stops early m rows(2) upgrade_all_ok [OF up empty_ok] show ?thesis unfolding agree_def by blast
qed

theorem migrations_reach_models_witness:
  "\<exists>s0 s acc. alembic_upgrade True 0 (take 16 migrations) (empty_schema, empty_db, no_accounts) = Inr (s0, empty_db, no_accounts) \<and>
     alembic_upgrade True 0 (drop 16 migrations) (s0, empty_db, no_accounts\<lparr>acc_roles := [\<lparr>r_id = 1, r_name = ''admin'', r_deleted = CHR ''N''\<rparr>]\<rparr>)
       = Inr (s, empty_db, acc) \<and> (1, ''asset:get my assets'') \<in> linked acc O service_names acc"
proof -
  let ?roles = "[\<lparr>r_id = 1, r_name = ''admin'', r_deleted = CHR ''N''\<rparr>]"
  have "DEFAULT_ROLE_ID \<in> r_id ` set ?roles" by (simp add: DEFAULT_ROLE_ID_def)
  from migrations_reach_models [OF this, of True 0] obtain s0 s acc
    where run: "alembic_upgrade True 0 (take 16 migrations) (empty_schema, empty_db, no_accounts) = Inr (s0, empty_db, no_accounts)"
    "alembic_upgrade True 0 (drop 16 migrations) (s0, empty_db, no_accounts\<lparr>acc_roles := ?roles\<rparr>) = Inr (s, empty_db, acc)"
    and offers: "(DEFAULT_ROLE_ID, ASSET_SERVICE_NAME) \<in> linked acc O service_names acc" by auto
  from offers have "(1, ''asset:get my assets'') \<in> linked acc O service_names acc"
    unfolding DEFAULT_ROLE_ID_def ASSET_SERVICE_NAME_def .
  with run show ?thesis by blast
qed

subsection \<open>Moving along the chain\<close>

text \<open>Each revision names the one before it, so a place in the chain is a number.\<close>

lemma chain_is_linear: "map mg_down migrations = None # map (Some \<circ> mg_revision) (butlast migrations)"
  by code_simp

text \<open>
  \<open>alembic upgrade +1\<close> and \<open>alembic downgrade -1\<close>: a step that fails is rolled back.  Only the schema is
  followed; the statements on rows can make an upgrade fail, but change no schema.
\<close>

inductive alembic :: "bool \<Rightarrow> nat \<times> db_schema \<Rightarrow> nat \<times> db_schema \<Rightarrow> bool" for strict where
  upgrade: "k < length migrations \<Longrightarrow> run_ddl strict (mg_upgrade (migrations ! k)) s = Inr s' \<Longrightarrow>
     alembic strict (k, s) (Suc k, s')"
| downgrade: "k < length migrations \<Longrightarrow> run_ddl strict (mg_downgrade (migrations ! k)) s = Inr s' \<Longrightarrow>
     alembic strict (Suc k, s) (k, s')"

inductive_cases alembicE: "alembic strict (k, s) (k', s')"

lemma alembic_ok: "alembic strict st st' \<Longrightarrow> schema_ok (snd st) \<Longrightarrow> schema_ok (snd st')"
  by (induction rule: alembic.induct) (auto intro: run_ok)

lemma credentials_stay: "\<not> is_ok (run_ddl strict (mg_downgrade (migrations ! 5)) s)"
  by (simp add: migrations_def migration_of_def downgrade_9c282ac96d95_def run_ddl_def)

lemma alembic_stays: "alembic strict (k, s) (k', s') \<Longrightarrow> 6 \<le> k \<Longrightarrow> 6 \<le> k'"
proof (erule alembicE)
  assume step: "k = Suc k'" "run_ddl strict (mg_downgrade (migrations ! k')) s = Inr s'" "6 \<le> k"
  then have "k' \<noteq> 5" using credentials_stay [of strict s] by (auto simp: is_ok_def)
  with step show "6 \<le> k'" by simp
qed simp

subsection \<open>Taking a migration back\<close>

definition reversible :: "migration \<Rightarrow> bool" where
  "reversible m \<longleftrightarrow> list_all2 undoes (mg_upgrade m) (rev (mg_downgrade m)) \<and> distinct (created_types (mg_upgrade m))"

lemma undoes_plain: "undoes op op' \<Longrightarrow> (\<forall>n vs. op \<noteq> Table_Type n vs) \<and> (\<forall>n vs. op' \<noteq> Table_Type n vs)"
  by (cases op) (auto split: ddl.splits)

lemma run_plain:
  assumes "\<And>op n vs. op \<in> set ops \<Longrightarrow> op \<noteq> Table_Type n vs"
  shows "run_ddl strict ops s = foldE change_schema ops s"
proof -
  have step: "apply_ddl strict op (s, memo) = bindE (change_schema op s) (\<lambda>s'. Inr (s', memo))" if "op \<in> set ops" for op s memo
    using assms that by (cases op) auto
  have "foldE (apply_ddl strict) xs (s, memo) = bindE (foldE change_schema xs s) (\<lambda>s'. Inr (s', memo))" if "set xs \<subseteq> set ops" for xs s memo
    using that
  proof (induction xs arbitrary: s)
    case (Cons x xs)
    then show ?case by (cases "change_schema x s") (auto simp: step simp del: change_schema.simps)
  qed simp
  then have "foldE (apply_ddl strict) ops (s, []) = bindE (foldE change_schema ops s) (\<lambda>s'. Inr (s', []))" by simp
  then show ?thesis by (cases "foldE change_schema ops s") (auto simp: run_ddl_def)
qed

text \<open>On any well-formed schema the downgrade of a reversible migration restores what its upgrade found.\<close>

lemma downgrade_restores:
  assumes "schema_ok s" "reversible m" "\<forall>n \<in> set (created_types (mg_upgrade m)). Mapping.lookup (sc_types s) n = None"
    and "run_ddl strict (mg_upgrade m) s = Inr s'"
  shows "run_ddl strict (mg_downgrade m) s' = Inr s"
proof -
  let ?ds = "rev (mg_downgrade m)"
  have all: "list_all2 undoes (mg_upgrade m) ?ds" and "distinct (created_types (mg_upgrade m))" using assms(2) by (simp_all add: reversible_def)
  have plain: "op \<noteq> Table_Type n vs" if "op \<in> set (mg_upgrade m) \<or> op \<in> set (mg_downgrade m)" for op n vs
  proof -
    have "\<forall>op \<in> set (mg_upgrade m). \<exists>op'. undoes op op'" "\<forall>op' \<in> set ?ds. \<exists>op. undoes op op'"
      using all by (induction rule: list_all2_induct) auto
    then show ?thesis using that undoes_plain by (auto; blast)
  qed
  then have "foldE change_schema (mg_upgrade m) s = Inr s'" using assms(4) by (subst (asm) run_plain) auto
  from undo_all [OF all assms(1) _ assms(3) this] assms(2) have "foldE change_schema (mg_downgrade m) s' = Inr s" by (simp add: reversible_def)
  then show ?thesis using plain by (subst run_plain) auto
qed

definition irreversible :: "string list" where
  "irreversible = [''e164566bafe4'', ''be6f45e50817'', ''9c282ac96d95'', ''10718bead5ab'', ''a4f2c8d91b63'', ''d4c8e1f9b2a6'',
     ''7e4f6a1c9b2d'', ''5f2c1d8a7b44'', ''2ab4c6d8e9f1'']"

lemma reversible_iff: "m \<in> set migrations \<Longrightarrow> reversible m \<longleftrightarrow> mg_revision m \<notin> set irreversible"
proof -
  have "list_all (\<lambda>m. reversible m \<longleftrightarrow> mg_revision m \<notin> set irreversible) migrations" by code_simp
  then show "m \<in> set migrations \<Longrightarrow> ?thesis" by (simp add: list_all_iff)
qed

text \<open>
  Property C37. However an operator moves along the revisions, up or down and in any order, no step
  ever leaves a foreign key, an index, a constraint or a column without what it refers to.  Where a
  further upgrade runs whose types are new, then unless it is one of nine of the twenty-eight
  migrations its downgrade runs too and restores the schema exactly.  And once the sixth revision
  has run, no sequence of moves leads back below it: its own downgrade always fails, since it drops
  a constraint without naming it.
\<close>

theorem alembic_moves_safely:
  assumes "(alembic strict)\<^sup>*\<^sup>* (0, empty_schema) (k, s)" "(alembic strict)\<^sup>*\<^sup>* (k, s) (k', s')"
  shows "schema_ok s' \<and> (6 \<le> k \<longrightarrow> 6 \<le> k') \<and>
    (\<forall>s''. k' < length migrations \<and> mg_revision (migrations ! k') \<notin> set irreversible \<and>
       (\<forall>n \<in> set (created_types (mg_upgrade (migrations ! k'))). Mapping.lookup (sc_types s') n = None) \<and>
       alembic strict (k', s') (Suc k', s'') \<longrightarrow> alembic strict (Suc k', s'') (k', s'))"
proof -
  have "(alembic strict)\<^sup>*\<^sup>* (0, empty_schema) (k', s')" using assms by (rule rtranclp_trans)
  then have "schema_ok (snd (k', s'))" by induction (use empty_ok alembic_ok in auto)
  then have ok: "schema_ok s'" by simp
  moreover have "6 \<le> fst (k, s) \<Longrightarrow> 6 \<le> fst (k', s')"
    using assms(2) by induction (use alembic_stays in fastforce)+
  moreover have "alembic strict (Suc k', s'') (k', s')"
    if "k' < length migrations" "mg_revision (migrations ! k') \<notin> set irreversible"
      "\<forall>n \<in> set (created_types (mg_upgrade (migrations ! k'))). Mapping.lookup (sc_types s') n = None"
      "alembic strict (k', s') (Suc k', s'')" for s''
  proof (rule alembic.downgrade [OF that(1)])
    have "run_ddl strict (mg_upgrade (migrations ! k')) s' = Inr s''" using that(4) by (auto elim: alembicE)
    with that(1,2,3) ok show "run_ddl strict (mg_downgrade (migrations ! k')) s'' = Inr s'"
      by (intro downgrade_restores) (simp_all add: reversible_iff)
  qed
  ultimately show ?thesis by auto
qed

theorem alembic_moves_safely_witness:
  "\<exists>s s'. schema_ok s \<and> alembic True (2, s) (3, s') \<and> alembic True (3, s') (2, s)"
proof -
  have "is_ok (bindE (run_ddl True (mg_upgrade (migrations ! 0)) empty_schema) (\<lambda>s. bindE (run_ddl True (mg_upgrade (migrations ! 1)) s)
      (run_ddl True (mg_upgrade (migrations ! 2)))))" "length migrations = 28"
    "mg_revision (migrations ! 2) \<notin> set irreversible" "created_types (mg_upgrade (migrations ! 2)) = []" by code_simp+
  then obtain s1 s2 s3 where run: "run_ddl True (mg_upgrade (migrations ! 0)) empty_schema = Inr s1"
    "run_ddl True (mg_upgrade (migrations ! 1)) s1 = Inr s2" "run_ddl True (mg_upgrade (migrations ! 2)) s2 = Inr s3"
    and facts: "length migrations = 28" "mg_revision (migrations ! 2) \<notin> set irreversible" "created_types (mg_upgrade (migrations ! 2)) = []"
    by (auto simp: is_ok_iff res_simps)
  have "alembic True (0, empty_schema) (Suc 0, s1)" "alembic True (Suc 0, s1) (Suc (Suc 0), s2)" and up: "alembic True (2, s2) (Suc 2, s3)"
    using run facts(1) by (intro alembic.upgrade; simp)+
  then have "(alembic True)\<^sup>*\<^sup>* (0, empty_schema) (2, s2)" by (auto intro: rtranclp.rtrancl_into_rtrancl simp: numeral_2_eq_2)
  from alembic_moves_safely [OF this rtranclp.rtrancl_refl] up facts show ?thesis by auto
qed

end
