(* ===== verification/Spec2Isabelle.thy ===== *)
theory Spec2Isabelle
  imports Temporal_Sampling Temporal_Bucketing Command_Lifecycle Realtime_Delivery
    Fleet_Isolation Account_Api Device_History Service_Migrations Bucket_Loop App_Settings
    Command_Roundtrip Shape_Format System_History Realtime_World Worker_Loops Id_Check Downlink_Publish Migration_History
begin

text \<open>
  A verification library of the TLRS backend: a server that tracks assets through LoRaWAN devices,
  watches geofences and sends commands to the devices.

  \<^bold>\<open>The program.\<close>  Devices report over a ChirpStack network server, whose MQTT events the worker
  \<open>chirpstack_event_worker\<close> hands to \<open>integrations/chirpstack/service.py\<close>.  An uplink is decoded,
  stored as a location of the device and evaluated against the geofences of the asset the device
  tracks; a change of status becomes a geofence event, an event becomes pending commands.  The
  worker \<open>command_dispatcher_worker\<close> takes pending commands to the network server, whose answers
  (transmission, network acknowledgement, acknowledgement of the application) come back as events
  and move the command along its life.  A stored location is published on Redis and delivered to
  the websockets of the client that owns the device.  The FastAPI routes manage clients, users,
  roles, devices, assets, geofences and groups, with tokens, refresh sessions and one-time
  websocket tickets.  Every part works on the same PostgreSQL database, whose schema the migrations
  build.  A separate library analyses series of observations (continuity, observed time, buckets).

  \<^bold>\<open>The theories.\<close>  File names are below \<open>src\<close> of the repository.

  \<^item> \<open>TLRS_Prelude\<close>: results and state-passing code, timestamps, values whose type is inspected.
    \<open>Py_Text\<close>: string methods, floats with infinities and NaN, \<open>struct\<close> fields, base64; the locale \<open>byte_codec\<close> for decoders that
    invert an encoder.  \<open>TLRS_Tables\<close>: one record per class of \<open>src/models\<close>, the database
    \<open>tlrs_db\<close> of the tracking tables, lookup and replacement by key (locale \<open>keyed_store\<close>).
  \<^item> Analytics, \<open>src/application/analytics\<close>: \<open>Temporal_Sampling\<close>, \<open>Temporal_Continuity\<close>,
    \<open>Observed_Time\<close>, \<open>Temporal_Bucketing\<close>, one theory per module, and \<open>Bucket_Loop\<close> for the
    \<open>while\<close> loop of the last.
  \<^item> The binary protocol and the network server, \<open>src/integrations/chirpstack\<close>:
    \<open>ChirpStack_Payload\<close> (uplinks), \<open>Downlink_Codec\<close> (downlinks and topics), \<open>Downlink_Publish\<close>
    (MQTT client), \<open>ChirpStack_Api\<close> (gRPC client), \<open>Downlink_Transport\<close>
    (\<open>src/infrastructure/downlink\<close>).
  \<^item> Commands: \<open>Device_Commands\<close> (creation, sequence numbers, acknowledgements),
    \<open>Command_Dispatcher\<close> (one pass of the worker), \<open>Command_Lifecycle\<close> (the life of a command as a
    step relation the other parts refine), \<open>Worker_Loops\<close> (the loops around the passes, the session
    clean-up, the script on old events).
  \<^item> Events and geofences at run time: \<open>Geofence_Evaluation\<close>, \<open>ChirpStack_Events\<close>, \<open>Event_Effects\<close>
    (what one message may change).
  \<^item> Devices: \<open>Device_Assignment\<close>, \<open>Device_Service\<close> (with \<open>crud_base.py\<close>, locale
    \<open>soft_deletion\<close>), \<open>Device_Provisioning\<close>, \<open>Device_Schemas\<close>, \<open>Device_Views\<close>, \<open>Device_Api\<close>,
    \<open>Device_History\<close>.
  \<^item> Geofences and groups: \<open>Membership_Links\<close> (the link tables both services edit, locale
    \<open>linking_table\<close>), \<open>Asset_Groups\<close>, \<open>Geofence_Service\<close>, \<open>Fleet_Api\<close>, \<open>Fleet_Isolation\<close>.
  \<^item> Accounts: \<open>User_Sessions\<close> (locale \<open>session_rows\<close>), \<open>Access_Control\<close> (locale \<open>link_table\<close>),
    \<open>Web_Routes\<close> (what all routes share), \<open>Account_Api\<close>.
  \<^item> Live locations: \<open>Realtime_Access\<close> (tickets), \<open>Realtime_Delivery\<close> (sockets and subscriber),
    \<open>Location_Delivery\<close> (the way of a position from tracker to socket; the publisher itself is in
    \<open>ChirpStack_Events\<close>, and what Redis took of it is kept in \<open>db_published\<close>), \<open>Realtime_World\<close>
    (tickets, sockets, handling, publication and delivery interleaved, with a trace of what
    happened).
  \<^item> Migrations, \<open>alembic/versions\<close>: \<open>Database_Schema\<close> (statements on a schema),
    \<open>Migration_Steps\<close> (each upgrade and downgrade), \<open>Model_Tables\<close> (the tables the classes
    declare), \<open>Schema_Safety\<close>, \<open>Migration_History\<close>; what they do to rows is in
    \<open>Schema_Migrations\<close> and \<open>Service_Migrations\<close>, and \<open>Migration_Rows\<close> puts both together.
  \<^item> \<open>App_Settings\<close> (\<open>src/settings.py\<close>), and the scripts: \<open>Ack_Simulator\<close> and
    \<open>Command_Roundtrip\<close> (the simulated device), \<open>Location_Simulator\<close> and \<open>Shape_Format\<close> (the
    simulated tracker), \<open>Id_Check\<close>.
  \<^item> \<open>System_History\<close>: all parts that write the tracking tables, interleaved.

  \<^bold>\<open>What is proved.\<close>  Component by component: what each operation does on every branch, and that it
  keeps the constraints and invariants of its tables.  The properties across components are these.

  \<^item> In any interleaving of device and fleet requests, network messages and dispatcher passes the
    common invariant holds, logs only grow and commands only move along their life
    (\<open>system_history\<close>); the fleet routes of one client never change what another sees
    (\<open>clients_do_not_interfere\<close>, \<open>groups_never_cross_clients\<close>); the device routes never rewrite
    the assignment history (\<open>device_requests_keep_history\<close>, over the refinement
    \<open>assignment_history\<close>).
  \<^item> Ends meet: a stored command reaches the network server and the simulated device, and its answer
    returns (\<open>stored_command_reaches_server\<close>, \<open>simulated_device_acknowledges\<close>); a simulated
    position reaches exactly the sockets of its client (\<open>position_reaches_client\<close>); formats round
    trip (\<open>command_encode_decode\<close>, \<open>shape_roundtrip\<close>).
  \<^item> Security of accounts: tokens rotate once, a deactivated user stays out, sessions are limited,
    access tokens name their owner, tickets are redeemed once, the guard decides the relation of
    roles and services, and whatever happens a socket receives only published events of the client
    its ticket was issued for (\<open>websocket_isolation\<close>).
  \<^item> Liveness: the dispatcher drains any backlog, the bucketing loop ends.
  \<^item> The migrations fail on an empty database for lack of the default role; with it they build the
    tables the classes declare, and they never leave a dangling reference
    (\<open>migrations_reach_models\<close>, \<open>alembic_moves_safely\<close>), and their rows satisfy the constraints
    the services rely on (\<open>migrations_establish_history\<close>).

  Some theorems state defects, for instance that a coordinate that is no number passes the range
  check (\<open>decoded_uplink_in_range\<close>), that the clean-up of geofence states never removes one
  (\<open>ended_membership_keeps_state\<close>), that anyone can register an administrator
  (\<open>registration_makes_admin\<close>), or that a failing command blocks the queue
  (\<open>retryable_failure_blocks_queue\<close>).

  \<^bold>\<open>Conventions.\<close>  A table is a list of records in the order of insertion; a key is a natural
  number and a new one is above all others (\<open>fresh\<close>).  A raised exception is the left summand of a
  result; a transaction that fails leaves the database it started from.  A session does not flush
  before a query (\<open>autoflush=False\<close>): queries inside an operation see the stored rows, and the
  commands an operation has added but not flushed are in \<open>db_new_commands\<close>.  Unique and check
  constraints are predicates tested at commit.  Timestamps are microseconds without a time zone; a
  \<open>float\<close> is a rational, so rounding is not modelled, except that a double in EWKB is its eight
  bytes and that a coordinate, altitude or accuracy may also be an infinity or NaN (\<open>py_float\<close>); strings are lists of characters below 256; bytes are \<open>8 word\<close>.  Loops over the clock or
  over incoming messages are functions of the list of their rounds, a failed round being one that
  changes nothing.  There is no fuel: recursion is structural or has a measure, and the bucketing
  loop is a \<open>partial_function\<close> of which termination is proved.

  \<^bold>\<open>Parameters.\<close>  Clocks, random numbers and tokens, hashing, JWT, the gRPC stub, MQTT, Redis, PostGIS
  predicates and conversions, the driver's text of a violated constraint, and the validation of raw
  JSON by pydantic before the validators of the repository run are arguments (records of an
  environment), with what the code relies on as named hypotheses, shown satisfiable by the
  witnesses.  Whether \<open>create_table\<close> of the migration library looks for a type before creating it
  is a parameter too.

  \<^bold>\<open>Not modelled.\<close>  Failures of the database other than constraints (lost connections, serialisation
  errors) and interleavings within one request: requests are atomic steps, as their transactions
  are meant to be, and the row locks and the advisory lock are assumed to make them so.  Violations of foreign keys: the services look their rows
  up first.  The order of rows that a query does not order.  The wiring of the application
  (\<open>main.py\<close>, engine, sessions, CORS, signal handling, the connection set-up of the workers), the
  scripts that only open a connection and print (\<open>check_emqx_connection.py\<close>, the Redis and gRPC
  test scripts), response models that only copy columns, and the conversion of rows in tables and
  columns that later migrations removed.  The simulator in Go under \<open>infra\<close> is a separate program.
\<close>

end
